(* ===== verification/Posix_Prelude.thy ===== *)
theory Posix_Prelude
  imports Main "HOL-Library.Word" "HOL-Library.Signed_Division"
begin

text \<open>
  Shared vocabulary of the development: the outcome of running a piece of C code, the integer
  conversions C performs when a value is stored in a narrower object, the flag words of
  \<^verbatim>\<open><fcntl.h>\<close> and \<^verbatim>\<open><sys/ipc.h>\<close>, the errno values the sources use, the result codes
  of \<^verbatim>\<open>include/posixtest.h\<close>, and the generic lemmas on lists, maps and reachability that
  the component theories rest on.
\<close>

unbundle bit_operations_syntax

named_theorems flag_simps \<open>values of the flag constants\<close>
named_theorems code_defs \<open>definitions of modelled C functions, unfolded in their own theory\<close>

section \<open>Outcomes of a C computation\<close>

text \<open>
  A call returns a value, is put to sleep by the kernel (\<open>Block\<close>), leaves the defined behaviour
  of C (\<open>Fault\<close>: a dereference of freed or NULL memory, an index outside an array, a read of an
  uninitialised object, a failed \<^verbatim>\<open>assert\<close>), or has not come to an end within the number of
  loop iterations given as fuel (\<open>Loop\<close>).
\<close>

datatype 'a outcome = Ret 'a | Block | Fault | Loop

primrec obind :: "'a outcome \<Rightarrow> ('a \<Rightarrow> 'b outcome) \<Rightarrow> 'b outcome" where
  "obind (Ret a) f = f a"
| "obind Block f = Block"
| "obind Fault f = Fault"
| "obind Loop f = Loop"

lemma obind_Ret_iff: "obind m f = Ret b \<longleftrightarrow> (\<exists>a. m = Ret a \<and> f a = Ret b)"
  by (cases m) auto

lemma obind_assoc: "obind (obind m f) g = obind m (\<lambda>a. obind (f a) g)"
  by (cases m) auto

primrec is_ret :: "'a outcome \<Rightarrow> bool" where
  "is_ret (Ret a) = True"
| "is_ret Block = False"
| "is_ret Fault = False"
| "is_ret Loop = False"

section \<open>C integer conversions\<close>

text \<open>
  Values are mathematical integers; a conversion to a narrower type is written out where the
  source performs one. \<open>to_int\<close>, \<open>to_short\<close> and \<open>to_uint\<close> are the conversions to a 32-bit
  \<^verbatim>\<open>int\<close>, a 16-bit \<^verbatim>\<open>short\<close> and a 32-bit \<^verbatim>\<open>unsigned int\<close>.
\<close>

definition to_int :: "int \<Rightarrow> int" where
  "to_int x = signed_take_bit 31 x"

definition to_short :: "int \<Rightarrow> int" where
  "to_short x = signed_take_bit 15 x"

definition to_uint :: "int \<Rightarrow> int" where
  "to_uint x = take_bit 32 x"

lemma to_int_id: "- 2147483648 \<le> x \<Longrightarrow> x < 2147483648 \<Longrightarrow> to_int x = x"
  unfolding to_int_def by (rule signed_take_bit_int_eq_self) simp_all

lemma to_short_id: "- 32768 \<le> x \<Longrightarrow> x < 32768 \<Longrightarrow> to_short x = x"
  unfolding to_short_def by (rule signed_take_bit_int_eq_self) simp_all

lemma to_uint_id: "0 \<le> x \<Longrightarrow> x < 4294967296 \<Longrightarrow> to_uint x = x"
  unfolding to_uint_def by (rule take_bit_int_eq_self) simp_all

lemma to_short_wrap:
  assumes "32768 \<le> x" and "x < 65536"
  shows "to_short x = x - 65536"
proof -
  have "(x + 32768) mod 65536 = ((x - 32768) + 65536) mod 65536" by (simp add: add.commute)
  also have "\<dots> = (x - 32768) mod 65536" by (rule mod_add_self2)
  also have "\<dots> = x - 32768" using assms by (intro mod_pos_pos_trivial) simp_all
  finally have "(x + 32768) mod 65536 = x - 32768" .
  then show ?thesis
    unfolding to_short_def by (simp add: signed_take_bit_eq_take_bit_shift take_bit_eq_mod)
qed

section \<open>Decimal numerals\<close>

text \<open>The digits \<^verbatim>\<open>printf\<close> writes for a non-negative number under \<^verbatim>\<open>%d\<close>.\<close>

fun digits :: "nat \<Rightarrow> string" where
  "digits n = (if n < 10 then [char_of (48 + n)] else digits (n div 10) @ [char_of (48 + n mod 10)])"

declare digits.simps [simp del]

lemma digits_induct [case_names small large]:
  fixes n :: nat
  assumes small: "\<And>n. n < 10 \<Longrightarrow> P n" and large: "\<And>n. \<not> n < 10 \<Longrightarrow> P (n div 10) \<Longrightarrow> P n"
  shows "P n"
proof (induction n rule: less_induct)
  case (less n)
  show ?case
    using small [of n] large [of n] less.IH [of "n div 10"] by (cases "n < 10") auto
qed

section \<open>Flag words, errno values, result codes\<close>

type_synonym flags = "32 word"

definition O_RDONLY :: flags where [flag_simps]: "O_RDONLY = 0"
definition O_WRONLY :: flags where [flag_simps]: "O_WRONLY = 1"
definition O_RDWR :: flags where [flag_simps]: "O_RDWR = 2"
definition O_CREAT :: flags where [flag_simps]: "O_CREAT = 0x40"
definition O_EXCL :: flags where [flag_simps]: "O_EXCL = 0x80"
definition O_NONBLOCK :: flags where [flag_simps]: "O_NONBLOCK = 0x800"
definition IPC_CREAT :: flags where [flag_simps]: "IPC_CREAT = 0x200"
definition IPC_EXCL :: flags where [flag_simps]: "IPC_EXCL = 0x400"
definition IPC_NOWAIT :: flags where [flag_simps]: "IPC_NOWAIT = 0x800"
definition SEM_UNDO :: flags where [flag_simps]: "SEM_UNDO = 0x1000"

definition has :: "flags \<Rightarrow> flags \<Rightarrow> bool" where
  "has x f \<longleftrightarrow> x AND f \<noteq> 0"

lemma has_or [simp]: "has (x OR y) f \<longleftrightarrow> has x f \<or> has y f"
  by (simp add: has_def bit.conj_disj_distrib2 or_eq_0_iff)

lemma has_or_flag [simp]: "has x (f OR g) \<longleftrightarrow> has x f \<or> has x g"
  by (simp add: has_def bit.conj_disj_distrib or_eq_0_iff)

lemma has_mode [simp]: "\<not> has (0x1FF AND mode) IPC_EXCL"
proof -
  have "(0x1FF AND mode) AND IPC_EXCL = mode AND (0x1FF AND IPC_EXCL)" by (simp only: ac_simps)
  then show ?thesis by (simp add: has_def flag_simps)
qed

lemma has_zero [simp]: "\<not> has 0 f"
  by (simp add: has_def)

lemma has_IPC [simp]: "has IPC_CREAT IPC_CREAT" "\<not> has IPC_CREAT IPC_EXCL" "has IPC_EXCL IPC_EXCL"
  by (simp_all add: has_def flag_simps)

datatype errno =
    EOK | EPERM | ENOENT | EINTR | E2BIG | EAGAIN | ENOMEM | EACCES | EFAULT | EBUSY | EEXIST
  | EINVAL | ENOSPC | ERANGE | EIDRM | ENOMSG | EBADF | EMSGSIZE | EMFILE | ENFILE | ENOTSUP | ESRCH | ENAMETOOLONG | EDEADLK | ETIMEDOUT

text \<open>The result codes of \<^verbatim>\<open>include/posixtest.h\<close>.\<close>

definition PTS_PASS :: int where "PTS_PASS = 0"
definition PTS_FAIL :: int where "PTS_FAIL = 1"
definition PTS_UNRESOLVED :: int where "PTS_UNRESOLVED = 2"
definition PTS_UNSUPPORTED :: int where "PTS_UNSUPPORTED = 4"
definition PTS_UNTESTED :: int where "PTS_UNTESTED = 5"

lemmas pts_defs = PTS_PASS_def PTS_FAIL_def PTS_UNRESOLVED_def PTS_UNSUPPORTED_def PTS_UNTESTED_def

section \<open>Fresh identifiers\<close>

text \<open>An identifier no entry of an association list has.\<close>

definition fresh_id :: "(int \<times> 'a) list \<Rightarrow> int" where
  "fresh_id xs = fold max (map fst xs) 0 + 1"

lemma fold_max_ge: "a \<le> fold max xs a \<and> (\<forall>y \<in> set xs. y \<le> fold max xs (a::int))"
proof (induction xs arbitrary: a)
  case Nil
  then show ?case by simp
next
  case (Cons x xs)
  show ?case using Cons.IH [of "max x a"] by auto
qed

lemma fresh_id_fresh: "map_of xs (fresh_id xs) = None" "0 \<le> fresh_id xs"
  using fold_max_ge [of 0 "map fst xs"] by (force simp: fresh_id_def map_of_eq_None_iff)+

section \<open>Notification\<close>

text \<open>\<^verbatim>\<open>struct sigevent\<close> as \<^verbatim>\<open>posix1b/posix_time.h\<close> and \<^verbatim>\<open>posix1b/mqueue.h\<close> declare it.\<close>

definition SIGEV_SIGNAL :: int where "SIGEV_SIGNAL = 0"
definition SIGEV_NONE :: int where "SIGEV_NONE = 1"

record sigevent =
  sigev_notify :: int
  sigev_signo :: int
  sigev_value :: int

section \<open>Reachability\<close>

text \<open>
  States reachable from a start state through a step relation, and the rule that lifts an
  inductive invariant to them.
\<close>

inductive reachable_from :: "('s \<Rightarrow> 's \<Rightarrow> bool) \<Rightarrow> 's \<Rightarrow> 's \<Rightarrow> bool"
  for step :: "'s \<Rightarrow> 's \<Rightarrow> bool" and s0 :: 's where
  reach_start: "reachable_from step s0 s0"
| reach_step: "reachable_from step s0 s \<Longrightarrow> step s t \<Longrightarrow> reachable_from step s0 t"

lemma reachable_invariant:
  assumes "reachable_from step s0 s" and "I s0"
    and "\<And>s t. I s \<Longrightarrow> step s t \<Longrightarrow> I t"
  shows "I s"
  using assms(1)
proof (induction rule: reachable_from.induct)
  case reach_start
  show ?case by (rule assms(2))
next
  case (reach_step s t)
  then show ?case by (blast intro: assms(3))
qed

lemma reachable_trans:
  assumes "reachable_from step t u" and "reachable_from step s t"
  shows "reachable_from step s u"
  using assms by (induction rule: reachable_from.induct) (auto intro: reach_step)

end
