(* ===== verification/Time_Arith.thy ===== *)
theory Time_Arith
  imports Posix_Prelude
begin

text \<open>
  The time arithmetic and the clock functions of \<^verbatim>\<open>posix1b/posix_time.c\<close>: \<open>compare_time\<close>,
  \<open>add_time\<close> and \<open>subtract_time\<close> on \<^verbatim>\<open>struct timeval\<close>, and \<open>clock_gettime\<close>,
  \<open>clock_settime\<close> and \<open>clock_getres\<close> over the system's time-of-day clock, which is a
  parameter. Seconds and microseconds are \<^verbatim>\<open>long\<close> values; signed overflow of a 64-bit
  \<^verbatim>\<open>long\<close> is undefined in C and does not arise for the times of a clock, so they are
  integers. The \<^verbatim>\<open>int\<close> that \<open>compare_time\<close> returns is narrower than the difference it is
  computed from, and the conversion is written out.
\<close>

record timeval =
  tv_sec :: int
  tv_usec :: int

record timespec =
  ts_sec :: int
  ts_nsec :: int

record itimerval =
  it_interval :: timeval
  it_value :: timeval

record itimerspec =
  its_interval :: timespec
  its_value :: timespec

abbreviation TV :: "int \<Rightarrow> int \<Rightarrow> timeval" where
  "TV a b \<equiv> \<lparr>tv_sec = a, tv_usec = b\<rparr>"

abbreviation TS :: "int \<Rightarrow> int \<Rightarrow> timespec" where
  "TS a b \<equiv> \<lparr>ts_sec = a, ts_nsec = b\<rparr>"

definition TIMER_RESOLUTION :: int where
  "TIMER_RESOLUTION = 10000"

definition resolution :: timeval where
  "resolution = TV 0 TIMER_RESOLUTION"

definition half_resolution :: timeval where
  "half_resolution = TV 0 (TIMER_RESOLUTION sdiv 2)"

definition compare_time :: "timeval \<Rightarrow> timeval \<Rightarrow> int" where
  "compare_time t1 t2 =
     (if tv_sec t1 < tv_sec t2 then - 1
      else if tv_sec t1 > tv_sec t2 then 1 else to_int (tv_usec t1 - tv_usec t2))"

definition add_time :: "timeval \<Rightarrow> timeval \<Rightarrow> timeval" where
  "add_time t1 t2 =
     (let s = tv_sec t1 + tv_sec t2; u = tv_usec t1 + tv_usec t2
      in if u > 1000000 then TV (s + 1) (u - 1000000) else TV s u)"

definition subtract_time :: "timeval \<Rightarrow> timeval \<Rightarrow> timeval" where
  "subtract_time t1 t2 =
     (let s = tv_sec t1 - tv_sec t2; u = tv_usec t1 - tv_usec t2
      in if u < 0 then TV (s - 1) (u + 1000000) else TV s u)"

text \<open>The zero test the timer code writes out as two comparisons.\<close>

definition is_zero :: "timeval \<Rightarrow> bool" where
  "is_zero t \<longleftrightarrow> tv_sec t = 0 \<and> tv_usec t = 0"

text \<open>
  The value of a \<^verbatim>\<open>struct timeval\<close> in microseconds, and its normal form.
\<close>

definition tv_total :: "timeval \<Rightarrow> int" where
  "tv_total t = tv_sec t * 1000000 + tv_usec t"

definition tv_norm :: "timeval \<Rightarrow> bool" where
  "tv_norm t \<longleftrightarrow> 0 \<le> tv_usec t \<and> tv_usec t < 1000000"

subsection \<open>Clock functions\<close>

definition CLOCK_REALTIME :: int where
  "CLOCK_REALTIME = 1"

record 'k clock_os =
  os_gettimeofday :: "'k \<Rightarrow> timeval \<times> 'k"
  os_settimeofday :: "timeval \<Rightarrow> 'k \<Rightarrow> int \<times> 'k"

text \<open>
  Each function takes its out-parameter as an option (\<open>None\<close> is the NULL pointer, \<open>Some v\<close>
  the caller's object with content \<open>v\<close>) and returns the result, the errno it sets (\<open>EOK\<close> when
  it sets none), the object afterwards and the system state.
\<close>

definition clock_gettime ::
  "('k, 'z) clock_os_scheme \<Rightarrow> int \<Rightarrow> timespec option \<Rightarrow> 'k \<Rightarrow> int \<times> errno \<times> timespec option \<times> 'k" where
  "clock_gettime os clock val k =
     (if clock \<noteq> CLOCK_REALTIME \<or> val = None then (- 1, EINVAL, val, k)
      else let (curr_time, k') = os_gettimeofday os k
           in (0, EOK, Some (TS (tv_sec curr_time) (tv_usec curr_time * 1000)), k'))"

definition clock_settime ::
  "('k, 'z) clock_os_scheme \<Rightarrow> int \<Rightarrow> timespec option \<Rightarrow> 'k \<Rightarrow> int \<times> errno \<times> 'k" where
  "clock_settime os clock val k =
     (case val of
        None \<Rightarrow> (- 1, EINVAL, k)
      | Some v \<Rightarrow>
          if clock \<noteq> CLOCK_REALTIME then (- 1, EINVAL, k)
          else let (rc, k') = os_settimeofday os (TV (ts_sec v) (ts_nsec v sdiv 1000)) k
               in (rc, EOK, k'))"

definition clock_getres ::
  "int \<Rightarrow> timespec option \<Rightarrow> int \<times> errno \<times> timespec option" where
  "clock_getres clock res =
     (if clock \<noteq> CLOCK_REALTIME \<or> res = None then (- 1, EINVAL, res)
      else (0, EOK, Some (TS 0 (TIMER_RESOLUTION * 1000))))"

subsection \<open>Lemmas\<close>

lemmas time_defs = compare_time_def add_time_def subtract_time_def tv_total_def tv_norm_def
  is_zero_def Let_def

lemma tv_norm_eqI:
  assumes "tv_norm a" and "tv_norm b" and "tv_total a = tv_total b"
  shows "a = b"
proof -
  have sec: "tv_sec a = tv_sec b"
    using assms unfolding tv_norm_def tv_total_def
    by (cases "tv_sec a" "tv_sec b" rule: linorder_cases) auto
  with assms(3) have "tv_usec a = tv_usec b" by (simp add: tv_total_def)
  with sec show ?thesis by (cases a, cases b) simp
qed

lemma tv_total_add_time [simp]: "tv_total (add_time a b) = tv_total a + tv_total b"
  by (simp add: time_defs algebra_simps)

lemma tv_total_subtract_time [simp]: "tv_total (subtract_time a b) = tv_total a - tv_total b"
  by (simp add: time_defs algebra_simps)

lemma subtract_time_norm: "tv_norm a \<Longrightarrow> tv_norm b \<Longrightarrow> tv_norm (subtract_time a b)"
  by (auto simp: time_defs)

lemma add_time_norm:
  "tv_norm a \<Longrightarrow> tv_norm b \<Longrightarrow> tv_usec a + tv_usec b \<noteq> 1000000 \<Longrightarrow> tv_norm (add_time a b)"
  by (auto simp: time_defs)

lemma is_zero_total: "tv_norm a \<Longrightarrow> is_zero a \<longleftrightarrow> tv_total a = 0"
  unfolding time_defs by (cases "tv_sec a" "0::int" rule: linorder_cases) auto

lemma compare_time_total:
  assumes "tv_norm a" and "tv_norm b"
  shows "compare_time a b < 0 \<longleftrightarrow> tv_total a < tv_total b"
    and "compare_time a b = 0 \<longleftrightarrow> tv_total a = tv_total b"
    and "compare_time a b > 0 \<longleftrightarrow> tv_total a > tv_total b"
proof -
  have u: "to_int (tv_usec a - tv_usec b) = tv_usec a - tv_usec b"
    using assms by (intro to_int_id) (auto simp: tv_norm_def)
  show "compare_time a b < 0 \<longleftrightarrow> tv_total a < tv_total b"
    "compare_time a b = 0 \<longleftrightarrow> tv_total a = tv_total b"
    "compare_time a b > 0 \<longleftrightarrow> tv_total a > tv_total b"
    using assms unfolding compare_time_def u tv_norm_def tv_total_def by auto
qed

end
