(* ===== verification/Posix_Timer.thy ===== *)
theory Posix_Timer
  imports Time_Arith
begin

text \<open>
  The realtime timers of \<^verbatim>\<open>posix1b/posix_time.c\<close>, emulated on one BSD interval timer.
  The timers live in an explicit heap (\<open>theap\<close>, address to \<open>timer\<close>; address 0 is NULL) because
  the code links them through \<^verbatim>\<open>next_active\<close> and \<^verbatim>\<open>next_expired\<close> and edits the lists through
  pointers to pointers (\<open>tloc\<close>). The static variables of the file are the fields of \<open>tstate\<close>.
  The system calls (time of day, interval timer, signal actions and mask, and the allocator's
  choice of address and of the indeterminate content of a new block) are the record \<open>timer_os\<close>;
  the application's signal handlers are a parameter too. The build is the one of
  \<^verbatim>\<open>posix1b/Makefile\<close>, without \<^verbatim>\<open>_REENTRANT\<close>, so \<^verbatim>\<open>lock()\<close> and \<^verbatim>\<open>unlock()\<close> are empty.
\<close>

section \<open>State\<close>

definition TIMER_RELTIME :: int where "TIMER_RELTIME = 0"
definition TIMER_ABSTIME :: int where "TIMER_ABSTIME = 1"
definition SIGALRM :: int where "SIGALRM = 14"

datatype handler = SigDfl | SigIgn | TimerHandler | UserHandler nat

record timer =
  next_active :: nat
  next_expired :: nat
  event :: sigevent
  interval :: timeval
  corrected_interval :: timeval
  next_alarm :: timeval
  ticks :: int
  correction_period :: int
  running :: int

record 'k timer_os = "'k clock_os" +
  os_setitimer :: "itimerval \<Rightarrow> 'k \<Rightarrow> itimerval option \<times> 'k"
  os_getitimer :: "'k \<Rightarrow> itimerval \<times> 'k"
  os_sigaction :: "int \<Rightarrow> handler option \<Rightarrow> 'k \<Rightarrow> handler option \<times> 'k"
  os_sigblock :: "int \<Rightarrow> 'k \<Rightarrow> int \<times> 'k"
  os_sigsetmask :: "int \<Rightarrow> 'k \<Rightarrow> int \<times> 'k"
  os_malloc :: "'k \<Rightarrow> (nat \<times> timer) option \<times> 'k"

record 'k tstate =
  theap :: "nat \<rightharpoonup> timer"
  active_timers :: nat
  single_timer :: bool
  in_handler :: bool
  timeout :: itimerval
  signal_handler :: "nat \<Rightarrow> handler"
  timer_max_error :: int
  terrno :: errno
  tsys :: 'k

type_synonym 'k user_handlers = "nat \<Rightarrow> int \<Rightarrow> int \<Rightarrow> 'k tstate \<Rightarrow> 'k tstate outcome"

datatype tloc = Head | NextOf nat

definition tderef :: "'k tstate \<Rightarrow> nat \<Rightarrow> timer outcome" where
  "tderef s p = (case theap s p of None \<Rightarrow> Fault | Some t \<Rightarrow> Ret t)"

definition tput :: "nat \<Rightarrow> timer \<Rightarrow> 'k tstate \<Rightarrow> 'k tstate" where
  "tput p t s = s\<lparr>theap := (theap s)(p \<mapsto> t)\<rparr>"

fun read_loc :: "tloc \<Rightarrow> 'k tstate \<Rightarrow> nat outcome" where
  "read_loc Head s = Ret (active_timers s)"
| "read_loc (NextOf p) s = obind (tderef s p) (\<lambda>t. Ret (next_active t))"

fun write_loc :: "tloc \<Rightarrow> nat \<Rightarrow> 'k tstate \<Rightarrow> 'k tstate outcome" where
  "write_loc Head q s = Ret (s\<lparr>active_timers := q\<rparr>)"
| "write_loc (NextOf p) q s = obind (tderef s p) (\<lambda>t. Ret (tput p (t\<lparr>next_active := q\<rparr>) s))"

section \<open>Operations\<close>

text \<open>\<open>timer_create\<close> returns the result, the handle it stores through \<^verbatim>\<open>timer_hdr\<close>, and the state.\<close>

definition timer_create ::
  "'k timer_os \<Rightarrow> int \<Rightarrow> sigevent option \<Rightarrow> 'k tstate \<Rightarrow> int \<times> nat option \<times> 'k tstate" where
  "timer_create os clock spec s =
     (case spec of
        None \<Rightarrow> (- 1, None, s\<lparr>terrno := EINVAL\<rparr>)
      | Some sp \<Rightarrow>
          if clock \<noteq> CLOCK_REALTIME
             \<or> (sigev_notify sp \<noteq> SIGEV_SIGNAL \<and> sigev_notify sp \<noteq> SIGEV_NONE)
          then (- 1, None, s\<lparr>terrno := EINVAL\<rparr>)
          else (case os_malloc os (tsys s) of
                  (None, k) \<Rightarrow> (- 1, None, s\<lparr>tsys := k, terrno := ENOMEM\<rparr>)
                | (Some (p, junk), k) \<Rightarrow>
                    (0, Some p, tput p (junk\<lparr>event := sp, running := 0\<rparr>) (s\<lparr>tsys := k\<rparr>))))"

text \<open>
  \<open>notify\<close> calls the saved handler of the event's signal. Calling \<^verbatim>\<open>SIG_DFL\<close> or \<^verbatim>\<open>SIG_IGN\<close> as
  a function is a fault; \<open>self\<close> stands for \<open>timer_handler\<close> itself, which the table can hold.
\<close>

definition notify ::
  "('k tstate \<Rightarrow> 'k tstate outcome) \<Rightarrow> 'k user_handlers \<Rightarrow> sigevent \<Rightarrow> 'k tstate \<Rightarrow> 'k tstate outcome" where
  "notify self user ev s =
     (if sigev_notify ev = SIGEV_SIGNAL then
        let signo = sigev_signo ev in
        if 0 \<le> signo \<and> signo < 64 then
          (case signal_handler s (nat signo) of
             UserHandler h \<Rightarrow> user h signo (sigev_value ev) s
           | TimerHandler \<Rightarrow> self s
           | SigDfl \<Rightarrow> Fault
           | SigIgn \<Rightarrow> Fault)
        else Fault
      else Ret s)"

text \<open>
  The branch of \<open>timer_handler\<close> for a single active timer: every \<^verbatim>\<open>correction_period\<close> ticks the
  period programmed into the interval timer is corrected by one resolution step when it drifts.
\<close>

definition correct_drift :: "'k timer_os \<Rightarrow> int \<Rightarrow> timer \<Rightarrow> 'k \<Rightarrow> timer \<times> 'k" where
  "correct_drift os max_error t k =
     (let (curr_time, k1) = os_gettimeofday os k in
      if compare_time (next_alarm t) curr_time < 0 then
        let delta = subtract_time curr_time (next_alarm t) in
        if tv_sec delta * 1000000 + tv_usec delta > max_error then
          let t1 = (if compare_time (corrected_interval t) resolution > 0
                    then t\<lparr>corrected_interval := subtract_time (corrected_interval t) resolution\<rparr>
                    else t);
              itv = \<lparr>it_interval = corrected_interval t1, it_value = corrected_interval t1\<rparr>
          in (t1, snd (os_setitimer os itv k1))
        else (t, k1)
      else
        let delta = subtract_time (next_alarm t) curr_time in
        if tv_sec delta * 1000000 + tv_usec delta > max_error then
          let t1 = t\<lparr>corrected_interval := add_time (corrected_interval t) resolution\<rparr>;
              itv = \<lparr>it_interval = corrected_interval t1, it_value = corrected_interval t1\<rparr>
          in (t1, snd (os_setitimer os itv k1))
        else (t, k1))"

definition handler_single ::
  "('k tstate \<Rightarrow> 'k tstate outcome) \<Rightarrow> 'k user_handlers \<Rightarrow> 'k timer_os \<Rightarrow> 'k tstate \<Rightarrow> 'k tstate outcome" where
  "handler_single self user os s =
     obind (tderef s (active_timers s)) (\<lambda>t.
       if next_active t \<noteq> 0 then Fault
       else
         let t1 = t\<lparr>ticks := ticks t - 1\<rparr>;
             (t2, k) = (if ticks t1 = 0
                        then correct_drift os (timer_max_error s)
                               (t1\<lparr>ticks := correction_period t1\<rparr>) (tsys s)
                        else (t1, tsys s));
             t3 = t2\<lparr>next_alarm := add_time (next_alarm t2) (interval t2)\<rparr>
         in notify self user (event t3) (tput (active_timers s) t3 (s\<lparr>tsys := k\<rparr>)))"

text \<open>The recurring update of the next timeout: keep the smaller of a candidate and the current one.\<close>

definition offer_timeout :: "timeval \<Rightarrow> itimerval \<Rightarrow> itimerval" where
  "offer_timeout d itv =
     (if is_zero (it_value itv) \<or> compare_time d (it_value itv) < 0 then itv\<lparr>it_value := d\<rparr> else itv)"

text \<open>
  The scan over the active list: \<open>tp\<close> is the pointer to the link that leads to the current timer,
  \<open>expired\<close> the head of the list of expired timers built through \<^verbatim>\<open>next_expired\<close>.
\<close>

fun handler_scan ::
  "nat \<Rightarrow> timeval \<Rightarrow> timeval \<Rightarrow> tloc \<Rightarrow> nat \<Rightarrow> 'k tstate \<Rightarrow> (nat \<times> 'k tstate) outcome" where
  "handler_scan 0 curr_time curr_rounded_time tp expired s = Loop"
| "handler_scan (Suc fuel) curr_time curr_rounded_time tp expired s =
     obind (read_loc tp s) (\<lambda>p.
       if p = 0 then Ret (expired, s)
       else obind (tderef s p) (\<lambda>t.
         if compare_time curr_rounded_time (next_alarm t) \<ge> 0 then
           obind
             (if tv_sec (interval t) \<noteq> 0 \<or> tv_usec (interval t) \<noteq> 0 then
                let t1 = t\<lparr>next_alarm := add_time (next_alarm t) (interval t)\<rparr>;
                    delta = (if compare_time (next_alarm t1) curr_time > 0
                             then subtract_time (next_alarm t1) curr_time
                             else TV 0 TIMER_RESOLUTION)
                in Ret (tput p t1 (s\<lparr>timeout := offer_timeout delta (timeout s)\<rparr>))
              else
                obind (write_loc tp (next_active t) s) (\<lambda>s1.
                obind (tderef s1 p) (\<lambda>t1. Ret (tput p (t1\<lparr>running := 0\<rparr>) s1))))
             (\<lambda>s2. obind (tderef s2 p) (\<lambda>t2.
                handler_scan fuel curr_time curr_rounded_time (NextOf p) p
                  (tput p (t2\<lparr>next_expired := expired\<rparr>) s2)))
         else
           handler_scan fuel curr_time curr_rounded_time (NextOf p) expired
             (s\<lparr>timeout := offer_timeout (subtract_time (next_alarm t) curr_time) (timeout s)\<rparr>)))"

fun notify_expired ::
  "nat \<Rightarrow> ('k tstate \<Rightarrow> 'k tstate outcome) \<Rightarrow> 'k user_handlers \<Rightarrow> nat \<Rightarrow> 'k tstate \<Rightarrow> 'k tstate outcome" where
  "notify_expired 0 self user p s = Loop"
| "notify_expired (Suc fuel) self user p s =
     (if p = 0 then Ret s
      else obind (tderef s p) (\<lambda>t.
           obind (notify self user (event t) s) (\<lambda>s1.
           notify_expired fuel self user (next_expired t) s1)))"

definition handler_body ::
  "nat \<Rightarrow> ('k tstate \<Rightarrow> 'k tstate outcome) \<Rightarrow> 'k user_handlers \<Rightarrow> 'k timer_os \<Rightarrow> 'k tstate \<Rightarrow> 'k tstate outcome" where
  "handler_body fuel self user os s0 =
     (let s = s0\<lparr>in_handler := True\<rparr> in
      obind
        (if single_timer s then handler_single self user os s
         else
           let (curr_time, k) = os_gettimeofday os (tsys s);
               curr_rounded_time = add_time curr_time half_resolution;
               s1 = s\<lparr>timeout := \<lparr>it_interval = TV 0 0, it_value = TV 0 0\<rparr>, tsys := k\<rparr>
           in obind (handler_scan fuel curr_time curr_rounded_time Head 0 s1) (\<lambda>(expired, s2).
              obind (notify_expired fuel self user expired s2) (\<lambda>s3.
              Ret (if single_timer s3 then s3
                   else s3\<lparr>tsys := snd (os_setitimer os (timeout s3) (tsys s3))\<rparr>))))
        (\<lambda>s4. Ret (s4\<lparr>in_handler := False\<rparr>)))"

text \<open>\<open>depth\<close> bounds the nesting of the handler in itself, \<open>fuel\<close> the length of the lists walked.\<close>

fun timer_handler :: "nat \<Rightarrow> nat \<Rightarrow> 'k user_handlers \<Rightarrow> 'k timer_os \<Rightarrow> 'k tstate \<Rightarrow> 'k tstate outcome" where
  "timer_handler 0 fuel user os s = Loop"
| "timer_handler (Suc depth) fuel user os s =
     handler_body fuel (timer_handler depth fuel user os) user os s"

subsection \<open>timer\_settime\<close>

text \<open>The walk \<^verbatim>\<open>for (tp = &active_timers; *tp != t; tp = &(*tp)->next_active)\<close>; \<open>Ret None\<close> is the
  exit on a NULL link.\<close>

fun find_link :: "nat \<Rightarrow> nat \<Rightarrow> tloc \<Rightarrow> 'k tstate \<Rightarrow> tloc option outcome" where
  "find_link 0 p tp s = Loop"
| "find_link (Suc fuel) p tp s =
     obind (read_loc tp s) (\<lambda>q.
       if q = p then Ret (Some tp)
       else if q = 0 then Ret None
       else find_link fuel p (NextOf q) s)"

text \<open>The loop over the other active timers that computes the earliest timeout.\<close>

fun scan_earliest :: "nat \<Rightarrow> nat \<Rightarrow> timeval \<Rightarrow> nat \<Rightarrow> 'k tstate \<Rightarrow> 'k tstate outcome" where
  "scan_earliest 0 p curr_time nt s = Loop"
| "scan_earliest (Suc fuel) p curr_time nt s =
     (if nt = 0 then Ret s
      else obind (tderef s nt) (\<lambda>n.
        scan_earliest fuel p curr_time (next_active n)
          (if nt \<noteq> p \<and> compare_time (next_alarm n) curr_time > 0
           then s\<lparr>timeout := offer_timeout (subtract_time (next_alarm n) curr_time) (timeout s)\<rparr>
           else s)))"

definition to_spec :: "timeval \<Rightarrow> timespec" where
  "to_spec t = TS (tv_sec t) (tv_usec t * 1000)"

text \<open>The signal set-up at the head of \<open>timer_settime\<close>: install the handler, save the old ones.\<close>

definition settime_signals :: "'k timer_os \<Rightarrow> timer \<Rightarrow> 'k tstate \<Rightarrow> 'k tstate outcome" where
  "settime_signals os t s =
     (case os_sigaction os SIGALRM (Some TimerHandler) (tsys s) of
        (None, k) \<Rightarrow> Fault
      | (Some old, k) \<Rightarrow>
          let s1 = (if old \<noteq> TimerHandler
                    then s\<lparr>signal_handler := (signal_handler s)(nat SIGALRM := old), tsys := k\<rparr>
                    else s\<lparr>tsys := k\<rparr>)
          in if sigev_signo (event t) \<noteq> SIGALRM then
               let (h, k1) = os_sigaction os (sigev_signo (event t)) None (tsys s1);
                   old_sa = (case h of None \<Rightarrow> old | Some h' \<Rightarrow> h')
               in if 0 \<le> sigev_signo (event t) \<and> sigev_signo (event t) < 64
                  then Ret (s1\<lparr>signal_handler :=
                              (signal_handler s1)(nat (sigev_signo (event t)) := old_sa), tsys := k1\<rparr>)
                  else Fault
             else Ret s1)"

text \<open>The branch for the only active timer: program the interval timer directly.\<close>

definition settime_single ::
  "'k timer_os \<Rightarrow> nat \<Rightarrow> timer \<Rightarrow> timeval \<Rightarrow> timeval \<Rightarrow> itimerspec option \<Rightarrow> 'k tstate
     \<Rightarrow> (timer \<times> itimerspec option \<times> 'k tstate) outcome" where
  "settime_single os p t curr_time ival old s =
     (let (it_old, k) = os_setitimer os \<lparr>it_interval = interval t, it_value = ival\<rparr> (tsys s);
          t1 = t\<lparr>correction_period := timer_max_error s sdiv TIMER_RESOLUTION,
                 ticks := timer_max_error s sdiv TIMER_RESOLUTION\<rparr>;
          s1 = s\<lparr>single_timer := True, tsys := k\<rparr>
      in case old of
           None \<Rightarrow> Ret (t1, None, s1)
         | Some o1 \<Rightarrow>
             if running t = 0 then Ret (t1, Some (o1\<lparr>its_value := TS 0 0\<rparr>), s1)
             else if single_timer s then
               (case it_old of
                  None \<Rightarrow> Fault
                | Some itv \<Rightarrow> Ret (t1, Some (o1\<lparr>its_value := to_spec (it_value itv)\<rparr>), s1))
             else if compare_time curr_time (next_alarm t) < 0
             then Ret (t1, Some (o1\<lparr>its_value := to_spec (subtract_time (next_alarm t) curr_time)\<rparr>), s1)
             else Ret (t1, Some (o1\<lparr>its_value := TS 0 0\<rparr>), s1))"

text \<open>The branch for several timers.\<close>

definition settime_multi ::
  "nat \<Rightarrow> 'k timer_os \<Rightarrow> nat \<Rightarrow> timer \<Rightarrow> timeval \<Rightarrow> timeval \<Rightarrow> itimerspec option \<Rightarrow> 'k tstate
     \<Rightarrow> (timer \<times> itimerspec option \<times> 'k tstate) outcome" where
  "settime_multi fuel os p t curr_time ival old s =
     obind
       (if in_handler s then
          if single_timer s then Fault
          else Ret (if is_zero (it_value (timeout s))
                       \<or> (\<not> is_zero ival \<and> compare_time ival (it_value (timeout s)) < 0)
                    then s\<lparr>timeout := (timeout s)\<lparr>it_value := ival\<rparr>\<rparr> else s)
        else
          obind (scan_earliest fuel p curr_time (active_timers s)
                   (s\<lparr>single_timer := False,
                      timeout := \<lparr>it_interval = TV 0 0, it_value = ival\<rparr>\<rparr>)) (\<lambda>s1.
          Ret (s1\<lparr>tsys := snd (os_setitimer os (timeout s1) (tsys s1))\<rparr>)))
       (\<lambda>s2. Ret (t,
          (case old of
             None \<Rightarrow> None
           | Some o1 \<Rightarrow>
               Some (if running t = 0 \<or> compare_time (next_alarm t) curr_time \<le> 0
                     then o1\<lparr>its_value := TS 0 0\<rparr>
                     else o1\<lparr>its_value := to_spec (subtract_time (next_alarm t) curr_time)\<rparr>)),
          s2))"

definition settime_branch ::
  "nat \<Rightarrow> 'k timer_os \<Rightarrow> nat \<Rightarrow> timer \<Rightarrow> timeval \<Rightarrow> timeval \<Rightarrow> itimerspec option \<Rightarrow> 'k tstate
     \<Rightarrow> (timer \<times> itimerspec option \<times> 'k tstate) outcome" where
  "settime_branch fuel os p t curr_time ival old s =
     (if active_timers s = 0 \<or> (active_timers s = p \<and> next_active t = 0)
      then settime_single os p t curr_time ival old s
      else settime_multi fuel os p t curr_time ival old s)"

text \<open>The end of \<open>timer_settime\<close>: link the timer into the active list, or take it out.\<close>

definition settime_link :: "nat \<Rightarrow> nat \<Rightarrow> timeval \<Rightarrow> 'k tstate \<Rightarrow> (int \<times> 'k tstate) outcome" where
  "settime_link fuel p ival s =
     obind (tderef s p) (\<lambda>t.
       if running t = 0 then
         if tv_sec ival \<noteq> 0 \<or> tv_usec ival \<noteq> 0
         then Ret (0, (tput p (t\<lparr>next_active := active_timers s, running := 1\<rparr>) s)\<lparr>active_timers := p\<rparr>)
         else Ret (0, s)
       else if tv_sec ival = 0 \<and> tv_usec ival = 0 then
         obind (find_link fuel p Head s) (\<lambda>found.
           case found of
             None \<Rightarrow> Ret (- 1, s\<lparr>terrno := EINVAL\<rparr>)
           | Some tp \<Rightarrow>
               obind (write_loc tp (next_active t) s) (\<lambda>s1.
               obind (tderef s1 p) (\<lambda>t1.
               Ret (0, (tput p (t1\<lparr>running := 0\<rparr>) s1)\<lparr>single_timer := False\<rparr>))))
       else Ret (0, s))"

text \<open>The value \<open>timer_settime\<close> arms a timer with: relative, in whole microseconds.\<close>

definition requested_value :: "int \<Rightarrow> itimerspec \<Rightarrow> timeval \<Rightarrow> timeval" where
  "requested_value flag v now =
     (let ival = TV (ts_sec (its_value v)) (ts_nsec (its_value v) sdiv 1000)
      in if flag = TIMER_ABSTIME then subtract_time ival now else ival)"

definition sigmask :: "int \<Rightarrow> int" where
  "sigmask signo = 2 ^ nat (signo - 1)"

definition timer_settime ::
  "nat \<Rightarrow> 'k timer_os \<Rightarrow> nat \<Rightarrow> int \<Rightarrow> itimerspec option \<Rightarrow> itimerspec option \<Rightarrow> 'k tstate
     \<Rightarrow> (int \<times> itimerspec option \<times> 'k tstate) outcome" where
  "timer_settime fuel os p flag val old s =
     (if flag \<noteq> TIMER_ABSTIME \<and> flag \<noteq> TIMER_RELTIME then Ret (- 1, old, s\<lparr>terrno := EINVAL\<rparr>)
      else case val of
        None \<Rightarrow> Ret (- 1, old, s\<lparr>terrno := EFAULT\<rparr>)
      | Some v \<Rightarrow>
          let (save_mask, k0) = os_sigblock os (sigmask SIGALRM) (tsys s);
              s0 = s\<lparr>tsys := k0\<rparr>
          in obind (tderef s0 p) (\<lambda>t.
             obind (settime_signals os t s0) (\<lambda>s1.
             let old1 = map_option (\<lambda>o1. o1\<lparr>its_interval := to_spec (interval t)\<rparr>) old;
                 iv = TV (ts_sec (its_interval v)) (ts_nsec (its_interval v) sdiv 1000);
                 t1 = t\<lparr>interval := iv, corrected_interval := iv\<rparr>;
                 (curr_time, k2) = os_gettimeofday os (tsys s1);
                 ival = requested_value flag v curr_time;
                 s2 = tput p t1 (s1\<lparr>tsys := k2\<rparr>)
             in obind (settime_branch fuel os p t1 curr_time ival old1 s2) (\<lambda>(t2, old2, s3).
                obind (settime_link fuel p ival
                         (tput p (t2\<lparr>next_alarm := add_time curr_time ival\<rparr>) s3)) (\<lambda>(rc, s4).
                Ret (rc, old2, s4\<lparr>tsys := snd (os_sigsetmask os save_mask (tsys s4))\<rparr>))))))"

subsection \<open>timer\_gettime, timer\_getoverrun, timer\_delete\<close>

definition timer_gettime ::
  "'k timer_os \<Rightarrow> nat \<Rightarrow> itimerspec option \<Rightarrow> 'k tstate \<Rightarrow> (int \<times> itimerspec option \<times> 'k tstate) outcome" where
  "timer_gettime os p old s =
     (case old of
        None \<Rightarrow> Ret (0, None, s)
      | Some o0 \<Rightarrow>
          obind (tderef s p) (\<lambda>t.
            let o1 = o0\<lparr>its_interval := to_spec (interval t)\<rparr> in
            if running t = 0 then Ret (0, Some (o1\<lparr>its_value := TS 0 0\<rparr>), s)
            else if single_timer s then
              let (it_old, k) = os_getitimer os (tsys s)
              in Ret (0, Some (o1\<lparr>its_value := to_spec (it_value it_old)\<rparr>), s\<lparr>tsys := k\<rparr>)
            else
              let (curr_time, k) = os_gettimeofday os (tsys s) in
              if compare_time curr_time (next_alarm t) \<ge> 0
              then Ret (0, Some (o1\<lparr>its_value := to_spec (interval t)\<rparr>), s\<lparr>tsys := k\<rparr>)
              else Ret (0, Some (o1\<lparr>its_value := to_spec (subtract_time (next_alarm t) curr_time)\<rparr>),
                        s\<lparr>tsys := k\<rparr>)))"

definition timer_getoverrun :: "nat \<Rightarrow> int" where
  "timer_getoverrun p = 0"

definition timer_delete :: "nat \<Rightarrow> 'k timer_os \<Rightarrow> nat \<Rightarrow> 'k tstate \<Rightarrow> (int \<times> 'k tstate) outcome" where
  "timer_delete fuel os p s =
     (let (save_mask, k) = os_sigblock os (sigmask SIGALRM) (tsys s);
          s0 = s\<lparr>tsys := k\<rparr>;
          unmask = (\<lambda>s. s\<lparr>tsys := snd (os_sigsetmask os save_mask (tsys s))\<rparr>);
          release = (\<lambda>s. s\<lparr>theap := (theap s)(p := None)\<rparr>)
      in obind (tderef s0 p) (\<lambda>t.
         if running t \<noteq> 0 then
           obind (find_link fuel p Head s0) (\<lambda>found.
             case found of
               None \<Rightarrow> Ret (- 1, unmask (s0\<lparr>terrno := EINVAL\<rparr>))
             | Some tp \<Rightarrow>
                 obind (write_loc tp (next_active t) s0) (\<lambda>s1.
                 Ret (0, unmask (release (s1\<lparr>single_timer := False\<rparr>)))))
         else Ret (0, unmask (release s0))))"

end
