(* ===== verification/Timer_Laws.thy ===== *)
theory Timer_Laws
  imports Posix_Timer
begin

text \<open>
  The active list of \<open>Posix_Timer\<close> as an abstract list of timers. \<open>timers_ok s xs\<close> relates a
  state to the list \<open>xs\<close> of addresses its \<^verbatim>\<open>next_active\<close> chain holds; \<open>timer_create\<close>,
  \<open>timer_settime\<close> and \<open>timer_delete\<close> are shown to return and to implement list operations on it.
\<close>

primrec chain :: "(nat \<rightharpoonup> timer) \<Rightarrow> nat \<Rightarrow> nat list \<Rightarrow> bool" where
  "chain h p [] \<longleftrightarrow> p = 0"
| "chain h p (x # xs) \<longleftrightarrow>
     p = x \<and> x \<noteq> 0 \<and> (case h x of None \<Rightarrow> False | Some t \<Rightarrow> chain h (next_active t) xs)"

definition timers_ok :: "'k tstate \<Rightarrow> nat list \<Rightarrow> bool" where
  "timers_ok s xs \<longleftrightarrow>
     theap s 0 = None \<and> distinct xs \<and> chain (theap s) (active_timers s) xs
     \<and> (\<forall>p t. theap s p = Some t \<longrightarrow> (running t \<noteq> 0 \<longleftrightarrow> p \<in> set xs))
     \<and> (single_timer s \<longrightarrow> length xs \<le> 1)"

text \<open>What \<open>timer_settime\<close> promises of the active list.\<close>

definition settime_active :: "nat \<Rightarrow> bool \<Rightarrow> nat list \<Rightarrow> nat list" where
  "settime_active p armed xs =
     (if armed then (if p \<in> set xs then xs else p # xs) else remove1 p xs)"

subsection \<open>Heap and chain lemmas\<close>

lemma tput_fields [simp]:
  "theap (tput p t s) = (theap s)(p \<mapsto> t)"
  "active_timers (tput p t s) = active_timers s"
  "single_timer (tput p t s) = single_timer s"
  "in_handler (tput p t s) = in_handler s"
  "timeout (tput p t s) = timeout s"
  "signal_handler (tput p t s) = signal_handler s"
  "timer_max_error (tput p t s) = timer_max_error s"
  "tsys (tput p t s) = tsys s"
  by (simp_all add: tput_def)

lemma tderef_Some [simp]: "theap s p = Some t \<Longrightarrow> tderef s p = Ret t"
  by (simp add: tderef_def)

lemma chain_upd:
  assumes "chain h p xs" and "q \<in> set xs \<Longrightarrow> \<exists>t. h q = Some t \<and> next_active t' = next_active t"
  shows "chain (h(q \<mapsto> t')) p xs"
  using assms by (induction xs arbitrary: p) (auto split: option.splits)

lemma chain_del: "chain h p xs \<Longrightarrow> q \<notin> set xs \<Longrightarrow> chain (h(q := None)) p xs"
  by (induction xs arbitrary: p) (auto split: option.splits)

lemma chain_mem: "chain h p xs \<Longrightarrow> q \<in> set xs \<Longrightarrow> q \<noteq> 0 \<and> (\<exists>t. h q = Some t)"
  by (induction xs arbitrary: p) (auto split: option.splits)

lemma chain_head: "chain h p xs \<Longrightarrow> p = (if xs = [] then 0 else hd xs)"
  by (cases xs) auto

lemma chain_append:
  "chain h p (ys @ q # zs) \<Longrightarrow> ys \<noteq> [] \<Longrightarrow>
     \<exists>t. h (last ys) = Some t \<and> next_active t = q"
  by (induction ys arbitrary: p) (auto split: option.splits)

lemma chain_tail:
  "chain h p (ys @ q # zs) \<Longrightarrow> h q = Some t \<Longrightarrow> chain h (next_active t) zs"
  by (induction ys arbitrary: p) (auto split: option.splits)

text \<open>Redirecting the link before \<open>q\<close> takes \<open>q\<close> out of the chain.\<close>

lemma chain_unlink:
  assumes "chain h p (ys @ q # zs)" and "distinct (ys @ q # zs)" and "ys \<noteq> []"
    and "h q = Some t" and "h (last ys) = Some l"
  shows "chain (h(last ys \<mapsto> l\<lparr>next_active := next_active t\<rparr>)) p (ys @ zs)"
  using assms
proof (induction ys arbitrary: p)
  case Nil
  then show ?case by simp
next
  case (Cons y ys)
  show ?case
  proof (cases "ys = []")
    case True
    have "chain h (next_active t) zs"
      using Cons.prems chain_tail [of h p "y # ys"] by blast
    then have "chain (h(y \<mapsto> l\<lparr>next_active := next_active t\<rparr>)) (next_active t) zs"
      using Cons.prems True by (intro chain_upd) auto
    then show ?thesis using Cons.prems True by (simp add: fun_upd_def)
  next
    case False
    then have "last ys \<noteq> y" using Cons.prems(2) by auto
    with False Cons show ?thesis by (auto split: option.splits)
  qed
qed

lemma find_link_chain:
  assumes "read_loc tp s = Ret r" and "chain (theap s) r (ys @ p # zs)" and "p \<notin> set ys"
    and "length ys < fuel"
  shows "find_link fuel p tp s = Ret (Some (if ys = [] then tp else NextOf (last ys)))"
  using assms
proof (induction ys arbitrary: fuel tp r)
  case Nil
  then show ?case by (cases fuel) auto
next
  case (Cons y ys)
  from Cons.prems(4) obtain n where f: "fuel = Suc n" "length ys < n" by (cases fuel) auto
  from Cons.prems(2) obtain t where t: "r = y" "y \<noteq> 0" "theap s y = Some t"
    "chain (theap s) (next_active t) (ys @ p # zs)"
    by (auto split: option.splits)
  have "find_link n p (NextOf y) s = Ret (Some (if ys = [] then NextOf y else NextOf (last ys)))"
    using Cons.prems(3) t(3,4) f(2) by (intro Cons.IH) auto
  then show ?case using f t Cons.prems(1,3) by auto
qed

subsection \<open>Unlinking a timer\<close>

text \<open>
  The part \<open>timer_settime\<close> and \<open>timer_delete\<close> share: find the link to \<open>p\<close> and redirect it.
\<close>

lemma unlink_ok:
  assumes ok: "timers_ok s xs" and p: "p \<in> set xs" and t: "theap s p = Some t"
    and fuel: "length xs < fuel"
  obtains tp s1 where "find_link fuel p Head s = Ret (Some tp)"
    and "write_loc tp (next_active t) s = Ret s1"
    and "chain (theap s1) (active_timers s1) (remove1 p xs)"
    and "theap s1 p = Some t"
    and "\<forall>q u. theap s1 q = Some u \<longrightarrow> (\<exists>u'. theap s q = Some u' \<and> running u = running u')"
    and "theap s1 0 = None" and "tsys s1 = tsys s" and "single_timer s1 = single_timer s"
proof -
  from split_list_first [OF p] obtain ys zs where xs: "xs = ys @ p # zs" "p \<notin> set ys" by blast
  from ok have c: "chain (theap s) (active_timers s) xs" and d: "distinct xs"
    and z: "theap s 0 = None" by (auto simp: timers_ok_def)
  have fl: "find_link fuel p Head s = Ret (Some (if ys = [] then Head else NextOf (last ys)))"
    using c xs fuel by (intro find_link_chain) auto
  have r1: "remove1 p xs = ys @ zs" using xs by (simp add: remove1_append)
  show thesis
  proof (cases "ys = []")
    case True
    from c xs True t have "chain (theap s) (next_active t) zs" by auto
    with True show thesis
      using fl t z r1 by (intro that [of Head "s\<lparr>active_timers := next_active t\<rparr>"]) auto
  next
    case False
    with c xs obtain l where l: "theap s (last ys) = Some l" using chain_append by blast
    have ne: "last ys \<noteq> p" using False xs by auto
    have "last ys \<in> set xs" using False xs by simp
    then have nz: "last ys \<noteq> 0" using c chain_mem by blast
    have "chain ((theap s)(last ys \<mapsto> l\<lparr>next_active := next_active t\<rparr>)) (active_timers s) (ys @ zs)"
      using c d xs False t l by (intro chain_unlink) auto
    with False show thesis
      using fl t l z r1 ne nz
      by (intro that [of "NextOf (last ys)" "tput (last ys) (l\<lparr>next_active := next_active t\<rparr>) s"])
         (auto split: if_splits)
  qed
qed

subsection \<open>timer\_create and timer\_delete\<close>

lemma timer_delete_ok:
  assumes ok: "timers_ok s xs" and t: "theap s p = Some t" and fuel: "length xs < fuel"
  shows "\<exists>s'. timer_delete fuel os p s = Ret (0, s') \<and> timers_ok s' (remove1 p xs)
           \<and> theap s' p = None"
proof -
  obtain m k where mk: "os_sigblock os (sigmask SIGALRM) (tsys s) = (m, k)" by fastforce
  define s0 where "s0 = s\<lparr>tsys := k\<rparr>"
  have ok0: "timers_ok s0 xs" and t0: "theap s0 p = Some t"
    using ok t by (simp_all add: s0_def timers_ok_def)
  show ?thesis
  proof (cases "p \<in> set xs")
    case True
    then have run: "running t \<noteq> 0" using ok t by (auto simp: timers_ok_def)
    obtain tp s1 where u:
      "find_link fuel p Head s0 = Ret (Some tp)" "write_loc tp (next_active t) s0 = Ret s1"
      "chain (theap s1) (active_timers s1) (remove1 p xs)" "theap s1 p = Some t"
      "\<forall>q u. theap s1 q = Some u \<longrightarrow> (\<exists>u'. theap s0 q = Some u' \<and> running u = running u')"
      "theap s1 0 = None" "tsys s1 = tsys s0" "single_timer s1 = single_timer s0"
      by (rule unlink_ok [OF ok0 True t0 fuel])
    define s' where "s' = s1\<lparr>single_timer := False, theap := (theap s1)(p := None),
      tsys := snd (os_sigsetmask os m (tsys s1))\<rparr>"
    have "timer_delete fuel os p s = Ret (0, s')"
      using u t0 run by (simp add: timer_delete_def mk s0_def [symmetric] s'_def Let_def)
    moreover have "timers_ok s' (remove1 p xs)"
    proof -
      have dx: "distinct xs" using ok by (simp add: timers_ok_def)
      have "chain ((theap s1)(p := None)) (active_timers s1) (remove1 p xs)"
        using u(3) dx by (intro chain_del) auto
      moreover have "\<And>q u. q \<noteq> p \<Longrightarrow> theap s1 q = Some u \<Longrightarrow> (running u \<noteq> 0 \<longleftrightarrow> q \<in> set (remove1 p xs))"
        using u(5) ok0 dx by (fastforce simp: timers_ok_def in_set_remove1)
      ultimately show ?thesis using u(6) dx
        by (auto simp: timers_ok_def s'_def split: if_splits)
    qed
    ultimately show ?thesis by (auto simp: s'_def)
  next
    case False
    then have run: "running t = 0" using ok t by (auto simp: timers_ok_def)
    define s' where "s' = s0\<lparr>theap := (theap s0)(p := None), tsys := snd (os_sigsetmask os m (tsys s0))\<rparr>"
    have "timer_delete fuel os p s = Ret (0, s')"
      using t0 run by (simp add: timer_delete_def mk s0_def [symmetric] s'_def Let_def)
    moreover have "timers_ok s' (remove1 p xs)"
      using ok0 False by (auto simp: timers_ok_def s'_def remove1_idem chain_del split: if_splits)
    ultimately show ?thesis by (auto simp: s'_def)
  qed
qed

lemma timer_create_ok:
  assumes "timers_ok s xs" and "os_malloc os (tsys s) = (Some (p, junk), k)"
    and "theap s p = None" and "p \<noteq> 0"
    and "sigev_notify sp = SIGEV_SIGNAL \<or> sigev_notify sp = SIGEV_NONE"
  shows "\<exists>s'. timer_create os CLOCK_REALTIME (Some sp) s = (0, Some p, s') \<and> timers_ok s' xs
           \<and> (\<exists>t. theap s' p = Some t \<and> event t = sp \<and> running t = 0)"
proof -
  have "p \<notin> set xs" using assms(1,3) chain_mem by (fastforce simp: timers_ok_def)
  with assms show ?thesis
    by (auto simp: timer_create_def timers_ok_def intro!: chain_upd split: if_splits)
qed

subsection \<open>timer\_settime\<close>

lemma timers_ok_frame [simp]:
  "timers_ok (s\<lparr>tsys := k\<rparr>) xs = timers_ok s xs"
  "timers_ok (s\<lparr>timeout := tv\<rparr>) xs = timers_ok s xs"
  "timers_ok (s\<lparr>terrno := e\<rparr>) xs = timers_ok s xs"
  "timers_ok (s\<lparr>signal_handler := sh\<rparr>) xs = timers_ok s xs"
  "timers_ok (s\<lparr>in_handler := b\<rparr>) xs = timers_ok s xs"
  by (simp_all add: timers_ok_def)

lemma timers_ok_not_null: "timers_ok s xs \<Longrightarrow> theap s p = Some t \<Longrightarrow> p \<noteq> 0"
  unfolding timers_ok_def by (metis option.distinct(1))

lemma timers_ok_put:
  assumes "timers_ok s xs" and "theap s p = Some t"
    and "next_active t' = next_active t" and "running t' = running t"
  shows "timers_ok (tput p t' s) xs"
  using assms timers_ok_not_null [OF assms(1,2)]
  by (auto simp: timers_ok_def intro!: chain_upd split: if_splits)

lemma timers_ok_running: "timers_ok s xs \<Longrightarrow> theap s p = Some t \<Longrightarrow> running t \<noteq> 0 \<longleftrightarrow> p \<in> set xs"
  by (simp add: timers_ok_def)

lemma settime_link_ok:
  assumes ok: "timers_ok s xs" and t: "theap s p = Some t" and fuel: "length xs < fuel"
    and single: "single_timer s \<Longrightarrow> xs = [] \<or> xs = [p]"
  shows "\<exists>s' t'. settime_link fuel p ival s = Ret (0, s')
           \<and> timers_ok s' (settime_active p (\<not> is_zero ival) xs)
           \<and> theap s' p = Some t' \<and> next_alarm t' = next_alarm t \<and> interval t' = interval t"
proof -
  note nz = timers_ok_not_null [OF ok t] and run = timers_ok_running [OF ok t]
  consider (link) "p \<notin> set xs" "\<not> is_zero ival" | (off) "p \<notin> set xs" "is_zero ival"
    | (unlink) "p \<in> set xs" "is_zero ival" | (on) "p \<in> set xs" "\<not> is_zero ival" by blast
  then show ?thesis
  proof cases
    case link
    let ?s = "(tput p (t\<lparr>next_active := active_timers s, running := 1\<rparr>) s)\<lparr>active_timers := p\<rparr>"
    have "chain ((theap s)(p \<mapsto> t\<lparr>next_active := active_timers s, running := 1\<rparr>)) (active_timers s) xs"
      using ok link(1) by (intro chain_upd) (auto simp: timers_ok_def)
    then have "timers_ok ?s (p # xs)"
      using ok link(1) nz single by (auto simp: timers_ok_def split: if_splits)
    then show ?thesis
      using link run t by (auto simp: settime_link_def settime_active_def is_zero_def)
  next
    case off
    then show ?thesis
      using run t ok by (auto simp: settime_link_def settime_active_def is_zero_def remove1_idem)
  next
    case unlink
    obtain tp s1 where u:
      "find_link fuel p Head s = Ret (Some tp)" "write_loc tp (next_active t) s = Ret s1"
      "chain (theap s1) (active_timers s1) (remove1 p xs)" "theap s1 p = Some t"
      "\<forall>q u. theap s1 q = Some u \<longrightarrow> (\<exists>u'. theap s q = Some u' \<and> running u = running u')"
      "theap s1 0 = None" "tsys s1 = tsys s" "single_timer s1 = single_timer s"
      by (rule unlink_ok [OF ok unlink(1) t fuel])
    let ?s = "(tput p (t\<lparr>running := 0\<rparr>) s1)\<lparr>single_timer := False\<rparr>"
    have d: "distinct xs" using ok by (simp add: timers_ok_def)
    have "chain ((theap s1)(p \<mapsto> t\<lparr>running := 0\<rparr>)) (active_timers s1) (remove1 p xs)"
      using u(3) d by (intro chain_upd) auto
    moreover have "\<And>q u. q \<noteq> p \<Longrightarrow> theap s1 q = Some u \<Longrightarrow> (running u \<noteq> 0 \<longleftrightarrow> q \<in> set (remove1 p xs))"
      using u(5) ok d by (fastforce simp: timers_ok_def in_set_remove1)
    ultimately have "timers_ok ?s (remove1 p xs)"
      using u(6) d nz by (auto simp: timers_ok_def split: if_splits)
    then show ?thesis
      using unlink run t u by (auto simp: settime_link_def settime_active_def is_zero_def)
  next
    case on
    then show ?thesis
      using run t ok by (auto simp: settime_link_def settime_active_def is_zero_def)
  qed
qed

lemma scan_earliest_ok:
  assumes "chain (theap s) nt xs" and "length xs < fuel"
  shows "\<exists>tv. scan_earliest fuel p now nt s = Ret (s\<lparr>timeout := tv\<rparr>)"
  using assms
proof (induction xs arbitrary: nt s fuel)
  case Nil
  then show ?case by (cases fuel) (auto intro: exI [of _ "timeout s"])
next
  case (Cons x xs)
  then obtain n u where "fuel = Suc n" "length xs < n" "theap s x = Some u" "nt = x" "x \<noteq> 0"
    "chain (theap s) (next_active u) xs"
    by (cases fuel) (auto split: option.splits)
  then show ?case
    using Cons.IH [of "s\<lparr>timeout := tv\<rparr>" "next_active u" n for tv] Cons.IH [of s "next_active u" n]
    by auto
qed

lemma settime_signals_ok:
  assumes "\<And>k. \<exists>h k'. os_sigaction os SIGALRM (Some TimerHandler) k = (Some h, k')"
    and "0 \<le> sigev_signo (event t)" and "sigev_signo (event t) < 64"
  shows "\<exists>s'. settime_signals os t s = Ret s' \<and> theap s' = theap s \<and> active_timers s' = active_timers s
           \<and> single_timer s' = single_timer s \<and> in_handler s' = in_handler s \<and> timeout s' = timeout s"
proof -
  from assms(1) obtain h k' where "os_sigaction os SIGALRM (Some TimerHandler) (tsys s) = (Some h, k')"
    by blast
  then show ?thesis
    using assms(2,3) unfolding settime_signals_def by (auto simp: Let_def split: prod.splits)
qed

lemma settime_single_ok:
  assumes "old \<noteq> None \<Longrightarrow> running t \<noteq> 0 \<Longrightarrow> \<exists>itv k. os_setitimer os \<lparr>it_interval = interval t, it_value = ival\<rparr> (tsys s) = (Some itv, k)"
  shows "\<exists>t' old' k. settime_single os p t now ival old s = Ret (t', old', s\<lparr>single_timer := True, tsys := k\<rparr>)
           \<and> next_active t' = next_active t \<and> running t' = running t \<and> interval t' = interval t"
  using assms unfolding settime_single_def
  by (auto simp: Let_def split: prod.splits option.splits)

lemma settime_multi_ok:
  assumes "chain (theap s) (active_timers s) xs" and "length xs < fuel"
    and "\<not> (in_handler s \<and> single_timer s)"
  shows "\<exists>s' old'. settime_multi fuel os p t now ival old s = Ret (t, old', s')
           \<and> theap s' = theap s \<and> active_timers s' = active_timers s \<and> \<not> single_timer s'"
proof (cases "in_handler s")
  case True
  with assms(3) show ?thesis unfolding settime_multi_def by auto
next
  case False
  let ?s0 = "s\<lparr>single_timer := False, timeout := \<lparr>it_interval = TV 0 0, it_value = ival\<rparr>\<rparr>"
  from assms(1) have "chain (theap ?s0) (active_timers s) xs" by simp
  from scan_earliest_ok [OF this assms(2)] obtain tv where
    "scan_earliest fuel p now (active_timers s) ?s0 = Ret (?s0\<lparr>timeout := tv\<rparr>)" by blast
  with False show ?thesis unfolding settime_multi_def by auto
qed

lemma timers_ok_same:
  assumes "timers_ok s xs" and "theap s' = theap s" and "active_timers s' = active_timers s"
    and "single_timer s' \<Longrightarrow> length xs \<le> 1"
  shows "timers_ok s' xs"
  using assms by (simp add: timers_ok_def)

text \<open>
  The middle part of \<open>timer_settime\<close>: whichever of the two branches runs, it returns, keeps the
  list, and leaves \<open>single_timer\<close> set only when no other timer is active.
\<close>

lemma settime_branch_ok:
  assumes ok: "timers_ok s xs" and t: "theap s p = Some t" and fuel: "length xs < fuel"
    and hdl: "in_handler s \<Longrightarrow> single_timer s \<Longrightarrow> set xs \<subseteq> {p}"
    and itm: "\<And>itv k. old \<noteq> None \<Longrightarrow> fst (os_setitimer os itv k) \<noteq> None"
  shows "\<exists>t' old' s'. settime_branch fuel os p t now ival old s = Ret (t', old', s')
     \<and> timers_ok s' xs \<and> theap s' = theap s
     \<and> next_active t' = next_active t \<and> running t' = running t \<and> interval t' = interval t
     \<and> (single_timer s' \<longrightarrow> xs = [] \<or> xs = [p])"
proof -
  have c: "chain (theap s) (active_timers s) xs" using ok by (simp add: timers_ok_def)
  have lone: "active_timers s = 0 \<or> (active_timers s = p \<and> next_active t = 0) \<longleftrightarrow> xs = [] \<or> xs = [p]"
  proof (cases xs)
    case Nil
    with c show ?thesis by simp
  next
    case (Cons x ys)
    with c t timers_ok_not_null [OF ok t] show ?thesis
      by (cases ys) (auto split: option.splits)
  qed
  show ?thesis
  proof (cases "xs = [] \<or> xs = [p]")
    case True
    have "old \<noteq> None \<Longrightarrow> running t \<noteq> 0 \<Longrightarrow>
        \<exists>itv k. os_setitimer os \<lparr>it_interval = interval t, it_value = ival\<rparr> (tsys s) = (Some itv, k)"
      using itm [of "\<lparr>it_interval = interval t, it_value = ival\<rparr>" "tsys s"]
      by (metis option.exhaust prod.collapse)
    from settime_single_ok [OF this] obtain t' old' k where r:
      "settime_single os p t now ival old s = Ret (t', old', s\<lparr>single_timer := True, tsys := k\<rparr>)"
      "next_active t' = next_active t" "running t' = running t" "interval t' = interval t"
      by blast
    have "timers_ok (s\<lparr>single_timer := True, tsys := k\<rparr>) xs"
      by (rule timers_ok_same [OF ok]) (use True in auto)
    with r True lone show ?thesis by (auto simp: settime_branch_def)
  next
    case False
    have "\<not> (in_handler s \<and> single_timer s)"
    proof
      assume h: "in_handler s \<and> single_timer s"
      then have "length xs \<le> 1" "set xs \<subseteq> {p}" using ok hdl by (auto simp: timers_ok_def)
      with False show False by (cases xs) auto
    qed
    from settime_multi_ok [OF c fuel this] obtain s' old' where
      "settime_multi fuel os p t now ival old s = Ret (t, old', s')"
      "theap s' = theap s" "active_timers s' = active_timers s" "\<not> single_timer s'" by blast
    then show ?thesis using False lone timers_ok_same [OF ok] by (auto simp: settime_branch_def)
  qed
qed

lemma timer_settime_ok:
  assumes ok: "timers_ok s xs" and t: "theap s p = Some t" and fuel: "length xs < fuel"
    and flag: "flag = TIMER_ABSTIME \<or> flag = TIMER_RELTIME"
    and sig: "0 \<le> sigev_signo (event t)" "sigev_signo (event t) < 64"
    and act: "\<And>k. \<exists>h k'. os_sigaction os SIGALRM (Some TimerHandler) k = (Some h, k')"
    and itm: "\<And>itv k. old \<noteq> None \<Longrightarrow> fst (os_setitimer os itv k) \<noteq> None"
    and hdl: "in_handler s \<Longrightarrow> single_timer s \<Longrightarrow> set xs \<subseteq> {p}"
  shows "\<exists>k now old' s' t'. now = fst (os_gettimeofday os k) \<and> timer_settime fuel os p flag (Some v) old s = Ret (0, old', s')
           \<and> timers_ok s' (settime_active p (\<not> is_zero (requested_value flag v now)) xs)
           \<and> theap s' p = Some t'
           \<and> next_alarm t' = add_time now (requested_value flag v now)
           \<and> interval t' = TV (ts_sec (its_interval v)) (ts_nsec (its_interval v) sdiv 1000)"
proof -
  obtain m k0 where mk: "os_sigblock os (sigmask SIGALRM) (tsys s) = (m, k0)" by fastforce
  let ?s0 = "s\<lparr>tsys := k0\<rparr>"
  from settime_signals_ok [OF act sig, of ?s0] obtain s1 where s1:
    "settime_signals os t ?s0 = Ret s1" "theap s1 = theap s" "active_timers s1 = active_timers s"
    "single_timer s1 = single_timer s" "in_handler s1 = in_handler s" by auto
  obtain now k2 where k2: "os_gettimeofday os (tsys s1) = (now, k2)" by fastforce
  let ?ival = "requested_value flag v now"
  let ?iv = "TV (ts_sec (its_interval v)) (ts_nsec (its_interval v) sdiv 1000)"
  let ?old1 = "map_option (\<lambda>o1. o1\<lparr>its_interval := to_spec (interval t)\<rparr>) old"
  define t1 where "t1 = t\<lparr>interval := ?iv, corrected_interval := ?iv\<rparr>"
  define s2 where "s2 = tput p t1 (s1\<lparr>tsys := k2\<rparr>)"
  have ok1: "timers_ok (s1\<lparr>tsys := k2\<rparr>) xs"
    by (rule timers_ok_same [OF ok]) (use s1 ok in \<open>auto simp: timers_ok_def\<close>)
  have ok2: "timers_ok s2 xs"
    unfolding s2_def by (rule timers_ok_put [OF ok1]) (use s1 t in \<open>auto simp: t1_def\<close>)
  have h2: "in_handler s2 \<Longrightarrow> single_timer s2 \<Longrightarrow> set xs \<subseteq> {p}"
    using s1 hdl by (simp add: s2_def)
  have t2: "theap s2 p = Some t1" by (simp add: s2_def)
  have itm': "\<And>itv k. ?old1 \<noteq> None \<Longrightarrow> fst (os_setitimer os itv k) \<noteq> None"
    using itm by auto
  from settime_branch_ok [where now = now and ival = ?ival, OF ok2 t2 fuel h2 itm'] obtain t' old' s3 where r:
    "settime_branch fuel os p t1 now ?ival ?old1 s2 = Ret (t', old', s3)"
    "timers_ok s3 xs" "theap s3 = theap s2"
    "next_active t' = next_active t1" "running t' = running t1" "interval t' = interval t1"
    "single_timer s3 \<longrightarrow> xs = [] \<or> xs = [p]" by blast
  define s4 where "s4 = tput p (t'\<lparr>next_alarm := add_time now ?ival\<rparr>) s3"
  have ok4: "timers_ok s4 xs"
    unfolding s4_def by (rule timers_ok_put [OF r(2)]) (use r t2 in auto)
  have t4: "theap s4 p = Some (t'\<lparr>next_alarm := add_time now ?ival\<rparr>)" by (simp add: s4_def)
  have "single_timer s4 \<Longrightarrow> xs = [] \<or> xs = [p]" using r(7) by (simp add: s4_def)
  from settime_link_ok [OF ok4 t4 fuel this, of ?ival] obtain s5 t5 where l:
    "settime_link fuel p ?ival s4 = Ret (0, s5)"
    "timers_ok s5 (settime_active p (\<not> is_zero ?ival) xs)" "theap s5 p = Some t5"
    "next_alarm t5 = add_time now ?ival" "interval t5 = interval t'" by auto
  have "timer_settime fuel os p flag (Some v) old s
      = Ret (0, old', s5\<lparr>tsys := snd (os_sigsetmask os m (tsys s5))\<rparr>)"
    using flag t s1(1) k2 r(1) l(1)
    by (auto simp: timer_settime_def mk Let_def t1_def s2_def s4_def)
  moreover have "now = fst (os_gettimeofday os (tsys s1))" using k2 by simp
  moreover have "theap (s5\<lparr>tsys := k\<rparr>) p = Some t5" "timers_ok (s5\<lparr>tsys := k\<rparr>) ys = timers_ok s5 ys" for k ys
    using l(3) by (simp_all add: timers_ok_def)
  moreover have "interval t5 = ?iv" using l(5) r(6) by (simp add: t1_def)
  ultimately show ?thesis using l(2,4) by metis
qed

text \<open>The only active timer: the interval timer is programmed with the interval and the value, and the timer is armed.\<close>

lemma settime_link_armed:
  assumes "theap s p = Some t" and "\<not> is_zero ival"
  shows "\<exists>s' t'. settime_link fuel p ival s = Ret (0, s') \<and> theap s' p = Some t' \<and> running t' \<noteq> 0 \<and> interval t' = interval t
     \<and> single_timer s' = single_timer s \<and> tsys s' = tsys s"
  using assms by (auto simp: settime_link_def is_zero_def)

lemma settime_single_programs:
  assumes "old \<noteq> None \<Longrightarrow> fst (os_setitimer os \<lparr>it_interval = interval t, it_value = ival\<rparr> (tsys s)) \<noteq> None"
  shows "\<exists>t' old'. settime_single os p t now ival old s
       = Ret (t', old', s\<lparr>single_timer := True, tsys := snd (os_setitimer os \<lparr>it_interval = interval t, it_value = ival\<rparr> (tsys s))\<rparr>)
     \<and> interval t' = interval t"
  using assms by (cases old) (auto simp: settime_single_def Let_def split: prod.splits option.splits)

lemma timer_settime_alone:
  assumes ok: "timers_ok s xs" and t: "theap s p = Some t" and alone: "xs = [] \<or> xs = [p]"
    and sig: "0 \<le> sigev_signo (event t)" "sigev_signo (event t) < 64"
    and act: "\<And>k. \<exists>h k'. os_sigaction os SIGALRM (Some TimerHandler) k = (Some h, k')"
    and itm: "\<And>itv k. old \<noteq> None \<Longrightarrow> fst (os_setitimer os itv k) \<noteq> None"
    and v: "ival = TV (ts_sec (its_value v)) (ts_nsec (its_value v) sdiv 1000)" "\<not> is_zero ival"
    and iv: "iv = TV (ts_sec (its_interval v)) (ts_nsec (its_interval v) sdiv 1000)"
  shows "\<exists>m k old' s' t'. timer_settime fuel os p TIMER_RELTIME (Some v) old s = Ret (0, old', s')
     \<and> theap s' p = Some t' \<and> running t' \<noteq> 0 \<and> single_timer s' \<and> interval t' = iv
     \<and> tsys s' = snd (os_sigsetmask os m (snd (os_setitimer os \<lparr>it_interval = iv, it_value = ival\<rparr> k)))"
proof -
  obtain m k0 where mk: "os_sigblock os (sigmask SIGALRM) (tsys s) = (m, k0)" by fastforce
  from settime_signals_ok [OF act sig, of "s\<lparr>tsys := k0\<rparr>"] obtain s1 where s1:
    "settime_signals os t (s\<lparr>tsys := k0\<rparr>) = Ret s1" "theap s1 = theap s" "active_timers s1 = active_timers s" by auto
  obtain now k2 where k2: "os_gettimeofday os (tsys s1) = (now, k2)" by fastforce
  have val: "requested_value TIMER_RELTIME v now = ival" using v by (simp add: requested_value_def TIMER_RELTIME_def TIMER_ABSTIME_def)
  let ?old1 = "map_option (\<lambda>o1. o1\<lparr>its_interval := to_spec (interval t)\<rparr>) old"
  define t1 where "t1 = t\<lparr>interval := iv, corrected_interval := iv\<rparr>"
  define s2 where "s2 = tput p t1 (s1\<lparr>tsys := k2\<rparr>)"
  have "active_timers s2 = 0 \<or> (active_timers s2 = p \<and> next_active t1 = 0)"
    using alone ok t s1 by (auto simp: timers_ok_def s2_def t1_def)
  then have "settime_branch fuel os p t1 now ival ?old1 s2 = settime_single os p t1 now ival ?old1 s2" by (simp add: settime_branch_def)
  moreover from settime_single_programs [of ?old1 os t1 ival s2 p now] itm obtain t2 old' where sg:
    "settime_single os p t1 now ival ?old1 s2
       = Ret (t2, old', s2\<lparr>single_timer := True, tsys := snd (os_setitimer os \<lparr>it_interval = iv, it_value = ival\<rparr> (tsys s2))\<rparr>)"
    "interval t2 = iv" by (fastforce simp: t1_def)
  ultimately have br: "settime_branch fuel os p t1 now ival ?old1 s2
       = Ret (t2, old', s2\<lparr>single_timer := True, tsys := snd (os_setitimer os \<lparr>it_interval = iv, it_value = ival\<rparr> (tsys s2))\<rparr>)" by simp
  define s4 where "s4 = tput p (t2\<lparr>next_alarm := add_time now ival\<rparr>)
    (s2\<lparr>single_timer := True, tsys := snd (os_setitimer os \<lparr>it_interval = iv, it_value = ival\<rparr> (tsys s2))\<rparr>)"
  from settime_link_armed [of s4 p "t2\<lparr>next_alarm := add_time now ival\<rparr>" ival fuel] v(2) obtain s5 t5 where l:
    "settime_link fuel p ival s4 = Ret (0, s5)" "theap s5 p = Some t5" "running t5 \<noteq> 0" "interval t5 = iv" "single_timer s5"
    "tsys s5 = snd (os_setitimer os \<lparr>it_interval = iv, it_value = ival\<rparr> (tsys s2))" using sg(2) by (auto simp: s4_def)
  have "timer_settime fuel os p TIMER_RELTIME (Some v) old s = Ret (0, old', s5\<lparr>tsys := snd (os_sigsetmask os m (tsys s5))\<rparr>)"
    using t s1(1) k2 br l(1) iv by (simp add: timer_settime_def mk Let_def val t1_def s2_def s4_def)
  then show ?thesis using l by (intro exI [of _ m] exI [of _ "tsys s2"] exI [of _ old'] exI [of _ "s5\<lparr>tsys := snd (os_sigsetmask os m (tsys s5))\<rparr>"] exI [of _ t5]) simp
qed

subsection \<open>The earliest timeout\<close>

text \<open>
  Both loops accumulate timeouts with \<open>offer_timeout\<close>. Over positive normalised candidates the
  accumulated value is the least of them (and of the initial value when that is not zero).
\<close>

lemma offer_timeout_least:
  assumes "tv_norm d" and "0 < tv_total d" and "tv_norm (it_value itv)" and "0 \<le> tv_total (it_value itv)"
  shows "tv_norm (it_value (offer_timeout d itv))"
    and "tv_total (it_value (offer_timeout d itv)) =
           (if tv_total (it_value itv) = 0 then tv_total d else min (tv_total d) (tv_total (it_value itv)))"
  using assms compare_time_total(1) [of d "it_value itv"] is_zero_total [of "it_value itv"]
  by (auto simp: offer_timeout_def)

lemma offer_timeout_interval [simp]: "it_interval (offer_timeout d itv) = it_interval itv"
  by (simp add: offer_timeout_def)

lemma fold_offer_interval [simp]: "it_interval (fold offer_timeout ds itv) = it_interval itv"
  by (induction ds arbitrary: itv) auto

lemma fold_offer_timeout:
  assumes "\<And>d. d \<in> set ds \<Longrightarrow> tv_norm d \<and> 0 < tv_total d"
    and "tv_norm (it_value itv)" and "0 \<le> tv_total (it_value itv)"
  shows "tv_norm (it_value (fold offer_timeout ds itv))
     \<and> 0 \<le> tv_total (it_value (fold offer_timeout ds itv))
     \<and> (\<forall>d \<in> set ds. tv_total (it_value (fold offer_timeout ds itv)) \<le> tv_total d)
     \<and> (ds \<noteq> [] \<or> 0 < tv_total (it_value itv) \<longrightarrow> 0 < tv_total (it_value (fold offer_timeout ds itv)))
     \<and> (0 < tv_total (it_value itv) \<longrightarrow> tv_total (it_value (fold offer_timeout ds itv)) \<le> tv_total (it_value itv))
     \<and> (it_value (fold offer_timeout ds itv) = it_value itv \<or> it_value (fold offer_timeout ds itv) \<in> set ds)"
  using assms
proof (induction ds arbitrary: itv)
  case Nil
  then show ?case by simp
next
  case (Cons d ds)
  let ?itv = "offer_timeout d itv"
  from Cons.prems have d: "tv_norm d" "0 < tv_total d" by auto
  note o = offer_timeout_least [OF d Cons.prems(2,3)]
  have pos: "0 < tv_total (it_value ?itv)" using o(2) d(2) Cons.prems(3) by auto
  have "it_value ?itv = it_value itv \<or> it_value ?itv = d" by (simp add: offer_timeout_def)
  moreover note Cons.IH [OF _ o(1), OF Cons.prems(1)] pos
  ultimately show ?case using o(2) by (fastforce split: if_splits)
qed

text \<open>The times that \<open>add_time\<close> gives may have 1000000 microseconds. For such times the comparison is still right, but for equal ones.\<close>

definition tv_loose :: "timeval \<Rightarrow> bool" where
  "tv_loose t \<longleftrightarrow> 0 \<le> tv_usec t \<and> tv_usec t \<le> 1000000"

lemma tv_loose_norm: "tv_norm t \<Longrightarrow> tv_loose t"
  by (simp add: tv_norm_def tv_loose_def)

lemma add_time_loose: "tv_loose a \<Longrightarrow> tv_norm b \<Longrightarrow> tv_loose (add_time a b)"
  by (auto simp: tv_loose_def tv_norm_def add_time_def Let_def)

lemma subtract_time_loose: "tv_loose a \<Longrightarrow> tv_norm b \<Longrightarrow> tv_loose (subtract_time a b)"
  by (auto simp: tv_loose_def tv_norm_def subtract_time_def Let_def)

lemma compare_time_loose:
  assumes "tv_loose a" and "tv_loose b"
  shows "tv_total a < tv_total b \<Longrightarrow> compare_time a b < 0" and "compare_time a b < 0 \<Longrightarrow> tv_total a \<le> tv_total b"
    and "tv_norm b \<Longrightarrow> compare_time a b > 0 \<longleftrightarrow> tv_total a > tv_total b"
proof -
  have u: "to_int (tv_usec a - tv_usec b) = tv_usec a - tv_usec b"
    using assms by (intro to_int_id) (auto simp: tv_loose_def)
  show "tv_total a < tv_total b \<Longrightarrow> compare_time a b < 0" "compare_time a b < 0 \<Longrightarrow> tv_total a \<le> tv_total b"
    "tv_norm b \<Longrightarrow> compare_time a b > 0 \<longleftrightarrow> tv_total a > tv_total b"
    using assms u by (auto simp: compare_time_def tv_total_def tv_loose_def tv_norm_def split: if_splits)
qed

lemma fold_offer_min:
  assumes "\<forall>d \<in> set ds. tv_loose d \<and> 0 < tv_total d" and "tv_loose (it_value itv)" and "0 < tv_total (it_value itv)"
  shows "tv_total (it_value (fold offer_timeout ds itv)) = Min (insert (tv_total (it_value itv)) (tv_total ` set ds))"
  using assms
proof (induction ds arbitrary: itv)
  case Nil
  then show ?case by simp
next
  case (Cons d ds)
  let ?itv = "offer_timeout d itv"
  have "\<not> is_zero (it_value itv)" using Cons.prems(3) by (auto simp: is_zero_def tv_total_def)
  then have "it_value ?itv = (if compare_time d (it_value itv) < 0 then d else it_value itv)" by (simp add: offer_timeout_def)
  moreover have "\<not> tv_total d < tv_total (it_value itv)" if "\<not> compare_time d (it_value itv) < 0"
    using that compare_time_loose(1) [of d "it_value itv"] Cons.prems by auto
  ultimately have o: "tv_loose (it_value ?itv)" "tv_total (it_value ?itv) = min (tv_total d) (tv_total (it_value itv))"
    using compare_time_loose(2) [of d "it_value itv"] Cons.prems by (auto simp: min_def)
  then have "tv_total (it_value (fold offer_timeout ds ?itv)) = Min (insert (min (tv_total d) (tv_total (it_value itv))) (tv_total ` set ds))"
    using Cons.IH [of ?itv] Cons.prems by simp
  also have "\<dots> = Min (insert (tv_total (it_value itv)) (tv_total ` set (d # ds)))"
    by (cases "ds = []") (simp_all add: min.assoc min.left_commute)
  finally show ?case by simp
qed

lemma fold_offer_first:
  assumes "\<forall>d \<in> set ds. tv_loose d \<and> 0 < tv_total d" and "ds \<noteq> []" and "is_zero (it_value itv)"
  shows "tv_total (it_value (fold offer_timeout ds itv)) = Min (tv_total ` set ds)"
proof -
  obtain d ds' where ds: "ds = d # ds'" using assms(2) by (cases ds) auto
  have "offer_timeout d itv = itv\<lparr>it_value := d\<rparr>" using assms(3) by (simp add: offer_timeout_def)
  then show ?thesis using fold_offer_min [of ds' "itv\<lparr>it_value := d\<rparr>"] assms(1) ds by simp
qed

text \<open>What remains until the alarms of the other active timers that are still to come.\<close>

definition remaining_times :: "(nat \<rightharpoonup> timer) \<Rightarrow> nat \<Rightarrow> timeval \<Rightarrow> nat list \<Rightarrow> timeval list" where
  "remaining_times h p now xs =
     map (\<lambda>q. subtract_time (next_alarm (the (h q))) now)
       (filter (\<lambda>q. q \<noteq> p \<and> compare_time (next_alarm (the (h q))) now > 0) xs)"

lemma scan_earliest_timeout:
  assumes "chain (theap s) nt xs" and "length xs < fuel"
  shows "scan_earliest fuel p now nt s =
     Ret (s\<lparr>timeout := fold offer_timeout (remaining_times (theap s) p now xs) (timeout s)\<rparr>)"
  using assms
proof (induction xs arbitrary: nt s fuel)
  case Nil
  then show ?case by (cases fuel) (auto simp: remaining_times_def)
next
  case (Cons x xs)
  then obtain n u where u: "fuel = Suc n" "length xs < n" "theap s x = Some u" "nt = x" "x \<noteq> 0"
    "chain (theap s) (next_active u) xs"
    by (cases fuel) (auto split: option.splits)
  from u(6) have c: "chain (theap (s\<lparr>timeout := tv\<rparr>)) (next_active u) xs" for tv by simp
  show ?case
    using Cons.IH [OF c u(2)] Cons.IH [OF u(6,2)] u by (auto simp: remaining_times_def)
qed

subsection \<open>The signal handler\<close>

text \<open>Whether the scan treats a timer as expired, and the timeout it offers for it.\<close>

definition expired_at :: "timeval \<Rightarrow> timer \<Rightarrow> bool" where
  "expired_at rnd t \<longleftrightarrow> compare_time rnd (next_alarm t) \<ge> 0"

definition advance :: "timeval \<Rightarrow> timer \<Rightarrow> timer" where
  "advance rnd t = (if expired_at rnd t then t\<lparr>next_alarm := add_time (next_alarm t) (interval t)\<rparr> else t)"

definition candidate :: "timeval \<Rightarrow> timeval \<Rightarrow> timer \<Rightarrow> timeval" where
  "candidate now rnd t =
     (if expired_at rnd t \<and> compare_time (next_alarm (advance rnd t)) now \<le> 0 then TV 0 TIMER_RESOLUTION
      else subtract_time (next_alarm (advance rnd t)) now)"

text \<open>The time until the next alarm of a timer after the scan, in microseconds; one that is over counts as one resolution.\<close>

definition wait_after :: "timeval \<Rightarrow> timeval \<Rightarrow> timer \<Rightarrow> int" where
  "wait_after now rnd t =
     (let a = tv_total (next_alarm t) + (if expired_at rnd t then tv_total (interval t) else 0)
      in if a \<le> tv_total now then TIMER_RESOLUTION else a - tv_total now)"

lemma candidate_wait:
  assumes "tv_norm now" and "rnd = add_time now half_resolution" and "tv_loose (next_alarm t)" and "tv_norm (interval t)"
  shows "tv_loose (candidate now rnd t) \<and> 0 < tv_total (candidate now rnd t) \<and> tv_total (candidate now rnd t) = wait_after now rnd t"
proof -
  have h: "tv_norm half_resolution" "0 < tv_total half_resolution" "0 < TIMER_RESOLUTION" "TIMER_RESOLUTION \<le> 1000000"
    by (simp_all add: half_resolution_def TIMER_RESOLUTION_def tv_norm_def tv_total_def)
  have r: "tv_loose rnd" using add_time_loose [OF tv_loose_norm [OF assms(1)] h(1)] assms(2) by simp
  let ?a = "next_alarm (advance rnd t)"
  have a: "tv_loose ?a" using assms(3,4) add_time_loose by (simp add: advance_def)
  have tot: "tv_total ?a = tv_total (next_alarm t) + (if expired_at rnd t then tv_total (interval t) else 0)" by (simp add: advance_def)
  have late: "tv_total now < tv_total ?a" if "\<not> expired_at rnd t"
    using that compare_time_loose(2) [OF r assms(3)] assms(2) h(2) by (simp add: expired_at_def advance_def)
  have res: "tv_loose (TV 0 TIMER_RESOLUTION)" "tv_total (TV 0 TIMER_RESOLUTION) = TIMER_RESOLUTION"
    using h by (simp_all add: tv_loose_def tv_total_def)
  have due: "compare_time ?a now \<le> 0 \<longleftrightarrow> tv_total ?a \<le> tv_total now"
    using compare_time_loose(3) [OF a tv_loose_norm [OF assms(1)] assms(1)] by linarith
  show ?thesis
  proof (cases "tv_total ?a \<le> tv_total now")
    case True
    then have "candidate now rnd t = TV 0 TIMER_RESOLUTION" using late due by (force simp: candidate_def)
    then show ?thesis using True tot res h by (simp add: wait_after_def Let_def)
  next
    case False
    then have "candidate now rnd t = subtract_time ?a now" using due by (simp add: candidate_def)
    then show ?thesis using False tot subtract_time_loose [OF a assms(1)] by (simp add: wait_after_def Let_def)
  qed
qed

primrec echain :: "(nat \<rightharpoonup> timer) \<Rightarrow> nat \<Rightarrow> nat list \<Rightarrow> bool" where
  "echain h p [] \<longleftrightarrow> p = 0"
| "echain h p (x # xs) \<longleftrightarrow>
     p = x \<and> x \<noteq> 0 \<and> (case h x of None \<Rightarrow> False | Some t \<Rightarrow> echain h (next_expired t) xs)"

lemma echain_upd: "echain h p xs \<Longrightarrow> q \<notin> set xs \<Longrightarrow> echain (h(q \<mapsto> t)) p xs"
  by (induction xs arbitrary: p) (auto split: option.splits)

lemma echain_cong: "echain h p xs \<Longrightarrow> (\<And>q. q \<in> set xs \<Longrightarrow> h' q = h q) \<Longrightarrow> echain h' p xs"
  by (induction xs arbitrary: p) (auto split: option.splits)

text \<open>
  One pass over the active list, when every timer that expires in it is periodic: nothing is
  unlinked, each expired timer moves to its next alarm, and the expired ones are collected in
  reverse order.
\<close>

lemma handler_scan_ok:
  assumes "read_loc tp s = Ret r" and "chain (theap s) r xs" and "distinct xs" and "length xs < fuel"
    and "\<And>q t. q \<in> set xs \<Longrightarrow> theap s q = Some t \<Longrightarrow> expired_at rnd t \<Longrightarrow> \<not> is_zero (interval t)"
    and "echain (theap s) e es" and "set es \<inter> set xs = {}"
  shows "\<exists>e' s'. handler_scan fuel now rnd tp e s = Ret (e', s')
     \<and> active_timers s' = active_timers s \<and> single_timer s' = single_timer s
     \<and> in_handler s' = in_handler s \<and> tsys s' = tsys s \<and> signal_handler s' = signal_handler s
     \<and> (\<forall>q. q \<notin> set xs \<longrightarrow> theap s' q = theap s q)
     \<and> (\<forall>q t. q \<in> set xs \<longrightarrow> theap s q = Some t \<longrightarrow>
           (\<exists>n. theap s' q = Some ((advance rnd t)\<lparr>next_expired := n\<rparr>)))
     \<and> timeout s' = fold offer_timeout (map (\<lambda>q. candidate now rnd (the (theap s q))) xs) (timeout s)
     \<and> echain (theap s') e' (rev (filter (\<lambda>q. expired_at rnd (the (theap s q))) xs) @ es)"
  using assms
proof (induction xs arbitrary: tp r s e es fuel)
  case Nil
  then show ?case by (cases fuel) auto
next
  case (Cons x xs)
  from Cons.prems(4) obtain n where f: "fuel = Suc n" "length xs < n" by (cases fuel) auto
  from Cons.prems(2) obtain t where t: "r = x" "x \<noteq> 0" "theap s x = Some t"
    "chain (theap s) (next_active t) xs" by (auto split: option.splits)
  have x: "x \<notin> set xs" "distinct xs" using Cons.prems(3) by auto
  define t' where "t' = (if expired_at rnd t then (advance rnd t)\<lparr>next_expired := e\<rparr> else t)"
  define s1 where "s1 = s\<lparr>timeout := offer_timeout (candidate now rnd t) (timeout s)\<rparr>"
  define s' where "s' = (if expired_at rnd t then tput x t' s1 else s1)"
  let ?e = "if expired_at rnd t then x else e" and ?es = "if expired_at rnd t then x # es else es"
  have heap': "theap s' = (theap s)(x \<mapsto> t')"
    using t(3) by (auto simp: s'_def s1_def t'_def)
  have nx: "next_active t' = next_active t" by (simp add: t'_def advance_def)
  have step: "handler_scan fuel now rnd tp e s = handler_scan n now rnd (NextOf x) ?e s'"
  proof (cases "expired_at rnd t")
    case True
    with Cons.prems(5) [OF _ t(3)] have "\<not> is_zero (interval t)" by simp
    then show ?thesis
      using f t Cons.prems(1) True
      by (auto simp: s'_def s1_def t'_def tput_def candidate_def advance_def expired_at_def is_zero_def Let_def)
  next
    case False
    then show ?thesis
      using f t Cons.prems(1) by (simp add: s'_def s1_def candidate_def advance_def expired_at_def)
  qed
  have "read_loc (NextOf x) s' = Ret (next_active t')" by (simp add: heap')
  moreover have "chain (theap s') (next_active t') xs"
    unfolding heap' nx using t(4) x(1) by (intro chain_upd) auto
  moreover have "\<And>q u. q \<in> set xs \<Longrightarrow> theap s' q = Some u \<Longrightarrow> expired_at rnd u \<Longrightarrow> \<not> is_zero (interval u)"
    using Cons.prems(5) x(1) by (auto simp: heap' split: if_splits)
  moreover have "echain (theap s') ?e ?es"
    using Cons.prems(6,7) t(2) by (auto simp: heap' t'_def intro!: echain_upd)
  moreover have "set ?es \<inter> set xs = {}" using Cons.prems(7) x(1) by auto
  ultimately obtain e2 s2 where r: "handler_scan n now rnd (NextOf x) ?e s' = Ret (e2, s2)"
     "active_timers s2 = active_timers s'" "single_timer s2 = single_timer s'"
     "in_handler s2 = in_handler s'" "tsys s2 = tsys s'" "signal_handler s2 = signal_handler s'"
     "\<forall>q. q \<notin> set xs \<longrightarrow> theap s2 q = theap s' q"
     "\<forall>q u. q \<in> set xs \<longrightarrow> theap s' q = Some u \<longrightarrow> (\<exists>n. theap s2 q = Some ((advance rnd u)\<lparr>next_expired := n\<rparr>))"
     "timeout s2 = fold offer_timeout (map (\<lambda>q. candidate now rnd (the (theap s' q))) xs) (timeout s')"
     "echain (theap s2) e2 (rev (filter (\<lambda>q. expired_at rnd (the (theap s' q))) xs) @ ?es)"
    using Cons.IH [of "NextOf x" s' "next_active t'" n ?e ?es] x(2) f(2) by blast
  have same: "\<And>q. q \<in> set xs \<Longrightarrow> theap s' q = theap s q" using x(1) by (auto simp: heap')
  have "t' = (advance rnd t)\<lparr>next_expired := if expired_at rnd t then e else next_expired t\<rparr>"
    by (simp add: t'_def advance_def)
  then have "\<exists>m. theap s2 x = Some ((advance rnd t)\<lparr>next_expired := m\<rparr>)"
    using r(7) x(1) by (auto simp: heap')
  moreover have "timeout s2 = fold offer_timeout
      (map (\<lambda>q. candidate now rnd (the (theap s q))) (x # xs)) (timeout s)"
  proof -
    have "map (\<lambda>q. candidate now rnd (the (theap s' q))) xs = map (\<lambda>q. candidate now rnd (the (theap s q))) xs"
      using same by simp
    moreover have "timeout s' = offer_timeout (candidate now rnd t) (timeout s)"
      by (simp add: s'_def s1_def)
    ultimately show ?thesis using r(9) t(3) by (simp del: map_eq_conv)
  qed
  moreover have "echain (theap s2) e2
      (rev (filter (\<lambda>q. expired_at rnd (the (theap s q))) (x # xs)) @ es)"
  proof -
    have "filter (\<lambda>q. expired_at rnd (the (theap s' q))) xs = filter (\<lambda>q. expired_at rnd (the (theap s q))) xs"
      using same by (auto intro: filter_cong)
    then show ?thesis using r(10) t(3) by (cases "expired_at rnd t") simp_all
  qed
  moreover have "\<And>q. q \<notin> set (x # xs) \<Longrightarrow> theap s2 q = theap s q" using r(7) by (simp add: heap')
  moreover have "active_timers s' = active_timers s" "single_timer s' = single_timer s"
    "in_handler s' = in_handler s" "tsys s' = tsys s" "signal_handler s' = signal_handler s"
    by (simp_all add: s'_def s1_def)
  ultimately show ?case
    using step r(1-6,8) t(3) same by auto
qed

lemma chain_cong:
  assumes "chain h p xs"
    and "\<And>q t. q \<in> set xs \<Longrightarrow> h q = Some t \<Longrightarrow> \<exists>t'. h' q = Some t' \<and> next_active t' = next_active t"
  shows "chain h' p xs"
  using assms by (induction xs arbitrary: p) (fastforce split: option.splits)+

lemma timers_ok_scan:
  assumes ok: "timers_ok s xs" and same: "active_timers s' = active_timers s" "single_timer s' = single_timer s"
    and out: "\<forall>q. q \<notin> set xs \<longrightarrow> theap s' q = theap s q"
    and adv: "\<forall>q t. q \<in> set xs \<longrightarrow> theap s q = Some t \<longrightarrow>
        (\<exists>n. theap s' q = Some ((advance rnd t)\<lparr>next_expired := n\<rparr>))"
  shows "timers_ok s' xs"
proof -
  have c: "chain (theap s) (active_timers s) xs" using ok by (simp add: timers_ok_def)
  have a: "\<exists>t'. theap s' q = Some t' \<and> next_active t' = next_active t \<and> running t' = running t"
    if "q \<in> set xs" "theap s q = Some t" for q t
    using adv that by (fastforce simp: advance_def)
  have "chain (theap s') (active_timers s') xs"
    unfolding same by (rule chain_cong [OF c]) (use a in blast)
  moreover have "running t \<noteq> 0 \<longleftrightarrow> q \<in> set xs" if q: "theap s' q = Some t" for q t
  proof (cases "q \<in> set xs")
    case True
    with chain_mem [OF c True] a q ok show ?thesis by (fastforce simp: timers_ok_def)
  next
    case False
    with out q ok show ?thesis by (simp add: timers_ok_def)
  qed
  moreover have "theap s' 0 = None"
  proof -
    have "0 \<notin> set xs" using chain_mem [OF c] by blast
    with ok out show ?thesis by (simp add: timers_ok_def)
  qed
  ultimately show ?thesis using ok same by (simp add: timers_ok_def)
qed

text \<open>
  Application handlers that do not call back into the timer library change the system only.
  \<open>deliver\<close> is the effect of the notification of one timer.
\<close>

definition quiet :: "'k user_handlers \<Rightarrow> (nat \<Rightarrow> int \<Rightarrow> int \<Rightarrow> 'k \<Rightarrow> 'k) \<Rightarrow> bool" where
  "quiet user f \<longleftrightarrow> (\<forall>h signo v s. user h signo v s = Ret (s\<lparr>tsys := f h signo v (tsys s)\<rparr>))"

fun handler_number :: "handler \<Rightarrow> nat" where
  "handler_number (UserHandler h) = h"
| "handler_number _ = 0"

definition deliver :: "(nat \<Rightarrow> int \<Rightarrow> int \<Rightarrow> 'k \<Rightarrow> 'k) \<Rightarrow> (nat \<Rightarrow> handler) \<Rightarrow> sigevent \<Rightarrow> 'k \<Rightarrow> 'k" where
  "deliver f sh ev k =
     (if sigev_notify ev = SIGEV_SIGNAL
      then f (handler_number (sh (nat (sigev_signo ev)))) (sigev_signo ev) (sigev_value ev) k else k)"

definition callable :: "(nat \<Rightarrow> handler) \<Rightarrow> sigevent \<Rightarrow> bool" where
  "callable sh ev \<longleftrightarrow> sigev_notify ev = SIGEV_SIGNAL \<longrightarrow>
     0 \<le> sigev_signo ev \<and> sigev_signo ev < 64 \<and> (\<exists>h. sh (nat (sigev_signo ev)) = UserHandler h)"

lemma notify_quiet:
  assumes "quiet user f" and "callable (signal_handler s) ev"
  shows "notify self user ev s = Ret (s\<lparr>tsys := deliver f (signal_handler s) ev (tsys s)\<rparr>)"
  using assms by (auto simp: notify_def callable_def deliver_def quiet_def)

lemma notify_expired_ok:
  assumes "quiet user f" and "echain (theap s) p xs" and "length xs < fuel"
    and "\<And>q t. q \<in> set xs \<Longrightarrow> theap s q = Some t \<Longrightarrow> callable (signal_handler s) (event t)"
  shows "notify_expired fuel self user p s =
     Ret (s\<lparr>tsys := fold (\<lambda>q. deliver f (signal_handler s) (event (the (theap s q)))) xs (tsys s)\<rparr>)"
  using assms(2-)
proof (induction xs arbitrary: p s fuel)
  case Nil
  then show ?case by (cases fuel) auto
next
  case (Cons x xs)
  then obtain n t where t: "fuel = Suc n" "length xs < n" "theap s x = Some t" "p = x" "x \<noteq> 0"
    "echain (theap s) (next_expired t) xs"
    by (cases fuel) (auto split: option.splits)
  let ?s = "s\<lparr>tsys := deliver f (signal_handler s) (event t) (tsys s)\<rparr>"
  have "notify self user (event t) s = Ret ?s"
    using assms(1) Cons.prems(3) [OF _ t(3)] by (intro notify_quiet) auto
  moreover have "notify_expired n self user (next_expired t) ?s =
     Ret (?s\<lparr>tsys := fold (\<lambda>q. deliver f (signal_handler s) (event (the (theap s q)))) xs (tsys ?s)\<rparr>)"
    using Cons.IH [of ?s "next_expired t" n] t Cons.prems(3) by fastforce
  ultimately show ?case using t by simp
qed

end
