(* ===== verification/Timer_Props.thy ===== *)
theory Timer_Props
  imports Timer_Laws
begin

text \<open>
  The correctness properties of the clock and timer functions of \<^verbatim>\<open>posix1b/posix_time.c\<close>, with
  a reference system (a settable clock, one interval timer, a table of signal actions) on which
  their hypotheses are shown to hold.
\<close>

section \<open>A reference system\<close>

record ref_os =
  r_now :: timeval
  r_itimer :: itimerval
  r_action :: "int \<Rightarrow> handler"
  r_mask :: int
  r_next :: nat
  r_log :: "(int \<times> int) list"

definition zero_timer :: timer where
  "zero_timer = \<lparr>next_active = 0, next_expired = 0, event = \<lparr>sigev_notify = 0, sigev_signo = 0, sigev_value = 0\<rparr>,
     interval = TV 0 0, corrected_interval = TV 0 0, next_alarm = TV 0 0, ticks = 0,
     correction_period = 0, running = 0\<rparr>"

definition ref_timer_os :: "ref_os timer_os" where
  "ref_timer_os =
     \<lparr>os_gettimeofday = (\<lambda>k. (r_now k, k)),
      os_settimeofday = (\<lambda>t k. (0, k\<lparr>r_now := t\<rparr>)),
      os_setitimer = (\<lambda>itv k. (Some (r_itimer k), k\<lparr>r_itimer := itv\<rparr>)),
      os_getitimer = (\<lambda>k. (r_itimer k, k)),
      os_sigaction = (\<lambda>n h k. (Some (r_action k n),
         case h of None \<Rightarrow> k | Some h' \<Rightarrow> k\<lparr>r_action := (r_action k)(n := h')\<rparr>)),
      os_sigblock = (\<lambda>m k. (r_mask k, k\<lparr>r_mask := m\<rparr>)),
      os_sigsetmask = (\<lambda>m k. (r_mask k, k\<lparr>r_mask := m\<rparr>)),
      os_malloc = (\<lambda>k. (Some (r_next k, zero_timer\<lparr>interval := TV 7 7\<rparr>), k\<lparr>r_next := Suc (r_next k)\<rparr>))\<rparr>"

definition ref_start :: "ref_os tstate" where
  "ref_start =
     \<lparr>theap = Map.empty, active_timers = 0, single_timer = False, in_handler = False,
      timeout = \<lparr>it_interval = TV 0 0, it_value = TV 0 0\<rparr>, signal_handler = (\<lambda>_. SigDfl),
      timer_max_error = 1000000, terrno = EOK,
      tsys = \<lparr>r_now = TV 100 0, r_itimer = \<lparr>it_interval = TV 0 0, it_value = TV 0 0\<rparr>,
              r_action = (\<lambda>_. UserHandler 1), r_mask = 0, r_next = 1, r_log = []\<rparr>\<rparr>"

definition ref_user :: "ref_os user_handlers" where
  "ref_user h signo v s = Ret (s\<lparr>tsys := (tsys s)\<lparr>r_log := (signo, v) # r_log (tsys s)\<rparr>\<rparr>)"

text \<open>A timer with a given alarm and interval, and a state with the timers 1, 2, \<dots> active in order.\<close>

definition mk_timer :: "nat \<Rightarrow> timeval \<Rightarrow> timeval \<Rightarrow> timer" where
  "mk_timer nxt alarm iv = zero_timer\<lparr>next_active := nxt, interval := iv, corrected_interval := iv,
     next_alarm := alarm, event := \<lparr>sigev_notify = SIGEV_SIGNAL, sigev_signo = 10, sigev_value = 5\<rparr>,
     running := 1\<rparr>"

definition ref_two :: "timeval \<Rightarrow> timeval \<Rightarrow> timeval \<Rightarrow> timeval \<Rightarrow> ref_os tstate" where
  "ref_two alarm1 iv1 alarm2 iv2 = ref_start\<lparr>active_timers := 1, signal_handler := (\<lambda>_. UserHandler 1),
     theap := [1 \<mapsto> mk_timer 2 alarm1 iv1, 2 \<mapsto> mk_timer 0 alarm2 iv2]\<rparr>"

lemmas ref_defs = ref_timer_os_def ref_start_def ref_user_def zero_timer_def mk_timer_def ref_two_def
  timers_ok_def SIGALRM_def SIGEV_SIGNAL_def SIGEV_NONE_def TIMER_ABSTIME_def TIMER_RELTIME_def

lemma ref_two_ok: "timers_ok (ref_two a1 i1 a2 i2) [1, 2]"
  by (auto simp: ref_defs split: if_splits)

section \<open>Time arithmetic\<close>

text \<open>\<open>add_time\<close> and \<open>subtract_time\<close> compute the exact sum and difference in
  microseconds; on normalised arguments the difference is normalised again, and \<open>compare_time\<close>
  orders times by their value.
\<close>

theorem time_arithmetic_exact:
  "tv_total (add_time a b) = tv_total a + tv_total b
   \<and> tv_total (subtract_time a b) = tv_total a - tv_total b
   \<and> (tv_norm a \<and> tv_norm b \<longrightarrow>
        tv_norm (subtract_time a b)
        \<and> (compare_time a b < 0 \<longleftrightarrow> tv_total a < tv_total b)
        \<and> (compare_time a b = 0 \<longleftrightarrow> a = b)
        \<and> (compare_time a b > 0 \<longleftrightarrow> tv_total a > tv_total b))"
  using compare_time_total [of a b] tv_norm_eqI [of a b]
  by (auto intro: subtract_time_norm)

theorem time_arithmetic_exact_witness:
  "tv_total (add_time (TV 1 600000) (TV 0 700000)) = 2300000
   \<and> compare_time (TV 1 600000) (TV 0 700000) > 0"
  using time_arithmetic_exact [of "TV 1 600000" "TV 0 700000"]
  by (simp add: tv_norm_def tv_total_def)

text \<open>On normalised arguments \<open>add_time\<close> normalises its result except in exactly one
  case: when the microseconds add up to 1000000 the carry is not taken (the test is \<^verbatim>\<open>> 1000000\<close>)
  and the result has 1000000 microseconds, outside the range of \<^verbatim>\<open>struct timeval\<close>.
\<close>

theorem add_time_normal_iff:
  assumes "tv_norm a" and "tv_norm b"
  shows "(tv_norm (add_time a b) \<longleftrightarrow> tv_usec a + tv_usec b \<noteq> 1000000)
     \<and> 0 \<le> tv_usec (add_time a b) \<and> tv_usec (add_time a b) \<le> 1000000"
  using assms by (auto simp: time_defs)

theorem add_time_normal_iff_witness:
  "\<not> tv_norm (add_time (TV 0 500000) (TV 0 500000))
   \<and> tv_usec (add_time (TV 0 500000) (TV 0 500000)) \<le> 1000000"
  using add_time_normal_iff [of "TV 0 500000" "TV 0 500000"] by (simp add: tv_norm_def)

section \<open>Arming, disarming and deleting timers\<close>

text \<open>C1 (refinement). Called with a valid flag on an allocated timer, \<open>timer_settime\<close> returns 0 within as many loop
  iterations as there are active timers, and implements the abstract operation
  \<open>settime_active\<close> on the active list, which stays without duplicates. What decides is \<open>requested_value\<close>: the value given, cut to whole microseconds and, with
  \<^verbatim>\<open>TIMER_ABSTIME\<close>, less the time \<open>now\<close> that the one call of \<^verbatim>\<open>gettimeofday\<close> reports. When it is not zero the timer is in the list
  afterwards (at its head if it was not active), when it is zero it is not. The next alarm is \<open>now\<close> plus this value and the interval is the given one, cut. The
  hypotheses on the system are that \<open>sigaction\<close>
  accepts \<^verbatim>\<open>SIGALRM\<close> and that \<open>setitimer\<close> reports the old value when the caller asks for it; the signal of the timer is below 64; inside the handler of a single timer, no
  other timer may be active.
\<close>

theorem timer_settime_refines:
  assumes "timers_ok s xs" and "theap s p = Some t" and "length xs < fuel"
    and "flag = TIMER_ABSTIME \<or> flag = TIMER_RELTIME"
    and "0 \<le> sigev_signo (event t)" and "sigev_signo (event t) < 64"
    and "\<And>k. \<exists>h k'. os_sigaction os SIGALRM (Some TimerHandler) k = (Some h, k')"
    and "\<And>itv k. old \<noteq> None \<Longrightarrow> fst (os_setitimer os itv k) \<noteq> None"
    and "in_handler s \<Longrightarrow> single_timer s \<Longrightarrow> set xs \<subseteq> {p}"
  shows "\<exists>k now old' s' t'. now = fst (os_gettimeofday os k)
           \<and> timer_settime fuel os p flag (Some v) old s = Ret (0, old', s')
           \<and> timers_ok s' (settime_active p (\<not> is_zero (requested_value flag v now)) xs)
           \<and> theap s' p = Some t'
           \<and> next_alarm t' = add_time now (requested_value flag v now)
           \<and> interval t' = TV (ts_sec (its_interval v)) (ts_nsec (its_interval v) sdiv 1000)"
  using assms by (rule timer_settime_ok)

definition frozen_os :: "ref_os timer_os" where
  "frozen_os = ref_timer_os\<lparr>os_gettimeofday := (\<lambda>k. (TV 100 0, k))\<rparr>"

lemma frozen_os_laws:
  "\<exists>h k'. os_sigaction frozen_os SIGALRM (Some TimerHandler) k = (Some h, k')"
  "fst (os_setitimer frozen_os itv k) \<noteq> None"
  "fst (os_gettimeofday frozen_os k) = TV 100 0"
  by (simp_all add: frozen_os_def ref_timer_os_def)

abbreviation one_second :: itimerspec where
  "one_second \<equiv> \<lparr>its_interval = TS 1 0, its_value = TS 1 500000000\<rparr>"

theorem timer_settime_refines_witness:
  "\<exists>old' s' t'. timer_settime 3 frozen_os 2 TIMER_RELTIME (Some one_second) (Some one_second)
        (ref_two (TV 101 0) (TV 0 0) (TV 102 0) (TV 0 0)) = Ret (0, old', s')
     \<and> timers_ok s' [1, 2] \<and> theap s' 2 = Some t' \<and> next_alarm t' = TV 101 500000"
proof -
  let ?s = "ref_two (TV 101 0) (TV 0 0) (TV 102 0) (TV 0 0)"
  have "theap ?s 2 = Some (mk_timer 0 (TV 102 0) (TV 0 0))" "\<not> in_handler ?s"
    by (simp_all add: ref_defs)
  from timer_settime_refines [OF ref_two_ok this(1), of 3 TIMER_RELTIME frozen_os "Some one_second"
      one_second, OF _ _ _ _ frozen_os_laws(1,2)] this(2)
  show ?thesis
    by (auto simp: frozen_os_laws(3) settime_active_def requested_value_def is_zero_def mk_timer_def TIMER_ABSTIME_def
        TIMER_RELTIME_def add_time_def)
qed

text \<open>\<open>timer_delete\<close> on an allocated timer returns 0, removes the timer from the
  active list, keeps the other timers in their order, and frees the timer.
\<close>

theorem timer_delete_refines:
  assumes "timers_ok s xs" and "theap s p = Some t" and "length xs < fuel"
  shows "\<exists>s'. timer_delete fuel os p s = Ret (0, s') \<and> timers_ok s' (remove1 p xs) \<and> theap s' p = None"
  using assms by (rule timer_delete_ok)

theorem timer_delete_refines_witness:
  "\<exists>s'. timer_delete 3 ref_timer_os 1 (ref_two (TV 101 0) (TV 0 0) (TV 102 0) (TV 0 0)) = Ret (0, s')
     \<and> timers_ok s' [2] \<and> theap s' 1 = None"
proof -
  have "theap (ref_two (TV 101 0) (TV 0 0) (TV 102 0) (TV 0 0)) 1 = Some (mk_timer 2 (TV 101 0) (TV 0 0))"
    by (simp add: ref_defs)
  from timer_delete_refines [OF ref_two_ok this, of 3 ref_timer_os] show ?thesis by simp
qed

text \<open>With several timers, outside the handler, \<open>timer_settime\<close> programs the
  interval timer once (no reload) with the earliest of the new value and the times that remain
  until the alarms of the other active timers: not later than any of them, and equal to one of them.
\<close>

theorem settime_multi_earliest:
  assumes "chain (theap s) (active_timers s) xs" and "length xs < fuel" and "\<not> in_handler s"
    and "tv_norm now" and "tv_norm ival" and "0 \<le> tv_total ival"
    and "\<forall>q \<in> set xs. tv_norm (next_alarm (the (theap s q)))"
  shows "\<exists>old' s'. settime_multi fuel os p tm now ival old s = Ret (tm, old', s')
     \<and> tsys s' = snd (os_setitimer os (timeout s') (tsys s))
     \<and> it_interval (timeout s') = TV 0 0
     \<and> (\<not> is_zero ival \<longrightarrow> tv_total (it_value (timeout s')) \<le> tv_total ival)
     \<and> (\<forall>d \<in> set (remaining_times (theap s) p now xs). tv_total (it_value (timeout s')) \<le> tv_total d)
     \<and> (it_value (timeout s') = ival \<or> it_value (timeout s') \<in> set (remaining_times (theap s) p now xs))"
proof -
  let ?itv = "\<lparr>it_interval = TV 0 0, it_value = ival\<rparr>" and ?ds = "remaining_times (theap s) p now xs"
  let ?s = "s\<lparr>single_timer := False, timeout := ?itv\<rparr>"
  have norm: "tv_norm d \<and> 0 < tv_total d" if d: "d \<in> set ?ds" for d
  proof -
    from d obtain q where q: "q \<in> set xs" "d = subtract_time (next_alarm (the (theap s q))) now"
      "compare_time (next_alarm (the (theap s q))) now > 0" by (auto simp: remaining_times_def)
    with assms(4,7) show ?thesis
      by (simp add: subtract_time_norm compare_time_total(3))
  qed
  have c: "chain (theap ?s) (active_timers s) xs" using assms(1) by simp
  have "scan_earliest fuel p now (active_timers s) ?s = Ret (?s\<lparr>timeout := fold offer_timeout ?ds ?itv\<rparr>)"
    using scan_earliest_timeout [OF c assms(2), of p now] by simp
  then show ?thesis
    using assms(3) fold_offer_timeout [of ?ds ?itv, OF norm] assms(5,6) is_zero_total [of ival]
    by (auto simp: settime_multi_def)
qed

theorem settime_multi_earliest_witness:
  "\<exists>old' s'. settime_multi 3 ref_timer_os 2 zero_timer (TV 100 0) (TV 5 0) None
       (ref_two (TV 101 0) (TV 0 0) (TV 102 0) (TV 0 0)) = Ret (zero_timer, old', s')
     \<and> tv_total (it_value (timeout s')) \<le> 1000000"
proof -
  let ?s = "ref_two (TV 101 0) (TV 0 0) (TV 102 0) (TV 0 0)"
  have c: "chain (theap ?s) (active_timers ?s) [1, 2]" "\<not> in_handler ?s"
    using ref_two_ok [of "TV 101 0" "TV 0 0" "TV 102 0" "TV 0 0"] by (auto simp: ref_defs)
  have n: "\<forall>q \<in> set [1, 2]. tv_norm (next_alarm (the (theap ?s q)))"
    by (auto simp: ref_defs tv_norm_def split: if_splits)
  have r: "TV 1 0 \<in> set (remaining_times (theap ?s) 2 (TV 100 0) [1, 2])"
    by (simp add: remaining_times_def ref_defs compare_time_def subtract_time_def)
  from settime_multi_earliest [where p = 2 and os = ref_timer_os and now = "TV 100 0" and fuel = 3
      and ival = "TV 5 0" and tm = zero_timer and old = None, OF c(1) _ c(2) _ _ _ n]
  show ?thesis using r by (auto simp: tv_norm_def tv_total_def)
qed

section \<open>The signal handler\<close>

text \<open>C5 (functional). The handler with several active timers, all of which are periodic where they expire. A timer has expired when its alarm is not after the current time
  plus half a resolution (\<open>expired_at\<close>). Under the hypotheses that application handlers do not call back into the library (\<open>quiet\<close>), that the notification of every active timer
  can be carried out (\<open>callable\<close>), and that the times are normalised (an alarm may have 1000000 microseconds, as \<open>add_time\<close> leaves it),
  \<open>timer_handler\<close> returns, keeps the active list, calls the handler of every expired timer exactly once and of no other timer
  (\<open>deliver\<close> over the expired ones, in reverse list order), moves each expired timer to its next
  alarm, and programs the interval timer, without reload, with the least of the times until the alarms of the active timers; an alarm that is over counts as one
  resolution.
\<close>

theorem timer_handler_periodic:
  assumes ok: "timers_ok s xs" and multi: "\<not> single_timer s" and fuel: "length xs < fuel"
    and quiet: "quiet user f"
    and call: "\<forall>q \<in> set xs. callable (signal_handler s) (event (the (theap s q)))"
    and now: "os_gettimeofday os (tsys s) = (now, k)" and rnd: "rnd = add_time now half_resolution"
    and per: "\<forall>q \<in> set xs. expired_at rnd (the (theap s q)) \<longrightarrow> \<not> is_zero (interval (the (theap s q)))"
    and norm: "tv_norm now" "\<forall>q \<in> set xs. tv_loose (next_alarm (the (theap s q))) \<and> tv_norm (interval (the (theap s q)))"
  shows "\<exists>s'. timer_handler (Suc depth) fuel user os s = Ret s' \<and> timers_ok s' xs
     \<and> (\<forall>q \<in> set xs. \<exists>n. theap s' q = Some ((advance rnd (the (theap s q)))\<lparr>next_expired := n\<rparr>))
     \<and> it_interval (timeout s') = TV 0 0
     \<and> (xs \<noteq> [] \<longrightarrow> tv_total (it_value (timeout s')) = Min ((\<lambda>q. wait_after now rnd (the (theap s q))) ` set xs))
     \<and> tsys s' = snd (os_setitimer os (timeout s')
          (fold (\<lambda>q. deliver f (signal_handler s) (event (the (theap s q))))
             (rev (filter (\<lambda>q. expired_at rnd (the (theap s q))) xs)) k))"
proof -
  let ?s1 = "s\<lparr>in_handler := True, timeout := \<lparr>it_interval = TV 0 0, it_value = TV 0 0\<rparr>, tsys := k\<rparr>"
  let ?exp = "rev (filter (\<lambda>q. expired_at rnd (the (theap s q))) xs)"
  have d: "distinct xs" and c: "chain (theap s) (active_timers s) xs"
    using ok by (auto simp: timers_ok_def)
  from handler_scan_ok [where tp = Head and s = ?s1 and xs = xs and e = 0 and es = "[]" and now = now
      and rnd = rnd and fuel = fuel] obtain e' s2 where r:
    "handler_scan fuel now rnd Head 0 ?s1 = Ret (e', s2)"
    "active_timers s2 = active_timers s" "single_timer s2 = single_timer s" "tsys s2 = k"
    "signal_handler s2 = signal_handler s"
    "\<forall>q. q \<notin> set xs \<longrightarrow> theap s2 q = theap s q"
    "\<forall>q t. q \<in> set xs \<longrightarrow> theap s q = Some t \<longrightarrow> (\<exists>n. theap s2 q = Some ((advance rnd t)\<lparr>next_expired := n\<rparr>))"
    "timeout s2 = fold offer_timeout (map (\<lambda>q. candidate now rnd (the (theap s q))) xs)
       \<lparr>it_interval = TV 0 0, it_value = TV 0 0\<rparr>"
    "echain (theap s2) e' ?exp"
    using c d fuel per by fastforce
  have mem: "\<exists>t. theap s q = Some t" if "q \<in> set xs" for q using chain_mem [OF c that] by blast
  have ev: "event (the (theap s2 q)) = event (the (theap s q))" if "q \<in> set xs" for q
    using mem [OF that] r(7) that by (fastforce simp: advance_def)
  have "\<And>q t. q \<in> set ?exp \<Longrightarrow> theap s2 q = Some t \<Longrightarrow> callable (signal_handler s2) (event t)"
    using call ev r(5) by fastforce
  moreover have "length ?exp < fuel" using fuel by (simp add: le_less_trans [OF length_filter_le])
  ultimately have n: "notify_expired fuel self user e' s2 =
     Ret (s2\<lparr>tsys := fold (\<lambda>q. deliver f (signal_handler s2) (event (the (theap s2 q)))) ?exp (tsys s2)\<rparr>)" for self
    using r(9) quiet by (intro notify_expired_ok)
  have fold: "fold (\<lambda>q. deliver f (signal_handler s2) (event (the (theap s2 q)))) ?exp k =
      fold (\<lambda>q. deliver f (signal_handler s) (event (the (theap s q)))) ?exp k"
    using ev r(5) by (intro fold_cong) auto
  have ok2: "timers_ok s2 xs" by (rule timers_ok_scan [OF ok r(2,3,6,7)])
  let ?ds = "map (\<lambda>q. candidate now rnd (the (theap s q))) xs"
  have w: "tv_loose (candidate now rnd (the (theap s q))) \<and> 0 < tv_total (candidate now rnd (the (theap s q)))"
    "tv_total (candidate now rnd (the (theap s q))) = wait_after now rnd (the (theap s q))" if "q \<in> set xs" for q
    using candidate_wait [OF norm(1) rnd] norm(2) that by blast+
  have least: "tv_total (it_value (timeout s2)) = Min ((\<lambda>q. wait_after now rnd (the (theap s q))) ` set xs)" if "xs \<noteq> []"
  proof -
    have "tv_total (it_value (timeout s2)) = Min (tv_total ` set ?ds)"
      unfolding r(8) by (rule fold_offer_first) (use w that in \<open>auto simp: is_zero_def\<close>)
    also have "tv_total ` set ?ds = (\<lambda>q. wait_after now rnd (the (theap s q))) ` set xs"
      using w(2) by (auto simp: image_image)
    finally show ?thesis .
  qed
  have "it_interval (timeout s2) = TV 0 0" using r(8) by simp
  then show ?thesis using multi now r(1-7,9) n fold ok2 mem least
    by (auto simp: handler_body_def rnd [symmetric] Let_def)
qed

theorem timer_handler_periodic_witness:
  "\<exists>s'. timer_handler 1 3 ref_user ref_timer_os (ref_two (TV 99 0) (TV 2 0) (TV 102 0) (TV 0 0)) = Ret s'
     \<and> timers_ok s' [1, 2] \<and> r_log (tsys s') = [(10, 5)] \<and> tv_total (it_value (r_itimer (tsys s'))) = 1000000"
proof -
  let ?s = "ref_two (TV 99 0) (TV 2 0) (TV 102 0) (TV 0 0)"
  let ?f = "\<lambda>h signo v k. k\<lparr>r_log := (signo, v) # r_log k\<rparr>"
  have q: "quiet ref_user ?f" by (simp add: quiet_def ref_user_def)
  have c: "\<forall>q \<in> set [1, 2]. callable (signal_handler ?s) (event (the (theap ?s q)))"
    by (auto simp: callable_def ref_defs split: if_splits)
  have n: "os_gettimeofday ref_timer_os (tsys ?s) = (TV 100 0, tsys ?s)" by (simp add: ref_defs)
  have e: "expired_at (add_time (TV 100 0) half_resolution) (mk_timer 2 (TV 99 0) (TV 2 0))"
    "\<not> expired_at (add_time (TV 100 0) half_resolution) (mk_timer 0 (TV 102 0) (TV 0 0))"
    by (simp_all add: expired_at_def mk_timer_def add_time_def compare_time_def half_resolution_def
        TIMER_RESOLUTION_def)
  have p: "\<forall>q \<in> set [1, 2]. expired_at (add_time (TV 100 0) half_resolution) (the (theap ?s q))
      \<longrightarrow> \<not> is_zero (interval (the (theap ?s q)))"
    using e(2) by (auto simp: ref_two_def is_zero_def mk_timer_def split: if_splits)
  have h: "theap ?s 1 = Some (mk_timer 2 (TV 99 0) (TV 2 0))" "theap ?s 2 = Some (mk_timer 0 (TV 102 0) (TV 0 0))"
    "\<not> single_timer ?s" "r_log (tsys ?s) = []"
    by (simp_all add: ref_two_def ref_start_def)
  have nrm: "tv_norm (TV 100 0)" "\<forall>q \<in> set [1, 2]. tv_loose (next_alarm (the (theap ?s q))) \<and> tv_norm (interval (the (theap ?s q)))"
    using h(1,2) by (simp_all add: tv_norm_def tv_loose_def mk_timer_def)
  have w: "wait_after (TV 100 0) (add_time (TV 100 0) half_resolution) (mk_timer 2 (TV 99 0) (TV 2 0)) = 1000000"
    "wait_after (TV 100 0) (add_time (TV 100 0) half_resolution) (mk_timer 0 (TV 102 0) (TV 0 0)) = 2000000"
    using e by (simp_all add: wait_after_def mk_timer_def tv_total_def)
  have ev: "event (mk_timer 2 (TV 99 0) (TV 2 0)) = \<lparr>sigev_notify = SIGEV_SIGNAL, sigev_signo = 10, sigev_value = 5\<rparr>"
    by (simp add: mk_timer_def)
  from timer_handler_periodic [OF ref_two_ok h(3) _ q c n refl p nrm, of 3 0] obtain s' where r:
    "timer_handler 1 3 ref_user ref_timer_os ?s = Ret s'" "timers_ok s' [1, 2]"
    "tv_total (it_value (timeout s')) = 1000000"
    "tsys s' = snd (os_setitimer ref_timer_os (timeout s')
       (deliver ?f (signal_handler ?s) (event (mk_timer 2 (TV 99 0) (TV 2 0))) (tsys ?s)))"
    using e h(1,2) w by auto
  then show ?thesis using h(4) by (simp add: deliver_def ev ref_timer_os_def)
qed

text \<open>A defect. When two adjacent one-shot timers expire in the same scan, the second
  one is not unlinked: the pointer to the link moves on to the node just removed, so the second
  removal edits that node. The second timer is marked inactive and stays at the head of the
  active list, and no list describes the state any more.
\<close>

theorem adjacent_oneshots_stay_linked:
  assumes "timers_ok s [a, b]" and "theap s a = Some ta" and "theap s b = Some tb"
    and "expired_at rnd ta" and "expired_at rnd tb"
    and "is_zero (interval ta)" and "is_zero (interval tb)" and "2 < fuel"
  shows "\<exists>s'. handler_scan fuel now rnd Head 0 s = Ret (b, s') \<and> active_timers s' = b
           \<and> (\<exists>t. theap s' b = Some t \<and> running t = 0) \<and> \<not> (\<exists>xs. timers_ok s' xs)"
proof -
  from assms(8) obtain n where n: "fuel = Suc (Suc (Suc n))"
    by (metis Suc_lessE less_natE numeral_2_eq_2)
  have l: "active_timers s = a" "next_active ta = b" "next_active tb = 0" "a \<noteq> b" "a \<noteq> 0" "b \<noteq> 0"
    using assms(1-3) by (auto simp: timers_ok_def)
  define s' where "s' = tput b (tb\<lparr>running := 0, next_expired := a\<rparr>)
     (tput a (ta\<lparr>running := 0, next_expired := 0, next_active := 0\<rparr>) (s\<lparr>active_timers := b\<rparr>))"
  have "handler_scan fuel now rnd Head 0 s = Ret (b, s')"
    using assms(2-7) l unfolding n
    by (simp add: expired_at_def is_zero_def tput_def s'_def fun_upd_twist)
  moreover have "\<not> timers_ok s' xs" for xs
  proof
    assume ok: "timers_ok s' xs"
    then have "b \<in> set xs" using l by (cases xs) (auto simp: timers_ok_def s'_def)
    moreover have "theap s' b = Some (tb\<lparr>running := 0, next_expired := a\<rparr>)" by (simp add: s'_def)
    ultimately show False using timers_ok_running [OF ok] by fastforce
  qed
  ultimately show ?thesis by (simp add: s'_def)
qed

theorem adjacent_oneshots_stay_linked_witness:
  "\<exists>s'. handler_scan 3 (TV 100 0) (TV 100 5000) Head 0 (ref_two (TV 99 0) (TV 0 0) (TV 100 0) (TV 0 0)) = Ret (2, s')
     \<and> active_timers s' = 2"
proof -
  have h: "theap (ref_two (TV 99 0) (TV 0 0) (TV 100 0) (TV 0 0)) 1 = Some (mk_timer 2 (TV 99 0) (TV 0 0))"
    "theap (ref_two (TV 99 0) (TV 0 0) (TV 100 0) (TV 0 0)) 2 = Some (mk_timer 0 (TV 100 0) (TV 0 0))"
    by (simp_all add: ref_two_def)
  from adjacent_oneshots_stay_linked [OF ref_two_ok h, of "TV 100 5000" 3 "TV 100 0"] show ?thesis
    by (auto simp: expired_at_def mk_timer_def is_zero_def compare_time_def to_int_def)
qed

text \<open>A defect. While the handler of the only active timer runs, arming a second timer
  fails the assertion \<^verbatim>\<open>assert(!single_timer)\<close>: the process aborts.
\<close>

theorem settime_in_single_handler_aborts:
  assumes "timers_ok s [q]" and "single_timer s" and "in_handler s"
    and "theap s p = Some t" and "p \<noteq> q"
    and "flag = TIMER_ABSTIME \<or> flag = TIMER_RELTIME"
    and "0 \<le> sigev_signo (event t)" and "sigev_signo (event t) < 64"
    and "\<And>k. \<exists>h k'. os_sigaction os SIGALRM (Some TimerHandler) k = (Some h, k')"
  shows "timer_settime fuel os p flag (Some v) old s = Fault"
proof -
  obtain m k0 where mk: "os_sigblock os (sigmask SIGALRM) (tsys s) = (m, k0)" by fastforce
  from settime_signals_ok [OF assms(9,7,8), of "s\<lparr>tsys := k0\<rparr>"] obtain s1 where s1:
    "settime_signals os t (s\<lparr>tsys := k0\<rparr>) = Ret s1" "active_timers s1 = active_timers s"
    "single_timer s1" "in_handler s1" using assms(2,3) by auto
  have "active_timers s = q" "q \<noteq> 0" using assms(1) by (auto simp: timers_ok_def)
  with s1 mk assms(4-6) show ?thesis
    by (auto simp: timer_settime_def settime_branch_def settime_multi_def Let_def split: prod.splits)
qed

theorem settime_in_single_handler_aborts_witness:
  "timer_settime 3 ref_timer_os 2 TIMER_RELTIME (Some one_second) None
     (ref_start\<lparr>active_timers := 1, single_timer := True, in_handler := True,
        theap := [1 \<mapsto> mk_timer 0 (TV 101 0) (TV 1 0),
                  2 \<mapsto> (mk_timer 0 (TV 0 0) (TV 0 0))\<lparr>running := 0\<rparr>]\<rparr>) = Fault"
proof (rule settime_in_single_handler_aborts)
  show "timers_ok (ref_start\<lparr>active_timers := 1, single_timer := True, in_handler := True,
        theap := [1 \<mapsto> mk_timer 0 (TV 101 0) (TV 1 0),
                  2 \<mapsto> (mk_timer 0 (TV 0 0) (TV 0 0))\<lparr>running := 0\<rparr>]\<rparr>) [1]"
    by (auto simp: ref_defs split: if_splits)
qed (auto simp: ref_defs)

text \<open>C27 (round trip). After \<open>timer_settime\<close> with a relative value that is positive after it is cut to whole microseconds, \<open>timer_gettime\<close> at the
  same time returns the interval and the value that were set, cut to whole microseconds, whether or not other timers are active. The hypotheses on the system
  are those of setting a timer (\<open>sigaction\<close> accepts \<open>SIGALRM\<close>, \<open>setitimer\<close> reports the old value, the signal is below 64, inside the handler of a single timer no other is active), that the clock does not move between the two calls, and that the interval timer then reports the value it was
  set to.
\<close>

theorem settime_gettime_roundtrip:
  assumes ok: "timers_ok s xs" and t: "theap s p = Some t" and fuel: "length xs < fuel"
    and sig: "0 \<le> sigev_signo (event t)" "sigev_signo (event t) < 64"
    and act: "\<And>k. \<exists>h k'. os_sigaction os SIGALRM (Some TimerHandler) k = (Some h, k')"
    and itm: "\<And>itv k. fst (os_setitimer os itv k) \<noteq> None"
    and now: "\<And>k. fst (os_gettimeofday os k) = now" and "tv_norm now"
    and get: "\<And>m itv k. it_value (fst (os_getitimer os (snd (os_sigsetmask os m (snd (os_setitimer os itv k)))))) = it_value itv"
    and hdl: "in_handler s \<Longrightarrow> single_timer s \<Longrightarrow> set xs \<subseteq> {p}"
    and v: "ival = TV (ts_sec (its_value v)) (ts_nsec (its_value v) sdiv 1000)" "tv_norm ival" "0 < tv_total ival"
  shows "\<exists>old' s' s''. timer_settime fuel os p TIMER_RELTIME (Some v) old s = Ret (0, old', s')
     \<and> timer_gettime os p (Some o0) s' = Ret (0, Some \<lparr>its_interval =
            TS (ts_sec (its_interval v)) (ts_nsec (its_interval v) sdiv 1000 * 1000),
          its_value = TS (tv_sec ival) (tv_usec ival * 1000)\<rparr>, s'')"
proof (cases "xs = [] \<or> xs = [p]")
  case True
  have "\<not> is_zero ival" using v by (auto simp: is_zero_total)
  from timer_settime_alone [OF ok t True sig act _ v(1) this refl, of old fuel] itm obtain m k old' s' t' where r:
    "timer_settime fuel os p TIMER_RELTIME (Some v) old s = Ret (0, old', s')" "theap s' p = Some t'" "running t' \<noteq> 0" "single_timer s'"
    "interval t' = TV (ts_sec (its_interval v)) (ts_nsec (its_interval v) sdiv 1000)"
    "tsys s' = snd (os_sigsetmask os m (snd (os_setitimer os
       \<lparr>it_interval = TV (ts_sec (its_interval v)) (ts_nsec (its_interval v) sdiv 1000), it_value = ival\<rparr> k)))" by blast
  have "it_value (fst (os_getitimer os (tsys s'))) = ival" unfolding r(6) get by simp
  then show ?thesis using r(1-5) by (auto simp: timer_gettime_def Let_def to_spec_def split: prod.splits)
next
  case False
  have rv: "requested_value TIMER_RELTIME v now = ival" "\<not> is_zero ival"
    using v by (auto simp: requested_value_def TIMER_RELTIME_def TIMER_ABSTIME_def is_zero_total)
  from timer_settime_ok [where flag = TIMER_RELTIME and old = old and v = v, OF ok t fuel _ sig act _ hdl]
    itm rv now obtain old' s' t' where r:
    "timer_settime fuel os p TIMER_RELTIME (Some v) old s = Ret (0, old', s')"
    "timers_ok s' (settime_active p True xs)" "theap s' p = Some t'"
    "next_alarm t' = add_time now ival"
    "interval t' = TV (ts_sec (its_interval v)) (ts_nsec (its_interval v) sdiv 1000)" by auto
  have run: "running t' \<noteq> 0"
    using timers_ok_running [OF r(2,3)] by (auto simp: settime_active_def split: if_splits)
  have "2 \<le> length (settime_active p True xs)"
    using False by (cases xs; cases "tl xs") (auto simp: settime_active_def)
  then have multi: "\<not> single_timer s'" using r(2) by (auto simp: timers_ok_def)
  obtain k where k: "os_gettimeofday os (tsys s') = (now, k)"
    using now [of "tsys s'"] by (metis prod.collapse)
  have "subtract_time (add_time now ival) now = ival" "compare_time now (add_time now ival) < 0"
    using v(2,3) assms(9) by (auto simp: time_defs to_int_id)
  then have "timer_gettime os p (Some o0) s' = Ret (0, Some \<lparr>its_interval =
            TS (ts_sec (its_interval v)) (ts_nsec (its_interval v) sdiv 1000 * 1000),
          its_value = TS (tv_sec ival) (tv_usec ival * 1000)\<rparr>, s'\<lparr>tsys := k\<rparr>)"
    using r(3-5) run multi k by (simp add: timer_gettime_def Let_def to_spec_def)
  with r(1) show ?thesis by blast
qed

theorem settime_gettime_roundtrip_witness:
  "\<exists>old' s' s''. timer_settime 3 frozen_os 2 TIMER_RELTIME (Some one_second) None
        (ref_two (TV 101 0) (TV 0 0) (TV 102 0) (TV 0 0)) = Ret (0, old', s')
     \<and> timer_gettime frozen_os 2 (Some one_second) s' = Ret (0, Some one_second, s'')"
proof -
  let ?s = "ref_two (TV 101 0) (TV 0 0) (TV 102 0) (TV 0 0)"
  have h: "theap ?s 2 = Some (mk_timer 0 (TV 102 0) (TV 0 0))" "\<not> in_handler ?s"
    by (simp_all add: ref_defs)
  from settime_gettime_roundtrip [where fuel = 3 and v = one_second and old = None and ?o0.0 = one_second
      and ival = "TV 1 500000", OF ref_two_ok h(1) _ _ _ frozen_os_laws] h(2)
  show ?thesis
    by (auto simp: settime_active_def mk_timer_def tv_norm_def tv_total_def frozen_os_def ref_timer_os_def)
qed

definition ts_valid :: "timespec \<Rightarrow> bool" where
  "ts_valid t \<longleftrightarrow> 0 \<le> ts_sec t \<and> 0 \<le> ts_nsec t \<and> ts_nsec t < 1000000000"

lemma to_spec_valid: "tv_norm t \<Longrightarrow> 0 \<le> tv_total t \<Longrightarrow> ts_valid (to_spec t)"
  by (auto simp: ts_valid_def to_spec_def tv_norm_def tv_total_def)

text \<open>C28 (type). When the interval and the next alarm stored for an allocated timer and the times that the system reports are normalised, and the interval and the remaining
  time of the interval timer are not negative, \<open>timer_gettime\<close> returns 0 and a valid \<open>itimerspec\<close>: both parts are normalised
  and not negative, in every branch, and the timers are left as they are. (A timer that was never set has whatever interval the allocator left.)
\<close>

theorem timer_gettime_valid:
  assumes "theap s p = Some t" and "tv_norm (interval t)" and "0 \<le> tv_total (interval t)" and "tv_norm (next_alarm t)"
    and "tv_norm (fst (os_gettimeofday os (tsys s)))"
    and "tv_norm (it_value (fst (os_getitimer os (tsys s))))" "0 \<le> tv_total (it_value (fst (os_getitimer os (tsys s))))"
  shows "\<exists>v s'. timer_gettime os p (Some o0) s = Ret (0, Some v, s')
     \<and> ts_valid (its_interval v) \<and> ts_valid (its_value v) \<and> theap s' = theap s \<and> active_timers s' = active_timers s"
proof -
  have i: "ts_valid (to_spec (interval t))" "ts_valid (TS 0 0)" using assms(2,3) to_spec_valid by (auto simp: ts_valid_def)
  have g: "ts_valid (to_spec (it_value itv))" if "os_getitimer os (tsys s) = (itv, k)" for itv k
    using assms(6,7) to_spec_valid that by (metis fst_conv)
  have c: "ts_valid (to_spec (subtract_time (next_alarm t) now))"
    if "os_gettimeofday os (tsys s) = (now, k)" "\<not> compare_time now (next_alarm t) \<ge> 0" for now k
  proof (rule to_spec_valid)
    have n: "tv_norm now" using assms(5) that(1) by (metis fst_conv)
    with assms(4) show "tv_norm (subtract_time (next_alarm t) now)" by (rule subtract_time_norm)
    show "0 \<le> tv_total (subtract_time (next_alarm t) now)"
      using that(2) compare_time_total(1) [OF n assms(4)] by simp
  qed
  show ?thesis
    using assms(1) i g c by (auto simp: timer_gettime_def Let_def split: prod.splits)
qed

theorem timer_gettime_valid_witness:
  "\<exists>v s'. timer_gettime frozen_os 2 (Some one_second) (ref_two (TV 101 0) (TV 0 0) (TV 102 0) (TV 0 0)) = Ret (0, Some v, s')
     \<and> ts_valid (its_interval v) \<and> ts_valid (its_value v)"
  using timer_gettime_valid [of "ref_two (TV 101 0) (TV 0 0) (TV 102 0) (TV 0 0)" 2 "mk_timer 0 (TV 102 0) (TV 0 0)" frozen_os one_second]
  by (auto simp: ref_defs frozen_os_def tv_norm_def tv_total_def)

text \<open>A defect. A positive value below one microsecond is cut to zero: asking for
  such a delay with \<open>timer_settime\<close> disarms the timer.
\<close>

theorem settime_submicrosecond_disarms:
  assumes "timers_ok s xs" and "theap s p = Some t" and "length xs < fuel"
    and "0 \<le> sigev_signo (event t)" and "sigev_signo (event t) < 64"
    and "\<And>k. \<exists>h k'. os_sigaction os SIGALRM (Some TimerHandler) k = (Some h, k')"
    and "in_handler s \<Longrightarrow> single_timer s \<Longrightarrow> set xs \<subseteq> {p}"
    and "its_value v = TS 0 n" and "0 < n" and "n < 1000"
  shows "\<exists>old' s'. timer_settime fuel os p TIMER_RELTIME (Some v) None s = Ret (0, old', s')
           \<and> timers_ok s' (remove1 p xs)"
proof -
  have "n sdiv 1000 = 0" using assms(9,10) by (simp add: signed_divide_int_def)
  then have "is_zero (requested_value TIMER_RELTIME v now)" for now
    using assms(8) by (simp add: requested_value_def TIMER_RELTIME_def TIMER_ABSTIME_def is_zero_def)
  with timer_settime_ok [where flag = TIMER_RELTIME and old = None and v = v, OF assms(1-3) _ assms(4-6) _ assms(7)]
  show ?thesis by (auto simp: settime_active_def)
qed

theorem settime_submicrosecond_disarms_witness:
  "\<exists>old' s'. timer_settime 3 frozen_os 2 TIMER_RELTIME (Some \<lparr>its_interval = TS 0 0, its_value = TS 0 999\<rparr>) None
        (ref_two (TV 101 0) (TV 0 0) (TV 102 0) (TV 0 0)) = Ret (0, old', s') \<and> timers_ok s' [1]"
proof -
  let ?s = "ref_two (TV 101 0) (TV 0 0) (TV 102 0) (TV 0 0)"
  have h: "theap ?s 2 = Some (mk_timer 0 (TV 102 0) (TV 0 0))" "\<not> in_handler ?s"
    by (simp_all add: ref_defs)
  from settime_submicrosecond_disarms [where fuel = 3 and n = 999 and v = "\<lparr>its_interval = TS 0 0, its_value = TS 0 999\<rparr>",
      OF ref_two_ok h(1) _ _ _ frozen_os_laws(1)] h(2)
  show ?thesis by (auto simp: mk_timer_def)
qed

text \<open>
  The same conversion loses the meaning of a zero \<^verbatim>\<open>it_value\<close> with \<^verbatim>\<open>TIMER_ABSTIME\<close>: the
  current time is subtracted before the test for zero, so the timer is armed with a negative value
  instead of being disarmed.
\<close>

lemma absolute_zero_not_disarmed:
  assumes "its_value v = TS 0 0" and "tv_norm now" and "0 < tv_total now"
  shows "tv_total (requested_value TIMER_ABSTIME v now) = - tv_total now
     \<and> \<not> is_zero (requested_value TIMER_ABSTIME v now)"
proof -
  have "requested_value TIMER_ABSTIME v now = subtract_time (TV 0 0) now"
    using assms(1) by (simp add: requested_value_def signed_divide_int_def)
  moreover have "tv_norm (subtract_time (TV 0 0) now)"
    using assms(2) by (intro subtract_time_norm) (simp_all add: tv_norm_def)
  ultimately show ?thesis using assms(3) by (simp add: is_zero_total tv_total_def [of "TV 0 0"])
qed

text \<open>
  A new timer's interval is whatever the allocator left in the block: \<open>timer_gettime\<close> reports it
  before the timer is ever set.
\<close>

lemma gettime_reports_uninitialised_interval:
  assumes "timer_create os CLOCK_REALTIME (Some sp) s = (0, Some p, s')"
    and "os_malloc os (tsys s) = (Some (p, junk), k)"
  shows "timer_gettime os p (Some o0) s' =
     Ret (0, Some \<lparr>its_interval = to_spec (interval junk), its_value = TS 0 0\<rparr>, s')"
  using assms by (auto simp: timer_create_def timer_gettime_def split: if_splits)

section \<open>Clocks\<close>

text \<open>Over a settable time-of-day clock, \<open>clock_gettime\<close> after \<open>clock_settime\<close>
  returns the time set, cut to whole microseconds; every clock but \<^verbatim>\<open>CLOCK_REALTIME\<close> and every
  NULL argument is refused with \<open>EINVAL\<close> and leaves the system unchanged.
\<close>

theorem clock_set_get_roundtrip:
  assumes "\<And>t k. os_settimeofday os t k = (0, put t k)" and "\<And>t k. fst (os_gettimeofday os (put t k)) = t"
  shows "(\<exists>k' k''. clock_settime os CLOCK_REALTIME (Some ts) k = (0, EOK, k')
            \<and> clock_gettime os CLOCK_REALTIME (Some old) k'
              = (0, EOK, Some (TS (ts_sec ts) (ts_nsec ts sdiv 1000 * 1000)), k''))
     \<and> (clock \<noteq> CLOCK_REALTIME \<or> arg = None \<longrightarrow>
          clock_settime os clock arg k = (- 1, EINVAL, k) \<and> clock_gettime os clock arg k = (- 1, EINVAL, arg, k))"
proof -
  obtain k'' where "os_gettimeofday os (put (TV (ts_sec ts) (ts_nsec ts sdiv 1000)) k)
      = (TV (ts_sec ts) (ts_nsec ts sdiv 1000), k'')"
    using assms(2) by (metis prod.collapse)
  then show ?thesis
    using assms(1) by (auto simp: clock_settime_def clock_gettime_def split: option.splits)
qed

theorem clock_set_get_roundtrip_witness:
  "\<exists>k' k''. clock_settime ref_timer_os CLOCK_REALTIME (Some (TS 7 2500)) (tsys ref_start) = (0, EOK, k')
     \<and> clock_gettime ref_timer_os CLOCK_REALTIME (Some (TS 0 0)) k' = (0, EOK, Some (TS 7 2000), k'')"
  using clock_set_get_roundtrip [of ref_timer_os "\<lambda>t k. k\<lparr>r_now := t\<rparr>" "TS 7 2500" "tsys ref_start" "TS 0 0" 1 None]
  by (simp add: ref_timer_os_def signed_divide_int_def)

end
