(* ===== verification/Sysv_Sem.thy ===== *)
theory Sysv_Sem
  imports Posix_Prelude "HOL-Library.AList"
begin

text \<open>
  The interface of the System V semaphore calls that \<^verbatim>\<open>posix1b/semaphore.c\<close> is built on. The
  calls are the fields of the record \<open>sem_os\<close>, a parameter of every definition that uses them.
  The locale \<open>sysv_sem\<close> states what the manual pages \<^verbatim>\<open>semget(2)\<close>, \<^verbatim>\<open>semop(2)\<close> and
  \<^verbatim>\<open>semctl(2)\<close> promise of them, and what \<^verbatim>\<open>malloc(3)\<close> promises while memory lasts, over an abstraction of the kernel state to the values of each
  semaphore set, to the set of each key and to the heap blocks in use; an executable kernel that keeps these promises
  interprets it. \<^verbatim>\<open>SEM_UNDO\<close> acts when a process exits, which is outside the model.
\<close>

section \<open>Calls\<close>

record sembuf =
  sem_num :: nat
  sem_op :: int
  sem_flg :: flags

abbreviation SB :: "nat \<Rightarrow> int \<Rightarrow> flags \<Rightarrow> sembuf" where
  "SB n v f \<equiv> \<lparr>sem_num = n, sem_op = v, sem_flg = f\<rparr>"

text \<open>A call returns an errno (the C function returns -1) or a value; \<open>os_semop\<close> is \<open>None\<close> when
  the caller is put to sleep.\<close>

record 'k sem_os =
  os_semget :: "int \<Rightarrow> nat \<Rightarrow> flags \<Rightarrow> 'k \<Rightarrow> (errno + int) \<times> 'k"
  os_semop :: "int \<Rightarrow> sembuf list \<Rightarrow> 'k \<Rightarrow> ((errno + int) \<times> 'k) option"
  os_getval :: "int \<Rightarrow> nat \<Rightarrow> 'k \<Rightarrow> (errno + int) \<times> 'k"
  os_rmid :: "int \<Rightarrow> 'k \<Rightarrow> (errno + int) \<times> 'k"
  os_open :: "string \<Rightarrow> flags \<Rightarrow> int \<Rightarrow> 'k \<Rightarrow> (errno + int) \<times> 'k"
  os_close :: "int \<Rightarrow> 'k \<Rightarrow> (errno + int) \<times> 'k"
  os_ftok :: "string \<Rightarrow> int \<Rightarrow> 'k \<Rightarrow> (errno + int) \<times> 'k"
  os_unlink :: "string \<Rightarrow> 'k \<Rightarrow> (errno + int) \<times> 'k"
  os_malloc :: "'k \<Rightarrow> nat option \<times> 'k"
  os_reentrant :: bool

section \<open>What semop does to the values of a set\<close>

definition SEMVMX :: int where
  "SEMVMX = 32767"

datatype semres = Done "int list" | Again | Sleep | Bad errno

text \<open>
  The operations are tried in order on the values; the first that cannot proceed decides, and
  nothing is changed unless all proceed.
\<close>

fun apply_ops :: "sembuf list \<Rightarrow> int list \<Rightarrow> semres" where
  "apply_ops [] vs = Done vs"
| "apply_ops (b # bs) vs =
     (let n = sem_num b; v = vs ! n;
          stop = (if has (sem_flg b) IPC_NOWAIT then Again else Sleep)
      in if n \<ge> length vs then Bad EINVAL
         else if sem_op b = 0 then (if v = 0 then apply_ops bs vs else stop)
         else if sem_op b < 0 then (if - sem_op b \<le> v then apply_ops bs (vs[n := v + sem_op b]) else stop)
         else if v + sem_op b > SEMVMX then Bad ERANGE
         else apply_ops bs (vs[n := v + sem_op b]))"

lemma apply_ops_length: "apply_ops bs vs = Done vs' \<Longrightarrow> length vs' = length vs"
  by (induction bs arbitrary: vs) (auto simp: Let_def split: if_splits)

lemma apply_ops_range:
  assumes "\<forall>v \<in> set vs. 0 \<le> v \<and> v \<le> SEMVMX" and "apply_ops bs vs = Done vs'"
  shows "\<forall>v \<in> set vs'. 0 \<le> v \<and> v \<le> SEMVMX"
  using assms
proof (induction bs arbitrary: vs)
  case Nil
  then show ?case by simp
next
  case (Cons b bs)
  let ?n = "sem_num b" and ?v = "vs ! sem_num b + sem_op b"
  from Cons.prems(2) have n: "?n < length vs" by (auto simp: Let_def split: if_splits)
  then have v: "0 \<le> vs ! ?n" "vs ! ?n \<le> SEMVMX" using Cons.prems(1) by auto
  have "apply_ops bs vs = Done vs' \<or> (0 \<le> ?v \<and> ?v \<le> SEMVMX \<and> apply_ops bs (vs[?n := ?v]) = Done vs')"
    using Cons.prems(2) v by (auto simp: Let_def split: if_splits)
  then show ?case
    using Cons.IH [of vs] Cons.IH [of "vs[?n := ?v]"] Cons.prems(1) set_update_subset_insert [of vs ?n ?v]
    by blast
qed

section \<open>The promises of the kernel\<close>

locale sysv_sem =
  fixes os :: "('k, 'z) sem_os_scheme"
    and svals :: "'k \<Rightarrow> int \<Rightarrow> int list option"
    and skey :: "'k \<Rightarrow> int \<Rightarrow> int option"
    and live :: "'k \<Rightarrow> nat set"
  assumes semop_done: "svals k i = Some vs \<Longrightarrow> apply_ops ops vs = Done vs' \<Longrightarrow>
      \<exists>k'. os_semop os i ops k = Some (Inr 0, k') \<and> svals k' = (svals k)(i \<mapsto> vs')
         \<and> skey k' = skey k \<and> live k' = live k"
    and semop_again: "svals k i = Some vs \<Longrightarrow> apply_ops ops vs = Again \<Longrightarrow>
      os_semop os i ops k = Some (Inl EAGAIN, k)"
    and semop_sleep: "svals k i = Some vs \<Longrightarrow> apply_ops ops vs = Sleep \<Longrightarrow> os_semop os i ops k = None"
    and semop_bad: "svals k i = Some vs \<Longrightarrow> apply_ops ops vs = Bad e \<Longrightarrow>
      os_semop os i ops k = Some (Inl e, k)"
    and semop_gone: "svals k i = None \<Longrightarrow> os_semop os i ops k = Some (Inl EINVAL, k)"
    and getval_value: "svals k i = Some vs \<Longrightarrow> n < length vs \<Longrightarrow> os_getval os i n k = (Inr (vs ! n), k)"
    and getval_gone: "svals k i = None \<Longrightarrow> os_getval os i n k = (Inl EINVAL, k)"
    and rmid_removes: "svals k i = Some vs \<Longrightarrow>
      \<exists>k'. os_rmid os i k = (Inr 0, k') \<and> svals k' = (svals k)(i := None)
         \<and> (\<forall>x. skey k' x = (if skey k x = Some i then None else skey k x)) \<and> live k' = live k"
    and rmid_gone: "svals k i = None \<Longrightarrow> os_rmid os i k = (Inl EINVAL, k)"
    and semget_found: "key \<noteq> 0 \<Longrightarrow> skey k key = Some i \<Longrightarrow> svals k i = Some vs \<Longrightarrow> n \<le> length vs \<Longrightarrow>
      \<not> (has flg IPC_CREAT \<and> has flg IPC_EXCL) \<Longrightarrow> os_semget os key n flg k = (Inr i, k)"
    and semget_exists: "key \<noteq> 0 \<Longrightarrow> skey k key = Some i \<Longrightarrow> has flg IPC_CREAT \<Longrightarrow> has flg IPC_EXCL \<Longrightarrow>
      os_semget os key n flg k = (Inl EEXIST, k)"
    and semget_missing: "key \<noteq> 0 \<Longrightarrow> skey k key = None \<Longrightarrow> \<not> has flg IPC_CREAT \<Longrightarrow>
      os_semget os key n flg k = (Inl ENOENT, k)"
    and semget_new: "key = 0 \<or> (skey k key = None \<and> has flg IPC_CREAT) \<Longrightarrow> 0 < n \<Longrightarrow>
      \<exists>i k'. os_semget os key n flg k = (Inr i, k') \<and> 0 \<le> i \<and> svals k i = None
         \<and> svals k' = (svals k)(i \<mapsto> replicate n 0)
         \<and> skey k' = (if key = 0 then skey k else (skey k)(key \<mapsto> i)) \<and> live k' = live k"
    and malloc_fresh: "\<exists>p k'. os_malloc os k = (Some p, k') \<and> p \<noteq> 0 \<and> p \<notin> live k
         \<and> live k' = insert p (live k) \<and> svals k' = svals k \<and> skey k' = skey k"

section \<open>An executable kernel\<close>

text \<open>
  Sets and keys are finite maps; \<open>kfiles\<close> maps a path to its inode number, from which \<open>ftok\<close>
  derives a key as the C library does (the low 16 bits of the inode and 8 bits of the project
  identifier; the device is 0).
\<close>

record sem_kernel =
  kvals :: "(int \<times> int list) list"
  kkey :: "int \<Rightarrow> int option"
  kfiles :: "string \<Rightarrow> int option"
  kinode :: int
  kblock :: nat

definition ref_svals :: "sem_kernel \<Rightarrow> int \<Rightarrow> int list option" where
  "ref_svals k i = map_of (kvals k) i"

definition ref_semget :: "int \<Rightarrow> nat \<Rightarrow> flags \<Rightarrow> sem_kernel \<Rightarrow> (errno + int) \<times> sem_kernel" where
  "ref_semget key n flg k =
     (let new = (let i = fresh_id (kvals k)
                 in (Inr i, k\<lparr>kvals := AList.update i (replicate n 0) (kvals k),
                              kkey := (if key = 0 then kkey k else (kkey k)(key \<mapsto> i))\<rparr>))
      in if key = 0 then new
         else case kkey k key of
           Some i \<Rightarrow>
             if has flg IPC_CREAT \<and> has flg IPC_EXCL then (Inl EEXIST, k)
             else (case ref_svals k i of
                     None \<Rightarrow> (Inl EINVAL, k)
                   | Some vs \<Rightarrow> if n \<le> length vs then (Inr i, k) else (Inl EINVAL, k))
         | None \<Rightarrow> if has flg IPC_CREAT then new else (Inl ENOENT, k))"

definition ref_semop :: "int \<Rightarrow> sembuf list \<Rightarrow> sem_kernel \<Rightarrow> ((errno + int) \<times> sem_kernel) option" where
  "ref_semop i ops k =
     (case ref_svals k i of
        None \<Rightarrow> Some (Inl EINVAL, k)
      | Some vs \<Rightarrow> (case apply_ops ops vs of
            Done vs' \<Rightarrow> Some (Inr 0, k\<lparr>kvals := AList.update i vs' (kvals k)\<rparr>)
          | Again \<Rightarrow> Some (Inl EAGAIN, k)
          | Sleep \<Rightarrow> None
          | Bad e \<Rightarrow> Some (Inl e, k)))"

definition ref_getval :: "int \<Rightarrow> nat \<Rightarrow> sem_kernel \<Rightarrow> (errno + int) \<times> sem_kernel" where
  "ref_getval i n k =
     (case ref_svals k i of None \<Rightarrow> (Inl EINVAL, k)
      | Some vs \<Rightarrow> if n < length vs then (Inr (vs ! n), k) else (Inl EINVAL, k))"

definition ref_rmid :: "int \<Rightarrow> sem_kernel \<Rightarrow> (errno + int) \<times> sem_kernel" where
  "ref_rmid i k =
     (case ref_svals k i of None \<Rightarrow> (Inl EINVAL, k)
      | Some vs \<Rightarrow> (Inr 0, k\<lparr>kvals := AList.delete i (kvals k),
                             kkey := (\<lambda>x. if kkey k x = Some i then None else kkey k x)\<rparr>))"

definition ref_open :: "string \<Rightarrow> flags \<Rightarrow> int \<Rightarrow> sem_kernel \<Rightarrow> (errno + int) \<times> sem_kernel" where
  "ref_open name flg mode k =
     (case kfiles k name of
        Some i \<Rightarrow> if has flg O_CREAT \<and> has flg O_EXCL then (Inl EEXIST, k) else (Inr 3, k)
      | None \<Rightarrow> if has flg O_CREAT
                then (Inr 3, k\<lparr>kfiles := (kfiles k)(name \<mapsto> kinode k), kinode := kinode k + 1\<rparr>)
                else (Inl ENOENT, k))"

definition ref_ftok :: "string \<Rightarrow> int \<Rightarrow> sem_kernel \<Rightarrow> (errno + int) \<times> sem_kernel" where
  "ref_ftok name proj k =
     (case kfiles k name of None \<Rightarrow> (Inl ENOENT, k)
      | Some i \<Rightarrow> (Inr (i mod 65536 + (proj mod 256) * 16777216), k))"

definition ref_unlink :: "string \<Rightarrow> sem_kernel \<Rightarrow> (errno + int) \<times> sem_kernel" where
  "ref_unlink name k =
     (case kfiles k name of None \<Rightarrow> (Inl ENOENT, k)
      | Some i \<Rightarrow> (Inr 0, k\<lparr>kfiles := (kfiles k)(name := None)\<rparr>))"

definition ref_sem_os :: "bool \<Rightarrow> sem_kernel sem_os" where
  "ref_sem_os reentrant =
     \<lparr>os_semget = ref_semget, os_semop = ref_semop, os_getval = ref_getval, os_rmid = ref_rmid,
      os_open = ref_open, os_close = (\<lambda>fd k. (Inr 0, k)), os_ftok = ref_ftok, os_unlink = ref_unlink,
      os_malloc = (\<lambda>k. (Some (Suc (kblock k)), k\<lparr>kblock := Suc (kblock k)\<rparr>)), os_reentrant = reentrant\<rparr>"

definition ref_sem_boot :: sem_kernel where
  "ref_sem_boot = \<lparr>kvals = [], kkey = Map.empty, kfiles = Map.empty, kinode = 1, kblock = 1000\<rparr>"

lemmas ref_sem_defs = ref_sem_os_def ref_semget_def ref_semop_def ref_getval_def ref_rmid_def
  ref_svals_def Let_def

definition ref_live :: "sem_kernel \<Rightarrow> nat set" where
  "ref_live k = {..kblock k}"

interpretation ref_sem: sysv_sem "ref_sem_os r" ref_svals kkey ref_live for r
proof unfold_locales
  fix key :: int and k :: sem_kernel and n :: nat and flg :: flags
  assume "key = 0 \<or> (kkey k key = None \<and> has flg IPC_CREAT)"
  then show "\<exists>i k'. os_semget (ref_sem_os r) key n flg k = (Inr i, k') \<and> 0 \<le> i \<and> ref_svals k i = None
      \<and> ref_svals k' = (ref_svals k)(i \<mapsto> replicate n 0)
      \<and> kkey k' = (if key = 0 then kkey k else (kkey k)(key \<mapsto> i)) \<and> ref_live k' = ref_live k"
    using fresh_id_fresh [of "kvals k"]
    by (auto simp: ref_sem_defs ref_live_def update_conv' fun_eq_iff)
qed (auto simp: ref_sem_defs ref_live_def update_conv' delete_conv' fun_eq_iff)

end
