(* ===== verification/Posix_Sem.thy ===== *)
theory Posix_Sem
  imports Sysv_Sem
begin

text \<open>
  The semaphores of \<^verbatim>\<open>posix1b/semaphore.c\<close>: a hash table from keys to System V semaphore
  identifiers, chained through heap cells (\<open>items\<close>), and the nine POSIX functions over it. The
  \<^verbatim>\<open>sem_t\<close> objects are cells of \<open>sems\<close>; their address matters, because \<open>sem_init\<close> uses it as
  the key of a process-shared semaphore. \<open>os_reentrant\<close> says whether the file was compiled with
  \<^verbatim>\<open>_REENTRANT\<close>; then \<^verbatim>\<open>lock()\<close> and \<^verbatim>\<open>unlock()\<close> operate the file's mutex.
\<close>

section \<open>State\<close>

definition HASH_TABLE_SIZE :: int where
  "HASH_TABLE_SIZE = 253"

record hash_item =
  hnext :: nat
  hkey :: int
  hid :: int

record sem_t =
  semkey :: int
  semid :: int
  initialized :: int

record 'k sstate =
  items :: "nat \<rightharpoonup> hash_item"
  hash_table :: "nat \<Rightarrow> nat"
  sems :: "nat \<rightharpoonup> sem_t"
  mutex :: bool
  serrno :: errno
  ssys :: 'k

datatype hloc = Bucket nat | ItemNext nat

text \<open>Running a system call: an error is returned as -1 with errno set.\<close>

definition scall :: "('k \<Rightarrow> (errno + int) \<times> 'k) \<Rightarrow> 'k sstate \<Rightarrow> int \<times> 'k sstate" where
  "scall f s =
     (case f (ssys s) of
        (Inl e, k) \<Rightarrow> (- 1, s\<lparr>serrno := e, ssys := k\<rparr>)
      | (Inr v, k) \<Rightarrow> (v, s\<lparr>ssys := k\<rparr>))"

definition semop_call :: "('k, 'z) sem_os_scheme \<Rightarrow> int \<Rightarrow> sembuf list \<Rightarrow> 'k sstate \<Rightarrow> (int \<times> 'k sstate) outcome" where
  "semop_call os i ops s =
     (case os_semop os i ops (ssys s) of
        None \<Rightarrow> Block
      | Some (Inl e, k) \<Rightarrow> Ret (- 1, s\<lparr>serrno := e, ssys := k\<rparr>)
      | Some (Inr v, k) \<Rightarrow> Ret (v, s\<lparr>ssys := k\<rparr>))"

definition lock :: "('k, 'z) sem_os_scheme \<Rightarrow> 'k sstate \<Rightarrow> 'k sstate outcome" where
  "lock os s = (if os_reentrant os then (if mutex s then Block else Ret (s\<lparr>mutex := True\<rparr>)) else Ret s)"

definition unlock :: "('k, 'z) sem_os_scheme \<Rightarrow> 'k sstate \<Rightarrow> 'k sstate" where
  "unlock os s = (if os_reentrant os then s\<lparr>mutex := False\<rparr> else s)"

definition ideref :: "'k sstate \<Rightarrow> nat \<Rightarrow> hash_item outcome" where
  "ideref s p = (case items s p of None \<Rightarrow> Fault | Some it \<Rightarrow> Ret it)"

definition sderef :: "'k sstate \<Rightarrow> nat \<Rightarrow> sem_t outcome" where
  "sderef s p = (case sems s p of None \<Rightarrow> Fault | Some x \<Rightarrow> Ret x)"

text \<open>\<^verbatim>\<open>key % HASH_TABLE_SIZE\<close>, with C's truncation: a negative key is an index outside the table.\<close>

definition bucket_of :: "int \<Rightarrow> nat outcome" where
  "bucket_of key = (if key smod HASH_TABLE_SIZE < 0 then Fault else Ret (nat (key smod HASH_TABLE_SIZE)))"

section \<open>The hash table\<close>

definition insert_semid :: "('k, 'z) sem_os_scheme \<Rightarrow> int \<Rightarrow> int \<Rightarrow> 'k sstate \<Rightarrow> 'k sstate outcome" where
  "insert_semid os key i s =
     (case os_malloc os (ssys s) of
        (None, k) \<Rightarrow> Fault
      | (Some ip, k) \<Rightarrow>
          obind (bucket_of key) (\<lambda>b.
          Ret (s\<lparr>items := (items s)(ip \<mapsto> \<lparr>hnext = hash_table s b, hkey = key, hid = i\<rparr>),
                 hash_table := (hash_table s)(b := ip), ssys := k\<rparr>)))"

text \<open>The walk along one bucket's chain; \<open>Ret None\<close> is the end of the chain.\<close>

fun find_item :: "nat \<Rightarrow> int \<Rightarrow> nat \<Rightarrow> 'k sstate \<Rightarrow> int option outcome" where
  "find_item 0 key ip s = Loop"
| "find_item (Suc fuel) key ip s =
     (if ip = 0 then Ret None
      else obind (ideref s ip) (\<lambda>it.
        if hkey it = key then Ret (Some (hid it)) else find_item fuel key (hnext it) s))"

definition get_semid ::
  "nat \<Rightarrow> ('k, 'z) sem_os_scheme \<Rightarrow> nat \<Rightarrow> 'k sstate \<Rightarrow> (int \<times> 'k sstate) outcome" where
  "get_semid fuel os sem s =
     obind (sderef s sem) (\<lambda>x.
       if initialized x \<noteq> 0 then Ret (semid x, s)
       else
         let key = semkey x in
         obind (lock os s) (\<lambda>s1.
         obind (bucket_of key) (\<lambda>b.
         obind (find_item fuel key (hash_table s1 b) s1) (\<lambda>found.
           case found of
             Some i \<Rightarrow> Ret (i, unlock os s1)
           | None \<Rightarrow>
               let (i, s2) = scall (os_semget os (to_int key) 1 0) s1 in
               if i < 0 then Ret (- 1, s2)
               else obind (insert_semid os key i s2) (\<lambda>s3. Ret (- 1, unlock os s3))))))"

fun read_hloc :: "hloc \<Rightarrow> 'k sstate \<Rightarrow> nat outcome" where
  "read_hloc (Bucket b) s = Ret (hash_table s b)"
| "read_hloc (ItemNext p) s = obind (ideref s p) (\<lambda>it. Ret (hnext it))"

fun write_hloc :: "hloc \<Rightarrow> nat \<Rightarrow> 'k sstate \<Rightarrow> 'k sstate outcome" where
  "write_hloc (Bucket b) q s = Ret (s\<lparr>hash_table := (hash_table s)(b := q)\<rparr>)"
| "write_hloc (ItemNext p) q s =
     obind (ideref s p) (\<lambda>it. Ret (s\<lparr>items := (items s)(p \<mapsto> it\<lparr>hnext := q\<rparr>)\<rparr>))"

definition free_item :: "nat \<Rightarrow> 'k sstate \<Rightarrow> 'k sstate outcome" where
  "free_item p s =
     (if p = 0 then Ret s
      else case items s p of None \<Rightarrow> Fault | Some it \<Rightarrow> Ret (s\<lparr>items := (items s)(p := None)\<rparr>))"

text \<open>The loop of \<open>remove_semid\<close>: at the first match the link is redirected and then the cell the
  link now points to is freed, \<^verbatim>\<open>*ip = (*ip)->next; free(*ip);\<close>.\<close>

fun remove_walk :: "nat \<Rightarrow> int \<Rightarrow> hloc \<Rightarrow> 'k sstate \<Rightarrow> 'k sstate outcome" where
  "remove_walk 0 key ip s = Loop"
| "remove_walk (Suc fuel) key ip s =
     obind (read_hloc ip s) (\<lambda>p.
       if p = 0 then Ret s
       else obind (ideref s p) (\<lambda>it.
         if hkey it = key then
           obind (write_hloc ip (hnext it) s) (\<lambda>s1.
           obind (read_hloc ip s1) (\<lambda>q. free_item q s1))
         else remove_walk fuel key (ItemNext p) s))"

definition remove_semid :: "nat \<Rightarrow> ('k, 'z) sem_os_scheme \<Rightarrow> int \<Rightarrow> 'k sstate \<Rightarrow> 'k sstate outcome" where
  "remove_semid fuel os key s =
     obind (lock os s) (\<lambda>s1.
     obind (bucket_of key) (\<lambda>b.
     obind (remove_walk fuel key (Bucket b) s1) (\<lambda>s2. Ret (unlock os s2))))"

section \<open>The POSIX functions\<close>

text \<open>
  The do-while loop of \<open>sem_open\<close>: alternately try to initialise the set (four operations) and to
  join one that is initialised (three operations) until \<^verbatim>\<open>semop\<close> does not fail with \<open>EAGAIN\<close>.
\<close>

definition open_init_ops :: "int \<Rightarrow> sembuf list" where
  "open_init_ops init_value =
     [SB 1 0 IPC_NOWAIT, SB 1 1 0, SB 0 (to_short init_value) 0, SB 2 1 SEM_UNDO]"

definition open_join_ops :: "flags \<Rightarrow> sembuf list" where
  "open_join_ops oflag =
     [SB 1 (- 1) (if has oflag O_CREAT then IPC_NOWAIT else 0), SB 1 1 0, SB 2 1 SEM_UNDO]"

fun open_loop ::
  "nat \<Rightarrow> ('k, 'z) sem_os_scheme \<Rightarrow> flags \<Rightarrow> int \<Rightarrow> int \<Rightarrow> nat \<Rightarrow> 'k sstate \<Rightarrow> (int \<times> 'k sstate) outcome" where
  "open_loop 0 os oflag i init_value n_sops s = Loop"
| "open_loop (Suc fuel) os oflag i init_value n_sops s =
     (let initialising = (n_sops = 3 \<and> has oflag O_CREAT) in
      obind (semop_call os i (if initialising then open_init_ops init_value else open_join_ops oflag) s)
        (\<lambda>(rc, s1).
          if rc \<noteq> 0 \<and> serrno s1 = EAGAIN
          then open_loop fuel os oflag i init_value (if initialising then 4 else 3) s1
          else Ret (rc, s1)))"

text \<open>
  \<open>sem_open\<close> returns \<open>None\<close> for \<^verbatim>\<open>(sem_t*)-1\<close>. \<open>mode\<close> and \<open>value\<close> are the variadic
  arguments, read only with \<^verbatim>\<open>O_CREAT\<close>.
\<close>

definition sem_open ::
  "nat \<Rightarrow> ('k, 'z) sem_os_scheme \<Rightarrow> string option \<Rightarrow> flags \<Rightarrow> flags \<Rightarrow> int \<Rightarrow> 'k sstate
     \<Rightarrow> (nat option \<times> 'k sstate) outcome" where
  "sem_open fuel os name oflag mode_arg value_arg s =
     (let (key, s1) =
        (case name of
           None \<Rightarrow> (0, s)
         | Some n \<Rightarrow>
             let (fd, s0) = scall (os_open os n (O_WRONLY OR O_CREAT) 511) s in
             if fd < 0 then (- 1, s0)
             else scall (os_ftok os n 0) (snd (scall (os_close os fd) s0)))
      in if key < 0 then Ret (None, s1)
         else
           let mode = (if has oflag O_CREAT then mode_arg OR IPC_CREAT else 0);
               init_value = (if has oflag O_CREAT then to_int value_arg else 0)
           in if init_value < 0 then Ret (None, s1\<lparr>serrno := EINVAL\<rparr>)
              else
                let flg = (if has oflag O_EXCL then mode OR IPC_EXCL else mode);
                    (i, s2) = scall (os_semget os key 3 flg) s1
                in if i < 0 then Ret (None, s2)
                   else obind (open_loop fuel os oflag i init_value 3 s2) (\<lambda>(rc, s3).
                     if rc \<noteq> 0 then Ret (None, s3)
                     else case os_malloc os (ssys s3) of
                       (None, k) \<Rightarrow> Fault
                     | (Some p, k) \<Rightarrow>
                         Ret (Some p, s3\<lparr>sems := (sems s3)(p \<mapsto> \<lparr>semkey = key, semid = i, initialized = 1\<rparr>),
                                         ssys := k\<rparr>)))"

text \<open>The test \<^verbatim>\<open>value < 0\<close> on the unsigned argument of \<open>sem_init\<close> is never true.\<close>

definition sem_init ::
  "('k, 'z) sem_os_scheme \<Rightarrow> nat \<Rightarrow> int \<Rightarrow> 32 word \<Rightarrow> 'k sstate \<Rightarrow> (int \<times> 'k sstate) outcome" where
  "sem_init os sem pshared val s =
     obind (sderef s sem) (\<lambda>x.
       let key = (if pshared \<noteq> 0 then int sem else 0);
           s1 = s\<lparr>sems := (sems s)(sem \<mapsto> x\<lparr>semkey := key, initialized := 0\<rparr>)\<rparr>;
           (i, s2) = scall (os_semget os (to_int key) 1 (IPC_CREAT OR 511)) s1
       in if i < 0 then Ret (- 1, s2)
          else
            obind (if val \<noteq> 0 then semop_call os i [SB 0 (to_short (uint val)) 0] s2 else Ret (0, s2))
              (\<lambda>(rc, s3).
                if rc \<noteq> 0 then Ret (- 1, s3)
                else obind (lock os s3) (\<lambda>s4.
                     obind (insert_semid os key i s4) (\<lambda>s5. Ret (0, unlock os s5)))))"

definition sem_post :: "nat \<Rightarrow> ('k, 'z) sem_os_scheme \<Rightarrow> nat \<Rightarrow> 'k sstate \<Rightarrow> (int \<times> 'k sstate) outcome" where
  "sem_post fuel os sem s = obind (get_semid fuel os sem s) (\<lambda>(i, s1). semop_call os i [SB 0 1 0] s1)"

definition sem_getvalue ::
  "nat \<Rightarrow> ('k, 'z) sem_os_scheme \<Rightarrow> nat \<Rightarrow> int option \<Rightarrow> 'k sstate \<Rightarrow> (int \<times> int option \<times> 'k sstate) outcome" where
  "sem_getvalue fuel os sem sval s =
     (if sval = None then Ret (- 1, None, s\<lparr>serrno := EINVAL\<rparr>)
      else obind (get_semid fuel os sem s) (\<lambda>(i, s1).
        let (result, s2) = scall (os_getval os i 0) s1
        in if result = - 1 then Ret (- 1, sval, s2) else Ret (0, Some result, s2)))"

definition sem_wait :: "nat \<Rightarrow> ('k, 'z) sem_os_scheme \<Rightarrow> nat \<Rightarrow> 'k sstate \<Rightarrow> (int \<times> 'k sstate) outcome" where
  "sem_wait fuel os sem s = obind (get_semid fuel os sem s) (\<lambda>(i, s1). semop_call os i [SB 0 (- 1) 0] s1)"

definition sem_trywait :: "nat \<Rightarrow> ('k, 'z) sem_os_scheme \<Rightarrow> nat \<Rightarrow> 'k sstate \<Rightarrow> (int \<times> 'k sstate) outcome" where
  "sem_trywait fuel os sem s =
     obind (get_semid fuel os sem s) (\<lambda>(i, s1). semop_call os i [SB 0 (- 1) IPC_NOWAIT] s1)"

definition sem_unlink :: "('k, 'z) sem_os_scheme \<Rightarrow> string \<Rightarrow> 'k sstate \<Rightarrow> (int \<times> 'k sstate) outcome" where
  "sem_unlink os name s =
     (let (key, s1) = scall (os_ftok os name 0) s in
      if key < 0 then Ret (- 1, s1)
      else
        let (i, s2) = scall (os_semget os key 1 0) s1 in
        if i < 0 then Ret (- 1, s2)
        else
          let (_, s3) = scall (os_unlink os name) s2 in
          obind (semop_call os i [SB 1 (- 1) 0] s3) (\<lambda>(_, s4).
          obind (semop_call os i [SB 2 0 IPC_NOWAIT] s4) (\<lambda>(rc, s5).
          Ret (0, if rc = 0 then snd (scall (os_rmid os i) s5) else s5))))"

definition sem_close :: "nat \<Rightarrow> ('k, 'z) sem_os_scheme \<Rightarrow> nat \<Rightarrow> 'k sstate \<Rightarrow> (int \<times> 'k sstate) outcome" where
  "sem_close fuel os sem s =
     obind (get_semid fuel os sem s) (\<lambda>(i, s1).
     obind (semop_call os i [SB 2 (- 1) SEM_UNDO] s1) (\<lambda>(_, s2).
     obind (semop_call os i [SB 2 0 IPC_NOWAIT, SB 1 0 IPC_NOWAIT] s2) (\<lambda>(rc, s3).
       let s4 = (if rc = 0 then snd (scall (os_rmid os i) s3) else s3)
       in case sems s4 sem of None \<Rightarrow> Fault | Some x \<Rightarrow> Ret (0, s4\<lparr>sems := (sems s4)(sem := None)\<rparr>))))"

definition sem_destroy :: "nat \<Rightarrow> ('k, 'z) sem_os_scheme \<Rightarrow> nat \<Rightarrow> 'k sstate \<Rightarrow> (int \<times> 'k sstate) outcome" where
  "sem_destroy fuel os sem s =
     obind (get_semid fuel os sem s) (\<lambda>(i, s1).
     obind (sderef s1 sem) (\<lambda>x.
     obind (remove_semid fuel os (semkey x) s1) (\<lambda>s2. Ret (scall (os_rmid os i) s2))))"

end
