(* ===== verification/Sem_Contract.thy ===== *)
theory Sem_Contract
  imports Posix_Prelude
begin

text \<open>
  The interface between a provider of POSIX semaphores and the programs that synchronise with
  them. The programs take the calls as the record \<open>sem_api\<close>, over semaphores named by a type
  \<open>'i\<close>; the locale \<open>sem_store\<close> states the contract of initialising, waiting, posting and reading. \<open>ok I w\<close> says
  that the semaphores in \<open>I\<close> are initialised in the world \<open>w\<close>; \<open>names\<close> are the semaphores there
  is room for. A call that fails returns -1; one that
  has to wait is \<open>Block\<close>. A provider is \<^verbatim>\<open>posix1b/semaphore.c\<close> (theory \<open>Sem_Laws\<close>).
\<close>

record ('i, 'w) sem_api =
  a_init :: "'i \<Rightarrow> int \<Rightarrow> 32 word \<Rightarrow> 'w \<Rightarrow> (int \<times> 'w) outcome"
  a_wait :: "'i \<Rightarrow> 'w \<Rightarrow> (int \<times> 'w) outcome"
  a_post :: "'i \<Rightarrow> 'w \<Rightarrow> (int \<times> 'w) outcome"
  a_getvalue :: "'i \<Rightarrow> 'w \<Rightarrow> (int \<times> int option \<times> 'w) outcome"
  a_destroy :: "'i \<Rightarrow> 'w \<Rightarrow> (int \<times> 'w) outcome"

text \<open>\<open>upd_on I f g i v\<close>: on \<open>I\<close>, the values \<open>g\<close> are \<open>f\<close> with \<open>i\<close> set to \<open>v\<close>.\<close>

definition upd_on :: "'i set \<Rightarrow> ('i \<Rightarrow> nat) \<Rightarrow> ('i \<Rightarrow> nat) \<Rightarrow> 'i \<Rightarrow> nat \<Rightarrow> bool" where
  "upd_on I f g i v \<longleftrightarrow> (\<forall>j \<in> I. g j = (if j = i then v else f j))"

lemma upd_on_UNIV [simp]: "upd_on UNIV f g i v \<longleftrightarrow> g = f(i := v)"
  by (auto simp: upd_on_def fun_eq_iff)

locale sem_store =
  fixes api :: "('i, 'w) sem_api"
    and ok :: "'i set \<Rightarrow> 'w \<Rightarrow> bool"
    and sval :: "'w \<Rightarrow> 'i \<Rightarrow> nat"
    and maxval :: nat
    and names :: "'i set"
  assumes wait_pos: "ok I w \<Longrightarrow> i \<in> I \<Longrightarrow> 0 < sval w i \<Longrightarrow>
      \<exists>w'. a_wait api i w = Ret (0, w') \<and> ok I w' \<and> upd_on I (sval w) (sval w') i (sval w i - 1)"
    and wait_zero: "ok I w \<Longrightarrow> i \<in> I \<Longrightarrow> sval w i = 0 \<Longrightarrow> a_wait api i w = Block"
    and post_below: "ok I w \<Longrightarrow> i \<in> I \<Longrightarrow> sval w i < maxval \<Longrightarrow>
      \<exists>w'. a_post api i w = Ret (0, w') \<and> ok I w' \<and> upd_on I (sval w) (sval w') i (sval w i + 1)"
    and getvalue_reads: "ok I w \<Longrightarrow> i \<in> I \<Longrightarrow> a_getvalue api i w = Ret (0, Some (int (sval w i)), w)"
    and init_sets: "ok I w \<Longrightarrow> i \<in> names \<Longrightarrow> i \<notin> I \<Longrightarrow> unat v \<le> maxval \<Longrightarrow>
      \<exists>w'. a_init api i 1 v w = Ret (0, w') \<and> ok (insert i I) w'
         \<and> upd_on (insert i I) (sval w) (sval w') i (unat v)"
    and maxval_posix: "32767 \<le> maxval"
begin

lemma wait_RetD:
  assumes "ok UNIV w" and "a_wait api i w = Ret (rc, w')"
  shows "rc = 0 \<and> 0 < sval w i \<and> ok UNIV w' \<and> sval w' = (sval w)(i := sval w i - 1)"
proof (cases "sval w i = 0")
  case True
  with wait_zero [OF assms(1) UNIV_I True] assms(2) show ?thesis by simp
next
  case False
  with wait_pos [OF assms(1), of i] assms(2) show ?thesis by auto
qed

lemma post_RetD:
  assumes "ok UNIV w" and "sval w i < maxval" and "a_post api i w = Ret (rc, w')"
  shows "rc = 0 \<and> ok UNIV w' \<and> sval w' = (sval w)(i := sval w i + 1)"
  using post_below [OF assms(1) UNIV_I assms(2)] assms(3) by auto

lemma wait_enabled: "ok UNIV w \<Longrightarrow> (\<exists>r. a_wait api i w = Ret r) \<longleftrightarrow> 0 < sval w i"
  using wait_pos [of UNIV w i] wait_zero [of UNIV w i] by fastforce

lemma post_enabled: "ok UNIV w \<Longrightarrow> sval w i < maxval \<Longrightarrow> \<exists>r. a_post api i w = Ret r"
  using post_below [of UNIV w i] by fastforce

end

text \<open>The plain store: an optional value for every name.\<close>

definition plain_api :: "('i, 'i \<Rightarrow> nat option) sem_api" where
  "plain_api =
     \<lparr>a_init = (\<lambda>i _ v w. Ret (0, w(i \<mapsto> unat v))),
      a_wait = (\<lambda>i w. case w i of None \<Rightarrow> Ret (- 1, w) | Some n \<Rightarrow> if n = 0 then Block else Ret (0, w(i \<mapsto> n - 1))),
      a_post = (\<lambda>i w. case w i of None \<Rightarrow> Ret (- 1, w) | Some n \<Rightarrow> Ret (0, w(i \<mapsto> n + 1))),
      a_getvalue = (\<lambda>i w. case w i of None \<Rightarrow> Ret (- 1, None, w) | Some n \<Rightarrow> Ret (0, Some (int n), w)),
      a_destroy = (\<lambda>i w. Ret (0, w(i := None)))\<rparr>"

interpretation plain: sem_store plain_api "\<lambda>I w. I \<subseteq> dom w" "\<lambda>w i. the (w i)" 32767 names for names
  by unfold_locales (auto simp: plain_api_def upd_on_def subset_iff dom_def split: option.splits)

end
