(* ===== verification/Sem_Laws.thy ===== *)
theory Sem_Laws
  imports Posix_Sem Sem_Contract
begin

text \<open>
  Lemmas on \<open>Posix_Sem\<close>: the chains of the hash table, looking a key up and inserting one, and
  the counting behaviour of the semaphore functions over any kernel that keeps the promises of
  \<open>sysv_sem\<close>. The last section shows that \<open>sem_wait\<close> and \<open>sem_post\<close> provide the contract
  \<open>sem_store\<close>.
\<close>

section \<open>Chains of the hash table\<close>

primrec hchain :: "(nat \<rightharpoonup> hash_item) \<Rightarrow> nat \<Rightarrow> nat list \<Rightarrow> bool" where
  "hchain h p [] \<longleftrightarrow> p = 0"
| "hchain h p (x # xs) \<longleftrightarrow>
     p = x \<and> x \<noteq> 0 \<and> (case h x of None \<Rightarrow> False | Some it \<Rightarrow> hchain h (hnext it) xs)"

definition entries :: "(nat \<rightharpoonup> hash_item) \<Rightarrow> nat list \<Rightarrow> (int \<times> int) list" where
  "entries h xs = map (\<lambda>p. (hkey (the (h p)), hid (the (h p)))) xs"

text \<open>The cells of every bucket, and what the table maps a key to.\<close>

definition table_ok :: "'k sstate \<Rightarrow> (nat \<Rightarrow> nat list) \<Rightarrow> bool" where
  "table_ok s ch \<longleftrightarrow> (\<forall>b < 253. hchain (items s) (hash_table s b) (ch b))"

definition table_map :: "'k sstate \<Rightarrow> (nat \<Rightarrow> nat list) \<Rightarrow> int \<Rightarrow> int option" where
  "table_map s ch key = map_of (entries (items s) (ch (nat (key mod 253)))) key"

lemma ideref_Some [simp]: "items s p = Some it \<Longrightarrow> ideref s p = Ret it"
  by (simp add: ideref_def)

lemma sderef_Some [simp]: "sems s p = Some x \<Longrightarrow> sderef s p = Ret x"
  by (simp add: sderef_def)

lemma hchain_upd: "hchain h p xs \<Longrightarrow> q \<notin> set xs \<Longrightarrow> hchain (h(q \<mapsto> it)) p xs"
  by (induction xs arbitrary: p) (auto split: option.splits)

lemma entries_simps [simp]:
  "entries h [] = []"
  "entries h (p # xs) = (hkey (the (h p)), hid (the (h p))) # entries h xs"
  by (simp_all add: entries_def)

lemma entries_upd: "q \<notin> set xs \<Longrightarrow> entries (h(q \<mapsto> it)) xs = entries h xs"
  by (auto simp: entries_def)

lemma hchain_mem: "hchain h p xs \<Longrightarrow> q \<in> set xs \<Longrightarrow> \<exists>it. h q = Some it"
  by (induction xs arbitrary: p) (auto split: option.splits)

lemma bucket_of_nonneg: "0 \<le> key \<Longrightarrow> bucket_of key = Ret (nat (key mod 253))"
  by (cases "key = 0") (simp_all add: bucket_of_def HASH_TABLE_SIZE_def signed_modulo_int_def)

lemma bucket_less: "0 \<le> key \<Longrightarrow> nat (key mod 253) < 253"
  by (simp add: nat_less_iff)

lemma find_item_chain:
  assumes "hchain (items s) ip xs" and "length xs < fuel"
  shows "find_item fuel key ip s = Ret (map_of (entries (items s) xs) key)"
  using assms
proof (induction xs arbitrary: ip fuel)
  case Nil
  then show ?case by (cases fuel) auto
next
  case (Cons x xs)
  then obtain n it where "fuel = Suc n" "length xs < n" "items s x = Some it" "ip = x" "x \<noteq> 0"
    "hchain (items s) (hnext it) xs"
    by (cases fuel) (auto split: option.splits)
  with Cons.IH [of "hnext it" n] show ?case by auto
qed

section \<open>Looking up and inserting\<close>

lemma get_semid_direct: "sems s sem = Some x \<Longrightarrow> initialized x \<noteq> 0 \<Longrightarrow> get_semid fuel os sem s = Ret (semid x, s)"
  by (simp add: get_semid_def)

lemma lock_unlock:
  assumes "\<not> mutex s"
  obtains s1 where "lock os s = Ret s1" and "unlock os s1 = s" and "items s1 = items s"
    and "hash_table s1 = hash_table s" and "ssys s1 = ssys s" and "sems s1 = sems s"
    and "\<And>e k. unlock os (s1\<lparr>serrno := e, ssys := k\<rparr>) = s\<lparr>serrno := e, ssys := k\<rparr>"
proof (cases "os_reentrant os")
  case True
  with assms show thesis
    by (intro that [of "s\<lparr>mutex := True\<rparr>"]) (auto simp: lock_def unlock_def)
next
  case False
  then show thesis by (intro that [of s]) (auto simp: lock_def unlock_def)
qed

lemma get_semid_found:
  assumes "sems s sem = Some x" and "initialized x = 0" and "0 \<le> semkey x" and "\<not> mutex s"
    and "table_ok s ch" and "length (ch (nat (semkey x mod 253))) < fuel"
    and "table_map s ch (semkey x) = Some i"
  shows "get_semid fuel os sem s = Ret (i, s)"
proof -
  obtain s1 where l: "lock os s = Ret s1" "unlock os s1 = s" "items s1 = items s"
    "hash_table s1 = hash_table s" by (rule lock_unlock [OF assms(4), of os]) blast
  let ?b = "nat (semkey x mod 253)"
  have "hchain (items s1) (hash_table s1 ?b) (ch ?b)"
    using assms(3,5) l by (simp add: table_ok_def bucket_less)
  from find_item_chain [OF this assms(6)] show ?thesis
    using assms(1,2,3,7) l by (simp add: get_semid_def bucket_of_nonneg table_map_def)
qed

lemma insert_semid_ok:
  assumes "os_malloc os (ssys s) = (Some ip, k)" and "0 \<le> key" and "ip \<noteq> 0"
    and ok: "table_ok s ch" and fresh: "\<And>b. b < 253 \<Longrightarrow> ip \<notin> set (ch b)"
  shows "\<exists>s'. insert_semid os key i s = Ret s'
     \<and> table_ok s' (ch(nat (key mod 253) := ip # ch (nat (key mod 253))))
     \<and> table_map s' (ch(nat (key mod 253) := ip # ch (nat (key mod 253)))) key = Some i
     \<and> (\<forall>key' \<ge> 0. key' \<noteq> key \<longrightarrow>
          table_map s' (ch(nat (key mod 253) := ip # ch (nat (key mod 253)))) key' = table_map s ch key')
     \<and> sems s' = sems s \<and> ssys s' = k \<and> mutex s' = mutex s"
proof -
  let ?b = "nat (key mod 253)"
  let ?it = "\<lparr>hnext = hash_table s ?b, hkey = key, hid = i\<rparr>"
  let ?s = "s\<lparr>items := (items s)(ip \<mapsto> ?it), hash_table := (hash_table s)(?b := ip), ssys := k\<rparr>"
  have r: "insert_semid os key i s = Ret ?s"
    using assms(1,2) by (simp add: insert_semid_def bucket_of_nonneg)
  have b: "?b < 253" using assms(2) by (rule bucket_less)
  have h: "hchain ((items s)(ip \<mapsto> ?it)) (hash_table s c) (ch c)" if "c < 253" for c
    using ok fresh that by (intro hchain_upd) (auto simp: table_ok_def)
  have e: "entries ((items s)(ip \<mapsto> ?it)) (ch c) = entries (items s) (ch c)" if "c < 253" for c
    using fresh that by (intro entries_upd) auto
  have "table_ok ?s (ch(?b := ip # ch ?b))"
    using h b assms(3) by (auto simp: table_ok_def)
  moreover have "table_map ?s (ch(?b := ip # ch ?b)) key' = table_map s ch key'" if "0 \<le> key'" "key' \<noteq> key" for key'
    using that e [OF bucket_less [OF that(1)]] e [OF b]
    by (auto simp: table_map_def simp del: fun_upd_apply)
       (auto simp: fun_upd_def [of ch])
  ultimately show ?thesis using r by (auto simp: table_map_def)
qed

section \<open>Counting\<close>

text \<open>
  \<open>bound_to\<close>: the object at address \<open>sem\<close> stands for the kernel's set \<open>i\<close>, whatever the system
  and errno are. An object made by \<open>sem_open\<close> is bound by its own field, one made by \<open>sem_init\<close>
  through the table.
\<close>

definition bound_to :: "nat \<Rightarrow> ('k, 'z) sem_os_scheme \<Rightarrow> 'k sstate \<Rightarrow> nat \<Rightarrow> int \<Rightarrow> bool" where
  "bound_to fuel os s sem i \<longleftrightarrow>
     (\<forall>e k. get_semid fuel os sem (s\<lparr>serrno := e, ssys := k\<rparr>) = Ret (i, s\<lparr>serrno := e, ssys := k\<rparr>))"

lemma bound_to_get: "bound_to fuel os s sem i \<Longrightarrow> get_semid fuel os sem s = Ret (i, s)"
  unfolding bound_to_def by (drule spec [of _ "serrno s"], drule spec [of _ "ssys s"]) simp

lemma bound_to_frame [simp]:
  "bound_to fuel os (s\<lparr>ssys := k\<rparr>) sem i = bound_to fuel os s sem i"
  "bound_to fuel os (s\<lparr>serrno := e\<rparr>) sem i = bound_to fuel os s sem i"
  by (simp_all add: bound_to_def)

lemma bound_to_direct:
  "sems s sem = Some x \<Longrightarrow> initialized x \<noteq> 0 \<Longrightarrow> bound_to fuel os s sem (semid x)"
  by (simp add: bound_to_def get_semid_direct)

lemma bound_to_found:
  assumes "sems s sem = Some x" and "initialized x = 0" and "0 \<le> semkey x" and "\<not> mutex s"
    and "table_ok s ch" and "length (ch (nat (semkey x mod 253))) < fuel"
    and "table_map s ch (semkey x) = Some i"
  shows "bound_to fuel os s sem i"
  unfolding bound_to_def
  using assms by (intro allI get_semid_found) (auto simp: table_ok_def table_map_def)

context sysv_sem
begin

lemma semop_call_done:
  assumes "svals (ssys s) i = Some vs" and "apply_ops ops vs = Done vs'"
  shows "\<exists>k. semop_call os i ops s = Ret (0, s\<lparr>ssys := k\<rparr>)
     \<and> svals k = (svals (ssys s))(i \<mapsto> vs') \<and> skey k = skey (ssys s) \<and> live k = live (ssys s)"
  using semop_done [OF assms] by (auto simp: semop_call_def)

lemma semop_call_again:
  assumes "svals (ssys s) i = Some vs" and "apply_ops ops vs = Again"
  shows "semop_call os i ops s = Ret (- 1, s\<lparr>serrno := EAGAIN\<rparr>)"
  using semop_again [OF assms] by (simp add: semop_call_def)

lemma semop_call_sleep:
  assumes "svals (ssys s) i = Some vs" and "apply_ops ops vs = Sleep"
  shows "semop_call os i ops s = Block"
  using semop_sleep [OF assms] by (simp add: semop_call_def)

lemma sem_post_counts:
  assumes "bound_to fuel os s sem i" and "svals (ssys s) i = Some (v # vs)" and "0 \<le> v" and "v < SEMVMX"
  shows "\<exists>k. sem_post fuel os sem s = Ret (0, s\<lparr>ssys := k\<rparr>)
     \<and> svals k = (svals (ssys s))(i \<mapsto> (v + 1) # vs) \<and> skey k = skey (ssys s) \<and> live k = live (ssys s)"
  using semop_call_done [OF assms(2), of "[SB 0 1 0]"] assms(3,4) bound_to_get [OF assms(1)]
  by (simp add: sem_post_def)

lemma sem_wait_counts:
  assumes "bound_to fuel os s sem i" and "svals (ssys s) i = Some (v # vs)" and "0 < v"
  shows "\<exists>k. sem_wait fuel os sem s = Ret (0, s\<lparr>ssys := k\<rparr>)
     \<and> svals k = (svals (ssys s))(i \<mapsto> (v - 1) # vs) \<and> skey k = skey (ssys s) \<and> live k = live (ssys s)"
  using semop_call_done [OF assms(2), of "[SB 0 (- 1) 0]"] assms(3) bound_to_get [OF assms(1)]
  by (simp add: sem_wait_def)

lemma sem_wait_blocks:
  assumes "bound_to fuel os s sem i" and "svals (ssys s) i = Some (0 # vs)"
  shows "sem_wait fuel os sem s = Block"
  using semop_call_sleep [OF assms(2), of "[SB 0 (- 1) 0]"] bound_to_get [OF assms(1)]
  by (simp add: sem_wait_def has_def)

lemma sem_trywait_counts:
  assumes "bound_to fuel os s sem i" and "svals (ssys s) i = Some (v # vs)" and "0 < v"
  shows "\<exists>k. sem_trywait fuel os sem s = Ret (0, s\<lparr>ssys := k\<rparr>)
     \<and> svals k = (svals (ssys s))(i \<mapsto> (v - 1) # vs) \<and> skey k = skey (ssys s) \<and> live k = live (ssys s)"
  using semop_call_done [OF assms(2), of "[SB 0 (- 1) IPC_NOWAIT]"] assms(3) bound_to_get [OF assms(1)]
  by (simp add: sem_trywait_def)

lemma sem_trywait_again:
  assumes "bound_to fuel os s sem i" and "svals (ssys s) i = Some (0 # vs)"
  shows "sem_trywait fuel os sem s = Ret (- 1, s\<lparr>serrno := EAGAIN\<rparr>)"
  using semop_call_again [OF assms(2), of "[SB 0 (- 1) IPC_NOWAIT]"] bound_to_get [OF assms(1)]
  by (simp add: sem_trywait_def has_def flag_simps)

lemma sem_getvalue_value:
  assumes "bound_to fuel os s sem i" and "svals (ssys s) i = Some (v # vs)" and "0 \<le> v"
  shows "sem_getvalue fuel os sem (Some x) s = Ret (0, Some v, s)"
  using getval_value [OF assms(2), of 0] bound_to_get [OF assms(1)] assms(3)
  by (simp add: sem_getvalue_def scall_def)

end

section \<open>Initialising a semaphore\<close>

text \<open>The cells of the table are blocks in use; new blocks are different from them.\<close>

definition table_in :: "nat set \<Rightarrow> (nat \<Rightarrow> nat list) \<Rightarrow> bool" where
  "table_in blocks ch \<longleftrightarrow> (\<forall>b < 253. set (ch b) \<subseteq> blocks)"

definition init_key :: "nat \<Rightarrow> int \<Rightarrow> int" where
  "init_key sem pshared = (if pshared \<noteq> 0 then int sem else 0)"

context sysv_sem
begin

lemma insert_semid_live:
  assumes "table_ok s ch" and "table_in (live (ssys s)) ch" and "0 \<le> key"
  shows "\<exists>ip s' ch'. insert_semid os key i s = Ret s' \<and> ch' = ch(nat (key mod 253) := ip # ch (nat (key mod 253)))
     \<and> table_ok s' ch' \<and> table_in (live (ssys s')) ch' \<and> table_map s' ch' key = Some i
     \<and> (\<forall>key' \<ge> 0. key' \<noteq> key \<longrightarrow> table_map s' ch' key' = table_map s ch key')
     \<and> sems s' = sems s \<and> mutex s' = mutex s
     \<and> svals (ssys s') = svals (ssys s) \<and> skey (ssys s') = skey (ssys s)"
proof -
  from malloc_fresh [of "ssys s"] obtain ip k where m: "os_malloc os (ssys s) = (Some ip, k)" "ip \<noteq> 0"
    "ip \<notin> live (ssys s)" "live k = insert ip (live (ssys s))" "svals k = svals (ssys s)"
    "skey k = skey (ssys s)" by blast
  have "\<And>b. b < 253 \<Longrightarrow> ip \<notin> set (ch b)" using m(3) assms(2) by (auto simp: table_in_def)
  from insert_semid_ok [OF m(1) assms(3) m(2) assms(1) this, of i] obtain s' where
    "insert_semid os key i s = Ret s'"
    "table_ok s' (ch(nat (key mod 253) := ip # ch (nat (key mod 253))))"
    "table_map s' (ch(nat (key mod 253) := ip # ch (nat (key mod 253)))) key = Some i"
    "\<forall>key' \<ge> 0. key' \<noteq> key \<longrightarrow>
       table_map s' (ch(nat (key mod 253) := ip # ch (nat (key mod 253)))) key' = table_map s ch key'"
    "sems s' = sems s" "ssys s' = k" "mutex s' = mutex s" by blast
  moreover have "table_in (live k) (ch(nat (key mod 253) := ip # ch (nat (key mod 253))))"
    using assms(2) m(4) by (auto simp: table_in_def)
  ultimately show ?thesis using m(5,6) by (auto intro!: exI [of _ s'] exI [of _ ip])
qed

lemma sem_init_semop:
  assumes "svals (ssys s) i = Some [0]" and "0 \<le> uint val" and "uint val \<le> SEMVMX"
  shows "\<exists>k. (if val \<noteq> 0 then semop_call os i [SB 0 (to_short (uint val)) 0] s else Ret (0, s))
       = Ret (0, s\<lparr>ssys := k\<rparr>)
     \<and> svals k = (svals (ssys s))(i \<mapsto> [uint val]) \<and> skey k = skey (ssys s) \<and> live k = live (ssys s)"
proof (cases "val = 0")
  case True
  then show ?thesis using assms(1) by (intro exI [of _ "ssys s"]) auto
next
  case False
  then have "0 < uint val" using assms(2) by (metis le_less uint_0_iff)
  moreover have "to_short (uint val) = uint val"
    using \<open>0 < uint val\<close> assms(3) unfolding SEMVMX_def by (intro to_short_id) linarith+
  ultimately show ?thesis
    using semop_call_done [OF assms(1), of "[SB 0 (to_short (uint val)) 0]" "[uint val]"] False assms(3) by simp
qed

lemma sem_init_ok:
  assumes x: "sems s sem = Some x" and key: "key = init_key sem pshared" and addr: "int sem < 2147483648"
    and new: "key = 0 \<or> skey (ssys s) key = None" and ok: "table_ok s ch"
    and inb: "table_in (live (ssys s)) ch" and m: "\<not> mutex s" and val: "uint val \<le> SEMVMX"
  shows "\<exists>s' i ip. sem_init os sem pshared val s = Ret (0, s')
     \<and> table_ok s' (ch(nat (key mod 253) := ip # ch (nat (key mod 253))))
     \<and> table_in (live (ssys s')) (ch(nat (key mod 253) := ip # ch (nat (key mod 253))))
     \<and> table_map s' (ch(nat (key mod 253) := ip # ch (nat (key mod 253)))) key = Some i
     \<and> sems s' = (sems s)(sem \<mapsto> x\<lparr>semkey := key, initialized := 0\<rparr>)
     \<and> svals (ssys s) i = None \<and> svals (ssys s') = (svals (ssys s))(i \<mapsto> [uint val]) \<and> \<not> mutex s'
     \<and> (\<forall>key' \<ge> 0. key' \<noteq> key \<longrightarrow>
          table_map s' (ch(nat (key mod 253) := ip # ch (nat (key mod 253)))) key' = table_map s ch key')
     \<and> (\<forall>key'. key' \<noteq> key \<longrightarrow> skey (ssys s') key' = skey (ssys s) key')"
proof -
  have k0: "0 \<le> key" "to_int key = key" using key addr by (auto simp: init_key_def intro: to_int_id)
  let ?s1 = "s\<lparr>sems := (sems s)(sem \<mapsto> x\<lparr>semkey := key, initialized := 0\<rparr>)\<rparr>"
  have "has (IPC_CREAT OR 511) IPC_CREAT" by (simp add: has_def flag_simps)
  with new have "key = 0 \<or> (skey (ssys s) key = None \<and> has (IPC_CREAT OR 511) IPC_CREAT)" by blast
  from semget_new [OF this, of 1] obtain i k where g: "os_semget os key 1 (IPC_CREAT OR 511) (ssys s) = (Inr i, k)"
    "0 \<le> i" "svals (ssys s) i = None" "svals k = (svals (ssys s))(i \<mapsto> [0])" "live k = live (ssys s)"
    "\<forall>key'. key' \<noteq> key \<longrightarrow> skey k key' = skey (ssys s) key'" by auto
  let ?s2 = "?s1\<lparr>ssys := k\<rparr>"
  from sem_init_semop [of ?s2 i val] g(4) val obtain k2 where o:
    "(if val \<noteq> 0 then semop_call os i [SB 0 (to_short (uint val)) 0] ?s2 else Ret (0, ?s2)) = Ret (0, ?s2\<lparr>ssys := k2\<rparr>)"
    "svals k2 = (svals k)(i \<mapsto> [uint val])" "live k2 = live k" "skey k2 = skey k" by auto
  let ?s3 = "?s2\<lparr>ssys := k2\<rparr>"
  define s4 where "s4 = (if os_reentrant os then ?s3\<lparr>mutex := True\<rparr> else ?s3)"
  have l: "lock os ?s3 = Ret s4" using m by (simp add: lock_def s4_def)
  have ok4: "table_ok s4 ch" "table_in (live (ssys s4)) ch"
    using ok inb g(5) o(3) by (simp_all add: table_ok_def s4_def)
  from insert_semid_live [OF ok4 k0(1), of i] obtain ip s5 where r: "insert_semid os key i s4 = Ret s5"
    "table_ok s5 (ch(nat (key mod 253) := ip # ch (nat (key mod 253))))"
    "table_in (live (ssys s5)) (ch(nat (key mod 253) := ip # ch (nat (key mod 253))))"
    "table_map s5 (ch(nat (key mod 253) := ip # ch (nat (key mod 253)))) key = Some i"
    "sems s5 = sems s4" "mutex s5 = mutex s4" "svals (ssys s5) = svals (ssys s4)"
    "\<forall>key' \<ge> 0. key' \<noteq> key \<longrightarrow>
       table_map s5 (ch(nat (key mod 253) := ip # ch (nat (key mod 253)))) key' = table_map s4 ch key'"
    "skey (ssys s5) = skey (ssys s4)" by blast
  have u: "items (unlock os s5) = items s5" "hash_table (unlock os s5) = hash_table s5"
    "sems (unlock os s5) = sems s5" "ssys (unlock os s5) = ssys s5" "\<not> mutex (unlock os s5)"
    using r(6) m by (auto simp: unlock_def s4_def)
  have "sem_init os sem pshared val s = Ret (0, unlock os s5)"
    unfolding sem_init_def init_key_def [symmetric] key [symmetric]
    using x k0(2) g(1,2) o(1) l r(1) by (simp add: scall_def Let_def)
  moreover have "table_map s4 ch = table_map s ch" by (simp add: fun_eq_iff table_map_def s4_def)
  ultimately show ?thesis using r u g(3,4,6) o(2,4)
    by (intro exI [of _ "unlock os s5"] exI [of _ i] exI [of _ ip])
       (auto simp: table_ok_def table_map_def s4_def)
qed

end

section \<open>The contract\<close>

text \<open>
  \<^verbatim>\<open>posix1b/semaphore.c\<close> as a provider of process-shared semaphores: the semaphore named \<open>n\<close> is
  the object at address \<open>addr n\<close>. \<open>fuel\<close> bounds the walk along a chain of the hash table.
\<close>

definition posix1b_api ::
  "nat \<Rightarrow> ('k, 'z) sem_os_scheme \<Rightarrow> ('i \<Rightarrow> nat) \<Rightarrow> ('i, 'k sstate) sem_api" where
  "posix1b_api fuel os addr =
     \<lparr>a_init = (\<lambda>n. sem_init os (addr n)),
      a_wait = (\<lambda>n. sem_wait fuel os (addr n)),
      a_post = (\<lambda>n. sem_post fuel os (addr n)),
      a_getvalue = (\<lambda>n. sem_getvalue fuel os (addr n) (Some 0)),
      a_destroy = (\<lambda>n. sem_destroy fuel os (addr n))\<rparr>"

definition posix1b_id :: "nat \<Rightarrow> ('k, 'z) sem_os_scheme \<Rightarrow> ('i \<Rightarrow> nat) \<Rightarrow> 'k sstate \<Rightarrow> 'i \<Rightarrow> int" where
  "posix1b_id fuel os addr w n = (case get_semid fuel os (addr n) w of Ret (i, _) \<Rightarrow> i | _ \<Rightarrow> - 1)"

definition posix1b_val ::
  "nat \<Rightarrow> ('k, 'z) sem_os_scheme \<Rightarrow> ('k \<Rightarrow> int \<Rightarrow> int list option) \<Rightarrow> ('i \<Rightarrow> nat) \<Rightarrow> 'k sstate \<Rightarrow> 'i \<Rightarrow> nat" where
  "posix1b_val fuel os svals addr w n = nat (hd (the (svals (ssys w) (posix1b_id fuel os addr w n))))"

text \<open>The chains hold the entries of the initialised semaphores, each with a set of its own; the
  keys of the others are unknown to the kernel.\<close>

definition posix1b_chains ::
  "('k \<Rightarrow> int \<Rightarrow> int list option) \<Rightarrow> ('k \<Rightarrow> int \<Rightarrow> int option) \<Rightarrow> ('k \<Rightarrow> nat set) \<Rightarrow> ('i \<Rightarrow> nat)
     \<Rightarrow> 'i set \<Rightarrow> 'i set \<Rightarrow> 'k sstate \<Rightarrow> (nat \<Rightarrow> nat list) \<Rightarrow> ('i \<Rightarrow> int) \<Rightarrow> bool" where
  "posix1b_chains svals skey live addr names I w ch ids \<longleftrightarrow>
     \<not> mutex w \<and> finite I \<and> I \<subseteq> names \<and> table_ok w ch \<and> table_in (live (ssys w)) ch \<and> (\<forall>b < 253. length (ch b) \<le> card I)
     \<and> inj_on ids I \<and> (\<forall>n \<in> names. sems w (addr n) \<noteq> None)
     \<and> (\<forall>n \<in> I. (\<exists>x. sems w (addr n) = Some x \<and> initialized x = 0 \<and> semkey x = int (addr n))
          \<and> table_map w ch (int (addr n)) = Some (ids n)
          \<and> (\<exists>v. svals (ssys w) (ids n) = Some [v] \<and> 0 \<le> v \<and> v \<le> SEMVMX))
     \<and> (\<forall>n \<in> names. n \<notin> I \<longrightarrow> skey (ssys w) (int (addr n)) = None)"

definition posix1b_ok ::
  "('k \<Rightarrow> int \<Rightarrow> int list option) \<Rightarrow> ('k \<Rightarrow> int \<Rightarrow> int option) \<Rightarrow> ('k \<Rightarrow> nat set) \<Rightarrow> ('i \<Rightarrow> nat)
     \<Rightarrow> 'i set \<Rightarrow> 'i set \<Rightarrow> 'k sstate \<Rightarrow> bool" where
  "posix1b_ok svals skey live addr names I w \<longleftrightarrow> (\<exists>ch ids. posix1b_chains svals skey live addr names I w ch ids)"

lemma posix1b_chainsD:
  assumes "posix1b_chains svals skey live addr names I w ch ids" and "n \<in> I" and "card I < fuel"
  shows "bound_to fuel os w (addr n) (ids n)" and "posix1b_id fuel os addr w n = ids n"
    and "\<exists>v. svals (ssys w) (ids n) = Some [v] \<and> 0 \<le> v \<and> v \<le> SEMVMX"
proof -
  from assms obtain x where x: "sems w (addr n) = Some x" "initialized x = 0" "semkey x = int (addr n)"
    "table_map w ch (int (addr n)) = Some (ids n)" "\<not> mutex w" "table_ok w ch"
    "\<forall>b < 253. length (ch b) \<le> card I" by (auto simp: posix1b_chains_def)
  have "nat (int (addr n) mod 253) < 253" by (rule bucket_less) simp
  with x(7) assms(3) have "length (ch (nat (int (addr n) mod 253))) < fuel" by (meson le_less_trans)
  with bound_to_found [OF x(1,2) _ x(5,6), of fuel "ids n" os] x(3,4)
  show b: "bound_to fuel os w (addr n) (ids n)" by simp
  from bound_to_get [OF b] show "posix1b_id fuel os addr w n = ids n" by (simp add: posix1b_id_def)
  from assms show "\<exists>v. svals (ssys w) (ids n) = Some [v] \<and> 0 \<le> v \<and> v \<le> SEMVMX" by (auto simp: posix1b_chains_def)
qed

text \<open>Changing the value of one semaphore in the kernel.\<close>

lemma posix1b_chains_upd:
  assumes "posix1b_chains svals skey live addr names I w ch ids" and "n \<in> I"
    and "svals k = (svals (ssys w))(ids n \<mapsto> [v])" and "skey k = skey (ssys w)" and "live k = live (ssys w)"
    and "0 \<le> v" and "v \<le> SEMVMX"
  shows "posix1b_chains svals skey live addr names I (w\<lparr>ssys := k\<rparr>) ch ids"
  using assms unfolding posix1b_chains_def
  by (auto simp: table_ok_def table_map_def dest: inj_onD)

lemma posix1b_val_upd:
  assumes "posix1b_chains svals skey live addr names I w ch ids" and "n \<in> I" and "card I < fuel"
    and "posix1b_chains svals skey live addr names I (w\<lparr>ssys := k\<rparr>) ch ids"
    and "svals k = (svals (ssys w))(ids n \<mapsto> [v])"
  shows "upd_on I (posix1b_val fuel os svals addr w) (posix1b_val fuel os svals addr (w\<lparr>ssys := k\<rparr>)) n (nat v)"
proof -
  have "inj_on ids I" using assms(1) by (simp add: posix1b_chains_def)
  then show ?thesis
    using posix1b_chainsD(2) [OF assms(1) _ assms(3), of _ os] posix1b_chainsD(2) [OF assms(4) _ assms(3), of _ os] assms(2,5)
    by (auto simp: upd_on_def posix1b_val_def dest: inj_onD)
qed

context sysv_sem
begin

lemma posix1b_wait:
  assumes c: "posix1b_chains svals skey live addr names I w ch ids" and n: "n \<in> I" and fuel: "card I < fuel"
    and pos: "0 < posix1b_val fuel os svals addr w n"
  shows "\<exists>w'. sem_wait fuel os (addr n) w = Ret (0, w') \<and> posix1b_ok svals skey live addr names I w'
     \<and> upd_on I (posix1b_val fuel os svals addr w) (posix1b_val fuel os svals addr w') n
         (posix1b_val fuel os svals addr w n - 1)"
proof -
  note d = posix1b_chainsD(1,2) [OF c n fuel, of os] posix1b_chainsD(3) [OF c n fuel]
  from d(3) obtain v where v: "svals (ssys w) (ids n) = Some [v]" "0 \<le> v" "v \<le> SEMVMX" by blast
  have val: "posix1b_val fuel os svals addr w n = nat v" using d(2) v(1) by (simp add: posix1b_val_def)
  with pos have "0 < v" by simp
  from sem_wait_counts [OF d(1) v(1) this] obtain k where k:
    "sem_wait fuel os (addr n) w = Ret (0, w\<lparr>ssys := k\<rparr>)" "svals k = (svals (ssys w))(ids n \<mapsto> [v - 1])"
    "skey k = skey (ssys w)" "live k = live (ssys w)" by blast
  have c': "posix1b_chains svals skey live addr names I (w\<lparr>ssys := k\<rparr>) ch ids"
    using \<open>0 < v\<close> v by (intro posix1b_chains_upd [OF c n k(2-4)]) auto
  from posix1b_val_upd [OF c n fuel c' k(2), of os] c' k(1) val \<open>0 < v\<close> show ?thesis
    by (auto simp: posix1b_ok_def nat_diff_distrib)
qed

lemma posix1b_post:
  assumes c: "posix1b_chains svals skey live addr names I w ch ids" and n: "n \<in> I" and fuel: "card I < fuel"
    and below: "posix1b_val fuel os svals addr w n < 32767"
  shows "\<exists>w'. sem_post fuel os (addr n) w = Ret (0, w') \<and> posix1b_ok svals skey live addr names I w'
     \<and> upd_on I (posix1b_val fuel os svals addr w) (posix1b_val fuel os svals addr w') n
         (posix1b_val fuel os svals addr w n + 1)"
proof -
  note d = posix1b_chainsD(1,2) [OF c n fuel, of os] posix1b_chainsD(3) [OF c n fuel]
  from d(3) obtain v where v: "svals (ssys w) (ids n) = Some [v]" "0 \<le> v" "v \<le> SEMVMX" by blast
  have val: "posix1b_val fuel os svals addr w n = nat v" using d(2) v(1) by (simp add: posix1b_val_def)
  with below v(2) have "v < SEMVMX" by (simp add: SEMVMX_def)
  from sem_post_counts [OF d(1) v(1,2) this] obtain k where k:
    "sem_post fuel os (addr n) w = Ret (0, w\<lparr>ssys := k\<rparr>)" "svals k = (svals (ssys w))(ids n \<mapsto> [v + 1])"
    "skey k = skey (ssys w)" "live k = live (ssys w)" by blast
  have c': "posix1b_chains svals skey live addr names I (w\<lparr>ssys := k\<rparr>) ch ids"
    using \<open>v < SEMVMX\<close> v by (intro posix1b_chains_upd [OF c n k(2-4)]) auto
  from posix1b_val_upd [OF c n fuel c' k(2), of os] c' k(1) val v(2) show ?thesis
    by (auto simp: posix1b_ok_def nat_add_distrib)
qed

lemma posix1b_wait_zero:
  assumes c: "posix1b_chains svals skey live addr names I w ch ids" and n: "n \<in> I" and fuel: "card I < fuel"
    and zero: "posix1b_val fuel os svals addr w n = 0"
  shows "sem_wait fuel os (addr n) w = Block"
proof -
  note d = posix1b_chainsD(1,2) [OF c n fuel, of os] posix1b_chainsD(3) [OF c n fuel]
  from d(2,3) zero have "svals (ssys w) (ids n) = Some [0]" by (auto simp: posix1b_val_def)
  then show ?thesis by (rule sem_wait_blocks [OF d(1)])
qed

lemma posix1b_getvalue:
  assumes c: "posix1b_chains svals skey live addr names I w ch ids" and n: "n \<in> I" and fuel: "card I < fuel"
  shows "sem_getvalue fuel os (addr n) (Some 0) w = Ret (0, Some (int (posix1b_val fuel os svals addr w n)), w)"
proof -
  note d = posix1b_chainsD(1,2) [OF c n fuel, of os] posix1b_chainsD(3) [OF c n fuel]
  from d(3) obtain v where v: "svals (ssys w) (ids n) = Some [v]" "0 \<le> v" by blast
  from sem_getvalue_value [OF d(1) v] d(2) v show ?thesis by (simp add: posix1b_val_def)
qed

lemma posix1b_init:
  assumes c: "posix1b_chains svals skey live addr names I w ch ids" and n: "n \<in> names" "n \<notin> I" and fuel: "card I + 1 < fuel"
    and inj: "inj_on addr names" and range: "0 < addr n" "int (addr n) < 2147483648" and val: "uint v \<le> SEMVMX"
  shows "\<exists>w' ch' ids'. sem_init os (addr n) 1 v w = Ret (0, w')
     \<and> posix1b_chains svals skey live addr names (insert n I) w' ch' ids'
     \<and> ids' n \<notin> ids ` I \<and> (\<forall>m \<in> I. ids' m = ids m) \<and> svals (ssys w') = (svals (ssys w))(ids' n \<mapsto> [uint v])"
proof -
  from c n(1) obtain x where x: "sems w (addr n) = Some x" unfolding posix1b_chains_def by blast
  let ?key = "int (addr n)" and ?b = "nat (int (addr n) mod 253)"
  have key: "?key = init_key (addr n) 1" by (simp add: init_key_def)
  have new: "?key = 0 \<or> skey (ssys w) ?key = None" using c n by (simp add: posix1b_chains_def)
  have inv: "table_ok w ch" "table_in (live (ssys w)) ch" "\<not> mutex w" using c by (simp_all add: posix1b_chains_def)
  from sem_init_ok [OF x key range(2) new inv val] obtain w' i ip where r:
    "sem_init os (addr n) 1 v w = Ret (0, w')" "table_ok w' (ch(?b := ip # ch ?b))"
    "table_in (live (ssys w')) (ch(?b := ip # ch ?b))" "table_map w' (ch(?b := ip # ch ?b)) ?key = Some i"
    "sems w' = (sems w)(addr n \<mapsto> x\<lparr>semkey := ?key, initialized := 0\<rparr>)" "svals (ssys w) i = None"
    "svals (ssys w') = (svals (ssys w))(i \<mapsto> [uint v])" "\<not> mutex w'"
    "\<forall>key' \<ge> 0. key' \<noteq> ?key \<longrightarrow> table_map w' (ch(?b := ip # ch ?b)) key' = table_map w ch key'"
    "\<forall>key'. key' \<noteq> ?key \<longrightarrow> skey (ssys w') key' = skey (ssys w) key'" by blast
  let ?ids = "ids(n := i)" and ?ch = "ch(?b := ip # ch ?b)"
  have sub: "I \<subseteq> names" using c by (simp add: posix1b_chains_def)
  have other: "addr m \<noteq> addr n" if "m \<noteq> n" "m \<in> names" for m using inj that n(1) by (simp add: inj_on_eq_iff)
  have fresh: "ids m \<noteq> i" if "m \<in> I" for m using c that r(6) by (fastforce simp: posix1b_chains_def)
  have keep: "m \<noteq> n" "m \<in> names" if "m \<in> I" for m using n sub that by blast+
  have "posix1b_chains svals skey live addr names (insert n I) w' ?ch ?ids"
    unfolding posix1b_chains_def
  proof (intro conjI)
    show "\<not> mutex w'" "table_ok w' ?ch" "table_in (live (ssys w')) ?ch" using r by simp_all
    show "finite (insert n I)" "insert n I \<subseteq> names" using c n(1) by (simp_all add: posix1b_chains_def)
    show "\<forall>b < 253. length (?ch b) \<le> card (insert n I)"
      using c n by (simp add: posix1b_chains_def le_SucI)
    show "inj_on ?ids (insert n I)"
      using c fresh n by (auto simp: posix1b_chains_def inj_on_def)
    show "\<forall>m \<in> names. sems w' (addr m) \<noteq> None" using c r(5) by (simp add: posix1b_chains_def)
    show "\<forall>m \<in> insert n I. (\<exists>x. sems w' (addr m) = Some x \<and> initialized x = 0 \<and> semkey x = int (addr m))
        \<and> table_map w' ?ch (int (addr m)) = Some (?ids m)
        \<and> (\<exists>v. svals (ssys w') (?ids m) = Some [v] \<and> 0 \<le> v \<and> v \<le> SEMVMX)"
      using c r(4,5,7,9) other fresh keep val by (simp add: posix1b_chains_def)
    show "\<forall>m \<in> names. m \<notin> insert n I \<longrightarrow> skey (ssys w') (int (addr m)) = None"
      using c r(10) other by (auto simp: posix1b_chains_def)
  qed
  with r(1,7) fresh keep show ?thesis
    by (intro exI [of _ w'] exI [of _ ?ch] exI [of _ ?ids]) auto
qed

lemma posix1b_store:
  fixes addr :: "'i \<Rightarrow> nat"
  assumes "inj_on addr names" and "\<forall>n \<in> names. 0 < addr n \<and> int (addr n) < 2147483648"
    and fin: "finite names" and fuel: "card names < fuel"
  shows "sem_store (posix1b_api fuel os addr) (posix1b_ok svals skey live addr names)
           (posix1b_val fuel os svals addr) 32767 names"
proof
  fix I :: "'i set" and w and n :: 'i
  assume "posix1b_ok svals skey live addr names I w"
  then obtain ch ids where c: "posix1b_chains svals skey live addr names I w ch ids" by (auto simp: posix1b_ok_def)
  have sub: "I \<subseteq> names" using c by (simp add: posix1b_chains_def)
  have f: "card I < fuel" using card_mono [OF fin sub] fuel by simp
  show "\<exists>w'. a_wait (posix1b_api fuel os addr) n w = Ret (0, w') \<and> posix1b_ok svals skey live addr names I w'
      \<and> upd_on I (posix1b_val fuel os svals addr w) (posix1b_val fuel os svals addr w') n
          (posix1b_val fuel os svals addr w n - 1)"
    if "n \<in> I" "0 < posix1b_val fuel os svals addr w n"
    using posix1b_wait [OF c that(1) f that(2)] by (simp add: posix1b_api_def)
  show "a_wait (posix1b_api fuel os addr) n w = Block"
    if "n \<in> I" "posix1b_val fuel os svals addr w n = 0"
    using posix1b_wait_zero [OF c that(1) f that(2)] by (simp add: posix1b_api_def)
  show "\<exists>w'. a_post (posix1b_api fuel os addr) n w = Ret (0, w') \<and> posix1b_ok svals skey live addr names I w'
      \<and> upd_on I (posix1b_val fuel os svals addr w) (posix1b_val fuel os svals addr w') n
          (posix1b_val fuel os svals addr w n + 1)"
    if "n \<in> I" "posix1b_val fuel os svals addr w n < 32767"
    using posix1b_post [OF c that(1) f that(2)] by (simp add: posix1b_api_def)
  show "a_getvalue (posix1b_api fuel os addr) n w = Ret (0, Some (int (posix1b_val fuel os svals addr w n)), w)"
    if "n \<in> I" using posix1b_getvalue [OF c that f] by (simp add: posix1b_api_def)
  fix v :: "32 word"
  assume n: "n \<in> names" "n \<notin> I" and v: "unat v \<le> 32767"
  have f1: "card I + 1 < fuel + 1" and le: "card (insert n I) < fuel"
    using f card_mono [OF fin, of "insert n I"] sub n(1) fuel by simp_all
  then have f2: "card I + 1 < fuel" using n c by (simp add: posix1b_chains_def)
  have "int (unat v) \<le> int 32767" using v by (simp only: of_nat_le_iff)
  then have "uint v \<le> SEMVMX" by (simp add: SEMVMX_def)
  have a: "0 < addr n" "int (addr n) < 2147483648" using assms(2) n(1) by simp_all
  from posix1b_init [OF c n f2 assms(1) a \<open>uint v \<le> SEMVMX\<close>] obtain w' ch' ids' where
    i: "sem_init os (addr n) 1 v w = Ret (0, w')" "posix1b_chains svals skey live addr names (insert n I) w' ch' ids'"
    "ids' n \<notin> ids ` I" "\<forall>m \<in> I. ids' m = ids m" "svals (ssys w') = (svals (ssys w))(ids' n \<mapsto> [uint v])" by blast
  have "ids m \<noteq> ids' n" if "m \<in> I" for m using i(3) that by (metis imageI)
  then have "upd_on (insert n I) (posix1b_val fuel os svals addr w) (posix1b_val fuel os svals addr w') n (unat v)"
    using posix1b_chainsD(2) [OF i(2) _ le, of _ os] posix1b_chainsD(2) [OF c _ f, of _ os] i(3,4,5) n
    by (auto simp: upd_on_def posix1b_val_def unat_eq_nat_uint simp del: nat_uint_eq)
  with i(1,2) show "\<exists>w'. a_init (posix1b_api fuel os addr) n 1 v w = Ret (0, w')
      \<and> posix1b_ok svals skey live addr names (insert n I) w'
      \<and> upd_on (insert n I) (posix1b_val fuel os svals addr w) (posix1b_val fuel os svals addr w') n (unat v)"
    by (auto simp: posix1b_api_def posix1b_ok_def)
qed simp

end

end
