(* ===== verification/Sem_Props.thy ===== *)
theory Sem_Props
  imports Sem_Laws
begin

text \<open>
  Properties of \<^verbatim>\<open>posix1b/semaphore.c\<close>. The hypothesis \<open>sysv_sem os svals skey live\<close> says that
  the System V calls behave as their manual pages document; the witnesses use the executable
  kernel \<open>ref_sem_os\<close>. The first section adds to it what the named semaphores need of the file
  system.
\<close>

section \<open>Files behind named semaphores\<close>

text \<open>
  \<open>fkey k name\<close> is the key \<^verbatim>\<open>ftok(name, 0)\<close> derives from the file, if there is one. The laws are
  those of a process that may open the file and the set of every name it uses (the kernel refuses
  it with \<^verbatim>\<open>EACCES\<close> otherwise) and that has a free descriptor: opening an existing file and closing the
  descriptor leaves the system as it was.
\<close>

locale sysv_paths = sysv_sem os svals skey live
  for os :: "('k, 'z) sem_os_scheme" and svals and skey and live +
  fixes fkey :: "'k \<Rightarrow> string \<Rightarrow> int option"
  assumes open_existing: "fkey k name = Some key \<Longrightarrow>
      \<exists>fd k1. 0 \<le> fd \<and> os_open os name (O_WRONLY OR O_CREAT) 511 k = (Inr fd, k1) \<and> os_close os fd k1 = (Inr 0, k)"
    and ftok_key: "fkey k name = Some key \<Longrightarrow> os_ftok os name 0 k = (Inr key, k)"
    and unlink_removes: "fkey k name = Some key \<Longrightarrow>
      \<exists>k'. os_unlink os name k = (Inr 0, k') \<and> fkey k' = (fkey k)(name := None)
         \<and> svals k' = svals k \<and> skey k' = skey k \<and> live k' = live k"

definition ref_fkey :: "sem_kernel \<Rightarrow> string \<Rightarrow> int option" where
  "ref_fkey k name = map_option (\<lambda>i. i mod 65536) (kfiles k name)"

interpretation ref_paths: sysv_paths "ref_sem_os r" ref_svals kkey ref_live ref_fkey for r
  by unfold_locales
    (auto simp: ref_sem_os_def ref_open_def ref_ftok_def ref_unlink_def ref_fkey_def ref_svals_def
       ref_live_def has_def flag_simps fun_eq_iff split: option.splits)

section \<open>The specification of a named semaphore\<close>

text \<open>
  The three values of the set stand for the count, the mark that the name is linked, and the
  number of open descriptors. \<open>None\<close> is a semaphore that does not exist.
\<close>

record named =
  count :: int
  linked :: bool
  openers :: nat

definition named_abs :: "int list option \<Rightarrow> named option" where
  "named_abs vs = map_option (\<lambda>l. \<lparr>count = l ! 0, linked = (l ! 1 = 1), openers = nat (l ! 2)\<rparr>) vs"

definition named_wf :: "int list option \<Rightarrow> bool" where
  "named_wf vs \<longleftrightarrow>
     (case vs of None \<Rightarrow> True
      | Some l \<Rightarrow> length l = 3 \<and> (l ! 1 = 0 \<or> l ! 1 = 1) \<and> 0 \<le> l ! 2 \<and> 0 \<le> l ! 0 \<and> l ! 0 \<le> SEMVMX)"

fun n_open :: "int \<Rightarrow> named option \<Rightarrow> named" where
  "n_open init None = \<lparr>count = init, linked = True, openers = 1\<rparr>"
| "n_open init (Some n) = n\<lparr>openers := openers n + 1\<rparr>"

definition n_close :: "named \<Rightarrow> named option" where
  "n_close n = (if openers n = 1 \<and> \<not> linked n then None else Some (n\<lparr>openers := openers n - 1\<rparr>))"

definition n_unlink :: "named \<Rightarrow> named option" where
  "n_unlink n = (if openers n = 0 then None else Some (n\<lparr>linked := False\<rparr>))"

lemma length3E:
  assumes "length l = 3"
  obtains a b c where "l = [a, b, c]"
  using assms by (auto simp: length_Suc_conv eval_nat_numeral)

section \<open>Lemmas\<close>

context sysv_sem
begin

lemma sem_post_full:
  assumes "bound_to fuel os s sem i" and "svals (ssys s) i = Some (SEMVMX # vs)"
  shows "sem_post fuel os sem s = Ret (- 1, s\<lparr>serrno := ERANGE\<rparr>)"
  using semop_bad [OF assms(2), of "[SB 0 1 0]" ERANGE] bound_to_get [OF assms(1)]
  by (simp add: sem_post_def semop_call_def)

lemma open_loop_fresh:
  assumes "svals (ssys s) i = Some [0, 0, 0]" and "has oflag O_CREAT" and "0 \<le> v" and "v \<le> SEMVMX" and "0 < fuel"
  shows "\<exists>k. open_loop fuel os oflag i v 3 s = Ret (0, s\<lparr>ssys := k\<rparr>)
     \<and> svals k = (svals (ssys s))(i \<mapsto> [v, 1, 1]) \<and> skey k = skey (ssys s) \<and> live k = live (ssys s)"
proof -
  have "to_short v = v" using assms(3,4) by (intro to_short_id) (auto simp: SEMVMX_def)
  then have "apply_ops (open_init_ops v) [0, 0, 0] = Done [v, 1, 1]"
    using assms(3,4) by (auto simp: open_init_ops_def SEMVMX_def)
  from semop_call_done [OF assms(1) this] assms(2,5) show ?thesis by (cases fuel) auto
qed

text \<open>Joining an initialised set takes one iteration without \<open>O_CREAT\<close> and two with it.\<close>

lemma open_loop_join:
  assumes "svals (ssys s) i = Some [c, 1, n]" and "0 \<le> n" and "n < SEMVMX" and "1 < fuel"
  shows "\<exists>k e. open_loop fuel os oflag i v 3 s = Ret (0, s\<lparr>serrno := e, ssys := k\<rparr>)
     \<and> svals k = (svals (ssys s))(i \<mapsto> [c, 1, n + 1]) \<and> skey k = skey (ssys s) \<and> live k = live (ssys s)"
proof -
  obtain m where m: "fuel = Suc (Suc m)" using assms(4) by (cases fuel) (auto simp: gr0_conv_Suc)
  have a: "apply_ops (open_init_ops v) [c, 1, n] = Again"
    by (simp add: open_init_ops_def has_def flag_simps)
  have j: "apply_ops (open_join_ops oflag) [c, 1, n] = Done [c, 1, n + 1]"
    using assms(2,3) by (simp add: open_join_ops_def SEMVMX_def)
  show ?thesis
  proof (cases "has oflag O_CREAT")
    case True
    let ?s = "s\<lparr>serrno := EAGAIN\<rparr>"
    have "svals (ssys ?s) i = Some [c, 1, n]" using assms(1) by simp
    from semop_call_done [OF this j] semop_call_again [OF assms(1) a] True m show ?thesis
      by (auto intro!: exI [of _ EAGAIN])
  next
    case False
    with semop_call_done [OF assms(1) j] m show ?thesis
      by (auto intro!: exI [of _ "serrno s"])
  qed
qed

lemma sem_init_bound:
  assumes "sems s sem = Some x" and "key = init_key sem pshared" and "int sem < 2147483648"
    and "key = 0 \<or> skey (ssys s) key = None" and "table_ok s ch"
    and "table_in (live (ssys s)) ch" and "\<not> mutex s" and "uint val \<le> SEMVMX"
    and fuel: "length (ch (nat (key mod 253))) + 1 < fuel"
  shows "\<exists>s' i ch'. sem_init os sem pshared val s = Ret (0, s') \<and> table_ok s' ch'
     \<and> table_in (live (ssys s')) ch' \<and> \<not> mutex s' \<and> table_map s' ch' key = Some i
     \<and> length (ch' (nat (key mod 253))) = length (ch (nat (key mod 253))) + 1
     \<and> bound_to fuel os s' sem i \<and> sems s' = (sems s)(sem \<mapsto> x\<lparr>semkey := key, initialized := 0\<rparr>)
     \<and> svals (ssys s) i = None \<and> svals (ssys s') = (svals (ssys s))(i \<mapsto> [uint val])"
proof -
  from sem_init_ok [OF assms(1-8)] obtain s' i ip where r: "sem_init os sem pshared val s = Ret (0, s')"
    "table_ok s' (ch(nat (key mod 253) := ip # ch (nat (key mod 253))))"
    "table_in (live (ssys s')) (ch(nat (key mod 253) := ip # ch (nat (key mod 253))))"
    "table_map s' (ch(nat (key mod 253) := ip # ch (nat (key mod 253)))) key = Some i"
    "sems s' = (sems s)(sem \<mapsto> x\<lparr>semkey := key, initialized := 0\<rparr>)"
    "svals (ssys s) i = None" "svals (ssys s') = (svals (ssys s))(i \<mapsto> [uint val])" "\<not> mutex s'" by blast
  have "0 \<le> key" using assms(2) by (simp add: init_key_def)
  have "bound_to fuel os s' sem i"
    by (rule bound_to_found [where x = "x\<lparr>semkey := key, initialized := 0\<rparr>", OF _ _ _ r(8,2)])
      (use r fuel \<open>0 \<le> key\<close> in auto)
  with r show ?thesis
    by (intro exI [of _ s'] exI [of _ i] exI [of _ "ch(nat (key mod 253) := ip # ch (nat (key mod 253)))"]) simp
qed

end

text \<open>The flags \<open>sem_open\<close> gives to \<^verbatim>\<open>semget\<close>.\<close>

definition open_flg :: "flags \<Rightarrow> flags \<Rightarrow> flags" where
  "open_flg oflag mode =
     (let m = (if has oflag O_CREAT then mode OR IPC_CREAT else 0)
      in if has oflag O_EXCL then m OR IPC_EXCL else m)"

context sysv_paths
begin

lemma sem_open_prefix:
  assumes "fkey (ssys s) name = Some key" and "0 < key"
    and v: "0 \<le> v" "v \<le> SEMVMX"
    and "os_semget os key 3 (open_flg oflag mode) (ssys s) = (Inr i, k)" and "0 \<le> i"
    and "open_loop fuel os oflag i (if has oflag O_CREAT then v else 0) 3 (s\<lparr>ssys := k\<rparr>) = Ret (0, s3)"
  shows "\<exists>p k'. sem_open fuel os (Some name) oflag mode v s =
       Ret (Some p, s3\<lparr>sems := (sems s3)(p \<mapsto> \<lparr>semkey = key, semid = i, initialized = 1\<rparr>), ssys := k'\<rparr>)
     \<and> p \<noteq> 0 \<and> p \<notin> live (ssys s3) \<and> svals k' = svals (ssys s3) \<and> skey k' = skey (ssys s3)
     \<and> live k' = insert p (live (ssys s3))"
proof -
  from open_existing [OF assms(1)] obtain fd k1 where
    fd: "0 \<le> fd" "os_open os name (O_WRONLY OR O_CREAT) 511 (ssys s) = (Inr fd, k1)"
      "os_close os fd k1 = (Inr 0, ssys s)" by blast
  from malloc_fresh [of "ssys s3"] obtain p k' where
    p: "os_malloc os (ssys s3) = (Some p, k')" "p \<noteq> 0" "p \<notin> live (ssys s3)"
    "svals k' = svals (ssys s3)" "skey k' = skey (ssys s3)" "live k' = insert p (live (ssys s3))" by blast
  have "to_int v = v" using v by (intro to_int_id) (auto simp: SEMVMX_def)
  then have "sem_open fuel os (Some name) oflag mode v s =
      Ret (Some p, s3\<lparr>sems := (sems s3)(p \<mapsto> \<lparr>semkey = key, semid = i, initialized = 1\<rparr>), ssys := k'\<rparr>)"
    using assms(2-7) fd p(1) ftok_key [OF assms(1)]
    by (auto simp: sem_open_def open_flg_def scall_def Let_def)
  with p show ?thesis by blast
qed

lemma sem_open_new:
  assumes "fkey (ssys s) name = Some key" and "0 < key" and "skey (ssys s) key = None"
    and "has oflag O_CREAT" and "0 \<le> v" and "v \<le> SEMVMX" and "0 < fuel"
  shows "\<exists>p i s'. sem_open fuel os (Some name) oflag mode v s = Ret (Some p, s') \<and> 0 \<le> i
     \<and> svals (ssys s) i = None \<and> svals (ssys s') = (svals (ssys s))(i \<mapsto> [v, 1, 1])
     \<and> skey (ssys s') = (skey (ssys s))(key \<mapsto> i) \<and> p \<notin> live (ssys s)
     \<and> sems s' = (sems s)(p \<mapsto> \<lparr>semkey = key, semid = i, initialized = 1\<rparr>)
     \<and> p \<noteq> 0 \<and> live (ssys s') = insert p (live (ssys s))"
proof -
  have "has (open_flg oflag mode) IPC_CREAT" using assms(4) by (simp add: open_flg_def Let_def)
  with semget_new [of key "ssys s" "open_flg oflag mode" 3] assms(2,3) obtain i k where
    g: "os_semget os key 3 (open_flg oflag mode) (ssys s) = (Inr i, k)" "0 \<le> i" "svals (ssys s) i = None"
    "svals k = (svals (ssys s))(i \<mapsto> [0, 0, 0])" "skey k = (skey (ssys s))(key \<mapsto> i)" "live k = live (ssys s)"
    by (auto simp: eval_nat_numeral)
  from open_loop_fresh [of "s\<lparr>ssys := k\<rparr>" i oflag v fuel] g(4) assms(4-7) obtain k2 where
    l: "open_loop fuel os oflag i v 3 (s\<lparr>ssys := k\<rparr>) = Ret (0, s\<lparr>ssys := k2\<rparr>)"
    "svals k2 = (svals k)(i \<mapsto> [v, 1, 1])" "skey k2 = skey k" "live k2 = live k" by auto
  from sem_open_prefix [OF assms(1,2,5,6), of oflag mode i k fuel "s\<lparr>ssys := k2\<rparr>"] g l assms(4) show ?thesis
    by fastforce
qed

lemma sem_open_existing:
  assumes "fkey (ssys s) name = Some key" and "0 < key" and "skey (ssys s) key = Some i" and "0 \<le> i"
    and "svals (ssys s) i = Some [c, 1, n]" and "0 \<le> n" and "n < SEMVMX"
    and "\<not> (has oflag O_CREAT \<and> has oflag O_EXCL)" and "\<not> has mode IPC_EXCL" and "0 \<le> v" and "v \<le> SEMVMX" and "1 < fuel"
  shows "\<exists>p s'. sem_open fuel os (Some name) oflag mode v s = Ret (Some p, s')
     \<and> svals (ssys s') = (svals (ssys s))(i \<mapsto> [c, 1, n + 1])
     \<and> skey (ssys s') = skey (ssys s) \<and> p \<notin> live (ssys s)
     \<and> sems s' = (sems s)(p \<mapsto> \<lparr>semkey = key, semid = i, initialized = 1\<rparr>)
     \<and> p \<noteq> 0 \<and> live (ssys s') = insert p (live (ssys s))"
proof -
  let ?flg = "open_flg oflag mode"
  have "\<not> (has ?flg IPC_CREAT \<and> has ?flg IPC_EXCL)"
  proof (cases "has oflag O_CREAT")
    case True
    with assms(8,9) show ?thesis by (auto simp: open_flg_def Let_def)
  next
    case False
    then show ?thesis by (simp add: open_flg_def Let_def has_def flag_simps)
  qed
  with semget_found [OF _ assms(3,5), of 3 ?flg] assms(2)
  have g: "os_semget os key 3 ?flg (ssys s) = (Inr i, ssys s)" by simp
  from open_loop_join [OF assms(5-7,12), of oflag "if has oflag O_CREAT then v else 0"] obtain k e where
    l: "open_loop fuel os oflag i (if has oflag O_CREAT then v else 0) 3 (s\<lparr>ssys := ssys s\<rparr>)
        = Ret (0, s\<lparr>serrno := e, ssys := k\<rparr>)"
    "svals k = (svals (ssys s))(i \<mapsto> [c, 1, n + 1])" "skey k = skey (ssys s)" "live k = live (ssys s)" by auto
  from sem_open_prefix [OF assms(1,2,10,11) g assms(4) l(1)] l show ?thesis by fastforce
qed

end

context sysv_sem
begin

lemma scall_rmid:
  assumes "svals (ssys s) i = Some vs"
  shows "\<exists>k. scall (os_rmid os i) s = (0, s\<lparr>ssys := k\<rparr>) \<and> svals k = (svals (ssys s))(i := None)
     \<and> live k = live (ssys s)"
  using rmid_removes [OF assms] by (auto simp: scall_def)

text \<open>The last test of \<open>sem_close\<close> and \<open>sem_unlink\<close>: remove the set when the operations pass at once.\<close>

lemma remove_if_zero:
  assumes "svals (ssys s) i = Some vs" and "apply_ops ops vs = (if c then Done vs else Again)"
  shows "\<exists>rc s1 s2. semop_call os i ops s = Ret (rc, s1)
     \<and> (if rc = 0 then snd (scall (os_rmid os i) s1) else s1) = s2 \<and> sems s2 = sems s
     \<and> svals (ssys s2) = (svals (ssys s))(i := if c then None else Some vs)
     \<and> live (ssys s2) = live (ssys s) \<and> (\<not> c \<longrightarrow> skey (ssys s2) = skey (ssys s))"
proof (cases c)
  case True
  with assms(2) have "apply_ops ops vs = Done vs" by simp
  from semop_call_done [OF assms(1) this] obtain k where
    k: "semop_call os i ops s = Ret (0, s\<lparr>ssys := k\<rparr>)" "svals k = svals (ssys s)" "live k = live (ssys s)"
    using assms(1) by (auto simp: fun_upd_idem)
  from scall_rmid [of "s\<lparr>ssys := k\<rparr>" i vs] k(2) assms(1) k True show ?thesis by auto
next
  case False
  with semop_call_again [OF assms(1), of ops] assms show ?thesis by (auto simp: fun_upd_idem)
qed

lemma sem_close_ok:
  assumes "sems s sem = Some x" and "initialized x = 1" and "semid x = i"
    and "svals (ssys s) i = Some [c, l, n]" and "0 < n" and "n \<le> SEMVMX" and "l = 0 \<or> l = 1"
  shows "\<exists>s'. sem_close fuel os sem s = Ret (0, s') \<and> sems s' = (sems s)(sem := None)
     \<and> svals (ssys s') = (svals (ssys s))(i := if n = 1 \<and> l = 0 then None else Some [c, l, n - 1])
     \<and> live (ssys s') = live (ssys s) \<and> (\<not> (n = 1 \<and> l = 0) \<longrightarrow> skey (ssys s') = skey (ssys s))"
proof -
  have g: "get_semid fuel os sem s = Ret (i, s)" using assms(1-3) by (simp add: get_semid_def)
  have "apply_ops [SB 2 (- 1) SEM_UNDO] [c, l, n] = Done [c, l, n - 1]" using assms(5) by simp
  from semop_call_done [OF assms(4) this] obtain k where
    k: "semop_call os i [SB 2 (- 1) SEM_UNDO] s = Ret (0, s\<lparr>ssys := k\<rparr>)"
    "svals k = (svals (ssys s))(i \<mapsto> [c, l, n - 1])" "skey k = skey (ssys s)" "live k = live (ssys s)" by blast
  let ?ops = "[SB 2 0 IPC_NOWAIT, SB 1 0 IPC_NOWAIT]"
  have "apply_ops ?ops [c, l, n - 1] = (if n = 1 \<and> l = 0 then Done [c, l, n - 1] else Again)"
    using assms(7) by (auto simp: has_def flag_simps)
  from remove_if_zero [of "s\<lparr>ssys := k\<rparr>" i, OF _ this] k(2) obtain rc s1 s2 where
    "semop_call os i ?ops (s\<lparr>ssys := k\<rparr>) = Ret (rc, s1)"
    "(if rc = 0 then snd (scall (os_rmid os i) s1) else s1) = s2" "sems s2 = sems s"
    "svals (ssys s2) = (svals (ssys s))(i := if n = 1 \<and> l = 0 then None else Some [c, l, n - 1])"
    "live (ssys s2) = live (ssys s)" "\<not> (n = 1 \<and> l = 0) \<longrightarrow> skey (ssys s2) = skey (ssys s)" using k(3,4) by auto
  then show ?thesis using assms(1) g k(1) by (auto simp: sem_close_def Let_def)
qed

end

context sysv_paths
begin

lemma sem_unlink_ok:
  assumes "fkey (ssys s) name = Some key" and "0 < key" and "skey (ssys s) key = Some i" and "0 \<le> i"
    and "svals (ssys s) i = Some [c, 1, n]" and "0 \<le> n"
  shows "\<exists>s'. sem_unlink os name s = Ret (0, s') \<and> sems s' = sems s
     \<and> svals (ssys s') = (svals (ssys s))(i := if n = 0 then None else Some [c, 0, n])
     \<and> live (ssys s') = live (ssys s)"
proof -
  have f: "os_ftok os name 0 (ssys s) = (Inr key, ssys s)" using assms(1) by (rule ftok_key)
  have g: "os_semget os key 1 0 (ssys s) = (Inr i, ssys s)"
    using semget_found [OF _ assms(3,5), of 1 0] assms(2) by simp
  from unlink_removes [OF assms(1)] obtain k where
    u: "os_unlink os name (ssys s) = (Inr 0, k)" "svals k = svals (ssys s)" "live k = live (ssys s)" by blast
  have "apply_ops [SB 1 (- 1) 0] [c, 1, n] = Done [c, 0, n]" by simp
  from semop_call_done [of "s\<lparr>ssys := k\<rparr>" i, OF _ this] u(2) assms(5) obtain k2 where
    d: "semop_call os i [SB 1 (- 1) 0] (s\<lparr>ssys := k\<rparr>) = Ret (0, s\<lparr>ssys := k2\<rparr>)"
    "svals k2 = (svals (ssys s))(i \<mapsto> [c, 0, n])" "live k2 = live (ssys s)" using u(3) by auto
  have "apply_ops [SB 2 0 IPC_NOWAIT] [c, 0, n] = (if n = 0 then Done [c, 0, n] else Again)"
    by (simp add: has_def flag_simps)
  from remove_if_zero [of "s\<lparr>ssys := k2\<rparr>" i, OF _ this] d(2) obtain rc s1 s2 where
    "semop_call os i [SB 2 0 IPC_NOWAIT] (s\<lparr>ssys := k2\<rparr>) = Ret (rc, s1)"
    "(if rc = 0 then snd (scall (os_rmid os i) s1) else s1) = s2" "sems s2 = sems s"
    "svals (ssys s2) = (svals (ssys s))(i := if n = 0 then None else Some [c, 0, n])"
    "live (ssys s2) = live (ssys s)" using d(3) by auto
  then show ?thesis using f g u(1) d(1) assms(2,4) by (auto simp: sem_unlink_def scall_def Let_def)
qed

end

section \<open>Counting semaphores\<close>

text \<open>The state after a computation that returns, for concrete runs.\<close>

definition after :: "('a \<times> 's) outcome \<Rightarrow> 's \<Rightarrow> 's" where
  "after r s = (case r of Ret (_, s') \<Rightarrow> s' | _ \<Rightarrow> s)"

definition sem_boot :: "nat list \<Rightarrow> sem_kernel sstate" where
  "sem_boot addrs = \<lparr>items = Map.empty, hash_table = (\<lambda>_. 0),
     sems = (\<lambda>a. if a \<in> set addrs then Some \<lparr>semkey = 0, semid = 0, initialized = 0\<rparr> else None),
     mutex = False, serrno = EOK, ssys = ref_sem_boot\<rparr>"

lemma sem_boot_table: "table_ok (sem_boot addrs) (\<lambda>_. [])"
  by (simp add: table_ok_def sem_boot_def)

lemma table_in_empty: "table_in A (\<lambda>_. [])"
  by (simp add: table_in_def)

text \<open>C2: on a semaphore bound to a kernel set, \<open>sem_post\<close> adds one unless the value is the maximum,
  when it fails with \<open>ERANGE\<close>; \<open>sem_wait\<close> and \<open>sem_trywait\<close> take one from a positive value; on
  zero the first blocks and the second fails with \<open>EAGAIN\<close>; \<open>sem_getvalue\<close> reports the value.
  No other set changes.\<close>

theorem sem_counting:
  assumes "sysv_sem os svals skey live" and "bound_to fuel os s sem i"
    and "svals (ssys s) i = Some (v # vs)" and "0 \<le> v" and "v \<le> SEMVMX"
  shows "(if v < SEMVMX
          then \<exists>k. sem_post fuel os sem s = Ret (0, s\<lparr>ssys := k\<rparr>) \<and> svals k = (svals (ssys s))(i \<mapsto> (v + 1) # vs)
          else sem_post fuel os sem s = Ret (- 1, s\<lparr>serrno := ERANGE\<rparr>))
     \<and> (if 0 < v
        then (\<exists>k. sem_wait fuel os sem s = Ret (0, s\<lparr>ssys := k\<rparr>) \<and> svals k = (svals (ssys s))(i \<mapsto> (v - 1) # vs))
          \<and> (\<exists>k. sem_trywait fuel os sem s = Ret (0, s\<lparr>ssys := k\<rparr>) \<and> svals k = (svals (ssys s))(i \<mapsto> (v - 1) # vs))
        else sem_wait fuel os sem s = Block \<and> sem_trywait fuel os sem s = Ret (- 1, s\<lparr>serrno := EAGAIN\<rparr>))
     \<and> sem_getvalue fuel os sem (Some x) s = Ret (0, Some v, s)"
proof -
  note laws = sysv_sem.sem_post_counts [OF assms(1-4)] sysv_sem.sem_wait_counts [OF assms(1-3)]
    sysv_sem.sem_trywait_counts [OF assms(1-3)] sysv_sem.sem_getvalue_value [OF assms(1-4)]
    sysv_sem.sem_post_full [OF assms(1,2)] sysv_sem.sem_wait_blocks [OF assms(1,2)]
    sysv_sem.sem_trywait_again [OF assms(1,2)]
  show ?thesis
  proof (cases "0 < v")
    case True
    then show ?thesis using laws assms(3-5) by (cases "v = SEMVMX") auto
  next
    case False
    with assms(4) have "v = 0" by simp
    then show ?thesis using laws assms(3) by (auto simp: SEMVMX_def)
  qed
qed

definition opened :: "sem_kernel sstate" where
  "opened = (sem_boot [])\<lparr>sems := [5 \<mapsto> \<lparr>semkey = 9, semid = 1, initialized = 1\<rparr>],
     ssys := ref_sem_boot\<lparr>kvals := [(1, [2, 1, 1])], kkey := [9 \<mapsto> 1], kfiles := [''/s'' \<mapsto> 9]\<rparr>\<rparr>"

theorem sem_counting_witness:
  "sem_getvalue 1 (ref_sem_os False) 5 (Some 0) opened = Ret (0, Some 2, opened)
   \<and> (\<exists>k. sem_wait 1 (ref_sem_os False) 5 opened = Ret (0, opened\<lparr>ssys := k\<rparr>)
        \<and> ref_svals k = (ref_svals (ssys opened))(1 \<mapsto> [1, 1, 1]))"
proof -
  have b: "bound_to 1 (ref_sem_os False) opened 5 1"
    using bound_to_direct [of opened 5 "\<lparr>semkey = 9, semid = 1, initialized = 1\<rparr>"] by (simp add: opened_def)
  have v: "ref_svals (ssys opened) 1 = Some [2, 1, 1]" by (simp add: opened_def ref_svals_def)
  show ?thesis using sem_counting [OF ref_sem.sysv_sem_axioms b v] by (simp add: SEMVMX_def)
qed

text \<open>A semaphore initialised with \<open>sem_init\<close> to a value the kernel can hold reads back that
  value, and its set is new: no other set is touched.\<close>

theorem sem_init_getvalue:
  assumes "sysv_sem os svals skey live" and "sems s sem = Some x" and "key = init_key sem pshared"
    and "int sem < 2147483648" and "key = 0 \<or> skey (ssys s) key = None" and "table_ok s ch"
    and "table_in (live (ssys s)) ch" and "\<not> mutex s" and "uint val \<le> SEMVMX"
    and "length (ch (nat (key mod 253))) + 1 < fuel"
  shows "\<exists>s' i. sem_init os sem pshared val s = Ret (0, s')
     \<and> sem_getvalue fuel os sem (Some y) s' = Ret (0, Some (uint val), s')
     \<and> svals (ssys s) i = None \<and> svals (ssys s') = (svals (ssys s))(i \<mapsto> [uint val])"
proof -
  from sysv_sem.sem_init_bound [OF assms] obtain s' i where r: "sem_init os sem pshared val s = Ret (0, s')"
    "bound_to fuel os s' sem i" "svals (ssys s) i = None" "svals (ssys s') = (svals (ssys s))(i \<mapsto> [uint val])"
    by blast
  then have "svals (ssys s') i = Some [uint val]" by simp
  from sysv_sem.sem_getvalue_value [OF assms(1) r(2) this] r show ?thesis by auto
qed

theorem sem_init_getvalue_witness:
  "\<exists>s' i. sem_init (ref_sem_os True) 700 1 5 (sem_boot [700]) = Ret (0, s')
     \<and> sem_getvalue 2 (ref_sem_os True) 700 (Some 0) s' = Ret (0, Some (uint (5 :: 32 word)), s')
     \<and> ref_svals ref_sem_boot i = None \<and> ref_svals (ssys s') = (ref_svals ref_sem_boot)(i \<mapsto> [uint (5 :: 32 word)])"
proof -
  have s: "ssys (sem_boot [700]) = ref_sem_boot" by (simp add: sem_boot_def)
  show ?thesis
    using sem_init_getvalue [OF ref_sem.sysv_sem_axioms, of "sem_boot [700]" 700 _ 700 1 "\<lambda>_. []" 5 2 True 0]
      sem_boot_table [of "[700]"] table_in_empty
    by (simp add: s init_key_def) (simp add: sem_boot_def ref_sem_boot_def SEMVMX_def)
qed

section \<open>Named semaphores\<close>

text \<open>What the programs need in addition: \<open>O_CREAT\<close> creates the file of a name, and the calls on
  semaphore sets and memory leave the file system alone.\<close>

locale sysv_names = sysv_paths os svals skey live fkey
  for os :: "('k, 'z) sem_os_scheme" and svals and skey and live and fkey +
  assumes open_new: "fkey k name = None \<Longrightarrow>
      \<exists>fd key k1 k'. 0 \<le> fd \<and> os_open os name (O_WRONLY OR O_CREAT) 511 k = (Inr fd, k1) \<and> os_close os fd k1 = (Inr 0, k')
         \<and> fkey k' = (fkey k)(name \<mapsto> key) \<and> svals k' = svals k \<and> skey k' = skey k \<and> live k' = live k"
    and semop_fkey: "os_semop os i ops k = Some (r, k') \<Longrightarrow> fkey k' = fkey k"
    and semget_fkey: "os_semget os key n flg k = (r', k') \<Longrightarrow> fkey k' = fkey k"
    and rmid_fkey: "os_rmid os i k = (r', k') \<Longrightarrow> fkey k' = fkey k"
    and malloc_fkey: "os_malloc os k = (q, k') \<Longrightarrow> fkey k' = fkey k"
    and ftok_missing: "fkey k name = None \<Longrightarrow> os_ftok os name 0 k = (Inl ENOENT, k)"

interpretation ref_names: sysv_names "ref_sem_os r" ref_svals kkey ref_live ref_fkey for r
  by unfold_locales
    (auto simp: ref_sem_os_def ref_open_def ref_semop_def ref_semget_def ref_rmid_def ref_ftok_def ref_fkey_def ref_svals_def
       ref_live_def has_def flag_simps fun_eq_iff Let_def split: option.splits semres.splits if_splits)

text \<open>The system after the file of a name has been opened with \<open>O_CREAT\<close> and closed.\<close>

definition touched :: "('k, 'z) sem_os_scheme \<Rightarrow> string \<Rightarrow> 'k \<Rightarrow> 'k" where
  "touched os name k =
     (case os_open os name (O_WRONLY OR O_CREAT) 511 k of
        (Inr fd, k1) \<Rightarrow> snd (os_close os fd k1)
      | (Inl e, k1) \<Rightarrow> k1)"

context sysv_names
begin

lemma touched_same: "fkey k name = Some key \<Longrightarrow> touched os name k = k"
  using open_existing [of k name key] by (auto simp: touched_def)

lemma touched_views: "svals (touched os name k) = svals k" "skey (touched os name k) = skey k" "live (touched os name k) = live k"
  and touched_file: "\<exists>key. fkey (touched os name k) name = Some key"
  using open_new [of k name] touched_same [of k name] by (cases "fkey k name"; force simp: touched_def)+

text \<open>\<open>sem_open\<close> is the same from the state in which the file has been created.\<close>

lemma sem_open_touched:
  "sem_open fuel os (Some name) oflag mode v s = sem_open fuel os (Some name) oflag mode v (s\<lparr>ssys := touched os name (ssys s)\<rparr>)"
proof (cases "fkey (ssys s) name")
  case None
  from open_new [OF this] obtain fd key k1 k' where
    k: "0 \<le> fd" "os_open os name (O_WRONLY OR O_CREAT) 511 (ssys s) = (Inr fd, k1)" "os_close os fd k1 = (Inr 0, k')"
    "fkey k' name = Some key" by force
  from open_existing [OF k(4)] obtain fd' k2 where
    k': "0 \<le> fd'" "os_open os name (O_WRONLY OR O_CREAT) 511 k' = (Inr fd', k2)" "os_close os fd' k2 = (Inr 0, k')" by blast
  have "touched os name (ssys s) = k'" using k by (simp add: touched_def)
  with k k' have "scall (os_open os name (O_WRONLY OR O_CREAT) 511) s = (fd, s\<lparr>ssys := k1\<rparr>)"
    "scall (os_open os name (O_WRONLY OR O_CREAT) 511) (s\<lparr>ssys := touched os name (ssys s)\<rparr>) = (fd', s\<lparr>ssys := k2\<rparr>)"
    "scall (os_close os fd) (s\<lparr>ssys := k1\<rparr>) = (0, s\<lparr>ssys := k'\<rparr>)" "scall (os_close os fd') (s\<lparr>ssys := k2\<rparr>) = (0, s\<lparr>ssys := k'\<rparr>)"
    by (simp_all add: scall_def)
  with k(1) k'(1) show ?thesis by (simp add: sem_open_def)
next
  case (Some key)
  from touched_same [OF this] show ?thesis by simp
qed

text \<open>What \<open>sem_open\<close> refuses: an existing name with \<open>O_CREAT\<close> and \<open>O_EXCL\<close>, a missing one without \<open>O_CREAT\<close>.\<close>

lemma sem_open_refused:
  assumes "fkey (ssys s) name = Some key" and "0 < key" and "0 \<le> v" and "v \<le> SEMVMX"
  shows "skey (ssys s) key = Some i \<Longrightarrow> has oflag O_CREAT \<Longrightarrow> has oflag O_EXCL \<Longrightarrow>
      sem_open fuel os (Some name) oflag mode v s = Ret (None, s\<lparr>serrno := EEXIST\<rparr>)"
    and "skey (ssys s) key = None \<Longrightarrow> \<not> has oflag O_CREAT \<Longrightarrow>
      sem_open fuel os (Some name) oflag mode v s = Ret (None, s\<lparr>serrno := ENOENT\<rparr>)"
proof -
  from open_existing [OF assms(1)] obtain fd k1 where
    fd: "0 \<le> fd" "os_open os name (O_WRONLY OR O_CREAT) 511 (ssys s) = (Inr fd, k1)"
      "os_close os fd k1 = (Inr 0, ssys s)" by blast
  have "to_int v = v" using assms(3,4) by (intro to_int_id) (auto simp: SEMVMX_def)
  then have o: "sem_open fuel os (Some name) oflag mode v s = Ret (None, s\<lparr>serrno := e\<rparr>)"
    if "os_semget os key 3 (open_flg oflag mode) (ssys s) = (Inl e, ssys s)" for e
    using that fd assms(2,3) ftok_key [OF assms(1)] by (auto simp: sem_open_def open_flg_def scall_def Let_def)
  show "sem_open fuel os (Some name) oflag mode v s = Ret (None, s\<lparr>serrno := EEXIST\<rparr>)"
    if "skey (ssys s) key = Some i" "has oflag O_CREAT" "has oflag O_EXCL"
    using that assms(2) by (intro o semget_exists [of _ _ i]) (auto simp: open_flg_def Let_def)
  show "sem_open fuel os (Some name) oflag mode v s = Ret (None, s\<lparr>serrno := ENOENT\<rparr>)"
    if "skey (ssys s) key = None" "\<not> has oflag O_CREAT"
    using that assms(2) by (intro o semget_missing) (auto simp: open_flg_def Let_def has_def flag_simps)
qed

end

text \<open>The set a name stands for, if it has one.\<close>

definition named_set ::
  "('k \<Rightarrow> int \<Rightarrow> int list option) \<Rightarrow> ('k \<Rightarrow> int \<Rightarrow> int option) \<Rightarrow> int \<Rightarrow> 'k \<Rightarrow> int list option" where
  "named_set svals skey key k = (case skey k key of None \<Rightarrow> None | Some i \<Rightarrow> svals k i)"

text \<open>C7: \<open>sem_open\<close> implements the specification's open. The file of the name is created if there is none. A name
  without a set gets a new one with the requested value, linked and with one opener, when \<open>O_CREAT\<close> is
  given, and is refused with \<open>ENOENT\<close> otherwise. With \<open>O_CREAT\<close> and \<open>O_EXCL\<close> a name that has a set is refused with \<open>EEXIST\<close>;
  otherwise it keeps its value and has one opener more. The descriptor returned is bound to the set, and no other set changes. Two iterations of the do-while loop are
  enough. The hypotheses: the key of the file is positive, the value is at most \<^verbatim>\<open>SEMVMX\<close> (32767), the bit of \<open>IPC_EXCL\<close> is not set in the mode, and an existing set is linked and has fewer than \<^verbatim>\<open>SEMVMX\<close> openers.\<close>

theorem sem_open_refines:
  assumes "sysv_names os svals skey live fkey" and "fkey (touched os name (ssys s)) name = Some key" and "0 < key"
    and "\<forall>i. skey (ssys s) key = Some i \<longrightarrow>
           0 \<le> i \<and> (\<exists>c n. svals (ssys s) i = Some [c, 1, n] \<and> 0 \<le> n \<and> n < SEMVMX)"
    and "\<not> has mode IPC_EXCL" and "0 \<le> v" and "v \<le> SEMVMX" and "1 < fuel"
  shows "if skey (ssys s) key = None \<and> \<not> has oflag O_CREAT
       then sem_open fuel os (Some name) oflag mode v s = Ret (None, s\<lparr>ssys := touched os name (ssys s), serrno := ENOENT\<rparr>)
       else if skey (ssys s) key \<noteq> None \<and> has oflag O_CREAT \<and> has oflag O_EXCL
       then sem_open fuel os (Some name) oflag mode v s = Ret (None, s\<lparr>ssys := touched os name (ssys s), serrno := EEXIST\<rparr>)
       else \<exists>p i s'. sem_open fuel os (Some name) oflag mode v s = Ret (Some p, s')
         \<and> skey (ssys s') key = Some i \<and> bound_to fuel os s' p i
         \<and> named_abs (named_set svals skey key (ssys s'))
             = Some (n_open v (named_abs (named_set svals skey key (ssys s))))
         \<and> (\<forall>j. j \<noteq> i \<longrightarrow> svals (ssys s') j = svals (ssys s) j)"
proof -
  let ?s = "s\<lparr>ssys := touched os name (ssys s)\<rparr>"
  have paths: "sysv_paths os svals skey live fkey" using assms(1) by (simp add: sysv_names_def)
  note views = sysv_names.touched_views [OF assms(1), of name "ssys s"]
  note op = sysv_names.sem_open_touched [OF assms(1), of fuel name oflag mode v s]
  have fl: "fkey (ssys ?s) name = Some key" using assms(2) by simp
  note refused = sysv_names.sem_open_refused [OF assms(1) fl assms(3,6,7), where oflag = oflag and fuel = fuel and mode = mode]
  show ?thesis
  proof (cases "skey (ssys s) key")
    case None
    then have k: "skey (ssys ?s) key = None" by (simp add: views)
    show ?thesis
    proof (cases "has oflag O_CREAT")
      case True
      have "0 < fuel" using assms(8) by simp
      from sysv_paths.sem_open_new [OF paths fl assms(3) k True assms(6,7) this, of mode] obtain p i s' where
        r: "sem_open fuel os (Some name) oflag mode v s = Ret (Some p, s')"
        "svals (ssys s') = (svals (ssys s))(i \<mapsto> [v, 1, 1])" "skey (ssys s') = (skey (ssys s))(key \<mapsto> i)"
        "sems s' = (sems s)(p \<mapsto> \<lparr>semkey = key, semid = i, initialized = 1\<rparr>)" by (auto simp: op views)
      from r(4) bound_to_direct [of s' p "\<lparr>semkey = key, semid = i, initialized = 1\<rparr>" fuel os]
      have "bound_to fuel os s' p i" by simp
      with r None True show ?thesis
        by (auto intro!: exI [of _ p] exI [of _ i] exI [of _ s'] simp: named_set_def named_abs_def)
    next
      case False
      with refused(2) [OF k] None show ?thesis by (simp add: op)
    qed
  next
    case (Some i)
    with assms(4) obtain c n where n: "0 \<le> i" "svals (ssys ?s) i = Some [c, 1, n]" "0 \<le> n" "n < SEMVMX" by (auto simp: views)
    have k: "skey (ssys ?s) key = Some i" using Some by (simp add: views)
    show ?thesis
    proof (cases "has oflag O_CREAT \<and> has oflag O_EXCL")
      case True
      with refused(1) [OF k] Some show ?thesis by (simp add: op)
    next
      case False
      from sysv_paths.sem_open_existing [OF paths fl assms(3) k n False assms(5-8)] obtain p s' where
        r: "sem_open fuel os (Some name) oflag mode v s = Ret (Some p, s')"
        "svals (ssys s') = (svals (ssys s))(i \<mapsto> [c, 1, n + 1])" "skey (ssys s') = skey (ssys s)"
        "sems s' = (sems s)(p \<mapsto> \<lparr>semkey = key, semid = i, initialized = 1\<rparr>)" by (auto simp: op views)
      from r(4) bound_to_direct [of s' p "\<lparr>semkey = key, semid = i, initialized = 1\<rparr>" fuel os]
      have "bound_to fuel os s' p i" by simp
      with r Some n views False show ?thesis
        by (auto intro!: exI [of _ p] exI [of _ i] exI [of _ s'] simp: named_set_def named_abs_def nat_add_distrib)
    qed
  qed
qed

theorem sem_open_refines_witness:
  "\<exists>p i s'. sem_open 2 (ref_sem_os False) (Some ''/s'') O_CREAT 0 7 opened = Ret (Some p, s')
     \<and> kkey (ssys s') 9 = Some i \<and> bound_to 2 (ref_sem_os False) s' p i
     \<and> named_abs (named_set ref_svals kkey 9 (ssys s')) = Some \<lparr>count = 2, linked = True, openers = 2\<rparr>
     \<and> (\<forall>j. j \<noteq> i \<longrightarrow> ref_svals (ssys s') j = ref_svals (ssys opened) j)"
proof -
  have a: "named_abs (named_set ref_svals kkey 9 (ssys opened)) = Some \<lparr>count = 2, linked = True, openers = 1\<rparr>"
    by (simp add: opened_def named_set_def named_abs_def ref_svals_def)
  have n: "n_open 7 (Some \<lparr>count = 2, linked = True, openers = 1\<rparr>) = \<lparr>count = 2, linked = True, openers = 2\<rparr>"
    by simp
  show ?thesis
    using sem_open_refines [OF ref_names.sysv_names_axioms, of False "''/s''" opened 9 0 7 2 O_CREAT,
        unfolded a n]
    by (simp add: opened_def touched_def ref_sem_os_def ref_open_def ref_fkey_def ref_svals_def SEMVMX_def has_def flag_simps)
qed

text \<open>C8: \<open>sem_close\<close> and \<open>sem_unlink\<close> implement the specification's close and unlink. A
  semaphore that is open somewhere survives \<open>sem_unlink\<close>, and the last \<open>sem_close\<close> of an unlinked
  one removes it; a linked one is kept. \<open>sem_close\<close> frees the descriptor.\<close>

theorem sem_close_unlink_refines:
  assumes "sysv_paths os svals skey live fkey" and "svals (ssys s) i = Some [c, l, n]"
    and "0 \<le> n" and "n \<le> SEMVMX" and "l = 0 \<or> l = 1"
  shows "(0 < n \<and> (\<exists>x. sems s sem = Some x \<and> initialized x = 1 \<and> semid x = i) \<longrightarrow>
       (\<exists>s'. sem_close fuel os sem s = Ret (0, s') \<and> sems s' = (sems s)(sem := None)
          \<and> named_abs (svals (ssys s') i) = n_close (the (named_abs (svals (ssys s) i)))
          \<and> (\<forall>j. j \<noteq> i \<longrightarrow> svals (ssys s') j = svals (ssys s) j)))
     \<and> (l = 1 \<and> 0 \<le> i \<and> 0 < key \<and> fkey (ssys s) name = Some key \<and> skey (ssys s) key = Some i \<longrightarrow>
       (\<exists>s'. sem_unlink os name s = Ret (0, s') \<and> sems s' = sems s
          \<and> named_abs (svals (ssys s') i) = n_unlink (the (named_abs (svals (ssys s) i)))
          \<and> (\<forall>j. j \<noteq> i \<longrightarrow> svals (ssys s') j = svals (ssys s) j)))"
proof (intro conjI impI; elim conjE exE)
  have base: "sysv_sem os svals skey live" using assms(1) by (simp add: sysv_paths_def)
  fix x
  assume h: "0 < n" "sems s sem = Some x" "initialized x = 1" "semid x = i"
  from sysv_sem.sem_close_ok [OF base h(2,3,4) assms(2) h(1) assms(4,5), of fuel] obtain s' where
    r: "sem_close fuel os sem s = Ret (0, s')" "sems s' = (sems s)(sem := None)"
    "svals (ssys s') = (svals (ssys s))(i := if n = 1 \<and> l = 0 then None else Some [c, l, n - 1])" by blast
  then show "\<exists>s'. sem_close fuel os sem s = Ret (0, s') \<and> sems s' = (sems s)(sem := None)
      \<and> named_abs (svals (ssys s') i) = n_close (the (named_abs (svals (ssys s) i)))
      \<and> (\<forall>j. j \<noteq> i \<longrightarrow> svals (ssys s') j = svals (ssys s) j)"
    using assms(2,5) h(1) by (intro exI [of _ s']) (auto simp: named_abs_def n_close_def nat_diff_distrib)
next
  assume h: "l = 1" "0 \<le> i" "0 < key" "fkey (ssys s) name = Some key" "skey (ssys s) key = Some i"
  from assms(2) h(1) have "svals (ssys s) i = Some [c, 1, n]" by simp
  from sysv_paths.sem_unlink_ok [OF assms(1) h(4,3,5,2) this assms(3)] obtain s' where
    r: "sem_unlink os name s = Ret (0, s')" "sems s' = sems s"
    "svals (ssys s') = (svals (ssys s))(i := if n = 0 then None else Some [c, 0, n])" by blast
  then show "\<exists>s'. sem_unlink os name s = Ret (0, s') \<and> sems s' = sems s
      \<and> named_abs (svals (ssys s') i) = n_unlink (the (named_abs (svals (ssys s) i)))
      \<and> (\<forall>j. j \<noteq> i \<longrightarrow> svals (ssys s') j = svals (ssys s) j)"
    using assms(2,3) h(1) by (intro exI [of _ s']) (auto simp: named_abs_def n_unlink_def)
qed

theorem sem_close_unlink_refines_witness:
  "(\<exists>s'. sem_close 1 (ref_sem_os False) 5 opened = Ret (0, s') \<and> sems s' = (sems opened)(5 := None)
      \<and> named_abs (ref_svals (ssys s') 1) = Some \<lparr>count = 2, linked = True, openers = 0\<rparr>)
   \<and> (\<exists>s'. sem_unlink (ref_sem_os False) ''/s'' opened = Ret (0, s')
      \<and> named_abs (ref_svals (ssys s') 1) = Some \<lparr>count = 2, linked = False, openers = 1\<rparr>)"
proof -
  have v: "ref_svals (ssys opened) 1 = Some [2, 1, 1]" by (simp add: opened_def ref_svals_def)
  have x: "sems opened 5 = Some \<lparr>semkey = 9, semid = 1, initialized = 1\<rparr>" "ref_fkey (ssys opened) ''/s'' = Some 9"
    "kkey (ssys opened) 9 = Some 1" by (simp_all add: opened_def ref_fkey_def)
  show ?thesis
    using sem_close_unlink_refines [OF ref_paths.sysv_paths_axioms v, of 5 1 False 9 "''/s''"] x v
    by (fastforce simp: named_abs_def n_close_def n_unlink_def SEMVMX_def)
qed

section \<open>Where the semaphores depart from POSIX\<close>

text \<open>Two semaphores initialised as private to the process share one entry of the hash table,
  because both have the key \<^verbatim>\<open>IPC_PRIVATE\<close>: after the second \<open>sem_init\<close> the first one stands
  for the second one's set.\<close>

theorem private_semaphores_alias:
  assumes laws: "sysv_sem os svals skey live" and x: "sems s a = Some x" and y: "sems s b = Some y" and "a \<noteq> b"
    and addr: "int a < 2147483648" "int b < 2147483648" and ok: "table_ok s ch"
    and inb: "table_in (live (ssys s)) ch" and m: "\<not> mutex s" and va: "uint va \<le> SEMVMX"
    and vb: "uint vb \<le> SEMVMX" and fuel: "length (ch 0) + 2 < fuel"
  shows "\<exists>s1 s2. sem_init os a 0 va s = Ret (0, s1) \<and> sem_init os b 0 vb s1 = Ret (0, s2)
     \<and> sem_getvalue fuel os a (Some z) s2 = Ret (0, Some (uint vb), s2)"
proof -
  have "length (ch 0) + 1 < fuel" using fuel by simp
  then obtain s1 i1 ch1 where 1: "sem_init os a 0 va s = Ret (0, s1)" "table_ok s1 ch1"
    "table_in (live (ssys s1)) ch1" "\<not> mutex s1" "length (ch1 0) = length (ch 0) + 1"
    "sems s1 = (sems s)(a \<mapsto> x\<lparr>semkey := 0, initialized := 0\<rparr>)"
    using sysv_sem.sem_init_bound [OF laws x _ addr(1) _ ok inb m va, of 0 0 fuel] by (auto simp: init_key_def)
  have y1: "sems s1 b = Some y" and f1: "length (ch1 0) + 1 < fuel"
    using 1(5,6) y fuel \<open>a \<noteq> b\<close> by simp_all
  then obtain s2 i2 ch2 where 2: "sem_init os b 0 vb s1 = Ret (0, s2)" "table_ok s2 ch2" "\<not> mutex s2"
    "table_map s2 ch2 0 = Some i2" "length (ch2 0) = length (ch1 0) + 1"
    "sems s2 = (sems s1)(b \<mapsto> y\<lparr>semkey := 0, initialized := 0\<rparr>)"
    "svals (ssys s2) = (svals (ssys s1))(i2 \<mapsto> [uint vb])"
    using sysv_sem.sem_init_bound [OF laws y1 _ addr(2) _ 1(2,3,4) vb, of 0 0 fuel] by (auto simp: init_key_def)
  have "bound_to fuel os s2 a i2"
    by (rule bound_to_found [where x = "x\<lparr>semkey := 0, initialized := 0\<rparr>", OF _ _ _ 2(3,2)])
      (use 1 2 fuel \<open>a \<noteq> b\<close> in auto)
  from sysv_sem.sem_getvalue_value [OF laws this, of "uint vb"] 1(1) 2(1,7) show ?thesis by auto
qed

theorem private_semaphores_alias_witness:
  "\<exists>s1 s2. sem_init (ref_sem_os True) 700 0 1 (sem_boot [700, 800]) = Ret (0, s1)
     \<and> sem_init (ref_sem_os True) 800 0 6 s1 = Ret (0, s2)
     \<and> sem_getvalue 3 (ref_sem_os True) 700 (Some 0) s2 = Ret (0, Some 6, s2)"
  using private_semaphores_alias [OF ref_sem.sysv_sem_axioms, of "sem_boot [700, 800]" 700 _ 800 _ "\<lambda>_. []" 1 6 3 True 0]
    sem_boot_table [of "[700, 800]"] table_in_empty
  by (simp add: SEMVMX_def) (simp add: sem_boot_def)

lemma get_semid_miss:
  assumes laws: "sysv_sem os svals skey live" and x: "sems s sem = Some x" "initialized x = 0"
    and key: "0 < semkey x" "semkey x < 2147483648" and m: "\<not> mutex s" and ok: "table_ok s ch"
    and inb: "table_in (live (ssys s)) ch" and new: "table_map s ch (semkey x) = None"
    and set: "skey (ssys s) (semkey x) = Some i" "0 \<le> i" "svals (ssys s) i = Some (v # vs)"
    and fuel: "length (ch (nat (semkey x mod 253))) + 1 < fuel"
  shows "\<exists>s1. get_semid fuel os sem s = Ret (- 1, s1) \<and> bound_to fuel os s1 sem i \<and> svals (ssys s1) = svals (ssys s)"
proof -
  let ?b = "nat (semkey x mod 253)"
  obtain s0 where l: "lock os s = Ret s0" "items s0 = items s" "hash_table s0 = hash_table s"
    "ssys s0 = ssys s" "sems s0 = sems s" by (rule lock_unlock [OF m, of os]) blast
  have ok0: "table_ok s0 ch" "table_in (live (ssys s0)) ch" using ok inb l by (simp_all add: table_ok_def)
  from sysv_sem.insert_semid_live [OF laws ok0, of "semkey x" i] key obtain ip s1 where
    r: "insert_semid os (semkey x) i s0 = Ret s1" "table_ok s1 (ch(?b := ip # ch ?b))"
    "table_map s1 (ch(?b := ip # ch ?b)) (semkey x) = Some i" "sems s1 = sems s0" "svals (ssys s1) = svals (ssys s0)"
    "mutex s1 = mutex s0" by fastforce
  have "hchain (items s0) (hash_table s0 ?b) (ch ?b)" "length (ch ?b) < fuel"
    using ok0(1) key fuel by (auto simp: table_ok_def bucket_less)
  from find_item_chain [OF this, of "semkey x"] have f: "find_item fuel (semkey x) (hash_table s0 ?b) s0 = Ret None"
    using new l by (simp add: table_map_def)
  have "os_semget os (semkey x) 1 0 (ssys s0) = (Inr i, ssys s0)"
    using sysv_sem.semget_found [OF laws _ set(1,3), of 1 0] key l by simp
  then have g: "get_semid fuel os sem s = Ret (- 1, unlock os s1)"
    using x key l(1) f r(1) set(2) by (simp add: get_semid_def bucket_of_nonneg scall_def to_int_id)
  have u: "items (unlock os s1) = items s1" "hash_table (unlock os s1) = hash_table s1"
    "sems (unlock os s1) = sems s1" "ssys (unlock os s1) = ssys s1" by (simp_all add: unlock_def)
  have "\<not> mutex (unlock os s1)" using r(6) l(1) m by (auto simp: unlock_def lock_def)
  then have "bound_to fuel os (unlock os s1) sem i"
    by (rule bound_to_found [where x = x and ch = "ch(?b := ip # ch ?b)", rotated 3])
      (use x key r l u fuel in \<open>simp_all add: table_ok_def table_map_def\<close>)
  with g u r(5) l(4) show ?thesis by auto
qed

text \<open>A process that uses a shared semaphore it did not initialise finds the kernel set by its
  key and records it in the table, but \<open>get_semid\<close> still returns -1, so the first operation fails
  with \<open>EINVAL\<close>; the same call repeated succeeds.\<close>

theorem first_use_of_shared_fails:
  assumes "sysv_sem os svals skey live" and "sems s sem = Some x" and "initialized x = 0"
    and "0 < semkey x" and "semkey x < 2147483648" and "\<not> mutex s" and "table_ok s ch"
    and "table_in (live (ssys s)) ch" and "table_map s ch (semkey x) = None"
    and "skey (ssys s) (semkey x) = Some i" and "0 \<le> i" and "svals (ssys s) i = Some (v # vs)"
    and "length (ch (nat (semkey x mod 253))) + 1 < fuel"
    and "0 \<le> v" and "v < SEMVMX" and "svals (ssys s) (- 1) = None"
  shows "\<exists>s1 s2. sem_post fuel os sem s = Ret (- 1, s1) \<and> serrno s1 = EINVAL \<and> svals (ssys s1) = svals (ssys s)
     \<and> sem_post fuel os sem s1 = Ret (0, s2) \<and> svals (ssys s2) = (svals (ssys s))(i \<mapsto> (v + 1) # vs)"
proof -
  from get_semid_miss [OF assms(1-13)] obtain s1 where
    r: "get_semid fuel os sem s = Ret (- 1, s1)" "bound_to fuel os s1 sem i" "svals (ssys s1) = svals (ssys s)" by blast
  have 1: "sem_post fuel os sem s = Ret (- 1, s1\<lparr>serrno := EINVAL\<rparr>)"
    using r(1,3) assms(16) sysv_sem.semop_gone [OF assms(1), of "ssys s1" "- 1"]
    by (simp add: sem_post_def semop_call_def)
  from r(2,3) assms(12) have "bound_to fuel os (s1\<lparr>serrno := EINVAL\<rparr>) sem i"
    "svals (ssys (s1\<lparr>serrno := EINVAL\<rparr>)) i = Some (v # vs)" by simp_all
  from sysv_sem.sem_post_counts [OF assms(1) this assms(14,15)] 1 r(3) show ?thesis by auto
qed

definition attached :: "sem_kernel sstate" where
  "attached = (sem_boot [])\<lparr>sems := [5 \<mapsto> \<lparr>semkey = 9, semid = 0, initialized = 0\<rparr>],
     ssys := ref_sem_boot\<lparr>kvals := [(1, [2])], kkey := [9 \<mapsto> 1]\<rparr>\<rparr>"

theorem first_use_of_shared_fails_witness:
  "\<exists>s1 s2. sem_post 2 (ref_sem_os False) 5 attached = Ret (- 1, s1) \<and> serrno s1 = EINVAL
     \<and> sem_post 2 (ref_sem_os False) 5 s1 = Ret (0, s2) \<and> ref_svals (ssys s2) 1 = Some [3]"
proof -
  have v: "ref_svals (ssys attached) 1 = Some [2]" "ref_svals (ssys attached) (- 1) = None"
    by (simp_all add: attached_def ref_svals_def)
  have x: "sems attached 5 = Some \<lparr>semkey = 9, semid = 0, initialized = 0\<rparr>" "kkey (ssys attached) 9 = Some 1"
    "\<not> mutex attached" "table_ok attached (\<lambda>_. [])"
    by (simp_all add: attached_def sem_boot_def table_ok_def)
  show ?thesis
    using first_use_of_shared_fails [OF ref_sem.sysv_sem_axioms x(1) _ _ _ x(3,4) table_in_empty, of 1 2 "[]" 2] x v
    by (fastforce simp: table_map_def SEMVMX_def)
qed

text \<open>With \<^verbatim>\<open>_REENTRANT\<close>, an operation on a shared semaphore whose kernel set is gone
  fails and leaves the table's mutex locked: every later operation that consults the table
  blocks.\<close>

theorem missing_set_leaks_mutex:
  assumes "sysv_sem os svals skey live" and "sems s sem = Some x" and "initialized x = 0"
    and "0 < semkey x" and "semkey x < 2147483648" and "\<not> mutex s" and "os_reentrant os" and "table_ok s ch"
    and "table_map s ch (semkey x) = None" and "skey (ssys s) (semkey x) = None"
    and "length (ch (nat (semkey x mod 253))) < fuel" and "svals (ssys s) (- 1) = None"
    and "sems s other = Some y" and "initialized y = 0"
  shows "\<exists>s1. sem_post fuel os sem s = Ret (- 1, s1) \<and> mutex s1
     \<and> sem_post fuel os other s1 = Block \<and> sem_trywait fuel os other s1 = Block"
proof -
  let ?b = "nat (semkey x mod 253)" and ?s = "s\<lparr>mutex := True\<rparr>"
  let ?t = "?s\<lparr>serrno := ENOENT\<rparr>"
  have "hchain (items ?s) (hash_table ?s ?b) (ch ?b)" using assms(4,8) by (simp add: table_ok_def bucket_less)
  from find_item_chain [OF this assms(11), of "semkey x"] have f:
    "find_item fuel (semkey x) (hash_table ?s ?b) ?s = Ret None" using assms(9) by (simp add: table_map_def)
  have "os_semget os (semkey x) 1 0 (ssys s) = (Inl ENOENT, ssys s)"
    using sysv_sem.semget_missing [OF assms(1) _ assms(10), of 0 1] assms(4) by simp
  then have "get_semid fuel os sem s = Ret (- 1, ?t)"
    using assms(2-7) f by (simp add: get_semid_def lock_def bucket_of_nonneg scall_def to_int_id)
  then have "sem_post fuel os sem s = Ret (- 1, ?t\<lparr>serrno := EINVAL\<rparr>)"
    using sysv_sem.semop_gone [OF assms(1,12)] by (simp add: sem_post_def semop_call_def)
  moreover have "get_semid fuel os other (?t\<lparr>serrno := EINVAL\<rparr>) = Block"
    using assms(7,13,14) by (simp add: get_semid_def lock_def)
  ultimately show ?thesis by (auto simp: sem_post_def sem_trywait_def)
qed

theorem missing_set_leaks_mutex_witness:
  "\<exists>s1. sem_post 1 (ref_sem_os True) 5 (attached\<lparr>ssys := ref_sem_boot\<rparr>) = Ret (- 1, s1) \<and> mutex s1
     \<and> sem_post 1 (ref_sem_os True) 5 s1 = Block \<and> sem_trywait 1 (ref_sem_os True) 5 s1 = Block"
  using missing_set_leaks_mutex [OF ref_sem.sysv_sem_axioms, of "attached\<lparr>ssys := ref_sem_boot\<rparr>" 5
      "\<lparr>semkey = 9, semid = 0, initialized = 0\<rparr>" True "\<lambda>_. []" 1 5]
  by (auto simp: attached_def sem_boot_def table_ok_def table_map_def ref_svals_def ref_sem_os_def ref_sem_boot_def)

text \<open>\<open>remove_semid\<close> takes the entry out of its chain but frees the cell after it. The entry
  itself is never freed, and the next lookup of another key in the same bucket reads freed
  memory.\<close>

theorem remove_semid_frees_next:
  assumes "table_ok s ch" and "ch b = p # q # ps" and "b < 253" and "items s p = Some it"
    and "hkey it = key" and "0 \<le> key" and "nat (key mod 253) = b" and "p \<noteq> q" and "\<not> mutex s" and "0 < fuel"
  shows "\<exists>s'. remove_semid fuel os key s = Ret s' \<and> items s' p = Some it \<and> items s' q = None
     \<and> (\<forall>sem x. sems s sem = Some x \<and> initialized x = 0 \<and> 0 \<le> semkey x \<and> nat (semkey x mod 253) = b
          \<longrightarrow> get_semid fuel os sem s' = Fault)"
proof -
  obtain s1 where l: "lock os s = Ret s1" "items s1 = items s" "hash_table s1 = hash_table s"
    "sems s1 = sems s" by (rule lock_unlock [OF assms(9), of os]) blast
  from assms(1-4) obtain qi where c: "hash_table s b = p" "p \<noteq> 0" "hnext it = q" "q \<noteq> 0" "items s q = Some qi"
    by (force simp: table_ok_def split: option.splits)
  let ?s2 = "s1\<lparr>hash_table := (hash_table s1)(b := q), items := (items s1)(q := None)\<rparr>"
  have w: "remove_walk fuel key (Bucket b) s1 = Ret ?s2"
    using assms(4,5,10) c l by (cases fuel) (simp_all add: free_item_def)
  then have r: "remove_semid fuel os key s = Ret (unlock os ?s2)"
    using l(1) assms(6,7) by (simp add: remove_semid_def bucket_of_nonneg)
  have m: "\<not> mutex (unlock os ?s2)" using l(1) assms(9) by (auto simp: unlock_def lock_def)
  have u: "items (unlock os ?s2) = (items s)(q := None)" "hash_table (unlock os ?s2) b = q"
    "sems (unlock os ?s2) = sems s" using l by (simp_all add: unlock_def)
  have "get_semid fuel os sem (unlock os ?s2) = Fault"
    if "sems s sem = Some x" "initialized x = 0" "0 \<le> semkey x" "nat (semkey x mod 253) = b" for sem x
  proof -
    obtain s3 where "lock os (unlock os ?s2) = Ret s3" "items s3 = items (unlock os ?s2)"
      "hash_table s3 = hash_table (unlock os ?s2)" by (rule lock_unlock [OF m, of os]) blast
    then show ?thesis using that u c(4) assms(10)
      by (cases fuel) (simp_all add: get_semid_def bucket_of_nonneg ideref_def)
  qed
  with r u assms(4,8) show ?thesis by auto
qed

definition colliding :: "sem_kernel sstate" where
  "colliding = (sem_boot [])\<lparr>
     items := [11 \<mapsto> \<lparr>hnext = 12, hkey = 300, hid = 1\<rparr>, 12 \<mapsto> \<lparr>hnext = 0, hkey = 47, hid = 2\<rparr>],
     hash_table := (\<lambda>_. 0)(47 := 11),
     sems := [300 \<mapsto> \<lparr>semkey = 300, semid = 0, initialized = 0\<rparr>, 47 \<mapsto> \<lparr>semkey = 47, semid = 0, initialized = 0\<rparr>]\<rparr>"

theorem remove_semid_frees_next_witness:
  "\<exists>s'. remove_semid 3 (ref_sem_os True) 300 colliding = Ret s' \<and> items s' 12 = None
     \<and> get_semid 3 (ref_sem_os True) 47 s' = Fault"
proof -
  have ok: "table_ok colliding ((\<lambda>_. [])(47 := [11, 12]))"
    by (auto simp: table_ok_def colliding_def sem_boot_def)
  from remove_semid_frees_next [OF ok, of 47 11 12 "[]" "\<lparr>hnext = 12, hkey = 300, hid = 1\<rparr>" 300 3 "ref_sem_os True"]
  obtain s' where "remove_semid 3 (ref_sem_os True) 300 colliding = Ret s'" "items s' 12 = None"
    "\<forall>sem x. sems colliding sem = Some x \<and> initialized x = 0 \<and> 0 \<le> semkey x \<and> nat (semkey x mod 253) = 47
          \<longrightarrow> get_semid 3 (ref_sem_os True) sem s' = Fault"
    by (auto simp: colliding_def sem_boot_def)
  moreover have "sems colliding 47 = Some \<lparr>semkey = 47, semid = 0, initialized = 0\<rparr>" by (simp add: colliding_def)
  ultimately show ?thesis by fastforce
qed

text \<open>\<open>sem_init\<close> with a value from 32768 to 65535 does not return: converted to the 16-bit
  \<^verbatim>\<open>sem_op\<close> the value is negative, and the caller waits for a count nobody else knows of.\<close>

theorem sem_init_large_blocks:
  assumes "sysv_sem os svals skey live" and "sems s sem = Some x" and "int sem < 2147483648"
    and "init_key sem pshared = 0 \<or> skey (ssys s) (init_key sem pshared) = None"
    and "32768 \<le> uint val" and "uint val < 65536"
  shows "sem_init os sem pshared val s = Block"
proof -
  let ?key = "init_key sem pshared"
  have k: "to_int ?key = ?key" using assms(3) by (auto simp: init_key_def intro: to_int_id)
  from assms(4) have "?key = 0 \<or> (skey (ssys s) ?key = None \<and> has (IPC_CREAT OR 511) IPC_CREAT)" by simp
  from sysv_sem.semget_new [OF assms(1) this, of 1] obtain i k where
    g: "os_semget os ?key 1 (IPC_CREAT OR 511) (ssys s) = (Inr i, k)" "0 \<le> i" "svals k i = Some [0]" by auto
  have v: "to_short (uint val) = uint val - 65536" using assms(5,6) by (rule to_short_wrap)
  have "apply_ops [SB 0 (uint val - 65536) 0] [0] = Sleep" using assms(6) by (simp add: has_def)
  from sysv_sem.semop_sleep [OF assms(1) g(3) this] have b: "os_semop os i [SB 0 (uint val - 65536) 0] k = None" .
  have "val \<noteq> 0" using assms(5) by auto
  then show ?thesis
    unfolding sem_init_def init_key_def [symmetric]
    using assms(2) k g(1,2) v b by (simp add: scall_def semop_call_def Let_def)
qed

theorem sem_init_large_blocks_witness:
  "sem_init (ref_sem_os False) 700 0 40000 (sem_boot [700]) = Block"
  by (rule sem_init_large_blocks [OF ref_sem.sysv_sem_axioms]) (simp_all add: sem_boot_def init_key_def)

end
