(* ===== verification/Sysv_Msg.thy ===== *)
theory Sysv_Msg
  imports Posix_Prelude "HOL-Library.AList"
begin

text \<open>
  The interface of the System V message queues, files and mappings that \<^verbatim>\<open>posix1b/mqueue.c\<close> is
  built on: the record \<open>msg_os\<close> of the calls, the locale \<open>sysv_msg\<close> with what \<^verbatim>\<open>msgget(2)\<close>,
  \<^verbatim>\<open>msgop(2)\<close> and \<^verbatim>\<open>msgctl(2)\<close> promise, over an abstraction of the kernel to the messages of
  each queue in order of arrival, and an executable kernel that interprets it.
\<close>

type_synonym msg = "int \<times> string"

section \<open>Calls\<close>

text \<open>
  A call returns an errno (-1 in C) or a value; \<open>mo_msgsnd\<close> and \<open>mo_msgrcv\<close> are \<open>None\<close> when the
  caller is put to sleep. \<open>mo_mmap\<close> gives the identity of the page that holds the start of the
  file: two mappings of one file share it.
\<close>

record 'k msg_os =
  mo_open :: "string \<Rightarrow> flags \<Rightarrow> flags \<Rightarrow> 'k \<Rightarrow> (errno + int) \<times> 'k"
  mo_close :: "int \<Rightarrow> 'k \<Rightarrow> (errno + int) \<times> 'k"
  mo_unlink :: "string \<Rightarrow> 'k \<Rightarrow> (errno + int) \<times> 'k"
  mo_ftok :: "string \<Rightarrow> int \<Rightarrow> 'k \<Rightarrow> (errno + int) \<times> 'k"
  mo_msgget :: "int \<Rightarrow> flags \<Rightarrow> 'k \<Rightarrow> (errno + int) \<times> 'k"
  mo_msgsnd :: "int \<Rightarrow> msg \<Rightarrow> flags \<Rightarrow> 'k \<Rightarrow> ((errno + int) \<times> 'k) option"
  mo_msgrcv :: "int \<Rightarrow> nat \<Rightarrow> int \<Rightarrow> flags \<Rightarrow> 'k \<Rightarrow> ((errno + msg) \<times> 'k) option"
  mo_rmid :: "int \<Rightarrow> 'k \<Rightarrow> (errno + int) \<times> 'k"
  mo_stat :: "int \<Rightarrow> 'k \<Rightarrow> (errno + int) \<times> 'k"
  mo_ftruncate :: "int \<Rightarrow> 'k \<Rightarrow> (errno + int) \<times> 'k"
  mo_mmap :: "int \<Rightarrow> 'k \<Rightarrow> nat option \<times> 'k"
  mo_munmap :: "nat \<Rightarrow> 'k \<Rightarrow> 'k"
  mo_kill :: "int \<Rightarrow> int \<Rightarrow> 'k \<Rightarrow> 'k"
  mo_getpid :: "'k \<Rightarrow> int"
  mo_malloc :: "'k \<Rightarrow> nat \<times> 'k"

section \<open>What msgrcv selects\<close>

text \<open>With a negative type \<open>- b\<close>, the first message of the lowest type that is at most \<open>b\<close>.\<close>

fun take_lowest :: "int \<Rightarrow> msg list \<Rightarrow> (msg \<times> msg list) option" where
  "take_lowest b [] = None"
| "take_lowest b (m # ms) =
     (case take_lowest b ms of
        None \<Rightarrow> if fst m \<le> b then Some (m, ms) else None
      | Some (m', r) \<Rightarrow> if fst m \<le> fst m' then Some (m, ms) else Some (m', m # r))"

lemma take_lowest_bound: "take_lowest b q = Some (m, r) \<Longrightarrow> fst m \<le> b"
  by (induction q arbitrary: m r) (auto split: option.splits if_splits)

lemma take_lowest_None: "take_lowest b q = None \<longleftrightarrow> (\<forall>m \<in> set q. b < fst m)"
  by (induction q) (auto split: option.splits dest: take_lowest_bound)

lemma take_lowest_sort:
  "take_lowest b q = Some (m, r) \<Longrightarrow> sort_key fst q = m # sort_key fst r"
proof (induction q arbitrary: m r)
  case Nil
  then show ?case by simp
next
  case (Cons x xs)
  show ?case
  proof (cases "take_lowest b xs")
    case None
    with Cons.prems have x: "fst x \<le> b" "m = x" "r = xs" by (auto split: if_splits)
    with None have "\<forall>y \<in> set (sort_key fst xs). fst x \<le> fst y" by (auto simp: take_lowest_None)
    with x show ?thesis by (simp add: insort_is_Cons)
  next
    case (Some p)
    then obtain m' r' where p: "take_lowest b xs = Some (m', r')" by (cases p) auto
    from Cons.IH [OF p] p Cons.prems show ?thesis by (auto split: if_splits)
  qed
qed

lemma take_lowest_set: "take_lowest b q = Some (m, r) \<Longrightarrow> set q = insert m (set r)"
  by (metis take_lowest_sort list.simps(15) set_sort)

section \<open>The promises of the kernel\<close>

text \<open>\<open>queue k i\<close>: the messages of the queue; \<open>qbytes k i\<close>: its \<^verbatim>\<open>msg_qbytes\<close>, the limit on the
  bytes and on the number of messages it holds. \<open>MSGMAX\<close> is the limit on the length of one message, with its default on Linux; a longer one is refused with
  \<open>EINVAL\<close>. The process has the permissions for its queues.\<close>

definition MSGMAX :: nat where
  "MSGMAX = 8192"

definition fits :: "nat \<Rightarrow> msg list \<Rightarrow> nat \<Rightarrow> bool" where
  "fits limit q n \<longleftrightarrow> n \<le> MSGMAX \<and> sum_list (map (length \<circ> snd) q) + n \<le> limit \<and> length q + 1 \<le> limit"

locale sysv_msg =
  fixes os :: "('k, 'z) msg_os_scheme"
    and queue :: "'k \<Rightarrow> int \<Rightarrow> msg list option"
    and qbytes :: "'k \<Rightarrow> int \<Rightarrow> nat"
  assumes msgsnd_ok: "queue k i = Some q \<Longrightarrow> 0 < fst m \<Longrightarrow> fits (qbytes k i) q (length (snd m)) \<Longrightarrow>
      \<exists>k'. mo_msgsnd os i m flg k = Some (Inr 0, k') \<and> queue k' = (queue k)(i \<mapsto> q @ [m])
         \<and> qbytes k' = qbytes k"
    and msgsnd_full: "queue k i = Some q \<Longrightarrow> 0 < fst m \<Longrightarrow> length (snd m) \<le> MSGMAX \<Longrightarrow> \<not> fits (qbytes k i) q (length (snd m)) \<Longrightarrow>
      mo_msgsnd os i m flg k = (if has flg IPC_NOWAIT then Some (Inl EAGAIN, k) else None)"
    and msgsnd_toolong: "MSGMAX < length (snd m) \<Longrightarrow> mo_msgsnd os i m flg k = Some (Inl EINVAL, k)"
    and msgsnd_badtype: "fst m \<le> 0 \<Longrightarrow> mo_msgsnd os i m flg k = Some (Inl EINVAL, k)"
    and msgsnd_gone: "queue k i = None \<Longrightarrow> mo_msgsnd os i m flg k = Some (Inl EINVAL, k)"
    and msgrcv_ok: "queue k i = Some q \<Longrightarrow> 0 < b \<Longrightarrow> take_lowest b q = Some (m, r) \<Longrightarrow> length (snd m) \<le> n \<Longrightarrow>
      \<exists>k'. mo_msgrcv os i n (- b) flg k = Some (Inr m, k') \<and> queue k' = (queue k)(i \<mapsto> r)
         \<and> qbytes k' = qbytes k"
    and msgrcv_long: "queue k i = Some q \<Longrightarrow> 0 < b \<Longrightarrow> take_lowest b q = Some (m, r) \<Longrightarrow> n < length (snd m) \<Longrightarrow>
      mo_msgrcv os i n (- b) flg k = Some (Inl E2BIG, k)"
    and msgrcv_none: "queue k i = Some q \<Longrightarrow> 0 < b \<Longrightarrow> take_lowest b q = None \<Longrightarrow>
      mo_msgrcv os i n (- b) flg k = (if has flg IPC_NOWAIT then Some (Inl ENOMSG, k) else None)"
    and msgrcv_gone: "queue k i = None \<Longrightarrow> mo_msgrcv os i n t flg k = Some (Inl EINVAL, k)"
    and stat_ok: "queue k i = Some q \<Longrightarrow> mo_stat os i k = (Inr (int (length q)), k)"
    and stat_gone: "queue k i = None \<Longrightarrow> mo_stat os i k = (Inl EINVAL, k)"
    and kill_queue: "queue (mo_kill os pid sig k) = queue k" "qbytes (mo_kill os pid sig k) = qbytes k"

section \<open>An executable kernel\<close>

text \<open>
  \<open>mq_cap\<close> is the capacity of a queue in bytes; the inode of a file determines its key, as in the
  C library, and its page. Signals sent are logged in \<open>mq_sent\<close>.
\<close>

record msg_kernel =
  mq_queues :: "(int \<times> msg list) list"
  mq_keys :: "int \<Rightarrow> int option"
  mq_files :: "string \<Rightarrow> int option"
  mq_fds :: "int \<Rightarrow> int option"
  mq_inode :: int
  mq_block :: nat
  mq_cap :: nat
  mq_sent :: "(int \<times> int) list"

definition ref_queue :: "msg_kernel \<Rightarrow> int \<Rightarrow> msg list option" where
  "ref_queue k i = map_of (mq_queues k) i"

definition ref_qbytes :: "msg_kernel \<Rightarrow> int \<Rightarrow> nat" where
  "ref_qbytes k i = mq_cap k"

definition ref_mq_open :: "string \<Rightarrow> flags \<Rightarrow> flags \<Rightarrow> msg_kernel \<Rightarrow> (errno + int) \<times> msg_kernel" where
  "ref_mq_open name flg mode k =
     (case mq_files k name of
        Some i \<Rightarrow> if has flg O_CREAT \<and> has flg O_EXCL then (Inl EEXIST, k)
                  else (Inr (i + 3), k\<lparr>mq_fds := (mq_fds k)(i + 3 \<mapsto> i)\<rparr>)
      | None \<Rightarrow> if has flg O_CREAT
                then (Inr (mq_inode k + 3),
                      k\<lparr>mq_files := (mq_files k)(name \<mapsto> mq_inode k), mq_inode := mq_inode k + 1,
                        mq_fds := (mq_fds k)(mq_inode k + 3 \<mapsto> mq_inode k)\<rparr>)
                else (Inl ENOENT, k))"

definition ref_mq_ftok :: "string \<Rightarrow> int \<Rightarrow> msg_kernel \<Rightarrow> (errno + int) \<times> msg_kernel" where
  "ref_mq_ftok name proj k =
     (case mq_files k name of None \<Rightarrow> (Inl ENOENT, k)
      | Some i \<Rightarrow> (Inr (i mod 65536 + (proj mod 256) * 16777216), k))"

definition ref_msgget :: "int \<Rightarrow> flags \<Rightarrow> msg_kernel \<Rightarrow> (errno + int) \<times> msg_kernel" where
  "ref_msgget key flg k =
     (case mq_keys k key of
        Some i \<Rightarrow> (Inr i, k)
      | None \<Rightarrow> if has flg IPC_CREAT
                then let i = fresh_id (mq_queues k)
                     in (Inr i, k\<lparr>mq_queues := (i, []) # mq_queues k, mq_keys := (mq_keys k)(key \<mapsto> i)\<rparr>)
                else (Inl ENOENT, k))"

definition ref_msgsnd :: "int \<Rightarrow> msg \<Rightarrow> flags \<Rightarrow> msg_kernel \<Rightarrow> ((errno + int) \<times> msg_kernel) option" where
  "ref_msgsnd i m flg k =
     (case ref_queue k i of
        None \<Rightarrow> Some (Inl EINVAL, k)
      | Some q \<Rightarrow>
          if fst m \<le> 0 \<or> MSGMAX < length (snd m) then Some (Inl EINVAL, k)
          else if fits (mq_cap k) q (length (snd m))
          then Some (Inr 0, k\<lparr>mq_queues := AList.update i (q @ [m]) (mq_queues k)\<rparr>)
          else if has flg IPC_NOWAIT then Some (Inl EAGAIN, k) else None)"

definition ref_msgrcv :: "int \<Rightarrow> nat \<Rightarrow> int \<Rightarrow> flags \<Rightarrow> msg_kernel \<Rightarrow> ((errno + msg) \<times> msg_kernel) option" where
  "ref_msgrcv i n t flg k =
     (case ref_queue k i of
        None \<Rightarrow> Some (Inl EINVAL, k)
      | Some q \<Rightarrow> (case take_lowest (- t) q of
            None \<Rightarrow> if has flg IPC_NOWAIT then Some (Inl ENOMSG, k) else None
          | Some (m, r) \<Rightarrow>
              if n < length (snd m) then Some (Inl E2BIG, k)
              else Some (Inr m, k\<lparr>mq_queues := AList.update i r (mq_queues k)\<rparr>)))"

definition ref_mq_stat :: "int \<Rightarrow> msg_kernel \<Rightarrow> (errno + int) \<times> msg_kernel" where
  "ref_mq_stat i k =
     (case ref_queue k i of None \<Rightarrow> (Inl EINVAL, k) | Some q \<Rightarrow> (Inr (int (length q)), k))"

definition ref_mq_rmid :: "int \<Rightarrow> msg_kernel \<Rightarrow> (errno + int) \<times> msg_kernel" where
  "ref_mq_rmid i k =
     (case ref_queue k i of None \<Rightarrow> (Inl EINVAL, k)
      | Some q \<Rightarrow> (Inr 0, k\<lparr>mq_queues := AList.delete i (mq_queues k),
                            mq_keys := (\<lambda>x. if mq_keys k x = Some i then None else mq_keys k x)\<rparr>))"

definition ref_mq_unlink :: "string \<Rightarrow> msg_kernel \<Rightarrow> (errno + int) \<times> msg_kernel" where
  "ref_mq_unlink name k =
     (case mq_files k name of None \<Rightarrow> (Inl ENOENT, k)
      | Some i \<Rightarrow> (Inr 0, k\<lparr>mq_files := (mq_files k)(name := None)\<rparr>))"

definition ref_msg_os :: "msg_kernel msg_os" where
  "ref_msg_os =
     \<lparr>mo_open = ref_mq_open, mo_close = (\<lambda>fd k. (Inr 0, k\<lparr>mq_fds := (mq_fds k)(fd := None)\<rparr>)),
      mo_unlink = ref_mq_unlink, mo_ftok = ref_mq_ftok, mo_msgget = ref_msgget, mo_msgsnd = ref_msgsnd,
      mo_msgrcv = ref_msgrcv, mo_rmid = ref_mq_rmid, mo_stat = ref_mq_stat,
      mo_ftruncate = (\<lambda>fd k. (Inr 0, k)),
      mo_mmap = (\<lambda>fd k. (map_option nat (mq_fds k fd), k)), mo_munmap = (\<lambda>p k. k),
      mo_kill = (\<lambda>pid sig k. k\<lparr>mq_sent := (pid, sig) # mq_sent k\<rparr>), mo_getpid = (\<lambda>k. 77),
      mo_malloc = (\<lambda>k. (Suc (mq_block k), k\<lparr>mq_block := Suc (mq_block k)\<rparr>))\<rparr>"

definition ref_msg_boot :: msg_kernel where
  "ref_msg_boot = \<lparr>mq_queues = [], mq_keys = Map.empty, mq_files = Map.empty, mq_fds = Map.empty,
     mq_inode = 1, mq_block = 1000, mq_cap = 16384, mq_sent = []\<rparr>"

lemmas ref_msg_defs = ref_msg_os_def ref_mq_open_def ref_mq_ftok_def ref_msgget_def ref_msgsnd_def
  ref_msgrcv_def ref_mq_stat_def ref_mq_rmid_def ref_mq_unlink_def ref_queue_def Let_def

interpretation ref_msg: sysv_msg ref_msg_os ref_queue ref_qbytes
  by unfold_locales
    (auto simp: ref_msg_defs ref_qbytes_def fits_def update_conv' fun_eq_iff split: option.splits)

end
