(* ===== verification/Posix_Mq.thy ===== *)
theory Posix_Mq
  imports Sysv_Msg
begin

text \<open>
  The message queues of \<^verbatim>\<open>posix1b/mqueue.c\<close>: descriptors are heap cells, a message of priority
  \<open>p\<close> is a System V message of type \<^verbatim>\<open>MQ_PRIO_MAX - p\<close>, and the notification request of a queue
  is the shared page at the start of its file. \<^verbatim>\<open>dprint\<close> and \<^verbatim>\<open>perror\<close> only print. The
  variadic arguments of \<open>mq_open\<close> are read on every call and are parameters here.
\<close>

section \<open>State\<close>

definition MQ_MAX :: int where "MQ_MAX = 64"
definition MQ_MAXMSG :: int where "MQ_MAXMSG = 40"
definition MQ_MSGSIZE :: int where "MQ_MSGSIZE = 16384"
definition MQ_PRIO_MAX :: int where "MQ_PRIO_MAX = 256"

lemmas mq_consts = MQ_MAX_def MQ_MAXMSG_def MQ_MSGSIZE_def MQ_PRIO_MAX_def

record mq_notification_request =
  req_pid :: int
  req_signo :: int

text \<open>\<open>d_req\<close> is the page of the notification request, \<open>None\<close> when the mapping failed.\<close>

record mq_descriptor =
  d_msgid :: int
  d_fd :: int
  d_flags :: int
  d_req :: "nat option"

record mq_attr =
  mq_flags :: int
  mq_maxmsg :: int
  mq_msgsize :: int
  mq_curmsgs :: int

record 'k mqstate =
  descs :: "nat \<rightharpoonup> mq_descriptor"
  reqs :: "nat \<rightharpoonup> mq_notification_request"
  qerrno :: errno
  qsys :: 'k

definition qcall :: "('k \<Rightarrow> (errno + int) \<times> 'k) \<Rightarrow> 'k mqstate \<Rightarrow> int \<times> 'k mqstate" where
  "qcall f s =
     (case f (qsys s) of
        (Inl e, k) \<Rightarrow> (- 1, s\<lparr>qerrno := e, qsys := k\<rparr>)
      | (Inr v, k) \<Rightarrow> (v, s\<lparr>qsys := k\<rparr>))"

definition qderef :: "'k mqstate \<Rightarrow> nat \<Rightarrow> mq_descriptor outcome" where
  "qderef s p = (case descs s p of None \<Rightarrow> Fault | Some d \<Rightarrow> Ret d)"

definition rderef :: "'k mqstate \<Rightarrow> nat \<Rightarrow> mq_notification_request outcome" where
  "rderef s p = (case reqs s p of None \<Rightarrow> Fault | Some r \<Rightarrow> Ret r)"

text \<open>\<^verbatim>\<open>x & O_NONBLOCK\<close> and \<^verbatim>\<open>x & IPC_NOWAIT\<close> on a long.\<close>

definition has_long :: "int \<Rightarrow> flags \<Rightarrow> bool" where
  "has_long x f \<longleftrightarrow> x AND uint f \<noteq> 0"

section \<open>Attributes\<close>

definition attr_of :: "int \<Rightarrow> int \<Rightarrow> mq_attr" where
  "attr_of dflags qnum =
     \<lparr>mq_flags = (if has_long dflags IPC_NOWAIT then uint O_NONBLOCK else 0),
      mq_maxmsg = MQ_MAX, mq_msgsize = MQ_MSGSIZE, mq_curmsgs = qnum\<rparr>"

text \<open>
  \<open>mq_getattr\<close> and \<open>mq_setattr\<close> return the attributes they store through the pointer; \<open>wanted\<close>
  says whether that pointer is not NULL.
\<close>

definition mq_getattr ::
  "('k, 'z) msg_os_scheme \<Rightarrow> nat \<Rightarrow> bool \<Rightarrow> 'k mqstate \<Rightarrow> (int \<times> mq_attr option \<times> 'k mqstate) outcome" where
  "mq_getattr os mqdes wanted s =
     (if \<not> wanted then Ret (- 1, None, s\<lparr>qerrno := EINVAL\<rparr>)
      else obind (qderef s mqdes) (\<lambda>d.
        let (n, s1) = qcall (mo_stat os (d_msgid d)) s
        in if n < 0 then Ret (- 1, None, s1) else Ret (0, Some (attr_of (d_flags d) n), s1)))"

definition mq_setattr ::
  "('k, 'z) msg_os_scheme \<Rightarrow> nat \<Rightarrow> mq_attr option \<Rightarrow> bool \<Rightarrow> 'k mqstate
     \<Rightarrow> (int \<times> mq_attr option \<times> 'k mqstate) outcome" where
  "mq_setattr os mqdes mqstat wanted s =
     obind (qderef s mqdes) (\<lambda>d.
       let oflags = d_flags d;
           s1 = (case mqstat of
                   None \<Rightarrow> s
                 | Some a \<Rightarrow> s\<lparr>descs := (descs s)(mqdes \<mapsto>
                     d\<lparr>d_flags := (if has_long (mq_flags a) O_NONBLOCK then uint IPC_NOWAIT else 0)\<rparr>)\<rparr>)
       in if \<not> wanted then Ret (0, None, s1)
          else
            let (n, s2) = qcall (mo_stat os (d_msgid d)) s1
            in if n < 0 then Ret (- 1, None, s2) else Ret (0, Some (attr_of oflags n), s2))"

section \<open>Opening and closing\<close>

definition bad_attr :: "mq_attr \<Rightarrow> bool" where
  "bad_attr a \<longleftrightarrow> mq_maxmsg a \<le> 0 \<or> mq_msgsize a \<le> 0 \<or> mq_maxmsg a > MQ_MAXMSG \<or> mq_msgsize a > MQ_MSGSIZE"

text \<open>The label \<^verbatim>\<open>err\<close>: the file is unlinked and closed if it was opened; \<open>None\<close> is \<^verbatim>\<open>(mqd_t)-1\<close>.\<close>

definition mq_open_err ::
  "('k, 'z) msg_os_scheme \<Rightarrow> string \<Rightarrow> int \<Rightarrow> 'k mqstate \<Rightarrow> (nat option \<times> 'k mqstate) outcome" where
  "mq_open_err os name fd s =
     Ret (None, if fd \<ge> 0 then snd (qcall (mo_close os fd) (snd (qcall (mo_unlink os name) s))) else s)"

text \<open>The file: the descriptor, or the errno path with the descriptor reached so far.\<close>

definition mq_open_file ::
  "('k, 'z) msg_os_scheme \<Rightarrow> string \<Rightarrow> flags \<Rightarrow> flags \<Rightarrow> mq_attr option \<Rightarrow> 'k mqstate
     \<Rightarrow> bool \<times> int \<times> 'k mqstate" where
  "mq_open_file os name oflag mode attr s =
     (if has oflag O_CREAT then
        let (fd, s1) = (if has oflag O_EXCL then (- 1, s)
                        else qcall (mo_open os name (oflag AND NOT O_CREAT) 0) s)
        in if (case attr of None \<Rightarrow> False | Some a \<Rightarrow> bad_attr a)
           then (False, fd, s1\<lparr>qerrno := EINVAL\<rparr>)
           else if fd < 0
           then let (fd', s2) = qcall (mo_open os name oflag mode) s1 in (0 \<le> fd', fd', s2)
           else (True, fd, s1)
      else let (fd, s1) = qcall (mo_open os name oflag 0) s in (0 \<le> fd, fd, s1))"

text \<open>Truncating and mapping the file, and clearing the pid of the request on the page.\<close>

definition mq_open_map :: "('k, 'z) msg_os_scheme \<Rightarrow> int \<Rightarrow> 'k mqstate \<Rightarrow> nat option \<times> 'k mqstate" where
  "mq_open_map os fd s =
     (let (_, s1) = qcall (mo_ftruncate os fd) s in
      case mo_mmap os fd (qsys s1) of
        (None, k) \<Rightarrow> (None, s1\<lparr>qsys := k\<rparr>)
      | (Some pg, k) \<Rightarrow>
          (Some pg, s1\<lparr>qsys := k, reqs := (reqs s1)(pg \<mapsto>
             (case reqs s1 pg of None \<Rightarrow> \<lparr>req_pid = 0, req_signo = 0\<rparr> | Some r \<Rightarrow> r\<lparr>req_pid := 0\<rparr>))\<rparr>))"

definition mq_open ::
  "('k, 'z) msg_os_scheme \<Rightarrow> string \<Rightarrow> flags \<Rightarrow> flags \<Rightarrow> mq_attr option \<Rightarrow> 'k mqstate
     \<Rightarrow> (nat option \<times> 'k mqstate) outcome" where
  "mq_open os name oflag mode attr s =
     (let (ok, fd, s1) = mq_open_file os name oflag mode attr s in
      if \<not> ok then mq_open_err os name fd s1
      else
        let (key, s2) = qcall (mo_ftok os name 97) s1 in
        if key < 0 then mq_open_err os name fd s2
        else
          let msgflg = (0x1FF AND mode) OR (if has oflag (O_CREAT OR O_EXCL) then IPC_CREAT else 0);
              (msgid, s3) = qcall (mo_msgget os key msgflg) s2
          in if msgid < 0 then mq_open_err os name fd s3
             else
               let (q, k) = mo_malloc os (qsys s3); s4 = s3\<lparr>qsys := k\<rparr> in
               if q = 0 then mq_open_err os name fd (s4\<lparr>qerrno := ENOSPC\<rparr>)
               else
                 let (pg, s5) = mq_open_map os fd s4;
                     s6 = s5\<lparr>descs := (descs s5)(q \<mapsto>
                            \<lparr>d_msgid = msgid, d_fd = fd,
                             d_flags = (case attr of None \<Rightarrow> 0 | Some a \<Rightarrow> mq_flags a), d_req = pg\<rparr>)\<rparr>
                 in case attr of
                      None \<Rightarrow> Ret (Some q, s6)
                    | Some a \<Rightarrow> obind (mq_setattr os q (Some a) False s6) (\<lambda>(_, _, s7). Ret (Some q, s7)))"

definition mq_close :: "('k, 'z) msg_os_scheme \<Rightarrow> nat \<Rightarrow> 'k mqstate \<Rightarrow> (int \<times> 'k mqstate) outcome" where
  "mq_close os mqdes s =
     obind (qderef s mqdes) (\<lambda>d.
       let s1 = (case d_req d of None \<Rightarrow> s | Some pg \<Rightarrow> s\<lparr>qsys := mo_munmap os pg (qsys s)\<rparr>);
           s2 = (if d_fd d \<ge> 0 then snd (qcall (mo_close os (d_fd d)) s1) else s1)
       in Ret (0, s2\<lparr>descs := (descs s2)(mqdes := None)\<rparr>))"

definition mq_unlink :: "('k, 'z) msg_os_scheme \<Rightarrow> string \<Rightarrow> 'k mqstate \<Rightarrow> int \<times> 'k mqstate" where
  "mq_unlink os name s =
     (let (key, s1) = qcall (mo_ftok os name 0) s in
      if key < 0 then (- 1, s1)
      else
        let (msgid, s2) = qcall (mo_msgget os key 0) s1 in
        if msgid < 0 then (- 1, s2)
        else qcall (mo_rmid os msgid) (snd (qcall (mo_unlink os name) s2)))"

section \<open>Notification, sending and receiving\<close>

definition mq_notify ::
  "('k, 'z) msg_os_scheme \<Rightarrow> nat \<Rightarrow> sigevent option \<Rightarrow> 'k mqstate \<Rightarrow> (int \<times> 'k mqstate) outcome" where
  "mq_notify os mqdes notification s =
     obind (qderef s mqdes) (\<lambda>d.
       case d_req d of
         None \<Rightarrow> Ret (- 1, s\<lparr>qerrno := ENOENT\<rparr>)
       | Some pg \<Rightarrow> obind (rderef s pg) (\<lambda>r.
           case notification of
             None \<Rightarrow> Ret (0, s\<lparr>reqs := (reqs s)(pg \<mapsto> r\<lparr>req_pid := 0\<rparr>)\<rparr>)
           | Some ev \<Rightarrow>
               if sigev_notify ev = SIGEV_NONE then Ret (0, s\<lparr>reqs := (reqs s)(pg \<mapsto> r\<lparr>req_pid := 0\<rparr>)\<rparr>)
               else if sigev_notify ev = SIGEV_SIGNAL then
                 (if req_pid r \<noteq> 0 then Ret (- 1, s\<lparr>qerrno := EBUSY\<rparr>)
                  else Ret (0, s\<lparr>reqs := (reqs s)(pg \<mapsto>
                         \<lparr>req_pid = mo_getpid os (qsys s), req_signo = sigev_signo ev\<rparr>)\<rparr>))
               else Ret (- 1, s\<lparr>qerrno := EINVAL\<rparr>)))"

text \<open>\<open>send_notify\<close>: after a successful \<^verbatim>\<open>msgsnd\<close> the registered process is signalled once.\<close>

definition send_notify :: "('k, 'z) msg_os_scheme \<Rightarrow> mq_descriptor \<Rightarrow> 'k mqstate \<Rightarrow> (int \<times> 'k mqstate) outcome" where
  "send_notify os d s =
     (case d_req d of
        None \<Rightarrow> Ret (0, s)
      | Some pg \<Rightarrow> obind (rderef s pg) (\<lambda>r.
          if req_pid r \<noteq> 0
          then Ret (0, s\<lparr>qsys := mo_kill os (req_pid r) (req_signo r) (qsys s),
                         reqs := (reqs s)(pg \<mapsto> r\<lparr>req_pid := 0\<rparr>)\<rparr>)
          else Ret (0, s)))"

definition mq_send ::
  "('k, 'z) msg_os_scheme \<Rightarrow> nat \<Rightarrow> string \<Rightarrow> 32 word \<Rightarrow> 'k mqstate \<Rightarrow> (int \<times> 'k mqstate) outcome" where
  "mq_send os mqdes text msg_prio s =
     (if uint msg_prio > MQ_PRIO_MAX then Ret (- 1, s\<lparr>qerrno := EINVAL\<rparr>)
      else if int (length text) > MQ_MSGSIZE then Ret (- 1, s\<lparr>qerrno := E2BIG\<rparr>)
      else obind (qderef s mqdes) (\<lambda>d.
        case mo_msgsnd os (d_msgid d) (MQ_PRIO_MAX - uint msg_prio, text) (word_of_int (d_flags d)) (qsys s) of
          None \<Rightarrow> Block
        | Some (Inl e, k) \<Rightarrow> Ret (0, s\<lparr>qerrno := e, qsys := k\<rparr>)
        | Some (Inr rc, k) \<Rightarrow> if rc = 0 then send_notify os d (s\<lparr>qsys := k\<rparr>) else Ret (0, s\<lparr>qsys := k\<rparr>)))"

text \<open>\<open>mq_receive\<close> returns the length received, and the priority and text stored for the caller.\<close>

definition mq_receive ::
  "('k, 'z) msg_os_scheme \<Rightarrow> nat \<Rightarrow> nat \<Rightarrow> 'k mqstate \<Rightarrow> (int \<times> (int \<times> string) option \<times> 'k mqstate) outcome" where
  "mq_receive os mqdes msg_len s =
     obind (qderef s mqdes) (\<lambda>d.
       case mo_msgrcv os (d_msgid d) msg_len (- MQ_PRIO_MAX) (word_of_int (d_flags d)) (qsys s) of
         None \<Rightarrow> Block
       | Some (Inl e, k) \<Rightarrow> Ret (- 1, None, s\<lparr>qerrno := e, qsys := k\<rparr>)
       | Some (Inr (mtype, text), k) \<Rightarrow>
           Ret (int (length text), Some (to_uint (MQ_PRIO_MAX - mtype), text), s\<lparr>qsys := k\<rparr>))"

end
