(* ===== verification/Mq_Props.thy ===== *)
theory Mq_Props
  imports Posix_Mq
begin

text \<open>
  Properties of \<^verbatim>\<open>posix1b/mqueue.c\<close>. The specification is a priority queue: a list of priorities
  and texts, highest priority first and the oldest first among equals. The hypothesis
  \<open>sysv_msg os queue qbytes\<close> says that the System V calls behave as documented.
\<close>

section \<open>The specification\<close>

type_synonym pq = "(int \<times> string) list"

fun pq_insert :: "int \<times> string \<Rightarrow> pq \<Rightarrow> pq" where
  "pq_insert m [] = [m]"
| "pq_insert m (x # xs) = (if fst m \<le> fst x then x # pq_insert m xs else m # x # xs)"

text \<open>The content of a kernel queue as a priority queue.\<close>

definition prio_msg :: "msg \<Rightarrow> int \<times> string" where
  "prio_msg m = (MQ_PRIO_MAX - fst m, snd m)"

definition mq_abs :: "msg list \<Rightarrow> pq" where
  "mq_abs q = map prio_msg (sort_key fst q)"

definition contents :: "('k \<Rightarrow> int \<Rightarrow> msg list option) \<Rightarrow> nat \<Rightarrow> 'k mqstate \<Rightarrow> pq" where
  "contents queue mqdes s = mq_abs (the (queue (qsys s) (d_msgid (the (descs s mqdes)))))"

text \<open>A usable descriptor: its queue exists, holds only types this library sends, and its
  notification page is mapped.\<close>

definition mq_ok :: "('k \<Rightarrow> int \<Rightarrow> msg list option) \<Rightarrow> nat \<Rightarrow> 'k mqstate \<Rightarrow> bool" where
  "mq_ok queue mqdes s \<longleftrightarrow>
     (\<exists>d q. descs s mqdes = Some d \<and> queue (qsys s) (d_msgid d) = Some q
        \<and> (\<forall>m \<in> set q. 0 < fst m \<and> fst m \<le> MQ_PRIO_MAX)
        \<and> (\<forall>pg. d_req d = Some pg \<longrightarrow> reqs s pg \<noteq> None))"

section \<open>Lemmas\<close>

text \<open>Inserting behind all messages of the same or a lower type.\<close>

fun type_insert :: "msg \<Rightarrow> msg list \<Rightarrow> msg list" where
  "type_insert m [] = [m]"
| "type_insert m (x # xs) = (if fst x \<le> fst m then x # type_insert m xs else m # x # xs)"

lemma type_insert_insort: "insort_key fst x (type_insert m xs) = type_insert m (insort_key fst x xs)"
  by (induction xs) auto

lemma sort_snoc: "sort_key fst (xs @ [m]) = type_insert m (sort_key fst xs)"
  by (induction xs) (auto simp: type_insert_insort)

lemma mq_abs_snoc: "mq_abs (q @ [m]) = pq_insert (prio_msg m) (mq_abs q)"
proof -
  have "map prio_msg (type_insert m xs) = pq_insert (prio_msg m) (map prio_msg xs)" for xs
    by (induction xs) (auto simp: prio_msg_def)
  then show ?thesis by (simp add: mq_abs_def sort_snoc)
qed

lemma mq_abs_take: "take_lowest b q = Some (m, r) \<Longrightarrow> mq_abs q = prio_msg m # mq_abs r"
  by (simp add: mq_abs_def take_lowest_sort)

lemma mq_abs_Nil: "mq_abs q = [] \<longleftrightarrow> q = []"
proof -
  have "sort_key fst q = [] \<longleftrightarrow> q = []" by (metis set_sort set_empty)
  then show ?thesis by (simp add: mq_abs_def)
qed

text \<open>The first message in priority order is the one \<^verbatim>\<open>msgrcv\<close> selects.\<close>

lemma take_lowest_head:
  assumes "mq_abs q = (p, x) # rest" and "\<forall>m \<in> set q. 0 < fst m \<and> fst m \<le> MQ_PRIO_MAX"
  obtains r where "take_lowest MQ_PRIO_MAX q = Some ((MQ_PRIO_MAX - p, x), r)" and "mq_abs r = rest"
    and "set r \<subseteq> set q" and "0 \<le> p" and "p < MQ_PRIO_MAX"
proof (cases "take_lowest MQ_PRIO_MAX q")
  case None
  have "q = []"
  proof (rule ccontr)
    assume "q \<noteq> []"
    then have "hd q \<in> set q" by simp
    with None assms(2) show False by (fastforce simp: take_lowest_None)
  qed
  with assms(1) show thesis by (simp add: mq_abs_def)
next
  case (Some mr)
  then obtain m r where t: "take_lowest MQ_PRIO_MAX q = Some (m, r)" by (cases mr) auto
  from mq_abs_take [OF t] assms(1) have m: "m = (MQ_PRIO_MAX - p, x)" "mq_abs r = rest"
    by (auto simp: prio_msg_def)
  from take_lowest_set [OF t] assms(2) m(1) have "0 \<le> p" "p < MQ_PRIO_MAX" "set r \<subseteq> set q" by auto
  with t m that show thesis by blast
qed

lemma send_notify_ret:
  assumes "\<forall>pg. d_req d = Some pg \<longrightarrow> reqs s pg \<noteq> None"
  obtains s' where "send_notify os d s = Ret (0, s')" and "descs s' = descs s"
    and "qsys s' = qsys s \<or> (\<exists>pid sig. qsys s' = mo_kill os pid sig (qsys s))"
    and "\<forall>pg. reqs s pg \<noteq> None \<longrightarrow> reqs s' pg \<noteq> None"
proof (cases "d_req d")
  case None
  then show thesis by (intro that [of s]) (auto simp: send_notify_def)
next
  case (Some pg)
  with assms obtain r where "reqs s pg = Some r" by blast
  with Some show thesis
    by (cases "req_pid r = 0")
       (rule that [of s], auto simp: send_notify_def rderef_def,
        rule that [of "s\<lparr>qsys := mo_kill os (req_pid r) (req_signo r) (qsys s), reqs := (reqs s)(pg \<mapsto> r\<lparr>req_pid := 0\<rparr>)\<rparr>"],
        auto simp: send_notify_def rderef_def)
qed

lemma mq_okE:
  assumes "mq_ok queue mqdes s"
  obtains d q where "descs s mqdes = Some d" and "queue (qsys s) (d_msgid d) = Some q"
    and "\<forall>m \<in> set q. 0 < fst m \<and> fst m \<le> MQ_PRIO_MAX"
    and "\<forall>pg. d_req d = Some pg \<longrightarrow> reqs s pg \<noteq> None" and "contents queue mqdes s = mq_abs q"
  using assms by (auto simp: mq_ok_def contents_def)

context sysv_msg
begin

lemma mq_send_ok:
  assumes "mq_ok queue mqdes s" and p: "uint prio < MQ_PRIO_MAX" and "int (length text) \<le> MQ_MSGSIZE"
    and fit: "fits (qbytes (qsys s) (d_msgid (the (descs s mqdes))))
           (the (queue (qsys s) (d_msgid (the (descs s mqdes))))) (length text)"
  shows "\<exists>s'. mq_send os mqdes text prio s = Ret (0, s') \<and> mq_ok queue mqdes s'
     \<and> contents queue mqdes s' = pq_insert (uint prio, text) (contents queue mqdes s)
     \<and> descs s' = descs s \<and> qbytes (qsys s') = qbytes (qsys s)
     \<and> queue (qsys s') (d_msgid (the (descs s mqdes)))
         = Some (the (queue (qsys s) (d_msgid (the (descs s mqdes)))) @ [(MQ_PRIO_MAX - uint prio, text)])"
proof -
  from assms(1) obtain d q where d: "descs s mqdes = Some d" "queue (qsys s) (d_msgid d) = Some q"
    "\<forall>m \<in> set q. 0 < fst m \<and> fst m \<le> MQ_PRIO_MAX" "\<forall>pg. d_req d = Some pg \<longrightarrow> reqs s pg \<noteq> None"
    "contents queue mqdes s = mq_abs q" by (rule mq_okE)
  let ?m = "(MQ_PRIO_MAX - uint prio, text)"
  from msgsnd_ok [OF d(2), of ?m "word_of_int (d_flags d)"] fit p d(1,2) obtain k where
    k: "mo_msgsnd os (d_msgid d) ?m (word_of_int (d_flags d)) (qsys s) = Some (Inr 0, k)"
    "queue k = (queue (qsys s))(d_msgid d \<mapsto> q @ [?m])" "qbytes k = qbytes (qsys s)" by auto
  have "\<forall>pg. d_req d = Some pg \<longrightarrow> reqs (s\<lparr>qsys := k\<rparr>) pg \<noteq> None" using d(4) by simp
  from send_notify_ret [OF this, of os] obtain s' where n: "send_notify os d (s\<lparr>qsys := k\<rparr>) = Ret (0, s')"
    "descs s' = descs s" "queue (qsys s') = queue k" "qbytes (qsys s') = qbytes k"
    "\<forall>pg. reqs s pg \<noteq> None \<longrightarrow> reqs s' pg \<noteq> None"
    using kill_queue by (metis mqstate.select_convs(1-4) mqstate.surjective mqstate.update_convs(4))
  have "mq_send os mqdes text prio s = Ret (0, s')"
    using assms(2,3) d(1) k(1) n(1) by (simp add: mq_send_def qderef_def)
  moreover have "mq_ok queue mqdes s'"
    using d p n k(2) uint_ge_0 [of prio] unfolding mq_ok_def by (auto simp: mq_consts)
  moreover have "contents queue mqdes s' = pq_insert (uint prio, text) (contents queue mqdes s)"
    using d(1,5) n k(2) by (simp add: contents_def mq_abs_snoc prio_msg_def)
  ultimately show ?thesis using n k d by auto
qed

lemma mq_receive_ok:
  assumes "mq_ok queue mqdes s" and c: "contents queue mqdes s = (p, x) # rest" and "length x \<le> n"
  shows "\<exists>s'. mq_receive os mqdes n s = Ret (int (length x), Some (p, x), s') \<and> mq_ok queue mqdes s'
     \<and> contents queue mqdes s' = rest \<and> descs s' = descs s \<and> qbytes (qsys s') = qbytes (qsys s)"
proof -
  from assms(1) obtain d q where d: "descs s mqdes = Some d" "queue (qsys s) (d_msgid d) = Some q"
    "\<forall>m \<in> set q. 0 < fst m \<and> fst m \<le> MQ_PRIO_MAX" "\<forall>pg. d_req d = Some pg \<longrightarrow> reqs s pg \<noteq> None"
    "contents queue mqdes s = mq_abs q" by (rule mq_okE)
  from c d(5) have "mq_abs q = (p, x) # rest" by simp
  from this d(3) obtain r where r: "take_lowest MQ_PRIO_MAX q = Some ((MQ_PRIO_MAX - p, x), r)"
    "mq_abs r = rest" "set r \<subseteq> set q" "0 \<le> p" "p < MQ_PRIO_MAX" by (rule take_lowest_head)
  from msgrcv_ok [OF d(2) _ r(1), of n "word_of_int (d_flags d)"] assms(3) obtain k where
    k: "mo_msgrcv os (d_msgid d) n (- MQ_PRIO_MAX) (word_of_int (d_flags d)) (qsys s) = Some (Inr (MQ_PRIO_MAX - p, x), k)"
    "queue k = (queue (qsys s))(d_msgid d \<mapsto> r)" "qbytes k = qbytes (qsys s)" by (auto simp: mq_consts)
  have "to_uint p = p" using r(4,5) by (intro to_uint_id) (auto simp: mq_consts)
  then have "mq_receive os mqdes n s = Ret (int (length x), Some (p, x), s\<lparr>qsys := k\<rparr>)"
    using d(1) k(1) by (simp add: mq_receive_def qderef_def)
  moreover have "mq_ok queue mqdes (s\<lparr>qsys := k\<rparr>)" using d r(3) k(2) by (auto simp: mq_ok_def)
  ultimately show ?thesis using d(1) k r(2) by (auto simp: contents_def)
qed

lemma mq_receive_empty:
  assumes "mq_ok queue mqdes s" and "contents queue mqdes s = []"
  shows "mq_receive os mqdes n s =
    (if has (word_of_int (d_flags (the (descs s mqdes)))) IPC_NOWAIT
     then Ret (- 1, None, s\<lparr>qerrno := ENOMSG\<rparr>) else Block)"
proof -
  from assms(1) obtain d q where d: "descs s mqdes = Some d" "queue (qsys s) (d_msgid d) = Some q"
    "contents queue mqdes s = mq_abs q" by (rule mq_okE)
  with assms(2) have "mq_abs q = []" by simp
  then have "take_lowest MQ_PRIO_MAX q = None" by (simp add: mq_abs_Nil)
  from msgrcv_none [OF d(2) _ this, of n "word_of_int (d_flags d)"] d(1) show ?thesis
    by (simp add: mq_receive_def qderef_def mq_consts)
qed

lemma mq_receive_long:
  assumes "mq_ok queue mqdes s" and c: "contents queue mqdes s = (p, x) # rest" and "n < length x"
  shows "mq_receive os mqdes n s = Ret (- 1, None, s\<lparr>qerrno := E2BIG\<rparr>)"
proof -
  from assms(1) obtain d q where d: "descs s mqdes = Some d" "queue (qsys s) (d_msgid d) = Some q"
    "\<forall>m \<in> set q. 0 < fst m \<and> fst m \<le> MQ_PRIO_MAX" "contents queue mqdes s = mq_abs q" by (rule mq_okE)
  from c d(4) have "mq_abs q = (p, x) # rest" by simp
  from this d(3) obtain r where "take_lowest MQ_PRIO_MAX q = Some ((MQ_PRIO_MAX - p, x), r)"
    by (rule take_lowest_head)
  from msgrcv_long [OF d(2) _ this, of n "word_of_int (d_flags d)"] assms(3) d(1) show ?thesis
    by (simp add: mq_receive_def qderef_def mq_consts)
qed

end

section \<open>Sending and receiving\<close>

lemma mq_send_refused:
  assumes "sysv_msg os queue qbytes" and "mq_ok queue mqdes s"
  shows "uint prio > MQ_PRIO_MAX \<Longrightarrow> mq_send os mqdes text prio s = Ret (- 1, s\<lparr>qerrno := EINVAL\<rparr>)"
    and "uint prio \<le> MQ_PRIO_MAX \<Longrightarrow> int (length text) > MQ_MSGSIZE \<Longrightarrow> mq_send os mqdes text prio s = Ret (- 1, s\<lparr>qerrno := E2BIG\<rparr>)"
    and "uint prio \<le> MQ_PRIO_MAX \<Longrightarrow> int (length text) \<le> MQ_MSGSIZE \<Longrightarrow> uint prio = MQ_PRIO_MAX \<or> MSGMAX < length text \<Longrightarrow>
      mq_send os mqdes text prio s = Ret (0, s\<lparr>qerrno := EINVAL\<rparr>)"
    and "uint prio < MQ_PRIO_MAX \<Longrightarrow> int (length text) \<le> MQ_MSGSIZE \<Longrightarrow> length text \<le> MSGMAX \<Longrightarrow>
      \<not> fits (qbytes (qsys s) (d_msgid (the (descs s mqdes)))) (the (queue (qsys s) (d_msgid (the (descs s mqdes))))) (length text) \<Longrightarrow>
      mq_send os mqdes text prio s =
        (if has (word_of_int (d_flags (the (descs s mqdes)))) IPC_NOWAIT then Ret (0, s\<lparr>qerrno := EAGAIN\<rparr>) else Block)"
proof -
  from assms(2) obtain d q where d: "descs s mqdes = Some d" "queue (qsys s) (d_msgid d) = Some q" by (rule mq_okE)
  let ?m = "(MQ_PRIO_MAX - uint prio, text)"
  show "uint prio > MQ_PRIO_MAX \<Longrightarrow> mq_send os mqdes text prio s = Ret (- 1, s\<lparr>qerrno := EINVAL\<rparr>)"
    and "uint prio \<le> MQ_PRIO_MAX \<Longrightarrow> int (length text) > MQ_MSGSIZE \<Longrightarrow> mq_send os mqdes text prio s = Ret (- 1, s\<lparr>qerrno := E2BIG\<rparr>)"
    by (simp_all add: mq_send_def)
  show "uint prio \<le> MQ_PRIO_MAX \<Longrightarrow> int (length text) \<le> MQ_MSGSIZE \<Longrightarrow> uint prio = MQ_PRIO_MAX \<or> MSGMAX < length text \<Longrightarrow>
      mq_send os mqdes text prio s = Ret (0, s\<lparr>qerrno := EINVAL\<rparr>)"
    using d sysv_msg.msgsnd_badtype [OF assms(1), of ?m] sysv_msg.msgsnd_toolong [OF assms(1), of ?m] by (auto simp: mq_send_def qderef_def)
  show "uint prio < MQ_PRIO_MAX \<Longrightarrow> int (length text) \<le> MQ_MSGSIZE \<Longrightarrow> length text \<le> MSGMAX \<Longrightarrow>
      \<not> fits (qbytes (qsys s) (d_msgid (the (descs s mqdes)))) (the (queue (qsys s) (d_msgid (the (descs s mqdes))))) (length text) \<Longrightarrow>
      mq_send os mqdes text prio s =
        (if has (word_of_int (d_flags (the (descs s mqdes)))) IPC_NOWAIT then Ret (0, s\<lparr>qerrno := EAGAIN\<rparr>) else Block)"
    using d sysv_msg.msgsnd_full [OF assms(1) d(2), of ?m] by (auto simp: mq_send_def qderef_def)
qed

text \<open>C3: Over a System V kernel and on an open descriptor, what \<open>mq_send\<close> and \<open>mq_receive\<close> do in every case. \<open>mq_send\<close> returns -1 for a priority above \<^verbatim>\<open>MQ_PRIO_MAX\<close> and for a message longer than
  \<^verbatim>\<open>MQ_MSGSIZE\<close>. A message that fits is inserted into the priority queue. In the other cases nothing is stored: the priority \<^verbatim>\<open>MQ_PRIO_MAX\<close>, and a message longer than the
  kernel's \<open>MSGMAX\<close>, give the result 0 with \<open>EINVAL\<close>; for a full queue a blocking sender waits and a non-blocking one gets the result 0 with \<open>EAGAIN\<close>. \<open>mq_receive\<close> removes the
  first message and returns its priority and text. An empty queue makes a blocking receiver wait and a
  non-blocking one fail; a message longer than the buffer fails with \<open>E2BIG\<close> and stays.\<close>

theorem mq_refines_priority_queue:
  assumes "sysv_msg os queue qbytes" and "mq_ok queue mqdes s"
  shows "(if uint prio > MQ_PRIO_MAX then mq_send os mqdes text prio s = Ret (- 1, s\<lparr>qerrno := EINVAL\<rparr>)
      else if int (length text) > MQ_MSGSIZE then mq_send os mqdes text prio s = Ret (- 1, s\<lparr>qerrno := E2BIG\<rparr>)
      else if uint prio = MQ_PRIO_MAX \<or> MSGMAX < length text then mq_send os mqdes text prio s = Ret (0, s\<lparr>qerrno := EINVAL\<rparr>)
      else if fits (qbytes (qsys s) (d_msgid (the (descs s mqdes))))
           (the (queue (qsys s) (d_msgid (the (descs s mqdes))))) (length text)
      then \<exists>s'. mq_send os mqdes text prio s = Ret (0, s') \<and> mq_ok queue mqdes s'
              \<and> contents queue mqdes s' = pq_insert (uint prio, text) (contents queue mqdes s)
      else mq_send os mqdes text prio s =
        (if has (word_of_int (d_flags (the (descs s mqdes)))) IPC_NOWAIT then Ret (0, s\<lparr>qerrno := EAGAIN\<rparr>) else Block))
     \<and> (case contents queue mqdes s of
          [] \<Rightarrow> mq_receive os mqdes n s =
                 (if has (word_of_int (d_flags (the (descs s mqdes)))) IPC_NOWAIT
                  then Ret (- 1, None, s\<lparr>qerrno := ENOMSG\<rparr>) else Block)
        | (p, x) # rest \<Rightarrow>
            if length x \<le> n
            then \<exists>s'. mq_receive os mqdes n s = Ret (int (length x), Some (p, x), s') \<and> mq_ok queue mqdes s'
                   \<and> contents queue mqdes s' = rest
            else mq_receive os mqdes n s = Ret (- 1, None, s\<lparr>qerrno := E2BIG\<rparr>))"
  (is "?send \<and> ?receive")
proof
  show ?send using sysv_msg.mq_send_ok [OF assms, of prio "text"] mq_send_refused [OF assms, of prio "text"] by (auto simp: not_less)
  show ?receive
  proof (cases "contents queue mqdes s")
    case Nil
    with sysv_msg.mq_receive_empty [OF assms Nil, of n] show ?thesis by simp
  next
    case (Cons px rest)
    then obtain p x where c: "contents queue mqdes s = (p, x) # rest" by (cases px) auto
    then show ?thesis
      using sysv_msg.mq_receive_ok [OF assms c, of n] sysv_msg.mq_receive_long [OF assms c, of n] by auto
  qed
qed

definition mq_start :: "int \<Rightarrow> msg list \<Rightarrow> msg_kernel mqstate" where
  "mq_start dflags q = \<lparr>descs = [5 \<mapsto> \<lparr>d_msgid = 1, d_fd = 3, d_flags = dflags, d_req = Some 2\<rparr>],
     reqs = [2 \<mapsto> \<lparr>req_pid = 0, req_signo = 0\<rparr>], qerrno = EOK,
     qsys = ref_msg_boot\<lparr>mq_queues := [(1, q)]\<rparr>\<rparr>"

lemma mq_start_ok:
  "\<forall>m \<in> set q. 0 < fst m \<and> fst m \<le> MQ_PRIO_MAX \<Longrightarrow> mq_ok ref_queue 5 (mq_start fl q)"
  by (auto simp: mq_ok_def mq_start_def ref_queue_def)

lemma mq_start_contents: "contents ref_queue 5 (mq_start fl q) = mq_abs q"
  by (simp add: contents_def mq_start_def ref_queue_def)

theorem mq_refines_priority_queue_witness:
  "(\<exists>s'. mq_send ref_msg_os 5 ''hi'' 9 (mq_start 0 [(250, ''a'')]) = Ret (0, s')
       \<and> contents ref_queue 5 s' = [(9, ''hi''), (6, ''a'')])
   \<and> (\<exists>s'. mq_receive ref_msg_os 5 10 (mq_start 0 [(250, ''a'')]) = Ret (1, Some (6, ''a''), s')
       \<and> contents ref_queue 5 s' = [])"
proof -
  let ?s = "mq_start 0 [(250, ''a'')]"
  have c: "contents ref_queue 5 ?s = [(6, ''a'')]"
    by (simp add: mq_start_contents mq_abs_def prio_msg_def mq_consts)
  have ok: "mq_ok ref_queue 5 ?s" by (rule mq_start_ok) (simp add: mq_consts)
  have f: "fits (ref_qbytes (qsys ?s) (d_msgid (the (descs ?s 5))))
      (the (ref_queue (qsys ?s) (d_msgid (the (descs ?s 5))))) (length ''hi'')"
    by (simp add: fits_def MSGMAX_def mq_start_def ref_qbytes_def ref_queue_def ref_msg_boot_def)
  show ?thesis
    using mq_refines_priority_queue [OF ref_msg.sysv_msg_axioms ok, of 9 "''hi''" 10, unfolded c] f
    by (auto simp: mq_consts MSGMAX_def)
qed

text \<open>A session: send a list of messages, then receive as many.\<close>

fun send_all ::
  "('k, 'z) msg_os_scheme \<Rightarrow> nat \<Rightarrow> (32 word \<times> string) list \<Rightarrow> 'k mqstate \<Rightarrow> 'k mqstate outcome" where
  "send_all os mqdes [] s = Ret s"
| "send_all os mqdes ((p, x) # ms) s = obind (mq_send os mqdes x p s) (\<lambda>(_, s'). send_all os mqdes ms s')"

fun receive_all ::
  "('k, 'z) msg_os_scheme \<Rightarrow> nat \<Rightarrow> nat \<Rightarrow> nat \<Rightarrow> 'k mqstate \<Rightarrow> ((int \<times> string) option list \<times> 'k mqstate) outcome" where
  "receive_all os mqdes n 0 s = Ret ([], s)"
| "receive_all os mqdes n (Suc c) s =
     obind (mq_receive os mqdes n s) (\<lambda>(_, m, s'). obind (receive_all os mqdes n c s') (\<lambda>(ms, s''). Ret (m # ms, s'')))"

definition wire :: "(32 word \<times> string) list \<Rightarrow> pq" where
  "wire ms = map (\<lambda>(p, x). (uint p, x)) ms"

lemma pq_insert_insort: "insort_key (\<lambda>m. - fst m) x (pq_insert m xs) = pq_insert m (insort_key (\<lambda>m. - fst m) x xs)"
  by (induction xs) auto

lemma pq_insert_sort: "pq_insert m (sort_key (\<lambda>m. - fst m) xs) = sort_key (\<lambda>m. - fst m) (xs @ [m])"
  by (induction xs) (auto simp: pq_insert_insort [symmetric])

lemma fold_pq_insert: "fold pq_insert ms (sort_key (\<lambda>m. - fst m) xs) = sort_key (\<lambda>m. - fst m) (xs @ ms)"
proof (induction ms arbitrary: xs)
  case Nil
  then show ?case by simp
next
  case (Cons m ms)
  from Cons.IH [of "xs @ [m]"] show ?case by (simp add: pq_insert_sort)
qed

context sysv_msg
begin

lemma send_all_ok:
  assumes "mq_ok queue mqdes s" and "the (descs s mqdes) = d"
    and "\<forall>(p, x) \<in> set ms. uint p < MQ_PRIO_MAX \<and> length x \<le> MSGMAX"
    and "sum_list (map (length \<circ> snd) (the (queue (qsys s) (d_msgid d)))) + sum_list (map (length \<circ> snd) ms)
           \<le> qbytes (qsys s) (d_msgid d)"
    and "length (the (queue (qsys s) (d_msgid d))) + length ms \<le> qbytes (qsys s) (d_msgid d)"
  shows "\<exists>s'. send_all os mqdes ms s = Ret s' \<and> mq_ok queue mqdes s'
     \<and> contents queue mqdes s' = fold pq_insert (wire ms) (contents queue mqdes s)"
  using assms
proof (induction ms arbitrary: s)
  case Nil
  then show ?case by (simp add: wire_def)
next
  case (Cons px ms)
  obtain p x where px: "px = (p, x)" by (cases px)
  from Cons.prems px have "uint p < MQ_PRIO_MAX" "int (length x) \<le> MQ_MSGSIZE"
    "fits (qbytes (qsys s) (d_msgid (the (descs s mqdes))))
       (the (queue (qsys s) (d_msgid (the (descs s mqdes))))) (length x)"
    by (auto simp: fits_def comp_def MSGMAX_def mq_consts)
  from mq_send_ok [OF Cons.prems(1) this] Cons.prems(2) obtain s1 where
    s1: "mq_send os mqdes x p s = Ret (0, s1)" "mq_ok queue mqdes s1"
    "contents queue mqdes s1 = pq_insert (uint p, x) (contents queue mqdes s)"
    "descs s1 = descs s" "qbytes (qsys s1) = qbytes (qsys s)"
    "queue (qsys s1) (d_msgid d) = Some (the (queue (qsys s) (d_msgid d)) @ [(MQ_PRIO_MAX - uint p, x)])" by auto
  from Cons.IH [OF s1(2)] Cons.prems(2-5) s1(4-6) px obtain s' where
    "send_all os mqdes ms s1 = Ret s'" "mq_ok queue mqdes s'"
    "contents queue mqdes s' = fold pq_insert (wire ms) (contents queue mqdes s1)" by auto
  with s1 px show ?case by (auto simp: wire_def)
qed

lemma receive_all_ok:
  assumes "mq_ok queue mqdes s" and "\<forall>(p, x) \<in> set (contents queue mqdes s). length x \<le> n"
  shows "\<exists>s'. receive_all os mqdes n (length (contents queue mqdes s)) s
       = Ret (map Some (contents queue mqdes s), s') \<and> mq_ok queue mqdes s' \<and> contents queue mqdes s' = []"
  using assms
proof (induction "contents queue mqdes s" arbitrary: s)
  case Nil
  then show ?case by (auto simp: eq_commute [of "[]"])
next
  case (Cons px rest)
  obtain p x where px: "px = (p, x)" by (cases px)
  with Cons.hyps(2) have c: "contents queue mqdes s = (p, x) # rest" by simp
  with Cons.prems(2) have "length x \<le> n" by simp
  from mq_receive_ok [OF Cons.prems(1) c this] obtain s1 where
    s1: "mq_receive os mqdes n s = Ret (int (length x), Some (p, x), s1)" "mq_ok queue mqdes s1"
    "contents queue mqdes s1 = rest" by blast
  from Cons.hyps(1) [OF s1(3) [symmetric] s1(2)] Cons.prems(2) c s1(3) obtain s' where
    "receive_all os mqdes n (length rest) s1 = Ret (map Some rest, s')" "mq_ok queue mqdes s'"
    "contents queue mqdes s' = []" by auto
  with s1(1) c show ?case by auto
qed

end

text \<open>Messages sent to an empty queue that has room for them all are received once each, by
  decreasing priority and in the order of sending among equal priorities, and the queue is empty
  again.\<close>

theorem mq_session_sorted:
  assumes "sysv_msg os queue qbytes" and "mq_ok queue mqdes s" and "contents queue mqdes s = []"
    and "\<forall>(p, x) \<in> set ms. uint p < MQ_PRIO_MAX \<and> length x \<le> MSGMAX \<and> length x \<le> n"
    and "sum_list (map (length \<circ> snd) ms) \<le> qbytes (qsys s) (d_msgid (the (descs s mqdes)))"
    and "length ms \<le> qbytes (qsys s) (d_msgid (the (descs s mqdes)))"
  shows "\<exists>s1 s2. send_all os mqdes ms s = Ret s1
     \<and> receive_all os mqdes n (length ms) s1 = Ret (map Some (sort_key (\<lambda>m. - fst m) (wire ms)), s2)
     \<and> contents queue mqdes s2 = []"
proof -
  from assms(2) obtain d q where d: "descs s mqdes = Some d" "queue (qsys s) (d_msgid d) = Some q"
    "contents queue mqdes s = mq_abs q" by (rule mq_okE)
  with assms(3) have "mq_abs q = []" by simp
  then have q: "q = []" by (simp add: mq_abs_Nil)
  from sysv_msg.send_all_ok [OF assms(1,2) refl, of ms] assms(3-6) d q obtain s1 where
    s1: "send_all os mqdes ms s = Ret s1" "mq_ok queue mqdes s1"
    "contents queue mqdes s1 = fold pq_insert (wire ms) []" by fastforce
  let ?c = "sort_key (\<lambda>m. - fst m) (wire ms)"
  have c: "contents queue mqdes s1 = ?c" using s1(3) fold_pq_insert [of "wire ms" "[]"] by simp
  have "\<forall>(p, x) \<in> set (contents queue mqdes s1). length x \<le> n" using assms(4) by (auto simp: c wire_def)
  from sysv_msg.receive_all_ok [OF assms(1) s1(2) this] s1(1) show ?thesis
    by (auto simp: c wire_def)
qed

theorem mq_session_sorted_witness:
  "\<exists>s1 s2. send_all ref_msg_os 5 [(1, ''a''), (7, ''b''), (1, ''c'')] (mq_start 0 []) = Ret s1
     \<and> receive_all ref_msg_os 5 8 3 s1 = Ret ([Some (7, ''b''), Some (1, ''a''), Some (1, ''c'')], s2)"
proof -
  have ok: "mq_ok ref_queue 5 (mq_start 0 [])" by (rule mq_start_ok) simp
  have c: "contents ref_queue 5 (mq_start 0 []) = []" by (simp add: mq_start_contents mq_abs_def)
  have b: "ref_qbytes (qsys (mq_start 0 [])) (d_msgid (the (descs (mq_start 0 []) 5))) = 16384"
    by (simp add: ref_qbytes_def mq_start_def ref_msg_boot_def)
  have w: "sort_key (\<lambda>m. - fst m) (wire [(1, ''a''), (7, ''b''), (1, ''c'')]) = [(7, ''b''), (1, ''a''), (1, ''c'')]"
    by (simp add: wire_def)
  show ?thesis
    using mq_session_sorted [OF ref_msg.sysv_msg_axioms ok c, of "[(1, ''a''), (7, ''b''), (1, ''c'')]" 8]
    unfolding w b by (auto simp: mq_consts MSGMAX_def numeral_3_eq_3 simp del: send_all.simps receive_all.simps)
qed

section \<open>Opening\<close>

text \<open>
  What opening needs of files, keys and memory: \<open>fkey k name proj\<close> is the key \<^verbatim>\<open>ftok\<close> derives
  from an existing file, \<open>mkey\<close> the queue of a key. \<open>same_queues\<close> relates two kernel states that
  agree on queues, keys and files.
\<close>

definition same_queues ::
  "('k \<Rightarrow> int \<Rightarrow> msg list option) \<Rightarrow> ('k \<Rightarrow> int \<Rightarrow> int option) \<Rightarrow> ('k \<Rightarrow> string \<Rightarrow> int \<Rightarrow> int option)
     \<Rightarrow> 'k \<Rightarrow> 'k \<Rightarrow> bool" where
  "same_queues queue mkey fkey k k' \<longleftrightarrow> queue k' = queue k \<and> mkey k' = mkey k \<and> fkey k' = fkey k"

locale mq_paths = sysv_msg os queue qbytes
  for os :: "('k, 'z) msg_os_scheme" and queue and qbytes +
  fixes mkey :: "'k \<Rightarrow> int \<Rightarrow> int option" and fkey :: "'k \<Rightarrow> string \<Rightarrow> int \<Rightarrow> int option"
  assumes ftok_key: "fkey k name proj = Some key \<Longrightarrow> mo_ftok os name proj k = (Inr key, k)"
    and open_existing: "fkey k name proj \<noteq> None \<Longrightarrow> \<not> has flg O_EXCL \<Longrightarrow>
      \<exists>fd k'. mo_open os name flg mode k = (Inr fd, k') \<and> 0 \<le> fd \<and> same_queues queue mkey fkey k k'"
    and msgget_found: "mkey k key = Some i \<Longrightarrow> \<not> has flg IPC_EXCL \<Longrightarrow> mo_msgget os key flg k = (Inr i, k)"
    and msgget_missing: "mkey k key = None \<Longrightarrow> \<not> has flg IPC_CREAT \<Longrightarrow> mo_msgget os key flg k = (Inl ENOENT, k)"
    and msgget_new: "mkey k key = None \<Longrightarrow> has flg IPC_CREAT \<Longrightarrow>
      \<exists>i k'. mo_msgget os key flg k = (Inr i, k') \<and> 0 \<le> i \<and> queue k' = (queue k)(i \<mapsto> [])
         \<and> mkey k' = (mkey k)(key \<mapsto> i) \<and> fkey k' = fkey k"
    and malloc_block: "\<exists>q k'. mo_malloc os k = (q, k') \<and> q \<noteq> 0 \<and> same_queues queue mkey fkey k k'"
    and ftruncate_same: "same_queues queue mkey fkey k (snd (mo_ftruncate os fd k))"
    and mmap_same: "same_queues queue mkey fkey k (snd (mo_mmap os fd k))"
begin

lemma mq_open_file_existing:
  assumes "fkey (qsys s) name proj \<noteq> None" and "\<not> has oflag O_EXCL"
    and "\<forall>a. attr = Some a \<longrightarrow> \<not> bad_attr a"
  shows "\<exists>fd s1. mq_open_file os name oflag mode attr s = (True, fd, s1) \<and> 0 \<le> fd
     \<and> same_queues queue mkey fkey (qsys s) (qsys s1) \<and> descs s1 = descs s \<and> reqs s1 = reqs s"
proof -
  have e: "\<not> has (oflag AND NOT O_CREAT) O_EXCL"
    using assms(2) by (auto simp: has_def flag_simps bit_eq_iff bit_simps)
  have b: "\<not> (case attr of None \<Rightarrow> False | Some a \<Rightarrow> bad_attr a)" using assms(3) by (cases attr) auto
  from open_existing [OF assms(1) e, of 0] obtain fd k1 where
    1: "mo_open os name (oflag AND NOT O_CREAT) 0 (qsys s) = (Inr fd, k1)" "0 \<le> fd"
    "same_queues queue mkey fkey (qsys s) k1" by blast
  from open_existing [OF assms(1,2), of 0] obtain fd' k2 where
    2: "mo_open os name oflag 0 (qsys s) = (Inr fd', k2)" "0 \<le> fd'"
    "same_queues queue mkey fkey (qsys s) k2" by blast
  show ?thesis
  proof (cases "has oflag O_CREAT")
    case True
    with 1 assms(2) b show ?thesis by (simp add: mq_open_file_def qcall_def)
  next
    case False
    with 2 show ?thesis by (simp add: mq_open_file_def qcall_def)
  qed
qed

lemma mq_open_map_ok:
  "\<exists>pg s1. mq_open_map os fd s = (pg, s1) \<and> same_queues queue mkey fkey (qsys s) (qsys s1)
     \<and> descs s1 = descs s \<and> (\<forall>p. pg = Some p \<longrightarrow> reqs s1 p \<noteq> None)"
proof -
  obtain r k1 where t: "mo_ftruncate os fd (qsys s) = (r, k1)" by (cases "mo_ftruncate os fd (qsys s)")
  obtain pg k2 where m: "mo_mmap os fd k1 = (pg, k2)" by (cases "mo_mmap os fd k1")
  have "same_queues queue mkey fkey (qsys s) k2"
    using ftruncate_same [of "qsys s" fd] mmap_same [of k1 fd] t m by (simp add: same_queues_def)
  with t m show ?thesis
    by (cases r; cases pg) (simp_all add: mq_open_map_def qcall_def Let_def)
qed

lemma msgget_any:
  assumes "mkey k key = None \<longrightarrow> has flg IPC_CREAT" and "\<not> has flg IPC_EXCL"
    and "\<forall>i. mkey k key = Some i \<longrightarrow> 0 \<le> i \<and> queue k i \<noteq> None"
  shows "\<exists>i k'. mo_msgget os key flg k = (Inr i, k') \<and> 0 \<le> i \<and> mkey k' key = Some i
     \<and> queue k' i = Some (case mkey k key of None \<Rightarrow> [] | Some j \<Rightarrow> the (queue k j)) \<and> fkey k' = fkey k"
proof (cases "mkey k key")
  case None
  with assms(1) msgget_new [OF None] show ?thesis by fastforce
next
  case (Some i)
  with assms msgget_found [OF Some assms(2)] show ?thesis by auto
qed

end

definition ref_mq_fkey :: "msg_kernel \<Rightarrow> string \<Rightarrow> int \<Rightarrow> int option" where
  "ref_mq_fkey k name proj =
     (case mq_files k name of None \<Rightarrow> None
      | Some i \<Rightarrow> if 0 \<le> i then Some (i mod 65536 + (proj mod 256) * 16777216) else None)"

interpretation ref_mq: mq_paths ref_msg_os ref_queue ref_qbytes mq_keys ref_mq_fkey
proof unfold_locales
  fix k :: msg_kernel and key and flg :: flags
  assume "mq_keys k key = None" "has flg IPC_CREAT"
  then show "\<exists>i k'. mo_msgget ref_msg_os key flg k = (Inr i, k') \<and> 0 \<le> i
      \<and> ref_queue k' = (ref_queue k)(i \<mapsto> []) \<and> mq_keys k' = (mq_keys k)(key \<mapsto> i) \<and> ref_mq_fkey k' = ref_mq_fkey k"
    using fresh_id_fresh [of "mq_queues k"] by (auto simp: ref_msg_defs ref_mq_fkey_def fun_eq_iff)
qed (auto simp: ref_msg_defs ref_mq_fkey_def same_queues_def fun_eq_iff split: option.splits if_splits)

text \<open>Opening a queue whose file exists, without \<open>O_EXCL\<close> and with no or acceptable attributes,
  returns a usable descriptor: on the queue of the file's key if there is one, with its messages
  as they were, and on a new empty queue otherwise. Non-blocking mode follows the attributes'
  flags.\<close>

theorem mq_open_usable:
  assumes laws: "mq_paths os queue qbytes mkey fkey" and key: "fkey (qsys s) name 97 = Some key" "0 \<le> key"
    and excl: "\<not> has oflag O_EXCL" and attr: "\<forall>a. attr = Some a \<longrightarrow> \<not> bad_attr a"
    and creat: "mkey (qsys s) key = None \<longrightarrow> has oflag O_CREAT"
    and old: "\<forall>i. mkey (qsys s) key = Some i \<longrightarrow> 0 \<le> i \<and> (\<exists>q. queue (qsys s) i = Some q
        \<and> (\<forall>m \<in> set q. 0 < fst m \<and> fst m \<le> MQ_PRIO_MAX))"
  shows "\<exists>q s'. mq_open os name oflag mode attr s = Ret (Some q, s') \<and> mq_ok queue q s'
     \<and> contents queue q s' = (case mkey (qsys s) key of None \<Rightarrow> [] | Some i \<Rightarrow> mq_abs (the (queue (qsys s) i)))
     \<and> mkey (qsys s') key = Some (d_msgid (the (descs s' q)))
     \<and> has_long (d_flags (the (descs s' q))) IPC_NOWAIT
         = (case attr of None \<Rightarrow> False | Some a \<Rightarrow> has_long (mq_flags a) O_NONBLOCK)"
proof -
  from key(1) have "fkey (qsys s) name 97 \<noteq> None" by simp
  from mq_paths.mq_open_file_existing [OF laws this excl attr, of mode] obtain fd s1 where
    1: "mq_open_file os name oflag mode attr s = (True, fd, s1)" "0 \<le> fd"
    "same_queues queue mkey fkey (qsys s) (qsys s1)" by blast
  have f: "mo_ftok os name 97 (qsys s1) = (Inr key, qsys s1)"
    using mq_paths.ftok_key [OF laws] key(1) 1(3) by (simp add: same_queues_def)
  let ?flg = "(0x1FF AND mode) OR (if has oflag (O_CREAT OR O_EXCL) then IPC_CREAT else 0)"
  have flg: "\<not> has ?flg IPC_EXCL" "mkey (qsys s1) key = None \<longrightarrow> has ?flg IPC_CREAT"
    using creat 1(3) by (auto simp: same_queues_def)
  have eq1: "queue (qsys s1) = queue (qsys s)" "mkey (qsys s1) = mkey (qsys s)"
    using 1(3) by (simp_all add: same_queues_def)
  have "\<forall>i. mkey (qsys s1) key = Some i \<longrightarrow> 0 \<le> i \<and> queue (qsys s1) i \<noteq> None"
    unfolding eq1 using old by fastforce
  from mq_paths.msgget_any [OF laws flg(2,1) this] obtain i k2 where
    2: "mo_msgget os key ?flg (qsys s1) = (Inr i, k2)" "0 \<le> i" "mkey k2 key = Some i"
    "queue k2 i = Some (case mkey (qsys s) key of None \<Rightarrow> [] | Some j \<Rightarrow> the (queue (qsys s) j))"
    unfolding eq1 by blast
  from mq_paths.malloc_block [OF laws, of k2] obtain q k3 where
    3: "mo_malloc os k2 = (q, k3)" "q \<noteq> 0" "same_queues queue mkey fkey k2 k3" by blast
  from mq_paths.mq_open_map_ok [OF laws, of fd "s1\<lparr>qsys := k2, qsys := k3\<rparr>"] obtain pg s5 where
    5: "mq_open_map os fd (s1\<lparr>qsys := k3\<rparr>) = (pg, s5)" "same_queues queue mkey fkey k3 (qsys s5)"
    "\<forall>p. pg = Some p \<longrightarrow> reqs s5 p \<noteq> None" by auto
  define d where "d = \<lparr>d_msgid = i, d_fd = fd,
    d_flags = (case attr of None \<Rightarrow> 0 | Some a \<Rightarrow> if has_long (mq_flags a) O_NONBLOCK then uint IPC_NOWAIT else 0),
    d_req = pg\<rparr>"
  have o: "mq_open os name oflag mode attr s = Ret (Some q, s5\<lparr>descs := (descs s5)(q \<mapsto> d)\<rparr>)"
    using 1(1) f key(2) 2(1,2) 3(1,2) 5(1)
    by (cases attr) (simp_all add: mq_open_def qcall_def mq_setattr_def qderef_def d_def)
  have q5: "queue (qsys s5) i = queue k2 i" "mkey (qsys s5) = mkey k2"
    using 3(3) 5(2) by (simp_all add: same_queues_def)
  have "mq_ok queue q (s5\<lparr>descs := (descs s5)(q \<mapsto> d)\<rparr>)"
    using q5(1) 2(4) old 5(3) by (fastforce simp: mq_ok_def d_def split: option.splits)
  moreover have "has_long (uint IPC_NOWAIT) IPC_NOWAIT" "\<not> has_long 0 IPC_NOWAIT"
    by (simp_all add: has_long_def flag_simps)
  ultimately show ?thesis using o q5 2(3,4)
    by (intro exI [of _ q] exI [of _ "s5\<lparr>descs := (descs s5)(q \<mapsto> d)\<rparr>"])
       (auto simp: contents_def d_def mq_abs_def split: option.splits)
qed

definition mq_named :: "msg list \<Rightarrow> msg_kernel mqstate" where
  "mq_named q = (mq_start 0 q)\<lparr>qsys := ref_msg_boot\<lparr>mq_queues := [(1, q)], mq_files := [''/q'' \<mapsto> 9],
     mq_keys := [1627389961 \<mapsto> 1]\<rparr>\<rparr>"

lemma mq_named_key: "ref_mq_fkey (qsys (mq_named q)) ''/q'' 97 = Some 1627389961"
  by (simp add: mq_named_def ref_mq_fkey_def)

theorem mq_open_usable_witness:
  "\<exists>q s'. mq_open ref_msg_os ''/q'' O_CREAT 0 None (mq_named [(250, ''a'')]) = Ret (Some q, s')
     \<and> mq_ok ref_queue q s' \<and> contents ref_queue q s' = [(6, ''a'')]"
proof -
  have k: "mq_keys (qsys (mq_named [(250, ''a'')])) 1627389961 = Some 1"
    "ref_queue (qsys (mq_named [(250, ''a'')])) 1 = Some [(250, ''a'')]"
    by (simp_all add: mq_named_def ref_queue_def)
  have a: "mq_abs [(250, ''a'')] = [(6, ''a'')]" by (simp add: mq_abs_def prio_msg_def mq_consts)
  show ?thesis
    using mq_open_usable [OF ref_mq.mq_paths_axioms mq_named_key, of O_CREAT None "[(250, ''a'')]" 0] k a
    by (auto simp: mq_consts has_def flag_simps)
qed

section \<open>Attributes and notification\<close>

text \<open>\<open>mq_setattr\<close> followed by \<open>mq_getattr\<close> returns the non-blocking flag that was set and the
  number of messages; \<open>mq_setattr\<close> itself reports the flag as it was before, and both report the
  constants as limits.\<close>

theorem mq_attr_roundtrip:
  assumes "sysv_msg os queue qbytes" and "descs s mqdes = Some d" and "queue (qsys s) (d_msgid d) = Some q"
  shows "\<exists>s'. mq_setattr os mqdes (Some a) True s = Ret (0, Some (attr_of (d_flags d) (int (length q))), s')
     \<and> mq_getattr os mqdes True s' =
         Ret (0, Some \<lparr>mq_flags = (if has_long (mq_flags a) O_NONBLOCK then uint O_NONBLOCK else 0),
                       mq_maxmsg = MQ_MAX, mq_msgsize = MQ_MSGSIZE, mq_curmsgs = int (length q)\<rparr>, s')"
proof -
  have st: "mo_stat os (d_msgid d) (qsys s) = (Inr (int (length q)), qsys s)"
    using sysv_msg.stat_ok [OF assms(1,3)] .
  have "has_long (uint IPC_NOWAIT) IPC_NOWAIT" "\<not> has_long 0 IPC_NOWAIT"
    by (simp_all add: has_long_def flag_simps)
  then show ?thesis
    using assms(2) st
    by (simp add: mq_setattr_def mq_getattr_def qderef_def qcall_def attr_of_def Let_def)
qed

theorem mq_attr_roundtrip_witness:
  "\<exists>s'. mq_setattr ref_msg_os 5 (Some \<lparr>mq_flags = 0x800, mq_maxmsg = 1, mq_msgsize = 1, mq_curmsgs = 0\<rparr>) True
         (mq_start 0 [(250, ''a'')])
       = Ret (0, Some \<lparr>mq_flags = 0, mq_maxmsg = 64, mq_msgsize = 16384, mq_curmsgs = 1\<rparr>, s')
     \<and> mq_getattr ref_msg_os 5 True s'
       = Ret (0, Some \<lparr>mq_flags = 0x800, mq_maxmsg = 64, mq_msgsize = 16384, mq_curmsgs = 1\<rparr>, s')"
proof -
  have d: "descs (mq_start 0 [(250, ''a'')]) 5 = Some \<lparr>d_msgid = 1, d_fd = 3, d_flags = 0, d_req = Some 2\<rparr>"
    "ref_queue (qsys (mq_start 0 [(250, ''a'')])) 1 = Some [(250, ''a'')]"
    by (simp_all add: mq_start_def ref_queue_def)
  show ?thesis
    using mq_attr_roundtrip [OF ref_msg.sysv_msg_axioms d(1), of "[(250, ''a'')]"
        "\<lparr>mq_flags = 0x800, mq_maxmsg = 1, mq_msgsize = 1, mq_curmsgs = 0\<rparr>"] d(2)
    by (simp add: attr_of_def mq_consts has_long_def flag_simps)
qed

text \<open>At most one process is registered for notification: while one is, registering fails with
  \<open>EBUSY\<close>; the next message sent signals the registered process exactly once and removes the
  registration, after which registering succeeds again.\<close>

theorem mq_notify_protocol:
  assumes laws: "sysv_msg os queue qbytes" and ok: "mq_ok queue mqdes s" and d: "descs s mqdes = Some d" "d_req d = Some pg"
    and r: "reqs s pg = Some r" "req_pid r \<noteq> 0" and ev: "sigev_notify ev = SIGEV_SIGNAL"
    and p: "uint prio < MQ_PRIO_MAX" and len: "int (length text) \<le> MQ_MSGSIZE"
    and fit: "fits (qbytes (qsys s) (d_msgid d)) (the (queue (qsys s) (d_msgid d))) (length text)"
  shows "mq_notify os mqdes (Some ev) s = Ret (- 1, s\<lparr>qerrno := EBUSY\<rparr>)
     \<and> (\<exists>s' k. mq_send os mqdes text prio s = Ret (0, s') \<and> qsys s' = mo_kill os (req_pid r) (req_signo r) k
          \<and> queue k (d_msgid d) = Some (the (queue (qsys s) (d_msgid d)) @ [(MQ_PRIO_MAX - uint prio, text)])
          \<and> reqs s' pg = Some (r\<lparr>req_pid := 0\<rparr>)
          \<and> mq_notify os mqdes (Some ev) s' = Ret (0, s'\<lparr>reqs := (reqs s')(pg \<mapsto>
               \<lparr>req_pid = mo_getpid os (qsys s'), req_signo = sigev_signo ev\<rparr>)\<rparr>))"
proof -
  let ?m = "(MQ_PRIO_MAX - uint prio, text)"
  from ok d(1) obtain q where q: "queue (qsys s) (d_msgid d) = Some q" by (auto simp: mq_ok_def)
  from sysv_msg.msgsnd_ok [OF laws q, of ?m "word_of_int (d_flags d)"] fit p q obtain k where
    k: "mo_msgsnd os (d_msgid d) ?m (word_of_int (d_flags d)) (qsys s) = Some (Inr 0, k)"
    "queue k = (queue (qsys s))(d_msgid d \<mapsto> q @ [?m])" by auto
  let ?s = "s\<lparr>qsys := mo_kill os (req_pid r) (req_signo r) k, reqs := (reqs s)(pg \<mapsto> r\<lparr>req_pid := 0\<rparr>)\<rparr>"
  have e: "sigev_notify ev \<noteq> SIGEV_NONE" using ev by (simp add: SIGEV_SIGNAL_def SIGEV_NONE_def)
  have "mq_send os mqdes text prio s = Ret (0, ?s)"
    using p len d r k(1) by (simp add: mq_send_def send_notify_def qderef_def rderef_def)
  moreover have "mq_notify os mqdes (Some ev) s = Ret (- 1, s\<lparr>qerrno := EBUSY\<rparr>)"
    using d r ev e by (simp add: mq_notify_def qderef_def rderef_def)
  moreover have "mq_notify os mqdes (Some ev) ?s = Ret (0, ?s\<lparr>reqs := (reqs ?s)(pg \<mapsto>
      \<lparr>req_pid = mo_getpid os (qsys ?s), req_signo = sigev_signo ev\<rparr>)\<rparr>)"
    using d r ev e by (simp add: mq_notify_def qderef_def rderef_def)
  ultimately show ?thesis using k(2) q by (intro conjI exI [of _ ?s] exI [of _ k]) simp_all
qed

definition mq_registered :: "msg_kernel mqstate" where
  "mq_registered = (mq_start 0 [])\<lparr>reqs := [2 \<mapsto> \<lparr>req_pid = 33, req_signo = 10\<rparr>]\<rparr>"

theorem mq_notify_protocol_witness:
  "mq_notify ref_msg_os 5 (Some \<lparr>sigev_notify = SIGEV_SIGNAL, sigev_signo = 12, sigev_value = 0\<rparr>) mq_registered
     = Ret (- 1, mq_registered\<lparr>qerrno := EBUSY\<rparr>)
   \<and> (\<exists>s'. mq_send ref_msg_os 5 ''x'' 3 mq_registered = Ret (0, s')
        \<and> reqs s' 2 = Some \<lparr>req_pid = 0, req_signo = 10\<rparr>)"
proof -
  have ok: "mq_ok ref_queue 5 mq_registered"
    by (simp add: mq_ok_def mq_registered_def mq_start_def ref_queue_def)
  show ?thesis
    using mq_notify_protocol [OF ref_msg.sysv_msg_axioms ok, of "\<lparr>d_msgid = 1, d_fd = 3, d_flags = 0, d_req = Some 2\<rparr>"
        2 "\<lparr>req_pid = 33, req_signo = 10\<rparr>" "\<lparr>sigev_notify = SIGEV_SIGNAL, sigev_signo = 12, sigev_value = 0\<rparr>" 3 "''x''"]
    by (auto simp: mq_registered_def mq_start_def mq_consts fits_def MSGMAX_def ref_queue_def ref_qbytes_def ref_msg_boot_def)
qed

section \<open>Where the message queues depart from POSIX\<close>

text \<open>\<open>mq_send\<close> reports success when the message was not stored: the priority
  \<^verbatim>\<open>MQ_PRIO_MAX\<close> passes the test but becomes the invalid message type 0, and a full queue in
  non-blocking mode refuses the message; both times 0 is returned and the queue is as before.\<close>

theorem mq_send_silent_failure:
  assumes "sysv_msg os queue qbytes" and "mq_ok queue mqdes s" and "int (length text) \<le> MQ_MSGSIZE"
    and "uint prio = MQ_PRIO_MAX \<or> (uint prio < MQ_PRIO_MAX \<and> length text \<le> MSGMAX
       \<and> \<not> fits (qbytes (qsys s) (d_msgid (the (descs s mqdes))))
            (the (queue (qsys s) (d_msgid (the (descs s mqdes))))) (length text)
       \<and> has (word_of_int (d_flags (the (descs s mqdes)))) IPC_NOWAIT)"
  shows "\<exists>e. mq_send os mqdes text prio s = Ret (0, s\<lparr>qerrno := e\<rparr>)
     \<and> contents queue mqdes (s\<lparr>qerrno := e\<rparr>) = contents queue mqdes s \<and> (e = EINVAL \<or> e = EAGAIN)"
proof -
  from assms(2) obtain d q where d: "descs s mqdes = Some d" "queue (qsys s) (d_msgid d) = Some q" by (rule mq_okE)
  let ?m = "(MQ_PRIO_MAX - uint prio, text)"
  have "\<exists>e. mo_msgsnd os (d_msgid d) ?m (word_of_int (d_flags d)) (qsys s) = Some (Inl e, qsys s)
      \<and> (e = EINVAL \<or> e = EAGAIN)"
    using assms(4) d sysv_msg.msgsnd_badtype [OF assms(1), of ?m] sysv_msg.msgsnd_full [OF assms(1) d(2), of ?m]
    by auto
  then obtain e where "mo_msgsnd os (d_msgid d) ?m (word_of_int (d_flags d)) (qsys s) = Some (Inl e, qsys s)"
    "e = EINVAL \<or> e = EAGAIN" by blast
  then show ?thesis using assms(3,4) d(1) by (auto simp: mq_send_def qderef_def contents_def)
qed

theorem mq_send_silent_failure_witness:
  "\<exists>e. mq_send ref_msg_os 5 ''lost'' 256 (mq_start 0 []) = Ret (0, (mq_start 0 [])\<lparr>qerrno := e\<rparr>)
     \<and> contents ref_queue 5 ((mq_start 0 [])\<lparr>qerrno := e\<rparr>) = [] \<and> (e = EINVAL \<or> e = EAGAIN)"
  using mq_send_silent_failure [OF ref_msg.sysv_msg_axioms mq_start_ok, of "[]" "''lost''" 256 0]
    mq_start_contents [of 0 "[]"] by (simp add: mq_consts mq_abs_def)

text \<open>\<open>mq_unlink\<close> derives the key with another project identifier than \<open>mq_open\<close>, so a queue
  opened by name cannot be removed: the call fails with \<open>ENOENT\<close> and the queue, its key and its
  file stay.\<close>

theorem mq_unlink_misses_queue:
  assumes "mq_paths os queue qbytes mkey fkey" and "fkey (qsys s) name 0 = Some key0" and "0 \<le> key0"
    and "fkey (qsys s) name 97 = Some key" and "key0 \<noteq> key" and "dom (mkey (qsys s)) \<subseteq> {key}"
  shows "mq_unlink os name s = (- 1, s\<lparr>qerrno := ENOENT\<rparr>)"
proof -
  from assms(5,6) have "mkey (qsys s) key0 = None" by (auto simp: domIff)
  from mq_paths.msgget_missing [OF assms(1) this, of 0] mq_paths.ftok_key [OF assms(1,2)] assms(3)
  show ?thesis by (simp add: mq_unlink_def qcall_def)
qed

theorem mq_unlink_misses_queue_witness:
  "mq_unlink ref_msg_os ''/q'' (mq_named []) = (- 1, (mq_named [])\<lparr>qerrno := ENOENT\<rparr>)"
  by (rule mq_unlink_misses_queue [OF ref_mq.mq_paths_axioms _ _ mq_named_key, of _ 9])
     (simp_all add: mq_named_def ref_mq_fkey_def)

text \<open>Opening an existing queue with rejected attributes removes its file: the error path
  unlinks the name even though this call did not create it.\<close>

theorem mq_open_error_unlinks:
  assumes "mo_open os name (oflag AND NOT O_CREAT) 0 (qsys s) = (Inr fd, k)" and "0 \<le> fd"
    and "has oflag O_CREAT" and "\<not> has oflag O_EXCL" and "bad_attr a"
  shows "\<exists>s'. mq_open os name oflag mode (Some a) s = Ret (None, s')
     \<and> qsys s' = snd (mo_close os fd (snd (mo_unlink os name k)))"
proof -
  have "mq_open_file os name oflag mode (Some a) s = (False, fd, s\<lparr>qsys := k, qerrno := EINVAL\<rparr>)"
    using assms by (simp add: mq_open_file_def qcall_def)
  moreover have "qsys (snd (qcall f t)) = snd (f (qsys t))" for f and t :: "'a mqstate"
    by (cases "f (qsys t)"; cases "fst (f (qsys t))") (auto simp: qcall_def)
  ultimately show ?thesis using assms(2) by (simp add: mq_open_def mq_open_err_def)
qed

theorem mq_open_error_unlinks_witness:
  "\<exists>s'. mq_open ref_msg_os ''/q'' O_CREAT 0 (Some \<lparr>mq_flags = 0, mq_maxmsg = 41, mq_msgsize = 1, mq_curmsgs = 0\<rparr>)
          (mq_named []) = Ret (None, s')
     \<and> mq_files (qsys s') ''/q'' = None"
proof -
  have o: "mo_open ref_msg_os ''/q'' (O_CREAT AND NOT O_CREAT) 0 (qsys (mq_named []))
      = (Inr 12, (qsys (mq_named []))\<lparr>mq_fds := (mq_fds (qsys (mq_named [])))(12 \<mapsto> 9)\<rparr>)"
    by (simp add: mq_named_def ref_msg_defs)
  show ?thesis
    using mq_open_error_unlinks [OF o, of "\<lparr>mq_flags = 0, mq_maxmsg = 41, mq_msgsize = 1, mq_curmsgs = 0\<rparr>" 0]
    by (auto simp: has_def flag_simps bad_attr_def mq_consts mq_named_def ref_msg_defs)
qed

end
