(* ===== verification/Threads.thy ===== *)
theory Threads
  imports Sem_Contract
begin

text \<open>
  Programs of several threads: every thread has a local state, all share a global state (the C
  variables) and a world (the semaphores). A thread's code is a function from these to their
  values after its next atomic action, \<open>Block\<close> while it waits and after it has ended. Any thread
  that can act may act next.
\<close>

record ('l, 'g, 'w) conf =
  loc :: "nat \<Rightarrow> 'l"
  glob :: 'g
  world :: 'w

type_synonym ('l, 'g, 'w) prog = "nat \<Rightarrow> 'l \<Rightarrow> 'g \<Rightarrow> 'w \<Rightarrow> ('l \<times> 'g \<times> 'w) outcome"

inductive interleave :: "nat \<Rightarrow> ('l, 'g, 'w) prog \<Rightarrow> ('l, 'g, 'w) conf \<Rightarrow> ('l, 'g, 'w) conf \<Rightarrow> bool"
  for N :: nat and prog :: "('l, 'g, 'w) prog" where
  thread_acts: "t < N \<Longrightarrow> prog t (loc c t) (glob c) (world c) = Ret (l, g, w) \<Longrightarrow>
     interleave N prog c \<lparr>loc = (loc c)(t := l), glob = g, world = w\<rparr>"

lemma interleaveE:
  assumes "interleave N prog c c'"
  obtains t l g w where "t < N" and "prog t (loc c t) (glob c) (world c) = Ret (l, g, w)"
    and "c' = \<lparr>loc = (loc c)(t := l), glob = g, world = w\<rparr>"
  using assms by (cases rule: interleave.cases) blast

lemma interleaveI:
  assumes "t < N" and "prog t (loc c t) (glob c) (world c) = Ret (l, g, w)"
  shows "\<exists>c'. interleave N prog c c'"
  using thread_acts [of t N prog c] assms by blast

text \<open>\<^verbatim>\<open>if (-1 == call) pthread_exit(1)\<close>: continue in \<open>good\<close>, or in \<open>bad\<close> when the call fails.\<close>

definition checked :: "(int \<times> 'w) outcome \<Rightarrow> 'l \<Rightarrow> 'l \<Rightarrow> 'g \<Rightarrow> ('l \<times> 'g \<times> 'w) outcome" where
  "checked r bad good g = obind r (\<lambda>(rc, w'). Ret (if rc = - 1 then bad else good, g, w'))"

lemma checked_Ret:
  "checked r bad good g = Ret (l', g', w') \<longleftrightarrow>
     (\<exists>rc. r = Ret (rc, w') \<and> g' = g \<and> l' = (if rc = - 1 then bad else good))"
  by (cases r) (auto simp: checked_def)

context sem_store
begin

lemma checked_wait:
  assumes "checked (a_wait api i w) bad good g = Ret (l', g', w')" and "ok UNIV w"
  shows "l' = good \<and> g' = g \<and> ok UNIV w' \<and> 0 < sval w i \<and> sval w' = (sval w)(i := sval w i - 1)"
  using assms wait_RetD [OF assms(2)] by (fastforce simp: checked_Ret)

lemma checked_post:
  assumes "checked (a_post api i w) bad good g = Ret (l', g', w')" and "ok UNIV w" and "sval w i < 32767"
  shows "l' = good \<and> g' = g \<and> ok UNIV w' \<and> sval w' = (sval w)(i := sval w i + 1)"
proof -
  from assms(1) obtain rc where r: "a_post api i w = Ret (rc, w')" "g' = g" "l' = (if rc = - 1 then bad else good)"
    by (auto simp: checked_Ret)
  have "sval w i < maxval" using assms(3) maxval_posix by simp
  from post_RetD [OF assms(2) this r(1)] r show ?thesis by simp
qed

lemma checked_wait_on:
  assumes "checked (a_wait api i w) bad good g = Ret (l', g', w')" and "ok I w" and "i \<in> I"
  shows "l' = good \<and> g' = g \<and> ok I w' \<and> 0 < sval w i \<and> upd_on I (sval w) (sval w') i (sval w i - 1)"
proof -
  from assms(1) obtain rc where r: "a_wait api i w = Ret (rc, w')" "g' = g" "l' = (if rc = - 1 then bad else good)"
    by (auto simp: checked_Ret)
  with wait_zero [OF assms(2,3)] have "0 < sval w i" by (cases "sval w i = 0") auto
  from wait_pos [OF assms(2,3) this] r \<open>0 < sval w i\<close> show ?thesis by auto
qed

lemma checked_post_on:
  assumes "checked (a_post api i w) bad good g = Ret (l', g', w')" and "ok I w" and "i \<in> I" and "sval w i < 32767"
  shows "l' = good \<and> g' = g \<and> ok I w' \<and> upd_on I (sval w) (sval w') i (sval w i + 1)"
proof -
  have "sval w i < maxval" using assms(4) maxval_posix by simp
  from post_below [OF assms(2,3) this] assms(1) show ?thesis by (auto simp: checked_Ret)
qed

lemma checked_wait_on_enabled:
  assumes "ok I w" and "i \<in> I" and "0 < sval w i"
  shows "\<exists>l' g' w'. checked (a_wait api i w) bad good g = Ret (l', g', w')"
  using wait_pos [OF assms] by (fastforce simp: checked_Ret)

lemma checked_post_on_enabled:
  assumes "ok I w" and "i \<in> I" and "sval w i < 32767"
  shows "\<exists>l' g' w'. checked (a_post api i w) bad good g = Ret (l', g', w')"
proof -
  have "sval w i < maxval" using assms(3) maxval_posix by simp
  from post_below [OF assms(1,2) this] show ?thesis by (fastforce simp: checked_Ret)
qed

lemma checked_wait_enabled:
  assumes "ok UNIV w" and "0 < sval w i"
  shows "\<exists>l' g' w'. checked (a_wait api i w) bad good g = Ret (l', g', w')"
  using wait_enabled [OF assms(1)] assms(2) by (fastforce simp: checked_Ret)

lemma checked_post_enabled:
  assumes "ok UNIV w" and "sval w i < 32767"
  shows "\<exists>l' g' w'. checked (a_post api i w) bad good g = Ret (l', g', w')"
  using post_enabled [OF assms(1), of i] assms(2) maxval_posix by (fastforce simp: checked_Ret)

end

section \<open>Runs\<close>

lemma interleave_preserves:
  assumes "interleave N prog c c'" and "I c"
    and "\<And>t l g w. t < N \<Longrightarrow> prog t (loc c t) (glob c) (world c) = Ret (l, g, w) \<Longrightarrow> I c \<Longrightarrow>
          I \<lparr>loc = (loc c)(t := l), glob = g, world = w\<rparr>"
  shows "I c'"
  using assms by (auto elim!: interleaveE)

text \<open>When every step from an invariant state lowers a measure, no run is infinite, and every run
  can be continued to a state in which no thread can act.\<close>

definition infinite_run :: "('s \<Rightarrow> 's \<Rightarrow> bool) \<Rightarrow> 's \<Rightarrow> bool" where
  "infinite_run step s \<longleftrightarrow> (\<exists>f. f 0 = s \<and> (\<forall>n. step (f n) (f (Suc n))))"

lemma no_infinite_run:
  assumes "I s" and "\<And>s t. I s \<Longrightarrow> step s t \<Longrightarrow> I t \<and> m t < (m s :: nat)"
  shows "\<not> infinite_run step s"
proof
  assume "infinite_run step s"
  then obtain f where f: "f 0 = s" "\<And>n. step (f n) (f (Suc n))" by (auto simp: infinite_run_def)
  have "I (f n) \<and> m (f n) + n \<le> m s" for n
  proof (induction n)
    case 0
    then show ?case using f(1) assms(1) by simp
  next
    case (Suc n)
    with assms(2) [of "f n" "f (Suc n)"] f(2) [of n] show ?case by fastforce
  qed
  from this [of "Suc (m s)"] show False by simp
qed

lemma run_to_end:
  assumes "I s" and "\<And>s t. I s \<Longrightarrow> step s t \<Longrightarrow> I t \<and> m t < (m s :: nat)"
  shows "\<exists>t. reachable_from step s t \<and> I t \<and> (\<forall>u. \<not> step t u)"
  using assms(1)
proof (induction "m s" arbitrary: s rule: less_induct)
  case less
  show ?case
  proof (cases "\<exists>t. step s t")
    case True
    then obtain t where t: "step s t" by blast
    with assms(2) [OF less.prems t] less.hyps [of t] obtain u where
      "reachable_from step t u" "I u" "\<forall>v. \<not> step u v" by blast
    with t show ?thesis by (meson reach_start reach_step reachable_trans)
  next
    case False
    with less.prems show ?thesis by (blast intro: reach_start)
  qed
qed

section \<open>Counting over threads\<close>

lemma sum_upd:
  fixes f :: "nat \<Rightarrow> 'l \<Rightarrow> nat"
  assumes "t < N"
  shows "(\<Sum>i<N. f i ((l(t := x)) i)) + f t (l t) = (\<Sum>i<N. f i (l i)) + f t x"
proof -
  have s: "(\<Sum>i<N. g i) = g t + (\<Sum>i\<in>{..<N} - {t}. g i)" for g :: "nat \<Rightarrow> nat"
    using assms by (simp add: sum.remove)
  have "(\<Sum>i\<in>{..<N} - {t}. f i ((l(t := x)) i)) = (\<Sum>i\<in>{..<N} - {t}. f i (l i))"
    by (intro sum.cong) auto
  then show ?thesis using s [of "\<lambda>i. f i ((l(t := x)) i)"] s [of "\<lambda>i. f i (l i)"] by simp
qed

lemma sum_at_most_one:
  fixes f :: "nat \<Rightarrow> nat"
  assumes "(\<Sum>i<N. f i) \<le> 1" and "i < N" and "j < N" and "0 < f i" and "0 < f j"
  shows "i = j"
proof (rule ccontr)
  assume ne: "i \<noteq> j"
  have "f i + f j = (\<Sum>k\<in>{i, j}. f k)" using ne by simp
  also have "\<dots> \<le> (\<Sum>k<N. f k)" using assms(2,3) by (intro sum_mono2) auto
  finally show False using assms by simp
qed

lemma sum_pos_ex: "0 < (\<Sum>i<N. f i :: nat) \<Longrightarrow> \<exists>i<N. 0 < f i"
  by (metis finite_lessThan gr0I lessThan_iff less_numeral_extra(3) sum.neutral)

text \<open>The sum of a count over the local states of the first \<open>N\<close> threads.\<close>

definition tot :: "nat \<Rightarrow> ('l \<Rightarrow> nat) \<Rightarrow> (nat \<Rightarrow> 'l) \<Rightarrow> nat" where
  "tot N f L = (\<Sum>t<N. f (L t))"

lemma tot_upd: "t < N \<Longrightarrow> tot N f (L(t := l)) + f (L t) = tot N f L + f l"
  unfolding tot_def using sum_upd [of t N "\<lambda>_. f" L l] by simp

lemma tot_ge: "t < N \<Longrightarrow> f (L t) \<le> tot N f L"
  unfolding tot_def by (rule member_le_sum) auto

lemma tot_mono: "(\<And>l. f l \<le> g l) \<Longrightarrow> tot N f L \<le> tot N g L"
  unfolding tot_def by (rule sum_mono) auto

lemma tot_add: "tot N (\<lambda>l. f l + g l) L = tot N f L + tot N g L"
  unfolding tot_def by (rule sum.distrib)

lemma tot_zero: "(\<And>t. t < N \<Longrightarrow> f (L t) = 0) \<Longrightarrow> tot N f L = 0"
  by (simp add: tot_def)

lemma tot_less:
  assumes "\<And>t. t < N \<Longrightarrow> f (L t) \<le> k t" and "t < N" and "f (L t) < k t"
  shows "tot N f L < (\<Sum>t<N. k t)"
  unfolding tot_def using assms by (intro sum_strict_mono_ex1) auto

lemma tot_eq: "(\<And>t. t < N \<Longrightarrow> f (L t) = k t) \<Longrightarrow> tot N f L = (\<Sum>t<N. k t)"
  by (simp add: tot_def)

end
