(* ===== verification/Sem_Conpro.thy ===== *)
theory Sem_Conpro
  imports Threads Sem_Laws
begin

text \<open>
  The producer and the consumer of \<^verbatim>\<open>functional/semaphores/sem_conpro.c\<close> over a ring buffer of
  five cells, guarded by the semaphores \<open>occupied\<close> (free cells), \<open>empty\<close> (filled cells) and
  \<open>lock\<close>. Thread 0 is the producer, thread 1 the consumer; each action is one semaphore call or
  one access to the shared variables. The lines the threads print are the field \<open>printed\<close>.
\<close>

section \<open>The program\<close>

definition BUF_SIZE :: nat where "BUF_SIZE = 5"
definition Max_Num :: nat where "Max_Num = 10"

datatype cp_sem = Occupied | Empty | Lock

datatype cp_event = Added int nat | Taken int nat

text \<open>Positions in the loops of \<open>producer\<close> and \<open>consumer\<close>: the test of the for statement, the two
  calls of \<^verbatim>\<open>sem_wait\<close>, the access to the buffer, the advance of the index, the two calls of
  \<^verbatim>\<open>sem_post\<close>, and after \<^verbatim>\<open>pthread_exit\<close>.\<close>

datatype cp_pc = At_for | At_wait1 | At_wait2 | At_buffer | At_index | At_post1 | At_post2 | Exited int

record cp_local =
  cpc :: cp_pc
  ci :: nat
  cdata :: int

record cp_glob =
  buffer :: "int list"
  cin :: nat
  cout :: nat
  printed :: "cp_event list"

type_synonym 'w cp_conf = "(cp_local, cp_glob, 'w) conf"

definition producer :: "(cp_sem, 'w) sem_api \<Rightarrow> cp_local \<Rightarrow> cp_glob \<Rightarrow> 'w \<Rightarrow> (cp_local \<times> cp_glob \<times> 'w) outcome" where
  "producer api l g w =
     (case cpc l of
        At_for \<Rightarrow> Ret (if ci l < Max_Num then l\<lparr>cpc := At_wait1\<rparr> else l\<lparr>cpc := Exited 0\<rparr>, g, w)
      | At_wait1 \<Rightarrow> checked (a_wait api Occupied w) (l\<lparr>cpc := Exited 1\<rparr>) (l\<lparr>cpc := At_wait2\<rparr>) g
      | At_wait2 \<Rightarrow> checked (a_wait api Lock w) (l\<lparr>cpc := Exited 1\<rparr>) (l\<lparr>cpc := At_buffer\<rparr>) g
      | At_buffer \<Rightarrow>
          let data = 100 * int (ci l) in
          if cin g \<ge> length (buffer g) then Fault
          else Ret (l\<lparr>cdata := data, cpc := At_index\<rparr>,
                    g\<lparr>buffer := (buffer g)[cin g := data], printed := printed g @ [Added data (cin g)]\<rparr>, w)
      | At_index \<Rightarrow> Ret (l\<lparr>cpc := At_post1\<rparr>, g\<lparr>cin := (cin g + 1) mod BUF_SIZE\<rparr>, w)
      | At_post1 \<Rightarrow> checked (a_post api Lock w) (l\<lparr>cpc := Exited 1\<rparr>) (l\<lparr>cpc := At_post2\<rparr>) g
      | At_post2 \<Rightarrow> checked (a_post api Empty w) (l\<lparr>cpc := Exited 1\<rparr>) (l\<lparr>cpc := At_for, ci := ci l + 1\<rparr>) g
      | Exited c \<Rightarrow> Block)"

definition consumer :: "(cp_sem, 'w) sem_api \<Rightarrow> cp_local \<Rightarrow> cp_glob \<Rightarrow> 'w \<Rightarrow> (cp_local \<times> cp_glob \<times> 'w) outcome" where
  "consumer api l g w =
     (case cpc l of
        At_for \<Rightarrow> Ret (if ci l < Max_Num then l\<lparr>cpc := At_wait1\<rparr> else l\<lparr>cpc := Exited 0\<rparr>, g, w)
      | At_wait1 \<Rightarrow> checked (a_wait api Empty w) (l\<lparr>cpc := Exited 1\<rparr>) (l\<lparr>cpc := At_wait2\<rparr>) g
      | At_wait2 \<Rightarrow> checked (a_wait api Lock w) (l\<lparr>cpc := Exited 1\<rparr>) (l\<lparr>cpc := At_buffer\<rparr>) g
      | At_buffer \<Rightarrow>
          if cout g \<ge> length (buffer g) then Fault
          else let data = buffer g ! cout g in
               Ret (l\<lparr>cdata := data, cpc := At_index\<rparr>, g\<lparr>printed := printed g @ [Taken data (cout g)]\<rparr>, w)
      | At_index \<Rightarrow> Ret (l\<lparr>cpc := At_post1\<rparr>, g\<lparr>cout := (cout g + 1) mod BUF_SIZE\<rparr>, w)
      | At_post1 \<Rightarrow> checked (a_post api Lock w) (l\<lparr>cpc := Exited 1\<rparr>) (l\<lparr>cpc := At_post2\<rparr>) g
      | At_post2 \<Rightarrow> checked (a_post api Occupied w) (l\<lparr>cpc := Exited 1\<rparr>) (l\<lparr>cpc := At_for, ci := ci l + 1\<rparr>) g
      | Exited c \<Rightarrow> Block)"

definition cp_prog :: "(cp_sem, 'w) sem_api \<Rightarrow> (cp_local, cp_glob, 'w) prog" where
  "cp_prog api t = (if t = 0 then producer api else consumer api)"

abbreviation cp_step :: "(cp_sem, 'w) sem_api \<Rightarrow> 'w cp_conf \<Rightarrow> 'w cp_conf \<Rightarrow> bool" where
  "cp_step api \<equiv> interleave 2 (cp_prog api)"

text \<open>\<open>main\<close> up to the creation of the threads, on a buffer of indeterminate content \<open>junk\<close>: a
  result code, or the configuration in which the threads start; and the end of \<open>main\<close> after the
  two joins.\<close>

definition cp_start :: "int list \<Rightarrow> 'w \<Rightarrow> 'w cp_conf" where
  "cp_start junk w = \<lparr>loc = (\<lambda>_. \<lparr>cpc = At_for, ci = 0, cdata = 0\<rparr>),
     glob = \<lparr>buffer = junk, cin = 0, cout = 0, printed = []\<rparr>, world = w\<rparr>"

definition cp_main :: "(cp_sem, 'w) sem_api \<Rightarrow> int list \<Rightarrow> 'w \<Rightarrow> (int + 'w cp_conf) outcome" where
  "cp_main api junk w =
     obind (a_init api Occupied 1 (of_nat BUF_SIZE) w) (\<lambda>(rc, w1).
       if rc = - 1 then Ret (Inl PTS_UNRESOLVED)
       else obind (a_init api Empty 1 0 w1) (\<lambda>(rc, w2).
         if rc = - 1 then Ret (Inl PTS_UNRESOLVED)
         else obind (a_init api Lock 1 1 w2) (\<lambda>(rc, w3).
           if rc = - 1 then Ret (Inl PTS_UNRESOLVED) else Ret (Inr (cp_start junk w3)))))"

definition cp_main_end :: "(cp_sem, 'w) sem_api \<Rightarrow> 'w \<Rightarrow> (int \<times> 'w) outcome" where
  "cp_main_end api w =
     obind (a_destroy api Occupied w) (\<lambda>(_, w1). obind (a_destroy api Empty w1) (\<lambda>(_, w2). Ret (PTS_PASS, w2)))"

section \<open>The invariant\<close>

text \<open>Per thread: holding the lock, having waited, and having advanced its index in this round.\<close>

definition in_cs :: "cp_local \<Rightarrow> nat" where
  "in_cs l = (if cpc l \<in> {At_buffer, At_index, At_post1} then 1 else 0)"

definition waits :: "cp_local \<Rightarrow> nat" where
  "waits l = ci l + (if cpc l \<in> {At_wait2, At_buffer, At_index, At_post1, At_post2} then 1 else 0)"

definition done_buf :: "cp_local \<Rightarrow> nat" where
  "done_buf l = ci l + (if cpc l \<in> {At_index, At_post1, At_post2} then 1 else 0)"

definition done_idx :: "cp_local \<Rightarrow> nat" where
  "done_idx l = ci l + (if cpc l \<in> {At_post1, At_post2} then 1 else 0)"

definition pc_ok :: "cp_local \<Rightarrow> bool" where
  "pc_ok l \<longleftrightarrow> (case cpc l of At_for \<Rightarrow> ci l \<le> Max_Num | Exited c \<Rightarrow> c = 0 \<and> ci l = Max_Num | _ \<Rightarrow> ci l < Max_Num)"

definition added :: "cp_event list \<Rightarrow> (int \<times> nat) list" where
  "added evs = concat (map (\<lambda>e. case e of Added d i \<Rightarrow> [(d, i)] | Taken d i \<Rightarrow> []) evs)"

definition taken :: "cp_event list \<Rightarrow> (int \<times> nat) list" where
  "taken evs = concat (map (\<lambda>e. case e of Added d i \<Rightarrow> [] | Taken d i \<Rightarrow> [(d, i)]) evs)"

text \<open>What the first \<open>n\<close> transfers put into or take from the buffer.\<close>

definition transfers :: "nat \<Rightarrow> (int \<times> nat) list" where
  "transfers n = map (\<lambda>k. (100 * int k, k mod BUF_SIZE)) [0..<n]"

lemma ring_distinct:
  assumes "k < n" and "n < k + BUF_SIZE"
  shows "k mod BUF_SIZE \<noteq> n mod BUF_SIZE"
proof
  assume "k mod BUF_SIZE = n mod BUF_SIZE"
  then have "BUF_SIZE dvd n - k" using mod_eq_dvd_iff_nat [of k n BUF_SIZE] assms(1) by simp
  then show False using nat_dvd_not_less [of "n - k" BUF_SIZE] assms by simp
qed

lemma transfers_Suc: "transfers (Suc n) = transfers n @ [(100 * int n, n mod BUF_SIZE)]"
  by (simp add: transfers_def)

lemma transfers_prefix: "m \<le> n \<Longrightarrow> \<exists>rest. transfers n = transfers m @ rest"
  unfolding transfers_def using upt_add_eq_append [of 0 m "n - m"] by simp

lemma events_snoc [simp]:
  "added (evs @ [Added d i]) = added evs @ [(d, i)]" "added (evs @ [Taken d i]) = added evs"
  "taken (evs @ [Added d i]) = taken evs" "taken (evs @ [Taken d i]) = taken evs @ [(d, i)]"
  by (simp_all add: added_def taken_def)

text \<open>The invariant: the lock is free or held by one thread; the values of \<open>occupied\<close> and \<open>empty\<close>
  count the free and the filled cells; the cells between the two indices hold the values not yet
  taken; everything printed so far is a prefix of the transfers.\<close>

definition cp_inv :: "('w \<Rightarrow> cp_sem \<Rightarrow> nat) \<Rightarrow> 'w cp_conf \<Rightarrow> bool" where
  "cp_inv sval c \<longleftrightarrow>
     (let p = loc c 0; q = loc c 1; g = glob c; v = sval (world c) in
      pc_ok p \<and> pc_ok q \<and> length (buffer g) = BUF_SIZE
      \<and> v Lock + in_cs p + in_cs q = 1
      \<and> v Occupied + waits p = BUF_SIZE + ci q \<and> v Empty + waits q = ci p
      \<and> cin g = done_idx p mod BUF_SIZE \<and> cout g = done_idx q mod BUF_SIZE
      \<and> (\<forall>k. done_idx q \<le> k \<and> k < done_buf p \<longrightarrow> buffer g ! (k mod BUF_SIZE) = 100 * int k)
      \<and> added (printed g) = transfers (done_buf p) \<and> taken (printed g) = transfers (done_buf q))"

lemmas cp_counts = in_cs_def waits_def done_buf_def done_idx_def pc_ok_def

text \<open>The actions a thread has left.\<close>

definition actions_left :: "cp_local \<Rightarrow> nat" where
  "actions_left l = (Max_Num - ci l) * 8 +
     (case cpc l of At_for \<Rightarrow> 7 | At_wait1 \<Rightarrow> 6 | At_wait2 \<Rightarrow> 5 | At_buffer \<Rightarrow> 4 | At_index \<Rightarrow> 3
      | At_post1 \<Rightarrow> 2 | At_post2 \<Rightarrow> 1 | Exited c \<Rightarrow> 0)"

lemma cp_invI:
  assumes "pc_ok (L 0)" "pc_ok (L 1)" "length (buffer g) = BUF_SIZE" "sval w Lock + in_cs (L 0) + in_cs (L 1) = 1"
    and "sval w Occupied + waits (L 0) = BUF_SIZE + ci (L 1)" "sval w Empty + waits (L 1) = ci (L 0)"
    and "cin g = done_idx (L 0) mod BUF_SIZE" "cout g = done_idx (L 1) mod BUF_SIZE"
    and "\<forall>k. done_idx (L 1) \<le> k \<and> k < done_buf (L 0) \<longrightarrow> buffer g ! (k mod BUF_SIZE) = 100 * int k"
    and "added (printed g) = transfers (done_buf (L 0))" "taken (printed g) = transfers (done_buf (L 1))"
  shows "cp_inv sval \<lparr>loc = L, glob = g, world = w\<rparr>"
  using assms by (simp add: cp_inv_def Let_def)

locale cp_client = sem_store api ok sval maxval UNIV
  for api :: "(cp_sem, 'w) sem_api" and ok sval maxval
begin

lemma cp_inv_bounds:
  assumes "cp_inv sval c"
  shows "sval (world c) i < 32767"
  using assms by (cases i) (auto simp: cp_inv_def Let_def cp_counts BUF_SIZE_def Max_Num_def split: cp_pc.splits)

lemma producer_inv:
  assumes "cp_inv sval c" and "ok UNIV (world c)"
    and "producer api (loc c 0) (glob c) (world c) = Ret (l, g, w)"
  shows "ok UNIV w \<and> cp_inv sval \<lparr>loc = (loc c)(0 := l), glob = g, world = w\<rparr>"
proof -
  let ?p = "loc c 0" and ?q = "loc c 1" and ?v = "sval (world c)"
  note b = cp_inv_bounds [OF assms(1)]
  from assms(1) have i: "pc_ok ?p" "pc_ok ?q" "length (buffer (glob c)) = BUF_SIZE" "?v Lock + in_cs ?p + in_cs ?q = 1"
    "?v Occupied + waits ?p = BUF_SIZE + ci ?q" "?v Empty + waits ?q = ci ?p"
    "cin (glob c) = done_idx ?p mod BUF_SIZE" "cout (glob c) = done_idx ?q mod BUF_SIZE"
    "\<forall>k. done_idx ?q \<le> k \<and> k < done_buf ?p \<longrightarrow> buffer (glob c) ! (k mod BUF_SIZE) = 100 * int k"
    "added (printed (glob c)) = transfers (done_buf ?p)" "taken (printed (glob c)) = transfers (done_buf ?q)"
    by (auto simp: cp_inv_def Let_def)
  show ?thesis
  proof (cases "cpc ?p")
    case At_for
    with assms(3) have "l = (if ci ?p < Max_Num then ?p\<lparr>cpc := At_wait1\<rparr> else ?p\<lparr>cpc := Exited 0\<rparr>)"
      "g = glob c" "w = world c" by (auto simp: producer_def)
    with At_for assms(2) i show ?thesis
      by (cases "ci ?p < Max_Num"; intro conjI cp_invI) (simp_all add: cp_counts)
  next
    case At_wait1
    with assms(3) have
      "l = ?p\<lparr>cpc := At_wait2\<rparr>" "g = glob c" "ok UNIV w" "0 < ?v Occupied" "sval w = ?v(Occupied := ?v Occupied - 1)"
      unfolding producer_def by (auto dest!: checked_wait [OF _ assms(2)])
    with At_wait1 i show ?thesis by (auto simp: cp_counts intro!: cp_invI)
  next
    case At_wait2
    with assms(3) have
      "l = ?p\<lparr>cpc := At_buffer\<rparr>" "g = glob c" "ok UNIV w" "0 < ?v Lock" "sval w = ?v(Lock := ?v Lock - 1)"
      unfolding producer_def by (auto dest!: checked_wait [OF _ assms(2)])
    with At_wait2 i show ?thesis by (auto simp: cp_counts intro!: cp_invI)
  next
    case At_buffer
    let ?n = "ci ?p"
    have in_n: "cin (glob c) = ?n mod BUF_SIZE" "?n mod BUF_SIZE < BUF_SIZE"
      using i(7) At_buffer by (simp_all add: cp_counts BUF_SIZE_def)
    with At_buffer assms(3) i(3) have r: "l = ?p\<lparr>cdata := 100 * int ?n, cpc := At_index\<rparr>" "w = world c"
      "g = (glob c)\<lparr>buffer := (buffer (glob c))[?n mod BUF_SIZE := 100 * int ?n],
              printed := printed (glob c) @ [Added (100 * int ?n) (?n mod BUF_SIZE)]\<rparr>"
      by (auto simp: producer_def Let_def)
    have "?n < done_idx ?q + BUF_SIZE" using i(5) At_buffer by (simp add: cp_counts)
    then have keep: "k mod BUF_SIZE \<noteq> ?n mod BUF_SIZE" if "done_idx ?q \<le> k" "k < ?n" for k
      using ring_distinct [of k ?n] that by simp
    have "done_buf ?p = ?n" using At_buffer by (simp add: cp_counts)
    then have "buffer g ! (k mod BUF_SIZE) = 100 * int k" if "done_idx ?q \<le> k" "k < Suc ?n" for k
      using i(9) keep [OF that(1)] that i(3) in_n(2) r(3) by (cases "k = ?n") auto
    with At_buffer i r in_n assms(2) show ?thesis
      by (auto simp: cp_counts transfers_Suc intro!: cp_invI)
  next
    case At_index
    with assms(2,3) i show ?thesis
      by (auto simp: producer_def cp_counts mod_Suc_eq intro!: cp_invI)
  next
    case At_post1
    with assms(3) have "l = ?p\<lparr>cpc := At_post2\<rparr>" "g = glob c" "ok UNIV w" "sval w = ?v(Lock := ?v Lock + 1)"
      unfolding producer_def by (auto dest!: checked_post [OF _ assms(2) b])
    with At_post1 i show ?thesis by (auto simp: cp_counts intro!: cp_invI)
  next
    case At_post2
    with assms(3) have "l = ?p\<lparr>cpc := At_for, ci := ci ?p + 1\<rparr>" "g = glob c" "ok UNIV w"
      "sval w = ?v(Empty := ?v Empty + 1)"
      unfolding producer_def by (auto dest!: checked_post [OF _ assms(2) b])
    with At_post2 i show ?thesis by (auto simp: cp_counts intro!: cp_invI)
  next
    case (Exited x)
    with assms(3) show ?thesis by (simp add: producer_def)
  qed
qed

lemma consumer_inv:
  assumes "cp_inv sval c" and "ok UNIV (world c)"
    and "consumer api (loc c 1) (glob c) (world c) = Ret (l, g, w)"
  shows "ok UNIV w \<and> cp_inv sval \<lparr>loc = (loc c)(1 := l), glob = g, world = w\<rparr>"
proof -
  let ?p = "loc c 0" and ?q = "loc c 1" and ?v = "sval (world c)"
  note b = cp_inv_bounds [OF assms(1)]
  from assms(1) have i: "pc_ok ?p" "pc_ok ?q" "length (buffer (glob c)) = BUF_SIZE" "?v Lock + in_cs ?p + in_cs ?q = 1"
    "?v Occupied + waits ?p = BUF_SIZE + ci ?q" "?v Empty + waits ?q = ci ?p"
    "cin (glob c) = done_idx ?p mod BUF_SIZE" "cout (glob c) = done_idx ?q mod BUF_SIZE"
    "\<forall>k. done_idx ?q \<le> k \<and> k < done_buf ?p \<longrightarrow> buffer (glob c) ! (k mod BUF_SIZE) = 100 * int k"
    "added (printed (glob c)) = transfers (done_buf ?p)" "taken (printed (glob c)) = transfers (done_buf ?q)"
    by (auto simp: cp_inv_def Let_def)
  show ?thesis
  proof (cases "cpc ?q")
    case At_for
    with assms(3) have "l = (if ci ?q < Max_Num then ?q\<lparr>cpc := At_wait1\<rparr> else ?q\<lparr>cpc := Exited 0\<rparr>)"
      "g = glob c" "w = world c" by (auto simp: consumer_def)
    with At_for assms(2) i show ?thesis
      by (cases "ci ?q < Max_Num"; intro conjI cp_invI) (simp_all add: cp_counts)
  next
    case At_wait1
    with assms(3) have
      "l = ?q\<lparr>cpc := At_wait2\<rparr>" "g = glob c" "ok UNIV w" "0 < ?v Empty" "sval w = ?v(Empty := ?v Empty - 1)"
      unfolding consumer_def by (auto dest!: checked_wait [OF _ assms(2)])
    with At_wait1 i show ?thesis by (auto simp: cp_counts intro!: cp_invI)
  next
    case At_wait2
    with assms(3) have
      "l = ?q\<lparr>cpc := At_buffer\<rparr>" "g = glob c" "ok UNIV w" "0 < ?v Lock" "sval w = ?v(Lock := ?v Lock - 1)"
      unfolding consumer_def by (auto dest!: checked_wait [OF _ assms(2)])
    with At_wait2 i show ?thesis by (auto simp: cp_counts intro!: cp_invI)
  next
    case At_buffer
    let ?n = "ci ?q"
    have o: "cout (glob c) = ?n mod BUF_SIZE" "?n mod BUF_SIZE < BUF_SIZE" "done_idx ?q = ?n" "done_buf ?q = ?n"
      using i(8) At_buffer by (simp_all add: cp_counts BUF_SIZE_def)
    have "ci ?p \<le> done_buf ?p" "?n < ci ?p" using i(6) At_buffer by (simp_all add: cp_counts)
    then have "buffer (glob c) ! (?n mod BUF_SIZE) = 100 * int ?n" using i(9) o(3) by simp
    with At_buffer assms(3) i(3) o have r: "l = ?q\<lparr>cdata := 100 * int ?n, cpc := At_index\<rparr>" "w = world c"
      "g = (glob c)\<lparr>printed := printed (glob c) @ [Taken (100 * int ?n) (?n mod BUF_SIZE)]\<rparr>"
      by (auto simp: consumer_def Let_def)
    with At_buffer i o assms(2) show ?thesis
      by (auto simp: cp_counts transfers_Suc intro!: cp_invI)
  next
    case At_index
    with assms(2,3) i show ?thesis
      by (auto simp: consumer_def cp_counts mod_Suc_eq intro!: cp_invI)
  next
    case At_post1
    with assms(3) have "l = ?q\<lparr>cpc := At_post2\<rparr>" "g = glob c" "ok UNIV w" "sval w = ?v(Lock := ?v Lock + 1)"
      unfolding consumer_def by (auto dest!: checked_post [OF _ assms(2) b])
    with At_post1 i show ?thesis by (auto simp: cp_counts intro!: cp_invI)
  next
    case At_post2
    with assms(3) have "l = ?q\<lparr>cpc := At_for, ci := ci ?q + 1\<rparr>" "g = glob c" "ok UNIV w"
      "sval w = ?v(Occupied := ?v Occupied + 1)"
      unfolding consumer_def by (auto dest!: checked_post [OF _ assms(2) b])
    with At_post2 i show ?thesis by (auto simp: cp_counts intro!: cp_invI)
  next
    case (Exited x)
    with assms(3) show ?thesis by (simp add: consumer_def)
  qed
qed

lemma cp_step_inv:
  assumes "cp_step api c c'" and "cp_inv sval c \<and> ok UNIV (world c)"
  shows "cp_inv sval c' \<and> ok UNIV (world c')"
proof -
  from assms(1) obtain t l g w where 1: "t < 2" "cp_prog api t (loc c t) (glob c) (world c) = Ret (l, g, w)"
    "c' = \<lparr>loc = (loc c)(t := l), glob = g, world = w\<rparr>" by (rule interleaveE)
  then have "t = 0 \<or> t = 1" by auto
  then show ?thesis
    using 1 assms(2) producer_inv [of c l g w] consumer_inv [of c l g w] by (auto simp: cp_prog_def)
qed

lemma producer_actions:
  assumes "ok UNIV w" and "\<And>i. sval w i < 32767" and "pc_ok l" and "producer api l g w = Ret (l', g', w')"
  shows "actions_left l' < actions_left l"
  using assms(3,4)
  by (auto simp: producer_def actions_left_def pc_ok_def Let_def split: cp_pc.splits if_splits
      dest!: checked_wait [OF _ assms(1)] checked_post [OF _ assms(1) assms(2)])

lemma consumer_actions:
  assumes "ok UNIV w" and "\<And>i. sval w i < 32767" and "pc_ok l" and "consumer api l g w = Ret (l', g', w')"
  shows "actions_left l' < actions_left l"
  using assms(3,4)
  by (auto simp: consumer_def actions_left_def pc_ok_def Let_def split: cp_pc.splits if_splits
      dest!: checked_wait [OF _ assms(1)] checked_post [OF _ assms(1) assms(2)])

lemma cp_step_measure:
  assumes "cp_step api c c'" and "cp_inv sval c \<and> ok UNIV (world c)"
  shows "actions_left (loc c' 0) + actions_left (loc c' 1) < actions_left (loc c 0) + actions_left (loc c 1)"
proof -
  from assms(1) obtain t l g w where 1: "t < 2" "cp_prog api t (loc c t) (glob c) (world c) = Ret (l, g, w)"
    "c' = \<lparr>loc = (loc c)(t := l), glob = g, world = w\<rparr>" by (rule interleaveE)
  then have "t = 0 \<or> t = 1" by auto
  moreover have "pc_ok (loc c 0)" "pc_ok (loc c 1)" using assms(2) by (auto simp: cp_inv_def Let_def)
  ultimately show ?thesis
    using 1 assms(2) cp_inv_bounds [of c] producer_actions [of "world c" "loc c 0" "glob c" l g w]
      consumer_actions [of "world c" "loc c 1" "glob c" l g w] by (auto simp: cp_prog_def)
qed

lemma producer_progress:
  assumes "cp_inv sval c" and "ok UNIV (world c)" and "cpc (loc c 0) \<noteq> Exited 0"
    and "cpc (loc c 0) = At_wait1 \<longrightarrow> 0 < sval (world c) Occupied"
    and "cpc (loc c 0) = At_wait2 \<longrightarrow> 0 < sval (world c) Lock"
  shows "\<exists>l g w. producer api (loc c 0) (glob c) (world c) = Ret (l, g, w)"
proof -
  note b = cp_inv_bounds [OF assms(1)]
  have "cin (glob c) < length (buffer (glob c))" "pc_ok (loc c 0)"
    using assms(1) by (auto simp: cp_inv_def Let_def BUF_SIZE_def)
  then show ?thesis
    using assms(3-5) checked_wait_enabled [OF assms(2)] checked_post_enabled [OF assms(2) b]
    by (cases "cpc (loc c 0)") (auto simp: producer_def pc_ok_def Let_def)
qed

lemma consumer_progress:
  assumes "cp_inv sval c" and "ok UNIV (world c)" and "cpc (loc c 1) \<noteq> Exited 0"
    and "cpc (loc c 1) = At_wait1 \<longrightarrow> 0 < sval (world c) Empty"
    and "cpc (loc c 1) = At_wait2 \<longrightarrow> 0 < sval (world c) Lock"
  shows "\<exists>l g w. consumer api (loc c 1) (glob c) (world c) = Ret (l, g, w)"
proof -
  note b = cp_inv_bounds [OF assms(1)]
  have "cout (glob c) < length (buffer (glob c))" "pc_ok (loc c 1)"
    using assms(1) by (auto simp: cp_inv_def Let_def BUF_SIZE_def)
  then show ?thesis
    using assms(3-5) checked_wait_enabled [OF assms(2)] checked_post_enabled [OF assms(2) b]
    by (cases "cpc (loc c 1)") (auto simp: consumer_def pc_ok_def Let_def)
qed

lemma cp_progress:
  assumes inv: "cp_inv sval c \<and> ok UNIV (world c)" and stuck: "\<forall>c'. \<not> cp_step api c c'"
  shows "cpc (loc c 0) = Exited 0 \<and> cpc (loc c 1) = Exited 0"
proof -
  let ?p = "loc c 0" and ?q = "loc c 1" and ?v = "sval (world c)"
  have i: "pc_ok ?p" "pc_ok ?q" "?v Lock + in_cs ?p + in_cs ?q = 1"
    "?v Occupied + waits ?p = BUF_SIZE + ci ?q" "?v Empty + waits ?q = ci ?p"
    using inv by (simp_all add: cp_inv_def Let_def)
  have np: "\<nexists>l g w. producer api ?p (glob c) (world c) = Ret (l, g, w)"
    using stuck interleaveI [of 0 2 "cp_prog api" c] by (auto simp: cp_prog_def)
  have nq: "\<nexists>l g w. consumer api ?q (glob c) (world c) = Ret (l, g, w)"
    using stuck interleaveI [of 1 2 "cp_prog api" c] by (auto simp: cp_prog_def)
  have p: "cpc ?p = Exited 0 \<or> cpc ?p = At_wait1 \<and> ?v Occupied = 0 \<or> cpc ?p = At_wait2 \<and> ?v Lock = 0"
  proof (rule ccontr)
    assume "\<not> ?thesis"
    then have "cpc ?p \<noteq> Exited 0" "cpc ?p = At_wait1 \<longrightarrow> 0 < ?v Occupied" "cpc ?p = At_wait2 \<longrightarrow> 0 < ?v Lock" by auto
    with producer_progress [of c] inv np show False by blast
  qed
  have q: "cpc ?q = Exited 0 \<or> cpc ?q = At_wait1 \<and> ?v Empty = 0 \<or> cpc ?q = At_wait2 \<and> ?v Lock = 0"
  proof (rule ccontr)
    assume "\<not> ?thesis"
    then have "cpc ?q \<noteq> Exited 0" "cpc ?q = At_wait1 \<longrightarrow> 0 < ?v Empty" "cpc ?q = At_wait2 \<longrightarrow> 0 < ?v Lock" by auto
    with consumer_progress [of c] inv nq show False by blast
  qed
  show ?thesis using p q i by (auto simp: cp_counts BUF_SIZE_def)
qed

lemma cp_start_inv:
  assumes "sval w Occupied = BUF_SIZE" and "sval w Empty = 0" and "sval w Lock = 1" and "length junk = BUF_SIZE"
  shows "cp_inv sval (cp_start junk w)"
  unfolding cp_start_def using assms
  by (intro cp_invI) (simp_all add: cp_counts transfers_def added_def taken_def)

lemma cp_reachable_inv:
  assumes "reachable_from (cp_step api) c0 c" and "cp_inv sval c0 \<and> ok UNIV (world c0)"
  shows "cp_inv sval c \<and> ok UNIV (world c)"
  using assms by (rule reachable_invariant) (rule cp_step_inv)

lemma cp_no_infinite_run: "cp_inv sval c0 \<and> ok UNIV (world c0) \<Longrightarrow> \<not> infinite_run (cp_step api) c0"
  by (rule no_infinite_run [where I = "\<lambda>c. cp_inv sval c \<and> ok UNIV (world c)"
        and m = "\<lambda>c. actions_left (loc c 0) + actions_left (loc c 1)"])
     (auto dest: cp_step_inv cp_step_measure)

lemma cp_end:
  assumes "cp_inv sval c \<and> ok UNIV (world c)" and "\<forall>c'. \<not> cp_step api c c'"
  shows "(\<forall>t < 2. cpc (loc c t) = Exited 0) \<and> added (printed (glob c)) = transfers Max_Num
     \<and> taken (printed (glob c)) = transfers Max_Num"
proof -
  from cp_progress [OF assms] have e: "cpc (loc c 0) = Exited 0" "cpc (loc c 1) = Exited 0" by auto
  then have "ci (loc c 0) = Max_Num" "ci (loc c 1) = Max_Num"
    using assms(1) by (auto simp: cp_inv_def Let_def pc_ok_def)
  then have "done_buf (loc c 0) = Max_Num" "done_buf (loc c 1) = Max_Num" using e by (simp_all add: done_buf_def)
  moreover have "\<forall>t < 2. cpc (loc c t) = Exited 0" using e by (auto simp: less_2_cases_iff)
  ultimately show ?thesis using assms(1) by (auto simp: cp_inv_def Let_def)
qed

lemma cp_main_starts:
  assumes "ok {} w" and "length junk = BUF_SIZE"
  shows "\<exists>w'. cp_main api junk w = Ret (Inr (cp_start junk w')) \<and> ok UNIV w' \<and> cp_inv sval (cp_start junk w')"
proof -
  have m: "unat (of_nat BUF_SIZE :: 32 word) = BUF_SIZE" "BUF_SIZE \<le> maxval" "1 \<le> maxval"
    using maxval_posix by (simp_all add: BUF_SIZE_def)
  from init_sets [OF assms(1), of Occupied "of_nat BUF_SIZE"] m obtain w1 where
    1: "a_init api Occupied 1 (of_nat BUF_SIZE) w = Ret (0, w1)" "ok {Occupied} w1" "sval w1 Occupied = BUF_SIZE"
    by (auto simp: upd_on_def)
  from init_sets [OF 1(2), of Empty 0] 1(3) obtain w2 where
    2: "a_init api Empty 1 0 w1 = Ret (0, w2)" "ok {Empty, Occupied} w2" "sval w2 Occupied = BUF_SIZE" "sval w2 Empty = 0"
    by (auto simp: upd_on_def)
  from init_sets [OF 2(2), of Lock 1] 2(3,4) m(3) obtain w3 where
    3: "a_init api Lock 1 1 w2 = Ret (0, w3)" "ok {Lock, Empty, Occupied} w3" "sval w3 Occupied = BUF_SIZE"
    "sval w3 Empty = 0" "sval w3 Lock = 1"
    by (auto simp: upd_on_def)
  have "{Lock, Empty, Occupied} = UNIV" using cp_sem.exhaust by blast
  with 1 2 3 cp_start_inv [OF 3(3-5) assms(2)] show ?thesis
    by (intro exI [of _ w3]) (simp add: cp_main_def)
qed

end

section \<open>Properties\<close>

lemma UNIV_cp_sem: "UNIV = {Occupied, Empty, Lock}"
  using cp_sem.exhaust by blast

text \<open>C14: in every state the two threads can reach over any store of counting semaphores, they are
  not both inside the section that the lock guards, the buffer holds between 0 and five values,
  and the values printed as taken are, in order, a prefix of those printed as added; no thread
  leaves with an error.\<close>

theorem conpro_safe:
  assumes "sem_store api ok sval maxval UNIV" and "ok {} w" and "length junk = BUF_SIZE"
    and "cp_main api junk w = Ret (Inr c0)" and "reachable_from (cp_step api) c0 c"
  shows "\<not> (0 < in_cs (loc c 0) \<and> 0 < in_cs (loc c 1))
     \<and> done_idx (loc c 1) \<le> done_idx (loc c 0) \<and> done_buf (loc c 0) \<le> done_idx (loc c 1) + BUF_SIZE
     \<and> (\<exists>rest. added (printed (glob c)) = taken (printed (glob c)) @ rest)
     \<and> cpc (loc c 0) \<noteq> Exited 1 \<and> cpc (loc c 1) \<noteq> Exited 1"
proof -
  have cl: "cp_client api ok sval maxval" using assms(1) by (simp add: cp_client_def)
  from cp_client.cp_main_starts [OF cl assms(2,3)] assms(4) have "cp_inv sval c0 \<and> ok UNIV (world c0)"
    by (auto simp: cp_start_def)
  from cp_client.cp_reachable_inv [OF cl assms(5) this] have
    i: "pc_ok (loc c 0)" "pc_ok (loc c 1)" "sval (world c) Lock + in_cs (loc c 0) + in_cs (loc c 1) = 1"
    "sval (world c) Occupied + waits (loc c 0) = BUF_SIZE + ci (loc c 1)" "sval (world c) Empty + waits (loc c 1) = ci (loc c 0)"
    "added (printed (glob c)) = transfers (done_buf (loc c 0))" "taken (printed (glob c)) = transfers (done_buf (loc c 1))"
    by (simp_all add: cp_inv_def Let_def)
  have "done_idx (loc c 1) \<le> done_idx (loc c 0)" "done_buf (loc c 0) \<le> done_idx (loc c 1) + BUF_SIZE"
    and le: "done_buf (loc c 1) \<le> done_buf (loc c 0)" using i(4,5) by (auto simp: cp_counts split: if_splits)
  moreover have "\<exists>rest. transfers (done_buf (loc c 0)) = transfers (done_buf (loc c 1)) @ rest"
    using le by (rule transfers_prefix)
  ultimately show ?thesis using i by (auto simp: pc_ok_def)
qed

theorem conpro_safe_witness:
  "\<exists>c0. cp_main plain_api [7, 7, 7, 7, 7] Map.empty = Ret (Inr c0)
     \<and> \<not> (0 < in_cs (loc c0 0) \<and> 0 < in_cs (loc c0 1))"
proof -
  from cp_client.cp_main_starts [of plain_api "\<lambda>I w. I \<subseteq> dom w" "\<lambda>w i. the (w i)" 32767 Map.empty "[7, 7, 7, 7, 7]"]
    plain.sem_store_axioms obtain w' where m: "cp_main plain_api [7, 7, 7, 7, 7] Map.empty = Ret (Inr (cp_start [7, 7, 7, 7, 7] w'))"
    by (auto simp: cp_client_def BUF_SIZE_def)
  from conpro_safe [OF plain.sem_store_axioms _ _ m reach_start] m show ?thesis by (auto simp: BUF_SIZE_def)
qed

text \<open>C4: on the semaphores of \<^verbatim>\<open>posix1b/semaphore.c\<close> over any System V kernel that behaves as
  documented, \<open>main\<close> initialises the three semaphores and starts the threads; no run is infinite,
  and in every state where neither thread can act both have ended with 0 and the ten values were
  added and taken in order: the program cannot deadlock.\<close>

theorem conpro_on_posix1b_completes:
  assumes laws: "sysv_sem os svals skey live" and "inj (addr :: cp_sem \<Rightarrow> nat)"
    and "\<forall>n. 0 < addr n \<and> int (addr n) < 2147483648" and "3 < fuel"
    and ok: "posix1b_ok svals skey live addr UNIV {} w" and junk: "length junk = BUF_SIZE"
  shows "\<exists>c0. cp_main (posix1b_api fuel os addr) junk w = Ret (Inr c0)
     \<and> \<not> infinite_run (cp_step (posix1b_api fuel os addr)) c0
     \<and> (\<forall>c. reachable_from (cp_step (posix1b_api fuel os addr)) c0 c
            \<and> (\<forall>c'. \<not> cp_step (posix1b_api fuel os addr) c c')
          \<longrightarrow> (\<forall>t < 2. cpc (loc c t) = Exited 0) \<and> added (printed (glob c)) = transfers Max_Num
             \<and> taken (printed (glob c)) = transfers Max_Num)"
proof -
  have "card (UNIV :: cp_sem set) < fuel" "finite (UNIV :: cp_sem set)" using assms(4) by (simp_all add: UNIV_cp_sem)
  with sysv_sem.posix1b_store [OF laws assms(2), of fuel] assms(3)
  have cl: "cp_client (posix1b_api fuel os addr) (posix1b_ok svals skey live addr UNIV)
      (posix1b_val fuel os svals addr) 32767" by (simp add: cp_client_def)
  from cp_client.cp_main_starts [OF cl ok junk] obtain w' where
    s: "cp_main (posix1b_api fuel os addr) junk w = Ret (Inr (cp_start junk w'))"
    "cp_inv (posix1b_val fuel os svals addr) (cp_start junk w') \<and>
       posix1b_ok svals skey live addr UNIV UNIV (world (cp_start junk w'))"
    by (auto simp: cp_start_def)
  from cp_client.cp_no_infinite_run [OF cl s(2)] cp_client.cp_reachable_inv [OF cl _ s(2)]
    cp_client.cp_end [OF cl] s(1) show ?thesis by blast
qed

fun cp_addr :: "cp_sem \<Rightarrow> nat" where
  "cp_addr Occupied = 100"
| "cp_addr Empty = 200"
| "cp_addr Lock = 300"

definition cp_boot :: "sem_kernel sstate" where
  "cp_boot = \<lparr>items = Map.empty, hash_table = (\<lambda>_. 0),
     sems = (\<lambda>a. Some \<lparr>semkey = 0, semid = 0, initialized = 0\<rparr>),
     mutex = False, serrno = EOK, ssys = ref_sem_boot\<rparr>"

lemma cp_addr_ok: "inj cp_addr" "\<forall>n. 0 < cp_addr n \<and> int (cp_addr n) < 2147483648"
proof -
  show "inj cp_addr"
  proof (rule injI)
    fix x y show "cp_addr x = cp_addr y \<Longrightarrow> x = y" by (cases x; cases y) auto
  qed
  show "\<forall>n. 0 < cp_addr n \<and> int (cp_addr n) < 2147483648"
  proof
    fix n show "0 < cp_addr n \<and> int (cp_addr n) < 2147483648" by (cases n) auto
  qed
qed

lemma cp_boot_ok: "posix1b_ok ref_svals kkey ref_live cp_addr UNIV {} cp_boot"
  unfolding posix1b_ok_def
  by (intro exI [of _ "\<lambda>_. []"] exI [of _ "\<lambda>_. 0"])
     (simp add: posix1b_chains_def cp_boot_def table_ok_def table_in_def ref_sem_boot_def)

interpretation cp_posix1b: cp_client "posix1b_api 4 (ref_sem_os True) cp_addr"
  "posix1b_ok ref_svals kkey ref_live cp_addr UNIV" "posix1b_val 4 (ref_sem_os True) ref_svals cp_addr" 32767
  unfolding cp_client_def
  using cp_addr_ok by (intro ref_sem.posix1b_store) (simp_all add: UNIV_cp_sem)

theorem conpro_on_posix1b_completes_witness:
  "\<exists>c0. cp_main (posix1b_api 4 (ref_sem_os True) cp_addr) [0, 0, 0, 0, 0] cp_boot = Ret (Inr c0)
     \<and> \<not> infinite_run (cp_step (posix1b_api 4 (ref_sem_os True) cp_addr)) c0"
  using conpro_on_posix1b_completes [OF ref_sem.sysv_sem_axioms cp_addr_ok _ cp_boot_ok, of 4 "[0, 0, 0, 0, 0]" True]
  by (auto simp: BUF_SIZE_def)

end
