(* ===== verification/Sem_Philosopher.thy ===== *)
theory Sem_Philosopher
  imports Threads
begin

text \<open>
  The dining philosophers of \<^verbatim>\<open>functional/semaphores/sem_philosopher.c\<close>: five threads, a
  semaphore \<open>ph[i]\<close> for each and one \<open>lock\<close> for the array \<^verbatim>\<open>state\<close>. An action is one
  semaphore call, one assignment to the array, or the test and assignment in \<^verbatim>\<open>test()\<close>, which is
  always called with the lock held. Every index is computed modulo the number of philosophers.
\<close>

section \<open>The program\<close>

definition PH_NUM :: nat where "PH_NUM = 5"
definition PH_LOOP_NUM :: nat where "PH_LOOP_NUM = 20"
definition thinking :: int where "thinking = 0"
definition hungry :: int where "hungry = 1"
definition eating :: int where "eating = 2"

datatype ph_sem = Ph nat | Ph_lock

definition preID :: "nat \<Rightarrow> nat" where
  "preID ID = (if ID = 0 then PH_NUM - 1 else (ID - 1) mod PH_NUM)"

definition postID :: "nat \<Rightarrow> nat" where
  "postID ID = (if ID + 1 \<ge> PH_NUM then ID + 1 - PH_NUM else (ID + 1) mod PH_NUM)"

text \<open>Positions in \<open>philosopher\<close>; \<open>Test_x\<close> and \<open>Post_x\<close> are the condition of \<^verbatim>\<open>test(x)\<close> and the
  \<^verbatim>\<open>sem_post\<close> it makes when the condition holds.\<close>

datatype ph_pc =
    Ph_for | Ph_think | Lock_1 | Set_hungry | Test_self | Post_self | Unlock_1 | Wait_ph | Ph_eat
  | Lock_2 | Set_thinking | Test_pre | Post_pre | Test_post | Post_post | Unlock_2 | Ph_exit int

record ph_local =
  ppc :: ph_pc
  pround :: nat

type_synonym 'w ph_conf = "(ph_local, nat \<Rightarrow> int, 'w) conf"

definition ph_test :: "nat \<Rightarrow> (nat \<Rightarrow> int) \<Rightarrow> bool" where
  "ph_test ID st \<longleftrightarrow> st ID = hungry \<and> st (preID ID) \<noteq> eating \<and> st (postID ID) \<noteq> eating"

text \<open>The sem_post in \<open>test\<close> is not checked by the caller.\<close>

definition philosopher ::
  "(ph_sem, 'w) sem_api \<Rightarrow> nat \<Rightarrow> ph_local \<Rightarrow> (nat \<Rightarrow> int) \<Rightarrow> 'w \<Rightarrow> (ph_local \<times> (nat \<Rightarrow> int) \<times> 'w) outcome" where
  "philosopher api PhID l st w =
     (let goto = (\<lambda>pc. l\<lparr>ppc := pc\<rparr>) in
      case ppc l of
        Ph_for \<Rightarrow> Ret (goto (if pround l < PH_LOOP_NUM then Ph_think else Ph_exit 0), st, w)
      | Ph_think \<Rightarrow> Ret (goto Lock_1, st, w)
      | Lock_1 \<Rightarrow> checked (a_wait api Ph_lock w) (goto (Ph_exit 1)) (goto Set_hungry) st
      | Set_hungry \<Rightarrow> Ret (goto Test_self, st(PhID := hungry), w)
      | Test_self \<Rightarrow> if ph_test PhID st then Ret (goto Post_self, st(PhID := eating), w) else Ret (goto Unlock_1, st, w)
      | Post_self \<Rightarrow> checked (a_post api (Ph PhID) w) (goto Unlock_1) (goto Unlock_1) st
      | Unlock_1 \<Rightarrow> checked (a_post api Ph_lock w) (goto (Ph_exit 1)) (goto Wait_ph) st
      | Wait_ph \<Rightarrow> checked (a_wait api (Ph PhID) w) (goto (Ph_exit 1)) (goto Ph_eat) st
      | Ph_eat \<Rightarrow> Ret (goto Lock_2, st, w)
      | Lock_2 \<Rightarrow> checked (a_wait api Ph_lock w) (goto (Ph_exit 1)) (goto Set_thinking) st
      | Set_thinking \<Rightarrow> Ret (goto Test_pre, st(PhID := thinking), w)
      | Test_pre \<Rightarrow> if ph_test (preID PhID) st then Ret (goto Post_pre, st(preID PhID := eating), w)
                    else Ret (goto Test_post, st, w)
      | Post_pre \<Rightarrow> checked (a_post api (Ph (preID PhID)) w) (goto Test_post) (goto Test_post) st
      | Test_post \<Rightarrow> if ph_test (postID PhID) st then Ret (goto Post_post, st(postID PhID := eating), w)
                     else Ret (goto Unlock_2, st, w)
      | Post_post \<Rightarrow> checked (a_post api (Ph (postID PhID)) w) (goto Unlock_2) (goto Unlock_2) st
      | Unlock_2 \<Rightarrow> checked (a_post api Ph_lock w) (goto (Ph_exit 1)) (l\<lparr>ppc := Ph_for, pround := pround l + 1\<rparr>) st
      | Ph_exit c \<Rightarrow> Block)"

abbreviation ph_step :: "(ph_sem, 'w) sem_api \<Rightarrow> 'w ph_conf \<Rightarrow> 'w ph_conf \<Rightarrow> bool" where
  "ph_step api \<equiv> interleave PH_NUM (philosopher api)"

definition ph_start :: "'w \<Rightarrow> 'w ph_conf" where
  "ph_start w = \<lparr>loc = (\<lambda>_. \<lparr>ppc = Ph_for, pround = 0\<rparr>), glob = (\<lambda>_. thinking), world = w\<rparr>"

text \<open>\<open>main\<close>: the semaphores \<open>ph[0]\<close>, \<open>ph[1]\<close>, \dots, then the lock; a failure ends the program.\<close>

fun ph_inits :: "(ph_sem, 'w) sem_api \<Rightarrow> nat list \<Rightarrow> 'w \<Rightarrow> 'w option outcome" where
  "ph_inits api [] w = Ret (Some w)"
| "ph_inits api (i # is) w =
     obind (a_init api (Ph i) 1 0 w) (\<lambda>(rc, w'). if rc = - 1 then Ret None else ph_inits api is w')"

definition ph_main :: "(ph_sem, 'w) sem_api \<Rightarrow> 'w \<Rightarrow> (int + 'w ph_conf) outcome" where
  "ph_main api w =
     obind (ph_inits api [0..<PH_NUM] w) (\<lambda>r. case r of
       None \<Rightarrow> Ret (Inl PTS_UNRESOLVED)
     | Some w1 \<Rightarrow> obind (a_init api Ph_lock 1 1 w1) (\<lambda>(rc, w2).
         if rc = - 1 then Ret (Inl PTS_UNRESOLVED) else Ret (Inr (ph_start w2))))"

text \<open>The end of \<open>main\<close> after the joins.\<close>

fun ph_main_end :: "(ph_sem, 'w) sem_api \<Rightarrow> ph_sem list \<Rightarrow> 'w \<Rightarrow> (int \<times> 'w) outcome" where
  "ph_main_end api [] w = Ret (PTS_PASS, w)"
| "ph_main_end api (s # ss) w =
     obind (a_destroy api s w) (\<lambda>(rc, w'). if rc = - 1 then Ret (PTS_UNRESOLVED, w') else ph_main_end api ss w')"

section \<open>The ring\<close>

lemma less_5: "(t < PH_NUM) \<longleftrightarrow> t = 0 \<or> t = 1 \<or> t = 2 \<or> t = 3 \<or> t = 4"
  by (auto simp: PH_NUM_def)

lemma ring:
  assumes "t < PH_NUM"
  shows "preID t < PH_NUM" "postID t < PH_NUM" "preID (postID t) = t" "postID (preID t) = t"
    "preID t \<noteq> t" "postID t \<noteq> t" "preID t \<noteq> postID t"
  using assms unfolding less_5 by (auto simp: preID_def postID_def PH_NUM_def)

section \<open>The invariant\<close>

definition ph_cs :: "ph_local \<Rightarrow> nat" where
  "ph_cs l = (if ppc l \<in> {Set_hungry, Test_self, Post_self, Unlock_1, Set_thinking, Test_pre, Post_pre,
                          Test_post, Post_post, Unlock_2} then 1 else 0)"

text \<open>Past \<open>sem_wait(&ph[PhID])\<close> and not yet thinking again; about to post \<open>ph[u]\<close>.\<close>

definition at_table :: "ph_local \<Rightarrow> nat" where
  "at_table l = (if ppc l \<in> {Ph_eat, Lock_2, Set_thinking} then 1 else 0)"

definition posting :: "nat \<Rightarrow> nat \<Rightarrow> ph_local \<Rightarrow> nat" where
  "posting u t l = (if (ppc l = Post_self \<and> u = t) \<or> (ppc l = Post_pre \<and> u = preID t)
                      \<or> (ppc l = Post_post \<and> u = postID t) then 1 else 0)"

definition st_ok :: "ph_local \<Rightarrow> int \<Rightarrow> bool" where
  "st_ok l x \<longleftrightarrow>
     (if ppc l \<in> {Unlock_1, Wait_ph} then x = hungry \<or> x = eating
      else if ppc l = Test_self then x = hungry
      else if ppc l \<in> {Post_self, Ph_eat, Lock_2, Set_thinking} then x = eating
      else x = thinking)"

definition ph_pc_ok :: "ph_local \<Rightarrow> bool" where
  "ph_pc_ok l \<longleftrightarrow>
     (case ppc l of Ph_for \<Rightarrow> pround l \<le> PH_LOOP_NUM | Ph_exit c \<Rightarrow> c = 0 \<and> pround l = PH_LOOP_NUM
      | _ \<Rightarrow> pround l < PH_LOOP_NUM)"

text \<open>A hungry philosopher waits for a neighbour who eats, or is about to be tested.\<close>

definition served :: "(nat \<Rightarrow> ph_local) \<Rightarrow> (nat \<Rightarrow> int) \<Rightarrow> nat \<Rightarrow> bool" where
  "served L st t \<longleftrightarrow> st (preID t) = eating \<or> st (postID t) = eating \<or> ppc (L t) = Test_self
     \<or> ppc (L (postID t)) = Test_pre \<or> ppc (L (preID t)) \<in> {Test_pre, Post_pre, Test_post}"

definition ph_inv :: "(ph_sem \<Rightarrow> nat) \<Rightarrow> (nat \<Rightarrow> ph_local) \<Rightarrow> (nat \<Rightarrow> int) \<Rightarrow> bool" where
  "ph_inv v L st \<longleftrightarrow>
     v Ph_lock + (\<Sum>t<PH_NUM. ph_cs (L t)) = 1
     \<and> (\<forall>t < PH_NUM. ph_pc_ok (L t) \<and> st_ok (L t) (st t)
          \<and> v (Ph t) + at_table (L t) + (\<Sum>s<PH_NUM. posting t s (L s)) = (if st t = eating then 1 else 0)
          \<and> \<not> (st t = eating \<and> st (postID t) = eating)
          \<and> (st t = hungry \<longrightarrow> served L st t))"

lemmas ph_states = thinking_def hungry_def eating_def

lemma ph_states_distinct [simp]:
  "thinking \<noteq> hungry" "thinking \<noteq> eating" "hungry \<noteq> thinking" "hungry \<noteq> eating" "eating \<noteq> thinking" "eating \<noteq> hungry"
  by (simp_all add: ph_states)

text \<open>One thread changes: the clauses about it and about the states it changed are enough.\<close>

lemma ph_inv_upd:
  assumes inv: "ph_inv v L st" and t: "t < PH_NUM" and "v' Ph_lock + ph_cs l' = v Ph_lock + ph_cs (L t)"
    and "ph_pc_ok l'" and "\<forall>u < PH_NUM. st_ok ((L(t := l')) u) (st' u)"
    and tok: "\<forall>u < PH_NUM. v' (Ph u) + at_table ((L(t := l')) u) + posting u t l' + (if st u = eating then 1 else 0)
        = v (Ph u) + at_table (L u) + posting u t (L t) + (if st' u = eating then 1 else 0)"
    and "\<forall>u < PH_NUM. \<not> (st' u = eating \<and> st' (postID u) = eating)"
    and "\<forall>u < PH_NUM. st' u = hungry \<longrightarrow> served (L(t := l')) st' u"
  shows "ph_inv v' (L(t := l')) st'"
proof -
  have cs: "(\<Sum>s<PH_NUM. ph_cs ((L(t := l')) s)) + ph_cs (L t) = (\<Sum>s<PH_NUM. ph_cs (L s)) + ph_cs l'"
    using sum_upd [OF t, of "\<lambda>_. ph_cs" L l'] by simp
  have po: "(\<Sum>s<PH_NUM. posting u s ((L(t := l')) s)) + posting u t (L t) = (\<Sum>s<PH_NUM. posting u s (L s)) + posting u t l'" for u
    using sum_upd [OF t, of "\<lambda>s. posting u s" L l'] by simp
  have "v' (Ph u) + at_table ((L(t := l')) u) + (\<Sum>s<PH_NUM. posting u s ((L(t := l')) s)) = (if st' u = eating then 1 else 0)"
    if u: "u < PH_NUM" for u
  proof -
    have "v (Ph u) + at_table (L u) + (\<Sum>s<PH_NUM. posting u s (L s)) = (if st u = eating then 1 else 0)"
      using inv u by (simp add: ph_inv_def)
    with tok u po [of u] show ?thesis by fastforce
  qed
  moreover have "ph_pc_ok ((L(t := l')) u)" if "u < PH_NUM" for u using assms(4) inv that by (simp add: ph_inv_def)
  moreover have "v' Ph_lock + (\<Sum>s<PH_NUM. ph_cs ((L(t := l')) s)) = 1" using cs assms(3) inv by (simp add: ph_inv_def)
  ultimately show ?thesis using assms(5,7,8) unfolding ph_inv_def by blast
qed

lemma served_keep:
  assumes "served L st u" and "ppc (L t) \<notin> {Test_self, Test_pre, Post_pre, Test_post}"
  shows "served (L(t := l')) st u"
  using assms by (auto simp: served_def)

text \<open>An action that leaves the array alone and does not test.\<close>

lemma ph_inv_plain:
  assumes inv: "ph_inv v L st" and t: "t < PH_NUM" and "v' Ph_lock + ph_cs l' = v Ph_lock + ph_cs (L t)"
    and "ph_pc_ok l'" and "st_ok l' (st t)"
    and "\<forall>u < PH_NUM. v' (Ph u) + at_table ((L(t := l')) u) + posting u t l' = v (Ph u) + at_table (L u) + posting u t (L t)"
    and "ppc (L t) \<notin> {Test_self, Test_pre, Post_pre, Test_post} \<or> (ppc (L t) = Post_pre \<and> ppc l' = Test_post)"
  shows "ph_inv v' (L(t := l')) st"
proof (rule ph_inv_upd [OF inv t])
  show "v' Ph_lock + ph_cs l' = v Ph_lock + ph_cs (L t)" "ph_pc_ok l'" by (rule assms)+
  show "\<forall>u < PH_NUM. st_ok ((L(t := l')) u) (st u)" using inv assms(5) by (simp add: ph_inv_def)
  show "\<forall>u < PH_NUM. v' (Ph u) + at_table ((L(t := l')) u) + posting u t l' + (if st u = eating then 1 else 0)
      = v (Ph u) + at_table (L u) + posting u t (L t) + (if st u = eating then 1 else 0)" using assms(6) by simp
  show "\<forall>u < PH_NUM. \<not> (st u = eating \<and> st (postID u) = eating)" using inv by (simp add: ph_inv_def)
  have "served (L(t := l')) st u" if "served L st u" for u
    using assms(7) served_keep [OF that, of t l'] that by (auto simp: served_def)
  then show "\<forall>u < PH_NUM. st u = hungry \<longrightarrow> served (L(t := l')) st u" using inv by (simp add: ph_inv_def)
qed

lemma ph_alone:
  assumes "ph_inv v L st" and "t < PH_NUM" and "ph_cs (L t) = 1" and "u < PH_NUM" and "u \<noteq> t"
  shows "ph_cs (L u) = 0"
proof (rule ccontr)
  assume "ph_cs (L u) \<noteq> 0"
  moreover have "(\<Sum>s<PH_NUM. ph_cs (L s)) \<le> 1" using assms(1) by (simp add: ph_inv_def)
  ultimately show False using sum_at_most_one [of "\<lambda>s. ph_cs (L s)" PH_NUM u t] assms by simp
qed

text \<open>\<^verbatim>\<open>test(x)\<close> by thread \<open>t\<close>, which holds the lock, moving on to \<open>l1\<close> when the condition holds and
  to \<open>l2\<close> when it does not.\<close>

lemma ph_inv_test_true:
  assumes inv: "ph_inv v L st" and t: "t < PH_NUM" and x: "x < PH_NUM" and cs: "ph_cs (L t) = 1" "ph_cs l1 = 1"
    and pc: "ph_pc_ok l1" "at_table (L t) = 0" "at_table l1 = 0" and test: "ph_test x st"
    and post: "\<forall>u < PH_NUM. posting u t (L t) = 0 \<and> posting u t l1 = (if u = x then 1 else 0)"
    and ok: "x = t \<and> ppc l1 = Post_self \<or> x \<noteq> t \<and> st_ok l1 (st t)"
    and serv: "\<forall>u < PH_NUM. u \<noteq> x \<and> served L st u \<longrightarrow> served (L(t := l1)) (st(x := eating)) u"
  shows "ph_inv v (L(t := l1)) (st(x := eating))"
proof (rule ph_inv_upd [OF inv t])
  have h: "st x = hungry" "st (preID x) \<noteq> eating" "st (postID x) \<noteq> eating" using test by (simp_all add: ph_test_def)
  show "v Ph_lock + ph_cs l1 = v Ph_lock + ph_cs (L t)" using cs by simp
  show "ph_pc_ok l1" by (rule pc)
  have sx: "st_ok (L x) hungry" using inv x h(1) by (force simp: ph_inv_def)
  have "st_ok (L x) eating" if "x \<noteq> t"
  proof -
    have "ppc (L x) = Wait_ph"
      using sx ph_alone [OF inv t cs(1) x that] by (cases "ppc (L x)") (simp_all add: st_ok_def ph_cs_def)
    then show ?thesis by (simp add: st_ok_def)
  qed
  moreover have "st_ok l1 eating" if "x = t" using ok that by (simp add: st_ok_def)
  moreover have "st_ok (L u) (st u)" if "u < PH_NUM" for u using inv that by (simp add: ph_inv_def)
  ultimately show "\<forall>u < PH_NUM. st_ok ((L(t := l1)) u) ((st(x := eating)) u)" using ok by auto
  show "\<forall>u < PH_NUM. v (Ph u) + at_table ((L(t := l1)) u) + posting u t l1 + (if st u = eating then 1 else 0)
      = v (Ph u) + at_table (L u) + posting u t (L t) + (if (st(x := eating)) u = eating then 1 else 0)"
    using h(1) pc post by auto
  have "preID u = x \<longleftrightarrow> u = postID x" if "u < PH_NUM" for u using ring x that by metis
  then show "\<forall>u < PH_NUM. \<not> ((st(x := eating)) u = eating \<and> (st(x := eating)) (postID u) = eating)"
    using inv h ring x by (auto simp: ph_inv_def)
  show "\<forall>u < PH_NUM. (st(x := eating)) u = hungry \<longrightarrow> served (L(t := l1)) (st(x := eating)) u"
    using inv serv by (auto simp: ph_inv_def)
qed

lemma ph_inv_test_false:
  assumes inv: "ph_inv v L st" and t: "t < PH_NUM" and x: "x < PH_NUM" and cs: "ph_cs (L t) = 1" "ph_cs l2 = 1"
    and pc: "ph_pc_ok l2" "at_table (L t) = 0" "at_table l2 = 0" and test: "\<not> ph_test x st"
    and post: "\<forall>u < PH_NUM. posting u t (L t) = 0 \<and> posting u t l2 = 0" and ok: "st_ok l2 (st t)"
    and serv: "\<forall>u < PH_NUM. u \<noteq> x \<and> served L st u \<longrightarrow> served (L(t := l2)) st u"
  shows "ph_inv v (L(t := l2)) st"
proof (rule ph_inv_upd [OF inv t])
  show "v Ph_lock + ph_cs l2 = v Ph_lock + ph_cs (L t)" using cs by simp
  show "ph_pc_ok l2" by (rule pc)
  show "\<forall>u < PH_NUM. st_ok ((L(t := l2)) u) (st u)" using inv ok by (auto simp: ph_inv_def)
  show "\<forall>u < PH_NUM. v (Ph u) + at_table ((L(t := l2)) u) + posting u t l2 + (if st u = eating then 1 else 0)
      = v (Ph u) + at_table (L u) + posting u t (L t) + (if st u = eating then 1 else 0)"
    using pc post by simp
  show "\<forall>u < PH_NUM. \<not> (st u = eating \<and> st (postID u) = eating)" using inv by (simp add: ph_inv_def)
  have "st x = hungry \<Longrightarrow> served (L(t := l2)) st x" using test by (auto simp: ph_test_def served_def)
  then show "\<forall>u < PH_NUM. st u = hungry \<longrightarrow> served (L(t := l2)) st u"
    using inv serv by (auto simp: ph_inv_def)
qed

section \<open>Every action keeps the invariant\<close>

definition ph_sems :: "ph_sem set" where
  "ph_sems = insert Ph_lock (Ph ` {..<PH_NUM})"

lemma ph_sems_iff [simp]: "Ph_lock \<in> ph_sems" "Ph t \<in> ph_sems \<longleftrightarrow> t < PH_NUM"
  by (auto simp: ph_sems_def)

lemma ph_inv_cong:
  assumes "ph_inv v L st" and "\<forall>i \<in> ph_sems. v' i = v i"
  shows "ph_inv v' L st"
  using assms by (simp add: ph_inv_def)

text \<open>The two assignments to the array.\<close>

lemma ph_inv_hungry:
  assumes inv: "ph_inv v L st" and t: "t < PH_NUM" and pc: "ppc (L t) = Set_hungry"
  shows "ph_inv v (L(t := (L t)\<lparr>ppc := Test_self\<rparr>)) (st(t := hungry))"
proof (rule ph_inv_upd [OF inv t])
  have st: "st t = thinking" "ph_pc_ok (L t)" using inv t pc by (auto simp: ph_inv_def st_ok_def)
  show "v Ph_lock + ph_cs ((L t)\<lparr>ppc := Test_self\<rparr>) = v Ph_lock + ph_cs (L t)" using pc by (simp add: ph_cs_def)
  show "ph_pc_ok ((L t)\<lparr>ppc := Test_self\<rparr>)" using st pc by (simp add: ph_pc_ok_def)
  show "\<forall>u < PH_NUM. st_ok ((L(t := (L t)\<lparr>ppc := Test_self\<rparr>)) u) ((st(t := hungry)) u)"
    using inv by (simp add: ph_inv_def st_ok_def)
  show "\<forall>u < PH_NUM. v (Ph u) + at_table ((L(t := (L t)\<lparr>ppc := Test_self\<rparr>)) u)
        + posting u t ((L t)\<lparr>ppc := Test_self\<rparr>) + (if st u = eating then 1 else 0)
      = v (Ph u) + at_table (L u) + posting u t (L t) + (if (st(t := hungry)) u = eating then 1 else 0)"
    using pc st(1) by (simp add: at_table_def posting_def)
  show "\<forall>u < PH_NUM. \<not> ((st(t := hungry)) u = eating \<and> (st(t := hungry)) (postID u) = eating)"
    using inv by (simp add: ph_inv_def)
  have "served (L(t := (L t)\<lparr>ppc := Test_self\<rparr>)) (st(t := hungry)) u" if "served L st u" for u
    using that st(1) pc by (auto simp: served_def)
  moreover have "served (L(t := (L t)\<lparr>ppc := Test_self\<rparr>)) (st(t := hungry)) t" by (simp add: served_def)
  ultimately show "\<forall>u < PH_NUM. (st(t := hungry)) u = hungry \<longrightarrow> served (L(t := (L t)\<lparr>ppc := Test_self\<rparr>)) (st(t := hungry)) u"
    using inv by (simp add: ph_inv_def)
qed

lemma ph_inv_thinking:
  assumes inv: "ph_inv v L st" and t: "t < PH_NUM" and pc: "ppc (L t) = Set_thinking"
  shows "ph_inv v (L(t := (L t)\<lparr>ppc := Test_pre\<rparr>)) (st(t := thinking))"
proof (rule ph_inv_upd [OF inv t])
  have st: "st t = eating" "ph_pc_ok (L t)" using inv t pc by (auto simp: ph_inv_def st_ok_def)
  show "v Ph_lock + ph_cs ((L t)\<lparr>ppc := Test_pre\<rparr>) = v Ph_lock + ph_cs (L t)" using pc by (simp add: ph_cs_def)
  show "ph_pc_ok ((L t)\<lparr>ppc := Test_pre\<rparr>)" using st pc by (simp add: ph_pc_ok_def)
  show "\<forall>u < PH_NUM. st_ok ((L(t := (L t)\<lparr>ppc := Test_pre\<rparr>)) u) ((st(t := thinking)) u)"
    using inv by (simp add: ph_inv_def st_ok_def)
  show "\<forall>u < PH_NUM. v (Ph u) + at_table ((L(t := (L t)\<lparr>ppc := Test_pre\<rparr>)) u)
        + posting u t ((L t)\<lparr>ppc := Test_pre\<rparr>) + (if st u = eating then 1 else 0)
      = v (Ph u) + at_table (L u) + posting u t (L t) + (if (st(t := thinking)) u = eating then 1 else 0)"
    using pc st(1) by (simp add: at_table_def posting_def)
  show "\<forall>u < PH_NUM. \<not> ((st(t := thinking)) u = eating \<and> (st(t := thinking)) (postID u) = eating)"
    using inv by (simp add: ph_inv_def)
  have "served (L(t := (L t)\<lparr>ppc := Test_pre\<rparr>)) (st(t := thinking)) u" if "served L st u" for u
    using that st(1) pc by (auto simp: served_def)
  then show "\<forall>u < PH_NUM. (st(t := thinking)) u = hungry \<longrightarrow> served (L(t := (L t)\<lparr>ppc := Test_pre\<rparr>)) (st(t := thinking)) u"
    using inv by (simp add: ph_inv_def)
qed

section \<open>Actions left\<close>

definition ph_left :: "ph_local \<Rightarrow> nat" where
  "ph_left l = (PH_LOOP_NUM - pround l) * 17 +
     (case ppc l of Ph_for \<Rightarrow> 16 | Ph_think \<Rightarrow> 15 | Lock_1 \<Rightarrow> 14 | Set_hungry \<Rightarrow> 13 | Test_self \<Rightarrow> 12
      | Post_self \<Rightarrow> 11 | Unlock_1 \<Rightarrow> 10 | Wait_ph \<Rightarrow> 9 | Ph_eat \<Rightarrow> 8 | Lock_2 \<Rightarrow> 7 | Set_thinking \<Rightarrow> 6
      | Test_pre \<Rightarrow> 5 | Post_pre \<Rightarrow> 4 | Test_post \<Rightarrow> 3 | Post_post \<Rightarrow> 2 | Unlock_2 \<Rightarrow> 1 | Ph_exit c \<Rightarrow> 0)"

lemma philosopher_left:
  assumes "philosopher api t l st w = Ret (l', st', w')" and "ph_pc_ok l"
  shows "ph_left l' < ph_left l"
  using assms
  by (cases "ppc l") (auto simp: philosopher_def ph_left_def ph_pc_ok_def checked_Ret split: if_splits)

locale ph_client = sem_store api ok sval maxval ph_sems
  for api :: "(ph_sem, 'w) sem_api" and ok sval maxval
begin

lemma ph_bound:
  assumes "ph_inv (sval w) L st" and "i \<in> ph_sems"
  shows "sval w i < 32767"
proof (cases i)
  case (Ph t)
  with assms have "sval w (Ph t) + at_table (L t) + (\<Sum>s<PH_NUM. posting t s (L s)) = (if st t = eating then 1 else 0)"
    by (simp add: ph_inv_def)
  with Ph show ?thesis by (simp split: if_splits)
next
  case Ph_lock
  with assms show ?thesis by (simp add: ph_inv_def)
qed

lemma ph_upd:
  assumes "upd_on ph_sems v v' i x"
  shows "v' Ph_lock = (if i = Ph_lock then x else v Ph_lock)"
    and "u < PH_NUM \<Longrightarrow> v' (Ph u) = (if i = Ph u then x else v (Ph u))"
  using assms by (auto simp: upd_on_def)

lemmas ph_counts = ph_cs_def ph_pc_ok_def st_ok_def at_table_def posting_def

text \<open>Calls on the lock, and on the philosophers' own semaphores.\<close>

lemma ph_lock_inv:
  assumes inv: "ph_inv (sval w) (L :: nat \<Rightarrow> ph_local) st" and ok: "ok ph_sems w" and t: "t < PH_NUM"
    and run: "philosopher api t (L t) st w = Ret (l, st', w')" and pc: "ppc (L t) \<in> {Lock_1, Lock_2, Unlock_1, Unlock_2}"
  shows "ok ph_sems w' \<and> ph_inv (sval w') (L(t := l)) st'"
proof -
  have b: "sval w Ph_lock < 32767" using ph_bound [OF inv] by simp
  have i: "ph_pc_ok (L t)" "st_ok (L t) (st t)" using inv t by (simp_all add: ph_inv_def)
  show ?thesis
  proof (cases "ppc (L t) \<in> {Lock_1, Lock_2}")
    case True
    let ?l = "(L t)\<lparr>ppc := (if ppc (L t) = Lock_1 then Set_hungry else Set_thinking)\<rparr>"
    have r: "l = ?l" "st' = st" "ok ph_sems w'" "0 < sval w Ph_lock" "upd_on ph_sems (sval w) (sval w') Ph_lock (sval w Ph_lock - 1)"
      using run True by (auto simp: philosopher_def dest!: checked_wait_on [OF _ ok])
    have "ph_inv (sval w') (L(t := ?l)) st"
      by (rule ph_inv_plain [OF inv t]) (use True i r(4) ph_upd [OF r(5)] in \<open>auto simp: ph_counts\<close>)
    with r show ?thesis by simp
  next
    case False
    let ?l = "if ppc (L t) = Unlock_1 then (L t)\<lparr>ppc := Wait_ph\<rparr> else (L t)\<lparr>ppc := Ph_for, pround := pround (L t) + 1\<rparr>"
    have r: "l = ?l" "st' = st" "ok ph_sems w'" "upd_on ph_sems (sval w) (sval w') Ph_lock (sval w Ph_lock + 1)"
      using run False pc b by (auto simp: philosopher_def dest!: checked_post_on [OF _ ok])
    have "ph_inv (sval w') (L(t := ?l)) st"
      by (rule ph_inv_plain [OF inv t]) (use False pc i ph_upd [OF r(4)] in \<open>auto simp: ph_counts\<close>)
    with r show ?thesis by simp
  qed
qed

lemma ph_token_inv:
  assumes inv: "ph_inv (sval w) (L :: nat \<Rightarrow> ph_local) st" and ok: "ok ph_sems w" and t: "t < PH_NUM"
    and run: "philosopher api t (L t) st w = Ret (l, st', w')" and pc: "ppc (L t) \<in> {Post_self, Post_pre, Post_post, Wait_ph}"
  shows "ok ph_sems w' \<and> ph_inv (sval w') (L(t := l)) st'"
proof -
  note rg = ring [OF t]
  have b: "\<And>u. u < PH_NUM \<Longrightarrow> sval w (Ph u) < 32767" using ph_bound [OF inv] by simp
  have i: "ph_pc_ok (L t)" "st_ok (L t) (st t)"
    "sval w (Ph t) + at_table (L t) + (\<Sum>s<PH_NUM. posting t s (L s)) = (if st t = eating then 1 else 0)"
    using inv t by (simp_all add: ph_inv_def)
  show ?thesis
  proof (cases "ppc (L t) = Wait_ph")
    case True
    let ?l = "(L t)\<lparr>ppc := Ph_eat\<rparr>"
    have r: "l = ?l" "st' = st" "ok ph_sems w'" "0 < sval w (Ph t)" "upd_on ph_sems (sval w) (sval w') (Ph t) (sval w (Ph t) - 1)"
      using run True t by (auto simp: philosopher_def dest!: checked_wait_on [OF _ ok])
    have "st t = eating" using i(3) r(4) by (simp split: if_splits)
    then have "ph_inv (sval w') (L(t := ?l)) st"
      by (intro ph_inv_plain [OF inv t]) (use True i r(4) ph_upd [OF r(5)] in \<open>auto simp: ph_counts\<close>)
    with r show ?thesis by simp
  next
    case False
    let ?u = "case ppc (L t) of Post_self \<Rightarrow> t | Post_pre \<Rightarrow> preID t | _ \<Rightarrow> postID t"
    let ?l = "(L t)\<lparr>ppc := (case ppc (L t) of Post_self \<Rightarrow> Unlock_1 | Post_pre \<Rightarrow> Test_post | _ \<Rightarrow> Unlock_2)\<rparr>"
    have r: "l = ?l" "st' = st" "ok ph_sems w'" "upd_on ph_sems (sval w) (sval w') (Ph ?u) (sval w (Ph ?u) + 1)"
      using run False pc b t rg by (auto simp: philosopher_def dest!: checked_post_on [OF _ ok])
    have u: "sval w' Ph_lock = sval w Ph_lock"
      "\<forall>x < PH_NUM. sval w' (Ph x) = (if x = ?u then sval w (Ph x) + 1 else sval w (Ph x))"
      using ph_upd [OF r(4)] by auto
    have "ph_inv (sval w') (L(t := ?l)) st"
    proof (rule ph_inv_plain [OF inv t])
      consider "ppc (L t) = Post_self" | "ppc (L t) = Post_pre" | "ppc (L t) = Post_post" using False pc by auto
      then have p: "ph_cs ?l = ph_cs (L t)" "ph_pc_ok ?l" "st_ok ?l (st t)" "at_table ?l = at_table (L t)"
        "\<forall>x. posting x t ?l = 0 \<and> posting x t (L t) = (if x = ?u then 1 else 0)"
        "ppc (L t) \<notin> {Test_self, Test_pre, Post_pre, Test_post} \<or> (ppc (L t) = Post_pre \<and> ppc ?l = Test_post)"
        using i(1,2) rg by (cases; simp add: ph_counts)+
      show "sval w' Ph_lock + ph_cs ?l = sval w Ph_lock + ph_cs (L t)" using p(1) u(1) by simp
      show "ph_pc_ok ?l" "st_ok ?l (st t)"
        "ppc (L t) \<notin> {Test_self, Test_pre, Post_pre, Test_post} \<or> (ppc (L t) = Post_pre \<and> ppc ?l = Test_post)"
        by (rule p)+
      show "\<forall>x < PH_NUM. sval w' (Ph x) + at_table ((L(t := ?l)) x) + posting x t ?l
          = sval w (Ph x) + at_table (L x) + posting x t (L t)" using p(4,5) u(2) by simp
    qed
    with r show ?thesis by simp
  qed
qed

lemma ph_test_inv:
  assumes inv: "ph_inv v (L :: nat \<Rightarrow> ph_local) st" and t: "t < PH_NUM"
    and run: "philosopher api t (L t) st w = Ret (l, st', w')" and pc: "ppc (L t) \<in> {Test_self, Test_pre, Test_post}"
  shows "w' = w \<and> ph_inv v (L(t := l)) st'"
proof -
  note rg = ring [OF t]
  have i: "ph_pc_ok (L t)" "st_ok (L t) (st t)" using inv t by (simp_all add: ph_inv_def)
  have nb: "postID u = t \<longleftrightarrow> u = preID t" "preID u = t \<longleftrightarrow> u = postID t" if "u < PH_NUM" for u
    using ring t that by metis+
  define x where "x = (case ppc (L t) of Test_self \<Rightarrow> t | Test_pre \<Rightarrow> preID t | _ \<Rightarrow> postID t)"
  define l1 where "l1 = (L t)\<lparr>ppc := (case ppc (L t) of Test_self \<Rightarrow> Post_self | Test_pre \<Rightarrow> Post_pre | _ \<Rightarrow> Post_post)\<rparr>"
  define l2 where "l2 = (L t)\<lparr>ppc := (case ppc (L t) of Test_self \<Rightarrow> Unlock_1 | Test_pre \<Rightarrow> Test_post | _ \<Rightarrow> Unlock_2)\<rparr>"
  have r: "l = (if ph_test x st then l1 else l2)" "st' = (if ph_test x st then st(x := eating) else st)" "w' = w"
    using run pc by (auto simp: philosopher_def x_def l1_def l2_def split: if_splits)
  consider "ppc (L t) = Test_self" | "ppc (L t) = Test_pre" | "ppc (L t) = Test_post" using pc by auto
  then have p: "x < PH_NUM" "ph_cs (L t) = 1" "ph_cs l1 = 1" "ph_cs l2 = 1" "ph_pc_ok l1" "ph_pc_ok l2"
    "at_table (L t) = 0" "at_table l1 = 0" "at_table l2 = 0"
    "\<forall>u < PH_NUM. posting u t (L t) = 0 \<and> posting u t l1 = (if u = x then 1 else 0)"
    "\<forall>u < PH_NUM. posting u t (L t) = 0 \<and> posting u t l2 = 0" "st_ok l2 (st t)"
    "x = t \<and> ppc l1 = Post_self \<or> x \<noteq> t \<and> st_ok l1 (st t)"
    using i rg t by (cases; simp add: ph_counts x_def l1_def l2_def)+
  have s1: "\<forall>u < PH_NUM. u \<noteq> x \<and> served L st u \<longrightarrow> served (L(t := l1)) (st(x := eating)) u"
    using pc nb rg(5-7) by (auto simp: served_def x_def l1_def rg(3,4))
  have s2: "\<forall>u < PH_NUM. u \<noteq> x \<and> served L st u \<longrightarrow> served (L(t := l2)) st u"
    using pc nb rg(5-7) by (auto simp: served_def x_def l2_def rg(3,4))
  show ?thesis
  proof (cases "ph_test x st")
    case True
    with r ph_inv_test_true [OF inv t p(1,2,3,5,7,8) True p(10,13) s1] show ?thesis by simp
  next
    case False
    with r ph_inv_test_false [OF inv t p(1,2,4,6,7,9) False p(11,12) s2] show ?thesis by simp
  qed
qed

lemma ph_thread_inv:
  assumes inv: "ph_inv (sval w) (L :: nat \<Rightarrow> ph_local) st" and ok: "ok ph_sems w" and t: "t < PH_NUM"
    and run: "philosopher api t (L t) st w = Ret (l, st', w')"
  shows "ok ph_sems w' \<and> ph_inv (sval w') (L(t := l)) st'"
proof -
  have i: "ph_pc_ok (L t)" "st_ok (L t) (st t)" using inv t by (simp_all add: ph_inv_def)
  consider "ppc (L t) \<in> {Lock_1, Lock_2, Unlock_1, Unlock_2}" | "ppc (L t) \<in> {Post_self, Post_pre, Post_post, Wait_ph}"
    | "ppc (L t) \<in> {Test_self, Test_pre, Test_post}" | "ppc (L t) = Set_hungry" | "ppc (L t) = Set_thinking"
    | "ppc (L t) \<in> {Ph_for, Ph_think, Ph_eat}" | c where "ppc (L t) = Ph_exit c"
    by (cases "ppc (L t)") auto
  then show ?thesis
  proof cases
    case 1
    with ph_lock_inv [OF inv ok t run] show ?thesis by blast
  next
    case 2
    with ph_token_inv [OF inv ok t run] show ?thesis by blast
  next
    case 3
    with ph_test_inv [OF inv t run] ok show ?thesis by blast
  next
    case 4
    with run ph_inv_hungry [OF inv t 4] ok show ?thesis by (auto simp: philosopher_def)
  next
    case 5
    with run ph_inv_thinking [OF inv t 5] ok show ?thesis by (auto simp: philosopher_def)
  next
    case 6
    define pc' where "pc' = (case ppc (L t) of Ph_for \<Rightarrow> if pround (L t) < PH_LOOP_NUM then Ph_think else Ph_exit 0
      | Ph_think \<Rightarrow> Lock_1 | _ \<Rightarrow> Lock_2)"
    let ?l = "(L t)\<lparr>ppc := pc'\<rparr>"
    from 6 run have r: "l = ?l" "st' = st" "w' = w" by (auto simp: philosopher_def pc'_def)
    consider "ppc (L t) = Ph_for" "pround (L t) < PH_LOOP_NUM" | "ppc (L t) = Ph_for" "pround (L t) = PH_LOOP_NUM"
      | "ppc (L t) = Ph_think" | "ppc (L t) = Ph_eat" using 6 i(1) by (fastforce simp: ph_pc_ok_def)
    then have p: "ph_cs ?l = ph_cs (L t)" "ph_pc_ok ?l" "st_ok ?l (st t)" "at_table ?l = at_table (L t)"
      "\<forall>x. posting x t ?l = posting x t (L t)" "ppc (L t) \<notin> {Test_self, Test_pre, Post_pre, Test_post}"
      using i by (cases; simp add: ph_counts pc'_def)+
    have "ph_inv (sval w) (L(t := ?l)) st"
      by (rule ph_inv_plain [OF inv t]) (use p in simp_all)
    with r ok show ?thesis by simp
  next
    case 7
    with run show ?thesis by (simp add: philosopher_def)
  qed
qed

lemma ph_step_inv:
  assumes "ph_step api c c'" and "ph_inv (sval (world c)) (loc c) (glob c) \<and> ok ph_sems (world c)"
  shows "(ph_inv (sval (world c')) (loc c') (glob c') \<and> ok ph_sems (world c'))
     \<and> (\<Sum>t<PH_NUM. ph_left (loc c' t)) < (\<Sum>t<PH_NUM. ph_left (loc c t))"
proof -
  from assms(1) obtain t l g w where s: "t < PH_NUM" "philosopher api t (loc c t) (glob c) (world c) = Ret (l, g, w)"
    "c' = \<lparr>loc = (loc c)(t := l), glob = g, world = w\<rparr>" by (rule interleaveE)
  have "ph_pc_ok (loc c t)" using assms(2) s(1) by (simp add: ph_inv_def)
  with philosopher_left [OF s(2)] have "ph_left l < ph_left (loc c t)" by simp
  then show ?thesis
    using ph_thread_inv [of "world c" "loc c" "glob c" t l g w] s(1,2) assms(2) s(3) sum_upd [OF s(1), of "\<lambda>_. ph_left" "loc c" l] by simp
qed

lemma ph_acts:
  assumes "ph_inv (sval w) L st" and "ok ph_sems w" and t: "t < PH_NUM"
    and "\<forall>c. ppc (L t) \<noteq> Ph_exit c" and "ppc (L t) = Wait_ph \<longrightarrow> 0 < sval w (Ph t)"
    and "ppc (L t) \<in> {Lock_1, Lock_2} \<longrightarrow> 0 < sval w Ph_lock"
  shows "\<exists>l st' w'. philosopher api t (L t) st w = Ret (l, st', w')"
proof -
  note b = ph_bound [OF assms(1)]
  note post = checked_post_on_enabled [OF assms(2) _ b] and wait = checked_wait_on_enabled [OF assms(2)]
  show ?thesis using assms(4-6) ring [OF t] t
    by (cases "ppc (L t)") (auto simp: philosopher_def intro!: post wait)
qed

lemma ph_progress:
  assumes inv: "ph_inv (sval (world c)) (loc c) (glob c) \<and> ok ph_sems (world c)" and stuck: "\<forall>c'. \<not> ph_step api c c'"
  shows "\<forall>t < PH_NUM. ppc (loc c t) = Ph_exit 0"
proof -
  let ?L = "loc c" and ?v = "sval (world c)" and ?st = "glob c"
  have no: "\<nexists>l st' w'. philosopher api t (?L t) ?st (world c) = Ret (l, st', w')" if "t < PH_NUM" for t
    using stuck interleaveI [of t PH_NUM "philosopher api" c] that by blast
  have idle: "(\<exists>x. ppc (?L t) = Ph_exit x) \<or> ppc (?L t) = Wait_ph \<and> ?v (Ph t) = 0
      \<or> ppc (?L t) \<in> {Lock_1, Lock_2} \<and> ?v Ph_lock = 0" if "t < PH_NUM" for t
  proof (rule ccontr)
    assume "\<not> ?thesis"
    then have "\<forall>x. ppc (?L t) \<noteq> Ph_exit x" "ppc (?L t) = Wait_ph \<longrightarrow> 0 < ?v (Ph t)"
      "ppc (?L t) \<in> {Lock_1, Lock_2} \<longrightarrow> 0 < ?v Ph_lock" by auto
    with ph_acts [of "world c" ?L ?st t] inv no [OF that] that show False by blast
  qed
  then have "ph_cs (?L t) = 0" if "t < PH_NUM" for t using that by (fastforce simp: ph_cs_def)
  then have "?v Ph_lock = 1" using inv by (simp add: ph_inv_def)
  with idle have pcs: "(\<exists>x. ppc (?L t) = Ph_exit x) \<or> ppc (?L t) = Wait_ph \<and> ?v (Ph t) = 0" if "t < PH_NUM" for t
    using that by fastforce
  then have "posting u t (?L t) = 0" "at_table (?L t) = 0" if "t < PH_NUM" for u t
    using that by (fastforce simp: posting_def at_table_def)+
  moreover have "?v (Ph t) + at_table (?L t) + (\<Sum>s<PH_NUM. posting t s (?L s)) = (if ?st t = eating then 1 else 0)"
    "st_ok (?L t) (?st t)" "ph_pc_ok (?L t)" "?st t = hungry \<longrightarrow> served ?L ?st t" if "t < PH_NUM" for t
    using inv that by (simp_all add: ph_inv_def)
  ultimately have n: "?v (Ph t) = (if ?st t = eating then 1 else 0)" "st_ok (?L t) (?st t)" "ph_pc_ok (?L t)"
    "?st t = hungry \<longrightarrow> served ?L ?st t" if "t < PH_NUM" for t
    using that by fastforce+
  have neat: "?st t \<noteq> eating" if "t < PH_NUM" for t
    using n [OF that] pcs [OF that] by (auto simp: st_ok_def)
  have "ppc (?L t) \<noteq> Wait_ph" if "t < PH_NUM" for t
  proof
    assume "ppc (?L t) = Wait_ph"
    with n [OF that] neat [OF that] have "served ?L ?st t" by (auto simp: st_ok_def)
    with neat ring [OF that] pcs show False unfolding served_def using that by fastforce
  qed
  with pcs n(3) show ?thesis by (fastforce simp: ph_pc_ok_def)
qed

lemma ph_start_inv:
  assumes "\<forall>t < PH_NUM. sval w (Ph t) = 0" and "sval w Ph_lock = 1"
  shows "ph_inv (sval w) (loc (ph_start w)) (glob (ph_start w))"
  using assms by (simp add: ph_inv_def ph_start_def ph_counts)

lemma ph_inits_ok:
  assumes "ok I w" and "distinct is" and "Ph ` set is \<inter> I = {}" and "\<forall>i \<in> I. sval w i = 0"
    and "\<forall>i \<in> set is. i < PH_NUM"
  shows "\<exists>w'. ph_inits api is w = Ret (Some w') \<and> ok (Ph ` set is \<union> I) w' \<and> (\<forall>i \<in> Ph ` set is \<union> I. sval w' i = 0)"
  using assms
proof (induction "is" arbitrary: I w)
  case Nil
  then show ?case by simp
next
  case (Cons i "is")
  from Cons.prems have "Ph i \<in> ph_sems" "Ph i \<notin> I" by simp_all
  from init_sets [OF Cons.prems(1) this, of 0] Cons.prems(4) obtain w1 where
    1: "a_init api (Ph i) 1 0 w = Ret (0, w1)" "ok (insert (Ph i) I) w1" "\<forall>j \<in> insert (Ph i) I. sval w1 j = 0"
    by (auto simp: upd_on_def)
  from Cons.IH [OF 1(2) _ _ 1(3)] Cons.prems(2,3,5) obtain w' where
    "ph_inits api is w1 = Ret (Some w')" "ok (Ph ` set is \<union> insert (Ph i) I) w'"
    "\<forall>j \<in> Ph ` set is \<union> insert (Ph i) I. sval w' j = 0" by auto
  with 1(1) show ?case by (intro exI [of _ w']) simp
qed

lemma ph_main_starts:
  assumes "ok {} w"
  shows "\<exists>w'. ph_main api w = Ret (Inr (ph_start w')) \<and> ok ph_sems w'
     \<and> ph_inv (sval w') (loc (ph_start w')) (glob (ph_start w'))"
proof -
  from ph_inits_ok [OF assms, of "[0..<PH_NUM]"] obtain w1 where
    1: "ph_inits api [0..<PH_NUM] w = Ret (Some w1)" "ok (Ph ` {..<PH_NUM}) w1" "\<forall>i \<in> Ph ` {..<PH_NUM}. sval w1 i = 0"
    by (auto simp: atLeast0LessThan)
  have "Ph_lock \<in> ph_sems" "Ph_lock \<notin> Ph ` {..<PH_NUM}" "unat (1 :: 32 word) \<le> maxval" using maxval_posix by auto
  from init_sets [OF 1(2) this] 1(3) obtain w2 where
    2: "a_init api Ph_lock 1 1 w1 = Ret (0, w2)" "ok ph_sems w2" "sval w2 Ph_lock = 1" "\<forall>t < PH_NUM. sval w2 (Ph t) = 0"
    by (auto simp: upd_on_def ph_sems_def)
  with 1(1) ph_start_inv [OF 2(4,3)] show ?thesis
    by (intro exI [of _ w2]) (simp add: ph_main_def)
qed

lemma ph_reachable_inv:
  assumes "reachable_from (ph_step api) c0 c" and "ph_inv (sval (world c0)) (loc c0) (glob c0) \<and> ok ph_sems (world c0)"
  shows "ph_inv (sval (world c)) (loc c) (glob c) \<and> ok ph_sems (world c)"
  using assms by (rule reachable_invariant) (blast dest: ph_step_inv)

end

section \<open>Properties\<close>

text \<open>C9: over any store of counting semaphores, whatever the scheduling, two neighbours are never
  at the table together, and at most one philosopher is between taking and releasing the lock.\<close>

theorem philosophers_exclusion:
  assumes "sem_store api ok sval maxval ph_sems" and "ok {} w" and "ph_main api w = Ret (Inr c0)"
    and "reachable_from (ph_step api) c0 c" and "t < PH_NUM" and "u < PH_NUM" and "t \<noteq> u"
  shows "\<not> (0 < at_table (loc c t) \<and> 0 < at_table (loc c (postID t)))
     \<and> \<not> (0 < ph_cs (loc c t) \<and> 0 < ph_cs (loc c u))"
proof -
  have cl: "ph_client api ok sval maxval" using assms(1) by (simp add: ph_client_def)
  from ph_client.ph_main_starts [OF cl assms(2)] assms(3) have
    "ph_inv (sval (world c0)) (loc c0) (glob c0) \<and> ok ph_sems (world c0)" by (auto simp: ph_start_def)
  from ph_client.ph_reachable_inv [OF cl assms(4) this] have inv: "ph_inv (sval (world c)) (loc c) (glob c)" by blast
  have "glob c s = eating" if "s < PH_NUM" "0 < at_table (loc c s)" for s
    using inv that by (fastforce simp: ph_inv_def split: if_splits)
  moreover have "\<not> (glob c t = eating \<and> glob c (postID t) = eating)" using inv assms(5) by (simp add: ph_inv_def)
  moreover have "(\<Sum>s<PH_NUM. ph_cs (loc c s)) \<le> 1" using inv by (simp add: ph_inv_def)
  ultimately show ?thesis
    using ring [OF assms(5)] assms(5-7) sum_at_most_one [of "\<lambda>s. ph_cs (loc c s)" PH_NUM t u] by blast
qed

lemma ph_plain_main: "\<exists>w'. ph_main plain_api Map.empty = Ret (Inr (ph_start w'))"
  using ph_client.ph_main_starts [of plain_api "\<lambda>I w. I \<subseteq> dom w" "\<lambda>w i. the (w i)" 32767 Map.empty]
    plain.sem_store_axioms by (auto simp: ph_client_def)

theorem philosophers_exclusion_witness:
  "\<exists>c0. ph_main plain_api Map.empty = Ret (Inr c0)
     \<and> \<not> (0 < at_table (loc c0 4) \<and> 0 < at_table (loc c0 0)) \<and> \<not> (0 < ph_cs (loc c0 4) \<and> 0 < ph_cs (loc c0 1))"
proof -
  from ph_plain_main obtain w' where m: "ph_main plain_api Map.empty = Ret (Inr (ph_start w'))" by blast
  have "postID 4 = 0" by (simp add: postID_def PH_NUM_def)
  with philosophers_exclusion [OF plain.sem_store_axioms _ m reach_start, of 4 1] m show ?thesis
    by (auto simp: PH_NUM_def)
qed

text \<open>C10: the philosophers cannot deadlock and no run is infinite: in every state in which no thread
  can act, all five have finished their twenty rounds and ended with 0.\<close>

theorem philosophers_complete:
  assumes "sem_store api ok sval maxval ph_sems" and "ok {} w"
  shows "\<exists>c0. ph_main api w = Ret (Inr c0) \<and> \<not> infinite_run (ph_step api) c0
     \<and> (\<forall>c. reachable_from (ph_step api) c0 c \<and> (\<forall>c'. \<not> ph_step api c c')
          \<longrightarrow> (\<forall>t < PH_NUM. ppc (loc c t) = Ph_exit 0))"
proof -
  have cl: "ph_client api ok sval maxval" using assms(1) by (simp add: ph_client_def)
  let ?I = "\<lambda>c. ph_inv (sval (world c)) (loc c) (glob c) \<and> ok ph_sems (world c)"
  from ph_client.ph_main_starts [OF cl assms(2)] obtain c0 where
    s: "ph_main api w = Ret (Inr c0)" "?I c0" by (auto simp: ph_start_def)
  have "\<not> infinite_run (ph_step api) c0"
    using ph_client.ph_step_inv [OF cl] s(2)
    by (intro no_infinite_run [where I = ?I and m = "\<lambda>c. \<Sum>t<PH_NUM. ph_left (loc c t)"]) blast+
  with s ph_client.ph_reachable_inv [OF cl _ s(2)] ph_client.ph_progress [OF cl] show ?thesis by blast
qed

theorem philosophers_complete_witness:
  "\<exists>c0. ph_main plain_api Map.empty = Ret (Inr c0) \<and> \<not> infinite_run (ph_step plain_api) c0"
  using philosophers_complete [OF plain.sem_store_axioms, of Map.empty] by auto

end
