(* ===== verification/Sem_Readerwriter.thy ===== *)
theory Sem_Readerwriter
  imports Threads
begin

text \<open>
  Readers and writers of \<^verbatim>\<open>functional/semaphores/sem_readerwriter.c\<close>: threads 0 to 14 are the
  writers, in the order of their creation, threads 15 to 24 the readers. \<open>r_lock\<close> guards
  \<^verbatim>\<open>reader_count\<close>, \<open>w_lock\<close> is held by a writer or by the readers together. The sleeps only
  delay; printing is left out.
\<close>

section \<open>The program\<close>

definition READ_NUM :: nat where "READ_NUM = 10"
definition WRITE_NUM :: nat where "WRITE_NUM = 15"
definition RW_NUM :: nat where "RW_NUM = WRITE_NUM + READ_NUM"

datatype rw_sem = R_lock | W_lock

text \<open>Positions of a reader: the two entries of the section guarded by \<open>r_lock\<close>, the change of the
  counter with the test that follows it, the calls on \<open>w_lock\<close> by the first and the last reader,
  and the reading; of a writer: its call, the writing, its release.\<close>

datatype rw_pc =
    R_wait1 | R_inc | R_wait_w | R_post1 | R_read | R_wait2 | R_dec | R_post_w | R_post2
  | W_wait | W_write | W_post | RW_exit int

record rw_glob =
  reader_count :: int
  rw_data :: int

type_synonym 'w rw_conf = "(rw_pc, rw_glob, 'w) conf"

definition read_fun :: "rw_glob \<Rightarrow> int" where
  "read_fun g = rw_data g"

definition write_fun :: "nat \<Rightarrow> rw_glob \<Rightarrow> rw_glob" where
  "write_fun ID g = g\<lparr>rw_data := 100 * int ID + int ID\<rparr>"

definition reader :: "(rw_sem, 'w) sem_api \<Rightarrow> rw_pc \<Rightarrow> rw_glob \<Rightarrow> 'w \<Rightarrow> (rw_pc \<times> rw_glob \<times> 'w) outcome" where
  "reader api pc g w =
     (case pc of
        R_wait1 \<Rightarrow> checked (a_wait api R_lock w) (RW_exit 1) R_inc g
      | R_inc \<Rightarrow> Ret (if reader_count g + 1 = 1 then R_wait_w else R_post1, g\<lparr>reader_count := reader_count g + 1\<rparr>, w)
      | R_wait_w \<Rightarrow> checked (a_wait api W_lock w) (RW_exit 1) R_post1 g
      | R_post1 \<Rightarrow> checked (a_post api R_lock w) (RW_exit 1) R_read g
      | R_read \<Rightarrow> Ret (R_wait2, g, w)
      | R_wait2 \<Rightarrow> checked (a_wait api R_lock w) (RW_exit 1) R_dec g
      | R_dec \<Rightarrow> Ret (if reader_count g - 1 = 0 then R_post_w else R_post2, g\<lparr>reader_count := reader_count g - 1\<rparr>, w)
      | R_post_w \<Rightarrow> checked (a_post api W_lock w) (RW_exit 1) R_post2 g
      | R_post2 \<Rightarrow> checked (a_post api R_lock w) (RW_exit 1) (RW_exit 0) g
      | _ \<Rightarrow> Block)"

definition writer :: "(rw_sem, 'w) sem_api \<Rightarrow> nat \<Rightarrow> rw_pc \<Rightarrow> rw_glob \<Rightarrow> 'w \<Rightarrow> (rw_pc \<times> rw_glob \<times> 'w) outcome" where
  "writer api ThID pc g w =
     (case pc of
        W_wait \<Rightarrow> checked (a_wait api W_lock w) (RW_exit 1) W_write g
      | W_write \<Rightarrow> Ret (W_post, write_fun ThID g, w)
      | W_post \<Rightarrow> checked (a_post api W_lock w) (RW_exit 1) (RW_exit 0) g
      | _ \<Rightarrow> Block)"

definition rw_prog :: "(rw_sem, 'w) sem_api \<Rightarrow> (rw_pc, rw_glob, 'w) prog" where
  "rw_prog api t = (if t < WRITE_NUM then writer api t else reader api)"

abbreviation rw_step :: "(rw_sem, 'w) sem_api \<Rightarrow> 'w rw_conf \<Rightarrow> 'w rw_conf \<Rightarrow> bool" where
  "rw_step api \<equiv> interleave RW_NUM (rw_prog api)"

definition rw_start :: "'w \<Rightarrow> 'w rw_conf" where
  "rw_start w = \<lparr>loc = (\<lambda>t. if t < WRITE_NUM then W_wait else R_wait1),
     glob = \<lparr>reader_count = 0, rw_data = 0\<rparr>, world = w\<rparr>"

definition rw_main :: "(rw_sem, 'w) sem_api \<Rightarrow> 'w \<Rightarrow> (int + 'w rw_conf) outcome" where
  "rw_main api w =
     obind (a_init api R_lock 1 1 w) (\<lambda>(rc, w1).
       if rc = - 1 then Ret (Inl PTS_UNRESOLVED)
       else obind (a_init api W_lock 1 1 w1) (\<lambda>(rc, w2).
         if rc = - 1 then Ret (Inl PTS_UNRESOLVED) else Ret (Inr (rw_start w2))))"

definition rw_main_end :: "(rw_sem, 'w) sem_api \<Rightarrow> 'w \<Rightarrow> int outcome" where
  "rw_main_end api w =
     obind (a_destroy api R_lock w) (\<lambda>(rc, w1).
       if rc = - 1 then Ret PTS_UNRESOLVED
       else obind (a_destroy api W_lock w1) (\<lambda>(rc, _). Ret (if rc = - 1 then PTS_UNRESOLVED else PTS_PASS)))"

section \<open>The invariant\<close>

definition r_cs :: "rw_pc \<Rightarrow> nat" where
  "r_cs pc = (if pc \<in> {R_inc, R_wait_w, R_post1, R_dec, R_post_w, R_post2} then 1 else 0)"

definition w_held :: "rw_pc \<Rightarrow> nat" where
  "w_held pc = (if pc \<in> {W_write, W_post} then 1 else 0)"

text \<open>Counted in \<open>reader_count\<close>; about to take \<open>w_lock\<close>; about to give it back.\<close>

definition inside :: "rw_pc \<Rightarrow> nat" where
  "inside pc = (if pc \<in> {R_wait_w, R_post1, R_read, R_wait2, R_dec} then 1 else 0)"

definition taking :: "rw_pc \<Rightarrow> nat" where
  "taking pc = (if pc = R_wait_w then 1 else 0)"

definition giving :: "rw_pc \<Rightarrow> nat" where
  "giving pc = (if pc = R_post_w then 1 else 0)"

lemmas rw_counts = r_cs_def w_held_def inside_def taking_def giving_def

definition count_of :: "(rw_pc \<Rightarrow> nat) \<Rightarrow> (nat \<Rightarrow> rw_pc) \<Rightarrow> nat" where
  "count_of f L = (\<Sum>t<RW_NUM. f (L t))"

definition rw_ok_pc :: "nat \<Rightarrow> rw_pc \<Rightarrow> bool" where
  "rw_ok_pc t pc \<longleftrightarrow> pc = RW_exit 0 \<or> (if t < WRITE_NUM then pc \<in> {W_wait, W_write, W_post}
     else pc \<in> {R_wait1, R_inc, R_wait_w, R_post1, R_read, R_wait2, R_dec, R_post_w, R_post2})"

definition rw_inv :: "(rw_sem \<Rightarrow> nat) \<Rightarrow> (nat \<Rightarrow> rw_pc) \<Rightarrow> rw_glob \<Rightarrow> bool" where
  "rw_inv v L g \<longleftrightarrow>
     v R_lock + count_of r_cs L = 1
     \<and> v W_lock + count_of w_held L + (if count_of inside L > 0 then 1 else 0) + count_of giving L = 1 + count_of taking L
     \<and> reader_count g = int (count_of inside L)
     \<and> (0 < count_of taking L \<longrightarrow> count_of inside L = 1) \<and> (0 < count_of giving L \<longrightarrow> count_of inside L = 0)
     \<and> (\<forall>t < RW_NUM. rw_ok_pc t (L t))"

lemma count_of_upd: "t < RW_NUM \<Longrightarrow> count_of f (L(t := pc)) + f (L t) = count_of f L + f pc"
  unfolding count_of_def using sum_upd [of t RW_NUM "\<lambda>_. f" L pc] by simp

lemma count_of_ge: "t < RW_NUM \<Longrightarrow> f (L t) \<le> count_of f L"
  unfolding count_of_def by (rule member_le_sum) auto

text \<open>\<open>taking\<close> and \<open>giving\<close> only happen under \<open>r_lock\<close>.\<close>

lemma count_of_mono: "(\<And>pc. f pc \<le> g pc) \<Longrightarrow> count_of f L \<le> count_of g L"
  unfolding count_of_def by (rule sum_mono) auto

lemma count_of_add: "count_of (\<lambda>pc. f pc + g pc) L = count_of f L + count_of g L"
  unfolding count_of_def by (rule sum.distrib)

lemma taking_giving_le: "count_of taking L + count_of giving L \<le> count_of r_cs L"
  unfolding count_of_add [symmetric] by (rule count_of_mono) (auto simp: rw_counts)

lemma taking_le_inside: "count_of taking L \<le> count_of inside L"
  by (rule count_of_mono) (auto simp: rw_counts)

definition others :: "rw_pc \<Rightarrow> nat" where
  "others pc = (if pc \<in> {R_inc, R_post1, R_dec, R_post2} then 1 else 0)"

lemma r_cs_split: "count_of r_cs L = count_of taking L + count_of giving L + count_of others L"
proof -
  have "r_cs = (\<lambda>pc. (taking pc + giving pc) + others pc)" by (auto simp: rw_counts others_def fun_eq_iff)
  then have "count_of r_cs L = count_of (\<lambda>pc. (taking pc + giving pc) + others pc) L" by (rule arg_cong)
  then show ?thesis by (simp only: count_of_add)
qed

text \<open>One thread moves from \<open>L t\<close> to \<open>pc\<close>; the clauses are linear in the counts.\<close>

lemma rw_inv_upd:
  assumes inv: "rw_inv v L g" and t: "t < RW_NUM" and "rw_ok_pc t pc"
    and "v' R_lock + r_cs pc = v R_lock + r_cs (L t)"
    and "reader_count g' + int (inside (L t)) = reader_count g + int (inside pc)"
    and w: "v' W_lock + w_held pc + giving pc + taking (L t) + (if 0 < count_of inside (L(t := pc)) then 1 else 0)
        = v W_lock + w_held (L t) + giving (L t) + taking pc + (if 0 < count_of inside L then 1 else 0)"
    and tk: "0 < count_of taking (L(t := pc)) \<longrightarrow> count_of inside (L(t := pc)) = 1"
    and gv: "0 < count_of giving (L(t := pc)) \<longrightarrow> count_of inside (L(t := pc)) = 0"
  shows "rw_inv v' (L(t := pc)) g'"
proof -
  note u = count_of_upd [OF t, of _ L pc]
  have "rw_ok_pc s ((L(t := pc)) s)" if "s < RW_NUM" for s using inv assms(3) that by (simp add: rw_inv_def)
  moreover have "v' R_lock + count_of r_cs (L(t := pc)) = 1" using u [of r_cs] assms(4) inv by (simp add: rw_inv_def)
  moreover have "reader_count g' = int (count_of inside (L(t := pc)))"
    using u [of inside] assms(5) inv by (simp add: rw_inv_def)
  moreover have "v' W_lock + count_of w_held (L(t := pc)) + (if count_of inside (L(t := pc)) > 0 then 1 else 0)
      + count_of giving (L(t := pc)) = 1 + count_of taking (L(t := pc))"
    using u [of w_held] u [of giving] u [of taking] w inv by (simp add: rw_inv_def)
  ultimately show ?thesis using tk gv by (simp add: rw_inv_def)
qed

text \<open>Positions left on the way to the end of a thread.\<close>

definition rw_left :: "rw_pc \<Rightarrow> nat" where
  "rw_left pc = (case pc of R_wait1 \<Rightarrow> 9 | R_inc \<Rightarrow> 8 | R_wait_w \<Rightarrow> 7 | R_post1 \<Rightarrow> 6 | R_read \<Rightarrow> 5 | R_wait2 \<Rightarrow> 4
     | R_dec \<Rightarrow> 3 | R_post_w \<Rightarrow> 2 | R_post2 \<Rightarrow> 1 | W_wait \<Rightarrow> 3 | W_write \<Rightarrow> 2 | W_post \<Rightarrow> 1 | RW_exit c \<Rightarrow> 0)"

lemma rw_step_left:
  assumes "rw_step api c c'"
  shows "(\<Sum>t<RW_NUM. rw_left (loc c' t)) < (\<Sum>t<RW_NUM. rw_left (loc c t))"
proof -
  from assms obtain t l g w where s: "t < RW_NUM" "rw_prog api t (loc c t) (glob c) (world c) = Ret (l, g, w)"
    "c' = \<lparr>loc = (loc c)(t := l), glob = g, world = w\<rparr>" by (rule interleaveE)
  have "rw_left l < rw_left (loc c t)"
    using s(2) by (cases "loc c t") (auto simp: rw_prog_def reader_def writer_def checked_Ret rw_left_def split: if_splits)
  then show ?thesis using s(3) sum_upd [OF s(1), of "\<lambda>_. rw_left" "loc c" l] by simp
qed

locale rw_client = sem_store api ok sval maxval UNIV
  for api :: "(rw_sem, 'w) sem_api" and ok sval maxval
begin

lemma rw_bound:
  assumes "rw_inv (sval w) L g"
  shows "sval w i < 32767"
proof (cases i)
  case R_lock
  with assms show ?thesis by (simp add: rw_inv_def)
next
  case W_lock
  have "count_of taking L \<le> 1" using assms taking_giving_le [of L] by (simp add: rw_inv_def)
  then show ?thesis using assms W_lock by (simp add: rw_inv_def split: if_splits)
qed

lemma rw_thread_inv:
  assumes inv: "rw_inv (sval w) L g" and ok: "ok UNIV w" and t: "t < RW_NUM"
    and run: "rw_prog api t (L t) g w = Ret (pc, g', w')"
  shows "ok UNIV w' \<and> rw_inv (sval w') (L(t := pc)) g'"
proof -
  note b = rw_bound [OF inv]
  note u = count_of_upd [OF t, of _ L pc] and ge = count_of_ge [OF t, of _ L]
  have i: "sval w R_lock + count_of r_cs L = 1"
    "sval w W_lock + count_of w_held L + (if count_of inside L > 0 then 1 else 0) + count_of giving L = 1 + count_of taking L"
    "reader_count g = int (count_of inside L)" "0 < count_of taking L \<longrightarrow> count_of inside L = 1"
    "0 < count_of giving L \<longrightarrow> count_of inside L = 0" "rw_ok_pc t (L t)"
    using inv t by (simp_all add: rw_inv_def)
  note sp = r_cs_split [of L] and us = u [of inside] u [of taking] u [of giving]
  have step: "ok UNIV w' \<and> rw_ok_pc t pc \<and> sval w' R_lock + r_cs pc = sval w R_lock + r_cs (L t)
     \<and> reader_count g' + int (inside (L t)) = reader_count g + int (inside pc)
     \<and> sval w' W_lock + w_held pc + giving pc + taking (L t) + (if 0 < count_of inside (L(t := pc)) then 1 else 0)
        = sval w W_lock + w_held (L t) + giving (L t) + taking pc + (if 0 < count_of inside L then 1 else 0)
     \<and> (0 < count_of taking (L(t := pc)) \<longrightarrow> count_of inside (L(t := pc)) = 1)
     \<and> (0 < count_of giving (L(t := pc)) \<longrightarrow> count_of inside (L(t := pc)) = 0)"
  proof (cases "L t")
    case R_wait1
    with run i(6) have r: "pc = R_inc" "g' = g" "ok UNIV w'" "0 < sval w R_lock" "sval w' = (sval w)(R_lock := sval w R_lock - 1)"
      "(t < WRITE_NUM) = False"
      by (auto simp: rw_prog_def reader_def writer_def rw_ok_pc_def dest!: checked_wait [OF _ ok] split: if_splits)
    show ?thesis using r R_wait1 i us by (simp add: rw_counts rw_ok_pc_def)
  next
    case R_wait_w
    with run i(6) have r: "pc = R_post1" "g' = g" "ok UNIV w'" "0 < sval w W_lock" "sval w' = (sval w)(W_lock := sval w W_lock - 1)"
      "(t < WRITE_NUM) = False"
      by (auto simp: rw_prog_def reader_def writer_def rw_ok_pc_def dest!: checked_wait [OF _ ok] split: if_splits)
    show ?thesis using r R_wait_w i us sp ge [of taking] by (simp add: rw_counts rw_ok_pc_def)
  next
    case R_post1
    with run i(6) have r: "pc = R_read" "g' = g" "ok UNIV w'" "sval w' = (sval w)(R_lock := sval w R_lock + 1)"
      "(t < WRITE_NUM) = False"
      by (auto simp: rw_prog_def reader_def writer_def rw_ok_pc_def dest!: checked_post [OF _ ok b] split: if_splits)
    show ?thesis using r R_post1 i us by (simp add: rw_counts rw_ok_pc_def)
  next
    case R_wait2
    with run i(6) have r: "pc = R_dec" "g' = g" "ok UNIV w'" "0 < sval w R_lock" "sval w' = (sval w)(R_lock := sval w R_lock - 1)"
      "(t < WRITE_NUM) = False"
      by (auto simp: rw_prog_def reader_def writer_def rw_ok_pc_def dest!: checked_wait [OF _ ok] split: if_splits)
    show ?thesis using r R_wait2 i us by (simp add: rw_counts rw_ok_pc_def)
  next
    case R_post_w
    with run i(6) have r: "pc = R_post2" "g' = g" "ok UNIV w'" "sval w' = (sval w)(W_lock := sval w W_lock + 1)"
      "(t < WRITE_NUM) = False"
      by (auto simp: rw_prog_def reader_def writer_def rw_ok_pc_def dest!: checked_post [OF _ ok b] split: if_splits)
    show ?thesis using r R_post_w i us sp ge [of giving] by (simp add: rw_counts rw_ok_pc_def)
  next
    case R_post2
    with run i(6) have r: "pc = RW_exit 0" "g' = g" "ok UNIV w'" "sval w' = (sval w)(R_lock := sval w R_lock + 1)"
      "(t < WRITE_NUM) = False"
      by (auto simp: rw_prog_def reader_def writer_def rw_ok_pc_def dest!: checked_post [OF _ ok b] split: if_splits)
    show ?thesis using r R_post2 i us by (simp add: rw_counts rw_ok_pc_def)
  next
    case W_wait
    with run i(6) have r: "pc = W_write" "g' = g" "ok UNIV w'" "0 < sval w W_lock" "sval w' = (sval w)(W_lock := sval w W_lock - 1)"
      "(t < WRITE_NUM) = True"
      by (auto simp: rw_prog_def reader_def writer_def rw_ok_pc_def dest!: checked_wait [OF _ ok] split: if_splits)
    show ?thesis using r W_wait i us by (simp add: rw_counts rw_ok_pc_def)
  next
    case W_post
    with run i(6) have r: "pc = RW_exit 0" "g' = g" "ok UNIV w'" "sval w' = (sval w)(W_lock := sval w W_lock + 1)"
      "(t < WRITE_NUM) = True"
      by (auto simp: rw_prog_def reader_def writer_def rw_ok_pc_def dest!: checked_post [OF _ ok b] split: if_splits)
    show ?thesis using r W_post i us by (simp add: rw_counts rw_ok_pc_def)
  next
    case R_read
    with run i(6) have r: "pc = R_wait2" "g' = g" "w' = w" "(t < WRITE_NUM) = False"
      by (auto simp: rw_prog_def reader_def writer_def write_fun_def rw_ok_pc_def split: if_splits)
    show ?thesis using r R_read i us ok by (simp add: rw_counts rw_ok_pc_def)
  next
    case W_write
    with run i(6) have r: "pc = W_post" "reader_count g' = reader_count g" "w' = w" "(t < WRITE_NUM) = True"
      by (auto simp: rw_prog_def reader_def writer_def write_fun_def rw_ok_pc_def split: if_splits)
    show ?thesis using r W_write i us ok by (simp add: rw_counts rw_ok_pc_def)
  next
    case R_inc
    with run i(6) have r: "pc = (if reader_count g + 1 = 1 then R_wait_w else R_post1)"
      "reader_count g' = reader_count g + 1" "w' = w" "(t < WRITE_NUM) = False"
      by (auto simp: rw_prog_def reader_def writer_def write_fun_def rw_ok_pc_def split: if_splits)
    have z: "count_of taking L = 0" "count_of giving L = 0" using R_inc sp(1) ge [of others] i(1) by (simp_all add: others_def)
    show ?thesis
    proof (cases "count_of inside L = 0")
      case True
      then show ?thesis using r R_inc i us ok z by (simp add: rw_counts rw_ok_pc_def)
    next
      case False
      then show ?thesis using r R_inc i us ok z by (simp add: rw_counts rw_ok_pc_def)
    qed
  next
    case R_dec
    with run i(6) have r: "pc = (if reader_count g - 1 = 0 then R_post_w else R_post2)"
      "reader_count g' = reader_count g - 1" "w' = w" "(t < WRITE_NUM) = False"
      by (auto simp: rw_prog_def reader_def writer_def write_fun_def rw_ok_pc_def split: if_splits)
    have z: "count_of taking L = 0" "count_of giving L = 0" "0 < count_of inside L"
      using R_dec sp(1) ge [of others] ge [of inside] i(1) by (simp_all add: others_def inside_def)
    show ?thesis
    proof (cases "count_of inside L = 1")
      case True
      then show ?thesis using r R_dec i us ok z by (simp add: rw_counts rw_ok_pc_def)
    next
      case False
      then show ?thesis using r R_dec i us ok z by (simp add: rw_counts rw_ok_pc_def)
    qed
  next
    case (RW_exit x)
    then show ?thesis using run by (auto simp: rw_prog_def reader_def writer_def split: if_splits)
  qed
  show ?thesis using step by (intro conjI rw_inv_upd [OF inv t]) (elim conjE; assumption)+
qed

lemma rw_step_inv:
  assumes "rw_step api c c'" and "rw_inv (sval (world c)) (loc c) (glob c) \<and> ok UNIV (world c)"
  shows "rw_inv (sval (world c')) (loc c') (glob c') \<and> ok UNIV (world c')"
proof -
  from assms(1) obtain t l g w where s: "t < RW_NUM" "rw_prog api t (loc c t) (glob c) (world c) = Ret (l, g, w)"
    "c' = \<lparr>loc = (loc c)(t := l), glob = g, world = w\<rparr>" by (rule interleaveE)
  with rw_thread_inv [of "world c" "loc c" "glob c" t l g w] assms(2) show ?thesis by simp
qed

lemma rw_reachable_inv:
  assumes "reachable_from (rw_step api) c0 c" and "rw_inv (sval (world c0)) (loc c0) (glob c0) \<and> ok UNIV (world c0)"
  shows "rw_inv (sval (world c)) (loc c) (glob c) \<and> ok UNIV (world c)"
  using assms by (rule reachable_invariant) (rule rw_step_inv)

lemma rw_main_starts:
  assumes "ok {} w"
  shows "\<exists>w'. rw_main api w = Ret (Inr (rw_start w')) \<and> ok UNIV w'
     \<and> rw_inv (sval w') (loc (rw_start w')) (glob (rw_start w'))"
proof -
  have m: "unat (1 :: 32 word) \<le> maxval" using maxval_posix by simp
  from init_sets [OF assms, of R_lock 1] m obtain w1 where
    1: "a_init api R_lock 1 1 w = Ret (0, w1)" "ok {R_lock} w1" "sval w1 R_lock = 1" by (auto simp: upd_on_def)
  from init_sets [OF 1(2), of W_lock 1] m 1(3) obtain w2 where
    2: "a_init api W_lock 1 1 w1 = Ret (0, w2)" "ok {W_lock, R_lock} w2" "sval w2 R_lock = 1" "sval w2 W_lock = 1"
    by (auto simp: upd_on_def)
  have "{W_lock, R_lock} = UNIV" using rw_sem.exhaust by blast
  moreover have c: "count_of f (loc (rw_start w2)) = 0" if "f W_wait = 0" "f R_wait1 = 0" for f
    using that by (simp add: count_of_def rw_start_def)
  moreover have "rw_inv (sval w2) (loc (rw_start w2)) (glob (rw_start w2))"
    using 2(3,4) c by (simp add: rw_inv_def rw_counts) (simp add: rw_start_def rw_ok_pc_def)
  ultimately show ?thesis using 1 2 by (intro exI [of _ w2]) (simp add: rw_main_def)
qed

lemma rw_acts:
  assumes "rw_inv (sval w) L g" and "ok UNIV w" and t: "t < RW_NUM" and "L t \<noteq> RW_exit 0"
    and "L t \<in> {R_wait1, R_wait2} \<longrightarrow> 0 < sval w R_lock" and "L t \<in> {R_wait_w, W_wait} \<longrightarrow> 0 < sval w W_lock"
  shows "\<exists>l g' w'. rw_prog api t (L t) g w = Ret (l, g', w')"
proof -
  note post = checked_post_enabled [OF assms(2) rw_bound [OF assms(1)]] and wait = checked_wait_enabled [OF assms(2)]
  have "rw_ok_pc t (L t)" using assms(1) t by (simp add: rw_inv_def)
  then show ?thesis using assms(4-6)
    by (cases "L t") (auto simp: rw_prog_def reader_def writer_def rw_ok_pc_def intro!: post wait split: if_splits)
qed

lemma rw_progress:
  assumes inv: "rw_inv (sval (world c)) (loc c) (glob c) \<and> ok UNIV (world c)" and stuck: "\<forall>c'. \<not> rw_step api c c'"
  shows "\<forall>t < RW_NUM. loc c t = RW_exit 0"
proof -
  let ?L = "loc c" and ?v = "sval (world c)"
  have idle: "?L t = RW_exit 0 \<or> ?L t \<in> {R_wait1, R_wait2} \<and> ?v R_lock = 0 \<or> ?L t \<in> {R_wait_w, W_wait} \<and> ?v W_lock = 0"
    if "t < RW_NUM" for t
  proof (rule ccontr)
    assume "\<not> ?thesis"
    then have "?L t \<noteq> RW_exit 0" "?L t \<in> {R_wait1, R_wait2} \<longrightarrow> 0 < ?v R_lock" "?L t \<in> {R_wait_w, W_wait} \<longrightarrow> 0 < ?v W_lock"
      by auto
    with rw_acts [of "world c" ?L "glob c" t] inv stuck interleaveI [of t RW_NUM "rw_prog api" c] that show False by blast
  qed
  have z: "w_held (?L t) = 0" "giving (?L t) = 0" "inside (?L t) = taking (?L t) + (if ?L t = R_wait2 then 1 else 0)"
    "r_cs (?L t) = taking (?L t)" if "t < RW_NUM" for t
    using idle [OF that] by (auto simp: rw_counts)
  have h: "count_of w_held ?L = 0" "count_of giving ?L = 0" "count_of r_cs ?L = count_of taking ?L"
    using z by (simp_all add: count_of_def)
  have i: "?v R_lock + count_of r_cs ?L = 1"
    "?v W_lock + count_of w_held ?L + (if count_of inside ?L > 0 then 1 else 0) + count_of giving ?L = 1 + count_of taking ?L"
    "0 < count_of taking ?L \<longrightarrow> count_of inside ?L = 1" using inv by (simp_all add: rw_inv_def)
  have tz: "count_of taking ?L = 0"
  proof (rule ccontr)
    assume "count_of taking ?L \<noteq> 0"
    then have w: "0 < ?v W_lock" using i h by (simp split: if_splits)
    from \<open>count_of taking ?L \<noteq> 0\<close> obtain t where "t < RW_NUM" "0 < taking (?L t)"
      using sum_pos_ex [of "\<lambda>t. taking (?L t)" RW_NUM] by (auto simp: count_of_def)
    with idle [of t] w show False by (auto simp: taking_def split: if_splits)
  qed
  then have r: "?v R_lock = 1" using i h by simp
  have "inside (?L t) = 0" if "t < RW_NUM" for t
    using idle [OF that] r tz count_of_ge [OF that, of taking ?L] by (auto simp: rw_counts)
  then have "?v W_lock = 1" using i(2) h tz by (simp add: count_of_def)
  with idle r show ?thesis by force
qed

end

section \<open>Properties\<close>

text \<open>C11: over any store of counting semaphores no reader reads while a writer writes and no two
  writers write together, and \<open>reader_count\<close> is the number of readers that entered and have not
  left.\<close>

theorem readers_writers_exclusion:
  assumes "sem_store api ok sval maxval UNIV" and "ok {} w" and "rw_main api w = Ret (Inr c0)"
    and "reachable_from (rw_step api) c0 c" and "t < RW_NUM" and "u < RW_NUM" and "t \<noteq> u"
  shows "\<not> (loc c t = W_write \<and> loc c u \<in> {R_read, W_write}) \<and> reader_count (glob c) = int (count_of inside (loc c))"
proof -
  have cl: "rw_client api ok sval maxval" using assms(1) by (simp add: rw_client_def)
  from rw_client.rw_main_starts [OF cl assms(2)] assms(3) have
    "rw_inv (sval (world c0)) (loc c0) (glob c0) \<and> ok UNIV (world c0)" by (auto simp: rw_start_def)
  from rw_client.rw_reachable_inv [OF cl assms(4) this] have inv: "rw_inv (sval (world c)) (loc c) (glob c)" by blast
  let ?L = "loc c"
  have i: "sval (world c) W_lock + count_of w_held ?L + (if count_of inside ?L > 0 then 1 else 0) + count_of giving ?L
      = 1 + count_of taking ?L" "0 < count_of taking ?L \<longrightarrow> count_of inside ?L = 1"
    "count_of taking ?L \<le> 1" "reader_count (glob c) = int (count_of inside ?L)"
    using inv taking_giving_le [of ?L] by (simp_all add: rw_inv_def)
  have "\<not> (?L t = W_write \<and> ?L u = W_write)"
  proof
    assume a: "?L t = W_write \<and> ?L u = W_write"
    have "count_of w_held ?L \<le> 1" using i(1-3) by (cases "count_of taking ?L = 0") auto
    then show False using a sum_at_most_one [of "\<lambda>s. w_held (?L s)" RW_NUM t u] assms(5-7)
      by (simp add: count_of_def w_held_def)
  qed
  moreover have "\<not> (?L t = W_write \<and> ?L u = R_read)"
  proof
    assume a: "?L t = W_write \<and> ?L u = R_read"
    then have "0 < count_of w_held ?L" "0 < count_of inside ?L"
      using count_of_ge [OF assms(5), of w_held ?L] count_of_ge [OF assms(6), of inside ?L] by (auto simp: rw_counts)
    with i(1,2) have tk: "0 < count_of taking ?L" "count_of inside ?L = 1" by (auto split: if_splits)
    from tk(1) obtain s where s: "s < RW_NUM" "0 < taking (?L s)"
      using sum_pos_ex [of "\<lambda>t. taking (?L t)" RW_NUM] by (auto simp: count_of_def)
    with sum_at_most_one [of "\<lambda>s. inside (?L s)" RW_NUM s u] tk(2) a assms(6) show False
      by (auto simp: count_of_def rw_counts split: if_splits)
  qed
  ultimately show ?thesis using i(4) by blast
qed

theorem readers_writers_exclusion_witness:
  "\<exists>c0. rw_main plain_api Map.empty = Ret (Inr c0) \<and> reader_count (glob c0) = int (count_of inside (loc c0))
     \<and> \<not> (loc c0 3 = W_write \<and> loc c0 20 \<in> {R_read, W_write})"
proof -
  from rw_client.rw_main_starts [of plain_api "\<lambda>I w. I \<subseteq> dom w" "\<lambda>w i. the (w i)" 32767 Map.empty]
    plain.sem_store_axioms obtain w' where m: "rw_main plain_api Map.empty = Ret (Inr (rw_start w'))"
    by (auto simp: rw_client_def)
  from readers_writers_exclusion [OF plain.sem_store_axioms _ m reach_start, of 3 20] m show ?thesis
    by (auto simp: RW_NUM_def READ_NUM_def WRITE_NUM_def)
qed

text \<open>C29. Readers and writers cannot deadlock: over any store of semaphores \<^verbatim>\<open>main\<close> starts the threads, no run is infinite and in every reachable state in which no
  thread can act all of them have ended with 0.\<close>

theorem readers_writers_complete:
  assumes "sem_store api ok sval maxval UNIV" and "ok {} w"
  shows "\<exists>c0. rw_main api w = Ret (Inr c0) \<and> \<not> infinite_run (rw_step api) c0
     \<and> (\<forall>c. reachable_from (rw_step api) c0 c \<and> (\<forall>c'. \<not> rw_step api c c')
          \<longrightarrow> (\<forall>t < RW_NUM. loc c t = RW_exit 0))"
proof -
  have cl: "rw_client api ok sval maxval" using assms(1) by (simp add: rw_client_def)
  from rw_client.rw_main_starts [OF cl assms(2)] obtain c0 where
    s: "rw_main api w = Ret (Inr c0)" "rw_inv (sval (world c0)) (loc c0) (glob c0) \<and> ok UNIV (world c0)"
    by (auto simp: rw_start_def)
  have "\<not> infinite_run (rw_step api) c0"
    using rw_step_left [of api]
    by (intro no_infinite_run [where I = "\<lambda>_. True" and m = "\<lambda>c. \<Sum>t<RW_NUM. rw_left (loc c t)"]) auto
  with s rw_client.rw_reachable_inv [OF cl _ s(2)] rw_client.rw_progress [OF cl] show ?thesis by blast
qed

theorem readers_writers_complete_witness:
  "\<exists>c0. rw_main plain_api Map.empty = Ret (Inr c0) \<and> \<not> infinite_run (rw_step plain_api) c0"
  using readers_writers_complete [OF plain.sem_store_axioms, of Map.empty] by auto

end
