(* ===== verification/Sem_Sleepingbarber.thy ===== *)
theory Sem_Sleepingbarber
  imports Threads
begin

text \<open>
  The sleeping barber of \<^verbatim>\<open>functional/semaphores/sem_sleepingbarber.c\<close>: threads 0 to 9 are the
  customers, in the order of their creation, thread 10 is the barber. \<open>lock\<close> guards the variable
  \<^verbatim>\<open>waiting\<close>, \<open>customer\<close> and \<open>barber\<close> let the barber and a customer wait for each other, \<open>print\<close> guards
  the output (the macro \<^verbatim>\<open>my_printf\<close> as defined for GNU C). Each action is one semaphore call, one
  access to \<^verbatim>\<open>waiting\<close> or one call of \<^verbatim>\<open>printf\<close>; the delay of customer 8 only delays it. What is
  printed is the field \<open>said\<close>.
\<close>

section \<open>The program\<close>

definition CHAIR_NUM :: int where "CHAIR_NUM = 5"
definition CUS_NUM :: nat where "CUS_NUM = 10"
definition B_LOOP_NUM :: nat where "B_LOOP_NUM = 30"

datatype bb_sem = B_customer | B_barber | B_lock | B_print

datatype bb_line = Will_sleep | Hair_cut int | Enters nat | Sits nat int | Nice_hair nat | No_chairs nat

text \<open>The three actions of \<^verbatim>\<open>my_printf\<close>; the positions of the barber and of a customer.\<close>

datatype stage = Ask | Talk | Over

datatype bb_pc =
    At_for | At_lock1 | At_look | At_say1 stage | At_unlock1 | At_customer | At_lock2 | At_take | At_say2 stage
  | At_unlock2 | At_barber | At_exit int
  | K_say1 stage | K_lock | K_look | K_customer | K_say2 stage | K_unlock | K_barber | K_say3 stage
  | K_say4 stage | K_unlock4 | K_exit int

record bb_local =
  bpc :: bb_pc
  bi :: nat

record bb_glob =
  waiting :: int
  said :: "bb_line list"

type_synonym 'w bb_conf = "(bb_local, bb_glob, 'w) conf"

text \<open>The results of the calls in \<^verbatim>\<open>my_printf\<close> are not looked at.\<close>

definition called :: "(int \<times> 'w) outcome \<Rightarrow> 'l \<Rightarrow> 'g \<Rightarrow> ('l \<times> 'g \<times> 'w) outcome" where
  "called r l g = obind r (\<lambda>(_, w). Ret (l, g, w))"

definition my_printf ::
  "(bb_sem, 'w) sem_api \<Rightarrow> stage \<Rightarrow> (stage \<Rightarrow> 'l) \<Rightarrow> 'l \<Rightarrow> bb_line \<Rightarrow> bb_glob \<Rightarrow> 'w \<Rightarrow> ('l \<times> bb_glob \<times> 'w) outcome" where
  "my_printf api st here next line g w =
     (case st of
        Ask \<Rightarrow> called (a_wait api B_print w) (here Talk) g
      | Talk \<Rightarrow> Ret (here Over, g\<lparr>said := said g @ [line]\<rparr>, w)
      | Over \<Rightarrow> called (a_post api B_print w) next g)"

definition barbers :: "(bb_sem, 'w) sem_api \<Rightarrow> bb_local \<Rightarrow> bb_glob \<Rightarrow> 'w \<Rightarrow> (bb_local \<times> bb_glob \<times> 'w) outcome" where
  "barbers api l g w =
     (let goto = (\<lambda>pc. l\<lparr>bpc := pc\<rparr>) in
      case bpc l of
        At_for \<Rightarrow> Ret (goto (if bi l < B_LOOP_NUM then At_lock1 else At_exit 0), g, w)
      | At_lock1 \<Rightarrow> checked (a_wait api B_lock w) (goto (At_exit 1)) (goto At_look) g
      | At_look \<Rightarrow> Ret (goto (if waiting g = 0 then At_say1 Ask else At_unlock1), g, w)
      | At_say1 st \<Rightarrow> my_printf api st (\<lambda>st. goto (At_say1 st)) (goto At_unlock1) Will_sleep g w
      | At_unlock1 \<Rightarrow> checked (a_post api B_lock w) (goto (At_exit 1)) (goto At_customer) g
      | At_customer \<Rightarrow> checked (a_wait api B_customer w) (goto (At_exit 1)) (goto At_lock2) g
      | At_lock2 \<Rightarrow> checked (a_wait api B_lock w) (goto (At_exit 1)) (goto At_take) g
      | At_take \<Rightarrow> Ret (goto (At_say2 Ask), g\<lparr>waiting := if waiting g \<ge> 1 then waiting g - 1 else waiting g\<rparr>, w)
      | At_say2 st \<Rightarrow> my_printf api st (\<lambda>st. goto (At_say2 st)) (goto At_unlock2) (Hair_cut (waiting g)) g w
      | At_unlock2 \<Rightarrow> checked (a_post api B_lock w) (goto (At_exit 1)) (goto At_barber) g
      | At_barber \<Rightarrow> checked (a_post api B_barber w) (goto (At_exit 1)) (l\<lparr>bpc := At_for, bi := bi l + 1\<rparr>) g
      | _ \<Rightarrow> Block)"

definition customers :: "(bb_sem, 'w) sem_api \<Rightarrow> nat \<Rightarrow> bb_local \<Rightarrow> bb_glob \<Rightarrow> 'w \<Rightarrow> (bb_local \<times> bb_glob \<times> 'w) outcome" where
  "customers api CusID l g w =
     (let goto = (\<lambda>pc. l\<lparr>bpc := pc\<rparr>) in
      case bpc l of
        K_say1 st \<Rightarrow> my_printf api st (\<lambda>st. goto (K_say1 st)) (goto K_lock) (Enters CusID) g w
      | K_lock \<Rightarrow> checked (a_wait api B_lock w) (goto (K_exit 1)) (goto K_look) g
      | K_look \<Rightarrow> if waiting g < CHAIR_NUM then Ret (goto K_customer, g\<lparr>waiting := waiting g + 1\<rparr>, w)
                 else Ret (goto (K_say4 Ask), g, w)
      | K_customer \<Rightarrow> checked (a_post api B_customer w) (goto (K_exit 1)) (goto (K_say2 Ask)) g
      | K_say2 st \<Rightarrow> my_printf api st (\<lambda>st. goto (K_say2 st)) (goto K_unlock) (Sits CusID (waiting g)) g w
      | K_unlock \<Rightarrow> checked (a_post api B_lock w) (goto (K_exit 1)) (goto K_barber) g
      | K_barber \<Rightarrow> checked (a_wait api B_barber w) (goto (K_exit 1)) (goto (K_say3 Ask)) g
      | K_say3 st \<Rightarrow> my_printf api st (\<lambda>st. goto (K_say3 st)) (goto (K_exit 0)) (Nice_hair CusID) g w
      | K_say4 st \<Rightarrow> my_printf api st (\<lambda>st. goto (K_say4 st)) (goto K_unlock4) (No_chairs CusID) g w
      | K_unlock4 \<Rightarrow> checked (a_post api B_lock w) (goto (K_exit 1)) (goto (K_exit 0)) g
      | _ \<Rightarrow> Block)"

definition bb_prog :: "(bb_sem, 'w) sem_api \<Rightarrow> (bb_local, bb_glob, 'w) prog" where
  "bb_prog api t = (if t < CUS_NUM then customers api t else barbers api)"

abbreviation bb_step :: "(bb_sem, 'w) sem_api \<Rightarrow> 'w bb_conf \<Rightarrow> 'w bb_conf \<Rightarrow> bool" where
  "bb_step api \<equiv> interleave (Suc CUS_NUM) (bb_prog api)"

definition bb_start :: "'w \<Rightarrow> 'w bb_conf" where
  "bb_start w = \<lparr>loc = (\<lambda>t. \<lparr>bpc = if t < CUS_NUM then K_say1 Ask else At_for, bi = 0\<rparr>),
     glob = \<lparr>waiting = 0, said = []\<rparr>, world = w\<rparr>"

text \<open>\<open>main\<close> up to the creation of the threads; it then joins the customers and returns \<^verbatim>\<open>PTS_PASS\<close>.\<close>

definition bb_main :: "(bb_sem, 'w) sem_api \<Rightarrow> 'w \<Rightarrow> (int + 'w bb_conf) outcome" where
  "bb_main api w =
     obind (a_init api B_print 0 1 w) (\<lambda>(rc, w).
       if rc = - 1 then Ret (Inl PTS_UNRESOLVED)
       else obind (a_init api B_customer 0 0 w) (\<lambda>(rc, w).
         if rc = - 1 then Ret (Inl PTS_UNRESOLVED)
         else obind (a_init api B_barber 0 0 w) (\<lambda>(rc, w).
           if rc = - 1 then Ret (Inl PTS_UNRESOLVED)
           else obind (a_init api B_lock 0 1 w) (\<lambda>(rc, w).
             if rc = - 1 then Ret (Inl PTS_UNRESOLVED) else Ret (Inr (bb_start w))))))"

section \<open>The invariant\<close>

definition b_lk :: "bb_local \<Rightarrow> nat" where
  "b_lk l = (case bpc l of At_look \<Rightarrow> 1 | At_say1 _ \<Rightarrow> 1 | At_unlock1 \<Rightarrow> 1 | At_take \<Rightarrow> 1 | At_say2 _ \<Rightarrow> 1 | At_unlock2 \<Rightarrow> 1
     | K_look \<Rightarrow> 1 | K_customer \<Rightarrow> 1 | K_say2 _ \<Rightarrow> 1 | K_unlock \<Rightarrow> 1 | K_say4 _ \<Rightarrow> 1 | K_unlock4 \<Rightarrow> 1 | _ \<Rightarrow> 0)"

definition talks :: "stage \<Rightarrow> nat" where
  "talks st = (if st = Ask then 0 else 1)"

definition b_pr :: "bb_local \<Rightarrow> nat" where
  "b_pr l = (case bpc l of At_say1 st \<Rightarrow> talks st | At_say2 st \<Rightarrow> talks st | K_say1 st \<Rightarrow> talks st | K_say2 st \<Rightarrow> talks st
     | K_say3 st \<Rightarrow> talks st | K_say4 st \<Rightarrow> talks st | _ \<Rightarrow> 0)"

text \<open>The barber was woken by a customer he has not yet led to the chair; he has; a customer has sat
  down but not yet said so; sits in the shop until called; has not yet looked for a chair.\<close>

definition woken :: "bb_local \<Rightarrow> nat" where
  "woken l = (if bpc l \<in> {At_lock2, At_take} then 1 else 0)"
definition cutting :: "bb_local \<Rightarrow> nat" where
  "cutting l = (case bpc l of At_say2 _ \<Rightarrow> 1 | At_unlock2 \<Rightarrow> 1 | At_barber \<Rightarrow> 1 | _ \<Rightarrow> 0)"
definition sitting :: "bb_local \<Rightarrow> nat" where
  "sitting l = (if bpc l = K_customer then 1 else 0)"
definition in_shop :: "bb_local \<Rightarrow> nat" where
  "in_shop l = (case bpc l of K_customer \<Rightarrow> 1 | K_say2 _ \<Rightarrow> 1 | K_unlock \<Rightarrow> 1 | K_barber \<Rightarrow> 1 | _ \<Rightarrow> 0)"
definition fresh :: "bb_local \<Rightarrow> nat" where
  "fresh l = (case bpc l of K_say1 _ \<Rightarrow> 1 | K_lock \<Rightarrow> 1 | K_look \<Rightarrow> 1 | _ \<Rightarrow> 0)"

lemmas bb_counts = b_lk_def b_pr_def woken_def cutting_def sitting_def in_shop_def fresh_def talks_def

definition bb_pc_ok :: "nat \<Rightarrow> bb_local \<Rightarrow> bool" where
  "bb_pc_ok t l \<longleftrightarrow>
     (if t < CUS_NUM
      then bi l = 0 \<and> (case bpc l of K_say1 _ \<Rightarrow> True | K_lock \<Rightarrow> True | K_look \<Rightarrow> True | K_customer \<Rightarrow> True | K_say2 _ \<Rightarrow> True
             | K_unlock \<Rightarrow> True | K_barber \<Rightarrow> True | K_say3 _ \<Rightarrow> True | K_say4 _ \<Rightarrow> True | K_unlock4 \<Rightarrow> True | K_exit c \<Rightarrow> c = 0 | _ \<Rightarrow> False)
      else (case bpc l of At_for \<Rightarrow> bi l \<le> B_LOOP_NUM | At_exit c \<Rightarrow> c = 0 \<and> bi l = B_LOOP_NUM
             | At_lock1 \<Rightarrow> bi l < B_LOOP_NUM | At_look \<Rightarrow> bi l < B_LOOP_NUM | At_say1 _ \<Rightarrow> bi l < B_LOOP_NUM | At_unlock1 \<Rightarrow> bi l < B_LOOP_NUM
             | At_customer \<Rightarrow> bi l < B_LOOP_NUM | At_lock2 \<Rightarrow> bi l < B_LOOP_NUM | At_take \<Rightarrow> bi l < B_LOOP_NUM | At_say2 _ \<Rightarrow> bi l < B_LOOP_NUM
             | At_unlock2 \<Rightarrow> bi l < B_LOOP_NUM | At_barber \<Rightarrow> bi l < B_LOOP_NUM | _ \<Rightarrow> False))"

abbreviation "btot \<equiv> tot (Suc CUS_NUM)"

definition bb_inv :: "(bb_sem \<Rightarrow> nat) \<Rightarrow> (nat \<Rightarrow> bb_local) \<Rightarrow> bb_glob \<Rightarrow> bool" where
  "bb_inv v L g \<longleftrightarrow>
     v B_lock + btot b_lk L = 1 \<and> v B_print + btot b_pr L = 1
     \<and> waiting g = int (v B_customer + btot woken L + btot sitting L)
     \<and> v B_customer + btot woken L + btot sitting L + btot cutting L + v B_barber = btot in_shop L
     \<and> waiting g \<le> CHAIR_NUM
     \<and> waiting g + int (btot bi L + btot cutting L + btot fresh L) \<le> int CUS_NUM
     \<and> (\<forall>t < Suc CUS_NUM. bb_pc_ok t (L t))"

lemma bb_inv_upd:
  assumes inv: "bb_inv v L g" and t: "t < Suc CUS_NUM" and "bb_pc_ok t l"
    and "v' B_lock + b_lk l = v B_lock + b_lk (L t)" and "v' B_print + b_pr l = v B_print + b_pr (L t)"
    and "waiting g' + int (v B_customer + woken (L t) + sitting (L t)) = waiting g + int (v' B_customer + woken l + sitting l)"
    and "v' B_customer + woken l + sitting l + cutting l + v' B_barber + in_shop (L t)
       = v B_customer + woken (L t) + sitting (L t) + cutting (L t) + v B_barber + in_shop l"
    and "waiting g' \<le> CHAIR_NUM"
    and "waiting g' + int (bi l + cutting l + fresh l) \<le> waiting g + int (bi (L t) + cutting (L t) + fresh (L t))"
  shows "bb_inv v' (L(t := l)) g'"
proof -
  note u = tot_upd [OF t, of _ L l]
  have i: "v B_lock + btot b_lk L = 1" "v B_print + btot b_pr L = 1"
    "waiting g = int (v B_customer + btot woken L + btot sitting L)"
    "v B_customer + btot woken L + btot sitting L + btot cutting L + v B_barber = btot in_shop L"
    "waiting g + int (btot bi L + btot cutting L + btot fresh L) \<le> int CUS_NUM"
    "\<forall>t < Suc CUS_NUM. bb_pc_ok t (L t)" using inv by (simp_all add: bb_inv_def)
  have "v' B_lock + btot b_lk (L(t := l)) = 1" "v' B_print + btot b_pr (L(t := l)) = 1"
    using u [of b_lk] u [of b_pr] assms(4,5) i(1,2) by simp_all
  moreover have "waiting g' = int (v' B_customer + btot woken (L(t := l)) + btot sitting (L(t := l)))"
    using u [of woken] u [of sitting] assms(6) i(3) by linarith
  moreover have "v' B_customer + btot woken (L(t := l)) + btot sitting (L(t := l)) + btot cutting (L(t := l)) + v' B_barber
      = btot in_shop (L(t := l))"
    using u [of woken] u [of sitting] u [of cutting] u [of in_shop] assms(7) i(4) by linarith
  moreover have "waiting g' + int (btot bi (L(t := l)) + btot cutting (L(t := l)) + btot fresh (L(t := l))) \<le> int CUS_NUM"
    using u [of bi] u [of cutting] u [of fresh] assms(9) i(5) by linarith
  ultimately show ?thesis using assms(3,8) i(6) by (simp add: bb_inv_def)
qed

text \<open>The actions a thread has left.\<close>

definition st_left :: "stage \<Rightarrow> nat" where
  "st_left st = (case st of Ask \<Rightarrow> 3 | Talk \<Rightarrow> 2 | Over \<Rightarrow> 1)"

definition bb_left :: "bb_local \<Rightarrow> nat" where
  "bb_left l = (B_LOOP_NUM - bi l) * 18 +
     (case bpc l of At_for \<Rightarrow> 17 | At_lock1 \<Rightarrow> 16 | At_look \<Rightarrow> 15 | At_say1 st \<Rightarrow> 11 + st_left st | At_unlock1 \<Rightarrow> 11
      | At_customer \<Rightarrow> 10 | At_lock2 \<Rightarrow> 9 | At_take \<Rightarrow> 8 | At_say2 st \<Rightarrow> 3 + st_left st | At_unlock2 \<Rightarrow> 3 | At_barber \<Rightarrow> 2
      | At_exit c \<Rightarrow> 0
      | K_say1 st \<Rightarrow> 13 + st_left st | K_lock \<Rightarrow> 13 | K_look \<Rightarrow> 12 | K_customer \<Rightarrow> 11 | K_say2 st \<Rightarrow> 6 + st_left st | K_unlock \<Rightarrow> 6
      | K_barber \<Rightarrow> 5 | K_say3 st \<Rightarrow> st_left st | K_say4 st \<Rightarrow> 1 + st_left st | K_unlock4 \<Rightarrow> 1 | K_exit c \<Rightarrow> 0)"

locale bb_client = sem_store api ok sval maxval UNIV
  for api :: "(bb_sem, 'w) sem_api" and ok sval maxval
begin

lemma bb_bound:
  assumes "bb_inv (sval w) L g"
  shows "sval w i < 32767"
proof -
  have "btot in_shop L \<le> (\<Sum>t<Suc CUS_NUM. 1)" unfolding tot_def
    by (rule sum_mono) (simp add: in_shop_def split: bb_pc.split)
  then have "btot in_shop L \<le> 11" by (simp add: CUS_NUM_def)
  then show ?thesis using assms by (cases i) (auto simp: bb_inv_def)
qed

lemma my_printf_acts:
  assumes "my_printf api st here next line g w = Ret (l, g', w')" and "ok UNIV w" and "sval w B_print < 32767"
  shows "ok UNIV w' \<and> waiting g' = waiting g \<and> l = (case st of Ask \<Rightarrow> here Talk | Talk \<Rightarrow> here Over | Over \<Rightarrow> next)
    \<and> (\<forall>i. i \<noteq> B_print \<longrightarrow> sval w' i = sval w i)
    \<and> sval w' B_print + (if st = Ask then 1 else 0) = sval w B_print + (if st = Over then 1 else 0)"
proof (cases st)
  case Ask
  with assms(1) obtain rc where "a_wait api B_print w = Ret (rc, w')" "g' = g" "l = here Talk"
    by (auto simp: my_printf_def called_def obind_Ret_iff)
  with wait_RetD [OF assms(2) this(1)] Ask show ?thesis by simp
next
  case Talk
  with assms show ?thesis by (auto simp: my_printf_def)
next
  case Over
  with assms(1) obtain rc where "a_post api B_print w = Ret (rc, w')" "g' = g" "l = next"
    by (auto simp: my_printf_def called_def obind_Ret_iff)
  with post_RetD [OF assms(2) _ this(1)] assms(3) maxval_posix Over show ?thesis by simp
qed

text \<open>Printing moves nothing but the semaphore \<open>print\<close>.\<close>

lemma say_inv:
  assumes inv: "bb_inv (sval w) L g" and okw: "ok UNIV w" and t: "t < Suc CUS_NUM" and at: "bpc (L t) = c st"
    and run: "my_printf api st (\<lambda>st. (L t)\<lparr>bpc := c st\<rparr>) ((L t)\<lparr>bpc := nx\<rparr>) line g w = Ret (l, g', w')"
    and pr: "\<And>st. b_pr ((L t)\<lparr>bpc := c st\<rparr>) = talks st" "b_pr ((L t)\<lparr>bpc := nx\<rparr>) = 0"
    and same: "\<And>f st. f \<in> {b_lk, woken, sitting, cutting, in_shop, fresh} \<Longrightarrow> f ((L t)\<lparr>bpc := c st\<rparr>) = f ((L t)\<lparr>bpc := nx\<rparr>)"
    and okp: "\<And>st. bb_pc_ok t ((L t)\<lparr>bpc := c st\<rparr>)" "bb_pc_ok t ((L t)\<lparr>bpc := nx\<rparr>)"
  shows "ok UNIV w' \<and> bb_inv (sval w') (L(t := l)) g'"
proof -
  from my_printf_acts [OF run okw bb_bound [OF inv]] have
    r: "ok UNIV w'" "waiting g' = waiting g" "\<forall>i. i \<noteq> B_print \<longrightarrow> sval w' i = sval w i"
    "l = (case st of Ask \<Rightarrow> (L t)\<lparr>bpc := c Talk\<rparr> | Talk \<Rightarrow> (L t)\<lparr>bpc := c Over\<rparr> | Over \<Rightarrow> (L t)\<lparr>bpc := nx\<rparr>)"
    "sval w' B_print + (if st = Ask then 1 else 0) = sval w B_print + (if st = Over then 1 else 0)" by auto
  have Lt: "L t = (L t)\<lparr>bpc := c st\<rparr>" using at by (cases "L t") simp
  have f: "f l = f (L t)" if "f \<in> {b_lk, woken, sitting, cutting, in_shop, fresh}" for f
    using r(4) same [OF that] Lt by (cases st) (metis stage.simps(7-9))+
  have "b_pr (L t) = talks st" by (subst Lt) (rule pr(1))
  then have "sval w' B_print + b_pr l = sval w B_print + b_pr (L t)"
    using r(4,5) pr by (cases st) (simp_all add: talks_def)
  moreover have "bb_pc_ok t l" "bi l = bi (L t)" using r(4) okp by (cases st; simp)+
  moreover have "waiting g \<le> CHAIR_NUM" using inv by (simp add: bb_inv_def)
  moreover have "b_lk l = b_lk (L t)" "woken l = woken (L t)" "sitting l = sitting (L t)" "cutting l = cutting (L t)"
    "in_shop l = in_shop (L t)" "fresh l = fresh (L t)" by (rule f, simp)+
  ultimately show ?thesis using r(1-3) by (intro conjI bb_inv_upd [OF inv t]) simp_all
qed

lemma customers_inv:
  assumes inv: "bb_inv (sval w) L g" and okw: "ok UNIV w" and t: "t < CUS_NUM"
    and run: "customers api t (L t) g w = Ret (l, g', w')"
  shows "ok UNIV w' \<and> bb_inv (sval w') (L(t := l)) g'"
proof -
  have t': "t < Suc CUS_NUM" using t by simp
  note b = bb_bound [OF inv]
  have i: "bb_pc_ok t (L t)" "waiting g \<le> CHAIR_NUM" using inv t' by (simp_all add: bb_inv_def)
  note simps = customers_def bb_counts bb_pc_ok_def Let_def
  show ?thesis
  proof (cases "bpc (L t)")
    case K_lock
    with run have "l = (L t)\<lparr>bpc := K_look\<rparr>" "g' = g" "ok UNIV w'" "0 < sval w B_lock" "sval w' = (sval w)(B_lock := sval w B_lock - 1)"
      by (auto simp: customers_def Let_def dest!: checked_wait [OF _ okw])
    with K_lock i t show ?thesis by (auto intro!: bb_inv_upd [OF inv t'] simp: simps)
  next
    case K_look
    show ?thesis
    proof (cases "waiting g < CHAIR_NUM")
      case True
      with run K_look have "l = (L t)\<lparr>bpc := K_customer\<rparr>" "g' = g\<lparr>waiting := waiting g + 1\<rparr>" "w' = w"
        by (auto simp: customers_def)
      with True K_look i t okw show ?thesis by (auto intro!: bb_inv_upd [OF inv t'] simp: simps)
    next
      case False
      with run K_look have "l = (L t)\<lparr>bpc := K_say4 Ask\<rparr>" "g' = g" "w' = w" by (auto simp: customers_def)
      with False K_look i t okw show ?thesis by (auto intro!: bb_inv_upd [OF inv t'] simp: simps)
    qed
  next
    case K_customer
    with run have "l = (L t)\<lparr>bpc := K_say2 Ask\<rparr>" "g' = g" "ok UNIV w'" "sval w' = (sval w)(B_customer := sval w B_customer + 1)"
      by (auto simp: customers_def Let_def dest!: checked_post [OF _ okw b])
    with K_customer i t show ?thesis by (auto intro!: bb_inv_upd [OF inv t'] simp: simps)
  next
    case K_unlock
    with run have "l = (L t)\<lparr>bpc := K_barber\<rparr>" "g' = g" "ok UNIV w'" "sval w' = (sval w)(B_lock := sval w B_lock + 1)"
      by (auto simp: customers_def Let_def dest!: checked_post [OF _ okw b])
    with K_unlock i t show ?thesis by (auto intro!: bb_inv_upd [OF inv t'] simp: simps)
  next
    case K_barber
    with run have "l = (L t)\<lparr>bpc := K_say3 Ask\<rparr>" "g' = g" "ok UNIV w'" "0 < sval w B_barber" "sval w' = (sval w)(B_barber := sval w B_barber - 1)"
      by (auto simp: customers_def Let_def dest!: checked_wait [OF _ okw])
    with K_barber i t show ?thesis by (auto intro!: bb_inv_upd [OF inv t'] simp: simps)
  next
    case K_unlock4
    with run have "l = (L t)\<lparr>bpc := K_exit 0\<rparr>" "g' = g" "ok UNIV w'" "sval w' = (sval w)(B_lock := sval w B_lock + 1)"
      by (auto simp: customers_def Let_def dest!: checked_post [OF _ okw b])
    with K_unlock4 i t show ?thesis by (auto intro!: bb_inv_upd [OF inv t'] simp: simps)
  next
    case (K_say1 st)
    with run show ?thesis
      by (intro say_inv [where c = K_say1, OF inv okw t' K_say1, where nx = "K_lock"]) (use i t in \<open>auto simp: simps\<close>)
  next
    case (K_say2 st)
    with run show ?thesis
      by (intro say_inv [where c = K_say2, OF inv okw t' K_say2, where nx = "K_unlock"]) (use i t in \<open>auto simp: simps\<close>)
  next
    case (K_say3 st)
    with run show ?thesis
      by (intro say_inv [where c = K_say3, OF inv okw t' K_say3, where nx = "K_exit 0"]) (use i t in \<open>auto simp: simps\<close>)
  next
    case (K_say4 st)
    with run show ?thesis
      by (intro say_inv [where c = K_say4, OF inv okw t' K_say4, where nx = "K_unlock4"]) (use i t in \<open>auto simp: simps\<close>)
  qed (use run i t in \<open>simp_all add: simps\<close>)
qed

lemma barbers_inv:
  assumes inv: "bb_inv (sval w) L g" and okw: "ok UNIV w" and t': "t < Suc CUS_NUM" and t: "\<not> t < CUS_NUM"
    and run: "barbers api (L t) g w = Ret (l, g', w')"
  shows "ok UNIV w' \<and> bb_inv (sval w') (L(t := l)) g'"
proof -
  note b = bb_bound [OF inv]
  have i: "bb_pc_ok t (L t)" "waiting g \<le> CHAIR_NUM" using inv t' by (simp_all add: bb_inv_def)
  note simps = barbers_def bb_counts bb_pc_ok_def Let_def
  show ?thesis
  proof (cases "bpc (L t)")
    case At_for
    with run have "l = (L t)\<lparr>bpc := if bi (L t) < B_LOOP_NUM then At_lock1 else At_exit 0\<rparr>" "g' = g" "w' = w"
      by (auto simp: barbers_def Let_def)
    with At_for i t okw show ?thesis by (auto intro!: bb_inv_upd [OF inv t'] simp: simps)
  next
    case At_lock1
    with run have "l = (L t)\<lparr>bpc := At_look\<rparr>" "g' = g" "ok UNIV w'" "0 < sval w B_lock" "sval w' = (sval w)(B_lock := sval w B_lock - 1)"
      by (auto simp: barbers_def Let_def dest!: checked_wait [OF _ okw])
    with At_lock1 i t show ?thesis by (auto intro!: bb_inv_upd [OF inv t'] simp: simps)
  next
    case At_look
    with run have "l = (L t)\<lparr>bpc := if waiting g = 0 then At_say1 Ask else At_unlock1\<rparr>" "g' = g" "w' = w"
      by (auto simp: barbers_def Let_def)
    with At_look i t okw show ?thesis by (auto intro!: bb_inv_upd [OF inv t'] simp: simps)
  next
    case At_unlock1
    with run have "l = (L t)\<lparr>bpc := At_customer\<rparr>" "g' = g" "ok UNIV w'" "sval w' = (sval w)(B_lock := sval w B_lock + 1)"
      by (auto simp: barbers_def Let_def dest!: checked_post [OF _ okw b])
    with At_unlock1 i t show ?thesis by (auto intro!: bb_inv_upd [OF inv t'] simp: simps)
  next
    case At_customer
    with run have "l = (L t)\<lparr>bpc := At_lock2\<rparr>" "g' = g" "ok UNIV w'" "0 < sval w B_customer" "sval w' = (sval w)(B_customer := sval w B_customer - 1)"
      by (auto simp: barbers_def Let_def dest!: checked_wait [OF _ okw])
    with At_customer i t show ?thesis by (auto intro!: bb_inv_upd [OF inv t'] simp: simps)
  next
    case At_lock2
    with run have "l = (L t)\<lparr>bpc := At_take\<rparr>" "g' = g" "ok UNIV w'" "0 < sval w B_lock" "sval w' = (sval w)(B_lock := sval w B_lock - 1)"
      by (auto simp: barbers_def Let_def dest!: checked_wait [OF _ okw])
    with At_lock2 i t show ?thesis by (auto intro!: bb_inv_upd [OF inv t'] simp: simps)
  next
    case At_take
    have "1 \<le> btot woken L" using tot_ge [OF t', of woken L] At_take by (simp add: woken_def)
    then have pos: "1 \<le> waiting g" using inv by (simp add: bb_inv_def)
    with At_take run have "l = (L t)\<lparr>bpc := At_say2 Ask\<rparr>" "g' = g\<lparr>waiting := waiting g - 1\<rparr>" "w' = w"
      by (auto simp: barbers_def Let_def)
    with At_take pos i t okw show ?thesis by (auto intro!: bb_inv_upd [OF inv t'] simp: simps)
  next
    case At_unlock2
    with run have "l = (L t)\<lparr>bpc := At_barber\<rparr>" "g' = g" "ok UNIV w'" "sval w' = (sval w)(B_lock := sval w B_lock + 1)"
      by (auto simp: barbers_def Let_def dest!: checked_post [OF _ okw b])
    with At_unlock2 i t show ?thesis by (auto intro!: bb_inv_upd [OF inv t'] simp: simps)
  next
    case At_barber
    with run have "l = (L t)\<lparr>bpc := At_for, bi := bi (L t) + 1\<rparr>" "g' = g" "ok UNIV w'" "sval w' = (sval w)(B_barber := sval w B_barber + 1)"
      by (auto simp: barbers_def Let_def dest!: checked_post [OF _ okw b])
    with At_barber i t show ?thesis by (auto intro!: bb_inv_upd [OF inv t'] simp: simps)
  next
    case (At_say1 st)
    with run show ?thesis
      by (intro say_inv [where c = At_say1, OF inv okw t' At_say1, where nx = "At_unlock1"]) (use i t in \<open>auto simp: simps\<close>)
  next
    case (At_say2 st)
    with run show ?thesis
      by (intro say_inv [where c = At_say2, OF inv okw t' At_say2, where nx = "At_unlock2"]) (use i t in \<open>auto simp: simps\<close>)
  qed (use run i t in \<open>simp_all add: simps\<close>)
qed

abbreviation bb_good :: "'w bb_conf \<Rightarrow> bool" where
  "bb_good c \<equiv> bb_inv (sval (world c)) (loc c) (glob c) \<and> ok UNIV (world c)"

lemma bb_step_inv:
  assumes "bb_step api c c'" and "bb_good c"
  shows "bb_good c'"
proof -
  from assms(1) obtain t l g w where s: "t < Suc CUS_NUM" "bb_prog api t (loc c t) (glob c) (world c) = Ret (l, g, w)"
    "c' = \<lparr>loc = (loc c)(t := l), glob = g, world = w\<rparr>" by (rule interleaveE)
  show ?thesis
  proof (cases "t < CUS_NUM")
    case True
    with s assms(2) customers_inv [of "world c" "loc c" "glob c" t l g w] show ?thesis by (simp add: bb_prog_def)
  next
    case False
    with s assms(2) barbers_inv [of "world c" "loc c" "glob c" t l g w] show ?thesis by (simp add: bb_prog_def)
  qed
qed

lemma my_printf_left:
  assumes "my_printf api st here next line g w = Ret (l, g', w')"
  shows "st = Ask \<and> l = here Talk \<or> st = Talk \<and> l = here Over \<or> st = Over \<and> l = next"
  using assms by (cases st) (auto simp: my_printf_def called_def obind_Ret_iff)

lemma bb_prog_left:
  assumes "bb_prog api t l g w = Ret (l', g', w')" and "bb_pc_ok t l"
  shows "bb_left l' < bb_left l"
proof (cases "t < CUS_NUM")
  case True
  then show ?thesis using assms
    by (cases "bpc l") (auto simp: bb_prog_def customers_def bb_pc_ok_def Let_def checked_Ret bb_left_def st_left_def
        dest!: my_printf_left split: if_splits)
next
  case False
  then show ?thesis using assms
    by (cases "bpc l") (auto simp: bb_prog_def barbers_def bb_pc_ok_def Let_def checked_Ret bb_left_def st_left_def
        dest!: my_printf_left split: if_splits)
qed

lemma bb_step_left:
  assumes "bb_step api c c'" and "bb_good c"
  shows "btot bb_left (loc c') < btot bb_left (loc c)"
proof -
  from assms(1) obtain t l g w where s: "t < Suc CUS_NUM" "bb_prog api t (loc c t) (glob c) (world c) = Ret (l, g, w)"
    "c' = \<lparr>loc = (loc c)(t := l), glob = g, world = w\<rparr>" by (rule interleaveE)
  have "bb_pc_ok t (loc c t)" using assms(2) s(1) by (simp add: bb_inv_def)
  from bb_prog_left [OF s(2) this] show ?thesis using s(3) tot_upd [OF s(1), of bb_left "loc c" l] by simp
qed

lemma say_enabled:
  assumes "ok UNIV w" and "sval w B_print < 32767" and "st = Ask \<longrightarrow> 0 < sval w B_print"
  shows "\<exists>l g' w'. my_printf api st here next line g w = Ret (l, g', w')"
proof (cases st)
  case Ask
  with wait_enabled [OF assms(1), of B_print] assms(3) show ?thesis by (fastforce simp: my_printf_def called_def)
next
  case Over
  have "sval w B_print < maxval" using assms(2) maxval_posix by simp
  from post_enabled [OF assms(1) this] Over show ?thesis by (fastforce simp: my_printf_def called_def)
qed (simp add: my_printf_def)

text \<open>What a thread that cannot act is waiting for.\<close>

definition blocked_on :: "bb_pc \<Rightarrow> bb_sem set" where
  "blocked_on pc = (case pc of At_lock1 \<Rightarrow> {B_lock} | At_lock2 \<Rightarrow> {B_lock} | K_lock \<Rightarrow> {B_lock} | At_customer \<Rightarrow> {B_customer}
     | K_barber \<Rightarrow> {B_barber} | At_say1 st \<Rightarrow> if st = Ask then {B_print} else {} | At_say2 st \<Rightarrow> if st = Ask then {B_print} else {}
     | K_say1 st \<Rightarrow> if st = Ask then {B_print} else {} | K_say2 st \<Rightarrow> if st = Ask then {B_print} else {}
     | K_say3 st \<Rightarrow> if st = Ask then {B_print} else {} | K_say4 st \<Rightarrow> if st = Ask then {B_print} else {} | _ \<Rightarrow> {})"

lemma bb_can_act:
  assumes good: "bb_good c" and t: "t < Suc CUS_NUM" and "bpc (loc c t) \<notin> {At_exit 0, K_exit 0}"
    and "\<forall>i \<in> blocked_on (bpc (loc c t)). 0 < sval (world c) i"
  shows "\<exists>c'. bb_step api c c'"
proof -
  have okw: "ok UNIV (world c)" and inv: "bb_inv (sval (world c)) (loc c) (glob c)" using good by auto
  note b = bb_bound [OF inv]
  have ok: "bb_pc_ok t (loc c t)" using inv t by (simp add: bb_inv_def)
  note en = checked_wait_enabled [OF okw] checked_post_enabled [OF okw b] say_enabled [OF okw b]
  have "\<exists>l g w. bb_prog api t (loc c t) (glob c) (world c) = Ret (l, g, w)"
  proof (cases "t < CUS_NUM")
    case True
    then show ?thesis using assms(3,4) ok
      by (cases "bpc (loc c t)") (auto simp: bb_prog_def customers_def bb_pc_ok_def blocked_on_def Let_def intro!: en)
  next
    case False
    then show ?thesis using assms(3,4) ok
      by (cases "bpc (loc c t)") (auto simp: bb_prog_def barbers_def bb_pc_ok_def blocked_on_def Let_def intro!: en)
  qed
  with interleaveI [OF t, of "bb_prog api" c] show ?thesis by blast
qed

lemma bb_waits:
  assumes good: "bb_good c" and stuck: "\<forall>c'. \<not> bb_step api c c'" and t: "t < Suc CUS_NUM"
  shows "if t < CUS_NUM then bpc (loc c t) = K_exit 0 \<or> bpc (loc c t) = K_barber \<and> sval (world c) B_barber = 0
    else bpc (loc c t) = At_exit 0 \<or> bpc (loc c t) = At_customer \<and> sval (world c) B_customer = 0"
proof -
  let ?v = "sval (world c)" and ?L = "loc c"
  have inv: "bb_inv ?v ?L (glob c)" using good by simp
  have can: "bpc (?L t) \<in> {At_exit 0, K_exit 0} \<or> (\<exists>i \<in> blocked_on (bpc (?L t)). ?v i = 0)" if "t < Suc CUS_NUM" for t
    using bb_can_act [OF good that] stuck by (metis gr0I)
  have pr: "?v B_print \<noteq> 0"
  proof
    assume "?v B_print = 0"
    then have "0 < btot b_pr ?L" using inv by (simp add: bb_inv_def)
    then obtain s where s: "s < Suc CUS_NUM" "0 < b_pr (?L s)" unfolding tot_def using sum_pos_ex by blast
    then show False using can [OF s(1)]
      by (cases "bpc (?L s)") (auto simp: b_pr_def talks_def blocked_on_def split: if_splits)
  qed
  have "?v B_lock \<noteq> 0"
  proof
    assume "?v B_lock = 0"
    then have "0 < btot b_lk ?L" using inv by (simp add: bb_inv_def)
    then obtain s where s: "s < Suc CUS_NUM" "0 < b_lk (?L s)" unfolding tot_def using sum_pos_ex by blast
    then show False using can [OF s(1)] pr
      by (cases "bpc (?L s)") (auto simp: b_lk_def blocked_on_def split: if_splits)
  qed
  moreover have "bb_pc_ok t (?L t)" using inv t by (simp add: bb_inv_def)
  ultimately show ?thesis using can [OF t] pr
    by (cases "bpc (?L t)") (auto simp: bb_pc_ok_def blocked_on_def split: if_splits)
qed

lemma bb_end:
  assumes good: "bb_good c" and stuck: "\<forall>c'. \<not> bb_step api c c'"
  shows "(\<forall>t < CUS_NUM. bpc (loc c t) = K_exit 0) \<and> bpc (loc c CUS_NUM) = At_customer \<and> waiting (glob c) = 0"
proof -
  let ?v = "sval (world c)" and ?L = "loc c"
  have inv: "bb_inv ?v ?L (glob c)" using good by simp
  note pos = bb_waits [OF good stuck]
  have w: "bpc (?L t) \<in> {K_exit 0, K_barber, At_exit 0, At_customer}" if "t < Suc CUS_NUM" for t
    using pos [OF that] by (auto split: if_splits)
  have z: "btot woken ?L = 0" "btot sitting ?L = 0" "btot cutting ?L = 0"
    by (rule tot_zero, use w in \<open>fastforce simp: bb_counts\<close>)+
  have "bi (?L CUS_NUM) \<le> btot bi ?L" using tot_ge [of CUS_NUM "Suc CUS_NUM" bi ?L] by simp
  then have "bi (?L CUS_NUM) < B_LOOP_NUM"
    using inv by (simp add: bb_inv_def CUS_NUM_def B_LOOP_NUM_def)
  moreover have "bb_pc_ok CUS_NUM (?L CUS_NUM)" using inv by (simp add: bb_inv_def)
  ultimately have b: "bpc (?L CUS_NUM) = At_customer" "?v B_customer = 0"
    using pos [of CUS_NUM] by (auto simp: bb_pc_ok_def)
  have "bpc (?L t) = K_exit 0" if t: "t < CUS_NUM" for t
  proof (rule ccontr)
    assume "bpc (?L t) \<noteq> K_exit 0"
    with pos [of t] t have "bpc (?L t) = K_barber" "?v B_barber = 0" by auto
    moreover have "in_shop (?L t) \<le> btot in_shop ?L" using tot_ge [of t "Suc CUS_NUM" in_shop ?L] t by simp
    ultimately show False using inv z b(2) by (simp add: bb_inv_def in_shop_def)
  qed
  then show ?thesis using b inv z by (simp add: bb_inv_def)
qed

lemma bb_start_inv:
  assumes "sval w B_print = 1" "sval w B_customer = 0" "sval w B_barber = 0" "sval w B_lock = 1"
  shows "bb_inv (sval (world (bb_start w))) (loc (bb_start w)) (glob (bb_start w))"
proof -
  let ?L = "\<lambda>t. \<lparr>bpc = if t < CUS_NUM then K_say1 Ask else At_for, bi = 0\<rparr>"
  have "btot f ?L = 0" if "f \<in> {b_lk, b_pr, woken, sitting, cutting, in_shop, bi}" for f
    using that by (intro tot_zero) (auto simp: bb_counts)
  moreover have "btot fresh ?L = CUS_NUM" by (simp add: tot_def fresh_def)
  ultimately show ?thesis using assms by (simp add: bb_inv_def bb_start_def bb_pc_ok_def CHAIR_NUM_def)
qed

end

text \<open>The contract of \<^verbatim>\<open>sem_init\<close> with \<^verbatim>\<open>pshared\<close> 0, which this program uses.\<close>

definition private_init :: "('i, 'w) sem_api \<Rightarrow> ('i set \<Rightarrow> 'w \<Rightarrow> bool) \<Rightarrow> ('w \<Rightarrow> 'i \<Rightarrow> nat) \<Rightarrow> nat \<Rightarrow> bool" where
  "private_init api ok sval maxval \<longleftrightarrow> (\<forall>I w i v. ok I w \<longrightarrow> i \<notin> I \<longrightarrow> unat v \<le> maxval \<longrightarrow>
     (\<exists>w'. a_init api i 0 v w = Ret (0, w') \<and> ok (insert i I) w' \<and> upd_on (insert i I) (sval w) (sval w') i (unat v)))"

lemma private_initD:
  assumes "private_init api ok sval maxval" and "ok I w" and "i \<notin> I" and "unat v \<le> maxval"
  obtains w' where "a_init api i 0 v w = Ret (0, w')" and "ok (insert i I) w'" and "sval w' i = unat v"
    and "\<And>j. j \<in> I \<Longrightarrow> sval w' j = sval w j"
proof -
  from assms obtain w' where "a_init api i 0 v w = Ret (0, w')" "ok (insert i I) w'"
    "upd_on (insert i I) (sval w) (sval w') i (unat v)" unfolding private_init_def by blast
  moreover from this(3) have "sval w' i = unat v" "\<And>j. j \<in> I \<Longrightarrow> sval w' j = sval w j"
    using assms(3) by (auto simp: upd_on_def)
  ultimately show thesis using that by blast
qed

lemma bb_main_starts:
  assumes cl: "bb_client api ok sval maxval" and priv: "private_init api ok sval maxval" and "ok {} w"
  shows "\<exists>w'. bb_main api w = Ret (Inr (bb_start w')) \<and> bb_inv (sval w') (loc (bb_start w')) (glob (bb_start w')) \<and> ok UNIV w'"
proof -
  have m: "1 \<le> maxval" using sem_store.maxval_posix [of api ok sval maxval UNIV] cl by (simp add: bb_client_def)
  obtain w1 where 1: "a_init api B_print 0 1 w = Ret (0, w1)" "ok {B_print} w1" "sval w1 B_print = 1"
    by (rule private_initD [OF priv assms(3), of B_print 1]) (use m in auto)
  obtain w2 where 2: "a_init api B_customer 0 0 w1 = Ret (0, w2)" "ok {B_customer, B_print} w2" "sval w2 B_print = 1"
    "sval w2 B_customer = 0" by (rule private_initD [OF priv 1(2), of B_customer 0]) (use 1(3) in auto)
  obtain w3 where 3: "a_init api B_barber 0 0 w2 = Ret (0, w3)" "ok {B_barber, B_customer, B_print} w3" "sval w3 B_print = 1"
    "sval w3 B_customer = 0" "sval w3 B_barber = 0" by (rule private_initD [OF priv 2(2), of B_barber 0]) (use 2(3,4) in auto)
  obtain w4 where 4: "a_init api B_lock 0 1 w3 = Ret (0, w4)" "ok {B_lock, B_barber, B_customer, B_print} w4" "sval w4 B_print = 1"
    "sval w4 B_customer = 0" "sval w4 B_barber = 0" "sval w4 B_lock = 1"
    by (rule private_initD [OF priv 3(2), of B_lock 1]) (use 3(3-5) m in auto)
  have "{B_lock, B_barber, B_customer, B_print} = UNIV" using bb_sem.exhaust by blast
  with 4(2) have "ok UNIV w4" by simp
  moreover have "bb_main api w = Ret (Inr (bb_start w4))" using 1(1) 2(1) 3(1) 4(1) by (simp add: bb_main_def)
  ultimately show ?thesis using bb_client.bb_start_inv [OF cl 4(3-6)] by (auto simp: bb_start_def)
qed

section \<open>Properties\<close>

text \<open>C13 The sleeping barber: over any store of semaphores whose private initialisation works, in every
  reachable state between 0 and five customers are waiting, at most one thread is in the section
  guarded by the lock and at most one prints; no run is infinite, and when no thread can act all ten
  customers have left, nobody waits, and the barber sleeps.\<close>

theorem sleeping_barber:
  assumes store: "sem_store api ok sval maxval UNIV" and priv: "private_init api ok sval maxval" and "ok {} w"
  shows "\<exists>c0. bb_main api w = Ret (Inr c0) \<and> \<not> infinite_run (bb_step api) c0
     \<and> (\<forall>c. reachable_from (bb_step api) c0 c \<longrightarrow>
          0 \<le> waiting (glob c) \<and> waiting (glob c) \<le> CHAIR_NUM
          \<and> (\<forall>s < Suc CUS_NUM. \<forall>t < Suc CUS_NUM. 0 < b_lk (loc c s) \<and> 0 < b_lk (loc c t) \<longrightarrow> s = t)
          \<and> (\<forall>s < Suc CUS_NUM. \<forall>t < Suc CUS_NUM. 0 < b_pr (loc c s) \<and> 0 < b_pr (loc c t) \<longrightarrow> s = t)
          \<and> ((\<forall>c'. \<not> bb_step api c c') \<longrightarrow>
               (\<forall>t < CUS_NUM. bpc (loc c t) = K_exit 0) \<and> bpc (loc c CUS_NUM) = At_customer \<and> waiting (glob c) = 0))"
proof -
  have cl: "bb_client api ok sval maxval" using store by (simp add: bb_client_def)
  let ?good = "\<lambda>c. bb_inv (sval (world c)) (loc c) (glob c) \<and> ok UNIV (world c)"
  from bb_main_starts [OF cl priv assms(3)] obtain c0 where c0: "bb_main api w = Ret (Inr c0)" "?good c0"
    by (auto simp: bb_start_def)
  have "\<not> infinite_run (bb_step api) c0"
    by (rule no_infinite_run [where I = ?good and m = "\<lambda>c. btot bb_left (loc c)"])
       (use c0(2) bb_client.bb_step_inv [OF cl] bb_client.bb_step_left [OF cl] in blast)+
  moreover have good: "?good c" if "reachable_from (bb_step api) c0 c" for c
    using that c0(2) by (rule reachable_invariant) (rule bb_client.bb_step_inv [OF cl])
  have "0 \<le> waiting (glob c) \<and> waiting (glob c) \<le> CHAIR_NUM \<and> btot b_lk (loc c) \<le> 1 \<and> btot b_pr (loc c) \<le> 1"
    if "reachable_from (bb_step api) c0 c" for c using good [OF that] by (auto simp: bb_inv_def)
  moreover have "s = t" if "btot f L \<le> 1" "s < Suc CUS_NUM" "t < Suc CUS_NUM" "0 < f (L s)" "0 < f (L t)" for f L s t
    using sum_at_most_one [of "\<lambda>t. f (L t)" "Suc CUS_NUM" s t] that by (simp add: tot_def)
  ultimately show ?thesis using c0(1) bb_client.bb_end [OF cl good] by (intro exI [of _ c0]) blast
qed

lemma plain_private: "private_init plain_api (\<lambda>I w. I \<subseteq> dom w) (\<lambda>w i. the (w i)) 32767"
  by (auto simp: private_init_def plain_api_def upd_on_def)

theorem sleeping_barber_witness:
  "\<exists>c0. bb_main plain_api Map.empty = Ret (Inr c0) \<and> \<not> infinite_run (bb_step plain_api) c0"
  using sleeping_barber [OF plain.sem_store_axioms plain_private, of Map.empty] by auto

end
