(* ===== verification/T0_Runner.thy ===== *)
theory T0_Runner
  imports Posix_Prelude
begin

text \<open>
  The test launcher \<^verbatim>\<open>t0.c\<close>: it arms an alarm and replaces itself by the test program, so that
  a test that hangs is killed by \<^verbatim>\<open>SIGALRM\<close>. \<^verbatim>\<open>execvp\<close> and the disposition of \<^verbatim>\<open>SIGALRM\<close>, which
  the launcher inherits, are parameters; an end of the process is a value of \<open>t0_end\<close>. What the
  launcher prints is left out.
\<close>

section \<open>The conversion atoi\<close>

text \<open>White space, an optional sign, and the digits up to the first other character; a number
  outside the range of \<^verbatim>\<open>int\<close> is undefined behaviour.\<close>

definition is_space :: "char \<Rightarrow> bool" where
  "is_space c \<longleftrightarrow> of_char c \<in> {32, 9, 10, 11, 12, 13 :: nat}"

definition is_digit :: "char \<Rightarrow> bool" where
  "is_digit c \<longleftrightarrow> 48 \<le> (of_char c :: nat) \<and> (of_char c :: nat) \<le> 57"

definition digit_val :: "char \<Rightarrow> int" where
  "digit_val c = int (of_char c) - 48"

definition decimal :: "string \<Rightarrow> int" where
  "decimal ds = foldl (\<lambda>n c. 10 * n + digit_val c) 0 ds"

definition atoi :: "string \<Rightarrow> int outcome" where
  "atoi s =
     (let t = dropWhile is_space s;
          neg = (t \<noteq> [] \<and> hd t = CHR ''-'');
          u = (if t \<noteq> [] \<and> hd t \<in> {CHR ''-'', CHR ''+''} then tl t else t);
          n = decimal (takeWhile is_digit u);
          v = (if neg then - n else n)
      in if - 2147483648 \<le> v \<and> v < 2147483648 then Ret v else Fault)"

section \<open>The launcher\<close>

datatype t0_end =
    Exit int
  | Killed int
  | Exec int string "string list"

record t0_os =
  execvp :: "string \<Rightarrow> string list \<Rightarrow> bool"
  alarm_kills :: bool

definition SIGALRM_NO :: int where "SIGALRM_NO = 14"

text \<open>\<open>Exec n file args\<close>: the process image was replaced with an alarm pending in \<open>n\<close> seconds.
  \<^verbatim>\<open>execvp\<close> returns only when it fails, and then with -1.\<close>

definition t0_main :: "t0_os \<Rightarrow> string list \<Rightarrow> t0_end outcome" where
  "t0_main os argv =
     (if length argv = 2 \<and> argv ! 1 = ''0''
      then Ret (if alarm_kills os then Killed SIGALRM_NO else Exit 2)
      else if length argv < 3 then Ret (Exit 2)
      else obind (atoi (argv ! 1)) (\<lambda>timeout.
        if timeout < 1 then Ret (Exit 2)
        else if execvp os (argv ! 2) (drop 2 argv) then Ret (Exec timeout (argv ! 2) (drop 2 argv))
        else Ret (Exit 2)))"

section \<open>Lemmas\<close>

lemma digit_char:
  assumes "d < 10"
  shows "is_digit (char_of (48 + d))" and "digit_val (char_of (48 + d)) = int d"
  using assms by (auto simp: is_digit_def digit_val_def)

lemma decimal_snoc: "decimal (ds @ [c]) = 10 * decimal ds + digit_val c"
  by (simp add: decimal_def)

lemma digits_are_digits: "\<forall>c \<in> set (digits n). is_digit c"
proof (induction n rule: digits_induct)
  case (small n)
  then show ?case by (simp add: digits.simps [of n] digit_char)
next
  case (large n)
  then show ?case by (simp add: digits.simps [of n] digit_char)
qed

lemma decimal_digits: "decimal (digits n) = int n"
proof (induction n rule: digits_induct)
  case (small n)
  then show ?case by (simp add: digits.simps [of n] decimal_def digit_char)
next
  case (large n)
  then show ?case
    by (simp add: digits.simps [of n] decimal_snoc digit_char zdiv_int zmod_int)
qed

lemma digit_not_sign: "is_digit c \<Longrightarrow> \<not> is_space c \<and> c \<noteq> CHR ''-'' \<and> c \<noteq> CHR ''+''"
  by (auto simp: is_digit_def is_space_def)

lemma takeWhile_digits: "takeWhile is_digit (digits n @ s) = digits n @ takeWhile is_digit s"
  using digits_are_digits [of n] by simp

lemma digits_nonempty: "digits n \<noteq> []"
  by (subst digits.simps) simp

lemma atoi_digits:
  assumes "n < 2147483648" and "s = [] \<or> \<not> is_digit (hd s)"
  shows "atoi (digits n @ s) = Ret (int n)"
proof -
  obtain c ds where d: "digits n = c # ds" using digits_nonempty by (cases "digits n") auto
  then have c: "\<not> is_space c" "c \<noteq> CHR ''-''" "c \<noteq> CHR ''+''"
    using digits_are_digits [of n] digit_not_sign [of c] by auto
  have "takeWhile is_digit s = []" using assms(2) by (cases s) auto
  then have "decimal (takeWhile is_digit (digits n @ s)) = int n"
    by (simp add: takeWhile_digits decimal_digits)
  with d c assms(1) show ?thesis by (simp add: atoi_def Let_def)
qed

section \<open>Properties\<close>

text \<open>The launcher never starts a test without a time limit, and passes it its arguments
  unchanged: when the image is replaced, the limit is at least one second and is what the first
  argument says. Given a limit in decimal, it starts the program exactly when \<^verbatim>\<open>execvp\<close> succeeds,
  and otherwise ends with 2.\<close>

theorem t0_limits_test:
  assumes "0 < n" and "n < 2147483648"
  shows "t0_main os (self # digits n # prog # args)
       = Ret (if execvp os prog (prog # args) then Exec (int n) prog (prog # args) else Exit 2)
     \<and> (\<forall>argv k f as. t0_main os argv = Ret (Exec k f as) \<longrightarrow>
          1 \<le> k \<and> atoi (argv ! 1) = Ret k \<and> 2 < length argv \<and> as = drop 2 argv \<and> f = hd as \<and> execvp os f as)"
proof
  show "t0_main os (self # digits n # prog # args)
       = Ret (if execvp os prog (prog # args) then Exec (int n) prog (prog # args) else Exit 2)"
    using atoi_digits [OF assms(2), of "[]"] assms(1) by (simp add: t0_main_def)
  show "\<forall>argv k f as. t0_main os argv = Ret (Exec k f as) \<longrightarrow>
          1 \<le> k \<and> atoi (argv ! 1) = Ret k \<and> 2 < length argv \<and> as = drop 2 argv \<and> f = hd as \<and> execvp os f as"
    by (auto simp: t0_main_def obind_Ret_iff hd_drop_conv_nth split: if_splits)
qed

theorem t0_limits_test_witness:
  "t0_main \<lparr>execvp = \<lambda>f as. f = ''sem_wait'', alarm_kills = True\<rparr> [''t0'', ''240'', ''sem_wait'', ''-v'']
     = Ret (Exec 240 ''sem_wait'' [''sem_wait'', ''-v''])"
proof -
  have "digits 240 = ''240''" by code_simp
  with t0_limits_test [of 240 "\<lparr>execvp = \<lambda>f as. f = ''sem_wait'', alarm_kills = True\<rparr>" "''t0''" "''sem_wait''" "[''-v'']"]
  show ?thesis by simp
qed

end
