(* ===== verification/Multi_Con_Pro.thy ===== *)
theory Multi_Con_Pro
  imports Threads T0_Runner
begin

text \<open>
  The stress program \<^verbatim>\<open>stress/semaphores/multi_con_pro.c\<close>: \<open>num\<close> consumers (threads 0 to \<open>num - 1\<close>, in
  the order of their creation) and \<open>num\<close> producers (threads \<open>num\<close> to \<open>2 num - 1\<close>) share a ring buffer of
  five cells. A producer adds four values and then -1, a consumer takes values until it takes a -1.
  Each action is one semaphore call or one access to the shared variables; what the threads print is
  the field \<open>mprinted\<close>. A thread that \<^verbatim>\<open>main\<close> has not created yet is one that has not acted yet.
\<close>

section \<open>The program\<close>

definition M_BUF_SIZE :: nat where "M_BUF_SIZE = 5"
definition M_Max_Num :: nat where "M_Max_Num = 5"
definition Max_Threads :: nat where "Max_Threads = 127"

datatype mp_sem = M_full | M_empty | M_lock

datatype mp_event = MAdded nat int nat | MTaken nat int nat | MValue int

text \<open>Positions of a consumer and of a producer. The part of \<open>producer\<close> after its loop repeats the
  body of the loop with the value -1; it is the round in which the counter is \<^verbatim>\<open>Max_Num - 1\<close>.\<close>

datatype mp_pc =
    C_empty | C_lock | C_buffer | C_index | C_unlock | C_full | C_value | C_exit int
  | P_for | P_full | P_value | P_lock | P_buffer | P_index | P_unlock | P_empty | P_exit int

record mp_local =
  mpc :: mp_pc
  mi :: nat
  mdata :: int

record mp_glob =
  mbuffer :: "int list"
  m_in :: nat
  m_out :: nat
  mprinted :: "mp_event list"

type_synonym 'w mp_conf = "(mp_local, mp_glob, 'w) conf"

text \<open>\<^verbatim>\<open>sem_getvalue\<close> with the test of its result and the \<^verbatim>\<open>printf\<close> after it.\<close>

definition show_value ::
  "(int \<times> int option \<times> 'w) outcome \<Rightarrow> 'l \<Rightarrow> 'l \<Rightarrow> mp_glob \<Rightarrow> ('l \<times> mp_glob \<times> 'w) outcome" where
  "show_value r bad good g = obind r (\<lambda>(rc, v, w).
     if rc = - 1 then Ret (bad, g, w)
     else case v of None \<Rightarrow> Fault | Some n \<Rightarrow> Ret (good, g\<lparr>mprinted := mprinted g @ [MValue n]\<rparr>, w))"

definition mp_producer :: "(mp_sem, 'w) sem_api \<Rightarrow> nat \<Rightarrow> mp_local \<Rightarrow> mp_glob \<Rightarrow> 'w \<Rightarrow> (mp_local \<times> mp_glob \<times> 'w) outcome" where
  "mp_producer api ThreadID l g w =
     (case mpc l of
        P_for \<Rightarrow> Ret (l\<lparr>mpc := P_full\<rparr>, g, w)
      | P_full \<Rightarrow> checked (a_wait api M_full w) (l\<lparr>mpc := P_exit 1\<rparr>) (l\<lparr>mpc := P_value\<rparr>) g
      | P_value \<Rightarrow> show_value (a_getvalue api M_full w) (l\<lparr>mpc := P_exit 1\<rparr>) (l\<lparr>mpc := P_lock\<rparr>) g
      | P_lock \<Rightarrow> checked (a_wait api M_lock w) (l\<lparr>mpc := P_exit 1\<rparr>) (l\<lparr>mpc := P_buffer\<rparr>) g
      | P_buffer \<Rightarrow>
          let data = (if mi l < M_Max_Num - 1 then 100 * int ThreadID + int (mi l) else - 1) in
          if m_in g \<ge> length (mbuffer g) then Fault
          else Ret (l\<lparr>mdata := data, mpc := P_index\<rparr>,
                    g\<lparr>mbuffer := (mbuffer g)[m_in g := data], mprinted := mprinted g @ [MAdded ThreadID data (m_in g)]\<rparr>, w)
      | P_index \<Rightarrow> Ret (l\<lparr>mpc := P_unlock\<rparr>, g\<lparr>m_in := (m_in g + 1) mod M_BUF_SIZE\<rparr>, w)
      | P_unlock \<Rightarrow> checked (a_post api M_lock w) (l\<lparr>mpc := P_exit 1\<rparr>) (l\<lparr>mpc := P_empty\<rparr>) g
      | P_empty \<Rightarrow> checked (a_post api M_empty w) (l\<lparr>mpc := P_exit 1\<rparr>)
          (if mi l < M_Max_Num - 1 then l\<lparr>mpc := P_for, mi := mi l + 1\<rparr> else l\<lparr>mpc := P_exit 0\<rparr>) g
      | _ \<Rightarrow> Block)"

definition mp_consumer :: "(mp_sem, 'w) sem_api \<Rightarrow> nat \<Rightarrow> mp_local \<Rightarrow> mp_glob \<Rightarrow> 'w \<Rightarrow> (mp_local \<times> mp_glob \<times> 'w) outcome" where
  "mp_consumer api ThreadID l g w =
     (case mpc l of
        C_empty \<Rightarrow> checked (a_wait api M_empty w) (l\<lparr>mpc := C_exit 1\<rparr>) (l\<lparr>mpc := C_lock\<rparr>) g
      | C_lock \<Rightarrow> checked (a_wait api M_lock w) (l\<lparr>mpc := C_exit 1\<rparr>) (l\<lparr>mpc := C_buffer\<rparr>) g
      | C_buffer \<Rightarrow>
          if m_out g \<ge> length (mbuffer g) then Fault
          else let data = mbuffer g ! m_out g in
               Ret (l\<lparr>mdata := data, mpc := C_index\<rparr>, g\<lparr>mprinted := mprinted g @ [MTaken ThreadID data (m_out g)]\<rparr>, w)
      | C_index \<Rightarrow> Ret (l\<lparr>mpc := C_unlock\<rparr>, g\<lparr>m_out := (m_out g + 1) mod M_BUF_SIZE\<rparr>, w)
      | C_unlock \<Rightarrow> checked (a_post api M_lock w) (l\<lparr>mpc := C_exit 1\<rparr>) (l\<lparr>mpc := C_full\<rparr>) g
      | C_full \<Rightarrow> checked (a_post api M_full w) (l\<lparr>mpc := C_exit 1\<rparr>) (l\<lparr>mpc := C_value\<rparr>) g
      | C_value \<Rightarrow> show_value (a_getvalue api M_full w) (l\<lparr>mpc := C_exit 1\<rparr>)
          (l\<lparr>mpc := if mdata l \<noteq> - 1 then C_empty else C_exit 0\<rparr>) g
      | _ \<Rightarrow> Block)"

definition mp_prog :: "(mp_sem, 'w) sem_api \<Rightarrow> nat \<Rightarrow> (mp_local, mp_glob, 'w) prog" where
  "mp_prog api num t = (if t < num then mp_consumer api t else mp_producer api (t - num))"

abbreviation mp_step :: "(mp_sem, 'w) sem_api \<Rightarrow> nat \<Rightarrow> 'w mp_conf \<Rightarrow> 'w mp_conf \<Rightarrow> bool" where
  "mp_step api num \<equiv> interleave (2 * num) (mp_prog api num)"

definition mp_start :: "nat \<Rightarrow> int list \<Rightarrow> 'w \<Rightarrow> 'w mp_conf" where
  "mp_start num junk w = \<lparr>loc = (\<lambda>t. \<lparr>mpc = if t < num then C_empty else P_for, mi = 0, mdata = 0\<rparr>),
     glob = \<lparr>mbuffer = junk, m_in = 0, m_out = 0, mprinted = []\<rparr>, world = w\<rparr>"

text \<open>\<open>main\<close> up to the creation of the threads: a result code, or the number of threads of each kind and
  the configuration in which they start. \<open>main\<close> prints the initial value of \<open>full\<close>. After the joins it
  destroys the semaphores and returns \<^verbatim>\<open>PTS_PASS\<close> whatever the calls return.\<close>

definition mp_main :: "(mp_sem, 'w) sem_api \<Rightarrow> int list \<Rightarrow> string list \<Rightarrow> 'w \<Rightarrow> (int + nat \<times> 'w mp_conf) outcome" where
  "mp_main api junk argv w =
     (if length argv \<noteq> 2 then Ret (Inl PTS_FAIL)
      else obind (atoi (argv ! 1)) (\<lambda>n.
        if n \<le> 0 then Ret (Inl PTS_FAIL)
        else let num = (if n > int Max_Threads then Max_Threads else nat n) in
          obind (a_init api M_full 1 (of_nat M_BUF_SIZE) w) (\<lambda>(rc, w1).
            if rc = - 1 then Ret (Inl PTS_UNRESOLVED)
            else obind (a_getvalue api M_full w1) (\<lambda>(rc, v, w2).
              if rc = - 1 then Ret (Inl PTS_UNRESOLVED)
              else obind (a_init api M_empty 1 0 w2) (\<lambda>(rc, w3).
                if rc = - 1 then Ret (Inl PTS_UNRESOLVED)
                else obind (a_init api M_lock 1 1 w3) (\<lambda>(rc, w4).
                  if rc = - 1 then Ret (Inl PTS_UNRESOLVED) else Ret (Inr (num, mp_start num junk w4))))))))"

definition mp_main_end :: "(mp_sem, 'w) sem_api \<Rightarrow> 'w \<Rightarrow> (int \<times> 'w) outcome" where
  "mp_main_end api w =
     obind (a_destroy api M_full w) (\<lambda>(_, w1). obind (a_destroy api M_empty w1) (\<lambda>(_, w2).
       obind (a_destroy api M_lock w2) (\<lambda>(_, w3). Ret (PTS_PASS, w3))))"

section \<open>The log\<close>

text \<open>The values added, with the producer that added them, and the values taken.\<close>

definition madded :: "mp_event list \<Rightarrow> (nat \<times> int) list" where
  "madded evs = concat (map (\<lambda>e. case e of MAdded t d i \<Rightarrow> [(t, d)] | _ \<Rightarrow> []) evs)"

definition mtaken :: "mp_event list \<Rightarrow> int list" where
  "mtaken evs = concat (map (\<lambda>e. case e of MTaken t d i \<Rightarrow> [d] | _ \<Rightarrow> []) evs)"

lemma mevents_snoc [simp]:
  "madded (evs @ [MAdded t d i]) = madded evs @ [(t, d)]" "madded (evs @ [MTaken t d i]) = madded evs"
  "madded (evs @ [MValue v]) = madded evs" "mtaken (evs @ [MAdded t d i]) = mtaken evs"
  "mtaken (evs @ [MTaken t d i]) = mtaken evs @ [d]" "mtaken (evs @ [MValue v]) = mtaken evs"
  "madded [] = []" "mtaken [] = []"
  by (simp_all add: madded_def mtaken_def)

text \<open>What the producer \<open>j\<close> adds in its round \<open>k\<close>, and its first \<open>n\<close> values.\<close>

definition mp_item :: "nat \<Rightarrow> nat \<Rightarrow> int" where
  "mp_item j k = (if k < M_Max_Num - 1 then 100 * int j + int k else - 1)"

definition added_by :: "nat \<Rightarrow> (nat \<times> int) list \<Rightarrow> int list" where
  "added_by j xs = map snd (filter (\<lambda>x. fst x = j) xs)"

lemma added_by_snoc: "added_by j (xs @ [(t, d)]) = added_by j xs @ (if t = j then [d] else [])"
  by (simp add: added_by_def)

section \<open>Counting\<close>

text \<open>Holding the lock; with a value still to write, to post; with a place still to read, to post;
  before the advance of an index; rounds written; having written or taken a -1.\<close>

definition lk :: "mp_local \<Rightarrow> nat" where
  "lk l = (if mpc l \<in> {C_buffer, C_index, C_unlock, P_buffer, P_index, P_unlock} then 1 else 0)"
definition to_write :: "mp_local \<Rightarrow> nat" where
  "to_write l = (if mpc l \<in> {P_value, P_lock, P_buffer} then 1 else 0)"
definition to_fill :: "mp_local \<Rightarrow> nat" where
  "to_fill l = (if mpc l \<in> {P_index, P_unlock, P_empty} then 1 else 0)"
definition to_read :: "mp_local \<Rightarrow> nat" where
  "to_read l = (if mpc l \<in> {C_lock, C_buffer} then 1 else 0)"
definition to_free :: "mp_local \<Rightarrow> nat" where
  "to_free l = (if mpc l \<in> {C_index, C_unlock, C_full} then 1 else 0)"
definition p_idx :: "mp_local \<Rightarrow> nat" where "p_idx l = (if mpc l = P_index then 1 else 0)"
definition c_idx :: "mp_local \<Rightarrow> nat" where "c_idx l = (if mpc l = C_index then 1 else 0)"
definition made :: "mp_local \<Rightarrow> nat" where
  "made l = mi l + to_fill l + (if mpc l = P_exit 0 then 1 else 0)"
definition p_fin :: "mp_local \<Rightarrow> nat" where
  "p_fin l = (if mpc l = P_exit 0 \<or> to_fill l = 1 \<and> mi l = M_Max_Num - 1 then 1 else 0)"
definition c_fin :: "mp_local \<Rightarrow> nat" where
  "c_fin l = (if mpc l = C_exit 0 \<or> (to_free l = 1 \<or> mpc l = C_value) \<and> mdata l = - 1 then 1 else 0)"

lemmas mp_counts = lk_def to_write_def to_fill_def to_read_def to_free_def p_idx_def c_idx_def made_def p_fin_def c_fin_def

definition mp_pc_ok :: "nat \<Rightarrow> nat \<Rightarrow> mp_local \<Rightarrow> bool" where
  "mp_pc_ok num t l \<longleftrightarrow>
     (if t < num then mpc l \<in> {C_empty, C_lock, C_buffer, C_index, C_unlock, C_full, C_value, C_exit 0} \<and> mi l = 0
      else mpc l \<in> {P_for, P_full, P_value, P_lock, P_buffer, P_index, P_unlock, P_empty, P_exit 0}
        \<and> mi l < M_Max_Num \<and> (mpc l = P_exit 0 \<longrightarrow> mi l = M_Max_Num - 1))"

text \<open>The invariant: the semaphores count the lock, the free and the filled cells; the indices, the
  cells and the log agree.\<close>

definition mp_sems :: "nat \<Rightarrow> (mp_sem \<Rightarrow> nat) \<Rightarrow> (nat \<Rightarrow> mp_local) \<Rightarrow> nat \<Rightarrow> nat \<Rightarrow> bool" where
  "mp_sems num v L A T \<longleftrightarrow>
     v M_lock + tot (2 * num) lk L = 1
     \<and> v M_full + A + tot (2 * num) to_write L + tot (2 * num) to_free L = M_BUF_SIZE + T
     \<and> v M_empty + T + tot (2 * num) to_read L + tot (2 * num) to_fill L = A
     \<and> A = tot (2 * num) made L
     \<and> (\<forall>t < 2 * num. mp_pc_ok num t (L t))"

definition mp_log :: "nat \<Rightarrow> (nat \<Rightarrow> mp_local) \<Rightarrow> mp_glob \<Rightarrow> bool" where
  "mp_log num L g \<longleftrightarrow>
     (let xs = madded (mprinted g); ys = mtaken (mprinted g) in
      length (mbuffer g) = M_BUF_SIZE \<and> m_in g < M_BUF_SIZE \<and> m_out g < M_BUF_SIZE
      \<and> (m_in g + tot (2 * num) p_idx L) mod M_BUF_SIZE = length xs mod M_BUF_SIZE
      \<and> (m_out g + tot (2 * num) c_idx L) mod M_BUF_SIZE = length ys mod M_BUF_SIZE
      \<and> (\<forall>k. length ys \<le> k \<and> k < length xs \<longrightarrow> mbuffer g ! (k mod M_BUF_SIZE) = snd (xs ! k))
      \<and> ys = take (length ys) (map snd xs)
      \<and> count_list (map snd xs) (- 1) = tot (2 * num) p_fin L
      \<and> count_list ys (- 1) = tot (2 * num) c_fin L
      \<and> (\<forall>j < num. added_by j xs = map (mp_item j) [0..<made (L (num + j))])
      \<and> (\<forall>x \<in> set xs. fst x < num))"

definition mp_inv :: "nat \<Rightarrow> (mp_sem \<Rightarrow> nat) \<Rightarrow> (nat \<Rightarrow> mp_local) \<Rightarrow> mp_glob \<Rightarrow> bool" where
  "mp_inv num v L g \<longleftrightarrow> mp_sems num v L (length (madded (mprinted g))) (length (mtaken (mprinted g))) \<and> mp_log num L g"

text \<open>One thread moves; the clauses on the semaphores are linear in the counts.\<close>

lemma mp_sems_upd:
  assumes inv: "mp_sems num v L A T" and t: "t < 2 * num" and "mp_pc_ok num t l"
    and "v' M_lock + lk l = v M_lock + lk (L t)"
    and "v' M_full + A' + to_write l + to_free l + T = v M_full + A + to_write (L t) + to_free (L t) + T'"
    and "v' M_empty + T' + to_read l + to_fill l + A = v M_empty + T + to_read (L t) + to_fill (L t) + A'"
    and "A' + made (L t) = A + made l"
  shows "mp_sems num v' (L(t := l)) A' T'"
proof -
  note u = tot_upd [OF t, of _ L l]
  have "\<forall>s < 2 * num. mp_pc_ok num s ((L(t := l)) s)" using inv assms(3) by (simp add: mp_sems_def)
  moreover have "v' M_lock + tot (2 * num) lk (L(t := l)) = 1" using u [of lk] assms(4) inv by (simp add: mp_sems_def)
  moreover have "v' M_full + A' + tot (2 * num) to_write (L(t := l)) + tot (2 * num) to_free (L(t := l)) = M_BUF_SIZE + T'"
    using u [of to_write] u [of to_free] assms(5) inv by (simp add: mp_sems_def)
  moreover have "v' M_empty + T' + tot (2 * num) to_read (L(t := l)) + tot (2 * num) to_fill (L(t := l)) = A'"
    using u [of to_read] u [of to_fill] assms(6) inv by (simp add: mp_sems_def)
  moreover have "A' = tot (2 * num) made (L(t := l))" using u [of made] assms(7) inv by (simp add: mp_sems_def)
  ultimately show ?thesis by (simp add: mp_sems_def)
qed

lemma mod_shift:
  assumes "(a' + p' :: nat) mod m = (a + p) mod m" and "x' + p = x + p'"
  shows "(a' + x') mod m = (a + x) mod m"
proof -
  have "(a' + x' + p) mod m = (a + x + p) mod m"
  proof -
    have "(a' + x' + p) mod m = ((a' + p') + x) mod m" using assms(2) by (simp add: algebra_simps)
    also have "\<dots> = ((a + p) + x) mod m" using assms(1) by (metis mod_add_left_eq)
    finally show ?thesis by (simp add: algebra_simps)
  qed
  then show ?thesis by (simp add: nat_mod_eq_iff) (metis add.assoc add.commute add_left_cancel)
qed

text \<open>Actions that leave the buffer and the log of transfers alone.\<close>

lemma mp_log_quiet:
  assumes inv: "mp_log num L g" and t: "t < 2 * num"
    and "mbuffer g' = mbuffer g" "madded (mprinted g') = madded (mprinted g)" "mtaken (mprinted g') = mtaken (mprinted g)"
    and "m_in g' < M_BUF_SIZE" "m_out g' < M_BUF_SIZE"
    and "(m_in g' + p_idx l) mod M_BUF_SIZE = (m_in g + p_idx (L t)) mod M_BUF_SIZE"
    and "(m_out g' + c_idx l) mod M_BUF_SIZE = (m_out g + c_idx (L t)) mod M_BUF_SIZE"
    and "made l = made (L t)" "p_fin l = p_fin (L t)" "c_fin l = c_fin (L t)"
  shows "mp_log num (L(t := l)) g'"
proof -
  note u = tot_upd [OF t, of _ L l]
  have "(m_in g' + tot (2 * num) p_idx (L(t := l))) mod M_BUF_SIZE = (m_in g + tot (2 * num) p_idx L) mod M_BUF_SIZE"
    using assms(8) u [of p_idx] by (rule mod_shift)
  moreover have "(m_out g' + tot (2 * num) c_idx (L(t := l))) mod M_BUF_SIZE = (m_out g + tot (2 * num) c_idx L) mod M_BUF_SIZE"
    using assms(9) u [of c_idx] by (rule mod_shift)
  moreover have "tot (2 * num) p_fin (L(t := l)) = tot (2 * num) p_fin L" "tot (2 * num) c_fin (L(t := l)) = tot (2 * num) c_fin L"
    using u [of p_fin] u [of c_fin] assms(11,12) by simp_all
  moreover have "made ((L(t := l)) s) = made (L s)" for s using assms(10) by simp
  ultimately show ?thesis using inv assms(3-7) by (simp add: mp_log_def Let_def)
qed

lemma p_c_idx_le: "tot N p_idx L + tot N c_idx L \<le> tot N lk L"
  unfolding tot_add [symmetric] by (rule tot_mono) (auto simp: mp_counts)

text \<open>While a thread is at its access to the buffer, no index is about to advance.\<close>

lemma mp_index:
  assumes "mp_inv num v L g" and "t < 2 * num" and "mpc (L t) \<in> {P_buffer, C_buffer}"
  shows "m_in g = length (madded (mprinted g)) mod M_BUF_SIZE" and "m_out g = length (mtaken (mprinted g)) mod M_BUF_SIZE"
    and "tot (2 * num) p_idx L = 0" and "tot (2 * num) c_idx L = 0"
proof -
  define f where "f = (\<lambda>l. p_idx l + c_idx l + (if mpc l \<in> {P_buffer, C_buffer} then 1 else 0))"
  have "tot (2 * num) f L \<le> tot (2 * num) lk L" by (rule tot_mono) (auto simp: mp_counts f_def)
  moreover have "tot (2 * num) f L = tot (2 * num) p_idx L + tot (2 * num) c_idx L
      + tot (2 * num) (\<lambda>l. if mpc l \<in> {P_buffer, C_buffer} then 1 else 0) L" unfolding f_def by (simp only: tot_add)
  moreover have "1 \<le> tot (2 * num) (\<lambda>l. if mpc l \<in> {P_buffer, C_buffer} then 1 else 0) L"
    using tot_ge [OF assms(2), of "\<lambda>l. if mpc l \<in> {P_buffer, C_buffer} then 1 else 0" L] assms(3) by simp
  moreover have "tot (2 * num) lk L \<le> 1" using assms(1) by (simp add: mp_inv_def mp_sems_def)
  ultimately show z: "tot (2 * num) p_idx L = 0" "tot (2 * num) c_idx L = 0" by linarith+
  show "m_in g = length (madded (mprinted g)) mod M_BUF_SIZE" "m_out g = length (mtaken (mprinted g)) mod M_BUF_SIZE"
    using assms(1) z by (auto simp: mp_inv_def mp_log_def Let_def)
qed

lemma mp_ring_distinct:
  assumes "k < n" and "n < k + M_BUF_SIZE"
  shows "k mod M_BUF_SIZE \<noteq> n mod M_BUF_SIZE"
proof
  assume "k mod M_BUF_SIZE = n mod M_BUF_SIZE"
  then have "M_BUF_SIZE dvd n - k" using mod_eq_dvd_iff_nat [of k n M_BUF_SIZE] assms(1) by simp
  then show False using nat_dvd_not_less [of "n - k" M_BUF_SIZE] assms by simp
qed

lemma mp_write:
  assumes inv: "mp_inv num v L g" and t: "t < 2 * num" and at: "mpc (L t) = P_buffer"
    and l: "l = (L t)\<lparr>mdata := d, mpc := P_index\<rparr>" and d: "d = mp_item (t - num) (mi (L t))"
    and g: "g' = g\<lparr>mbuffer := (mbuffer g)[m_in g := d], mprinted := mprinted g @ [MAdded (t - num) d (m_in g)]\<rparr>"
  shows "mp_inv num v (L(t := l)) g'"
proof -
  let ?xs = "madded (mprinted g)" and ?ys = "mtaken (mprinted g)"
  note idx = mp_index [OF inv t] and u = tot_upd [OF t, of _ L l]
  have ok: "mp_pc_ok num t (L t)" and s: "mp_sems num v L (length ?xs) (length ?ys)" and lg: "mp_log num L g"
    using inv t by (auto simp: mp_inv_def mp_sems_def)
  have tn: "\<not> t < num" "mi (L t) < M_Max_Num" using ok at by (auto simp: mp_pc_ok_def split: if_splits)
  have "mp_sems num v (L(t := l)) (Suc (length ?xs)) (length ?ys)"
    by (rule mp_sems_upd [OF s t]) (use at l tn in \<open>simp_all add: mp_counts mp_pc_ok_def\<close>)
  moreover have "mp_log num (L(t := l)) g'"
  proof -
    have room: "length ?xs < length ?ys + M_BUF_SIZE"
      using s tot_ge [OF t, of to_write L] at by (simp add: mp_sems_def to_write_def)
    have le: "length ?ys \<le> length ?xs" using s by (simp add: mp_sems_def)
    have cell: "mbuffer g' ! (k mod M_BUF_SIZE) = snd ((?xs @ [(t - num, d)]) ! k)"
      if "length ?ys \<le> k" "k < Suc (length ?xs)" for k
    proof (cases "k = length ?xs")
      case True
      with g idx(1) at lg show ?thesis by (simp add: mp_log_def Let_def)
    next
      case False
      then have "k mod M_BUF_SIZE \<noteq> length ?xs mod M_BUF_SIZE" using mp_ring_distinct [of k "length ?xs"] that room by simp
      with g idx(1) at lg that False show ?thesis by (simp add: mp_log_def Let_def nth_append)
    qed
    have "tot (2 * num) p_idx (L(t := l)) = 1" "tot (2 * num) c_idx (L(t := l)) = 0"
      using u [of p_idx] u [of c_idx] idx(3,4) at l by (simp_all add: mp_counts)
    moreover have "tot (2 * num) p_fin (L(t := l)) = tot (2 * num) p_fin L + (if d = - 1 then 1 else 0)"
      "tot (2 * num) c_fin (L(t := l)) = tot (2 * num) c_fin L"
      using u [of p_fin] u [of c_fin] at l d tn by (auto simp: mp_counts mp_item_def M_Max_Num_def)
    moreover have "added_by j (?xs @ [(t - num, d)]) = map (mp_item j) [0..<made ((L(t := l)) (num + j))]" if "j < num" for j
      using lg that at l d tn by (auto simp: mp_log_def Let_def added_by_snoc mp_counts)
    moreover have "t - num < num" using t tn by simp
    moreover have "?ys = take (length ?ys) (map snd (?xs @ [(t - num, d)]))"
      using lg le by (simp add: mp_log_def Let_def)
    ultimately show ?thesis using lg g idx at cell by (simp add: mp_log_def Let_def mod_Suc_eq)
  qed
  ultimately show ?thesis using g by (simp add: mp_inv_def)
qed

lemma mp_read:
  assumes inv: "mp_inv num v L g" and t: "t < 2 * num" and at: "mpc (L t) = C_buffer"
    and d: "d = mbuffer g ! m_out g" and l: "l = (L t)\<lparr>mdata := d, mpc := C_index\<rparr>"
    and g: "g' = g\<lparr>mprinted := mprinted g @ [MTaken t d (m_out g)]\<rparr>"
  shows "mp_inv num v (L(t := l)) g'"
proof -
  let ?xs = "madded (mprinted g)" and ?ys = "mtaken (mprinted g)"
  note idx = mp_index [OF inv t] and u = tot_upd [OF t, of _ L l]
  have ok: "mp_pc_ok num t (L t)" and s: "mp_sems num v L (length ?xs) (length ?ys)" and lg: "mp_log num L g"
    using inv t by (auto simp: mp_inv_def mp_sems_def)
  have tn: "t < num" using ok at by (auto simp: mp_pc_ok_def split: if_splits)
  have lt: "length ?ys < length ?xs" using s tot_ge [OF t, of to_read L] at by (simp add: mp_sems_def to_read_def)
  have dv: "d = snd (?xs ! length ?ys)" using d idx(2) at lg lt by (simp add: mp_log_def Let_def)
  have "mp_sems num v (L(t := l)) (length ?xs) (Suc (length ?ys))"
    by (rule mp_sems_upd [OF s t]) (use at l tn ok in \<open>simp_all add: mp_counts mp_pc_ok_def\<close>)
  moreover have "mp_log num (L(t := l)) g'"
  proof -
    have "tot (2 * num) p_idx (L(t := l)) = 0" "tot (2 * num) c_idx (L(t := l)) = 1"
      using u [of p_idx] u [of c_idx] idx(3,4) at l by (simp_all add: mp_counts)
    moreover have "tot (2 * num) p_fin (L(t := l)) = tot (2 * num) p_fin L"
      "tot (2 * num) c_fin (L(t := l)) = tot (2 * num) c_fin L + (if d = - 1 then 1 else 0)"
      using u [of p_fin] u [of c_fin] at l by (auto simp: mp_counts)
    moreover have "made ((L(t := l)) s) = made (L s)" for s using at l by (simp add: mp_counts)
    moreover have "take (Suc (length ?ys)) (map snd ?xs) = ?ys @ [d]"
      using lg lt dv by (simp add: mp_log_def Let_def take_Suc_conv_app_nth flip: take_map)
    ultimately show ?thesis using lg g idx at by (simp add: mp_log_def Let_def mod_Suc_eq)
  qed
  ultimately show ?thesis using g by (simp add: mp_inv_def)
qed

text \<open>The number of values is bounded by the rounds of the producers.\<close>

lemma mp_made_le:
  assumes "mp_sems num v L A T"
  shows "T \<le> A" and "A \<le> M_Max_Num * num"
proof -
  show "T \<le> A" using assms by (simp add: mp_sems_def)
  have ok: "\<forall>t < 2 * num. mp_pc_ok num t (L t)" and A: "A = tot (2 * num) made L" using assms by (simp_all add: mp_sems_def)
  have "made (L t) \<le> (if t < num then 0 else M_Max_Num)" if "t < 2 * num" for t
    using ok that by (auto simp: mp_pc_ok_def mp_counts split: if_splits)
  then have "A \<le> (\<Sum>t<2 * num. if t < num then 0 else M_Max_Num)" unfolding A tot_def by (intro sum_mono) simp
  also have "\<dots> = M_Max_Num * num"
  proof -
    have "{..<2 * num} = {..<num} \<union> {num..<2 * num}" by auto
    moreover have "(\<Sum>t\<in>{..<num} \<union> {num..<2 * num}. if t < num then 0 else M_Max_Num)
        = (\<Sum>t\<in>{..<num}. if t < num then 0 else M_Max_Num) + (\<Sum>t\<in>{num..<2 * num}. if t < num then 0 else M_Max_Num)"
      by (rule sum.union_disjoint) auto
    ultimately show ?thesis by simp
  qed
  finally show "A \<le> M_Max_Num * num" .
qed

text \<open>A measure that every action lowers: the values not yet taken, and the positions.\<close>

definition mp_rank :: "mp_local \<Rightarrow> nat" where
  "mp_rank l = (case mpc l of C_index \<Rightarrow> 7 | C_unlock \<Rightarrow> 6 | C_full \<Rightarrow> 5 | C_value \<Rightarrow> 4 | C_empty \<Rightarrow> 3 | C_lock \<Rightarrow> 2
     | C_buffer \<Rightarrow> 1 | C_exit c \<Rightarrow> 0
     | P_for \<Rightarrow> 8 + 9 * (M_Max_Num - mi l) | P_full \<Rightarrow> 7 + 9 * (M_Max_Num - mi l) | P_value \<Rightarrow> 6 + 9 * (M_Max_Num - mi l)
     | P_lock \<Rightarrow> 5 + 9 * (M_Max_Num - mi l) | P_buffer \<Rightarrow> 4 + 9 * (M_Max_Num - mi l) | P_index \<Rightarrow> 3 + 9 * (M_Max_Num - mi l)
     | P_unlock \<Rightarrow> 2 + 9 * (M_Max_Num - mi l) | P_empty \<Rightarrow> 1 + 9 * (M_Max_Num - mi l) | P_exit c \<Rightarrow> 0)"

definition mp_left :: "nat \<Rightarrow> 'w mp_conf \<Rightarrow> nat" where
  "mp_left num c = tot (2 * num) mp_rank (loc c) + 8 * (M_Max_Num * num - length (mtaken (mprinted (glob c))))"

lemma rank_drop:
  fixes X Y M a b r s :: nat
  assumes "r + 8 * a < s + 8 * b" and "a \<le> b" and "b \<le> M" and "X + s = Y + r"
  shows "X + 8 * (M - b) < Y + 8 * (M - a)"
  using assms by arith

text \<open>Counting the threads of one kind.\<close>

lemma sum_kinds: "(\<Sum>t<2 * num. if t < num then 1 else 0 :: nat) = num" "(\<Sum>t<2 * num. if t < num then 0 else 1 :: nat) = num"
proof -
  have "{..<2 * num} = {..<num} \<union> {num..<2 * num}" by auto
  then have s: "(\<Sum>t<2 * num. f t) = (\<Sum>t<num. f t) + (\<Sum>t\<in>{num..<2 * num}. f t)" for f :: "nat \<Rightarrow> nat"
    by (simp add: sum.union_disjoint ivl_disj_int)
  show "(\<Sum>t<2 * num. if t < num then 1 else 0 :: nat) = num" "(\<Sum>t<2 * num. if t < num then 0 else 1 :: nat) = num"
    by (simp_all add: s)
qed

lemma count_list_take: "count_list (take k zs) x \<le> count_list zs x"
  by (metis append_take_drop_id count_list_append le_add1)

text \<open>Once all producers have ended, the last value added is a -1: whoever has not taken all values
  has not taken all the -1.\<close>

lemma last_is_sentinel:
  assumes s: "mp_sems num v L A T" and lg: "mp_log num L g"
    and ended: "\<And>t. t < 2 * num \<Longrightarrow> \<not> t < num \<Longrightarrow> mpc (L t) = P_exit 0" and "k < length (madded (mprinted g))"
  shows "count_list (take k (map snd (madded (mprinted g)))) (- 1) < count_list (map snd (madded (mprinted g))) (- 1)"
proof -
  let ?xs = "madded (mprinted g)"
  from assms(4) obtain zs j d where xs: "?xs = zs @ [(j, d)]" by (metis length_0_conv less_zeroE old.prod.exhaust rev_exhaust)
  have j: "j < num" "added_by j ?xs = map (mp_item j) [0..<made (L (num + j))]"
    using lg xs by (auto simp: mp_log_def Let_def)
  have "mpc (L (num + j)) = P_exit 0" "mi (L (num + j)) = M_Max_Num - 1"
    using ended [of "num + j"] j(1) s by (auto simp: mp_sems_def mp_pc_ok_def)
  then have "made (L (num + j)) = 5" by (simp add: mp_counts M_Max_Num_def)
  with j(2) xs have "last (added_by j zs @ [d]) = last (map (mp_item j) [0..<5])" by (simp add: added_by_snoc)
  then have "d = - 1" by (simp add: mp_item_def M_Max_Num_def eval_nat_numeral)
  then have "count_list (map snd ?xs) (- 1) = Suc (count_list (map snd zs) (- 1))" using xs by simp
  moreover have "take k (map snd ?xs) = take k (map snd zs)" using xs assms(4) by simp
  moreover have "count_list (take k (map snd zs)) (- 1) \<le> count_list (map snd zs) (- 1)" by (rule count_list_take)
  ultimately show ?thesis by simp
qed

locale mp_client = sem_store api ok sval maxval UNIV
  for api :: "(mp_sem, 'w) sem_api" and ok sval maxval
begin

lemma mp_bound:
  assumes "mp_inv num (sval w) L g" and "num \<le> Max_Threads"
  shows "sval w i < 32767"
proof -
  let ?A = "length (madded (mprinted g))" and ?T = "length (mtaken (mprinted g))"
  have s: "mp_sems num (sval w) L ?A ?T" using assms(1) by (simp add: mp_inv_def)
  have "?A \<le> 635" using mp_made_le(2) [OF s] assms(2) by (simp add: M_Max_Num_def Max_Threads_def)
  then show ?thesis using s mp_made_le(1) [OF s] by (cases i) (auto simp: mp_sems_def M_BUF_SIZE_def)
qed

lemma show_value_ok:
  assumes "show_value (a_getvalue api i w) bad good g = Ret (l, g', w')" and "ok UNIV w"
  shows "l = good \<and> w' = w \<and> g' = g\<lparr>mprinted := mprinted g @ [MValue (int (sval w i))]\<rparr>"
  using assms getvalue_reads [OF assms(2), of i] by (auto simp: show_value_def)

lemma mp_quiet_inv:
  assumes "mp_inv num v L g" and "t < 2 * num" and "mp_pc_ok num t l"
    and "v' M_lock + lk l = v M_lock + lk (L t)"
    and "v' M_full + to_write l + to_free l = v M_full + to_write (L t) + to_free (L t)"
    and "v' M_empty + to_read l + to_fill l = v M_empty + to_read (L t) + to_fill (L t)"
    and "mbuffer g' = mbuffer g" "madded (mprinted g') = madded (mprinted g)" "mtaken (mprinted g') = mtaken (mprinted g)"
    and "m_in g' < M_BUF_SIZE" "m_out g' < M_BUF_SIZE"
    and "(m_in g' + p_idx l) mod M_BUF_SIZE = (m_in g + p_idx (L t)) mod M_BUF_SIZE"
    and "(m_out g' + c_idx l) mod M_BUF_SIZE = (m_out g + c_idx (L t)) mod M_BUF_SIZE"
    and "made l = made (L t)" "p_fin l = p_fin (L t)" "c_fin l = c_fin (L t)"
  shows "mp_inv num v' (L(t := l)) g'"
  unfolding mp_inv_def
proof
  show "mp_sems num v' (L(t := l)) (length (madded (mprinted g'))) (length (mtaken (mprinted g')))"
    by (rule mp_sems_upd [of num v L "length (madded (mprinted g))" "length (mtaken (mprinted g))"])
       (use assms in \<open>simp_all add: mp_inv_def\<close>)
  show "mp_log num (L(t := l)) g'" by (rule mp_log_quiet [of num L g]) (use assms in \<open>simp_all add: mp_inv_def\<close>)
qed

lemma mp_consumer_inv:
  assumes inv: "mp_inv num (sval w) L g" and okw: "ok UNIV w" and N: "num \<le> Max_Threads" and t: "t < num"
    and run: "mp_consumer api t (L t) g w = Ret (l, g', w')"
  shows "ok UNIV w' \<and> mp_inv num (sval w') (L(t := l)) g'"
proof -
  have t2: "t < 2 * num" using t by simp
  note b = mp_bound [OF inv N] and q = mp_quiet_inv [OF inv t2]
  have i: "mp_pc_ok num t (L t)" "length (mbuffer g) = M_BUF_SIZE" "m_in g < M_BUF_SIZE" "m_out g < M_BUF_SIZE"
    using inv t2 by (auto simp: mp_inv_def mp_sems_def mp_log_def Let_def)
  consider "mpc (L t) = C_empty" | "mpc (L t) = C_lock" | "mpc (L t) = C_buffer" | "mpc (L t) = C_index"
    | "mpc (L t) = C_unlock" | "mpc (L t) = C_full" | "mpc (L t) = C_value" | "mpc (L t) = C_exit 0"
    using i(1) t by (auto simp: mp_pc_ok_def)
  then show ?thesis
  proof cases
    case 1
    with run have "l = (L t)\<lparr>mpc := C_lock\<rparr>" "g' = g" "ok UNIV w'" "0 < sval w M_empty"
      "sval w' = (sval w)(M_empty := sval w M_empty - 1)" by (auto simp: mp_consumer_def dest!: checked_wait [OF _ okw])
    with 1 i t show ?thesis by (auto intro!: q simp: mp_counts mp_pc_ok_def)
  next
    case 2
    with run have "l = (L t)\<lparr>mpc := C_buffer\<rparr>" "g' = g" "ok UNIV w'" "0 < sval w M_lock"
      "sval w' = (sval w)(M_lock := sval w M_lock - 1)" by (auto simp: mp_consumer_def dest!: checked_wait [OF _ okw])
    with 2 i t show ?thesis by (auto intro!: q simp: mp_counts mp_pc_ok_def)
  next
    case 3
    with run i have "l = (L t)\<lparr>mdata := mbuffer g ! m_out g, mpc := C_index\<rparr>" "w' = w"
      "g' = g\<lparr>mprinted := mprinted g @ [MTaken t (mbuffer g ! m_out g) (m_out g)]\<rparr>" by (auto simp: mp_consumer_def Let_def)
    with mp_read [OF inv t2 3 refl] okw show ?thesis by simp
  next
    case 4
    with run have "l = (L t)\<lparr>mpc := C_unlock\<rparr>" "w' = w" "g' = g\<lparr>m_out := (m_out g + 1) mod M_BUF_SIZE\<rparr>"
      by (auto simp: mp_consumer_def)
    with 4 i t okw show ?thesis by (auto intro!: q simp: mp_counts mp_pc_ok_def M_BUF_SIZE_def)
  next
    case 5
    with run have "l = (L t)\<lparr>mpc := C_full\<rparr>" "g' = g" "ok UNIV w'" "sval w' = (sval w)(M_lock := sval w M_lock + 1)"
      by (auto simp: mp_consumer_def dest!: checked_post [OF _ okw b])
    with 5 i t show ?thesis by (auto intro!: q simp: mp_counts mp_pc_ok_def)
  next
    case 6
    with run have "l = (L t)\<lparr>mpc := C_value\<rparr>" "g' = g" "ok UNIV w'" "sval w' = (sval w)(M_full := sval w M_full + 1)"
      by (auto simp: mp_consumer_def dest!: checked_post [OF _ okw b])
    with 6 i t show ?thesis by (auto intro!: q simp: mp_counts mp_pc_ok_def)
  next
    case 7
    with run have "l = (L t)\<lparr>mpc := if mdata (L t) \<noteq> - 1 then C_empty else C_exit 0\<rparr>" "w' = w"
      "g' = g\<lparr>mprinted := mprinted g @ [MValue (int (sval w M_full))]\<rparr>"
      by (auto simp: mp_consumer_def dest!: show_value_ok [OF _ okw])
    with 7 i t okw show ?thesis by (auto intro!: q simp: mp_counts mp_pc_ok_def)
  next
    case 8
    with run show ?thesis by (simp add: mp_consumer_def)
  qed
qed

lemma mp_producer_inv:
  assumes inv: "mp_inv num (sval w) L g" and okw: "ok UNIV w" and N: "num \<le> Max_Threads" and t: "t < 2 * num" "num \<le> t"
    and run: "mp_producer api (t - num) (L t) g w = Ret (l, g', w')"
  shows "ok UNIV w' \<and> mp_inv num (sval w') (L(t := l)) g'"
proof -
  note b = mp_bound [OF inv N] and q = mp_quiet_inv [OF inv t(1)]
  have i: "mp_pc_ok num t (L t)" "length (mbuffer g) = M_BUF_SIZE" "m_in g < M_BUF_SIZE" "m_out g < M_BUF_SIZE"
    using inv t by (auto simp: mp_inv_def mp_sems_def mp_log_def Let_def)
  consider "mpc (L t) = P_for" | "mpc (L t) = P_full" | "mpc (L t) = P_value" | "mpc (L t) = P_lock" | "mpc (L t) = P_buffer"
    | "mpc (L t) = P_index" | "mpc (L t) = P_unlock" | "mpc (L t) = P_empty" | "mpc (L t) = P_exit 0"
    using i(1) t by (auto simp: mp_pc_ok_def)
  then show ?thesis
  proof cases
    case 1
    with run have "l = (L t)\<lparr>mpc := P_full\<rparr>" "g' = g" "w' = w" by (auto simp: mp_producer_def)
    with 1 i t okw show ?thesis by (auto intro!: q simp: mp_counts mp_pc_ok_def)
  next
    case 2
    with run have "l = (L t)\<lparr>mpc := P_value\<rparr>" "g' = g" "ok UNIV w'" "0 < sval w M_full"
      "sval w' = (sval w)(M_full := sval w M_full - 1)" by (auto simp: mp_producer_def dest!: checked_wait [OF _ okw])
    with 2 i t show ?thesis by (auto intro!: q simp: mp_counts mp_pc_ok_def)
  next
    case 3
    with run have "l = (L t)\<lparr>mpc := P_lock\<rparr>" "w' = w" "g' = g\<lparr>mprinted := mprinted g @ [MValue (int (sval w M_full))]\<rparr>"
      by (auto simp: mp_producer_def dest!: show_value_ok [OF _ okw])
    with 3 i t okw show ?thesis by (auto intro!: q simp: mp_counts mp_pc_ok_def)
  next
    case 4
    with run have "l = (L t)\<lparr>mpc := P_buffer\<rparr>" "g' = g" "ok UNIV w'" "0 < sval w M_lock"
      "sval w' = (sval w)(M_lock := sval w M_lock - 1)" by (auto simp: mp_producer_def dest!: checked_wait [OF _ okw])
    with 4 i t show ?thesis by (auto intro!: q simp: mp_counts mp_pc_ok_def)
  next
    case 5
    let ?d = "mp_item (t - num) (mi (L t))"
    from 5 run i have "l = (L t)\<lparr>mdata := ?d, mpc := P_index\<rparr>" "w' = w"
      "g' = g\<lparr>mbuffer := (mbuffer g)[m_in g := ?d], mprinted := mprinted g @ [MAdded (t - num) ?d (m_in g)]\<rparr>"
      by (auto simp: mp_producer_def mp_item_def Let_def)
    with mp_write [OF inv t(1) 5 _ refl] okw show ?thesis by simp
  next
    case 6
    with run have "l = (L t)\<lparr>mpc := P_unlock\<rparr>" "w' = w" "g' = g\<lparr>m_in := (m_in g + 1) mod M_BUF_SIZE\<rparr>"
      by (auto simp: mp_producer_def)
    with 6 i t okw show ?thesis by (auto intro!: q simp: mp_counts mp_pc_ok_def M_BUF_SIZE_def)
  next
    case 7
    with run have "l = (L t)\<lparr>mpc := P_empty\<rparr>" "g' = g" "ok UNIV w'" "sval w' = (sval w)(M_lock := sval w M_lock + 1)"
      by (auto simp: mp_producer_def dest!: checked_post [OF _ okw b])
    with 7 i t show ?thesis by (auto intro!: q simp: mp_counts mp_pc_ok_def)
  next
    case 8
    with run have "l = (if mi (L t) < M_Max_Num - 1 then (L t)\<lparr>mpc := P_for, mi := mi (L t) + 1\<rparr> else (L t)\<lparr>mpc := P_exit 0\<rparr>)"
      "g' = g" "ok UNIV w'" "sval w' = (sval w)(M_empty := sval w M_empty + 1)"
      by (auto simp: mp_producer_def dest!: checked_post [OF _ okw b])
    with 8 i t show ?thesis by (auto intro!: q simp: mp_counts mp_pc_ok_def)
  next
    case 9
    with run show ?thesis by (simp add: mp_producer_def)
  qed
qed

abbreviation mp_good :: "nat \<Rightarrow> 'w mp_conf \<Rightarrow> bool" where
  "mp_good num c \<equiv> mp_inv num (sval (world c)) (loc c) (glob c) \<and> ok UNIV (world c)"

lemma mp_step_inv:
  assumes "num \<le> Max_Threads" and "mp_step api num c c'" and "mp_good num c"
  shows "mp_good num c'"
proof -
  from assms(2) obtain t l g w where s: "t < 2 * num" "mp_prog api num t (loc c t) (glob c) (world c) = Ret (l, g, w)"
    "c' = \<lparr>loc = (loc c)(t := l), glob = g, world = w\<rparr>" by (rule interleaveE)
  show ?thesis
  proof (cases "t < num")
    case True
    with s assms mp_consumer_inv [of num "world c" "loc c" "glob c" t l g w] show ?thesis by (simp add: mp_prog_def)
  next
    case False
    with s assms mp_producer_inv [of num "world c" "loc c" "glob c" t l g w] show ?thesis by (simp add: mp_prog_def)
  qed
qed

lemma mp_consumer_rank:
  assumes "mp_consumer api t l g w = Ret (l', g', w')"
  shows "mp_rank l' + 8 * length (mtaken (mprinted g)) < mp_rank l + 8 * length (mtaken (mprinted g'))
    \<and> length (mtaken (mprinted g)) \<le> length (mtaken (mprinted g'))"
  using assms
  by (cases "mpc l") (auto simp: mp_consumer_def checked_Ret show_value_def mp_rank_def Let_def obind_Ret_iff
      split: if_splits option.splits)

lemma mp_producer_rank:
  assumes "mp_producer api t l g w = Ret (l', g', w')" and "mi l < M_Max_Num"
  shows "mp_rank l' < mp_rank l \<and> mtaken (mprinted g') = mtaken (mprinted g)"
  using assms
  by (cases "mpc l") (auto simp: mp_producer_def checked_Ret show_value_def mp_rank_def Let_def obind_Ret_iff
      split: if_splits option.splits)

lemma mp_step_left:
  assumes N: "num \<le> Max_Threads" and step: "mp_step api num c c'" and good: "mp_good num c"
  shows "mp_left num c' < mp_left num c"
proof -
  from step obtain t l g w where s: "t < 2 * num" "mp_prog api num t (loc c t) (glob c) (world c) = Ret (l, g, w)"
    "c' = \<lparr>loc = (loc c)(t := l), glob = g, world = w\<rparr>" by (rule interleaveE)
  have T: "length (mtaken (mprinted (glob c'))) \<le> M_Max_Num * num"
    using mp_step_inv [OF N step good] mp_made_le unfolding mp_inv_def by (meson le_trans)
  have "mp_rank l + 8 * length (mtaken (mprinted (glob c))) < mp_rank (loc c t) + 8 * length (mtaken (mprinted g))
      \<and> length (mtaken (mprinted (glob c))) \<le> length (mtaken (mprinted g))"
  proof (cases "t < num")
    case True
    with s(2) mp_consumer_rank [of t "loc c t" "glob c" "world c" l g w] show ?thesis by (simp add: mp_prog_def)
  next
    case False
    have "mi (loc c t) < M_Max_Num" using good s(1) False by (auto simp: mp_inv_def mp_sems_def mp_pc_ok_def)
    with s(2) mp_producer_rank [of "t - num" "loc c t" "glob c" "world c" l g w] False show ?thesis by (simp add: mp_prog_def)
  qed
  then show ?thesis
    using T s(3) rank_drop [OF _ _ _ tot_upd [OF s(1), of mp_rank "loc c" l]] by (simp add: mp_left_def)
qed

text \<open>A thread that cannot act has ended or waits for a semaphore whose value is 0.\<close>

lemma show_value_enabled: "ok UNIV w \<Longrightarrow> \<exists>l g' w'. show_value (a_getvalue api i w) bad good g = Ret (l, g', w')"
  by (simp add: show_value_def getvalue_reads [OF _ UNIV_I])

lemma mp_consumer_acts:
  assumes "ok UNIV w" and "\<And>i. sval w i < 32767" and "m_out g < length (mbuffer g)"
    and "mpc l \<in> {C_empty, C_lock, C_buffer, C_index, C_unlock, C_full, C_value}"
    and "mpc l = C_empty \<longrightarrow> 0 < sval w M_empty" and "mpc l = C_lock \<longrightarrow> 0 < sval w M_lock"
  shows "\<exists>l' g' w'. mp_consumer api t l g w = Ret (l', g', w')"
  using assms(3-6)
  by (cases "mpc l") (simp_all add: mp_consumer_def Let_def checked_wait_enabled [OF assms(1)] checked_post_enabled [OF assms(1,2)]
      show_value_enabled [OF assms(1)])

lemma mp_producer_acts:
  assumes "ok UNIV w" and "\<And>i. sval w i < 32767" and "m_in g < length (mbuffer g)"
    and "mpc l \<in> {P_for, P_full, P_value, P_lock, P_buffer, P_index, P_unlock, P_empty}"
    and "mpc l = P_full \<longrightarrow> 0 < sval w M_full" and "mpc l = P_lock \<longrightarrow> 0 < sval w M_lock"
  shows "\<exists>l' g' w'. mp_producer api t l g w = Ret (l', g', w')"
  using assms(3-6)
  by (cases "mpc l") (simp_all add: mp_producer_def Let_def checked_wait_enabled [OF assms(1)] checked_post_enabled [OF assms(1,2)]
      show_value_enabled [OF assms(1)])

lemma mp_can_act:
  assumes good: "mp_good num c" and N: "num \<le> Max_Threads" and t: "t < 2 * num"
    and stuck: "\<forall>c'. \<not> mp_step api num c c'"
  shows "mpc (loc c t) = (if t < num then C_exit 0 else P_exit 0)
    \<or> t < num \<and> mpc (loc c t) = C_empty \<and> sval (world c) M_empty = 0
    \<or> \<not> t < num \<and> mpc (loc c t) = P_full \<and> sval (world c) M_full = 0
    \<or> mpc (loc c t) \<in> {C_lock, P_lock} \<and> sval (world c) M_lock = 0"
proof -
  have okw: "ok UNIV (world c)" and inv: "mp_inv num (sval (world c)) (loc c) (glob c)" using good by auto
  note b = mp_bound [OF inv N]
  have i: "mp_pc_ok num t (loc c t)" "m_in (glob c) < length (mbuffer (glob c))" "m_out (glob c) < length (mbuffer (glob c))"
    using inv t by (auto simp: mp_inv_def mp_sems_def mp_log_def Let_def)
  have no: "\<nexists>l g w. mp_prog api num t (loc c t) (glob c) (world c) = Ret (l, g, w)"
    using interleaveI [OF t, of "mp_prog api num" c] stuck by blast
  show ?thesis
  proof (cases "t < num")
    case True
    with no have "\<nexists>l g w. mp_consumer api t (loc c t) (glob c) (world c) = Ret (l, g, w)" by (simp add: mp_prog_def)
    with mp_consumer_acts [OF okw b i(3), of "loc c t" t]
    have "\<not> (mpc (loc c t) \<in> {C_empty, C_lock, C_buffer, C_index, C_unlock, C_full, C_value}
        \<and> (mpc (loc c t) = C_empty \<longrightarrow> 0 < sval (world c) M_empty) \<and> (mpc (loc c t) = C_lock \<longrightarrow> 0 < sval (world c) M_lock))"
      by blast
    then show ?thesis using i(1) True by (auto simp: mp_pc_ok_def)
  next
    case False
    with no have "\<nexists>l g w. mp_producer api (t - num) (loc c t) (glob c) (world c) = Ret (l, g, w)" by (simp add: mp_prog_def)
    with mp_producer_acts [OF okw b i(2), of "loc c t" "t - num"]
    have "\<not> (mpc (loc c t) \<in> {P_for, P_full, P_value, P_lock, P_buffer, P_index, P_unlock, P_empty}
        \<and> (mpc (loc c t) = P_full \<longrightarrow> 0 < sval (world c) M_full) \<and> (mpc (loc c t) = P_lock \<longrightarrow> 0 < sval (world c) M_lock))"
      by blast
    then show ?thesis using i(1) False by (auto simp: mp_pc_ok_def)
  qed
qed

lemma mp_end:
  assumes good: "mp_good num c" and N: "num \<le> Max_Threads" and stuck: "\<forall>c'. \<not> mp_step api num c c'"
  shows "\<forall>t < 2 * num. mpc (loc c t) = (if t < num then C_exit 0 else P_exit 0)"
    and "mtaken (mprinted (glob c)) = map snd (madded (mprinted (glob c)))"
proof -
  let ?v = "sval (world c)" and ?L = "loc c" and ?n = "2 * num"
  let ?xs = "madded (mprinted (glob c))" and ?ys = "mtaken (mprinted (glob c))"
  have s: "mp_sems num ?v ?L (length ?xs) (length ?ys)" and lg: "mp_log num ?L (glob c)" using good by (auto simp: mp_inv_def)
  note can = mp_can_act [OF good N _ stuck]
  have free: "?v M_lock \<noteq> 0"
  proof
    assume "?v M_lock = 0"
    then have "0 < tot ?n lk ?L" using s by (simp add: mp_sems_def)
    then obtain t where t: "t < ?n" "0 < lk (?L t)" unfolding tot_def using sum_pos_ex by blast
    then show False using can [OF t(1)] by (auto simp: lk_def split: if_splits)
  qed
  have pos: "mpc (?L t) = (if t < num then C_exit 0 else P_exit 0) \<or> t < num \<and> mpc (?L t) = C_empty \<and> ?v M_empty = 0
      \<or> \<not> t < num \<and> mpc (?L t) = P_full \<and> ?v M_full = 0" if "t < ?n" for t using can [OF that] free by blast
  have z: "tot ?n to_write ?L = 0" "tot ?n to_free ?L = 0" "tot ?n to_read ?L = 0" "tot ?n to_fill ?L = 0"
    by (rule tot_zero, use pos in \<open>fastforce simp: mp_counts split: if_splits\<close>)+
  have sem: "?v M_full + length ?xs = M_BUF_SIZE + length ?ys" "?v M_empty + length ?ys = length ?xs"
    using s z by (simp_all add: mp_sems_def)
  let ?kp = "\<lambda>t. if t < num then 0 else 1 :: nat" and ?kc = "\<lambda>t. if t < num then 1 else 0 :: nat"
  have kp: "p_fin (?L t) \<le> ?kp t" and kc: "c_fin (?L t) \<le> ?kc t" if "t < ?n" for t
    using pos [OF that] by (auto simp: mp_counts split: if_splits)
  have pre: "?ys = take (length ?ys) (map snd ?xs)" and cp: "count_list (map snd ?xs) (- 1) = tot ?n p_fin ?L"
    and cc: "count_list ?ys (- 1) = tot ?n c_fin ?L" using lg by (simp_all add: mp_log_def Let_def)
  have producers: "mpc (?L t) = P_exit 0" if t: "t < ?n" "\<not> t < num" for t
  proof (rule ccontr)
    assume "mpc (?L t) \<noteq> P_exit 0"
    with pos [OF t(1)] t(2) have f: "mpc (?L t) = P_full" "?v M_full = 0" by auto
    then have "tot ?n p_fin ?L < num" using tot_less [of ?n p_fin ?L ?kp t] kp t by (simp add: sum_kinds mp_counts)
    moreover have "?v M_empty \<noteq> 0" using f(2) sem by (simp add: M_BUF_SIZE_def)
    then have "mpc (?L t) = C_exit 0" if "t < num" for t using pos [of t] that by auto
    then have "\<forall>t < num. c_fin (?L t) = 1" by (simp add: c_fin_def)
    then have "(\<Sum>t<?n. ?kc t) \<le> tot ?n c_fin ?L" unfolding tot_def by (intro sum_mono) simp
    ultimately show False using cp cc count_list_take [of "length ?ys" "map snd ?xs" "- 1"] pre by (simp add: sum_kinds)
  qed
  then have pfin: "tot ?n p_fin ?L = num"
  proof -
    have "tot ?n p_fin ?L = (\<Sum>t<?n. ?kp t)"
      by (rule tot_eq) (use producers kp in \<open>fastforce simp: p_fin_def\<close>)
    then show ?thesis by (simp add: sum_kinds)
  qed
  have consumers: "mpc (?L t) = C_exit 0" if t: "t < num" for t
  proof (rule ccontr)
    assume "mpc (?L t) \<noteq> C_exit 0"
    with pos [of t] t have f: "mpc (?L t) = C_empty" "?v M_empty = 0" by auto
    then have "tot ?n c_fin ?L < num" using tot_less [of ?n c_fin ?L ?kc t] kc t by (simp add: sum_kinds mp_counts)
    moreover have "?ys = map snd ?xs" using f(2) sem(2) pre by simp
    ultimately show False using cp cc pfin by simp
  qed
  show "\<forall>t < 2 * num. mpc (loc c t) = (if t < num then C_exit 0 else P_exit 0)" using producers consumers by simp
  show "mtaken (mprinted (glob c)) = map snd (madded (mprinted (glob c)))"
  proof (rule ccontr)
    assume ne: "?ys \<noteq> map snd ?xs"
    then have lt: "length ?ys < length ?xs" using pre sem(2) by (metis le_add2 le_neq_implies_less length_map take_all_iff order_refl)
    have "count_list (take (length ?ys) (map snd ?xs)) (- 1) < count_list (map snd ?xs) (- 1)"
      by (rule last_is_sentinel [OF s lg _ lt]) (rule producers)
    then have "count_list ?ys (- 1) < count_list (map snd ?xs) (- 1)" by (simp only: pre [symmetric])
    moreover have "tot ?n c_fin ?L = num"
    proof -
      have "c_fin (?L t) = ?kc t" if "t < ?n" for t
        using consumers [of t] producers [OF that] by (cases "t < num") (simp_all add: c_fin_def to_free_def)
      then have "tot ?n c_fin ?L = (\<Sum>t<?n. ?kc t)" by (rule tot_eq)
      then show ?thesis by (simp add: sum_kinds)
    qed
    ultimately show False using cp cc pfin by simp
  qed
qed

lemma mp_start_inv:
  assumes "sval w M_full = M_BUF_SIZE" and "sval w M_empty = 0" and "sval w M_lock = 1" and "length junk = M_BUF_SIZE"
  shows "mp_inv num (sval (world (mp_start num junk w))) (loc (mp_start num junk w)) (glob (mp_start num junk w))"
proof -
  have "tot (2 * num) f (\<lambda>t. \<lparr>mpc = if t < num then C_empty else P_for, mi = 0, mdata = 0\<rparr>) = 0"
    if "f \<in> {lk, to_write, to_fill, to_read, to_free, p_idx, c_idx, made, p_fin, c_fin}" for f
    using that by (intro tot_zero) (auto simp: mp_counts)
  then show ?thesis using assms
    by (simp add: mp_inv_def mp_sems_def mp_log_def mp_start_def mp_pc_ok_def Let_def added_by_def mp_counts(3,8)
        M_BUF_SIZE_def M_Max_Num_def)
qed

lemma mp_main_starts:
  assumes "ok {} w" and "length junk = M_BUF_SIZE" and "argv = [prog, arg]" and "atoi arg = Ret n" and "0 < n"
    and "num = (if n > int Max_Threads then Max_Threads else nat n)"
  shows "\<exists>w'. mp_main api junk argv w = Ret (Inr (num, mp_start num junk w')) \<and> mp_good num (mp_start num junk w')"
proof -
  have m: "unat (of_nat M_BUF_SIZE :: 32 word) = M_BUF_SIZE" "M_BUF_SIZE \<le> maxval" "1 \<le> maxval"
    using maxval_posix by (simp_all add: M_BUF_SIZE_def)
  from init_sets [OF assms(1), of M_full "of_nat M_BUF_SIZE"] m obtain w1 where
    1: "a_init api M_full 1 (of_nat M_BUF_SIZE) w = Ret (0, w1)" "ok {M_full} w1" "sval w1 M_full = M_BUF_SIZE"
    by (auto simp: upd_on_def)
  from init_sets [OF 1(2), of M_empty 0] 1(3) obtain w2 where
    2: "a_init api M_empty 1 0 w1 = Ret (0, w2)" "ok {M_empty, M_full} w2" "sval w2 M_full = M_BUF_SIZE" "sval w2 M_empty = 0"
    by (auto simp: upd_on_def)
  from init_sets [OF 2(2), of M_lock 1] 2(3,4) m(3) obtain w3 where
    3: "a_init api M_lock 1 1 w2 = Ret (0, w3)" "ok {M_lock, M_empty, M_full} w3" "sval w3 M_full = M_BUF_SIZE"
    "sval w3 M_empty = 0" "sval w3 M_lock = 1"
    by (auto simp: upd_on_def)
  have "{M_lock, M_empty, M_full} = UNIV" using mp_sem.exhaust by blast
  with 3(2) have "ok UNIV w3" by simp
  moreover have "mp_main api junk argv w = Ret (Inr (num, mp_start num junk w3))"
    using 1 2(1) 3(1) getvalue_reads [OF 1(2), of M_full] assms(3-6) by (simp add: mp_main_def Let_def)
  ultimately show ?thesis using mp_start_inv [OF 3(3-5) assms(2), of num] by (auto simp: mp_start_def)
qed

end

section \<open>Properties\<close>

lemma mp_reachable_good:
  assumes "mp_client api ok sval maxval" and "num \<le> Max_Threads"
    and "mp_inv num (sval (world c0)) (loc c0) (glob c0) \<and> ok UNIV (world c0)" and "reachable_from (mp_step api num) c0 c"
  shows "mp_inv num (sval (world c)) (loc c) (glob c) \<and> ok UNIV (world c)"
  using assms(4,3) by (rule reachable_invariant) (rule mp_client.mp_step_inv [OF assms(1,2)])

text \<open>C12 Many producers and consumers: started with a number of threads in its argument, the program over
  any store of counting semaphores has no infinite run, and whenever no thread can act all threads have
  ended with 0, every producer has added its four values and its -1 in order, and the values taken are
  exactly the values added, in the same order: there is no deadlock and no consumer is left waiting.\<close>

theorem multi_con_pro_completes:
  assumes store: "sem_store api ok sval maxval UNIV" and "ok {} w" and "length junk = M_BUF_SIZE"
    and "atoi arg = Ret n" and "0 < n" and num: "num = (if n > int Max_Threads then Max_Threads else nat n)"
  shows "\<exists>c0. mp_main api junk [prog, arg] w = Ret (Inr (num, c0))
     \<and> \<not> infinite_run (mp_step api num) c0
     \<and> (\<forall>c. reachable_from (mp_step api num) c0 c \<and> (\<forall>c'. \<not> mp_step api num c c')
          \<longrightarrow> (\<forall>t < 2 * num. mpc (loc c t) = (if t < num then C_exit 0 else P_exit 0))
             \<and> (\<forall>j < num. added_by j (madded (mprinted (glob c))) = map (mp_item j) [0..<M_Max_Num])
             \<and> mtaken (mprinted (glob c)) = map snd (madded (mprinted (glob c))))"
proof -
  have cl: "mp_client api ok sval maxval" using store by (simp add: mp_client_def)
  have N: "num \<le> Max_Threads" using num by auto
  let ?good = "\<lambda>c. mp_inv num (sval (world c)) (loc c) (glob c) \<and> ok UNIV (world c)"
  from mp_client.mp_main_starts [OF cl assms(2,3) refl assms(4-6)] obtain c0 where
    c0: "mp_main api junk [prog, arg] w = Ret (Inr (num, c0))" "?good c0" by blast
  have "\<not> infinite_run (mp_step api num) c0"
    by (rule no_infinite_run [where I = ?good and m = "mp_left num"])
       (use c0(2) mp_client.mp_step_inv [OF cl N] mp_client.mp_step_left [OF cl N] in blast)+
  moreover have "(\<forall>t < 2 * num. mpc (loc c t) = (if t < num then C_exit 0 else P_exit 0))
      \<and> (\<forall>j < num. added_by j (madded (mprinted (glob c))) = map (mp_item j) [0..<M_Max_Num])
      \<and> mtaken (mprinted (glob c)) = map snd (madded (mprinted (glob c)))"
    if "reachable_from (mp_step api num) c0 c" "\<forall>c'. \<not> mp_step api num c c'" for c
  proof -
    have g: "?good c" using mp_reachable_good [OF cl N c0(2) that(1)] .
    note e = mp_client.mp_end [OF cl g N that(2)]
    have "made (loc c (num + j)) = M_Max_Num" if "j < num" for j
      using g e(1) that by (auto simp: mp_inv_def mp_sems_def mp_pc_ok_def mp_counts M_Max_Num_def)
    then show ?thesis using e g by (simp add: mp_inv_def mp_log_def Let_def)
  qed
  ultimately show ?thesis using c0(1) by blast
qed

theorem multi_con_pro_completes_witness:
  "\<exists>c0. mp_main plain_api [7, 7, 7, 7, 7] [''multi_con_pro'', ''200''] Map.empty = Ret (Inr (127, c0))
     \<and> \<not> infinite_run (mp_step plain_api 127) c0"
proof -
  have "atoi ''200'' = Ret 200" by code_simp
  from multi_con_pro_completes [OF plain.sem_store_axioms _ _ this, of Map.empty "[7, 7, 7, 7, 7]" 127 "''multi_con_pro''"]
  show ?thesis by (auto simp: M_BUF_SIZE_def Max_Threads_def)
qed

end
