(* ===== verification/Sem_Clients.thy ===== *)
theory Sem_Clients
  imports Sem_Conpro Sem_Philosopher Sem_Readerwriter Sem_Sleepingbarber Multi_Con_Pro
begin

text \<open>
  The philosophers, the readers and writers, the barber and the many producers and consumers on the
  semaphores of \<^verbatim>\<open>posix1b/semaphore.c\<close>: their client locales interpreted on \<open>posix1b_api\<close>, with the
  objects at fixed addresses. For the barber this covers its threads once started with semaphores
  that were initialised as shared; its own \<open>main\<close> initialises them as private, which
  \<^verbatim>\<open>posix1b/semaphore.c\<close> does not keep apart (\<open>private_semaphores_alias\<close>).
\<close>

fun rw_addr :: "rw_sem \<Rightarrow> nat" where
  "rw_addr R_lock = 100"
| "rw_addr W_lock = 200"

lemma rw_addr_inj: "inj rw_addr"
proof (rule injI)
  fix x y show "rw_addr x = rw_addr y \<Longrightarrow> x = y" by (cases x; cases y) auto
qed

lemma UNIV_rw_sem: "UNIV = {R_lock, W_lock}"
  using rw_sem.exhaust by blast

interpretation rw_posix1b: rw_client "posix1b_api 3 (ref_sem_os r) rw_addr"
  "posix1b_ok ref_svals kkey ref_live rw_addr UNIV" "posix1b_val 3 (ref_sem_os r) ref_svals rw_addr" 32767 for r
  unfolding rw_client_def
  using rw_addr_inj by (intro ref_sem.posix1b_store) (auto simp: UNIV_rw_sem)

fun ph_addr :: "ph_sem \<Rightarrow> nat" where
  "ph_addr (Ph n) = 100 + n"
| "ph_addr Ph_lock = 50"

lemma ph_addr_inj: "inj_on ph_addr ph_sems"
proof (rule inj_onI)
  fix x y show "ph_addr x = ph_addr y \<Longrightarrow> x = y" by (cases x; cases y) auto
qed

lemma ph_sems_finite: "finite ph_sems" "card ph_sems = 6"
proof -
  show "finite ph_sems" by (simp add: ph_sems_def)
  have "card (Ph ` {..<PH_NUM}) = 5" by (simp add: card_image inj_on_def PH_NUM_def)
  moreover have "Ph_lock \<notin> Ph ` {..<PH_NUM}" by auto
  ultimately show "card ph_sems = 6" by (simp add: ph_sems_def)
qed

interpretation ph_posix1b: ph_client "posix1b_api 7 (ref_sem_os r) ph_addr"
  "posix1b_ok ref_svals kkey ref_live ph_addr ph_sems" "posix1b_val 7 (ref_sem_os r) ref_svals ph_addr" 32767 for r
  unfolding ph_client_def
  using ph_addr_inj ph_sems_finite
  by (intro ref_sem.posix1b_store) (auto simp: ph_sems_def PH_NUM_def)

fun bb_addr :: "bb_sem \<Rightarrow> nat" where
  "bb_addr B_customer = 100"
| "bb_addr B_barber = 200"
| "bb_addr B_lock = 300"
| "bb_addr B_print = 400"

lemma bb_addr_inj: "inj bb_addr"
proof (rule injI)
  fix x y show "bb_addr x = bb_addr y \<Longrightarrow> x = y" by (cases x; cases y) auto
qed

lemma bb_addr_range: "0 < bb_addr n \<and> int (bb_addr n) < 2147483648"
  by (cases n) auto

lemma UNIV_bb_sem: "UNIV = {B_customer, B_barber, B_lock, B_print}"
  using bb_sem.exhaust by blast

interpretation bb_posix1b: bb_client "posix1b_api 5 (ref_sem_os r) bb_addr"
  "posix1b_ok ref_svals kkey ref_live bb_addr UNIV" "posix1b_val 5 (ref_sem_os r) ref_svals bb_addr" 32767 for r
  unfolding bb_client_def
  using bb_addr_inj bb_addr_range by (intro ref_sem.posix1b_store) (auto simp: UNIV_bb_sem)

fun mp_addr :: "mp_sem \<Rightarrow> nat" where
  "mp_addr M_full = 100"
| "mp_addr M_empty = 200"
| "mp_addr M_lock = 300"

lemma mp_addr_inj: "inj mp_addr"
proof (rule injI)
  fix x y show "mp_addr x = mp_addr y \<Longrightarrow> x = y" by (cases x; cases y) auto
qed

lemma mp_addr_range: "0 < mp_addr n \<and> int (mp_addr n) < 2147483648"
  by (cases n) auto

lemma UNIV_mp_sem: "UNIV = {M_full, M_empty, M_lock}"
  using mp_sem.exhaust by blast

interpretation mp_posix1b: mp_client "posix1b_api 4 (ref_sem_os r) mp_addr"
  "posix1b_ok ref_svals kkey ref_live mp_addr UNIV" "posix1b_val 4 (ref_sem_os r) ref_svals mp_addr" 32767 for r
  unfolding mp_client_def
  using mp_addr_inj mp_addr_range by (intro ref_sem.posix1b_store) (auto simp: UNIV_mp_sem)

end
