(* ===== verification/Sem_Tests.thy ===== *)
theory Sem_Tests
  imports Sem_Props
begin

text \<open>
  Conformance programs for semaphores, \<^verbatim>\<open>conformance/interfaces/sem_*/*.c\<close>. Each \<open>main\<close> is a
  function of the system under test (the record \<open>sem_sys\<close> of its semaphore calls), the process
  identifier and the state of the system; the result is the code \<open>main\<close> returns. \<open>sem_open\<close>
  gives \<open>None\<close> for \<^verbatim>\<open>SEM_FAILED\<close> and an address otherwise, 0 being \<^verbatim>\<open>NULL\<close>; passing
  \<^verbatim>\<open>SEM_FAILED\<close> on to another call is \<open>Fault\<close>, for it addresses no object. Printing is left
  out. The name of the semaphore is written by \<^verbatim>\<open>sprintf\<close> into an array of the program's size;
  writing past its end is \<open>Fault\<close>.
\<close>

section \<open>The system under test\<close>

record 'w sem_sys =
  s_open :: "string \<Rightarrow> flags \<Rightarrow> flags \<Rightarrow> int \<Rightarrow> 'w \<Rightarrow> (nat option \<times> 'w) outcome"
  s_close :: "nat \<Rightarrow> 'w \<Rightarrow> (int \<times> 'w) outcome"
  s_unlink :: "string \<Rightarrow> 'w \<Rightarrow> (int \<times> 'w) outcome"
  s_init :: "nat \<Rightarrow> int \<Rightarrow> 32 word \<Rightarrow> 'w \<Rightarrow> (int \<times> 'w) outcome"
  s_destroy :: "nat \<Rightarrow> 'w \<Rightarrow> (int \<times> 'w) outcome"
  s_post :: "nat \<Rightarrow> 'w \<Rightarrow> (int \<times> 'w) outcome"
  s_wait :: "nat \<Rightarrow> 'w \<Rightarrow> (int \<times> 'w) outcome"
  s_trywait :: "nat \<Rightarrow> 'w \<Rightarrow> (int \<times> 'w) outcome"
  s_getvalue :: "nat \<Rightarrow> 'w \<Rightarrow> (int \<times> int option \<times> 'w) outcome"
  s_errno :: "'w \<Rightarrow> errno"

definition posix1b_sys :: "nat \<Rightarrow> ('k, 'z) sem_os_scheme \<Rightarrow> 'k sstate sem_sys" where
  "posix1b_sys fuel os =
     \<lparr>s_open = (\<lambda>name. sem_open fuel os (Some name)), s_close = sem_close fuel os, s_unlink = sem_unlink os,
      s_init = sem_init os, s_destroy = sem_destroy fuel os, s_post = sem_post fuel os,
      s_wait = sem_wait fuel os, s_trywait = sem_trywait fuel os,
      s_getvalue = (\<lambda>p. sem_getvalue fuel os p (Some 0)), s_errno = serrno\<rparr>"

section \<open>Idioms of the programs\<close>

text \<open>The name in an array of \<open>bufsize\<close> characters.\<close>

definition semname :: "nat \<Rightarrow> string \<Rightarrow> nat \<Rightarrow> string outcome" where
  "semname bufsize prefix pid =
     (if bufsize \<le> length (prefix @ digits pid) then Fault else Ret (prefix @ digits pid))"

text \<open>\<^verbatim>\<open>if (mysemp == SEM_FAILED || mysemp == NULL) return PTS_UNRESOLVED\<close>, without the second
  test in \<open>not_failed\<close>; \<^verbatim>\<open>if (call == -1) return PTS_UNRESOLVED\<close>; reading the value with the
  test \<^verbatim>\<open>== -1\<close> or \<^verbatim>\<open>< 0\<close>; and calls whose results are ignored.\<close>

definition opened_sem :: "(nat option \<times> 'w) outcome \<Rightarrow> (nat \<Rightarrow> 'w \<Rightarrow> int outcome) \<Rightarrow> int outcome" where
  "opened_sem r k = obind r (\<lambda>(p, w). case p of None \<Rightarrow> Ret PTS_UNRESOLVED
     | Some q \<Rightarrow> if q = 0 then Ret PTS_UNRESOLVED else k q w)"

definition not_failed :: "(nat option \<times> 'w) outcome \<Rightarrow> (nat \<Rightarrow> 'w \<Rightarrow> int outcome) \<Rightarrow> int outcome" where
  "not_failed r k = obind r (\<lambda>(p, w). case p of None \<Rightarrow> Ret PTS_UNRESOLVED | Some q \<Rightarrow> k q w)"

definition resolved :: "(int \<times> 'w) outcome \<Rightarrow> ('w \<Rightarrow> int outcome) \<Rightarrow> int outcome" where
  "resolved r k = obind r (\<lambda>(rc, w). if rc = - 1 then Ret PTS_UNRESOLVED else k w)"

definition got_value :: "(int \<times> int option \<times> 'w) outcome \<Rightarrow> (int \<Rightarrow> 'w \<Rightarrow> int outcome) \<Rightarrow> int outcome" where
  "got_value r k = obind r (\<lambda>(rc, v, w). if rc = - 1 then Ret PTS_UNRESOLVED
     else case v of None \<Rightarrow> Fault | Some x \<Rightarrow> k x w)"

definition got_value0 :: "(int \<times> int option \<times> 'w) outcome \<Rightarrow> (int \<Rightarrow> 'w \<Rightarrow> int outcome) \<Rightarrow> int outcome" where
  "got_value0 r k = obind r (\<lambda>(rc, v, w). if rc < 0 then Ret PTS_UNRESOLVED
     else case v of None \<Rightarrow> Fault | Some x \<Rightarrow> k x w)"

definition ignored :: "(int \<times> 'w) outcome \<Rightarrow> ('w \<Rightarrow> int outcome) \<Rightarrow> int outcome" where
  "ignored r k = obind r (\<lambda>(_, w). k w)"

definition close_unlink :: "'w sem_sys \<Rightarrow> nat \<Rightarrow> string \<Rightarrow> 'w \<Rightarrow> int outcome" where
  "close_unlink sys p name w = ignored (s_close sys p w) (\<lambda>w. ignored (s_unlink sys name w) (\<lambda>w. Ret PTS_PASS))"

definition unlink_close :: "'w sem_sys \<Rightarrow> nat \<Rightarrow> string \<Rightarrow> 'w \<Rightarrow> int outcome" where
  "unlink_close sys p name w = ignored (s_unlink sys name w) (\<lambda>w. ignored (s_close sys p w) (\<lambda>w. Ret PTS_PASS))"

definition unlink_pass :: "'w sem_sys \<Rightarrow> string \<Rightarrow> 'w \<Rightarrow> int outcome" where
  "unlink_pass sys name w = ignored (s_unlink sys name w) (\<lambda>w. Ret PTS_PASS)"

lemmas test_idioms = opened_sem_def not_failed_def resolved_def got_value_def got_value0_def
  ignored_def close_unlink_def unlink_close_def unlink_pass_def

type_synonym 'w test = "'w sem_sys \<Rightarrow> nat \<Rightarrow> 'w \<Rightarrow> int outcome"

section \<open>sem_post\<close>

definition sem_post_1_1 :: "'w test" where
  "sem_post_1_1 sys pid w =
     obind (semname 20 ''/sem_post_1-1_'' pid) (\<lambda>name.
     opened_sem (s_open sys name O_CREAT 511 0 w) (\<lambda>mysemp w.
     resolved (s_post sys mysemp w) (\<lambda>w.
     got_value (s_getvalue sys mysemp w) (\<lambda>val w.
       if val = 1 then close_unlink sys mysemp name w else Ret PTS_FAIL))))"

definition sem_post_1_2 :: "'w test" where
  "sem_post_1_2 sys pid w =
     obind (semname 20 ''/sem_post_1-2_'' pid) (\<lambda>name.
     opened_sem (s_open sys name O_CREAT 511 2 w) (\<lambda>mysemp w.
     resolved (s_post sys mysemp w) (\<lambda>w.
     got_value (s_getvalue sys mysemp w) (\<lambda>val w.
       if val = 3 then close_unlink sys mysemp name w else Ret PTS_FAIL))))"

definition sem_post_2_1 :: "'w test" where
  "sem_post_2_1 sys pid w =
     obind (semname 20 ''/sem_post_2-1_'' pid) (\<lambda>name.
     opened_sem (s_open sys name O_CREAT 511 1 w) (\<lambda>mysemp w.
     resolved (s_wait sys mysemp w) (\<lambda>w.
     obind (s_post sys mysemp w) (\<lambda>(rc, w).
       if rc = 0 then close_unlink sys mysemp name w else Ret PTS_FAIL))))"

definition sem_post_4_1 :: "'w test" where
  "sem_post_4_1 sys pid w =
     obind (semname 20 ''/sem_post_4-1_'' pid) (\<lambda>name.
     opened_sem (s_open sys name O_CREAT 511 0 w) (\<lambda>mysemp w.
     obind (s_post sys mysemp w) (\<lambda>(rc, w).
       if rc = 0 then close_unlink sys mysemp name w else Ret PTS_FAIL)))"

section \<open>sem_wait and sem_trywait\<close>

definition sem_wait_1_1 :: "'w test" where
  "sem_wait_1_1 sys pid w =
     obind (semname 20 ''/sem_wait_1-1_'' pid) (\<lambda>name.
     opened_sem (s_open sys name O_CREAT 511 1 w) (\<lambda>mysemp w.
     resolved (s_wait sys mysemp w) (\<lambda>w.
     got_value (s_getvalue sys mysemp w) (\<lambda>val w.
       if val = 0 then close_unlink sys mysemp name w else Ret PTS_FAIL))))"

text \<open>The loop \<^verbatim>\<open>while (value) { if (sem_wait(mysemp) == -1) ... else value--; }\<close>.\<close>

fun wait_times :: "nat \<Rightarrow> 'w sem_sys \<Rightarrow> nat \<Rightarrow> ('w \<Rightarrow> int outcome) \<Rightarrow> 'w \<Rightarrow> int outcome" where
  "wait_times 0 sys mysemp k w = k w"
| "wait_times (Suc n) sys mysemp k w = resolved (s_wait sys mysemp w) (wait_times n sys mysemp k)"

definition sem_wait_1_2 :: "'w test" where
  "sem_wait_1_2 sys pid w =
     obind (semname 20 ''/sem_wait_2-1_'' pid) (\<lambda>name.
     opened_sem (s_open sys name O_CREAT 511 10 w) (\<lambda>mysemp w.
     wait_times 10 sys mysemp (\<lambda>w.
     got_value (s_getvalue sys mysemp w) (\<lambda>val w.
       if val = 0 then unlink_close sys mysemp name w else Ret PTS_FAIL)) w))"

definition sem_wait_3_1 :: "'w test" where
  "sem_wait_3_1 sys pid w =
     obind (semname 20 ''/sem_wait_3-1_'' pid) (\<lambda>name.
     opened_sem (s_open sys name O_CREAT 0 1 w) (\<lambda>mysemp w.
     resolved (s_wait sys mysemp w) (\<lambda>w.
     resolved (s_post sys mysemp w) (\<lambda>w.
     got_value0 (s_getvalue sys mysemp w) (\<lambda>val w.
       if val = 1 then unlink_close sys mysemp name w else Ret PTS_FAIL)))))"

definition sem_wait_5_1 :: "'w test" where
  "sem_wait_5_1 sys pid w =
     obind (semname 20 ''/sem_trywait_5-1_'' pid) (\<lambda>name.
     opened_sem (s_open sys name O_CREAT 511 0 w) (\<lambda>mysemp w.
     obind (s_trywait sys mysemp w) (\<lambda>(rc, w).
       if rc = - 1 \<and> s_errno sys w = EAGAIN then close_unlink sys mysemp name w else Ret PTS_FAIL)))"

definition sem_wait_11_1 :: "'w test" where
  "sem_wait_11_1 sys pid w =
     obind (semname 20 ''/sem_trywait_11-1_'' pid) (\<lambda>name.
     opened_sem (s_open sys name O_CREAT 511 1 w) (\<lambda>mysemp w.
     resolved (s_trywait sys mysemp w) (\<lambda>w.
     got_value (s_getvalue sys mysemp w) (\<lambda>val w.
       if val = 0 then unlink_close sys mysemp name w else Ret PTS_FAIL))))"

definition sem_wait_12_1 :: "'w test" where
  "sem_wait_12_1 sys pid w =
     obind (semname 20 ''/sem_trywait_12-1_'' pid) (\<lambda>name.
     opened_sem (s_open sys name O_CREAT 511 0 w) (\<lambda>mysemp w.
     obind (s_trywait sys mysemp w) (\<lambda>(rc, w).
       if rc = - 1 then unlink_close sys mysemp name w else Ret PTS_FAIL)))"

section \<open>sem_getvalue\<close>

definition sem_getvalue_1_1 :: "'w test" where
  "sem_getvalue_1_1 sys pid w =
     obind (semname 20 ''/sem_getvalue_1-1_'' pid) (\<lambda>name.
     opened_sem (s_open sys name O_CREAT 511 1 w) (\<lambda>mysemp w.
     got_value (s_getvalue sys mysemp w) (\<lambda>val w.
       if val = 1 then close_unlink sys mysemp name w else Ret PTS_FAIL)))"

definition sem_getvalue_2_1 :: "'w test" where
  "sem_getvalue_2_1 sys pid w =
     obind (semname 20 ''/sem_getvalue_2-1_'' pid) (\<lambda>name.
     opened_sem (s_open sys name O_CREAT 511 1 w) (\<lambda>mysemp w.
     resolved (s_trywait sys mysemp w) (\<lambda>w.
     got_value0 (s_getvalue sys mysemp w) (\<lambda>val w.
       if val \<le> 0 then close_unlink sys mysemp name w else Ret PTS_FAIL))))"

definition sem_getvalue_4_1 :: "'w test" where
  "sem_getvalue_4_1 sys pid w =
     obind (semname 20 ''/sem_getvalue_4-1_'' pid) (\<lambda>name.
     opened_sem (s_open sys name O_CREAT 511 1 w) (\<lambda>mysemp w.
     obind (s_getvalue sys mysemp w) (\<lambda>(rc, val, w).
       if rc \<noteq> 0 then Ret PTS_FAIL else close_unlink sys mysemp name w)))"

definition sem_getvalue_5_1 :: "'w test" where
  "sem_getvalue_5_1 sys pid w =
     obind (semname 20 ''/sem_getvalue_5-1_'' pid) (\<lambda>name.
     opened_sem (s_open sys name O_CREAT 511 4 w) (\<lambda>mysemp w.
     got_value (s_getvalue sys mysemp w) (\<lambda>val w.
     resolved (s_trywait sys mysemp w) (\<lambda>w.
     got_value (s_getvalue sys mysemp w) (\<lambda>val w.
       if val = 3 then close_unlink sys mysemp name w else Ret PTS_FAIL)))))"

section \<open>sem_open\<close>

definition sem_open_1_1 :: "'w test" where
  "sem_open_1_1 sys pid w =
     obind (semname 50 ''/sem_open_1-1_'' pid) (\<lambda>name.
     obind (s_open sys name O_CREAT 511 1 w) (\<lambda>(p, w).
       case p of None \<Rightarrow> Ret PTS_FAIL
       | Some mysemp \<Rightarrow> if mysemp = 0 then Ret PTS_FAIL else close_unlink sys mysemp name w))"

text \<open>The condition of \<^verbatim>\<open>sem_open/1-2.c\<close> is \<^verbatim>\<open>&mysemp != NULL\<close>, the address of the local variable,
  which is never null: the result of \<open>sem_open\<close> is not tested.\<close>

definition sem_open_1_2 :: "'w test" where
  "sem_open_1_2 sys pid w =
     obind (semname 50 ''/sem_open_1-2_'' pid) (\<lambda>name.
     obind (s_open sys name O_CREAT 511 1 w) (\<lambda>(p, w).
       case p of None \<Rightarrow> Fault | Some mysemp \<Rightarrow> close_unlink sys mysemp name w))"

definition sem_open_1_3 :: "'w test" where
  "sem_open_1_3 sys pid w =
     obind (semname 50 ''/sem_open_1-3_'' pid) (\<lambda>name.
     opened_sem (s_open sys name O_CREAT 511 1 w) (\<lambda>mysemp w.
     obind (s_wait sys mysemp w) (\<lambda>(lock_status, w).
       if lock_status = 0 then close_unlink sys mysemp name w else Ret PTS_FAIL)))"

definition sem_open_1_4 :: "'w test" where
  "sem_open_1_4 sys pid w =
     obind (semname 20 ''/sem_open_1-4_'' pid) (\<lambda>name.
     opened_sem (s_open sys name O_CREAT 511 1 w) (\<lambda>mysemp w.
     obind (s_post sys mysemp w) (\<lambda>(rc, w).
       if rc = 0 then close_unlink sys mysemp name w else Ret PTS_FAIL)))"

definition sem_open_2_1 :: "'w test" where
  "sem_open_2_1 sys pid w =
     obind (semname 50 ''/sem_open_2-1_'' pid) (\<lambda>name.
     not_failed (s_open sys name O_CREAT 511 0 w) (\<lambda>mysemp w.
     resolved (s_close sys mysemp w) (\<lambda>w.
     obind (s_open sys name (O_CREAT OR O_EXCL) 511 1 w) (\<lambda>(p, w).
       if p = None \<and> s_errno sys w = EEXIST then unlink_pass sys name w else Ret PTS_FAIL))))"

text \<open>\<^verbatim>\<open>sem_open/2-2.c\<close> reads errno after a call that succeeded.\<close>

definition sem_open_2_2 :: "'w test" where
  "sem_open_2_2 sys pid w =
     obind (semname 50 ''/sem_open_2-2_'' pid) (\<lambda>name.
     opened_sem (s_open sys name (O_CREAT OR O_EXCL) 511 1 w) (\<lambda>mysemp w.
     if s_errno sys w \<noteq> EEXIST then unlink_close sys mysemp name w else Ret PTS_FAIL))"

definition sem_open_4_1 :: "'w test" where
  "sem_open_4_1 sys pid w =
     obind (semname 50 ''/sem_open_4-1_'' pid) (\<lambda>name.
     obind (s_open sys name O_CREAT 292 1 w) (\<lambda>(p, w).
     case p of None \<Rightarrow> Fault | Some mysemp \<Rightarrow>
     ignored (s_close sys mysemp w) (\<lambda>w.
     obind (s_open sys name (O_CREAT OR O_EXCL) 292 1 w) (\<lambda>(p, w).
       if p = None \<and> s_errno sys w = EEXIST then unlink_pass sys name w else Ret PTS_FAIL))))"

text \<open>\<^verbatim>\<open>SEM_VALUE_MAX\<close> and \<^verbatim>\<open>INT_MAX\<close> are constants of the system's headers: the first is a
  parameter, stored in an \<^verbatim>\<open>int\<close>.\<close>

definition sem_open_5_1 :: "int \<Rightarrow> 'w test" where
  "sem_open_5_1 SEM_VALUE_MAX sys pid w =
     (let counter = to_int SEM_VALUE_MAX in
      if counter \<ge> 2147483647 then Ret PTS_PASS
      else
        obind (semname 50 ''/sem_open_5-1_'' pid) (\<lambda>name.
        obind (s_open sys name O_CREAT 292 (counter + 1) w) (\<lambda>(p, w).
          if p = None \<and> s_errno sys w = EINVAL then unlink_pass sys name w else Ret PTS_FAIL)))"

text \<open>\<^verbatim>\<open>sem_open(semname, 0)\<close> passes no mode and no value; the model passes 0.\<close>

definition sem_open_6_1 :: "'w test" where
  "sem_open_6_1 sys pid w =
     obind (semname 50 ''/sem_open_6-1_'' pid) (\<lambda>name.
     obind (s_open sys name 0 0 0 w) (\<lambda>(p, w).
       if p = None \<and> s_errno sys w = ENOENT then unlink_pass sys name w else Ret PTS_FAIL))"

definition sem_open_10_1 :: "'w test" where
  "sem_open_10_1 sys pid w =
     obind (semname 50 ''/sem_open_10-1_'' pid) (\<lambda>name.
     not_failed (s_open sys name O_CREAT 511 5 w) (\<lambda>mysemp w.
     resolved (s_wait sys mysemp w) (\<lambda>w.
     not_failed (s_open sys name O_CREAT 511 1 w) (\<lambda>mysemp w.
     got_value (s_getvalue sys mysemp w) (\<lambda>val w.
       if val \<noteq> 4 then ignored (s_unlink sys name w) (\<lambda>w. Ret PTS_FAIL) else close_unlink sys mysemp name w)))))"

section \<open>sem_close\<close>

definition sem_close_1_1 :: "'w test" where
  "sem_close_1_1 sys pid w =
     obind (semname 20 ''/sem_close_1-1_'' pid) (\<lambda>name.
     not_failed (s_open sys name O_CREAT 448 1 w) (\<lambda>mysemp w.
     obind (s_close sys mysemp w) (\<lambda>(rc, w).
       if rc = 0 then unlink_pass sys name w else Ret PTS_FAIL)))"

definition sem_close_2_1 :: "'w test" where
  "sem_close_2_1 sys pid w =
     obind (semname 20 ''/sem_close_2-1_'' pid) (\<lambda>name.
     not_failed (s_open sys name O_CREAT 511 1 w) (\<lambda>mysemp w.
     resolved (s_close sys mysemp w) (\<lambda>w.
     not_failed (s_open sys name O_CREAT 511 1 w) (\<lambda>mysemp w.
     obind (s_close sys mysemp w) (\<lambda>(rc, w).
       if rc = 0 then unlink_pass sys name w else Ret PTS_FAIL)))))"

definition sem_close_3_1 :: "'w test" where
  "sem_close_3_1 sys pid w =
     obind (semname 20 ''/sem_close_3-1_'' pid) (\<lambda>name.
     not_failed (s_open sys name O_CREAT 292 1 w) (\<lambda>mysemp w.
     obind (s_unlink sys name w) (\<lambda>(rc, w).
       if rc = 0 then resolved (s_close sys mysemp w) (\<lambda>w. Ret PTS_PASS) else Ret PTS_FAIL)))"

section \<open>sem_unlink\<close>

definition sem_unlink_1_1 :: "'w test" where
  "sem_unlink_1_1 sys pid w =
     obind (semname 20 ''/sem_unlink_1-1_'' pid) (\<lambda>name.
     opened_sem (s_open sys name O_CREAT 0 1 w) (\<lambda>mysemp w.
     obind (s_unlink sys name w) (\<lambda>(rc, w).
       if rc = - 1 then Ret PTS_FAIL else ignored (s_close sys mysemp w) (\<lambda>w. Ret PTS_PASS))))"

definition sem_unlink_2_1 :: "'w test" where
  "sem_unlink_2_1 sys pid w =
     obind (semname 20 ''/sem_unlink_2-1_'' pid) (\<lambda>name.
     opened_sem (s_open sys name O_CREAT 0 1 w) (\<lambda>mysemp w.
     obind (s_unlink sys name w) (\<lambda>(rc, w).
       if rc = 0 then
         obind (s_wait sys mysemp w) (\<lambda>(rc, w).
           if rc = - 1 then Ret PTS_FAIL else ignored (s_close sys mysemp w) (\<lambda>w. Ret PTS_PASS))
       else Ret PTS_FAIL)))"

text \<open>\<^verbatim>\<open>sem_unlink/4-1.c\<close> passes its array \<^verbatim>\<open>semname\<close> without ever writing it: the contents are
  a parameter, \<open>None\<close> when no string ends inside the array.\<close>

definition sem_unlink_4_1 :: "string option \<Rightarrow> 'w sem_sys \<Rightarrow> 'w \<Rightarrow> int outcome" where
  "sem_unlink_4_1 contents sys w =
     (case contents of None \<Rightarrow> Fault | Some name \<Rightarrow>
        obind (s_unlink sys name w) (\<lambda>(_, w).
          if s_errno sys w = ENOENT then Ret PTS_PASS else Ret PTS_FAIL))"

section \<open>sem_init and sem_destroy\<close>

text \<open>The programs for unnamed semaphores take the address of their local \<^verbatim>\<open>sem_t mysemp\<close>.\<close>

type_synonym 'w local_test = "'w sem_sys \<Rightarrow> nat \<Rightarrow> 'w \<Rightarrow> int outcome"

definition destroy_pass :: "'w sem_sys \<Rightarrow> nat \<Rightarrow> 'w \<Rightarrow> int outcome" where
  "destroy_pass sys mysemp w = ignored (s_destroy sys mysemp w) (\<lambda>w. Ret PTS_PASS)"

definition sem_init_1_1 :: "'w local_test" where
  "sem_init_1_1 sys mysemp w =
     obind (s_init sys mysemp 0 1 w) (\<lambda>(sts, w).
     got_value (s_getvalue sys mysemp w) (\<lambda>val w.
       if sts = - 1 \<and> val \<noteq> 1 then Ret PTS_FAIL else destroy_pass sys mysemp w))"

definition sem_init_2_1 :: "'w local_test" where
  "sem_init_2_1 sys mysemp w =
     resolved (s_init sys mysemp 0 1 w) (\<lambda>w.
     resolved (s_trywait sys mysemp w) (\<lambda>w.
     got_value0 (s_getvalue sys mysemp w) (\<lambda>val w.
       if val \<le> 0 then destroy_pass sys mysemp w else Ret PTS_FAIL)))"

definition sem_init_2_2 :: "'w local_test" where
  "sem_init_2_2 sys mysemp w =
     resolved (s_init sys mysemp 0 0 w) (\<lambda>w.
     resolved (s_post sys mysemp w) (\<lambda>w.
     got_value0 (s_getvalue sys mysemp w) (\<lambda>val w.
       if val = 1 then destroy_pass sys mysemp w else Ret PTS_FAIL)))"

definition sem_init_5_1 :: "'w local_test" where
  "sem_init_5_1 sys mysemp w =
     obind (s_init sys mysemp 0 1 w) (\<lambda>(rc, w).
       if rc = - 1 then Ret PTS_FAIL else destroy_pass sys mysemp w)"

definition sem_init_5_2 :: "'w local_test" where
  "sem_init_5_2 sys mysemp w =
     obind (s_init sys mysemp 0 1 w) (\<lambda>(rc, w).
       if rc = 0 then destroy_pass sys mysemp w else Ret PTS_FAIL)"

text \<open>\<^verbatim>\<open>sem_init/6-1.c\<close> ignores the result and reads errno; \<^verbatim>\<open>counter\<close> is an \<^verbatim>\<open>int\<close>, the condition
  tests the constant itself.\<close>

definition sem_init_6_1 :: "int \<Rightarrow> 'w local_test" where
  "sem_init_6_1 SEM_VALUE_MAX sys mysemp w =
     (if SEM_VALUE_MAX \<ge> 2147483647 then Ret PTS_PASS
      else
        obind (s_init sys mysemp 0 (word_of_int (to_int SEM_VALUE_MAX + 1)) w) (\<lambda>(_, w).
          if s_errno sys w = EINVAL then Ret PTS_PASS else Ret PTS_FAIL))"

definition sem_destroy_4_1 :: "'w local_test" where
  "sem_destroy_4_1 sys mysemp w =
     resolved (s_init sys mysemp 0 0 w) (\<lambda>w.
     obind (s_destroy sys mysemp w) (\<lambda>(rc, w).
       if rc = 0 then Ret PTS_PASS else Ret PTS_FAIL))"

section \<open>The programs as a list\<close>

text \<open>Array size, name prefix and program; then the programs on a local semaphore.\<close>

definition named_tests :: "(nat \<times> string \<times> 'w test) list" where
  "named_tests =
     [(20, ''/sem_post_1-1_'', sem_post_1_1),
      (20, ''/sem_post_1-2_'', sem_post_1_2),
      (20, ''/sem_post_2-1_'', sem_post_2_1),
      (20, ''/sem_post_4-1_'', sem_post_4_1),
      (20, ''/sem_wait_1-1_'', sem_wait_1_1),
      (20, ''/sem_wait_2-1_'', sem_wait_1_2),
      (20, ''/sem_wait_3-1_'', sem_wait_3_1),
      (20, ''/sem_trywait_5-1_'', sem_wait_5_1),
      (20, ''/sem_trywait_11-1_'', sem_wait_11_1),
      (20, ''/sem_trywait_12-1_'', sem_wait_12_1),
      (20, ''/sem_getvalue_1-1_'', sem_getvalue_1_1),
      (20, ''/sem_getvalue_2-1_'', sem_getvalue_2_1),
      (20, ''/sem_getvalue_4-1_'', sem_getvalue_4_1),
      (20, ''/sem_getvalue_5-1_'', sem_getvalue_5_1),
      (20, ''/sem_open_1-4_'', sem_open_1_4),
      (20, ''/sem_close_1-1_'', sem_close_1_1),
      (20, ''/sem_close_2-1_'', sem_close_2_1),
      (20, ''/sem_close_3-1_'', sem_close_3_1),
      (20, ''/sem_unlink_1-1_'', sem_unlink_1_1),
      (20, ''/sem_unlink_2-1_'', sem_unlink_2_1),
      (50, ''/sem_open_1-1_'', sem_open_1_1),
      (50, ''/sem_open_1-2_'', sem_open_1_2),
      (50, ''/sem_open_1-3_'', sem_open_1_3),
      (50, ''/sem_open_2-1_'', sem_open_2_1),
      (50, ''/sem_open_4-1_'', sem_open_4_1),
      (50, ''/sem_open_6-1_'', sem_open_6_1),
      (50, ''/sem_open_10-1_'', sem_open_10_1)]"

definition local_tests :: "'w local_test list" where
  "local_tests =
     [sem_init_1_1, sem_init_2_1, sem_init_2_2, sem_init_5_1, sem_init_5_2, sem_destroy_4_1]"

lemmas named_test_defs = sem_post_1_1_def sem_post_1_2_def sem_post_2_1_def sem_post_4_1_def sem_wait_1_1_def sem_wait_1_2_def
  sem_wait_3_1_def sem_wait_5_1_def sem_wait_11_1_def sem_wait_12_1_def sem_getvalue_1_1_def sem_getvalue_2_1_def
  sem_getvalue_4_1_def sem_getvalue_5_1_def sem_open_1_4_def sem_close_1_1_def sem_close_2_1_def sem_close_3_1_def
  sem_unlink_1_1_def sem_unlink_2_1_def sem_open_1_1_def sem_open_1_2_def sem_open_1_3_def sem_open_2_1_def
  sem_open_4_1_def sem_open_6_1_def sem_open_10_1_def

lemmas local_test_defs = sem_init_1_1_def sem_init_2_1_def sem_init_2_2_def sem_init_5_1_def sem_init_5_2_def
  sem_destroy_4_1_def destroy_pass_def

end
