(* ===== verification/Sem_Tests_Props.thy ===== *)
theory Sem_Tests_Props
  imports Sem_Tests
begin

text \<open>
  What the semaphore conformance programs establish. The locale \<open>named_sems\<close> is the part of the
  POSIX contract of named semaphores the programs exercise; every program of \<open>named_tests\<close> returns
  \<^verbatim>\<open>PTS_PASS\<close> on a system that keeps it, provided the name fits the program's array.
  \<^verbatim>\<open>posix1b/semaphore.c\<close> keeps it over every kernel that behaves as documented to a privileged process (locale
  \<open>sysv_names\<close>).
\<close>

lemma semname_ok: "length (prefix @ digits pid) < bufsize \<Longrightarrow> semname bufsize prefix pid = Ret (prefix @ digits pid)"
  by (simp add: semname_def)

lemma mode_bits: "\<not> has 511 IPC_EXCL" "\<not> has 448 IPC_EXCL"
  by (simp_all add: has_def flag_simps)

section \<open>The contract of named semaphores\<close>

text \<open>\<open>named w name c l hs\<close>: the semaphore \<open>name\<close> has the value \<open>c\<close>, \<open>l\<close> says that the name is
  still linked, and \<open>hs\<close> are the open descriptors. \<open>absent w name\<close>: there is no such semaphore.\<close>

locale named_sems =
  fixes sys :: "'w sem_sys"
    and named :: "'w \<Rightarrow> string \<Rightarrow> int \<Rightarrow> bool \<Rightarrow> nat list \<Rightarrow> bool"
    and absent :: "'w \<Rightarrow> string \<Rightarrow> bool"
  assumes open_creates: "absent w n \<Longrightarrow> has oflag O_CREAT \<Longrightarrow> 0 \<le> v \<Longrightarrow> v \<le> 32767 \<Longrightarrow>
      \<exists>p w'. s_open sys n oflag mode v w = Ret (Some p, w') \<and> p \<noteq> 0 \<and> named w' n v True [p]"
    and open_joins: "named w n c True hs \<Longrightarrow> length hs < 32767 \<Longrightarrow> \<not> has oflag O_EXCL \<Longrightarrow> \<not> has mode IPC_EXCL \<Longrightarrow>
      0 \<le> v \<Longrightarrow> v \<le> 32767 \<Longrightarrow>
      \<exists>p w'. s_open sys n oflag mode v w = Ret (Some p, w') \<and> p \<noteq> 0 \<and> named w' n c True (p # hs)"
    and open_excl: "named w n c True hs \<Longrightarrow> has oflag O_CREAT \<Longrightarrow> has oflag O_EXCL \<Longrightarrow> 0 \<le> v \<Longrightarrow> v \<le> 32767 \<Longrightarrow>
      \<exists>w'. s_open sys n oflag mode v w = Ret (None, w') \<and> s_errno sys w' = EEXIST \<and> named w' n c True hs"
    and open_missing: "absent w n \<Longrightarrow> \<not> has oflag O_CREAT \<Longrightarrow>
      \<exists>w'. s_open sys n oflag mode v w = Ret (None, w') \<and> s_errno sys w' = ENOENT \<and> absent w' n"
    and post_adds: "named w n c l hs \<Longrightarrow> p \<in> set hs \<Longrightarrow> c < 32767 \<Longrightarrow>
      \<exists>w'. s_post sys p w = Ret (0, w') \<and> named w' n (c + 1) l hs"
    and wait_takes: "named w n c l hs \<Longrightarrow> p \<in> set hs \<Longrightarrow> 0 < c \<Longrightarrow>
      \<exists>w'. s_wait sys p w = Ret (0, w') \<and> named w' n (c - 1) l hs"
    and trywait_takes: "named w n c l hs \<Longrightarrow> p \<in> set hs \<Longrightarrow> 0 < c \<Longrightarrow>
      \<exists>w'. s_trywait sys p w = Ret (0, w') \<and> named w' n (c - 1) l hs"
    and trywait_again: "named w n 0 l hs \<Longrightarrow> p \<in> set hs \<Longrightarrow>
      \<exists>w'. s_trywait sys p w = Ret (- 1, w') \<and> s_errno sys w' = EAGAIN \<and> named w' n 0 l hs"
    and getvalue_reads: "named w n c l hs \<Longrightarrow> p \<in> set hs \<Longrightarrow>
      \<exists>w'. s_getvalue sys p w = Ret (0, Some c, w') \<and> named w' n c l hs"
    and close_drops: "named w n c l hs \<Longrightarrow> p \<in> set hs \<Longrightarrow>
      \<exists>w'. s_close sys p w = Ret (0, w') \<and> (l \<or> remove1 p hs \<noteq> [] \<longrightarrow> named w' n c l (remove1 p hs))"
    and unlink_drops: "named w n c True hs \<Longrightarrow>
      \<exists>w'. s_unlink sys n w = Ret (0, w') \<and> (hs \<noteq> [] \<longrightarrow> named w' n c False hs)"
    and unlink_absent: "absent w n \<Longrightarrow> \<exists>rc w'. s_unlink sys n w = Ret (rc, w')"
begin

text \<open>The calls as the programs make them: each takes the continuation to the next state.\<close>

lemma opened_new:
  assumes "absent w n" and "0 \<le> v" and "v \<le> 32767"
    and "\<And>p w'. p \<noteq> 0 \<Longrightarrow> named w' n v True [p] \<Longrightarrow> k p w' = r"
  shows "opened_sem (s_open sys n O_CREAT mode v w) k = r" and "not_failed (s_open sys n O_CREAT mode v w) k = r"
  using open_creates [OF assms(1) _ assms(2,3), of O_CREAT mode] assms(4)
  by (auto simp: opened_sem_def not_failed_def has_def flag_simps)

lemma opened_plain:
  assumes "absent w n" and "0 \<le> v" and "v \<le> 32767"
    and "\<And>p w'. p \<noteq> 0 \<Longrightarrow> named w' n v True [p] \<Longrightarrow> k (Some p, w') = r"
  shows "obind (s_open sys n O_CREAT mode v w) k = r"
  using open_creates [OF assms(1) _ assms(2,3), of O_CREAT mode] assms(4) by (auto simp: has_def flag_simps)

lemma not_failed_join:
  assumes "named w n c True hs" and "length hs < 32767" and "\<not> has mode IPC_EXCL" and "0 \<le> v" and "v \<le> 32767"
    and "\<And>p w'. p \<noteq> 0 \<Longrightarrow> named w' n c True (p # hs) \<Longrightarrow> k p w' = r"
  shows "not_failed (s_open sys n O_CREAT mode v w) k = r"
  using open_joins [OF assms(1,2) _ assms(3-5), of O_CREAT] assms(6)
  by (auto simp: not_failed_def has_def flag_simps)

lemma resolved_calls:
  assumes "named w n c l hs" and "p \<in> set hs"
  shows "c < 32767 \<Longrightarrow> (\<And>w'. named w' n (c + 1) l hs \<Longrightarrow> k w' = r) \<Longrightarrow> resolved (s_post sys p w) k = r"
    and "0 < c \<Longrightarrow> (\<And>w'. named w' n (c - 1) l hs \<Longrightarrow> k w' = r) \<Longrightarrow> resolved (s_wait sys p w) k = r"
    and "0 < c \<Longrightarrow> (\<And>w'. named w' n (c - 1) l hs \<Longrightarrow> k w' = r) \<Longrightarrow> resolved (s_trywait sys p w) k = r"
  using post_adds [OF assms] wait_takes [OF assms] trywait_takes [OF assms]
  by (auto simp: resolved_def)

lemma checked_calls:
  assumes "named w n c l hs" and "p \<in> set hs"
  shows "c < 32767 \<Longrightarrow> (\<And>w'. named w' n (c + 1) l hs \<Longrightarrow> k (0, w') = r) \<Longrightarrow> obind (s_post sys p w) k = r"
    and "0 < c \<Longrightarrow> (\<And>w'. named w' n (c - 1) l hs \<Longrightarrow> k (0, w') = r) \<Longrightarrow> obind (s_wait sys p w) k = r"
    and "c = 0 \<Longrightarrow> (\<And>w'. s_errno sys w' = EAGAIN \<Longrightarrow> named w' n 0 l hs \<Longrightarrow> k (- 1, w') = r)
          \<Longrightarrow> obind (s_trywait sys p w) k = r"
    and "(\<And>w'. named w' n c l hs \<Longrightarrow> k' (0, Some c, w') = r) \<Longrightarrow> obind (s_getvalue sys p w) k' = r"
  using post_adds [OF assms] wait_takes [OF assms] trywait_again [of w n l hs p] assms getvalue_reads [OF assms]
  by auto

lemma closed:
  assumes "named w n c l hs" and "p \<in> set hs"
  shows "l \<Longrightarrow> (\<And>w'. named w' n c True (remove1 p hs) \<Longrightarrow> k w' = r) \<Longrightarrow> resolved (s_close sys p w) k = r"
    and "l \<Longrightarrow> (\<And>w'. named w' n c True (remove1 p hs) \<Longrightarrow> k w' = r) \<Longrightarrow> ignored (s_close sys p w) k = r"
    and "l \<Longrightarrow> (\<And>w'. named w' n c True (remove1 p hs) \<Longrightarrow> k' (0, w') = r) \<Longrightarrow> obind (s_close sys p w) k' = r"
  using close_drops [OF assms] by (auto simp: resolved_def ignored_def)

lemma opened_excl:
  assumes "named w n c True hs" and "0 \<le> v" and "v \<le> 32767"
    and "\<And>w'. s_errno sys w' = EEXIST \<Longrightarrow> named w' n c True hs \<Longrightarrow> k (None, w') = r"
  shows "obind (s_open sys n (O_CREAT OR O_EXCL) mode v w) k = r"
  using open_excl [OF assms(1) _ _ assms(2,3), of "O_CREAT OR O_EXCL" mode] assms(4)
  by (auto simp: has_def flag_simps)

lemma opened_missing:
  assumes "absent w n"
    and "\<And>w'. s_errno sys w' = ENOENT \<Longrightarrow> absent w' n \<Longrightarrow> k (None, w') = r"
  shows "obind (s_open sys n 0 mode v w) k = r"
  using open_missing [OF assms(1), of 0 mode v] assms(2) by auto

lemma read_value:
  assumes "named w n c l hs" and "p \<in> set hs"
    and "\<And>w'. named w' n c l hs \<Longrightarrow> k c w' = r"
  shows "got_value (s_getvalue sys p w) k = r" and "got_value0 (s_getvalue sys p w) k = r"
  using getvalue_reads [OF assms(1,2)] assms(3) by (auto simp: got_value_def got_value0_def)

lemma unlink_call:
  assumes "named w n c True hs" and "hs \<noteq> []" and "\<And>w'. named w' n c False hs \<Longrightarrow> k (0, w') = r"
  shows "obind (s_unlink sys n w) k = r"
  using unlink_drops [OF assms(1)] assms(2,3) by auto

lemma final_calls:
  assumes "named w n c True hs" and "p \<in> set hs"
  shows "close_unlink sys p n w = Ret PTS_PASS" and "unlink_close sys p n w = Ret PTS_PASS"
proof -
  from close_drops [OF assms] obtain w1 where "s_close sys p w = Ret (0, w1)" "named w1 n c True (remove1 p hs)" by auto
  with unlink_drops [of w1 n c "remove1 p hs"] show "close_unlink sys p n w = Ret PTS_PASS"
    by (auto simp: close_unlink_def ignored_def)
  have "hs \<noteq> []" using assms(2) by auto
  with unlink_drops [OF assms(1)] obtain w2 where "s_unlink sys n w = Ret (0, w2)" "named w2 n c False hs" by auto
  with close_drops [of w2 n c False hs p] assms(2) show "unlink_close sys p n w = Ret PTS_PASS"
    by (auto simp: unlink_close_def ignored_def)
qed

lemma unlink_pass_absent: "absent w n \<Longrightarrow> unlink_pass sys n w = Ret PTS_PASS"
  using unlink_absent [of w n] by (auto simp: unlink_pass_def ignored_def)

lemma unlink_pass_ok: "named w n c True hs \<Longrightarrow> unlink_pass sys n w = Ret PTS_PASS"
  using unlink_drops [of w n c hs] by (auto simp: unlink_pass_def ignored_def)

lemma close_pass_ok:
  "named w n c l hs \<Longrightarrow> p \<in> set hs \<Longrightarrow> ignored (s_close sys p w) (\<lambda>w. Ret PTS_PASS) = Ret PTS_PASS"
  "named w n c l hs \<Longrightarrow> p \<in> set hs \<Longrightarrow> resolved (s_close sys p w) (\<lambda>w. Ret PTS_PASS) = Ret PTS_PASS"
  using close_drops [of w n c l hs p] by (auto simp: ignored_def resolved_def)

lemma wait_times_ok:
  assumes "named w n c l hs" and "p \<in> set hs" and "c = int m" and "\<And>w'. named w' n 0 l hs \<Longrightarrow> k w' = r"
  shows "wait_times m sys p k w = r"
  using assms by (induction m arbitrary: w c) (auto intro: resolved_calls(2))

lemmas test_steps = close_pass_ok final_calls opened_new opened_plain not_failed_join opened_excl opened_missing
  resolved_calls checked_calls closed read_value unlink_call unlink_pass_ok unlink_pass_absent wait_times_ok

lemma named_tests_pass:
  "\<forall>(bufsize, prefix, test) \<in> set named_tests.
     length (prefix @ digits pid) < bufsize \<longrightarrow> absent w (prefix @ digits pid) \<longrightarrow> test sys pid w = Ret PTS_PASS"
  unfolding named_tests_def list.set ball_simps split_conv
  by (intro conjI impI TrueI; simp only: named_test_defs semname_ok obind.simps;
      ((rule test_steps, assumption) | simp add: mode_bits)+)

end

section \<open>The contract kept by posix1b\<close>

text \<open>Paths that only opening and unlinking change.\<close>

definition posix1b_named ::
  "('k \<Rightarrow> int \<Rightarrow> int list option) \<Rightarrow> ('k \<Rightarrow> int \<Rightarrow> int option) \<Rightarrow> ('k \<Rightarrow> nat set) \<Rightarrow> ('k \<Rightarrow> string \<Rightarrow> int option)
     \<Rightarrow> 'k sstate \<Rightarrow> string \<Rightarrow> int \<Rightarrow> bool \<Rightarrow> nat list \<Rightarrow> bool" where
  "posix1b_named svals skey live fkey s name c l hs \<longleftrightarrow>
     (\<exists>key i. 0 < key \<and> 0 \<le> i \<and> 0 \<le> c \<and> c \<le> SEMVMX \<and> length hs \<le> 32767 \<and> distinct hs
        \<and> svals (ssys s) i = Some [c, if l then 1 else 0, int (length hs)]
        \<and> (\<forall>p \<in> set hs. sems s p = Some \<lparr>semkey = key, semid = i, initialized = 1\<rparr> \<and> p \<in> live (ssys s))
        \<and> (l \<longrightarrow> fkey (ssys s) name = Some key \<and> skey (ssys s) key = Some i))"

text \<open>A name is absent when the key of its file, which opening creates if need be, has no set.\<close>

definition posix1b_absent ::
  "('k, 'z) sem_os_scheme \<Rightarrow> ('k \<Rightarrow> int \<Rightarrow> int option) \<Rightarrow> ('k \<Rightarrow> string \<Rightarrow> int option)
     \<Rightarrow> 'k sstate \<Rightarrow> string \<Rightarrow> bool" where
  "posix1b_absent os skey fkey s name \<longleftrightarrow>
     (\<exists>key. fkey (touched os name (ssys s)) name = Some key
        \<and> 0 < key \<and> skey (ssys s) key = None)"

context sysv_names
begin

lemma semop_call_fkey: "semop_call os i ops s = Ret (rc, s') \<Longrightarrow> fkey (ssys s') = fkey (ssys s)"
  by (auto simp: semop_call_def split: option.splits sum.splits) (erule semop_fkey)+

lemma open_loop_fkey: "open_loop fuel os oflag i v n s = Ret (rc, s') \<Longrightarrow> fkey (ssys s') = fkey (ssys s)"
proof (induction fuel arbitrary: n s)
  case (Suc fuel)
  then show ?case
    by (auto simp: Let_def obind_Ret_iff split: if_splits dest!: semop_call_fkey)
qed simp

lemma sem_open_fkey:
  assumes "fkey (ssys s) name = Some key" and "sem_open fuel os (Some name) oflag mode v s = Ret (r, s')"
  shows "fkey (ssys s') = fkey (ssys s)"
proof -
  from open_existing [OF assms(1)] obtain fd k1 where
    "0 \<le> fd" "os_open os name (O_WRONLY OR O_CREAT) 511 (ssys s) = (Inr fd, k1)" "os_close os fd k1 = (Inr 0, ssys s)" by blast
  with assms(2) ftok_key [OF assms(1)] show ?thesis
    by (auto simp: sem_open_def scall_def Let_def obind_Ret_iff split: if_splits sum.splits option.splits prod.splits
          dest!: open_loop_fkey semget_fkey malloc_fkey)
qed

abbreviation n_ok :: "'k sstate \<Rightarrow> string \<Rightarrow> int \<Rightarrow> bool \<Rightarrow> nat list \<Rightarrow> bool" where
  "n_ok \<equiv> posix1b_named svals skey live fkey"

lemma sem_close_fkey:
  assumes "get_semid fuel os p s = Ret (i, s)" and "sem_close fuel os p s = Ret (r, s')"
  shows "fkey (ssys s') = fkey (ssys s)"
proof -
  have rm: "fkey (ssys (snd (scall (os_rmid os i) t))) = fkey (ssys t)" for t
    using rmid_fkey by (auto simp: scall_def split: prod.splits sum.splits)
  from assms show ?thesis
    by (auto simp: sem_close_def Let_def obind_Ret_iff rm split: option.splits if_splits dest!: semop_call_fkey)
qed

text \<open>An open descriptor is bound to the set; changing the first value of the set changes the value
  of the semaphore.\<close>

lemma named_handle:
  assumes "n_ok s n c l hs" and "p \<in> set hs"
  obtains i where "bound_to fuel os s p i" and "svals (ssys s) i = Some [c, if l then 1 else 0, int (length hs)]"
    and "0 \<le> c" and "c \<le> SEMVMX"
    and "\<And>s' c'. svals (ssys s') = (svals (ssys s))(i \<mapsto> [c', if l then 1 else 0, int (length hs)]) \<Longrightarrow>
        skey (ssys s') = skey (ssys s) \<Longrightarrow> live (ssys s') = live (ssys s) \<Longrightarrow> fkey (ssys s') = fkey (ssys s) \<Longrightarrow>
        sems s' = sems s \<Longrightarrow> 0 \<le> c' \<Longrightarrow> c' \<le> SEMVMX \<Longrightarrow> n_ok s' n c' l hs"
proof -
  from assms(1) obtain key i where d: "0 < key" "0 \<le> i" "0 \<le> c" "c \<le> SEMVMX" "length hs \<le> 32767" "distinct hs"
    "svals (ssys s) i = Some [c, if l then 1 else 0, int (length hs)]"
    "\<forall>p \<in> set hs. sems s p = Some \<lparr>semkey = key, semid = i, initialized = 1\<rparr> \<and> p \<in> live (ssys s)"
    "l \<longrightarrow> fkey (ssys s) n = Some key \<and> skey (ssys s) key = Some i"
    unfolding posix1b_named_def by (elim exE conjE)
  have "bound_to fuel os s p i"
    using bound_to_direct [of s p "\<lparr>semkey = key, semid = i, initialized = 1\<rparr>" fuel os] d(8) assms(2) by simp
  moreover have "n_ok s' n c' l hs"
    if "svals (ssys s') = (svals (ssys s))(i \<mapsto> [c', if l then 1 else 0, int (length hs)])"
      "skey (ssys s') = skey (ssys s)" "live (ssys s') = live (ssys s)" "fkey (ssys s') = fkey (ssys s)"
      "sems s' = sems s" "0 \<le> c'" "c' \<le> SEMVMX" for s' c'
    unfolding posix1b_named_def using d that by (intro exI [of _ key] exI [of _ i]) simp
  ultimately show thesis using that d(3,4,7) by blast
qed

lemma named_post:
  assumes "n_ok s n c l hs" and "p \<in> set hs" and "c < SEMVMX"
  shows "\<exists>s'. sem_post fuel os p s = Ret (0, s') \<and> n_ok s' n (c + 1) l hs"
proof -
  obtain i where h: "bound_to fuel os s p i" "svals (ssys s) i = Some [c, if l then 1 else 0, int (length hs)]" "0 \<le> c"
    and upd: "\<And>s'. svals (ssys s') = (svals (ssys s))(i \<mapsto> [c + 1, if l then 1 else 0, int (length hs)]) \<Longrightarrow>
        skey (ssys s') = skey (ssys s) \<Longrightarrow> live (ssys s') = live (ssys s) \<Longrightarrow> fkey (ssys s') = fkey (ssys s) \<Longrightarrow>
        sems s' = sems s \<Longrightarrow> n_ok s' n (c + 1) l hs"
    by (rule named_handle [OF assms(1,2), of fuel]) (use assms(3) in auto)
  from sem_post_counts [OF h assms(3)] obtain k where k: "sem_post fuel os p s = Ret (0, s\<lparr>ssys := k\<rparr>)"
    "svals k = (svals (ssys s))(i \<mapsto> [c + 1, if l then 1 else 0, int (length hs)])"
    "skey k = skey (ssys s)" "live k = live (ssys s)" by blast
  have "fkey k = fkey (ssys s)"
    using k(1) bound_to_get [OF h(1)] semop_call_fkey [of i "[SB 0 1 0]" s 0 "s\<lparr>ssys := k\<rparr>"] by (simp add: sem_post_def)
  with upd [of "s\<lparr>ssys := k\<rparr>"] k show ?thesis by simp
qed

lemma named_wait:
  assumes "n_ok s n c l hs" and "p \<in> set hs" and "0 < c"
  shows "\<exists>s'. sem_wait fuel os p s = Ret (0, s') \<and> n_ok s' n (c - 1) l hs"
    and "\<exists>s'. sem_trywait fuel os p s = Ret (0, s') \<and> n_ok s' n (c - 1) l hs"
proof -
  obtain i where h: "bound_to fuel os s p i" "svals (ssys s) i = Some [c, if l then 1 else 0, int (length hs)]"
    and upd: "\<And>s'. svals (ssys s') = (svals (ssys s))(i \<mapsto> [c - 1, if l then 1 else 0, int (length hs)]) \<Longrightarrow>
        skey (ssys s') = skey (ssys s) \<Longrightarrow> live (ssys s') = live (ssys s) \<Longrightarrow> fkey (ssys s') = fkey (ssys s) \<Longrightarrow>
        sems s' = sems s \<Longrightarrow> n_ok s' n (c - 1) l hs"
    by (rule named_handle [OF assms(1,2), of fuel]) (use assms(3) in auto)
  from sem_wait_counts [OF h assms(3)] obtain k where k: "sem_wait fuel os p s = Ret (0, s\<lparr>ssys := k\<rparr>)"
    "svals k = (svals (ssys s))(i \<mapsto> [c - 1, if l then 1 else 0, int (length hs)])"
    "skey k = skey (ssys s)" "live k = live (ssys s)" by blast
  have "fkey k = fkey (ssys s)"
    using k(1) bound_to_get [OF h(1)] semop_call_fkey [of i "[SB 0 (- 1) 0]" s 0 "s\<lparr>ssys := k\<rparr>"] by (simp add: sem_wait_def)
  with upd [of "s\<lparr>ssys := k\<rparr>"] k show "\<exists>s'. sem_wait fuel os p s = Ret (0, s') \<and> n_ok s' n (c - 1) l hs" by simp
  from sem_trywait_counts [OF h assms(3)] obtain k where k: "sem_trywait fuel os p s = Ret (0, s\<lparr>ssys := k\<rparr>)"
    "svals k = (svals (ssys s))(i \<mapsto> [c - 1, if l then 1 else 0, int (length hs)])"
    "skey k = skey (ssys s)" "live k = live (ssys s)" by blast
  have "fkey k = fkey (ssys s)"
    using k(1) bound_to_get [OF h(1)] semop_call_fkey [of i "[SB 0 (- 1) IPC_NOWAIT]" s 0 "s\<lparr>ssys := k\<rparr>"]
    by (simp add: sem_trywait_def)
  with upd [of "s\<lparr>ssys := k\<rparr>"] k show "\<exists>s'. sem_trywait fuel os p s = Ret (0, s') \<and> n_ok s' n (c - 1) l hs" by simp
qed

lemma named_frame: "n_ok (s\<lparr>serrno := e\<rparr>) n c l hs = n_ok s n c l hs"
  by (simp add: posix1b_named_def)

lemma named_again:
  assumes "n_ok s n 0 l hs" and "p \<in> set hs"
  shows "\<exists>s'. sem_trywait fuel os p s = Ret (- 1, s') \<and> serrno s' = EAGAIN \<and> n_ok s' n 0 l hs"
proof -
  obtain i where h: "bound_to fuel os s p i" "svals (ssys s) i = Some [0, if l then 1 else 0, int (length hs)]"
    by (rule named_handle [OF assms, of fuel]) simp
  from sem_trywait_again [OF h] assms(1) show ?thesis by (simp add: named_frame)
qed

lemma named_value:
  assumes "n_ok s n c l hs" and "p \<in> set hs"
  shows "sem_getvalue fuel os p (Some x) s = Ret (0, Some c, s)"
proof -
  obtain i where h: "bound_to fuel os s p i" "svals (ssys s) i = Some [c, if l then 1 else 0, int (length hs)]" "0 \<le> c"
    by (rule named_handle [OF assms, of fuel]) simp
  then show ?thesis by (rule sem_getvalue_value)
qed

lemma named_close:
  assumes "n_ok s n c l hs" and "p \<in> set hs"
  shows "\<exists>s'. sem_close fuel os p s = Ret (0, s') \<and> (l \<or> remove1 p hs \<noteq> [] \<longrightarrow> n_ok s' n c l (remove1 p hs))"
proof -
  from assms(1) obtain key i where d: "0 < key" "0 \<le> i" "0 \<le> c" "c \<le> SEMVMX" "length hs \<le> 32767" "distinct hs"
    "svals (ssys s) i = Some [c, if l then 1 else 0, int (length hs)]"
    "\<forall>p \<in> set hs. sems s p = Some \<lparr>semkey = key, semid = i, initialized = 1\<rparr> \<and> p \<in> live (ssys s)"
    "l \<longrightarrow> fkey (ssys s) n = Some key \<and> skey (ssys s) key = Some i"
    unfolding posix1b_named_def by (elim exE conjE)
  let ?l = "if l then 1 else 0 :: int"
  have n: "0 < int (length hs)" "int (length hs) \<le> SEMVMX" "?l = 0 \<or> ?l = 1"
    using assms(2) d(5) by (auto simp: SEMVMX_def)
  have len: "int (length (remove1 p hs)) = int (length hs) - 1"
    using assms(2) length_pos_if_in_set [OF assms(2)] by (simp add: length_remove1 of_nat_diff Suc_le_eq)
  have p: "sems s p = Some \<lparr>semkey = key, semid = i, initialized = 1\<rparr>" using d(8) assms(2) by blast
  from sem_close_ok [OF p _ _ d(7) n, of fuel] obtain s' where
    s': "sem_close fuel os p s = Ret (0, s')" "sems s' = (sems s)(p := None)" "live (ssys s') = live (ssys s)"
    "svals (ssys s') = (svals (ssys s))
       (i := if int (length hs) = 1 \<and> ?l = 0 then None else Some [c, ?l, int (length hs) - 1])"
    "\<not> (int (length hs) = 1 \<and> ?l = 0) \<longrightarrow> skey (ssys s') = skey (ssys s)" by auto
  have f: "fkey (ssys s') = fkey (ssys s)" using get_semid_direct [OF p] s'(1) by (intro sem_close_fkey [of fuel p s i 0 s']) simp_all
  have "n_ok s' n c l (remove1 p hs)" if k: "l \<or> remove1 p hs \<noteq> []"
  proof -
    have "\<not> (int (length hs) = 1 \<and> ?l = 0)" using k len by auto
    with s'(4,5) len have "svals (ssys s') i = Some [c, ?l, int (length (remove1 p hs))]"
      "skey (ssys s') = skey (ssys s)" by simp_all
    with d s'(2,3) f show ?thesis
      unfolding posix1b_named_def by (intro exI [of _ key] exI [of _ i]) (auto simp: length_remove1)
  qed
  with s'(1) show ?thesis by blast
qed

lemma named_unlink:
  assumes "n_ok s n c True hs"
  shows "\<exists>s'. sem_unlink os n s = Ret (0, s') \<and> (hs \<noteq> [] \<longrightarrow> n_ok s' n c False hs)"
proof -
  from assms obtain key i where d: "0 < key" "0 \<le> i" "0 \<le> c" "c \<le> SEMVMX" "length hs \<le> 32767" "distinct hs"
    "svals (ssys s) i = Some [c, 1, int (length hs)]"
    "\<forall>p \<in> set hs. sems s p = Some \<lparr>semkey = key, semid = i, initialized = 1\<rparr> \<and> p \<in> live (ssys s)"
    "fkey (ssys s) n = Some key" "skey (ssys s) key = Some i"
    unfolding posix1b_named_def by auto
  from sem_unlink_ok [OF d(9,1,10,2,7)] obtain s' where "sem_unlink os n s = Ret (0, s')" "sems s' = sems s"
    "svals (ssys s') = (svals (ssys s))(i := if int (length hs) = 0 then None else Some [c, 0, int (length hs)])"
    "live (ssys s') = live (ssys s)" by auto
  moreover from this d(1-8) have "n_ok s' n c False hs" if "hs \<noteq> []"
    using that unfolding posix1b_named_def by (intro exI [of _ key] exI [of _ i]) simp
  ultimately show ?thesis by blast
qed

lemma absent_key:
  assumes "posix1b_absent os skey fkey s n"
  obtains k key where "fkey k n = Some key" and "0 < key" and "skey k key = None" and "svals k = svals (ssys s)"
    and "skey k = skey (ssys s)" and "live k = live (ssys s)"
    and "\<And>oflag mode v. sem_open fuel os (Some n) oflag mode v s = sem_open fuel os (Some n) oflag mode v (s\<lparr>ssys := k\<rparr>)"
proof -
  from assms obtain key where "fkey (touched os n (ssys s)) n = Some key" "0 < key" "skey (ssys s) key = None"
    by (auto simp: posix1b_absent_def)
  with that [of "touched os n (ssys s)" key] sem_open_touched touched_views show thesis by simp
qed

lemma named_create:
  assumes "posix1b_absent os skey fkey s n" and "has oflag O_CREAT" and "0 \<le> v" and "v \<le> SEMVMX" and "0 < fuel"
  shows "\<exists>p s'. sem_open fuel os (Some n) oflag mode v s = Ret (Some p, s') \<and> p \<noteq> 0 \<and> n_ok s' n v True [p]"
proof -
  obtain k key where k: "fkey k n = Some key" "0 < key" "skey k key = None"
    "sem_open fuel os (Some n) oflag mode v s = sem_open fuel os (Some n) oflag mode v (s\<lparr>ssys := k\<rparr>)"
    by (rule absent_key [OF assms(1), of fuel]) blast
  have k1: "fkey (ssys (s\<lparr>ssys := k\<rparr>)) n = Some key" "skey (ssys (s\<lparr>ssys := k\<rparr>)) key = None" using k(1,3) by simp_all
  from sem_open_new [OF k1(1) k(2) k1(2) assms(2-5), of mode] obtain p i s' where
    r: "sem_open fuel os (Some n) oflag mode v (s\<lparr>ssys := k\<rparr>) = Ret (Some p, s')" "0 \<le> i"
    "svals (ssys s') i = Some [v, 1, 1]" "skey (ssys s') key = Some i"
    "sems s' p = Some \<lparr>semkey = key, semid = i, initialized = 1\<rparr>" "p \<noteq> 0" "p \<in> live (ssys s')" by auto
  from sem_open_fkey [OF k1(1) r(1)] k(1) have "fkey (ssys s') n = Some key" by simp
  with r k(2) assms(3,4) have "n_ok s' n v True [p]"
    unfolding posix1b_named_def by (intro exI [of _ key] exI [of _ i]) simp
  with r k(4) show ?thesis by auto
qed

lemma named_join:
  assumes "n_ok s n c True hs" and "length hs < 32767" and "\<not> has oflag O_EXCL" and "\<not> has mode IPC_EXCL"
    and "0 \<le> v" and "v \<le> SEMVMX" and "1 < fuel"
  shows "\<exists>p s'. sem_open fuel os (Some n) oflag mode v s = Ret (Some p, s') \<and> p \<noteq> 0 \<and> n_ok s' n c True (p # hs)"
proof -
  from assms(1) obtain key i where d: "0 < key" "0 \<le> i" "0 \<le> c" "c \<le> SEMVMX" "distinct hs"
    "svals (ssys s) i = Some [c, 1, int (length hs)]"
    "\<forall>p \<in> set hs. sems s p = Some \<lparr>semkey = key, semid = i, initialized = 1\<rparr> \<and> p \<in> live (ssys s)"
    "fkey (ssys s) n = Some key" "skey (ssys s) key = Some i"
    unfolding posix1b_named_def by auto
  have b: "0 \<le> int (length hs)" "int (length hs) < SEMVMX" using assms(2) by (auto simp: SEMVMX_def)
  have x: "\<not> (has oflag O_CREAT \<and> has oflag O_EXCL)" using assms(3) by simp
  from sem_open_existing [OF d(8,1,9,2,6) b x assms(4-7)] obtain p s' where
    r: "sem_open fuel os (Some n) oflag mode v s = Ret (Some p, s')" "p \<notin> live (ssys s)"
    "svals (ssys s') = (svals (ssys s))(i \<mapsto> [c, 1, int (length hs) + 1])" "skey (ssys s') = skey (ssys s)"
    "sems s' = (sems s)(p \<mapsto> \<lparr>semkey = key, semid = i, initialized = 1\<rparr>)" "p \<noteq> 0"
    "live (ssys s') = insert p (live (ssys s))" by blast
  have "p \<notin> set hs" using r(2) d(7) by blast
  with r d assms(2) sem_open_fkey [OF d(8) r(1)] have "n_ok s' n c True (p # hs)"
    unfolding posix1b_named_def by (intro exI [of _ key] exI [of _ i]) auto
  with r show ?thesis by blast
qed

lemma named_excl:
  assumes "n_ok s n c True hs" and "has oflag O_CREAT" and "has oflag O_EXCL" and "0 \<le> v" and "v \<le> SEMVMX"
  shows "sem_open fuel os (Some n) oflag mode v s = Ret (None, s\<lparr>serrno := EEXIST\<rparr>)"
proof -
  from assms(1) obtain key i where d: "0 < key" "fkey (ssys s) n = Some key" "skey (ssys s) key = Some i"
    unfolding posix1b_named_def by auto
  from sem_open_refused(1) [OF d(2,1) assms(4,5) d(3) assms(2,3)] show ?thesis .
qed

lemma named_missing:
  assumes "posix1b_absent os skey fkey s n" and "\<not> has oflag O_CREAT"
  shows "\<exists>s'. sem_open fuel os (Some n) oflag mode v s = Ret (None, s') \<and> serrno s' = ENOENT
     \<and> posix1b_absent os skey fkey s' n"
proof -
  obtain k key where k: "fkey k n = Some key" "0 < key" "skey k key = None"
    "sem_open fuel os (Some n) oflag mode v s = sem_open fuel os (Some n) oflag mode v (s\<lparr>ssys := k\<rparr>)"
    by (rule absent_key [OF assms(1), of fuel]) blast
  have "sem_open fuel os (Some n) oflag mode v (s\<lparr>ssys := k\<rparr>) = sem_open fuel os (Some n) oflag mode 0 (s\<lparr>ssys := k\<rparr>)"
    using assms(2) by (simp add: sem_open_def)
  with sem_open_refused(2) [of "s\<lparr>ssys := k\<rparr>" n key 0 oflag fuel mode] k assms(2)
  have "sem_open fuel os (Some n) oflag mode v s = Ret (None, s\<lparr>ssys := k, serrno := ENOENT\<rparr>)" by (simp add: SEMVMX_def)
  moreover have "touched os n k = k" using k(1) by (rule touched_same)
  ultimately show ?thesis using k by (auto simp: posix1b_absent_def)
qed

lemma unlink_missing:
  assumes "posix1b_absent os skey fkey s n"
  shows "\<exists>rc s'. sem_unlink os n s = Ret (rc, s')"
proof (cases "fkey (ssys s) n")
  case None
  from ftok_missing [OF this] show ?thesis by (simp add: sem_unlink_def scall_def)
next
  case (Some key)
  from touched_same [OF this] assms Some have "0 < key" "skey (ssys s) key = None"
    by (auto simp: posix1b_absent_def)
  with ftok_key [OF Some] semget_missing [of key "ssys s" 0 1] show ?thesis
    by (simp add: sem_unlink_def scall_def Let_def)
qed

lemma posix1b_named_sems:
  assumes "1 < fuel"
  shows "named_sems (posix1b_sys fuel os) n_ok (posix1b_absent os skey fkey)"
proof
  show "\<exists>p w'. s_open (posix1b_sys fuel os) n oflag mode v w = Ret (Some p, w') \<and> p \<noteq> 0 \<and> n_ok w' n v True [p]"
    if "posix1b_absent os skey fkey w n" "has oflag O_CREAT" "0 \<le> v" "v \<le> 32767" for w n oflag mode v
    using named_create [OF that(1,2,3), of fuel] that(4) assms by (simp add: posix1b_sys_def SEMVMX_def)
  show "\<exists>p w'. s_open (posix1b_sys fuel os) n oflag mode v w = Ret (Some p, w') \<and> p \<noteq> 0 \<and> n_ok w' n c True (p # hs)"
    if "n_ok w n c True hs" "length hs < 32767" "\<not> has oflag O_EXCL" "\<not> has mode IPC_EXCL" "0 \<le> v" "v \<le> 32767"
    for w n c hs oflag mode v
    using named_join [OF that(1-5), of fuel] that(6) assms by (simp add: posix1b_sys_def SEMVMX_def)
  show "\<exists>w'. s_open (posix1b_sys fuel os) n oflag mode v w = Ret (None, w')
      \<and> s_errno (posix1b_sys fuel os) w' = EEXIST \<and> n_ok w' n c True hs"
    if "n_ok w n c True hs" "has oflag O_CREAT" "has oflag O_EXCL" "0 \<le> v" "v \<le> 32767" for w n c hs oflag mode v
    using named_excl [OF that(1-4), of fuel mode] that by (simp add: posix1b_sys_def SEMVMX_def named_frame)
  show "\<exists>w'. s_open (posix1b_sys fuel os) n oflag mode v w = Ret (None, w')
      \<and> s_errno (posix1b_sys fuel os) w' = ENOENT \<and> posix1b_absent os skey fkey w' n"
    if "posix1b_absent os skey fkey w n" "\<not> has oflag O_CREAT" for w n oflag mode v
    using named_missing [OF that, of fuel] by (simp add: posix1b_sys_def)
  show "\<exists>w'. s_close (posix1b_sys fuel os) p w = Ret (0, w')
      \<and> (l \<or> remove1 p hs \<noteq> [] \<longrightarrow> n_ok w' n c l (remove1 p hs))"
    if "n_ok w n c l hs" "p \<in> set hs" for w n c l hs p
    using named_close [OF that, of fuel] by (simp only: posix1b_sys_def sem_sys.simps)
qed (simp_all add: posix1b_sys_def named_post named_wait named_again named_value named_close named_unlink
       unlink_missing SEMVMX_def)

end

interpretation posix1b_names: named_sems "posix1b_sys 2 (ref_sem_os r)"
  "posix1b_named ref_svals kkey ref_live ref_fkey" "posix1b_absent (ref_sem_os r) kkey ref_fkey" for r
  by (rule ref_names.posix1b_named_sems) simp

section \<open>Destroying a semaphore\<close>

lemma write_hloc_read:
  assumes "read_hloc loc s = Ret p"
  shows "\<exists>s1. write_hloc loc q s = Ret s1 \<and> read_hloc loc s1 = Ret q \<and> dom (items s1) = dom (items s) \<and> ssys s1 = ssys s"
  using assms by (cases loc) (auto simp: ideref_def obind_Ret_iff split: option.splits)

text \<open>Along an intact chain \<open>remove_semid\<close> returns, though it may free the wrong cell.\<close>

lemma remove_walk_returns:
  assumes "hchain (items s) p xs" and "read_hloc loc s = Ret p" and "length xs < fuel"
  shows "\<exists>s'. remove_walk fuel key loc s = Ret s' \<and> ssys s' = ssys s"
  using assms
proof (induction xs arbitrary: p loc fuel)
  case Nil
  then show ?case by (cases fuel) auto
next
  case (Cons x xs)
  from Cons.prems(3) obtain f where f: "fuel = Suc f" "length xs < f" by (cases fuel) auto
  from Cons.prems(1) obtain it where x: "p = x" "x \<noteq> 0" "items s x = Some it" "hchain (items s) (hnext it) xs"
    by (auto split: option.splits)
  have fr: "\<exists>s'. free_item (hnext it) s1 = Ret s' \<and> ssys s' = ssys s1" if "dom (items s1) = dom (items s)" for s1
    using x(4) that by (cases xs) (auto simp: free_item_def dom_def set_eq_iff split: option.splits)
  from write_hloc_read [OF Cons.prems(2), of "hnext it"] obtain s1 where
    s1: "write_hloc loc (hnext it) s = Ret s1" "read_hloc loc s1 = Ret (hnext it)" "dom (items s1) = dom (items s)"
    "ssys s1 = ssys s" by blast
  from fr [OF s1(3)] s1 Cons.prems(2) Cons.IH [OF x(4), of "ItemNext x" f] x f
  show ?case by (cases "hkey it = key") auto
qed

context sysv_sem
begin

lemma sem_destroy_ok:
  assumes "bound_to fuel os s sem i" and "sems s sem = Some x" and "0 \<le> semkey x" and "\<not> mutex s"
    and "table_ok s ch" and "length (ch (nat (semkey x mod 253))) < fuel" and "svals (ssys s) i = Some vs"
  shows "\<exists>s'. sem_destroy fuel os sem s = Ret (0, s')"
proof -
  obtain s1 where l: "lock os s = Ret s1" "items s1 = items s" "hash_table s1 = hash_table s" "ssys s1 = ssys s"
    by (rule lock_unlock [OF assms(4), of os]) blast
  let ?b = "nat (semkey x mod 253)"
  have "hchain (items s1) (hash_table s1 ?b) (ch ?b)" using assms(3,5) l by (simp add: table_ok_def bucket_less)
  from remove_walk_returns [OF this _ assms(6), of "Bucket ?b" "semkey x"] obtain s2 where
    s2: "remove_walk fuel (semkey x) (Bucket ?b) s1 = Ret s2" "ssys s2 = ssys s" using l(4) by auto
  have "ssys (unlock os s2) = ssys s" using s2(2) by (simp add: unlock_def)
  with scall_rmid [of "unlock os s2" i vs] assms(7) show ?thesis
    using bound_to_get [OF assms(1)] assms(2,3) l(1) s2(1)
    by (auto simp: sem_destroy_def remove_semid_def bucket_of_nonneg)
qed

end

text \<open>A local semaphore after \<open>sem_init\<close> with \<^verbatim>\<open>pshared\<close> 0: it has the value \<open>c\<close>, and every call finds it.\<close>

definition posix1b_inited ::
  "nat \<Rightarrow> ('k, 'z) sem_os_scheme \<Rightarrow> ('k \<Rightarrow> int \<Rightarrow> int list option) \<Rightarrow> 'k sstate \<Rightarrow> nat \<Rightarrow> int \<Rightarrow> bool" where
  "posix1b_inited fuel os svals s sem c \<longleftrightarrow>
     (\<exists>i ch x. bound_to fuel os s sem i \<and> svals (ssys s) i = Some [c] \<and> 0 \<le> c \<and> c \<le> SEMVMX \<and> \<not> mutex s
        \<and> table_ok s ch \<and> length (ch 0) < fuel \<and> sems s sem = Some x \<and> semkey x = 0)"

context sysv_sem
begin

lemma inited_init:
  assumes "sems s sem = Some x" and "table_ok s ch" and "table_in (live (ssys s)) ch" and "\<not> mutex s"
    and "int sem < 2147483648" and "uint v \<le> SEMVMX" and "length (ch 0) + 1 < fuel"
  shows "\<exists>s'. sem_init os sem 0 v s = Ret (0, s') \<and> posix1b_inited fuel os svals s' sem (uint v)"
proof -
  have "0 = init_key sem 0" by (simp add: init_key_def)
  from sem_init_bound [OF assms(1) this assms(5) _ assms(2-4,6), of fuel] assms(7) obtain s' i ch' where
    "sem_init os sem 0 v s = Ret (0, s')" "table_ok s' ch'" "\<not> mutex s'" "length (ch' 0) = length (ch 0) + 1"
    "bound_to fuel os s' sem i" "sems s' = (sems s)(sem \<mapsto> x\<lparr>semkey := 0, initialized := 0\<rparr>)"
    "svals (ssys s') = (svals (ssys s))(i \<mapsto> [uint v])" by auto
  with assms(6,7) show ?thesis
    unfolding posix1b_inited_def by (intro exI [of _ s'] conjI exI [of _ i] exI [of _ ch']) auto
qed

lemma inited_kernel:
  assumes "bound_to fuel os s sem i" and "table_ok s ch" and "\<not> mutex s" and "length (ch 0) < fuel"
    and "sems s sem = Some x" and "semkey x = 0" and "svals k i = Some [c]" and "0 \<le> c" and "c \<le> SEMVMX"
  shows "posix1b_inited fuel os svals (s\<lparr>ssys := k\<rparr>) sem c"
  unfolding posix1b_inited_def using assms
  by (intro exI [of _ i] exI [of _ ch] exI [of _ x]) (simp add: table_ok_def)

lemma inited_calls:
  assumes "posix1b_inited fuel os svals s sem c"
  shows "c < SEMVMX \<Longrightarrow> \<exists>s'. sem_post fuel os sem s = Ret (0, s') \<and> posix1b_inited fuel os svals s' sem (c + 1)"
    and "0 < c \<Longrightarrow> \<exists>s'. sem_trywait fuel os sem s = Ret (0, s') \<and> posix1b_inited fuel os svals s' sem (c - 1)"
    and "sem_getvalue fuel os sem (Some y) s = Ret (0, Some c, s)"
    and "\<exists>s'. sem_destroy fuel os sem s = Ret (0, s')"
proof -
  from assms obtain i ch x where d: "bound_to fuel os s sem i" "table_ok s ch" "\<not> mutex s" "length (ch 0) < fuel"
    "sems s sem = Some x" "semkey x = 0" "svals (ssys s) i = Some [c]" "0 \<le> c" "c \<le> SEMVMX"
    by (auto simp: posix1b_inited_def)
  show "\<exists>s'. sem_post fuel os sem s = Ret (0, s') \<and> posix1b_inited fuel os svals s' sem (c + 1)" if "c < SEMVMX"
    using sem_post_counts [OF d(1,7,8) that] inited_kernel [OF d(1-6), of _ "c + 1"] d(8) that by fastforce
  show "\<exists>s'. sem_trywait fuel os sem s = Ret (0, s') \<and> posix1b_inited fuel os svals s' sem (c - 1)" if "0 < c"
    using sem_trywait_counts [OF d(1,7) that] inited_kernel [OF d(1-6), of _ "c - 1"] d(9) that by fastforce
  show "sem_getvalue fuel os sem (Some y) s = Ret (0, Some c, s)" by (rule sem_getvalue_value [OF d(1,7,8)])
  show "\<exists>s'. sem_destroy fuel os sem s = Ret (0, s')"
    using sem_destroy_ok [OF d(1,5) _ d(3,2) _ d(7)] d(4,6) by simp
qed

end

text \<open>The six programs on a local semaphore.\<close>

lemma local_tests_pass:
  assumes "sysv_sem os svals skey live" and "sems s a = Some x" and "int a < 2147483648" and "table_ok s ch"
    and "table_in (live (ssys s)) ch" and "\<not> mutex s" and "length (ch 0) + 1 < fuel" and "test \<in> set local_tests"
  shows "test (posix1b_sys fuel os) a s = Ret PTS_PASS"
proof -
  note calls = sysv_sem.inited_calls [OF assms(1)]
  note init = sysv_sem.inited_init [OF assms(1,2,4-6,3), of _ fuel]
  from init [of 0] init [of 1] assms(7) obtain s0 s1 where
    i0: "sem_init os a 0 0 s = Ret (0, s0)" "posix1b_inited fuel os svals s0 a 0" and
    i1: "sem_init os a 0 1 s = Ret (0, s1)" "posix1b_inited fuel os svals s1 a 1" by (auto simp: SEMVMX_def)
  from calls(1) [OF i0(2)] obtain s2 where p: "sem_post fuel os a s0 = Ret (0, s2)" "posix1b_inited fuel os svals s2 a 1"
    by (auto simp: SEMVMX_def)
  from calls(2) [OF i1(2)] obtain s3 where t: "sem_trywait fuel os a s1 = Ret (0, s3)" "posix1b_inited fuel os svals s3 a 0"
    by auto
  note sems_of = i0(1) i1(1) p(1) t(1) calls(3) [OF i1(2)] calls(3) [OF p(2)] calls(3) [OF t(2)]
  from calls(4) [OF i0(2)] calls(4) [OF i1(2)] calls(4) [OF p(2)] calls(4) [OF t(2)] obtain d0 d1 d2 d3 where
    "sem_destroy fuel os a s0 = Ret (0, d0)" "sem_destroy fuel os a s1 = Ret (0, d1)"
    "sem_destroy fuel os a s2 = Ret (0, d2)" "sem_destroy fuel os a s3 = Ret (0, d3)" by blast
  with sems_of assms(8) show ?thesis
    by (auto simp: local_tests_def local_test_defs posix1b_sys_def test_idioms)
qed

section \<open>Properties\<close>

text \<open>C6: each of the 27 programs of \<open>named_tests\<close> returns \<^verbatim>\<open>PTS_PASS\<close> on \<^verbatim>\<open>posix1b/semaphore.c\<close> over any kernel that keeps the laws
  \<open>sysv_names\<close>, whenever the name it builds from its process identifier fits its array and there is
  no such semaphore yet; each of the 6 programs of \<open>local_tests\<close> does so from any state with an
  allocated \<^verbatim>\<open>sem_t\<close>, an intact hash table and a free mutex. The laws are those of a privileged process, to which the kernel does not
  apply the modes (0, 0444) that some programs create their semaphore with. Not in the lists are
  \<open>sem_open_2_2\<close>, which looks at \<open>errno\<close> after a success, \<open>sem_open_5_1\<close> and \<open>sem_init_6_1\<close>, whose verdict depends on \<^verbatim>\<open>SEM_VALUE_MAX\<close>, and \<open>sem_unlink_4_1\<close>, which
  uses a name that was never stored.\<close>

theorem posix1b_passes_sem_tests:
  assumes "sysv_names os svals skey live fkey" and "1 < fuel"
  shows "(\<forall>(bufsize, prefix, test) \<in> set named_tests.
       length (prefix @ digits pid) < bufsize \<longrightarrow> posix1b_absent os skey fkey s (prefix @ digits pid) \<longrightarrow>
       test (posix1b_sys fuel os) pid s = Ret PTS_PASS)
     \<and> (\<forall>test \<in> set local_tests. \<forall>a ch. sems s a \<noteq> None \<longrightarrow> int a < 2147483648 \<longrightarrow> table_ok s ch \<longrightarrow>
       table_in (live (ssys s)) ch \<longrightarrow> \<not> mutex s \<longrightarrow> length (ch 0) + 1 < fuel \<longrightarrow>
       test (posix1b_sys fuel os) a s = Ret PTS_PASS)"
proof
  from sysv_names.posix1b_named_sems [OF assms]
  show "\<forall>(bufsize, prefix, test) \<in> set named_tests.
       length (prefix @ digits pid) < bufsize \<longrightarrow> posix1b_absent os skey fkey s (prefix @ digits pid) \<longrightarrow>
       test (posix1b_sys fuel os) pid s = Ret PTS_PASS"
    by (rule named_sems.named_tests_pass)
  have "sysv_sem os svals skey live" using assms(1) by (simp add: sysv_names_def sysv_paths_def)
  from local_tests_pass [OF this]
  show "\<forall>test \<in> set local_tests. \<forall>a ch. sems s a \<noteq> None \<longrightarrow> int a < 2147483648 \<longrightarrow> table_ok s ch \<longrightarrow>
       table_in (live (ssys s)) ch \<longrightarrow> \<not> mutex s \<longrightarrow> length (ch 0) + 1 < fuel \<longrightarrow>
       test (posix1b_sys fuel os) a s = Ret PTS_PASS"
    by blast
qed

lemma boot_absent: "posix1b_absent (ref_sem_os False) kkey ref_fkey (sem_boot [8]) name"
  by (simp add: posix1b_absent_def touched_def sem_boot_def ref_sem_boot_def ref_sem_os_def ref_open_def ref_fkey_def
      has_def flag_simps)

theorem posix1b_passes_sem_tests_witness:
  "sem_wait_1_2 (posix1b_sys 9 (ref_sem_os False)) 4711 (sem_boot [8]) = Ret PTS_PASS
   \<and> sem_open_10_1 (posix1b_sys 9 (ref_sem_os False)) 4711 (sem_boot [8]) = Ret PTS_PASS
   \<and> sem_init_2_1 (posix1b_sys 9 (ref_sem_os False)) 8 (sem_boot [8]) = Ret PTS_PASS"
proof -
  note all = posix1b_passes_sem_tests [OF ref_names.sysv_names_axioms [of False], of 9 4711 "sem_boot [8]"]
  have d: "length (digits 4711) = 4" by (simp add: digits.simps)
  have n: "(20, ''/sem_wait_2-1_'', sem_wait_1_2 :: sem_kernel sstate test) \<in> set named_tests"
    "(50, ''/sem_open_10-1_'', sem_open_10_1 :: sem_kernel sstate test) \<in> set named_tests"
    "(sem_init_2_1 :: sem_kernel sstate test) \<in> set local_tests"
    by (simp_all add: named_tests_def local_tests_def)
  from all have a1: "\<forall>x \<in> set named_tests. case x of (bufsize, prefix, test) \<Rightarrow>
       length (prefix @ digits 4711) < bufsize \<longrightarrow>
       posix1b_absent (ref_sem_os False) kkey ref_fkey (sem_boot [8]) (prefix @ digits 4711) \<longrightarrow>
       test (posix1b_sys 9 (ref_sem_os False)) 4711 (sem_boot [8]) = Ret PTS_PASS" by simp
  from bspec [OF a1 n(1)] bspec [OF a1 n(2)] d boot_absent
  have "sem_wait_1_2 (posix1b_sys 9 (ref_sem_os False)) 4711 (sem_boot [8]) = Ret PTS_PASS"
    "sem_open_10_1 (posix1b_sys 9 (ref_sem_os False)) 4711 (sem_boot [8]) = Ret PTS_PASS" by simp_all
  moreover from all n(3) sem_boot_table [of "[8]"] table_in_empty
  have "sem_init_2_1 (posix1b_sys 9 (ref_sem_os False)) 8 (sem_boot [8]) = Ret PTS_PASS"
    by (fastforce simp: sem_boot_def)
  ultimately show ?thesis by blast
qed

text \<open>A program whose prefix and process identifier do not fit its array writes past the end
  of it before it makes any call, on every system. The prefixes of \<^verbatim>\<open>sem_getvalue\<close> and
  \<^verbatim>\<open>sem_trywait\<close> leave room for one or two digits in \<^verbatim>\<open>semname[20]\<close>.\<close>

theorem sem_tests_overflow:
  assumes "(bufsize, prefix, test) \<in> set named_tests" and "bufsize \<le> length (prefix @ digits pid)"
  shows "test sys pid w = Fault"
  using assms by (auto simp: named_tests_def named_test_defs semname_def)

theorem sem_tests_overflow_witness:
  "sem_getvalue_1_1 (posix1b_sys 9 (ref_sem_os False)) 10 (sem_boot []) = Fault
   \<and> sem_wait_5_1 (posix1b_sys 9 (ref_sem_os False)) 100 (sem_boot []) = Fault"
proof -
  have d: "length (digits 10) = 2" "length (digits 100) = 3" by (simp_all add: digits.simps)
  let ?sys = "posix1b_sys 9 (ref_sem_os False)"
  show ?thesis
    using sem_tests_overflow [of 20 "''/sem_getvalue_1-1_''" sem_getvalue_1_1 10 ?sys "sem_boot []"] d
      sem_tests_overflow [of 20 "''/sem_trywait_5-1_''" sem_wait_5_1 100 ?sys "sem_boot []"]
    by (simp add: named_tests_def)
qed

text \<open>\<^verbatim>\<open>sem_init/1-1.c\<close> fails only when \<open>sem_init\<close> returned -1 and the value is wrong as well:
  it passes on a system whose \<open>sem_init\<close> reports success and sets any value whatever, and on one
  whose \<open>sem_init\<close> fails but leaves the value 1.\<close>

theorem sem_init_1_1_blind:
  assumes "s_init sys a 0 1 w = Ret (sts, w1)" and "s_getvalue sys a w1 = Ret (0, Some val, w2)"
    and "s_destroy sys a w2 = Ret (rc, w3)" and "sts \<noteq> - 1 \<or> val = 1"
  shows "sem_init_1_1 sys a w = Ret PTS_PASS"
  using assms by (auto simp: sem_init_1_1_def destroy_pass_def test_idioms)

text \<open>A \<open>sem_init\<close> that sets 7 instead of the value it is given, on \<^verbatim>\<open>posix1b\<close>'s other functions.\<close>

definition wrong_init :: "sem_kernel sstate sem_sys" where
  "wrong_init = (posix1b_sys 9 (ref_sem_os False))\<lparr>s_init := \<lambda>a pshared v. sem_init (ref_sem_os False) a pshared 7\<rparr>"

theorem sem_init_1_1_blind_witness:
  "sem_init_1_1 wrong_init 8 (sem_boot [8]) = Ret PTS_PASS
   \<and> s_getvalue wrong_init 8 (after (s_init wrong_init 8 0 1 (sem_boot [8])) (sem_boot [8]))
     = Ret (0, Some 7, after (s_init wrong_init 8 0 1 (sem_boot [8])) (sem_boot [8]))"
proof -
  have "sems (sem_boot [8]) 8 = Some \<lparr>semkey = 0, semid = 0, initialized = 0\<rparr>" "\<not> mutex (sem_boot [8])"
    by (simp_all add: sem_boot_def)
  from ref_sem.inited_init [OF this(1) sem_boot_table table_in_empty this(2), of 7 9 False] obtain s1 where
    i: "sem_init (ref_sem_os False) 8 0 7 (sem_boot [8]) = Ret (0, s1)"
    "posix1b_inited 9 (ref_sem_os False) ref_svals s1 8 7" by (auto simp: SEMVMX_def)
  note c = ref_sem.inited_calls [OF i(2)]
  from c(4) obtain s2 where "sem_destroy 9 (ref_sem_os False) 8 s1 = Ret (0, s2)" by blast
  with sem_init_1_1_blind [of wrong_init 8 "sem_boot [8]" 0 s1 7 s1 0 s2] i(1) c(3) [of 0] show ?thesis
    by (simp add: wrong_init_def posix1b_sys_def after_def)
qed

end
