(* ===== verification/Posix_Mman.thy ===== *)
theory Posix_Mman
  imports Sysv_Sem
begin

text \<open>
  \<^verbatim>\<open>posix1b/posix_mman.c\<close>: shared memory objects are files of the name they are given, opened and
  unlinked by the calls of the same record of file operations as the named semaphores use. The
  mode is passed on without a change.
\<close>

definition shm_open :: "('k, 'z) sem_os_scheme \<Rightarrow> string \<Rightarrow> flags \<Rightarrow> int \<Rightarrow> 'k \<Rightarrow> (errno + int) \<times> 'k" where
  "shm_open os name oflag mode k = os_open os name oflag mode k"

definition shm_unlink :: "('k, 'z) sem_os_scheme \<Rightarrow> string \<Rightarrow> 'k \<Rightarrow> (errno + int) \<times> 'k" where
  "shm_unlink os name k = os_unlink os name k"

text \<open>Over the executable kernel: exclusive creation succeeds once, and again after unlinking; an
  object that was unlinked cannot be opened without \<^verbatim>\<open>O_CREAT\<close>.\<close>

lemma shm_exclusive_life_cycle:
  assumes "kfiles k name = None" and "shm_open (ref_sem_os r) name (O_CREAT OR O_EXCL) mode k = (res, k1)"
  shows "res = Inr 3" and "shm_open (ref_sem_os r) name (O_CREAT OR O_EXCL) mode k1 = (Inl EEXIST, k1)"
    and "shm_unlink (ref_sem_os r) name k1 = (Inr 0, k1\<lparr>kfiles := (kfiles k1)(name := None)\<rparr>)"
    and "shm_open (ref_sem_os r) name O_RDWR mode (k1\<lparr>kfiles := (kfiles k1)(name := None)\<rparr>)
          = (Inl ENOENT, k1\<lparr>kfiles := (kfiles k1)(name := None)\<rparr>)"
  using assms
  by (auto simp: shm_open_def shm_unlink_def ref_sem_os_def ref_open_def ref_unlink_def has_def flag_simps)

end
