(* ===== verification/Threads_Scenarii.thy ===== *)
theory Threads_Scenarii
  imports Posix_Prelude
begin

text \<open>
  The scenarios of \<^verbatim>\<open>conformance/interfaces/pthread_create/threads_scenarii.c\<close>, which the thread
  tests include: the table of attribute combinations, \<open>scenar_init\<close>, which builds an attribute
  object and a semaphore for each, \<open>scenar_fini\<close>, which releases them, and \<open>main\<close>, which runs one
  thread per scenario. The thread library is the record \<open>thr_os\<close>; the scenario's index stands for
  the addresses of its attribute object and its semaphore. \<^verbatim>\<open>UNRESOLVED\<close>, \<^verbatim>\<open>FAILED\<close> and
  \<^verbatim>\<open>UNTESTED\<close> end the process with their code, here \<open>Inl\<close>. Output is left out, \<^verbatim>\<open>WITHOUT_XOPEN\<close> is
  not defined.
\<close>

section \<open>The table\<close>

record scenario =
  detached :: int
  explicitsched :: int
  schedpolicy :: int
  schedparam :: int
  altscope :: int
  altstack :: int
  guard :: int
  altsize :: int
  descr :: string
  sresult :: int

definition CASE ::
  "int \<Rightarrow> int \<Rightarrow> int \<Rightarrow> int \<Rightarrow> int \<Rightarrow> int \<Rightarrow> int \<Rightarrow> int \<Rightarrow> string \<Rightarrow> int \<Rightarrow> scenario" where
  "CASE det expl scp spa sco sta gua ssi desc res =
     \<lparr>detached = det, explicitsched = expl, schedpolicy = scp, schedparam = spa, altscope = sco, altstack = sta,
      guard = gua, altsize = ssi, descr = desc, sresult = res\<rparr>"

abbreviation "CASE_POS det expl scp spa sco sta gua ssi desc \<equiv> CASE det expl scp spa sco sta gua ssi desc 0"
abbreviation "CASE_UNK det expl scp spa sco sta gua ssi desc \<equiv> CASE det expl scp spa sco sta gua ssi desc 2"

definition scenarii :: "scenario list" where
  "scenarii =
     [CASE_POS 0 0 0 0 0 0 0 0 ''default'',
      CASE_POS 1 0 0 0 0 0 0 0 ''detached'',
      CASE_POS 0 1 0 0 0 0 0 0 ''Explicit sched'',
      CASE_UNK 0 0 1 0 0 0 0 0 ''FIFO Policy'',
      CASE_UNK 0 0 2 0 0 0 0 0 ''RR Policy'',
      CASE_UNK 0 0 0 1 0 0 0 0 ''Max sched param'',
      CASE_UNK 0 0 0 (- 1) 0 0 0 0 ''Min sched param'',
      CASE_POS 0 0 0 0 1 0 0 0 ''Alternative contension scope'',
      CASE_POS 0 0 0 0 0 1 0 0 ''Alternative stack'',
      CASE_POS 0 0 0 0 0 0 1 0 ''No guard size'',
      CASE_UNK 0 0 0 0 0 0 2 0 ''1p guard size'',
      CASE_POS 0 0 0 0 0 0 0 1 ''Min stack size'',
      CASE_POS 0 0 0 0 0 0 1 1 ''Min stack size, no guard'',
      CASE_UNK 0 0 0 0 0 0 2 1 ''Min stack size, 1p guard'',
      CASE_POS 1 0 0 0 0 1 0 0 ''Detached, Alternative stack'',
      CASE_POS 1 0 0 0 0 0 1 1 ''Detached, Min stack size, no guard'',
      CASE_UNK 1 0 0 0 0 0 2 1 ''Detached, Min stack size, 1p guard'',
      CASE_UNK 0 1 1 1 0 0 0 0 ''Explicit FIFO max param'',
      CASE_UNK 0 1 2 1 0 0 0 0 ''Explicit RR max param'',
      CASE_UNK 0 1 1 (- 1) 0 0 0 0 ''Explicit FIFO min param'',
      CASE_UNK 0 1 2 (- 1) 0 0 0 0 ''Explicit RR min param'',
      CASE_UNK 0 1 1 1 1 0 0 0 ''Explicit FIFO max param, alt scope'',
      CASE_UNK 0 1 2 1 1 0 0 0 ''Explicit RR max param, alt scope'',
      CASE_UNK 0 1 1 (- 1) 1 0 0 0 ''Explicit FIFO min param, alt scope'',
      CASE_UNK 0 1 2 (- 1) 1 0 0 0 ''Explicit RR min param, alt scope'',
      CASE_UNK 1 1 1 1 0 0 0 0 ''Detached, explicit FIFO max param'',
      CASE_UNK 1 1 2 1 0 0 0 0 ''Detached, explicit RR max param'',
      CASE_UNK 1 1 1 (- 1) 0 0 0 0 ''Detached, explicit FIFO min param'',
      CASE_UNK 1 1 2 (- 1) 0 0 0 0 ''Detached, explicit RR min param'',
      CASE_UNK 1 1 1 1 1 0 0 0 ''Detached, explicit FIFO max param, alt scope'',
      CASE_UNK 1 1 2 1 1 0 0 0 ''Detached, explicit RR max param, alt scope'',
      CASE_UNK 1 1 1 (- 1) 1 0 0 0 ''Detached, explicit FIFO min param, alt scope'',
      CASE_UNK 1 1 2 (- 1) 1 0 0 0 ''Detached, explicit RR min param, alt scope'']"

definition NSCENAR :: nat where
  "NSCENAR = length scenarii"

section \<open>The thread library\<close>

definition PTHREAD_CREATE_JOINABLE :: int where "PTHREAD_CREATE_JOINABLE = 0"
definition PTHREAD_CREATE_DETACHED :: int where "PTHREAD_CREATE_DETACHED = 1"
definition PTHREAD_INHERIT_SCHED :: int where "PTHREAD_INHERIT_SCHED = 0"
definition PTHREAD_EXPLICIT_SCHED :: int where "PTHREAD_EXPLICIT_SCHED = 1"
definition PTHREAD_SCOPE_SYSTEM :: int where "PTHREAD_SCOPE_SYSTEM = 0"
definition PTHREAD_SCOPE_PROCESS :: int where "PTHREAD_SCOPE_PROCESS = 1"
definition SCHED_FIFO :: int where "SCHED_FIFO = 1"
definition SCHED_RR :: int where "SCHED_RR = 2"

text \<open>The values of \<^verbatim>\<open>sysconf\<close>, the calls on attribute objects and semaphores, \<^verbatim>\<open>malloc\<close> (0 is
  \<^verbatim>\<open>NULL\<close>) and \<^verbatim>\<open>free\<close>, and the calls on threads. A setter returns 0 or an error number; \<^verbatim>\<open>sem_wait\<close>
  returns its result and errno.\<close>

record 'w thr_os =
  sc_pagesize :: int
  sc_stack_min :: int
  sc_tsa :: int
  sc_tss :: int
  sc_tps :: int
  attr_init :: "nat \<Rightarrow> 'w \<Rightarrow> int \<times> 'w"
  attr_destroy :: "nat \<Rightarrow> 'w \<Rightarrow> int \<times> 'w"
  attr_setdetachstate :: "nat \<Rightarrow> int \<Rightarrow> 'w \<Rightarrow> int \<times> 'w"
  attr_getdetachstate :: "nat \<Rightarrow> 'w \<Rightarrow> int \<times> int \<times> 'w"
  attr_setinheritsched :: "nat \<Rightarrow> int \<Rightarrow> 'w \<Rightarrow> int \<times> 'w"
  attr_setschedpolicy :: "nat \<Rightarrow> int \<Rightarrow> 'w \<Rightarrow> int \<times> 'w"
  attr_getschedpolicy :: "nat \<Rightarrow> 'w \<Rightarrow> int \<times> int \<times> 'w"
  attr_setschedparam :: "nat \<Rightarrow> int \<Rightarrow> 'w \<Rightarrow> int \<times> 'w"
  priority_max :: "int \<Rightarrow> int"
  priority_min :: "int \<Rightarrow> int"
  attr_getscope :: "nat \<Rightarrow> 'w \<Rightarrow> int \<times> int \<times> 'w"
  attr_setscope :: "nat \<Rightarrow> int \<Rightarrow> 'w \<Rightarrow> int \<times> 'w"
  attr_setstack :: "nat \<Rightarrow> nat \<Rightarrow> int \<Rightarrow> 'w \<Rightarrow> int \<times> 'w"
  attr_setguardsize :: "nat \<Rightarrow> int \<Rightarrow> 'w \<Rightarrow> int \<times> 'w"
  attr_setstacksize :: "nat \<Rightarrow> int \<Rightarrow> 'w \<Rightarrow> int \<times> 'w"
  th_malloc :: "int \<Rightarrow> 'w \<Rightarrow> nat \<times> 'w"
  th_free :: "nat \<Rightarrow> 'w \<Rightarrow> 'w"
  th_sem_init :: "nat \<Rightarrow> 'w \<Rightarrow> int \<times> 'w"
  th_sem_destroy :: "nat \<Rightarrow> 'w \<Rightarrow> int \<times> 'w"
  th_sem_wait :: "nat \<Rightarrow> 'w \<Rightarrow> int \<times> errno \<times> 'w"
  th_create :: "nat \<Rightarrow> 'w \<Rightarrow> int \<times> 'w"
  th_join :: "'w \<Rightarrow> int \<times> 'w"

text \<open>The program's state: the field \<^verbatim>\<open>bottom\<close> of each scenario, and the world.\<close>

type_synonym 'w sc_state = "(nat \<Rightarrow> nat) \<times> 'w"

section \<open>Initialisation\<close>

text \<open>\<^verbatim>\<open>if (ret != 0) { UNRESOLVED(ret, ...); }\<close> and the composition of blocks that may end the
  process.\<close>

definition must :: "int \<times> 'w \<Rightarrow> ('w \<Rightarrow> int + 'b) \<Rightarrow> int + 'b" where
  "must r k = (if fst r \<noteq> 0 then Inl PTS_UNRESOLVED else k (snd r))"

definition then_do :: "('s \<Rightarrow> int + 's) \<Rightarrow> ('s \<Rightarrow> int + 's) \<Rightarrow> 's \<Rightarrow> int + 's" where
  "then_do f g s = (case f s of Inl c \<Rightarrow> Inl c | Inr t \<Rightarrow> g t)"

definition sc_detach :: "'w thr_os \<Rightarrow> nat \<Rightarrow> scenario \<Rightarrow> 'w sc_state \<Rightarrow> int + 'w sc_state" where
  "sc_detach os i s = (\<lambda>(b, w).
     if detached s = 1
     then must (attr_setdetachstate os i PTHREAD_CREATE_DETACHED w) (\<lambda>w. Inr (b, w))
     else let (ret, old, w) = attr_getdetachstate os i w in
          if ret \<noteq> 0 then Inl PTS_UNRESOLVED
          else if old \<noteq> PTHREAD_CREATE_JOINABLE then Inl PTS_FAIL else Inr (b, w))"

definition sc_inherit :: "'w thr_os \<Rightarrow> nat \<Rightarrow> scenario \<Rightarrow> 'w sc_state \<Rightarrow> int + 'w sc_state" where
  "sc_inherit os i s = (\<lambda>(b, w).
     if sc_tps os > 0
     then must (attr_setinheritsched os i
                  (if explicitsched s = 1 then PTHREAD_EXPLICIT_SCHED else PTHREAD_INHERIT_SCHED) w)
            (\<lambda>w. Inr (b, w))
     else Inr (b, w))"

text \<open>When the policy is neither 1 nor 2, \<^verbatim>\<open>ret\<close> is still the 0 of the call before.\<close>

definition sc_policy :: "'w thr_os \<Rightarrow> nat \<Rightarrow> scenario \<Rightarrow> 'w sc_state \<Rightarrow> int + 'w sc_state" where
  "sc_policy os i s = (\<lambda>(b, w).
     if sc_tps os > 0
     then must (if schedpolicy s = 1 then attr_setschedpolicy os i SCHED_FIFO w
                else if schedpolicy s = 2 then attr_setschedpolicy os i SCHED_RR w else (0, w))
            (\<lambda>w. Inr (b, w))
     else Inr (b, w))"

text \<open>A parameter other than 0, 1 and -1 leaves the priority uninitialised; the table has none.\<close>

definition sc_param :: "'w thr_os \<Rightarrow> int \<Rightarrow> nat \<Rightarrow> scenario \<Rightarrow> 'w sc_state \<Rightarrow> int + 'w sc_state" where
  "sc_param os junk i s = (\<lambda>(b, w).
     if schedparam s \<noteq> 0
     then let (ret, old, w) = attr_getschedpolicy os i w in
          if ret \<noteq> 0 then Inl PTS_UNRESOLVED
          else must (attr_setschedparam os i
                       (if schedparam s = 1 then priority_max os old
                        else if schedparam s = - 1 then priority_min os old else junk) w)
                 (\<lambda>w. Inr (b, w))
     else Inr (b, w))"

text \<open>A failing \<^verbatim>\<open>pthread_attr_setscope\<close> is only reported.\<close>

definition sc_scope :: "'w thr_os \<Rightarrow> nat \<Rightarrow> scenario \<Rightarrow> 'w sc_state \<Rightarrow> int + 'w sc_state" where
  "sc_scope os i s = (\<lambda>(b, w).
     if sc_tps os > 0
     then let (ret, old, w) = attr_getscope os i w in
          if ret \<noteq> 0 then Inl PTS_UNRESOLVED
          else if altscope s \<noteq> 0
               then Inr (b, snd (attr_setscope os i
                      (if old = PTHREAD_SCOPE_PROCESS then PTHREAD_SCOPE_SYSTEM else PTHREAD_SCOPE_PROCESS) w))
               else Inr (b, w)
     else Inr (b, w))"

definition sc_stack :: "'w thr_os \<Rightarrow> nat \<Rightarrow> scenario \<Rightarrow> 'w sc_state \<Rightarrow> int + 'w sc_state" where
  "sc_stack os i s = (\<lambda>(b, w).
     if sc_tss os > 0 \<and> sc_tsa os > 0 \<and> altstack s \<noteq> 0
     then let (p, w) = th_malloc os (sc_stack_min os + sc_pagesize os) w in
          if p = 0 then Inl PTS_UNRESOLVED
          else must (attr_setstack os i p (sc_stack_min os) w) (\<lambda>w. Inr (b(i := p), w))
     else Inr (b, w))"

definition sc_guard :: "'w thr_os \<Rightarrow> nat \<Rightarrow> scenario \<Rightarrow> 'w sc_state \<Rightarrow> int + 'w sc_state" where
  "sc_guard os i s = (\<lambda>(b, w).
     must (if guard s = 1 then attr_setguardsize os i 0 w
           else if guard s = 2 then attr_setguardsize os i (sc_pagesize os) w else (0, w))
       (\<lambda>w. Inr (b, w)))"

definition sc_size :: "'w thr_os \<Rightarrow> nat \<Rightarrow> scenario \<Rightarrow> 'w sc_state \<Rightarrow> int + 'w sc_state" where
  "sc_size os i s = (\<lambda>(b, w).
     if sc_tss os > 0 \<and> altsize s \<noteq> 0
     then must (attr_setstacksize os i (sc_stack_min os) w) (\<lambda>w. Inr (b, w)) else Inr (b, w))"

definition sc_sem :: "'w thr_os \<Rightarrow> nat \<Rightarrow> scenario \<Rightarrow> 'w sc_state \<Rightarrow> int + 'w sc_state" where
  "sc_sem os i s = (\<lambda>(b, w).
     let (ret, w) = th_sem_init os i w in if ret = - 1 then Inl PTS_UNRESOLVED else Inr (b, w))"

definition scenar_one :: "'w thr_os \<Rightarrow> int \<Rightarrow> nat \<Rightarrow> 'w sc_state \<Rightarrow> int + 'w sc_state" where
  "scenar_one os junk i = (let s = scenarii ! i in
     then_do (\<lambda>(b, w). must (attr_init os i w) (\<lambda>w. Inr (b, w)))
    (then_do (sc_detach os i s)
    (then_do (sc_inherit os i s)
    (then_do (sc_policy os i s)
    (then_do (sc_param os junk i s)
    (then_do (sc_scope os i s)
    (then_do (sc_stack os i s)
    (then_do (sc_guard os i s)
    (then_do (sc_size os i s) (sc_sem os i s))))))))))"

fun for_all :: "(nat \<Rightarrow> 's \<Rightarrow> int + 's) \<Rightarrow> nat list \<Rightarrow> 's \<Rightarrow> int + 's" where
  "for_all f [] s = Inr s"
| "for_all f (i # is) s = (case f i s of Inl c \<Rightarrow> Inl c | Inr t \<Rightarrow> for_all f is t)"

text \<open>\<^verbatim>\<open>minstacksize % pagesize\<close> with C's remainder.\<close>

definition scenar_init :: "'w thr_os \<Rightarrow> int \<Rightarrow> 'w sc_state \<Rightarrow> int + 'w sc_state" where
  "scenar_init os junk st =
     (if sc_stack_min os smod sc_pagesize os \<noteq> 0 then Inl PTS_UNTESTED
      else for_all (scenar_one os junk) [0..<NSCENAR] st)"

section \<open>Release and the main loop\<close>

definition fini_one :: "'w thr_os \<Rightarrow> nat \<Rightarrow> 'w sc_state \<Rightarrow> int + 'w sc_state" where
  "fini_one os i = (\<lambda>(b, w).
     let w = (if b i \<noteq> 0 then th_free os (b i) w else w);
         (ret, w) = th_sem_destroy os i w
     in if ret = - 1 then Inl PTS_UNRESOLVED else must (attr_destroy os i w) (\<lambda>w. Inr (b, w)))"

definition scenar_fini :: "'w thr_os \<Rightarrow> 'w sc_state \<Rightarrow> int + 'w sc_state" where
  "scenar_fini os = for_all (fini_one os) [0..<NSCENAR]"

text \<open>\<^verbatim>\<open>do { ret = sem_wait(...); } while ((ret == -1) && (errno == EINTR));\<close> with the exit after it.\<close>

fun wait_end :: "nat \<Rightarrow> 'w thr_os \<Rightarrow> nat \<Rightarrow> 'w \<Rightarrow> (int + 'w) outcome" where
  "wait_end 0 os i w = Loop"
| "wait_end (Suc fuel) os i w =
     (let (ret, e, w) = th_sem_wait os i w in
      if ret = - 1 \<and> e = EINTR then wait_end fuel os i w
      else if ret = - 1 then Ret (Inl PTS_UNRESOLVED) else Ret (Inr w))"

definition run_one :: "nat \<Rightarrow> 'w thr_os \<Rightarrow> nat \<Rightarrow> 'w \<Rightarrow> (int + 'w) outcome" where
  "run_one fuel os i w =
     (let (ret, w) = th_create os i w; s = scenarii ! i in
      if sresult s = 0 \<and> ret \<noteq> 0 \<or> sresult s = 1 \<and> ret = 0 then Ret (Inl PTS_UNRESOLVED)
      else if ret = 0
           then if detached s = 0
                then let (ret, w) = th_join os w in Ret (if ret \<noteq> 0 then Inl PTS_UNRESOLVED else Inr w)
                else wait_end fuel os i w
           else Ret (Inr w))"

fun run_all :: "nat \<Rightarrow> 'w thr_os \<Rightarrow> nat list \<Rightarrow> 'w \<Rightarrow> (int + 'w) outcome" where
  "run_all fuel os [] w = Ret (Inr w)"
| "run_all fuel os (i # is) w =
     obind (run_one fuel os i w) (\<lambda>r. case r of Inl c \<Rightarrow> Ret (Inl c) | Inr w \<Rightarrow> run_all fuel os is w)"

definition scenar_main :: "nat \<Rightarrow> 'w thr_os \<Rightarrow> int \<Rightarrow> 'w \<Rightarrow> (int \<times> 'w option) outcome" where
  "scenar_main fuel os junk w =
     (case scenar_init os junk (\<lambda>_. 0, w) of
        Inl c \<Rightarrow> Ret (c, None)
      | Inr (b, w) \<Rightarrow>
          obind (run_all fuel os [0..<NSCENAR] w) (\<lambda>r.
            case r of Inl c \<Rightarrow> Ret (c, None)
            | Inr w \<Rightarrow> (case scenar_fini os (b, w) of Inl c \<Rightarrow> Ret (c, None) | Inr (_, w) \<Rightarrow> Ret (PTS_PASS, Some w))))"

end
