(* ===== verification/Scenarii_Props.thy ===== *)
theory Scenarii_Props
  imports Threads_Scenarii
begin

text \<open>
  What \<^verbatim>\<open>threads_scenarii.c\<close> does on a thread library that behaves as POSIX documents (locale
  \<open>thr_lib\<close>, over the values of the attribute objects, the initialised semaphores and the blocks
  in use): \<open>scenar_init\<close> gives every scenario the attributes its row of the table asks for,
  \<open>scenar_fini\<close> releases all that was acquired, and \<open>main\<close> passes.
\<close>

section \<open>Attribute objects\<close>

record attr =
  a_detach :: int
  a_inherit :: int
  a_policy :: int
  a_prio :: int
  a_scope :: int
  a_stack :: nat
  a_guard :: int
  a_size :: int

text \<open>A call on object \<open>i\<close> that returns 0 and changes it by \<open>f\<close>, and nothing else.\<close>

definition sets ::
  "('w \<Rightarrow> nat \<Rightarrow> attr option) \<Rightarrow> ('w \<Rightarrow> nat set) \<Rightarrow> ('w \<Rightarrow> nat set) \<Rightarrow> nat \<Rightarrow> (attr \<Rightarrow> attr)
     \<Rightarrow> 'w \<Rightarrow> int \<times> 'w \<Rightarrow> bool" where
  "sets attrs sems heap i f w r \<longleftrightarrow>
     fst r = 0 \<and> attrs (snd r) = (attrs w)(i \<mapsto> f (the (attrs w i)))
     \<and> sems (snd r) = sems w \<and> heap (snd r) = heap w"

locale thr_lib =
  fixes os :: "'w thr_os"
    and attrs :: "'w \<Rightarrow> nat \<Rightarrow> attr option"
    and sems :: "'w \<Rightarrow> nat set"
    and heap :: "'w \<Rightarrow> nat set"
    and attr0 :: attr
    and scopes :: "int set"
  assumes pages: "sc_stack_min os smod sc_pagesize os = 0"
    and default_joinable: "a_detach attr0 = PTHREAD_CREATE_JOINABLE"
    and init_sets: "sets attrs sems heap i (\<lambda>_. attr0) w (attr_init os i w)"
    and setdetach: "attrs w i \<noteq> None \<Longrightarrow> v \<in> {PTHREAD_CREATE_JOINABLE, PTHREAD_CREATE_DETACHED} \<Longrightarrow>
      sets attrs sems heap i (a_detach_update (\<lambda>_. v)) w (attr_setdetachstate os i v w)"
    and getdetach: "attrs w i = Some a \<Longrightarrow> attr_getdetachstate os i w = (0, a_detach a, w)"
    and setinherit: "attrs w i \<noteq> None \<Longrightarrow> v \<in> {PTHREAD_INHERIT_SCHED, PTHREAD_EXPLICIT_SCHED} \<Longrightarrow> 0 < sc_tps os \<Longrightarrow>
      sets attrs sems heap i (a_inherit_update (\<lambda>_. v)) w (attr_setinheritsched os i v w)"
    and setpolicy: "attrs w i \<noteq> None \<Longrightarrow> v \<in> {SCHED_FIFO, SCHED_RR} \<Longrightarrow> 0 < sc_tps os \<Longrightarrow>
      sets attrs sems heap i (a_policy_update (\<lambda>_. v)) w (attr_setschedpolicy os i v w)"
    and getpolicy: "attrs w i = Some a \<Longrightarrow> attr_getschedpolicy os i w = (0, a_policy a, w)"
    and setparam: "attrs w i = Some a \<Longrightarrow> v \<in> {priority_max os (a_policy a), priority_min os (a_policy a)} \<Longrightarrow>
      sets attrs sems heap i (a_prio_update (\<lambda>_. v)) w (attr_setschedparam os i v w)"
    and getscope: "attrs w i = Some a \<Longrightarrow> 0 < sc_tps os \<Longrightarrow> attr_getscope os i w = (0, a_scope a, w)"
    and setscope: "attrs w i = Some a \<Longrightarrow> 0 < sc_tps os \<Longrightarrow> v \<in> scopes \<Longrightarrow>
      sets attrs sems heap i (a_scope_update (\<lambda>_. v)) w (attr_setscope os i v w)"
    and setscope_refused: "attrs w i = Some a \<Longrightarrow> 0 < sc_tps os \<Longrightarrow> v \<notin> scopes \<Longrightarrow>
      fst (attr_setscope os i v w) \<noteq> 0 \<and> snd (attr_setscope os i v w) = w"
    and setstack: "attrs w i \<noteq> None \<Longrightarrow> p \<in> heap w \<Longrightarrow> 0 < sc_tss os \<Longrightarrow> 0 < sc_tsa os \<Longrightarrow>
      sets attrs sems heap i (\<lambda>a. a\<lparr>a_stack := p, a_size := sc_stack_min os\<rparr>) w (attr_setstack os i p (sc_stack_min os) w)"
    and setguard: "attrs w i \<noteq> None \<Longrightarrow> v \<in> {0, sc_pagesize os} \<Longrightarrow>
      sets attrs sems heap i (a_guard_update (\<lambda>_. v)) w (attr_setguardsize os i v w)"
    and setsize: "attrs w i \<noteq> None \<Longrightarrow> 0 < sc_tss os \<Longrightarrow>
      sets attrs sems heap i (a_size_update (\<lambda>_. sc_stack_min os)) w (attr_setstacksize os i (sc_stack_min os) w)"
    and malloc_fresh: "\<exists>p w'. th_malloc os n w = (p, w') \<and> p \<noteq> 0 \<and> p \<notin> heap w \<and> heap w' = insert p (heap w)
      \<and> attrs w' = attrs w \<and> sems w' = sems w"
    and free_removes: "p \<in> heap w \<Longrightarrow> heap (th_free os p w) = heap w - {p} \<and> attrs (th_free os p w) = attrs w
      \<and> sems (th_free os p w) = sems w"
    and sem_inits: "\<exists>w'. th_sem_init os i w = (0, w') \<and> sems w' = insert i (sems w) \<and> attrs w' = attrs w \<and> heap w' = heap w"
    and sem_destroys: "i \<in> sems w \<Longrightarrow>
      \<exists>w'. th_sem_destroy os i w = (0, w') \<and> sems w' = sems w - {i} \<and> attrs w' = attrs w \<and> heap w' = heap w"
    and attr_destroys: "attrs w i \<noteq> None \<Longrightarrow>
      \<exists>w'. attr_destroy os i w = (0, w') \<and> attrs w' = (attrs w)(i := None) \<and> sems w' = sems w \<and> heap w' = heap w"

section \<open>What a row asks for\<close>

definition takes_stack :: "'w thr_os \<Rightarrow> scenario \<Rightarrow> bool" where
  "takes_stack os s \<longleftrightarrow> sc_tss os > 0 \<and> sc_tsa os > 0 \<and> altstack s \<noteq> 0"

definition row_policy :: "'w thr_os \<Rightarrow> attr \<Rightarrow> scenario \<Rightarrow> int" where
  "row_policy os a0 s =
     (if sc_tps os > 0 \<and> schedpolicy s = 1 then SCHED_FIFO
      else if sc_tps os > 0 \<and> schedpolicy s = 2 then SCHED_RR else a_policy a0)"

text \<open>The scope of a row is the one that is not the default when the row asks for it and the library supports
  that scope (\<^verbatim>\<open>pthread_attr_setscope\<close> refuses the others); it is the default otherwise.\<close>

definition row_scope :: "'w thr_os \<Rightarrow> int set \<Rightarrow> attr \<Rightarrow> scenario \<Rightarrow> int" where
  "row_scope os scopes a0 s =
     (let other = (if a_scope a0 = PTHREAD_SCOPE_PROCESS then PTHREAD_SCOPE_SYSTEM else PTHREAD_SCOPE_PROCESS)
      in if sc_tps os > 0 \<and> altscope s = 1 \<and> other \<in> scopes then other else a_scope a0)"

text \<open>The attributes of row \<open>s\<close> with the stack at \<open>p\<close>, starting from the defaults \<open>a0\<close>.\<close>

definition row_attr :: "'w thr_os \<Rightarrow> int set \<Rightarrow> attr \<Rightarrow> scenario \<Rightarrow> nat \<Rightarrow> attr" where
  "row_attr os scopes a0 s p =
     \<lparr>a_detach = (if detached s = 1 then PTHREAD_CREATE_DETACHED else PTHREAD_CREATE_JOINABLE),
      a_inherit = (if sc_tps os > 0
                   then (if explicitsched s = 1 then PTHREAD_EXPLICIT_SCHED else PTHREAD_INHERIT_SCHED)
                   else a_inherit a0),
      a_policy = row_policy os a0 s,
      a_prio = (if schedparam s = 1 then priority_max os (row_policy os a0 s)
                else if schedparam s = - 1 then priority_min os (row_policy os a0 s) else a_prio a0),
      a_scope = row_scope os scopes a0 s,
      a_stack = (if takes_stack os s then p else a_stack a0),
      a_guard = (if guard s = 1 then 0 else if guard s = 2 then sc_pagesize os else a_guard a0),
      a_size = (if takes_stack os s \<or> sc_tss os > 0 \<and> altsize s \<noteq> 0 then sc_stack_min os else a_size a0)\<rparr>"

text \<open>The entries of the table are in the ranges the code distinguishes.\<close>

definition row_ok :: "scenario \<Rightarrow> bool" where
  "row_ok s \<longleftrightarrow> schedparam s \<in> {0, 1, - 1} \<and> guard s \<in> {0, 1, 2} \<and> schedpolicy s \<in> {0, 1, 2} \<and> altscope s \<in> {0, 1}"

lemma rows_ok: "\<forall>s \<in> set scenarii. row_ok s"
  by (simp add: scenarii_def row_ok_def CASE_def)

lemma row_ok_nth: "i < NSCENAR \<Longrightarrow> row_ok (scenarii ! i)"
  using rows_ok by (simp add: NSCENAR_def)

section \<open>One scenario\<close>

text \<open>The state in which object \<open>i\<close> has the attributes \<open>a\<close> and everything else is as in \<open>w0\<close>, with
  the stacks \<open>B\<close> and the blocks \<open>H\<close>.\<close>

definition at_attr ::
  "('w \<Rightarrow> nat \<Rightarrow> attr option) \<Rightarrow> ('w \<Rightarrow> nat set) \<Rightarrow> ('w \<Rightarrow> nat set) \<Rightarrow> 'w \<Rightarrow> nat \<Rightarrow> attr
     \<Rightarrow> (nat \<Rightarrow> nat) \<Rightarrow> nat set \<Rightarrow> 'w sc_state \<Rightarrow> bool" where
  "at_attr attrs sems heap w0 i a B H st \<longleftrightarrow>
     attrs (snd st) = (attrs w0)(i \<mapsto> a) \<and> sems (snd st) = sems w0 \<and> heap (snd st) = H \<and> fst st = B"

lemma must_sets:
  assumes "sets attrs sems heap i f w r" and "at_attr attrs sems heap w0 i a B H (B, w)"
  shows "must r (\<lambda>w. Inr (B, w)) = Inr (B, snd r) \<and> at_attr attrs sems heap w0 i (f a) B H (B, snd r)"
  using assms by (auto simp: sets_def at_attr_def must_def)

lemma then_do_Inr: "f s = Inr t \<Longrightarrow> then_do f g s = g t"
  by (simp add: then_do_def)

context thr_lib
begin

abbreviation at :: "'w \<Rightarrow> nat \<Rightarrow> attr \<Rightarrow> (nat \<Rightarrow> nat) \<Rightarrow> nat set \<Rightarrow> 'w sc_state \<Rightarrow> bool" where
  "at \<equiv> at_attr attrs sems heap"

lemma at_state: "at w0 i a B H (b, w) \<Longrightarrow> b = B \<and> attrs w i = Some a"
  by (simp add: at_attr_def)

lemma detach_step:
  assumes "at w0 i a B H st" and "a_detach a = PTHREAD_CREATE_JOINABLE"
  shows "\<exists>st'. sc_detach os i s st = Inr st'
     \<and> at w0 i (a\<lparr>a_detach := if detached s = 1 then PTHREAD_CREATE_DETACHED else PTHREAD_CREATE_JOINABLE\<rparr>) B H st'"
proof -
  obtain w where st: "st = (B, w)" "attrs w i = Some a" using assms(1) by (cases st) (auto simp: at_attr_def)
  show ?thesis
  proof (cases "detached s = 1")
    case True
    have "sets attrs sems heap i (a_detach_update (\<lambda>_. PTHREAD_CREATE_DETACHED)) w
        (attr_setdetachstate os i PTHREAD_CREATE_DETACHED w)" using st(2) by (intro setdetach) simp_all
    from must_sets [OF this, of w0 a B H] assms(1) st True show ?thesis by (auto simp: sc_detach_def)
  next
    case False
    have "at w0 i (a\<lparr>a_detach := a_detach a\<rparr>) B H st" using assms(1) by simp
    with getdetach [OF st(2)] assms(2) st False show ?thesis by (simp add: sc_detach_def)
  qed
qed

lemma inherit_step:
  assumes "at w0 i a B H st"
  shows "\<exists>st'. sc_inherit os i s st = Inr st'
     \<and> at w0 i (a\<lparr>a_inherit := if sc_tps os > 0
         then (if explicitsched s = 1 then PTHREAD_EXPLICIT_SCHED else PTHREAD_INHERIT_SCHED) else a_inherit a\<rparr>) B H st'"
proof -
  obtain w where st: "st = (B, w)" "attrs w i = Some a" using assms by (cases st) (auto simp: at_attr_def)
  let ?v = "if explicitsched s = 1 then PTHREAD_EXPLICIT_SCHED else PTHREAD_INHERIT_SCHED"
  show ?thesis
  proof (cases "sc_tps os > 0")
    case True
    have "sets attrs sems heap i (a_inherit_update (\<lambda>_. ?v)) w (attr_setinheritsched os i ?v w)"
      using st(2) True by (intro setinherit) simp_all
    from must_sets [OF this, of w0 a B H] assms st True show ?thesis by (auto simp: sc_inherit_def)
  next
    case False
    then show ?thesis using assms st by (auto simp: sc_inherit_def)
  qed
qed

lemma policy_step:
  assumes "at w0 i a B H st" and "a_policy a = a_policy attr0"
  shows "\<exists>st'. sc_policy os i s st = Inr st' \<and> at w0 i (a\<lparr>a_policy := row_policy os attr0 s\<rparr>) B H st'"
proof -
  obtain w where st: "st = (B, w)" "attrs w i = Some a" using assms(1) by (cases st) (auto simp: at_attr_def)
  have r: "a\<lparr>a_policy := a_policy attr0\<rparr> = a" using assms(2) by (cases a) simp
  show ?thesis
  proof (cases "sc_tps os > 0 \<and> schedpolicy s \<in> {1, 2}")
    case True
    let ?v = "if schedpolicy s = 1 then SCHED_FIFO else SCHED_RR"
    have "sets attrs sems heap i (a_policy_update (\<lambda>_. ?v)) w (attr_setschedpolicy os i ?v w)"
      using st(2) True by (intro setpolicy) simp_all
    from must_sets [OF this, of w0 a B H] assms(1) st True show ?thesis
      by (auto simp: sc_policy_def row_policy_def)
  next
    case False
    then show ?thesis using assms(1) st r by (auto simp: sc_policy_def row_policy_def must_def)
  qed
qed

lemma param_step:
  assumes "at w0 i a B H st" and "a_prio a = a_prio attr0" and "row_ok s"
  shows "\<exists>st'. sc_param os junk i s st = Inr st'
     \<and> at w0 i (a\<lparr>a_prio := if schedparam s = 1 then priority_max os (a_policy a)
                else if schedparam s = - 1 then priority_min os (a_policy a) else a_prio attr0\<rparr>) B H st'"
proof -
  obtain w where st: "st = (B, w)" "attrs w i = Some a" using assms(1) by (cases st) (auto simp: at_attr_def)
  show ?thesis
  proof (cases "schedparam s = 0")
    case True
    have "at w0 i (a\<lparr>a_prio := a_prio a\<rparr>) B H st" using assms(1) by simp
    with True assms(2) st show ?thesis by (auto simp: sc_param_def)
  next
    case False
    let ?v = "if schedparam s = 1 then priority_max os (a_policy a) else priority_min os (a_policy a)"
    have "sets attrs sems heap i (a_prio_update (\<lambda>_. ?v)) w (attr_setschedparam os i ?v w)"
      by (intro setparam [OF st(2)]) auto
    from must_sets [OF this, of w0 a B H] assms(1,3) st False getpolicy [OF st(2)] show ?thesis
      by (auto simp: sc_param_def row_ok_def)
  qed
qed

lemma scope_step:
  assumes "at w0 i a B H st" and "a_scope a = a_scope attr0" and "row_ok s"
  shows "\<exists>st'. sc_scope os i s st = Inr st' \<and> at w0 i (a\<lparr>a_scope := row_scope os scopes attr0 s\<rparr>) B H st'"
proof -
  obtain w where st: "st = (B, w)" "attrs w i = Some a" using assms(1) by (cases st) (auto simp: at_attr_def)
  have same: "at w0 i (a\<lparr>a_scope := a_scope attr0\<rparr>) B H (B, w)"
  proof -
    have "a\<lparr>a_scope := a_scope attr0\<rparr> = a" unfolding assms(2) [symmetric] by simp
    then show ?thesis using assms(1) st(1) by simp
  qed
  have alt: "altscope s = 1 \<longleftrightarrow> altscope s \<noteq> 0" using assms(3) by (auto simp: row_ok_def)
  let ?v = "if a_scope attr0 = PTHREAD_SCOPE_PROCESS then PTHREAD_SCOPE_SYSTEM else PTHREAD_SCOPE_PROCESS"
  show ?thesis
  proof (cases "sc_tps os > 0 \<and> altscope s \<noteq> 0")
    case True
    have "at w0 i (a\<lparr>a_scope := row_scope os scopes attr0 s\<rparr>) B H (B, snd (attr_setscope os i ?v w))"
    proof (cases "?v \<in> scopes")
      case True
      from must_sets [OF setscope [OF st(2) _ this], of w0 a B H] \<open>sc_tps os > 0 \<and> altscope s \<noteq> 0\<close> assms(1) st(1) True alt
      show ?thesis by (auto simp: row_scope_def Let_def)
    next
      case False
      with setscope_refused [OF st(2) _ False] \<open>sc_tps os > 0 \<and> altscope s \<noteq> 0\<close> same show ?thesis by (auto simp: row_scope_def Let_def)
    qed
    with True st getscope [OF st(2)] assms(2) show ?thesis by (auto simp: sc_scope_def)
  next
    case False
    then have "row_scope os scopes attr0 s = a_scope attr0" using alt by (auto simp: row_scope_def Let_def)
    with False same st getscope [OF st(2)] show ?thesis by (auto simp: sc_scope_def)
  qed
qed

lemma stack_step:
  assumes "at w0 i a B H st" and "a_stack a = a_stack attr0" and "a_size a = a_size attr0"
  shows "\<exists>st' p. sc_stack os i s st = Inr st' \<and> (takes_stack os s \<longrightarrow> p \<noteq> 0 \<and> p \<notin> H)
     \<and> at w0 i (a\<lparr>a_stack := if takes_stack os s then p else a_stack attr0,
                 a_size := if takes_stack os s then sc_stack_min os else a_size attr0\<rparr>)
          (if takes_stack os s then B(i := p) else B) (if takes_stack os s then insert p H else H) st'"
proof -
  obtain w where st: "st = (B, w)" "attrs w i = Some a" using assms(1) by (cases st) (auto simp: at_attr_def)
  show ?thesis
  proof (cases "takes_stack os s")
    case True
    from malloc_fresh [of "sc_stack_min os + sc_pagesize os" w] obtain p w1 where
      m: "th_malloc os (sc_stack_min os + sc_pagesize os) w = (p, w1)" "p \<noteq> 0" "p \<notin> heap w" "heap w1 = insert p (heap w)"
      "attrs w1 = attrs w" "sems w1 = sems w" by blast
    have "sets attrs sems heap i (\<lambda>a. a\<lparr>a_stack := p, a_size := sc_stack_min os\<rparr>) w1 (attr_setstack os i p (sc_stack_min os) w1)"
      using m st(2) True by (intro setstack) (simp_all add: takes_stack_def)
    with m assms(1) st True show ?thesis
      by (auto simp: sc_stack_def takes_stack_def must_def sets_def at_attr_def)
  next
    case False
    have "at w0 i (a\<lparr>a_stack := a_stack a, a_size := a_size a\<rparr>) B H st" using assms(1) by simp
    with False assms(2,3) st show ?thesis by (auto simp: sc_stack_def takes_stack_def)
  qed
qed

lemma guard_step:
  assumes "at w0 i a B H st" and "a_guard a = a_guard attr0" and "row_ok s"
  shows "\<exists>st'. sc_guard os i s st = Inr st'
     \<and> at w0 i (a\<lparr>a_guard := if guard s = 1 then 0 else if guard s = 2 then sc_pagesize os else a_guard attr0\<rparr>) B H st'"
proof -
  obtain w where st: "st = (B, w)" "attrs w i = Some a" using assms(1) by (cases st) (auto simp: at_attr_def)
  show ?thesis
  proof (cases "guard s = 0")
    case True
    have "at w0 i (a\<lparr>a_guard := a_guard a\<rparr>) B H st" using assms(1) by simp
    with True assms(2) st show ?thesis by (auto simp: sc_guard_def must_def)
  next
    case False
    let ?v = "if guard s = 1 then 0 else sc_pagesize os"
    have "sets attrs sems heap i (a_guard_update (\<lambda>_. ?v)) w (attr_setguardsize os i ?v w)"
      using st(2) by (intro setguard) simp_all
    from must_sets [OF this, of w0 a B H] assms(1,3) st False show ?thesis
      by (auto simp: sc_guard_def row_ok_def)
  qed
qed

lemma size_step:
  assumes "at w0 i a B H st"
  shows "\<exists>st'. sc_size os i s st = Inr st'
     \<and> at w0 i (a\<lparr>a_size := if sc_tss os > 0 \<and> altsize s \<noteq> 0 then sc_stack_min os else a_size a\<rparr>) B H st'"
proof -
  obtain w where st: "st = (B, w)" "attrs w i = Some a" using assms by (cases st) (auto simp: at_attr_def)
  show ?thesis
  proof (cases "sc_tss os > 0 \<and> altsize s \<noteq> 0")
    case True
    have "sets attrs sems heap i (a_size_update (\<lambda>_. sc_stack_min os)) w (attr_setstacksize os i (sc_stack_min os) w)"
      using st(2) True by (intro setsize) simp_all
    from must_sets [OF this, of w0 a B H] assms st True show ?thesis by (auto simp: sc_size_def)
  next
    case False
    then show ?thesis using assms st by (auto simp: sc_size_def)
  qed
qed

lemma sem_step:
  assumes "at w0 i a B H st"
  shows "\<exists>w'. sc_sem os i s st = Inr (B, w') \<and> attrs w' = (attrs w0)(i \<mapsto> a) \<and> sems w' = insert i (sems w0) \<and> heap w' = H"
  using assms sem_inits [of i "snd st"] by (cases st) (auto simp: sc_sem_def at_attr_def)

lemma scenar_one_ok:
  assumes "i < NSCENAR" and "B i = 0"
  shows "\<exists>p w'. scenar_one os junk i (B, w) = Inr (B(i := p), w')
     \<and> attrs w' = (attrs w)(i \<mapsto> row_attr os scopes attr0 (scenarii ! i) p) \<and> sems w' = insert i (sems w)
     \<and> (p \<noteq> 0 \<longleftrightarrow> takes_stack os (scenarii ! i))
     \<and> (if p = 0 then heap w' = heap w else p \<notin> heap w \<and> heap w' = insert p (heap w))"
proof -
  let ?s = "scenarii ! i"
  have ok: "row_ok ?s" using assms(1) by (rule row_ok_nth)
  have "at w i attr0 B (heap w) (B, snd (attr_init os i w))" "fst (attr_init os i w) = 0"
    using init_sets [of i w] by (auto simp: sets_def at_attr_def)
  then have s0: "(\<lambda>(b, w). must (attr_init os i w) (\<lambda>w. Inr (b, w))) (B, w) = Inr (B, snd (attr_init os i w))"
    "at w i attr0 B (heap w) (B, snd (attr_init os i w))" by (simp_all add: must_def)
  let ?a1 = "attr0\<lparr>a_detach := if detached ?s = 1 then PTHREAD_CREATE_DETACHED else PTHREAD_CREATE_JOINABLE\<rparr>"
  let ?a2 = "?a1\<lparr>a_inherit := if sc_tps os > 0
    then (if explicitsched ?s = 1 then PTHREAD_EXPLICIT_SCHED else PTHREAD_INHERIT_SCHED) else a_inherit ?a1\<rparr>"
  let ?a3 = "?a2\<lparr>a_policy := row_policy os attr0 ?s\<rparr>"
  let ?a4 = "?a3\<lparr>a_prio := if schedparam ?s = 1 then priority_max os (a_policy ?a3)
    else if schedparam ?s = - 1 then priority_min os (a_policy ?a3) else a_prio attr0\<rparr>"
  from detach_step [OF s0(2) default_joinable, of ?s] obtain s1 where
    1: "sc_detach os i ?s (B, snd (attr_init os i w)) = Inr s1" "at w i ?a1 B (heap w) s1" by blast
  from inherit_step [OF 1(2), of ?s] obtain s2 where
    2: "sc_inherit os i ?s s1 = Inr s2" "at w i ?a2 B (heap w) s2" by blast
  from policy_step [OF 2(2), of ?s] obtain s3 where
    3: "sc_policy os i ?s s2 = Inr s3" "at w i ?a3 B (heap w) s3" by auto
  from param_step [OF 3(2) _ ok, of junk] obtain s4 where
    4: "sc_param os junk i ?s s3 = Inr s4" "at w i ?a4 B (heap w) s4" by auto
  from scope_step [OF 4(2) _ ok] obtain s5 where
    5: "sc_scope os i ?s s4 = Inr s5" "at w i (?a4\<lparr>a_scope := row_scope os scopes attr0 ?s\<rparr>) B (heap w) s5" by auto
  let ?a5 = "?a4\<lparr>a_scope := row_scope os scopes attr0 ?s\<rparr>" and ?t = "takes_stack os ?s"
  from stack_step [OF 5(2), of ?s] obtain s6 p where
    6: "sc_stack os i ?s s5 = Inr s6" "?t \<longrightarrow> p \<noteq> 0 \<and> p \<notin> heap w"
    "at w i (?a5\<lparr>a_stack := if ?t then p else a_stack attr0, a_size := if ?t then sc_stack_min os else a_size attr0\<rparr>)
       (if ?t then B(i := p) else B) (if ?t then insert p (heap w) else heap w) s6" by auto
  let ?a6 = "?a5\<lparr>a_stack := if ?t then p else a_stack attr0, a_size := if ?t then sc_stack_min os else a_size attr0\<rparr>"
  let ?B = "if ?t then B(i := p) else B" and ?H = "if ?t then insert p (heap w) else heap w"
  let ?a7 = "?a6\<lparr>a_guard := if guard ?s = 1 then 0 else if guard ?s = 2 then sc_pagesize os else a_guard attr0\<rparr>"
  from guard_step [OF 6(3) _ ok] obtain s7 where
    7: "sc_guard os i ?s s6 = Inr s7" "at w i ?a7 ?B ?H s7" by auto
  let ?a8 = "?a7\<lparr>a_size := if sc_tss os > 0 \<and> altsize ?s \<noteq> 0 then sc_stack_min os else a_size ?a7\<rparr>"
  from size_step [OF 7(2), of ?s] obtain s8 where
    8: "sc_size os i ?s s7 = Inr s8" "at w i ?a8 ?B ?H s8" by blast
  from sem_step [OF 8(2), of ?s] obtain w' where
    9: "sc_sem os i ?s s8 = Inr (?B, w')" "attrs w' = (attrs w)(i \<mapsto> ?a8)" "sems w' = insert i (sems w)" "heap w' = ?H"
    by blast
  have a8: "?a8 = row_attr os scopes attr0 ?s p" by (simp add: row_attr_def)
  have B: "?B = B(i := if ?t then p else 0)" using assms(2) by (auto simp: fun_eq_iff)
  have "scenar_one os junk i (B, w) = Inr (B(i := if ?t then p else 0), w')"
    unfolding scenar_one_def Let_def
      then_do_Inr [of "\<lambda>(b, w). must (attr_init os i w) (\<lambda>w. Inr (b, w))" "(B, w)", OF s0(1)]
      then_do_Inr [of "sc_detach os i ?s", OF 1(1)] then_do_Inr [of "sc_inherit os i ?s", OF 2(1)]
      then_do_Inr [of "sc_policy os i ?s", OF 3(1)] then_do_Inr [of "sc_param os junk i ?s", OF 4(1)]
      then_do_Inr [of "sc_scope os i ?s", OF 5(1)] then_do_Inr [of "sc_stack os i ?s", OF 6(1)]
      then_do_Inr [of "sc_guard os i ?s", OF 7(1)] then_do_Inr [of "sc_size os i ?s", OF 8(1)] 9(1) B by (rule refl)
  moreover have "row_attr os scopes attr0 ?s p = row_attr os scopes attr0 ?s (if ?t then p else 0)"
    unfolding row_attr_def by (cases ?t) simp_all
  then have "attrs w' = (attrs w)(i \<mapsto> row_attr os scopes attr0 ?s (if ?t then p else 0))"
    using 9(2) unfolding a8 by metis
  moreover have "((if ?t then p else 0) \<noteq> 0 \<longleftrightarrow> ?t)
     \<and> (if (if ?t then p else 0) = 0 then heap w' = heap w
        else (if ?t then p else 0) \<notin> heap w \<and> heap w' = insert (if ?t then p else 0) (heap w))"
    using 6(2) 9(4) by (cases ?t) simp_all
  ultimately show ?thesis using 9(3) by blast
qed

end

section \<open>All scenarios\<close>

text \<open>The first \<open>n\<close> scenarios are prepared, starting from \<open>w0\<close>: each has the attributes of its row and
  its semaphore, the stacks \<open>b\<close> are distinct new blocks, and nothing else differs from \<open>w0\<close>.\<close>

definition prepared ::
  "'w thr_os \<Rightarrow> int set \<Rightarrow> ('w \<Rightarrow> nat \<Rightarrow> attr option) \<Rightarrow> ('w \<Rightarrow> nat set) \<Rightarrow> ('w \<Rightarrow> nat set) \<Rightarrow> attr \<Rightarrow> 'w \<Rightarrow> nat
     \<Rightarrow> 'w sc_state \<Rightarrow> bool" where
  "prepared os scopes attrs sems heap a0 w0 n = (\<lambda>(b, w).
     (\<forall>i<n. attrs w i = Some (row_attr os scopes a0 (scenarii ! i) (b i)))
     \<and> (\<forall>i\<ge>n. attrs w i = attrs w0 i)
     \<and> sems w = sems w0 \<union> {..<n}
     \<and> (\<forall>i. b i \<noteq> 0 \<longleftrightarrow> i < n \<and> takes_stack os (scenarii ! i))
     \<and> inj_on b {i. b i \<noteq> 0} \<and> b ` {i. b i \<noteq> 0} \<inter> heap w0 = {}
     \<and> heap w = heap w0 \<union> b ` {i. b i \<noteq> 0})"

lemma for_all_append: "for_all f (is @ js) s = (case for_all f is s of Inl c \<Rightarrow> Inl c | Inr t \<Rightarrow> for_all f js t)"
  by (induction "is" arbitrary: s) (simp_all split: sum.split)

lemma for_all_upt:
  assumes "P 0 s" and "\<And>n s. n < N \<Longrightarrow> P n s \<Longrightarrow> \<exists>t. f n s = Inr t \<and> P (Suc n) t"
  shows "\<exists>t. for_all f [0..<N] s = Inr t \<and> P N t"
proof -
  have "n \<le> N \<Longrightarrow> \<exists>t. for_all f [0..<n] s = Inr t \<and> P n t" for n
  proof (induction n)
    case (Suc n)
    then obtain t where "for_all f [0..<n] s = Inr t" "P n t" by auto
    moreover from assms(2) [OF _ this(2)] Suc.prems obtain u where "f n t = Inr u" "P (Suc n) u" by auto
    ultimately show ?case by (simp add: for_all_append)
  qed (simp add: assms(1))
  then show ?thesis by simp
qed

lemma prepared_Suc:
  assumes "prepared os scopes attrs sems heap a0 w0 n (b, w)"
    and "attrs w' = (attrs w)(n \<mapsto> row_attr os scopes a0 (scenarii ! n) p)" and "sems w' = insert n (sems w)"
    and "p \<noteq> 0 \<longleftrightarrow> takes_stack os (scenarii ! n)"
    and "if p = 0 then heap w' = heap w else p \<notin> heap w \<and> heap w' = insert p (heap w)"
  shows "prepared os scopes attrs sems heap a0 w0 (Suc n) (b(n := p), w')"
proof -
  let ?b = "b(n := p)"
  have n: "b n = 0" using assms(1) by (auto simp: prepared_def)
  have ne: "{i. ?b i \<noteq> 0} = (if p = 0 then {i. b i \<noteq> 0} else insert n {i. b i \<noteq> 0})" using n by auto
  have im: "?b ` {i. ?b i \<noteq> 0} = (if p = 0 then b ` {i. b i \<noteq> 0} else insert p (b ` {i. b i \<noteq> 0}))"
    unfolding ne using n by auto
  have "inj_on ?b {i. ?b i \<noteq> 0}"
    using assms(1,5) n unfolding ne by (auto simp: prepared_def inj_on_def split: if_splits)
  moreover have "?b ` {i. ?b i \<noteq> 0} \<inter> heap w0 = {}" "heap w' = heap w0 \<union> ?b ` {i. ?b i \<noteq> 0}"
    unfolding im using assms(1,5) by (auto simp: prepared_def split: if_splits)
  moreover have "\<forall>i. ?b i \<noteq> 0 \<longleftrightarrow> i < Suc n \<and> takes_stack os (scenarii ! i)"
    using assms(1,4) by (auto simp: prepared_def less_Suc_eq)
  moreover have "\<forall>i<Suc n. attrs w' i = Some (row_attr os scopes a0 (scenarii ! i) (?b i))"
    using assms(1,2) by (auto simp: prepared_def less_Suc_eq)
  moreover have "\<forall>i\<ge>Suc n. attrs w' i = attrs w0 i" "sems w' = sems w0 \<union> {..<Suc n}"
    using assms(1,2,3) by (auto simp: prepared_def)
  ultimately show ?thesis by (simp add: prepared_def)
qed

context thr_lib
begin

lemma scenar_init_prepares:
  "\<exists>st. scenar_init os junk (\<lambda>_. 0, w) = Inr st \<and> prepared os scopes attrs sems heap attr0 w NSCENAR st"
proof -
  have "\<exists>st. for_all (scenar_one os junk) [0..<NSCENAR] (\<lambda>_. 0, w) = Inr st
      \<and> prepared os scopes attrs sems heap attr0 w NSCENAR st"
  proof (rule for_all_upt)
    show "prepared os scopes attrs sems heap attr0 w 0 (\<lambda>_. 0, w)" by (simp add: prepared_def)
    fix n st assume n: "n < NSCENAR" and prep: "prepared os scopes attrs sems heap attr0 w n st"
    obtain b v where st: "st = (b, v)" by (cases st)
    have "b n = 0" using prep st by (auto simp: prepared_def)
    from scenar_one_ok [of n b junk v, OF n this] prep st
    show "\<exists>t. scenar_one os junk n st = Inr t \<and> prepared os scopes attrs sems heap attr0 w (Suc n) t"
      by (metis prepared_Suc)
  qed
  with pages show ?thesis by (simp add: scenar_init_def)
qed

lemma fini_one_ok:
  assumes "attrs w i \<noteq> None" and "i \<in> sems w" and "b i \<noteq> 0 \<longrightarrow> b i \<in> heap w"
  shows "\<exists>w'. fini_one os i (b, w) = Inr (b, w') \<and> attrs w' = (attrs w)(i := None) \<and> sems w' = sems w - {i}
    \<and> heap w' = (if b i = 0 then heap w else heap w - {b i})"
proof -
  let ?w = "if b i \<noteq> 0 then th_free os (b i) w else w"
  have w: "attrs ?w = attrs w" "sems ?w = sems w" "heap ?w = (if b i = 0 then heap w else heap w - {b i})"
    using assms(3) free_removes [of "b i" w] by auto
  from sem_destroys [of i ?w] w assms(2) obtain w1 where
    1: "th_sem_destroy os i ?w = (0, w1)" "sems w1 = sems w - {i}" "attrs w1 = attrs w" "heap w1 = heap ?w" by auto
  from attr_destroys [of w1 i] 1 assms(1) obtain w2 where
    2: "attr_destroy os i w1 = (0, w2)" "attrs w2 = (attrs w1)(i := None)" "sems w2 = sems w1" "heap w2 = heap w1" by auto
  have "fini_one os i (b, w) = Inr (b, w2)" by (simp only: fini_one_def Let_def split 1(1) must_def 2(1)) simp
  with 1 2 w show ?thesis by auto
qed

text \<open>What is left of a prepared state once the first \<open>n\<close> scenarios are released.\<close>

lemma scenar_fini_releases:
  assumes prep: "prepared os scopes attrs sems heap attr0 w0 NSCENAR (b, w)"
    and new: "\<forall>i<NSCENAR. attrs w0 i = None \<and> i \<notin> sems w0"
  shows "\<exists>w'. scenar_fini os (b, w) = Inr (b, w') \<and> attrs w' = attrs w0 \<and> sems w' = sems w0 \<and> heap w' = heap w0"
proof -
  have inj: "inj_on b {i. b i \<noteq> 0}" and disj: "\<forall>i. b i \<noteq> 0 \<longrightarrow> b i \<notin> heap w0"
    using prep unfolding prepared_def split by blast+
  let ?P = "\<lambda>n (b', v). b' = b \<and> (\<forall>i<n. attrs v i = None) \<and> (\<forall>i\<ge>n. attrs v i = attrs w i)
    \<and> sems v = sems w0 \<union> {n..<NSCENAR} \<and> heap v = heap w0 \<union> b ` {i. b i \<noteq> 0 \<and> n \<le> i}"
  have "\<exists>t. for_all (fini_one os) [0..<NSCENAR] (b, w) = Inr t \<and> ?P NSCENAR t"
  proof (rule for_all_upt [where P = ?P])
    show "?P 0 (b, w)" using prep by (auto simp: prepared_def)
    fix n st assume n: "n < NSCENAR" and P: "?P n st"
    then obtain v where st: "st = (b, v)" by (cases st) auto
    have "attrs v n \<noteq> None" "n \<in> sems v" "b n \<noteq> 0 \<longrightarrow> b n \<in> heap v"
      using P st n prep by (auto simp: prepared_def)
    from fini_one_ok [of v n b, OF this] obtain v' where
      v': "fini_one os n (b, v) = Inr (b, v')" "attrs v' = (attrs v)(n := None)" "sems v' = sems v - {n}"
      "heap v' = (if b n = 0 then heap v else heap v - {b n})" by blast
    have "heap v' = heap w0 \<union> b ` {i. b i \<noteq> 0 \<and> Suc n \<le> i}"
    proof (cases "b n = 0")
      case True
      then have "{i. b i \<noteq> 0 \<and> n \<le> i} = {i. b i \<noteq> 0 \<and> Suc n \<le> i}" by (auto simp: Suc_le_eq le_less)
      with True v'(4) P st show ?thesis by simp
    next
      case False
      then have "{i. b i \<noteq> 0 \<and> n \<le> i} = insert n {i. b i \<noteq> 0 \<and> Suc n \<le> i}" by (auto simp: Suc_le_eq le_less)
      moreover have "b n \<notin> b ` {i. b i \<noteq> 0 \<and> Suc n \<le> i}" "b n \<notin> heap w0"
        using inj disj False by (auto dest: inj_onD)
      ultimately show ?thesis using False v'(4) P st by auto
    qed
    moreover have "sems v' = sems w0 \<union> {Suc n..<NSCENAR}" using v'(3) P st new n by auto
    moreover have "\<forall>i<Suc n. attrs v' i = None" "\<forall>i\<ge>Suc n. attrs v' i = attrs w i"
      using v'(2) P st by (auto simp: less_Suc_eq)
    ultimately show "\<exists>t. fini_one os n st = Inr t \<and> ?P (Suc n) t" using v'(1) st by auto
  qed
  then obtain v where v: "scenar_fini os (b, w) = Inr (b, v)" "?P NSCENAR (b, v)" by (auto simp: scenar_fini_def)
  have "attrs v = attrs w0"
  proof
    fix i show "attrs v i = attrs w0 i" using v(2) new prep by (cases "i < NSCENAR") (auto simp: prepared_def)
  qed
  moreover have none: "{i. b i \<noteq> 0 \<and> NSCENAR \<le> i} = {}" using prep by (auto simp: prepared_def)
  moreover have "heap v = heap w0" using v(2) unfolding none by simp
  moreover have "sems v = sems w0" using v(2) by simp
  ultimately show ?thesis using v(1) by blast
qed

end

section \<open>Running the threads\<close>

text \<open>
  What \<^verbatim>\<open>main\<close> relies on beyond the attribute objects. \<open>child w\<close> is the thread that the variable
  \<^verbatim>\<open>child\<close> denotes, by the scenario it was created for. A thread can be created from the default
  attributes changed in the ways that need no privilege and no extra resource; a joinable thread can
  be joined; a thread posts its semaphore when it ends, and a wait for it is interrupted at most
  \<open>K\<close> times.
\<close>

definition same_res :: "('w \<Rightarrow> nat \<Rightarrow> attr option) \<Rightarrow> ('w \<Rightarrow> nat set) \<Rightarrow> ('w \<Rightarrow> nat set) \<Rightarrow> 'w \<Rightarrow> 'w \<Rightarrow> bool" where
  "same_res attrs sems heap w w' \<longleftrightarrow> attrs w' = attrs w \<and> sems w' = sems w \<and> heap w' = heap w"

lemma same_res_refl [simp]: "same_res attrs sems heap w w"
  by (simp add: same_res_def)

lemma same_res_trans:
  "same_res attrs sems heap u v \<Longrightarrow> same_res attrs sems heap v w \<Longrightarrow> same_res attrs sems heap u w"
  by (simp add: same_res_def)

locale thr_run = thr_lib os attrs sems heap attr0 scopes
  for os :: "'w thr_os" and attrs sems heap attr0 scopes +
  fixes child :: "'w \<Rightarrow> nat option"
    and intr :: "'w \<Rightarrow> nat"
    and K :: nat
  assumes create_starts: "attrs w i = Some a \<Longrightarrow> i \<in> sems w \<Longrightarrow>
      \<exists>ret w'. th_create os i w = (ret, w') \<and> same_res attrs sems heap w w'
        \<and> (ret = 0 \<longrightarrow> child w' = Some i \<and> intr w' \<le> K)
        \<and> (a_policy a = a_policy attr0 \<and> a_prio a = a_prio attr0 \<and> a_guard a \<in> {0, a_guard attr0} \<longrightarrow> ret = 0)"
    and join_ends: "child w = Some i \<Longrightarrow> attrs w i = Some a \<Longrightarrow> a_detach a = PTHREAD_CREATE_JOINABLE \<Longrightarrow>
      \<exists>w'. th_join os w = (0, w') \<and> same_res attrs sems heap w w'"
    and wait_ends: "child w = Some i \<Longrightarrow> i \<in> sems w \<Longrightarrow>
      \<exists>ret e w'. th_sem_wait os i w = (ret, e, w') \<and> same_res attrs sems heap w w' \<and> child w' = child w
        \<and> (ret = 0 \<or> ret = - 1 \<and> e = EINTR \<and> intr w' < intr w)"

lemma prepared_same_res:
  assumes "same_res attrs sems heap w w'"
  shows "prepared os scopes attrs sems heap a0 w0 n (b, w') \<longleftrightarrow> prepared os scopes attrs sems heap a0 w0 n (b, w)"
proof -
  have "attrs w' = attrs w" "sems w' = sems w" "heap w' = heap w" using assms by (simp_all add: same_res_def)
  then show ?thesis by (simp only: prepared_def split)
qed

text \<open>The rows that must succeed ask for nothing but what \<open>create_starts\<close> promises to accept.\<close>

definition pos_plain :: "scenario \<Rightarrow> bool" where
  "pos_plain s \<longleftrightarrow> (sresult s = 0 \<longrightarrow> schedpolicy s = 0 \<and> schedparam s = 0 \<and> guard s \<noteq> 2)
     \<and> sresult s \<noteq> 1 \<and> detached s \<in> {0, 1}"

lemma rows_plain: "\<forall>s \<in> set scenarii. pos_plain s"
  by (simp add: scenarii_def pos_plain_def CASE_def)

context thr_run
begin

lemma wait_end_ends:
  assumes "child w = Some i" and "i \<in> sems w" and "intr w < fuel"
  shows "\<exists>w'. wait_end fuel os i w = Ret (Inr w') \<and> same_res attrs sems heap w w'"
  using assms
proof (induction fuel arbitrary: w)
  case (Suc fuel)
  from wait_ends [OF Suc.prems(1,2)] obtain ret e w1 where
    1: "th_sem_wait os i w = (ret, e, w1)" "same_res attrs sems heap w w1" "child w1 = Some i"
    "ret = 0 \<or> ret = - 1 \<and> e = EINTR \<and> intr w1 < intr w" using Suc.prems(1) by auto
  from 1(4) show ?case
  proof
    assume "ret = 0"
    with 1 show ?thesis by simp
  next
    assume i: "ret = - 1 \<and> e = EINTR \<and> intr w1 < intr w"
    have "i \<in> sems w1" using 1(2) Suc.prems(2) by (simp add: same_res_def)
    from Suc.IH [OF 1(3) this] i Suc.prems(3) obtain w' where
      "wait_end fuel os i w1 = Ret (Inr w')" "same_res attrs sems heap w1 w'" by auto
    with 1 i show ?thesis using same_res_trans by fastforce
  qed
qed simp

lemma run_one_ends:
  assumes "i < NSCENAR" and "attrs w i = Some (row_attr os scopes attr0 (scenarii ! i) p)" and "i \<in> sems w" and "K < fuel"
  shows "\<exists>w'. run_one fuel os i w = Ret (Inr w') \<and> same_res attrs sems heap w w'"
proof -
  let ?s = "scenarii ! i" and ?a = "row_attr os scopes attr0 (scenarii ! i) p"
  have plain: "pos_plain ?s" using rows_plain assms(1) by (simp add: NSCENAR_def)
  from create_starts [OF assms(2,3)] obtain ret w1 where
    1: "th_create os i w = (ret, w1)" "same_res attrs sems heap w w1" "ret = 0 \<longrightarrow> child w1 = Some i \<and> intr w1 \<le> K"
    "a_policy ?a = a_policy attr0 \<and> a_prio ?a = a_prio attr0 \<and> a_guard ?a \<in> {0, a_guard attr0} \<longrightarrow> ret = 0" by blast
  have pos: "sresult ?s = 0 \<longrightarrow> ret = 0" using 1(4) plain by (auto simp: row_attr_def row_policy_def pos_plain_def)
  show ?thesis
  proof (cases "ret = 0")
    case False
    with 1 pos plain show ?thesis by (simp add: run_one_def pos_plain_def)
  next
    case True
    have r: "attrs w1 i = Some ?a" "i \<in> sems w1" using 1(2) assms(2,3) by (simp_all add: same_res_def)
    show ?thesis
    proof (cases "detached ?s = 0")
      case True
      then have "a_detach ?a = PTHREAD_CREATE_JOINABLE" by (simp add: row_attr_def)
      from join_ends [OF _ r(1) this] 1(3) \<open>ret = 0\<close> obtain w2 where
        2: "th_join os w1 = (0, w2)" "same_res attrs sems heap w1 w2" by auto
      then have "same_res attrs sems heap w w2" using 1(2) by (simp add: same_res_def)
      with 1(1) 2 True \<open>ret = 0\<close> plain show ?thesis by (simp add: run_one_def pos_plain_def)
    next
      case False
      from wait_end_ends [of w1 i fuel] r 1(3) \<open>ret = 0\<close> assms(4) obtain w2 where
        2: "wait_end fuel os i w1 = Ret (Inr w2)" "same_res attrs sems heap w1 w2" by auto
      then have "same_res attrs sems heap w w2" using 1(2) by (simp add: same_res_def)
      with 1(1) 2 False \<open>ret = 0\<close> plain show ?thesis by (simp add: run_one_def pos_plain_def)
    qed
  qed
qed

lemma run_all_ends:
  assumes "\<forall>i \<in> set is. i < NSCENAR \<and> i \<in> sems w \<and> (\<exists>p. attrs w i = Some (row_attr os scopes attr0 (scenarii ! i) p))"
    and "K < fuel"
  shows "\<exists>w'. run_all fuel os is w = Ret (Inr w') \<and> same_res attrs sems heap w w'"
  using assms(1)
proof (induction "is" arbitrary: w)
  case (Cons i "is")
  then obtain p where "i < NSCENAR" "i \<in> sems w" "attrs w i = Some (row_attr os scopes attr0 (scenarii ! i) p)" by auto
  from run_one_ends [OF this(1,3,2) assms(2)] obtain w1 where
    1: "run_one fuel os i w = Ret (Inr w1)" "same_res attrs sems heap w w1" by blast
  have "\<forall>i \<in> set is. i < NSCENAR \<and> i \<in> sems w1 \<and> (\<exists>p. attrs w1 i = Some (row_attr os scopes attr0 (scenarii ! i) p))"
    using Cons.prems 1(2) by (simp add: same_res_def)
  from Cons.IH [OF this] obtain w' where "run_all fuel os is w1 = Ret (Inr w')" "same_res attrs sems heap w1 w'" by blast
  with 1 show ?case using same_res_trans by fastforce
qed simp

lemma scenar_main_passes:
  assumes "K < fuel" and "\<forall>i<NSCENAR. attrs w i = None \<and> i \<notin> sems w"
  shows "\<exists>w'. scenar_main fuel os junk w = Ret (PTS_PASS, Some w') \<and> same_res attrs sems heap w w'"
proof -
  from scenar_init_prepares [of junk w] obtain b w1 where
    1: "scenar_init os junk (\<lambda>_. 0, w) = Inr (b, w1)" "prepared os scopes attrs sems heap attr0 w NSCENAR (b, w1)" by auto
  have "\<forall>i \<in> set [0..<NSCENAR]. i < NSCENAR \<and> i \<in> sems w1
      \<and> (\<exists>p. attrs w1 i = Some (row_attr os scopes attr0 (scenarii ! i) p))"
    using 1(2) unfolding prepared_def by fastforce
  from run_all_ends [OF this assms(1)] obtain w2 where
    2: "run_all fuel os [0..<NSCENAR] w1 = Ret (Inr w2)" "same_res attrs sems heap w1 w2" by blast
  have "prepared os scopes attrs sems heap attr0 w NSCENAR (b, w2)"
    using 1(2) prepared_same_res [OF 2(2)] by blast
  from scenar_fini_releases [OF this assms(2)] obtain w3 where
    "scenar_fini os (b, w2) = Inr (b, w3)" "same_res attrs sems heap w w3" by (auto simp: same_res_def)
  with 1(1) 2(1) show ?thesis by (simp add: scenar_main_def)
qed

end

section \<open>A reference library\<close>

text \<open>A thread library that keeps its promises: setters store, both scopes are supported, real-time policies
  are refused (as for an unprivileged process), blocks are numbered, each wait is interrupted once.\<close>

record ref_world =
  r_attrs :: "nat \<Rightarrow> attr option"
  r_sems :: "nat set"
  r_blocks :: "nat list"
  r_child :: "nat option"
  r_intr :: nat

definition ref_set :: "(attr \<Rightarrow> attr) \<Rightarrow> nat \<Rightarrow> ref_world \<Rightarrow> int \<times> ref_world" where
  "ref_set f i w = (0, w\<lparr>r_attrs := (r_attrs w)(i \<mapsto> f (the (r_attrs w i)))\<rparr>)"

definition ref_attr0 :: attr where
  "ref_attr0 = \<lparr>a_detach = PTHREAD_CREATE_JOINABLE, a_inherit = PTHREAD_INHERIT_SCHED, a_policy = 0, a_prio = 0,
     a_scope = PTHREAD_SCOPE_SYSTEM, a_stack = 0, a_guard = 4096, a_size = 8388608\<rparr>"

definition ref_os :: "ref_world thr_os" where
  "ref_os =
     \<lparr>sc_pagesize = 4096, sc_stack_min = 16384, sc_tsa = 200112, sc_tss = 200112, sc_tps = 200112,
      attr_init = ref_set (\<lambda>_. ref_attr0),
      attr_destroy = (\<lambda>i w. (0, w\<lparr>r_attrs := (r_attrs w)(i := None)\<rparr>)),
      attr_setdetachstate = (\<lambda>i v. ref_set (a_detach_update (\<lambda>_. v)) i),
      attr_getdetachstate = (\<lambda>i w. (0, a_detach (the (r_attrs w i)), w)),
      attr_setinheritsched = (\<lambda>i v. ref_set (a_inherit_update (\<lambda>_. v)) i),
      attr_setschedpolicy = (\<lambda>i v. ref_set (a_policy_update (\<lambda>_. v)) i),
      attr_getschedpolicy = (\<lambda>i w. (0, a_policy (the (r_attrs w i)), w)),
      attr_setschedparam = (\<lambda>i v. ref_set (a_prio_update (\<lambda>_. v)) i),
      priority_max = (\<lambda>p. if p = 0 then 0 else 99), priority_min = (\<lambda>p. if p = 0 then 0 else 1),
      attr_getscope = (\<lambda>i w. (0, a_scope (the (r_attrs w i)), w)),
      attr_setscope = (\<lambda>i v w. if v \<in> {PTHREAD_SCOPE_SYSTEM, PTHREAD_SCOPE_PROCESS} then ref_set (a_scope_update (\<lambda>_. v)) i w else (22, w)),
      attr_setstack = (\<lambda>i p n. ref_set (\<lambda>a. a\<lparr>a_stack := p, a_size := n\<rparr>) i),
      attr_setguardsize = (\<lambda>i v. ref_set (a_guard_update (\<lambda>_. v)) i),
      attr_setstacksize = (\<lambda>i v. ref_set (a_size_update (\<lambda>_. v)) i),
      th_malloc = (\<lambda>n w. let p = Suc (sum_list (r_blocks w)) in (p, w\<lparr>r_blocks := p # r_blocks w\<rparr>)),
      th_free = (\<lambda>p w. w\<lparr>r_blocks := removeAll p (r_blocks w)\<rparr>),
      th_sem_init = (\<lambda>i w. (0, w\<lparr>r_sems := insert i (r_sems w)\<rparr>)),
      th_sem_destroy = (\<lambda>i w. (0, w\<lparr>r_sems := r_sems w - {i}\<rparr>)),
      th_sem_wait = (\<lambda>i w. if r_intr w > 0 then (- 1, EINTR, w\<lparr>r_intr := r_intr w - 1\<rparr>) else (0, EOK, w)),
      th_create = (\<lambda>i w. if a_policy (the (r_attrs w i)) \<noteq> 0 then (1, w) else (0, w\<lparr>r_child := Some i, r_intr := 1\<rparr>)),
      th_join = (\<lambda>w. (0, w\<lparr>r_child := None\<rparr>))\<rparr>"

lemma sum_list_fresh: "Suc (sum_list xs) \<notin> set (xs :: nat list)"
  using member_le_sum_list by fastforce

interpretation ref_thr: thr_run ref_os r_attrs r_sems "\<lambda>w. set (r_blocks w)" ref_attr0
  "{PTHREAD_SCOPE_SYSTEM, PTHREAD_SCOPE_PROCESS}" r_child r_intr 1
  by unfold_locales
    (auto simp: ref_os_def ref_set_def ref_attr0_def sets_def same_res_def Let_def sum_list_fresh signed_modulo_int_def)

definition ref_world0 :: ref_world where
  "ref_world0 = \<lparr>r_attrs = \<lambda>_. None, r_sems = {}, r_blocks = [7], r_child = None, r_intr = 0\<rparr>"

section \<open>Properties\<close>

text \<open>C25 Preparing the scenarios: on a thread library that behaves as documented and supports the scopes \<open>scopes\<close>, \<^verbatim>\<open>scenar_init\<close>
  succeeds, and afterwards the attribute object of every row of the table has exactly the values the
  row asks for (detach state, inheritance, policy, priority, guard and stack sizes; the scope that is not the default for a row with
  \<^verbatim>\<open>altscope\<close> if it is supported, the default otherwise; the alternative
  stacks are pairwise distinct new blocks), every scenario has its semaphore, and nothing else of the
  process has changed.\<close>

theorem scenar_init_realises_table:
  assumes "thr_lib os attrs sems heap attr0 scopes"
  shows "\<exists>st. scenar_init os junk (\<lambda>_. 0, w) = Inr st \<and> prepared os scopes attrs sems heap attr0 w NSCENAR st"
  using assms by (rule thr_lib.scenar_init_prepares)

theorem scenar_init_realises_table_witness:
  "\<exists>st. scenar_init ref_os 0 (\<lambda>_. 0, ref_world0) = Inr st
     \<and> prepared ref_os {PTHREAD_SCOPE_SYSTEM, PTHREAD_SCOPE_PROCESS} r_attrs r_sems (\<lambda>w. set (r_blocks w)) ref_attr0 ref_world0 NSCENAR st"
  by (rule scenar_init_realises_table) (rule ref_thr.thr_lib_axioms)

text \<open>C26 The whole run. The hypotheses: the calls on attribute objects, memory and semaphores succeed as in \<open>thr_lib\<close>; a thread can be created from
  attributes that need no privilege; a joinable thread can be joined; a thread posts its semaphore, and a wait for it is interrupted at most \<open>K\<close> times;
  no attribute object and no semaphore of the table is initialised at the start. Then
  \<^verbatim>\<open>main\<close> terminates (\<open>K + 1\<close> turns of the loop around \<^verbatim>\<open>sem_wait\<close> are enough), reports PASS, and has
  given back every block, semaphore and attribute object it took. This includes the block of row 14, a detached thread with an alternative stack, which is freed once
  the thread has posted its semaphore, whether or not the thread has ended.\<close>

theorem scenar_main_terminates:
  assumes "thr_run os attrs sems heap attr0 scopes child intr K" and "K < fuel"
    and "\<forall>i<NSCENAR. attrs w i = None \<and> i \<notin> sems w"
  shows "\<exists>w'. scenar_main fuel os junk w = Ret (PTS_PASS, Some w')
     \<and> attrs w' = attrs w \<and> sems w' = sems w \<and> heap w' = heap w"
  using thr_run.scenar_main_passes [OF assms] by (simp add: same_res_def)

theorem scenar_main_terminates_witness:
  "\<exists>w'. scenar_main 2 ref_os 0 ref_world0 = Ret (PTS_PASS, Some w')
     \<and> r_attrs w' = r_attrs ref_world0 \<and> r_sems w' = r_sems ref_world0 \<and> set (r_blocks w') = set (r_blocks ref_world0)"
  by (rule scenar_main_terminates [OF ref_thr.thr_run_axioms]) (simp_all add: ref_world0_def)

end
