(* ===== verification/Mq_Tests.thy ===== *)
theory Mq_Tests
  imports Posix_Mq
begin

text \<open>
  Conformance programs for message queues (\<^verbatim>\<open>conformance/interfaces/mq_*\<close>) of one process and one
  thread, as functions of the system under test, the record \<open>mq_api\<close>. A program gets its process
  identifier, and what its uninitialised variables hold: \<open>junk\<close> for integers and the unset fields of
  \<^verbatim>\<open>attr\<close>, \<open>jb\<close> for the receive buffer. A call returns its result and the value of errno after it.
  Output is left out. Programs that share a sequence of statements share a definition for it.
\<close>

section \<open>The system under test\<close>

text \<open>A descriptor is an integer; -1 is \<^verbatim>\<open>(mqd_t)-1\<close>. \<open>q_receive\<close> also gives the priority and the text it
  stores, \<open>q_getattr\<close> and \<open>q_setattr\<close> the attributes they store; the last argument of \<open>q_setattr\<close> says
  whether the pointer for the old attributes is not \<^verbatim>\<open>NULL\<close>. The time limit of a timed call is in
  seconds and nanoseconds.\<close>

type_synonym ('r, 'w) ccall = "'w \<Rightarrow> ('r \<times> errno \<times> 'w) outcome"

record 'w mq_api =
  q_open :: "string \<Rightarrow> flags \<Rightarrow> flags \<Rightarrow> mq_attr option \<Rightarrow> (int, 'w) ccall"
  q_close :: "int \<Rightarrow> (int, 'w) ccall"
  q_unlink :: "string \<Rightarrow> (int, 'w) ccall"
  q_getattr :: "int \<Rightarrow> (int \<times> mq_attr option, 'w) ccall"
  q_setattr :: "int \<Rightarrow> mq_attr \<Rightarrow> bool \<Rightarrow> (int \<times> mq_attr option, 'w) ccall"
  q_send :: "int \<Rightarrow> string \<Rightarrow> int \<Rightarrow> (int, 'w) ccall"
  q_receive :: "int \<Rightarrow> nat \<Rightarrow> (int \<times> (int \<times> string) option, 'w) ccall"
  q_notify :: "int \<Rightarrow> sigevent \<Rightarrow> (int, 'w) ccall"
  q_prio_max :: int

record 'w mqt_api = "'w mq_api" +
  q_time :: "(int, 'w) ccall"
  q_timedsend :: "int \<Rightarrow> string \<Rightarrow> int \<Rightarrow> int \<times> int \<Rightarrow> (int, 'w) ccall"
  q_timedreceive :: "int \<Rightarrow> nat \<Rightarrow> int \<times> int \<Rightarrow> (int \<times> (int \<times> string) option, 'w) ccall"

type_synonym 'w test = "'w \<Rightarrow> (int \<times> 'w) outcome"

definition call :: "('r, 'w) ccall \<Rightarrow> ('r \<Rightarrow> errno \<Rightarrow> 'w test) \<Rightarrow> 'w test" where
  "call f k w = obind (f w) (\<lambda>(r, e, w). k r e w)"

definition leave :: "int \<Rightarrow> 'w test" where
  "leave c w = Ret (c, w)"

section \<open>Shared statements\<close>

definition USER_RW :: flags where "USER_RW = 0x180"

text \<open>\<^verbatim>\<open>sprintf(qname, "/mq_f_n_%d", getpid())\<close>; every array has room for it.\<close>

definition qname_of :: "string \<Rightarrow> nat \<Rightarrow> string" where
  "qname_of prefix pid = CHR ''/'' # prefix @ CHR ''_'' # digits pid"

definition mqa :: "int \<Rightarrow> int \<Rightarrow> int \<Rightarrow> mq_attr" where
  "mqa junk maxmsg msgsize = \<lparr>mq_flags = junk, mq_maxmsg = maxmsg, mq_msgsize = msgsize, mq_curmsgs = junk\<rparr>"

definition zero_attr :: mq_attr where
  "zero_attr = \<lparr>mq_flags = 0, mq_maxmsg = 0, mq_msgsize = 0, mq_curmsgs = 0\<rparr>"

text \<open>Opening a queue; leaving with a code, or going on with a mark, when that fails.\<close>

definition open_or :: "('w, 'z) mq_api_scheme \<Rightarrow> int \<Rightarrow> string \<Rightarrow> flags \<Rightarrow> mq_attr option \<Rightarrow> (int \<Rightarrow> 'w test) \<Rightarrow> 'w test" where
  "open_or api code qname fl attr k =
     call (q_open api qname fl USER_RW attr) (\<lambda>queue _. if queue = - 1 then leave code else k queue)"

definition open_mark :: "('w, 'z) mq_api_scheme \<Rightarrow> string \<Rightarrow> flags \<Rightarrow> mq_attr option \<Rightarrow> (int \<Rightarrow> bool \<Rightarrow> 'w test) \<Rightarrow> 'w test" where
  "open_mark api qname fl attr k = call (q_open api qname fl USER_RW attr) (\<lambda>queue _. k queue (queue = - 1))"

text \<open>The usual end: close and unlink, with their results checked or not, then the verdict.\<close>

definition verdict :: "bool \<Rightarrow> bool \<Rightarrow> int" where
  "verdict failure unresolved = (if failure then PTS_FAIL else if unresolved then PTS_UNRESOLVED else PTS_PASS)"

definition finish :: "('w, 'z) mq_api_scheme \<Rightarrow> int \<Rightarrow> string \<Rightarrow> bool \<Rightarrow> bool \<Rightarrow> 'w test" where
  "finish api queue qname failure unresolved =
     call (q_close api queue) (\<lambda>rc _. call (q_unlink api qname) (\<lambda>ru _.
       leave (verdict failure (unresolved \<or> rc \<noteq> 0 \<or> ru \<noteq> 0))))"

definition cleanup :: "('w, 'z) mq_api_scheme \<Rightarrow> int list \<Rightarrow> string \<Rightarrow> int \<Rightarrow> 'w test" where
  "cleanup api queues qname code =
     foldr (\<lambda>d p. call (q_close api d) (\<lambda>_ _. p)) queues (call (q_unlink api qname) (\<lambda>_ _. leave code))"

text \<open>The receive buffer after a call, and \<^verbatim>\<open>strncmp(msgptr, msgrcd, strlen(msgptr)) != 0\<close>.\<close>

definition buffer_after :: "int \<times> (int \<times> string) option \<Rightarrow> string \<Rightarrow> string" where
  "buffer_after r jb = (case snd r of None \<Rightarrow> jb | Some (p, m) \<Rightarrow> m @ drop (length m) jb)"

definition prio_after :: "int \<times> (int \<times> string) option \<Rightarrow> int \<Rightarrow> int" where
  "prio_after r junk = (case snd r of None \<Rightarrow> junk | Some (p, m) \<Rightarrow> p)"

definition differs :: "string \<Rightarrow> string \<Rightarrow> bool" where
  "differs msg buf \<longleftrightarrow> take (length msg) buf \<noteq> msg"

definition attr_after :: "int \<times> mq_attr option \<Rightarrow> mq_attr \<Rightarrow> mq_attr" where
  "attr_after r a = (case snd r of None \<Rightarrow> a | Some b \<Rightarrow> b)"

definition MSGSTR :: string where "MSGSTR = ''0123456789''"

section \<open>mq_close, mq_unlink\<close>

definition mq_close_1_1 :: "('w, 'z) mq_api_scheme \<Rightarrow> nat \<Rightarrow> 'w test" where
  "mq_close_1_1 api pid =
     (let qname = qname_of ''mq_close_1-1'' pid in
      open_or api PTS_UNRESOLVED qname (O_CREAT OR O_RDWR) None (\<lambda>queue.
      call (q_close api queue) (\<lambda>rc _.
      if rc \<noteq> 0 then leave PTS_FAIL
      else call (q_unlink api qname) (\<lambda>rc _. leave (if rc \<noteq> 0 then PTS_UNRESOLVED else PTS_PASS)))))"

definition mq_close_3_1 :: "('w, 'z) mq_api_scheme \<Rightarrow> nat \<Rightarrow> 'w test" where
  "mq_close_3_1 api pid =
     (let qname = qname_of ''mq_close_3-1'' pid in
      open_or api PTS_UNRESOLVED qname (O_CREAT OR O_RDWR) None (\<lambda>queue.
      call (q_close api queue) (\<lambda>rc _.
      if rc = - 1 then call (q_unlink api qname) (\<lambda>_ _. leave PTS_UNRESOLVED)
      else call (q_unlink api qname) (\<lambda>rc _.
      if rc \<noteq> 0 then leave PTS_UNRESOLVED
      else call (q_close api queue) (\<lambda>rc e.
      leave (if rc \<noteq> - 1 then PTS_FAIL else if e \<noteq> EBADF then PTS_FAIL else PTS_PASS))))))"

definition SIGUSR1 :: int where "SIGUSR1 = 10"

definition mq_close_4_1 :: "('w, 'z) mq_api_scheme \<Rightarrow> nat \<Rightarrow> sigevent \<Rightarrow> 'w test" where
  "mq_close_4_1 api pid se =
     (let qname = qname_of ''mq_close_4-1'' pid in
      open_or api PTS_UNRESOLVED qname (O_CREAT OR O_RDWR) None (\<lambda>queue.
      call (q_close api queue) (\<lambda>rc _.
      if rc = - 1 then leave PTS_UNRESOLVED
      else call (q_notify api queue (se\<lparr>sigev_notify := SIGEV_SIGNAL, sigev_signo := SIGUSR1\<rparr>)) (\<lambda>rc e.
      if rc \<noteq> - 1 then leave PTS_FAIL
      else if e \<noteq> EBADF then leave PTS_FAIL
      else call (q_unlink api qname) (\<lambda>rc _. leave (if rc \<noteq> 0 then PTS_UNRESOLVED else PTS_PASS))))))"

definition mq_unlink_1_1 :: "('w, 'z) mq_api_scheme \<Rightarrow> nat \<Rightarrow> 'w test" where
  "mq_unlink_1_1 api pid =
     (let mqname = qname_of ''mq_unlink_1-1'' pid in
      open_or api PTS_UNRESOLVED mqname (O_CREAT OR O_RDWR) None (\<lambda>mqdes.
      call (q_unlink api mqname) (\<lambda>rc _.
      if rc = 0
      then call (q_open api mqname O_RDWR USER_RW None) (\<lambda>d _. leave (if d = - 1 then PTS_PASS else PTS_FAIL))
      else leave PTS_FAIL)))"

definition mq_unlink_7_1 :: "('w, 'z) mq_api_scheme \<Rightarrow> 'w test" where
  "mq_unlink_7_1 api =
     call (q_unlink api ''/something-which-does-not-exit'') (\<lambda>_ e. leave (if e = ENOENT then PTS_PASS else PTS_FAIL))"

section \<open>mq_getattr, mq_setattr\<close>

definition mq_getattr_2_1 :: "('w, 'z) mq_api_scheme \<Rightarrow> nat \<Rightarrow> 'w test" where
  "mq_getattr_2_1 api pid =
     (let mqname = qname_of ''mq_getattr_2-1'' pid in
      open_or api PTS_UNRESOLVED mqname (O_CREAT OR O_RDWR OR O_NONBLOCK) None (\<lambda>mqdes.
      call (q_getattr api mqdes) (\<lambda>r _. let mqstat = attr_after r zero_attr; unresolved = fst r \<noteq> 0 in
      call (q_close api mqdes) (\<lambda>_ _.
      call (q_unlink api mqname) (\<lambda>rc _.
      leave (if rc \<noteq> 0 then PTS_UNRESOLVED else verdict (\<not> has_long (mq_flags mqstat) O_NONBLOCK) unresolved))))))"

definition mq_getattr_2_2 :: "('w, 'z) mq_api_scheme \<Rightarrow> nat \<Rightarrow> 'w test" where
  "mq_getattr_2_2 api pid =
     (let mqname = qname_of ''mq_getattr_2-2'' pid in
      open_or api PTS_UNRESOLVED mqname (O_CREAT OR O_RDWR) None (\<lambda>mqdes.
      call (q_getattr api mqdes) (\<lambda>r1 _.
      let mqstat = attr_after r1 zero_attr; mqstat = mqstat\<lparr>mq_flags := mq_flags mqstat OR uint O_NONBLOCK\<rparr> in
      call (q_setattr api mqdes mqstat False) (\<lambda>r2 _.
      call (q_getattr api mqdes) (\<lambda>r3 _. let nmqstat = attr_after r3 zero_attr in
      cleanup api [mqdes] mqname
        (verdict (fst r2 = - 1 \<or> mq_flags nmqstat \<noteq> mq_flags mqstat) (fst r1 = - 1 \<or> fst r3 \<noteq> 0)))))))"

definition mq_getattr_3_1 :: "('w, 'z) mq_api_scheme \<Rightarrow> nat \<Rightarrow> 'w test" where
  "mq_getattr_3_1 api pid =
     (let mqname = qname_of ''mq_getattr_3-1'' pid; mqstat = zero_attr\<lparr>mq_msgsize := 50, mq_maxmsg := 40\<rparr> in
      open_or api PTS_UNRESOLVED mqname (O_CREAT OR O_RDWR) (Some mqstat) (\<lambda>mqdes.
      call (q_getattr api mqdes) (\<lambda>r _. let nmqstat = attr_after r zero_attr in
      cleanup api [mqdes] mqname
        (verdict (mq_maxmsg mqstat \<noteq> mq_maxmsg nmqstat \<or> mq_msgsize mqstat \<noteq> mq_msgsize nmqstat) (fst r \<noteq> 0)))))"

text \<open>\<^verbatim>\<open>n\<close> calls of a send function; whether one returned -1.\<close>

fun send_times :: "nat \<Rightarrow> (int, 'w) ccall \<Rightarrow> bool \<Rightarrow> (bool \<Rightarrow> 'w test) \<Rightarrow> 'w test" where
  "send_times 0 f bad k = k bad"
| "send_times (Suc n) f bad k = call f (\<lambda>rc _. send_times n f (bad \<or> rc = - 1) k)"

definition mq_getattr_4_1 :: "('w, 'z) mq_api_scheme \<Rightarrow> nat \<Rightarrow> 'w test" where
  "mq_getattr_4_1 api pid =
     (let mqname = qname_of ''mq_getattr_4-1'' pid in
      open_or api PTS_UNRESOLVED mqname (O_CREAT OR O_RDWR) (Some (zero_attr\<lparr>mq_msgsize := 50, mq_maxmsg := 40\<rparr>)) (\<lambda>mqdes.
      send_times 5 (q_send api mqdes ''test message'' 1) False (\<lambda>unresolved.
      call (q_getattr api mqdes) (\<lambda>r _. let mqstat = attr_after r zero_attr in
      cleanup api [mqdes] mqname
        (verdict (fst r = 0 \<and> mq_curmsgs mqstat \<noteq> 5) (unresolved \<or> fst r \<noteq> 0))))))"

definition mq_setattr_1_1 :: "('w, 'z) mq_api_scheme \<Rightarrow> nat \<Rightarrow> 'w test" where
  "mq_setattr_1_1 api pid =
     (let mqname = qname_of ''mq_setattr_1-1'' pid in
      open_or api PTS_UNRESOLVED mqname (O_CREAT OR O_RDWR) None (\<lambda>mqdes.
      call (q_getattr api mqdes) (\<lambda>r1 _.
      let mqstat = attr_after r1 zero_attr; mqstat = mqstat\<lparr>mq_flags := mq_flags mqstat OR uint O_NONBLOCK\<rparr> in
      call (q_setattr api mqdes mqstat False) (\<lambda>r2 _.
      call (q_getattr api mqdes) (\<lambda>r3 _. let nmqstat = attr_after r3 zero_attr in
      call (q_close api mqdes) (\<lambda>_ _.
      call (q_unlink api mqname) (\<lambda>rc _.
      leave (if rc \<noteq> 0 then PTS_UNRESOLVED
             else verdict (fst r2 \<noteq> 0 \<or> mq_flags nmqstat \<noteq> mq_flags mqstat) (fst r1 = - 1 \<or> fst r3 = - 1)))))))))"

text \<open>\<^verbatim>\<open>memset(&nmqstat,0,sizeof(mqstat))\<close> has the same size.\<close>

definition mq_setattr_1_2 :: "('w, 'z) mq_api_scheme \<Rightarrow> nat \<Rightarrow> 'w test" where
  "mq_setattr_1_2 api pid =
     (let mqname = qname_of ''mq_setattr_1-2'' pid in
      open_or api PTS_UNRESOLVED mqname (O_CREAT OR O_RDWR) None (\<lambda>mqdes.
      call (q_getattr api mqdes) (\<lambda>r1 _.
      let a = attr_after r1 zero_attr;
          mqstat = a\<lparr>mq_maxmsg := mq_maxmsg a + 1, mq_msgsize := mq_msgsize a + 1, mq_curmsgs := mq_curmsgs a + 1\<rparr> in
      call (q_setattr api mqdes mqstat False) (\<lambda>r2 _.
      call (q_getattr api mqdes) (\<lambda>r3 _. let nmqstat = attr_after r3 zero_attr in
      cleanup api [mqdes] mqname
        (verdict (fst r2 \<noteq> 0 \<or> mq_maxmsg nmqstat = mq_maxmsg mqstat \<or> mq_msgsize nmqstat = mq_msgsize mqstat
            \<or> mq_curmsgs nmqstat = mq_curmsgs mqstat)
          (fst r1 = - 1 \<or> fst r3 = - 1)))))))"

definition mq_setattr_2_1 :: "('w, 'z) mq_api_scheme \<Rightarrow> nat \<Rightarrow> 'w test" where
  "mq_setattr_2_1 api pid =
     (let mqname = qname_of ''mq_setattr_2-1'' pid in
      open_or api PTS_UNRESOLVED mqname (O_CREAT OR O_RDWR) None (\<lambda>mqdes.
      call (q_getattr api mqdes) (\<lambda>r1 _. let omqstat = attr_after r1 zero_attr in
      call (q_unlink api mqname) (\<lambda>rc _.
      if rc \<noteq> 0 then leave PTS_UNRESOLVED
      else call (q_setattr api mqdes \<lparr>mq_flags = 0, mq_maxmsg = 666, mq_msgsize = 777, mq_curmsgs = 555\<rparr> True) (\<lambda>r2 _.
      let mqstat = attr_after r2 zero_attr in
      cleanup api [mqdes] mqname (verdict (fst r2 \<noteq> 0 \<or> omqstat \<noteq> mqstat) (fst r1 = - 1)))))))"

definition mq_setattr_5_1 :: "('w, 'z) mq_api_scheme \<Rightarrow> nat \<Rightarrow> 'w test" where
  "mq_setattr_5_1 api pid =
     (let mqname = qname_of ''mq_setattr_5-1'' pid in
      open_or api PTS_UNRESOLVED mqname (O_CREAT OR O_RDWR) None (\<lambda>mqdes.
      call (q_unlink api mqname) (\<lambda>rc _.
      if rc \<noteq> 0 then leave PTS_UNRESOLVED
      else let mqdes = mqdes + 1 in
      call (q_setattr api mqdes zero_attr False) (\<lambda>r e.
      cleanup api [mqdes] mqname (verdict (if fst r = - 1 then e \<noteq> EBADF else True) False)))))"

section \<open>mq_open\<close>

definition mq_open_1_1 :: "('w, 'z) mq_api_scheme \<Rightarrow> nat \<Rightarrow> 'w test" where
  "mq_open_1_1 api pid =
     (let qname = qname_of ''mq_open_1-1'' pid in
      open_or api PTS_FAIL qname (O_CREAT OR O_RDWR) None (\<lambda>queue.
      call (q_send api queue MSGSTR 1) (\<lambda>rc _.
      cleanup api [queue] qname (verdict (rc \<noteq> 0) False))))"

text \<open>Opening a queue that does not exist, without \<^verbatim>\<open>O_CREAT\<close>; \<open>ok\<close> is the test of errno.\<close>

definition open_missing :: "('w, 'z) mq_api_scheme \<Rightarrow> string \<Rightarrow> (errno \<Rightarrow> bool) \<Rightarrow> 'w test" where
  "open_missing api qname ok =
     call (q_open api qname O_RDWR USER_RW None) (\<lambda>queue e.
       if queue \<noteq> - 1 then cleanup api [queue] qname PTS_FAIL
       else if \<not> ok e then cleanup api [queue] qname PTS_FAIL else leave PTS_PASS)"

definition mq_open_3_1 :: "('w, 'z) mq_api_scheme \<Rightarrow> nat \<Rightarrow> 'w test" where
  "mq_open_3_1 api pid =
     open_missing api (qname_of ''mq_open_3-1'' pid) (\<lambda>_. True)"

definition mq_open_21_1 :: "('w, 'z) mq_api_scheme \<Rightarrow> nat \<Rightarrow> 'w test" where
  "mq_open_21_1 api pid =
     open_missing api (qname_of ''mq_open_21-1'' pid) (\<lambda>_. True)"

definition mq_open_29_1 :: "('w, 'z) mq_api_scheme \<Rightarrow> nat \<Rightarrow> 'w test" where
  "mq_open_29_1 api pid =
     open_missing api (qname_of ''mq_open_29-1'' pid) (\<lambda>e. e = ENOENT)"

definition mq_open_7_1 :: "('w, 'z) mq_api_scheme \<Rightarrow> nat \<Rightarrow> int \<Rightarrow> 'w test" where
  "mq_open_7_1 api pid junk =
     (let qname = qname_of ''mq_open_7-1'' pid; attr = Some (mqa junk 40 40) in
      open_or api PTS_UNRESOLVED qname (O_CREAT OR O_RDWR) attr (\<lambda>rdwrqueue.
      call (q_send api rdwrqueue MSGSTR 1) (\<lambda>rc _.
      if rc \<noteq> 0 then cleanup api [rdwrqueue] qname PTS_UNRESOLVED
      else call (q_open api qname O_RDONLY USER_RW attr) (\<lambda>roqueue _.
      if roqueue = - 1 then cleanup api [rdwrqueue] qname PTS_UNRESOLVED
      else call (q_receive api roqueue 40) (\<lambda>r _.
      if fst r = - 1 then cleanup api [roqueue, rdwrqueue] qname PTS_FAIL
      else call (q_send api roqueue MSGSTR 1) (\<lambda>rc _.
      if rc = 0 then cleanup api [roqueue, rdwrqueue] qname PTS_FAIL
      else cleanup api [rdwrqueue, roqueue] qname PTS_PASS))))))"

definition mq_open_7_3 :: "('w, 'z) mq_api_scheme \<Rightarrow> nat \<Rightarrow> 'w test" where
  "mq_open_7_3 api pid =
     (let qname = qname_of ''mq_open_7-3'' pid in
      open_or api PTS_FAIL qname (O_CREAT OR O_RDONLY) None (\<lambda>roqueue.
      open_or api PTS_FAIL qname O_RDONLY None (\<lambda>roqueue2.
      cleanup api [roqueue, roqueue2] qname PTS_PASS)))"

definition mq_open_11_1 :: "('w, 'z) mq_api_scheme \<Rightarrow> nat \<Rightarrow> 'w test" where
  "mq_open_11_1 api pid =
     (let qname = qname_of ''mq_open_11-1'' pid in
      open_or api PTS_FAIL qname (O_CREAT OR O_RDWR) None (\<lambda>queue.
      call (q_send api queue MSGSTR 1) (\<lambda>rc _.
      if rc \<noteq> 0 then cleanup api [queue] qname PTS_UNRESOLVED
      else call (q_open api qname (O_CREAT OR O_RDWR) USER_RW None) (\<lambda>queue2 _.
      if queue2 = - 1 then cleanup api [queue] qname PTS_FAIL
      else call (q_send api queue2 MSGSTR 1) (\<lambda>rc _.
      cleanup api [queue, queue2] qname (if rc \<noteq> 0 then PTS_FAIL else PTS_PASS))))))"

definition mq_open_12_1 :: "('w, 'z) mq_api_scheme \<Rightarrow> nat \<Rightarrow> 'w test" where
  "mq_open_12_1 api pid =
     (let qname = qname_of ''mq_open_12-1'' pid in
      open_or api PTS_FAIL qname (O_CREAT OR O_RDWR) None (\<lambda>queue.
      call (q_getattr api queue) (\<lambda>r _.
      cleanup api [queue] qname (if fst r \<noteq> 0 then PTS_FAIL else PTS_PASS))))"

definition mq_open_13_1 :: "('w, 'z) mq_api_scheme \<Rightarrow> nat \<Rightarrow> int \<Rightarrow> 'w test" where
  "mq_open_13_1 api pid junk =
     (let qname = qname_of ''mq_open_13-1'' pid; attr = mqa junk 10 5 in
      open_or api PTS_FAIL qname (O_CREAT OR O_RDWR) (Some attr) (\<lambda>queue.
      call (q_getattr api queue) (\<lambda>r _. let attrget = attr_after r (mqa junk junk junk) in
      if fst r \<noteq> 0 then cleanup api [queue] qname PTS_FAIL
      else cleanup api [queue] qname
        (if mq_maxmsg attrget \<noteq> mq_maxmsg attr \<or> mq_msgsize attrget \<noteq> mq_msgsize attr then PTS_FAIL else PTS_PASS))))"

text \<open>Opening an existing queue again with \<^verbatim>\<open>O_CREAT\<close> and \<^verbatim>\<open>O_EXCL\<close>.\<close>

definition open_again :: "('w, 'z) mq_api_scheme \<Rightarrow> string \<Rightarrow> (errno \<Rightarrow> bool) \<Rightarrow> 'w test" where
  "open_again api qname ok =
     open_or api PTS_UNRESOLVED qname (O_CREAT OR O_RDWR) None (\<lambda>queue.
     call (q_open api qname (O_CREAT OR O_EXCL OR O_RDWR) USER_RW None) (\<lambda>queue2 e.
     if queue2 \<noteq> - 1 then cleanup api [queue, queue2] qname PTS_FAIL
     else if \<not> ok e then cleanup api [queue] qname PTS_FAIL else cleanup api [queue] qname PTS_PASS))"

definition mq_open_15_1 :: "('w, 'z) mq_api_scheme \<Rightarrow> nat \<Rightarrow> 'w test" where
  "mq_open_15_1 api pid =
     open_again api (qname_of ''mq_open_15-1'' pid) (\<lambda>_. True)"

definition mq_open_23_1 :: "('w, 'z) mq_api_scheme \<Rightarrow> nat \<Rightarrow> 'w test" where
  "mq_open_23_1 api pid =
     open_again api (qname_of ''mq_open_23-1'' pid) (\<lambda>e. e = EEXIST)"

definition mq_open_18_1 :: "('w, 'z) mq_api_scheme \<Rightarrow> nat \<Rightarrow> 'w test" where
  "mq_open_18_1 api pid =
     (let qname = qname_of ''mq_open_18-1'' pid in
      open_or api PTS_FAIL qname (O_CREAT OR O_RDWR OR O_NONBLOCK) None (\<lambda>queue.
      call (q_send api queue ''O123456789'' 1) (\<lambda>rc _.
      cleanup api [queue] qname (if rc \<noteq> 0 then PTS_FAIL else PTS_PASS))))"

section \<open>mq_send and mq_timedsend\<close>

text \<open>The programs for the two calls differ in the call, \<open>send\<close>, and in reading the clock before it.\<close>

definition send_compare ::
  "('w, 'z) mq_api_scheme \<Rightarrow> int \<Rightarrow> string \<Rightarrow> (string \<Rightarrow> int \<Rightarrow> (int, 'w) ccall) \<Rightarrow> int \<Rightarrow> string \<Rightarrow> 'w test" where
  "send_compare api queue qname send prio jb =
     call (send MSGSTR prio) (\<lambda>rc _. call (q_receive api queue 40) (\<lambda>r _.
       finish api queue qname (rc \<noteq> 0 \<or> fst r = - 1 \<or> differs MSGSTR (buffer_after r jb)) False))"

definition send_refused ::
  "('w, 'z) mq_api_scheme \<Rightarrow> int \<Rightarrow> string \<Rightarrow> (int, 'w) ccall \<Rightarrow> 'w test" where
  "send_refused api queue qname send = call send (\<lambda>rc _. finish api queue qname (rc = 0) False)"

definition send_return ::
  "('w, 'z) mq_api_scheme \<Rightarrow> int \<Rightarrow> string \<Rightarrow> (int, 'w) ccall \<Rightarrow> string \<Rightarrow> 'w test" where
  "send_return api queue qname send jb =
     call send (\<lambda>ret _. call (q_receive api queue 40) (\<lambda>r _.
       call (q_close api queue) (\<lambda>rc _. call (q_unlink api qname) (\<lambda>ru _.
         leave (if fst r = - 1 \<or> differs MSGSTR (buffer_after r jb) \<or> rc \<noteq> 0 \<or> ru \<noteq> 0 then PTS_UNRESOLVED
                else if ret \<noteq> 0 then PTS_FAIL else PTS_PASS)))))"

definition send_bad ::
  "('w, 'z) mq_api_scheme \<Rightarrow> int \<Rightarrow> string \<Rightarrow> (int, 'w) ccall \<Rightarrow> 'w test" where
  "send_bad api queue qname send = call send (\<lambda>rc e. finish api queue qname (rc \<noteq> - 1 \<or> e \<noteq> EBADF) False)"

text \<open>Sending messages one after the other, and receiving as many, comparing each with what is expected;
  \<open>on_fail\<close> says which of the two marks a failing receive sets. The \<open>i\<close>-th send is given \<open>i\<close>.\<close>

fun send_each :: "(nat \<Rightarrow> string \<Rightarrow> int \<Rightarrow> (int, 'w) ccall) \<Rightarrow> nat \<Rightarrow> (string \<times> int) list \<Rightarrow> bool \<Rightarrow> (bool \<Rightarrow> 'w test) \<Rightarrow> 'w test" where
  "send_each send i [] failure k = k failure"
| "send_each send i ((m, p) # ms) failure k = call (send i m p) (\<lambda>rc _. send_each send (Suc i) ms (failure \<or> rc \<noteq> 0) k)"

fun receive_each :: "('w, 'z) mq_api_scheme \<Rightarrow> int \<Rightarrow> bool \<Rightarrow> string list \<Rightarrow> string \<Rightarrow> bool \<Rightarrow> bool
     \<Rightarrow> (bool \<Rightarrow> bool \<Rightarrow> 'w test) \<Rightarrow> 'w test" where
  "receive_each api queue as_failure [] jb failure unresolved k = k failure unresolved"
| "receive_each api queue as_failure (m # ms) jb failure unresolved k =
     call (q_receive api queue 40) (\<lambda>r _. let jb = buffer_after r jb in
     receive_each api queue as_failure ms jb (failure \<or> as_failure \<and> fst r = - 1 \<or> differs m jb)
       (unresolved \<or> \<not> as_failure \<and> fst r = - 1) k)"

definition MSGS :: "string list" where
  "MSGS = [''1234567890'', ''234567890'', ''34567890'', ''4567890'', ''567890'']"

text \<open>Messages 3, 1, 4, 2, 5 with the priorities given for 1 to 5.\<close>

definition shuffled :: "int list \<Rightarrow> (string \<times> int) list" where
  "shuffled ps = map (\<lambda>i. (MSGS ! i, ps ! i)) [2, 0, 3, 1, 4]"

definition send_order ::
  "('w, 'z) mq_api_scheme \<Rightarrow> int \<Rightarrow> string \<Rightarrow> (nat \<Rightarrow> string \<Rightarrow> int \<Rightarrow> (int, 'w) ccall) \<Rightarrow> int list \<Rightarrow> bool \<Rightarrow> string \<Rightarrow> 'w test" where
  "send_order api queue qname send ps as_failure jb =
     send_each send 0 (shuffled ps) False (\<lambda>failure.
     receive_each api queue as_failure MSGS jb failure False (finish api queue qname))"

text \<open>Filling the queue: sending until a call fails; whether it did, and not with \<^verbatim>\<open>EAGAIN\<close>.\<close>

fun fill :: "(string \<Rightarrow> (int, 'w) ccall) \<Rightarrow> nat \<Rightarrow> nat \<Rightarrow> (bool \<Rightarrow> bool \<Rightarrow> 'w test) \<Rightarrow> 'w test" where
  "fill send i 0 k = k False False"
| "fill send i (Suc n) k =
     call (send (''message '' @ digits i)) (\<lambda>rc e. if rc = - 1 then k True (e \<noteq> EAGAIN) else fill send (Suc i) n k)"

definition fill_finish :: "('w, 'z) mq_api_scheme \<Rightarrow> int \<Rightarrow> string \<Rightarrow> bool \<Rightarrow> bool \<Rightarrow> 'w test" where
  "fill_finish api queue qname maxreached failure =
     call (q_close api queue) (\<lambda>rc _. call (q_unlink api qname) (\<lambda>ru _.
       leave (if \<not> maxreached then PTS_UNRESOLVED else verdict failure (rc \<noteq> 0 \<or> ru \<noteq> 0))))"

fun send_invalid :: "(int \<Rightarrow> (int, 'w) ccall) \<Rightarrow> int list \<Rightarrow> bool \<Rightarrow> (bool \<Rightarrow> 'w test) \<Rightarrow> 'w test" where
  "send_invalid send [] failure k = k failure"
| "send_invalid send (p # ps) failure k =
     call (send p) (\<lambda>rc e. send_invalid send ps (failure \<or> rc = 0 \<or> e \<noteq> EINVAL) k)"

definition LONGMSG :: string where "LONGMSG = ''01234567890123456789''"

text \<open>A queue for messages of the given size, into which a longer one is sent; for each size in turn.\<close>

fun send_long :: "('w, 'z) mq_api_scheme \<Rightarrow> string \<Rightarrow> int \<Rightarrow> (nat \<Rightarrow> int \<Rightarrow> (int, 'w) ccall) \<Rightarrow> nat \<Rightarrow> int list \<Rightarrow> bool \<Rightarrow> bool \<Rightarrow> 'w test" where
  "send_long api qname junk send i [] failure unresolved = leave (verdict failure unresolved)"
| "send_long api qname junk send i (n # ns) failure unresolved =
     open_or api PTS_UNRESOLVED qname (O_CREAT OR O_RDWR) (Some (mqa junk n n)) (\<lambda>queue.
     call (send i queue) (\<lambda>rc e.
     call (q_close api queue) (\<lambda>rcl _. call (q_unlink api qname) (\<lambda>ru _.
     send_long api qname junk send (Suc i) ns (failure \<or> rc \<noteq> - 1 \<or> e \<noteq> EMSGSIZE) (unresolved \<or> rcl \<noteq> 0 \<or> ru \<noteq> 0)))))"

definition mq_send_1_1 :: "('w, 'z) mq_api_scheme \<Rightarrow> nat \<Rightarrow> int \<Rightarrow> string \<Rightarrow> 'w test" where
  "mq_send_1_1 api pid junk jb =
     (let qname = qname_of ''mq_send_1-1'' pid in
      open_or api PTS_UNRESOLVED qname (O_CREAT OR O_RDWR) (Some (mqa junk 10 40)) (\<lambda>queue.
      send_compare api queue qname (q_send api queue) 1 jb))"

definition mq_timedsend_1_1 :: "('w, 'z) mqt_api_scheme \<Rightarrow> nat \<Rightarrow> int \<Rightarrow> string \<Rightarrow> 'w test" where
  "mq_timedsend_1_1 api pid junk jb =
     (let qname = qname_of ''mq_timedsend_1-1'' pid in
      open_or api PTS_UNRESOLVED qname (O_CREAT OR O_RDWR) (Some (mqa junk 10 40)) (\<lambda>queue.
      call (q_time api) (\<lambda>now _.
      send_compare api queue qname (\<lambda>m p. q_timedsend api queue m p (now + 1, 0)) 1 jb)))"

definition mq_send_2_1 :: "('w, 'z) mq_api_scheme \<Rightarrow> nat \<Rightarrow> int \<Rightarrow> 'w test" where
  "mq_send_2_1 api pid junk =
     (let qname = qname_of ''mq_send_2-1'' pid in
      open_or api PTS_UNRESOLVED qname (O_CREAT OR O_RDWR) (Some (mqa junk 10 10)) (\<lambda>queue.
      send_refused api queue qname (q_send api queue LONGMSG 1)))"

definition mq_timedsend_2_1 :: "('w, 'z) mqt_api_scheme \<Rightarrow> nat \<Rightarrow> int \<Rightarrow> 'w test" where
  "mq_timedsend_2_1 api pid junk =
     (let qname = qname_of ''mq_timedsend_2-1'' pid in
      open_or api PTS_UNRESOLVED qname (O_CREAT OR O_RDWR) (Some (mqa junk 10 10)) (\<lambda>queue.
      call (q_time api) (\<lambda>now _.
      send_refused api queue qname (q_timedsend api queue LONGMSG 1 (now + 1, 0)))))"

definition mq_send_3_1 :: "('w, 'z) mq_api_scheme \<Rightarrow> nat \<Rightarrow> int \<Rightarrow> string \<Rightarrow> 'w test" where
  "mq_send_3_1 api pid junk jb =
     (let qname = qname_of ''mq_send_3-1'' pid in
      open_or api PTS_UNRESOLVED qname (O_CREAT OR O_RDWR) (Some (mqa junk 10 40)) (\<lambda>queue.
      send_order api queue qname (\<lambda>_. q_send api queue) [10, 8, 6, 2, 1] True jb))"

definition mq_timedsend_3_1 :: "('w, 'z) mqt_api_scheme \<Rightarrow> nat \<Rightarrow> int \<Rightarrow> string \<Rightarrow> 'w test" where
  "mq_timedsend_3_1 api pid junk jb =
     (let qname = qname_of ''mq_timedsend_3-1'' pid in
      open_or api PTS_UNRESOLVED qname (O_CREAT OR O_RDWR) (Some (mqa junk 10 40)) (\<lambda>queue.
      call (q_time api) (\<lambda>now _.
      send_order api queue qname (\<lambda>i m p. q_timedsend api queue m p (now + 1 + int i, 0)) [10, 8, 6, 2, 1] True jb)))"

definition mq_send_3_2 :: "('w, 'z) mq_api_scheme \<Rightarrow> nat \<Rightarrow> int \<Rightarrow> string \<Rightarrow> 'w test" where
  "mq_send_3_2 api pid junk jb =
     (let qname = qname_of ''mq_send_3-2'' pid in
      open_or api PTS_UNRESOLVED qname (O_CREAT OR O_RDWR) (Some (mqa junk 10 40)) (\<lambda>queue.
      send_order api queue qname (\<lambda>_. q_send api queue) [10, 8, 6, 6, 1] False jb))"

definition mq_timedsend_3_2 :: "('w, 'z) mqt_api_scheme \<Rightarrow> nat \<Rightarrow> int \<Rightarrow> string \<Rightarrow> 'w test" where
  "mq_timedsend_3_2 api pid junk jb =
     (let qname = qname_of ''mq_timedsend_3-2'' pid in
      open_or api PTS_UNRESOLVED qname (O_CREAT OR O_RDWR) (Some (mqa junk 40 40)) (\<lambda>queue.
      call (q_time api) (\<lambda>now _.
      send_order api queue qname (\<lambda>i m p. q_timedsend api queue m p (now + 1 + int i, 0)) [10, 8, 2, 2, 1] False jb)))"

definition mq_send_4_1 :: "('w, 'z) mq_api_scheme \<Rightarrow> nat \<Rightarrow> 'w test" where
  "mq_send_4_1 api pid =
     (let qname = qname_of ''mq_send_4-1'' pid in
      open_or api PTS_UNRESOLVED qname (O_CREAT OR O_RDWR) None (\<lambda>queue.
      send_refused api queue qname (q_send api queue MSGSTR (q_prio_max api + 1))))"

definition mq_timedsend_4_1 :: "('w, 'z) mqt_api_scheme \<Rightarrow> nat \<Rightarrow> 'w test" where
  "mq_timedsend_4_1 api pid =
     (let qname = qname_of ''mq_timedsend_4-1'' pid in
      open_or api PTS_UNRESOLVED qname (O_CREAT OR O_RDWR) None (\<lambda>queue.
      call (q_time api) (\<lambda>now _.
      send_refused api queue qname (q_timedsend api queue MSGSTR (q_prio_max api + 1) (now + 1, 0)))))"

definition mq_send_4_2 :: "('w, 'z) mq_api_scheme \<Rightarrow> nat \<Rightarrow> 'w test" where
  "mq_send_4_2 api pid =
     (let qname = qname_of ''mq_send_4-2'' pid in
      open_or api PTS_UNRESOLVED qname (O_CREAT OR O_RDWR) None (\<lambda>queue.
      send_refused api queue qname (q_send api queue MSGSTR (q_prio_max api))))"

definition mq_timedsend_4_2 :: "('w, 'z) mqt_api_scheme \<Rightarrow> nat \<Rightarrow> 'w test" where
  "mq_timedsend_4_2 api pid =
     (let qname = qname_of ''mq_timedsend_4-2'' pid in
      open_or api PTS_UNRESOLVED qname (O_CREAT OR O_RDWR) None (\<lambda>queue.
      call (q_time api) (\<lambda>now _.
      send_refused api queue qname (q_timedsend api queue MSGSTR (q_prio_max api) (now + 1, 0)))))"

definition mq_send_4_3 :: "('w, 'z) mq_api_scheme \<Rightarrow> nat \<Rightarrow> int \<Rightarrow> string \<Rightarrow> 'w test" where
  "mq_send_4_3 api pid junk jb =
     (let qname = qname_of ''mq_send_4-3'' pid in
      open_or api PTS_UNRESOLVED qname (O_CREAT OR O_RDWR) (Some (mqa junk 10 40)) (\<lambda>queue.
      send_compare api queue qname (q_send api queue) (q_prio_max api - 1) jb))"

definition mq_timedsend_4_3 :: "('w, 'z) mqt_api_scheme \<Rightarrow> nat \<Rightarrow> int \<Rightarrow> string \<Rightarrow> 'w test" where
  "mq_timedsend_4_3 api pid junk jb =
     (let qname = qname_of ''mq_timedsend_4-3'' pid in
      open_or api PTS_UNRESOLVED qname (O_CREAT OR O_RDWR) (Some (mqa junk 5 40)) (\<lambda>queue.
      call (q_time api) (\<lambda>now _.
      send_compare api queue qname (\<lambda>m p. q_timedsend api queue m p (now + 1, 0)) (q_prio_max api - 1) jb)))"

definition mq_send_8_1 :: "('w, 'z) mq_api_scheme \<Rightarrow> nat \<Rightarrow> int \<Rightarrow> string \<Rightarrow> 'w test" where
  "mq_send_8_1 api pid junk jb =
     (let qname = qname_of ''mq_send_8-1'' pid in
      open_or api PTS_UNRESOLVED qname (O_CREAT OR O_RDWR) (Some (mqa junk 10 40)) (\<lambda>queue.
      send_return api queue qname (q_send api queue MSGSTR 1) jb))"

definition mq_timedsend_8_1 :: "('w, 'z) mqt_api_scheme \<Rightarrow> nat \<Rightarrow> int \<Rightarrow> string \<Rightarrow> 'w test" where
  "mq_timedsend_8_1 api pid junk jb =
     (let qname = qname_of ''mq_timedsend_8-1'' pid in
      open_or api PTS_UNRESOLVED qname (O_CREAT OR O_RDWR) (Some (mqa junk 5 40)) (\<lambda>queue.
      call (q_time api) (\<lambda>now _.
      send_return api queue qname (q_timedsend api queue MSGSTR 1 (now + 1, 0)) jb)))"

definition mq_send_10_1 :: "('w, 'z) mq_api_scheme \<Rightarrow> nat \<Rightarrow> int \<Rightarrow> 'w test" where
  "mq_send_10_1 api pid junk =
     (let qname = qname_of ''mq_send_10-1'' pid in
      open_or api PTS_UNRESOLVED qname (O_CREAT OR O_RDWR OR O_NONBLOCK) (Some (mqa junk 10 40)) (\<lambda>queue.
      fill (\<lambda>m. q_send api queue m 1) 0 11 (fill_finish api queue qname)))"

definition mq_timedsend_10_1 :: "('w, 'z) mqt_api_scheme \<Rightarrow> nat \<Rightarrow> int \<Rightarrow> 'w test" where
  "mq_timedsend_10_1 api pid junk =
     (let qname = qname_of ''mq_timedsend_10-1'' pid in
      open_or api PTS_UNRESOLVED qname (O_CREAT OR O_RDWR OR O_NONBLOCK) (Some (mqa junk 5 100)) (\<lambda>queue.
      call (q_time api) (\<lambda>now _.
      fill (\<lambda>m. q_timedsend api queue m 1 (now + 1, 0)) 0 6 (fill_finish api queue qname))))"

definition mq_send_11_1 :: "('w, 'z) mq_api_scheme \<Rightarrow> nat \<Rightarrow> 'w test" where
  "mq_send_11_1 api pid =
     (let qname = qname_of ''mq_send_11-1'' pid in
      open_or api PTS_UNRESOLVED qname (O_CREAT OR O_RDWR) None (\<lambda>queue.
      send_bad api queue qname (q_send api (queue + 1) MSGSTR 1)))"

definition mq_timedsend_11_1 :: "('w, 'z) mqt_api_scheme \<Rightarrow> nat \<Rightarrow> 'w test" where
  "mq_timedsend_11_1 api pid =
     (let qname = qname_of ''mq_timedsend_11-1'' pid in
      open_or api PTS_UNRESOLVED qname (O_CREAT OR O_RDWR) None (\<lambda>queue.
      call (q_time api) (\<lambda>now _.
      send_bad api queue qname (q_timedsend api (queue + 1) MSGSTR 1 (now + 1, 0)))))"

definition mq_send_11_2 :: "('w, 'z) mq_api_scheme \<Rightarrow> nat \<Rightarrow> 'w test" where
  "mq_send_11_2 api pid =
     (let qname = qname_of ''mq_send_11-2'' pid in
      open_or api PTS_UNRESOLVED qname (O_CREAT OR O_RDONLY) None (\<lambda>queue.
      send_bad api queue qname (q_send api queue MSGSTR 1)))"

definition mq_timedsend_11_2 :: "('w, 'z) mqt_api_scheme \<Rightarrow> nat \<Rightarrow> 'w test" where
  "mq_timedsend_11_2 api pid =
     (let qname = qname_of ''mq_timedsend_11-2'' pid in
      open_or api PTS_UNRESOLVED qname (O_CREAT OR O_RDONLY) None (\<lambda>queue.
      call (q_time api) (\<lambda>now _.
      send_bad api queue qname (q_timedsend api queue MSGSTR 1 (now + 1, 0)))))"

definition mq_send_13_1 :: "('w, 'z) mq_api_scheme \<Rightarrow> nat \<Rightarrow> 'w test" where
  "mq_send_13_1 api pid =
     (let qname = qname_of ''mq_send_13-1'' pid in
      open_or api PTS_UNRESOLVED qname (O_CREAT OR O_RDWR) None (\<lambda>queue.
      send_invalid (\<lambda>p. q_send api queue MSGSTR p) [q_prio_max api, q_prio_max api + 1, q_prio_max api + 5] False (\<lambda>failure. finish api queue qname failure False)))"

definition mq_timedsend_13_1 :: "('w, 'z) mqt_api_scheme \<Rightarrow> nat \<Rightarrow> 'w test" where
  "mq_timedsend_13_1 api pid =
     (let qname = qname_of ''mq_timedsend_13-1'' pid in
      open_or api PTS_UNRESOLVED qname (O_CREAT OR O_RDWR) None (\<lambda>queue.
      call (q_time api) (\<lambda>now _.
      send_invalid (\<lambda>p. q_timedsend api queue MSGSTR p (now + 1, 0)) [q_prio_max api, q_prio_max api + 1, q_prio_max api + 5] False (\<lambda>failure. finish api queue qname failure False))))"

definition mq_send_14_1 :: "('w, 'z) mq_api_scheme \<Rightarrow> nat \<Rightarrow> int \<Rightarrow> 'w test" where
  "mq_send_14_1 api pid junk =
     send_long api (qname_of ''mq_send_14-1'' pid) junk (\<lambda>_ queue. q_send api queue LONGMSG 1) 0 [19, 2, 1] False False"

definition mq_timedsend_14_1 :: "('w, 'z) mqt_api_scheme \<Rightarrow> nat \<Rightarrow> int \<Rightarrow> 'w test" where
  "mq_timedsend_14_1 api pid junk =
     call (q_time api) (\<lambda>now _.
      send_long api (qname_of ''mq_timedsend_14-1'' pid) junk
        (\<lambda>i queue. q_timedsend api queue LONGMSG 1 (now + 1 + int i, 0)) 0 [19, 2, 1] False False)"

section \<open>mq_receive and mq_timedreceive\<close>

text \<open>Likewise with the receive call \<open>recv\<close>. These programs go on with the descriptor -1 when \<^verbatim>\<open>mq_open\<close>
  fails.\<close>

definition M1 :: string where "M1 = ''test message 1''"
definition M2 :: string where "M2 = ''test message 2''"
definition M3 :: string where "M3 = ''test message''"

definition receive_highest ::
  "('w, 'z) mq_api_scheme \<Rightarrow> int \<Rightarrow> string \<Rightarrow> bool \<Rightarrow> ((int \<Rightarrow> 'w test) \<Rightarrow> 'w test) \<Rightarrow> (int \<Rightarrow> (int \<times> (int \<times> string) option, 'w) ccall)
     \<Rightarrow> int \<Rightarrow> string \<Rightarrow> string \<Rightarrow> 'w test" where
  "receive_highest api mqdes mqname unresolved clock recv junk jb1 jb2 =
     call (q_send api mqdes M1 1) (\<lambda>rs1 _. call (q_send api mqdes M2 2) (\<lambda>rs2 _.
     clock (\<lambda>now. call (recv now) (\<lambda>r1 _.
     clock (\<lambda>now. call (recv now) (\<lambda>r2 _.
       finish api mqdes mqname
         (fst r1 = - 1 \<or> differs M2 (buffer_after r1 jb1) \<or> prio_after r1 junk \<noteq> 2
          \<or> fst r2 = - 1 \<or> differs M1 (buffer_after r2 jb2) \<or> prio_after r2 (prio_after r1 junk) \<noteq> 1)
         (unresolved \<or> rs1 \<noteq> 0 \<or> rs2 \<noteq> 0)))))))"

definition mq_receive_1_1 :: "('w, 'z) mq_api_scheme \<Rightarrow> nat \<Rightarrow> int \<Rightarrow> string \<Rightarrow> string \<Rightarrow> 'w test" where
  "mq_receive_1_1 api pid junk jb1 jb2 =
     (let mqname = qname_of ''mq_receive_1-1'' pid in
      open_mark api mqname (O_CREAT OR O_RDWR) (Some (mqa junk 40 40)) (\<lambda>mqdes unresolved.
      receive_highest api mqdes mqname unresolved (\<lambda>k. k 0) (\<lambda>_. q_receive api mqdes 40) junk jb1 jb2))"

definition mq_timedreceive_1_1 :: "('w, 'z) mqt_api_scheme \<Rightarrow> nat \<Rightarrow> int \<Rightarrow> string \<Rightarrow> string \<Rightarrow> 'w test" where
  "mq_timedreceive_1_1 api pid junk jb1 jb2 =
     (let mqname = qname_of ''mq_timedreceive_1-1'' pid in
      open_mark api mqname (O_CREAT OR O_RDWR) (Some (mqa junk 40 40)) (\<lambda>mqdes unresolved.
      receive_highest api mqdes mqname unresolved (\<lambda>k. call (q_time api) (\<lambda>now _. k now))
        (\<lambda>now. q_timedreceive api mqdes 40 (now + 1, 0)) junk jb1 jb2))"

text \<open>One receive call; \<open>bad\<close> is the test of its result and errno.\<close>

definition receive_checked :: "('w, 'z) mq_api_scheme \<Rightarrow> int \<Rightarrow> string \<Rightarrow> bool \<Rightarrow> (int \<times> (int \<times> string) option, 'w) ccall
     \<Rightarrow> (int \<Rightarrow> errno \<Rightarrow> bool) \<Rightarrow> 'w test" where
  "receive_checked api mqdes mqname unresolved recv bad =
     call recv (\<lambda>r e. finish api mqdes mqname (bad (fst r) e) unresolved)"

definition mq_receive_2_1 :: "('w, 'z) mq_api_scheme \<Rightarrow> nat \<Rightarrow> 'w test" where
  "mq_receive_2_1 api pid =
     (let mqname = qname_of ''mq_receive_2-1'' pid in
      open_mark api mqname (O_CREAT OR O_RDWR) (Some (zero_attr\<lparr>mq_msgsize := 21, mq_maxmsg := 21\<rparr>)) (\<lambda>mqdes unresolved.
      call (q_send api mqdes M3 1) (\<lambda>rs _.
      receive_checked api mqdes mqname (unresolved \<or> rs \<noteq> 0) (q_receive api mqdes 20) (\<lambda>n _. n > 0))))"

definition mq_receive_12_1 :: "('w, 'z) mq_api_scheme \<Rightarrow> nat \<Rightarrow> 'w test" where
  "mq_receive_12_1 api pid =
     (let mqname = qname_of ''mq_receive_12-1'' pid in
      open_mark api mqname (O_CREAT OR O_RDWR) (Some (zero_attr\<lparr>mq_msgsize := 21, mq_maxmsg := 21\<rparr>)) (\<lambda>mqdes unresolved.
      call (q_send api mqdes M3 1) (\<lambda>rs _.
      receive_checked api mqdes mqname (unresolved \<or> rs \<noteq> 0) (q_receive api mqdes 20) (\<lambda>n e. n = 0 \<or> e \<noteq> EMSGSIZE))))"

definition mq_receive_7_1 :: "('w, 'z) mq_api_scheme \<Rightarrow> nat \<Rightarrow> int \<Rightarrow> 'w test" where
  "mq_receive_7_1 api pid junk =
     (let mqname = qname_of ''mq_receive_7-1'' pid in
      open_mark api mqname (O_CREAT OR O_NONBLOCK OR O_RDWR) (Some (mqa junk 40 40)) (\<lambda>mqdes unresolved.
      receive_checked api mqdes mqname unresolved (q_receive api mqdes 40) (\<lambda>n _. n \<noteq> - 1)))"

definition mq_receive_10_1 :: "('w, 'z) mq_api_scheme \<Rightarrow> nat \<Rightarrow> int \<Rightarrow> 'w test" where
  "mq_receive_10_1 api pid junk =
     (let mqname = qname_of ''mq_receive_10-1'' pid in
      open_mark api mqname (O_CREAT OR O_NONBLOCK OR O_RDWR) (Some (mqa junk 40 40)) (\<lambda>mqdes unresolved.
      receive_checked api mqdes mqname unresolved (q_receive api mqdes 40) (\<lambda>n e. n \<noteq> - 1 \<or> e \<noteq> EAGAIN)))"

definition mq_receive_11_1 :: "('w, 'z) mq_api_scheme \<Rightarrow> nat \<Rightarrow> int \<Rightarrow> 'w test" where
  "mq_receive_11_1 api pid junk =
     (let mqname = qname_of ''mq_receive_11-1'' pid in
      open_mark api mqname (O_CREAT OR O_RDWR) (Some (mqa junk 40 40)) (\<lambda>mqdes unresolved.
      receive_checked api mqdes mqname unresolved (q_receive api (mqdes + 1) 40) (\<lambda>n e. n \<noteq> - 1 \<or> e \<noteq> EBADF)))"

definition mq_receive_11_2 :: "('w, 'z) mq_api_scheme \<Rightarrow> nat \<Rightarrow> int \<Rightarrow> 'w test" where
  "mq_receive_11_2 api pid junk =
     (let mqname = qname_of ''mq_receive_11-2'' pid in
      open_mark api mqname (O_CREAT OR O_WRONLY) (Some (mqa junk 40 40)) (\<lambda>mqdes unresolved.
      receive_checked api mqdes mqname unresolved (q_receive api mqdes 40) (\<lambda>n e. n \<noteq> - 1 \<or> e \<noteq> EBADF)))"

definition mq_timedreceive_2_1 :: "('w, 'z) mqt_api_scheme \<Rightarrow> nat \<Rightarrow> 'w test" where
  "mq_timedreceive_2_1 api pid =
     (let mqname = qname_of ''mq_timedreceive_2-1'' pid in
      open_mark api mqname (O_CREAT OR O_RDWR) (Some (zero_attr\<lparr>mq_msgsize := 21, mq_maxmsg := 21\<rparr>)) (\<lambda>mqdes unresolved.
      call (q_send api mqdes M3 1) (\<lambda>rs _. call (q_time api) (\<lambda>now _.
      receive_checked api mqdes mqname (unresolved \<or> rs \<noteq> 0) (q_timedreceive api mqdes 20 (now + 1, 0)) (\<lambda>n _. n > 0)))))"

definition mq_timedreceive_15_1 :: "('w, 'z) mqt_api_scheme \<Rightarrow> nat \<Rightarrow> 'w test" where
  "mq_timedreceive_15_1 api pid =
     (let mqname = qname_of ''mq_timedreceive_15-1'' pid in
      open_mark api mqname (O_CREAT OR O_RDWR) (Some (zero_attr\<lparr>mq_msgsize := 21, mq_maxmsg := 21\<rparr>)) (\<lambda>mqdes unresolved.
      call (q_send api mqdes M3 1) (\<lambda>rs _. call (q_time api) (\<lambda>now _.
      receive_checked api mqdes mqname (unresolved \<or> rs \<noteq> 0) (q_timedreceive api mqdes 20 (now + 1, 0)) (\<lambda>n e. n > 0 \<or> e \<noteq> EMSGSIZE)))))"

definition mq_timedreceive_7_1 :: "('w, 'z) mqt_api_scheme \<Rightarrow> nat \<Rightarrow> int \<Rightarrow> 'w test" where
  "mq_timedreceive_7_1 api pid junk =
     (let mqname = qname_of ''mq_timedreceive_7-1'' pid in
      open_mark api mqname (O_CREAT OR O_NONBLOCK OR O_RDWR) (Some (mqa junk 40 40)) (\<lambda>mqdes unresolved.
      call (q_time api) (\<lambda>now _.
      receive_checked api mqdes mqname unresolved (q_timedreceive api mqdes 40 (now + 1, 0)) (\<lambda>n _. n \<noteq> - 1))))"

definition mq_timedreceive_13_1 :: "('w, 'z) mqt_api_scheme \<Rightarrow> nat \<Rightarrow> int \<Rightarrow> 'w test" where
  "mq_timedreceive_13_1 api pid junk =
     (let mqname = qname_of ''mq_timedreceive_13-1'' pid in
      open_mark api mqname (O_CREAT OR O_NONBLOCK OR O_RDWR) (Some (mqa junk 40 40)) (\<lambda>mqdes unresolved.
      call (q_time api) (\<lambda>now _.
      receive_checked api mqdes mqname unresolved (q_timedreceive api mqdes 40 (now + 1, 0)) (\<lambda>n e. n \<noteq> - 1 \<or> e \<noteq> EAGAIN))))"

definition mq_timedreceive_14_1 :: "('w, 'z) mqt_api_scheme \<Rightarrow> nat \<Rightarrow> int \<Rightarrow> 'w test" where
  "mq_timedreceive_14_1 api pid junk =
     (let mqname = qname_of ''mq_timedreceive_14-1'' pid in
      open_mark api mqname (O_CREAT OR O_RDWR) (Some (mqa junk 40 40)) (\<lambda>mqdes unresolved.
      call (q_time api) (\<lambda>now _.
      receive_checked api mqdes mqname unresolved (q_timedreceive api (mqdes + 1) 40 (now + 1, 0)) (\<lambda>n e. n \<noteq> - 1 \<or> e \<noteq> EBADF))))"

definition mq_timedreceive_10_1 :: "('w, 'z) mqt_api_scheme \<Rightarrow> nat \<Rightarrow> int \<Rightarrow> 'w test" where
  "mq_timedreceive_10_1 api pid junk =
     (let mqname = qname_of ''mq_timedreceive_10-1'' pid in
      open_mark api mqname (O_CREAT OR O_RDWR) (Some (mqa junk 40 40)) (\<lambda>mqdes unresolved.
      call (q_send api mqdes M3 1) (\<lambda>rs _. call (q_time api) (\<lambda>now _.
      receive_checked api mqdes mqname (unresolved \<or> rs \<noteq> 0) (q_timedreceive api mqdes 40 (now - 1, 0)) (\<lambda>n _. n = - 1)))))"

end
