(* ===== verification/Mq_Contract.thy ===== *)
theory Mq_Contract
  imports Mq_Tests Mq_Props
begin

text \<open>
  What POSIX promises of message queues, as far as the conformance programs look: an abstract state
  (names, open descriptors and queues kept in order of priority), the result of each call on it, and
  the locale \<open>mq_system\<close> of systems whose calls agree with that; \<open>mq_timed\<close> adds the timed calls.
  \<open>ref_mq_api\<close> is an executable system that keeps the contract.
\<close>

section \<open>The abstract state and the calls on it\<close>

record mq_queue =
  qm_max :: int
  qm_size :: int
  qm_msgs :: pq

record mq_desc =
  md_queue :: nat
  md_nonblock :: bool
  md_access :: flags

record mq_spec =
  mnames :: "string \<Rightarrow> nat option"
  mdescs :: "int \<Rightarrow> mq_desc option"
  mqueues :: "nat \<Rightarrow> mq_queue"

text \<open>A call fails with an error, gives a value and a new state, or has to wait.\<close>

datatype ('r, 's) spec = Fails errno | Gives 'r 's | Waits

definition readable :: "mq_desc \<Rightarrow> bool" where "readable d \<longleftrightarrow> md_access d \<noteq> O_WRONLY"
definition writable :: "mq_desc \<Rightarrow> bool" where "writable d \<longleftrightarrow> md_access d \<noteq> O_RDONLY"

text \<open>Opening, when the system chooses the descriptor \<open>d\<close> and, for a new queue, the identity \<open>q\<close>;
  \<open>dmax\<close> and \<open>dsize\<close> are the attributes of a queue created without any.\<close>

definition spec_open :: "int \<Rightarrow> int \<Rightarrow> int \<Rightarrow> nat \<Rightarrow> string \<Rightarrow> flags \<Rightarrow> mq_attr option \<Rightarrow> mq_spec \<Rightarrow> (int, mq_spec) spec" where
  "spec_open dmax dsize d q name fl attr s =
     (let opened = (\<lambda>i. (mdescs s)(d \<mapsto> \<lparr>md_queue = i, md_nonblock = has fl O_NONBLOCK, md_access = fl AND 3\<rparr>)) in
      case mnames s name of
        Some i \<Rightarrow> if has fl O_CREAT \<and> has fl O_EXCL then Fails EEXIST else Gives d (s\<lparr>mdescs := opened i\<rparr>)
      | None \<Rightarrow>
          if \<not> has fl O_CREAT then Fails ENOENT
          else Gives d (s\<lparr>mnames := (mnames s)(name \<mapsto> q), mdescs := opened q,
                 mqueues := (mqueues s)(q :=
                   \<lparr>qm_max = (case attr of None \<Rightarrow> dmax | Some a \<Rightarrow> mq_maxmsg a),
                    qm_size = (case attr of None \<Rightarrow> dsize | Some a \<Rightarrow> mq_msgsize a), qm_msgs = []\<rparr>)\<rparr>))"

definition spec_close :: "int \<Rightarrow> mq_spec \<Rightarrow> (int, mq_spec) spec" where
  "spec_close d s = (if mdescs s d = None then Fails EBADF else Gives 0 (s\<lparr>mdescs := (mdescs s)(d := None)\<rparr>))"

definition spec_unlink :: "string \<Rightarrow> mq_spec \<Rightarrow> (int, mq_spec) spec" where
  "spec_unlink name s = (if mnames s name = None then Fails ENOENT else Gives 0 (s\<lparr>mnames := (mnames s)(name := None)\<rparr>))"

definition spec_attr :: "mq_desc \<Rightarrow> mq_spec \<Rightarrow> mq_attr" where
  "spec_attr x s = (let q = mqueues s (md_queue x) in
     \<lparr>mq_flags = (if md_nonblock x then uint O_NONBLOCK else 0), mq_maxmsg = qm_max q, mq_msgsize = qm_size q,
      mq_curmsgs = int (length (qm_msgs q))\<rparr>)"

definition spec_getattr :: "int \<Rightarrow> mq_spec \<Rightarrow> (int \<times> mq_attr option, mq_spec) spec" where
  "spec_getattr d s = (case mdescs s d of None \<Rightarrow> Fails EBADF | Some x \<Rightarrow> Gives (0, Some (spec_attr x s)) s)"

text \<open>Only the flag \<^verbatim>\<open>O_NONBLOCK\<close> is set.\<close>

definition spec_setattr :: "int \<Rightarrow> mq_attr \<Rightarrow> bool \<Rightarrow> mq_spec \<Rightarrow> (int \<times> mq_attr option, mq_spec) spec" where
  "spec_setattr d a wanted s =
     (case mdescs s d of
        None \<Rightarrow> Fails EBADF
      | Some x \<Rightarrow> Gives (0, if wanted then Some (spec_attr x s) else None)
          (s\<lparr>mdescs := (mdescs s)(d \<mapsto> x\<lparr>md_nonblock := has_long (mq_flags a) O_NONBLOCK\<rparr>)\<rparr>))"

definition spec_send :: "int \<Rightarrow> int \<Rightarrow> string \<Rightarrow> int \<Rightarrow> mq_spec \<Rightarrow> (int, mq_spec) spec" where
  "spec_send prio_max d m p s =
     (case mdescs s d of
        None \<Rightarrow> Fails EBADF
      | Some x \<Rightarrow> let i = md_queue x; q = mqueues s i in
          if \<not> writable x then Fails EBADF
          else if p \<ge> prio_max then Fails EINVAL
          else if int (length m) > qm_size q then Fails EMSGSIZE
          else if int (length (qm_msgs q)) \<ge> qm_max q then (if md_nonblock x then Fails EAGAIN else Waits)
          else Gives 0 (s\<lparr>mqueues := (mqueues s)(i := q\<lparr>qm_msgs := pq_insert (p, m) (qm_msgs q)\<rparr>)\<rparr>))"

definition spec_receive :: "int \<Rightarrow> nat \<Rightarrow> mq_spec \<Rightarrow> (int \<times> (int \<times> string) option, mq_spec) spec" where
  "spec_receive d n s =
     (case mdescs s d of
        None \<Rightarrow> Fails EBADF
      | Some x \<Rightarrow> let i = md_queue x; q = mqueues s i in
          if \<not> readable x then Fails EBADF
          else if int n < qm_size q then Fails EMSGSIZE
          else case qm_msgs q of
                 [] \<Rightarrow> if md_nonblock x then Fails EAGAIN else Waits
               | (p, m) # ms \<Rightarrow> Gives (int (length m), Some (p, m)) (s\<lparr>mqueues := (mqueues s)(i := q\<lparr>qm_msgs := ms\<rparr>)\<rparr>))"

definition spec_notify :: "int \<Rightarrow> mq_spec \<Rightarrow> (int, mq_spec) spec" where
  "spec_notify d s = (if mdescs s d = None then Fails EBADF else Gives 0 s)"

section \<open>Systems that agree\<close>

definition meets :: "('w \<Rightarrow> mq_spec) \<Rightarrow> 'w \<Rightarrow> 'r \<Rightarrow> ('r, 'w) ccall \<Rightarrow> ('r, mq_spec) spec \<Rightarrow> bool" where
  "meets view w bad f sp \<longleftrightarrow>
     (case sp of
        Fails e \<Rightarrow> \<exists>w'. f w = Ret (bad, e, w') \<and> view w' = view w
      | Gives r s \<Rightarrow> \<exists>e w'. f w = Ret (r, e, w') \<and> view w' = s
      | Waits \<Rightarrow> f w = Block)"

definition usable_attr :: "mq_attr option \<Rightarrow> bool" where
  "usable_attr attr \<longleftrightarrow> (case attr of None \<Rightarrow> True
     | Some a \<Rightarrow> 0 < mq_maxmsg a \<and> mq_maxmsg a \<le> 40 \<and> 0 < mq_msgsize a \<and> mq_msgsize a \<le> 100)"

text \<open>\<open>mq_notify\<close> is only promised to refuse a descriptor that is not open. The sizes of the
  programs are within the limits of the system, the least priority limit is POSIX's 32.\<close>

locale mq_system =
  fixes api :: "('w, 'z) mq_api_scheme"
    and view :: "'w \<Rightarrow> mq_spec"
    and dmax dsize :: int
  assumes prio_max: "32 \<le> q_prio_max api"
    and defaults: "2 \<le> dmax" "20 \<le> dsize"
    and open_meets: "usable_attr attr \<Longrightarrow> \<exists>d q. d \<noteq> - 1 \<and> mdescs (view w) d = None \<and> q \<notin> ran (mnames (view w))
      \<and> (\<forall>x \<in> ran (mdescs (view w)). md_queue x \<noteq> q)
      \<and> meets view w (- 1) (q_open api name fl mode attr) (spec_open dmax dsize d q name fl attr (view w))"
    and close_meets: "meets view w (- 1) (q_close api d) (spec_close d (view w))"
    and unlink_meets: "meets view w (- 1) (q_unlink api name) (spec_unlink name (view w))"
    and getattr_meets: "meets view w (- 1, None) (q_getattr api d) (spec_getattr d (view w))"
    and setattr_meets: "meets view w (- 1, None) (q_setattr api d a wanted) (spec_setattr d a wanted (view w))"
    and send_meets: "0 \<le> p \<Longrightarrow> meets view w (- 1) (q_send api d m p) (spec_send (q_prio_max api) d m p (view w))"
    and receive_meets: "meets view w (- 1, None) (q_receive api d n) (spec_receive d n (view w))"
    and notify_meets: "mdescs (view w) d = None \<Longrightarrow> meets view w (- 1) (q_notify api d se) (spec_notify d (view w))"

text \<open>A timed call does what the plain call does unless that would have to wait; the clock is not part
  of the abstract state.\<close>

locale mq_timed = mq_system api view dmax dsize
  for api :: "('w, 'z) mqt_api_scheme" and view dmax dsize +
  assumes time_reads: "\<exists>t. meets view w (- 1) (q_time api) (Gives t (view w))"
    and timedsend_plain: "q_send api d m p w \<noteq> Block \<Longrightarrow> q_timedsend api d m p ts w = q_send api d m p w"
    and timedreceive_plain: "q_receive api d n w \<noteq> Block \<Longrightarrow> q_timedreceive api d n ts w = q_receive api d n w"

section \<open>An executable system\<close>

text \<open>Names and descriptors are association lists; a new descriptor or queue gets a number larger than
  those in use.\<close>

record ref_mq =
  w_names :: "(string \<times> nat) list"
  w_descs :: "(int \<times> mq_desc) list"
  w_queues :: "nat \<Rightarrow> mq_queue"
  w_clock :: int

definition ref_mq_view :: "ref_mq \<Rightarrow> mq_spec" where
  "ref_mq_view w = \<lparr>mnames = map_of (w_names w), mdescs = map_of (w_descs w), mqueues = w_queues w\<rparr>"

definition put :: "'k \<Rightarrow> 'v option \<Rightarrow> ('k \<times> 'v) list \<Rightarrow> ('k \<times> 'v) list" where
  "put k v xs = (case v of None \<Rightarrow> AList.delete k xs | Some x \<Rightarrow> AList.update k x xs)"

lemma map_of_put: "map_of (put k v xs) = (map_of xs)(k := v)"
  by (auto simp: put_def update_conv' delete_conv' split: option.split)

text \<open>Taking over a state that differs in the name \<open>n\<close>, the descriptor \<open>d\<close> and the queues only.\<close>

definition ref_mq_step :: "'r \<Rightarrow> string \<Rightarrow> int \<Rightarrow> (mq_spec \<Rightarrow> ('r, mq_spec) spec) \<Rightarrow> ('r, ref_mq) ccall" where
  "ref_mq_step bad n d f w =
     (case f (ref_mq_view w) of
        Fails e \<Rightarrow> Ret (bad, e, w)
      | Gives r s \<Rightarrow> Ret (r, EOK, w\<lparr>w_names := put n (mnames s n) (w_names w), w_descs := put d (mdescs s d) (w_descs w),
          w_queues := mqueues s\<rparr>)
      | Waits \<Rightarrow> Block)"

definition new_desc :: "ref_mq \<Rightarrow> int" where
  "new_desc w = 1 + sum_list (map (\<lambda>x. \<bar>fst x\<bar>) (w_descs w))"

definition new_queue :: "ref_mq \<Rightarrow> nat" where
  "new_queue w = Suc (sum_list (map snd (w_names w)) + sum_list (map (md_queue \<circ> snd) (w_descs w)))"

definition ref_mq_api :: "ref_mq mqt_api" where
  "ref_mq_api =
     \<lparr>q_open = (\<lambda>n fl mode attr w. ref_mq_step (- 1) n (new_desc w) (spec_open 10 8192 (new_desc w) (new_queue w) n fl attr) w),
      q_close = (\<lambda>d. ref_mq_step (- 1) [] d (spec_close d)),
      q_unlink = (\<lambda>n. ref_mq_step (- 1) n 0 (spec_unlink n)),
      q_getattr = (\<lambda>d. ref_mq_step (- 1, None) [] d (spec_getattr d)),
      q_setattr = (\<lambda>d a wanted. ref_mq_step (- 1, None) [] d (spec_setattr d a wanted)),
      q_send = (\<lambda>d m p. ref_mq_step (- 1) [] d (spec_send 32768 d m p)),
      q_receive = (\<lambda>d n. ref_mq_step (- 1, None) [] d (spec_receive d n)),
      q_notify = (\<lambda>d se. ref_mq_step (- 1) [] d (spec_notify d)), q_prio_max = 32768,
      q_time = (\<lambda>w. Ret (w_clock w, EOK, w)),
      q_timedsend = (\<lambda>d m p ts. ref_mq_step (- 1) [] d (spec_send 32768 d m p)),
      q_timedreceive = (\<lambda>d n ts. ref_mq_step (- 1, None) [] d (spec_receive d n))\<rparr>"

lemma ref_mq_step_meets:
  assumes "\<And>r s. f (ref_mq_view w) = Gives r s \<Longrightarrow>
    (\<forall>n'. n' \<noteq> n \<longrightarrow> mnames s n' = map_of (w_names w) n') \<and> (\<forall>d'. d' \<noteq> d \<longrightarrow> mdescs s d' = map_of (w_descs w) d')"
  shows "meets ref_mq_view w bad (ref_mq_step bad n d f) (f (ref_mq_view w))"
proof (cases "f (ref_mq_view w)")
  case (Gives r s)
  have "mnames s = (map_of (w_names w))(n := mnames s n)" "mdescs s = (map_of (w_descs w))(d := mdescs s d)"
    using assms [OF Gives] by auto
  with Gives show ?thesis by (simp add: meets_def ref_mq_step_def ref_mq_view_def map_of_put)
qed (simp_all add: meets_def ref_mq_step_def)

lemma new_desc_fresh: "new_desc w \<noteq> - 1" "map_of (w_descs w) (new_desc w) = None"
proof -
  have nn: "0 \<le> sum_list (map (\<lambda>x. \<bar>fst x\<bar>) (xs :: (int \<times> mq_desc) list))" for xs by (rule sum_list_nonneg) auto
  then show "new_desc w \<noteq> - 1" by (simp add: new_desc_def add_eq_0_iff) (smt (verit))
  have le: "(k, v) \<in> set xs \<Longrightarrow> k \<le> sum_list (map (\<lambda>x. \<bar>fst x\<bar>) (xs :: (int \<times> mq_desc) list))" for k v xs
    using nn by (induction xs) (fastforce intro: add_increasing add_increasing2)+
  show "map_of (w_descs w) (new_desc w) = None"
  proof (rule ccontr)
    assume "map_of (w_descs w) (new_desc w) \<noteq> None"
    then obtain v where "(new_desc w, v) \<in> set (w_descs w)" using map_of_SomeD by force
    from le [OF this] show False by (simp add: new_desc_def)
  qed
qed

lemma new_queue_fresh: "new_queue w \<notin> ran (map_of (w_names w))" "x \<in> ran (map_of (w_descs w)) \<Longrightarrow> md_queue x \<noteq> new_queue w"
proof -
  have le: "y \<in> set xs \<Longrightarrow> f y \<le> sum_list (map f xs)" for y xs and f :: "'a \<Rightarrow> nat"
    by (simp add: member_le_sum_list)
  show "new_queue w \<notin> ran (map_of (w_names w))"
  proof
    assume "new_queue w \<in> ran (map_of (w_names w))"
    then obtain k where "(k, new_queue w) \<in> set (w_names w)" by (auto simp: ran_def dest: map_of_SomeD)
    from le [OF this, of snd] show False by (simp add: new_queue_def)
  qed
  assume "x \<in> ran (map_of (w_descs w))"
  then obtain k where "(k, x) \<in> set (w_descs w)" by (auto simp: ran_def dest: map_of_SomeD)
  from le [OF this, of "md_queue \<circ> snd"] show "md_queue x \<noteq> new_queue w" by (simp add: new_queue_def)
qed

lemmas spec_defs = spec_close_def spec_unlink_def spec_getattr_def spec_setattr_def spec_send_def spec_receive_def spec_notify_def

lemma ref_open_meets:
  "\<exists>d q. d \<noteq> - 1 \<and> mdescs (ref_mq_view w) d = None \<and> q \<notin> ran (mnames (ref_mq_view w))
     \<and> (\<forall>x \<in> ran (mdescs (ref_mq_view w)). md_queue x \<noteq> q)
     \<and> meets ref_mq_view w (- 1) (q_open ref_mq_api name fl mode attr) (spec_open 10 8192 d q name fl attr (ref_mq_view w))"
proof (intro exI conjI)
  let ?d = "new_desc w" and ?q = "new_queue w"
  show "?d \<noteq> - 1" "mdescs (ref_mq_view w) ?d = None" "?q \<notin> ran (mnames (ref_mq_view w))"
    "\<forall>x \<in> ran (mdescs (ref_mq_view w)). md_queue x \<noteq> ?q"
    using new_desc_fresh new_queue_fresh by (auto simp: ref_mq_view_def)
  have "meets ref_mq_view w (- 1) (ref_mq_step (- 1) name ?d (spec_open 10 8192 ?d ?q name fl attr))
      (spec_open 10 8192 ?d ?q name fl attr (ref_mq_view w))"
    by (rule ref_mq_step_meets) (auto simp: spec_open_def Let_def ref_mq_view_def split: option.splits if_splits)
  then show "meets ref_mq_view w (- 1) (q_open ref_mq_api name fl mode attr) (spec_open 10 8192 ?d ?q name fl attr (ref_mq_view w))"
    by (simp add: meets_def ref_mq_api_def)
qed

interpretation ref_mqs: mq_timed ref_mq_api ref_mq_view 10 8192
proof unfold_locales
  show "\<exists>d q. d \<noteq> - 1 \<and> mdescs (ref_mq_view w) d = None \<and> q \<notin> ran (mnames (ref_mq_view w))
     \<and> (\<forall>x \<in> ran (mdescs (ref_mq_view w)). md_queue x \<noteq> q)
     \<and> meets ref_mq_view w (- 1) (q_open ref_mq_api name fl mode attr) (spec_open 10 8192 d q name fl attr (ref_mq_view w))"
    for name fl mode attr w by (rule ref_open_meets)
qed (auto simp: ref_mq_api_def meets_def [where f = "\<lambda>w. Ret (w_clock w, EOK, w)"] intro!: ref_mq_step_meets,
     auto simp: spec_defs ref_mq_view_def Let_def split: option.splits if_splits list.splits)

section \<open>Running a program on a system that agrees\<close>

text \<open>\<open>passes view s p\<close>: in every world whose view is \<open>s\<close>, \<open>p\<close> ends with \<^verbatim>\<open>PTS_PASS\<close>. The programs are run on the
  abstract state with one rule for each call.\<close>

definition passes :: "('w \<Rightarrow> mq_spec) \<Rightarrow> mq_spec \<Rightarrow> 'w test \<Rightarrow> bool" where
  "passes view s p \<longleftrightarrow> (\<forall>w. view w = s \<longrightarrow> (\<exists>w'. p w = Ret (PTS_PASS, w')))"

definition continues :: "('w \<Rightarrow> mq_spec) \<Rightarrow> mq_spec \<Rightarrow> 'r \<Rightarrow> ('r, mq_spec) spec \<Rightarrow> ('r \<Rightarrow> errno \<Rightarrow> 'w test) \<Rightarrow> bool" where
  "continues view s bad sp k \<longleftrightarrow>
     (case sp of Fails e \<Rightarrow> passes view s (k bad e) | Gives r s' \<Rightarrow> (\<forall>e. passes view s' (k r e)) | Waits \<Rightarrow> False)"

lemma passes_call:
  assumes "\<And>w. view w = s \<Longrightarrow> meets view w bad f sp" and "continues view s bad sp k"
  shows "passes view s (call f k)"
  unfolding passes_def
proof (intro allI impI)
  fix w assume w: "view w = s"
  from assms(1) [OF w] assms(2) w show "\<exists>w'. call f k w = Ret (PTS_PASS, w')"
    by (cases sp) (auto simp: meets_def continues_def call_def passes_def)
qed

lemma passes_leave: "passes view s (leave c) \<longleftrightarrow> (\<forall>w. view w = s \<longrightarrow> c = PTS_PASS)"
  by (simp add: passes_def leave_def)

lemma passes_leave_pass [simp]: "passes view s (leave PTS_PASS)"
  by (simp add: passes_leave)

context mq_system
begin

lemma run_open:
  assumes "usable_attr attr"
    and "\<And>d q. d \<noteq> - 1 \<Longrightarrow> mdescs s d = None \<Longrightarrow> q \<notin> ran (mnames s) \<Longrightarrow> \<forall>x \<in> ran (mdescs s). md_queue x \<noteq> q \<Longrightarrow>
      continues view s (- 1) (spec_open dmax dsize d q name fl attr s) k"
  shows "passes view s (call (q_open api name fl mode attr) k)"
  unfolding passes_def
proof (intro allI impI)
  fix w assume w: "view w = s"
  from open_meets [OF assms(1), of w name fl mode] w obtain d q where
    m: "meets view w (- 1) (q_open api name fl mode attr) (spec_open dmax dsize d q name fl attr s)"
    and c: "continues view s (- 1) (spec_open dmax dsize d q name fl attr s) k" using assms(2) by blast
  then show "\<exists>w'. call (q_open api name fl mode attr) k w = Ret (PTS_PASS, w')"
    using w by (cases "spec_open dmax dsize d q name fl attr s") (auto simp: meets_def continues_def call_def passes_def)
qed

lemma run_close: "continues view s (- 1) (spec_close d s) k \<Longrightarrow> passes view s (call (q_close api d) k)"
  using close_meets by (intro passes_call) auto

lemma run_unlink: "continues view s (- 1) (spec_unlink name s) k \<Longrightarrow> passes view s (call (q_unlink api name) k)"
  using unlink_meets by (intro passes_call) auto

lemma run_getattr: "continues view s (- 1, None) (spec_getattr d s) k \<Longrightarrow> passes view s (call (q_getattr api d) k)"
  using getattr_meets by (intro passes_call) auto

lemma run_setattr:
  "continues view s (- 1, None) (spec_setattr d a wanted s) k \<Longrightarrow> passes view s (call (q_setattr api d a wanted) k)"
  using setattr_meets by (intro passes_call) auto

lemma run_send:
  "0 \<le> p \<Longrightarrow> continues view s (- 1) (spec_send (q_prio_max api) d m p s) k \<Longrightarrow> passes view s (call (q_send api d m p) k)"
  using send_meets by (intro passes_call) auto

lemma run_receive:
  "continues view s (- 1, None) (spec_receive d n s) k \<Longrightarrow> passes view s (call (q_receive api d n) k)"
  using receive_meets by (intro passes_call) auto

lemma run_notify:
  "mdescs s d = None \<Longrightarrow> continues view s (- 1) (spec_notify d s) k \<Longrightarrow> passes view s (call (q_notify api d se) k)"
  using notify_meets by (intro passes_call) auto

lemmas run_rules = run_close run_unlink run_getattr run_setattr run_send run_receive run_notify run_open

end

context mq_timed
begin

lemma run_time: "(\<And>t e. passes view s (k t e)) \<Longrightarrow> passes view s (call (q_time api) k)"
  unfolding passes_def
proof (intro allI impI)
  fix w assume k: "\<And>t e. \<forall>w. view w = s \<longrightarrow> (\<exists>w'. k t e w = Ret (PTS_PASS, w'))" and w: "view w = s"
  from time_reads [of w] obtain t e w' where "q_time api w = Ret (t, e, w')" "view w' = s"
    using w by (auto simp: meets_def)
  with k show "\<exists>w'. call (q_time api) k w = Ret (PTS_PASS, w')" by (auto simp: call_def)
qed

lemma run_timedsend:
  assumes "0 \<le> p" and "continues view s (- 1) (spec_send (q_prio_max api) d m p s) k"
  shows "passes view s (call (q_timedsend api d m p ts) k)"
proof (rule passes_call [OF _ assms(2)])
  fix w assume w: "view w = s"
  from send_meets [OF assms(1), of w d m] w assms(2) have
    "meets view w (- 1) (q_send api d m p) (spec_send (q_prio_max api) d m p s)" "q_send api d m p w \<noteq> Block"
    by (auto simp: meets_def continues_def split: spec.splits)
  with timedsend_plain [OF this(2), of ts] show "meets view w (- 1) (q_timedsend api d m p ts) (spec_send (q_prio_max api) d m p s)"
    by (simp only: meets_def)
qed

lemma run_timedreceive:
  assumes "continues view s (- 1, None) (spec_receive d n s) k"
  shows "passes view s (call (q_timedreceive api d n ts) k)"
proof (rule passes_call [OF _ assms])
  fix w assume w: "view w = s"
  from receive_meets [of w d n] w assms have
    "meets view w (- 1, None) (q_receive api d n) (spec_receive d n s)" "q_receive api d n w \<noteq> Block"
    by (auto simp: meets_def continues_def split: spec.splits)
  with timedreceive_plain [OF this(2), of ts] show "meets view w (- 1, None) (q_timedreceive api d n ts) (spec_receive d n s)"
    by (simp only: meets_def)
qed

end

end
