(* ===== verification/Mq_Tests_Props.thy ===== *)
theory Mq_Tests_Props
  imports Mq_Contract
begin

text \<open>The conformance programs for message queues pass on every system that keeps the contract: each is run on
  the abstract state by the rules of \<open>Mq_Contract\<close>.\<close>

lemma open_flags [simp]:
  "has (O_CREAT OR O_RDWR) O_CREAT" "\<not> has (O_CREAT OR O_RDWR) O_EXCL" "\<not> has (O_CREAT OR O_RDWR) O_NONBLOCK"
  "(O_CREAT OR O_RDWR) AND 3 = O_RDWR"
  "has (O_CREAT OR O_RDWR OR O_NONBLOCK) O_CREAT" "\<not> has (O_CREAT OR O_RDWR OR O_NONBLOCK) O_EXCL"
  "has (O_CREAT OR O_RDWR OR O_NONBLOCK) O_NONBLOCK" "(O_CREAT OR O_RDWR OR O_NONBLOCK) AND 3 = O_RDWR"
  "has (O_CREAT OR O_NONBLOCK OR O_RDWR) O_CREAT" "\<not> has (O_CREAT OR O_NONBLOCK OR O_RDWR) O_EXCL"
  "has (O_CREAT OR O_NONBLOCK OR O_RDWR) O_NONBLOCK" "(O_CREAT OR O_NONBLOCK OR O_RDWR) AND 3 = O_RDWR"
  "has (O_CREAT OR O_EXCL OR O_RDWR) O_CREAT" "has (O_CREAT OR O_EXCL OR O_RDWR) O_EXCL"
  "\<not> has O_RDWR O_CREAT" "\<not> has O_RDONLY O_CREAT" "\<not> has O_RDWR O_NONBLOCK" "\<not> has O_RDONLY O_NONBLOCK"
  "O_RDWR AND 3 = O_RDWR" "O_RDONLY AND 3 = O_RDONLY"
  "has (O_CREAT OR O_RDONLY) O_CREAT" "\<not> has (O_CREAT OR O_RDONLY) O_EXCL" "\<not> has (O_CREAT OR O_RDONLY) O_NONBLOCK"
  "(O_CREAT OR O_RDONLY) AND 3 = O_RDONLY"
  "has (O_CREAT OR O_WRONLY) O_CREAT" "\<not> has (O_CREAT OR O_WRONLY) O_EXCL" "\<not> has (O_CREAT OR O_WRONLY) O_NONBLOCK"
  "(O_CREAT OR O_WRONLY) AND 3 = O_WRONLY"
  by (simp_all add: has_def flag_simps)

lemma flag_atoms [simp]:
  "has O_CREAT O_CREAT" "has O_EXCL O_EXCL" "has O_NONBLOCK O_NONBLOCK"
  "\<not> has O_CREAT O_EXCL" "\<not> has O_CREAT O_NONBLOCK" "\<not> has O_RDWR O_EXCL" "\<not> has O_RDONLY O_EXCL"
  "\<not> has O_NONBLOCK O_EXCL" "\<not> has O_EXCL O_NONBLOCK"
  by (simp_all add: has_def flag_simps)

lemma access_modes [simp]: "O_RDWR \<noteq> O_WRONLY" "O_RDWR \<noteq> O_RDONLY" "O_RDONLY \<noteq> O_WRONLY" "O_WRONLY \<noteq> O_RDONLY"
  by (simp_all add: flag_simps)

lemmas run_simps = continues_def spec_open_def spec_defs open_or_def open_mark_def finish_def cleanup_def verdict_def
  usable_attr_def readable_def writable_def Let_def mqa_def zero_attr_def send_compare_def send_refused_def send_return_def
  send_bad_def send_order_def fill_finish_def receive_highest_def receive_checked_def buffer_after_def prio_after_def
  attr_after_def differs_def MSGSTR_def LONGMSG_def M1_def M2_def M3_def MSGS_def shuffled_def open_missing_def open_again_def
  spec_attr_def

lemma send_times_numeral [simp]:
  "send_times (numeral n) f bad k = call f (\<lambda>rc _. send_times (pred_numeral n) f (bad \<or> rc = - 1) k)"
  by (simp add: numeral_eq_Suc)

lemma fill_numeral [simp]:
  "fill send i (numeral n) k = call (send (''message '' @ digits i))
     (\<lambda>rc e. if rc = - 1 then k True (e \<noteq> EAGAIN) else fill send (Suc i) (pred_numeral n) k)"
  by (simp add: numeral_eq_Suc)

lemma length_digits_small: "n < 100 \<Longrightarrow> length (digits n) \<le> 2"
  using less_mult_imp_div_less [of n 10 10]
  by (subst digits.simps, cases "n < 10") (simp_all add: digits.simps [of "n div 10"])

lemma numbered_fits [simp]: "n < 100 \<Longrightarrow> 10 \<le> k \<Longrightarrow> \<not> k < 8 + int (length (digits n))"
  using length_digits_small [of n] by simp

lemma nonblock_long [simp]: "has_long (uint O_NONBLOCK) O_NONBLOCK"
  by (simp add: has_long_def flag_simps)

text \<open>No queue has a name the process uses, and it has no descriptors.\<close>

definition unused :: "mq_spec \<Rightarrow> nat \<Rightarrow> bool" where
  "unused s pid \<longleftrightarrow> (\<forall>f. mnames s (qname_of f pid) = None) \<and> mnames s ''/something-which-does-not-exit'' = None
     \<and> (\<forall>d. mdescs s d = None)"

context mq_system
begin

lemma mq_close_tests_pass:
  assumes "unused s pid" "length jb = 40"
  shows "passes view s (mq_close_1_1 api pid)"
    "passes view s (mq_close_3_1 api pid)"
    "passes view s (mq_close_4_1 api pid se)"
  using assms prio_max defaults
  by (auto simp: unused_def mq_close_1_1_def mq_close_3_1_def mq_close_4_1_def run_simps intro!: run_rules)

lemma mq_unlink_tests_pass:
  assumes "unused s pid" "length jb = 40"
  shows "passes view s (mq_unlink_1_1 api pid)"
    "passes view s (mq_unlink_7_1 api)"
  using assms prio_max defaults
  by (auto simp: unused_def mq_unlink_1_1_def mq_unlink_7_1_def run_simps intro!: run_rules)

lemma mq_getattr_tests_pass:
  assumes "unused s pid" "length jb = 40"
  shows "passes view s (mq_getattr_2_1 api pid)"
    "passes view s (mq_getattr_2_2 api pid)"
    "passes view s (mq_getattr_3_1 api pid)"
    "passes view s (mq_getattr_4_1 api pid)"
  using assms prio_max defaults
  by (auto simp: unused_def mq_getattr_2_1_def mq_getattr_2_2_def mq_getattr_3_1_def mq_getattr_4_1_def run_simps intro!: run_rules)

lemma mq_setattr_tests_pass:
  assumes "unused s pid" "length jb = 40"
  shows "passes view s (mq_setattr_1_1 api pid)"
    "passes view s (mq_setattr_1_2 api pid)"
    "passes view s (mq_setattr_2_1 api pid)"
    "passes view s (mq_setattr_5_1 api pid)"
  using assms prio_max defaults
  by (auto simp: unused_def mq_setattr_1_1_def mq_setattr_1_2_def mq_setattr_2_1_def mq_setattr_5_1_def run_simps intro!: run_rules)

lemma mq_open_tests_pass:
  assumes "unused s pid" "length jb = 40"
  shows "passes view s (mq_open_1_1 api pid)"
    "passes view s (mq_open_3_1 api pid)"
    "passes view s (mq_open_21_1 api pid)"
    "passes view s (mq_open_29_1 api pid)"
    "passes view s (mq_open_7_1 api pid junk)"
    "passes view s (mq_open_7_3 api pid)"
    "passes view s (mq_open_11_1 api pid)"
    "passes view s (mq_open_12_1 api pid)"
    "passes view s (mq_open_13_1 api pid junk)"
    "passes view s (mq_open_15_1 api pid)"
    "passes view s (mq_open_23_1 api pid)"
    "passes view s (mq_open_18_1 api pid)"
  using assms prio_max defaults
  by (auto simp: unused_def mq_open_1_1_def mq_open_3_1_def mq_open_21_1_def mq_open_29_1_def mq_open_7_1_def mq_open_7_3_def mq_open_11_1_def mq_open_12_1_def mq_open_13_1_def mq_open_15_1_def mq_open_23_1_def mq_open_18_1_def run_simps intro!: run_rules)

lemma mq_send_tests_pass:
  assumes "unused s pid" "length jb = 40"
  shows "passes view s (mq_send_1_1 api pid junk jb)"
    "passes view s (mq_send_2_1 api pid junk)"
    "passes view s (mq_send_3_1 api pid junk jb)"
    "passes view s (mq_send_3_2 api pid junk jb)"
    "passes view s (mq_send_4_1 api pid)"
    "passes view s (mq_send_4_2 api pid)"
    "passes view s (mq_send_4_3 api pid junk jb)"
    "passes view s (mq_send_8_1 api pid junk jb)"
    "passes view s (mq_send_10_1 api pid junk)"
    "passes view s (mq_send_11_1 api pid)"
    "passes view s (mq_send_11_2 api pid)"
    "passes view s (mq_send_13_1 api pid)"
    "passes view s (mq_send_14_1 api pid junk)"
  using assms prio_max defaults
  by (auto simp: unused_def mq_send_1_1_def mq_send_2_1_def mq_send_3_1_def mq_send_3_2_def mq_send_4_1_def mq_send_4_2_def mq_send_4_3_def mq_send_8_1_def mq_send_10_1_def mq_send_11_1_def mq_send_11_2_def mq_send_13_1_def mq_send_14_1_def run_simps intro!: run_rules)

lemma mq_receive_tests_pass:
  assumes "unused s pid" "length jb = 40" "length jb2 = 40"
  shows "passes view s (mq_receive_1_1 api pid junk jb jb2)"
    "passes view s (mq_receive_2_1 api pid)"
    "passes view s (mq_receive_12_1 api pid)"
    "passes view s (mq_receive_7_1 api pid junk)"
    "passes view s (mq_receive_10_1 api pid junk)"
    "passes view s (mq_receive_11_1 api pid junk)"
    "passes view s (mq_receive_11_2 api pid junk)"
  using assms prio_max defaults
  by (auto simp: unused_def mq_receive_1_1_def mq_receive_2_1_def mq_receive_12_1_def mq_receive_7_1_def mq_receive_10_1_def mq_receive_11_1_def mq_receive_11_2_def run_simps intro!: run_rules)

end

context mq_timed
begin

lemmas timed_rules = run_rules run_time run_timedsend run_timedreceive

lemma mq_timedsend_tests_pass:
  assumes "unused s pid" "length jb = 40"
  shows "passes view s (mq_timedsend_1_1 api pid junk jb)"
    "passes view s (mq_timedsend_2_1 api pid junk)"
    "passes view s (mq_timedsend_3_1 api pid junk jb)"
    "passes view s (mq_timedsend_3_2 api pid junk jb)"
    "passes view s (mq_timedsend_4_1 api pid)"
    "passes view s (mq_timedsend_4_2 api pid)"
    "passes view s (mq_timedsend_4_3 api pid junk jb)"
    "passes view s (mq_timedsend_8_1 api pid junk jb)"
    "passes view s (mq_timedsend_10_1 api pid junk)"
    "passes view s (mq_timedsend_11_1 api pid)"
    "passes view s (mq_timedsend_11_2 api pid)"
    "passes view s (mq_timedsend_13_1 api pid)"
    "passes view s (mq_timedsend_14_1 api pid junk)"
  using assms prio_max defaults
  by (auto simp: unused_def mq_timedsend_1_1_def mq_timedsend_2_1_def mq_timedsend_3_1_def mq_timedsend_3_2_def mq_timedsend_4_1_def mq_timedsend_4_2_def mq_timedsend_4_3_def mq_timedsend_8_1_def mq_timedsend_10_1_def mq_timedsend_11_1_def mq_timedsend_11_2_def mq_timedsend_13_1_def mq_timedsend_14_1_def run_simps intro!: timed_rules)

lemma mq_timedreceive_tests_pass:
  assumes "unused s pid" "length jb = 40" "length jb2 = 40"
  shows "passes view s (mq_timedreceive_1_1 api pid junk jb jb2)"
    "passes view s (mq_timedreceive_2_1 api pid)"
    "passes view s (mq_timedreceive_15_1 api pid)"
    "passes view s (mq_timedreceive_7_1 api pid junk)"
    "passes view s (mq_timedreceive_13_1 api pid junk)"
    "passes view s (mq_timedreceive_14_1 api pid junk)"
    "passes view s (mq_timedreceive_10_1 api pid junk)"
  using assms prio_max defaults
  by (auto simp: unused_def mq_timedreceive_1_1_def mq_timedreceive_2_1_def mq_timedreceive_15_1_def mq_timedreceive_7_1_def mq_timedreceive_13_1_def mq_timedreceive_14_1_def mq_timedreceive_10_1_def run_simps intro!: timed_rules)

end

section \<open>The programs together\<close>

definition mq_plain_suite :: "('w, 'z) mq_api_scheme \<Rightarrow> nat \<Rightarrow> int \<Rightarrow> string \<Rightarrow> string \<Rightarrow> sigevent \<Rightarrow> 'w test list" where
  "mq_plain_suite api pid junk jb jb2 se =
     [mq_close_1_1 api pid, mq_close_3_1 api pid, mq_close_4_1 api pid se, mq_unlink_1_1 api pid,
      mq_unlink_7_1 api, mq_getattr_2_1 api pid, mq_getattr_2_2 api pid, mq_getattr_3_1 api pid,
      mq_getattr_4_1 api pid, mq_setattr_1_1 api pid, mq_setattr_1_2 api pid, mq_setattr_2_1 api pid,
      mq_setattr_5_1 api pid, mq_open_1_1 api pid, mq_open_3_1 api pid, mq_open_21_1 api pid,
      mq_open_29_1 api pid, mq_open_7_1 api pid junk, mq_open_7_3 api pid, mq_open_11_1 api pid,
      mq_open_12_1 api pid, mq_open_13_1 api pid junk, mq_open_15_1 api pid, mq_open_23_1 api pid,
      mq_open_18_1 api pid, mq_send_1_1 api pid junk jb, mq_send_2_1 api pid junk, mq_send_3_1 api pid junk jb,
      mq_send_3_2 api pid junk jb, mq_send_4_1 api pid, mq_send_4_2 api pid, mq_send_4_3 api pid junk jb,
      mq_send_8_1 api pid junk jb, mq_send_10_1 api pid junk, mq_send_11_1 api pid, mq_send_11_2 api pid,
      mq_send_13_1 api pid, mq_send_14_1 api pid junk, mq_receive_1_1 api pid junk jb jb2, mq_receive_2_1 api pid,
      mq_receive_12_1 api pid, mq_receive_7_1 api pid junk, mq_receive_10_1 api pid junk, mq_receive_11_1 api pid junk,
      mq_receive_11_2 api pid junk]"

definition mq_timed_suite :: "('w, 'z) mqt_api_scheme \<Rightarrow> nat \<Rightarrow> int \<Rightarrow> string \<Rightarrow> string \<Rightarrow> 'w test list" where
  "mq_timed_suite api pid junk jb jb2 =
     [mq_timedsend_1_1 api pid junk jb, mq_timedsend_2_1 api pid junk, mq_timedsend_3_1 api pid junk jb, mq_timedsend_3_2 api pid junk jb,
      mq_timedsend_4_1 api pid, mq_timedsend_4_2 api pid, mq_timedsend_4_3 api pid junk jb, mq_timedsend_8_1 api pid junk jb,
      mq_timedsend_10_1 api pid junk, mq_timedsend_11_1 api pid, mq_timedsend_11_2 api pid, mq_timedsend_13_1 api pid,
      mq_timedsend_14_1 api pid junk, mq_timedreceive_1_1 api pid junk jb jb2, mq_timedreceive_2_1 api pid, mq_timedreceive_15_1 api pid,
      mq_timedreceive_7_1 api pid junk, mq_timedreceive_13_1 api pid junk, mq_timedreceive_14_1 api pid junk, mq_timedreceive_10_1 api pid junk]"

context mq_timed
begin

lemma suite_passes:
  assumes "unused s pid" "length jb = 40" "length jb2 = 40"
  shows "list_all (passes view s) (mq_plain_suite api pid junk jb jb2 se @ mq_timed_suite api pid junk jb jb2)"
  unfolding mq_plain_suite_def mq_timed_suite_def
  by (simp add: mq_close_tests_pass [OF assms(1,2)] mq_unlink_tests_pass [OF assms(1,2)] mq_getattr_tests_pass [OF assms(1,2)]
      mq_setattr_tests_pass [OF assms(1,2)] mq_open_tests_pass [OF assms(1,2)] mq_send_tests_pass [OF assms(1,2)]
      mq_receive_tests_pass [OF assms] mq_timedsend_tests_pass [OF assms(1,2)] mq_timedreceive_tests_pass [OF assms])

end

text \<open>C15. On every system that keeps the contract of message queues, each of the 65 conformance programs,
  run when no queue has a name it uses and the process has no queue open, ends with \<^verbatim>\<open>PTS_PASS\<close>, whatever
  its uninitialised variables hold.\<close>

theorem mq_tests_pass:
  assumes "mq_timed api view dmax dsize" "unused (view w) pid" "length jb = 40" "length jb2 = 40"
    and "p \<in> set (mq_plain_suite api pid junk jb jb2 se @ mq_timed_suite api pid junk jb jb2)"
  shows "\<exists>w'. p w = Ret (PTS_PASS, w')"
  using mq_timed.suite_passes [OF assms(1-4)] assms(5) by (simp add: list_all_iff passes_def)

definition start_mq :: ref_mq where
  "start_mq = \<lparr>w_names = [], w_descs = [], w_queues = (\<lambda>_. \<lparr>qm_max = 0, qm_size = 0, qm_msgs = []\<rparr>), w_clock = 0\<rparr>"

lemma start_mq_unused: "unused (ref_mq_view start_mq) pid"
  by (simp add: unused_def ref_mq_view_def start_mq_def)

theorem mq_tests_pass_witness:
  "\<exists>w'. mq_send_3_1 ref_mq_api 7 0 (replicate 40 CHR ''x'') start_mq = Ret (PTS_PASS, w')"
  using mq_tests_pass [OF ref_mqs.mq_timed_axioms start_mq_unused [of 7], of "replicate 40 CHR ''x''" "replicate 40 CHR ''y''"
      "mq_send_3_1 ref_mq_api 7 0 (replicate 40 CHR ''x'')" 0]
  by (simp add: mq_plain_suite_def)

end
