(* ===== verification/Mq_Tests_Posix1b.thy ===== *)
theory Mq_Tests_Posix1b
  imports Mq_Tests_Props
begin

text \<open>The conformance programs for message queues run on the library of \<^verbatim>\<open>posix1b/mqueue.c\<close> over the executable
  System V kernel.\<close>

section \<open>The programs on the message queues of posix1b\<close>

definition reply :: "(int \<times> 'k mqstate) outcome \<Rightarrow> (int \<times> errno \<times> 'k mqstate) outcome" where
  "reply x = obind x (\<lambda>(r, s). Ret (r, qerrno s, s))"

definition reply_out :: "(int \<times> 'a option \<times> 'k mqstate) outcome \<Rightarrow> ((int \<times> 'a option) \<times> errno \<times> 'k mqstate) outcome" where
  "reply_out x = obind x (\<lambda>(r, a, s). Ret ((r, a), qerrno s, s))"

text \<open>A descriptor of the library is the address of its heap cell.\<close>

definition posix1b_mq :: "('k, 'z) msg_os_scheme \<Rightarrow> 'k mqstate mq_api" where
  "posix1b_mq os =
     \<lparr>q_open = (\<lambda>n fl mode attr s. obind (mq_open os n fl mode attr s)
        (\<lambda>(d, s). Ret (case d of None \<Rightarrow> - 1 | Some q \<Rightarrow> int q, qerrno s, s))),
      q_close = (\<lambda>d s. reply (mq_close os (nat d) s)),
      q_unlink = (\<lambda>n s. reply (Ret (mq_unlink os n s))),
      q_getattr = (\<lambda>d s. reply_out (mq_getattr os (nat d) True s)),
      q_setattr = (\<lambda>d a wanted s. reply_out (mq_setattr os (nat d) (Some a) wanted s)),
      q_send = (\<lambda>d m p s. reply (mq_send os (nat d) m (word_of_int p) s)),
      q_receive = (\<lambda>d n s. reply_out (mq_receive os (nat d) n s)),
      q_notify = (\<lambda>d se s. reply (mq_notify os (nat d) (Some se) s)), q_prio_max = MQ_PRIO_MAX\<rparr>"

definition mq_boot :: "msg_kernel mqstate" where
  "mq_boot = \<lparr>descs = Map.empty, reqs = Map.empty, qerrno = EOK, qsys = ref_msg_boot\<rparr>"

lemmas lib_defs = posix1b_mq_def reply_def reply_out_def mq_open_def mq_open_file_def mq_open_map_def mq_open_err_def
  mq_close_def mq_unlink_def mq_getattr_def mq_setattr_def mq_send_def mq_receive_def mq_notify_def send_notify_def
  qcall_def qderef_def rderef_def ref_msg_defs ref_msg_boot_def mq_boot_def fresh_id_def has_def has_long_def flag_simps
  call_def leave_def mq_consts attr_of_def run_simps bad_attr_def fits_def MSGMAX_def to_uint_def SIGUSR1_def

lemma length_digits: "n < 10 \<Longrightarrow> length (digits n) = 1" "10 \<le> n \<Longrightarrow> n < 100 \<Longrightarrow> length (digits n) = 2"
  using less_mult_imp_div_less [of n 10 10]
  by (subst digits.simps, simp, subst digits.simps, simp add: digits.simps [of "n div 10"])

lemma mq_close_verdicts:
  "map_outcome fst (mq_close_1_1 (posix1b_mq ref_msg_os) pid mq_boot) = Ret PTS_UNRESOLVED"
  "map_outcome fst (mq_close_3_1 (posix1b_mq ref_msg_os) pid mq_boot) = Ret PTS_UNRESOLVED"
  "map_outcome fst (mq_close_4_1 (posix1b_mq ref_msg_os) pid se mq_boot) = Fault"
  by (simp_all add: mq_close_1_1_def mq_close_3_1_def mq_close_4_1_def lib_defs)

lemma mq_unlink_verdicts:
  "map_outcome fst (mq_unlink_1_1 (posix1b_mq ref_msg_os) pid mq_boot) = Ret PTS_FAIL"
  "map_outcome fst (mq_unlink_7_1 (posix1b_mq ref_msg_os) mq_boot) = Ret PTS_PASS"
  by (simp_all add: mq_unlink_1_1_def mq_unlink_7_1_def lib_defs)

lemma mq_getattr_verdicts:
  "map_outcome fst (mq_getattr_2_1 (posix1b_mq ref_msg_os) pid mq_boot) = Ret PTS_UNRESOLVED"
  "map_outcome fst (mq_getattr_2_2 (posix1b_mq ref_msg_os) pid mq_boot) = Ret PTS_PASS"
  "map_outcome fst (mq_getattr_3_1 (posix1b_mq ref_msg_os) pid mq_boot) = Ret PTS_FAIL"
  "map_outcome fst (mq_getattr_4_1 (posix1b_mq ref_msg_os) pid mq_boot) = Ret PTS_PASS"
  by (simp_all add: mq_getattr_2_1_def mq_getattr_2_2_def mq_getattr_3_1_def mq_getattr_4_1_def lib_defs)

lemma mq_setattr_verdicts:
  "map_outcome fst (mq_setattr_1_1 (posix1b_mq ref_msg_os) pid mq_boot) = Ret PTS_UNRESOLVED"
  "map_outcome fst (mq_setattr_1_2 (posix1b_mq ref_msg_os) pid mq_boot) = Ret PTS_PASS"
  "map_outcome fst (mq_setattr_2_1 (posix1b_mq ref_msg_os) pid mq_boot) = Ret PTS_UNRESOLVED"
  "map_outcome fst (mq_setattr_5_1 (posix1b_mq ref_msg_os) pid mq_boot) = Ret PTS_UNRESOLVED"
  by (simp_all add: mq_setattr_1_1_def mq_setattr_1_2_def mq_setattr_2_1_def mq_setattr_5_1_def lib_defs)

lemma mq_open_verdicts:
  "map_outcome fst (mq_open_1_1 (posix1b_mq ref_msg_os) pid mq_boot) = Ret PTS_PASS"
  "map_outcome fst (mq_open_3_1 (posix1b_mq ref_msg_os) pid mq_boot) = Ret PTS_PASS"
  "map_outcome fst (mq_open_21_1 (posix1b_mq ref_msg_os) pid mq_boot) = Ret PTS_PASS"
  "map_outcome fst (mq_open_29_1 (posix1b_mq ref_msg_os) pid mq_boot) = Ret PTS_PASS"
  "map_outcome fst (mq_open_7_1 (posix1b_mq ref_msg_os) pid 0 mq_boot) = Ret PTS_FAIL"
  "map_outcome fst (mq_open_7_3 (posix1b_mq ref_msg_os) pid mq_boot) = Ret PTS_PASS"
  "map_outcome fst (mq_open_11_1 (posix1b_mq ref_msg_os) pid mq_boot) = Ret PTS_PASS"
  "map_outcome fst (mq_open_12_1 (posix1b_mq ref_msg_os) pid mq_boot) = Ret PTS_PASS"
  "map_outcome fst (mq_open_13_1 (posix1b_mq ref_msg_os) pid 0 mq_boot) = Ret PTS_FAIL"
  "map_outcome fst (mq_open_15_1 (posix1b_mq ref_msg_os) pid mq_boot) = Ret PTS_PASS"
  "map_outcome fst (mq_open_23_1 (posix1b_mq ref_msg_os) pid mq_boot) = Ret PTS_PASS"
  "map_outcome fst (mq_open_18_1 (posix1b_mq ref_msg_os) pid mq_boot) = Ret PTS_PASS"
  by (simp_all add: mq_open_1_1_def mq_open_3_1_def mq_open_21_1_def mq_open_29_1_def mq_open_7_1_def mq_open_7_3_def mq_open_11_1_def mq_open_12_1_def mq_open_13_1_def mq_open_15_1_def mq_open_23_1_def mq_open_18_1_def lib_defs)

lemma mq_send_verdicts:
  "map_outcome fst (mq_send_1_1 (posix1b_mq ref_msg_os) pid 0 jb mq_boot) = Ret PTS_UNRESOLVED"
  "map_outcome fst (mq_send_2_1 (posix1b_mq ref_msg_os) pid 0 mq_boot) = Ret PTS_FAIL"
  "map_outcome fst (mq_send_3_1 (posix1b_mq ref_msg_os) pid 0 jb mq_boot) = Ret PTS_UNRESOLVED"
  "map_outcome fst (mq_send_3_2 (posix1b_mq ref_msg_os) pid 0 jb mq_boot) = Ret PTS_UNRESOLVED"
  "map_outcome fst (mq_send_4_1 (posix1b_mq ref_msg_os) pid mq_boot) = Ret PTS_UNRESOLVED"
  "map_outcome fst (mq_send_4_2 (posix1b_mq ref_msg_os) pid mq_boot) = Ret PTS_FAIL"
  "map_outcome fst (mq_send_4_3 (posix1b_mq ref_msg_os) pid 0 jb mq_boot) = Ret PTS_UNRESOLVED"
  "map_outcome fst (mq_send_8_1 (posix1b_mq ref_msg_os) pid 0 jb mq_boot) = Ret PTS_UNRESOLVED"
  "map_outcome fst (mq_send_10_1 (posix1b_mq ref_msg_os) pid 0 mq_boot) = Ret PTS_UNRESOLVED"
  "map_outcome fst (mq_send_11_1 (posix1b_mq ref_msg_os) pid mq_boot) = Fault"
  "map_outcome fst (mq_send_11_2 (posix1b_mq ref_msg_os) pid mq_boot) = Ret PTS_FAIL"
  "map_outcome fst (mq_send_13_1 (posix1b_mq ref_msg_os) pid mq_boot) = Ret PTS_FAIL"
  "map_outcome fst (mq_send_14_1 (posix1b_mq ref_msg_os) pid 0 mq_boot) = Ret PTS_FAIL"
  by (simp_all add: mq_send_1_1_def mq_send_2_1_def mq_send_3_1_def mq_send_3_2_def mq_send_4_1_def mq_send_4_2_def mq_send_4_3_def mq_send_8_1_def mq_send_10_1_def mq_send_11_1_def mq_send_11_2_def mq_send_13_1_def mq_send_14_1_def lib_defs length_digits)

lemma mq_receive_verdicts:
  "map_outcome fst (mq_receive_1_1 (posix1b_mq ref_msg_os) pid 0 jb jb2 mq_boot) = Ret PTS_UNRESOLVED"
  "map_outcome fst (mq_receive_2_1 (posix1b_mq ref_msg_os) pid mq_boot) = Ret PTS_FAIL"
  "map_outcome fst (mq_receive_12_1 (posix1b_mq ref_msg_os) pid mq_boot) = Ret PTS_FAIL"
  "map_outcome fst (mq_receive_7_1 (posix1b_mq ref_msg_os) pid 0 mq_boot) = Block"
  "map_outcome fst (mq_receive_10_1 (posix1b_mq ref_msg_os) pid 0 mq_boot) = Block"
  "map_outcome fst (mq_receive_11_1 (posix1b_mq ref_msg_os) pid 0 mq_boot) = Fault"
  "map_outcome fst (mq_receive_11_2 (posix1b_mq ref_msg_os) pid 0 mq_boot) = Block"
  by (simp_all add: mq_receive_1_1_def mq_receive_2_1_def mq_receive_12_1_def mq_receive_7_1_def mq_receive_10_1_def mq_receive_11_1_def mq_receive_11_2_def lib_defs)

text \<open>What the 45 programs without timed calls report of the library on the executable kernel, started on an empty system with uninitialised variables that hold 0, in the
  order of \<open>mq_plain_suite\<close>. Programs that check \<^verbatim>\<open>mq_unlink\<close> are unresolved, as it looks for the queue under
  another key; \<^verbatim>\<open>mq_open\<close> ignores the sizes in the attributes, the access mode and \<^verbatim>\<open>O_NONBLOCK\<close> in its flags, so that the
  programs about them fail or block; using a descriptor that is closed or not valid is a bad access.\<close>

theorem posix1b_mq_verdicts:
  "map (\<lambda>p. map_outcome fst (p mq_boot)) (mq_plain_suite (posix1b_mq ref_msg_os) pid 0 jb jb2 se) =
     [Ret PTS_UNRESOLVED, Ret PTS_UNRESOLVED, Fault, Ret PTS_FAIL, Ret PTS_PASS,
        Ret PTS_UNRESOLVED, Ret PTS_PASS, Ret PTS_FAIL, Ret PTS_PASS, Ret PTS_UNRESOLVED,
        Ret PTS_PASS, Ret PTS_UNRESOLVED, Ret PTS_UNRESOLVED, Ret PTS_PASS, Ret PTS_PASS,
        Ret PTS_PASS, Ret PTS_PASS, Ret PTS_FAIL, Ret PTS_PASS, Ret PTS_PASS,
        Ret PTS_PASS, Ret PTS_FAIL, Ret PTS_PASS, Ret PTS_PASS, Ret PTS_PASS,
        Ret PTS_UNRESOLVED, Ret PTS_FAIL, Ret PTS_UNRESOLVED, Ret PTS_UNRESOLVED, Ret PTS_UNRESOLVED,
        Ret PTS_FAIL, Ret PTS_UNRESOLVED, Ret PTS_UNRESOLVED, Ret PTS_UNRESOLVED, Fault,
        Ret PTS_FAIL, Ret PTS_FAIL, Ret PTS_FAIL, Ret PTS_UNRESOLVED, Ret PTS_FAIL,
        Ret PTS_FAIL, Block, Block, Fault, Block]"
  by (simp add: mq_plain_suite_def mq_close_verdicts mq_unlink_verdicts mq_getattr_verdicts mq_setattr_verdicts mq_open_verdicts mq_send_verdicts mq_receive_verdicts)

end
