(* ===== verification/Sem_Table.thy ===== *)
theory Sem_Table
  imports Sem_Props
begin

text \<open>The hash table of \<^verbatim>\<open>posix1b/semaphore.c\<close> against its reference: a list of pairs in order of insertion, of
  which the last one with a key counts.\<close>

fun insert_all :: "('k, 'z) sem_os_scheme \<Rightarrow> (int \<times> int) list \<Rightarrow> 'k sstate \<Rightarrow> 'k sstate outcome" where
  "insert_all os [] s = Ret s"
| "insert_all os ((key, i) # kvs) s = obind (insert_semid os key i s) (insert_all os kvs)"

context sysv_sem
begin

lemma insert_all_table:
  assumes "table_ok s ch" and "table_in (live (ssys s)) ch" and "\<forall>p \<in> set kvs. 0 \<le> fst p"
    and "\<forall>b < 253. length (ch b) \<le> n"
  shows "\<exists>s' ch'. insert_all os kvs s = Ret s' \<and> table_ok s' ch' \<and> sems s' = sems s \<and> mutex s' = mutex s
     \<and> (\<forall>b < 253. length (ch' b) \<le> n + length kvs)
     \<and> (\<forall>key \<ge> 0. table_map s' ch' key =
          (case map_of (rev kvs) key of None \<Rightarrow> table_map s ch key | Some i \<Rightarrow> Some i))"
  using assms
proof (induction kvs arbitrary: s ch n)
  case Nil
  then show ?case by auto
next
  case (Cons p kvs)
  obtain key i where p: "p = (key, i)" by fastforce
  with Cons.prems insert_semid_live [of s ch key i] obtain ip s1 ch1 where 1: "insert_semid os key i s = Ret s1"
    "ch1 = ch(nat (key mod 253) := ip # ch (nat (key mod 253)))" "table_ok s1 ch1" "table_in (live (ssys s1)) ch1"
    "table_map s1 ch1 key = Some i" "\<forall>key' \<ge> 0. key' \<noteq> key \<longrightarrow> table_map s1 ch1 key' = table_map s ch key'"
    "sems s1 = sems s" "mutex s1 = mutex s" by auto
  have "\<forall>b < 253. length (ch1 b) \<le> Suc n" using 1(2) Cons.prems(4) by (auto simp: le_SucI)
  from Cons.IH [OF 1(3,4) _ this] Cons.prems(3) obtain s' ch' where 2: "insert_all os kvs s1 = Ret s'" "table_ok s' ch'"
    "sems s' = sems s1" "mutex s' = mutex s1" "\<forall>b < 253. length (ch' b) \<le> Suc n + length kvs"
    "\<forall>key \<ge> 0. table_map s' ch' key = (case map_of (rev kvs) key of None \<Rightarrow> table_map s1 ch1 key | Some i \<Rightarrow> Some i)"
    by auto
  have "table_map s' ch' key' = (case map_of (rev (p # kvs)) key' of None \<Rightarrow> table_map s ch key' | Some i \<Rightarrow> Some i)"
    if "0 \<le> key'" for key'
    using 2(6) that 1(5,6) p by (cases "key' = key") (auto simp: map_add_def split: option.splits)
  then show ?case using 1 2 p by (intro exI [of _ s'] exI [of _ ch']) auto
qed

end

text \<open>C16. The table, filled from empty by any sequence of insertions with non-negative keys (hash collisions and repeated
  keys included), answers every search as the association list of the insertions does: the walk along the
  bucket of a key finds the identifier inserted last for it, or that there is none, and so does \<open>get_semid\<close> on
  a semaphore with that key.\<close>

theorem hash_table_is_map:
  assumes "sysv_sem os svals skey live" and "\<forall>b. hash_table s b = 0" and "\<forall>p \<in> set kvs. 0 \<le> fst p"
    and "0 \<le> key" and "length kvs < fuel"
  shows "\<exists>s'. insert_all os kvs s = Ret s'
     \<and> find_item fuel key (hash_table s' (nat (key mod 253))) s' = Ret (map_of (rev kvs) key)
     \<and> (\<forall>sem x i. sems s sem = Some x \<and> initialized x = 0 \<and> semkey x = key \<and> \<not> mutex s \<and> map_of (rev kvs) key = Some i
          \<longrightarrow> get_semid fuel os sem s' = Ret (i, s'))"
proof -
  have "table_ok s (\<lambda>_. [])" using assms(2) by (simp add: table_ok_def)
  from sysv_sem.insert_all_table [OF assms(1) this table_in_empty assms(3), of 0] obtain s' ch' where
    r: "insert_all os kvs s = Ret s'" "table_ok s' ch'" "sems s' = sems s" "mutex s' = mutex s"
    and l: "\<And>b. b < 253 \<Longrightarrow> length (ch' b) \<le> length kvs"
    and m: "\<And>key. 0 \<le> key \<Longrightarrow> table_map s' ch' key =
          (case map_of (rev kvs) key of None \<Rightarrow> table_map s (\<lambda>_. []) key | Some i \<Rightarrow> Some i)" by auto
  let ?b = "nat (key mod 253)"
  have b: "?b < 253" using assms(4) by (rule bucket_less)
  have tm: "table_map s' ch' key = map_of (rev kvs) key" using m [OF assms(4)] by (auto simp: table_map_def split: option.splits)
  have len: "length (ch' ?b) < fuel" using l [OF b] assms(5) by simp
  have "find_item fuel key (hash_table s' ?b) s' = Ret (map_of (rev kvs) key)"
    using find_item_chain [OF _ len, of s' "hash_table s' ?b" key] r(2) b tm by (simp add: table_ok_def table_map_def)
  moreover have "get_semid fuel os sem s' = Ret (i, s')"
    if "sems s sem = Some x" "initialized x = 0" "semkey x = key" "\<not> mutex s" "map_of (rev kvs) key = Some i" for sem x i
    using get_semid_found [of s' sem x ch' fuel i os] that r len tm assms(4) by simp
  ultimately show ?thesis using r(1) by blast
qed

theorem hash_table_is_map_witness:
  "\<exists>s'. insert_all (ref_sem_os True) [(5, 1), (258, 2), (5, 3)] (sem_boot []) = Ret s'
     \<and> find_item 4 5 (hash_table s' 5) s' = Ret (Some 3)"
  using hash_table_is_map [OF ref_sem.sysv_sem_axioms [of True], of "sem_boot []" "[(5, 1), (258, 2), (5, 3)]" 5 4]
  by (auto simp: sem_boot_def)

end
