(* ===== verification/Sig_Tests.thy ===== *)
theory Sig_Tests
  imports Posix_Prelude
begin

text \<open>
  Conformance programs for signal sets (\<^verbatim>\<open>conformance/interfaces/sigaddset\<close>, \<^verbatim>\<open>sigdelset\<close>, \<^verbatim>\<open>sigemptyset\<close>,
  \<^verbatim>\<open>sigfillset\<close>, \<^verbatim>\<open>sigismember\<close>) and \<^verbatim>\<open>stress/signals/sigismember_stress_1.c\<close>, as functions of the system
  under test. The object \<^verbatim>\<open>signalset\<close> is passed as a value, what it holds before it is initialised is
  the argument \<open>q\<close>. Output is left out.
\<close>

section \<open>The system under test\<close>

datatype signame = S_ABRT | S_ALRM | S_BUS | S_CHLD | S_CONT | S_FPE | S_HUP | S_ILL | S_INT | S_KILL | S_PIPE | S_QUIT | S_SEGV | S_STOP | S_TERM | S_TSTP
  | S_TTIN | S_TTOU | S_USR1 | S_USR2 | S_POLL | S_PROF | S_SYS | S_TRAP | S_URG | S_VTALRM | S_XCPU | S_XFSZ

text \<open>A call returns its result and the object after it; those that can be given a wrong number return errno as
  well. The numbers of the signals are the system's.\<close>

record 'q sig_api =
  sg_no :: "signame \<Rightarrow> int"
  sg_empty :: "'q \<Rightarrow> int \<times> 'q"
  sg_fill :: "'q \<Rightarrow> int \<times> 'q"
  sg_add :: "'q \<Rightarrow> int \<Rightarrow> int \<times> errno \<times> 'q"
  sg_del :: "'q \<Rightarrow> int \<Rightarrow> int \<times> errno \<times> 'q"
  sg_member :: "'q \<Rightarrow> int \<Rightarrow> int \<times> errno"

section \<open>sigaddset\<close>

definition addset_signals :: "signame list" where
  "addset_signals = [S_ABRT, S_ALRM, S_BUS, S_CHLD, S_CONT, S_FPE, S_HUP, S_ILL, S_INT, S_KILL, S_PIPE, S_QUIT, S_SEGV, S_STOP, S_TERM, S_TSTP, S_TTIN, S_TTOU,
     S_USR1, S_USR2, S_URG]"

text \<open>The loop; the result is the mark \<^verbatim>\<open>f\<close>.\<close>

fun add_each :: "('q, 'z) sig_api_scheme \<Rightarrow> int list \<Rightarrow> int \<Rightarrow> 'q \<Rightarrow> int" where
  "add_each api [] f q = f"
| "add_each api (s # ss) f q =
     (let (rc, _, q1) = sg_add api q s in
      if rc = 0 then if fst (sg_member api q1 s) = 1 then add_each api ss f q1 else add_each api ss (- 1) q1
      else add_each api ss (- 1) q1)"

definition sigaddset_1_3 :: "('q, 'z) sig_api_scheme \<Rightarrow> 'q \<Rightarrow> int" where
  "sigaddset_1_3 api q =
     (let (rc, q1) = sg_empty api q in
      if rc = - 1 then - 1
      else if add_each api (map (sg_no api) addset_signals) 0 q1 = 0 then 0 else - 1)"

text \<open>The arguments of \<^verbatim>\<open>main\<close> are given without the name of the program; \<open>arg0\<close> is \<^verbatim>\<open>argv[1][0]\<close>.\<close>

definition arg0 :: "string list \<Rightarrow> char" where
  "arg0 args = (case args of (c # _) # _ \<Rightarrow> c | _ \<Rightarrow> CHR 0x00)"

text \<open>The choice between an empty and a full set; \<open>None\<close> is the return of \<^verbatim>\<open>PTS_UNRESOLVED\<close>.\<close>

definition empty_or_full :: "('q, 'z) sig_api_scheme \<Rightarrow> string list \<Rightarrow> 'q \<Rightarrow> 'q option" where
  "empty_or_full api args q =
     (if args = [] then None
      else if arg0 args = CHR ''0'' then let (rc, q1) = sg_empty api q in if rc = - 1 then None else Some q1
      else if arg0 args = CHR ''1'' then let (rc, q1) = sg_fill api q in if rc = - 1 then None else Some q1
      else None)"

definition sigaddset_1_core :: "('q, 'z) sig_api_scheme \<Rightarrow> string list \<Rightarrow> 'q \<Rightarrow> int" where
  "sigaddset_1_core api args q =
     (case empty_or_full api args q of
        None \<Rightarrow> PTS_UNRESOLVED
      | Some q1 \<Rightarrow>
          let (rc, _, q2) = sg_add api q1 (sg_no api S_ALRM) in
          if rc = 0 then if fst (sg_member api q2 (sg_no api S_ALRM)) = 1 then PTS_PASS else PTS_FAIL
          else PTS_FAIL)"

definition sigaddset_2_1 :: "('q, 'z) sig_api_scheme \<Rightarrow> 'q \<Rightarrow> int" where
  "sigaddset_2_1 api q =
     (let (rc, _, q1) = sg_add api q (sg_no api S_ALRM) in
      if rc = 0 then if fst (sg_member api q1 (sg_no api S_ALRM)) = 1 then PTS_PASS else PTS_FAIL
      else PTS_FAIL)"

text \<open>The switch over the argument: a wrong signal number.\<close>

definition wrong_signo :: "char \<Rightarrow> int option" where
  "wrong_signo c =
     (if c = CHR ''1'' then Some (- 1) else if c = CHR ''2'' then Some (- 10000)
      else if c = CHR ''3'' then Some (- 2147483648 + 1) else if c = CHR ''4'' then Some (- 2147483648) else None)"

definition sigaddset_4_core :: "('q, 'z) sig_api_scheme \<Rightarrow> string list \<Rightarrow> 'q \<Rightarrow> int" where
  "sigaddset_4_core api args q =
     (let (rc, q1) = sg_empty api q in
      if rc = - 1 then PTS_UNRESOLVED
      else if args = [] then PTS_UNRESOLVED
      else case wrong_signo (arg0 args) of
             None \<Rightarrow> PTS_UNRESOLVED
           | Some signo \<Rightarrow>
               let (rc, e, q2) = sg_add api q1 signo in
               if rc = - 1 then
                 if e = EINVAL
                 then if fst (sg_member api q2 signo) = 0 \<or> fst (sg_member api q2 signo) = - 1 then PTS_PASS else PTS_UNRESOLVED
                 else PTS_FAIL
               else PTS_FAIL)"

section \<open>sigdelset\<close>

definition sigdelset_1_3 :: "('q, 'z) sig_api_scheme \<Rightarrow> 'q \<Rightarrow> int" where
  "sigdelset_1_3 api q =
     (let (rc, q1) = sg_empty api q in
      if rc = - 1 then PTS_UNRESOLVED
      else if fst (sg_member api q1 (sg_no api S_CHLD)) = 1 then PTS_UNRESOLVED
      else let (_, _, q2) = sg_del api q1 (sg_no api S_CHLD) in
           if fst (sg_member api q2 (sg_no api S_CHLD)) = 0 then PTS_PASS else PTS_FAIL)"

definition sigdelset_1_4 :: "('q, 'z) sig_api_scheme \<Rightarrow> 'q \<Rightarrow> int" where
  "sigdelset_1_4 api q =
     (let alrm = sg_no api S_ALRM; (rc, q1) = sg_empty api q in
      if rc = - 1 then PTS_UNRESOLVED
      else let (rc, _, q2) = sg_add api q1 alrm in
      if rc \<noteq> 0 then PTS_UNRESOLVED
      else if fst (sg_member api q2 alrm) = 0 then PTS_UNRESOLVED
      else let (rc, _, q3) = sg_del api q2 alrm in
      if rc \<noteq> 0 then PTS_FAIL
      else if fst (sg_member api q3 alrm) = 1 then PTS_FAIL
      else let (_, _, q4) = sg_del api q3 alrm in
      if fst (sg_member api q4 alrm) = 0 then PTS_PASS else PTS_FAIL)"

definition sigdelset_1_core :: "('q, 'z) sig_api_scheme \<Rightarrow> string list \<Rightarrow> 'q \<Rightarrow> int" where
  "sigdelset_1_core api args q =
     (let alrm = sg_no api S_ALRM in
      case empty_or_full api args q of
        None \<Rightarrow> PTS_UNRESOLVED
      | Some q1 \<Rightarrow>
          let (rc, _, q2) = sg_add api q1 alrm in
          if rc \<noteq> 0 then PTS_UNRESOLVED
          else if fst (sg_member api q2 alrm) = 0 then PTS_UNRESOLVED
          else let (rc, _, q3) = sg_del api q2 alrm in
          if rc = 0 then if fst (sg_member api q3 alrm) = 0 then PTS_PASS else PTS_FAIL else PTS_FAIL)"

definition sigdelset_2_1 :: "('q, 'z) sig_api_scheme \<Rightarrow> 'q \<Rightarrow> int" where
  "sigdelset_2_1 api q = (let (rc, _, q1) = sg_del api q (sg_no api S_ALRM) in PTS_PASS)"

definition sigdelset_4_core :: "('q, 'z) sig_api_scheme \<Rightarrow> string list \<Rightarrow> 'q \<Rightarrow> int" where
  "sigdelset_4_core api args q =
     (let (rc, q1) = sg_fill api q in
      if rc = - 1 then PTS_UNRESOLVED
      else if args = [] then PTS_UNRESOLVED
      else case wrong_signo (arg0 args) of
             None \<Rightarrow> - 1
           | Some signo \<Rightarrow>
               let (rc, e, q2) = sg_del api q1 signo in
               if rc = - 1 then
                 if e = EINVAL
                 then if fst (sg_member api q2 signo) = 0 \<or> fst (sg_member api q2 signo) = - 1 then PTS_PASS else PTS_UNRESOLVED
                 else PTS_FAIL
               else PTS_FAIL)"

section \<open>sigemptyset, sigfillset\<close>

definition siglist :: "signame list" where
  "siglist = [S_ABRT, S_ALRM, S_BUS, S_CHLD, S_CONT, S_FPE, S_HUP, S_ILL, S_INT, S_KILL, S_PIPE, S_QUIT, S_SEGV, S_STOP, S_TERM, S_TSTP, S_TTIN, S_TTOU,
     S_USR1, S_USR2, S_POLL, S_PROF, S_SYS, S_TRAP, S_URG, S_VTALRM, S_XCPU, S_XFSZ]"

text \<open>The loop from the last element down; whether a query returned \<open>bad\<close>.\<close>

fun queries :: "('q, 'z) sig_api_scheme \<Rightarrow> int \<Rightarrow> int list \<Rightarrow> bool \<Rightarrow> 'q \<Rightarrow> bool" where
  "queries api bad [] test_failed q = test_failed"
| "queries api bad (s # ss) test_failed q =
     queries api bad ss (if fst (sg_member api q s) = bad then True else test_failed) q"

definition sigemptyset_1_1 :: "('q, 'z) sig_api_scheme \<Rightarrow> 'q \<Rightarrow> int" where
  "sigemptyset_1_1 api q =
     (let (rc, q1) = sg_empty api q in
      if rc = - 1 then - 1
      else if queries api 1 (rev (map (sg_no api) siglist)) False q1 then PTS_FAIL else PTS_PASS)"

definition sigemptyset_2_1 :: "('q, 'z) sig_api_scheme \<Rightarrow> 'q \<Rightarrow> int" where
  "sigemptyset_2_1 api q = (if fst (sg_empty api q) \<noteq> 0 then PTS_FAIL else PTS_PASS)"

definition sigfillset_1_1 :: "('q, 'z) sig_api_scheme \<Rightarrow> 'q \<Rightarrow> int" where
  "sigfillset_1_1 api q =
     (let (rc, q1) = sg_fill api q in
      if rc = - 1 then PTS_FAIL
      else if queries api 0 (rev (map (sg_no api) siglist)) False q1 then PTS_FAIL else PTS_PASS)"

definition sigfillset_2_1 :: "('q, 'z) sig_api_scheme \<Rightarrow> 'q \<Rightarrow> int" where
  "sigfillset_2_1 api q = (if fst (sg_fill api q) \<noteq> 0 then PTS_FAIL else PTS_PASS)"

section \<open>sigismember\<close>

definition sigismember_3_1 :: "('q, 'z) sig_api_scheme \<Rightarrow> 'q \<Rightarrow> int" where
  "sigismember_3_1 api q =
     (let (rc, q1) = sg_fill api q in
      if rc = - 1 then PTS_UNRESOLVED
      else if fst (sg_member api q1 (sg_no api S_ABRT)) \<noteq> 1 then PTS_FAIL else PTS_PASS)"

definition sigismember_4_1 :: "('q, 'z) sig_api_scheme \<Rightarrow> 'q \<Rightarrow> int" where
  "sigismember_4_1 api q =
     (let (rc, q1) = sg_empty api q in
      if rc = - 1 then PTS_UNRESOLVED
      else if fst (sg_member api q1 (sg_no api S_ABRT)) \<noteq> 0 then PTS_FAIL else PTS_PASS)"

definition sigismember_5_core :: "('q, 'z) sig_api_scheme \<Rightarrow> string list \<Rightarrow> 'q \<Rightarrow> int" where
  "sigismember_5_core api args q =
     (let (rc, q1) = sg_fill api q in
      if rc = - 1 then PTS_UNRESOLVED
      else if args = [] then PTS_UNRESOLVED
      else case wrong_signo (arg0 args) of
             None \<Rightarrow> PTS_UNRESOLVED
           | Some signo \<Rightarrow>
               let (rc, e) = sg_member api q1 signo in
               if rc \<noteq> - 1 then PTS_FAIL else if e \<noteq> EINVAL then PTS_FAIL else PTS_PASS)"

definition sigismember_stress_1 :: "('q, 'z) sig_api_scheme \<Rightarrow> 'q \<Rightarrow> int" where
  "sigismember_stress_1 api q = (let returnval = fst (sg_member api q (sg_no api S_ALRM)) in PTS_PASS)"

section \<open>The contract of signal sets\<close>

text \<open>\<open>initialised\<close>: \<^verbatim>\<open>sigemptyset\<close> or \<^verbatim>\<open>sigfillset\<close> has been called; only then POSIX says what the other calls do. \<open>signals\<close> are the
  numbers of signals, \<open>members\<close> the signals in a set.\<close>

locale signal_sets =
  fixes api :: "('q, 'z) sig_api_scheme"
    and signals :: "int set"
    and initialised :: "'q \<Rightarrow> bool"
    and members :: "'q \<Rightarrow> int set"
  assumes numbers: "sg_no api n \<in> signals" "s \<in> signals \<Longrightarrow> 0 < s"
    and distinct_numbers: "inj (sg_no api)"
    and empty: "\<exists>q'. sg_empty api q = (0, q') \<and> initialised q' \<and> members q' = {}"
    and fill: "\<exists>q'. sg_fill api q = (0, q') \<and> initialised q' \<and> members q' = signals"
    and add: "initialised q \<Longrightarrow> s \<in> signals \<Longrightarrow>
      \<exists>e q'. sg_add api q s = (0, e, q') \<and> initialised q' \<and> members q' = insert s (members q)"
    and del: "initialised q \<Longrightarrow> s \<in> signals \<Longrightarrow>
      \<exists>e q'. sg_del api q s = (0, e, q') \<and> initialised q' \<and> members q' = members q - {s}"
    and member: "initialised q \<Longrightarrow> s \<in> signals \<Longrightarrow> fst (sg_member api q s) = (if s \<in> members q then 1 else 0)"
    and add_wrong: "initialised q \<Longrightarrow> s \<notin> signals \<Longrightarrow>
      \<exists>q'. sg_add api q s = (- 1, EINVAL, q') \<and> initialised q' \<and> members q' = members q"
    and del_wrong: "initialised q \<Longrightarrow> s \<notin> signals \<Longrightarrow>
      \<exists>q'. sg_del api q s = (- 1, EINVAL, q') \<and> initialised q' \<and> members q' = members q"
    and member_wrong: "initialised q \<Longrightarrow> s \<notin> signals \<Longrightarrow> sg_member api q s = (- 1, EINVAL)"
begin

lemma add_each_ok: "initialised q \<Longrightarrow> set ss \<subseteq> signals \<Longrightarrow> add_each api ss f q = f"
proof (induction ss arbitrary: q)
  case (Cons s ss)
  then obtain e q' where "sg_add api q s = (0, e, q')" "initialised q'" "members q' = insert s (members q)"
    using add [of q s] by auto
  with Cons member [of q' s] show ?case by simp
qed simp

lemma queries_iff:
  "initialised q \<Longrightarrow> set ss \<subseteq> signals \<Longrightarrow>
     queries api bad ss f q \<longleftrightarrow> f \<or> (\<exists>s \<in> set ss. bad = (if s \<in> members q then 1 else 0))"
  by (induction ss arbitrary: f) (auto simp: member)

lemma names_signals: "set (map (sg_no api) ns) \<subseteq> signals"
  using numbers(1) by auto

lemma wrong_not_signal: "wrong_signo c = Some s \<Longrightarrow> s \<notin> signals"
  using numbers(2) [of s] by (auto simp: wrong_signo_def split: if_splits)

end

section \<open>Signal sets as words\<close>

text \<open>A system with 64 signals and a set as a 64 bit word, signal \<open>s\<close> being bit \<open>s - 1\<close>, with the numbers of Linux.\<close>

fun linux_no :: "signame \<Rightarrow> int" where
  "linux_no S_ABRT = 6" | "linux_no S_ALRM = 14" | "linux_no S_BUS = 7" | "linux_no S_CHLD = 17" | "linux_no S_CONT = 18"
| "linux_no S_FPE = 8" | "linux_no S_HUP = 1" | "linux_no S_ILL = 4" | "linux_no S_INT = 2" | "linux_no S_KILL = 9"
| "linux_no S_PIPE = 13" | "linux_no S_QUIT = 3" | "linux_no S_SEGV = 11" | "linux_no S_STOP = 19" | "linux_no S_TERM = 15"
| "linux_no S_TSTP = 20" | "linux_no S_TTIN = 21" | "linux_no S_TTOU = 22" | "linux_no S_USR1 = 10" | "linux_no S_USR2 = 12"
| "linux_no S_POLL = 29" | "linux_no S_PROF = 27" | "linux_no S_SYS = 31" | "linux_no S_TRAP = 5" | "linux_no S_URG = 23"
| "linux_no S_VTALRM = 26" | "linux_no S_XCPU = 24" | "linux_no S_XFSZ = 25"

definition word_sets :: "64 word sig_api" where
  "word_sets =
     \<lparr>sg_no = linux_no, sg_empty = (\<lambda>_. (0, 0)), sg_fill = (\<lambda>_. (0, - 1)),
      sg_add = (\<lambda>q s. if 1 \<le> s \<and> s \<le> 64 then (0, EOK, set_bit (nat (s - 1)) q) else (- 1, EINVAL, q)),
      sg_del = (\<lambda>q s. if 1 \<le> s \<and> s \<le> 64 then (0, EOK, unset_bit (nat (s - 1)) q) else (- 1, EINVAL, q)),
      sg_member = (\<lambda>q s. if 1 \<le> s \<and> s \<le> 64 then (if bit q (nat (s - 1)) then 1 else 0, EOK) else (- 1, EINVAL))\<rparr>"

definition word_members :: "64 word \<Rightarrow> int set" where
  "word_members q = {s. 1 \<le> s \<and> s \<le> 64 \<and> bit q (nat (s - 1))}"

lemma linux_no_inj: "inj linux_no"
proof (rule injI)
  fix a b :: signame
  show "linux_no a = linux_no b \<Longrightarrow> a = b" by (cases a; cases b) simp_all
qed

interpretation word_sigs: signal_sets word_sets "{1..64}" "\<lambda>_. True" word_members
proof unfold_locales
  show "sg_no word_sets n \<in> {1..64}" for n by (cases n) (simp_all add: word_sets_def)
  show "inj (sg_no word_sets)" by (simp add: word_sets_def linux_no_inj)
qed (auto simp: word_sets_def word_members_def bit_set_bit_iff bit_unset_bit_iff)

end
