(* ===== verification/Sig_Tests_Props.thy ===== *)
theory Sig_Tests_Props
  imports Sig_Tests
begin

text \<open>The programs for signal sets pass on every system that keeps the contract, and what a system has to do to
  pass those that loop over the signals.\<close>

lemmas sig_defs = sigaddset_1_3_def sigaddset_1_core_def sigaddset_4_core_def sigdelset_1_3_def sigdelset_1_4_def
  sigdelset_1_core_def sigdelset_2_1_def sigdelset_4_core_def sigemptyset_1_1_def sigemptyset_2_1_def sigfillset_1_1_def
  sigfillset_2_1_def sigismember_3_1_def sigismember_4_1_def sigismember_5_core_def sigismember_stress_1_def

section \<open>Without the contract\<close>

lemma queries_exact: "queries api bad ss f q \<longleftrightarrow> f \<or> (\<exists>s \<in> set ss. fst (sg_member api q s) = bad)"
  by (induction ss arbitrary: f) auto

lemma add_each_marked: "add_each api ss (- 1) q = - 1"
  by (induction ss arbitrary: q) (auto simp: Let_def split: prod.splits)

lemma add_each_detects:
  assumes "s \<in> set ss" and "\<forall>q. fst (sg_member api q s) \<noteq> 1"
  shows "add_each api ss f q = - 1"
  using assms(1)
proof (induction ss arbitrary: f q)
  case (Cons r ss)
  then show ?case using assms(2) by (cases "r = s") (auto simp: add_each_marked Let_def split: prod.splits)
qed simp

lemma siglist_all: "set siglist = UNIV"
proof -
  have "n \<in> set siglist" for n by (cases n) (simp_all add: siglist_def)
  then show ?thesis by blast
qed

section \<open>Under the contract\<close>

context signal_sets
begin

lemma sigaddset_2_1_passes: "initialised q \<Longrightarrow> sigaddset_2_1 api q = PTS_PASS"
  using add [OF _ numbers(1), of q S_ALRM] by (auto simp: sigaddset_2_1_def member numbers(1))

lemma plain_tests:
  "sigaddset_1_3 api q = PTS_PASS" "sigdelset_1_3 api q = PTS_PASS" "sigdelset_1_4 api q = PTS_PASS"
  "sigemptyset_1_1 api q = PTS_PASS" "sigemptyset_2_1 api q = PTS_PASS" "sigfillset_1_1 api q = PTS_PASS"
  "sigfillset_2_1 api q = PTS_PASS" "sigismember_3_1 api q = PTS_PASS" "sigismember_4_1 api q = PTS_PASS"
proof -
  obtain e where e: "sg_empty api q = (0, e)" "initialised e" "members e = {}" using empty [of q] by blast
  obtain f where f: "sg_fill api q = (0, f)" "initialised f" "members f = signals" using fill [of q] by blast
  show "sigaddset_1_3 api q = PTS_PASS"
    using add_each_ok [OF e(2) names_signals] e(1) by (simp add: sig_defs PTS_PASS_def)
  show "sigemptyset_1_1 api q = PTS_PASS" "sigfillset_1_1 api q = PTS_PASS"
    using e f numbers(1) names_signals [of siglist] by (auto simp: sig_defs queries_iff)
  show "sigemptyset_2_1 api q = PTS_PASS" "sigfillset_2_1 api q = PTS_PASS"
    "sigismember_3_1 api q = PTS_PASS" "sigismember_4_1 api q = PTS_PASS"
    using e f by (simp_all add: sig_defs member numbers(1))
  obtain x d where d: "sg_del api e (sg_no api S_CHLD) = (0, x, d)" "initialised d" "members d = {}"
    using del [OF e(2) numbers(1), of S_CHLD] e(3) by auto
  then show "sigdelset_1_3 api q = PTS_PASS" using e by (simp add: sig_defs member numbers(1))
  let ?a = "sg_no api S_ALRM"
  obtain x a where a: "sg_add api e ?a = (0, x, a)" "initialised a" "members a = {?a}"
    using add [OF e(2) numbers(1), of S_ALRM] e(3) by auto
  obtain y b where b: "sg_del api a ?a = (0, y, b)" "initialised b" "members b = {}"
    using del [OF a(2) numbers(1), of S_ALRM] a(3) by auto
  obtain z c where c: "sg_del api b ?a = (0, z, c)" "initialised c" "members c = {}"
    using del [OF b(2) numbers(1), of S_ALRM] b(3) by auto
  show "sigdelset_1_4 api q = PTS_PASS"
    using e a b c by (simp add: sig_defs member numbers(1))
qed

lemma choice_tests:
  assumes "arg0 args \<in> {CHR ''0'', CHR ''1''}"
  shows "sigaddset_1_core api args q = PTS_PASS" "sigdelset_1_core api args q = PTS_PASS"
proof -
  have "args \<noteq> []" using assms by (auto simp: arg0_def)
  then obtain c where c: "empty_or_full api args q = Some c" "initialised c"
    using assms empty [of q] fill [of q] by (auto simp: empty_or_full_def)
  let ?a = "sg_no api S_ALRM"
  obtain x a where a: "sg_add api c ?a = (0, x, a)" "initialised a" "?a \<in> members a"
    using add [OF c(2) numbers(1), of S_ALRM] by auto
  obtain y b where b: "sg_del api a ?a = (0, y, b)" "initialised b" "?a \<notin> members b"
    using del [OF a(2) numbers(1), of S_ALRM] by auto
  show "sigaddset_1_core api args q = PTS_PASS" "sigdelset_1_core api args q = PTS_PASS"
    using c a b by (simp_all add: sig_defs member numbers(1))
qed

lemma wrong_tests:
  assumes "wrong_signo (arg0 args) = Some s"
  shows "sigaddset_4_core api args q = PTS_PASS" "sigdelset_4_core api args q = PTS_PASS" "sigismember_5_core api args q = PTS_PASS"
proof -
  have n: "args \<noteq> []" using assms by (auto simp: arg0_def wrong_signo_def)
  note w = wrong_not_signal [OF assms]
  obtain e where e: "sg_empty api q = (0, e)" "initialised e" using empty [of q] by blast
  obtain f where f: "sg_fill api q = (0, f)" "initialised f" using fill [of q] by blast
  show "sigaddset_4_core api args q = PTS_PASS"
    using add_wrong [OF e(2) w] e n assms by (auto simp: sig_defs member_wrong [OF _ w])
  show "sigdelset_4_core api args q = PTS_PASS"
    using del_wrong [OF f(2) w] f n assms by (auto simp: sig_defs member_wrong [OF _ w])
  show "sigismember_5_core api args q = PTS_PASS"
    using f n assms by (simp add: sig_defs member_wrong [OF _ w])
qed

end

section \<open>Properties\<close>

text \<open>C24. On every system that keeps the contract of signal sets the programs pass, whatever the set holds before it is
  initialised: those without arguments always, those that choose between an empty and a full set with the
  arguments 0 and 1, and those that pass a wrong signal number for each of their arguments. The program \<^verbatim>\<open>sigaddset/2-1.c\<close> never
  initialises its set; it passes when the set holds what an initialised one could.\<close>

theorem sig_tests_pass:
  assumes "signal_sets api signals initialised members"
  shows "sigaddset_1_3 api q = PTS_PASS \<and> sigdelset_1_3 api q = PTS_PASS \<and> sigdelset_1_4 api q = PTS_PASS
     \<and> sigdelset_2_1 api q = PTS_PASS \<and> sigemptyset_1_1 api q = PTS_PASS \<and> sigemptyset_2_1 api q = PTS_PASS
     \<and> sigfillset_1_1 api q = PTS_PASS \<and> sigfillset_2_1 api q = PTS_PASS \<and> sigismember_3_1 api q = PTS_PASS
     \<and> sigismember_4_1 api q = PTS_PASS \<and> sigismember_stress_1 api q = PTS_PASS \<and> (initialised q \<longrightarrow> sigaddset_2_1 api q = PTS_PASS)
     \<and> (arg0 args \<in> {CHR ''0'', CHR ''1''} \<longrightarrow>
          sigaddset_1_core api args q = PTS_PASS \<and> sigdelset_1_core api args q = PTS_PASS)
     \<and> (arg0 args \<in> {CHR ''1'', CHR ''2'', CHR ''3'', CHR ''4''} \<longrightarrow>
          sigaddset_4_core api args q = PTS_PASS \<and> sigdelset_4_core api args q = PTS_PASS \<and> sigismember_5_core api args q = PTS_PASS)"
proof -
  have "\<exists>s. wrong_signo (arg0 args) = Some s" if "arg0 args \<in> {CHR ''1'', CHR ''2'', CHR ''3'', CHR ''4''}"
    using that by (auto simp: wrong_signo_def)
  then show ?thesis
    using signal_sets.plain_tests [OF assms, of q] signal_sets.choice_tests [OF assms, of args q]
      signal_sets.wrong_tests [OF assms, of args _ q] signal_sets.sigaddset_2_1_passes [OF assms, of q]
    by (auto simp: sigdelset_2_1_def sigismember_stress_1_def Let_def split: prod.splits)
qed

theorem sig_tests_pass_witness:
  "sigaddset_1_3 word_sets 5 = PTS_PASS \<and> sigaddset_1_core word_sets [''1''] 5 = PTS_PASS
   \<and> sigdelset_4_core word_sets [''4''] 5 = PTS_PASS"
  using sig_tests_pass [OF word_sigs.signal_sets_axioms, of 5 "[''1'']"] sig_tests_pass [OF word_sigs.signal_sets_axioms, of 5 "[''4'']"]
  by (simp add: arg0_def)

text \<open>What the loops over the signals detect, on any system: \<^verbatim>\<open>sigfillset/1-1.c\<close> and \<^verbatim>\<open>sigemptyset/1-1.c\<close> pass exactly when the
  first call does not fail and no signal at all is reported missing, or present, after it; \<^verbatim>\<open>sigaddset/1-3.c\<close> does not
  pass when one of its signals is never reported as a member.\<close>

theorem sig_tests_detect:
  "(sigfillset_1_1 api q = PTS_PASS \<longleftrightarrow>
      fst (sg_fill api q) \<noteq> - 1 \<and> (\<forall>n. fst (sg_member api (snd (sg_fill api q)) (sg_no api n)) \<noteq> 0))
   \<and> (sigemptyset_1_1 api q = PTS_PASS \<longleftrightarrow>
      fst (sg_empty api q) \<noteq> - 1 \<and> (\<forall>n. fst (sg_member api (snd (sg_empty api q)) (sg_no api n)) \<noteq> 1))
   \<and> ((\<exists>n. n \<in> set addset_signals \<and> (\<forall>q. fst (sg_member api q (sg_no api n)) \<noteq> 1)) \<longrightarrow> sigaddset_1_3 api q \<noteq> PTS_PASS)"
proof (intro conjI impI)
  show "sigfillset_1_1 api q = PTS_PASS \<longleftrightarrow>
      fst (sg_fill api q) \<noteq> - 1 \<and> (\<forall>n. fst (sg_member api (snd (sg_fill api q)) (sg_no api n)) \<noteq> 0)"
    and "sigemptyset_1_1 api q = PTS_PASS \<longleftrightarrow>
      fst (sg_empty api q) \<noteq> - 1 \<and> (\<forall>n. fst (sg_member api (snd (sg_empty api q)) (sg_no api n)) \<noteq> 1)"
    by (auto simp: sig_defs queries_exact siglist_all pts_defs split: prod.splits)
  assume "\<exists>n. n \<in> set addset_signals \<and> (\<forall>q. fst (sg_member api q (sg_no api n)) \<noteq> 1)"
  then obtain n where n: "n \<in> set addset_signals" "\<forall>q. fst (sg_member api q (sg_no api n)) \<noteq> 1" by blast
  have "add_each api (map (sg_no api) addset_signals) 0 q' = - 1" for q'
    using n by (intro add_each_detects [of "sg_no api n"]) auto
  then show "sigaddset_1_3 api q \<noteq> PTS_PASS" by (simp add: sig_defs PTS_PASS_def split: prod.splits)
qed

definition deaf_sets :: "64 word sig_api" where
  "deaf_sets = word_sets\<lparr>sg_member := (\<lambda>q s. (0, EOK))\<rparr>"

theorem sig_tests_detect_witness: "sigaddset_1_3 deaf_sets 5 \<noteq> PTS_PASS"
proof -
  have "S_ABRT \<in> set addset_signals \<and> (\<forall>q. fst (sg_member deaf_sets q (sg_no deaf_sets S_ABRT)) \<noteq> 1)"
    by (simp add: addset_signals_def deaf_sets_def)
  then show ?thesis using sig_tests_detect [of deaf_sets 5] by blast
qed

end
