(* ===== verification/Ideal_Double.thy ===== *)
theory Ideal_Double
  imports Complex_Main
begin

text \<open>
  The floating point numbers of the measuring programs: real numbers with the special values of IEEE 754. Rounding
  and overflow of finite results are left out, and there is one zero; every division of the programs by a sum of
  squares divides by a zero that is positive in C as well.
\<close>

datatype dbl = Fin real | PInf | MInf | NaN

text \<open>\<open>dsign\<close> is 0 for zero and for not-a-number.\<close>

fun dsign :: "dbl \<Rightarrow> real" where
  "dsign (Fin x) = sgn x"
| "dsign PInf = 1"
| "dsign MInf = - 1"
| "dsign NaN = 0"

definition inf_of_sign :: "real \<Rightarrow> dbl" where
  "inf_of_sign s = (if s > 0 then PInf else if s < 0 then MInf else NaN)"

instantiation dbl :: "{zero, one, plus, uminus, minus, times, divide}"
begin

definition zero_dbl :: dbl where "0 = Fin 0"

definition one_dbl :: dbl where "1 = Fin 1"

fun plus_dbl :: "dbl \<Rightarrow> dbl \<Rightarrow> dbl" where
  "Fin x + Fin y = Fin (x + y)"
| "NaN + b = NaN"
| "a + NaN = NaN"
| "PInf + MInf = NaN"
| "MInf + PInf = NaN"
| "PInf + b = PInf"
| "MInf + b = MInf"
| "a + PInf = PInf"
| "a + MInf = MInf"

fun uminus_dbl :: "dbl \<Rightarrow> dbl" where
  "- Fin x = Fin (- x)"
| "- PInf = MInf"
| "- MInf = PInf"
| "- NaN = NaN"

definition minus_dbl :: "dbl \<Rightarrow> dbl \<Rightarrow> dbl" where
  "a - b = a + - (b :: dbl)"

definition times_dbl :: "dbl \<Rightarrow> dbl \<Rightarrow> dbl" where
  "a * b = (case a of
      Fin x \<Rightarrow> (case b of Fin y \<Rightarrow> Fin (x * y) | _ \<Rightarrow> inf_of_sign (dsign a * dsign b))
    | _ \<Rightarrow> inf_of_sign (dsign a * dsign b))"

definition divide_dbl :: "dbl \<Rightarrow> dbl \<Rightarrow> dbl" where
  "a div b = (case b of
      Fin y \<Rightarrow> (case a of Fin x \<Rightarrow> if y = 0 then inf_of_sign (sgn x) else Fin (x / y)
                       | _ \<Rightarrow> inf_of_sign (dsign a * (if y < 0 then - 1 else 1)))
    | NaN \<Rightarrow> NaN
    | _ \<Rightarrow> (case a of Fin x \<Rightarrow> Fin 0 | _ \<Rightarrow> NaN))"

instance ..

end

text \<open>A comparison with not-a-number is false.\<close>

fun dgreater :: "dbl \<Rightarrow> dbl \<Rightarrow> bool" where
  "dgreater (Fin x) (Fin y) \<longleftrightarrow> x > y"
| "dgreater PInf (Fin y) \<longleftrightarrow> True"
| "dgreater PInf MInf \<longleftrightarrow> True"
| "dgreater (Fin x) MInf \<longleftrightarrow> True"
| "dgreater a b \<longleftrightarrow> False"

text \<open>\<^verbatim>\<open>log\<close>, \<^verbatim>\<open>exp\<close> and \<^verbatim>\<open>pow\<close> of the mathematical library, with the results C gives at the ends of their domains.\<close>

fun dlog :: "dbl \<Rightarrow> dbl" where
  "dlog (Fin x) = (if x > 0 then Fin (ln x) else if x = 0 then MInf else NaN)"
| "dlog PInf = PInf"
| "dlog a = NaN"

fun dexp :: "dbl \<Rightarrow> dbl" where
  "dexp (Fin x) = Fin (exp x)"
| "dexp PInf = PInf"
| "dexp MInf = Fin 0"
| "dexp NaN = NaN"

definition dpow_fin :: "real \<Rightarrow> real \<Rightarrow> dbl" where
  "dpow_fin x y =
     (if y = 0 then Fin 1
      else if x > 0 then Fin (x powr y)
      else if x = 0 then if y > 0 then Fin 0 else PInf
      else if y \<in> \<int> then Fin ((if even \<lfloor>y\<rfloor> then 1 else - 1) * (- x) powr y)
      else NaN)"

text \<open>The base is an integer in the programs, so that it is finite.\<close>

fun dpow :: "int \<Rightarrow> dbl \<Rightarrow> dbl" where
  "dpow x (Fin y) = dpow_fin (of_int x) y"
| "dpow x NaN = (if x = 1 then Fin 1 else NaN)"
| "dpow x PInf = (if \<bar>x\<bar> = 1 then Fin 1 else if \<bar>x\<bar> > 1 then PInf else Fin 0)"
| "dpow x MInf = (if \<bar>x\<bar> = 1 then Fin 1 else if \<bar>x\<bar> > 1 then Fin 0 else PInf)"

text \<open>The conversions from and to \<^verbatim>\<open>long\<close>: the fraction is cut off.\<close>

definition of_long :: "int \<Rightarrow> dbl" where
  "of_long n = Fin (of_int n)"

definition trunc_long :: "real \<Rightarrow> int" where
  "trunc_long r = (if 0 \<le> r then \<lfloor>r\<rfloor> else \<lceil>r\<rceil>)"

section \<open>Laws\<close>

lemma dbl_arith [simp]:
  "Fin x - Fin y = Fin (x - y)" "Fin x * Fin y = Fin (x * y)"
  "y \<noteq> 0 \<Longrightarrow> Fin x div Fin y = Fin (x / y)" "NaN - b = NaN" "NaN * b = NaN" "a * NaN = NaN" "NaN div b = NaN" "a div NaN = NaN"
  by (cases b; simp add: minus_dbl_def times_dbl_def divide_dbl_def inf_of_sign_def;
      cases a; simp add: times_dbl_def divide_dbl_def inf_of_sign_def)+

lemma trunc_of_int [simp]: "trunc_long (of_int n) = n"
  by (simp add: trunc_long_def)

text \<open>Not less than zero, or not a number: what a sum of squares can be.\<close>

definition nonneg :: "dbl \<Rightarrow> bool" where
  "nonneg a \<longleftrightarrow> (case a of Fin x \<Rightarrow> 0 \<le> x | MInf \<Rightarrow> False | _ \<Rightarrow> True)"

lemma nonneg_simps [simp]: "nonneg (Fin x) \<longleftrightarrow> 0 \<le> x" "nonneg PInf" "nonneg NaN" "\<not> nonneg MInf"
  by (simp_all add: nonneg_def)

lemma nonneg_plus: "nonneg a \<Longrightarrow> nonneg b \<Longrightarrow> nonneg (a + b)"
  by (cases a; cases b) auto

lemma nonneg_square: "nonneg (t * t)"
  by (cases t) (simp_all add: times_dbl_def inf_of_sign_def)

lemma nonneg_scale: "nonneg a \<Longrightarrow> 0 < c \<Longrightarrow> nonneg (Fin c * a)"
  by (cases a) (simp_all add: times_dbl_def inf_of_sign_def)

lemma nonneg_divide: "nonneg a \<Longrightarrow> 0 < c \<Longrightarrow> nonneg (a div Fin c)"
  by (cases a) (simp_all add: divide_dbl_def inf_of_sign_def)

lemma zero_not_greater: "nonneg a \<Longrightarrow> \<not> dgreater (Fin 0) a"
  by (cases a) auto

end
