(* ===== verification/Scal_Parse.thy ===== *)
theory Scal_Parse
  imports Ideal_Double Posix_Prelude
begin

text \<open>
  The analysis of measurements shared by the scalability programs of \<^verbatim>\<open>stress/threads\<close>: \<^verbatim>\<open>parse_measure\<close> fits a constant,
  a line, a power and an exponential to a series of durations and says whether the constant is not the best.
  Tables are lists; \<^verbatim>\<open>long\<close> values are integers, as a signed overflow has no meaning in C. The five programs repeat
  the same code for each series they measure; here it is written once.
\<close>

section \<open>Reading the list\<close>

text \<open>A measurement: the number of objects, whether it counts (in the source: the duration is not 0), and the duration.\<close>

type_synonym sample = "int \<times> bool \<times> int"

record avgs =
  array_max :: int
  Xavg :: real
  LnXavg :: dbl
  Yavg :: real
  LnYavg :: dbl

definition no_sums :: avgs where
  "no_sums = \<lparr>array_max = - 1, Xavg = 0, LnXavg = Fin 0, Yavg = 0, LnYavg = Fin 0\<rparr>"

fun read_list :: "sample list \<Rightarrow> int \<Rightarrow> avgs \<Rightarrow> avgs" where
  "read_list [] N s = s"
| "read_list ((X, counts, Y) # ms) N s =
     read_list ms (N + 1)
       (if counts
        then s\<lparr>array_max := N + 1, Xavg := Xavg s + of_int X, LnXavg := LnXavg s + dlog (of_long X),
               Yavg := Yavg s + of_int Y, LnYavg := LnYavg s + dlog (of_long Y)\<rparr>
        else s)"

definition divide_sums :: "avgs \<Rightarrow> avgs" where
  "divide_sums s =
     (if array_max s \<noteq> - 1
      then s\<lparr>Xavg := Xavg s / of_int (array_max s), LnXavg := LnXavg s div of_long (array_max s),
             Yavg := Yavg s / of_int (array_max s), LnYavg := LnYavg s div of_long (array_max s)\<rparr>
      else s)"

definition averages :: "sample list \<Rightarrow> avgs" where
  "averages ms = divide_sums (read_list ms 0 no_sums)"

section \<open>The table\<close>

record row =
  rX :: int
  rY :: int
  row_x :: int
  row_y :: int
  LnX :: dbl
  LnY :: dbl
  row_lnx :: dbl
  row_lny :: dbl

definition fill_row :: "avgs \<Rightarrow> sample \<Rightarrow> row" where
  "fill_row s m =
     (let (X, _, Y) = m in
      \<lparr>rX = X, rY = Y, row_x = trunc_long (of_int X - Xavg s), row_y = trunc_long (of_int Y - Yavg s),
       LnX = dlog (of_long X), LnY = dlog (of_long Y), row_lnx = dlog (of_long X) - LnXavg s,
       row_lny = dlog (of_long Y) - LnYavg s\<rparr>)"

text \<open>The rows from \<^verbatim>\<open>array_max\<close> on are never read again.\<close>

definition Table :: "sample list \<Rightarrow> row list" where
  "Table ms = map (fill_row (averages ms)) (take (nat (array_max (averages ms))) ms)"

section \<open>The two passes\<close>

record factors =
  r1 :: dbl
  q0 :: dbl
  d0 :: dbl
  q1 :: dbl
  d1 :: dbl
  q2 :: dbl
  d2 :: dbl

definition no_factors :: factors where
  "no_factors = \<lparr>r1 = Fin 0, q0 = Fin 0, d0 = Fin 0, q1 = Fin 0, d1 = Fin 0, q2 = Fin 0, d2 = Fin 0\<rparr>"

definition first_step :: "int \<Rightarrow> row \<Rightarrow> factors \<Rightarrow> factors" where
  "first_step n t f =
     f\<lparr>r1 := r1 f + (of_long (row_y t) div of_long n) * of_long (row_y t),
       q0 := q0 f + of_long (row_y t * row_x t), d0 := d0 f + of_long (row_x t * row_x t),
       q1 := q1 f + row_lny t * row_lnx t, d1 := d1 f + row_lnx t * row_lnx t,
       q2 := q2 f + row_lny t * of_long (row_x t), d2 := d2 f + of_long (row_x t * row_x t)\<rparr>"

definition first_pass :: "int \<Rightarrow> row list \<Rightarrow> factors" where
  "first_pass n ts = fold (first_step n) ts no_factors"

record errors =
  r2 :: dbl
  r3 :: dbl
  r4 :: dbl

definition no_errors :: errors where
  "no_errors = \<lparr>r2 = Fin 0, r3 = Fin 0, r4 = Fin 0\<rparr>"

text \<open>The deviations from the line, the power and the exponential.\<close>

definition t_linear :: "factors \<Rightarrow> row \<Rightarrow> dbl" where
  "t_linear f t = of_long (row_y t) - (q0 f * of_long (row_x t)) div d0 f"

definition t_power :: "avgs \<Rightarrow> factors \<Rightarrow> row \<Rightarrow> dbl" where
  "t_power s f t = of_long (rY t) - dlog (LnYavg s - (q1 f div d1 f) * LnXavg s) * dpow (rX t) (q1 f div d1 f)"

definition t_exponential :: "avgs \<Rightarrow> factors \<Rightarrow> row \<Rightarrow> dbl" where
  "t_exponential s f t = of_long (rY t) - dexp ((q2 f div d2 f) * of_long (row_x t) + LnYavg s)"

definition second_step :: "int \<Rightarrow> avgs \<Rightarrow> factors \<Rightarrow> row \<Rightarrow> errors \<Rightarrow> errors" where
  "second_step n s f t e =
     e\<lparr>r2 := r2 e + (t_linear f t * t_linear f t) div of_long n,
       r3 := r3 e + (t_power s f t * t_power s f t) div of_long n,
       r4 := r4 e + (t_exponential s f t * t_exponential s f t) div of_long n\<rparr>"

definition second_pass :: "int \<Rightarrow> avgs \<Rightarrow> factors \<Rightarrow> row list \<Rightarrow> errors" where
  "second_pass n s f ts = fold (second_step n s f) ts no_errors"

section \<open>The verdict on a series\<close>

definition series_factors :: "sample list \<Rightarrow> factors" where
  "series_factors ms = first_pass (array_max (averages ms)) (Table ms)"

definition series_errors :: "sample list \<Rightarrow> errors" where
  "series_errors ms = second_pass (array_max (averages ms)) (averages ms) (series_factors ms) (Table ms)"

definition better_than_constant :: "sample list \<Rightarrow> bool" where
  "better_than_constant ms \<longleftrightarrow>
     dgreater (r1 (series_factors ms)) (Fin (11 / 10) * r2 (series_errors ms))
     \<or> dgreater (r1 (series_factors ms)) (Fin (12 / 10) * r3 (series_errors ms))
     \<or> dgreater (r1 (series_factors ms)) (Fin (13 / 10) * r4 (series_errors ms))"

section \<open>parse\_measure of each program\<close>

text \<open>\<^verbatim>\<open>Inl\<close> is the exit with \<^verbatim>\<open>PTS_UNRESOLVED\<close> when \<^verbatim>\<open>calloc\<close> fails. The list of measurements is given without its sentinel.\<close>

record mes_fork =
  nprocess :: int
  fork_data :: int

definition parse_measure_fork :: "bool \<Rightarrow> mes_fork list \<Rightarrow> int + int" where
  "parse_measure_fork calloc_ok mlist =
     (let ms = map (\<lambda>m. (nprocess m, fork_data m \<noteq> 0, fork_data m)) mlist in
      if \<not> calloc_ok then Inl PTS_UNRESOLVED
      else Inr (if array_max (averages ms) \<noteq> - 1 then if better_than_constant ms then 1 else 0 else 0))"

text \<open>Two series, both counted by the first one; the text of the function is the same in the two programs.\<close>

record mes_sem =
  nsem :: int
  data_open :: int
  data_close :: int

definition parse_measure_sem :: "bool \<Rightarrow> mes_sem list \<Rightarrow> int + int" where
  "parse_measure_sem calloc_ok mlist =
     (let ms_o = map (\<lambda>m. (nsem m, data_open m \<noteq> 0, data_open m)) mlist;
          ms_c = map (\<lambda>m. (nsem m, data_open m \<noteq> 0, data_close m)) mlist in
      if \<not> calloc_ok then Inl PTS_UNRESOLVED
      else Inr (if array_max (averages ms_o) \<noteq> - 1
                then if better_than_constant ms_o \<or> better_than_constant ms_c then 1 else 0 else 0))"

text \<open>One series for each scenario; the result is the number of scenarios with growing durations.\<close>

record mes_threads =
  nthreads :: int
  thr_data :: "int list"

definition scenario_series :: "mes_threads list \<Rightarrow> nat \<Rightarrow> sample list" where
  "scenario_series mlist i = map (\<lambda>m. (nthreads m, thr_data m ! i \<noteq> 0, thr_data m ! i)) mlist"

definition parse_measure_create :: "bool \<Rightarrow> nat \<Rightarrow> mes_threads list \<Rightarrow> int + int" where
  "parse_measure_create calloc_ok nscenar mlist =
     (if \<not> calloc_ok then Inl PTS_UNRESOLVED
      else Inr (int (length (filter (\<lambda>i. let ms = scenario_series mlist i in
             array_max (averages ms) \<noteq> - 1 \<and> better_than_constant ms) [0..<nscenar]))))"

text \<open>In \<^verbatim>\<open>pthread_cond_timedwait/s-c.c\<close> every measurement counts. With an empty list the averages are not numbers, and nothing
  is compared with them.\<close>

definition parse_measure_timedwait :: "bool \<Rightarrow> nat \<Rightarrow> mes_threads list \<Rightarrow> int + int" where
  "parse_measure_timedwait calloc_ok nscenar mlist =
     (if \<not> calloc_ok then Inl PTS_UNRESOLVED
      else Inr (int (length (filter (\<lambda>i. better_than_constant (map (\<lambda>m. (nthreads m, True, thr_data m ! i)) mlist))
             [0..<nscenar]))))"

end
