(* ===== verification/Scal_Props.thy ===== *)
theory Scal_Props
  imports Scal_Parse
begin

text \<open>What \<^verbatim>\<open>parse_measure\<close> computes: the line is the least squares line, a constant series is never reported, a linear one
  always is, and the power model does not fit powers.\<close>

section \<open>Averages of a series that counts everywhere\<close>

definition all_count :: "sample list \<Rightarrow> bool" where
  "all_count ms \<longleftrightarrow> (\<forall>m \<in> set ms. fst (snd m))"

lemma read_list_all:
  assumes "all_count ms"
  shows "array_max (read_list ms N s) = (if ms = [] then array_max s else N + int (length ms))"
    and "Xavg (read_list ms N s) = Xavg s + (\<Sum>m\<leftarrow>ms. of_int (fst m))"
    and "Yavg (read_list ms N s) = Yavg s + (\<Sum>m\<leftarrow>ms. of_int (snd (snd m)))"
  using assms by (induction ms N s rule: read_list.induct) (auto simp: all_count_def)

lemma averages_all:
  assumes "all_count ms" and "ms \<noteq> []"
  shows "array_max (averages ms) = int (length ms)"
    and "Xavg (averages ms) = (\<Sum>m\<leftarrow>ms. of_int (fst m)) / real (length ms)"
    and "Yavg (averages ms) = (\<Sum>m\<leftarrow>ms. of_int (snd (snd m))) / real (length ms)"
  using read_list_all [OF assms(1), of 0 no_sums] assms(2)
  by (auto simp: averages_def divide_sums_def no_sums_def)

lemma Table_all: "all_count ms \<Longrightarrow> Table ms = map (fill_row (averages ms)) ms"
  by (cases "ms = []") (simp_all add: Table_def averages_all(1))

lemma fill_row_simps [simp]:
  "rX (fill_row s m) = fst m" "rY (fill_row s m) = snd (snd m)"
  "row_x (fill_row s m) = trunc_long (of_int (fst m) - Xavg s)"
  "row_y (fill_row s m) = trunc_long (of_int (snd (snd m)) - Yavg s)"
  "row_lnx (fill_row s m) = dlog (of_long (fst m)) - LnXavg s"
  "row_lny (fill_row s m) = dlog (of_long (snd (snd m))) - LnYavg s"
  by (auto simp: fill_row_def split: prod.splits)

section \<open>The sums of the two passes\<close>

definition Sxx :: "row list \<Rightarrow> real" where "Sxx ts = (\<Sum>t\<leftarrow>ts. (of_int (row_x t))\<^sup>2)"
definition Sxy :: "row list \<Rightarrow> real" where "Sxy ts = (\<Sum>t\<leftarrow>ts. of_int (row_y t) * of_int (row_x t))"
definition Syy :: "row list \<Rightarrow> real" where "Syy ts = (\<Sum>t\<leftarrow>ts. (of_int (row_y t))\<^sup>2)"

text \<open>The squared deviation from the line through the origin with slope \<open>a\<close>.\<close>

definition deviation :: "row list \<Rightarrow> real \<Rightarrow> real" where
  "deviation ts a = (\<Sum>t\<leftarrow>ts. (of_int (row_y t) - a * of_int (row_x t))\<^sup>2)"

lemma Sxx_nonneg: "0 \<le> Sxx ts"
  unfolding Sxx_def by (intro sum_list_nonneg) auto

lemma Syy_nonneg: "0 \<le> Syy ts"
  unfolding Syy_def by (intro sum_list_nonneg) auto

lemma sum_list_zero: "\<forall>t \<in> set ts. g t = (0::real) \<Longrightarrow> (\<Sum>t\<leftarrow>ts. g t) = 0"
  by (induction ts) auto

lemma sum_squares_pos:
  fixes g :: "'a \<Rightarrow> real"
  assumes "t \<in> set ts" and "g t \<noteq> 0"
  shows "0 < (\<Sum>t\<leftarrow>ts. (g t)\<^sup>2)"
  using assms(1)
proof (induction ts)
  case (Cons u ts)
  have "0 \<le> (\<Sum>t\<leftarrow>ts. (g t)\<^sup>2)" by (intro sum_list_nonneg) auto
  then show ?case using Cons assms(2) by (cases "u = t") (auto intro: add_pos_nonneg add_nonneg_pos)
qed simp

lemma Sxx_pos: "t \<in> set ts \<Longrightarrow> row_x t \<noteq> 0 \<Longrightarrow> 0 < Sxx ts"
  unfolding Sxx_def by (rule sum_squares_pos) auto

lemma Syy_pos: "t \<in> set ts \<Longrightarrow> row_y t \<noteq> 0 \<Longrightarrow> 0 < Syy ts"
  unfolding Syy_def by (rule sum_squares_pos) auto

lemma deviation_expand: "deviation ts a = Syy ts - 2 * a * Sxy ts + a\<^sup>2 * Sxx ts"
  unfolding deviation_def Syy_def Sxy_def Sxx_def
  by (induction ts) (simp_all add: power2_eq_square algebra_simps)

lemma deviation_least:
  assumes "Sxx ts \<noteq> 0"
  shows "deviation ts (Sxy ts / Sxx ts) \<le> deviation ts a"
proof -
  have d: "0 < Sxx ts" using assms Sxx_nonneg [of ts] by simp
  have "deviation ts a - deviation ts (Sxy ts / Sxx ts) = (a * Sxx ts - Sxy ts)\<^sup>2 / Sxx ts"
    using d by (simp add: deviation_expand power2_eq_square field_simps)
  moreover have "0 \<le> (a * Sxx ts - Sxy ts)\<^sup>2 / Sxx ts" using d by simp
  ultimately show ?thesis by linarith
qed

lemma first_pass_fold:
  assumes "n \<noteq> 0" and "r1 f = Fin a" and "q0 f = Fin b" and "d0 f = Fin c"
  shows "r1 (fold (first_step n) ts f) = Fin (a + Syy ts / of_int n)
    \<and> q0 (fold (first_step n) ts f) = Fin (b + Sxy ts) \<and> d0 (fold (first_step n) ts f) = Fin (c + Sxx ts)"
  using assms(2-4)
proof (induction ts arbitrary: f a b c)
  case Nil
  then show ?case by (simp add: Syy_def Sxy_def Sxx_def)
next
  case (Cons t ts)
  let ?y = "of_int (row_y t) :: real" and ?x = "of_int (row_x t) :: real"
  have "r1 (first_step n t f) = Fin (a + ?y\<^sup>2 / of_int n)" "q0 (first_step n t f) = Fin (b + ?y * ?x)"
    "d0 (first_step n t f) = Fin (c + ?x\<^sup>2)"
    using Cons.prems assms(1) by (simp_all add: first_step_def of_long_def power2_eq_square)
  from Cons.IH [OF this] show ?case
    by (simp add: Syy_def Sxy_def Sxx_def add_divide_distrib algebra_simps)
qed

lemma first_pass_sums:
  assumes "n \<noteq> 0"
  shows "r1 (first_pass n ts) = Fin (Syy ts / of_int n)" "q0 (first_pass n ts) = Fin (Sxy ts)"
    "d0 (first_pass n ts) = Fin (Sxx ts)"
  using first_pass_fold [OF assms, of no_factors 0 0 0 ts] by (simp_all add: first_pass_def no_factors_def)

lemma second_pass_line_fold:
  assumes "n \<noteq> 0" and "d \<noteq> 0" and "q0 f = Fin q" and "d0 f = Fin d" and "r2 e = Fin a"
  shows "r2 (fold (second_step n s f) ts e) = Fin (a + deviation ts (q / d) / of_int n)"
  using assms(5)
proof (induction ts arbitrary: e a)
  case Nil
  then show ?case by (simp add: deviation_def)
next
  case (Cons t ts)
  have "t_linear f t = Fin (of_int (row_y t) - q / d * of_int (row_x t))"
    using assms(2-4) by (simp add: t_linear_def of_long_def)
  then have "r2 (second_step n s f t e) = Fin (a + (of_int (row_y t) - q / d * of_int (row_x t))\<^sup>2 / of_int n)"
    using Cons.prems assms(1) by (simp add: second_step_def of_long_def power2_eq_square)
  from Cons.IH [OF this] show ?case by (simp add: deviation_def add_divide_distrib algebra_simps)
qed

text \<open>The errors are sums of squares, whatever the factors are.\<close>

lemma second_pass_nonneg_fold:
  assumes "0 < n" and "nonneg (r2 e)" and "nonneg (r3 e)" and "nonneg (r4 e)"
  shows "nonneg (r2 (fold (second_step n s f) ts e)) \<and> nonneg (r3 (fold (second_step n s f) ts e))
    \<and> nonneg (r4 (fold (second_step n s f) ts e))"
  using assms(2-4)
proof (induction ts arbitrary: e)
  case (Cons t ts)
  have "nonneg (r2 (second_step n s f t e))" "nonneg (r3 (second_step n s f t e))" "nonneg (r4 (second_step n s f t e))"
    using Cons.prems assms(1) unfolding second_step_def of_long_def
    by (simp_all add: nonneg_plus nonneg_divide nonneg_square)
  then show ?case using Cons.IH by simp
qed simp

lemma series_errors_nonneg:
  assumes "0 < array_max (averages ms)"
  shows "nonneg (r2 (series_errors ms))" "nonneg (r3 (series_errors ms))" "nonneg (r4 (series_errors ms))"
  using second_pass_nonneg_fold [OF assms, of no_errors]
  by (simp_all add: series_errors_def second_pass_def no_errors_def)

lemma not_better_if_zero:
  assumes "0 < array_max (averages ms)" and "r1 (series_factors ms) = Fin 0"
  shows "\<not> better_than_constant ms"
  using series_errors_nonneg [OF assms(1)] assms(2)
  by (simp add: better_than_constant_def zero_not_greater nonneg_scale)

lemma array_max_pos: "array_max (averages ms) \<noteq> - 1 \<Longrightarrow> 0 < array_max (averages ms)"
proof -
  have "array_max (read_list ms N s) = array_max s \<or> N < array_max (read_list ms N s)" for N s
    by (induction ms N s rule: read_list.induct) (auto split: if_splits)
  from this [of 0 no_sums] show "array_max (averages ms) \<noteq> - 1 \<Longrightarrow> 0 < array_max (averages ms)"
    by (auto simp: averages_def divide_sums_def no_sums_def split: if_splits)
qed

section \<open>Properties\<close>

lemma trunc_zero_iff: "trunc_long r = 0 \<longleftrightarrow> \<bar>r\<bar> < 1"
  by (auto simp: trunc_long_def floor_eq_iff ceiling_eq_iff)

lemma Table_not_empty: "array_max (averages ms) \<noteq> - 1 \<Longrightarrow> Table ms \<noteq> []"
  using array_max_pos [of ms] by (cases ms) (auto simp: Table_def averages_def divide_sums_def no_sums_def)

text \<open>When all numbers of objects are within one of their average the sums of the line are 0 and its slope is 0/0.\<close>

lemma second_pass_flat:
  assumes "q0 f = Fin 0" and "d0 f = Fin 0" and "ts \<noteq> [] \<or> r2 e = NaN"
  shows "r2 (fold (second_step n s f) ts e) = NaN"
proof -
  have "t_linear f t = NaN" for t
    using assms(1,2) by (simp add: t_linear_def of_long_def divide_dbl_def minus_dbl_def inf_of_sign_def)
  then have step: "r2 (second_step n s f t e) = NaN" for t e by (cases "r2 e") (simp_all add: second_step_def)
  have keep: "r2 e = NaN \<Longrightarrow> r2 (fold (second_step n s f) ts e) = NaN" for ts e
    by (induction ts arbitrary: e) (simp_all add: step)
  from assms(3) show ?thesis by (cases ts) (auto simp: step keep)
qed

text \<open>C30. With real numbers for \<^verbatim>\<open>double\<close> and unbounded integers for \<^verbatim>\<open>long\<close>, the line that \<^verbatim>\<open>parse_measure\<close> fits is the least squares line of the
  table of truncated deviations. When some number of objects differs from the average by at least 1, the error \<^verbatim>\<open>r1\<close> of the constant is the mean of the squares of
  the deviations, and the error \<^verbatim>\<open>r2\<close> is the least mean square of the deviations from a line, over
  all slopes; so \<^verbatim>\<open>r2\<close> is at most \<^verbatim>\<open>r1\<close>. Otherwise, as for the numbers 1 and 2, all truncated deviations are 0, the slope is 0/0 and \<^verbatim>\<open>r2\<close> is not a number.\<close>

theorem parse_least_squares:
  assumes "array_max (averages ms) \<noteq> - 1"
  shows "r1 (series_factors ms) = Fin (deviation (Table ms) 0 / of_int (array_max (averages ms)))
   \<and> (if \<exists>m \<in> set (take (nat (array_max (averages ms))) ms). 1 \<le> \<bar>of_int (fst m) - Xavg (averages ms)\<bar>
      then \<exists>e. r2 (series_errors ms) = Fin e
         \<and> (\<exists>a. e = deviation (Table ms) a / of_int (array_max (averages ms)))
         \<and> (\<forall>a. e \<le> deviation (Table ms) a / of_int (array_max (averages ms)))
      else r2 (series_errors ms) = NaN)"
proof -
  let ?n = "array_max (averages ms)" and ?ts = "Table ms"
  have n: "0 < ?n" using array_max_pos [OF assms(1)] .
  note f = first_pass_sums [of ?n ?ts]
  have r1: "r1 (series_factors ms) = Fin (deviation ?ts 0 / of_int ?n)"
    using f n by (simp add: series_factors_def deviation_expand)
  have moved: "(\<exists>m \<in> set (take (nat ?n) ms). 1 \<le> \<bar>of_int (fst m) - Xavg (averages ms)\<bar>) \<longleftrightarrow> (\<exists>t \<in> set ?ts. row_x t \<noteq> 0)"
    by (auto simp: Table_def trunc_zero_iff not_less)
  show ?thesis
  proof (cases "\<exists>t \<in> set ?ts. row_x t \<noteq> 0")
    case True
    then have d: "Sxx ?ts \<noteq> 0" using Sxx_pos by fastforce
    have "r2 (series_errors ms) = Fin (deviation ?ts (Sxy ?ts / Sxx ?ts) / of_int ?n)"
      using second_pass_line_fold [OF _ d, of ?n "series_factors ms" _ no_errors 0 "averages ms" ?ts] f n
      by (simp add: series_errors_def second_pass_def series_factors_def no_errors_def)
    moreover have "deviation ?ts (Sxy ?ts / Sxx ?ts) / of_int ?n \<le> deviation ?ts a / of_int ?n" for a
      using deviation_least [OF d, of a] n by (simp add: divide_right_mono)
    ultimately show ?thesis using r1 True unfolding moved by auto
  next
    case False
    then have "Sxx ?ts = 0" "Sxy ?ts = 0" unfolding Sxx_def Sxy_def by (auto intro!: sum_list_zero)
    with f n have "r2 (series_errors ms) = NaN"
      unfolding series_errors_def second_pass_def
      by (intro second_pass_flat) (simp_all add: series_factors_def Table_not_empty [OF assms])
    with r1 False show ?thesis unfolding moved by auto
  qed
qed

section \<open>A constant series\<close>

lemma constant_series:
  assumes "all_count ms" and "\<forall>m \<in> set ms. snd (snd m) = y"
  shows "\<not> better_than_constant ms"
proof (cases "ms = []")
  case True
  then show ?thesis
    by (simp add: better_than_constant_def series_errors_def series_factors_def first_pass_def second_pass_def
        no_errors_def no_factors_def Table_def)
next
  case False
  have "(\<Sum>m\<leftarrow>ms. real_of_int (snd (snd m))) = real (length ms) * of_int y"
    using assms(2) by (induction ms) (auto simp: algebra_simps)
  then have "Yavg (averages ms) = of_int y"
    using averages_all(3) [OF assms(1) False] False by simp
  then have "\<forall>t \<in> set (Table ms). row_y t = 0"
    using assms by (auto simp: Table_all trunc_long_def)
  then have "Syy (Table ms) = 0" unfolding Syy_def by (intro sum_list_zero) simp
  moreover have n: "0 < array_max (averages ms)" using averages_all(1) [OF assms(1) False] False by simp
  ultimately show ?thesis
    using not_better_if_zero [OF n] first_pass_sums(1) [of "array_max (averages ms)" "Table ms"]
    by (simp add: series_factors_def)
qed

lemma all_count_map: "all_count (map (\<lambda>m. (X m, c m, Y m)) ms) \<longleftrightarrow> (\<forall>m \<in> set ms. c m)"
  by (auto simp: all_count_def)

lemma none_count:
  assumes "\<forall>m \<in> set ms. \<not> fst (snd m)"
  shows "array_max (averages ms) = - 1"
proof -
  have "array_max (read_list ms N s) = array_max s" for N s
    using assms by (induction ms N s rule: read_list.induct) auto
  from this [of 0 no_sums] show ?thesis by (simp add: averages_def divide_sums_def no_sums_def)
qed

lemma parse_sem_constant:
  assumes "\<forall>m \<in> set ss. data_open m = y \<and> data_close m = z"
  shows "parse_measure_sem True ss = Inr 0"
  using assms
     constant_series [of "map (\<lambda>m. (nsem m, data_open m \<noteq> 0, data_open m)) ss" y]
      constant_series [of "map (\<lambda>m. (nsem m, data_open m \<noteq> 0, data_close m)) ss" z]
      none_count [of "map (\<lambda>m. (nsem m, data_open m \<noteq> 0, data_open m)) ss"]
  by (cases "y = 0") (simp_all add: parse_measure_sem_def all_count_map Let_def)

text \<open>A constant duration is accepted by all five programs: when every measurement of a series has the same value,
  whatever the numbers of objects are, \<^verbatim>\<open>parse_measure\<close> returns 0.\<close>

theorem parse_constant_accepted:
  "((\<forall>m \<in> set fs. fork_data m = y) \<longrightarrow> parse_measure_fork True fs = Inr 0)
   \<and> ((\<forall>m \<in> set ss. data_open m = y \<and> data_close m = z) \<longrightarrow> parse_measure_sem True ss = Inr 0)
   \<and> ((\<forall>m \<in> set ts. \<forall>i < k. thr_data m ! i = ys ! i) \<longrightarrow>
        parse_measure_create True k ts = Inr 0 \<and> parse_measure_timedwait True k ts = Inr 0)"
proof (intro conjI impI)
  assume "\<forall>m \<in> set fs. fork_data m = y"
  then show "parse_measure_fork True fs = Inr 0"
    using constant_series [of "map (\<lambda>m. (nprocess m, fork_data m \<noteq> 0, fork_data m)) fs" y]
      none_count [of "map (\<lambda>m. (nprocess m, fork_data m \<noteq> 0, fork_data m)) fs"]
    by (cases "y = 0") (simp_all add: parse_measure_fork_def all_count_map Let_def)
next
  assume "\<forall>m \<in> set ss. data_open m = y \<and> data_close m = z"
  then show "parse_measure_sem True ss = Inr 0" by (rule parse_sem_constant)
next
  assume c: "\<forall>m \<in> set ts. \<forall>i < k. thr_data m ! i = ys ! i"
  have "\<not> (array_max (averages (scenario_series ts i)) \<noteq> - 1 \<and> better_than_constant (scenario_series ts i))" if "i < k" for i
    using c that constant_series [of "scenario_series ts i" "ys ! i"] none_count [of "scenario_series ts i"]
    by (cases "ys ! i = 0") (simp_all add: scenario_series_def all_count_map)
  then show "parse_measure_create True k ts = Inr 0"
    by (simp add: parse_measure_create_def Let_def filter_empty_conv)
  have "\<not> better_than_constant (map (\<lambda>m. (nthreads m, True, thr_data m ! i)) ts)" if "i < k" for i
    using c that constant_series [of "map (\<lambda>m. (nthreads m, True, thr_data m ! i)) ts" "ys ! i"] by (simp add: all_count_map)
  then show "parse_measure_timedwait True k ts = Inr 0"
    by (simp add: parse_measure_timedwait_def filter_empty_conv)
qed

theorem parse_constant_accepted_witness:
  "parse_measure_fork True [\<lparr>nprocess = 5, fork_data = 30\<rparr>, \<lparr>nprocess = 10, fork_data = 30\<rparr>] = Inr 0"
  using parse_constant_accepted [of "[\<lparr>nprocess = 5, fork_data = 30\<rparr>, \<lparr>nprocess = 10, fork_data = 30\<rparr>]" 30 "[]" 0 "[]" 0 "[]"] by simp

section \<open>A linear series\<close>

lemma proportional_reported:
  assumes n: "array_max (averages ms) \<noteq> - 1" and p: "\<forall>t \<in> set (Table ms). row_y t = a * row_x t"
    and x: "t \<in> set (Table ms)" "row_x t \<noteq> 0" and "a \<noteq> 0"
  shows "better_than_constant ms"
proof -
  let ?ts = "Table ms" and ?n = "array_max (averages ms)"
  have n0: "0 < ?n" using array_max_pos [OF n] .
  have d: "Sxx ?ts \<noteq> 0" using Sxx_pos [OF x] by simp
  have z: "deviation ?ts (of_int a) = 0"
    using p unfolding deviation_def by (intro sum_list_zero) simp
  have "0 \<le> deviation ?ts (Sxy ?ts / Sxx ?ts)" unfolding deviation_def by (intro sum_list_nonneg) auto
  with deviation_least [OF d, of "of_int a"] z have "deviation ?ts (Sxy ?ts / Sxx ?ts) = 0" by simp
  then have "r2 (series_errors ms) = Fin 0"
    using second_pass_line_fold [OF _ d, of ?n "series_factors ms" _ no_errors 0 "averages ms" ?ts] first_pass_sums [of ?n ?ts] n0
    by (simp add: series_errors_def second_pass_def series_factors_def no_errors_def)
  moreover have "0 < Syy ?ts" using Syy_pos [OF x(1)] p x assms(5) by simp
  then have "\<exists>v. 0 < v \<and> r1 (series_factors ms) = Fin v"
    using first_pass_sums(1) [of ?n ?ts] n0 by (auto simp: series_factors_def)
  ultimately show ?thesis by (auto simp: better_than_constant_def)
qed

lemma trunc_diff: "trunc_long (of_int m - of_int n) = m - n"
  by (metis of_int_diff trunc_of_int)

lemma sum_steps: "(\<Sum>i\<leftarrow>[1..<Suc n]. real i) = real n * (real n + 1) / 2"
  by (induction n) (simp_all add: field_simps)

lemma linear_series:
  assumes "2 \<le> n" and "0 < B" and "a \<noteq> 0" and "even (B * (int n + 1))"
  shows "better_than_constant (map (\<lambda>i. (B * int i, True, a * (B * int i) + b)) [1..<Suc n])" (is "better_than_constant ?ms")
    and "array_max (averages (map (\<lambda>i. (B * int i, True, a * (B * int i) + b)) [1..<Suc n])) \<noteq> - 1"
proof -
  obtain M where M: "B * (int n + 1) = 2 * M" using assms(4) by (rule evenE)
  have all: "all_count ?ms" "?ms \<noteq> []" "length ?ms = n" using assms(1) by (auto simp: all_count_def)
  have X: "Xavg (averages ?ms) = of_int M"
  proof -
    have "(\<Sum>m\<leftarrow>?ms. real_of_int (fst m)) = of_int B * (\<Sum>i\<leftarrow>[1..<Suc n]. real i)"
      by (simp add: o_def sum_list_const_mult del: upt_Suc)
    also have "\<dots> = real n * of_int (B * (int n + 1)) / 2" unfolding sum_steps by (simp add: algebra_simps)
    also have "\<dots> = real n * of_int M" unfolding M by simp
    finally show ?thesis using averages_all(2) [OF all(1,2)] all(3) assms(1) by simp
  qed
  have Y: "Yavg (averages ?ms) = of_int (a * M + b)"
  proof -
    have "(\<Sum>m\<leftarrow>?ms. real_of_int (snd (snd m))) = of_int a * (\<Sum>m\<leftarrow>?ms. real_of_int (fst m)) + real n * of_int b"
      by (simp add: o_def sum_list_addf sum_list_const_mult sum_list_triv algebra_simps del: upt_Suc)
    moreover have "(\<Sum>m\<leftarrow>?ms. real_of_int (fst m)) = real n * of_int M"
      using X averages_all(2) [OF all(1,2)] all(3) assms(1) by (simp add: field_simps del: upt_Suc)
    moreover have "S = A * T + N * c \<Longrightarrow> T = N * m \<Longrightarrow> S / N = A * m + c" if "N \<noteq> 0" for S T A N m c :: real
      using that by (simp add: field_simps)
    ultimately show ?thesis
      using averages_all(3) [OF all(1,2)] assms(1) unfolding all(3) by simp
  qed
  show mx: "array_max (averages ?ms) \<noteq> - 1" using averages_all(1) [OF all(1,2)] all(3) by simp
  have rows: "row_x (fill_row (averages ?ms) m) = fst m - M" "row_y (fill_row (averages ?ms) m) = a * (fst m - M)"
    if "m \<in> set ?ms" for m
    using that unfolding fill_row_simps X Y trunc_diff by (auto simp: algebra_simps)
  have f: "(B * int 1, True, a * (B * int 1) + b) \<in> set ?ms" using assms(1) by (auto simp del: upt_Suc intro!: image_eqI [of _ _ 1])
  have "B * int 1 - M \<noteq> 0"
  proof
    assume "B * int 1 - M = 0"
    then have "B * (int n + 1) = 2 * B" using M by simp
    then show False using assms(1,2) by simp
  qed
  moreover have in_table: "fill_row (averages ?ms) m \<in> set (Table ?ms)" if "m \<in> set ?ms" for m
    using that unfolding Table_all [OF all(1)] set_map by (rule imageI)
  moreover have "\<forall>t \<in> set (Table ?ms). row_y t = a * row_x t"
  proof
    fix t assume "t \<in> set (Table ?ms)"
    then have "t \<in> fill_row (averages ?ms) ` set ?ms" unfolding Table_all [OF all(1)] set_map .
    then obtain m where m: "m \<in> set ?ms" "t = fill_row (averages ?ms) m" by blast
    show "row_y t = a * row_x t" unfolding m(2) rows [OF m(1)] ..
  qed
  ultimately show "better_than_constant ?ms"
    using proportional_reported [OF mx _ in_table [OF f] _ assms(3)] rows(1) [OF f] by (simp only: fst_conv not_False_eq_True simp_thms)
qed

text \<open>A duration that grows linearly is reported: when the programs for semaphores measure \<open>n\<close> blocks of \<open>B\<close> semaphores each and
  opening them takes \<open>a X + b\<close> microseconds for \<open>X\<close> semaphores, with \<open>a\<close> not 0, \<^verbatim>\<open>parse_measure\<close> returns 1 whatever closing takes.
  The mean of the numbers of semaphores has to be an integer; for blocks of 100 and 1000 it is.\<close>

theorem parse_linear_reported:
  assumes "2 \<le> n" and "0 < B" and "a \<noteq> 0" and "even B"
    and "\<forall>i. a * (B * int i) + b \<noteq> 0"
  shows "parse_measure_sem True
     (map (\<lambda>i. \<lparr>nsem = B * int i, data_open = a * (B * int i) + b, data_close = c i\<rparr>) [1..<Suc n]) = Inr 1"
proof -
  have "even (B * (int n + 1))" using assms(4) by simp
  note l = linear_series [OF assms(1-3) this, of b]
  have e: "map (\<lambda>m. (nsem m, data_open m \<noteq> 0, data_open m))
      (map (\<lambda>i. \<lparr>nsem = B * int i, data_open = a * (B * int i) + b, data_close = c i\<rparr>) [1..<Suc n])
    = map (\<lambda>i. (B * int i, True, a * (B * int i) + b)) [1..<Suc n]"
    using assms(5) by simp
  show ?thesis unfolding parse_measure_sem_def Let_def e by (simp only: l simp_thms if_True if_False not_True_eq_False not_False_eq_True)
qed

theorem parse_linear_reported_witness:
  "parse_measure_sem True (map (\<lambda>i. \<lparr>nsem = 100 * int i, data_open = 3 * (100 * int i) + 7, data_close = 0\<rparr>) [1..<Suc 4]) = Inr 1"
proof (rule parse_linear_reported)
  show "\<forall>i. 3 * (100 * int i) + 7 \<noteq> 0"
  proof
    fix i
    show "3 * (100 * int i) + 7 \<noteq> 0" by linarith
  qed
qed simp_all

section \<open>A power\<close>

lemma log_avg:
  assumes "all_count ms" and "\<forall>m \<in> set ms. 0 < fst m" and "LnXavg s = Fin u"
  shows "LnXavg (read_list ms N s) = Fin (u + (\<Sum>m\<leftarrow>ms. ln (of_int (fst m))))"
  using assms by (induction ms N s arbitrary: u rule: read_list.induct) (auto simp: all_count_def of_long_def)

lemma same_logs:
  assumes "\<forall>m \<in> set ms. snd (snd m) = fst m" and "LnXavg s = LnYavg s"
  shows "LnYavg (read_list ms N s) = LnXavg (read_list ms N s)"
  using assms by (induction ms N s rule: read_list.induct) auto

lemma first_pass_logs:
  assumes "\<forall>t \<in> set ts. row_lnx t = Fin (g t) \<and> row_lny t = Fin (g t)" and "q1 f = Fin c" and "d1 f = Fin c"
  shows "q1 (fold (first_step n) ts f) = Fin (c + (\<Sum>t\<leftarrow>ts. (g t)\<^sup>2)) \<and> d1 (fold (first_step n) ts f) = Fin (c + (\<Sum>t\<leftarrow>ts. (g t)\<^sup>2))"
  using assms
proof (induction ts arbitrary: f c)
  case (Cons t ts)
  have "q1 (first_step n t f) = Fin (c + (g t)\<^sup>2)" "d1 (first_step n t f) = Fin (c + (g t)\<^sup>2)"
    using Cons.prems by (simp_all add: first_step_def power2_eq_square)
  from Cons.IH [OF _ this] Cons.prems(1) show ?case by (simp add: add.assoc)
qed simp

lemma infinite_errors:
  assumes "\<forall>t \<in> set ts. t_power s f t = PInf" and "0 < n" and "r3 e = PInf \<or> (\<exists>x. r3 e = Fin x \<and> ts \<noteq> [])"
  shows "r3 (fold (second_step n s f) ts e) = PInf"
  using assms
proof (induction ts arbitrary: e)
  case (Cons t ts)
  have "r3 (second_step n s f t e) = PInf"
    using Cons.prems by (auto simp: second_step_def of_long_def times_dbl_def divide_dbl_def inf_of_sign_def)
  then show ?case using Cons by simp
qed auto

text \<open>The power model is computed with the logarithm where the exponential is needed: on durations that are exactly
  the first power of the number of objects, at least two of them different, the error \<^verbatim>\<open>r3\<close> of the power model is
  infinite instead of 0.\<close>

theorem power_model_misses_powers:
  assumes "all_count ms" and "\<forall>m \<in> set ms. 0 < fst m \<and> snd (snd m) = fst m"
    and "\<exists>m \<in> set ms. \<exists>m' \<in> set ms. fst m \<noteq> fst m'"
  shows "r3 (series_errors ms) = PInf"
proof -
  let ?s = "averages ms" and ?f = "series_factors ms"
  have ne: "ms \<noteq> []" using assms(3) by auto
  have n: "array_max ?s = int (length ms)" by (rule averages_all(1) [OF assms(1) ne])
  obtain L where L: "LnXavg ?s = Fin L" "LnYavg ?s = Fin L"
    using log_avg [OF assms(1), of no_sums 0 0] same_logs [of ms no_sums 0] assms(2) read_list_all(1) [OF assms(1), of 0 no_sums] ne
    by (auto simp: averages_def divide_sums_def no_sums_def of_long_def)
  define g where "g t = ln (of_int (rX t)) - L" for t :: row
  have rows: "row_lnx t = Fin (g t) \<and> row_lny t = Fin (g t) \<and> rY t = rX t \<and> 0 < rX t" if "t \<in> set (Table ms)" for t
    using that assms(2) L by (auto simp: Table_all [OF assms(1)] g_def of_long_def)
  have "\<exists>m \<in> set ms. ln (of_int (fst m)) \<noteq> L"
    using assms(2,3) by (metis ln_inj_iff of_int_0_less_iff of_int_eq_iff)
  then obtain m where "m \<in> set ms" "g (fill_row ?s m) \<noteq> 0" by (auto simp: g_def)
  then have "fill_row ?s m \<in> set (Table ms)" "g (fill_row ?s m) \<noteq> 0" by (simp_all add: Table_all [OF assms(1)])
  then have D: "0 < (\<Sum>t\<leftarrow>Table ms. (g t)\<^sup>2)" by (rule sum_squares_pos)
  have "q1 ?f div d1 ?f = Fin 1"
    using first_pass_logs [of "Table ms" g no_factors 0 "array_max ?s"] rows D
    by (simp add: series_factors_def first_pass_def no_factors_def)
  then have "\<forall>t \<in> set (Table ms). t_power ?s ?f t = PInf"
    using L rows by (fastforce simp: t_power_def of_long_def dpow_fin_def times_dbl_def inf_of_sign_def minus_dbl_def)
  moreover have "Table ms \<noteq> []" using ne by (simp add: Table_all [OF assms(1)])
  ultimately show ?thesis
    using infinite_errors [of "Table ms" ?s ?f "array_max ?s" no_errors] n ne
    by (simp add: series_errors_def second_pass_def no_errors_def)
qed

theorem power_model_misses_powers_witness: "r3 (series_errors [(100, True, 100), (200, True, 200)]) = PInf"
  by (rule power_model_misses_powers) (auto simp: all_count_def)

theorem parse_least_squares_witness:
  "(\<exists>e. r2 (series_errors [(100, True, 5), (200, True, 9)]) = Fin e) \<and> r2 (series_errors [(1, True, 5), (2, True, 9)]) = NaN"
proof -
  let ?ms = "[(100, True, 5), (200, True, 9)] :: sample list" and ?ns = "[(1, True, 5), (2, True, 9)] :: sample list"
  have a: "all_count ?ms" "?ms \<noteq> []" "all_count ?ns" "?ns \<noteq> []" by (simp_all add: all_count_def)
  have "array_max (averages ?ms) = 2" "Xavg (averages ?ms) = 150" "array_max (averages ?ns) = 2" "Xavg (averages ?ns) = 3 / 2"
    using averages_all(1,2) [OF a(1,2)] averages_all(1,2) [OF a(3,4)] by simp_all
  then show ?thesis using parse_least_squares [of ?ms] parse_least_squares [of ?ns] by auto
qed

end
