(* ===== verification/Scal_Main.thy ===== *)
theory Scal_Main
  imports Scal_Props "HOL-Library.Multiset"
begin

text \<open>
  The scalability programs \<^verbatim>\<open>stress/threads/sem_open/s-c1.c\<close> and \<^verbatim>\<open>stress/threads/sem_init/s-c1.c\<close>: semaphores are created in blocks until
  none is left, each block is timed, the blocks are destroyed in the opposite order and timed again, and
  the two series are given to \<open>parse_measure\<close>. The semaphore calls, the clock and the allocator are parameters. The
  lists of blocks and of measurements are lists with the newest element first. Output is left out.
\<close>

section \<open>The system\<close>

text \<open>\<open>c_clock\<close> returns the result and the time in seconds and nanoseconds.\<close>

record ('h, 'w) scal_os =
  c_malloc :: "'w \<Rightarrow> bool \<times> 'w"
  c_calloc :: "'w \<Rightarrow> bool \<times> 'w"
  c_clock :: "'w \<Rightarrow> (int \<times> int \<times> int) \<times> 'w"
  c_open :: "string \<Rightarrow> 'w \<Rightarrow> ('h option \<times> errno) \<times> 'w"
  c_init :: "int \<Rightarrow> int \<Rightarrow> 'w \<Rightarrow> ('h option \<times> errno) \<times> 'w"
  c_destroy :: "'h \<Rightarrow> 'w \<Rightarrow> int \<times> 'w"
  c_unlink :: "string \<Rightarrow> 'w \<Rightarrow> 'w"
  c_sem_max :: int

text \<open>The macros \<^verbatim>\<open>UNRESOLVED\<close> and \<^verbatim>\<open>FAILED\<close> end the process: \<open>Inl\<close> with the code.\<close>

type_synonym ('a, 'w) run = "(int + 'a) \<times> 'w"

definition duration :: "int \<Rightarrow> int \<Rightarrow> int \<Rightarrow> int \<Rightarrow> int" where
  "duration s0 n0 s1 n1 = (s1 - s0) * 1000000 + (n1 - n0) sdiv 1000"

section \<open>Creating the semaphores of one block\<close>

text \<open>\<open>create nsem i\<close> makes the semaphore number \<open>nsem\<close>, at index \<open>i\<close> of the block. The result says whether the block is full.\<close>

definition exhausted :: "errno \<Rightarrow> bool" where
  "exhausted e \<longleftrightarrow> e = EMFILE \<or> e = ENFILE \<or> e = ENOSPC \<or> e = ENOMEM"

fun fill_block :: "int \<Rightarrow> (nat \<Rightarrow> nat \<Rightarrow> 'w \<Rightarrow> ('h option \<times> errno) \<times> 'w) \<Rightarrow> nat \<Rightarrow> nat \<Rightarrow> nat \<Rightarrow> 'h list \<Rightarrow> 'w
     \<Rightarrow> (bool \<times> 'h list \<times> nat, 'w) run" where
  "fill_block sem_max create 0 i n hs w = (Inr (True, hs, n), w)"
| "fill_block sem_max create (Suc k) i n hs w =
     (case create n i w of
        ((None, e), w1) \<Rightarrow> if exhausted e then (Inr (False, hs, n), w1) else (Inl PTS_UNRESOLVED, w1)
      | ((Some h, e), w1) \<Rightarrow>
          if sem_max > 0 \<and> int n > sem_max then (Inl PTS_FAIL, w1)
          else fill_block sem_max create k (Suc i) (Suc n) (h # hs) w1)"

fun destroy_each :: "('h, 'w) scal_os \<Rightarrow> 'h list \<Rightarrow> 'w \<Rightarrow> (unit, 'w) run" where
  "destroy_each os [] w = (Inr (), w)"
| "destroy_each os (h # hs) w =
     (let (rc, w1) = c_destroy os h w in if rc \<noteq> 0 then (Inl PTS_UNRESOLVED, w1) else destroy_each os hs w1)"

section \<open>The measuring loop\<close>

text \<open>The result is the status, the blocks, the measurements and the number of semaphores.\<close>

fun measure_loop :: "nat \<Rightarrow> ('h, 'w) scal_os \<Rightarrow> (nat \<Rightarrow> nat \<Rightarrow> 'w \<Rightarrow> ('h option \<times> errno) \<times> 'w) \<Rightarrow> nat \<Rightarrow> nat option
     \<Rightarrow> 'h list list \<Rightarrow> mes_sem list \<Rightarrow> nat \<Rightarrow> 'w \<Rightarrow> (int \<times> 'h list list \<times> mes_sem list \<times> nat, 'w) run outcome" where
  "measure_loop 0 os create bs limit blocks ms n w = Loop"
| "measure_loop (Suc fuel) os create bs limit blocks ms n w =
     (let (ok, w1) = c_malloc os w in
      if \<not> ok then Ret (Inr (1, blocks, ms, n), w1)
      else
      let ((rc, s0, n0), w2) = c_clock os w1 in
      if rc \<noteq> 0 then Ret (Inl PTS_UNRESOLVED, w2)
      else
      case fill_block (c_sem_max os) create bs 0 n [] w2 of
        (Inl c, w3) \<Rightarrow> Ret (Inl c, w3)
      | (Inr (full, hs, n'), w3) \<Rightarrow>
          let ((rc, s1, n1), w4) = c_clock os w3 in
          if rc \<noteq> 0 then Ret (Inl PTS_UNRESOLVED, w4)
          else if \<not> full then
            case destroy_each os hs w4 of
              (Inl c, w5) \<Rightarrow> Ret (Inl c, w5)
            | (Inr _, w5) \<Rightarrow> Ret (Inr (2, blocks, ms, n'), w5)
          else
          let (ok, w5) = c_malloc os w4 in
          if \<not> ok then Ret (Inr (3, rev hs # blocks, ms, n'), w5)
          else
          let ms' = \<lparr>nsem = int n', data_open = duration s0 n0 s1 n1, data_close = 0\<rparr> # ms in
          if (case limit of None \<Rightarrow> False | Some l \<Rightarrow> l \<le> n') then Ret (Inr (0, rev hs # blocks, ms', n'), w5)
          else measure_loop fuel os create bs limit (rev hs # blocks) ms' n' w5)"

section \<open>Destroying the blocks\<close>

text \<open>The pointer \<^verbatim>\<open>m_cur\<close> walks back along the measurements: \<open>cells\<close> are those it has still to visit, \<open>None\<close> the sentinel, and the end
  of the list the null pointer. \<open>fin\<close> are the finished ones, the oldest first.\<close>

fun close_loop :: "('h, 'w) scal_os \<Rightarrow> 'h list list \<Rightarrow> mes_sem option list \<Rightarrow> mes_sem list \<Rightarrow> 'w
     \<Rightarrow> (mes_sem list, 'w) run outcome" where
  "close_loop os [] cells fin w = Ret (Inr (rev (map the (filter (\<lambda>m. m \<noteq> None) cells)) @ fin), w)"
| "close_loop os (b # blocks) cells fin w =
     (let ((rc, s0, n0), w1) = c_clock os w in
      if rc \<noteq> 0 then Ret (Inl PTS_UNRESOLVED, w1)
      else
      case destroy_each os b w1 of
        (Inl c, w2) \<Rightarrow> Ret (Inl c, w2)
      | (Inr _, w2) \<Rightarrow>
          let ((rc, s1, n1), w3) = c_clock os w2 in
          if rc \<noteq> 0 then Ret (Inl PTS_UNRESOLVED, w3)
          else
          case cells of
            [] \<Rightarrow> Fault
          | None # cs \<Rightarrow> close_loop os blocks cs fin w3
          | Some m # cs \<Rightarrow> close_loop os blocks cs (m\<lparr>data_close := duration s0 n0 s1 n1\<rparr> # fin) w3)"

section \<open>main\<close>

text \<open>After the loop \<^verbatim>\<open>sem_open/s-c1.c\<close> unlinks all names, one more than it created.\<close>

definition unlink_all :: "('h, 'w) scal_os \<Rightarrow> string list \<Rightarrow> 'w \<Rightarrow> 'w" where
  "unlink_all os names w = fold (c_unlink os) names w"

text \<open>The part the programs share, from the end of the measuring loop to the end of \<open>main\<close>.\<close>

definition report :: "('h, 'w) scal_os \<Rightarrow> int \<Rightarrow> 'h list list \<Rightarrow> mes_sem list \<Rightarrow> 'w \<Rightarrow> (int \<times> 'w) outcome" where
  "report os status blocks ms w =
     obind (close_loop os blocks (map Some ms @ [None]) [] w) (\<lambda>(r, w1).
       case r of
         Inl c \<Rightarrow> Ret (c, w1)
       | Inr ms' \<Rightarrow>
           let (ok, w2) = c_calloc os w1 in
           case parse_measure_sem ok ms' of
             Inl c \<Rightarrow> Ret (c, w2)
           | Inr ret \<Rightarrow>
               Ret (if ret \<noteq> 0 then PTS_FAIL else if status \<noteq> 0 then PTS_UNRESOLVED else PTS_PASS, w2))"

definition sem_name :: "nat \<Rightarrow> string" where
  "sem_name k = ''/sem_open_scal_s'' @ digits k"

definition sem_open_main :: "nat \<Rightarrow> ('h, 'w) scal_os \<Rightarrow> nat \<Rightarrow> 'w \<Rightarrow> (int \<times> 'w) outcome" where
  "sem_open_main fuel os SCALABILITY_FACTOR w =
     obind (measure_loop fuel os (\<lambda>k i. c_open os (sem_name k)) (100 * SCALABILITY_FACTOR) None [] [] 0 w) (\<lambda>(r, w1).
       case r of
         Inl c \<Rightarrow> Ret (c, w1)
       | Inr (status, blocks, ms, n) \<Rightarrow> report os status blocks ms (unlink_all os (map sem_name [0..<Suc n]) w1))"

definition sem_init_main :: "nat \<Rightarrow> ('h, 'w) scal_os \<Rightarrow> nat \<Rightarrow> 'w \<Rightarrow> (int \<times> 'w) outcome" where
  "sem_init_main fuel os SCALABILITY_FACTOR w =
     obind (measure_loop fuel os (\<lambda>k i. c_init os (int i mod 2) (int i mod 4)) (1000 * SCALABILITY_FACTOR)
         (Some (1000 * (1000 * SCALABILITY_FACTOR))) [] [] 0 w) (\<lambda>(r, w1).
       case r of
         Inl c \<Rightarrow> Ret (c, w1)
       | Inr (status, blocks, ms, n) \<Rightarrow> report os status blocks ms w1)"

end
