(* ===== verification/Scal_Main_Props.thy ===== *)
theory Scal_Main_Props
  imports Scal_Main
begin

text \<open>Properties of the scalability programs for semaphores: which verdicts they can give, that they end and release
  everything they created on a system with finitely many semaphores, and that the program for \<^verbatim>\<open>sem_init\<close> passes when
  every block takes the same time.\<close>

section \<open>Exits and results of the loops\<close>

lemma fill_block_exit: "fill_block m create k i n hs w = (Inl c, w') \<Longrightarrow> c \<noteq> PTS_PASS"
  by (induction m create k i n hs w rule: fill_block.induct) (auto simp: pts_defs split: prod.splits option.splits if_splits)

lemma destroy_each_exit: "destroy_each os hs w = (Inl c, w') \<Longrightarrow> c \<noteq> PTS_PASS"
  by (induction os hs w rule: destroy_each.induct) (auto simp: pts_defs Let_def split: prod.splits if_splits)

definition loop_result :: "nat option \<Rightarrow> int + int \<times> 'h list list \<times> mes_sem list \<times> nat \<Rightarrow> bool" where
  "loop_result limit r = (case r of Inl c \<Rightarrow> c \<noteq> PTS_PASS
     | Inr (status, blocks, ms, n) \<Rightarrow> (limit = None \<longrightarrow> status \<noteq> 0) \<and> length blocks \<le> Suc (length ms))"

lemma loop_result_simps [simp]:
  "loop_result limit (Inl c) \<longleftrightarrow> c \<noteq> PTS_PASS"
  "loop_result limit (Inr (status, blocks, ms, n)) \<longleftrightarrow> (limit = None \<longrightarrow> status \<noteq> 0) \<and> length blocks \<le> Suc (length ms)"
  by (simp_all add: loop_result_def)

lemma measure_loop_result:
  assumes "measure_loop fuel os create bs limit blocks ms n w = Ret (r, w')" and "length blocks = length ms"
  shows "loop_result limit r"
  using assms
proof (induction fuel arbitrary: limit blocks ms n w)
  case (Suc fuel)
  have IH: "\<forall>l bl m n w. measure_loop fuel os create bs l bl m n w = Ret (r, w') \<longrightarrow> length bl = length m \<longrightarrow> loop_result l r"
    using Suc.IH by blast
  show ?case
    using Suc.prems
    by (auto simp: Let_def pts_defs split: prod.splits if_splits sum.splits option.splits
        dest!: fill_block_exit destroy_each_exit IH [rule_format])
qed simp

lemma close_loop_returns:
  assumes "length blocks \<le> length cells"
  shows "\<exists>r w'. close_loop os blocks cells fin w = Ret (r, w') \<and> (\<forall>c. r = Inl c \<longrightarrow> c \<noteq> PTS_PASS)"
  using assms
proof (induction blocks arbitrary: cells fin w)
  case (Cons b blocks)
  obtain cell cs where cells: "cells = cell # cs" "length blocks \<le> length cs"
    using Cons.prems by (cases cells) auto
  obtain rc s0 n0 w1 where c: "c_clock os w = ((rc, s0, n0), w1)"
    by (metis prod.exhaust)
  obtain d w2 where d: "destroy_each os b w1 = (d, w2)"
    by fastforce
  obtain rc' s1 n1 w3 where c': "c_clock os w2 = ((rc', s1, n1), w3)"
    by (metis prod.exhaust)
  note IH = Cons.IH [OF cells(2)]
  show ?case
    by (cases d; cases cell) (use IH destroy_each_exit [of os b w1] in \<open>auto simp: cells c d c' pts_defs\<close>)
qed simp

lemma measure_loop_no_fault:
  "measure_loop fuel os create bs limit blocks ms n w \<noteq> Fault \<and> measure_loop fuel os create bs limit blocks ms n w \<noteq> Block"
  by (induction fuel arbitrary: blocks ms n w) (auto simp: Let_def split: prod.splits sum.splits)

lemma parse_measure_sem_exit: "parse_measure_sem ok ms = Inl c \<Longrightarrow> c \<noteq> PTS_PASS"
  by (auto simp: parse_measure_sem_def Let_def pts_defs split: if_splits)

lemma report_verdict:
  assumes "length blocks \<le> Suc (length ms)"
  shows "\<exists>c w'. report os status blocks ms w = Ret (c, w') \<and> (status \<noteq> 0 \<longrightarrow> c \<noteq> PTS_PASS)"
proof -
  obtain r w1 where "close_loop os blocks (map Some ms @ [None]) [] w = Ret (r, w1)" "\<forall>c. r = Inl c \<longrightarrow> c \<noteq> PTS_PASS"
    using close_loop_returns [of blocks "map Some ms @ [None]" os "[]" w] assms by auto
  then show ?thesis
    by (cases r) (auto simp: report_def Let_def pts_defs split: prod.splits sum.splits dest: parse_measure_sem_exit)
qed

lemma main_after_loop:
  assumes "loop_result limit r"
  shows "\<exists>c w'. (case r of Inl c \<Rightarrow> Ret (c, w1) | Inr (status, blocks, ms, n) \<Rightarrow> report os status blocks ms (g n)) = Ret (c, w')
    \<and> (limit = None \<longrightarrow> c \<noteq> PTS_PASS)"
proof (cases r)
  case (Inr x)
  obtain status blocks ms n where x: "x = (status, blocks, ms, n)" by (metis prod.exhaust)
  then show ?thesis
    using assms Inr report_verdict [of blocks ms os status "g n"] by auto
qed (use assms in auto)

text \<open>Whatever the system does, the program for \<^verbatim>\<open>sem_open\<close> never ends with \<^verbatim>\<open>PTS_PASS\<close> and makes no bad access: its measuring loop ends
  with a status other than 0 only. With too little fuel the outcome is \<open>Loop\<close>.\<close>

theorem sem_open_scal_never_passes:
  "sem_open_main fuel os SF w = Loop \<or> (\<exists>c w'. sem_open_main fuel os SF w = Ret (c, w') \<and> c \<noteq> PTS_PASS)"
proof (cases "measure_loop fuel os (\<lambda>k i. c_open os (sem_name k)) (100 * SF) None [] [] 0 w")
  case (Ret rw)
  obtain r w1 where rw: "rw = (r, w1)" by fastforce
  have "loop_result None r"
    using measure_loop_result Ret rw by fastforce
  from main_after_loop [OF this, of w1 os "\<lambda>n. unlink_all os (map sem_name [0..<Suc n]) w1"] show ?thesis
    unfolding sem_open_main_def Ret rw by simp
qed (simp_all add: sem_open_main_def measure_loop_no_fault)

section \<open>Systems with finitely many semaphores\<close>

text \<open>\<open>live w\<close> are the references to semaphores the process holds, one for each successful creation. Creating fails for
  want of resources only, and when \<open>K\<close> are held; where \<^verbatim>\<open>sysconf(_SC_SEM_NSEMS_MAX)\<close> reports a limit it is not exceeded. The clock can be read, and the
  calls that are not about semaphores leave them as they are.\<close>

locale sem_pool =
  fixes os :: "('h, 'w) scal_os" and create :: "nat \<Rightarrow> nat \<Rightarrow> 'w \<Rightarrow> ('h option \<times> errno) \<times> 'w"
    and live :: "'w \<Rightarrow> 'h multiset" and K :: nat
  assumes malloc_live: "c_malloc os w = (b, w') \<Longrightarrow> live w' = live w"
    and calloc_live: "c_calloc os w = (b, w') \<Longrightarrow> live w' = live w"
    and unlink_live: "live (c_unlink os nm w) = live w"
    and clock_ok: "\<exists>s ns w'. c_clock os w = ((0, s, ns), w') \<and> live w' = live w"
    and create_law: "create n i w = ((r, e), w') \<Longrightarrow>
      (case r of Some h \<Rightarrow> size (live w) < K \<and> live w' = add_mset h (live w) | None \<Rightarrow> exhausted e \<and> live w' = live w)"
    and destroy_law: "h \<in># live w \<Longrightarrow> \<exists>w'. c_destroy os h w = (0, w') \<and> live w' = live w - {#h#}"
    and limit_kept: "0 < c_sem_max os \<Longrightarrow> int K \<le> c_sem_max os"
begin

lemma below_limit: "n \<le> size (live w) \<Longrightarrow> size (live w) < K \<Longrightarrow> \<not> (c_sem_max os > 0 \<and> int n > c_sem_max os)"
  using limit_kept by auto

lemma fill_block_live:
  "n \<le> size (live w) \<Longrightarrow>
   \<exists>full new n' w'. fill_block (c_sem_max os) create k i n hs w = (Inr (full, new @ hs, n'), w') \<and> live w' = live w + mset new
     \<and> (full \<longrightarrow> length new = k) \<and> (new \<noteq> [] \<longrightarrow> size (live w) < K) \<and> n' \<le> size (live w')"
proof (induction k arbitrary: i n hs w)
  case (Suc k)
  obtain r e w1 where c: "create n i w = ((r, e), w1)" by (metis prod.exhaust)
  show ?case
  proof (cases r)
    case None
    then show ?thesis using c create_law [OF c] Suc.prems by auto
  next
    case (Some h)
    have h: "size (live w) < K" "live w1 = add_mset h (live w)" using create_law [OF c] Some by simp_all
    then have "Suc n \<le> size (live w1)" using Suc.prems by simp
    then obtain full new n' w' where
      "fill_block (c_sem_max os) create k (Suc i) (Suc n) (h # hs) w1 = (Inr (full, new @ h # hs, n'), w')"
      "live w' = live w1 + mset new" "full \<longrightarrow> length new = k" "n' \<le> size (live w')"
      using Suc.IH by blast
    then show ?thesis
      using c Some h below_limit [OF Suc.prems h(1)]
      by (intro exI [of _ full] exI [of _ "new @ [h]"] exI [of _ n'] exI [of _ w']) simp
  qed
qed auto

lemma destroy_each_live:
  "mset hs \<subseteq># live w \<Longrightarrow> \<exists>w'. destroy_each os hs w = (Inr (), w') \<and> live w' = live w - mset hs"
proof (induction hs arbitrary: w)
  case (Cons h hs)
  have "h \<in># live w" using Cons.prems by (simp add: insert_subset_eq_iff)
  then obtain w1 where "c_destroy os h w = (0, w1)" "live w1 = live w - {#h#}"
    using destroy_law by blast
  moreover have "mset hs \<subseteq># live w - {#h#}"
    using Cons.prems by (simp add: insert_subset_eq_iff)
  ultimately show ?case using Cons.IH [of w1] by auto
qed simp

lemma measure_loop_live:
  assumes "0 < bs" and "K - size (live w) < fuel" and "n \<le> size (live w)"
  shows "\<exists>status blocks' ms' n' w'. measure_loop fuel os create bs limit blocks ms n w = Ret (Inr (status, blocks', ms', n'), w')
    \<and> live w' + mset (concat blocks) = live w + mset (concat blocks')"
  using assms(2,3)
proof (induction fuel arbitrary: blocks ms n w)
  case (Suc fuel)
  obtain ok w1 where m1: "c_malloc os w = (ok, w1)" by fastforce
  obtain s0 n0 w2 where c1: "c_clock os w1 = ((0, s0, n0), w2)" "live w2 = live w1" using clock_ok by blast
  obtain full new n' w3 where f: "fill_block (c_sem_max os) create bs 0 n [] w2 = (Inr (full, new, n'), w3)"
    and f': "live w3 = live w2 + mset new" "full \<longrightarrow> length new = bs" "new \<noteq> [] \<longrightarrow> size (live w2) < K" "n' \<le> size (live w3)"
    using fill_block_live [of n w2 bs 0 "[]"] Suc.prems(2) malloc_live [OF m1] c1(2) by auto
  obtain s1 n1 w4 where c2: "c_clock os w3 = ((0, s1, n1), w4)" "live w4 = live w3" using clock_ok by blast
  obtain ok' w5 where m2: "c_malloc os w4 = (ok', w5)" by fastforce
  obtain w6 where d: "destroy_each os new w4 = (Inr (), w6)" "live w6 = live w4 - mset new"
    using destroy_each_live [of new w4] f' c2 by auto
  note live = malloc_live [OF m1] malloc_live [OF m2] c1(2) c2(2) f'(1) d(2)
  show ?case
  proof (cases "ok \<and> full \<and> ok' \<and> \<not> (case limit of None \<Rightarrow> False | Some l \<Rightarrow> l \<le> n')")
    case True
    let ?ms = "\<lparr>nsem = int n', data_open = duration s0 n0 s1 n1, data_close = 0\<rparr> # ms"
    have "K - size (live w5) < fuel"
      using True f' Suc.prems assms(1) live by (cases new) auto
    moreover have "n' \<le> size (live w5)" using f'(4) live by simp
    ultimately show ?thesis
      using Suc.IH [of w5 n' "rev new # blocks" ?ms] True by (auto simp: m1 c1 f c2 m2 live Let_def)
  next
    case False
    then show ?thesis
      by (auto simp: m1 c1 f c2 m2 d live Let_def split: if_splits)
  qed
qed simp

lemma close_loop_live:
  assumes "mset (concat blocks) \<subseteq># live w" and "length blocks \<le> length cells"
  shows "\<exists>ms w'. close_loop os blocks cells fin w = Ret (Inr ms, w') \<and> live w' = live w - mset (concat blocks)"
  using assms
proof (induction blocks arbitrary: cells fin w)
  case (Cons b blocks)
  obtain cell cs where cells: "cells = cell # cs" "length blocks \<le> length cs"
    using Cons.prems by (cases cells) auto
  obtain s0 n0 w1 where c1: "c_clock os w = ((0, s0, n0), w1)" "live w1 = live w" using clock_ok by blast
  have b: "mset b \<subseteq># live w" "mset (concat blocks) \<subseteq># live w - mset b"
    using Cons.prems(1) by (auto simp: mset_subset_eq_exists_conv ac_simps)
  then obtain w2 where d: "destroy_each os b w1 = (Inr (), w2)" "live w2 = live w - mset b"
    using destroy_each_live [of b w1] c1 by auto
  obtain s1 n1 w3 where c2: "c_clock os w2 = ((0, s1, n1), w3)" "live w3 = live w2" using clock_ok by blast
  have "mset (concat blocks) \<subseteq># live w3" using b c2 d by simp
  from Cons.IH [OF this cells(2)] show ?case
    by (cases cell) (simp_all add: cells c1 d c2)
qed simp

lemma report_live:
  assumes "mset (concat blocks) \<subseteq># live w" and "length blocks \<le> Suc (length ms)"
  shows "\<exists>c w'. report os status blocks ms w = Ret (c, w') \<and> live w' = live w - mset (concat blocks)"
proof -
  obtain ms' w1 where c: "close_loop os blocks (map Some ms @ [None]) [] w = Ret (Inr ms', w1)"
    "live w1 = live w - mset (concat blocks)"
    using close_loop_live [OF assms(1), of "map Some ms @ [None]" "[]"] assms(2) by auto
  obtain ok w2 where "c_calloc os w1 = (ok, w2)" by fastforce
  with c show ?thesis
    by (auto simp: report_def split: sum.splits dest: calloc_live)
qed

lemma unlink_all_live: "live (unlink_all os nms w) = live w"
  by (induction nms arbitrary: w) (simp_all add: unlink_all_def unlink_live)

lemma main_live:
  assumes "0 < bs" and "K < fuel" and "\<And>n w. live (g n w) = live w"
  shows "\<exists>c w'. obind (measure_loop fuel os create bs limit [] [] 0 w) (\<lambda>(r, w1). case r of Inl c \<Rightarrow> Ret (c, w1)
      | Inr (status, blocks, ms, n) \<Rightarrow> report os status blocks ms (g n w1)) = Ret (c, w') \<and> live w' = live w"
proof -
  have "K - size (live w) < fuel" using assms(2) by simp
  from measure_loop_live [OF assms(1) this, of 0 limit "[]" "[]"]
  obtain status blocks ms n w1 where l: "measure_loop fuel os create bs limit [] [] 0 w = Ret (Inr (status, blocks, ms, n), w1)"
    "live w1 = live w + mset (concat blocks)" by auto
  have "length blocks \<le> Suc (length ms)"
    using measure_loop_result [OF l(1)] by simp
  from report_live [OF _ this, of "g n w1" status] show ?thesis
    using l assms(3) by simp
qed

lemmas sem_init_live = main_live [where g = "\<lambda>n w. w", simplified]

end

section \<open>Systems with constant costs\<close>

lemma sdiv_multiple: "(1000 * k :: int) sdiv 1000 = k"
  by (simp add: signed_divide_int_def abs_mult sgn_mult sgn_mult_abs)

lemma duration_exact:
  "duration (t div 1000000000) (t mod 1000000000) ((t + 1000 * d) div 1000000000) ((t + 1000 * d) mod 1000000000) = d"
proof -
  let ?q = "t div 1000000000" and ?q' = "(t + 1000 * d) div 1000000000"
  have "(t + 1000 * d) mod 1000000000 - t mod 1000000000 = 1000 * (d - 1000000 * (?q' - ?q))"
    by (simp add: minus_mult_div_eq_mod [symmetric] algebra_simps)
  then show ?thesis
    unfolding duration_def by (simp only: sdiv_multiple)
qed

text \<open>Allocation succeeds, a creation succeeds while fewer than \<open>K\<close> references are held, and the calls take constant times in
  microseconds: \<open>cc\<close> to create, \<open>cd\<close> to destroy, and \<open>tick\<close> to read the clock, which counts in nanoseconds.\<close>

locale steady = sem_pool os create live K
  for os :: "('h, 'w) scal_os" and create :: "nat \<Rightarrow> nat \<Rightarrow> 'w \<Rightarrow> ('h option \<times> errno) \<times> 'w"
    and live :: "'w \<Rightarrow> 'h multiset" and K :: nat +
  fixes time :: "'w \<Rightarrow> int" and tick cc cd :: int
  assumes clock_reads: "c_clock os w = ((rc, s, ns), w') \<Longrightarrow>
      s = time w div 1000000000 \<and> ns = time w mod 1000000000 \<and> time w' = time w + 1000 * tick"
    and malloc_ok: "c_malloc os w = (b, w') \<Longrightarrow> b \<and> time w' = time w"
    and calloc_ok: "c_calloc os w = (b, w') \<Longrightarrow> b"
    and create_ok: "create n i w = ((r, e), w') \<Longrightarrow> size (live w) < K \<Longrightarrow> r \<noteq> None \<and> time w' = time w + 1000 * cc"
    and destroy_time: "c_destroy os h w = (0, w') \<Longrightarrow> time w' = time w + 1000 * cd"
begin

lemma two_readings:
  assumes "c_clock os w = ((rc, s0, n0), w1)" and "c_clock os w2 = ((rc', s1, n1), w3)" and "time w2 = time w + 1000 * d"
  shows "duration s0 n0 s1 n1 = d"
  using clock_reads [OF assms(1)] clock_reads [OF assms(2)] duration_exact [of "time w" d] assms(3) by simp

lemma fill_block_steady:
  assumes "size (live w) + k \<le> K" and "n \<le> size (live w)" and "fill_block (c_sem_max os) create k i n hs w = (Inr (full, hs', n'), w')"
  shows "full \<and> n' = n + k \<and> time w' = time w + 1000 * (int k * cc)"
  using assms
proof (induction k arbitrary: i n hs w)
  case (Suc k)
  obtain r e w1 where c: "create n i w = ((r, e), w1)" by (metis prod.exhaust)
  then obtain h where h: "r = Some h" "time w1 = time w + 1000 * cc" using create_ok [OF c] Suc.prems(1) by auto
  have "live w1 = add_mset h (live w)" using create_law [OF c] h by simp
  then show ?case
    using Suc.prems Suc.IH [of w1 "Suc n" "Suc i" "h # hs"] c h below_limit [OF Suc.prems(2)] by (simp add: algebra_simps)
qed simp

lemma destroy_each_steady:
  "destroy_each os hs w = (Inr (), w') \<Longrightarrow> time w' = time w + 1000 * (int (length hs) * cd)"
  by (induction hs arbitrary: w) (auto simp: algebra_simps split: prod.splits if_splits dest: destroy_time)

lemma measure_loop_steady:
  assumes "0 < bs" and "j < L" and "L - j \<le> fuel" and "size (live w) + (L - j) * bs \<le> K" and "j * bs \<le> size (live w)"
    and "length blocks = length ms" and "\<forall>m \<in> set ms. data_open m = int bs * cc + tick" and "\<forall>b \<in> set blocks. length b = bs"
  shows "\<exists>blocks' ms' n' w'. measure_loop fuel os create bs (Some (L * bs)) blocks ms (j * bs) w = Ret (Inr (0, blocks', ms', n'), w')
    \<and> length blocks' = length ms' \<and> (\<forall>m \<in> set ms'. data_open m = int bs * cc + tick) \<and> (\<forall>b \<in> set blocks'. length b = bs)
    \<and> live w' + mset (concat blocks) = live w + mset (concat blocks')"
  using assms(2-)
proof (induction fuel arbitrary: j blocks ms w)
  case (Suc fuel)
  have Lj: "(L - j) * bs = bs + (L - Suc j) * bs" using Suc.prems(1) by (simp add: Suc_diff_Suc [symmetric])
  obtain w1 where m1: "c_malloc os w = (True, w1)" "live w1 = live w"
    using malloc_ok malloc_live by (metis prod.exhaust)
  obtain s0 n0 w2 where c1: "c_clock os w1 = ((0, s0, n0), w2)" "live w2 = live w1" using clock_ok by blast
  obtain full new n' w3 where f: "fill_block (c_sem_max os) create bs 0 (j * bs) [] w2 = (Inr (full, new, n'), w3)"
    and f': "live w3 = live w2 + mset new" "full \<longrightarrow> length new = bs"
    using fill_block_live [of "j * bs" w2 bs 0 "[]"] Suc.prems(4) m1 c1 by auto
  have full: full "n' = Suc j * bs" "time w3 = time w2 + 1000 * (int bs * cc)"
    using fill_block_steady [OF _ _ f] Suc.prems(3,4) Lj m1 c1 by auto
  obtain s1 n1 w4 where c2: "c_clock os w3 = ((0, s1, n1), w4)" "live w4 = live w3" using clock_ok by blast
  obtain w5 where m2: "c_malloc os w4 = (True, w5)" "live w5 = live w4"
    using malloc_ok malloc_live by (metis prod.exhaust)
  have "time w3 = time w1 + 1000 * (int bs * cc + tick)"
    using clock_reads [OF c1(1)] full by (simp add: algebra_simps)
  then have d: "duration s0 n0 s1 n1 = int bs * cc + tick"
    by (rule two_readings [OF c1(1) c2(1)])
  note live = m1(2) m2(2) c1(2) c2(2) f'(1) and eqs = m1(1) c1(1) f c2(1) m2(1) d
  let ?ms = "\<lparr>nsem = int n', data_open = int bs * cc + tick, data_close = 0\<rparr> # ms"
  show ?case
  proof (cases "L = Suc j")
    case True
    then show ?thesis using Suc.prems full f' by (simp add: eqs live)
  next
    case False
    then have "Suc j < L" using Suc.prems(1) by simp
    then have "\<not> L * bs \<le> n'" using full assms(1) mult_less_mono1 [of "Suc j" L bs] by simp
    moreover have "size (live w5) + (L - Suc j) * bs \<le> K" using Lj Suc.prems(3) f' full live by simp
    moreover have "Suc j * bs \<le> size (live w5)" using Suc.prems(4) f' full(1) live by simp
    ultimately show ?thesis
      using Suc.IH [of "Suc j" w5 "rev new # blocks" ?ms] Suc.prems full f' False by (auto simp: eqs live)
  qed
qed simp

lemma close_loop_steady:
  assumes "mset (concat blocks) \<subseteq># live w" and "length blocks = length ms" and "\<forall>b \<in> set blocks. length b = bs"
    and "\<forall>m \<in> set ms. data_open m = y" and "\<forall>m \<in> set fin. data_open m = y \<and> data_close m = int bs * cd + tick"
  shows "\<exists>ms' w'. close_loop os blocks (map Some ms @ [None]) fin w = Ret (Inr ms', w')
    \<and> (\<forall>m \<in> set ms'. data_open m = y \<and> data_close m = int bs * cd + tick)"
  using assms
proof (induction blocks arbitrary: ms fin w)
  case (Cons b blocks)
  obtain m ms' where ms: "ms = m # ms'" using Cons.prems by (cases ms) auto
  obtain s0 n0 w1 where c1: "c_clock os w = ((0, s0, n0), w1)" "live w1 = live w" using clock_ok by blast
  have b: "mset b \<subseteq># live w" "mset (concat blocks) \<subseteq># live w - mset b"
    using Cons.prems(1) by (auto simp: mset_subset_eq_exists_conv ac_simps)
  then obtain w2 where d: "destroy_each os b w1 = (Inr (), w2)" "live w2 = live w - mset b"
    using destroy_each_live [of b w1] c1 by auto
  obtain s1 n1 w3 where c2: "c_clock os w2 = ((0, s1, n1), w3)" "live w3 = live w2" using clock_ok by blast
  have "time w2 = time w + 1000 * (int bs * cd + tick)"
    using clock_reads [OF c1(1)] destroy_each_steady [OF d(1)] Cons.prems by (simp add: algebra_simps)
  then have du: "duration s0 n0 s1 n1 = int bs * cd + tick"
    by (rule two_readings [OF c1(1) c2(1)])
  let ?m = "m\<lparr>data_close := int bs * cd + tick\<rparr>"
  have "\<forall>m \<in> set (?m # fin). data_open m = y \<and> data_close m = int bs * cd + tick" using Cons.prems(4,5) ms by simp
  moreover have "mset (concat blocks) \<subseteq># live w3" using b c2 d by simp
  moreover have "length blocks = length ms'" "\<forall>b \<in> set blocks. length b = bs" "\<forall>m \<in> set ms'. data_open m = y"
    using Cons.prems(2-4) ms by simp_all
  ultimately show ?case
    using Cons.IH [of w3 ms' "?m # fin"] by (simp only: ms c1 d c2 du close_loop.simps Let_def prod.case sum.case list.map option.case
        append_Cons list.case simp_thms if_False)
qed simp

lemma main_steady:
  assumes "0 < bs" and "0 < L" and "L \<le> fuel" and "size (live w) + L * bs \<le> K"
  shows "\<exists>w'. obind (measure_loop fuel os create bs (Some (L * bs)) [] [] 0 w) (\<lambda>(r, w1). case r of Inl c \<Rightarrow> Ret (c, w1)
      | Inr (status, blocks, ms, n) \<Rightarrow> report os status blocks ms w1) = Ret (PTS_PASS, w')"
proof -
  from measure_loop_steady [of bs 0 L fuel w "[]" "[]"] assms
  obtain blocks ms n w1 where l: "measure_loop fuel os create bs (Some (L * bs)) [] [] 0 w = Ret (Inr (0, blocks, ms, n), w1)"
    "length blocks = length ms" "\<forall>m \<in> set ms. data_open m = int bs * cc + tick" "\<forall>b \<in> set blocks. length b = bs"
    "live w1 = live w + mset (concat blocks)" by auto
  then obtain ms' w2 where c: "close_loop os blocks (map Some ms @ [None]) [] w1 = Ret (Inr ms', w2)"
    "\<forall>m \<in> set ms'. data_open m = int bs * cc + tick \<and> data_close m = int bs * cd + tick"
    using close_loop_steady [of blocks w1 ms bs "int bs * cc + tick" "[]"] by auto
  obtain w3 where "c_calloc os w2 = (True, w3)" using calloc_ok by (metis prod.exhaust)
  then show ?thesis
    using l(1) c(1) parse_sem_constant [OF c(2)] by (simp add: report_def)
qed

end

section \<open>A system that counts\<close>

text \<open>A small executable system: references are numbers, at most \<open>K\<close> of them are held, a reading of
  the clock takes \<open>tick\<close> microseconds, a creation \<open>cc\<close> and a destruction \<open>cd\<close>.\<close>

record pool =
  held :: "nat list"
  fresh :: nat
  now :: int

definition pool_create :: "nat \<Rightarrow> int \<Rightarrow> pool \<Rightarrow> (nat option \<times> errno) \<times> pool" where
  "pool_create K cc w =
     (if length (held w) < K
      then ((Some (fresh w), EMFILE), w\<lparr>held := fresh w # held w, fresh := Suc (fresh w), now := now w + 1000 * cc\<rparr>)
      else ((None, EMFILE), w))"

definition pool_os :: "nat \<Rightarrow> int \<Rightarrow> int \<Rightarrow> int \<Rightarrow> (nat, pool) scal_os" where
  "pool_os K tick cc cd = \<lparr>
     c_malloc = (\<lambda>w. (True, w)), c_calloc = (\<lambda>w. (True, w)),
     c_clock = (\<lambda>w. ((0, now w div 1000000000, now w mod 1000000000), w\<lparr>now := now w + 1000 * tick\<rparr>)),
     c_open = (\<lambda>nm. pool_create K cc), c_init = (\<lambda>sh v. pool_create K cc),
     c_destroy = (\<lambda>h w. if h \<in> set (held w) then (0, w\<lparr>held := remove1 h (held w), now := now w + 1000 * cd\<rparr>) else (- 1, w)),
     c_unlink = (\<lambda>nm w. w), c_sem_max = int K\<rparr>"

definition pool0 :: pool where
  "pool0 = \<lparr>held = [], fresh = 0, now = 0\<rparr>"

interpretation pl: steady "pool_os K tick cc cd" "\<lambda>k i. pool_create K cc" "\<lambda>w. mset (held w)" K now tick cc cd
  by unfold_locales (auto simp: pool_os_def pool_create_def exhausted_def split: if_splits)

text \<open>C31. On every system on which at most \<open>K\<close> semaphores can be held (no more than the limit \<^verbatim>\<open>SEM_NSEMS_MAX\<close> that \<^verbatim>\<open>sysconf\<close> reports, if it reports one), creating a
  semaphore fails only with one of the four errors of exhaustion, what is held can be destroyed and the clock can be read, both
  programs end and leave the process with exactly the semaphores it held before, whatever the allocator does: including when a block is filled in part and
  when the list of measurements is shorter than the list of blocks.\<close>

theorem sem_scal_releases:
  assumes "0 < SF" and "K < fuel"
  shows "(sem_pool os (\<lambda>k i. c_open os (sem_name k)) live K \<longrightarrow> (\<exists>c w'. sem_open_main fuel os SF w = Ret (c, w') \<and> live w' = live w))
    \<and> (sem_pool os (\<lambda>k i. c_init os (int i mod 2) (int i mod 4)) live K \<longrightarrow>
      (\<exists>c w'. sem_init_main fuel os SF w = Ret (c, w') \<and> live w' = live w))"
  unfolding sem_open_main_def sem_init_main_def
  using assms sem_pool.main_live [of os _ live K "100 * SF" fuel "\<lambda>n. unlink_all os (map sem_name [0..<Suc n])"]
    sem_pool.sem_init_live [of os _ live K "1000 * SF" fuel] by (simp add: sem_pool.unlink_all_live)

theorem sem_scal_releases_witness:
  "(\<exists>c w'. sem_open_main 4 (pool_os 3 5 2 1) 1 pool0 = Ret (c, w') \<and> held w' = [])
   \<and> (\<exists>c w'. sem_init_main 4 (pool_os 3 5 2 1) 1 pool0 = Ret (c, w') \<and> held w' = [])"
  using sem_scal_releases [of 1 3 4 "pool_os 3 5 2 1" "\<lambda>w. mset (held w)" pool0] pl.sem_pool_axioms [of 3 5 2 1]
  by (auto simp: pool_os_def pool0_def)


text \<open>When creating and destroying a semaphore take constant times, and the system can hold the million semaphores for each unit of
  \<^verbatim>\<open>SCALABILITY_FACTOR\<close>, the program for \<^verbatim>\<open>sem_init\<close> ends with \<^verbatim>\<open>PTS_PASS\<close> after a thousand turns of its loop.\<close>

theorem sem_init_scal_passes:
  assumes "steady os (\<lambda>k i. c_init os (int i mod 2) (int i mod 4)) live K time tick cc cd" and "0 < SF"
    and "size (live w) + 1000 * (1000 * SF) \<le> K" and "1000 \<le> fuel"
  shows "\<exists>w'. sem_init_main fuel os SF w = Ret (PTS_PASS, w')"
  unfolding sem_init_main_def using steady.main_steady [OF assms(1), of "1000 * SF" 1000 fuel w] assms by simp

theorem sem_init_scal_passes_witness:
  "\<exists>w'. sem_init_main 1000 (pool_os 1000000 5 2 1) 1 pool0 = Ret (PTS_PASS, w')"
  using sem_init_scal_passes [of "pool_os 1000000 5 2 1" "\<lambda>w. mset (held w)" 1000000 now 5 2 1 1 pool0 1000]
    pl.steady_axioms [of 1000000 5 2 1]
  by (simp add: pool_os_def pool0_def)

end
