(* ===== verification/Sig_Kernel.thy ===== *)
theory Sig_Kernel
  imports Sig_Tests
begin

text \<open>
  Signals delivered to a process of one thread: what the conformance programs for \<^verbatim>\<open>sigaction\<close> and the other signal
  functions run on. The system under test is the record \<open>sigk\<close>, which extends the signal sets of \<open>Sig_Tests\<close>. A signal is
  delivered when control returns from the system to the process: \<open>k_enter\<close> is the system's choice of what to deliver, a
  handler of the program is run, and \<open>k_return\<close> is the return from it. The contract \<open>signal_kernel\<close> states what POSIX says of
  these calls in terms of dispositions, the mask, the pending signals and the masks saved by running handlers.
\<close>

section \<open>Dispositions and the system under test\<close>

text \<open>\<open>Fn i\<close> is the address of the program's function number \<open>i\<close>. The members \<^verbatim>\<open>sa_handler\<close> and \<^verbatim>\<open>sa_sigaction\<close> share their storage.\<close>

datatype hnd = SIG_DFL | SIG_IGN | SIG_ERR | SIG_HOLD | Fn nat

datatype saflag = SA_NOCLDSTOP | SA_ONSTACK | SA_RESETHAND | SA_RESTART | SA_SIGINFO | SA_NOCLDWAIT | SA_NODEFER

record 'q sigact =
  sa_handler :: hnd
  sa_mask :: 'q
  sa_flags :: "saflag set"

record stack_t =
  ss_sp :: int
  ss_size :: int
  ss_flags :: int

datatype how = SIG_BLOCK | SIG_UNBLOCK | SIG_SETMASK | How_other int

text \<open>What is delivered: nothing, a call of the function \<open>i\<close> with the signal and \<^verbatim>\<open>si_signo\<close>, or the end or the stop of the process.\<close>

datatype delivery = D_none | D_call nat int int | D_kill int | D_stop int

text \<open>How a process ends as its parent sees it.\<close>

datatype wstatus = Exited int | Signaled int | Stopped int

record ('q, 'w) sigk = "'q sig_api" +
  k_sigaction :: "int \<Rightarrow> 'q sigact option \<Rightarrow> 'w \<Rightarrow> (int \<times> errno \<times> 'q sigact) \<times> 'w"
  k_raise :: "int \<Rightarrow> 'w \<Rightarrow> (int \<times> errno) \<times> 'w"
  k_enter :: "'w \<Rightarrow> delivery \<times> 'w"
  k_return :: "'w \<Rightarrow> 'w"
  k_signal :: "int \<Rightarrow> hnd \<Rightarrow> 'w \<Rightarrow> (hnd \<times> errno) \<times> 'w"
  k_sigset :: "int \<Rightarrow> hnd \<Rightarrow> 'w \<Rightarrow> (hnd \<times> errno) \<times> 'w"
  k_sighold :: "int \<Rightarrow> 'w \<Rightarrow> (int \<times> errno) \<times> 'w"
  k_sigrelse :: "int \<Rightarrow> 'w \<Rightarrow> (int \<times> errno) \<times> 'w"
  k_sigignore :: "int \<Rightarrow> 'w \<Rightarrow> (int \<times> errno) \<times> 'w"
  k_sigprocmask :: "how \<Rightarrow> 'q option \<Rightarrow> 'w \<Rightarrow> (int \<times> errno \<times> 'q) \<times> 'w"
  k_sigpending :: "'w \<Rightarrow> (int \<times> 'q) \<times> 'w"
  k_sigaltstack :: "stack_t option \<Rightarrow> 'w \<Rightarrow> (int \<times> errno \<times> stack_t) \<times> 'w"
  k_malloc :: "int \<Rightarrow> 'w \<Rightarrow> int \<times> 'w"
  k_fork :: "'w \<Rightarrow> int \<times> 'w \<times> 'w"
  k_wait :: "bool \<Rightarrow> wstatus option \<Rightarrow> 'w \<Rightarrow> int \<times> 'w"
  k_wexitstatus :: "wstatus \<Rightarrow> int"
  k_rtsig :: int
  k_sigstksz :: int
  k_sigrtmax :: int

section \<open>Processes\<close>

text \<open>A step of a process changes its variables and the system, and gives a value or ends the process.\<close>

type_synonym ('a, 'g, 'w) proc = "'g \<times> 'w \<Rightarrow> ((wstatus + 'a) \<times> 'g \<times> 'w) outcome"

definition pret :: "'a \<Rightarrow> ('a, 'g, 'w) proc" where
  "pret a s = Ret (Inr a, s)"

definition pstop :: "wstatus \<Rightarrow> ('a, 'g, 'w) proc" where
  "pstop st s = Ret (Inl st, s)"

definition pbind :: "('a, 'g, 'w) proc \<Rightarrow> ('a \<Rightarrow> ('b, 'g, 'w) proc) \<Rightarrow> ('b, 'g, 'w) proc" where
  "pbind m k s = obind (m s) (\<lambda>(r, s1). case r of Inl st \<Rightarrow> Ret (Inl st, s1) | Inr a \<Rightarrow> k a s1)"

definition pget :: "('g, 'g, 'w) proc" where
  "pget s = Ret (Inr (fst s), s)"

definition pmod :: "('g \<Rightarrow> 'g) \<Rightarrow> (unit, 'g, 'w) proc" where
  "pmod f s = Ret (Inr (), f (fst s), snd s)"

definition kern :: "('w \<Rightarrow> 'a \<times> 'w) \<Rightarrow> ('a, 'g, 'w) proc" where
  "kern f s = (let (a, w) = f (snd s) in Ret (Inr a, fst s, w))"

text \<open>\<^verbatim>\<open>exit\<close> and the return from \<^verbatim>\<open>main\<close>: the parent sees the low eight bits.\<close>

definition exit_with :: "int \<Rightarrow> ('a, 'g, 'w) proc" where
  "exit_with c = pstop (Exited (c mod 256))"

lemma proc_simps [simp]:
  "pret a s = Ret (Inr a, s)" "pstop st s = Ret (Inl st, s)" "pget (g, w) = Ret (Inr g, g, w)"
  "pmod f (g, w) = Ret (Inr (), f g, w)" "exit_with c s = Ret (Inl (Exited (c mod 256)), s)"
  by (simp_all add: pret_def pstop_def pget_def pmod_def exit_with_def)

lemma kern_simp [simp]: "f w = (a, w') \<Longrightarrow> kern f (g, w) = Ret (Inr a, g, w')"
  by (simp add: kern_def)

lemma pbind_simps [simp]:
  "m s = Ret (Inr a, s1) \<Longrightarrow> pbind m k s = k a s1" "m s = Ret (Inl st, s1) \<Longrightarrow> pbind m k s = Ret (Inl st, s1)"
  "m s = Loop \<Longrightarrow> pbind m k s = Loop"
  by (simp_all add: pbind_def)

lemma pbind_assoc: "pbind (pbind m f) g = pbind m (\<lambda>a. pbind (f a) g)"
proof
  fix s
  show "pbind (pbind m f) g s = pbind m (\<lambda>a. pbind (f a) g) s"
    by (cases "m s") (auto simp: pbind_def split: sum.splits)
qed

lemma pbind_pret [simp]: "pbind (pret a) k = k a"
  by (rule ext) simp

section \<open>Delivery\<close>

text \<open>The program gives its functions as \<open>H\<close>: the number of the function, \<^verbatim>\<open>raise\<close> for its use, the signal and
  \<^verbatim>\<open>si_signo\<close>. Handlers that interrupt handlers and handlers that follow each other are counted by the fuel.\<close>

type_synonym ('g, 'w) handlers = "nat \<Rightarrow> (int \<Rightarrow> (int, 'g, 'w) proc) \<Rightarrow> int \<Rightarrow> int \<Rightarrow> (unit, 'g, 'w) proc"

primrec deliver :: "nat \<Rightarrow> ('q, 'w, 'z) sigk_scheme \<Rightarrow> ('g, 'w) handlers \<Rightarrow> (unit, 'g, 'w) proc" where
  "deliver 0 os H = (\<lambda>s. Loop)"
| "deliver (Suc n) os H =
     pbind (kern (k_enter os)) (\<lambda>d.
       case d of
         D_none \<Rightarrow> pret ()
       | D_kill s \<Rightarrow> pstop (Signaled s)
       | D_stop s \<Rightarrow> pstop (Stopped s)
       | D_call i s info \<Rightarrow>
           pbind (H i (\<lambda>s. pbind (kern (k_raise os s)) (\<lambda>(rc, e). pbind (deliver n os H) (\<lambda>_. pret rc))) s info) (\<lambda>_.
           pbind (kern (\<lambda>w. ((), k_return os w))) (\<lambda>_. deliver n os H)))"

definition praise :: "nat \<Rightarrow> ('q, 'w, 'z) sigk_scheme \<Rightarrow> ('g, 'w) handlers \<Rightarrow> int \<Rightarrow> (int, 'g, 'w) proc" where
  "praise n os H s = pbind (kern (k_raise os s)) (\<lambda>(rc, e). pbind (deliver n os H) (\<lambda>_. pret rc))"

text \<open>The other calls that can unblock a signal.\<close>

definition unblocking :: "nat \<Rightarrow> ('q, 'w, 'z) sigk_scheme \<Rightarrow> ('g, 'w) handlers \<Rightarrow> ('w \<Rightarrow> 'a \<times> 'w) \<Rightarrow> ('a, 'g, 'w) proc" where
  "unblocking n os H f = pbind (kern f) (\<lambda>r. pbind (deliver n os H) (\<lambda>_. pret r))"

text \<open>The whole process, from \<^verbatim>\<open>main\<close> with the initial values of the variables.\<close>

definition run_main :: "(unit, 'g, 'w) proc \<Rightarrow> 'g \<Rightarrow> 'w \<Rightarrow> wstatus outcome" where
  "run_main m g w = obind (m (g, w)) (\<lambda>(r, _). Ret (case r of Inl st \<Rightarrow> st | Inr _ \<Rightarrow> Exited 0))"

text \<open>A child runs on its own copy of the variables and the system; \<open>st\<close> is what the parent will read. The child that \<^verbatim>\<open>fork\<close> could not
  create is \<open>None\<close>.\<close>

definition pfork :: "('q, 'w, 'z) sigk_scheme \<Rightarrow> (unit, 'g, 'w) proc \<Rightarrow> (wstatus option, 'g, 'w) proc" where
  "pfork os child s =
     (let (pid, cw, pw) = k_fork os (snd s) in
      if pid = - 1 then Ret (Inr None, fst s, pw)
      else obind (run_main child (fst s) cw) (\<lambda>st. Ret (Inr (Some st), fst s, pw)))"

text \<open>\<^verbatim>\<open>wait\<close> and \<^verbatim>\<open>waitpid\<close>: a child that is only stopped is reported when \<^verbatim>\<open>WUNTRACED\<close> is given and waited for otherwise.\<close>

definition pwait :: "('q, 'w, 'z) sigk_scheme \<Rightarrow> bool \<Rightarrow> wstatus option \<Rightarrow> (int, 'g, 'w) proc" where
  "pwait os untraced st s =
     (if \<not> untraced \<and> (case st of Some (Stopped x) \<Rightarrow> True | _ \<Rightarrow> False) then Block else kern (k_wait os untraced st) s)"

end
