(* ===== verification/Sigaction_Tests.thy ===== *)
theory Sigaction_Tests
  imports Sig_Kernel
begin

text \<open>
  The conformance programs of \<^verbatim>\<open>conformance/interfaces/sigaction\<close>. Each family of programs is one program repeated for 26 signals, written
  from a template by \<^verbatim>\<open>gentests.pl\<close>; the definition of a family takes the signal, \<open>Sigaction_Files\<close> has one definition for
  each file. The argument \<open>n\<close> is the fuel of deliveries, \<open>q\<close> what \<^verbatim>\<open>sa_mask\<close> holds before it is initialised. Output is left out.
\<close>

text \<open>The assignments to \<^verbatim>\<open>act\<close>, with \<^verbatim>\<open>sigemptyset\<close> and the calls of \<^verbatim>\<open>sigaddset\<close>, whose results the programs ignore.\<close>

definition empty_set :: "('q, 'z) sig_api_scheme \<Rightarrow> 'q \<Rightarrow> 'q" where
  "empty_set os q = snd (sg_empty os q)"

definition plus_sig :: "('q, 'z) sig_api_scheme \<Rightarrow> signame \<Rightarrow> 'q \<Rightarrow> 'q" where
  "plus_sig os x q = snd (snd (sg_add os q (sg_no os x)))"

definition set_action :: "('q, 'w, 'z) sigk_scheme \<Rightarrow> signame \<Rightarrow> hnd \<Rightarrow> saflag set \<Rightarrow> 'q \<Rightarrow> (int, 'g, 'w) proc" where
  "set_action os S h fl m =
     pbind (kern (k_sigaction os (sg_no os S) (Some \<lparr>sa_handler = h, sa_mask = m, sa_flags = fl\<rparr>))) (\<lambda>(rc, e, old). pret rc)"

section \<open>Installing a handler\<close>

text \<open>\<^verbatim>\<open>1-*.c\<close>. The variable is \<^verbatim>\<open>handler_called\<close>.\<close>

definition called_handler :: "(int, 'w) handlers" where
  "called_handler i rs signo info = pmod (\<lambda>_. 1)"

definition called_verdict :: "(unit, int, 'w) proc" where
  "called_verdict = pbind pget (\<lambda>handler_called. exit_with (if handler_called \<noteq> 0 then PTS_PASS else PTS_FAIL))"

definition sigaction_1 :: "signame \<Rightarrow> nat \<Rightarrow> ('q, 'w, 'z) sigk_scheme \<Rightarrow> 'q \<Rightarrow> 'w \<Rightarrow> wstatus outcome" where
  "sigaction_1 S n os q = run_main
     (pbind (set_action os S (Fn 1) {} (empty_set os q)) (\<lambda>rc.
      if rc = - 1 then exit_with PTS_UNRESOLVED else
      pbind (praise n os called_handler (sg_no os S)) (\<lambda>rc.
      if rc = - 1 then exit_with PTS_UNRESOLVED else called_verdict))) 0"

text \<open>\<^verbatim>\<open>2-*.c\<close>: \<^verbatim>\<open>handler1\<close> is \<open>Fn 1\<close>, \<^verbatim>\<open>handler2\<close> is \<open>Fn 2\<close>.\<close>

definition sigaction_2 :: "signame \<Rightarrow> nat \<Rightarrow> ('q, 'w, 'z) sigk_scheme \<Rightarrow> 'q \<Rightarrow> 'w \<Rightarrow> wstatus outcome" where
  "sigaction_2 S n os q = run_main
     (pbind (set_action os S (Fn 1) {} (empty_set os q)) (\<lambda>rc.
      if rc = - 1 then exit_with PTS_UNRESOLVED else
      pbind (kern (k_sigaction os (sg_no os S)
          (Some \<lparr>sa_handler = Fn 2, sa_mask = empty_set os (empty_set os q), sa_flags = {}\<rparr>))) (\<lambda>(rc, e, oact).
      if rc = - 1 then exit_with PTS_UNRESOLVED
      else exit_with (if sa_handler oact = Fn 1 then PTS_PASS else PTS_FAIL)))) ()"

definition sigaction_3 :: "signame \<Rightarrow> nat \<Rightarrow> ('q, 'w, 'z) sigk_scheme \<Rightarrow> 'q \<Rightarrow> 'w \<Rightarrow> wstatus outcome" where
  "sigaction_3 S n os q = run_main
     (pbind (set_action os S (Fn 1) {} (empty_set os q)) (\<lambda>rc.
      if rc = - 1 then exit_with PTS_UNRESOLVED else
      pbind (kern (k_sigaction os (sg_no os S) None)) (\<lambda>(rc, e, oact).
      if rc = - 1 then exit_with PTS_UNRESOLVED else
      pbind (praise n os called_handler (sg_no os S)) (\<lambda>rc.
      if rc = - 1 then exit_with PTS_UNRESOLVED else called_verdict)))) 0"

section \<open>Signals that cannot be blocked\<close>

text \<open>\<^verbatim>\<open>4-1.c\<close> to \<^verbatim>\<open>4-26.c\<close>, \<^verbatim>\<open>SIGKILL\<close>, and \<^verbatim>\<open>4-27.c\<close> to \<^verbatim>\<open>4-52.c\<close>, \<^verbatim>\<open>SIGSTOP\<close>: the handler of the child raises the signal that its
  action tries to block. The parent kills the stopped child.\<close>

definition raising_handler :: "('q, 'z) sig_api_scheme \<Rightarrow> signame \<Rightarrow> (unit, 'w) handlers" where
  "raising_handler os x i rs signo info = pbind (rs (sg_no os x)) (\<lambda>_. exit_with 0)"

definition sigaction_4_kill :: "signame \<Rightarrow> nat \<Rightarrow> ('q, 'w, 'z) sigk_scheme \<Rightarrow> 'q \<Rightarrow> 'w \<Rightarrow> wstatus outcome" where
  "sigaction_4_kill S n os q = run_main
     (pbind (pfork os
        (pbind (set_action os S (Fn 1) {} (plus_sig os S_KILL (empty_set os q))) (\<lambda>rc.
         if rc = - 1 then exit_with PTS_PASS else
         pbind (praise n os (raising_handler os S_KILL) (sg_no os S)) (\<lambda>_. exit_with PTS_PASS)))) (\<lambda>st.
      pbind (pwait os False st) (\<lambda>rc.
      if rc = - 1 then exit_with PTS_UNRESOLVED
      else exit_with (case st of Some (Exited _) \<Rightarrow> PTS_FAIL | _ \<Rightarrow> PTS_PASS)))) ()"

definition sigaction_4_stop :: "signame \<Rightarrow> nat \<Rightarrow> ('q, 'w, 'z) sigk_scheme \<Rightarrow> 'q \<Rightarrow> 'w \<Rightarrow> wstatus outcome" where
  "sigaction_4_stop S n os q = run_main
     (pbind (pfork os
        (pbind (set_action os S (Fn 1) {} (plus_sig os S_STOP (empty_set os q))) (\<lambda>rc.
         if rc = - 1 then exit_with PTS_UNRESOLVED else
         pbind (praise n os (raising_handler os S_STOP) (sg_no os S)) (\<lambda>_. exit_with PTS_UNRESOLVED)))) (\<lambda>st.
      pbind (pwait os True st) (\<lambda>rc.
      if rc = - 1 then exit_with PTS_UNRESOLVED
      else exit_with (case st of Some (Stopped _) \<Rightarrow> PTS_PASS | _ \<Rightarrow> PTS_FAIL)))) ()"

text \<open>\<^verbatim>\<open>4-53.c\<close> to \<^verbatim>\<open>4-104.c\<close>: the call alone, with \<open>x\<close> in the mask.\<close>

definition sigaction_4_add :: "signame \<Rightarrow> signame \<Rightarrow> nat \<Rightarrow> ('q, 'w, 'z) sigk_scheme \<Rightarrow> 'q \<Rightarrow> 'w \<Rightarrow> wstatus outcome" where
  "sigaction_4_add x S n os q = run_main
     (pbind (set_action os S (Fn 1) {} (plus_sig os x (empty_set os q))) (\<lambda>rc.
      exit_with (if rc = - 1 then PTS_FAIL else PTS_PASS))) ()"

definition sigaction_6 :: "signame \<Rightarrow> nat \<Rightarrow> ('q, 'w, 'z) sigk_scheme \<Rightarrow> 'q \<Rightarrow> 'w \<Rightarrow> wstatus outcome" where
  "sigaction_6 S n os q = run_main
     (pbind (set_action os S (Fn 1) {SA_SIGINFO} (plus_sig os S_STOP (empty_set os q))) (\<lambda>rc.
      if rc = - 1 then exit_with PTS_UNRESOLVED else
      pbind (praise n os called_handler (sg_no os S)) (\<lambda>rc.
      if rc = - 1 then exit_with PTS_UNRESOLVED else called_verdict))) 0"

section \<open>The mask of a handler\<close>

text \<open>\<^verbatim>\<open>8-*.c\<close>: the handler of \<open>S\<close> (\<open>Fn 1\<close>) raises \<open>x\<close>, which its action blocks; the variable is the number of calls of the handler of
  \<open>x\<close> (\<open>Fn 2\<close>).\<close>

definition counting_handlers :: "('q, 'z) sig_api_scheme \<Rightarrow> signame \<Rightarrow> (int, 'w) handlers" where
  "counting_handlers os x i rs signo info =
     (if i = 2 then pmod (\<lambda>count. count + 1)
      else pbind (rs (sg_no os x)) (\<lambda>_. pbind pget (\<lambda>count. if count \<noteq> 0 then exit_with (- 1) else pret ())))"

definition sigaction_8 :: "signame \<Rightarrow> signame \<Rightarrow> nat \<Rightarrow> ('q, 'w, 'z) sigk_scheme \<Rightarrow> 'q \<Rightarrow> 'w \<Rightarrow> wstatus outcome" where
  "sigaction_8 x S n os q = run_main
     (pbind (set_action os S (Fn 1) {} (plus_sig os x (empty_set os q))) (\<lambda>rc.
      if rc = - 1 then exit_with PTS_UNRESOLVED else
      pbind (set_action os x (Fn 2) {} (empty_set os (plus_sig os x (empty_set os q)))) (\<lambda>rc.
      if rc = - 1 then exit_with PTS_UNRESOLVED else
      pbind (praise n os (counting_handlers os x) (sg_no os S)) (\<lambda>rc.
      exit_with (if rc = - 1 then PTS_UNRESOLVED else PTS_PASS))))) 0"

text \<open>\<^verbatim>\<open>22-*.c\<close> with \<^verbatim>\<open>SA_NODEFER\<close> and \<^verbatim>\<open>25-*.c\<close> without: the handler raises its own signal the first time it is called. A second
  call inside it ends the child with \<open>code\<close>; \<^verbatim>\<open>22-*.c\<close> has no variable \<^verbatim>\<open>handler_error\<close>.\<close>

record nest =
  handler_count :: int
  handler_error :: int
  inside_handler :: int

definition nest0 :: nest where
  "nest0 = \<lparr>handler_count = 0, handler_error = 0, inside_handler = 0\<rparr>"

definition nest_handler :: "('q, 'z) sig_api_scheme \<Rightarrow> signame \<Rightarrow> int \<Rightarrow> (nest, 'w) handlers" where
  "nest_handler os S code i rs signo info =
     pbind pget (\<lambda>g.
     if inside_handler g \<noteq> 0
     then pbind (pmod (\<lambda>g. if code = 0 then g else g\<lparr>handler_error := handler_error g + 1\<rparr>)) (\<lambda>_. exit_with code)
     else
     pbind (pmod (\<lambda>g. g\<lparr>inside_handler := inside_handler g + 1, handler_count := handler_count g + 1\<rparr>)) (\<lambda>_.
     pbind pget (\<lambda>g.
     pbind (if handler_count g = 1 then pbind (rs (sg_no os S)) (\<lambda>_. pret ()) else pret ()) (\<lambda>_.
     pmod (\<lambda>g. g\<lparr>inside_handler := inside_handler g - 1\<rparr>)))))"

definition nest_parent :: "('q, 'w, 'z) sigk_scheme \<Rightarrow> wstatus option \<Rightarrow> (unit, 'g, 'w) proc" where
  "nest_parent os st =
     pbind (pwait os False st) (\<lambda>rc.
     if rc = - 1 then exit_with PTS_UNRESOLVED
     else exit_with (case st of Some s \<Rightarrow> if k_wexitstatus os s = 0 then PTS_PASS else PTS_FAIL | None \<Rightarrow> PTS_FAIL))"

definition sigaction_22 :: "signame \<Rightarrow> nat \<Rightarrow> ('q, 'w, 'z) sigk_scheme \<Rightarrow> 'q \<Rightarrow> 'w \<Rightarrow> wstatus outcome" where
  "sigaction_22 S n os q = run_main
     (pbind (pfork os
        (pbind (set_action os S (Fn 1) {SA_NODEFER} (empty_set os q)) (\<lambda>rc.
         if rc = - 1 then exit_with PTS_UNRESOLVED else
         pbind (praise n os (nest_handler os S 0) (sg_no os S)) (\<lambda>rc.
         exit_with (if rc = - 1 then PTS_UNRESOLVED else PTS_FAIL)))))
      (nest_parent os)) nest0"

definition sigaction_25 :: "signame \<Rightarrow> nat \<Rightarrow> ('q, 'w, 'z) sigk_scheme \<Rightarrow> 'q \<Rightarrow> 'w \<Rightarrow> wstatus outcome" where
  "sigaction_25 S n os q = run_main
     (pbind (pfork os
        (pbind (set_action os S (Fn 1) {} (empty_set os q)) (\<lambda>rc.
         if rc = - 1 then exit_with PTS_UNRESOLVED else
         pbind (praise n os (nest_handler os S (- 1)) (sg_no os S)) (\<lambda>rc.
         if rc = - 1 then exit_with PTS_UNRESOLVED else
         pbind pget (\<lambda>g. exit_with (if handler_error g \<noteq> 0 then PTS_UNRESOLVED else PTS_PASS))))))
      (nest_parent os)) nest0"

text \<open>\<^verbatim>\<open>23-*.c\<close>: the signal raised in its own handler is pending; the variable is \<^verbatim>\<open>called\<close>. The last loop waits for a change that a process of one
  thread cannot make.\<close>

definition pending_handler :: "('q, 'w, 'z) sigk_scheme \<Rightarrow> signame \<Rightarrow> (int, 'w) handlers" where
  "pending_handler os S i rs signo info =
     pbind (pmod (\<lambda>called. called + 1)) (\<lambda>_.
     pbind pget (\<lambda>called.
     if called = 2 then exit_with PTS_FAIL else
     pbind (if called = 1
            then pbind (rs (sg_no os S)) (\<lambda>ret.
                 if ret \<noteq> 0 then exit_with PTS_UNRESOLVED else
                 pbind (kern (k_sigpending os)) (\<lambda>(ret, pending).
                 if ret \<noteq> 0 then exit_with PTS_UNRESOLVED
                 else if fst (sg_member os pending (sg_no os S)) \<noteq> 1 then exit_with PTS_FAIL else pret ()))
            else pret ()) (\<lambda>_.
     pmod (\<lambda>called. called + 1))))"

definition sigaction_23 :: "signame \<Rightarrow> nat \<Rightarrow> ('q, 'w, 'z) sigk_scheme \<Rightarrow> 'q \<Rightarrow> 'w \<Rightarrow> wstatus outcome" where
  "sigaction_23 S n os q = run_main
     (if fst (sg_empty os q) \<noteq> 0 then exit_with PTS_UNRESOLVED else
      pbind (set_action os S (Fn 1) {} (empty_set os q)) (\<lambda>ret.
      if ret \<noteq> 0 then exit_with PTS_UNRESOLVED else
      pbind (praise n os (pending_handler os S) (sg_no os S)) (\<lambda>ret.
      if ret \<noteq> 0 then exit_with PTS_UNRESOLVED else
      pbind pget (\<lambda>called. if called \<noteq> 4 then (\<lambda>s. Loop) else exit_with PTS_PASS)))) 0"

section \<open>The alternate stack\<close>

text \<open>The variable is the global \<^verbatim>\<open>alt_ss\<close> of \<^verbatim>\<open>12-1.c\<close> to \<^verbatim>\<open>12-26.c\<close>, and \<^verbatim>\<open>current\<close> of \<^verbatim>\<open>12-27.c\<close> to \<^verbatim>\<open>12-52.c\<close> and of \<^verbatim>\<open>13-*.c\<close>.\<close>

definition stack_handler :: "('q, 'w, 'z) sigk_scheme \<Rightarrow> (stack_t, 'w) handlers" where
  "stack_handler os i rs signo info =
     pbind (kern (k_sigaltstack os None)) (\<lambda>(rc, e, ss).
     if rc = - 1 then exit_with (- 1) else
     pbind pget (\<lambda>alt_ss.
     if ss_sp ss \<noteq> ss_sp alt_ss \<or> ss_size ss \<noteq> ss_size alt_ss then exit_with (- 1) else pret ()))"

definition stack0 :: stack_t where
  "stack0 = \<lparr>ss_sp = 0, ss_size = 0, ss_flags = 0\<rparr>"

definition sigaction_12_alt :: "signame \<Rightarrow> nat \<Rightarrow> ('q, 'w, 'z) sigk_scheme \<Rightarrow> 'q \<Rightarrow> 'w \<Rightarrow> wstatus outcome" where
  "sigaction_12_alt S n os q = run_main
     (pbind (set_action os S (Fn 1) {SA_ONSTACK} (empty_set os q)) (\<lambda>rc.
      if rc = - 1 then exit_with PTS_UNRESOLVED else
      pbind (kern (k_malloc os (k_sigstksz os))) (\<lambda>p.
      if p = 0 then exit_with PTS_UNRESOLVED else
      pbind (pmod (\<lambda>_. \<lparr>ss_sp = p, ss_size = k_sigstksz os, ss_flags = 0\<rparr>)) (\<lambda>_.
      pbind pget (\<lambda>alt_ss.
      pbind (kern (k_sigaltstack os (Some alt_ss))) (\<lambda>(rc, e, _).
      if rc = - 1 then exit_with PTS_UNRESOLVED else
      pbind (praise n os (stack_handler os) (sg_no os S)) (\<lambda>rc.
      exit_with (if rc = - 1 then PTS_UNRESOLVED else PTS_PASS)))))))) stack0"

text \<open>\<^verbatim>\<open>12-27.c\<close> to \<^verbatim>\<open>12-52.c\<close> have \<^verbatim>\<open>SA_ONSTACK\<close>, \<^verbatim>\<open>13-*.c\<close> no flags.\<close>

definition current_stack :: "saflag set \<Rightarrow> signame \<Rightarrow> nat \<Rightarrow> ('q, 'w, 'z) sigk_scheme \<Rightarrow> 'q \<Rightarrow> 'w \<Rightarrow> wstatus outcome" where
  "current_stack fl S n os q = run_main
     (pbind (set_action os S (Fn 1) fl (empty_set os q)) (\<lambda>rc.
      if rc = - 1 then exit_with PTS_UNRESOLVED else
      pbind (kern (k_sigaltstack os None)) (\<lambda>(rc, e, ss).
      if rc = - 1 then exit_with PTS_UNRESOLVED else
      pbind (pmod (\<lambda>_. ss)) (\<lambda>_.
      pbind (praise n os (stack_handler os) (sg_no os S)) (\<lambda>rc.
      exit_with (if rc = - 1 then PTS_UNRESOLVED else PTS_PASS)))))) stack0"

definition sigaction_12_current :: "signame \<Rightarrow> nat \<Rightarrow> ('q, 'w, 'z) sigk_scheme \<Rightarrow> 'q \<Rightarrow> 'w \<Rightarrow> wstatus outcome" where
  "sigaction_12_current = current_stack {SA_ONSTACK}"

definition sigaction_13 :: "signame \<Rightarrow> nat \<Rightarrow> ('q, 'w, 'z) sigk_scheme \<Rightarrow> 'q \<Rightarrow> 'w \<Rightarrow> wstatus outcome" where
  "sigaction_13 = current_stack {}"

section \<open>The arguments of a handler, \<^verbatim>\<open>signal\<close>, and errors\<close>

definition sigaction_18 :: "signame \<Rightarrow> nat \<Rightarrow> ('q, 'w, 'z) sigk_scheme \<Rightarrow> 'q \<Rightarrow> 'w \<Rightarrow> wstatus outcome" where
  "sigaction_18 S n os q = run_main
     (if fst (sg_empty os q) \<noteq> 0 then exit_with PTS_UNRESOLVED else
      pbind (set_action os S (Fn 1) {} (empty_set os q)) (\<lambda>ret.
      if ret \<noteq> 0 then exit_with PTS_UNRESOLVED else
      pbind pget (\<lambda>called.
      if called \<noteq> 0 then exit_with PTS_FAIL else
      pbind (praise n os called_handler (sg_no os S)) (\<lambda>ret.
      if ret \<noteq> 0 then exit_with PTS_UNRESOLVED else called_verdict)))) 0"

definition info_handler :: "('q, 'z) sig_api_scheme \<Rightarrow> signame \<Rightarrow> (int, 'w) handlers" where
  "info_handler os S i rs signo si_signo = (if si_signo \<noteq> sg_no os S then exit_with PTS_FAIL else pmod (\<lambda>_. 1))"

definition sigaction_19 :: "signame \<Rightarrow> nat \<Rightarrow> ('q, 'w, 'z) sigk_scheme \<Rightarrow> 'q \<Rightarrow> 'w \<Rightarrow> wstatus outcome" where
  "sigaction_19 S n os q = run_main
     (if k_rtsig os < 0 then exit_with PTS_UNTESTED
      else if fst (sg_empty os q) \<noteq> 0 then exit_with PTS_UNRESOLVED else
      pbind (set_action os S (Fn 1) {SA_SIGINFO} (empty_set os q)) (\<lambda>ret.
      if ret \<noteq> 0 then exit_with PTS_UNRESOLVED else
      pbind pget (\<lambda>called.
      if called \<noteq> 0 then exit_with PTS_FAIL else
      pbind (praise n os (info_handler os S) (sg_no os S)) (\<lambda>ret.
      if ret \<noteq> 0 then exit_with PTS_UNRESOLVED else called_verdict)))) 0"

text \<open>\<^verbatim>\<open>28-*.c\<close>: \<^verbatim>\<open>handler_1\<close> is installed by \<^verbatim>\<open>signal\<close>, replaced by \<^verbatim>\<open>handler_2\<close> and restored. The variable is \<^verbatim>\<open>called\<close>, initially 1.\<close>

definition updown_handlers :: "(int, 'w) handlers" where
  "updown_handlers i rs signo info = (if i = 1 then pmod (\<lambda>called. called + 1) else pmod (\<lambda>called. called - 1))"

definition sigaction_28 :: "signame \<Rightarrow> nat \<Rightarrow> ('q, 'w, 'z) sigk_scheme \<Rightarrow> 'q \<Rightarrow> 'w \<Rightarrow> wstatus outcome" where
  "sigaction_28 S n os q = run_main
     (pbind (kern (k_signal os (sg_no os S) (Fn 1))) (\<lambda>(old, e).
      if old = SIG_ERR then exit_with PTS_UNRESOLVED
      else if fst (sg_empty os q) \<noteq> 0 then exit_with PTS_UNRESOLVED else
      pbind (kern (k_sigaction os (sg_no os S) (Some \<lparr>sa_handler = Fn 2, sa_mask = empty_set os q, sa_flags = {}\<rparr>)))
        (\<lambda>(ret, e, save).
      if ret \<noteq> 0 then exit_with PTS_UNRESOLVED else
      pbind (praise n os updown_handlers (sg_no os S)) (\<lambda>ret.
      if ret \<noteq> 0 then exit_with PTS_UNRESOLVED else
      pbind pget (\<lambda>called.
      if called \<noteq> 0 then exit_with PTS_FAIL else
      pbind (kern (k_sigaction os (sg_no os S) (Some save))) (\<lambda>(ret, e, _).
      if ret \<noteq> 0 then exit_with PTS_UNRESOLVED else
      pbind (praise n os updown_handlers (sg_no os S)) (\<lambda>ret.
      if ret \<noteq> 0 then exit_with PTS_UNRESOLVED else
      pbind pget (\<lambda>called. exit_with (if called \<noteq> 1 then PTS_FAIL else PTS_PASS))))))))) 1"

text \<open>\<^verbatim>\<open>30-1.c\<close>: a signal number that is too high, and the signals that can be neither caught nor ignored. The five calls have
  the same test.\<close>

definition must_fail :: "('q, 'w, 'z) sigk_scheme \<Rightarrow> int \<Rightarrow> hnd \<Rightarrow> 'q \<Rightarrow> (unit, 'g, 'w) proc \<Rightarrow> (unit, 'g, 'w) proc" where
  "must_fail os signo h m k =
     pbind (kern (k_sigaction os signo (Some \<lparr>sa_handler = h, sa_mask = m, sa_flags = {}\<rparr>))) (\<lambda>(ret, e, _).
     if ret = 0 then exit_with PTS_FAIL else if e \<noteq> EINVAL then exit_with PTS_FAIL else k)"

definition sigaction_30_1 :: "nat \<Rightarrow> ('q, 'w, 'z) sigk_scheme \<Rightarrow> 'q \<Rightarrow> 'w \<Rightarrow> wstatus outcome" where
  "sigaction_30_1 n os q = run_main
     (if fst (sg_empty os q) \<noteq> 0 then exit_with PTS_UNRESOLVED else
      let m = empty_set os q in
      must_fail os (k_sigrtmax os + 10) (Fn 1) m
      (must_fail os (sg_no os S_KILL) (Fn 1) m
      (must_fail os (sg_no os S_STOP) (Fn 1) m
      (must_fail os (sg_no os S_KILL) SIG_IGN m
      (must_fail os (sg_no os S_STOP) SIG_IGN m
      (exit_with PTS_PASS)))))) ()"

end
