(* ===== verification/Sigmask_Tests.thy ===== *)
theory Sigmask_Tests
  imports Sigaction_Tests
begin

text \<open>
  Conformance programs for \<^verbatim>\<open>signal\<close>, \<^verbatim>\<open>sigset\<close>, \<^verbatim>\<open>sighold\<close>, \<^verbatim>\<open>sigrelse\<close>, \<^verbatim>\<open>sigignore\<close>, \<^verbatim>\<open>sigprocmask\<close>, \<^verbatim>\<open>sigpending\<close> and \<^verbatim>\<open>raise\<close>, in the
  style of \<open>Sigaction_Tests\<close>: \<open>n\<close> is the fuel of deliveries, \<open>q\<close> what signal sets hold before they are initialised. \<^verbatim>\<open>sleep\<close> after a
  \<^verbatim>\<open>raise\<close> has no effect on a process of one thread and is left out, as is output. \<open>EOK\<close> stands for an errno that a call did not set.
\<close>

text \<open>The handler that only notes that it was called is \<open>called_handler\<close>; \<open>ran\<close> and \<open>not_ran\<close> are the tests at the end of the programs.\<close>

definition ran :: "(unit, int, 'w) proc" where
  "ran = pbind pget (\<lambda>handler_called. exit_with (if handler_called \<noteq> 1 then PTS_FAIL else PTS_PASS))"

definition not_ran :: "(unit, int, 'w) proc" where
  "not_ran = pbind pget (\<lambda>handler_called. exit_with (if handler_called = 1 then PTS_FAIL else PTS_PASS))"

section \<open>signal\<close>

definition signal_1_1 :: "nat \<Rightarrow> ('q, 'w, 'z) sigk_scheme \<Rightarrow> 'w \<Rightarrow> wstatus outcome" where
  "signal_1_1 n os = run_main
     (pbind (kern (k_signal os (sg_no os S_CHLD) (Fn 1))) (\<lambda>(old, e).
      if old = SIG_ERR then exit_with PTS_UNRESOLVED else
      pbind (kern (k_signal os (sg_no os S_CHLD) SIG_DFL)) (\<lambda>(old, e).
      if old \<noteq> Fn 1 then exit_with PTS_UNRESOLVED else
      pbind (praise n os called_handler (sg_no os S_CHLD)) (\<lambda>_. not_ran)))) 0"

definition signal_2_1 :: "nat \<Rightarrow> ('q, 'w, 'z) sigk_scheme \<Rightarrow> 'w \<Rightarrow> wstatus outcome" where
  "signal_2_1 n os = run_main
     (pbind (kern (k_signal os (sg_no os S_CHLD) (Fn 1))) (\<lambda>(old, e).
      if old = SIG_ERR then exit_with PTS_UNRESOLVED else
      pbind (kern (k_signal os (sg_no os S_CHLD) SIG_IGN)) (\<lambda>(old, e).
      if old \<noteq> Fn 1 then exit_with PTS_UNRESOLVED else
      pbind (praise n os called_handler (sg_no os S_CHLD)) (\<lambda>_. not_ran)))) 0"

definition signal_3_1 :: "nat \<Rightarrow> ('q, 'w, 'z) sigk_scheme \<Rightarrow> 'w \<Rightarrow> wstatus outcome" where
  "signal_3_1 n os = run_main
     (pbind (kern (k_signal os (sg_no os S_CHLD) (Fn 1))) (\<lambda>(old, e).
      if old = SIG_ERR then exit_with PTS_UNRESOLVED else
      pbind (praise n os called_handler (sg_no os S_CHLD)) (\<lambda>_. ran))) 0"

text \<open>\<^verbatim>\<open>SIGUSR1_handler\<close> is \<open>Fn 1\<close>, \<^verbatim>\<open>SIGUSR2_handler\<close> is \<open>Fn 2\<close>.\<close>

definition signal_5_1 :: "nat \<Rightarrow> ('q, 'w, 'z) sigk_scheme \<Rightarrow> 'w \<Rightarrow> wstatus outcome" where
  "signal_5_1 n os = run_main
     (pbind (kern (k_signal os (sg_no os S_USR1) (Fn 1))) (\<lambda>(old, e).
      if old = SIG_ERR then exit_with PTS_UNRESOLVED else
      pbind (kern (k_signal os (sg_no os S_USR2) (Fn 2))) (\<lambda>(old, e).
      if old = SIG_ERR then exit_with PTS_UNRESOLVED else
      pbind (kern (k_signal os (sg_no os S_USR1) SIG_IGN)) (\<lambda>(old, e).
      exit_with (if old \<noteq> Fn 1 then PTS_FAIL else PTS_PASS))))) ()"

definition signal_6_1 :: "nat \<Rightarrow> ('q, 'w, 'z) sigk_scheme \<Rightarrow> 'w \<Rightarrow> wstatus outcome" where
  "signal_6_1 n os = run_main
     (pbind (kern (k_signal os (- 1) (Fn 1))) (\<lambda>(old, e).
      if old \<noteq> SIG_ERR then exit_with PTS_FAIL else exit_with (if e = EOK then PTS_FAIL else PTS_PASS))) ()"

definition signal_7_1 :: "nat \<Rightarrow> ('q, 'w, 'z) sigk_scheme \<Rightarrow> 'w \<Rightarrow> wstatus outcome" where
  "signal_7_1 n os = run_main
     (pbind (kern (k_signal os (sg_no os S_KILL) (Fn 1))) (\<lambda>(old, e).
      if old \<noteq> SIG_ERR then exit_with PTS_FAIL else exit_with (if e = EOK then PTS_FAIL else PTS_PASS))) ()"

section \<open>sigset\<close>

definition sigset_1_1 :: "nat \<Rightarrow> ('q, 'w, 'z) sigk_scheme \<Rightarrow> 'q \<Rightarrow> 'w \<Rightarrow> wstatus outcome" where
  "sigset_1_1 n os q = run_main
     (pbind (set_action os S_CHLD (Fn 1) {} (empty_set os q)) (\<lambda>rc.
      if rc \<noteq> 0 then exit_with PTS_UNRESOLVED else
      pbind (unblocking n os called_handler (k_sigset os (sg_no os S_CHLD) SIG_DFL)) (\<lambda>(old, e).
      if old \<noteq> Fn 1 then exit_with PTS_UNRESOLVED else
      pbind (praise n os called_handler (sg_no os S_CHLD)) (\<lambda>_. not_ran)))) 0"

definition sigset_2_1 :: "nat \<Rightarrow> ('q, 'w, 'z) sigk_scheme \<Rightarrow> 'q \<Rightarrow> 'w \<Rightarrow> wstatus outcome" where
  "sigset_2_1 n os q = run_main
     (pbind (set_action os S_USR1 (Fn 1) {} (empty_set os q)) (\<lambda>rc.
      if rc \<noteq> 0 then exit_with PTS_UNRESOLVED else
      pbind (unblocking n os called_handler (k_sigset os (sg_no os S_USR1) SIG_IGN)) (\<lambda>(old, e).
      if old \<noteq> Fn 1 then exit_with PTS_UNRESOLVED else
      pbind (praise n os called_handler (sg_no os S_USR1)) (\<lambda>_. not_ran)))) 0"

definition sigset_3_1 :: "nat \<Rightarrow> ('q, 'w, 'z) sigk_scheme \<Rightarrow> 'w \<Rightarrow> wstatus outcome" where
  "sigset_3_1 n os = run_main
     (pbind (unblocking n os called_handler (k_sigset os (sg_no os S_CHLD) (Fn 1))) (\<lambda>(old, e).
      if old = SIG_ERR then exit_with PTS_UNRESOLVED else
      pbind (praise n os called_handler (sg_no os S_CHLD)) (\<lambda>_. ran))) 0"

text \<open>\<^verbatim>\<open>4-1.c\<close>: the variable is \<^verbatim>\<open>signal_blocked\<close>.\<close>

definition mask_handler :: "('q, 'w, 'z) sigk_scheme \<Rightarrow> (int, 'w) handlers" where
  "mask_handler os i rs signo info =
     pbind (kern (k_sigprocmask os SIG_SETMASK None)) (\<lambda>(rc, e, mask).
     if fst (sg_member os mask (sg_no os S_CHLD)) \<noteq> 0 then pmod (\<lambda>_. 1) else pret ())"

definition sigset_4_1 :: "nat \<Rightarrow> ('q, 'w, 'z) sigk_scheme \<Rightarrow> 'w \<Rightarrow> wstatus outcome" where
  "sigset_4_1 n os = run_main
     (pbind (unblocking n os (mask_handler os) (k_sigset os (sg_no os S_CHLD) (Fn 1))) (\<lambda>(old, e).
      if old = SIG_ERR then exit_with PTS_UNRESOLVED else
      pbind (praise n os (mask_handler os) (sg_no os S_CHLD)) (\<lambda>_. ran))) 0"

definition mask_signals :: "signame list" where
  "mask_signals = [S_ABRT, S_ALRM, S_BUS, S_CHLD, S_CONT, S_FPE, S_HUP, S_ILL, S_INT, S_PIPE, S_QUIT, S_SEGV, S_TERM, S_TSTP, S_TTIN, S_TTOU, S_USR1,
     S_USR2, S_POLL, S_PROF, S_SYS, S_TRAP, S_URG, S_VTALRM, S_XCPU, S_XFSZ]"

definition is_empty :: "('q, 'z) sig_api_scheme \<Rightarrow> 'q \<Rightarrow> bool" where
  "is_empty os m = list_all (\<lambda>S. fst (sg_member os m (sg_no os S)) = 0) mask_signals"

text \<open>A handler with an empty body.\<close>

definition idle_handler :: "('g, 'w) handlers" where
  "idle_handler i rs signo info = pret ()"

definition sigset_5_1 :: "nat \<Rightarrow> ('q, 'w, 'z) sigk_scheme \<Rightarrow> 'q \<Rightarrow> 'w \<Rightarrow> wstatus outcome" where
  "sigset_5_1 n os q = run_main
     (pbind (unblocking n os idle_handler (k_sigprocmask os SIG_SETMASK (Some (empty_set os q)))) (\<lambda>_.
      pbind (unblocking n os idle_handler (k_sigset os (sg_no os S_CHLD) (Fn 1))) (\<lambda>(old, e).
      if old = SIG_ERR then exit_with PTS_UNRESOLVED else
      pbind (praise n os idle_handler (sg_no os S_CHLD)) (\<lambda>_.
      pbind (kern (k_sigprocmask os SIG_SETMASK None)) (\<lambda>(rc, e, mask).
      exit_with (if \<not> is_empty os mask then PTS_FAIL else PTS_PASS)))))) ()"

definition sigset_6_1 :: "nat \<Rightarrow> ('q, 'w, 'z) sigk_scheme \<Rightarrow> 'q \<Rightarrow> 'w \<Rightarrow> wstatus outcome" where
  "sigset_6_1 n os q = run_main
     (pbind (set_action os S_CHLD (Fn 1) {} (empty_set os q)) (\<lambda>rc.
      if rc \<noteq> 0 then exit_with PTS_UNRESOLVED else
      pbind (unblocking n os idle_handler (k_sigset os (sg_no os S_CHLD) SIG_HOLD)) (\<lambda>(old, e).
      if old \<noteq> SIG_HOLD then exit_with PTS_UNRESOLVED else
      pbind (praise n os idle_handler (sg_no os S_CHLD)) (\<lambda>_.
      pbind (kern (k_sigpending os)) (\<lambda>(rc, pendingset).
      if rc = - 1 then exit_with PTS_UNRESOLVED
      else exit_with (if fst (sg_member os pendingset (sg_no os S_CHLD)) \<noteq> 1 then PTS_FAIL else PTS_PASS)))))) ()"

definition sigset_7_1 :: "nat \<Rightarrow> ('q, 'w, 'z) sigk_scheme \<Rightarrow> 'q \<Rightarrow> 'w \<Rightarrow> wstatus outcome" where
  "sigset_7_1 n os q = run_main
     (pbind (set_action os S_CHLD (Fn 1) {} (empty_set os q)) (\<lambda>rc.
      if rc \<noteq> 0 then exit_with PTS_UNRESOLVED else
      pbind (unblocking n os called_handler (k_sigset os (sg_no os S_CHLD) SIG_HOLD)) (\<lambda>(old, e).
      if old \<noteq> SIG_HOLD then exit_with PTS_UNRESOLVED else
      pbind (praise n os called_handler (sg_no os S_CHLD)) (\<lambda>_.
      pbind (kern (k_sigpending os)) (\<lambda>(rc, pendingset).
      if rc = - 1 then exit_with PTS_UNRESOLVED
      else if fst (sg_member os pendingset (sg_no os S_CHLD)) \<noteq> 1 then exit_with PTS_UNRESOLVED else
      pbind (unblocking n os called_handler (k_sigrelse os (sg_no os S_CHLD))) (\<lambda>_. ran)))))) 0"

definition sigset_8_1 :: "nat \<Rightarrow> ('q, 'w, 'z) sigk_scheme \<Rightarrow> 'w \<Rightarrow> wstatus outcome" where
  "sigset_8_1 n os = run_main
     (pbind (unblocking n os idle_handler (k_sigset os (sg_no os S_CHLD) SIG_HOLD)) (\<lambda>(old, e).
      exit_with (if old \<noteq> SIG_HOLD then PTS_FAIL else PTS_PASS))) ()"

definition sigset_9_1 :: "nat \<Rightarrow> ('q, 'w, 'z) sigk_scheme \<Rightarrow> 'q \<Rightarrow> 'w \<Rightarrow> wstatus outcome" where
  "sigset_9_1 n os q = run_main
     (pbind (set_action os S_USR1 (Fn 1) {} (empty_set os q)) (\<lambda>rc.
      if rc \<noteq> 0 then exit_with PTS_UNRESOLVED else
      pbind (unblocking n os idle_handler (k_sigset os (sg_no os S_USR1) SIG_DFL)) (\<lambda>(old, e).
      exit_with (if old \<noteq> Fn 1 then PTS_FAIL else PTS_PASS)))) ()"

definition sigset_10_1 :: "nat \<Rightarrow> ('q, 'w, 'z) sigk_scheme \<Rightarrow> 'w \<Rightarrow> wstatus outcome" where
  "sigset_10_1 n os = run_main
     (pbind (unblocking n os idle_handler (k_sigset os (sg_no os S_KILL) SIG_IGN)) (\<lambda>(old, e).
      if old = SIG_ERR then exit_with (if e \<noteq> EINVAL then PTS_FAIL else PTS_PASS) else exit_with PTS_FAIL)) ()"

section \<open>sighold, sigrelse, sigignore\<close>

definition sighold_1_1 :: "nat \<Rightarrow> ('q, 'w, 'z) sigk_scheme \<Rightarrow> 'q \<Rightarrow> 'w \<Rightarrow> wstatus outcome" where
  "sighold_1_1 n os q = run_main
     (pbind (set_action os S_ABRT (Fn 1) {} (empty_set os q)) (\<lambda>rc.
      if rc = - 1 then exit_with PTS_UNRESOLVED else
      pbind (kern (k_sighold os (sg_no os S_ABRT))) (\<lambda>(rc, e).
      if rc = - 1 then exit_with PTS_UNRESOLVED else
      pbind (praise n os called_handler (sg_no os S_ABRT)) (\<lambda>rc.
      if rc = - 1 then exit_with PTS_UNRESOLVED else
      pbind pget (\<lambda>handler_called. exit_with (if handler_called \<noteq> 0 then PTS_FAIL else PTS_PASS)))))) 0"

definition sighold_2_1 :: "nat \<Rightarrow> ('q, 'w, 'z) sigk_scheme \<Rightarrow> 'w \<Rightarrow> wstatus outcome" where
  "sighold_2_1 n os = run_main
     (pbind (kern (k_sighold os (sg_no os S_ABRT))) (\<lambda>(rc, e). exit_with (if rc \<noteq> 0 then PTS_UNRESOLVED else PTS_PASS))) ()"

definition sigrelse_1_1 :: "nat \<Rightarrow> ('q, 'w, 'z) sigk_scheme \<Rightarrow> 'q \<Rightarrow> 'w \<Rightarrow> wstatus outcome" where
  "sigrelse_1_1 n os q = run_main
     (pbind (set_action os S_ABRT (Fn 1) {} (empty_set os q)) (\<lambda>rc.
      if rc = - 1 then exit_with PTS_UNRESOLVED else
      pbind (kern (k_sighold os (sg_no os S_ABRT))) (\<lambda>_.
      pbind (praise n os called_handler (sg_no os S_ABRT)) (\<lambda>rc.
      if rc = - 1 then exit_with PTS_UNRESOLVED else
      pbind pget (\<lambda>handler_called.
      if handler_called \<noteq> 0 then exit_with PTS_UNRESOLVED else
      pbind (unblocking n os called_handler (k_sigrelse os (sg_no os S_ABRT))) (\<lambda>(rc, e).
      if rc = - 1 then exit_with PTS_UNRESOLVED else called_verdict)))))) 0"

definition sigrelse_2_1 :: "nat \<Rightarrow> ('q, 'w, 'z) sigk_scheme \<Rightarrow> 'w \<Rightarrow> wstatus outcome" where
  "sigrelse_2_1 n os = run_main
     (pbind (unblocking n os idle_handler (k_sigrelse os (sg_no os S_ABRT))) (\<lambda>(rc, e). exit_with (if rc \<noteq> 0 then PTS_UNRESOLVED else PTS_PASS))) ()"

definition sigignore_1_1 :: "nat \<Rightarrow> ('q, 'w, 'z) sigk_scheme \<Rightarrow> 'q \<Rightarrow> 'w \<Rightarrow> wstatus outcome" where
  "sigignore_1_1 n os q = run_main
     (pbind (set_action os S_ABRT (Fn 1) {} (empty_set os q)) (\<lambda>rc.
      if rc = - 1 then exit_with PTS_UNRESOLVED else
      pbind (kern (k_sigignore os (sg_no os S_ABRT))) (\<lambda>_.
      pbind (praise n os called_handler (sg_no os S_ABRT)) (\<lambda>rc.
      if rc = - 1 then exit_with PTS_UNRESOLVED else
      pbind pget (\<lambda>handler_called. exit_with (if handler_called \<noteq> 0 then PTS_FAIL else PTS_PASS)))))) 0"

definition sigignore_4_1 :: "nat \<Rightarrow> ('q, 'w, 'z) sigk_scheme \<Rightarrow> 'w \<Rightarrow> wstatus outcome" where
  "sigignore_4_1 n os = run_main
     (pbind (kern (k_sigignore os (sg_no os S_ABRT))) (\<lambda>(rc, e). exit_with (if rc \<noteq> 0 then PTS_UNRESOLVED else PTS_PASS))) ()"

text \<open>The test of the error, with the signal number of \<^verbatim>\<open>5-core-buildonly.c\<close>, \<^verbatim>\<open>6-1.c\<close> and \<^verbatim>\<open>6-2.c\<close>.\<close>

definition ignore_fails :: "('q, 'w, 'z) sigk_scheme \<Rightarrow> int \<Rightarrow> (unit, unit, 'w) proc" where
  "ignore_fails os s =
     pbind (kern (k_sigignore os s)) (\<lambda>(rc, e).
     if rc = - 1 then exit_with (if e = EINVAL then PTS_PASS else PTS_FAIL) else exit_with PTS_FAIL)"

definition sigignore_5_core :: "nat \<Rightarrow> ('q, 'w, 'z) sigk_scheme \<Rightarrow> string list \<Rightarrow> 'w \<Rightarrow> wstatus outcome" where
  "sigignore_5_core n os args = run_main
     (if args = [] then exit_with PTS_UNRESOLVED
      else case wrong_signo (arg0 args) of None \<Rightarrow> exit_with PTS_UNRESOLVED | Some s \<Rightarrow> ignore_fails os s) ()"

definition sigignore_6_1 :: "nat \<Rightarrow> ('q, 'w, 'z) sigk_scheme \<Rightarrow> 'w \<Rightarrow> wstatus outcome" where
  "sigignore_6_1 n os = run_main (ignore_fails os (sg_no os S_KILL)) ()"

definition sigignore_6_2 :: "nat \<Rightarrow> ('q, 'w, 'z) sigk_scheme \<Rightarrow> 'w \<Rightarrow> wstatus outcome" where
  "sigignore_6_2 n os = run_main (ignore_fails os (sg_no os S_STOP)) ()"

section \<open>raise\<close>

text \<open>The handler of \<^verbatim>\<open>1-1.c\<close> ends the process with 0.\<close>

definition exit_handler :: "(unit, 'w) handlers" where
  "exit_handler i rs signo info = exit_with (if i = 1 then 0 else - 1)"

definition raise_1_1 :: "nat \<Rightarrow> ('q, 'w, 'z) sigk_scheme \<Rightarrow> 'q \<Rightarrow> 'w \<Rightarrow> wstatus outcome" where
  "raise_1_1 n os q = run_main
     (if fst (sg_empty os q) = - 1 then exit_with PTS_UNRESOLVED else
      pbind (set_action os S_ABRT (Fn 1) {} (empty_set os q)) (\<lambda>rc.
      if rc = - 1 then exit_with PTS_UNRESOLVED else
      pbind (praise n os exit_handler (sg_no os S_ABRT)) (\<lambda>rc. exit_with PTS_FAIL))) ()"

text \<open>\<^verbatim>\<open>childhandler\<close> is \<open>Fn 1\<close>, \<^verbatim>\<open>parenthandler\<close> is \<open>Fn 2\<close>; the two structures are initialised separately.\<close>

definition raise_1_2 :: "nat \<Rightarrow> ('q, 'w, 'z) sigk_scheme \<Rightarrow> 'q \<Rightarrow> 'w \<Rightarrow> wstatus outcome" where
  "raise_1_2 n os q = run_main
     (if fst (sg_empty os q) = - 1 then exit_with PTS_UNRESOLVED else
      pbind (set_action os S_ABRT (Fn 2) {} (empty_set os q)) (\<lambda>rc.
      if rc = - 1 then exit_with PTS_UNRESOLVED else
      pbind (pfork os
        (if fst (sg_empty os q) = - 1 then exit_with PTS_UNRESOLVED else
         pbind (set_action os S_ABRT (Fn 1) {} (empty_set os q)) (\<lambda>rc.
         if rc = - 1 then exit_with PTS_UNRESOLVED else
         pbind (praise n os exit_handler (sg_no os S_ABRT)) (\<lambda>rc. exit_with PTS_FAIL)))) (nest_parent os))) ()"

definition raise_2_1 :: "nat \<Rightarrow> ('q, 'w, 'z) sigk_scheme \<Rightarrow> 'q \<Rightarrow> 'w \<Rightarrow> wstatus outcome" where
  "raise_2_1 n os q = run_main
     (if fst (sg_empty os q) = - 1 then exit_with PTS_UNRESOLVED else
      pbind (set_action os S_ABRT (Fn 1) {} (empty_set os q)) (\<lambda>rc.
      if rc = - 1 then exit_with PTS_UNRESOLVED else
      pbind (praise n os (\<lambda>i rs signo info. pbind (pmod (\<lambda>_. 2)) (\<lambda>_. pmod (\<lambda>_. 3))) (sg_no os S_ABRT)) (\<lambda>rc.
      if rc \<noteq> 0 then exit_with PTS_FAIL else
      pbind pget (\<lambda>globalStatus.
      if globalStatus = 2 \<or> globalStatus = 1 then exit_with PTS_FAIL
      else if globalStatus = 3 then exit_with PTS_PASS else exit_with PTS_UNRESOLVED)))) (1 :: int)"

definition raise_6_1 :: "nat \<Rightarrow> ('q, 'w, 'z) sigk_scheme \<Rightarrow> 'w \<Rightarrow> wstatus outcome" where
  "raise_6_1 n os = run_main
     (pbind (praise n os idle_handler 10000) (\<lambda>rc. exit_with (if rc = 0 then PTS_FAIL else PTS_PASS))) ()"

definition raise_7_1 :: "nat \<Rightarrow> ('q, 'w, 'z) sigk_scheme \<Rightarrow> 'w \<Rightarrow> wstatus outcome" where
  "raise_7_1 n os = run_main
     (pbind (unblocking n os idle_handler (k_raise os 10000)) (\<lambda>(rc, e).
      if rc = 0 then exit_with PTS_FAIL else exit_with (if e = EINVAL then PTS_PASS else PTS_FAIL))) ()"

text \<open>\<^verbatim>\<open>10000-1.c\<close>: the loops over valid and over invalid numbers; the variable is \<^verbatim>\<open>failure\<close>.\<close>

definition valid_tests :: "signame list" where
  "valid_tests = [S_ABRT, S_XFSZ, S_ALRM, S_CHLD, S_TSTP, S_CONT]"

definition invalid_tests :: "int list" where
  "invalid_tests = [- 2147483648, 2147483647, 2147483647, - 2147483647, - 1073743192, 1073743192]"

primrec install_each :: "('q, 'w, 'z) sigk_scheme \<Rightarrow> 'q \<Rightarrow> signame list \<Rightarrow> (unit, int, 'w) proc \<Rightarrow> (unit, int, 'w) proc" where
  "install_each os m [] k = k"
| "install_each os m (S # ss) k =
     pbind (set_action os S (Fn 1) {} m) (\<lambda>rc. if rc = - 1 then exit_with PTS_UNRESOLVED else install_each os m ss k)"

primrec raise_valid :: "nat \<Rightarrow> ('q, 'w, 'z) sigk_scheme \<Rightarrow> signame list \<Rightarrow> (unit, int, 'w) proc \<Rightarrow> (unit, int, 'w) proc" where
  "raise_valid n os [] k = k"
| "raise_valid n os (S # ss) k =
     pbind (praise n os idle_handler (sg_no os S)) (\<lambda>rc.
     pbind (if rc \<noteq> 0 then pmod (\<lambda>_. 1) else pret ()) (\<lambda>_. raise_valid n os ss k))"

primrec raise_invalid :: "nat \<Rightarrow> ('q, 'w, 'z) sigk_scheme \<Rightarrow> int list \<Rightarrow> (unit, int, 'w) proc \<Rightarrow> (unit, int, 'w) proc" where
  "raise_invalid n os [] k = k"
| "raise_invalid n os (s # ss) k =
     pbind (unblocking n os idle_handler (k_raise os s)) (\<lambda>(rc, e).
     pbind (if rc = 0 then pmod (\<lambda>_. 1) else if e = EINVAL then pret () else pmod (\<lambda>_. 1)) (\<lambda>_. raise_invalid n os ss k))"

definition raise_10000_1 :: "nat \<Rightarrow> ('q, 'w, 'z) sigk_scheme \<Rightarrow> 'q \<Rightarrow> 'w \<Rightarrow> wstatus outcome" where
  "raise_10000_1 n os q = run_main
     (if fst (sg_empty os q) = - 1 then exit_with PTS_UNRESOLVED else
      install_each os (empty_set os q) valid_tests
      (raise_valid n os valid_tests
      (raise_invalid n os invalid_tests
      (pbind pget (\<lambda>failure. exit_with (if failure \<noteq> 0 then PTS_FAIL else PTS_PASS)))))) 0"

section \<open>sigprocmask\<close>

definition has :: "('q, 'z) sig_api_scheme \<Rightarrow> 'q \<Rightarrow> signame \<Rightarrow> int" where
  "has os m S = fst (sg_member os m (sg_no os S))"

definition sigprocmask_4_1 :: "nat \<Rightarrow> ('q, 'w, 'z) sigk_scheme \<Rightarrow> 'q \<Rightarrow> 'w \<Rightarrow> wstatus outcome" where
  "sigprocmask_4_1 n os q = run_main
     (let set1 = plus_sig os S_ABRT (empty_set os q); set2 = plus_sig os S_ALRM (empty_set os q); m = empty_set os q in
      pbind (set_action os S_ABRT (Fn 1) {} m) (\<lambda>rc.
      if rc = - 1 then exit_with PTS_UNRESOLVED else
      pbind (set_action os S_ALRM (Fn 1) {} m) (\<lambda>rc.
      if rc = - 1 then exit_with PTS_UNRESOLVED else
      pbind (unblocking n os called_handler (k_sigprocmask os SIG_SETMASK (Some set1))) (\<lambda>(rc, e, _).
      if rc = - 1 then exit_with PTS_UNRESOLVED else
      pbind (unblocking n os called_handler (k_sigprocmask os SIG_BLOCK (Some set2))) (\<lambda>(rc, e, _).
      if rc = - 1 then exit_with PTS_UNRESOLVED else
      pbind (praise n os called_handler (sg_no os S_ABRT)) (\<lambda>rc1.
      pbind (praise n os called_handler (sg_no os S_ALRM)) (\<lambda>rc2.
      if rc1 = - 1 \<or> rc2 = - 1 then exit_with PTS_UNRESOLVED else
      pbind pget (\<lambda>handler_called.
      if handler_called \<noteq> 0 then exit_with PTS_FAIL else
      pbind (kern (k_sigpending os)) (\<lambda>(rc, pending_set).
      if rc = - 1 then exit_with PTS_UNRESOLVED
      else exit_with (if has os pending_set S_ABRT \<noteq> 1 \<or> has os pending_set S_ALRM \<noteq> 1 then PTS_UNRESOLVED else PTS_PASS)))))))))) 0"

definition sigprocmask_5_1 :: "nat \<Rightarrow> ('q, 'w, 'z) sigk_scheme \<Rightarrow> 'q \<Rightarrow> 'w \<Rightarrow> wstatus outcome" where
  "sigprocmask_5_1 n os q = run_main
     (let blocked_set = plus_sig os S_ABRT (empty_set os q) in
      pbind (set_action os S_ABRT (Fn 1) {} (empty_set os q)) (\<lambda>rc.
      if rc = - 1 then exit_with PTS_UNRESOLVED else
      pbind (unblocking n os called_handler (k_sigprocmask os SIG_SETMASK (Some blocked_set))) (\<lambda>(rc, e, _).
      if rc = - 1 then exit_with PTS_UNRESOLVED else
      pbind (praise n os called_handler (sg_no os S_ABRT)) (\<lambda>rc.
      if rc = - 1 then exit_with PTS_UNRESOLVED else
      pbind pget (\<lambda>handler_called.
      if handler_called \<noteq> 0 then exit_with PTS_FAIL else
      pbind (kern (k_sigpending os)) (\<lambda>(rc, pending_set).
      if rc = - 1 then exit_with PTS_UNRESOLVED
      else if has os pending_set S_ABRT = - 1 then exit_with PTS_UNRESOLVED
      else exit_with (if has os pending_set S_ABRT \<noteq> 1 then PTS_UNRESOLVED else PTS_PASS))))))) 0"

definition sigprocmask_6_1 :: "nat \<Rightarrow> ('q, 'w, 'z) sigk_scheme \<Rightarrow> 'q \<Rightarrow> 'w \<Rightarrow> wstatus outcome" where
  "sigprocmask_6_1 n os q = run_main
     (let set1 = plus_sig os S_ALRM (plus_sig os S_ABRT (empty_set os q)); set2 = plus_sig os S_ALRM (empty_set os q); m = empty_set os q in
      pbind (set_action os S_ABRT (Fn 1) {} m) (\<lambda>rc.
      if rc = - 1 then exit_with PTS_UNRESOLVED else
      pbind (set_action os S_ALRM (Fn 1) {} m) (\<lambda>rc.
      if rc = - 1 then exit_with PTS_UNRESOLVED else
      pbind (unblocking n os called_handler (k_sigprocmask os SIG_SETMASK (Some set1))) (\<lambda>(rc, e, _).
      if rc = - 1 then exit_with PTS_UNRESOLVED else
      pbind (unblocking n os called_handler (k_sigprocmask os SIG_UNBLOCK (Some set2))) (\<lambda>(rc, e, _).
      if rc = - 1 then exit_with PTS_UNRESOLVED else
      pbind (praise n os called_handler (sg_no os S_ALRM)) (\<lambda>rc.
      if rc = - 1 then exit_with PTS_UNRESOLVED else
      pbind pget (\<lambda>handler_called.
      if handler_called = 0 then exit_with PTS_UNRESOLVED else
      pbind (pmod (\<lambda>_. 0)) (\<lambda>_.
      pbind (praise n os called_handler (sg_no os S_ABRT)) (\<lambda>rc.
      if rc = - 1 then exit_with PTS_UNRESOLVED else
      pbind pget (\<lambda>handler_called.
      if handler_called \<noteq> 0 then exit_with PTS_FAIL else
      pbind (kern (k_sigpending os)) (\<lambda>(rc, pending_set).
      if rc = - 1 then exit_with PTS_UNRESOLVED
      else if has os pending_set S_ABRT \<noteq> 1 then exit_with PTS_FAIL
      else exit_with (if has os pending_set S_ALRM \<noteq> 0 then PTS_FAIL else 0)))))))))))) 0"

text \<open>\<^verbatim>\<open>7-1.c\<close>: \<open>before\<close> are the signals blocked so far, the variable is \<^verbatim>\<open>test_failed\<close>.\<close>

primrec block_each :: "nat \<Rightarrow> ('q, 'w, 'z) sigk_scheme \<Rightarrow> 'q \<Rightarrow> signame list \<Rightarrow> signame list \<Rightarrow> (unit, int, 'w) proc" where
  "block_each n os q before [] = pbind pget (\<lambda>test_failed. exit_with (if test_failed \<noteq> 0 then PTS_FAIL else PTS_PASS))"
| "block_each n os q before (S # ss) =
     pbind (unblocking n os idle_handler (k_sigprocmask os SIG_BLOCK (Some (plus_sig os S (empty_set os q))))) (\<lambda>(rc, e, oactl).
     pbind (if list_all (\<lambda>x. has os oactl x = 1) before then pret () else pmod (\<lambda>_. 1)) (\<lambda>_.
     block_each n os q (before @ [S]) ss))"

definition sigprocmask_7_1 :: "nat \<Rightarrow> ('q, 'w, 'z) sigk_scheme \<Rightarrow> 'q \<Rightarrow> 'w \<Rightarrow> wstatus outcome" where
  "sigprocmask_7_1 n os q = run_main (block_each n os q [] mask_signals) 0"

definition is_changed :: "('q, 'z) sig_api_scheme \<Rightarrow> 'q \<Rightarrow> signame \<Rightarrow> bool" where
  "is_changed os m S = (if has os m S \<noteq> 1 then True else list_ex (\<lambda>x. x \<noteq> S \<and> has os m x \<noteq> 0) mask_signals)"

text \<open>\<^verbatim>\<open>8-1.c\<close>, \<^verbatim>\<open>8-2.c\<close> and \<^verbatim>\<open>8-3.c\<close> differ in the argument of the second call, which must not matter.\<close>

definition mask_kept :: "how \<Rightarrow> nat \<Rightarrow> ('q, 'w, 'z) sigk_scheme \<Rightarrow> 'q \<Rightarrow> 'w \<Rightarrow> wstatus outcome" where
  "mask_kept hw n os q = run_main
     (pbind (unblocking n os idle_handler (k_sigprocmask os SIG_SETMASK (Some (plus_sig os S_ABRT (empty_set os q))))) (\<lambda>_.
      pbind (unblocking n os idle_handler (k_sigprocmask os hw None)) (\<lambda>(rc, e, oactl).
      exit_with (if is_changed os oactl S_ABRT then PTS_FAIL else PTS_PASS)))) ()"

definition sigprocmask_8_1 :: "nat \<Rightarrow> ('q, 'w, 'z) sigk_scheme \<Rightarrow> 'q \<Rightarrow> 'w \<Rightarrow> wstatus outcome" where
  "sigprocmask_8_1 = mask_kept SIG_BLOCK"

definition sigprocmask_8_2 :: "nat \<Rightarrow> ('q, 'w, 'z) sigk_scheme \<Rightarrow> 'q \<Rightarrow> 'w \<Rightarrow> wstatus outcome" where
  "sigprocmask_8_2 = mask_kept SIG_SETMASK"

definition sigprocmask_8_3 :: "nat \<Rightarrow> ('q, 'w, 'z) sigk_scheme \<Rightarrow> 'q \<Rightarrow> 'w \<Rightarrow> wstatus outcome" where
  "sigprocmask_8_3 = mask_kept SIG_UNBLOCK"

text \<open>\<^verbatim>\<open>9-1.c\<close>: the variables are \<^verbatim>\<open>handler_called\<close> and \<^verbatim>\<open>sigprocmask_return_val\<close>; the handler must run before the call has returned.\<close>

definition before_return_handler :: "(int \<times> int, 'w) handlers" where
  "before_return_handler i rs signo info =
     pbind (pmod (\<lambda>(c, r). (1, r))) (\<lambda>_. pbind pget (\<lambda>(c, r). if r \<noteq> 1 then exit_with PTS_FAIL else pret ()))"

definition sigprocmask_9_1 :: "nat \<Rightarrow> ('q, 'w, 'z) sigk_scheme \<Rightarrow> 'q \<Rightarrow> 'w \<Rightarrow> wstatus outcome" where
  "sigprocmask_9_1 n os q = run_main
     (let set1 = plus_sig os S_ABRT (empty_set os q) in
      pbind (set_action os S_ABRT (Fn 1) {} (empty_set os q)) (\<lambda>rc.
      if rc = - 1 then exit_with PTS_UNRESOLVED else
      pbind (unblocking n os before_return_handler (k_sigprocmask os SIG_SETMASK (Some set1))) (\<lambda>(rc, e, _).
      if rc = - 1 then exit_with PTS_UNRESOLVED else
      pbind (praise n os before_return_handler (sg_no os S_ABRT)) (\<lambda>rc.
      if rc = - 1 then exit_with PTS_UNRESOLVED else
      pbind (unblocking n os before_return_handler (k_sigprocmask os SIG_UNBLOCK (Some set1))) (\<lambda>(rc, e, _).
      pbind (pmod (\<lambda>(c, r). (c, rc))) (\<lambda>_.
      if rc \<noteq> 0 then exit_with PTS_UNRESOLVED else
      pbind pget (\<lambda>(c, r). exit_with (if c \<noteq> 1 then PTS_UNRESOLVED else PTS_PASS)))))))) (0, 1)"

definition sigprocmask_10_1 :: "nat \<Rightarrow> ('q, 'w, 'z) sigk_scheme \<Rightarrow> 'q \<Rightarrow> 'w \<Rightarrow> wstatus outcome" where
  "sigprocmask_10_1 n os q = run_main
     (pbind (unblocking n os idle_handler (k_sigprocmask os SIG_SETMASK (Some (plus_sig os S_STOP (plus_sig os S_KILL (empty_set os q))))))
        (\<lambda>(rc1, e, _).
      pbind (unblocking n os idle_handler (k_sigprocmask os SIG_SETMASK None)) (\<lambda>(rc, e, set2).
      exit_with (if has os set2 S_KILL \<noteq> 0 then PTS_FAIL else if has os set2 S_STOP \<noteq> 0 then PTS_FAIL
        else if rc1 = - 1 then PTS_FAIL else PTS_PASS)))) ()"

text \<open>\<^verbatim>\<open>12-1.c\<close>: \<open>rs\<close> are the values of \<^verbatim>\<open>rand\<close>, read as arguments of \<^verbatim>\<open>sigprocmask\<close>.\<close>

fun get_rand :: "how list \<Rightarrow> how outcome" where
  "get_rand [] = Loop"
| "get_rand (How_other k # rs) = Ret (How_other k)"
| "get_rand (r # rs) = get_rand rs"

definition sigprocmask_12_1 :: "nat \<Rightarrow> how list \<Rightarrow> ('q, 'w, 'z) sigk_scheme \<Rightarrow> 'q \<Rightarrow> 'w \<Rightarrow> wstatus outcome" where
  "sigprocmask_12_1 n rs os q w =
     obind (get_rand rs) (\<lambda>r. run_main
       (let actl = plus_sig os S_ABRT (empty_set os q) in
        pbind (unblocking n os idle_handler (k_sigprocmask os SIG_SETMASK (Some actl))) (\<lambda>_.
        pbind (unblocking n os idle_handler (k_sigprocmask os r (Some (plus_sig os S_ALRM actl)))) (\<lambda>(rc, e, _).
        if rc \<noteq> - 1 then exit_with PTS_UNRESOLVED else
        pbind (unblocking n os idle_handler (k_sigprocmask os SIG_SETMASK None)) (\<lambda>(rc, e, oactl).
        exit_with (if has os oactl S_ABRT \<noteq> 1 then PTS_FAIL
          else if list_ex (\<lambda>x. has os oactl x \<noteq> 0) (tl mask_signals) then PTS_FAIL else PTS_PASS))))) () w)"

text \<open>\<^verbatim>\<open>15-1.c\<close> and \<^verbatim>\<open>17-core-buildonly.c\<close> add a signal to a set that is not initialised. In the second the number chosen by the argument is never used;
  \<open>r\<close> is the value of \<^verbatim>\<open>rand\<close>.\<close>

definition sigprocmask_15_1 :: "nat \<Rightarrow> ('q, 'w, 'z) sigk_scheme \<Rightarrow> 'q \<Rightarrow> 'w \<Rightarrow> wstatus outcome" where
  "sigprocmask_15_1 n os q = run_main
     (pbind (unblocking n os idle_handler (k_sigprocmask os SIG_SETMASK (Some (plus_sig os S_ABRT q)))) (\<lambda>(rc, e, _).
      exit_with (if rc \<noteq> 0 then PTS_FAIL else PTS_PASS))) ()"

definition sigprocmask_17_core :: "nat \<Rightarrow> how \<Rightarrow> ('q, 'w, 'z) sigk_scheme \<Rightarrow> string list \<Rightarrow> 'q \<Rightarrow> 'w \<Rightarrow> wstatus outcome" where
  "sigprocmask_17_core n r os args q = run_main
     (if args = [] then exit_with PTS_UNRESOLVED
      else if wrong_signo (arg0 args) = None then exit_with PTS_UNRESOLVED else
      pbind (unblocking n os idle_handler (k_sigprocmask os r (Some (plus_sig os S_ABRT q)))) (\<lambda>(rc, e, _).
      if rc = - 1 then exit_with (if e = EINVAL then PTS_PASS else PTS_FAIL) else exit_with PTS_FAIL)) ()"

section \<open>sigpending\<close>

text \<open>The calls of \<^verbatim>\<open>sigaddset\<close> joined by \<^verbatim>\<open>||\<close>; \<open>None\<close>: one of them failed.\<close>

fun add_all :: "('q, 'z) sig_api_scheme \<Rightarrow> signame list \<Rightarrow> 'q \<Rightarrow> 'q option" where
  "add_all os [] q = Some q"
| "add_all os (S # ss) q = (let (rc, e, q1) = sg_add os q (sg_no os S) in if rc = - 1 then None else add_all os ss q1)"

text \<open>The sets are distinct objects that all hold \<open>q\<close> at first.\<close>

definition sigpending_1_1 :: "nat \<Rightarrow> ('q, 'w, 'z) sigk_scheme \<Rightarrow> 'q \<Rightarrow> 'w \<Rightarrow> wstatus outcome" where
  "sigpending_1_1 n os q = run_main
     (if fst (sg_empty os q) = - 1 then exit_with PTS_UNRESOLVED
      else case add_all os [S_ALRM, S_HUP, S_QUIT] (empty_set os q) of
        None \<Rightarrow> exit_with PTS_UNRESOLVED
      | Some blockset \<Rightarrow>
          pbind (unblocking n os idle_handler (k_sigprocmask os SIG_SETMASK (Some blockset))) (\<lambda>(rc, e, prevset).
          if rc = - 1 then exit_with PTS_UNRESOLVED else
          pbind (praise n os idle_handler (sg_no os S_ALRM)) (\<lambda>rc.
          if rc \<noteq> 0 then exit_with PTS_UNRESOLVED else
          pbind (praise n os idle_handler (sg_no os S_QUIT)) (\<lambda>rc.
          if rc \<noteq> 0 then exit_with PTS_UNRESOLVED else
          pbind (kern (k_sigpending os)) (\<lambda>(rc, pendingset).
          if rc = - 1 then exit_with PTS_UNRESOLVED
          else exit_with (if has os pendingset S_ALRM = 1 \<and> has os pendingset S_QUIT = 1 \<and> has os pendingset S_HUP = 0
            then PTS_PASS else PTS_FAIL)))))) ()"

text \<open>\<^verbatim>\<open>1-2.c\<close> and \<^verbatim>\<open>1-3.c\<close>: the handler of \<^verbatim>\<open>SIGTTOU\<close> raises two signals and ends the process: with 0 when these are pending and the others are not.\<close>

definition two_pending :: "('q, 'w, 'z) sigk_scheme \<Rightarrow> 'q \<Rightarrow> signame \<Rightarrow> signame \<Rightarrow> signame list \<Rightarrow> (unit, 'w) handlers" where
  "two_pending os q x y others i rs signo info =
     (if fst (sg_empty os q) = - 1 then exit_with (- 1) else
      pbind (rs (sg_no os x)) (\<lambda>rc.
      if rc \<noteq> 0 then exit_with (- 1) else
      pbind (rs (sg_no os y)) (\<lambda>rc.
      if rc \<noteq> 0 then exit_with (- 1) else
      pbind (kern (k_sigpending os)) (\<lambda>(rc, pendingset).
      if rc = - 1 then exit_with (- 1)
      else exit_with (if has os pendingset x = 1 \<and> has os pendingset y = 1 \<and> list_all (\<lambda>z. has os pendingset z = 0) others then 0 else - 1)))))"

definition sigpending_1_2 :: "nat \<Rightarrow> ('q, 'w, 'z) sigk_scheme \<Rightarrow> 'q \<Rightarrow> 'w \<Rightarrow> wstatus outcome" where
  "sigpending_1_2 n os q = run_main
     (if fst (sg_empty os q) = - 1 then exit_with PTS_UNRESOLVED
      else case add_all os [S_CONT, S_HUP, S_USR1] (empty_set os q) of
        None \<Rightarrow> exit_with PTS_UNRESOLVED
      | Some m \<Rightarrow>
          pbind (set_action os S_TTOU (Fn 1) {} m) (\<lambda>rc.
          if rc = - 1 then exit_with PTS_UNRESOLVED else
          pbind (praise n os (two_pending os q S_CONT S_USR1 [S_HUP]) (sg_no os S_TTOU)) (\<lambda>rc. exit_with PTS_UNRESOLVED))) ()"

definition sigpending_1_3 :: "nat \<Rightarrow> ('q, 'w, 'z) sigk_scheme \<Rightarrow> 'q \<Rightarrow> 'w \<Rightarrow> wstatus outcome" where
  "sigpending_1_3 n os q = run_main
     (let H = two_pending os q S_ALRM S_CONT [S_HUP, S_ABRT, S_USR1] in
      if fst (sg_empty os q) = - 1 then exit_with PTS_UNRESOLVED
      else case add_all os [S_ALRM, S_HUP] (empty_set os q) of
        None \<Rightarrow> exit_with PTS_UNRESOLVED
      | Some blockset \<Rightarrow>
          pbind (unblocking n os H (k_sigprocmask os SIG_SETMASK (Some blockset))) (\<lambda>(rc, e, prevset).
          if rc = - 1 then exit_with PTS_UNRESOLVED
          else case add_all os [S_CONT, S_ABRT, S_USR1] (empty_set os q) of
            None \<Rightarrow> exit_with PTS_UNRESOLVED
          | Some m \<Rightarrow>
              pbind (set_action os S_TTOU (Fn 1) {} m) (\<lambda>rc.
              if rc = - 1 then exit_with PTS_UNRESOLVED else
              pbind (praise n os H (sg_no os S_TTOU)) (\<lambda>rc. exit_with PTS_UNRESOLVED)))) ()"

definition sigpending_2_1 :: "nat \<Rightarrow> ('q, 'w, 'z) sigk_scheme \<Rightarrow> 'q \<Rightarrow> 'w \<Rightarrow> wstatus outcome" where
  "sigpending_2_1 n os q = run_main
     (if fst (sg_empty os q) = - 1 then exit_with PTS_UNRESOLVED
      else case add_all os [S_ALRM] (empty_set os q) of
        None \<Rightarrow> exit_with PTS_UNRESOLVED
      | Some blockset \<Rightarrow>
          pbind (unblocking n os idle_handler (k_sigprocmask os SIG_SETMASK (Some blockset))) (\<lambda>(rc, e, prevset).
          if rc = - 1 then exit_with PTS_UNRESOLVED else
          pbind (praise n os idle_handler (sg_no os S_ALRM)) (\<lambda>rc.
          if rc \<noteq> 0 then exit_with PTS_UNRESOLVED else
          pbind (kern (k_sigpending os)) (\<lambda>(rc, pendingset).
          if rc = 0 then exit_with (if has os pendingset S_ALRM = 1 then PTS_PASS else PTS_FAIL) else exit_with PTS_FAIL)))) ()"

end
