(* ===== verification/Sigaction_Files.thy ===== *)
theory Sigaction_Files
  imports Sigaction_Tests
begin

text \<open>
  One definition for each program of \<^verbatim>\<open>conformance/interfaces/sigaction\<close> that a family of \<open>Sigaction_Tests\<close> describes: \<open>sigaction_1_7\<close> is
  \<^verbatim>\<open>sigaction/1-7.c\<close>. The files of a family are listed in the order of their numbers, which is the order of \<open>test_signals\<close>.
\<close>

type_synonym ('q, 'w, 'z) program = "nat \<Rightarrow> ('q, 'w, 'z) sigk_scheme \<Rightarrow> 'q \<Rightarrow> 'w \<Rightarrow> wstatus outcome"

definition test_signals :: "signame list" where
  "test_signals = [S_ABRT, S_ALRM, S_BUS, S_CHLD, S_CONT, S_FPE, S_HUP, S_ILL, S_INT, S_PIPE, S_QUIT, S_SEGV, S_TERM, S_TSTP, S_TTIN, S_TTOU, S_USR1, S_USR2, S_POLL, S_PROF, S_SYS, S_TRAP, S_URG, S_VTALRM, S_XCPU, S_XFSZ]"

section \<open>\<^verbatim>\<open>1-1.c\<close> to \<^verbatim>\<open>1-26.c\<close>\<close>

definition sigaction_1_1 :: "('q, 'w, 'z) program" where
  "sigaction_1_1 = sigaction_1 S_ABRT"

definition sigaction_1_2 :: "('q, 'w, 'z) program" where
  "sigaction_1_2 = sigaction_1 S_ALRM"

definition sigaction_1_3 :: "('q, 'w, 'z) program" where
  "sigaction_1_3 = sigaction_1 S_BUS"

definition sigaction_1_4 :: "('q, 'w, 'z) program" where
  "sigaction_1_4 = sigaction_1 S_CHLD"

definition sigaction_1_5 :: "('q, 'w, 'z) program" where
  "sigaction_1_5 = sigaction_1 S_CONT"

definition sigaction_1_6 :: "('q, 'w, 'z) program" where
  "sigaction_1_6 = sigaction_1 S_FPE"

definition sigaction_1_7 :: "('q, 'w, 'z) program" where
  "sigaction_1_7 = sigaction_1 S_HUP"

definition sigaction_1_8 :: "('q, 'w, 'z) program" where
  "sigaction_1_8 = sigaction_1 S_ILL"

definition sigaction_1_9 :: "('q, 'w, 'z) program" where
  "sigaction_1_9 = sigaction_1 S_INT"

definition sigaction_1_10 :: "('q, 'w, 'z) program" where
  "sigaction_1_10 = sigaction_1 S_PIPE"

definition sigaction_1_11 :: "('q, 'w, 'z) program" where
  "sigaction_1_11 = sigaction_1 S_QUIT"

definition sigaction_1_12 :: "('q, 'w, 'z) program" where
  "sigaction_1_12 = sigaction_1 S_SEGV"

definition sigaction_1_13 :: "('q, 'w, 'z) program" where
  "sigaction_1_13 = sigaction_1 S_TERM"

definition sigaction_1_14 :: "('q, 'w, 'z) program" where
  "sigaction_1_14 = sigaction_1 S_TSTP"

definition sigaction_1_15 :: "('q, 'w, 'z) program" where
  "sigaction_1_15 = sigaction_1 S_TTIN"

definition sigaction_1_16 :: "('q, 'w, 'z) program" where
  "sigaction_1_16 = sigaction_1 S_TTOU"

definition sigaction_1_17 :: "('q, 'w, 'z) program" where
  "sigaction_1_17 = sigaction_1 S_USR1"

definition sigaction_1_18 :: "('q, 'w, 'z) program" where
  "sigaction_1_18 = sigaction_1 S_USR2"

definition sigaction_1_19 :: "('q, 'w, 'z) program" where
  "sigaction_1_19 = sigaction_1 S_POLL"

definition sigaction_1_20 :: "('q, 'w, 'z) program" where
  "sigaction_1_20 = sigaction_1 S_PROF"

definition sigaction_1_21 :: "('q, 'w, 'z) program" where
  "sigaction_1_21 = sigaction_1 S_SYS"

definition sigaction_1_22 :: "('q, 'w, 'z) program" where
  "sigaction_1_22 = sigaction_1 S_TRAP"

definition sigaction_1_23 :: "('q, 'w, 'z) program" where
  "sigaction_1_23 = sigaction_1 S_URG"

definition sigaction_1_24 :: "('q, 'w, 'z) program" where
  "sigaction_1_24 = sigaction_1 S_VTALRM"

definition sigaction_1_25 :: "('q, 'w, 'z) program" where
  "sigaction_1_25 = sigaction_1 S_XCPU"

definition sigaction_1_26 :: "('q, 'w, 'z) program" where
  "sigaction_1_26 = sigaction_1 S_XFSZ"

definition files_1_1 :: "('q, 'w, 'z) program list" where
  "files_1_1 = [sigaction_1_1, sigaction_1_2, sigaction_1_3, sigaction_1_4, sigaction_1_5, sigaction_1_6, sigaction_1_7, sigaction_1_8,
     sigaction_1_9, sigaction_1_10, sigaction_1_11, sigaction_1_12, sigaction_1_13, sigaction_1_14, sigaction_1_15, sigaction_1_16,
     sigaction_1_17, sigaction_1_18, sigaction_1_19, sigaction_1_20, sigaction_1_21, sigaction_1_22, sigaction_1_23, sigaction_1_24,
     sigaction_1_25, sigaction_1_26]"

lemma files_1_1_eq: "files_1_1 = map sigaction_1 test_signals"
  by (simp add: files_1_1_def test_signals_def
      sigaction_1_1_def sigaction_1_2_def sigaction_1_3_def sigaction_1_4_def sigaction_1_5_def sigaction_1_6_def
      sigaction_1_7_def sigaction_1_8_def sigaction_1_9_def sigaction_1_10_def sigaction_1_11_def sigaction_1_12_def
      sigaction_1_13_def sigaction_1_14_def sigaction_1_15_def sigaction_1_16_def sigaction_1_17_def sigaction_1_18_def
      sigaction_1_19_def sigaction_1_20_def sigaction_1_21_def sigaction_1_22_def sigaction_1_23_def sigaction_1_24_def
      sigaction_1_25_def sigaction_1_26_def)

section \<open>\<^verbatim>\<open>2-1.c\<close> to \<^verbatim>\<open>2-26.c\<close>\<close>

definition sigaction_2_1 :: "('q, 'w, 'z) program" where
  "sigaction_2_1 = sigaction_2 S_ABRT"

definition sigaction_2_2 :: "('q, 'w, 'z) program" where
  "sigaction_2_2 = sigaction_2 S_ALRM"

definition sigaction_2_3 :: "('q, 'w, 'z) program" where
  "sigaction_2_3 = sigaction_2 S_BUS"

definition sigaction_2_4 :: "('q, 'w, 'z) program" where
  "sigaction_2_4 = sigaction_2 S_CHLD"

definition sigaction_2_5 :: "('q, 'w, 'z) program" where
  "sigaction_2_5 = sigaction_2 S_CONT"

definition sigaction_2_6 :: "('q, 'w, 'z) program" where
  "sigaction_2_6 = sigaction_2 S_FPE"

definition sigaction_2_7 :: "('q, 'w, 'z) program" where
  "sigaction_2_7 = sigaction_2 S_HUP"

definition sigaction_2_8 :: "('q, 'w, 'z) program" where
  "sigaction_2_8 = sigaction_2 S_ILL"

definition sigaction_2_9 :: "('q, 'w, 'z) program" where
  "sigaction_2_9 = sigaction_2 S_INT"

definition sigaction_2_10 :: "('q, 'w, 'z) program" where
  "sigaction_2_10 = sigaction_2 S_PIPE"

definition sigaction_2_11 :: "('q, 'w, 'z) program" where
  "sigaction_2_11 = sigaction_2 S_QUIT"

definition sigaction_2_12 :: "('q, 'w, 'z) program" where
  "sigaction_2_12 = sigaction_2 S_SEGV"

definition sigaction_2_13 :: "('q, 'w, 'z) program" where
  "sigaction_2_13 = sigaction_2 S_TERM"

definition sigaction_2_14 :: "('q, 'w, 'z) program" where
  "sigaction_2_14 = sigaction_2 S_TSTP"

definition sigaction_2_15 :: "('q, 'w, 'z) program" where
  "sigaction_2_15 = sigaction_2 S_TTIN"

definition sigaction_2_16 :: "('q, 'w, 'z) program" where
  "sigaction_2_16 = sigaction_2 S_TTOU"

definition sigaction_2_17 :: "('q, 'w, 'z) program" where
  "sigaction_2_17 = sigaction_2 S_USR1"

definition sigaction_2_18 :: "('q, 'w, 'z) program" where
  "sigaction_2_18 = sigaction_2 S_USR2"

definition sigaction_2_19 :: "('q, 'w, 'z) program" where
  "sigaction_2_19 = sigaction_2 S_POLL"

definition sigaction_2_20 :: "('q, 'w, 'z) program" where
  "sigaction_2_20 = sigaction_2 S_PROF"

definition sigaction_2_21 :: "('q, 'w, 'z) program" where
  "sigaction_2_21 = sigaction_2 S_SYS"

definition sigaction_2_22 :: "('q, 'w, 'z) program" where
  "sigaction_2_22 = sigaction_2 S_TRAP"

definition sigaction_2_23 :: "('q, 'w, 'z) program" where
  "sigaction_2_23 = sigaction_2 S_URG"

definition sigaction_2_24 :: "('q, 'w, 'z) program" where
  "sigaction_2_24 = sigaction_2 S_VTALRM"

definition sigaction_2_25 :: "('q, 'w, 'z) program" where
  "sigaction_2_25 = sigaction_2 S_XCPU"

definition sigaction_2_26 :: "('q, 'w, 'z) program" where
  "sigaction_2_26 = sigaction_2 S_XFSZ"

definition files_2_1 :: "('q, 'w, 'z) program list" where
  "files_2_1 = [sigaction_2_1, sigaction_2_2, sigaction_2_3, sigaction_2_4, sigaction_2_5, sigaction_2_6, sigaction_2_7, sigaction_2_8,
     sigaction_2_9, sigaction_2_10, sigaction_2_11, sigaction_2_12, sigaction_2_13, sigaction_2_14, sigaction_2_15, sigaction_2_16,
     sigaction_2_17, sigaction_2_18, sigaction_2_19, sigaction_2_20, sigaction_2_21, sigaction_2_22, sigaction_2_23, sigaction_2_24,
     sigaction_2_25, sigaction_2_26]"

lemma files_2_1_eq: "files_2_1 = map sigaction_2 test_signals"
  by (simp add: files_2_1_def test_signals_def
      sigaction_2_1_def sigaction_2_2_def sigaction_2_3_def sigaction_2_4_def sigaction_2_5_def sigaction_2_6_def
      sigaction_2_7_def sigaction_2_8_def sigaction_2_9_def sigaction_2_10_def sigaction_2_11_def sigaction_2_12_def
      sigaction_2_13_def sigaction_2_14_def sigaction_2_15_def sigaction_2_16_def sigaction_2_17_def sigaction_2_18_def
      sigaction_2_19_def sigaction_2_20_def sigaction_2_21_def sigaction_2_22_def sigaction_2_23_def sigaction_2_24_def
      sigaction_2_25_def sigaction_2_26_def)

section \<open>\<^verbatim>\<open>3-1.c\<close> to \<^verbatim>\<open>3-26.c\<close>\<close>

definition sigaction_3_1 :: "('q, 'w, 'z) program" where
  "sigaction_3_1 = sigaction_3 S_ABRT"

definition sigaction_3_2 :: "('q, 'w, 'z) program" where
  "sigaction_3_2 = sigaction_3 S_ALRM"

definition sigaction_3_3 :: "('q, 'w, 'z) program" where
  "sigaction_3_3 = sigaction_3 S_BUS"

definition sigaction_3_4 :: "('q, 'w, 'z) program" where
  "sigaction_3_4 = sigaction_3 S_CHLD"

definition sigaction_3_5 :: "('q, 'w, 'z) program" where
  "sigaction_3_5 = sigaction_3 S_CONT"

definition sigaction_3_6 :: "('q, 'w, 'z) program" where
  "sigaction_3_6 = sigaction_3 S_FPE"

definition sigaction_3_7 :: "('q, 'w, 'z) program" where
  "sigaction_3_7 = sigaction_3 S_HUP"

definition sigaction_3_8 :: "('q, 'w, 'z) program" where
  "sigaction_3_8 = sigaction_3 S_ILL"

definition sigaction_3_9 :: "('q, 'w, 'z) program" where
  "sigaction_3_9 = sigaction_3 S_INT"

definition sigaction_3_10 :: "('q, 'w, 'z) program" where
  "sigaction_3_10 = sigaction_3 S_PIPE"

definition sigaction_3_11 :: "('q, 'w, 'z) program" where
  "sigaction_3_11 = sigaction_3 S_QUIT"

definition sigaction_3_12 :: "('q, 'w, 'z) program" where
  "sigaction_3_12 = sigaction_3 S_SEGV"

definition sigaction_3_13 :: "('q, 'w, 'z) program" where
  "sigaction_3_13 = sigaction_3 S_TERM"

definition sigaction_3_14 :: "('q, 'w, 'z) program" where
  "sigaction_3_14 = sigaction_3 S_TSTP"

definition sigaction_3_15 :: "('q, 'w, 'z) program" where
  "sigaction_3_15 = sigaction_3 S_TTIN"

definition sigaction_3_16 :: "('q, 'w, 'z) program" where
  "sigaction_3_16 = sigaction_3 S_TTOU"

definition sigaction_3_17 :: "('q, 'w, 'z) program" where
  "sigaction_3_17 = sigaction_3 S_USR1"

definition sigaction_3_18 :: "('q, 'w, 'z) program" where
  "sigaction_3_18 = sigaction_3 S_USR2"

definition sigaction_3_19 :: "('q, 'w, 'z) program" where
  "sigaction_3_19 = sigaction_3 S_POLL"

definition sigaction_3_20 :: "('q, 'w, 'z) program" where
  "sigaction_3_20 = sigaction_3 S_PROF"

definition sigaction_3_21 :: "('q, 'w, 'z) program" where
  "sigaction_3_21 = sigaction_3 S_SYS"

definition sigaction_3_22 :: "('q, 'w, 'z) program" where
  "sigaction_3_22 = sigaction_3 S_TRAP"

definition sigaction_3_23 :: "('q, 'w, 'z) program" where
  "sigaction_3_23 = sigaction_3 S_URG"

definition sigaction_3_24 :: "('q, 'w, 'z) program" where
  "sigaction_3_24 = sigaction_3 S_VTALRM"

definition sigaction_3_25 :: "('q, 'w, 'z) program" where
  "sigaction_3_25 = sigaction_3 S_XCPU"

definition sigaction_3_26 :: "('q, 'w, 'z) program" where
  "sigaction_3_26 = sigaction_3 S_XFSZ"

definition files_3_1 :: "('q, 'w, 'z) program list" where
  "files_3_1 = [sigaction_3_1, sigaction_3_2, sigaction_3_3, sigaction_3_4, sigaction_3_5, sigaction_3_6, sigaction_3_7, sigaction_3_8,
     sigaction_3_9, sigaction_3_10, sigaction_3_11, sigaction_3_12, sigaction_3_13, sigaction_3_14, sigaction_3_15, sigaction_3_16,
     sigaction_3_17, sigaction_3_18, sigaction_3_19, sigaction_3_20, sigaction_3_21, sigaction_3_22, sigaction_3_23, sigaction_3_24,
     sigaction_3_25, sigaction_3_26]"

lemma files_3_1_eq: "files_3_1 = map sigaction_3 test_signals"
  by (simp add: files_3_1_def test_signals_def
      sigaction_3_1_def sigaction_3_2_def sigaction_3_3_def sigaction_3_4_def sigaction_3_5_def sigaction_3_6_def
      sigaction_3_7_def sigaction_3_8_def sigaction_3_9_def sigaction_3_10_def sigaction_3_11_def sigaction_3_12_def
      sigaction_3_13_def sigaction_3_14_def sigaction_3_15_def sigaction_3_16_def sigaction_3_17_def sigaction_3_18_def
      sigaction_3_19_def sigaction_3_20_def sigaction_3_21_def sigaction_3_22_def sigaction_3_23_def sigaction_3_24_def
      sigaction_3_25_def sigaction_3_26_def)

section \<open>\<^verbatim>\<open>4-1.c\<close> to \<^verbatim>\<open>4-26.c\<close>\<close>

definition sigaction_4_1 :: "('q, 'w, 'z) program" where
  "sigaction_4_1 = sigaction_4_kill S_ABRT"

definition sigaction_4_2 :: "('q, 'w, 'z) program" where
  "sigaction_4_2 = sigaction_4_kill S_ALRM"

definition sigaction_4_3 :: "('q, 'w, 'z) program" where
  "sigaction_4_3 = sigaction_4_kill S_BUS"

definition sigaction_4_4 :: "('q, 'w, 'z) program" where
  "sigaction_4_4 = sigaction_4_kill S_CHLD"

definition sigaction_4_5 :: "('q, 'w, 'z) program" where
  "sigaction_4_5 = sigaction_4_kill S_CONT"

definition sigaction_4_6 :: "('q, 'w, 'z) program" where
  "sigaction_4_6 = sigaction_4_kill S_FPE"

definition sigaction_4_7 :: "('q, 'w, 'z) program" where
  "sigaction_4_7 = sigaction_4_kill S_HUP"

definition sigaction_4_8 :: "('q, 'w, 'z) program" where
  "sigaction_4_8 = sigaction_4_kill S_ILL"

definition sigaction_4_9 :: "('q, 'w, 'z) program" where
  "sigaction_4_9 = sigaction_4_kill S_INT"

definition sigaction_4_10 :: "('q, 'w, 'z) program" where
  "sigaction_4_10 = sigaction_4_kill S_PIPE"

definition sigaction_4_11 :: "('q, 'w, 'z) program" where
  "sigaction_4_11 = sigaction_4_kill S_QUIT"

definition sigaction_4_12 :: "('q, 'w, 'z) program" where
  "sigaction_4_12 = sigaction_4_kill S_SEGV"

definition sigaction_4_13 :: "('q, 'w, 'z) program" where
  "sigaction_4_13 = sigaction_4_kill S_TERM"

definition sigaction_4_14 :: "('q, 'w, 'z) program" where
  "sigaction_4_14 = sigaction_4_kill S_TSTP"

definition sigaction_4_15 :: "('q, 'w, 'z) program" where
  "sigaction_4_15 = sigaction_4_kill S_TTIN"

definition sigaction_4_16 :: "('q, 'w, 'z) program" where
  "sigaction_4_16 = sigaction_4_kill S_TTOU"

definition sigaction_4_17 :: "('q, 'w, 'z) program" where
  "sigaction_4_17 = sigaction_4_kill S_USR1"

definition sigaction_4_18 :: "('q, 'w, 'z) program" where
  "sigaction_4_18 = sigaction_4_kill S_USR2"

definition sigaction_4_19 :: "('q, 'w, 'z) program" where
  "sigaction_4_19 = sigaction_4_kill S_POLL"

definition sigaction_4_20 :: "('q, 'w, 'z) program" where
  "sigaction_4_20 = sigaction_4_kill S_PROF"

definition sigaction_4_21 :: "('q, 'w, 'z) program" where
  "sigaction_4_21 = sigaction_4_kill S_SYS"

definition sigaction_4_22 :: "('q, 'w, 'z) program" where
  "sigaction_4_22 = sigaction_4_kill S_TRAP"

definition sigaction_4_23 :: "('q, 'w, 'z) program" where
  "sigaction_4_23 = sigaction_4_kill S_URG"

definition sigaction_4_24 :: "('q, 'w, 'z) program" where
  "sigaction_4_24 = sigaction_4_kill S_VTALRM"

definition sigaction_4_25 :: "('q, 'w, 'z) program" where
  "sigaction_4_25 = sigaction_4_kill S_XCPU"

definition sigaction_4_26 :: "('q, 'w, 'z) program" where
  "sigaction_4_26 = sigaction_4_kill S_XFSZ"

definition files_4_1 :: "('q, 'w, 'z) program list" where
  "files_4_1 = [sigaction_4_1, sigaction_4_2, sigaction_4_3, sigaction_4_4, sigaction_4_5, sigaction_4_6, sigaction_4_7, sigaction_4_8,
     sigaction_4_9, sigaction_4_10, sigaction_4_11, sigaction_4_12, sigaction_4_13, sigaction_4_14, sigaction_4_15, sigaction_4_16,
     sigaction_4_17, sigaction_4_18, sigaction_4_19, sigaction_4_20, sigaction_4_21, sigaction_4_22, sigaction_4_23, sigaction_4_24,
     sigaction_4_25, sigaction_4_26]"

lemma files_4_1_eq: "files_4_1 = map sigaction_4_kill test_signals"
  by (simp add: files_4_1_def test_signals_def
      sigaction_4_1_def sigaction_4_2_def sigaction_4_3_def sigaction_4_4_def sigaction_4_5_def sigaction_4_6_def
      sigaction_4_7_def sigaction_4_8_def sigaction_4_9_def sigaction_4_10_def sigaction_4_11_def sigaction_4_12_def
      sigaction_4_13_def sigaction_4_14_def sigaction_4_15_def sigaction_4_16_def sigaction_4_17_def sigaction_4_18_def
      sigaction_4_19_def sigaction_4_20_def sigaction_4_21_def sigaction_4_22_def sigaction_4_23_def sigaction_4_24_def
      sigaction_4_25_def sigaction_4_26_def)

section \<open>\<^verbatim>\<open>4-27.c\<close> to \<^verbatim>\<open>4-52.c\<close>\<close>

definition sigaction_4_27 :: "('q, 'w, 'z) program" where
  "sigaction_4_27 = sigaction_4_stop S_ABRT"

definition sigaction_4_28 :: "('q, 'w, 'z) program" where
  "sigaction_4_28 = sigaction_4_stop S_ALRM"

definition sigaction_4_29 :: "('q, 'w, 'z) program" where
  "sigaction_4_29 = sigaction_4_stop S_BUS"

definition sigaction_4_30 :: "('q, 'w, 'z) program" where
  "sigaction_4_30 = sigaction_4_stop S_CHLD"

definition sigaction_4_31 :: "('q, 'w, 'z) program" where
  "sigaction_4_31 = sigaction_4_stop S_CONT"

definition sigaction_4_32 :: "('q, 'w, 'z) program" where
  "sigaction_4_32 = sigaction_4_stop S_FPE"

definition sigaction_4_33 :: "('q, 'w, 'z) program" where
  "sigaction_4_33 = sigaction_4_stop S_HUP"

definition sigaction_4_34 :: "('q, 'w, 'z) program" where
  "sigaction_4_34 = sigaction_4_stop S_ILL"

definition sigaction_4_35 :: "('q, 'w, 'z) program" where
  "sigaction_4_35 = sigaction_4_stop S_INT"

definition sigaction_4_36 :: "('q, 'w, 'z) program" where
  "sigaction_4_36 = sigaction_4_stop S_PIPE"

definition sigaction_4_37 :: "('q, 'w, 'z) program" where
  "sigaction_4_37 = sigaction_4_stop S_QUIT"

definition sigaction_4_38 :: "('q, 'w, 'z) program" where
  "sigaction_4_38 = sigaction_4_stop S_SEGV"

definition sigaction_4_39 :: "('q, 'w, 'z) program" where
  "sigaction_4_39 = sigaction_4_stop S_TERM"

definition sigaction_4_40 :: "('q, 'w, 'z) program" where
  "sigaction_4_40 = sigaction_4_stop S_TSTP"

definition sigaction_4_41 :: "('q, 'w, 'z) program" where
  "sigaction_4_41 = sigaction_4_stop S_TTIN"

definition sigaction_4_42 :: "('q, 'w, 'z) program" where
  "sigaction_4_42 = sigaction_4_stop S_TTOU"

definition sigaction_4_43 :: "('q, 'w, 'z) program" where
  "sigaction_4_43 = sigaction_4_stop S_USR1"

definition sigaction_4_44 :: "('q, 'w, 'z) program" where
  "sigaction_4_44 = sigaction_4_stop S_USR2"

definition sigaction_4_45 :: "('q, 'w, 'z) program" where
  "sigaction_4_45 = sigaction_4_stop S_POLL"

definition sigaction_4_46 :: "('q, 'w, 'z) program" where
  "sigaction_4_46 = sigaction_4_stop S_PROF"

definition sigaction_4_47 :: "('q, 'w, 'z) program" where
  "sigaction_4_47 = sigaction_4_stop S_SYS"

definition sigaction_4_48 :: "('q, 'w, 'z) program" where
  "sigaction_4_48 = sigaction_4_stop S_TRAP"

definition sigaction_4_49 :: "('q, 'w, 'z) program" where
  "sigaction_4_49 = sigaction_4_stop S_URG"

definition sigaction_4_50 :: "('q, 'w, 'z) program" where
  "sigaction_4_50 = sigaction_4_stop S_VTALRM"

definition sigaction_4_51 :: "('q, 'w, 'z) program" where
  "sigaction_4_51 = sigaction_4_stop S_XCPU"

definition sigaction_4_52 :: "('q, 'w, 'z) program" where
  "sigaction_4_52 = sigaction_4_stop S_XFSZ"

definition files_4_27 :: "('q, 'w, 'z) program list" where
  "files_4_27 = [sigaction_4_27, sigaction_4_28, sigaction_4_29, sigaction_4_30, sigaction_4_31, sigaction_4_32, sigaction_4_33, sigaction_4_34,
     sigaction_4_35, sigaction_4_36, sigaction_4_37, sigaction_4_38, sigaction_4_39, sigaction_4_40, sigaction_4_41, sigaction_4_42,
     sigaction_4_43, sigaction_4_44, sigaction_4_45, sigaction_4_46, sigaction_4_47, sigaction_4_48, sigaction_4_49, sigaction_4_50,
     sigaction_4_51, sigaction_4_52]"

lemma files_4_27_eq: "files_4_27 = map sigaction_4_stop test_signals"
  by (simp add: files_4_27_def test_signals_def
      sigaction_4_27_def sigaction_4_28_def sigaction_4_29_def sigaction_4_30_def sigaction_4_31_def sigaction_4_32_def
      sigaction_4_33_def sigaction_4_34_def sigaction_4_35_def sigaction_4_36_def sigaction_4_37_def sigaction_4_38_def
      sigaction_4_39_def sigaction_4_40_def sigaction_4_41_def sigaction_4_42_def sigaction_4_43_def sigaction_4_44_def
      sigaction_4_45_def sigaction_4_46_def sigaction_4_47_def sigaction_4_48_def sigaction_4_49_def sigaction_4_50_def
      sigaction_4_51_def sigaction_4_52_def)

section \<open>\<^verbatim>\<open>4-53.c\<close> to \<^verbatim>\<open>4-78.c\<close>\<close>

definition sigaction_4_53 :: "('q, 'w, 'z) program" where
  "sigaction_4_53 = sigaction_4_add S_KILL S_ABRT"

definition sigaction_4_54 :: "('q, 'w, 'z) program" where
  "sigaction_4_54 = sigaction_4_add S_KILL S_ALRM"

definition sigaction_4_55 :: "('q, 'w, 'z) program" where
  "sigaction_4_55 = sigaction_4_add S_KILL S_BUS"

definition sigaction_4_56 :: "('q, 'w, 'z) program" where
  "sigaction_4_56 = sigaction_4_add S_KILL S_CHLD"

definition sigaction_4_57 :: "('q, 'w, 'z) program" where
  "sigaction_4_57 = sigaction_4_add S_KILL S_CONT"

definition sigaction_4_58 :: "('q, 'w, 'z) program" where
  "sigaction_4_58 = sigaction_4_add S_KILL S_FPE"

definition sigaction_4_59 :: "('q, 'w, 'z) program" where
  "sigaction_4_59 = sigaction_4_add S_KILL S_HUP"

definition sigaction_4_60 :: "('q, 'w, 'z) program" where
  "sigaction_4_60 = sigaction_4_add S_KILL S_ILL"

definition sigaction_4_61 :: "('q, 'w, 'z) program" where
  "sigaction_4_61 = sigaction_4_add S_KILL S_INT"

definition sigaction_4_62 :: "('q, 'w, 'z) program" where
  "sigaction_4_62 = sigaction_4_add S_KILL S_PIPE"

definition sigaction_4_63 :: "('q, 'w, 'z) program" where
  "sigaction_4_63 = sigaction_4_add S_KILL S_QUIT"

definition sigaction_4_64 :: "('q, 'w, 'z) program" where
  "sigaction_4_64 = sigaction_4_add S_KILL S_SEGV"

definition sigaction_4_65 :: "('q, 'w, 'z) program" where
  "sigaction_4_65 = sigaction_4_add S_KILL S_TERM"

definition sigaction_4_66 :: "('q, 'w, 'z) program" where
  "sigaction_4_66 = sigaction_4_add S_KILL S_TSTP"

definition sigaction_4_67 :: "('q, 'w, 'z) program" where
  "sigaction_4_67 = sigaction_4_add S_KILL S_TTIN"

definition sigaction_4_68 :: "('q, 'w, 'z) program" where
  "sigaction_4_68 = sigaction_4_add S_KILL S_TTOU"

definition sigaction_4_69 :: "('q, 'w, 'z) program" where
  "sigaction_4_69 = sigaction_4_add S_KILL S_USR1"

definition sigaction_4_70 :: "('q, 'w, 'z) program" where
  "sigaction_4_70 = sigaction_4_add S_KILL S_USR2"

definition sigaction_4_71 :: "('q, 'w, 'z) program" where
  "sigaction_4_71 = sigaction_4_add S_KILL S_POLL"

definition sigaction_4_72 :: "('q, 'w, 'z) program" where
  "sigaction_4_72 = sigaction_4_add S_KILL S_PROF"

definition sigaction_4_73 :: "('q, 'w, 'z) program" where
  "sigaction_4_73 = sigaction_4_add S_KILL S_SYS"

definition sigaction_4_74 :: "('q, 'w, 'z) program" where
  "sigaction_4_74 = sigaction_4_add S_KILL S_TRAP"

definition sigaction_4_75 :: "('q, 'w, 'z) program" where
  "sigaction_4_75 = sigaction_4_add S_KILL S_URG"

definition sigaction_4_76 :: "('q, 'w, 'z) program" where
  "sigaction_4_76 = sigaction_4_add S_KILL S_VTALRM"

definition sigaction_4_77 :: "('q, 'w, 'z) program" where
  "sigaction_4_77 = sigaction_4_add S_KILL S_XCPU"

definition sigaction_4_78 :: "('q, 'w, 'z) program" where
  "sigaction_4_78 = sigaction_4_add S_KILL S_XFSZ"

definition files_4_53 :: "('q, 'w, 'z) program list" where
  "files_4_53 = [sigaction_4_53, sigaction_4_54, sigaction_4_55, sigaction_4_56, sigaction_4_57, sigaction_4_58, sigaction_4_59, sigaction_4_60,
     sigaction_4_61, sigaction_4_62, sigaction_4_63, sigaction_4_64, sigaction_4_65, sigaction_4_66, sigaction_4_67, sigaction_4_68,
     sigaction_4_69, sigaction_4_70, sigaction_4_71, sigaction_4_72, sigaction_4_73, sigaction_4_74, sigaction_4_75, sigaction_4_76,
     sigaction_4_77, sigaction_4_78]"

lemma files_4_53_eq: "files_4_53 = map (sigaction_4_add S_KILL) test_signals"
  by (simp add: files_4_53_def test_signals_def
      sigaction_4_53_def sigaction_4_54_def sigaction_4_55_def sigaction_4_56_def sigaction_4_57_def sigaction_4_58_def
      sigaction_4_59_def sigaction_4_60_def sigaction_4_61_def sigaction_4_62_def sigaction_4_63_def sigaction_4_64_def
      sigaction_4_65_def sigaction_4_66_def sigaction_4_67_def sigaction_4_68_def sigaction_4_69_def sigaction_4_70_def
      sigaction_4_71_def sigaction_4_72_def sigaction_4_73_def sigaction_4_74_def sigaction_4_75_def sigaction_4_76_def
      sigaction_4_77_def sigaction_4_78_def)

section \<open>\<^verbatim>\<open>4-79.c\<close> to \<^verbatim>\<open>4-104.c\<close>\<close>

definition sigaction_4_79 :: "('q, 'w, 'z) program" where
  "sigaction_4_79 = sigaction_4_add S_STOP S_ABRT"

definition sigaction_4_80 :: "('q, 'w, 'z) program" where
  "sigaction_4_80 = sigaction_4_add S_STOP S_ALRM"

definition sigaction_4_81 :: "('q, 'w, 'z) program" where
  "sigaction_4_81 = sigaction_4_add S_STOP S_BUS"

definition sigaction_4_82 :: "('q, 'w, 'z) program" where
  "sigaction_4_82 = sigaction_4_add S_STOP S_CHLD"

definition sigaction_4_83 :: "('q, 'w, 'z) program" where
  "sigaction_4_83 = sigaction_4_add S_STOP S_CONT"

definition sigaction_4_84 :: "('q, 'w, 'z) program" where
  "sigaction_4_84 = sigaction_4_add S_STOP S_FPE"

definition sigaction_4_85 :: "('q, 'w, 'z) program" where
  "sigaction_4_85 = sigaction_4_add S_STOP S_HUP"

definition sigaction_4_86 :: "('q, 'w, 'z) program" where
  "sigaction_4_86 = sigaction_4_add S_STOP S_ILL"

definition sigaction_4_87 :: "('q, 'w, 'z) program" where
  "sigaction_4_87 = sigaction_4_add S_STOP S_INT"

definition sigaction_4_88 :: "('q, 'w, 'z) program" where
  "sigaction_4_88 = sigaction_4_add S_STOP S_PIPE"

definition sigaction_4_89 :: "('q, 'w, 'z) program" where
  "sigaction_4_89 = sigaction_4_add S_STOP S_QUIT"

definition sigaction_4_90 :: "('q, 'w, 'z) program" where
  "sigaction_4_90 = sigaction_4_add S_STOP S_SEGV"

definition sigaction_4_91 :: "('q, 'w, 'z) program" where
  "sigaction_4_91 = sigaction_4_add S_STOP S_TERM"

definition sigaction_4_92 :: "('q, 'w, 'z) program" where
  "sigaction_4_92 = sigaction_4_add S_STOP S_TSTP"

definition sigaction_4_93 :: "('q, 'w, 'z) program" where
  "sigaction_4_93 = sigaction_4_add S_STOP S_TTIN"

definition sigaction_4_94 :: "('q, 'w, 'z) program" where
  "sigaction_4_94 = sigaction_4_add S_STOP S_TTOU"

definition sigaction_4_95 :: "('q, 'w, 'z) program" where
  "sigaction_4_95 = sigaction_4_add S_STOP S_USR1"

definition sigaction_4_96 :: "('q, 'w, 'z) program" where
  "sigaction_4_96 = sigaction_4_add S_STOP S_USR2"

definition sigaction_4_97 :: "('q, 'w, 'z) program" where
  "sigaction_4_97 = sigaction_4_add S_STOP S_POLL"

definition sigaction_4_98 :: "('q, 'w, 'z) program" where
  "sigaction_4_98 = sigaction_4_add S_STOP S_PROF"

definition sigaction_4_99 :: "('q, 'w, 'z) program" where
  "sigaction_4_99 = sigaction_4_add S_STOP S_SYS"

definition sigaction_4_100 :: "('q, 'w, 'z) program" where
  "sigaction_4_100 = sigaction_4_add S_STOP S_TRAP"

definition sigaction_4_101 :: "('q, 'w, 'z) program" where
  "sigaction_4_101 = sigaction_4_add S_STOP S_URG"

definition sigaction_4_102 :: "('q, 'w, 'z) program" where
  "sigaction_4_102 = sigaction_4_add S_STOP S_VTALRM"

definition sigaction_4_103 :: "('q, 'w, 'z) program" where
  "sigaction_4_103 = sigaction_4_add S_STOP S_XCPU"

definition sigaction_4_104 :: "('q, 'w, 'z) program" where
  "sigaction_4_104 = sigaction_4_add S_STOP S_XFSZ"

definition files_4_79 :: "('q, 'w, 'z) program list" where
  "files_4_79 = [sigaction_4_79, sigaction_4_80, sigaction_4_81, sigaction_4_82, sigaction_4_83, sigaction_4_84, sigaction_4_85, sigaction_4_86,
     sigaction_4_87, sigaction_4_88, sigaction_4_89, sigaction_4_90, sigaction_4_91, sigaction_4_92, sigaction_4_93, sigaction_4_94,
     sigaction_4_95, sigaction_4_96, sigaction_4_97, sigaction_4_98, sigaction_4_99, sigaction_4_100, sigaction_4_101, sigaction_4_102,
     sigaction_4_103, sigaction_4_104]"

lemma files_4_79_eq: "files_4_79 = map (sigaction_4_add S_STOP) test_signals"
  by (simp add: files_4_79_def test_signals_def
      sigaction_4_79_def sigaction_4_80_def sigaction_4_81_def sigaction_4_82_def sigaction_4_83_def sigaction_4_84_def
      sigaction_4_85_def sigaction_4_86_def sigaction_4_87_def sigaction_4_88_def sigaction_4_89_def sigaction_4_90_def
      sigaction_4_91_def sigaction_4_92_def sigaction_4_93_def sigaction_4_94_def sigaction_4_95_def sigaction_4_96_def
      sigaction_4_97_def sigaction_4_98_def sigaction_4_99_def sigaction_4_100_def sigaction_4_101_def sigaction_4_102_def
      sigaction_4_103_def sigaction_4_104_def)

section \<open>\<^verbatim>\<open>6-1.c\<close> to \<^verbatim>\<open>6-26.c\<close>\<close>

definition sigaction_6_1 :: "('q, 'w, 'z) program" where
  "sigaction_6_1 = sigaction_6 S_ABRT"

definition sigaction_6_2 :: "('q, 'w, 'z) program" where
  "sigaction_6_2 = sigaction_6 S_ALRM"

definition sigaction_6_3 :: "('q, 'w, 'z) program" where
  "sigaction_6_3 = sigaction_6 S_BUS"

definition sigaction_6_4 :: "('q, 'w, 'z) program" where
  "sigaction_6_4 = sigaction_6 S_CHLD"

definition sigaction_6_5 :: "('q, 'w, 'z) program" where
  "sigaction_6_5 = sigaction_6 S_CONT"

definition sigaction_6_6 :: "('q, 'w, 'z) program" where
  "sigaction_6_6 = sigaction_6 S_FPE"

definition sigaction_6_7 :: "('q, 'w, 'z) program" where
  "sigaction_6_7 = sigaction_6 S_HUP"

definition sigaction_6_8 :: "('q, 'w, 'z) program" where
  "sigaction_6_8 = sigaction_6 S_ILL"

definition sigaction_6_9 :: "('q, 'w, 'z) program" where
  "sigaction_6_9 = sigaction_6 S_INT"

definition sigaction_6_10 :: "('q, 'w, 'z) program" where
  "sigaction_6_10 = sigaction_6 S_PIPE"

definition sigaction_6_11 :: "('q, 'w, 'z) program" where
  "sigaction_6_11 = sigaction_6 S_QUIT"

definition sigaction_6_12 :: "('q, 'w, 'z) program" where
  "sigaction_6_12 = sigaction_6 S_SEGV"

definition sigaction_6_13 :: "('q, 'w, 'z) program" where
  "sigaction_6_13 = sigaction_6 S_TERM"

definition sigaction_6_14 :: "('q, 'w, 'z) program" where
  "sigaction_6_14 = sigaction_6 S_TSTP"

definition sigaction_6_15 :: "('q, 'w, 'z) program" where
  "sigaction_6_15 = sigaction_6 S_TTIN"

definition sigaction_6_16 :: "('q, 'w, 'z) program" where
  "sigaction_6_16 = sigaction_6 S_TTOU"

definition sigaction_6_17 :: "('q, 'w, 'z) program" where
  "sigaction_6_17 = sigaction_6 S_USR1"

definition sigaction_6_18 :: "('q, 'w, 'z) program" where
  "sigaction_6_18 = sigaction_6 S_USR2"

definition sigaction_6_19 :: "('q, 'w, 'z) program" where
  "sigaction_6_19 = sigaction_6 S_POLL"

definition sigaction_6_20 :: "('q, 'w, 'z) program" where
  "sigaction_6_20 = sigaction_6 S_PROF"

definition sigaction_6_21 :: "('q, 'w, 'z) program" where
  "sigaction_6_21 = sigaction_6 S_SYS"

definition sigaction_6_22 :: "('q, 'w, 'z) program" where
  "sigaction_6_22 = sigaction_6 S_TRAP"

definition sigaction_6_23 :: "('q, 'w, 'z) program" where
  "sigaction_6_23 = sigaction_6 S_URG"

definition sigaction_6_24 :: "('q, 'w, 'z) program" where
  "sigaction_6_24 = sigaction_6 S_VTALRM"

definition sigaction_6_25 :: "('q, 'w, 'z) program" where
  "sigaction_6_25 = sigaction_6 S_XCPU"

definition sigaction_6_26 :: "('q, 'w, 'z) program" where
  "sigaction_6_26 = sigaction_6 S_XFSZ"

definition files_6_1 :: "('q, 'w, 'z) program list" where
  "files_6_1 = [sigaction_6_1, sigaction_6_2, sigaction_6_3, sigaction_6_4, sigaction_6_5, sigaction_6_6, sigaction_6_7, sigaction_6_8,
     sigaction_6_9, sigaction_6_10, sigaction_6_11, sigaction_6_12, sigaction_6_13, sigaction_6_14, sigaction_6_15, sigaction_6_16,
     sigaction_6_17, sigaction_6_18, sigaction_6_19, sigaction_6_20, sigaction_6_21, sigaction_6_22, sigaction_6_23, sigaction_6_24,
     sigaction_6_25, sigaction_6_26]"

lemma files_6_1_eq: "files_6_1 = map sigaction_6 test_signals"
  by (simp add: files_6_1_def test_signals_def
      sigaction_6_1_def sigaction_6_2_def sigaction_6_3_def sigaction_6_4_def sigaction_6_5_def sigaction_6_6_def
      sigaction_6_7_def sigaction_6_8_def sigaction_6_9_def sigaction_6_10_def sigaction_6_11_def sigaction_6_12_def
      sigaction_6_13_def sigaction_6_14_def sigaction_6_15_def sigaction_6_16_def sigaction_6_17_def sigaction_6_18_def
      sigaction_6_19_def sigaction_6_20_def sigaction_6_21_def sigaction_6_22_def sigaction_6_23_def sigaction_6_24_def
      sigaction_6_25_def sigaction_6_26_def)

section \<open>\<^verbatim>\<open>8-1.c\<close> to \<^verbatim>\<open>8-26.c\<close>\<close>

definition sigaction_8_1 :: "('q, 'w, 'z) program" where
  "sigaction_8_1 = sigaction_8 S_XFSZ S_ABRT"

definition sigaction_8_2 :: "('q, 'w, 'z) program" where
  "sigaction_8_2 = sigaction_8 S_ABRT S_ALRM"

definition sigaction_8_3 :: "('q, 'w, 'z) program" where
  "sigaction_8_3 = sigaction_8 S_ALRM S_BUS"

definition sigaction_8_4 :: "('q, 'w, 'z) program" where
  "sigaction_8_4 = sigaction_8 S_BUS S_CHLD"

definition sigaction_8_5 :: "('q, 'w, 'z) program" where
  "sigaction_8_5 = sigaction_8 S_CHLD S_CONT"

definition sigaction_8_6 :: "('q, 'w, 'z) program" where
  "sigaction_8_6 = sigaction_8 S_CONT S_FPE"

definition sigaction_8_7 :: "('q, 'w, 'z) program" where
  "sigaction_8_7 = sigaction_8 S_FPE S_HUP"

definition sigaction_8_8 :: "('q, 'w, 'z) program" where
  "sigaction_8_8 = sigaction_8 S_HUP S_ILL"

definition sigaction_8_9 :: "('q, 'w, 'z) program" where
  "sigaction_8_9 = sigaction_8 S_ILL S_INT"

definition sigaction_8_10 :: "('q, 'w, 'z) program" where
  "sigaction_8_10 = sigaction_8 S_INT S_PIPE"

definition sigaction_8_11 :: "('q, 'w, 'z) program" where
  "sigaction_8_11 = sigaction_8 S_PIPE S_QUIT"

definition sigaction_8_12 :: "('q, 'w, 'z) program" where
  "sigaction_8_12 = sigaction_8 S_QUIT S_SEGV"

definition sigaction_8_13 :: "('q, 'w, 'z) program" where
  "sigaction_8_13 = sigaction_8 S_SEGV S_TERM"

definition sigaction_8_14 :: "('q, 'w, 'z) program" where
  "sigaction_8_14 = sigaction_8 S_TERM S_TSTP"

definition sigaction_8_15 :: "('q, 'w, 'z) program" where
  "sigaction_8_15 = sigaction_8 S_TSTP S_TTIN"

definition sigaction_8_16 :: "('q, 'w, 'z) program" where
  "sigaction_8_16 = sigaction_8 S_TTIN S_TTOU"

definition sigaction_8_17 :: "('q, 'w, 'z) program" where
  "sigaction_8_17 = sigaction_8 S_TTOU S_USR1"

definition sigaction_8_18 :: "('q, 'w, 'z) program" where
  "sigaction_8_18 = sigaction_8 S_USR1 S_USR2"

definition sigaction_8_19 :: "('q, 'w, 'z) program" where
  "sigaction_8_19 = sigaction_8 S_USR2 S_POLL"

definition sigaction_8_20 :: "('q, 'w, 'z) program" where
  "sigaction_8_20 = sigaction_8 S_POLL S_PROF"

definition sigaction_8_21 :: "('q, 'w, 'z) program" where
  "sigaction_8_21 = sigaction_8 S_PROF S_SYS"

definition sigaction_8_22 :: "('q, 'w, 'z) program" where
  "sigaction_8_22 = sigaction_8 S_SYS S_TRAP"

definition sigaction_8_23 :: "('q, 'w, 'z) program" where
  "sigaction_8_23 = sigaction_8 S_TRAP S_URG"

definition sigaction_8_24 :: "('q, 'w, 'z) program" where
  "sigaction_8_24 = sigaction_8 S_URG S_VTALRM"

definition sigaction_8_25 :: "('q, 'w, 'z) program" where
  "sigaction_8_25 = sigaction_8 S_VTALRM S_XCPU"

definition sigaction_8_26 :: "('q, 'w, 'z) program" where
  "sigaction_8_26 = sigaction_8 S_XCPU S_XFSZ"

definition files_8_1 :: "('q, 'w, 'z) program list" where
  "files_8_1 = [sigaction_8_1, sigaction_8_2, sigaction_8_3, sigaction_8_4, sigaction_8_5, sigaction_8_6, sigaction_8_7, sigaction_8_8,
     sigaction_8_9, sigaction_8_10, sigaction_8_11, sigaction_8_12, sigaction_8_13, sigaction_8_14, sigaction_8_15, sigaction_8_16,
     sigaction_8_17, sigaction_8_18, sigaction_8_19, sigaction_8_20, sigaction_8_21, sigaction_8_22, sigaction_8_23, sigaction_8_24,
     sigaction_8_25, sigaction_8_26]"

lemma files_8_1_eq: "files_8_1 = map2 sigaction_8 [S_XFSZ, S_ABRT, S_ALRM, S_BUS, S_CHLD, S_CONT, S_FPE, S_HUP, S_ILL, S_INT, S_PIPE, S_QUIT, S_SEGV, S_TERM, S_TSTP, S_TTIN, S_TTOU, S_USR1, S_USR2, S_POLL, S_PROF, S_SYS, S_TRAP, S_URG, S_VTALRM, S_XCPU] test_signals"
  by (simp add: files_8_1_def test_signals_def
      sigaction_8_1_def sigaction_8_2_def sigaction_8_3_def sigaction_8_4_def sigaction_8_5_def sigaction_8_6_def
      sigaction_8_7_def sigaction_8_8_def sigaction_8_9_def sigaction_8_10_def sigaction_8_11_def sigaction_8_12_def
      sigaction_8_13_def sigaction_8_14_def sigaction_8_15_def sigaction_8_16_def sigaction_8_17_def sigaction_8_18_def
      sigaction_8_19_def sigaction_8_20_def sigaction_8_21_def sigaction_8_22_def sigaction_8_23_def sigaction_8_24_def
      sigaction_8_25_def sigaction_8_26_def)

section \<open>\<^verbatim>\<open>12-1.c\<close> to \<^verbatim>\<open>12-26.c\<close>\<close>

definition sigaction_12_1 :: "('q, 'w, 'z) program" where
  "sigaction_12_1 = sigaction_12_alt S_ABRT"

definition sigaction_12_2 :: "('q, 'w, 'z) program" where
  "sigaction_12_2 = sigaction_12_alt S_ALRM"

definition sigaction_12_3 :: "('q, 'w, 'z) program" where
  "sigaction_12_3 = sigaction_12_alt S_BUS"

definition sigaction_12_4 :: "('q, 'w, 'z) program" where
  "sigaction_12_4 = sigaction_12_alt S_CHLD"

definition sigaction_12_5 :: "('q, 'w, 'z) program" where
  "sigaction_12_5 = sigaction_12_alt S_CONT"

definition sigaction_12_6 :: "('q, 'w, 'z) program" where
  "sigaction_12_6 = sigaction_12_alt S_FPE"

definition sigaction_12_7 :: "('q, 'w, 'z) program" where
  "sigaction_12_7 = sigaction_12_alt S_HUP"

definition sigaction_12_8 :: "('q, 'w, 'z) program" where
  "sigaction_12_8 = sigaction_12_alt S_ILL"

definition sigaction_12_9 :: "('q, 'w, 'z) program" where
  "sigaction_12_9 = sigaction_12_alt S_INT"

definition sigaction_12_10 :: "('q, 'w, 'z) program" where
  "sigaction_12_10 = sigaction_12_alt S_PIPE"

definition sigaction_12_11 :: "('q, 'w, 'z) program" where
  "sigaction_12_11 = sigaction_12_alt S_QUIT"

definition sigaction_12_12 :: "('q, 'w, 'z) program" where
  "sigaction_12_12 = sigaction_12_alt S_SEGV"

definition sigaction_12_13 :: "('q, 'w, 'z) program" where
  "sigaction_12_13 = sigaction_12_alt S_TERM"

definition sigaction_12_14 :: "('q, 'w, 'z) program" where
  "sigaction_12_14 = sigaction_12_alt S_TSTP"

definition sigaction_12_15 :: "('q, 'w, 'z) program" where
  "sigaction_12_15 = sigaction_12_alt S_TTIN"

definition sigaction_12_16 :: "('q, 'w, 'z) program" where
  "sigaction_12_16 = sigaction_12_alt S_TTOU"

definition sigaction_12_17 :: "('q, 'w, 'z) program" where
  "sigaction_12_17 = sigaction_12_alt S_USR1"

definition sigaction_12_18 :: "('q, 'w, 'z) program" where
  "sigaction_12_18 = sigaction_12_alt S_USR2"

definition sigaction_12_19 :: "('q, 'w, 'z) program" where
  "sigaction_12_19 = sigaction_12_alt S_POLL"

definition sigaction_12_20 :: "('q, 'w, 'z) program" where
  "sigaction_12_20 = sigaction_12_alt S_PROF"

definition sigaction_12_21 :: "('q, 'w, 'z) program" where
  "sigaction_12_21 = sigaction_12_alt S_SYS"

definition sigaction_12_22 :: "('q, 'w, 'z) program" where
  "sigaction_12_22 = sigaction_12_alt S_TRAP"

definition sigaction_12_23 :: "('q, 'w, 'z) program" where
  "sigaction_12_23 = sigaction_12_alt S_URG"

definition sigaction_12_24 :: "('q, 'w, 'z) program" where
  "sigaction_12_24 = sigaction_12_alt S_VTALRM"

definition sigaction_12_25 :: "('q, 'w, 'z) program" where
  "sigaction_12_25 = sigaction_12_alt S_XCPU"

definition sigaction_12_26 :: "('q, 'w, 'z) program" where
  "sigaction_12_26 = sigaction_12_alt S_XFSZ"

definition files_12_1 :: "('q, 'w, 'z) program list" where
  "files_12_1 = [sigaction_12_1, sigaction_12_2, sigaction_12_3, sigaction_12_4, sigaction_12_5, sigaction_12_6, sigaction_12_7, sigaction_12_8,
     sigaction_12_9, sigaction_12_10, sigaction_12_11, sigaction_12_12, sigaction_12_13, sigaction_12_14, sigaction_12_15, sigaction_12_16,
     sigaction_12_17, sigaction_12_18, sigaction_12_19, sigaction_12_20, sigaction_12_21, sigaction_12_22, sigaction_12_23, sigaction_12_24,
     sigaction_12_25, sigaction_12_26]"

lemma files_12_1_eq: "files_12_1 = map sigaction_12_alt test_signals"
  by (simp add: files_12_1_def test_signals_def
      sigaction_12_1_def sigaction_12_2_def sigaction_12_3_def sigaction_12_4_def sigaction_12_5_def sigaction_12_6_def
      sigaction_12_7_def sigaction_12_8_def sigaction_12_9_def sigaction_12_10_def sigaction_12_11_def sigaction_12_12_def
      sigaction_12_13_def sigaction_12_14_def sigaction_12_15_def sigaction_12_16_def sigaction_12_17_def sigaction_12_18_def
      sigaction_12_19_def sigaction_12_20_def sigaction_12_21_def sigaction_12_22_def sigaction_12_23_def sigaction_12_24_def
      sigaction_12_25_def sigaction_12_26_def)

section \<open>\<^verbatim>\<open>12-27.c\<close> to \<^verbatim>\<open>12-52.c\<close>\<close>

definition sigaction_12_27 :: "('q, 'w, 'z) program" where
  "sigaction_12_27 = sigaction_12_current S_ABRT"

definition sigaction_12_28 :: "('q, 'w, 'z) program" where
  "sigaction_12_28 = sigaction_12_current S_ALRM"

definition sigaction_12_29 :: "('q, 'w, 'z) program" where
  "sigaction_12_29 = sigaction_12_current S_BUS"

definition sigaction_12_30 :: "('q, 'w, 'z) program" where
  "sigaction_12_30 = sigaction_12_current S_CHLD"

definition sigaction_12_31 :: "('q, 'w, 'z) program" where
  "sigaction_12_31 = sigaction_12_current S_CONT"

definition sigaction_12_32 :: "('q, 'w, 'z) program" where
  "sigaction_12_32 = sigaction_12_current S_FPE"

definition sigaction_12_33 :: "('q, 'w, 'z) program" where
  "sigaction_12_33 = sigaction_12_current S_HUP"

definition sigaction_12_34 :: "('q, 'w, 'z) program" where
  "sigaction_12_34 = sigaction_12_current S_ILL"

definition sigaction_12_35 :: "('q, 'w, 'z) program" where
  "sigaction_12_35 = sigaction_12_current S_INT"

definition sigaction_12_36 :: "('q, 'w, 'z) program" where
  "sigaction_12_36 = sigaction_12_current S_PIPE"

definition sigaction_12_37 :: "('q, 'w, 'z) program" where
  "sigaction_12_37 = sigaction_12_current S_QUIT"

definition sigaction_12_38 :: "('q, 'w, 'z) program" where
  "sigaction_12_38 = sigaction_12_current S_SEGV"

definition sigaction_12_39 :: "('q, 'w, 'z) program" where
  "sigaction_12_39 = sigaction_12_current S_TERM"

definition sigaction_12_40 :: "('q, 'w, 'z) program" where
  "sigaction_12_40 = sigaction_12_current S_TSTP"

definition sigaction_12_41 :: "('q, 'w, 'z) program" where
  "sigaction_12_41 = sigaction_12_current S_TTIN"

definition sigaction_12_42 :: "('q, 'w, 'z) program" where
  "sigaction_12_42 = sigaction_12_current S_TTOU"

definition sigaction_12_43 :: "('q, 'w, 'z) program" where
  "sigaction_12_43 = sigaction_12_current S_USR1"

definition sigaction_12_44 :: "('q, 'w, 'z) program" where
  "sigaction_12_44 = sigaction_12_current S_USR2"

definition sigaction_12_45 :: "('q, 'w, 'z) program" where
  "sigaction_12_45 = sigaction_12_current S_POLL"

definition sigaction_12_46 :: "('q, 'w, 'z) program" where
  "sigaction_12_46 = sigaction_12_current S_PROF"

definition sigaction_12_47 :: "('q, 'w, 'z) program" where
  "sigaction_12_47 = sigaction_12_current S_SYS"

definition sigaction_12_48 :: "('q, 'w, 'z) program" where
  "sigaction_12_48 = sigaction_12_current S_TRAP"

definition sigaction_12_49 :: "('q, 'w, 'z) program" where
  "sigaction_12_49 = sigaction_12_current S_URG"

definition sigaction_12_50 :: "('q, 'w, 'z) program" where
  "sigaction_12_50 = sigaction_12_current S_VTALRM"

definition sigaction_12_51 :: "('q, 'w, 'z) program" where
  "sigaction_12_51 = sigaction_12_current S_XCPU"

definition sigaction_12_52 :: "('q, 'w, 'z) program" where
  "sigaction_12_52 = sigaction_12_current S_XFSZ"

definition files_12_27 :: "('q, 'w, 'z) program list" where
  "files_12_27 = [sigaction_12_27, sigaction_12_28, sigaction_12_29, sigaction_12_30, sigaction_12_31, sigaction_12_32, sigaction_12_33, sigaction_12_34,
     sigaction_12_35, sigaction_12_36, sigaction_12_37, sigaction_12_38, sigaction_12_39, sigaction_12_40, sigaction_12_41, sigaction_12_42,
     sigaction_12_43, sigaction_12_44, sigaction_12_45, sigaction_12_46, sigaction_12_47, sigaction_12_48, sigaction_12_49, sigaction_12_50,
     sigaction_12_51, sigaction_12_52]"

lemma files_12_27_eq: "files_12_27 = map sigaction_12_current test_signals"
  by (simp add: files_12_27_def test_signals_def
      sigaction_12_27_def sigaction_12_28_def sigaction_12_29_def sigaction_12_30_def sigaction_12_31_def sigaction_12_32_def
      sigaction_12_33_def sigaction_12_34_def sigaction_12_35_def sigaction_12_36_def sigaction_12_37_def sigaction_12_38_def
      sigaction_12_39_def sigaction_12_40_def sigaction_12_41_def sigaction_12_42_def sigaction_12_43_def sigaction_12_44_def
      sigaction_12_45_def sigaction_12_46_def sigaction_12_47_def sigaction_12_48_def sigaction_12_49_def sigaction_12_50_def
      sigaction_12_51_def sigaction_12_52_def)

section \<open>\<^verbatim>\<open>13-1.c\<close> to \<^verbatim>\<open>13-26.c\<close>\<close>

definition sigaction_13_1 :: "('q, 'w, 'z) program" where
  "sigaction_13_1 = sigaction_13 S_ABRT"

definition sigaction_13_2 :: "('q, 'w, 'z) program" where
  "sigaction_13_2 = sigaction_13 S_ALRM"

definition sigaction_13_3 :: "('q, 'w, 'z) program" where
  "sigaction_13_3 = sigaction_13 S_BUS"

definition sigaction_13_4 :: "('q, 'w, 'z) program" where
  "sigaction_13_4 = sigaction_13 S_CHLD"

definition sigaction_13_5 :: "('q, 'w, 'z) program" where
  "sigaction_13_5 = sigaction_13 S_CONT"

definition sigaction_13_6 :: "('q, 'w, 'z) program" where
  "sigaction_13_6 = sigaction_13 S_FPE"

definition sigaction_13_7 :: "('q, 'w, 'z) program" where
  "sigaction_13_7 = sigaction_13 S_HUP"

definition sigaction_13_8 :: "('q, 'w, 'z) program" where
  "sigaction_13_8 = sigaction_13 S_ILL"

definition sigaction_13_9 :: "('q, 'w, 'z) program" where
  "sigaction_13_9 = sigaction_13 S_INT"

definition sigaction_13_10 :: "('q, 'w, 'z) program" where
  "sigaction_13_10 = sigaction_13 S_PIPE"

definition sigaction_13_11 :: "('q, 'w, 'z) program" where
  "sigaction_13_11 = sigaction_13 S_QUIT"

definition sigaction_13_12 :: "('q, 'w, 'z) program" where
  "sigaction_13_12 = sigaction_13 S_SEGV"

definition sigaction_13_13 :: "('q, 'w, 'z) program" where
  "sigaction_13_13 = sigaction_13 S_TERM"

definition sigaction_13_14 :: "('q, 'w, 'z) program" where
  "sigaction_13_14 = sigaction_13 S_TSTP"

definition sigaction_13_15 :: "('q, 'w, 'z) program" where
  "sigaction_13_15 = sigaction_13 S_TTIN"

definition sigaction_13_16 :: "('q, 'w, 'z) program" where
  "sigaction_13_16 = sigaction_13 S_TTOU"

definition sigaction_13_17 :: "('q, 'w, 'z) program" where
  "sigaction_13_17 = sigaction_13 S_USR1"

definition sigaction_13_18 :: "('q, 'w, 'z) program" where
  "sigaction_13_18 = sigaction_13 S_USR2"

definition sigaction_13_19 :: "('q, 'w, 'z) program" where
  "sigaction_13_19 = sigaction_13 S_POLL"

definition sigaction_13_20 :: "('q, 'w, 'z) program" where
  "sigaction_13_20 = sigaction_13 S_PROF"

definition sigaction_13_21 :: "('q, 'w, 'z) program" where
  "sigaction_13_21 = sigaction_13 S_SYS"

definition sigaction_13_22 :: "('q, 'w, 'z) program" where
  "sigaction_13_22 = sigaction_13 S_TRAP"

definition sigaction_13_23 :: "('q, 'w, 'z) program" where
  "sigaction_13_23 = sigaction_13 S_URG"

definition sigaction_13_24 :: "('q, 'w, 'z) program" where
  "sigaction_13_24 = sigaction_13 S_VTALRM"

definition sigaction_13_25 :: "('q, 'w, 'z) program" where
  "sigaction_13_25 = sigaction_13 S_XCPU"

definition sigaction_13_26 :: "('q, 'w, 'z) program" where
  "sigaction_13_26 = sigaction_13 S_XFSZ"

definition files_13_1 :: "('q, 'w, 'z) program list" where
  "files_13_1 = [sigaction_13_1, sigaction_13_2, sigaction_13_3, sigaction_13_4, sigaction_13_5, sigaction_13_6, sigaction_13_7, sigaction_13_8,
     sigaction_13_9, sigaction_13_10, sigaction_13_11, sigaction_13_12, sigaction_13_13, sigaction_13_14, sigaction_13_15, sigaction_13_16,
     sigaction_13_17, sigaction_13_18, sigaction_13_19, sigaction_13_20, sigaction_13_21, sigaction_13_22, sigaction_13_23, sigaction_13_24,
     sigaction_13_25, sigaction_13_26]"

lemma files_13_1_eq: "files_13_1 = map sigaction_13 test_signals"
  by (simp add: files_13_1_def test_signals_def
      sigaction_13_1_def sigaction_13_2_def sigaction_13_3_def sigaction_13_4_def sigaction_13_5_def sigaction_13_6_def
      sigaction_13_7_def sigaction_13_8_def sigaction_13_9_def sigaction_13_10_def sigaction_13_11_def sigaction_13_12_def
      sigaction_13_13_def sigaction_13_14_def sigaction_13_15_def sigaction_13_16_def sigaction_13_17_def sigaction_13_18_def
      sigaction_13_19_def sigaction_13_20_def sigaction_13_21_def sigaction_13_22_def sigaction_13_23_def sigaction_13_24_def
      sigaction_13_25_def sigaction_13_26_def)

section \<open>\<^verbatim>\<open>18-1.c\<close> to \<^verbatim>\<open>18-26.c\<close>\<close>

definition sigaction_18_1 :: "('q, 'w, 'z) program" where
  "sigaction_18_1 = sigaction_18 S_ABRT"

definition sigaction_18_2 :: "('q, 'w, 'z) program" where
  "sigaction_18_2 = sigaction_18 S_ALRM"

definition sigaction_18_3 :: "('q, 'w, 'z) program" where
  "sigaction_18_3 = sigaction_18 S_BUS"

definition sigaction_18_4 :: "('q, 'w, 'z) program" where
  "sigaction_18_4 = sigaction_18 S_CHLD"

definition sigaction_18_5 :: "('q, 'w, 'z) program" where
  "sigaction_18_5 = sigaction_18 S_CONT"

definition sigaction_18_6 :: "('q, 'w, 'z) program" where
  "sigaction_18_6 = sigaction_18 S_FPE"

definition sigaction_18_7 :: "('q, 'w, 'z) program" where
  "sigaction_18_7 = sigaction_18 S_HUP"

definition sigaction_18_8 :: "('q, 'w, 'z) program" where
  "sigaction_18_8 = sigaction_18 S_ILL"

definition sigaction_18_9 :: "('q, 'w, 'z) program" where
  "sigaction_18_9 = sigaction_18 S_INT"

definition sigaction_18_10 :: "('q, 'w, 'z) program" where
  "sigaction_18_10 = sigaction_18 S_PIPE"

definition sigaction_18_11 :: "('q, 'w, 'z) program" where
  "sigaction_18_11 = sigaction_18 S_QUIT"

definition sigaction_18_12 :: "('q, 'w, 'z) program" where
  "sigaction_18_12 = sigaction_18 S_SEGV"

definition sigaction_18_13 :: "('q, 'w, 'z) program" where
  "sigaction_18_13 = sigaction_18 S_TERM"

definition sigaction_18_14 :: "('q, 'w, 'z) program" where
  "sigaction_18_14 = sigaction_18 S_TSTP"

definition sigaction_18_15 :: "('q, 'w, 'z) program" where
  "sigaction_18_15 = sigaction_18 S_TTIN"

definition sigaction_18_16 :: "('q, 'w, 'z) program" where
  "sigaction_18_16 = sigaction_18 S_TTOU"

definition sigaction_18_17 :: "('q, 'w, 'z) program" where
  "sigaction_18_17 = sigaction_18 S_USR1"

definition sigaction_18_18 :: "('q, 'w, 'z) program" where
  "sigaction_18_18 = sigaction_18 S_USR2"

definition sigaction_18_19 :: "('q, 'w, 'z) program" where
  "sigaction_18_19 = sigaction_18 S_POLL"

definition sigaction_18_20 :: "('q, 'w, 'z) program" where
  "sigaction_18_20 = sigaction_18 S_PROF"

definition sigaction_18_21 :: "('q, 'w, 'z) program" where
  "sigaction_18_21 = sigaction_18 S_SYS"

definition sigaction_18_22 :: "('q, 'w, 'z) program" where
  "sigaction_18_22 = sigaction_18 S_TRAP"

definition sigaction_18_23 :: "('q, 'w, 'z) program" where
  "sigaction_18_23 = sigaction_18 S_URG"

definition sigaction_18_24 :: "('q, 'w, 'z) program" where
  "sigaction_18_24 = sigaction_18 S_VTALRM"

definition sigaction_18_25 :: "('q, 'w, 'z) program" where
  "sigaction_18_25 = sigaction_18 S_XCPU"

definition sigaction_18_26 :: "('q, 'w, 'z) program" where
  "sigaction_18_26 = sigaction_18 S_XFSZ"

definition files_18_1 :: "('q, 'w, 'z) program list" where
  "files_18_1 = [sigaction_18_1, sigaction_18_2, sigaction_18_3, sigaction_18_4, sigaction_18_5, sigaction_18_6, sigaction_18_7, sigaction_18_8,
     sigaction_18_9, sigaction_18_10, sigaction_18_11, sigaction_18_12, sigaction_18_13, sigaction_18_14, sigaction_18_15, sigaction_18_16,
     sigaction_18_17, sigaction_18_18, sigaction_18_19, sigaction_18_20, sigaction_18_21, sigaction_18_22, sigaction_18_23, sigaction_18_24,
     sigaction_18_25, sigaction_18_26]"

lemma files_18_1_eq: "files_18_1 = map sigaction_18 test_signals"
  by (simp add: files_18_1_def test_signals_def
      sigaction_18_1_def sigaction_18_2_def sigaction_18_3_def sigaction_18_4_def sigaction_18_5_def sigaction_18_6_def
      sigaction_18_7_def sigaction_18_8_def sigaction_18_9_def sigaction_18_10_def sigaction_18_11_def sigaction_18_12_def
      sigaction_18_13_def sigaction_18_14_def sigaction_18_15_def sigaction_18_16_def sigaction_18_17_def sigaction_18_18_def
      sigaction_18_19_def sigaction_18_20_def sigaction_18_21_def sigaction_18_22_def sigaction_18_23_def sigaction_18_24_def
      sigaction_18_25_def sigaction_18_26_def)

section \<open>\<^verbatim>\<open>19-1.c\<close> to \<^verbatim>\<open>19-26.c\<close>\<close>

definition sigaction_19_1 :: "('q, 'w, 'z) program" where
  "sigaction_19_1 = sigaction_19 S_ABRT"

definition sigaction_19_2 :: "('q, 'w, 'z) program" where
  "sigaction_19_2 = sigaction_19 S_ALRM"

definition sigaction_19_3 :: "('q, 'w, 'z) program" where
  "sigaction_19_3 = sigaction_19 S_BUS"

definition sigaction_19_4 :: "('q, 'w, 'z) program" where
  "sigaction_19_4 = sigaction_19 S_CHLD"

definition sigaction_19_5 :: "('q, 'w, 'z) program" where
  "sigaction_19_5 = sigaction_19 S_CONT"

definition sigaction_19_6 :: "('q, 'w, 'z) program" where
  "sigaction_19_6 = sigaction_19 S_FPE"

definition sigaction_19_7 :: "('q, 'w, 'z) program" where
  "sigaction_19_7 = sigaction_19 S_HUP"

definition sigaction_19_8 :: "('q, 'w, 'z) program" where
  "sigaction_19_8 = sigaction_19 S_ILL"

definition sigaction_19_9 :: "('q, 'w, 'z) program" where
  "sigaction_19_9 = sigaction_19 S_INT"

definition sigaction_19_10 :: "('q, 'w, 'z) program" where
  "sigaction_19_10 = sigaction_19 S_PIPE"

definition sigaction_19_11 :: "('q, 'w, 'z) program" where
  "sigaction_19_11 = sigaction_19 S_QUIT"

definition sigaction_19_12 :: "('q, 'w, 'z) program" where
  "sigaction_19_12 = sigaction_19 S_SEGV"

definition sigaction_19_13 :: "('q, 'w, 'z) program" where
  "sigaction_19_13 = sigaction_19 S_TERM"

definition sigaction_19_14 :: "('q, 'w, 'z) program" where
  "sigaction_19_14 = sigaction_19 S_TSTP"

definition sigaction_19_15 :: "('q, 'w, 'z) program" where
  "sigaction_19_15 = sigaction_19 S_TTIN"

definition sigaction_19_16 :: "('q, 'w, 'z) program" where
  "sigaction_19_16 = sigaction_19 S_TTOU"

definition sigaction_19_17 :: "('q, 'w, 'z) program" where
  "sigaction_19_17 = sigaction_19 S_USR1"

definition sigaction_19_18 :: "('q, 'w, 'z) program" where
  "sigaction_19_18 = sigaction_19 S_USR2"

definition sigaction_19_19 :: "('q, 'w, 'z) program" where
  "sigaction_19_19 = sigaction_19 S_POLL"

definition sigaction_19_20 :: "('q, 'w, 'z) program" where
  "sigaction_19_20 = sigaction_19 S_PROF"

definition sigaction_19_21 :: "('q, 'w, 'z) program" where
  "sigaction_19_21 = sigaction_19 S_SYS"

definition sigaction_19_22 :: "('q, 'w, 'z) program" where
  "sigaction_19_22 = sigaction_19 S_TRAP"

definition sigaction_19_23 :: "('q, 'w, 'z) program" where
  "sigaction_19_23 = sigaction_19 S_URG"

definition sigaction_19_24 :: "('q, 'w, 'z) program" where
  "sigaction_19_24 = sigaction_19 S_VTALRM"

definition sigaction_19_25 :: "('q, 'w, 'z) program" where
  "sigaction_19_25 = sigaction_19 S_XCPU"

definition sigaction_19_26 :: "('q, 'w, 'z) program" where
  "sigaction_19_26 = sigaction_19 S_XFSZ"

definition files_19_1 :: "('q, 'w, 'z) program list" where
  "files_19_1 = [sigaction_19_1, sigaction_19_2, sigaction_19_3, sigaction_19_4, sigaction_19_5, sigaction_19_6, sigaction_19_7, sigaction_19_8,
     sigaction_19_9, sigaction_19_10, sigaction_19_11, sigaction_19_12, sigaction_19_13, sigaction_19_14, sigaction_19_15, sigaction_19_16,
     sigaction_19_17, sigaction_19_18, sigaction_19_19, sigaction_19_20, sigaction_19_21, sigaction_19_22, sigaction_19_23, sigaction_19_24,
     sigaction_19_25, sigaction_19_26]"

lemma files_19_1_eq: "files_19_1 = map sigaction_19 test_signals"
  by (simp add: files_19_1_def test_signals_def
      sigaction_19_1_def sigaction_19_2_def sigaction_19_3_def sigaction_19_4_def sigaction_19_5_def sigaction_19_6_def
      sigaction_19_7_def sigaction_19_8_def sigaction_19_9_def sigaction_19_10_def sigaction_19_11_def sigaction_19_12_def
      sigaction_19_13_def sigaction_19_14_def sigaction_19_15_def sigaction_19_16_def sigaction_19_17_def sigaction_19_18_def
      sigaction_19_19_def sigaction_19_20_def sigaction_19_21_def sigaction_19_22_def sigaction_19_23_def sigaction_19_24_def
      sigaction_19_25_def sigaction_19_26_def)

section \<open>\<^verbatim>\<open>22-1.c\<close> to \<^verbatim>\<open>22-26.c\<close>\<close>

definition sigaction_22_1 :: "('q, 'w, 'z) program" where
  "sigaction_22_1 = sigaction_22 S_ABRT"

definition sigaction_22_2 :: "('q, 'w, 'z) program" where
  "sigaction_22_2 = sigaction_22 S_ALRM"

definition sigaction_22_3 :: "('q, 'w, 'z) program" where
  "sigaction_22_3 = sigaction_22 S_BUS"

definition sigaction_22_4 :: "('q, 'w, 'z) program" where
  "sigaction_22_4 = sigaction_22 S_CHLD"

definition sigaction_22_5 :: "('q, 'w, 'z) program" where
  "sigaction_22_5 = sigaction_22 S_CONT"

definition sigaction_22_6 :: "('q, 'w, 'z) program" where
  "sigaction_22_6 = sigaction_22 S_FPE"

definition sigaction_22_7 :: "('q, 'w, 'z) program" where
  "sigaction_22_7 = sigaction_22 S_HUP"

definition sigaction_22_8 :: "('q, 'w, 'z) program" where
  "sigaction_22_8 = sigaction_22 S_ILL"

definition sigaction_22_9 :: "('q, 'w, 'z) program" where
  "sigaction_22_9 = sigaction_22 S_INT"

definition sigaction_22_10 :: "('q, 'w, 'z) program" where
  "sigaction_22_10 = sigaction_22 S_PIPE"

definition sigaction_22_11 :: "('q, 'w, 'z) program" where
  "sigaction_22_11 = sigaction_22 S_QUIT"

definition sigaction_22_12 :: "('q, 'w, 'z) program" where
  "sigaction_22_12 = sigaction_22 S_SEGV"

definition sigaction_22_13 :: "('q, 'w, 'z) program" where
  "sigaction_22_13 = sigaction_22 S_TERM"

definition sigaction_22_14 :: "('q, 'w, 'z) program" where
  "sigaction_22_14 = sigaction_22 S_TSTP"

definition sigaction_22_15 :: "('q, 'w, 'z) program" where
  "sigaction_22_15 = sigaction_22 S_TTIN"

definition sigaction_22_16 :: "('q, 'w, 'z) program" where
  "sigaction_22_16 = sigaction_22 S_TTOU"

definition sigaction_22_17 :: "('q, 'w, 'z) program" where
  "sigaction_22_17 = sigaction_22 S_USR1"

definition sigaction_22_18 :: "('q, 'w, 'z) program" where
  "sigaction_22_18 = sigaction_22 S_USR2"

definition sigaction_22_19 :: "('q, 'w, 'z) program" where
  "sigaction_22_19 = sigaction_22 S_POLL"

definition sigaction_22_20 :: "('q, 'w, 'z) program" where
  "sigaction_22_20 = sigaction_22 S_PROF"

definition sigaction_22_21 :: "('q, 'w, 'z) program" where
  "sigaction_22_21 = sigaction_22 S_SYS"

definition sigaction_22_22 :: "('q, 'w, 'z) program" where
  "sigaction_22_22 = sigaction_22 S_TRAP"

definition sigaction_22_23 :: "('q, 'w, 'z) program" where
  "sigaction_22_23 = sigaction_22 S_URG"

definition sigaction_22_24 :: "('q, 'w, 'z) program" where
  "sigaction_22_24 = sigaction_22 S_VTALRM"

definition sigaction_22_25 :: "('q, 'w, 'z) program" where
  "sigaction_22_25 = sigaction_22 S_XCPU"

definition sigaction_22_26 :: "('q, 'w, 'z) program" where
  "sigaction_22_26 = sigaction_22 S_XFSZ"

definition files_22_1 :: "('q, 'w, 'z) program list" where
  "files_22_1 = [sigaction_22_1, sigaction_22_2, sigaction_22_3, sigaction_22_4, sigaction_22_5, sigaction_22_6, sigaction_22_7, sigaction_22_8,
     sigaction_22_9, sigaction_22_10, sigaction_22_11, sigaction_22_12, sigaction_22_13, sigaction_22_14, sigaction_22_15, sigaction_22_16,
     sigaction_22_17, sigaction_22_18, sigaction_22_19, sigaction_22_20, sigaction_22_21, sigaction_22_22, sigaction_22_23, sigaction_22_24,
     sigaction_22_25, sigaction_22_26]"

lemma files_22_1_eq: "files_22_1 = map sigaction_22 test_signals"
  by (simp add: files_22_1_def test_signals_def
      sigaction_22_1_def sigaction_22_2_def sigaction_22_3_def sigaction_22_4_def sigaction_22_5_def sigaction_22_6_def
      sigaction_22_7_def sigaction_22_8_def sigaction_22_9_def sigaction_22_10_def sigaction_22_11_def sigaction_22_12_def
      sigaction_22_13_def sigaction_22_14_def sigaction_22_15_def sigaction_22_16_def sigaction_22_17_def sigaction_22_18_def
      sigaction_22_19_def sigaction_22_20_def sigaction_22_21_def sigaction_22_22_def sigaction_22_23_def sigaction_22_24_def
      sigaction_22_25_def sigaction_22_26_def)

section \<open>\<^verbatim>\<open>23-1.c\<close> to \<^verbatim>\<open>23-26.c\<close>\<close>

definition sigaction_23_1 :: "('q, 'w, 'z) program" where
  "sigaction_23_1 = sigaction_23 S_ABRT"

definition sigaction_23_2 :: "('q, 'w, 'z) program" where
  "sigaction_23_2 = sigaction_23 S_ALRM"

definition sigaction_23_3 :: "('q, 'w, 'z) program" where
  "sigaction_23_3 = sigaction_23 S_BUS"

definition sigaction_23_4 :: "('q, 'w, 'z) program" where
  "sigaction_23_4 = sigaction_23 S_CHLD"

definition sigaction_23_5 :: "('q, 'w, 'z) program" where
  "sigaction_23_5 = sigaction_23 S_CONT"

definition sigaction_23_6 :: "('q, 'w, 'z) program" where
  "sigaction_23_6 = sigaction_23 S_FPE"

definition sigaction_23_7 :: "('q, 'w, 'z) program" where
  "sigaction_23_7 = sigaction_23 S_HUP"

definition sigaction_23_8 :: "('q, 'w, 'z) program" where
  "sigaction_23_8 = sigaction_23 S_ILL"

definition sigaction_23_9 :: "('q, 'w, 'z) program" where
  "sigaction_23_9 = sigaction_23 S_INT"

definition sigaction_23_10 :: "('q, 'w, 'z) program" where
  "sigaction_23_10 = sigaction_23 S_PIPE"

definition sigaction_23_11 :: "('q, 'w, 'z) program" where
  "sigaction_23_11 = sigaction_23 S_QUIT"

definition sigaction_23_12 :: "('q, 'w, 'z) program" where
  "sigaction_23_12 = sigaction_23 S_SEGV"

definition sigaction_23_13 :: "('q, 'w, 'z) program" where
  "sigaction_23_13 = sigaction_23 S_TERM"

definition sigaction_23_14 :: "('q, 'w, 'z) program" where
  "sigaction_23_14 = sigaction_23 S_TSTP"

definition sigaction_23_15 :: "('q, 'w, 'z) program" where
  "sigaction_23_15 = sigaction_23 S_TTIN"

definition sigaction_23_16 :: "('q, 'w, 'z) program" where
  "sigaction_23_16 = sigaction_23 S_TTOU"

definition sigaction_23_17 :: "('q, 'w, 'z) program" where
  "sigaction_23_17 = sigaction_23 S_USR1"

definition sigaction_23_18 :: "('q, 'w, 'z) program" where
  "sigaction_23_18 = sigaction_23 S_USR2"

definition sigaction_23_19 :: "('q, 'w, 'z) program" where
  "sigaction_23_19 = sigaction_23 S_POLL"

definition sigaction_23_20 :: "('q, 'w, 'z) program" where
  "sigaction_23_20 = sigaction_23 S_PROF"

definition sigaction_23_21 :: "('q, 'w, 'z) program" where
  "sigaction_23_21 = sigaction_23 S_SYS"

definition sigaction_23_22 :: "('q, 'w, 'z) program" where
  "sigaction_23_22 = sigaction_23 S_TRAP"

definition sigaction_23_23 :: "('q, 'w, 'z) program" where
  "sigaction_23_23 = sigaction_23 S_URG"

definition sigaction_23_24 :: "('q, 'w, 'z) program" where
  "sigaction_23_24 = sigaction_23 S_VTALRM"

definition sigaction_23_25 :: "('q, 'w, 'z) program" where
  "sigaction_23_25 = sigaction_23 S_XCPU"

definition sigaction_23_26 :: "('q, 'w, 'z) program" where
  "sigaction_23_26 = sigaction_23 S_XFSZ"

definition files_23_1 :: "('q, 'w, 'z) program list" where
  "files_23_1 = [sigaction_23_1, sigaction_23_2, sigaction_23_3, sigaction_23_4, sigaction_23_5, sigaction_23_6, sigaction_23_7, sigaction_23_8,
     sigaction_23_9, sigaction_23_10, sigaction_23_11, sigaction_23_12, sigaction_23_13, sigaction_23_14, sigaction_23_15, sigaction_23_16,
     sigaction_23_17, sigaction_23_18, sigaction_23_19, sigaction_23_20, sigaction_23_21, sigaction_23_22, sigaction_23_23, sigaction_23_24,
     sigaction_23_25, sigaction_23_26]"

lemma files_23_1_eq: "files_23_1 = map sigaction_23 test_signals"
  by (simp add: files_23_1_def test_signals_def
      sigaction_23_1_def sigaction_23_2_def sigaction_23_3_def sigaction_23_4_def sigaction_23_5_def sigaction_23_6_def
      sigaction_23_7_def sigaction_23_8_def sigaction_23_9_def sigaction_23_10_def sigaction_23_11_def sigaction_23_12_def
      sigaction_23_13_def sigaction_23_14_def sigaction_23_15_def sigaction_23_16_def sigaction_23_17_def sigaction_23_18_def
      sigaction_23_19_def sigaction_23_20_def sigaction_23_21_def sigaction_23_22_def sigaction_23_23_def sigaction_23_24_def
      sigaction_23_25_def sigaction_23_26_def)

section \<open>\<^verbatim>\<open>25-1.c\<close> to \<^verbatim>\<open>25-26.c\<close>\<close>

definition sigaction_25_1 :: "('q, 'w, 'z) program" where
  "sigaction_25_1 = sigaction_25 S_ABRT"

definition sigaction_25_2 :: "('q, 'w, 'z) program" where
  "sigaction_25_2 = sigaction_25 S_ALRM"

definition sigaction_25_3 :: "('q, 'w, 'z) program" where
  "sigaction_25_3 = sigaction_25 S_BUS"

definition sigaction_25_4 :: "('q, 'w, 'z) program" where
  "sigaction_25_4 = sigaction_25 S_CHLD"

definition sigaction_25_5 :: "('q, 'w, 'z) program" where
  "sigaction_25_5 = sigaction_25 S_CONT"

definition sigaction_25_6 :: "('q, 'w, 'z) program" where
  "sigaction_25_6 = sigaction_25 S_FPE"

definition sigaction_25_7 :: "('q, 'w, 'z) program" where
  "sigaction_25_7 = sigaction_25 S_HUP"

definition sigaction_25_8 :: "('q, 'w, 'z) program" where
  "sigaction_25_8 = sigaction_25 S_ILL"

definition sigaction_25_9 :: "('q, 'w, 'z) program" where
  "sigaction_25_9 = sigaction_25 S_INT"

definition sigaction_25_10 :: "('q, 'w, 'z) program" where
  "sigaction_25_10 = sigaction_25 S_PIPE"

definition sigaction_25_11 :: "('q, 'w, 'z) program" where
  "sigaction_25_11 = sigaction_25 S_QUIT"

definition sigaction_25_12 :: "('q, 'w, 'z) program" where
  "sigaction_25_12 = sigaction_25 S_SEGV"

definition sigaction_25_13 :: "('q, 'w, 'z) program" where
  "sigaction_25_13 = sigaction_25 S_TERM"

definition sigaction_25_14 :: "('q, 'w, 'z) program" where
  "sigaction_25_14 = sigaction_25 S_TSTP"

definition sigaction_25_15 :: "('q, 'w, 'z) program" where
  "sigaction_25_15 = sigaction_25 S_TTIN"

definition sigaction_25_16 :: "('q, 'w, 'z) program" where
  "sigaction_25_16 = sigaction_25 S_TTOU"

definition sigaction_25_17 :: "('q, 'w, 'z) program" where
  "sigaction_25_17 = sigaction_25 S_USR1"

definition sigaction_25_18 :: "('q, 'w, 'z) program" where
  "sigaction_25_18 = sigaction_25 S_USR2"

definition sigaction_25_19 :: "('q, 'w, 'z) program" where
  "sigaction_25_19 = sigaction_25 S_POLL"

definition sigaction_25_20 :: "('q, 'w, 'z) program" where
  "sigaction_25_20 = sigaction_25 S_PROF"

definition sigaction_25_21 :: "('q, 'w, 'z) program" where
  "sigaction_25_21 = sigaction_25 S_SYS"

definition sigaction_25_22 :: "('q, 'w, 'z) program" where
  "sigaction_25_22 = sigaction_25 S_TRAP"

definition sigaction_25_23 :: "('q, 'w, 'z) program" where
  "sigaction_25_23 = sigaction_25 S_URG"

definition sigaction_25_24 :: "('q, 'w, 'z) program" where
  "sigaction_25_24 = sigaction_25 S_VTALRM"

definition sigaction_25_25 :: "('q, 'w, 'z) program" where
  "sigaction_25_25 = sigaction_25 S_XCPU"

definition sigaction_25_26 :: "('q, 'w, 'z) program" where
  "sigaction_25_26 = sigaction_25 S_XFSZ"

definition files_25_1 :: "('q, 'w, 'z) program list" where
  "files_25_1 = [sigaction_25_1, sigaction_25_2, sigaction_25_3, sigaction_25_4, sigaction_25_5, sigaction_25_6, sigaction_25_7, sigaction_25_8,
     sigaction_25_9, sigaction_25_10, sigaction_25_11, sigaction_25_12, sigaction_25_13, sigaction_25_14, sigaction_25_15, sigaction_25_16,
     sigaction_25_17, sigaction_25_18, sigaction_25_19, sigaction_25_20, sigaction_25_21, sigaction_25_22, sigaction_25_23, sigaction_25_24,
     sigaction_25_25, sigaction_25_26]"

lemma files_25_1_eq: "files_25_1 = map sigaction_25 test_signals"
  by (simp add: files_25_1_def test_signals_def
      sigaction_25_1_def sigaction_25_2_def sigaction_25_3_def sigaction_25_4_def sigaction_25_5_def sigaction_25_6_def
      sigaction_25_7_def sigaction_25_8_def sigaction_25_9_def sigaction_25_10_def sigaction_25_11_def sigaction_25_12_def
      sigaction_25_13_def sigaction_25_14_def sigaction_25_15_def sigaction_25_16_def sigaction_25_17_def sigaction_25_18_def
      sigaction_25_19_def sigaction_25_20_def sigaction_25_21_def sigaction_25_22_def sigaction_25_23_def sigaction_25_24_def
      sigaction_25_25_def sigaction_25_26_def)

section \<open>\<^verbatim>\<open>28-1.c\<close> to \<^verbatim>\<open>28-26.c\<close>\<close>

definition sigaction_28_1 :: "('q, 'w, 'z) program" where
  "sigaction_28_1 = sigaction_28 S_ABRT"

definition sigaction_28_2 :: "('q, 'w, 'z) program" where
  "sigaction_28_2 = sigaction_28 S_ALRM"

definition sigaction_28_3 :: "('q, 'w, 'z) program" where
  "sigaction_28_3 = sigaction_28 S_BUS"

definition sigaction_28_4 :: "('q, 'w, 'z) program" where
  "sigaction_28_4 = sigaction_28 S_CHLD"

definition sigaction_28_5 :: "('q, 'w, 'z) program" where
  "sigaction_28_5 = sigaction_28 S_CONT"

definition sigaction_28_6 :: "('q, 'w, 'z) program" where
  "sigaction_28_6 = sigaction_28 S_FPE"

definition sigaction_28_7 :: "('q, 'w, 'z) program" where
  "sigaction_28_7 = sigaction_28 S_HUP"

definition sigaction_28_8 :: "('q, 'w, 'z) program" where
  "sigaction_28_8 = sigaction_28 S_ILL"

definition sigaction_28_9 :: "('q, 'w, 'z) program" where
  "sigaction_28_9 = sigaction_28 S_INT"

definition sigaction_28_10 :: "('q, 'w, 'z) program" where
  "sigaction_28_10 = sigaction_28 S_PIPE"

definition sigaction_28_11 :: "('q, 'w, 'z) program" where
  "sigaction_28_11 = sigaction_28 S_QUIT"

definition sigaction_28_12 :: "('q, 'w, 'z) program" where
  "sigaction_28_12 = sigaction_28 S_SEGV"

definition sigaction_28_13 :: "('q, 'w, 'z) program" where
  "sigaction_28_13 = sigaction_28 S_TERM"

definition sigaction_28_14 :: "('q, 'w, 'z) program" where
  "sigaction_28_14 = sigaction_28 S_TSTP"

definition sigaction_28_15 :: "('q, 'w, 'z) program" where
  "sigaction_28_15 = sigaction_28 S_TTIN"

definition sigaction_28_16 :: "('q, 'w, 'z) program" where
  "sigaction_28_16 = sigaction_28 S_TTOU"

definition sigaction_28_17 :: "('q, 'w, 'z) program" where
  "sigaction_28_17 = sigaction_28 S_USR1"

definition sigaction_28_18 :: "('q, 'w, 'z) program" where
  "sigaction_28_18 = sigaction_28 S_USR2"

definition sigaction_28_19 :: "('q, 'w, 'z) program" where
  "sigaction_28_19 = sigaction_28 S_POLL"

definition sigaction_28_20 :: "('q, 'w, 'z) program" where
  "sigaction_28_20 = sigaction_28 S_PROF"

definition sigaction_28_21 :: "('q, 'w, 'z) program" where
  "sigaction_28_21 = sigaction_28 S_SYS"

definition sigaction_28_22 :: "('q, 'w, 'z) program" where
  "sigaction_28_22 = sigaction_28 S_TRAP"

definition sigaction_28_23 :: "('q, 'w, 'z) program" where
  "sigaction_28_23 = sigaction_28 S_URG"

definition sigaction_28_24 :: "('q, 'w, 'z) program" where
  "sigaction_28_24 = sigaction_28 S_VTALRM"

definition sigaction_28_25 :: "('q, 'w, 'z) program" where
  "sigaction_28_25 = sigaction_28 S_XCPU"

definition sigaction_28_26 :: "('q, 'w, 'z) program" where
  "sigaction_28_26 = sigaction_28 S_XFSZ"

definition files_28_1 :: "('q, 'w, 'z) program list" where
  "files_28_1 = [sigaction_28_1, sigaction_28_2, sigaction_28_3, sigaction_28_4, sigaction_28_5, sigaction_28_6, sigaction_28_7, sigaction_28_8,
     sigaction_28_9, sigaction_28_10, sigaction_28_11, sigaction_28_12, sigaction_28_13, sigaction_28_14, sigaction_28_15, sigaction_28_16,
     sigaction_28_17, sigaction_28_18, sigaction_28_19, sigaction_28_20, sigaction_28_21, sigaction_28_22, sigaction_28_23, sigaction_28_24,
     sigaction_28_25, sigaction_28_26]"

lemma files_28_1_eq: "files_28_1 = map sigaction_28 test_signals"
  by (simp add: files_28_1_def test_signals_def
      sigaction_28_1_def sigaction_28_2_def sigaction_28_3_def sigaction_28_4_def sigaction_28_5_def sigaction_28_6_def
      sigaction_28_7_def sigaction_28_8_def sigaction_28_9_def sigaction_28_10_def sigaction_28_11_def sigaction_28_12_def
      sigaction_28_13_def sigaction_28_14_def sigaction_28_15_def sigaction_28_16_def sigaction_28_17_def sigaction_28_18_def
      sigaction_28_19_def sigaction_28_20_def sigaction_28_21_def sigaction_28_22_def sigaction_28_23_def sigaction_28_24_def
      sigaction_28_25_def sigaction_28_26_def)

section \<open>All of them\<close>

definition sigaction_files :: "('q, 'w, 'z) program list" where
  "sigaction_files = files_1_1 @ files_2_1 @ files_3_1 @ files_4_1 @ files_4_27 @ files_4_53 @ files_4_79 @ files_6_1 @ files_8_1 @ files_12_1 @ files_12_27 @ files_13_1 @ files_18_1 @ files_22_1 @ files_23_1 @ files_25_1 @ files_28_1"

end
