(* ===== verification/Sig_Contract.thy ===== *)
theory Sig_Contract
  imports Sig_Kernel
begin

text \<open>
  The contract of signal delivery: the locale \<open>signal_kernel\<close> states what POSIX says of dispositions, masks, pending signals and
  the entry into and the return from handlers, as far as the conformance programs depend on it. The lemmas in it say what \<^verbatim>\<open>raise\<close> does to a
  process: a caught signal runs its handler before \<^verbatim>\<open>raise\<close> returns, a blocked one becomes pending and is delivered when the
  handler that blocked it returns. \<open>word_kernel\<close> is an executable system that keeps the contract.
\<close>

section \<open>The abstract state\<close>

record sview =
  v_act :: "int \<Rightarrow> hnd \<times> int set \<times> saflag set"
  v_mask :: "int set"
  v_pend :: "int set"
  v_frames :: "int set list"
  v_alt :: "int \<times> int"

definition unblockable :: "('q, 'z) sig_api_scheme \<Rightarrow> int set" where
  "unblockable os = {sg_no os S_KILL, sg_no os S_STOP}"

definition abs_act :: "('q, 'z) sig_api_scheme \<Rightarrow> ('q \<Rightarrow> int set) \<Rightarrow> 'q sigact \<Rightarrow> hnd \<times> int set \<times> saflag set" where
  "abs_act os members a = (sa_handler a, members (sa_mask a) - unblockable os, sa_flags a)"

text \<open>The signals of a mask during the handler of \<open>s\<close>, and the state in which the handler starts.\<close>

definition handler_mask :: "hnd \<times> int set \<times> saflag set \<Rightarrow> int \<Rightarrow> int set" where
  "handler_mask a s = fst (snd a) \<union> (if SA_NODEFER \<in> snd (snd a) then {} else {s})"

definition entered :: "sview \<Rightarrow> int \<Rightarrow> sview" where
  "entered v s = v\<lparr>v_pend := v_pend v - {s}, v_frames := v_mask v # v_frames v, v_mask := v_mask v \<union> handler_mask (v_act v s) s\<rparr>"

text \<open>Dispositions that discard a signal.\<close>

definition ignoring :: "('q, 'z) sig_api_scheme \<Rightarrow> hnd \<Rightarrow> int \<Rightarrow> bool" where
  "ignoring os h s \<longleftrightarrow> h = SIG_IGN \<or> h = SIG_DFL \<and> s \<in> {sg_no os S_CHLD, sg_no os S_URG}"

definition install :: "('q, 'z) sig_api_scheme \<Rightarrow> int \<Rightarrow> hnd \<times> int set \<times> saflag set \<Rightarrow> sview \<Rightarrow> sview" where
  "install os s a v = v\<lparr>v_act := (v_act v)(s := a), v_pend := if ignoring os (fst a) s then v_pend v - {s} else v_pend v\<rparr>"

fun new_mask :: "how \<Rightarrow> int set \<Rightarrow> int set \<Rightarrow> int set" where
  "new_mask SIG_BLOCK q m = m \<union> q"
| "new_mask SIG_UNBLOCK q m = m - q"
| "new_mask SIG_SETMASK q m = q"
| "new_mask (How_other h) q m = m"

definition caught :: "sview \<Rightarrow> int \<Rightarrow> bool" where
  "caught v s \<longleftrightarrow> (\<exists>f. fst (v_act v s) = Fn f)"

definition calls :: "sview \<Rightarrow> int \<Rightarrow> delivery" where
  "calls v s = (case fst (v_act v s) of Fn f \<Rightarrow> D_call f s s | _ \<Rightarrow> D_none)"

section \<open>The contract\<close>

locale signal_kernel = signal_sets os signals initialised members
  for os :: "('q, 'w, 'z) sigk_scheme" and signals :: "int set" and initialised :: "'q \<Rightarrow> bool" and members :: "'q \<Rightarrow> int set" +
  fixes view :: "'w \<Rightarrow> sview"
  assumes mask_ok: "v_mask (view w) \<inter> unblockable os = {}"
    and disposition: "fst (v_act (view w) s) \<noteq> SIG_ERR \<and> fst (v_act (view w) s) \<noteq> SIG_HOLD"
    and unblockable_default: "s \<in> unblockable os \<Longrightarrow> fst (v_act (view w) s) = SIG_DFL"
    and action_set: "s \<in> signals - unblockable os \<Longrightarrow> initialised (sa_mask a) \<Longrightarrow> sa_handler a \<noteq> SIG_ERR \<Longrightarrow> sa_handler a \<noteq> SIG_HOLD \<Longrightarrow>
      \<exists>e old w'. k_sigaction os s (Some a) w = ((0, e, old), w') \<and> initialised (sa_mask old)
        \<and> abs_act os members old = v_act (view w) s \<and> view w' = install os s (abs_act os members a) (view w)"
    and action_get: "s \<in> signals \<Longrightarrow> \<exists>e old w'. k_sigaction os s None w = ((0, e, old), w') \<and> view w' = view w"
    and action_wrong: "s \<notin> signals - unblockable os \<Longrightarrow> sa_handler a \<noteq> SIG_DFL \<Longrightarrow>
      \<exists>old w'. k_sigaction os s (Some a) w = ((- 1, EINVAL, old), w')"
    and rtmax: "k_sigrtmax os + 10 \<notin> signals"
    and signal_set: "s \<in> signals - unblockable os \<Longrightarrow> h \<noteq> SIG_ERR \<Longrightarrow> h \<noteq> SIG_HOLD \<Longrightarrow>
      \<exists>e w' fl. k_signal os s h w = ((fst (v_act (view w) s), e), w') \<and> view w' = install os s (h, {}, fl) (view w)"
    and signal_wrong: "s \<notin> signals - unblockable os \<Longrightarrow> h \<noteq> SIG_DFL \<Longrightarrow> \<exists>w'. k_signal os s h w = ((SIG_ERR, EINVAL), w')"
    and sigset_hold: "s \<in> signals - unblockable os \<Longrightarrow>
      \<exists>e w'. k_sigset os s SIG_HOLD w = ((if s \<in> v_mask (view w) then SIG_HOLD else fst (v_act (view w) s), e), w')
        \<and> view w' = (view w)\<lparr>v_mask := insert s (v_mask (view w))\<rparr>"
    and sigset_set: "s \<in> signals - unblockable os \<Longrightarrow> h \<noteq> SIG_ERR \<Longrightarrow> h \<noteq> SIG_HOLD \<Longrightarrow>
      \<exists>e w'. k_sigset os s h w = ((if s \<in> v_mask (view w) then SIG_HOLD else fst (v_act (view w) s), e), w')
        \<and> view w' = (install os s (h, {}, {}) (view w))\<lparr>v_mask := v_mask (view w) - {s}\<rparr>"
    and sigset_wrong: "s \<notin> signals - unblockable os \<Longrightarrow> h \<noteq> SIG_DFL \<Longrightarrow> \<exists>w'. k_sigset os s h w = ((SIG_ERR, EINVAL), w') \<and> view w' = view w"
    and sighold_law: "s \<in> signals - unblockable os \<Longrightarrow>
      \<exists>e w'. k_sighold os s w = ((0, e), w') \<and> view w' = (view w)\<lparr>v_mask := insert s (v_mask (view w))\<rparr>"
    and sigrelse_law: "s \<in> signals \<Longrightarrow> \<exists>e w'. k_sigrelse os s w = ((0, e), w') \<and> view w' = (view w)\<lparr>v_mask := v_mask (view w) - {s}\<rparr>"
    and sigignore_law: "s \<in> signals - unblockable os \<Longrightarrow>
      \<exists>e w'. k_sigignore os s w = ((0, e), w') \<and> view w' = install os s (SIG_IGN, {}, {}) (view w)"
    and sigignore_wrong: "s \<notin> signals - unblockable os \<Longrightarrow> \<exists>w'. k_sigignore os s w = ((- 1, EINVAL), w')"
    and hold_wrong: "s \<notin> signals \<Longrightarrow> \<exists>w'. k_sighold os s w = ((- 1, EINVAL), w')"
    and relse_wrong: "s \<notin> signals \<Longrightarrow> \<exists>w'. k_sigrelse os s w = ((- 1, EINVAL), w')"
    and procmask_set: "initialised q \<Longrightarrow> \<forall>k. hw \<noteq> How_other k \<Longrightarrow>
      \<exists>e old w'. k_sigprocmask os hw (Some q) w = ((0, e, old), w') \<and> initialised old \<and> members old = v_mask (view w)
        \<and> view w' = (view w)\<lparr>v_mask := new_mask hw (members q) (v_mask (view w)) - unblockable os\<rparr>"
    and procmask_get: "\<exists>e old w'. k_sigprocmask os hw None w = ((0, e, old), w') \<and> initialised old \<and> members old = v_mask (view w)
        \<and> view w' = view w"
    and procmask_wrong: "\<exists>old w'. k_sigprocmask os (How_other k) (Some q) w = ((- 1, EINVAL, old), w') \<and> view w' = view w"
    and raise_law: "s \<in> signals \<Longrightarrow> \<not> ignoring os (fst (v_act (view w) s)) s \<Longrightarrow>
      \<exists>e w'. k_raise os s w = ((0, e), w') \<and> view w' = (view w)\<lparr>v_pend := insert s (v_pend (view w))\<rparr>"
    and raise_ignored: "s \<in> signals \<Longrightarrow> ignoring os (fst (v_act (view w) s)) s \<Longrightarrow> s \<notin> v_mask (view w) \<Longrightarrow>
      \<exists>e w'. k_raise os s w = ((0, e), w') \<and> view w' = view w"
    and raise_wrong: "s \<notin> signals \<Longrightarrow> \<exists>w'. k_raise os s w = ((- 1, EINVAL), w') \<and> view w' = view w"
    and enter_none: "v_pend (view w) \<subseteq> v_mask (view w) \<Longrightarrow> \<exists>w'. k_enter os w = (D_none, w') \<and> view w' = view w"
    and enter_caught: "v_pend (view w) - v_mask (view w) \<noteq> {} \<Longrightarrow> \<forall>s \<in> v_pend (view w) - v_mask (view w). caught (view w) s \<Longrightarrow>
      \<exists>s w' act. s \<in> v_pend (view w) - v_mask (view w) \<and> k_enter os w = (calls (view w) s, w')
        \<and> view w' = (entered (view w) s)\<lparr>v_act := act\<rparr>
        \<and> (\<forall>r. r \<noteq> s \<or> SA_RESETHAND \<notin> snd (snd (v_act (view w) s)) \<longrightarrow> act r = v_act (view w) r)"
    and enter_kill: "sg_no os S_KILL \<in> v_pend (view w) \<Longrightarrow> \<exists>w'. k_enter os w = (D_kill (sg_no os S_KILL), w')"
    and enter_stop: "v_pend (view w) - v_mask (view w) = {sg_no os S_STOP} \<Longrightarrow> \<exists>w'. k_enter os w = (D_stop (sg_no os S_STOP), w')"
    and return_law: "v_frames (view w) = m # ms \<Longrightarrow> view (k_return os w) = (view w)\<lparr>v_mask := m, v_frames := ms\<rparr>"
    and pending_law: "\<exists>q w'. k_sigpending os w = ((0, q), w') \<and> initialised q \<and> members q = v_pend (view w) \<inter> v_mask (view w)
      \<and> view w' = view w"
    and altstack_get: "\<exists>e st w'. k_sigaltstack os None w = ((0, e, st), w') \<and> (ss_sp st, ss_size st) = v_alt (view w) \<and> view w' = view w"
    and altstack_set: "ss_flags st = 0 \<Longrightarrow> k_sigstksz os \<le> ss_size st \<Longrightarrow>
      \<exists>e old w'. k_sigaltstack os (Some st) w = ((0, e, old), w') \<and> view w' = (view w)\<lparr>v_alt := (ss_sp st, ss_size st)\<rparr>"
    and malloc_ok: "\<exists>p w'. k_malloc os k w = (p, w') \<and> p \<noteq> 0 \<and> view w' = view w"
    and fork_ok: "\<exists>pid cw pw. k_fork os w = (pid, cw, pw) \<and> pid \<noteq> - 1 \<and> view cw = (view w)\<lparr>v_pend := {}\<rparr> \<and> view pw = view w"
    and wait_ok: "\<exists>pid w'. k_wait os u (Some x) w = (pid, w') \<and> pid \<noteq> - 1"
    and wexitstatus: "0 \<le> c \<Longrightarrow> c < 256 \<Longrightarrow> k_wexitstatus os (Exited c) = c"
begin

lemma no_eq [simp]: "sg_no os x = sg_no os y \<longleftrightarrow> x = y"
  using distinct_numbers by (auto dest: injD)

lemma caught_raise:
  assumes "s \<in> signals" and "caught (view w) s"
  shows "\<exists>e w'. k_raise os s w = ((0, e), w') \<and> view w' = (view w)\<lparr>v_pend := insert s (v_pend (view w))\<rparr>"
  using raise_law [OF assms(1), of w] assms(2) by (auto simp: caught_def ignoring_def)

lemma deliver_none:
  assumes "v_pend (view w) \<subseteq> v_mask (view w)"
  shows "\<exists>w'. deliver (Suc n) os H (g, w) = Ret (Inr (), g, w') \<and> view w' = view w"
  using enter_none [OF assms] by auto

lemma raise_unfold: "(\<lambda>s. pbind (kern (k_raise os s)) (\<lambda>(rc, e). pbind (deliver n os H) (\<lambda>_. pret rc))) = praise n os H"
  by (rule ext) (simp add: praise_def)

lemma deliver_caught:
  assumes "v_pend (view w) - v_mask (view w) = {s}" and "fst (v_act (view w) s) = Fn f"
  shows "\<exists>w1 act. deliver (Suc n) os H (g, w) =
        pbind (H f (praise n os H) s s) (\<lambda>_. pbind (kern (\<lambda>w. ((), k_return os w))) (\<lambda>_. deliver n os H)) (g, w1)
      \<and> view w1 = (entered (view w) s)\<lparr>v_act := act\<rparr>
      \<and> (\<forall>r. r \<noteq> s \<or> SA_RESETHAND \<notin> snd (snd (v_act (view w) s)) \<longrightarrow> act r = v_act (view w) r)"
proof -
  have "v_pend (view w) - v_mask (view w) \<noteq> {}" "\<forall>s \<in> v_pend (view w) - v_mask (view w). caught (view w) s"
    using assms by (auto simp: caught_def)
  from enter_caught [OF this] assms obtain w1 act where "k_enter os w = (D_call f s s, w1)"
    "view w1 = (entered (view w) s)\<lparr>v_act := act\<rparr>"
    "\<forall>r. r \<noteq> s \<or> SA_RESETHAND \<notin> snd (snd (v_act (view w) s)) \<longrightarrow> act r = v_act (view w) r"
    by (auto simp: calls_def)
  then show ?thesis
    by (intro exI [of _ w1] exI [of _ act]) (simp add: raise_unfold)
qed

text \<open>A signal that is not blocked: the handler runs before \<^verbatim>\<open>raise\<close> returns.\<close>

lemma praise_caught:
  assumes "s \<in> signals" and "v_pend (view w) \<subseteq> v_mask (view w)" and "s \<notin> v_mask (view w)" and "fst (v_act (view w) s) = Fn f"
  shows "\<exists>w1 act. praise (Suc n) os H s (g, w) =
        pbind (pbind (H f (praise n os H) s s) (\<lambda>_. pbind (kern (\<lambda>w. ((), k_return os w))) (\<lambda>_. deliver n os H))) (\<lambda>_. pret 0) (g, w1)
      \<and> view w1 = (entered (view w) s)\<lparr>v_act := act\<rparr>
      \<and> (\<forall>r. r \<noteq> s \<or> SA_RESETHAND \<notin> snd (snd (v_act (view w) s)) \<longrightarrow> act r = v_act (view w) r)"
proof -
  obtain e w0 where r: "k_raise os s w = ((0, e), w0)" "view w0 = (view w)\<lparr>v_pend := insert s (v_pend (view w))\<rparr>"
    using caught_raise [OF assms(1), of w] assms(4) by (auto simp: caught_def)
  have "v_pend (view w0) - v_mask (view w0) = {s}" "fst (v_act (view w0) s) = Fn f"
    using assms r(2) by auto
  from deliver_caught [OF this, of n H g] obtain w1 act where
    d: "deliver (Suc n) os H (g, w0) =
        pbind (H f (praise n os H) s s) (\<lambda>_. pbind (kern (\<lambda>w. ((), k_return os w))) (\<lambda>_. deliver n os H)) (g, w1)"
    and v: "view w1 = (entered (view w0) s)\<lparr>v_act := act\<rparr>"
      "\<forall>r. r \<noteq> s \<or> SA_RESETHAND \<notin> snd (snd (v_act (view w0) s)) \<longrightarrow> act r = v_act (view w0) r" by auto
  have "praise (Suc n) os H s (g, w) =
      pbind (pbind (H f (praise n os H) s s) (\<lambda>_. pbind (kern (\<lambda>w. ((), k_return os w))) (\<lambda>_. deliver n os H))) (\<lambda>_. pret 0) (g, w1)"
    using d r(1) by (simp add: praise_def pbind_def [of "deliver (Suc n) os H"] pbind_def [of "pbind (H f (praise n os H) s s) k" for k] del: deliver.simps)
  moreover have "v_pend (view w) - {s} = v_pend (view w)" using assms by auto
  then have "view w1 = (entered (view w) s)\<lparr>v_act := act\<rparr>" using v r(2) by (simp add: entered_def)
  ultimately show ?thesis
    using v(2) r(2) by (intro exI [of _ w1] exI [of _ act]) simp
qed

text \<open>A handler that leaves the system as it found it.\<close>

lemma praise_returns:
  assumes "s \<in> signals" and "v_pend (view w) \<subseteq> v_mask (view w)" and "s \<notin> v_mask (view w)" and "fst (v_act (view w) s) = Fn f"
    and run: "\<And>w1. v_alt (view w1) = v_alt (view w) \<Longrightarrow>
      \<exists>w2. H f (praise (Suc n) os H) s s (g, w1) = Ret (Inr (), g', w2) \<and> view w2 = view w1"
  shows "\<exists>w' act. praise (Suc (Suc n)) os H s (g, w) = Ret (Inr 0, g', w') \<and> view w' = (view w)\<lparr>v_act := act\<rparr>
      \<and> (\<forall>r. r \<noteq> s \<or> SA_RESETHAND \<notin> snd (snd (v_act (view w) s)) \<longrightarrow> act r = v_act (view w) r)"
proof -
  obtain w1 act where p: "praise (Suc (Suc n)) os H s (g, w) =
        pbind (pbind (H f (praise (Suc n) os H) s s) (\<lambda>_. pbind (kern (\<lambda>w. ((), k_return os w))) (\<lambda>_. deliver (Suc n) os H))) (\<lambda>_. pret 0) (g, w1)"
    and v: "view w1 = (entered (view w) s)\<lparr>v_act := act\<rparr>"
      "\<forall>r. r \<noteq> s \<or> SA_RESETHAND \<notin> snd (snd (v_act (view w) s)) \<longrightarrow> act r = v_act (view w) r"
    using praise_caught [OF assms(1-4), of "Suc n" H g] by blast
  obtain w2 where h: "H f (praise (Suc n) os H) s s (g, w1) = Ret (Inr (), g', w2)" "view w2 = view w1"
    using run [of w1] v by (auto simp: entered_def)
  have pe: "v_pend (view w) - {s} = v_pend (view w)" using assms by auto
  have "v_frames (view w2) = v_mask (view w) # v_frames (view w)" using h v by (simp add: entered_def)
  from return_law [OF this] have "view (k_return os w2) = (view w)\<lparr>v_act := act\<rparr>"
    using h v pe by (simp add: entered_def)
  moreover from this deliver_none [of "k_return os w2" n H g'] assms(2) obtain w3 where
    "deliver (Suc n) os H (g', k_return os w2) = Ret (Inr (), g', w3)" "view w3 = view (k_return os w2)" by auto
  ultimately show ?thesis
    using p h v(2) by (intro exI [of _ w3] exI [of _ act]) (simp add: kern_def del: deliver.simps)
qed

text \<open>A blocked signal becomes pending.\<close>

lemma praise_blocked:
  assumes "s \<in> signals" and "v_pend (view w) \<subseteq> v_mask (view w)" and "s \<in> v_mask (view w)" and "caught (view w) s"
  shows "\<exists>w'. praise (Suc n) os H s (g, w) = Ret (Inr 0, g, w') \<and> view w' = (view w)\<lparr>v_pend := insert s (v_pend (view w))\<rparr>"
proof -
  obtain e w0 where r: "k_raise os s w = ((0, e), w0)" "view w0 = (view w)\<lparr>v_pend := insert s (v_pend (view w))\<rparr>"
    using caught_raise [OF assms(1) assms(4)] by auto
  then obtain w1 where "deliver (Suc n) os H (g, w0) = Ret (Inr (), g, w1)" "view w1 = view w0"
    using deliver_none [of w0 n H g] assms(2,3) by auto
  then show ?thesis using r by (simp add: praise_def del: deliver.simps)
qed

end

section \<open>An executable system\<close>

text \<open>Sets and numbers as in \<open>word_sets\<close>; the mask never has effect on \<^verbatim>\<open>SIGKILL\<close> (9) and \<^verbatim>\<open>SIGSTOP\<close> (19). \<^verbatim>\<open>SIGCHLD\<close> and
  \<^verbatim>\<open>SIGURG\<close> are ignored by default, \<^verbatim>\<open>SIGCONT\<close> does nothing to a running process, \<^verbatim>\<open>SIGTSTP\<close>, \<^verbatim>\<open>SIGTTIN\<close> and \<^verbatim>\<open>SIGTTOU\<close> stop the process.\<close>

record wk =
  wk_act :: "int \<Rightarrow> 64 word sigact"
  wk_mask :: "64 word"
  wk_pend :: "64 word"
  wk_frames :: "64 word list"
  wk_alt :: stack_t

definition clear_kill :: "64 word \<Rightarrow> 64 word" where
  "clear_kill m = unset_bit 8 (unset_bit 18 m)"

text \<open>The disposition: those of \<^verbatim>\<open>SIGKILL\<close> and \<^verbatim>\<open>SIGSTOP\<close> are fixed.\<close>

definition wk_disp :: "wk \<Rightarrow> int \<Rightarrow> hnd" where
  "wk_disp w s = (let h = sa_handler (wk_act w s) in if s = 9 \<or> s = 19 \<or> h = SIG_ERR \<or> h = SIG_HOLD then SIG_DFL else h)"

definition wk_ignored :: "hnd \<Rightarrow> int \<Rightarrow> bool" where
  "wk_ignored h s \<longleftrightarrow> h = SIG_IGN \<or> h = SIG_DFL \<and> s \<in> {17, 23}"

definition wk_install :: "int \<Rightarrow> 64 word sigact \<Rightarrow> wk \<Rightarrow> wk" where
  "wk_install s a w = w\<lparr>wk_act := (wk_act w)(s := a),
     wk_pend := if wk_ignored (sa_handler a) s then unset_bit (nat (s - 1)) (wk_pend w) else wk_pend w\<rparr>"

definition wk_settable :: "int \<Rightarrow> bool" where
  "wk_settable s \<longleftrightarrow> 1 \<le> s \<and> s \<le> 64 \<and> s \<noteq> 9 \<and> s \<noteq> 19"

definition wk_sigaction :: "int \<Rightarrow> 64 word sigact option \<Rightarrow> wk \<Rightarrow> (int \<times> errno \<times> 64 word sigact) \<times> wk" where
  "wk_sigaction s act w =
     (let old = (wk_act w s)\<lparr>sa_handler := wk_disp w s\<rparr> in
      case act of
        None \<Rightarrow> if s < 1 \<or> 64 < s then ((- 1, EINVAL, old), w) else ((0, EOK, old), w)
      | Some a \<Rightarrow> if wk_settable s then ((0, EOK, old), wk_install s a w) else ((- 1, EINVAL, old), w))"

definition wk_raise :: "int \<Rightarrow> wk \<Rightarrow> (int \<times> errno) \<times> wk" where
  "wk_raise s w =
     (if s < 1 \<or> 64 < s then ((- 1, EINVAL), w)
      else ((0, EOK), if wk_ignored (wk_disp w s) s then w else w\<lparr>wk_pend := set_bit (nat (s - 1)) (wk_pend w)\<rparr>))"

definition wk_next :: "wk \<Rightarrow> int option" where
  "wk_next w = find (\<lambda>s. bit (wk_pend w) (nat (s - 1)) \<and> \<not> bit (clear_kill (wk_mask w)) (nat (s - 1))) (9 # [1..64])"

definition wk_enter :: "wk \<Rightarrow> delivery \<times> wk" where
  "wk_enter w =
     (case wk_next w of
        None \<Rightarrow> (D_none, w)
      | Some s \<Rightarrow>
          let w1 = w\<lparr>wk_pend := unset_bit (nat (s - 1)) (wk_pend w)\<rparr>; a = wk_act w s in
          if s = 9 then (D_kill 9, w1)
          else if s = 19 then (D_stop 19, w1)
          else case wk_disp w s of
            Fn f \<Rightarrow> (D_call f s s, w1\<lparr>
                wk_frames := wk_mask w # wk_frames w,
                wk_mask := (let m = or (wk_mask w) (sa_mask a) in if SA_NODEFER \<in> sa_flags a then m else set_bit (nat (s - 1)) m),
                wk_act := if SA_RESETHAND \<in> sa_flags a then (wk_act w)(s := a\<lparr>sa_handler := SIG_DFL\<rparr>) else wk_act w\<rparr>)
          | SIG_DFL \<Rightarrow> if s = 18 then (D_none, w1) else if s \<in> {20, 21, 22} then (D_stop s, w1) else (D_kill s, w1)
          | _ \<Rightarrow> (D_none, w1))"

definition wk_return :: "wk \<Rightarrow> wk" where
  "wk_return w = (case wk_frames w of [] \<Rightarrow> w | m # ms \<Rightarrow> w\<lparr>wk_mask := m, wk_frames := ms\<rparr>)"

fun wk_sigprocmask :: "how \<Rightarrow> 64 word option \<Rightarrow> wk \<Rightarrow> (int \<times> errno \<times> 64 word) \<times> wk" where
  "wk_sigprocmask h None w = ((0, EOK, clear_kill (wk_mask w)), w)"
| "wk_sigprocmask SIG_BLOCK (Some q) w = ((0, EOK, clear_kill (wk_mask w)), w\<lparr>wk_mask := or (wk_mask w) q\<rparr>)"
| "wk_sigprocmask SIG_UNBLOCK (Some q) w = ((0, EOK, clear_kill (wk_mask w)), w\<lparr>wk_mask := and (wk_mask w) (not q)\<rparr>)"
| "wk_sigprocmask SIG_SETMASK (Some q) w = ((0, EOK, clear_kill (wk_mask w)), w\<lparr>wk_mask := q\<rparr>)"
| "wk_sigprocmask (How_other h) (Some q) w = ((- 1, EINVAL, clear_kill (wk_mask w)), w)"

definition wk_signal :: "int \<Rightarrow> hnd \<Rightarrow> wk \<Rightarrow> (hnd \<times> errno) \<times> wk" where
  "wk_signal s h w =
     (if wk_settable s then ((wk_disp w s, EOK), wk_install s \<lparr>sa_handler = h, sa_mask = 0, sa_flags = {SA_RESTART}\<rparr> w)
      else ((SIG_ERR, EINVAL), w))"

definition wk_sigset :: "int \<Rightarrow> hnd \<Rightarrow> wk \<Rightarrow> (hnd \<times> errno) \<times> wk" where
  "wk_sigset s h w =
     (if \<not> wk_settable s then ((SIG_ERR, EINVAL), w)
      else ((if bit (wk_mask w) (nat (s - 1)) then SIG_HOLD else wk_disp w s, EOK),
            if h = SIG_HOLD then w\<lparr>wk_mask := set_bit (nat (s - 1)) (wk_mask w)\<rparr>
            else (wk_install s \<lparr>sa_handler = h, sa_mask = 0, sa_flags = {}\<rparr> w)\<lparr>wk_mask := unset_bit (nat (s - 1)) (wk_mask w)\<rparr>))"

definition wk_hold :: "(nat \<Rightarrow> 64 word \<Rightarrow> 64 word) \<Rightarrow> int \<Rightarrow> wk \<Rightarrow> (int \<times> errno) \<times> wk" where
  "wk_hold f s w = (if s < 1 \<or> 64 < s then ((- 1, EINVAL), w) else ((0, EOK), w\<lparr>wk_mask := f (nat (s - 1)) (wk_mask w)\<rparr>))"

definition wk_sigignore :: "int \<Rightarrow> wk \<Rightarrow> (int \<times> errno) \<times> wk" where
  "wk_sigignore s w =
     (if wk_settable s then ((0, EOK), wk_install s \<lparr>sa_handler = SIG_IGN, sa_mask = 0, sa_flags = {}\<rparr> w) else ((- 1, EINVAL), w))"

fun wk_wexitstatus :: "wstatus \<Rightarrow> int" where
  "wk_wexitstatus (Exited c) = c"
| "wk_wexitstatus (Signaled s) = 0"
| "wk_wexitstatus (Stopped s) = s"

definition word_kernel :: "(64 word, wk) sigk" where
  "word_kernel =
     sig_api.extend word_sets \<lparr>k_sigaction = wk_sigaction, k_raise = wk_raise, k_enter = wk_enter, k_return = wk_return, k_signal = wk_signal,
       k_sigset = wk_sigset, k_sighold = wk_hold set_bit, k_sigrelse = wk_hold unset_bit, k_sigignore = wk_sigignore,
       k_sigprocmask = wk_sigprocmask, k_sigpending = (\<lambda>w. ((0, and (wk_pend w) (clear_kill (wk_mask w))), w)),
       k_sigaltstack = (\<lambda>st w. ((0, EOK, wk_alt w), case st of None \<Rightarrow> w | Some s \<Rightarrow> w\<lparr>wk_alt := s\<rparr>)),
       k_malloc = (\<lambda>n w. (4096, w)), k_fork = (\<lambda>w. (2, w\<lparr>wk_pend := 0\<rparr>, w)), k_wait = (\<lambda>u st w. (if st = None then - 1 else 2, w)),
       k_wexitstatus = wk_wexitstatus, k_rtsig = 200112, k_sigstksz = 8192, k_sigrtmax = 64\<rparr>"

definition word_view :: "wk \<Rightarrow> sview" where
  "word_view w =
     \<lparr>v_act = (\<lambda>s. (wk_disp w s, word_members (sa_mask (wk_act w s)) - {9, 19}, sa_flags (wk_act w s))),
      v_mask = word_members (wk_mask w) - {9, 19}, v_pend = word_members (wk_pend w),
      v_frames = map (\<lambda>m. word_members m - {9, 19}) (wk_frames w), v_alt = (ss_sp (wk_alt w), ss_size (wk_alt w))\<rparr>"

definition wk0 :: wk where
  "wk0 = \<lparr>wk_act = (\<lambda>_. \<lparr>sa_handler = SIG_DFL, sa_mask = 0, sa_flags = {}\<rparr>), wk_mask = 0, wk_pend = 0, wk_frames = [], wk_alt = \<lparr>ss_sp = 0, ss_size = 0, ss_flags = 2\<rparr>\<rparr>"

lemma word_members_simps [simp]:
  "word_members 0 = {}" "word_members (or a b) = word_members a \<union> word_members b" "word_members (and a b) = word_members a \<inter> word_members b"
  "word_members (not a) = {1..64} - word_members a"
  "1 \<le> s \<Longrightarrow> s \<le> 64 \<Longrightarrow> word_members (set_bit (nat (s - 1)) a) = insert s (word_members a)"
  "1 \<le> s \<Longrightarrow> s \<le> 64 \<Longrightarrow> word_members (unset_bit (nat (s - 1)) a) = word_members a - {s}"
  by (auto simp: word_members_def bit_or_iff bit_and_iff bit_not_iff bit_set_bit_iff bit_unset_bit_iff)

lemma word_members_range: "s \<in> word_members m \<Longrightarrow> 1 \<le> s \<and> s \<le> 64"
  by (simp add: word_members_def)

lemma clear_kill_members [simp]: "word_members (clear_kill m) = word_members m - {9, 19}"
  by (auto simp: clear_kill_def word_members_def bit_unset_bit_iff)

lemma word_kernel_sets [simp]:
  "sg_no word_kernel = linux_no" "sg_empty word_kernel = sg_empty word_sets" "sg_fill word_kernel = sg_fill word_sets"
  "sg_add word_kernel = sg_add word_sets" "sg_del word_kernel = sg_del word_sets" "sg_member word_kernel = sg_member word_sets"
  by (simp_all add: word_kernel_def word_sets_def sig_api.extend_def)

lemma word_kernel_calls [simp]:
  "k_sigaction word_kernel = wk_sigaction" "k_raise word_kernel = wk_raise" "k_enter word_kernel = wk_enter" "k_return word_kernel = wk_return"
  "k_signal word_kernel = wk_signal" "k_sigset word_kernel = wk_sigset" "k_sighold word_kernel = wk_hold set_bit"
  "k_sigrelse word_kernel = wk_hold unset_bit" "k_sigignore word_kernel = wk_sigignore" "k_sigprocmask word_kernel = wk_sigprocmask"
  "k_sigpending word_kernel = (\<lambda>w. ((0, and (wk_pend w) (clear_kill (wk_mask w))), w))"
  "k_sigaltstack word_kernel = (\<lambda>st w. ((0, EOK, wk_alt w), case st of None \<Rightarrow> w | Some s \<Rightarrow> w\<lparr>wk_alt := s\<rparr>))"
  "k_malloc word_kernel = (\<lambda>n w. (4096, w))" "k_fork word_kernel = (\<lambda>w. (2, w\<lparr>wk_pend := 0\<rparr>, w))"
  "k_wait word_kernel = (\<lambda>u st w. (if st = None then - 1 else 2, w))" "k_wexitstatus word_kernel = wk_wexitstatus"
  "k_rtsig word_kernel = 200112" "k_sigstksz word_kernel = 8192" "k_sigrtmax word_kernel = 64"
  by (simp_all add: word_kernel_def sig_api.extend_def)

lemma word_unblockable [simp]: "unblockable word_kernel = {9, 19}"
  by (simp add: unblockable_def)

lemma wk_disp_other [simp]:
  "wk_disp (w\<lparr>wk_mask := m\<rparr>) = wk_disp w" "wk_disp (w\<lparr>wk_pend := p\<rparr>) = wk_disp w" "wk_disp (w\<lparr>wk_frames := fs\<rparr>) = wk_disp w"
  "wk_disp (w\<lparr>wk_alt := st\<rparr>) = wk_disp w"
  by (simp_all add: wk_disp_def fun_eq_iff)

lemma word_view_simps [simp]:
  "fst (v_act (word_view w) s) = wk_disp w s" "v_mask (word_view w) = word_members (wk_mask w) - {9, 19}"
  "v_pend (word_view w) = word_members (wk_pend w)" "snd (snd (v_act (word_view w) s)) = sa_flags (wk_act w s)"
  "word_view (w\<lparr>wk_mask := m\<rparr>) = (word_view w)\<lparr>v_mask := word_members m - {9, 19}\<rparr>"
  "word_view (w\<lparr>wk_pend := m\<rparr>) = (word_view w)\<lparr>v_pend := word_members m\<rparr>"
  "word_view (w\<lparr>wk_alt := st\<rparr>) = (word_view w)\<lparr>v_alt := (ss_sp st, ss_size st)\<rparr>"
  by (simp_all add: word_view_def)

lemma wk_install_view:
  assumes "wk_settable s" and "sa_handler a \<noteq> SIG_ERR" and "sa_handler a \<noteq> SIG_HOLD"
  shows "word_view (wk_install s a w) = install word_kernel s (sa_handler a, word_members (sa_mask a) - {9, 19}, sa_flags a) (word_view w)"
  using assms by (auto simp: word_view_def wk_install_def install_def wk_settable_def wk_disp_def wk_ignored_def ignoring_def Let_def fun_eq_iff)

lemma word_members_bit: "s \<in> {1..64} \<Longrightarrow> bit m (nat (s - 1)) \<longleftrightarrow> s \<in> word_members m"
  by (simp add: word_members_def)

lemma find_SomeD: "find P xs = Some x \<Longrightarrow> x \<in> set xs \<and> P x"
  by (induction xs) (auto split: if_splits)

lemma wk_candidates: "set (9 # [1..64]) = {1..64 :: int}"
  by (simp add: insert_absorb)

lemma wk_next_none:
  assumes "word_members (wk_pend w) \<subseteq> word_members (wk_mask w) - {9, 19}"
  shows "wk_next w = None"
proof -
  have "\<not> (bit (wk_pend w) (nat (s - 1)) \<and> \<not> bit (clear_kill (wk_mask w)) (nat (s - 1)))" if "s \<in> {1..64}" for s
    using assms by (auto simp: word_members_bit [OF that])
  then show ?thesis
    unfolding wk_next_def find_None_iff wk_candidates [symmetric] by blast
qed

lemma wk_next_some:
  assumes "wk_next w = Some s"
  shows "s \<in> {1..64} \<and> s \<in> word_members (wk_pend w) \<and> s \<notin> word_members (wk_mask w) - {9, 19}"
  using find_SomeD [OF assms [unfolded wk_next_def]] unfolding wk_candidates by (auto simp: word_members_bit)

lemma wk_next_ex:
  assumes "s \<in> word_members (wk_pend w)" and "s \<notin> word_members (wk_mask w) - {9, 19}"
  shows "\<exists>r. wk_next w = Some r"
proof -
  have s: "s \<in> {1..64}" using assms(1) by (simp add: word_members_def)
  with assms have "bit (wk_pend w) (nat (s - 1)) \<and> \<not> bit (clear_kill (wk_mask w)) (nat (s - 1))"
    by (auto simp: word_members_bit)
  with s have "wk_next w \<noteq> None"
    unfolding wk_next_def find_None_iff wk_candidates by blast
  then show ?thesis by blast
qed

lemma wk_next_kill: "9 \<in> word_members (wk_pend w) \<Longrightarrow> wk_next w = Some 9"
  by (simp add: wk_next_def word_members_def clear_kill_def bit_unset_bit_iff)

interpretation wksets: signal_sets word_kernel "{1..64}" "\<lambda>_. True" word_members
proof unfold_locales
  show "sg_no word_kernel n \<in> {1..64}" for n by (cases n) simp_all
  show "inj (sg_no word_kernel)" by (simp add: linux_no_inj)
qed (auto simp: word_sets_def word_members_def bit_set_bit_iff bit_unset_bit_iff)

lemma wk_enter_call:
  assumes "wk_next w = Some s" and "wk_disp w s = Fn f"
  shows "\<exists>w' act. wk_enter w = (D_call f s s, w') \<and> word_view w' = (entered (word_view w) s)\<lparr>v_act := act\<rparr>
    \<and> (\<forall>r. r \<noteq> s \<or> SA_RESETHAND \<notin> sa_flags (wk_act w s) \<longrightarrow> act r = v_act (word_view w) r)"
proof -
  have s: "1 \<le> s" "s \<le> 64" "s \<noteq> 9" "s \<noteq> 19" using wk_next_some [OF assms(1)] assms(2) by (auto simp: wk_disp_def)
  let ?act = "if SA_RESETHAND \<in> sa_flags (wk_act w s)
    then (v_act (word_view w))(s := (SIG_DFL, snd (v_act (word_view w) s))) else v_act (word_view w)"
  show ?thesis
    using assms s
    by (intro exI [of _ "snd (wk_enter w)"] exI [of _ ?act])
      (auto simp: wk_enter_def word_view_def entered_def handler_mask_def Let_def wk_disp_def fun_eq_iff)
qed

lemmas wk_view_simps = word_view_def wk_sigaction_def wk_raise_def wk_signal_def wk_sigset_def wk_hold_def wk_sigignore_def wk_return_def
  wk_settable_def abs_act_def

lemma word_ignoring [simp]: "ignoring word_kernel h s = wk_ignored h s"
  by (auto simp: ignoring_def wk_ignored_def)

interpretation wkern: signal_kernel word_kernel "{1..64}" "\<lambda>_. True" word_members word_view
proof unfold_locales
  fix w :: wk and s :: int and h :: hnd and a :: "64 word sigact"
  show "v_mask (word_view w) \<inter> unblockable word_kernel = {}" by (auto simp: word_view_def)
  show "fst (v_act (word_view w) s) \<noteq> SIG_ERR \<and> fst (v_act (word_view w) s) \<noteq> SIG_HOLD"
    by (simp add: word_view_def wk_disp_def Let_def)
  show "s \<in> unblockable word_kernel \<Longrightarrow> fst (v_act (word_view w) s) = SIG_DFL"
    by (auto simp: word_view_def wk_disp_def Let_def)
  show "\<exists>e old w'. k_sigaction word_kernel s (Some a) w = ((0, e, old), w') \<and> True
        \<and> abs_act word_kernel word_members old = v_act (word_view w) s
        \<and> word_view w' = install word_kernel s (abs_act word_kernel word_members a) (word_view w)"
    if "s \<in> {1..64} - unblockable word_kernel" "sa_handler a \<noteq> SIG_ERR" "sa_handler a \<noteq> SIG_HOLD"
  proof -
    have "wk_settable s" using that by (simp add: wk_settable_def)
    with that show ?thesis by (simp add: wk_sigaction_def wk_install_view abs_act_def) (simp add: word_view_def)
  qed
  show "\<exists>e w' fl. k_signal word_kernel s h w = ((fst (v_act (word_view w) s), e), w')
      \<and> word_view w' = install word_kernel s (h, {}, fl) (word_view w)"
    if "s \<in> {1..64} - unblockable word_kernel" "h \<noteq> SIG_ERR" "h \<noteq> SIG_HOLD"
  proof -
    have "wk_settable s" using that by (simp add: wk_settable_def)
    with that show ?thesis by (auto simp: wk_signal_def wk_install_view)
  qed
  show "\<exists>e w'. k_sigset word_kernel s h w = ((if s \<in> v_mask (word_view w) then SIG_HOLD else fst (v_act (word_view w) s), e), w')
      \<and> word_view w' = (install word_kernel s (h, {}, {}) (word_view w))\<lparr>v_mask := v_mask (word_view w) - {s}\<rparr>"
    if "s \<in> {1..64} - unblockable word_kernel" "h \<noteq> SIG_ERR" "h \<noteq> SIG_HOLD"
  proof -
    have s: "wk_settable s" "s \<in> {1..64}" using that by (simp_all add: wk_settable_def)
    have "word_members (wk_mask w) - {s} - {9, 19} = word_members (wk_mask w) - {9, 19} - {s}" by blast
    with s that show ?thesis
      by (simp add: wk_sigset_def word_members_bit wk_install_view)
  qed
  show "\<exists>e w'. k_sigignore word_kernel s w = ((0, e), w') \<and> word_view w' = install word_kernel s (SIG_IGN, {}, {}) (word_view w)"
    if "s \<in> {1..64} - unblockable word_kernel"
  proof -
    have "wk_settable s" using that by (simp add: wk_settable_def)
    then show ?thesis by (simp add: wk_sigignore_def wk_install_view)
  qed
  show "\<exists>w'. k_enter word_kernel w = (D_none, w') \<and> word_view w' = word_view w" if "v_pend (word_view w) \<subseteq> v_mask (word_view w)"
    using that wk_next_none [of w] by (simp add: wk_enter_def word_view_def)
  show "\<exists>s w' act. s \<in> v_pend (word_view w) - v_mask (word_view w) \<and> k_enter word_kernel w = (calls (word_view w) s, w')
        \<and> word_view w' = (entered (word_view w) s)\<lparr>v_act := act\<rparr>
        \<and> (\<forall>r. r \<noteq> s \<or> SA_RESETHAND \<notin> snd (snd (v_act (word_view w) s)) \<longrightarrow> act r = v_act (word_view w) r)"
    if "v_pend (word_view w) - v_mask (word_view w) \<noteq> {}" "\<forall>s \<in> v_pend (word_view w) - v_mask (word_view w). caught (word_view w) s"
  proof -
    from that(1) obtain p where "p \<in> word_members (wk_pend w)" "p \<notin> word_members (wk_mask w) - {9, 19}" by auto
    from wk_next_ex [OF this] obtain r where r: "wk_next w = Some r" ..
    with wk_next_some [OF r] that(2) obtain f where "wk_disp w r = Fn f" by (auto simp: caught_def)
    with wk_enter_call [OF r this] wk_next_some [OF r] show ?thesis by (intro exI [of _ r]) (auto simp: calls_def)
  qed
  show "\<exists>w'. k_enter word_kernel w = (D_kill (sg_no word_kernel S_KILL), w')" if "sg_no word_kernel S_KILL \<in> v_pend (word_view w)"
    using that wk_next_kill [of w] by (simp add: wk_enter_def Let_def)
  show "\<exists>w'. k_enter word_kernel w = (D_stop (sg_no word_kernel S_STOP), w')"
    if "v_pend (word_view w) - v_mask (word_view w) = {sg_no word_kernel S_STOP}"
  proof -
    have p: "19 \<in> word_members (wk_pend w)" using that by auto
    from wk_next_ex [OF p] obtain r where r: "wk_next w = Some r" by blast
    with wk_next_some [OF r] that have "r = 19" by auto
    with r show ?thesis by (simp add: wk_enter_def Let_def)
  qed
  show "\<exists>e old w'. k_sigprocmask word_kernel hw (Some q) w = ((0, e, old), w') \<and> True \<and> word_members old = v_mask (word_view w)
      \<and> word_view w' = (word_view w)\<lparr>v_mask := new_mask hw (word_members q) (v_mask (word_view w)) - unblockable word_kernel\<rparr>"
    if "\<forall>k. hw \<noteq> How_other k" for hw q
    using that by (cases hw) (auto simp: word_view_def dest: word_members_range)
qed (auto simp: wk_view_simps word_members_bit)

end
