(* ===== verification/Sigaction_Props.thy ===== *)
theory Sigaction_Props
  imports Sigaction_Files Sig_Contract
begin

text \<open>
  What the programs for \<^verbatim>\<open>sigaction\<close> report: each family ends with \<^verbatim>\<open>PTS_PASS\<close> on every system that keeps the contract \<open>signal_kernel\<close>, started
  with no signal blocked or pending; what they detect on systems that break it; and what they do not.
\<close>

section \<open>Programs on a system that keeps the contract\<close>

context signal_kernel
begin

lemma settable: "S \<noteq> S_KILL \<Longrightarrow> S \<noteq> S_STOP \<Longrightarrow> sg_no os S \<in> signals - unblockable os"
  using numbers(1) [of S] by (simp add: unblockable_def)

lemma empty_set_ok [simp]: "initialised (empty_set os q)" "members (empty_set os q) = {}" "fst (sg_empty os q) = 0"
  using empty [of q] by (auto simp: empty_set_def)

lemma plus_sig_ok [simp]:
  assumes "initialised q"
  shows "initialised (plus_sig os x q)" "members (plus_sig os x q) = insert (sg_no os x) (members q)"
proof -
  obtain e q' where "sg_add os q (sg_no os x) = (0, e, q')" "initialised q'" "members q' = insert (sg_no os x) (members q)"
    using add [OF assms numbers(1)] by blast
  then show "initialised (plus_sig os x q)" "members (plus_sig os x q) = insert (sg_no os x) (members q)"
    by (simp_all add: plus_sig_def)
qed

lemma set_action_ok:
  assumes "S \<noteq> S_KILL" and "S \<noteq> S_STOP" and "initialised m"
  shows "\<exists>w'. set_action os S (Fn f) fl m (g, w) = Ret (Inr 0, g, w')
    \<and> view w' = (view w)\<lparr>v_act := (v_act (view w))(sg_no os S := (Fn f, members m - unblockable os, fl))\<rparr>"
proof -
  obtain e old w' where "k_sigaction os (sg_no os S) (Some \<lparr>sa_handler = Fn f, sa_mask = m, sa_flags = fl\<rparr>) w = ((0, e, old), w')"
    "view w' = install os (sg_no os S) (abs_act os members \<lparr>sa_handler = Fn f, sa_mask = m, sa_flags = fl\<rparr>) (view w)"
    using action_set [OF settable [OF assms(1,2)], of "\<lparr>sa_handler = Fn f, sa_mask = m, sa_flags = fl\<rparr>" w] assms(3) by auto
  then show ?thesis
    by (simp add: set_action_def install_def ignoring_def abs_act_def)
qed

text \<open>A process that has just been started.\<close>

definition idle :: "'w \<Rightarrow> bool" where
  "idle w \<longleftrightarrow> v_pend (view w) = {} \<and> v_mask (view w) = {}"

text \<open>The first call of every program.\<close>

lemma installed:
  assumes "S \<noteq> S_KILL" and "S \<noteq> S_STOP" and "initialised m" and "idle w"
  shows "\<exists>w1. set_action os S (Fn f) fl m (g, w) = Ret (Inr 0, g, w1) \<and> idle w1
    \<and> v_act (view w1) = (v_act (view w))(sg_no os S := (Fn f, members m - unblockable os, fl)) \<and> v_frames (view w1) = v_frames (view w)
    \<and> v_alt (view w1) = v_alt (view w)"
  using set_action_ok [OF assms(1-3), of f fl g w] assms(4) by (auto simp: idle_def)

lemma idle_returns:
  assumes "idle w" and "fst (v_act (view w) (sg_no os S)) = Fn f"
    and "\<And>w1. v_alt (view w1) = v_alt (view w) \<Longrightarrow>
      \<exists>w2. H f (praise (Suc n) os H) (sg_no os S) (sg_no os S) (g, w1) = Ret (Inr (), g', w2) \<and> view w2 = view w1"
  shows "\<exists>w'. praise (Suc (Suc n)) os H (sg_no os S) (g, w) = Ret (Inr 0, g', w') \<and> idle w'
    \<and> (\<forall>r. r \<noteq> sg_no os S \<longrightarrow> v_act (view w') r = v_act (view w) r)"
  using praise_returns [OF numbers(1), of w S f H n g g'] assms by (force simp: idle_def)

lemma called_returns:
  assumes "idle w" and "fst (v_act (view w) (sg_no os S)) = Fn f"
  shows "\<exists>w'. praise (Suc (Suc n)) os called_handler (sg_no os S) (g, w) = Ret (Inr 0, 1, w')"
  using idle_returns [OF assms, of called_handler n g 1] by (auto simp: called_handler_def)

lemmas program_simps = run_main_def called_verdict_def pts_defs

lemma sigaction_1_passes:
  assumes "idle w" and "S \<noteq> S_KILL" and "S \<noteq> S_STOP"
  shows "sigaction_1 S (Suc (Suc n)) os q w = Ret (Exited PTS_PASS)"
proof -
  obtain w1 where a: "set_action os S (Fn 1) {} (empty_set os q) (0, w) = Ret (Inr 0, 0 :: int, w1)" "idle w1"
    "fst (v_act (view w1) (sg_no os S)) = Fn 1"
    using installed [OF assms(2,3) empty_set_ok(1) assms(1), of 1 "{}" q "0 :: int"] by auto
  obtain w2 where "praise (Suc (Suc n)) os called_handler (sg_no os S) (0, w1) = Ret (Inr 0, 1, w2)"
    using called_returns [OF a(2,3)] by blast
  with a(1) show ?thesis
    by (simp add: sigaction_1_def program_simps)
qed

lemma sigaction_2_passes:
  assumes "idle w" and "S \<noteq> S_KILL" and "S \<noteq> S_STOP"
  shows "sigaction_2 S n os q w = Ret (Exited PTS_PASS)"
proof -
  obtain w1 where a: "set_action os S (Fn 1) {} (empty_set os q) ((), w) = Ret (Inr 0, (), w1)"
    "v_act (view w1) (sg_no os S) = (Fn 1, {}, {})"
    using installed [OF assms(2,3) empty_set_ok(1) assms(1), of 1 "{}" q "()"] by auto
  obtain e old w2 where "k_sigaction os (sg_no os S)
      (Some \<lparr>sa_handler = Fn 2, sa_mask = empty_set os (empty_set os q), sa_flags = {}\<rparr>) w1 = ((0, e, old), w2)"
    "abs_act os members old = (Fn 1, {}, {})"
    using action_set [OF settable [OF assms(2,3)], of "\<lparr>sa_handler = Fn 2, sa_mask = empty_set os (empty_set os q), sa_flags = {}\<rparr>" w1] a(2)
    by auto
  with a(1) show ?thesis
    by (simp add: sigaction_2_def program_simps abs_act_def)
qed

lemma sigaction_3_passes:
  assumes "idle w" and "S \<noteq> S_KILL" and "S \<noteq> S_STOP"
  shows "sigaction_3 S (Suc (Suc n)) os q w = Ret (Exited PTS_PASS)"
proof -
  obtain w1 where a: "set_action os S (Fn 1) {} (empty_set os q) (0, w) = Ret (Inr 0, 0 :: int, w1)" "idle w1"
    "fst (v_act (view w1) (sg_no os S)) = Fn 1"
    using installed [OF assms(2,3) empty_set_ok(1) assms(1), of 1 "{}" q "0 :: int"] by auto
  obtain e old w2 where b: "k_sigaction os (sg_no os S) None w1 = ((0, e, old), w2)" "view w2 = view w1"
    using action_get [OF numbers(1)] by blast
  with a have "idle w2" "fst (v_act (view w2) (sg_no os S)) = Fn 1" by (simp_all add: idle_def)
  then obtain w3 where "praise (Suc (Suc n)) os called_handler (sg_no os S) (0, w2) = Ret (Inr 0, 1, w3)"
    using called_returns by blast
  with a(1) b(1) show ?thesis
    by (simp add: sigaction_3_def program_simps)
qed

lemma sigaction_4_add_passes:
  assumes "idle w" and "S \<noteq> S_KILL" and "S \<noteq> S_STOP"
  shows "sigaction_4_add x S n os q w = Ret (Exited PTS_PASS)"
proof -
  obtain w1 where "set_action os S (Fn 1) {} (plus_sig os x (empty_set os q)) ((), w) = Ret (Inr 0, (), w1)"
    using installed [OF assms(2,3) _ assms(1), of "plus_sig os x (empty_set os q)" 1 "{}" "()"] by auto
  then show ?thesis by (simp add: sigaction_4_add_def program_simps)
qed

lemma sigaction_6_passes:
  assumes "idle w" and "S \<noteq> S_KILL" and "S \<noteq> S_STOP"
  shows "sigaction_6 S (Suc (Suc n)) os q w = Ret (Exited PTS_PASS)"
proof -
  obtain w1 where a: "set_action os S (Fn 1) {SA_SIGINFO} (plus_sig os S_STOP (empty_set os q)) (0, w) = Ret (Inr 0, 0 :: int, w1)" "idle w1"
    "fst (v_act (view w1) (sg_no os S)) = Fn 1"
    using installed [OF assms(2,3) _ assms(1), of "plus_sig os S_STOP (empty_set os q)" 1 "{SA_SIGINFO}" "0 :: int"] by auto
  obtain w2 where "praise (Suc (Suc n)) os called_handler (sg_no os S) (0, w1) = Ret (Inr 0, 1, w2)"
    using called_returns [OF a(2,3)] by blast
  with a(1) show ?thesis
    by (simp add: sigaction_6_def program_simps)
qed

lemma sigaction_18_passes:
  assumes "idle w" and "S \<noteq> S_KILL" and "S \<noteq> S_STOP"
  shows "sigaction_18 S (Suc (Suc n)) os q w = Ret (Exited PTS_PASS)"
proof -
  obtain w1 where a: "set_action os S (Fn 1) {} (empty_set os q) (0, w) = Ret (Inr 0, 0 :: int, w1)" "idle w1"
    "fst (v_act (view w1) (sg_no os S)) = Fn 1"
    using installed [OF assms(2,3) empty_set_ok(1) assms(1), of 1 "{}" q "0 :: int"] by auto
  obtain w2 where "praise (Suc (Suc n)) os called_handler (sg_no os S) (0, w1) = Ret (Inr 0, 1, w2)"
    using called_returns [OF a(2,3)] by blast
  with a(1) show ?thesis
    by (simp add: sigaction_18_def program_simps)
qed

lemma sigaction_19_passes:
  assumes "idle w" and "S \<noteq> S_KILL" and "S \<noteq> S_STOP"
  shows "sigaction_19 S (Suc (Suc n)) os q w = Ret (Exited (if k_rtsig os < 0 then PTS_UNTESTED else PTS_PASS))"
proof -
  obtain w1 where a: "set_action os S (Fn 1) {SA_SIGINFO} (empty_set os q) (0, w) = Ret (Inr 0, 0 :: int, w1)" "idle w1"
    "fst (v_act (view w1) (sg_no os S)) = Fn 1"
    using installed [OF assms(2,3) empty_set_ok(1) assms(1), of 1 "{SA_SIGINFO}" q "0 :: int"] by auto
  obtain w2 where "praise (Suc (Suc n)) os (info_handler os S) (sg_no os S) (0, w1) = Ret (Inr 0, 1, w2)"
    using idle_returns [OF a(2,3), of "info_handler os S" n 0 1] by (auto simp: info_handler_def)
  with a(1) show ?thesis
    by (simp add: sigaction_19_def program_simps)
qed

lemma stack_returns:
  assumes "idle w" and "fst (v_act (view w) (sg_no os S)) = Fn f" and "v_alt (view w) = (ss_sp st, ss_size st)"
  shows "\<exists>w'. praise (Suc (Suc n)) os (stack_handler os) (sg_no os S) (st, w) = Ret (Inr 0, st, w')"
proof -
  have "\<exists>w2. stack_handler os f (praise (Suc n) os (stack_handler os)) (sg_no os S) (sg_no os S) (st, w1) = Ret (Inr (), st, w2)
      \<and> view w2 = view w1" if "v_alt (view w1) = v_alt (view w)" for w1
    using altstack_get [of w1] that assms(3) by (auto simp: stack_handler_def)
  from idle_returns [OF assms(1,2), of "stack_handler os" n st st, OF this] show ?thesis by auto
qed

lemma sigaction_12_alt_passes:
  assumes "idle w" and "S \<noteq> S_KILL" and "S \<noteq> S_STOP"
  shows "sigaction_12_alt S (Suc (Suc n)) os q w = Ret (Exited PTS_PASS)"
proof -
  obtain w1 where a: "set_action os S (Fn 1) {SA_ONSTACK} (empty_set os q) (stack0, w) = Ret (Inr 0, stack0, w1)" "idle w1"
    "fst (v_act (view w1) (sg_no os S)) = Fn 1"
    using installed [OF assms(2,3) empty_set_ok(1) assms(1), of 1 "{SA_ONSTACK}" q stack0] by auto
  obtain p w2 where b: "k_malloc os (k_sigstksz os) w1 = (p, w2)" "p \<noteq> 0" "view w2 = view w1" using malloc_ok by blast
  let ?st = "\<lparr>ss_sp = p, ss_size = k_sigstksz os, ss_flags = 0\<rparr>"
  obtain e old w3 where c: "k_sigaltstack os (Some ?st) w2 = ((0, e, old), w3)" "view w3 = (view w2)\<lparr>v_alt := (p, k_sigstksz os)\<rparr>"
    using altstack_set [of ?st w2] by auto
  obtain w4 where "praise (Suc (Suc n)) os (stack_handler os) (sg_no os S) (?st, w3) = Ret (Inr 0, ?st, w4)"
    using stack_returns [of w3 S 1 ?st n] a b(3) c(2) by (auto simp: idle_def)
  with a(1) b c(1) show ?thesis
    by (simp add: sigaction_12_alt_def program_simps)
qed

lemma current_stack_passes:
  assumes "idle w" and "S \<noteq> S_KILL" and "S \<noteq> S_STOP"
  shows "current_stack fl S (Suc (Suc n)) os q w = Ret (Exited PTS_PASS)"
proof -
  obtain w1 where a: "set_action os S (Fn 1) fl (empty_set os q) (stack0, w) = Ret (Inr 0, stack0, w1)" "idle w1"
    "fst (v_act (view w1) (sg_no os S)) = Fn 1"
    using installed [OF assms(2,3) empty_set_ok(1) assms(1), of 1 fl q stack0] by auto
  obtain e st w2 where b: "k_sigaltstack os None w1 = ((0, e, st), w2)" "(ss_sp st, ss_size st) = v_alt (view w1)" "view w2 = view w1"
    using altstack_get by blast
  obtain w3 where "praise (Suc (Suc n)) os (stack_handler os) (sg_no os S) (st, w2) = Ret (Inr 0, st, w3)"
    using stack_returns [of w2 S 1 st n] a b by (auto simp: idle_def)
  with a(1) b(1) show ?thesis
    by (simp add: current_stack_def program_simps)
qed

lemma sigaction_28_passes:
  assumes "idle w" and "S \<noteq> S_KILL" and "S \<noteq> S_STOP"
  shows "sigaction_28 S (Suc (Suc n)) os q w = Ret (Exited PTS_PASS)"
proof -
  let ?s = "sg_no os S" and ?a = "\<lparr>sa_handler = Fn 2, sa_mask = empty_set os q, sa_flags = {}\<rparr>"
  obtain e w1 fl where a: "k_signal os ?s (Fn 1) w = ((fst (v_act (view w) ?s), e), w1)" "view w1 = install os ?s (Fn 1, {}, fl) (view w)"
    using signal_set [OF settable [OF assms(2,3)], of "Fn 1" w] by auto
  obtain e' old w2 where b: "k_sigaction os ?s (Some ?a) w1 = ((0, e', old), w2)" "initialised (sa_mask old)"
    "abs_act os members old = (Fn 1, {}, fl)" "view w2 = install os ?s (Fn 2, {}, {}) (view w1)"
    using action_set [OF settable [OF assms(2,3)], of ?a w1] a(2) by (auto simp: install_def abs_act_def)
  have i2: "idle w2" "fst (v_act (view w2) ?s) = Fn 2" using assms(1) a(2) b(4) by (simp_all add: idle_def install_def ignoring_def)
  obtain w3 where c: "praise (Suc (Suc n)) os updown_handlers ?s (1, w2) = Ret (Inr 0, 0, w3)" "idle w3"
    using idle_returns [OF i2, of updown_handlers n 1 0] by (auto simp: updown_handlers_def)
  have old: "sa_handler old = Fn 1" using b(3) by (simp add: abs_act_def)
  obtain e'' old' w4 where d: "k_sigaction os ?s (Some old) w3 = ((0, e'', old'), w4)" "view w4 = install os ?s (Fn 1, {}, fl) (view w3)"
    using action_set [OF settable [OF assms(2,3)] b(2), of w3] old b(3) by auto
  have i4: "idle w4" "fst (v_act (view w4) ?s) = Fn 1" using c(2) d(2) by (simp_all add: idle_def install_def ignoring_def)
  obtain w5 where f: "praise (Suc (Suc n)) os updown_handlers ?s (0, w4) = Ret (Inr 0, 1, w5)"
    using idle_returns [OF i4, of updown_handlers n 0 1] by (auto simp: updown_handlers_def)
  show ?thesis
    using a(1) b(1) c(1) d(1) f disposition [of w ?s] by (simp add: sigaction_28_def program_simps)
qed

lemma must_fail_ok:
  assumes "s \<notin> signals - unblockable os" and "h \<noteq> SIG_DFL"
  shows "must_fail os s h m k (g, w) = k (g, snd (k_sigaction os s (Some \<lparr>sa_handler = h, sa_mask = m, sa_flags = {}\<rparr>) w))"
  using action_wrong [OF assms(1), of "\<lparr>sa_handler = h, sa_mask = m, sa_flags = {}\<rparr>" w] assms(2) by (auto simp: must_fail_def)

lemma sigaction_30_1_passes: "sigaction_30_1 n os q w = Ret (Exited PTS_PASS)"
  using rtmax by (simp add: sigaction_30_1_def Let_def must_fail_ok unblockable_def program_simps)

text \<open>The signals that cannot be blocked end or stop the process.\<close>

lemma raise_kill: "\<exists>w'. praise (Suc n) os H (sg_no os S_KILL) (g, w) = Ret (Inl (Signaled (sg_no os S_KILL)), g, w')"
proof -
  have "\<not> ignoring os (fst (v_act (view w) (sg_no os S_KILL))) (sg_no os S_KILL)"
    using unblockable_default [of "sg_no os S_KILL" w] by (simp add: ignoring_def unblockable_def)
  from raise_law [OF numbers(1) this] obtain e w1 where r: "k_raise os (sg_no os S_KILL) w = ((0, e), w1)"
    "sg_no os S_KILL \<in> v_pend (view w1)" by auto
  with enter_kill [OF r(2)] show ?thesis by (auto simp: praise_def)
qed

lemma raise_stop:
  assumes "v_pend (view w) \<subseteq> v_mask (view w)"
  shows "\<exists>w'. praise (Suc n) os H (sg_no os S_STOP) (g, w) = Ret (Inl (Stopped (sg_no os S_STOP)), g, w')"
proof -
  have "\<not> ignoring os (fst (v_act (view w) (sg_no os S_STOP))) (sg_no os S_STOP)"
    using unblockable_default [of "sg_no os S_STOP" w] by (simp add: ignoring_def unblockable_def)
  from raise_law [OF numbers(1) this] obtain e w1 where r: "k_raise os (sg_no os S_STOP) w = ((0, e), w1)"
    "view w1 = (view w)\<lparr>v_pend := insert (sg_no os S_STOP) (v_pend (view w))\<rparr>" by auto
  have "v_pend (view w1) - v_mask (view w1) = {sg_no os S_STOP}"
    using r(2) assms mask_ok [of w] by (auto simp: unblockable_def)
  from enter_stop [OF this] r(1) show ?thesis by (auto simp: praise_def)
qed

lemma fork_child:
  assumes "idle w"
  shows "\<exists>pid cw pw. k_fork os w = (pid, cw, pw) \<and> pid \<noteq> - 1 \<and> idle cw"
  using fork_ok [of w] assms by (auto simp: idle_def)

lemma idle_caught:
  assumes "idle w" and "fst (v_act (view w) (sg_no os S)) = Fn f"
  shows "\<exists>w1 act. praise (Suc n) os H (sg_no os S) (g, w) = pbind (pbind (H f (praise n os H) (sg_no os S) (sg_no os S))
        (\<lambda>_. pbind (kern (\<lambda>w. ((), k_return os w))) (\<lambda>_. deliver n os H))) (\<lambda>_. pret 0) (g, w1)
      \<and> view w1 = (entered (view w) (sg_no os S))\<lparr>v_act := act\<rparr>
      \<and> (SA_RESETHAND \<notin> snd (snd (v_act (view w) (sg_no os S))) \<longrightarrow> act = v_act (view w))"
proof -
  have "v_pend (view w) \<subseteq> v_mask (view w)" "sg_no os S \<notin> v_mask (view w)" using assms(1) by (simp_all add: idle_def)
  from praise_caught [OF numbers(1) this assms(2), of n H g] obtain w1 act where
    "praise (Suc n) os H (sg_no os S) (g, w) = pbind (pbind (H f (praise n os H) (sg_no os S) (sg_no os S))
        (\<lambda>_. pbind (kern (\<lambda>w. ((), k_return os w))) (\<lambda>_. deliver n os H))) (\<lambda>_. pret 0) (g, w1)"
    "view w1 = (entered (view w) (sg_no os S))\<lparr>v_act := act\<rparr>"
    "\<forall>r. r \<noteq> sg_no os S \<or> SA_RESETHAND \<notin> snd (snd (v_act (view w) (sg_no os S))) \<longrightarrow> act r = v_act (view w) r" by blast
  then show ?thesis by (intro exI [of _ w1] exI [of _ act]) (simp add: fun_eq_iff)
qed

lemma sigaction_4_kill_passes:
  assumes "idle w" and "S \<noteq> S_KILL" and "S \<noteq> S_STOP"
  shows "sigaction_4_kill S (Suc (Suc n)) os q w = Ret (Exited PTS_PASS)"
proof -
  obtain pid cw pw where f: "k_fork os w = (pid, cw, pw)" "pid \<noteq> - 1" "idle cw" using fork_child [OF assms(1)] by auto
  obtain w1 where a: "set_action os S (Fn 1) {} (plus_sig os S_KILL (empty_set os q)) ((), cw) = Ret (Inr 0, (), w1)" "idle w1"
    "fst (v_act (view w1) (sg_no os S)) = Fn 1"
    using installed [OF assms(2,3) _ f(3), of "plus_sig os S_KILL (empty_set os q)" 1 "{}" "()"] by auto
  obtain w2 where "praise (Suc (Suc n)) os (raising_handler os S_KILL) (sg_no os S) ((), w1) = pbind (pbind
      (raising_handler os S_KILL 1 (praise (Suc n) os (raising_handler os S_KILL)) (sg_no os S) (sg_no os S))
      (\<lambda>_. pbind (kern (\<lambda>w. ((), k_return os w))) (\<lambda>_. deliver (Suc n) os (raising_handler os S_KILL)))) (\<lambda>_. pret 0) ((), w2)"
    using idle_caught [OF a(2,3), of "Suc n" "raising_handler os S_KILL" "()"] by auto
  moreover obtain w3 where "praise (Suc n) os (raising_handler os S_KILL) (sg_no os S_KILL) ((), w2) = Ret (Inl (Signaled (sg_no os S_KILL)), (), w3)"
    using raise_kill [of n "raising_handler os S_KILL" "()" w2] by auto
  ultimately have "praise (Suc (Suc n)) os (raising_handler os S_KILL) (sg_no os S) ((), w1) = Ret (Inl (Signaled (sg_no os S_KILL)), (), w3)"
    by (simp add: raising_handler_def)
  then show ?thesis
    using f a(1) wait_ok [of False "Signaled (sg_no os S_KILL)" pw]
    by (auto simp: sigaction_4_kill_def program_simps pfork_def pwait_def)
qed

lemma sigaction_4_stop_passes:
  assumes "idle w" and "S \<noteq> S_KILL" and "S \<noteq> S_STOP"
  shows "sigaction_4_stop S (Suc (Suc n)) os q w = Ret (Exited PTS_PASS)"
proof -
  obtain pid cw pw where f: "k_fork os w = (pid, cw, pw)" "pid \<noteq> - 1" "idle cw" using fork_child [OF assms(1)] by auto
  obtain w1 where a: "set_action os S (Fn 1) {} (plus_sig os S_STOP (empty_set os q)) ((), cw) = Ret (Inr 0, (), w1)" "idle w1"
    "fst (v_act (view w1) (sg_no os S)) = Fn 1"
    using installed [OF assms(2,3) _ f(3), of "plus_sig os S_STOP (empty_set os q)" 1 "{}" "()"] by auto
  obtain w2 act where "praise (Suc (Suc n)) os (raising_handler os S_STOP) (sg_no os S) ((), w1) = pbind (pbind
      (raising_handler os S_STOP 1 (praise (Suc n) os (raising_handler os S_STOP)) (sg_no os S) (sg_no os S))
      (\<lambda>_. pbind (kern (\<lambda>w. ((), k_return os w))) (\<lambda>_. deliver (Suc n) os (raising_handler os S_STOP)))) (\<lambda>_. pret 0) ((), w2)"
    and v: "view w2 = (entered (view w1) (sg_no os S))\<lparr>v_act := act\<rparr>"
    using idle_caught [OF a(2,3), of "Suc n" "raising_handler os S_STOP" "()"] by auto
  moreover have "v_pend (view w2) \<subseteq> v_mask (view w2)" using v a(2) by (simp add: entered_def idle_def)
  then obtain w3 where "praise (Suc n) os (raising_handler os S_STOP) (sg_no os S_STOP) ((), w2) = Ret (Inl (Stopped (sg_no os S_STOP)), (), w3)"
    using raise_stop [of w2 n "raising_handler os S_STOP" "()"] by auto
  ultimately have "praise (Suc (Suc n)) os (raising_handler os S_STOP) (sg_no os S) ((), w1) = Ret (Inl (Stopped (sg_no os S_STOP)), (), w3)"
    by (simp add: raising_handler_def)
  then show ?thesis
    using f a(1) wait_ok [of True "Stopped (sg_no os S_STOP)" pw]
    by (auto simp: sigaction_4_stop_def program_simps pfork_def pwait_def)
qed

text \<open>A handler during which one caught signal \<open>x\<close> becomes pending: the handler of \<open>x\<close> runs after it, before \<^verbatim>\<open>raise\<close> returns.\<close>

lemma raise_then_pending:
  assumes w: "idle w" and S: "fst (v_act (view w) (sg_no os S)) = Fn f" "SA_RESETHAND \<notin> snd (snd (v_act (view w) (sg_no os S)))"
    and x: "fst (v_act (view w) (sg_no os x)) = Fn f'"
    and first: "\<And>w1. view w1 = entered (view w) (sg_no os S) \<Longrightarrow>
      \<exists>w2. H f (praise (Suc (Suc n)) os H) (sg_no os S) (sg_no os S) (g, w1) = Ret (Inr (), g1, w2)
        \<and> view w2 = (view w1)\<lparr>v_pend := {sg_no os x}\<rparr>"
    and second: "\<And>w1. \<exists>w2. H f' (praise (Suc n) os H) (sg_no os x) (sg_no os x) (g1, w1) = Ret (Inr (), g2, w2) \<and> view w2 = view w1"
  shows "\<exists>w'. praise (Suc (Suc (Suc n))) os H (sg_no os S) (g, w) = Ret (Inr 0, g2, w')"
proof -
  obtain w1 where p: "praise (Suc (Suc (Suc n))) os H (sg_no os S) (g, w) =
      pbind (pbind (H f (praise (Suc (Suc n)) os H) (sg_no os S) (sg_no os S))
        (\<lambda>_. pbind (kern (\<lambda>w. ((), k_return os w))) (\<lambda>_. deliver (Suc (Suc n)) os H))) (\<lambda>_. pret 0) (g, w1)"
    and v1: "view w1 = entered (view w) (sg_no os S)"
    using idle_caught [OF w S(1), of "Suc (Suc n)" H g] S(2) by (auto simp: entered_def)
  obtain w2 where h1: "H f (praise (Suc (Suc n)) os H) (sg_no os S) (sg_no os S) (g, w1) = Ret (Inr (), g1, w2)"
    and v2: "view w2 = (view w1)\<lparr>v_pend := {sg_no os x}\<rparr>" using first [OF v1] by auto
  let ?w = "k_return os w2"
  have v3: "view ?w = (view w)\<lparr>v_pend := {sg_no os x}\<rparr>"
    using return_law [of w2 "v_mask (view w)" "v_frames (view w)"] v1 v2 by (simp add: entered_def)
  have "v_pend (view ?w) - v_mask (view ?w) = {sg_no os x}" "fst (v_act (view ?w) (sg_no os x)) = Fn f'"
    using v3 w x by (simp_all add: idle_def)
  from deliver_caught [OF this, of "Suc n" H g1] obtain w4 act where
    d: "deliver (Suc (Suc n)) os H (g1, ?w) = pbind (H f' (praise (Suc n) os H) (sg_no os x) (sg_no os x))
        (\<lambda>_. pbind (kern (\<lambda>w. ((), k_return os w))) (\<lambda>_. deliver (Suc n) os H)) (g1, w4)"
    and v4: "view w4 = (entered (view ?w) (sg_no os x))\<lparr>v_act := act\<rparr>" by auto
  obtain w5 where h2: "H f' (praise (Suc n) os H) (sg_no os x) (sg_no os x) (g1, w4) = Ret (Inr (), g2, w5)" "view w5 = view w4"
    using second [of w4] by auto
  have "view (k_return os w5) = (view w)\<lparr>v_pend := {}, v_act := act\<rparr>"
    using return_law [of w5 "v_mask (view ?w)" "v_frames (view ?w)"] h2(2) v4 v3 by (simp add: entered_def)
  with deliver_none [of "k_return os w5" n H g2] obtain w6 where
    "deliver (Suc n) os H (g2, k_return os w5) = Ret (Inr (), g2, w6)" by auto
  then show ?thesis
    using p h1 d h2(1) by (simp add: kern_def del: deliver.simps)
qed

lemma blocked_inside:
  assumes "view w1 = entered (view w) s" and "idle w" and "sg_no os x \<in> handler_mask (v_act (view w) s) s"
    and "fst (v_act (view w) (sg_no os x)) = Fn f'"
  shows "\<exists>w2. praise (Suc n) os H (sg_no os x) (g, w1) = Ret (Inr 0, g, w2) \<and> view w2 = (view w1)\<lparr>v_pend := {sg_no os x}\<rparr>"
  using praise_blocked [OF numbers(1), of w1 x n H g] assms by (auto simp: entered_def idle_def caught_def)

lemma sigaction_8_passes:
  assumes "idle w" and "S \<noteq> S_KILL" and "S \<noteq> S_STOP" and "x \<noteq> S_KILL" and "x \<noteq> S_STOP" and "x \<noteq> S"
  shows "sigaction_8 x S (Suc (Suc (Suc n))) os q w = Ret (Exited PTS_PASS)"
proof -
  let ?H = "counting_handlers os x"
  obtain w1 where a: "set_action os S (Fn 1) {} (plus_sig os x (empty_set os q)) (0, w) = Ret (Inr 0, 0 :: int, w1)" "idle w1"
    "v_act (view w1) (sg_no os S) = (Fn 1, {sg_no os x} - unblockable os, {})"
    using installed [OF assms(2,3) _ assms(1), of "plus_sig os x (empty_set os q)" 1 "{}" "0 :: int"] by auto
  obtain w2 where b: "set_action os x (Fn 2) {} (empty_set os (plus_sig os x (empty_set os q))) (0, w1) = Ret (Inr 0, 0 :: int, w2)" "idle w2"
    "v_act (view w2) = (v_act (view w1))(sg_no os x := (Fn 2, {}, {}))"
    using installed [OF assms(4,5) empty_set_ok(1) a(2), of 2 "{}" "plus_sig os x (empty_set os q)" "0 :: int"] by auto
  have S: "fst (v_act (view w2) (sg_no os S)) = Fn 1" "SA_RESETHAND \<notin> snd (snd (v_act (view w2) (sg_no os S)))"
    and x: "fst (v_act (view w2) (sg_no os x)) = Fn 2" and m: "sg_no os x \<in> handler_mask (v_act (view w2) (sg_no os S)) (sg_no os S)"
    using a(3) b(3) assms(4-6) by (auto simp: handler_mask_def unblockable_def)
  have "\<exists>w'. praise (Suc (Suc (Suc n))) os ?H (sg_no os S) (0, w2) = Ret (Inr 0, 1, w')"
  proof (rule raise_then_pending [OF b(2) S x])
    fix w3 assume "view w3 = entered (view w2) (sg_no os S)"
    from blocked_inside [OF this b(2) m x, of "Suc n" ?H 0]
    show "\<exists>w4. ?H 1 (praise (Suc (Suc n)) os ?H) (sg_no os S) (sg_no os S) (0, w3) = Ret (Inr (), 0, w4)
        \<and> view w4 = (view w3)\<lparr>v_pend := {sg_no os x}\<rparr>" by (auto simp: counting_handlers_def)
  qed (simp add: counting_handlers_def)
  then show ?thesis
    using a(1) b(1) by (auto simp: sigaction_8_def program_simps)
qed

text \<open>A handler that raises its own signal: without \<^verbatim>\<open>SA_NODEFER\<close> the second call follows the first.\<close>

lemma self_installed:
  assumes "S \<noteq> S_KILL" and "S \<noteq> S_STOP" and "idle w"
  shows "\<exists>w1. set_action os S (Fn 1) {} (empty_set os q) (g, w) = Ret (Inr 0, g, w1) \<and> idle w1 \<and> v_act (view w1) (sg_no os S) = (Fn 1, {}, {})"
  using installed [OF assms(1,2) empty_set_ok(1) assms(3), of 1 "{}" q g] by auto

lemma sigaction_23_passes:
  assumes "idle w" and "S \<noteq> S_KILL" and "S \<noteq> S_STOP"
  shows "sigaction_23 S (Suc (Suc (Suc n))) os q w = Ret (Exited PTS_PASS)"
proof -
  let ?H = "pending_handler os S"
  obtain w1 where a: "set_action os S (Fn 1) {} (empty_set os q) (0, w) = Ret (Inr 0, 0 :: int, w1)" "idle w1"
    "v_act (view w1) (sg_no os S) = (Fn 1, {}, {})"
    using self_installed [OF assms(2,3,1), of q "0 :: int"] by auto
  have S: "fst (v_act (view w1) (sg_no os S)) = Fn 1" "SA_RESETHAND \<notin> snd (snd (v_act (view w1) (sg_no os S)))"
    and m: "sg_no os S \<in> handler_mask (v_act (view w1) (sg_no os S)) (sg_no os S)" using a(3) by (simp_all add: handler_mask_def)
  have "\<exists>w'. praise (Suc (Suc (Suc n))) os ?H (sg_no os S) (0, w1) = Ret (Inr 0, 4, w')"
  proof (rule raise_then_pending [OF a(2) S S(1)])
    fix w3 assume v: "view w3 = entered (view w1) (sg_no os S)"
    from blocked_inside [OF this a(2) m S(1), of "Suc n" ?H 1] obtain w4 where
      r: "praise (Suc (Suc n)) os ?H (sg_no os S) (1, w3) = Ret (Inr 0, 1, w4)" "view w4 = (view w3)\<lparr>v_pend := {sg_no os S}\<rparr>" by auto
    obtain p w5 where "k_sigpending os w4 = ((0, p), w5)" "initialised p" "members p = v_pend (view w4) \<inter> v_mask (view w4)" "view w5 = view w4"
      using pending_law by blast
    moreover have "sg_no os S \<in> v_mask (view w4)" using r(2) v m by (simp add: entered_def)
    ultimately show "\<exists>w4. ?H 1 (praise (Suc (Suc n)) os ?H) (sg_no os S) (sg_no os S) (0, w3) = Ret (Inr (), 2, w4)
        \<and> view w4 = (view w3)\<lparr>v_pend := {sg_no os S}\<rparr>"
      using r member [OF _ numbers(1), of p S] by (simp add: pending_handler_def)
  qed (simp add: pending_handler_def)
  then show ?thesis
    using a(1) by (auto simp: sigaction_23_def program_simps)
qed

lemma parent_passes:
  assumes "k_fork os w = (pid, cw, pw)" and "pid \<noteq> - 1" and "run_main child g cw = Ret (Exited 0)"
  shows "run_main (pbind (pfork os child) (nest_parent os)) g w = Ret (Exited PTS_PASS)"
  using assms wait_ok [of False "Exited 0" pw] wexitstatus [of 0] by (auto simp: nest_parent_def program_simps pfork_def pwait_def)

lemma sigaction_25_passes:
  assumes "idle w" and "S \<noteq> S_KILL" and "S \<noteq> S_STOP"
  shows "sigaction_25 S (Suc (Suc (Suc n))) os q w = Ret (Exited PTS_PASS)"
proof -
  let ?H = "nest_handler os S (- 1)"
  obtain pid cw pw where f: "k_fork os w = (pid, cw, pw)" "pid \<noteq> - 1" "idle cw" using fork_child [OF assms(1)] by auto
  obtain w1 where a: "set_action os S (Fn 1) {} (empty_set os q) (nest0, cw) = Ret (Inr 0, nest0, w1)" "idle w1"
    "v_act (view w1) (sg_no os S) = (Fn 1, {}, {})"
    using self_installed [OF assms(2,3) f(3), of q nest0] by auto
  have S: "fst (v_act (view w1) (sg_no os S)) = Fn 1" "SA_RESETHAND \<notin> snd (snd (v_act (view w1) (sg_no os S)))"
    and m: "sg_no os S \<in> handler_mask (v_act (view w1) (sg_no os S)) (sg_no os S)" using a(3) by (simp_all add: handler_mask_def)
  have "\<exists>w'. praise (Suc (Suc (Suc n))) os ?H (sg_no os S) (nest0, w1) = Ret (Inr 0, nest0\<lparr>handler_count := 2\<rparr>, w')"
  proof (rule raise_then_pending [OF a(2) S S(1)])
    fix w3 assume "view w3 = entered (view w1) (sg_no os S)"
    from blocked_inside [OF this a(2) m S(1), of "Suc n" ?H "\<lparr>handler_count = 1, handler_error = 0, inside_handler = 1\<rparr>"]
    show "\<exists>w4. ?H 1 (praise (Suc (Suc n)) os ?H) (sg_no os S) (sg_no os S) (nest0, w3) = Ret (Inr (), nest0\<lparr>handler_count := 1\<rparr>, w4)
        \<and> view w4 = (view w3)\<lparr>v_pend := {sg_no os S}\<rparr>" by (auto simp: nest_handler_def nest0_def)
  qed (simp add: nest_handler_def nest0_def)
  then show ?thesis
    unfolding sigaction_25_def using a(1) by (intro parent_passes [OF f(1,2)]) (auto simp: program_simps nest0_def)
qed

lemma sigaction_22_passes:
  assumes "idle w" and "S \<noteq> S_KILL" and "S \<noteq> S_STOP"
  shows "sigaction_22 S (Suc (Suc n)) os q w = Ret (Exited PTS_PASS)"
proof -
  let ?H = "nest_handler os S 0" and ?g = "\<lparr>handler_count = 1, handler_error = 0, inside_handler = 1\<rparr>" and ?s = "sg_no os S"
  obtain pid cw pw where f: "k_fork os w = (pid, cw, pw)" "pid \<noteq> - 1" "idle cw" using fork_child [OF assms(1)] by auto
  obtain w1 where a: "set_action os S (Fn 1) {SA_NODEFER} (empty_set os q) (nest0, cw) = Ret (Inr 0, nest0, w1)" "idle w1"
    "v_act (view w1) ?s = (Fn 1, {}, {SA_NODEFER})"
    using installed [OF assms(2,3) empty_set_ok(1) f(3), of 1 "{SA_NODEFER}" q nest0] by auto
  obtain w2 where p: "praise (Suc (Suc n)) os ?H ?s (nest0, w1) = pbind (pbind (?H 1 (praise (Suc n) os ?H) ?s ?s)
        (\<lambda>_. pbind (kern (\<lambda>w. ((), k_return os w))) (\<lambda>_. deliver (Suc n) os ?H))) (\<lambda>_. pret 0) (nest0, w2)"
    and v: "view w2 = entered (view w1) ?s"
    using idle_caught [OF a(2), of S 1 "Suc n" ?H nest0] a(3) by (auto simp: entered_def)
  have "idle w2" "fst (v_act (view w2) ?s) = Fn 1" using v a(2,3) by (simp_all add: idle_def entered_def handler_mask_def)
  from idle_caught [OF this, of n ?H ?g] obtain w3 where
    "praise (Suc n) os ?H ?s (?g, w2) = pbind (pbind (?H 1 (praise n os ?H) ?s ?s)
        (\<lambda>_. pbind (kern (\<lambda>w. ((), k_return os w))) (\<lambda>_. deliver n os ?H))) (\<lambda>_. pret 0) (?g, w3)" by auto
  then have "praise (Suc n) os ?H ?s (?g, w2) = Ret (Inl (Exited 0), ?g, w3)"
    by (simp add: nest_handler_def)
  then have "praise (Suc (Suc n)) os ?H ?s (nest0, w1) = Ret (Inl (Exited 0), ?g, w3)"
    using p by (simp add: nest_handler_def nest0_def)
  then show ?thesis
    unfolding sigaction_22_def using a(1) by (intro parent_passes [OF f(1,2)]) (auto simp: program_simps)
qed

end

section \<open>All programs\<close>

lemma test_signals_catchable: "S \<in> set test_signals \<Longrightarrow> S \<noteq> S_KILL \<and> S \<noteq> S_STOP"
  by (auto simp: test_signals_def)

lemmas files_eq = files_1_1_eq files_2_1_eq files_3_1_eq files_4_1_eq files_4_27_eq files_4_53_eq files_4_79_eq files_6_1_eq files_12_1_eq
  files_12_27_eq files_13_1_eq files_18_1_eq files_19_1_eq files_22_1_eq files_23_1_eq files_25_1_eq files_28_1_eq

lemma files_8_signals: "p \<in> set files_8_1 \<Longrightarrow> \<exists>x S. p = sigaction_8 x S \<and> x \<in> set test_signals \<and> S \<in> set test_signals \<and> x \<noteq> S"
  unfolding files_8_1_eq test_signals_def by (auto simp: zip_Cons_Cons)

text \<open>C17. On every system that keeps the contract of signal delivery, a process that starts with no signal blocked or pending gets \<^verbatim>\<open>PTS_PASS\<close> from
  each of the 442 programs of the families 1 to 13, 18, 22, 23, 25 and 28 and from \<^verbatim>\<open>30-1.c\<close>, and from the 26 programs of family 19 unless realtime signals
  are not supported. Three levels of delivery are enough.\<close>

theorem sigaction_files_pass:
  assumes "signal_kernel os signals initialised members view" and "v_pend (view w) = {}" and "v_mask (view w) = {}" and "3 \<le> n"
  shows "(\<forall>p \<in> set sigaction_files. p n os q w = Ret (Exited PTS_PASS)) \<and> sigaction_30_1 n os q w = Ret (Exited PTS_PASS)
    \<and> (\<forall>p \<in> set files_19_1. p n os q w = Ret (Exited (if k_rtsig os < 0 then PTS_UNTESTED else PTS_PASS)))"
proof -
  obtain m where n: "n = Suc (Suc (Suc m))" using assms(4) that [of "n - 3"] by simp
  have i: "signal_kernel.idle view w" using assms(2,3) by (simp add: signal_kernel.idle_def [OF assms(1)])
  note pass = signal_kernel.sigaction_1_passes [OF assms(1) i] signal_kernel.sigaction_2_passes [OF assms(1) i]
    signal_kernel.sigaction_3_passes [OF assms(1) i] signal_kernel.sigaction_4_kill_passes [OF assms(1) i]
    signal_kernel.sigaction_4_stop_passes [OF assms(1) i] signal_kernel.sigaction_4_add_passes [OF assms(1) i]
    signal_kernel.sigaction_6_passes [OF assms(1) i] signal_kernel.sigaction_12_alt_passes [OF assms(1) i]
    signal_kernel.current_stack_passes [OF assms(1) i] signal_kernel.sigaction_18_passes [OF assms(1) i]
    signal_kernel.sigaction_22_passes [OF assms(1) i] signal_kernel.sigaction_23_passes [OF assms(1) i]
    signal_kernel.sigaction_25_passes [OF assms(1) i] signal_kernel.sigaction_28_passes [OF assms(1) i]
  have "p n os q w = Ret (Exited PTS_PASS)" if "p \<in> set files_8_1" for p
    using files_8_signals [OF that] signal_kernel.sigaction_8_passes [OF assms(1) i] test_signals_catchable n by auto
  then show ?thesis
    using signal_kernel.sigaction_30_1_passes [OF assms(1)] signal_kernel.sigaction_19_passes [OF assms(1) i]
    by (auto simp: sigaction_files_def files_eq n sigaction_12_current_def sigaction_13_def pass dest!: test_signals_catchable)
qed

theorem sigaction_files_pass_witness:
  "sigaction_1_1 3 word_kernel 5 wk0 = Ret (Exited PTS_PASS) \<and> sigaction_23_26 3 word_kernel 5 wk0 = Ret (Exited PTS_PASS)"
proof -
  have "v_pend (word_view wk0) = {}" "v_mask (word_view wk0) = {}" by (simp_all add: wk0_def)
  from sigaction_files_pass [OF wkern.signal_kernel_axioms this, of 3 5] show ?thesis
    by (simp add: sigaction_files_def files_1_1_def files_23_1_def)
qed

end
