(* ===== verification/Sigaction_Detect.thy ===== *)
theory Sigaction_Detect
  imports Sigaction_Props
begin

text \<open>
  What the programs for \<^verbatim>\<open>sigaction\<close> detect and what they do not, on systems that break the contract: on one that never delivers a signal, some families
  fail, some pass and one does not end; on one that does not block a signal during its handler, the families that are about this fail.
\<close>

section \<open>A system that delivers nothing\<close>

text \<open>\<open>willing\<close>: every call that the programs make succeeds and \<open>sysconf(_SC_REALTIME_SIGNALS)\<close> is not negative; \<open>deaf\<close>: moreover no signal is ever
  delivered, so that no handler runs and no signal stops or kills a process.\<close>

definition willing :: "('q, 'w, 'z) sigk_scheme \<Rightarrow> bool" where
  "willing os \<longleftrightarrow> (\<forall>q. fst (sg_empty os q) = 0) \<and> (\<forall>S a w. S \<in> set test_signals \<longrightarrow> fst (fst (k_sigaction os (sg_no os S) a w)) = 0)
     \<and> (\<forall>S w. fst (fst (k_raise os (sg_no os S) w)) = 0)
     \<and> (\<forall>S h w. S \<in> set test_signals \<longrightarrow> fst (fst (k_signal os (sg_no os S) h w)) \<noteq> SIG_ERR)
     \<and> (\<forall>st w. fst (fst (k_sigaltstack os st w)) = 0) \<and> (\<forall>k w. fst (k_malloc os k w) \<noteq> 0)
     \<and> (\<forall>w. fst (k_fork os w) \<noteq> - 1) \<and> (\<forall>b st w. fst (k_wait os b (Some st) w) \<noteq> - 1)
     \<and> (\<forall>c. 0 \<le> c \<and> c < 256 \<longrightarrow> k_wexitstatus os (Exited c) = c) \<and> 0 \<le> k_rtsig os"

definition deaf :: "('q, 'w, 'z) sigk_scheme \<Rightarrow> bool" where
  "deaf os \<longleftrightarrow> willing os \<and> (\<forall>w. fst (k_enter os w) = D_none)"

lemma deaf_willing: "deaf os \<Longrightarrow> willing os"
  by (simp add: deaf_def)

lemma deaf_raise:
  assumes "deaf os"
  shows "\<exists>w'. praise (Suc n) os H (sg_no os S) (g, w) = Ret (Inr 0, g, w')"
proof -
  obtain e w1 where "k_raise os (sg_no os S) w = ((0, e), w1)" using assms by (metis deaf_def willing_def prod.collapse)
  moreover obtain w2 where "k_enter os w1 = (D_none, w2)" using assms by (metis deaf_def prod.collapse)
  ultimately show ?thesis by (simp add: praise_def)
qed

lemma willing_action:
  assumes "willing os" and "S \<in> set test_signals"
  shows "\<exists>e old w'. k_sigaction os (sg_no os S) a w = ((0, e, old), w')"
  using assms unfolding willing_def by (metis prod.collapse)

lemma willing_set_action:
  assumes "willing os" and "S \<in> set test_signals"
  shows "\<exists>w'. set_action os S (Fn f) fl m (g, w) = Ret (Inr 0, g, w')"
  using willing_action [OF assms, of "Some \<lparr>sa_handler = Fn f, sa_mask = m, sa_flags = fl\<rparr>" w] by (auto simp: set_action_def)

definition ends :: "(unit, 'g, 'w) proc \<Rightarrow> int \<Rightarrow> 'g \<times> 'w \<Rightarrow> bool" where
  "ends m c s \<longleftrightarrow> (\<exists>s'. m s = Ret (Inl (Exited c), s'))"

lemma ends_exit: "c mod 256 = d \<Longrightarrow> ends (exit_with c) d s"
  by (simp add: ends_def)

lemma run_main_ends: "ends m c (g, w) \<Longrightarrow> run_main m g w = Ret (Exited c)"
  by (auto simp: ends_def run_main_def)

lemma ends_bind: "m s = Ret (Inr a, s1) \<Longrightarrow> ends (k a) c s1 \<Longrightarrow> ends (pbind m k) c s"
  by (simp add: ends_def)

lemma ends_get: "ends (k g) c (g, w) \<Longrightarrow> ends (pbind pget k) c (g, w)"
  by (rule ends_bind) simp_all

lemma ends_mod: "ends (k ()) c (f g, w) \<Longrightarrow> ends (pbind (pmod f) k) c (g, w)"
  by (rule ends_bind) simp_all

lemma ends_set_action:
  assumes "willing os" and "S \<in> set test_signals" and "\<And>w. ends (k 0) c (g, w)"
  shows "ends (pbind (set_action os S (Fn f) fl m) k) c (g, w)"
  using willing_set_action [OF assms(1,2), of f fl m g w] assms(3) by (auto intro: ends_bind)

lemma ends_raise:
  assumes "deaf os" and "\<And>w. ends (k 0) c (g, w)"
  shows "ends (pbind (praise (Suc n) os H (sg_no os S)) k) c (g, w)"
  using deaf_raise [OF assms(1), of n H S g w] assms(2) by (auto intro: ends_bind)

lemma ends_action:
  assumes "willing os" and "S \<in> set test_signals" and "\<And>e old w. ends (k (0, e, old)) c (g, w)"
  shows "ends (pbind (kern (k_sigaction os (sg_no os S) a)) k) c (g, w)"
  using willing_action [OF assms(1,2), of a w] assms(3) by (auto intro!: ends_bind kern_simp)

lemma ends_altstack:
  assumes "willing os" and "\<And>e old w. ends (k (0, e, old)) c (g, w)"
  shows "ends (pbind (kern (k_sigaltstack os st)) k) c (g, w)"
proof -
  obtain e old w' where "k_sigaltstack os st w = ((0, e, old), w')" using assms(1) unfolding willing_def by (metis prod.collapse)
  then show ?thesis using assms(2) by (auto intro!: ends_bind kern_simp)
qed

lemma ends_malloc:
  assumes "willing os" and "\<And>p w. p \<noteq> 0 \<Longrightarrow> ends (k p) c (g, w)"
  shows "ends (pbind (kern (k_malloc os j)) k) c (g, w)"
proof -
  obtain p w' where "k_malloc os j w = (p, w')" "p \<noteq> 0" using assms(1) unfolding willing_def by (metis prod.collapse)
  then show ?thesis using assms(2) by (auto intro!: ends_bind kern_simp)
qed

lemma ends_signal:
  assumes "willing os" and "S \<in> set test_signals" and "\<And>old e w. old \<noteq> SIG_ERR \<Longrightarrow> ends (k (old, e)) c (g, w)"
  shows "ends (pbind (kern (k_signal os (sg_no os S) h)) k) c (g, w)"
proof -
  obtain old e w' where "k_signal os (sg_no os S) h w = ((old, e), w')" "old \<noteq> SIG_ERR"
    using assms(1,2) unfolding willing_def by (metis prod.collapse)
  then show ?thesis using assms(3) by (auto intro!: ends_bind kern_simp)
qed

lemma ends_fork:
  assumes "willing os" and "\<And>w. ends child d (g, w)" and "0 \<le> d" and "d < 256" and "c = (if d = 0 then PTS_PASS else PTS_FAIL)"
  shows "ends (pbind (pfork os child) (nest_parent os)) c (g, w)"
proof -
  obtain pid cw pw where f: "k_fork os w = (pid, cw, pw)" "pid \<noteq> - 1" using assms(1) unfolding willing_def by (metis prod.collapse)
  obtain rc w' where "k_wait os False (Some (Exited d)) pw = (rc, w')" "rc \<noteq> - 1" using assms(1) unfolding willing_def by (metis prod.collapse)
  moreover have "k_wexitstatus os (Exited d) = d" using assms(1,3,4) by (simp add: willing_def)
  ultimately show ?thesis
    using f run_main_ends [OF assms(2), of cw] assms(5)
    by (auto simp: ends_def pfork_def nest_parent_def pwait_def pts_defs)
qed

lemmas deaf_rules = ends_set_action [OF deaf_willing] ends_raise ends_action [OF deaf_willing] ends_altstack [OF deaf_willing]
  ends_malloc [OF deaf_willing] ends_signal [OF deaf_willing]

lemma deaf_empty: "deaf os \<Longrightarrow> fst (sg_empty os q) = 0" and deaf_rtsig: "deaf os \<Longrightarrow> \<not> k_rtsig os < 0"
  by (simp_all add: deaf_def willing_def)

lemma deaf_fails:
  assumes d: "deaf os" and S: "S \<in> set test_signals"
  shows "sigaction_1 S (Suc n) os q w = Ret (Exited PTS_FAIL)" "sigaction_3 S (Suc n) os q w = Ret (Exited PTS_FAIL)"
    "sigaction_6 S (Suc n) os q w = Ret (Exited PTS_FAIL)" "sigaction_18 S (Suc n) os q w = Ret (Exited PTS_FAIL)"
    "sigaction_19 S (Suc n) os q w = Ret (Exited PTS_FAIL)" "sigaction_28 S (Suc n) os q w = Ret (Exited PTS_FAIL)"
  unfolding sigaction_1_def sigaction_3_def sigaction_6_def sigaction_18_def sigaction_19_def sigaction_28_def called_verdict_def
  by (rule run_main_ends; auto intro!: deaf_rules [OF d] S ends_get ends_exit simp: deaf_empty [OF d] deaf_rtsig [OF d] pts_defs)+

lemma deaf_passes:
  assumes d: "deaf os" and S: "S \<in> set test_signals"
  shows "sigaction_12_alt S (Suc n) os q w = Ret (Exited PTS_PASS)" "current_stack fl S (Suc n) os q w = Ret (Exited PTS_PASS)"
    "x \<in> set test_signals \<Longrightarrow> sigaction_8 x S (Suc n) os q w = Ret (Exited PTS_PASS)"
  unfolding sigaction_12_alt_def current_stack_def sigaction_8_def
  by (rule run_main_ends; auto intro!: deaf_rules [OF d] S ends_get ends_mod ends_exit simp: pts_defs)+

lemma deaf_forks:
  assumes d: "deaf os" and S: "S \<in> set test_signals"
  shows "sigaction_22 S (Suc n) os q w = Ret (Exited PTS_FAIL)" "sigaction_25 S (Suc n) os q w = Ret (Exited PTS_PASS)"
  unfolding sigaction_22_def sigaction_25_def
  by (rule run_main_ends, rule ends_fork [OF deaf_willing [OF d], where d = 1];
      auto intro!: deaf_rules [OF d] S ends_exit simp: pts_defs)
    (rule run_main_ends, rule ends_fork [OF deaf_willing [OF d], where d = 0];
      auto intro!: deaf_rules [OF d] S ends_get ends_exit simp: pts_defs nest0_def)

lemma deaf_child:
  assumes "deaf os" and "\<And>w. ends child d (g, w)" and "ends (k (Some (Exited d))) c (g, snd (k_wait os b (Some (Exited d)) (snd (snd (k_fork os w)))))"
  shows "ends (pbind (pfork os child) (\<lambda>st. pbind (pwait os b st) (\<lambda>rc. if rc = - 1 then exit_with PTS_UNRESOLVED else k st))) c (g, w)"
proof -
  obtain pid cw pw where f: "k_fork os w = (pid, cw, pw)" "pid \<noteq> - 1" using assms(1) unfolding deaf_def willing_def by (metis prod.collapse)
  obtain rc w' where "k_wait os b (Some (Exited d)) pw = (rc, w')" "rc \<noteq> - 1" using assms(1) unfolding deaf_def willing_def by (metis prod.collapse)
  with f run_main_ends [OF assms(2), of cw] assms(3) show ?thesis by (auto simp: ends_def pfork_def pwait_def)
qed

lemma deaf_masks:
  assumes d: "deaf os" and S: "S \<in> set test_signals"
  shows "sigaction_4_kill S (Suc n) os q w = Ret (Exited PTS_FAIL)" "sigaction_4_stop S (Suc n) os q w = Ret (Exited PTS_FAIL)"
    "sigaction_4_add x S (Suc n) os q w = Ret (Exited PTS_PASS)"
proof -
  show "sigaction_4_kill S (Suc n) os q w = Ret (Exited PTS_FAIL)"
    unfolding sigaction_4_kill_def
    by (rule run_main_ends, rule deaf_child [OF d, where d = PTS_PASS]) (auto intro!: deaf_rules [OF d] S ends_exit simp: pts_defs)
  show "sigaction_4_stop S (Suc n) os q w = Ret (Exited PTS_FAIL)"
    unfolding sigaction_4_stop_def
    by (rule run_main_ends, rule deaf_child [OF d, where d = PTS_UNRESOLVED]) (auto intro!: deaf_rules [OF d] S ends_exit simp: pts_defs)
  show "sigaction_4_add x S (Suc n) os q w = Ret (Exited PTS_PASS)"
    unfolding sigaction_4_add_def
    by (rule run_main_ends) (auto intro!: deaf_rules [OF d] S ends_exit simp: pts_defs)
qed

lemma deaf_old_action:
  assumes d: "deaf os" and S: "S \<in> set test_signals"
  shows "sigaction_2 S (Suc n) os q w \<in> {Ret (Exited PTS_PASS), Ret (Exited PTS_FAIL)}"
proof -
  obtain w1 where w1: "set_action os S (Fn 1) {} (empty_set os q) ((), w) = Ret (Inr 0, (), w1)"
    using willing_set_action [OF deaf_willing [OF d] S, of 1 "{}" "empty_set os q" "()" w] by auto
  obtain e old w2 where "k_sigaction os (sg_no os S) (Some \<lparr>sa_handler = Fn 2, sa_mask = empty_set os (empty_set os q), sa_flags = {}\<rparr>) w1
      = ((0, e, old), w2)" using willing_action [OF deaf_willing [OF d] S] by blast
  with w1 show ?thesis by (simp add: sigaction_2_def run_main_def pts_defs)
qed

lemma deaf_loops:
  assumes d: "deaf os" and S: "S \<in> set test_signals"
  shows "sigaction_23 S (Suc n) os q w = Loop"
proof -
  obtain w1 where "set_action os S (Fn 1) {} (empty_set os q) (0, w) = Ret (Inr 0, 0 :: int, w1)"
    using willing_set_action [OF deaf_willing [OF d] S, of 1 "{}" "empty_set os q" "0 :: int" w] by auto
  moreover obtain w2 where "praise (Suc n) os (pending_handler os S) (sg_no os S) (0, w1) = Ret (Inr 0, 0, w2)"
    using deaf_raise [OF d, of n "pending_handler os S" S 0 w1] by auto
  ultimately show ?thesis
    by (simp add: sigaction_23_def run_main_def deaf_empty [OF d])
qed

text \<open>C23. On a system on which every call succeeds, real-time signals are supported and no signal is ever delivered, the programs of the families 1, 3, 6, 18, 19, 22, 28 and 4-1 to 4-52 fail and those of
  family 23 do not end; the families 8, 12, 13, 25 and 4-53 to 4-104 pass, since they never test that their handler was called. The programs of family 2 test only
  the action that \<^verbatim>\<open>sigaction\<close> reports; they pass or fail. The families 16 and 17 and the single programs 9-1, 10-1, 11-1, 21-1, 29-1 and 30-1 are not covered.\<close>

theorem sigaction_files_deaf:
  assumes "deaf os" and "0 < n"
  shows "(\<forall>p \<in> set (files_1_1 @ files_3_1 @ files_4_1 @ files_4_27 @ files_6_1 @ files_18_1 @ files_19_1 @ files_22_1 @ files_28_1).
      p n os q w = Ret (Exited PTS_FAIL))
    \<and> (\<forall>p \<in> set files_23_1. p n os q w = Loop)
    \<and> (\<forall>p \<in> set (files_4_53 @ files_4_79 @ files_8_1 @ files_12_1 @ files_12_27 @ files_13_1 @ files_25_1). p n os q w = Ret (Exited PTS_PASS))
    \<and> (\<forall>p \<in> set files_2_1. p n os q w \<in> {Ret (Exited PTS_PASS), Ret (Exited PTS_FAIL)})"
proof -
  obtain m where n: "n = Suc m" using assms(2) gr0_implies_Suc by blast
  have "p n os q w = Ret (Exited PTS_PASS)" if "p \<in> set files_8_1" for p
    using files_8_signals [OF that] deaf_passes(3) [OF assms(1)] n by auto
  moreover have "p n os q w \<in> {Ret (Exited PTS_PASS), Ret (Exited PTS_FAIL)}" if "p \<in> set files_2_1" for p
    using that deaf_old_action [OF assms(1)] n by (auto simp: files_eq)
  ultimately show ?thesis
    by (auto simp: files_eq n sigaction_12_current_def sigaction_13_def deaf_fails [OF assms(1)] deaf_passes [OF assms(1)]
        deaf_forks [OF assms(1)] deaf_loops [OF assms(1)] deaf_masks [OF assms(1)])
qed

definition deaf_kernel :: "(64 word, wk) sigk" where
  "deaf_kernel = word_kernel\<lparr>k_enter := \<lambda>w. (D_none, w)\<rparr>"

lemma deaf_kernel_deaf: "deaf deaf_kernel"
proof -
  have s: "wk_settable (linux_no S)" if "S \<in> set test_signals" for S
    using test_signals_catchable [OF that] by (cases S) (simp_all add: wk_settable_def)
  have "fst (fst (wk_raise (linux_no S) w)) = 0" for S w by (cases S) (simp_all add: wk_raise_def)
  moreover have "fst (fst (wk_sigaction (linux_no S) a w)) = 0" if "S \<in> set test_signals" for S a w
    using s [OF that] by (auto simp: wk_sigaction_def wk_settable_def Let_def split: option.splits)
  moreover have "fst (fst (wk_signal (linux_no S) h w)) \<noteq> SIG_ERR" if "S \<in> set test_signals" for S h w
    using s [OF that] by (simp add: wk_signal_def wk_disp_def Let_def)
  ultimately show ?thesis
    by (simp add: deaf_def willing_def deaf_kernel_def word_sets_def)
qed

theorem sigaction_files_deaf_witness:
  "sigaction_1_1 3 deaf_kernel 5 wk0 = Ret (Exited PTS_FAIL) \<and> sigaction_8_1 3 deaf_kernel 5 wk0 = Ret (Exited PTS_PASS)"
  using sigaction_files_deaf [OF deaf_kernel_deaf, of 3 5 wk0] by (simp add: files_1_1_def files_8_1_def)

section \<open>A system that does not block a signal during its handler\<close>

definition eager :: "('q, 'w, 'z) sigk_scheme \<Rightarrow> bool" where
  "eager os \<longleftrightarrow> willing os
     \<and> (\<forall>S w. S \<in> set test_signals \<longrightarrow> fst (k_enter os (snd (k_raise os (sg_no os S) w))) = D_call 1 (sg_no os S) (sg_no os S))"

lemma eager_raise:
  assumes "eager os" and "S \<in> set test_signals"
  shows "\<exists>w1. praise (Suc n) os H (sg_no os S) (g, w) = pbind (pbind (H 1 (praise n os H) (sg_no os S) (sg_no os S))
    (\<lambda>_. pbind (kern (\<lambda>w. ((), k_return os w))) (\<lambda>_. deliver n os H))) (\<lambda>_. pret 0) (g, w1)"
proof -
  obtain e w0 where r: "k_raise os (sg_no os S) w = ((0, e), w0)" using assms by (metis eager_def willing_def prod.collapse)
  then have "fst (k_enter os w0) = D_call 1 (sg_no os S) (sg_no os S)" using assms by (metis eager_def snd_conv)
  then obtain w1 where "k_enter os w0 = (D_call 1 (sg_no os S) (sg_no os S), w1)" by (metis prod.collapse)
  with r show ?thesis
    by (intro exI [of _ w1]) (simp add: praise_def [abs_def] pbind_def)
qed

lemma eager_exit:
  assumes "eager os" and "S \<in> set test_signals" and "\<And>w. ends (H 1 (praise n os H) (sg_no os S) (sg_no os S)) c (g, w)"
  shows "ends (pbind (praise (Suc n) os H (sg_no os S)) k) c (g, w)"
proof -
  obtain w1 where p: "praise (Suc n) os H (sg_no os S) (g, w) = pbind (pbind (H 1 (praise n os H) (sg_no os S) (sg_no os S))
      (\<lambda>_. pbind (kern (\<lambda>w. ((), k_return os w))) (\<lambda>_. deliver n os H))) (\<lambda>_. pret 0) (g, w1)"
    using eager_raise [OF assms(1,2), of n H g w] by auto
  obtain s' where "H 1 (praise n os H) (sg_no os S) (sg_no os S) (g, w1) = Ret (Inl (Exited c), s')"
    using assms(3) [of w1] by (auto simp: ends_def)
  then show ?thesis using p by (auto simp: ends_def pbind_def)
qed

lemma ends_seq: "ends m c s \<Longrightarrow> ends (pbind m k) c s"
  by (auto simp: ends_def)

lemma eager_verdicts:
  assumes e: "eager os" and S: "S \<in> set test_signals"
  shows "sigaction_23 S (Suc (Suc n)) os q w = Ret (Exited PTS_FAIL)" "sigaction_25 S (Suc (Suc n)) os q w = Ret (Exited PTS_FAIL)"
    "sigaction_22 S (Suc (Suc n)) os q w = Ret (Exited PTS_PASS)"
proof -
  have w: "willing os" and empty: "\<And>q. fst (sg_empty os q) = 0" using e by (simp_all add: eager_def willing_def)
  have inner: "ends (pending_handler os S 1 r s i) PTS_FAIL (1, w)" for r s i w
    unfolding pending_handler_def by (intro ends_mod ends_get) (simp add: ends_exit pts_defs)
  have first: "ends (pending_handler os S 1 (praise (Suc n) os (pending_handler os S)) s i) PTS_FAIL (0, w)" for s i w
    unfolding pending_handler_def [of os S 1 "praise (Suc n) os (pending_handler os S)"]
    by (intro ends_mod ends_get) (simp, intro ends_seq eager_exit [OF e S] inner)
  show "sigaction_23 S (Suc (Suc n)) os q w = Ret (Exited PTS_FAIL)"
    unfolding sigaction_23_def by (intro run_main_ends) (simp add: empty, intro ends_set_action [OF w S], simp, intro eager_exit [OF e S] first)
  let ?g = "\<lparr>handler_count = 1, handler_error = 0, inside_handler = 1\<rparr>"
  have inner: "ends (nest_handler os S c 1 r s i) (c mod 256) (?g, w)" for c r s i w
    unfolding nest_handler_def by (intro ends_get) (simp, intro ends_mod ends_exit, simp)
  have outer: "ends (nest_handler os S c 1 (praise (Suc n) os (nest_handler os S c)) s i) (c mod 256) (nest0, w)" for c s i w
    unfolding nest_handler_def [of os S c 1 "praise (Suc n) os (nest_handler os S c)"]
    by (intro ends_get) (simp add: nest0_def, intro ends_mod ends_get, simp, intro ends_seq eager_exit [OF e S] inner)
  show "sigaction_25 S (Suc (Suc n)) os q w = Ret (Exited PTS_FAIL)"
    unfolding sigaction_25_def
    by (intro run_main_ends ends_fork [OF w, where d = 255] ends_set_action [OF w S])
      (simp, rule eager_exit [OF e S], use outer [of "- 1"] in simp, simp_all add: pts_defs)
  show "sigaction_22 S (Suc (Suc n)) os q w = Ret (Exited PTS_PASS)"
    unfolding sigaction_22_def
    by (intro run_main_ends ends_fork [OF w, where d = 0] ends_set_action [OF w S])
      (simp, rule eager_exit [OF e S], use outer [of 0] in simp, simp_all add: pts_defs)
qed

text \<open>On a system that calls the handler of a signal again at once when the signal is raised during its handler, the programs of the families 23 and 25 fail,
  and those of family 22, which ask for it, pass.\<close>

theorem sigaction_files_eager:
  assumes "eager os" and "2 \<le> n"
  shows "(\<forall>p \<in> set (files_23_1 @ files_25_1). p n os q w = Ret (Exited PTS_FAIL)) \<and> (\<forall>p \<in> set files_22_1. p n os q w = Ret (Exited PTS_PASS))"
proof -
  obtain m where n: "n = Suc (Suc m)" using assms(2) that [of "n - 2"] by simp
  show ?thesis by (auto simp: files_eq n eager_verdicts [OF assms(1)])
qed

definition eager_kernel :: "(64 word, wk) sigk" where
  "eager_kernel = word_kernel\<lparr>k_enter := \<lambda>w. case wk_next w of None \<Rightarrow> (D_none, w) | Some s \<Rightarrow> (D_call 1 s s, w\<lparr>wk_pend := 0\<rparr>),
     k_raise := \<lambda>s w. ((0, EOK), w\<lparr>wk_pend := set_bit (nat (s - 1)) 0, wk_mask := 0\<rparr>)\<rparr>"

lemma eager_next:
  assumes "1 \<le> s" and "s \<le> 64"
  shows "wk_next (w\<lparr>wk_pend := set_bit (nat (s - 1)) 0, wk_mask := 0\<rparr>) = Some s"
proof -
  let ?w = "w\<lparr>wk_pend := set_bit (nat (s - 1)) 0, wk_mask := 0\<rparr>"
  have p: "word_members (wk_pend ?w) = {s}" using word_members_simps(5) [OF assms, of 0] by simp
  have "s \<in> word_members (wk_pend ?w)" "s \<notin> word_members (wk_mask ?w) - {9, 19}" using p by simp_all
  from wk_next_ex [OF this] obtain r where r: "wk_next ?w = Some r" ..
  with wk_next_some [OF r] p show ?thesis by simp
qed

lemma eager_kernel_eager: "eager eager_kernel"
proof -
  have r: "1 \<le> linux_no S \<and> linux_no S \<le> 64" for S by (cases S) simp_all
  have w: "willing eager_kernel"
    using deaf_kernel_deaf unfolding deaf_def willing_def by (simp add: deaf_kernel_def eager_kernel_def)
  show ?thesis
    unfolding eager_def using w r eager_next by (simp add: eager_kernel_def)
qed

theorem sigaction_files_eager_witness:
  "sigaction_23_2 3 eager_kernel 5 wk0 = Ret (Exited PTS_FAIL) \<and> sigaction_22_2 3 eager_kernel 5 wk0 = Ret (Exited PTS_PASS)"
  using sigaction_files_eager [OF eager_kernel_eager, of 3 5 wk0] by (simp add: files_23_1_def files_22_1_def)

end
