(* ===== verification/Sigmask_Props.thy ===== *)
theory Sigmask_Props
  imports Sigmask_Tests Sigaction_Detect
begin

text \<open>
  What the programs of \<open>Sigmask_Tests\<close> report on a system that keeps the contract of signal delivery. The programs are executed symbolically over the
  abstract state: \<open>runs m c g v\<close> says that from variables \<open>g\<close> and any system in the abstract state \<open>v\<close> the process ends with the code \<open>c\<close>,
  and there is a rule for every call.
\<close>

context signal_kernel
begin

definition runs :: "(unit, 'g, 'w) proc \<Rightarrow> int \<Rightarrow> 'g \<Rightarrow> sview \<Rightarrow> bool" where
  "runs m c g v \<longleftrightarrow> (\<forall>w. view w = v \<longrightarrow> ends m c (g, w))"

text \<open>A call of the system: its result and the state after it.\<close>

definition steps :: "('w \<Rightarrow> 'a \<times> 'w) \<Rightarrow> ('a \<Rightarrow> bool) \<Rightarrow> sview \<Rightarrow> sview \<Rightarrow> bool" where
  "steps f P v v' \<longleftrightarrow> (\<forall>w. view w = v \<longrightarrow> (\<exists>r w'. f w = (r, w') \<and> P r \<and> view w' = v'))"

lemma run_main_runs: "runs m c g (view w) \<Longrightarrow> run_main m g w = Ret (Exited c)"
  by (simp add: runs_def run_main_ends)

lemma runs_exit: "c mod 256 = d \<Longrightarrow> runs (exit_with c) d g v"
  by (simp add: runs_def ends_exit)

lemma runs_get: "runs (k g) c g v \<Longrightarrow> runs (pbind pget k) c g v"
  by (simp add: runs_def ends_get)

lemma runs_mod: "runs (k ()) c (f g) v \<Longrightarrow> runs (pbind (pmod f) k) c g v"
  by (simp add: runs_def ends_mod)

lemma runs_kern:
  assumes "steps f P v v'" and "\<And>r. P r \<Longrightarrow> runs (k r) c g v'"
  shows "runs (pbind (kern f) k) c g v"
  using assms unfolding runs_def steps_def by (metis ends_bind kern_simp)

lemma runs_action:
  assumes "S \<noteq> S_KILL" and "S \<noteq> S_STOP" and "initialised m"
    and "runs (k 0) c g (v\<lparr>v_act := (v_act v)(sg_no os S := (Fn f, members m - unblockable os, fl))\<rparr>)"
  shows "runs (pbind (set_action os S (Fn f) fl m) k) c g v"
  using set_action_ok [OF assms(1-3), of f fl g] assms(4) unfolding runs_def by (metis ends_bind)

text \<open>\<^verbatim>\<open>raise\<close>: the signal is blocked, discarded, wrong, or caught by a handler that leaves the system as it is.\<close>

definition neutral :: "('g, 'w) handlers \<Rightarrow> nat \<Rightarrow> int \<Rightarrow> int set \<Rightarrow> 'g \<Rightarrow> 'g \<Rightarrow> bool" where
  "neutral H f s m g g' \<longleftrightarrow> (\<forall>r w1. v_mask (view w1) = m \<longrightarrow> (\<exists>w2. H f r s s (g, w1) = Ret (Inr (), g', w2) \<and> view w2 = view w1))"

lemma runs_unblocking:
  assumes "steps f P v v'" and "v_pend v' \<subseteq> v_mask v'" and "\<And>r. P r \<Longrightarrow> runs (k r) c g v'"
  shows "runs (pbind (unblocking (Suc n) os H f) k) c g v"
  unfolding runs_def
proof (intro allI impI)
  fix w assume "view w = v"
  with assms(1) obtain r w1 where f: "f w = (r, w1)" "P r" "view w1 = v'" unfolding steps_def by blast
  with deliver_none [of w1 n H g] assms(2) obtain w2 where d: "deliver (Suc n) os H (g, w1) = Ret (Inr (), g, w2)" "view w2 = v'" by auto
  have "unblocking (Suc n) os H f (g, w) = Ret (Inr r, g, w2)"
    using f(1) d(1) by (simp add: unblocking_def del: deliver.simps)
  with assms(3) [OF f(2)] d(2) show "ends (pbind (unblocking (Suc n) os H f) k) c (g, w)"
    by (auto simp: runs_def intro: ends_bind)
qed

lemma runs_unblocking_called:
  assumes "steps f P v v'" and "v_pend v' - v_mask v' = {s}" and "fst (v_act v' s) = Fn i"
    and "neutral H i s (v_mask v' \<union> handler_mask (v_act v' s) s) g g'"
    and "\<And>r act. P r \<Longrightarrow> (\<forall>x. x \<noteq> s \<or> SA_RESETHAND \<notin> snd (snd (v_act v' s)) \<longrightarrow> act x = v_act v' x) \<Longrightarrow>
      runs (k r) c g' (v'\<lparr>v_pend := v_pend v' - {s}, v_act := act\<rparr>)"
  shows "runs (pbind (unblocking (Suc (Suc n)) os H f) k) c g v"
  unfolding runs_def
proof (intro allI impI)
  fix w assume "view w = v"
  with assms(1) obtain r w1 where f: "f w = (r, w1)" "P r" "view w1 = v'" unfolding steps_def by blast
  obtain w2 act where d: "deliver (Suc (Suc n)) os H (g, w1) =
        pbind (H i (praise (Suc n) os H) s s) (\<lambda>_. pbind (kern (\<lambda>w. ((), k_return os w))) (\<lambda>_. deliver (Suc n) os H)) (g, w2)"
    and v2: "view w2 = (entered v' s)\<lparr>v_act := act\<rparr>"
    and act: "\<forall>x. x \<noteq> s \<or> SA_RESETHAND \<notin> snd (snd (v_act v' s)) \<longrightarrow> act x = v_act v' x"
    using deliver_caught [of w1 s i "Suc n" H g] assms(2,3) f(3) by (auto simp del: deliver.simps)
  have "v_mask (view w2) = v_mask v' \<union> handler_mask (v_act v' s) s" using v2 by (simp add: entered_def)
  with assms(4) obtain w3 where h: "H i (praise (Suc n) os H) s s (g, w2) = Ret (Inr (), g', w3)" "view w3 = view w2"
    unfolding neutral_def by blast
  let ?v = "v'\<lparr>v_pend := v_pend v' - {s}, v_act := act\<rparr>"
  have "view (k_return os w3) = ?v"
    using return_law [of w3 "v_mask v'" "v_frames v'"] h(2) v2 by (simp add: entered_def)
  with deliver_none [of "k_return os w3" n H g'] assms(2) obtain w4 where
    "deliver (Suc n) os H (g', k_return os w3) = Ret (Inr (), g', w4)" and v4: "view w4 = ?v" by auto
  then have "unblocking (Suc (Suc n)) os H f (g, w) = Ret (Inr r, g', w4)"
    using f(1) d h(1) by (simp add: unblocking_def kern_def del: deliver.simps)
  with assms(5) [OF f(2) act] v4 show "ends (pbind (unblocking (Suc (Suc n)) os H f) k) c (g, w)"
    by (auto simp: runs_def intro: ends_bind)
qed

lemma praise_unblocking: "pbind (praise n os H s) k = pbind (unblocking n os H (k_raise os s)) (\<lambda>(rc, e). k rc)"
proof -
  have "pbind (case x of (rc, e) \<Rightarrow> pbind (deliver n os H) (\<lambda>_. pret rc)) k = pbind (pbind (deliver n os H) (\<lambda>_. pret x)) (\<lambda>(rc, e). k rc)"
    for x :: "int \<times> errno" by (cases x) (simp add: pbind_assoc)
  then show ?thesis by (simp add: praise_def unblocking_def pbind_assoc)
qed

section \<open>The calls as steps\<close>

lemma steps_raise:
  assumes "\<not> ignoring os (fst (v_act v (sg_no os S))) (sg_no os S)"
  shows "steps (k_raise os (sg_no os S)) (\<lambda>(rc, e). rc = 0) v (v\<lparr>v_pend := insert (sg_no os S) (v_pend v)\<rparr>)"
  unfolding steps_def using raise_law [OF numbers(1), of _ S] assms by fastforce

lemma steps_raise_ignored:
  assumes "ignoring os (fst (v_act v (sg_no os S))) (sg_no os S)" and "sg_no os S \<notin> v_mask v"
  shows "steps (k_raise os (sg_no os S)) (\<lambda>(rc, e). rc = 0) v v"
  unfolding steps_def using raise_ignored [OF numbers(1), of _ S] assms by fastforce

lemma steps_raise_wrong: "s \<notin> signals \<Longrightarrow> steps (k_raise os s) (\<lambda>r. r = (- 1, EINVAL)) v v"
  unfolding steps_def using raise_wrong by fastforce

lemma steps_signal:
  assumes "S \<noteq> S_KILL" and "S \<noteq> S_STOP" and "h \<noteq> SIG_ERR" and "h \<noteq> SIG_HOLD" and "view w = v"
  shows "\<exists>fl e w'. k_signal os (sg_no os S) h w = ((fst (v_act v (sg_no os S)), e), w') \<and> view w' = install os (sg_no os S) (h, {}, fl) v"
  using signal_set [OF settable [OF assms(1,2)] assms(3,4), of w] assms(5) by auto

lemma steps_sigset:
  assumes "S \<noteq> S_KILL" and "S \<noteq> S_STOP" and "h \<noteq> SIG_ERR" and "h \<noteq> SIG_HOLD"
  shows "steps (k_sigset os (sg_no os S) h) (\<lambda>(old, e). old = (if sg_no os S \<in> v_mask v then SIG_HOLD else fst (v_act v (sg_no os S)))) v
    ((install os (sg_no os S) (h, {}, {}) v)\<lparr>v_mask := v_mask v - {sg_no os S}\<rparr>)"
  unfolding steps_def using sigset_set [OF settable [OF assms(1,2)] assms(3,4)] by fastforce

lemma steps_sigset_hold:
  assumes "S \<noteq> S_KILL" and "S \<noteq> S_STOP"
  shows "steps (k_sigset os (sg_no os S) SIG_HOLD) (\<lambda>(old, e). old = (if sg_no os S \<in> v_mask v then SIG_HOLD else fst (v_act v (sg_no os S)))) v
    (v\<lparr>v_mask := insert (sg_no os S) (v_mask v)\<rparr>)"
  unfolding steps_def using sigset_hold [OF settable [OF assms]] by fastforce

lemma steps_sighold:
  assumes "S \<noteq> S_KILL" and "S \<noteq> S_STOP"
  shows "steps (k_sighold os (sg_no os S)) (\<lambda>(rc, e). rc = 0) v (v\<lparr>v_mask := insert (sg_no os S) (v_mask v)\<rparr>)"
  unfolding steps_def using sighold_law [OF settable [OF assms]] by fastforce

lemma steps_sigrelse: "steps (k_sigrelse os (sg_no os S)) (\<lambda>(rc, e). rc = 0) v (v\<lparr>v_mask := v_mask v - {sg_no os S}\<rparr>)"
  unfolding steps_def using sigrelse_law [OF numbers(1)] by fastforce

lemma steps_sigignore:
  assumes "S \<noteq> S_KILL" and "S \<noteq> S_STOP"
  shows "steps (k_sigignore os (sg_no os S)) (\<lambda>(rc, e). rc = 0) v (install os (sg_no os S) (SIG_IGN, {}, {}) v)"
  unfolding steps_def using sigignore_law [OF settable [OF assms]] by fastforce

lemma steps_pending:
  "steps (k_sigpending os) (\<lambda>(rc, q). rc = 0 \<and> initialised q \<and> members q = v_pend v \<inter> v_mask v) v v"
  unfolding steps_def using pending_law by fastforce

lemma steps_procmask:
  assumes "initialised q" and "\<forall>k. hw \<noteq> How_other k"
  shows "steps (k_sigprocmask os hw (Some q)) (\<lambda>(rc, e, old). rc = 0 \<and> initialised old \<and> members old = v_mask v) v
    (v\<lparr>v_mask := new_mask hw (members q) (v_mask v) - unblockable os\<rparr>)"
  unfolding steps_def using procmask_set [OF assms] by fastforce

lemma steps_procmask_get:
  "steps (k_sigprocmask os hw None) (\<lambda>(rc, e, old). rc = 0 \<and> initialised old \<and> members old = v_mask v) v v"
  unfolding steps_def using procmask_get by fastforce

lemma steps_procmask_wrong: "steps (k_sigprocmask os (How_other k) (Some q)) (\<lambda>(rc, e, old). rc = - 1 \<and> e = EINVAL) v v"
  unfolding steps_def using procmask_wrong by fastforce

section \<open>raise\<close>

lemma runs_raise_blocked:
  assumes "v_pend v \<subseteq> v_mask v" and "sg_no os S \<in> v_mask v" and "\<not> ignoring os (fst (v_act v (sg_no os S))) (sg_no os S)"
    and "runs (k 0) c g (v\<lparr>v_pend := insert (sg_no os S) (v_pend v)\<rparr>)"
  shows "runs (pbind (praise (Suc n) os H (sg_no os S)) k) c g v"
  unfolding praise_unblocking using assms by (intro runs_unblocking [OF steps_raise]) auto

lemma runs_raise_ignored:
  assumes "v_pend v \<subseteq> v_mask v" and "sg_no os S \<notin> v_mask v" and "ignoring os (fst (v_act v (sg_no os S))) (sg_no os S)"
    and "runs (k 0) c g v"
  shows "runs (pbind (praise (Suc n) os H (sg_no os S)) k) c g v"
  unfolding praise_unblocking using assms by (intro runs_unblocking [OF steps_raise_ignored]) auto

lemma runs_raise_called:
  assumes "v_pend v \<subseteq> v_mask v" and "sg_no os S \<notin> v_mask v" and "fst (v_act v (sg_no os S)) = Fn i"
    and "neutral H i (sg_no os S) (v_mask v \<union> handler_mask (v_act v (sg_no os S)) (sg_no os S)) g g'" and "\<And>act. runs (k 0) c g' (v\<lparr>v_act := act\<rparr>)"
  shows "runs (pbind (praise (Suc (Suc n)) os H (sg_no os S)) k) c g v"
proof -
  have st: "steps (k_raise os (sg_no os S)) (\<lambda>(rc, e). rc = 0) v (v\<lparr>v_pend := insert (sg_no os S) (v_pend v)\<rparr>)"
    using assms(3) by (intro steps_raise) (simp add: ignoring_def)
  have "insert (sg_no os S) (v_pend v) - v_mask v = {sg_no os S}" "v_pend v - {sg_no os S} = v_pend v" using assms(1,2) by auto
  then show ?thesis
    unfolding praise_unblocking using assms(3-5) by (intro runs_unblocking_called [OF st]) auto
qed

lemma runs_raise_kept:
  assumes "v_pend v \<subseteq> v_mask v" and "sg_no os S \<notin> v_mask v" and "fst (v_act v (sg_no os S)) = Fn i"
    and "SA_RESETHAND \<notin> snd (snd (v_act v (sg_no os S)))"
    and "neutral H i (sg_no os S) (v_mask v \<union> handler_mask (v_act v (sg_no os S)) (sg_no os S)) g g'" and "runs (k 0) c g' v"
  shows "runs (pbind (praise (Suc (Suc n)) os H (sg_no os S)) k) c g v"
proof -
  have st: "steps (k_raise os (sg_no os S)) (\<lambda>(rc, e). rc = 0) v (v\<lparr>v_pend := insert (sg_no os S) (v_pend v)\<rparr>)"
    using assms(3) by (intro steps_raise) (simp add: ignoring_def)
  have "insert (sg_no os S) (v_pend v) - v_mask v = {sg_no os S}" "v_pend v - {sg_no os S} = v_pend v" using assms(1,2) by auto
  then show ?thesis
    unfolding praise_unblocking
  proof (intro runs_unblocking_called [OF st])
    fix r :: "int \<times> errno" and act
    assume r: "case r of (rc, e) \<Rightarrow> rc = 0" and "\<forall>x. x \<noteq> sg_no os S \<or> SA_RESETHAND \<notin> snd (snd (v_act (v\<lparr>v_pend := insert (sg_no os S) (v_pend v)\<rparr>) (sg_no os S)))
      \<longrightarrow> act x = v_act (v\<lparr>v_pend := insert (sg_no os S) (v_pend v)\<rparr>) x"
    then have "act = v_act v" using assms(4) by (simp add: fun_eq_iff)
    moreover have "v_pend v - {sg_no os S} = v_pend v" using assms(1,2) by auto
    ultimately show "runs (case r of (rc, e) \<Rightarrow> k rc) c g' (v\<lparr>v_pend := insert (sg_no os S) (v_pend v),
        v_pend := v_pend (v\<lparr>v_pend := insert (sg_no os S) (v_pend v)\<rparr>) - {sg_no os S}, v_act := act\<rparr>)"
      using r assms(6) by (auto split: prod.splits)
  qed (use assms(3,5) in auto)
qed

text \<open>A handler that ends the process.\<close>

lemma runs_raise_exit:
  assumes "v_pend v \<subseteq> v_mask v" and "sg_no os S \<notin> v_mask v" and "fst (v_act v (sg_no os S)) = Fn i"
    and "SA_RESETHAND \<notin> snd (snd (v_act v (sg_no os S)))"
    and "runs (H i (praise n os H) (sg_no os S) (sg_no os S)) c g (entered v (sg_no os S))"
  shows "runs (pbind (praise (Suc n) os H (sg_no os S)) k) c g v"
  unfolding runs_def
proof (intro allI impI)
  fix w assume v: "view w = v"
  obtain w1 act where p: "praise (Suc n) os H (sg_no os S) (g, w) = pbind (pbind (H i (praise n os H) (sg_no os S) (sg_no os S))
      (\<lambda>_. pbind (kern (\<lambda>w. ((), k_return os w))) (\<lambda>_. deliver n os H))) (\<lambda>_. pret 0) (g, w1)"
    and v1: "view w1 = (entered v (sg_no os S))\<lparr>v_act := act\<rparr>" and "\<forall>r. act r = v_act v r"
    using praise_caught [OF numbers(1), of w S i n H g] assms(1-4) v by (auto simp del: deliver.simps)
  then have "view w1 = entered v (sg_no os S)" by (simp add: entered_def fun_eq_iff [symmetric])
  with assms(5) have "ends (H i (praise n os H) (sg_no os S) (sg_no os S)) c (g, w1)" by (simp add: runs_def)
  then show "ends (pbind (praise (Suc n) os H (sg_no os S)) k) c (g, w)"
    using p by (auto simp: ends_def pbind_def)
qed

lemma neutral_called: "neutral called_handler i s m g 1"
  by (simp add: neutral_def called_handler_def)

lemma neutral_idle: "neutral idle_handler i s m g g"
  by (simp add: neutral_def idle_handler_def)

lemma runs_signal:
  assumes "S \<noteq> S_KILL" and "S \<noteq> S_STOP" and "h \<noteq> SIG_ERR" and "h \<noteq> SIG_HOLD"
    and "\<And>e fl. runs (k (fst (v_act v (sg_no os S)), e)) c g (install os (sg_no os S) (h, {}, fl) v)"
  shows "runs (pbind (kern (k_signal os (sg_no os S) h)) k) c g v"
  unfolding runs_def
proof (intro allI impI)
  fix w assume "view w = v"
  from steps_signal [OF assms(1-4) this] obtain fl e w' where
    "k_signal os (sg_no os S) h w = ((fst (v_act v (sg_no os S)), e), w')" "view w' = install os (sg_no os S) (h, {}, fl) v" by auto
  with assms(5) [of e fl] show "ends (pbind (kern (k_signal os (sg_no os S) h)) k) c (g, w)"
    by (auto simp: runs_def intro!: ends_bind kern_simp)
qed

lemma runs_signal_wrong:
  assumes "s \<notin> signals - unblockable os" and "h \<noteq> SIG_DFL" and "\<And>v. runs (k (SIG_ERR, EINVAL)) c g v"
  shows "runs (pbind (kern (k_signal os s h)) k) c g v"
  unfolding runs_def using signal_wrong [OF assms(1,2)] assms(3) by (metis ends_bind kern_simp runs_def)

section \<open>signal\<close>

lemma signal_tests:
  assumes "idle w"
  shows "signal_1_1 (Suc (Suc n)) os w = Ret (Exited PTS_PASS)" "signal_2_1 (Suc (Suc n)) os w = Ret (Exited PTS_PASS)"
    "signal_3_1 (Suc (Suc n)) os w = Ret (Exited PTS_PASS)" "signal_5_1 n os w = Ret (Exited PTS_PASS)"
    "signal_6_1 n os w = Ret (Exited PTS_PASS)" "signal_7_1 n os w = Ret (Exited PTS_PASS)"
proof -
  have p: "v_pend (view w) = {}" and m: "v_mask (view w) = {}" using assms by (simp_all add: idle_def)
  note d = disposition [of w "sg_no os S_CHLD"] disposition [of w "sg_no os S_USR1"] disposition [of w "sg_no os S_USR2"]
  show "signal_1_1 (Suc (Suc n)) os w = Ret (Exited PTS_PASS)"
    unfolding signal_1_1_def not_ran_def
    by (rule run_main_runs) (auto simp: install_def ignoring_def d p m pts_defs intro!: runs_signal runs_raise_ignored runs_get runs_exit)
  show "signal_2_1 (Suc (Suc n)) os w = Ret (Exited PTS_PASS)"
    unfolding signal_2_1_def not_ran_def
    by (rule run_main_runs) (auto simp: install_def ignoring_def d p m pts_defs intro!: runs_signal runs_raise_ignored runs_get runs_exit)
  show "signal_3_1 (Suc (Suc n)) os w = Ret (Exited PTS_PASS)"
    unfolding signal_3_1_def ran_def
    by (rule run_main_runs) (auto simp: install_def ignoring_def d p m pts_defs intro!: runs_signal runs_raise_called neutral_called runs_get runs_exit)
  show "signal_5_1 n os w = Ret (Exited PTS_PASS)"
    unfolding signal_5_1_def
    by (rule run_main_runs) (auto simp: install_def ignoring_def d p m pts_defs intro!: runs_signal runs_exit)
  have "- 1 \<notin> signals" using numbers(2) [of "- 1"] by auto
  then show "signal_6_1 n os w = Ret (Exited PTS_PASS)"
    unfolding signal_6_1_def by (intro run_main_runs) (auto simp: pts_defs intro!: runs_signal_wrong runs_exit)
  show "signal_7_1 n os w = Ret (Exited PTS_PASS)"
    unfolding signal_7_1_def by (rule run_main_runs) (auto simp: unblockable_def pts_defs intro!: runs_signal_wrong runs_exit)
qed

section \<open>sigset\<close>

lemma member_no: "initialised q \<Longrightarrow> fst (sg_member os q (sg_no os S)) = (if sg_no os S \<in> members q then 1 else 0)"
  by (simp add: member numbers(1))

lemma has_no: "initialised q \<Longrightarrow> has os q S = (if sg_no os S \<in> members q then 1 else 0)"
  by (simp add: has_def member_no)

lemma neutral_mask:
  assumes "sg_no os S_CHLD \<in> m"
  shows "neutral (mask_handler os) i s m g 1"
  unfolding neutral_def
proof (intro allI impI)
  fix r w1 assume "v_mask (view w1) = m"
  with procmask_get [of SIG_SETMASK w1] obtain e old w' where
    "k_sigprocmask os SIG_SETMASK None w1 = ((0, e, old), w')" "initialised old" "members old = m" "view w' = view w1" by auto
  with assms show "\<exists>w2. mask_handler os i r s s (g, w1) = Ret (Inr (), 1, w2) \<and> view w2 = view w1"
    by (simp add: mask_handler_def member_no)
qed

lemmas runs_sigset = runs_unblocking [OF steps_sigset]
lemmas runs_sigset_hold = runs_unblocking [OF steps_sigset_hold]
lemmas runs_procmask = runs_unblocking [OF steps_procmask]
lemmas runs_procmask_get = runs_unblocking [OF steps_procmask_get] runs_kern [OF steps_procmask_get]
lemmas runs_pending = runs_kern [OF steps_pending]

lemma steps_sigset_wrong: "s \<notin> signals - unblockable os \<Longrightarrow> h \<noteq> SIG_DFL \<Longrightarrow> steps (k_sigset os s h) (\<lambda>r. r = (SIG_ERR, EINVAL)) v v"
  unfolding steps_def using sigset_wrong by fastforce

lemma sigset_tests:
  assumes "idle w"
  shows "sigset_1_1 (Suc (Suc n)) os q w = Ret (Exited PTS_PASS)" "sigset_2_1 (Suc (Suc n)) os q w = Ret (Exited PTS_PASS)"
    "sigset_3_1 (Suc (Suc n)) os w = Ret (Exited PTS_PASS)" "sigset_4_1 (Suc (Suc n)) os w = Ret (Exited PTS_PASS)"
    "sigset_5_1 (Suc (Suc n)) os q w = Ret (Exited PTS_PASS)" "sigset_6_1 (Suc (Suc n)) os q w = Ret (Exited PTS_UNRESOLVED)"
    "sigset_7_1 (Suc (Suc n)) os q w = Ret (Exited PTS_UNRESOLVED)" "sigset_8_1 (Suc (Suc n)) os w = Ret (Exited PTS_FAIL)"
    "sigset_9_1 (Suc (Suc n)) os q w = Ret (Exited PTS_PASS)" "sigset_10_1 (Suc (Suc n)) os w = Ret (Exited PTS_PASS)"
proof -
  have p: "v_pend (view w) = {}" and m: "v_mask (view w) = {}" using assms by (simp_all add: idle_def)
  note d = disposition [of w "sg_no os S_CHLD"] disposition [of w "sg_no os S_USR1"]
  note ss = install_def ignoring_def d p m pts_defs
  show "sigset_1_1 (Suc (Suc n)) os q w = Ret (Exited PTS_PASS)"
    unfolding sigset_1_1_def not_ran_def
    by (rule run_main_runs) (auto simp: ss intro!: runs_action runs_sigset runs_raise_ignored runs_get runs_exit)
  show "sigset_2_1 (Suc (Suc n)) os q w = Ret (Exited PTS_PASS)"
    unfolding sigset_2_1_def not_ran_def
    by (rule run_main_runs) (auto simp: ss intro!: runs_action runs_sigset runs_raise_ignored runs_get runs_exit)
  show "sigset_3_1 (Suc (Suc n)) os w = Ret (Exited PTS_PASS)"
    unfolding sigset_3_1_def ran_def
    by (rule run_main_runs) (auto simp: ss intro!: runs_sigset runs_raise_called neutral_called runs_get runs_exit)
  show "sigset_4_1 (Suc (Suc n)) os w = Ret (Exited PTS_PASS)"
    unfolding sigset_4_1_def ran_def
    by (rule run_main_runs) (auto simp: ss handler_mask_def intro!: runs_sigset runs_raise_called [where i = 1 and g' = 1] neutral_mask runs_get runs_exit)
  show "sigset_5_1 (Suc (Suc n)) os q w = Ret (Exited PTS_PASS)"
    unfolding sigset_5_1_def
    by (rule run_main_runs) (auto simp: ss is_empty_def list_all_iff member_no
        intro!: runs_procmask runs_sigset runs_raise_called neutral_idle runs_procmask_get runs_exit)
  show "sigset_6_1 (Suc (Suc n)) os q w = Ret (Exited PTS_UNRESOLVED)"
    unfolding sigset_6_1_def by (rule run_main_runs) (auto simp: ss intro!: runs_action runs_sigset_hold runs_exit)
  show "sigset_7_1 (Suc (Suc n)) os q w = Ret (Exited PTS_UNRESOLVED)"
    unfolding sigset_7_1_def by (rule run_main_runs) (auto simp: ss intro!: runs_action runs_sigset_hold runs_exit)
  show "sigset_8_1 (Suc (Suc n)) os w = Ret (Exited PTS_FAIL)"
    unfolding sigset_8_1_def by (rule run_main_runs) (auto simp: ss intro!: runs_sigset_hold runs_exit)
  show "sigset_9_1 (Suc (Suc n)) os q w = Ret (Exited PTS_PASS)"
    unfolding sigset_9_1_def by (rule run_main_runs) (auto simp: ss intro!: runs_action runs_sigset runs_exit)
  show "sigset_10_1 (Suc (Suc n)) os w = Ret (Exited PTS_PASS)"
    unfolding sigset_10_1_def
    by (rule run_main_runs) (auto simp: ss unblockable_def intro!: runs_unblocking [OF steps_sigset_wrong] runs_exit)
qed

section \<open>sighold, sigrelse, sigignore and raise\<close>

lemma runs_ignore_wrong:
  assumes "s \<notin> signals - unblockable os"
  shows "runs (ignore_fails os s) 0 () v"
  unfolding runs_def
proof (intro allI impI)
  fix w obtain w' where "k_sigignore os s w = ((- 1, EINVAL), w')" using sigignore_wrong [OF assms] by blast
  then show "ends (ignore_fails os s) 0 ((), w)"
    by (auto simp: ignore_fails_def pts_defs intro!: ends_bind kern_simp ends_exit)
qed

lemma hold_tests:
  assumes "idle w"
  shows "sighold_1_1 (Suc (Suc n)) os q w = Ret (Exited PTS_PASS)" "sighold_2_1 n os w = Ret (Exited PTS_PASS)"
    "sigrelse_1_1 (Suc (Suc n)) os q w = Ret (Exited PTS_PASS)" "sigrelse_2_1 (Suc n) os w = Ret (Exited PTS_PASS)"
    "sigignore_1_1 (Suc (Suc n)) os q w = Ret (Exited PTS_PASS)" "sigignore_4_1 n os w = Ret (Exited PTS_PASS)"
    "wrong_signo (arg0 args) = Some s \<Longrightarrow> sigignore_5_core n os args w = Ret (Exited PTS_PASS)"
    "sigignore_6_1 n os w = Ret (Exited PTS_PASS)" "sigignore_6_2 n os w = Ret (Exited PTS_PASS)"
proof -
  have p: "v_pend (view w) = {}" and m: "v_mask (view w) = {}" using assms by (simp_all add: idle_def)
  note ss = install_def ignoring_def p m pts_defs
  show "sighold_1_1 (Suc (Suc n)) os q w = Ret (Exited PTS_PASS)"
    unfolding sighold_1_1_def
    by (rule run_main_runs) (auto simp: ss intro!: runs_action runs_kern [OF steps_sighold] runs_raise_blocked runs_get runs_exit)
  show "sighold_2_1 n os w = Ret (Exited PTS_PASS)"
    unfolding sighold_2_1_def by (rule run_main_runs) (auto simp: ss intro!: runs_kern [OF steps_sighold] runs_exit)
  show "sigrelse_1_1 (Suc (Suc n)) os q w = Ret (Exited PTS_PASS)"
    unfolding sigrelse_1_1_def called_verdict_def
    by (rule run_main_runs) (auto simp: ss intro!: runs_action runs_kern [OF steps_sighold] runs_raise_blocked
        runs_unblocking_called [OF steps_sigrelse, where s = "sg_no os S_ABRT" and i = 1 and g' = 1] neutral_called runs_get runs_exit)
  show "sigrelse_2_1 (Suc n) os w = Ret (Exited PTS_PASS)"
    unfolding sigrelse_2_1_def by (rule run_main_runs) (auto simp: ss intro!: runs_unblocking [OF steps_sigrelse] runs_exit)
  show "sigignore_1_1 (Suc (Suc n)) os q w = Ret (Exited PTS_PASS)"
    unfolding sigignore_1_1_def
    by (rule run_main_runs) (auto simp: ss intro!: runs_action runs_kern [OF steps_sigignore] runs_raise_ignored runs_get runs_exit)
  show "sigignore_4_1 n os w = Ret (Exited PTS_PASS)"
    unfolding sigignore_4_1_def by (rule run_main_runs) (auto simp: ss intro!: runs_kern [OF steps_sigignore] runs_exit)
  show "sigignore_5_core n os args w = Ret (Exited PTS_PASS)" if "wrong_signo (arg0 args) = Some s"
  proof -
    have "args \<noteq> []" "s \<notin> signals" using that wrong_not_signal [OF that] by (auto simp: arg0_def wrong_signo_def)
    then show ?thesis
      unfolding sigignore_5_core_def using that runs_ignore_wrong [of s "view w"] by (auto simp: pts_defs intro!: run_main_runs)
  qed
  show "sigignore_6_1 n os w = Ret (Exited PTS_PASS)" "sigignore_6_2 n os w = Ret (Exited PTS_PASS)"
    using runs_ignore_wrong [of _ "view w"] by (auto simp: sigignore_6_1_def sigignore_6_2_def unblockable_def pts_defs intro!: run_main_runs)
qed

lemma raise_tests:
  assumes "idle w"
  shows "raise_1_1 (Suc (Suc n)) os q w = Ret (Exited PTS_PASS)" "raise_1_2 (Suc (Suc n)) os q w = Ret (Exited PTS_PASS)"
    "raise_2_1 (Suc (Suc n)) os q w = Ret (Exited PTS_PASS)"
    "10000 \<notin> signals \<Longrightarrow> raise_6_1 (Suc n) os w = Ret (Exited PTS_PASS)" "10000 \<notin> signals \<Longrightarrow> raise_7_1 (Suc n) os w = Ret (Exited PTS_PASS)"
    "set invalid_tests \<inter> signals = {} \<Longrightarrow> raise_10000_1 (Suc (Suc n)) os q w = Ret (Exited PTS_PASS)"
proof -
  have p: "v_pend (view w) = {}" and m: "v_mask (view w) = {}" using assms by (simp_all add: idle_def)
  note ss = install_def ignoring_def p m pts_defs
  show "raise_1_1 (Suc (Suc n)) os q w = Ret (Exited PTS_PASS)"
    unfolding raise_1_1_def
    by (rule run_main_runs) (auto simp: ss exit_handler_def intro!: runs_action runs_raise_exit [where i = 1] runs_exit)
  show "raise_1_2 (Suc (Suc n)) os q w = Ret (Exited PTS_PASS)"
  proof -
    let ?child = "pbind (set_action os S_ABRT (Fn 1) {} (empty_set os q)) (\<lambda>rc. if rc = - 1 then exit_with PTS_UNRESOLVED
      else pbind (praise (Suc (Suc n)) os exit_handler (sg_no os S_ABRT)) (\<lambda>rc. exit_with PTS_FAIL))"
    obtain w1 where a: "set_action os S_ABRT (Fn 2) {} (empty_set os q) ((), w) = Ret (Inr 0, (), w1)" "idle w1"
      using installed [OF _ _ empty_set_ok(1) assms, of S_ABRT 2 "{}" q "()"] by auto
    obtain pid cw pw where f: "k_fork os w1 = (pid, cw, pw)" "pid \<noteq> - 1" "idle cw" using fork_child [OF a(2)] by auto
    have "run_main ?child () cw = Ret (Exited 0)"
      by (rule run_main_runs) (use f(3) in \<open>auto simp: idle_def exit_handler_def intro!: runs_action runs_raise_exit [where i = 1] runs_exit\<close>)
    from parent_passes [OF f(1,2) this] a(1) show ?thesis
      by (simp add: raise_1_2_def run_main_def)
  qed
  show "raise_2_1 (Suc (Suc n)) os q w = Ret (Exited PTS_PASS)"
    unfolding raise_2_1_def
    by (rule run_main_runs) (auto simp: ss neutral_def intro!: runs_action runs_raise_kept [where i = 1 and g' = 3] runs_get runs_exit)
  show "raise_6_1 (Suc n) os w = Ret (Exited PTS_PASS)" if "10000 \<notin> signals"
    unfolding raise_6_1_def praise_unblocking
    by (rule run_main_runs) (use that in \<open>auto simp: ss intro!: runs_unblocking [OF steps_raise_wrong] runs_exit\<close>)
  show "raise_7_1 (Suc n) os w = Ret (Exited PTS_PASS)" if "10000 \<notin> signals"
    unfolding raise_7_1_def
    by (rule run_main_runs) (use that in \<open>auto simp: ss intro!: runs_unblocking [OF steps_raise_wrong] runs_exit\<close>)
  show "raise_10000_1 (Suc (Suc n)) os q w = Ret (Exited PTS_PASS)" if "set invalid_tests \<inter> signals = {}"
    unfolding raise_10000_1_def
    by (rule run_main_runs) (use that in \<open>auto simp: ss valid_tests_def invalid_tests_def
        intro!: runs_action runs_raise_kept [where i = 1 and H = idle_handler and g' = 0] neutral_idle runs_unblocking [OF steps_raise_wrong] runs_get runs_exit\<close>)
qed

section \<open>sigprocmask\<close>

lemmas runs_procmask_wrong = runs_unblocking [OF steps_procmask_wrong]

text \<open>The loop of \<^verbatim>\<open>7-1.c\<close>: every call finds the signals blocked before it in the old mask.\<close>

lemma runs_block_each:
  assumes "v_pend v = {}" and "\<forall>x \<in> set before. sg_no os x \<in> v_mask v" and "S_KILL \<notin> set (before @ ss)" and "S_STOP \<notin> set (before @ ss)"
  shows "runs (block_each (Suc n) os q before ss) 0 0 v"
  using assms
proof (induction ss arbitrary: v before)
  case Nil
  show ?case by (auto simp: pts_defs intro!: runs_get runs_exit)
next
  case (Cons S ss)
  let ?v = "v\<lparr>v_mask := new_mask SIG_BLOCK {sg_no os S} (v_mask v) - unblockable os\<rparr>"
  have b: "sg_no os x \<in> v_mask ?v" if "x \<in> set (before @ [S])" for x
    using that Cons.prems(2-4) by (auto simp: unblockable_def)
  have ih: "runs (block_each (Suc n) os q (before @ [S]) ss) 0 0 ?v"
    using Cons.prems b by (intro Cons.IH) auto
  have "list_all (\<lambda>x. has os old x = 1) before" if "initialised old" "members old = v_mask v" for old
    using that Cons.prems(2) by (simp add: list_all_iff has_no)
  then show ?case
    using Cons.prems(1) ih by (auto intro!: runs_procmask)
qed

lemma get_rand_other: "get_rand rs = Ret r \<Longrightarrow> \<exists>k. r = How_other k"
  by (induction rs rule: get_rand.induct) auto

lemma mask_signals_settable [simp]: "S_KILL \<notin> set mask_signals" "S_STOP \<notin> set mask_signals"
  by (simp_all add: mask_signals_def)

lemma procmask_tests:
  assumes "idle w"
  shows "sigprocmask_4_1 (Suc (Suc n)) os q w = Ret (Exited PTS_PASS)" "sigprocmask_5_1 (Suc (Suc n)) os q w = Ret (Exited PTS_PASS)"
    "sigprocmask_6_1 (Suc (Suc n)) os q w = Ret (Exited PTS_PASS)" "sigprocmask_7_1 (Suc n) os q w = Ret (Exited PTS_PASS)"
    "sigprocmask_8_1 (Suc n) os q w = Ret (Exited PTS_PASS)" "sigprocmask_8_2 (Suc n) os q w = Ret (Exited PTS_PASS)"
    "sigprocmask_8_3 (Suc n) os q w = Ret (Exited PTS_PASS)" "sigprocmask_9_1 (Suc (Suc n)) os q w = Ret (Exited PTS_PASS)"
    "sigprocmask_10_1 (Suc n) os q w = Ret (Exited PTS_PASS)"
    "get_rand rs = Ret r \<Longrightarrow> sigprocmask_12_1 (Suc n) rs os q w = Ret (Exited PTS_PASS)"
    "initialised q \<Longrightarrow> sigprocmask_15_1 (Suc n) os q w = Ret (Exited PTS_PASS)"
    "wrong_signo (arg0 args) = Some s \<Longrightarrow> sigprocmask_17_core (Suc n) (How_other k) os args q w = Ret (Exited PTS_PASS)"
proof -
  have p: "v_pend (view w) = {}" and m: "v_mask (view w) = {}" using assms by (simp_all add: idle_def)
  note ss = install_def ignoring_def unblockable_def p m pts_defs has_no
  show "sigprocmask_4_1 (Suc (Suc n)) os q w = Ret (Exited PTS_PASS)"
    unfolding sigprocmask_4_1_def Let_def
    by (rule run_main_runs) (auto simp: ss intro!: runs_action runs_procmask runs_raise_blocked runs_get runs_pending runs_exit)
  show "sigprocmask_5_1 (Suc (Suc n)) os q w = Ret (Exited PTS_PASS)"
    unfolding sigprocmask_5_1_def Let_def
    by (rule run_main_runs) (auto simp: ss intro!: runs_action runs_procmask runs_raise_blocked runs_get runs_pending runs_exit)
  show "sigprocmask_7_1 (Suc n) os q w = Ret (Exited PTS_PASS)"
    unfolding sigprocmask_7_1_def by (rule run_main_runs) (auto simp: p pts_defs intro!: runs_block_each)
  have kept: "mask_kept hw (Suc n) os q w = Ret (Exited PTS_PASS)" for hw
    unfolding mask_kept_def
    by (rule run_main_runs) (auto simp: ss is_changed_def list_ex_iff intro!: runs_procmask runs_procmask_get runs_exit)
  then show "sigprocmask_8_1 (Suc n) os q w = Ret (Exited PTS_PASS)" "sigprocmask_8_2 (Suc n) os q w = Ret (Exited PTS_PASS)"
    "sigprocmask_8_3 (Suc n) os q w = Ret (Exited PTS_PASS)"
    by (simp_all add: sigprocmask_8_1_def sigprocmask_8_2_def sigprocmask_8_3_def)
  show "sigprocmask_10_1 (Suc n) os q w = Ret (Exited PTS_PASS)"
    unfolding sigprocmask_10_1_def Let_def
    by (rule run_main_runs) (auto simp: ss intro!: runs_procmask runs_procmask_get runs_exit)
  show "sigprocmask_15_1 (Suc n) os q w = Ret (Exited PTS_PASS)" if "initialised q"
    unfolding sigprocmask_15_1_def Let_def
    by (rule run_main_runs) (use that in \<open>auto simp: ss intro!: runs_procmask runs_exit\<close>)
  show "sigprocmask_17_core (Suc n) (How_other k) os args q w = Ret (Exited PTS_PASS)" if "wrong_signo (arg0 args) = Some s"
  proof -
    have "args \<noteq> []" using that by (auto simp: arg0_def wrong_signo_def)
    with that show ?thesis
      unfolding sigprocmask_17_core_def by (intro run_main_runs) (auto simp: ss intro!: runs_procmask_wrong runs_exit)
  qed
  show "sigprocmask_12_1 (Suc n) rs os q w = Ret (Exited PTS_PASS)" if "get_rand rs = Ret r"
  proof -
    from get_rand_other [OF that] obtain k where "r = How_other k" by blast
    with that show ?thesis
      by (auto simp: sigprocmask_12_1_def Let_def ss list_ex_iff mask_signals_def
          intro!: run_main_runs runs_procmask runs_procmask_wrong runs_procmask_get runs_exit)
  qed
  show "sigprocmask_6_1 (Suc (Suc n)) os q w = Ret (Exited PTS_PASS)"
    unfolding sigprocmask_6_1_def Let_def
    by (rule run_main_runs) (auto simp: ss intro!: runs_action runs_procmask runs_raise_kept [where S = S_ALRM and i = 1 and g' = 1] runs_raise_blocked [where S = S_ABRT] neutral_called runs_get runs_mod runs_pending runs_exit)
  show "sigprocmask_9_1 (Suc (Suc n)) os q w = Ret (Exited PTS_PASS)"
    unfolding sigprocmask_9_1_def Let_def
    by (rule run_main_runs) (auto simp: ss neutral_def before_return_handler_def intro!: runs_action runs_procmask [where hw = SIG_SETMASK] runs_raise_blocked
        runs_unblocking_called [OF steps_procmask [where hw = SIG_UNBLOCK], where s = "sg_no os S_ABRT" and i = 1 and g' = "(1, 1)"] runs_get runs_mod runs_exit)
qed

section \<open>sigpending\<close>

lemma add_all_ok:
  assumes "initialised q"
  shows "\<exists>q'. add_all os ss q = Some q' \<and> initialised q' \<and> members q' = members q \<union> sg_no os ` set ss"
  using assms
proof (induction ss arbitrary: q)
  case (Cons S ss)
  from add [OF Cons.prems numbers(1) [of S]] obtain e q1 where "sg_add os q (sg_no os S) = (0, e, q1)" "initialised q1" "members q1 = insert (sg_no os S) (members q)"
    by auto
  with Cons.IH [of q1] show ?case by auto
qed simp

text \<open>In a handler that has blocked both signals.\<close>

lemma runs_two_pending:
  assumes "v_pend v = {}" and "\<not> ignoring os (fst (v_act v (sg_no os x))) (sg_no os x)" and "\<not> ignoring os (fst (v_act v (sg_no os y))) (sg_no os y)"
    and "sg_no os x \<in> v_mask v" and "sg_no os y \<in> v_mask v" and "x \<notin> set others" and "y \<notin> set others"
  shows "runs (two_pending os q x y others i (praise (Suc n) os H) signo info) 0 () v"
  unfolding two_pending_def
  using assms by (auto simp: has_no list_all_iff image_iff intro!: runs_raise_blocked runs_pending runs_exit)

lemma pending_tests:
  assumes "idle w" and "\<forall>s. fst (v_act (view w) s) = SIG_DFL"
  shows "sigpending_1_1 (Suc n) os q w = Ret (Exited PTS_PASS)" "sigpending_1_2 (Suc (Suc n)) os q w = Ret (Exited PTS_PASS)"
    "sigpending_1_3 (Suc (Suc n)) os q w = Ret (Exited PTS_PASS)" "sigpending_2_1 (Suc n) os q w = Ret (Exited PTS_PASS)"
proof -
  have p: "v_pend (view w) = {}" and m: "v_mask (view w) = {}" using assms by (simp_all add: idle_def)
  note ss = install_def ignoring_def unblockable_def p m pts_defs has_no assms(2)
  note sets = add_all_ok [OF empty_set_ok(1), of _ q]
  obtain b where "add_all os [S_ALRM, S_HUP, S_QUIT] (empty_set os q) = Some b" "initialised b" "members b = {sg_no os S_ALRM, sg_no os S_HUP, sg_no os S_QUIT}"
    using sets [of "[S_ALRM, S_HUP, S_QUIT]"] by auto
  then show "sigpending_1_1 (Suc n) os q w = Ret (Exited PTS_PASS)"
    unfolding sigpending_1_1_def
    by (intro run_main_runs) (auto simp: ss intro!: runs_procmask runs_raise_blocked runs_pending runs_exit)
  obtain b where "add_all os [S_ALRM] (empty_set os q) = Some b" "initialised b" "members b = {sg_no os S_ALRM}"
    using sets [of "[S_ALRM]"] by auto
  then show "sigpending_2_1 (Suc n) os q w = Ret (Exited PTS_PASS)"
    unfolding sigpending_2_1_def
    by (intro run_main_runs) (auto simp: ss intro!: runs_procmask runs_raise_blocked runs_pending runs_exit)
  obtain b where "add_all os [S_CONT, S_HUP, S_USR1] (empty_set os q) = Some b" "initialised b" "members b = {sg_no os S_CONT, sg_no os S_HUP, sg_no os S_USR1}"
    using sets [of "[S_CONT, S_HUP, S_USR1]"] by auto
  then show "sigpending_1_2 (Suc (Suc n)) os q w = Ret (Exited PTS_PASS)"
    unfolding sigpending_1_2_def
    by (intro run_main_runs) (auto simp: ss entered_def handler_mask_def intro!: runs_action runs_raise_exit [where i = 1] runs_two_pending)
  obtain b c where "add_all os [S_ALRM, S_HUP] (empty_set os q) = Some b" "initialised b" "members b = {sg_no os S_ALRM, sg_no os S_HUP}"
    "add_all os [S_CONT, S_ABRT, S_USR1] (empty_set os q) = Some c" "initialised c" "members c = {sg_no os S_CONT, sg_no os S_ABRT, sg_no os S_USR1}"
    using sets [of "[S_ALRM, S_HUP]"] sets [of "[S_CONT, S_ABRT, S_USR1]"] by auto
  then show "sigpending_1_3 (Suc (Suc n)) os q w = Ret (Exited PTS_PASS)"
    unfolding sigpending_1_3_def Let_def
    by (intro run_main_runs) (auto simp: ss entered_def handler_mask_def intro!: runs_procmask runs_action runs_raise_exit [where i = 1] runs_two_pending)
qed

end

section \<open>All programs\<close>

definition mask_programs :: "nat \<Rightarrow> ('q, 'w, 'z) sigk_scheme \<Rightarrow> 'q \<Rightarrow> ('w \<Rightarrow> wstatus outcome) list" where
  "mask_programs n os q =
     [signal_1_1 n os, signal_2_1 n os, signal_3_1 n os, signal_5_1 n os, signal_6_1 n os, signal_7_1 n os,
      sigset_1_1 n os q, sigset_2_1 n os q, sigset_3_1 n os, sigset_4_1 n os, sigset_5_1 n os q, sigset_9_1 n os q, sigset_10_1 n os,
      sighold_1_1 n os q, sighold_2_1 n os, sigrelse_1_1 n os q, sigrelse_2_1 n os, sigignore_1_1 n os q, sigignore_4_1 n os,
      sigignore_6_1 n os, sigignore_6_2 n os, raise_1_1 n os q, raise_1_2 n os q, raise_2_1 n os q,
      sigprocmask_4_1 n os q, sigprocmask_5_1 n os q, sigprocmask_6_1 n os q, sigprocmask_7_1 n os q,
      sigprocmask_8_1 n os q, sigprocmask_8_2 n os q, sigprocmask_8_3 n os q, sigprocmask_9_1 n os q, sigprocmask_10_1 n os q,
      sigpending_1_1 n os q, sigpending_1_2 n os q, sigpending_1_3 n os q, sigpending_2_1 n os q]"

text \<open>C18. On every system that keeps the contract of signal delivery, a process that starts with default dispositions and no signal blocked or pending
  gets \<^verbatim>\<open>PTS_PASS\<close> from the 37 programs of \<open>mask_programs\<close>, whatever their uninitialised sets hold. Seven more programs do under a condition of their own:
  \<^verbatim>\<open>raise/6-1.c\<close> and \<^verbatim>\<open>7-1.c\<close> when 10000 is no signal, \<^verbatim>\<open>raise/10000-1.c\<close> when the numbers of its table are none, \<^verbatim>\<open>sigignore/5-core-buildonly.c\<close> and
  \<^verbatim>\<open>sigprocmask/17-core-buildonly.c\<close> with an argument that they know (the latter when \<^verbatim>\<open>rand\<close> gives no argument of \<^verbatim>\<open>sigprocmask\<close>), \<^verbatim>\<open>sigprocmask/12-1.c\<close> when \<^verbatim>\<open>rand\<close> gives such a value at last, and
  \<^verbatim>\<open>sigprocmask/15-1.c\<close>, which never initialises its set, when the set happens to hold what an initialised one could.\<close>

theorem mask_programs_pass:
  assumes "signal_kernel os signals initialised members view" and "v_pend (view w) = {}" and "v_mask (view w) = {}"
    and "\<forall>s. fst (v_act (view w) s) = SIG_DFL" and "2 \<le> n"
  shows "(\<forall>p \<in> set (mask_programs n os q). p w = Ret (Exited PTS_PASS))
     \<and> (10000 \<notin> signals \<longrightarrow> raise_6_1 n os w = Ret (Exited PTS_PASS) \<and> raise_7_1 n os w = Ret (Exited PTS_PASS))
     \<and> (set invalid_tests \<inter> signals = {} \<longrightarrow> raise_10000_1 n os q w = Ret (Exited PTS_PASS))
     \<and> (wrong_signo (arg0 args) \<noteq> None \<longrightarrow>
          sigignore_5_core n os args w = Ret (Exited PTS_PASS) \<and> sigprocmask_17_core n (How_other k) os args q w = Ret (Exited PTS_PASS))
     \<and> (get_rand rs = Ret r \<longrightarrow> sigprocmask_12_1 n rs os q w = Ret (Exited PTS_PASS))
     \<and> (initialised q \<longrightarrow> sigprocmask_15_1 n os q w = Ret (Exited PTS_PASS))"
proof -
  obtain m where n: "n = Suc (Suc m)" using assms(5) that [of "n - 2"] by simp
  have i: "signal_kernel.idle view w" using assms(2,3) by (simp add: signal_kernel.idle_def [OF assms(1)])
  note pass = signal_kernel.signal_tests [OF assms(1) i] signal_kernel.sigset_tests [OF assms(1) i] signal_kernel.hold_tests [OF assms(1) i]
    signal_kernel.raise_tests [OF assms(1) i] signal_kernel.procmask_tests [OF assms(1) i] signal_kernel.pending_tests [OF assms(1) i assms(4)]
  show ?thesis by (auto simp: mask_programs_def n pass)
qed

theorem mask_programs_pass_witness:
  "sigprocmask_9_1 2 word_kernel 5 wk0 = Ret (Exited PTS_PASS) \<and> sigpending_1_3 2 word_kernel 5 wk0 = Ret (Exited PTS_PASS)
   \<and> raise_10000_1 2 word_kernel 5 wk0 = Ret (Exited PTS_PASS) \<and> sigprocmask_12_1 2 [SIG_BLOCK, How_other 17] word_kernel 5 wk0 = Ret (Exited PTS_PASS)"
proof -
  have "v_pend (word_view wk0) = {}" "v_mask (word_view wk0) = {}" "\<forall>s. fst (v_act (word_view wk0) s) = SIG_DFL"
    by (simp_all add: wk0_def wk_disp_def Let_def)
  moreover have "set invalid_tests \<inter> {1..64} = {}" by (simp add: invalid_tests_def)
  ultimately show ?thesis
    using mask_programs_pass [OF wkern.signal_kernel_axioms, of wk0 2 5 "[]" 3 "[SIG_BLOCK, How_other 17]" "How_other 17"] by (simp add: mask_programs_def)
qed

text \<open>On the same systems three programs for \<^verbatim>\<open>sigset\<close> do not pass: they expect \<^verbatim>\<open>SIG_HOLD\<close> as the result of \<^verbatim>\<open>sigset(SIGCHLD, SIG_HOLD)\<close> when
  the signal was not blocked before.\<close>

theorem sigset_hold_misjudged:
  assumes "signal_kernel os signals initialised members view" and "v_pend (view w) = {}" and "v_mask (view w) = {}" and "2 \<le> n"
  shows "sigset_6_1 n os q w = Ret (Exited PTS_UNRESOLVED) \<and> sigset_7_1 n os q w = Ret (Exited PTS_UNRESOLVED) \<and> sigset_8_1 n os w = Ret (Exited PTS_FAIL)"
proof -
  obtain m where n: "n = Suc (Suc m)" using assms(4) that [of "n - 2"] by simp
  have i: "signal_kernel.idle view w" using assms(2,3) by (simp add: signal_kernel.idle_def [OF assms(1)])
  show ?thesis using signal_kernel.sigset_tests [OF assms(1) i] n by simp
qed

end
