(* ===== verification/Sigaction_Restart.thy ===== *)
theory Sigaction_Restart
  imports Sigaction_Files Threads
begin

text \<open>
  The programs of \<^verbatim>\<open>conformance/interfaces/sigaction\<close> on interrupted calls: \<^verbatim>\<open>16-*.c\<close>, where a thread that waits for a semaphore gets a
  signal whose handler was installed with \<^verbatim>\<open>SA_RESTART\<close>, and \<^verbatim>\<open>17-*.c\<close>, where a process in \<^verbatim>\<open>select\<close> gets one whose handler was installed without. Two
  threads or processes run against each other, so that a program is a function from a state to the states after the next action: of the one, of the
  other, or the delivery of the signal.
\<close>

section \<open>A thread that waits for a semaphore\<close>

text \<open>What the calls return; \<open>r_interrupt\<close> is the errno of a wait that a handler installed with the given flags interrupts, \<open>None\<close> when
  the wait goes on.\<close>

record rsys =
  r_sigemptyset :: int
  r_sigaction :: "signame \<Rightarrow> saflag set \<Rightarrow> int"
  r_sem_init :: int
  r_create :: int
  r_kill :: "signame \<Rightarrow> int"
  r_post :: int
  r_join :: int
  r_destroy :: int
  r_interrupt :: "signame \<Rightarrow> saflag set \<Rightarrow> errno option"

text \<open>Where \<^verbatim>\<open>main\<close> and \<^verbatim>\<open>threaded\<close> are: the next call. \<open>K_back e\<close>: \<^verbatim>\<open>sem_wait\<close> has failed with \<open>e\<close>.\<close>

datatype rmain = R_empty | R_action | R_init | R_create | R_yield nat | R_kill | R_spin | R_post | R_join | R_destroy | R_end

datatype rchild = K_none | K_start | K_wait | K_back errno | K_end

record rstate =
  r_main :: rmain
  r_child :: rchild
  r_value :: nat
  r_caught :: int
  r_pending :: bool
  r_exit :: "int option"

definition rstate0 :: rstate where
  "rstate0 = \<lparr>r_main = R_empty, r_child = K_none, r_value = 0, r_caught = 0, r_pending = False, r_exit = None\<rparr>"

definition r_check :: "int \<Rightarrow> rstate \<Rightarrow> rstate \<Rightarrow> rstate list" where
  "r_check ret s good = [if ret \<noteq> 0 then s\<lparr>r_exit := Some PTS_UNRESOLVED\<rparr> else good]"

fun restart_main :: "signame \<Rightarrow> rsys \<Rightarrow> rstate \<Rightarrow> rstate list" where
  "restart_main S os s =
     (case r_main s of
        R_empty \<Rightarrow> r_check (r_sigemptyset os) s (s\<lparr>r_main := R_action\<rparr>)
      | R_action \<Rightarrow> r_check (r_sigaction os S {SA_RESTART}) s (s\<lparr>r_main := R_init\<rparr>)
      | R_init \<Rightarrow> r_check (r_sem_init os) s (s\<lparr>r_main := R_create, r_value := 0\<rparr>)
      | R_create \<Rightarrow> r_check (r_create os) s (s\<lparr>r_main := R_yield 3, r_child := K_start\<rparr>)
      | R_yield n \<Rightarrow> [s\<lparr>r_main := if n \<le> 1 then R_kill else R_yield (n - 1)\<rparr>]
      | R_kill \<Rightarrow> r_check (r_kill os S) s (s\<lparr>r_main := R_spin, r_pending := True\<rparr>)
      | R_spin \<Rightarrow> [if r_caught s = 0 then s else s\<lparr>r_main := R_post\<rparr>]
      | R_post \<Rightarrow> r_check (r_post os) s (s\<lparr>r_main := R_join, r_value := r_value s + 1\<rparr>)
      | R_join \<Rightarrow> if r_join os = 0 \<and> r_child s \<noteq> K_end then [] else r_check (r_join os) s (s\<lparr>r_main := R_destroy\<rparr>)
      | R_destroy \<Rightarrow> r_check (r_destroy os) s (s\<lparr>r_main := R_end\<rparr>)
      | R_end \<Rightarrow> [s\<lparr>r_exit := Some PTS_PASS\<rparr>])"

fun restart_child :: "rstate \<Rightarrow> rstate list" where
  "restart_child s =
     (case r_child s of
        K_none \<Rightarrow> []
      | K_start \<Rightarrow> [if 0 < r_value s then s\<lparr>r_child := K_end, r_value := r_value s - 1\<rparr> else s\<lparr>r_child := K_wait\<rparr>]
      | K_wait \<Rightarrow> if 0 < r_value s then [s\<lparr>r_child := K_end, r_value := r_value s - 1\<rparr>] else []
      | K_back e \<Rightarrow> [s\<lparr>r_exit := Some (if e = EINTR then PTS_FAIL else PTS_UNRESOLVED)\<rparr>]
      | K_end \<Rightarrow> [])"

text \<open>\<^verbatim>\<open>handler\<close>, run by the thread while it has not ended.\<close>

definition restart_deliver :: "signame \<Rightarrow> rsys \<Rightarrow> rstate \<Rightarrow> rstate list" where
  "restart_deliver S os s =
     (if \<not> r_pending s \<or> r_child s = K_end then []
      else [s\<lparr>r_pending := False, r_caught := r_caught s + 1,
              r_child := (case (r_child s, r_interrupt os S {SA_RESTART}) of (K_wait, Some e) \<Rightarrow> K_back e | (c, _) \<Rightarrow> c)\<rparr>])"

type_synonym restart_program = "rsys \<Rightarrow> rstate \<Rightarrow> rstate list"

definition sigaction_16 :: "signame \<Rightarrow> restart_program" where
  "sigaction_16 S os s = (if r_exit s \<noteq> None then [] else restart_main S os s @ restart_child s @ restart_deliver S os s)"

section \<open>A process in \<^verbatim>\<open>select\<close>\<close>

text \<open>The default action of a signal, and what the calls return; \<open>p_interrupt\<close> as above, for \<^verbatim>\<open>select\<close>. The parent has created the child.\<close>

datatype fate = Terminates int | Ignored | Stops

record psys =
  p_sigaction :: "signame \<Rightarrow> saflag set \<Rightarrow> int"
  p_interrupt :: "signame \<Rightarrow> saflag set \<Rightarrow> errno option"
  p_default :: "signame \<Rightarrow> fate"
  p_wexitstatus :: "wstatus \<Rightarrow> int"

datatype pparent = P_sleep | P_kill | P_wait

datatype pchild = H_action | H_test | H_select | H_stopped | H_dead wstatus

text \<open>Where the child was when it got the signal; the program does not know it.\<close>

datatype place = Before_action | At_test | In_select

record pstate =
  p_parent :: pparent
  p_child :: pchild
  p_caught :: bool
  p_wakeup :: int
  p_pending :: bool
  p_place :: "place option"
  p_exit :: "int option"

definition pstate0 :: pstate where
  "pstate0 = \<lparr>p_parent = P_sleep, p_child = H_action, p_caught = False, p_wakeup = 1, p_pending = False, p_place = None, p_exit = None\<rparr>"

definition place_of :: "pchild \<Rightarrow> place" where
  "place_of c = (case c of H_test \<Rightarrow> At_test | H_select \<Rightarrow> In_select | _ \<Rightarrow> Before_action)"

fun select_parent :: "signame \<Rightarrow> psys \<Rightarrow> pstate \<Rightarrow> pstate list" where
  "select_parent S os s =
     (case p_parent s of
        P_sleep \<Rightarrow> [s\<lparr>p_parent := P_kill\<rparr>]
      | P_kill \<Rightarrow> [s\<lparr>p_parent := P_wait, p_pending := True\<rparr>]
      | P_wait \<Rightarrow> (case p_child s of
            H_dead st \<Rightarrow> [s\<lparr>p_exit := Some (if p_wexitstatus os st = PTS_PASS then PTS_PASS else PTS_FAIL)\<rparr>]
          | _ \<Rightarrow> []))"

text \<open>\<^verbatim>\<open>p_caught\<close>: the handler is installed. \<^verbatim>\<open>select\<close> returns 0 after three seconds.\<close>

fun select_child :: "signame \<Rightarrow> psys \<Rightarrow> pstate \<Rightarrow> pstate list" where
  "select_child S os s =
     (case p_child s of
        H_action \<Rightarrow> [s\<lparr>p_child := H_test, p_caught := p_sigaction os S {} = 0\<rparr>]
      | H_test \<Rightarrow> [s\<lparr>p_child := if p_wakeup s = 1 then H_select else H_dead (Exited PTS_FAIL)\<rparr>]
      | H_select \<Rightarrow> [s\<lparr>p_child := H_test\<rparr>]
      | H_stopped \<Rightarrow> []
      | H_dead st \<Rightarrow> [])"

fun select_deliver :: "signame \<Rightarrow> psys \<Rightarrow> pstate \<Rightarrow> pstate list" where
  "select_deliver S os s =
     (if \<not> p_pending s \<or> (case p_child s of H_dead st \<Rightarrow> True | H_stopped \<Rightarrow> True | _ \<Rightarrow> False) then []
      else let s1 = s\<lparr>p_pending := False, p_place := Some (place_of (p_child s))\<rparr> in
        if \<not> p_caught s then
          [case p_default os S of
             Terminates n \<Rightarrow> s1\<lparr>p_child := H_dead (Signaled n)\<rparr>
           | Ignored \<Rightarrow> s1
           | Stops \<Rightarrow> s1\<lparr>p_child := H_stopped\<rparr>]
        else
          let s2 = s1\<lparr>p_wakeup := p_wakeup s + 1\<rparr> in
          [if p_child s = H_select then
             (case p_interrupt os S {} of
                None \<Rightarrow> s2
              | Some e \<Rightarrow> s2\<lparr>p_child := if e = EINTR then H_dead (Exited PTS_PASS) else H_test\<rparr>)
           else s2])"

type_synonym select_program = "psys \<Rightarrow> pstate \<Rightarrow> pstate list"

definition sigaction_17 :: "signame \<Rightarrow> select_program" where
  "sigaction_17 S os s = (if p_exit s \<noteq> None then [] else select_parent S os s @ select_child S os s @ select_deliver S os s)"

section \<open>\<^verbatim>\<open>16-1.c\<close> to \<^verbatim>\<open>16-26.c\<close>\<close>

definition sigaction_16_1 :: restart_program where
  "sigaction_16_1 = sigaction_16 S_ABRT"

definition sigaction_16_2 :: restart_program where
  "sigaction_16_2 = sigaction_16 S_ALRM"

definition sigaction_16_3 :: restart_program where
  "sigaction_16_3 = sigaction_16 S_BUS"

definition sigaction_16_4 :: restart_program where
  "sigaction_16_4 = sigaction_16 S_CHLD"

definition sigaction_16_5 :: restart_program where
  "sigaction_16_5 = sigaction_16 S_CONT"

definition sigaction_16_6 :: restart_program where
  "sigaction_16_6 = sigaction_16 S_FPE"

definition sigaction_16_7 :: restart_program where
  "sigaction_16_7 = sigaction_16 S_HUP"

definition sigaction_16_8 :: restart_program where
  "sigaction_16_8 = sigaction_16 S_ILL"

definition sigaction_16_9 :: restart_program where
  "sigaction_16_9 = sigaction_16 S_INT"

definition sigaction_16_10 :: restart_program where
  "sigaction_16_10 = sigaction_16 S_PIPE"

definition sigaction_16_11 :: restart_program where
  "sigaction_16_11 = sigaction_16 S_QUIT"

definition sigaction_16_12 :: restart_program where
  "sigaction_16_12 = sigaction_16 S_SEGV"

definition sigaction_16_13 :: restart_program where
  "sigaction_16_13 = sigaction_16 S_TERM"

definition sigaction_16_14 :: restart_program where
  "sigaction_16_14 = sigaction_16 S_TSTP"

definition sigaction_16_15 :: restart_program where
  "sigaction_16_15 = sigaction_16 S_TTIN"

definition sigaction_16_16 :: restart_program where
  "sigaction_16_16 = sigaction_16 S_TTOU"

definition sigaction_16_17 :: restart_program where
  "sigaction_16_17 = sigaction_16 S_USR1"

definition sigaction_16_18 :: restart_program where
  "sigaction_16_18 = sigaction_16 S_USR2"

definition sigaction_16_19 :: restart_program where
  "sigaction_16_19 = sigaction_16 S_POLL"

definition sigaction_16_20 :: restart_program where
  "sigaction_16_20 = sigaction_16 S_PROF"

definition sigaction_16_21 :: restart_program where
  "sigaction_16_21 = sigaction_16 S_SYS"

definition sigaction_16_22 :: restart_program where
  "sigaction_16_22 = sigaction_16 S_TRAP"

definition sigaction_16_23 :: restart_program where
  "sigaction_16_23 = sigaction_16 S_URG"

definition sigaction_16_24 :: restart_program where
  "sigaction_16_24 = sigaction_16 S_VTALRM"

definition sigaction_16_25 :: restart_program where
  "sigaction_16_25 = sigaction_16 S_XCPU"

definition sigaction_16_26 :: restart_program where
  "sigaction_16_26 = sigaction_16 S_XFSZ"

definition files_16 :: "restart_program list" where
  "files_16 = [sigaction_16_1, sigaction_16_2, sigaction_16_3, sigaction_16_4, sigaction_16_5, sigaction_16_6, sigaction_16_7, sigaction_16_8, sigaction_16_9,
     sigaction_16_10, sigaction_16_11, sigaction_16_12, sigaction_16_13, sigaction_16_14, sigaction_16_15, sigaction_16_16, sigaction_16_17, sigaction_16_18,
     sigaction_16_19, sigaction_16_20, sigaction_16_21, sigaction_16_22, sigaction_16_23, sigaction_16_24, sigaction_16_25, sigaction_16_26]"

lemma files_16_eq: "files_16 = map sigaction_16 test_signals"
  by (simp add: files_16_def test_signals_def sigaction_16_1_def sigaction_16_2_def sigaction_16_3_def sigaction_16_4_def sigaction_16_5_def sigaction_16_6_def sigaction_16_7_def sigaction_16_8_def sigaction_16_9_def sigaction_16_10_def sigaction_16_11_def sigaction_16_12_def sigaction_16_13_def sigaction_16_14_def sigaction_16_15_def sigaction_16_16_def sigaction_16_17_def sigaction_16_18_def sigaction_16_19_def sigaction_16_20_def sigaction_16_21_def sigaction_16_22_def sigaction_16_23_def sigaction_16_24_def sigaction_16_25_def sigaction_16_26_def)

section \<open>\<^verbatim>\<open>17-1.c\<close> to \<^verbatim>\<open>17-26.c\<close>\<close>

definition sigaction_17_1 :: select_program where
  "sigaction_17_1 = sigaction_17 S_ABRT"

definition sigaction_17_2 :: select_program where
  "sigaction_17_2 = sigaction_17 S_ALRM"

definition sigaction_17_3 :: select_program where
  "sigaction_17_3 = sigaction_17 S_BUS"

definition sigaction_17_4 :: select_program where
  "sigaction_17_4 = sigaction_17 S_CHLD"

definition sigaction_17_5 :: select_program where
  "sigaction_17_5 = sigaction_17 S_CONT"

definition sigaction_17_6 :: select_program where
  "sigaction_17_6 = sigaction_17 S_FPE"

definition sigaction_17_7 :: select_program where
  "sigaction_17_7 = sigaction_17 S_HUP"

definition sigaction_17_8 :: select_program where
  "sigaction_17_8 = sigaction_17 S_ILL"

definition sigaction_17_9 :: select_program where
  "sigaction_17_9 = sigaction_17 S_INT"

definition sigaction_17_10 :: select_program where
  "sigaction_17_10 = sigaction_17 S_PIPE"

definition sigaction_17_11 :: select_program where
  "sigaction_17_11 = sigaction_17 S_QUIT"

definition sigaction_17_12 :: select_program where
  "sigaction_17_12 = sigaction_17 S_SEGV"

definition sigaction_17_13 :: select_program where
  "sigaction_17_13 = sigaction_17 S_TERM"

definition sigaction_17_14 :: select_program where
  "sigaction_17_14 = sigaction_17 S_TSTP"

definition sigaction_17_15 :: select_program where
  "sigaction_17_15 = sigaction_17 S_TTIN"

definition sigaction_17_16 :: select_program where
  "sigaction_17_16 = sigaction_17 S_TTOU"

definition sigaction_17_17 :: select_program where
  "sigaction_17_17 = sigaction_17 S_USR1"

definition sigaction_17_18 :: select_program where
  "sigaction_17_18 = sigaction_17 S_USR2"

definition sigaction_17_19 :: select_program where
  "sigaction_17_19 = sigaction_17 S_POLL"

definition sigaction_17_20 :: select_program where
  "sigaction_17_20 = sigaction_17 S_PROF"

definition sigaction_17_21 :: select_program where
  "sigaction_17_21 = sigaction_17 S_SYS"

definition sigaction_17_22 :: select_program where
  "sigaction_17_22 = sigaction_17 S_TRAP"

definition sigaction_17_23 :: select_program where
  "sigaction_17_23 = sigaction_17 S_URG"

definition sigaction_17_24 :: select_program where
  "sigaction_17_24 = sigaction_17 S_VTALRM"

definition sigaction_17_25 :: select_program where
  "sigaction_17_25 = sigaction_17 S_XCPU"

definition sigaction_17_26 :: select_program where
  "sigaction_17_26 = sigaction_17 S_XFSZ"

definition files_17 :: "select_program list" where
  "files_17 = [sigaction_17_1, sigaction_17_2, sigaction_17_3, sigaction_17_4, sigaction_17_5, sigaction_17_6, sigaction_17_7, sigaction_17_8, sigaction_17_9,
     sigaction_17_10, sigaction_17_11, sigaction_17_12, sigaction_17_13, sigaction_17_14, sigaction_17_15, sigaction_17_16, sigaction_17_17, sigaction_17_18,
     sigaction_17_19, sigaction_17_20, sigaction_17_21, sigaction_17_22, sigaction_17_23, sigaction_17_24, sigaction_17_25, sigaction_17_26]"

lemma files_17_eq: "files_17 = map sigaction_17 test_signals"
  by (simp add: files_17_def test_signals_def sigaction_17_1_def sigaction_17_2_def sigaction_17_3_def sigaction_17_4_def sigaction_17_5_def sigaction_17_6_def sigaction_17_7_def sigaction_17_8_def sigaction_17_9_def sigaction_17_10_def sigaction_17_11_def sigaction_17_12_def sigaction_17_13_def sigaction_17_14_def sigaction_17_15_def sigaction_17_16_def sigaction_17_17_def sigaction_17_18_def sigaction_17_19_def sigaction_17_20_def sigaction_17_21_def sigaction_17_22_def sigaction_17_23_def sigaction_17_24_def sigaction_17_25_def sigaction_17_26_def)

end
