(* ===== verification/Sigaction_Restart_Props.thy ===== *)
theory Sigaction_Restart_Props
  imports Sigaction_Restart
begin

text \<open>
  What the programs on interrupted calls report. Those for \<^verbatim>\<open>SA_RESTART\<close> pass in every run on a system that restarts the wait, and no run stops before or
  does anything but yield for ever; on a system that does not restart it the verdict depends on the run. The verdict of the programs for \<^verbatim>\<open>select\<close> is determined by the
  place in which the child gets the signal.
\<close>

section \<open>Runs\<close>

definition nexts :: "('s \<Rightarrow> 's list) \<Rightarrow> 's \<Rightarrow> 's \<Rightarrow> bool" where
  "nexts p s t \<longleftrightarrow> t \<in> set (p s)"

text \<open>A step that changes the state.\<close>

definition acts :: "('s \<Rightarrow> 's list) \<Rightarrow> 's \<Rightarrow> 's \<Rightarrow> bool" where
  "acts p s t \<longleftrightarrow> t \<in> set (p s) \<and> t \<noteq> s"

text \<open>The run that takes the alternatives with the given numbers.\<close>

fun follow :: "('s \<Rightarrow> 's list) \<Rightarrow> nat list \<Rightarrow> 's \<Rightarrow> 's option" where
  "follow p [] s = Some s"
| "follow p (i # is) s = (case drop i (p s) of [] \<Rightarrow> None | t # _ \<Rightarrow> follow p is t)"

lemma follow_reachable: "follow p is s = Some t \<Longrightarrow> reachable_from (nexts p) s t"
proof (induction "is" arbitrary: s)
  case (Cons i "is")
  then obtain u us where u: "drop i (p s) = u # us" "follow p is u = Some t" by (auto split: list.splits)
  then have "u \<in> set (p s)" by (metis in_set_dropD list.set_intros(1))
  then have "nexts p s u" by (simp add: nexts_def)
  with u(2) show ?case using Cons.IH by (meson reachable_trans reach_start reach_step)
qed (simp add: reach_start)

section \<open>Waiting for a semaphore\<close>

definition calls_succeed :: "rsys \<Rightarrow> bool" where
  "calls_succeed os \<longleftrightarrow> r_sigemptyset os = 0 \<and> (\<forall>S fl. r_sigaction os S fl = 0) \<and> r_sem_init os = 0 \<and> r_create os = 0 \<and> (\<forall>S. r_kill os S = 0)
     \<and> r_post os = 0 \<and> r_join os = 0 \<and> r_destroy os = 0"

definition restarting :: "rsys \<Rightarrow> bool" where
  "restarting os \<longleftrightarrow> calls_succeed os \<and> (\<forall>S. r_interrupt os S {SA_RESTART} = None)"

text \<open>The states between two calls of \<^verbatim>\<open>main\<close>.\<close>

fun main_inv :: "rmain \<Rightarrow> rchild \<Rightarrow> nat \<Rightarrow> int \<Rightarrow> bool \<Rightarrow> bool" where
  "main_inv (R_yield n) c v k pend \<longleftrightarrow> n \<le> 3 \<and> c \<in> {K_start, K_wait} \<and> v = 0 \<and> k = 0 \<and> \<not> pend"
| "main_inv R_kill c v k pend \<longleftrightarrow> c \<in> {K_start, K_wait} \<and> v = 0 \<and> k = 0 \<and> \<not> pend"
| "main_inv R_spin c v k pend \<longleftrightarrow> c \<in> {K_start, K_wait} \<and> v = 0 \<and> (if pend then k = 0 else k = 1)"
| "main_inv R_post c v k pend \<longleftrightarrow> c \<in> {K_start, K_wait} \<and> v = 0 \<and> \<not> pend"
| "main_inv R_join c v k pend \<longleftrightarrow> \<not> pend \<and> (c \<in> {K_start, K_wait} \<and> v = 1 \<or> c = K_end \<and> v = 0)"
| "main_inv R_destroy c v k pend \<longleftrightarrow> \<not> pend \<and> c = K_end"
| "main_inv R_end c v k pend \<longleftrightarrow> \<not> pend \<and> c = K_end"
| "main_inv _ c v k pend \<longleftrightarrow> c = K_none \<and> v = 0 \<and> k = 0 \<and> \<not> pend"

definition r_inv :: "rstate \<Rightarrow> bool" where
  "r_inv s \<longleftrightarrow> main_inv (r_main s) (r_child s) (r_value s) (r_caught s) (r_pending s) \<and> r_exit s \<in> {None, Some PTS_PASS}"

fun main_left :: "rmain \<Rightarrow> nat" where
  "main_left R_empty = 30" | "main_left R_action = 29" | "main_left R_init = 28" | "main_left R_create = 27" | "main_left (R_yield n) = 15 + n"
| "main_left R_kill = 14" | "main_left R_spin = 11" | "main_left R_post = 9" | "main_left R_join = 7" | "main_left R_destroy = 5" | "main_left R_end = 3"

fun child_left :: "rchild \<Rightarrow> nat" where
  "child_left K_start = 2" | "child_left K_wait = 1" | "child_left _ = 0"

definition r_left :: "rstate \<Rightarrow> nat" where
  "r_left s = main_left (r_main s) + child_left (r_child s) + (if r_pending s then 1 else 0) + (if r_exit s = None then 1 else 0)"

lemma restart_step:
  assumes "restarting os" and "r_inv s" and "t \<in> set (sigaction_16 S os s)"
  shows "r_inv t \<and> (t \<noteq> s \<longrightarrow> r_left t < r_left s)"
  using assms by (cases "r_main s") (auto simp: restarting_def calls_succeed_def r_inv_def r_left_def sigaction_16_def restart_deliver_def r_check_def pts_defs
      split: if_splits rchild.splits)

lemma restart_progress:
  assumes "restarting os" and "r_inv s" and "r_exit s = None"
  shows "\<exists>t. acts (sigaction_16 S os) s t"
proof -
  have "\<exists>t \<in> set (sigaction_16 S os s). t \<noteq> s"
    using assms by (cases s; cases "r_main s") (auto simp: restarting_def calls_succeed_def r_inv_def sigaction_16_def restart_deliver_def r_check_def)
  then show ?thesis by (auto simp: acts_def)
qed

text \<open>C19. On a system whose calls succeed and which restarts the wait, each of the 26 programs \<^verbatim>\<open>16-*.c\<close> can only end with \<^verbatim>\<open>PTS_PASS\<close>, in no state before the end are all
  actions without effect, and no run has infinitely many actions that have an effect: a run that lets every thread go on ends with \<^verbatim>\<open>PTS_PASS\<close>.\<close>

theorem restart_files_pass:
  assumes "restarting os" and "p \<in> set files_16"
  shows "(\<forall>s. reachable_from (nexts (p os)) rstate0 s \<longrightarrow> (if r_exit s = None then \<exists>t. acts (p os) s t else r_exit s = Some PTS_PASS))
    \<and> \<not> infinite_run (acts (p os)) rstate0"
proof -
  obtain S where p: "p = sigaction_16 S" using assms(2) by (auto simp: files_16_eq)
  have i: "r_inv rstate0" by (simp add: r_inv_def rstate0_def)
  have inv: "r_inv s" if "reachable_from (nexts (p os)) rstate0 s" for s
    using that i by (rule reachable_invariant) (use restart_step [OF assms(1)] p in \<open>auto simp: nexts_def\<close>)
  have "if r_exit s = None then \<exists>t. acts (p os) s t else r_exit s = Some PTS_PASS" if "reachable_from (nexts (p os)) rstate0 s" for s
    using restart_progress [OF assms(1) inv [OF that], of S] inv [OF that] p by (auto simp: r_inv_def)
  moreover have "\<not> infinite_run (acts (p os)) rstate0"
    by (rule no_infinite_run [where I = r_inv and m = r_left]) (use restart_step [OF assms(1)] i p in \<open>auto simp: acts_def\<close>)
  ultimately show ?thesis by blast
qed

definition restart_os :: "errno option \<Rightarrow> rsys" where
  "restart_os e = \<lparr>r_sigemptyset = 0, r_sigaction = (\<lambda>_ _. 0), r_sem_init = 0, r_create = 0, r_kill = (\<lambda>_. 0), r_post = 0, r_join = 0, r_destroy = 0,
     r_interrupt = (\<lambda>S fl. e)\<rparr>"

theorem restart_files_pass_witness: "\<not> infinite_run (acts (sigaction_16_7 (restart_os None))) rstate0"
proof -
  have "restarting (restart_os None)" by (simp add: restarting_def calls_succeed_def restart_os_def)
  from restart_files_pass [OF this, of sigaction_16_7] show ?thesis by (simp add: files_16_def)
qed

text \<open>On a system that does not restart the wait the programs can fail, and they can pass: when the thread has not yet come to the wait.\<close>

theorem restart_files_race:
  assumes "calls_succeed os" and "r_interrupt os S {SA_RESTART} = Some EINTR"
  shows "(\<exists>s. reachable_from (nexts (sigaction_16 S os)) rstate0 s \<and> r_exit s = Some PTS_FAIL)
    \<and> (\<exists>s. reachable_from (nexts (sigaction_16 S os)) rstate0 s \<and> r_exit s = Some PTS_PASS)"
proof -
  note simps = assms calls_succeed_def sigaction_16_def restart_deliver_def r_check_def rstate0_def
  let ?p = "sigaction_16 S os" and ?s = "\<lambda>m c x. \<lparr>r_main = m, r_child = c, r_value = 0, r_caught = 1, r_pending = False, r_exit = x\<rparr>"
  have "\<exists>s. follow ?p [0, 0, 0, 0, 1, 0, 0, 0, 0, 1, 1] rstate0 = Some s \<and> r_exit s = Some PTS_FAIL"
    using assms by (simp add: simps numeral_3_eq_3)
  moreover have "follow ?p [0, 0, 0, 0, 0, 0, 0, 0, 2] rstate0 = Some (?s R_spin K_start None)"
    using assms by (simp add: simps numeral_3_eq_3)
  moreover have "follow ?p [0, 0, 0, 0, 0, 0] (?s R_spin K_start None) = Some (?s R_end K_end (Some PTS_PASS))"
    using assms by (simp add: simps)
  ultimately show ?thesis using follow_reachable reachable_trans by (metis rstate.select_convs(6))
qed

section \<open>A process in select\<close>

text \<open>What the child does after it got the signal.\<close>

fun fate_inv :: "signame \<Rightarrow> psys \<Rightarrow> place \<Rightarrow> pchild \<Rightarrow> int \<Rightarrow> bool" where
  "fate_inv S os Before_action c u \<longleftrightarrow>
     (case p_default os S of Terminates n \<Rightarrow> c = H_dead (Signaled n) | Ignored \<Rightarrow> u = 1 \<and> c \<in> {H_action, H_test, H_select} | Stops \<Rightarrow> c = H_stopped)"
| "fate_inv S os At_test c u \<longleftrightarrow> u = 2 \<and> c \<in> {H_test, H_dead (Exited PTS_FAIL)}"
| "fate_inv S os In_select c u \<longleftrightarrow>
     (if p_interrupt os S {} = Some EINTR then c = H_dead (Exited PTS_PASS) else u = 2 \<and> c \<in> {H_test, H_select, H_dead (Exited PTS_FAIL)})"

definition p_inv :: "signame \<Rightarrow> psys \<Rightarrow> pstate \<Rightarrow> bool" where
  "p_inv S os s \<longleftrightarrow>
     (case p_place s of
        None \<Rightarrow> p_child s \<in> {H_action, H_test, H_select} \<and> p_wakeup s = 1 \<and> (p_caught s \<longleftrightarrow> p_child s \<noteq> H_action) \<and> p_exit s = None
          \<and> (p_pending s \<longleftrightarrow> p_parent s = P_wait)
      | Some x \<Rightarrow> \<not> p_pending s \<and> p_parent s = P_wait \<and> fate_inv S os x (p_child s) (p_wakeup s)
          \<and> (\<forall>v. p_exit s = Some v \<longrightarrow> (\<exists>st. p_child s = H_dead st \<and> v = (if p_wexitstatus os st = PTS_PASS then PTS_PASS else PTS_FAIL))))"

lemma select_parent_inv: "p_inv S os s \<Longrightarrow> p_exit s = None \<Longrightarrow> t \<in> set (select_parent S os s) \<Longrightarrow> p_inv S os t"
  by (cases s) (auto simp: p_inv_def split: pparent.splits pchild.splits option.splits if_splits)

lemma select_child_inv:
  assumes "p_sigaction os S {} = 0" and "p_inv S os s" and "p_exit s = None" and "t \<in> set (select_child S os s)"
  shows "p_inv S os t"
proof (cases "p_place s")
  case None
  with assms show ?thesis by (auto simp: p_inv_def split: pchild.splits)
next
  case (Some x)
  with assms show ?thesis by (cases x) (auto simp: p_inv_def split: pchild.splits fate.splits if_splits)
qed

lemma select_deliver_inv:
  assumes "p_inv S os s" and "p_exit s = None" and "t \<in> set (select_deliver S os s)"
  shows "p_inv S os t"
proof (cases "p_place s")
  case None
  with assms have c: "p_child s = H_action \<or> p_child s = H_test \<or> p_child s = H_select" by (auto simp: p_inv_def)
  with None assms show ?thesis
    by (elim disjE) (auto simp: p_inv_def place_of_def Let_def split: fate.splits option.splits if_splits)
next
  case (Some x)
  with assms show ?thesis by (simp add: p_inv_def)
qed

lemma select_step:
  assumes "p_sigaction os S {} = 0" and "p_inv S os s" and "t \<in> set (sigaction_17 S os s)"
  shows "p_inv S os t"
proof -
  have e: "p_exit s = None" using assms(3) by (cases "p_exit s") (simp_all add: sigaction_17_def)
  with assms(3) have "t \<in> set (select_parent S os s) \<or> t \<in> set (select_child S os s) \<or> t \<in> set (select_deliver S os s)"
    unfolding sigaction_17_def by simp
  then show ?thesis
    using select_parent_inv [OF assms(2) e] select_child_inv [OF assms(1,2) e] select_deliver_inv [OF assms(2) e] by blast
qed

text \<open>C20. Each of the 26 programs \<^verbatim>\<open>17-*.c\<close> is decided by where the child is when it gets the signal. In \<^verbatim>\<open>select\<close>: it passes exactly when the call fails with
  \<^verbatim>\<open>EINTR\<close>. Between the test of \<^verbatim>\<open>wakeup\<close> and \<^verbatim>\<open>select\<close>: it fails, on every system. Before the handler is installed: it ends only when the default action
  terminates the child, and then passes when \<^verbatim>\<open>WEXITSTATUS\<close> gives 0 for a process that was killed.\<close>

theorem select_files_verdict:
  assumes "(p, S) \<in> set (zip files_17 test_signals)" and "p_sigaction os S {} = 0" and "\<forall>c. p_wexitstatus os (Exited c) = c"
    and "reachable_from (nexts (p os)) pstate0 s" and "p_exit s = Some v"
  shows "\<exists>x. p_place s = Some x \<and> v = (case x of
      In_select \<Rightarrow> if p_interrupt os S {} = Some EINTR then PTS_PASS else PTS_FAIL
    | At_test \<Rightarrow> PTS_FAIL
    | Before_action \<Rightarrow> (case p_default os S of Terminates n \<Rightarrow> if p_wexitstatus os (Signaled n) = PTS_PASS then PTS_PASS else PTS_FAIL | _ \<Rightarrow> v))
    \<and> (x = Before_action \<longrightarrow> (\<exists>n. p_default os S = Terminates n))"
proof -
  have p: "p = sigaction_17 S" using assms(1) by (auto simp: files_17_eq zip_map1 in_set_zip)
  have "p_inv S os pstate0" by (simp add: p_inv_def pstate0_def)
  with assms(4) have "p_inv S os s"
    by (rule reachable_invariant) (use select_step [OF assms(2)] p in \<open>auto simp: nexts_def\<close>)
  with assms(3,5) show ?thesis
    by (cases "p_place s"; cases "the (p_place s)") (auto simp: p_inv_def pts_defs split: fate.splits if_splits)
qed


definition select_os :: psys where
  "select_os = \<lparr>p_sigaction = (\<lambda>_ _. 0), p_interrupt = (\<lambda>S fl. if SA_RESTART \<in> fl then None else Some EINTR),
     p_default = (\<lambda>S. if S = S_CHLD then Ignored else Terminates (linux_no S)), p_wexitstatus = (\<lambda>st. case st of Exited c \<Rightarrow> c | _ \<Rightarrow> 0)\<rparr>"

theorem select_files_verdict_witness:
  "\<exists>s. follow (sigaction_17_1 select_os) [1, 0, 0, 0, 1, 0] pstate0 = Some s \<and> p_place s = Some In_select \<and> p_exit s = Some PTS_PASS"
proof -
  have z: "(sigaction_17_1, S_ABRT) \<in> set (zip files_17 test_signals)" by (simp add: files_17_def test_signals_def)
  obtain s where s: "follow (sigaction_17_1 select_os) [1, 0, 0, 0, 1, 0] pstate0 = Some s" "p_place s = Some In_select" "p_exit s \<noteq> None"
    by (simp add: sigaction_17_1_def sigaction_17_def select_os_def pstate0_def place_of_def Let_def)
  then obtain v where v: "p_exit s = Some v" by auto
  have "p_sigaction select_os S_ABRT {} = 0" "\<forall>c. p_wexitstatus select_os (Exited c) = c" by (simp_all add: select_os_def)
  from select_files_verdict [OF z this follow_reachable [OF s(1)] v] s v show ?thesis by (auto simp: select_os_def)
qed

end
