(* ===== verification/Attr_Tests.thy ===== *)
theory Attr_Tests
  imports Posix_Prelude
begin

text \<open>
  Conformance programs for the attribute objects of threads, mutexes, condition variables, read-write locks and barriers (\<^verbatim>\<open>pthread_attr_*\<close>,
  \<^verbatim>\<open>pthread_mutexattr_*\<close>, \<^verbatim>\<open>pthread_condattr_*\<close>, \<^verbatim>\<open>pthread_rwlockattr_*\<close>, \<^verbatim>\<open>pthread_barrierattr_*\<close>) that create no thread. A program is a function of the
  library under test, \<open>api\<close>, and of what its object holds before it is initialised, \<open>x\<close>; it gives the result code. Functions return
  their error as value, and \<open>EOK\<close> is 0. Output is left out.
\<close>

section \<open>The library under test\<close>

datatype field = Detachstate | Inheritsched | Schedparam | Schedpolicy | Scope | Stacksize | Pshared | Prioceiling | Protocol | Mtype | Clock

datatype aconst = CREATE_JOINABLE | CREATE_DETACHED | INHERIT_SCHED | EXPLICIT_SCHED | SCHED_FIFO | SCHED_RR | SCHED_OTHER | SCOPE_SYSTEM | SCOPE_PROCESS
  | PROCESS_PRIVATE | PROCESS_SHARED | PRIO_NONE | PRIO_INHERIT | PRIO_PROTECT | MUTEX_DEFAULT | MUTEX_NORMAL | MUTEX_ERRORCHECK | MUTEX_RECURSIVE
  | REALTIME | MONOTONIC

text \<open>\<open>at_set f\<close> and \<open>at_get f\<close> are the functions for one attribute; \<open>at_const\<close> are the constants of \<^verbatim>\<open>pthread.h\<close>. \<open>at_has_pshared\<close>: the macro
  \<^verbatim>\<open>PTHREAD_PROCESS_SHARED\<close> is defined, \<open>at_has_cputime\<close>: \<^verbatim>\<open>_POSIX_CPUTIME\<close> is not -1. \<open>at_memalign\<close> is \<^verbatim>\<open>posix_memalign\<close>, \<open>at_getres\<close> is \<^verbatim>\<open>clock_getres\<close> of the
  monotonic clock, \<open>at_sc_cputime\<close> is \<^verbatim>\<open>sysconf(_SC_CPUTIME)\<close>, \<open>at_cpuclock\<close> is \<^verbatim>\<open>clock_getcpuclockid\<close> of the process.\<close>

record 'a attr_api =
  at_init :: "'a \<Rightarrow> errno \<times> 'a"
  at_destroy :: "'a \<Rightarrow> errno \<times> 'a"
  at_destroy_null :: errno
  at_set :: "field \<Rightarrow> int \<Rightarrow> 'a \<Rightarrow> errno \<times> 'a"
  at_get :: "field \<Rightarrow> 'a \<Rightarrow> errno \<times> int"
  at_const :: "aconst \<Rightarrow> int"
  at_has_pshared :: bool
  at_pmin :: "int \<Rightarrow> int"
  at_pmax :: "int \<Rightarrow> int"
  at_setstack :: "int \<Rightarrow> int \<Rightarrow> 'a \<Rightarrow> errno \<times> 'a"
  at_getstack :: "'a \<Rightarrow> errno \<times> int \<times> int"
  at_memalign :: "int \<Rightarrow> int \<Rightarrow> errno \<times> int"
  at_pagesize :: int
  at_stackmin :: int
  at_getres :: int
  at_has_cputime :: bool
  at_sc_cputime :: int
  at_cpuclock :: "errno \<times> int"

text \<open>\<^verbatim>\<open>if (call != 0) return c;\<close>\<close>

definition ok_or :: "errno \<times> 'b \<Rightarrow> int \<Rightarrow> ('b \<Rightarrow> int) \<Rightarrow> int" where
  "ok_or r c k = (if fst r \<noteq> EOK then c else k (snd r))"

lemma ok_or_simps [simp]: "ok_or (EOK, y) c k = k y" "e \<noteq> EOK \<Longrightarrow> ok_or (e, y) c k = c"
  by (simp_all add: ok_or_def)

text \<open>Steps that many programs have: setting an attribute, reading it and comparing it.\<close>

definition set_attr :: "('a, 'z) attr_api_scheme \<Rightarrow> field \<Rightarrow> aconst \<Rightarrow> int \<Rightarrow> 'a \<Rightarrow> ('a \<Rightarrow> int) \<Rightarrow> int" where
  "set_attr api f v c x k = ok_or (at_set api f (at_const api v) x) c k"

definition get_attr :: "('a, 'z) attr_api_scheme \<Rightarrow> field \<Rightarrow> aconst \<Rightarrow> int \<Rightarrow> int \<Rightarrow> 'a \<Rightarrow> int \<Rightarrow> int" where
  "get_attr api f v c d x k = ok_or (at_get api f x) c (\<lambda>y. if y \<noteq> at_const api v then d else k)"

definition end_attr :: "('a, 'z) attr_api_scheme \<Rightarrow> int \<Rightarrow> 'a \<Rightarrow> int" where
  "end_attr api c x = ok_or (at_destroy api x) c (\<lambda>_. PTS_PASS)"

definition must_einval :: "errno \<times> 'a \<Rightarrow> ('a \<Rightarrow> int) \<Rightarrow> int" where
  "must_einval r k = (if fst r \<noteq> EINVAL then PTS_FAIL else k (snd r))"

text \<open>0 or \<^verbatim>\<open>EINVAL\<close> passes: what the programs on uninitialised objects accept.\<close>

definition may_einval :: "errno \<Rightarrow> int" where
  "may_einval e = (if e = EOK \<or> e = EINVAL then PTS_PASS else PTS_FAIL)"

section \<open>Initialising and destroying\<close>

definition init_destroy :: "('a, 'z) attr_api_scheme \<Rightarrow> 'a \<Rightarrow> int" where
  "init_destroy api x = ok_or (at_init api x) PTS_UNRESOLVED (end_attr api PTS_FAIL)"

definition init_again :: "('a, 'z) attr_api_scheme \<Rightarrow> 'a \<Rightarrow> int" where
  "init_again api x =
     ok_or (at_init api x) PTS_UNRESOLVED (\<lambda>x. ok_or (at_destroy api x) PTS_UNRESOLVED (\<lambda>x. ok_or (at_init api x) PTS_FAIL (\<lambda>_. PTS_PASS)))"

definition init_error :: "('a, 'z) attr_api_scheme \<Rightarrow> 'a \<Rightarrow> int" where
  "init_error api x =
     (let e = fst (at_init api x) in if e = EOK then PTS_PASS else if e = ENOMEM then PTS_UNRESOLVED else PTS_FAIL)"

text \<open>The object is the null pointer; both results of the test are \<^verbatim>\<open>PTS_PASS\<close>.\<close>

definition destroy_null :: "('a, 'z) attr_api_scheme \<Rightarrow> int" where
  "destroy_null api = (if at_destroy_null api = EINVAL then PTS_PASS else PTS_PASS)"

definition pthread_attr_destroy_2_1 :: "('a, 'z) attr_api_scheme \<Rightarrow> 'a \<Rightarrow> int" where
  "pthread_attr_destroy_2_1 = init_again"

definition pthread_attr_destroy_3_1 :: "('a, 'z) attr_api_scheme \<Rightarrow> 'a \<Rightarrow> int" where
  "pthread_attr_destroy_3_1 = init_destroy"

definition pthread_attr_init_4_1 :: "('a, 'z) attr_api_scheme \<Rightarrow> 'a \<Rightarrow> int" where
  "pthread_attr_init_4_1 = init_error"

definition pthread_mutexattr_destroy_1_1 :: "('a, 'z) attr_api_scheme \<Rightarrow> 'a \<Rightarrow> int" where
  "pthread_mutexattr_destroy_1_1 = init_destroy"

definition pthread_mutexattr_destroy_2_1 :: "('a, 'z) attr_api_scheme \<Rightarrow> 'a \<Rightarrow> int" where
  "pthread_mutexattr_destroy_2_1 = init_again"

definition pthread_mutexattr_destroy_3_1 :: "('a, 'z) attr_api_scheme \<Rightarrow> 'a \<Rightarrow> int" where
  "pthread_mutexattr_destroy_3_1 = init_destroy"

definition pthread_mutexattr_destroy_4_1 :: "('a, 'z) attr_api_scheme \<Rightarrow> 'a \<Rightarrow> int" where
  "pthread_mutexattr_destroy_4_1 api x = destroy_null api"

definition pthread_mutexattr_init_3_1 :: "('a, 'z) attr_api_scheme \<Rightarrow> 'a \<Rightarrow> int" where
  "pthread_mutexattr_init_3_1 = init_error"

definition pthread_condattr_destroy_1_1 :: "('a, 'z) attr_api_scheme \<Rightarrow> 'a \<Rightarrow> int" where
  "pthread_condattr_destroy_1_1 = init_destroy"

definition pthread_condattr_destroy_2_1 :: "('a, 'z) attr_api_scheme \<Rightarrow> 'a \<Rightarrow> int" where
  "pthread_condattr_destroy_2_1 = init_again"

definition pthread_condattr_destroy_3_1 :: "('a, 'z) attr_api_scheme \<Rightarrow> 'a \<Rightarrow> int" where
  "pthread_condattr_destroy_3_1 = init_destroy"

definition pthread_condattr_destroy_4_1 :: "('a, 'z) attr_api_scheme \<Rightarrow> 'a \<Rightarrow> int" where
  "pthread_condattr_destroy_4_1 api x = destroy_null api"

definition pthread_condattr_init_3_1 :: "('a, 'z) attr_api_scheme \<Rightarrow> 'a \<Rightarrow> int" where
  "pthread_condattr_init_3_1 = init_error"

definition pthread_rwlockattr_destroy_1_1 :: "('a, 'z) attr_api_scheme \<Rightarrow> 'a \<Rightarrow> int" where
  "pthread_rwlockattr_destroy_1_1 = init_destroy"

definition pthread_rwlockattr_destroy_2_1 :: "('a, 'z) attr_api_scheme \<Rightarrow> 'a \<Rightarrow> int" where
  "pthread_rwlockattr_destroy_2_1 = init_again"

definition pthread_barrierattr_destroy_1_1 :: "('a, 'z) attr_api_scheme \<Rightarrow> 'a \<Rightarrow> int" where
  "pthread_barrierattr_destroy_1_1 api x =
     ok_or (at_init api x) PTS_UNRESOLVED (\<lambda>x. ok_or (at_destroy api x) PTS_FAIL (\<lambda>x. ok_or (at_init api x) PTS_FAIL (\<lambda>_. PTS_PASS)))"

section \<open>Thread attributes\<close>

definition pthread_attr_getdetachstate_1_1 :: "('a, 'z) attr_api_scheme \<Rightarrow> 'a \<Rightarrow> int" where
  "pthread_attr_getdetachstate_1_1 api x =
     ok_or (at_init api x) PTS_UNRESOLVED (\<lambda>x. get_attr api Detachstate CREATE_JOINABLE PTS_FAIL PTS_FAIL x PTS_PASS)"

definition pthread_attr_getdetachstate_1_2 :: "('a, 'z) attr_api_scheme \<Rightarrow> 'a \<Rightarrow> int" where
  "pthread_attr_getdetachstate_1_2 api x =
     ok_or (at_init api x) PTS_UNRESOLVED (\<lambda>x. set_attr api Detachstate CREATE_DETACHED PTS_UNRESOLVED x (\<lambda>x.
     get_attr api Detachstate CREATE_DETACHED PTS_FAIL PTS_FAIL x PTS_PASS))"

definition pthread_attr_init_1_1 :: "('a, 'z) attr_api_scheme \<Rightarrow> 'a \<Rightarrow> int" where
  "pthread_attr_init_1_1 api x =
     ok_or (at_init api x) PTS_UNRESOLVED (\<lambda>x. get_attr api Detachstate CREATE_JOINABLE PTS_UNRESOLVED PTS_FAIL x PTS_PASS)"

definition set_detachstate :: "aconst \<Rightarrow> ('a, 'z) attr_api_scheme \<Rightarrow> 'a \<Rightarrow> int" where
  "set_detachstate v api x =
     ok_or (at_init api x) PTS_UNRESOLVED (\<lambda>x. set_attr api Detachstate v PTS_UNRESOLVED x (\<lambda>x.
     get_attr api Detachstate v PTS_UNRESOLVED PTS_FAIL x PTS_PASS))"

definition pthread_attr_setdetachstate_1_1 :: "('a, 'z) attr_api_scheme \<Rightarrow> 'a \<Rightarrow> int" where
  "pthread_attr_setdetachstate_1_1 = set_detachstate CREATE_JOINABLE"

definition pthread_attr_setdetachstate_1_2 :: "('a, 'z) attr_api_scheme \<Rightarrow> 'a \<Rightarrow> int" where
  "pthread_attr_setdetachstate_1_2 = set_detachstate CREATE_DETACHED"

definition pthread_attr_setdetachstate_4_1 :: "('a, 'z) attr_api_scheme \<Rightarrow> 'a \<Rightarrow> int" where
  "pthread_attr_setdetachstate_4_1 api x =
     ok_or (at_init api x) PTS_UNRESOLVED (\<lambda>x. must_einval (at_set api Detachstate 1000000 x) (\<lambda>_. PTS_PASS))"

text \<open>\<^verbatim>\<open>verify_inheritsched\<close>, \<^verbatim>\<open>verify_param\<close>, \<^verbatim>\<open>verify_policy\<close>, \<^verbatim>\<open>verify_scope\<close> end the program when the value is not the expected one.\<close>

definition inherit_then_explicit :: "('a, 'z) attr_api_scheme \<Rightarrow> 'a \<Rightarrow> int" where
  "inherit_then_explicit api x =
     ok_or (at_init api x) PTS_UNRESOLVED (\<lambda>x.
     set_attr api Inheritsched INHERIT_SCHED PTS_UNRESOLVED x (\<lambda>x.
     get_attr api Inheritsched INHERIT_SCHED PTS_UNRESOLVED PTS_FAIL x (
     set_attr api Inheritsched EXPLICIT_SCHED PTS_UNRESOLVED x (\<lambda>x.
     get_attr api Inheritsched EXPLICIT_SCHED PTS_UNRESOLVED PTS_FAIL x (
     end_attr api PTS_UNRESOLVED x)))))"

definition pthread_attr_getinheritsched_1_1 :: "('a, 'z) attr_api_scheme \<Rightarrow> 'a \<Rightarrow> int" where
  "pthread_attr_getinheritsched_1_1 = inherit_then_explicit"

definition pthread_attr_setinheritsched_1_1 :: "('a, 'z) attr_api_scheme \<Rightarrow> 'a \<Rightarrow> int" where
  "pthread_attr_setinheritsched_1_1 = inherit_then_explicit"

text \<open>The programs with the value 999.\<close>

definition refuse_999 :: "field \<Rightarrow> ('a, 'z) attr_api_scheme \<Rightarrow> 'a \<Rightarrow> int" where
  "refuse_999 f api x =
     ok_or (at_init api x) PTS_UNRESOLVED (\<lambda>x. must_einval (at_set api f 999 x) (end_attr api PTS_UNRESOLVED))"

definition pthread_attr_setinheritsched_4_1 :: "('a, 'z) attr_api_scheme \<Rightarrow> 'a \<Rightarrow> int" where
  "pthread_attr_setinheritsched_4_1 = refuse_999 Inheritsched"

definition pthread_attr_setschedpolicy_4_1 :: "('a, 'z) attr_api_scheme \<Rightarrow> 'a \<Rightarrow> int" where
  "pthread_attr_setschedpolicy_4_1 = refuse_999 Schedpolicy"

definition pthread_attr_setscope_4_1 :: "('a, 'z) attr_api_scheme \<Rightarrow> 'a \<Rightarrow> int" where
  "pthread_attr_setscope_4_1 = refuse_999 Scope"

definition pthread_attr_setscope_5_1 :: "('a, 'z) attr_api_scheme \<Rightarrow> 'a \<Rightarrow> int" where
  "pthread_attr_setscope_5_1 api x = PTS_UNTESTED"

definition pthread_attr_getschedpolicy_2_1 :: "('a, 'z) attr_api_scheme \<Rightarrow> 'a \<Rightarrow> int" where
  "pthread_attr_getschedpolicy_2_1 api x =
     ok_or (at_init api x) PTS_UNRESOLVED (\<lambda>x.
     set_attr api Schedpolicy SCHED_FIFO PTS_UNRESOLVED x (\<lambda>x. get_attr api Schedpolicy SCHED_FIFO PTS_UNRESOLVED PTS_FAIL x (
     set_attr api Schedpolicy SCHED_RR PTS_UNRESOLVED x (\<lambda>x. get_attr api Schedpolicy SCHED_RR PTS_UNRESOLVED PTS_FAIL x (
     set_attr api Schedpolicy SCHED_OTHER PTS_UNRESOLVED x (\<lambda>x. get_attr api Schedpolicy SCHED_OTHER PTS_UNRESOLVED PTS_FAIL x (
     end_attr api PTS_UNRESOLVED x)))))))"

text \<open>One policy of \<^verbatim>\<open>pthread_attr_getschedparam/1-1.c\<close>.\<close>

definition policy_param :: "('a, 'z) attr_api_scheme \<Rightarrow> aconst \<Rightarrow> 'a \<Rightarrow> ('a \<Rightarrow> int) \<Rightarrow> int" where
  "policy_param api v x k =
     set_attr api Schedpolicy v PTS_UNRESOLVED x (\<lambda>x.
     let priority = at_pmax api (at_const api v) in
     if priority = - 1 then PTS_UNRESOLVED else
     ok_or (at_set api Schedparam priority x) PTS_UNRESOLVED (\<lambda>x.
     ok_or (at_get api Schedparam x) PTS_UNRESOLVED (\<lambda>y. if priority \<noteq> y then PTS_FAIL else k x)))"

definition pthread_attr_getschedparam_1_1 :: "('a, 'z) attr_api_scheme \<Rightarrow> 'a \<Rightarrow> int" where
  "pthread_attr_getschedparam_1_1 api x =
     ok_or (at_init api x) PTS_UNRESOLVED (\<lambda>x. policy_param api SCHED_FIFO x (\<lambda>x. policy_param api SCHED_RR x (end_attr api PTS_UNRESOLVED)))"

text \<open>A scope that cannot be set is not tested.\<close>

definition try_scope :: "('a, 'z) attr_api_scheme \<Rightarrow> aconst \<Rightarrow> 'a \<Rightarrow> ('a \<Rightarrow> int) \<Rightarrow> int" where
  "try_scope api v x k =
     (let (e, x) = at_set api Scope (at_const api v) x in if e \<noteq> EOK then k x else get_attr api Scope v PTS_UNRESOLVED PTS_FAIL x (k x))"

definition pthread_attr_getscope_1_1 :: "('a, 'z) attr_api_scheme \<Rightarrow> 'a \<Rightarrow> int" where
  "pthread_attr_getscope_1_1 api x =
     ok_or (at_init api x) PTS_UNRESOLVED (\<lambda>x. try_scope api SCOPE_SYSTEM x (\<lambda>x. try_scope api SCOPE_PROCESS x (end_attr api PTS_UNRESOLVED)))"

text \<open>Stacks. \<^verbatim>\<open>STACKSIZE\<close> of the programs on too small stacks is converted to \<^verbatim>\<open>size_t\<close>.\<close>

definition STACKSIZE :: "('a, 'z) attr_api_scheme \<Rightarrow> int" where
  "STACKSIZE api = (at_stackmin api - at_pagesize api) mod 2 ^ 64"

definition pthread_attr_getstack_1_1 :: "('a, 'z) attr_api_scheme \<Rightarrow> 'a \<Rightarrow> int" where
  "pthread_attr_getstack_1_1 api x =
     ok_or (at_init api x) PTS_UNRESOLVED (\<lambda>x.
     ok_or (at_getstack api x) PTS_UNRESOLVED (\<lambda>_.
     let stack_size = at_stackmin api in
     ok_or (at_memalign api (at_pagesize api) stack_size) PTS_UNRESOLVED (\<lambda>stack_addr.
     ok_or (at_setstack api stack_addr stack_size x) PTS_UNRESOLVED (\<lambda>x.
     ok_or (at_getstack api x) PTS_UNRESOLVED (\<lambda>_. end_attr api PTS_UNRESOLVED x)))))"

definition pthread_attr_getstacksize_1_1 :: "('a, 'z) attr_api_scheme \<Rightarrow> 'a \<Rightarrow> int" where
  "pthread_attr_getstacksize_1_1 api x =
     ok_or (at_init api x) PTS_UNRESOLVED (\<lambda>x.
     ok_or (at_get api Stacksize x) PTS_UNRESOLVED (\<lambda>_.
     let stack_size = at_stackmin api in
     ok_or (at_memalign api (at_pagesize api) stack_size) PTS_UNRESOLVED (\<lambda>_.
     ok_or (at_set api Stacksize stack_size x) PTS_UNRESOLVED (\<lambda>x.
     ok_or (at_get api Stacksize x) PTS_UNRESOLVED (\<lambda>_. end_attr api PTS_UNRESOLVED x)))))"

definition pthread_attr_setstack_6_1 :: "('a, 'z) attr_api_scheme \<Rightarrow> 'a \<Rightarrow> int" where
  "pthread_attr_setstack_6_1 api x =
     ok_or (at_init api x) PTS_UNRESOLVED (\<lambda>x.
     ok_or (at_getstack api x) PTS_UNRESOLVED (\<lambda>_.
     let stack_size = STACKSIZE api in
     ok_or (at_memalign api (at_pagesize api) stack_size) PTS_UNRESOLVED (\<lambda>stack_addr.
     must_einval (at_setstack api stack_addr stack_size x) (end_attr api PTS_UNRESOLVED))))"

text \<open>\<^verbatim>\<open>7-1.c\<close> only prints when a call does not return \<^verbatim>\<open>EINVAL\<close>.\<close>

definition pthread_attr_setstack_7_1 :: "('a, 'z) attr_api_scheme \<Rightarrow> 'a \<Rightarrow> int" where
  "pthread_attr_setstack_7_1 api x =
     ok_or (at_init api x) PTS_UNRESOLVED (\<lambda>x.
     ok_or (at_getstack api x) PTS_UNRESOLVED (\<lambda>_.
     let stack_size = at_stackmin api in
     ok_or (at_memalign api (at_pagesize api) stack_size) PTS_UNRESOLVED (\<lambda>stack_addr.
     let (e, x) = at_setstack api (stack_addr + 7) stack_size x;
         (e, x) = at_setstack api (stack_addr + 7 + 7) (at_stackmin api + 7) x in
     end_attr api PTS_UNRESOLVED x)))"

definition pthread_attr_setstacksize_4_1 :: "('a, 'z) attr_api_scheme \<Rightarrow> 'a \<Rightarrow> int" where
  "pthread_attr_setstacksize_4_1 api x =
     ok_or (at_init api x) PTS_UNRESOLVED (\<lambda>x.
     let stack_size = STACKSIZE api in
     ok_or (at_memalign api (at_pagesize api) stack_size) PTS_UNRESOLVED (\<lambda>_.
     must_einval (at_set api Stacksize stack_size x) (end_attr api PTS_UNRESOLVED)))"

section \<open>Mutex attributes\<close>

definition pthread_mutexattr_getprioceiling_1_1 :: "('a, 'z) attr_api_scheme \<Rightarrow> 'a \<Rightarrow> int" where
  "pthread_mutexattr_getprioceiling_1_1 api x =
     ok_or (at_init api x) PTS_UNRESOLVED (\<lambda>x.
     ok_or (at_get api Prioceiling x) PTS_UNRESOLVED (\<lambda>prioceiling.
     let max_prio = at_pmax api (at_const api SCHED_FIFO); min_prio = at_pmin api (at_const api SCHED_FIFO) in
     if prioceiling < min_prio \<or> prioceiling > max_prio then PTS_FAIL else PTS_PASS))"

primrec each_ceiling :: "('a, 'z) attr_api_scheme \<Rightarrow> int list \<Rightarrow> 'a \<Rightarrow> int" where
  "each_ceiling api [] x = PTS_PASS"
| "each_ceiling api (i # is) x =
     ok_or (at_set api Prioceiling i x) PTS_UNRESOLVED (\<lambda>x.
     ok_or (at_get api Prioceiling x) PTS_UNRESOLVED (\<lambda>prioceiling. if prioceiling \<noteq> i then PTS_FAIL else each_ceiling api is x))"

text \<open>The priorities of \<^verbatim>\<open>for(i=min_prio;(i<max_prio+1);i++)\<close>.\<close>

definition fifo_priorities :: "('a, 'z) attr_api_scheme \<Rightarrow> int list" where
  "fifo_priorities api = [at_pmin api (at_const api SCHED_FIFO)..at_pmax api (at_const api SCHED_FIFO)]"

definition pthread_mutexattr_getprioceiling_1_2 :: "('a, 'z) attr_api_scheme \<Rightarrow> 'a \<Rightarrow> int" where
  "pthread_mutexattr_getprioceiling_1_2 api x =
     ok_or (at_init api x) PTS_UNRESOLVED (each_ceiling api (fifo_priorities api))"

definition pthread_mutexattr_getprioceiling_3_1 :: "('a, 'z) attr_api_scheme \<Rightarrow> 'a \<Rightarrow> int" where
  "pthread_mutexattr_getprioceiling_3_1 api x =
     may_einval (fst (at_get api Prioceiling x))"

primrec set_each_ceiling :: "('a, 'z) attr_api_scheme \<Rightarrow> int list \<Rightarrow> 'a \<Rightarrow> int" where
  "set_each_ceiling api [] x = PTS_PASS"
| "set_each_ceiling api (i # is) x = ok_or (at_set api Prioceiling i x) PTS_FAIL (set_each_ceiling api is)"

definition pthread_mutexattr_setprioceiling_1_1 :: "('a, 'z) attr_api_scheme \<Rightarrow> 'a \<Rightarrow> int" where
  "pthread_mutexattr_setprioceiling_1_1 api x =
     ok_or (at_init api x) PTS_UNRESOLVED (set_each_ceiling api (fifo_priorities api))"

definition pthread_mutexattr_setprioceiling_3_1 :: "('a, 'z) attr_api_scheme \<Rightarrow> 'a \<Rightarrow> int" where
  "pthread_mutexattr_setprioceiling_3_1 api x =
     may_einval (fst (at_set api Prioceiling (at_pmin api (at_const api SCHED_FIFO)) x))"

definition pthread_mutexattr_setprioceiling_3_2 :: "('a, 'z) attr_api_scheme \<Rightarrow> 'a \<Rightarrow> int" where
  "pthread_mutexattr_setprioceiling_3_2 api x =
     may_einval (fst (at_set api Prioceiling (at_pmax api (at_const api SCHED_FIFO) + 1) x))"

definition pthread_mutexattr_getprotocol_1_1 :: "('a, 'z) attr_api_scheme \<Rightarrow> 'a \<Rightarrow> int" where
  "pthread_mutexattr_getprotocol_1_1 api x =
     ok_or (at_init api x) PTS_UNRESOLVED (\<lambda>x. ok_or (at_get api Protocol x) PTS_FAIL (\<lambda>_. PTS_PASS))"

primrec each_protocol :: "('a, 'z) attr_api_scheme \<Rightarrow> aconst list \<Rightarrow> 'a \<Rightarrow> int" where
  "each_protocol api [] x = PTS_PASS"
| "each_protocol api (v # vs) x =
     set_attr api Protocol v PTS_UNRESOLVED x (\<lambda>x. get_attr api Protocol v PTS_UNRESOLVED PTS_FAIL x (each_protocol api vs x))"

definition protcls :: "aconst list" where
  "protcls = [PRIO_NONE, PRIO_INHERIT, PRIO_PROTECT]"

definition pthread_mutexattr_getprotocol_1_2 :: "('a, 'z) attr_api_scheme \<Rightarrow> 'a \<Rightarrow> int" where
  "pthread_mutexattr_getprotocol_1_2 api x =
     ok_or (at_init api x) PTS_UNRESOLVED (each_protocol api protcls)"

definition pthread_mutexattr_setprotocol_1_1 :: "('a, 'z) attr_api_scheme \<Rightarrow> 'a \<Rightarrow> int" where
  "pthread_mutexattr_setprotocol_1_1 api x =
     ok_or (at_init api x) PTS_UNRESOLVED (each_protocol api protcls)"

text \<open>The loop that counts down to a value that is none of the constants.\<close>

function other_than :: "int list \<Rightarrow> int \<Rightarrow> int" where
  "other_than cs p = (if p \<in> set cs then other_than cs (p - 1) else p)"
  by pat_completeness auto

lemma others_below: "p \<in> set cs \<Longrightarrow> card {c \<in> set cs. c \<le> p - 1} < card {c \<in> set cs. c \<le> (p :: int)}"
  by (rule psubset_card_mono) auto

termination other_than
  by (relation "measure (\<lambda>(cs, p). card {c \<in> set cs. c \<le> p})") (use others_below in auto)

declare other_than.simps [simp del]

definition pthread_mutexattr_setprotocol_3_1 :: "('a, 'z) attr_api_scheme \<Rightarrow> 'a \<Rightarrow> int" where
  "pthread_mutexattr_setprotocol_3_1 api x =
     ok_or (at_init api x) PTS_UNRESOLVED (\<lambda>x.
     let e = fst (at_set api Protocol (other_than (map (at_const api) protcls) (- 1)) x) in
     if e = ENOTSUP \<or> e = EINVAL then PTS_PASS else PTS_FAIL)"

definition pthread_mutexattr_setprotocol_3_2 :: "('a, 'z) attr_api_scheme \<Rightarrow> 'a \<Rightarrow> int" where
  "pthread_mutexattr_setprotocol_3_2 api x =
     may_einval (fst (at_set api Protocol (at_const api PRIO_NONE) x))"

text \<open>\<^verbatim>\<open>#ifndef PTHREAD_PROCESS_SHARED\<close>\<close>

definition with_pshared :: "('a, 'z) attr_api_scheme \<Rightarrow> int \<Rightarrow> int \<Rightarrow> int" where
  "with_pshared api c k = (if \<not> at_has_pshared api then c else k)"

text \<open>The default of the attribute, and setting and reading it.\<close>

definition default_private :: "('a, 'z) attr_api_scheme \<Rightarrow> 'a \<Rightarrow> int" where
  "default_private api x = with_pshared api PTS_UNRESOLVED
     (ok_or (at_init api x) PTS_UNRESOLVED (\<lambda>x. get_attr api Pshared PROCESS_PRIVATE PTS_UNRESOLVED PTS_FAIL x PTS_PASS))"

definition set_get_pshared :: "aconst \<Rightarrow> ('a, 'z) attr_api_scheme \<Rightarrow> 'a \<Rightarrow> int" where
  "set_get_pshared v api x = with_pshared api PTS_UNRESOLVED
     (ok_or (at_init api x) PTS_UNRESOLVED (\<lambda>x. set_attr api Pshared v PTS_UNRESOLVED x (\<lambda>x.
      get_attr api Pshared v PTS_UNRESOLVED PTS_FAIL x PTS_PASS)))"

definition pthread_mutexattr_getpshared_1_1 :: "('a, 'z) attr_api_scheme \<Rightarrow> 'a \<Rightarrow> int" where
  "pthread_mutexattr_getpshared_1_1 = default_private"

definition pthread_mutexattr_getpshared_1_2 :: "('a, 'z) attr_api_scheme \<Rightarrow> 'a \<Rightarrow> int" where
  "pthread_mutexattr_getpshared_1_2 = set_get_pshared PROCESS_SHARED"

definition pthread_mutexattr_getpshared_1_3 :: "('a, 'z) attr_api_scheme \<Rightarrow> 'a \<Rightarrow> int" where
  "pthread_mutexattr_getpshared_1_3 = set_get_pshared PROCESS_PRIVATE"

text \<open>The object is filled with zeros: \<open>x\<close> is such an object.\<close>

definition pthread_mutexattr_getpshared_3_1 :: "('a, 'z) attr_api_scheme \<Rightarrow> 'a \<Rightarrow> int" where
  "pthread_mutexattr_getpshared_3_1 api x =
     with_pshared api PTS_UNRESOLVED (may_einval (fst (at_get api Pshared x)))"

definition pthread_mutexattr_setpshared_1_1 :: "('a, 'z) attr_api_scheme \<Rightarrow> 'a \<Rightarrow> int" where
  "pthread_mutexattr_setpshared_1_1 api x =
     ok_or (at_init api x) PTS_UNRESOLVED (\<lambda>x. set_attr api Pshared PROCESS_PRIVATE PTS_FAIL x (\<lambda>x.
     set_attr api Pshared PROCESS_SHARED PTS_FAIL x (\<lambda>_. PTS_PASS)))"

definition pthread_mutexattr_setpshared_1_2 :: "('a, 'z) attr_api_scheme \<Rightarrow> 'a \<Rightarrow> int" where
  "pthread_mutexattr_setpshared_1_2 = default_private"

definition pthread_mutexattr_setpshared_2_1 :: "('a, 'z) attr_api_scheme \<Rightarrow> 'a \<Rightarrow> int" where
  "pthread_mutexattr_setpshared_2_1 api x =
     with_pshared api PTS_UNRESOLVED
     (ok_or (at_init api x) PTS_UNRESOLVED (\<lambda>x. set_attr api Pshared PROCESS_PRIVATE PTS_FAIL x (\<lambda>_. PTS_PASS)))"

definition pthread_mutexattr_setpshared_2_2 :: "('a, 'z) attr_api_scheme \<Rightarrow> 'a \<Rightarrow> int" where
  "pthread_mutexattr_setpshared_2_2 api x =
     with_pshared api PTS_UNRESOLVED
     (ok_or (at_init api x) PTS_UNRESOLVED (\<lambda>x. set_attr api Pshared PROCESS_SHARED PTS_FAIL x (\<lambda>_. PTS_PASS)))"

definition pthread_mutexattr_setpshared_3_1 :: "('a, 'z) attr_api_scheme \<Rightarrow> 'a \<Rightarrow> int" where
  "pthread_mutexattr_setpshared_3_1 api x =
     with_pshared api PTS_UNRESOLVED (may_einval (fst (at_set api Pshared (at_const api PROCESS_PRIVATE) x)))"

definition pthread_mutexattr_setpshared_3_2 :: "('a, 'z) attr_api_scheme \<Rightarrow> 'a \<Rightarrow> int" where
  "pthread_mutexattr_setpshared_3_2 api x =
     with_pshared api PTS_UNRESOLVED (may_einval (fst (at_set api Pshared (- 1) x)))"

definition set_get_type :: "aconst \<Rightarrow> ('a, 'z) attr_api_scheme \<Rightarrow> 'a \<Rightarrow> int" where
  "set_get_type v api x =
     ok_or (at_init api x) PTS_UNRESOLVED (\<lambda>x. set_attr api Mtype v PTS_UNRESOLVED x (\<lambda>x.
     get_attr api Mtype v PTS_UNRESOLVED PTS_FAIL x PTS_PASS))"

definition pthread_mutexattr_gettype_1_1 :: "('a, 'z) attr_api_scheme \<Rightarrow> 'a \<Rightarrow> int" where
  "pthread_mutexattr_gettype_1_1 api x =
     ok_or (at_init api x) PTS_UNRESOLVED (\<lambda>x. get_attr api Mtype MUTEX_DEFAULT PTS_UNRESOLVED PTS_FAIL x PTS_PASS)"

definition pthread_mutexattr_gettype_1_2 :: "('a, 'z) attr_api_scheme \<Rightarrow> 'a \<Rightarrow> int" where
  "pthread_mutexattr_gettype_1_2 = set_get_type MUTEX_DEFAULT"

definition pthread_mutexattr_gettype_1_3 :: "('a, 'z) attr_api_scheme \<Rightarrow> 'a \<Rightarrow> int" where
  "pthread_mutexattr_gettype_1_3 = set_get_type MUTEX_NORMAL"

definition pthread_mutexattr_gettype_1_4 :: "('a, 'z) attr_api_scheme \<Rightarrow> 'a \<Rightarrow> int" where
  "pthread_mutexattr_gettype_1_4 = set_get_type MUTEX_ERRORCHECK"

definition pthread_mutexattr_gettype_1_5 :: "('a, 'z) attr_api_scheme \<Rightarrow> 'a \<Rightarrow> int" where
  "pthread_mutexattr_gettype_1_5 = set_get_type MUTEX_RECURSIVE"

definition pthread_mutexattr_settype_1_1 :: "('a, 'z) attr_api_scheme \<Rightarrow> 'a \<Rightarrow> int" where
  "pthread_mutexattr_settype_1_1 api x =
     ok_or (at_init api x) PTS_UNRESOLVED (\<lambda>x. get_attr api Mtype MUTEX_DEFAULT PTS_UNRESOLVED PTS_FAIL x (
     set_attr api Mtype MUTEX_NORMAL PTS_FAIL x (\<lambda>x. get_attr api Mtype MUTEX_NORMAL PTS_UNRESOLVED PTS_FAIL x (
     set_attr api Mtype MUTEX_ERRORCHECK PTS_FAIL x (\<lambda>x. get_attr api Mtype MUTEX_ERRORCHECK PTS_UNRESOLVED PTS_FAIL x (
     set_attr api Mtype MUTEX_RECURSIVE PTS_FAIL x (\<lambda>x. get_attr api Mtype MUTEX_RECURSIVE PTS_UNRESOLVED PTS_FAIL x (
     end_attr api PTS_UNRESOLVED x))))))))"

definition pthread_mutexattr_settype_7_1 :: "('a, 'z) attr_api_scheme \<Rightarrow> 'a \<Rightarrow> int" where
  "pthread_mutexattr_settype_7_1 api x =
     ok_or (at_init api x) PTS_UNRESOLVED (\<lambda>x.
     must_einval (at_set api Mtype (other_than (map (at_const api) [MUTEX_NORMAL, MUTEX_ERRORCHECK, MUTEX_RECURSIVE, MUTEX_DEFAULT]) (- 1)) x) (\<lambda>_. PTS_PASS))"

text \<open>The part that needs the macro is left out without it, and the end is reached.\<close>

definition pthread_mutexattr_init_1_1 :: "('a, 'z) attr_api_scheme \<Rightarrow> 'a \<Rightarrow> int" where
  "pthread_mutexattr_init_1_1 api x =
     ok_or (at_init api x) PTS_FAIL (\<lambda>x.
     with_pshared api PTS_UNRESOLVED (get_attr api Pshared PROCESS_PRIVATE PTS_UNRESOLVED PTS_FAIL x PTS_PASS))"

section \<open>Condition variable attributes\<close>

definition pthread_condattr_init_1_1 :: "('a, 'z) attr_api_scheme \<Rightarrow> 'a \<Rightarrow> int" where
  "pthread_condattr_init_1_1 api x =
     ok_or (at_init api x) PTS_FAIL (\<lambda>x.
     with_pshared api PTS_UNRESOLVED (get_attr api Pshared PROCESS_PRIVATE PTS_UNRESOLVED PTS_FAIL x PTS_PASS))"

definition pthread_condattr_getclock_1_1 :: "('a, 'z) attr_api_scheme \<Rightarrow> 'a \<Rightarrow> int" where
  "pthread_condattr_getclock_1_1 api x =
     ok_or (at_init api x) PTS_FAIL (\<lambda>x. ok_or (at_get api Clock x) PTS_FAIL (\<lambda>_. PTS_PASS))"

definition pthread_condattr_getclock_1_2 :: "('a, 'z) attr_api_scheme \<Rightarrow> 'a \<Rightarrow> int" where
  "pthread_condattr_getclock_1_2 api x =
     ok_or (at_init api x) PTS_FAIL (\<lambda>x. set_attr api Clock REALTIME PTS_UNRESOLVED x (\<lambda>x.
     ok_or (at_get api Clock x) PTS_FAIL (\<lambda>_. PTS_PASS)))"

definition pthread_condattr_setclock_1_1 :: "('a, 'z) attr_api_scheme \<Rightarrow> 'a \<Rightarrow> int" where
  "pthread_condattr_setclock_1_1 api x =
     ok_or (at_init api x) PTS_FAIL (\<lambda>x. set_attr api Clock REALTIME PTS_FAIL x (\<lambda>_. PTS_PASS))"

definition pthread_condattr_setclock_1_2 :: "('a, 'z) attr_api_scheme \<Rightarrow> 'a \<Rightarrow> int" where
  "pthread_condattr_setclock_1_2 api x =
     (if at_getres api \<noteq> 0 then PTS_UNSUPPORTED else
      ok_or (at_init api x) PTS_FAIL (\<lambda>x. set_attr api Clock MONOTONIC PTS_FAIL x (\<lambda>_. PTS_PASS)))"

definition pthread_condattr_setclock_1_3 :: "('a, 'z) attr_api_scheme \<Rightarrow> 'a \<Rightarrow> int" where
  "pthread_condattr_setclock_1_3 api x =
     (if \<not> at_has_cputime api then PTS_UNSUPPORTED else if at_sc_cputime api = - 1 then PTS_UNSUPPORTED else
      ok_or (at_init api x) PTS_FAIL (\<lambda>x. ok_or (at_cpuclock api) PTS_FAIL (\<lambda>clockid. must_einval (at_set api Clock clockid x) (\<lambda>_. PTS_PASS))))"

definition pthread_condattr_setclock_2_1 :: "('a, 'z) attr_api_scheme \<Rightarrow> 'a \<Rightarrow> int" where
  "pthread_condattr_setclock_2_1 api x =
     ok_or (at_init api x) PTS_FAIL (\<lambda>x. if fst (at_set api Clock (- 100) x) \<noteq> EINVAL then PTS_PASS else PTS_PASS)"

definition pthread_condattr_getpshared_2_1 :: "('a, 'z) attr_api_scheme \<Rightarrow> 'a \<Rightarrow> int" where
  "pthread_condattr_getpshared_2_1 = default_private"

text \<open>Ten objects; \<open>c\<close> is the result when setting or reading fails.\<close>

primrec pshared_objects :: "nat \<Rightarrow> aconst \<Rightarrow> int \<Rightarrow> ('a, 'z) attr_api_scheme \<Rightarrow> 'a \<Rightarrow> int" where
  "pshared_objects 0 v c api x = PTS_PASS"
| "pshared_objects (Suc i) v c api x =
     ok_or (at_init api x) PTS_UNRESOLVED (\<lambda>y. set_attr api Pshared v c y (\<lambda>y. get_attr api Pshared v c PTS_FAIL y (
     ok_or (at_destroy api y) PTS_UNRESOLVED (\<lambda>_. pshared_objects i v c api x))))"

definition pthread_condattr_getpshared_1_1 :: "('a, 'z) attr_api_scheme \<Rightarrow> 'a \<Rightarrow> int" where
  "pthread_condattr_getpshared_1_1 api x =
     with_pshared api PTS_UNRESOLVED (pshared_objects 10 PROCESS_PRIVATE PTS_UNRESOLVED api x)"

definition pthread_condattr_getpshared_1_2 :: "('a, 'z) attr_api_scheme \<Rightarrow> 'a \<Rightarrow> int" where
  "pthread_condattr_getpshared_1_2 api x =
     with_pshared api PTS_UNRESOLVED (pshared_objects 10 PROCESS_SHARED PTS_UNRESOLVED api x)"

definition pthread_condattr_setpshared_1_1 :: "('a, 'z) attr_api_scheme \<Rightarrow> 'a \<Rightarrow> int" where
  "pthread_condattr_setpshared_1_1 api x =
     with_pshared api PTS_UNRESOLVED (pshared_objects 10 PROCESS_PRIVATE PTS_FAIL api x)"

definition pthread_condattr_setpshared_1_2 :: "('a, 'z) attr_api_scheme \<Rightarrow> 'a \<Rightarrow> int" where
  "pthread_condattr_setpshared_1_2 api x =
     with_pshared api PTS_UNRESOLVED (pshared_objects 10 PROCESS_SHARED PTS_FAIL api x)"

definition pthread_condattr_setpshared_2_1 :: "('a, 'z) attr_api_scheme \<Rightarrow> 'a \<Rightarrow> int" where
  "pthread_condattr_setpshared_2_1 api x =
     with_pshared api PTS_UNRESOLVED
     (ok_or (at_init api x) PTS_UNRESOLVED (\<lambda>x. let (e, x) = at_set api Pshared (- 100) x in
      if e \<noteq> EOK then (if e = EINVAL then PTS_PASS else PTS_FAIL) else end_attr api PTS_UNRESOLVED x))"

section \<open>Attributes of read-write locks and barriers\<close>

definition pthread_rwlockattr_getpshared_1_1 :: "('a, 'z) attr_api_scheme \<Rightarrow> 'a \<Rightarrow> int" where
  "pthread_rwlockattr_getpshared_1_1 api x =
     with_pshared api PTS_UNSUPPORTED
     (ok_or (at_init api x) PTS_UNRESOLVED (\<lambda>x. get_attr api Pshared PROCESS_PRIVATE PTS_FAIL PTS_FAIL x PTS_PASS))"

definition pthread_rwlockattr_getpshared_4_1 :: "('a, 'z) attr_api_scheme \<Rightarrow> 'a \<Rightarrow> int" where
  "pthread_rwlockattr_getpshared_4_1 api x =
     with_pshared api PTS_UNSUPPORTED
     (ok_or (at_init api x) PTS_UNRESOLVED (\<lambda>x. get_attr api Pshared PROCESS_PRIVATE PTS_UNRESOLVED PTS_FAIL x (end_attr api PTS_UNRESOLVED x)))"

definition pthread_rwlockattr_init_1_1 :: "('a, 'z) attr_api_scheme \<Rightarrow> 'a \<Rightarrow> int" where
  "pthread_rwlockattr_init_1_1 api x =
     ok_or (at_init api x) PTS_FAIL (\<lambda>x.
     with_pshared api PTS_UNSUPPORTED (get_attr api Pshared PROCESS_PRIVATE PTS_UNRESOLVED PTS_FAIL x PTS_PASS))"

definition pthread_rwlockattr_setpshared_1_1 :: "('a, 'z) attr_api_scheme \<Rightarrow> 'a \<Rightarrow> int" where
  "pthread_rwlockattr_setpshared_1_1 api x =
     with_pshared api PTS_UNSUPPORTED
     (ok_or (at_init api x) PTS_UNRESOLVED (\<lambda>x.
      set_attr api Pshared PROCESS_PRIVATE PTS_FAIL x (\<lambda>x. get_attr api Pshared PROCESS_PRIVATE PTS_UNRESOLVED PTS_FAIL x (
      set_attr api Pshared PROCESS_SHARED PTS_FAIL x (\<lambda>x. get_attr api Pshared PROCESS_SHARED PTS_UNRESOLVED PTS_FAIL x (
      end_attr api PTS_UNRESOLVED x))))))"

definition pthread_barrierattr_getpshared_1_1 :: "('a, 'z) attr_api_scheme \<Rightarrow> 'a \<Rightarrow> int" where
  "pthread_barrierattr_getpshared_1_1 api x =
     ok_or (at_init api x) PTS_UNRESOLVED (\<lambda>x. get_attr api Pshared PROCESS_PRIVATE PTS_FAIL PTS_UNRESOLVED x (end_attr api PTS_UNRESOLVED x))"

definition pthread_barrierattr_init_1_1 :: "('a, 'z) attr_api_scheme \<Rightarrow> 'a \<Rightarrow> int" where
  "pthread_barrierattr_init_1_1 api x =
     ok_or (at_init api x) PTS_FAIL (\<lambda>x. get_attr api Pshared PROCESS_PRIVATE PTS_UNRESOLVED PTS_FAIL x (end_attr api PTS_UNRESOLVED x))"

definition pthread_barrierattr_setpshared_1_1 :: "('a, 'z) attr_api_scheme \<Rightarrow> 'a \<Rightarrow> int" where
  "pthread_barrierattr_setpshared_1_1 api x =
     with_pshared api PTS_UNSUPPORTED
     (ok_or (at_init api x) PTS_UNRESOLVED (\<lambda>x.
      set_attr api Pshared PROCESS_SHARED PTS_FAIL x (\<lambda>x. get_attr api Pshared PROCESS_SHARED PTS_FAIL PTS_FAIL x (
      set_attr api Pshared PROCESS_PRIVATE PTS_FAIL x (\<lambda>x. get_attr api Pshared PROCESS_PRIVATE PTS_FAIL PTS_FAIL x PTS_PASS)))))"

definition pthread_barrierattr_setpshared_2_1 :: "('a, 'z) attr_api_scheme \<Rightarrow> 'a \<Rightarrow> int" where
  "pthread_barrierattr_setpshared_2_1 api x =
     with_pshared api PTS_UNSUPPORTED
     (ok_or (at_init api x) PTS_UNRESOLVED (\<lambda>x.
      let pshared = (let p = at_const api PROCESS_PRIVATE + 1 in if p = at_const api PROCESS_SHARED then p + 1 else p) in
      if fst (at_set api Pshared pshared x) = EINVAL then PTS_PASS else PTS_PASS))"

end
