(* ===== verification/Attr_Props.thy ===== *)
theory Attr_Props
  imports Attr_Tests
begin

text \<open>
  The contract of attribute objects, \<open>attr_objects\<close>, and what the programs of \<open>Attr_Tests\<close> report: those that initialise their object pass on every library that keeps it; which of them do not look
  at the attribute at all; and what the programs that set and read an attribute detect.
\<close>

section \<open>The contract\<close>

text \<open>The constants an attribute can be set to; the other attributes are numbers.\<close>

fun names :: "field \<Rightarrow> aconst set" where
  "names Detachstate = {CREATE_JOINABLE, CREATE_DETACHED}"
| "names Inheritsched = {INHERIT_SCHED, EXPLICIT_SCHED}"
| "names Schedpolicy = {SCHED_FIFO, SCHED_RR, SCHED_OTHER}"
| "names Scope = {SCOPE_SYSTEM, SCOPE_PROCESS}"
| "names Pshared = {PROCESS_PRIVATE, PROCESS_SHARED}"
| "names Protocol = {PRIO_NONE, PRIO_INHERIT, PRIO_PROTECT}"
| "names Mtype = {MUTEX_DEFAULT, MUTEX_NORMAL, MUTEX_ERRORCHECK, MUTEX_RECURSIVE}"
| "names Clock = {REALTIME, MONOTONIC}"
| "names _ = {}"

locale attr_objects =
  fixes api :: "('a, 'z) attr_api_scheme" and ok :: "'a \<Rightarrow> bool" and attr :: "'a \<Rightarrow> field \<Rightarrow> int" and settable :: "'a \<Rightarrow> field \<Rightarrow> int set"
  assumes init: "\<exists>y. at_init api x = (EOK, y) \<and> ok y \<and> attr y Detachstate = at_const api CREATE_JOINABLE \<and> attr y Pshared = at_const api PROCESS_PRIVATE
      \<and> attr y Mtype = at_const api MUTEX_DEFAULT
      \<and> attr y Prioceiling \<in> {at_pmin api (at_const api SCHED_FIFO)..at_pmax api (at_const api SCHED_FIFO)}"
    and destroy: "ok x \<Longrightarrow> \<exists>y. at_destroy api x = (EOK, y)"
    and get: "ok x \<Longrightarrow> at_get api f x = (EOK, attr x f)"
    and set: "ok x \<Longrightarrow> v \<in> settable x f \<Longrightarrow> \<exists>y. at_set api f v x = (EOK, y) \<and> ok y \<and> attr y = (attr x)(f := v)"
    and refuse: "ok x \<Longrightarrow> v \<notin> settable x f \<Longrightarrow>
      \<exists>e y. at_set api f v x = (e, y) \<and> (e = EINVAL \<or> e = ENOTSUP \<and> f = Scope \<and> v \<in> at_const api ` names f) \<and> ok y \<and> attr y = attr x"
    and named: "names f \<noteq> {} \<Longrightarrow> settable x f \<subseteq> at_const api ` names f" "f \<noteq> Scope \<Longrightarrow> at_const api ` names f \<subseteq> settable x f"
    and ceilings: "settable x Prioceiling = {at_pmin api (at_const api SCHED_FIFO)..at_pmax api (at_const api SCHED_FIFO)}"
    and priorities: "settable x Schedparam = {at_pmin api (attr x Schedpolicy)..at_pmax api (attr x Schedpolicy)}"
      "p \<in> names Schedpolicy \<Longrightarrow> at_pmin api (at_const api p) \<le> at_pmax api (at_const api p) \<and> at_pmax api (at_const api p) \<noteq> - 1"
    and sizes: "n \<in> settable x Stacksize \<longleftrightarrow> at_stackmin api \<le> n" "0 < at_pagesize api" "at_pagesize api \<le> at_stackmin api" "at_stackmin api < 2 ^ 64"
    and getstack: "ok x \<Longrightarrow> \<exists>s. at_getstack api x = (EOK, s)"
    and setstack: "ok x \<Longrightarrow> \<exists>e y. at_setstack api a n x = (e, y) \<and> ok y
      \<and> (n < at_stackmin api \<longrightarrow> e = EINVAL) \<and> (at_memalign api (at_pagesize api) n = (EOK, a) \<and> at_stackmin api \<le> n \<longrightarrow> e = EOK)"
begin

text \<open>The steps of the programs.\<close>

lemma initI: "(\<And>y. ok y \<Longrightarrow> attr y Detachstate = at_const api CREATE_JOINABLE \<Longrightarrow> attr y Pshared = at_const api PROCESS_PRIVATE \<Longrightarrow>
    attr y Mtype = at_const api MUTEX_DEFAULT \<Longrightarrow>
    attr y Prioceiling \<in> {at_pmin api (at_const api SCHED_FIFO)..at_pmax api (at_const api SCHED_FIFO)} \<Longrightarrow> k y = r) \<Longrightarrow>
  ok_or (at_init api x) c k = r"
  using init [of x] by auto

lemma setI: "ok x \<Longrightarrow> v \<in> settable x f \<Longrightarrow> (\<And>y. ok y \<Longrightarrow> attr y = (attr x)(f := v) \<Longrightarrow> k y = r) \<Longrightarrow> ok_or (at_set api f v x) c k = r"
  using set [of x v f] by auto

lemma set_attrI:
  assumes "ok x" and "v \<in> names f" and "f \<noteq> Scope" and "\<And>y. ok y \<Longrightarrow> attr y = (attr x)(f := at_const api v) \<Longrightarrow> k y = r"
  shows "set_attr api f v c x k = r"
  unfolding set_attr_def using assms named(2) [of f x] by (intro setI) auto

lemma get_simp [simp]: "ok x \<Longrightarrow> ok_or (at_get api f x) c k = k (attr x f)"
  by (simp add: get)

lemma get_attrI: "ok x \<Longrightarrow> attr x f = at_const api v \<Longrightarrow> k = r \<Longrightarrow> get_attr api f v c d x k = r"
  by (simp add: get_attr_def)

lemma destroyI: "ok x \<Longrightarrow> (\<And>y. k y = r) \<Longrightarrow> ok_or (at_destroy api x) c k = r"
  using destroy [of x] by auto

lemma end_attrI: "ok x \<Longrightarrow> end_attr api c x = PTS_PASS"
  by (simp add: end_attr_def destroyI)

lemma einvalI:
  assumes "ok x" and "v \<notin> settable x f" and "v \<notin> at_const api ` names f" and "\<And>y. ok y \<Longrightarrow> k y = r"
  shows "must_einval (at_set api f v x) k = r"
  using refuse [OF assms(1,2)] assms(3,4) by (auto simp: must_einval_def)

lemma not_named: "v \<notin> at_const api ` names f \<Longrightarrow> names f \<noteq> {} \<Longrightarrow> v \<notin> settable x f"
  using named(1) by blast

lemma memalignI: "\<exists>a. at_memalign api (at_pagesize api) n = (EOK, a) \<Longrightarrow> (\<And>a. at_memalign api (at_pagesize api) n = (EOK, a) \<Longrightarrow> k a = r) \<Longrightarrow>
  ok_or (at_memalign api (at_pagesize api) n) c k = r"
  by auto

lemma getstackI: "ok x \<Longrightarrow> (\<And>s. k s = r) \<Longrightarrow> ok_or (at_getstack api x) c k = r"
  using getstack [of x] by auto

lemma stacksize: "STACKSIZE api = at_stackmin api - at_pagesize api" "0 \<le> STACKSIZE api" "STACKSIZE api < 2 ^ 64" "STACKSIZE api < at_stackmin api"
proof -
  show "STACKSIZE api = at_stackmin api - at_pagesize api" using sizes(2-4) by (simp add: STACKSIZE_def)
  then show "0 \<le> STACKSIZE api" "STACKSIZE api < 2 ^ 64" "STACKSIZE api < at_stackmin api" using sizes(2-4) by auto
qed

section \<open>The programs\<close>

lemma destroy_programs:
  "init_destroy api x = PTS_PASS" "init_again api x = PTS_PASS" "init_error api x = PTS_PASS" "pthread_barrierattr_destroy_1_1 api x = PTS_PASS"
  using init [of x]
  by (auto simp: init_destroy_def init_again_def init_error_def pthread_barrierattr_destroy_1_1_def intro!: initI destroyI end_attrI)

lemma detach_programs:
  "pthread_attr_getdetachstate_1_1 api x = PTS_PASS" "pthread_attr_getdetachstate_1_2 api x = PTS_PASS" "pthread_attr_init_1_1 api x = PTS_PASS"
  "v \<in> names Detachstate \<Longrightarrow> set_detachstate v api x = PTS_PASS"
  "1000000 \<notin> at_const api ` names Detachstate \<Longrightarrow> pthread_attr_setdetachstate_4_1 api x = PTS_PASS"
  unfolding pthread_attr_getdetachstate_1_1_def pthread_attr_getdetachstate_1_2_def pthread_attr_init_1_1_def set_detachstate_def
    pthread_attr_setdetachstate_4_1_def
  using not_named [of 1000000 Detachstate] by (auto intro!: initI get_attrI set_attrI einvalI)

lemma sched_programs:
  "inherit_then_explicit api x = PTS_PASS" "pthread_attr_getschedpolicy_2_1 api x = PTS_PASS"
  "names f \<noteq> {} \<Longrightarrow> 999 \<notin> at_const api ` names f \<Longrightarrow> refuse_999 f api x = PTS_PASS"
  unfolding inherit_then_explicit_def pthread_attr_getschedpolicy_2_1_def refuse_999_def
  using not_named [of 999 f] by (auto intro!: initI get_attrI set_attrI einvalI end_attrI)

lemma policy_paramI:
  assumes "ok x" and "v \<in> names Schedpolicy" and "\<And>y. ok y \<Longrightarrow> k y = r"
  shows "policy_param api v x k = r"
  unfolding policy_param_def Let_def
  using assms priorities(2) [OF assms(2)] by (auto simp: priorities(1) intro!: set_attrI setI)

lemma try_scopeI:
  assumes "ok x" and "\<And>y. ok y \<Longrightarrow> k y = r"
  shows "try_scope api v x k = r"
proof (cases "at_const api v \<in> settable x Scope")
  case True
  with set [OF assms(1) this] assms show ?thesis by (auto simp: try_scope_def intro!: get_attrI)
next
  case False
  with refuse [OF assms(1) this] assms show ?thesis by (auto simp: try_scope_def)
qed

lemma param_programs: "pthread_attr_getschedparam_1_1 api x = PTS_PASS" "pthread_attr_getscope_1_1 api x = PTS_PASS"
  unfolding pthread_attr_getschedparam_1_1_def pthread_attr_getscope_1_1_def by (auto intro!: initI policy_paramI try_scopeI end_attrI)

lemma setstackI:
  assumes "ok x" and "\<And>e y. ok y \<Longrightarrow> n < at_stackmin api \<longrightarrow> e = EINVAL \<Longrightarrow>
    at_memalign api (at_pagesize api) n = (EOK, a) \<and> at_stackmin api \<le> n \<longrightarrow> e = EOK \<Longrightarrow> P (e, y)"
  shows "P (at_setstack api a n x)"
proof -
  from setstack [OF assms(1), of a n] obtain e y where "at_setstack api a n x = (e, y)" "ok y" "n < at_stackmin api \<longrightarrow> e = EINVAL"
    "at_memalign api (at_pagesize api) n = (EOK, a) \<and> at_stackmin api \<le> n \<longrightarrow> e = EOK" by blast
  with assms(2) [of y e] show ?thesis by simp
qed

lemma keeps_ok: "ok x \<Longrightarrow> ok (snd (at_setstack api a n x))"
  using setstack [of x a n] by auto

lemma small_stackI:
  assumes "ok x" and "\<And>y. ok y \<Longrightarrow> k y = r"
  shows "must_einval (at_setstack api a (STACKSIZE api) x) k = r"
  using setstack [OF assms(1), of a "STACKSIZE api"] assms(2) stacksize(4) by (auto simp: must_einval_def)

lemma stack_programs:
  assumes memory: "\<And>n. 0 \<le> n \<Longrightarrow> n \<le> at_stackmin api \<Longrightarrow> \<exists>a. at_memalign api (at_pagesize api) n = (EOK, a)"
  shows "pthread_attr_getstack_1_1 api x = PTS_PASS" "pthread_attr_getstacksize_1_1 api x = PTS_PASS" "pthread_attr_setstack_6_1 api x = PTS_PASS"
  "pthread_attr_setstack_7_1 api x = PTS_PASS" "pthread_attr_setstacksize_4_1 api x = PTS_PASS"
proof -
  have m: "\<exists>a. at_memalign api (at_pagesize api) (at_stackmin api) = (EOK, a)"
    "\<exists>a. at_memalign api (at_pagesize api) (STACKSIZE api) = (EOK, a)"
    using memory [of "at_stackmin api"] memory [of "STACKSIZE api"] sizes(2,3) stacksize by simp_all
  show "pthread_attr_getstack_1_1 api x = PTS_PASS"
    unfolding pthread_attr_getstack_1_1_def Let_def
    by (intro initI getstackI memalignI m) (auto intro!: getstackI end_attrI setstackI [where P = "\<lambda>r. ok_or r c k = PTS_PASS" for c k])
  show "pthread_attr_getstacksize_1_1 api x = PTS_PASS"
    unfolding pthread_attr_getstacksize_1_1_def Let_def
    by (intro initI) (auto simp: sizes(1) intro!: memalignI [OF m(1)] setI end_attrI)
  show "pthread_attr_setstack_6_1 api x = PTS_PASS"
    unfolding pthread_attr_setstack_6_1_def Let_def
    by (intro initI getstackI memalignI m)
      (auto intro!: small_stackI end_attrI)
  show "pthread_attr_setstack_7_1 api x = PTS_PASS"
    unfolding pthread_attr_setstack_7_1_def Let_def
    by (intro initI getstackI memalignI m) (auto simp: split_beta intro!: end_attrI keeps_ok)
  show "pthread_attr_setstacksize_4_1 api x = PTS_PASS"
    unfolding pthread_attr_setstacksize_4_1_def Let_def
    by (intro initI memalignI m einvalI end_attrI) (use stacksize(4) in \<open>auto simp: sizes(1)\<close>)
qed

lemma other_than_not: "other_than cs p \<notin> set cs"
  by (induction cs p rule: other_than.induct) (simp add: other_than.simps)

lemma each_ceiling_passes: "ok x \<Longrightarrow> set ps \<subseteq> settable x Prioceiling \<Longrightarrow> each_ceiling api ps x = PTS_PASS"
  by (induction ps arbitrary: x) (auto simp: ceilings intro!: setI)

lemma set_each_ceiling_passes: "ok x \<Longrightarrow> set ps \<subseteq> settable x Prioceiling \<Longrightarrow> set_each_ceiling api ps x = PTS_PASS"
  by (induction ps arbitrary: x) (auto simp: ceilings intro!: setI)

lemma each_protocol_passes: "ok x \<Longrightarrow> set vs \<subseteq> names Protocol \<Longrightarrow> each_protocol api vs x = PTS_PASS"
  by (induction vs arbitrary: x) (auto intro!: set_attrI get_attrI)

lemma ceiling_programs:
  "pthread_mutexattr_getprioceiling_1_1 api x = PTS_PASS" "pthread_mutexattr_getprioceiling_1_2 api x = PTS_PASS"
  "pthread_mutexattr_setprioceiling_1_1 api x = PTS_PASS"
  unfolding pthread_mutexattr_getprioceiling_1_1_def pthread_mutexattr_getprioceiling_1_2_def
    pthread_mutexattr_setprioceiling_1_1_def   Let_def
  by (auto simp: fifo_priorities_def ceilings intro!: initI each_ceiling_passes set_each_ceiling_passes)

lemma protocol_programs:
  "pthread_mutexattr_getprotocol_1_1 api x = PTS_PASS" "pthread_mutexattr_getprotocol_1_2 api x = PTS_PASS"
  "pthread_mutexattr_setprotocol_1_1 api x = PTS_PASS" "pthread_mutexattr_setprotocol_3_1 api x = PTS_PASS"
proof -
  show "pthread_mutexattr_getprotocol_1_1 api x = PTS_PASS" "pthread_mutexattr_getprotocol_1_2 api x = PTS_PASS"
    "pthread_mutexattr_setprotocol_1_1 api x = PTS_PASS"
    unfolding pthread_mutexattr_getprotocol_1_1_def pthread_mutexattr_getprotocol_1_2_def pthread_mutexattr_setprotocol_1_1_def
    by (auto simp: protcls_def intro!: initI each_protocol_passes)
  let ?v = "other_than (map (at_const api) protcls) (- 1)"
  have "?v \<notin> at_const api ` names Protocol" using other_than_not [of "map (at_const api) protcls" "- 1"] by (simp add: protcls_def)
  then have v: "?v \<notin> settable y Protocol" for y by (rule not_named) simp
  have "fst (at_set api Protocol ?v y) = EINVAL" if "ok y" for y using refuse [OF that v] by auto
  then show "pthread_mutexattr_setprotocol_3_1 api x = PTS_PASS"
    unfolding pthread_mutexattr_setprotocol_3_1_def by (auto intro!: initI)
qed

lemma type_programs:
  "v \<in> names Mtype \<Longrightarrow> set_get_type v api x = PTS_PASS" "pthread_mutexattr_gettype_1_1 api x = PTS_PASS"
  "pthread_mutexattr_settype_1_1 api x = PTS_PASS" "pthread_mutexattr_settype_7_1 api x = PTS_PASS"
proof -
  show "v \<in> names Mtype \<Longrightarrow> set_get_type v api x = PTS_PASS" "pthread_mutexattr_gettype_1_1 api x = PTS_PASS"
    "pthread_mutexattr_settype_1_1 api x = PTS_PASS"
    unfolding set_get_type_def pthread_mutexattr_gettype_1_1_def pthread_mutexattr_settype_1_1_def by (auto intro!: initI set_attrI get_attrI end_attrI)
  let ?cs = "map (at_const api) [MUTEX_NORMAL, MUTEX_ERRORCHECK, MUTEX_RECURSIVE, MUTEX_DEFAULT]"
  have "at_const api ` names Mtype = set ?cs" by auto
  then have v: "other_than ?cs (- 1) \<notin> at_const api ` names Mtype" using other_than_not [of ?cs "- 1"] by metis
  with not_named [OF v] show "pthread_mutexattr_settype_7_1 api x = PTS_PASS"
    unfolding pthread_mutexattr_settype_7_1_def by (auto intro!: initI einvalI)
qed

lemma pshared_objects_pass:
  assumes "v \<in> names Pshared"
  shows "pshared_objects i v c api x = PTS_PASS"
  using assms by (induction i) (auto intro!: initI set_attrI get_attrI destroyI)

lemma pshared_programs:
  assumes "at_has_pshared api"
  shows "default_private api x = PTS_PASS" "v \<in> names Pshared \<Longrightarrow> set_get_pshared v api x = PTS_PASS"
    "pthread_mutexattr_setpshared_1_1 api x = PTS_PASS" "pthread_mutexattr_setpshared_2_1 api x = PTS_PASS"
    "pthread_mutexattr_setpshared_2_2 api x = PTS_PASS"
    "pthread_mutexattr_init_1_1 api x = PTS_PASS" "pthread_condattr_init_1_1 api x = PTS_PASS"
    "pthread_condattr_getpshared_1_1 api x = PTS_PASS" "pthread_condattr_getpshared_1_2 api x = PTS_PASS"
    "pthread_condattr_setpshared_1_1 api x = PTS_PASS" "pthread_condattr_setpshared_1_2 api x = PTS_PASS"
    "pthread_rwlockattr_getpshared_1_1 api x = PTS_PASS" "pthread_rwlockattr_getpshared_4_1 api x = PTS_PASS"
    "pthread_rwlockattr_init_1_1 api x = PTS_PASS" "pthread_rwlockattr_setpshared_1_1 api x = PTS_PASS"
    "pthread_barrierattr_getpshared_1_1 api x = PTS_PASS" "pthread_barrierattr_init_1_1 api x = PTS_PASS"
    "pthread_barrierattr_setpshared_1_1 api x = PTS_PASS" "pthread_barrierattr_setpshared_2_1 api x = PTS_PASS"
  unfolding default_private_def set_get_pshared_def  pthread_mutexattr_setpshared_1_1_def
    pthread_mutexattr_setpshared_2_1_def pthread_mutexattr_setpshared_2_2_def
    pthread_mutexattr_init_1_1_def pthread_condattr_init_1_1_def pthread_condattr_getpshared_1_1_def pthread_condattr_getpshared_1_2_def
    pthread_condattr_setpshared_1_1_def pthread_condattr_setpshared_1_2_def pthread_rwlockattr_getpshared_1_1_def pthread_rwlockattr_getpshared_4_1_def
    pthread_rwlockattr_init_1_1_def pthread_rwlockattr_setpshared_1_1_def pthread_barrierattr_getpshared_1_1_def pthread_barrierattr_init_1_1_def
    pthread_barrierattr_setpshared_1_1_def pthread_barrierattr_setpshared_2_1_def with_pshared_def
  using assms by (auto simp: Let_def intro!: initI set_attrI get_attrI end_attrI pshared_objects_pass)

lemma setpshared_refused: "at_has_pshared api \<Longrightarrow> pthread_condattr_setpshared_2_1 api x = PTS_PASS"
proof -
  have r: "\<exists>e z. at_set api Pshared (- 100) y = (e, z) \<and> ok z \<and> (e = EOK \<or> e = EINVAL)" if "ok y" for y
    using set [OF that, of "- 100" Pshared] refuse [OF that, of "- 100" Pshared] by (cases "- 100 \<in> settable y Pshared") auto
  have "(let (e, z) = at_set api Pshared (- 100) y in if e \<noteq> EOK then (if e = EINVAL then PTS_PASS else PTS_FAIL) else end_attr api PTS_UNRESOLVED z) = PTS_PASS"
    if "ok y" for y using r [OF that] by (auto simp: end_attrI)
  then show "at_has_pshared api \<Longrightarrow> pthread_condattr_setpshared_2_1 api x = PTS_PASS"
    unfolding pthread_condattr_setpshared_2_1_def with_pshared_def by (simp add: initI)
qed

lemma clock_programs:
  "pthread_condattr_getclock_1_1 api x = PTS_PASS" "pthread_condattr_getclock_1_2 api x = PTS_PASS" "pthread_condattr_setclock_1_1 api x = PTS_PASS"
  "at_getres api = 0 \<Longrightarrow> pthread_condattr_setclock_1_2 api x = PTS_PASS" "pthread_condattr_setclock_2_1 api x = PTS_PASS"
  "at_has_cputime api \<Longrightarrow> at_sc_cputime api \<noteq> - 1 \<Longrightarrow> at_cpuclock api = (EOK, cpu) \<Longrightarrow> cpu \<notin> at_const api ` names Clock \<Longrightarrow>
    pthread_condattr_setclock_1_3 api x = PTS_PASS"
  unfolding pthread_condattr_getclock_1_1_def pthread_condattr_getclock_1_2_def pthread_condattr_setclock_1_1_def pthread_condattr_setclock_1_2_def
    pthread_condattr_setclock_2_1_def pthread_condattr_setclock_1_3_def
  using not_named [of cpu Clock] by (auto intro!: initI set_attrI einvalI)

end

section \<open>All programs\<close>


lemmas shared_defs = pthread_attr_destroy_2_1_def pthread_attr_destroy_3_1_def pthread_attr_init_4_1_def pthread_mutexattr_destroy_1_1_def
  pthread_mutexattr_destroy_2_1_def pthread_mutexattr_destroy_3_1_def pthread_mutexattr_init_3_1_def pthread_condattr_destroy_1_1_def
  pthread_condattr_destroy_2_1_def pthread_condattr_destroy_3_1_def pthread_condattr_init_3_1_def pthread_rwlockattr_destroy_1_1_def
  pthread_rwlockattr_destroy_2_1_def pthread_attr_setdetachstate_1_1_def pthread_attr_setdetachstate_1_2_def pthread_attr_getinheritsched_1_1_def
  pthread_attr_setinheritsched_1_1_def pthread_attr_setinheritsched_4_1_def pthread_attr_setschedpolicy_4_1_def pthread_attr_setscope_4_1_def
  pthread_mutexattr_getpshared_1_1_def pthread_mutexattr_getpshared_1_2_def pthread_mutexattr_getpshared_1_3_def pthread_mutexattr_setpshared_1_2_def
  pthread_mutexattr_gettype_1_2_def pthread_mutexattr_gettype_1_3_def pthread_mutexattr_gettype_1_4_def pthread_mutexattr_gettype_1_5_def
  pthread_condattr_getpshared_2_1_def pthread_mutexattr_destroy_4_1_def pthread_condattr_destroy_4_1_def


text \<open>An executable library: an object is \<open>None\<close> before it is initialised. The process scope is not supported.\<close>

fun ref_const :: "aconst \<Rightarrow> int" where
  "ref_const CREATE_DETACHED = 1" | "ref_const EXPLICIT_SCHED = 1" | "ref_const SCHED_FIFO = 1" | "ref_const SCHED_RR = 2" | "ref_const SCOPE_PROCESS = 1"
| "ref_const PROCESS_SHARED = 1" | "ref_const PRIO_INHERIT = 1" | "ref_const PRIO_PROTECT = 2" | "ref_const MUTEX_ERRORCHECK = 2"
| "ref_const MUTEX_RECURSIVE = 1" | "ref_const MONOTONIC = 1" | "ref_const _ = 0"

definition ref_attr :: "(field \<Rightarrow> int) option \<Rightarrow> field \<Rightarrow> int" where
  "ref_attr x = (case x of None \<Rightarrow> (\<lambda>_. 0) | Some g \<Rightarrow> g)"

definition ref_pmin :: "int \<Rightarrow> int" where
  "ref_pmin p = (if p = 0 then 0 else 1)"

definition ref_pmax :: "int \<Rightarrow> int" where
  "ref_pmax p = (if p = 0 then 0 else 99)"

fun ref_settable :: "field \<Rightarrow> int \<Rightarrow> int \<Rightarrow> bool" where
  "ref_settable Schedparam p v \<longleftrightarrow> ref_pmin p \<le> v \<and> v \<le> ref_pmax p"
| "ref_settable Prioceiling p v \<longleftrightarrow> 1 \<le> v \<and> v \<le> 99"
| "ref_settable Stacksize p v \<longleftrightarrow> 16384 \<le> v"
| "ref_settable Scope p v \<longleftrightarrow> v = 0"
| "ref_settable Schedpolicy p v \<longleftrightarrow> v \<in> {0, 1, 2}"
| "ref_settable Protocol p v \<longleftrightarrow> v \<in> {0, 1, 2}"
| "ref_settable Mtype p v \<longleftrightarrow> v \<in> {0, 1, 2}"
| "ref_settable _ p v \<longleftrightarrow> v \<in> {0, 1}"

definition ref_set :: "field \<Rightarrow> int \<Rightarrow> (field \<Rightarrow> int) option \<Rightarrow> errno \<times> (field \<Rightarrow> int) option" where
  "ref_set f v x =
     (case x of
        None \<Rightarrow> (EINVAL, None)
      | Some g \<Rightarrow> if ref_settable f (g Schedpolicy) v then (EOK, Some (g(f := v))) else (if f = Scope \<and> v = 1 then ENOTSUP else EINVAL, x))"

definition ref_attr_api :: "(field \<Rightarrow> int) option attr_api" where
  "ref_attr_api = \<lparr>at_init = (\<lambda>_. (EOK, Some ((\<lambda>_. 0)(Prioceiling := 1, Stacksize := 16384)))), at_destroy = (\<lambda>_. (EOK, None)), at_destroy_null = EINVAL,
     at_set = ref_set, at_get = (\<lambda>f x. if x = None then (EINVAL, 0) else (EOK, ref_attr x f)), at_const = ref_const, at_has_pshared = True,
     at_pmin = ref_pmin, at_pmax = ref_pmax, at_setstack = (\<lambda>a n x. (if x = None \<or> n < 16384 \<or> a mod 16 \<noteq> 0 then EINVAL else EOK, x)),
     at_getstack = (\<lambda>x. (EOK, 0, 0)), at_memalign = (\<lambda>a n. (EOK, 4096)), at_pagesize = 4096, at_stackmin = 16384, at_getres = 0, at_has_cputime = True,
     at_sc_cputime = 200112, at_cpuclock = (EOK, - 6)\<rparr>"

interpretation ref_attr: attr_objects ref_attr_api "\<lambda>x. x \<noteq> None" ref_attr "\<lambda>x f. {v. ref_settable f (ref_attr x Schedpolicy) v}"
proof unfold_locales
  show "names f \<noteq> {} \<Longrightarrow> {v. ref_settable f (ref_attr x Schedpolicy) v} \<subseteq> at_const ref_attr_api ` names f" for f x
    by (cases f) (auto simp: ref_attr_api_def)
  show "f \<noteq> Scope \<Longrightarrow> at_const ref_attr_api ` names f \<subseteq> {v. ref_settable f (ref_attr x Schedpolicy) v}" for f x
    by (cases f) (auto simp: ref_attr_api_def)
qed (auto simp: ref_attr_api_def ref_attr_def ref_set_def ref_pmin_def ref_pmax_def split: option.splits)


section \<open>What the programs detect\<close>

text \<open>A library on which every call succeeds.\<close>

definition agreeable :: "('a, 'z) attr_api_scheme \<Rightarrow> bool" where
  "agreeable api \<longleftrightarrow> (\<forall>x. fst (at_init api x) = EOK \<and> fst (at_destroy api x) = EOK) \<and> (\<forall>f v x. fst (at_set api f v x) = EOK) \<and> (\<forall>f x. fst (at_get api f x) = EOK)
     \<and> (\<forall>a n x. fst (at_setstack api a n x) = EOK) \<and> (\<forall>x. fst (at_getstack api x) = EOK) \<and> (\<forall>a n. fst (at_memalign api a n) = EOK)"

definition blind_programs :: "('a, 'z) attr_api_scheme \<Rightarrow> ('a \<Rightarrow> int) list" where
  "blind_programs api =
     [pthread_mutexattr_destroy_4_1 api, pthread_condattr_destroy_4_1 api, pthread_attr_getstack_1_1 api, pthread_attr_getstacksize_1_1 api,
      pthread_attr_setstack_7_1 api, pthread_mutexattr_getprotocol_1_1 api, pthread_condattr_getclock_1_1 api, pthread_condattr_getclock_1_2 api,
      pthread_condattr_setclock_2_1 api, pthread_mutexattr_getprioceiling_3_1 api, pthread_mutexattr_setprioceiling_3_1 api,
      pthread_mutexattr_setprioceiling_3_2 api, pthread_mutexattr_setprotocol_3_2 api, pthread_mutexattr_getpshared_3_1 api,
      pthread_mutexattr_setpshared_3_1 api, pthread_mutexattr_setpshared_3_2 api, pthread_condattr_setpshared_2_1 api,
      pthread_barrierattr_setpshared_2_1 api]"

definition seeing_programs :: "('a, 'z) attr_api_scheme \<Rightarrow> ('a \<Rightarrow> int) list" where
  "seeing_programs api =
     [pthread_attr_getdetachstate_1_1 api, pthread_attr_getdetachstate_1_2 api, pthread_attr_init_1_1 api, pthread_attr_setdetachstate_1_1 api,
      pthread_attr_setdetachstate_1_2 api, pthread_attr_setdetachstate_4_1 api, pthread_attr_getinheritsched_1_1 api,
      pthread_attr_setinheritsched_1_1 api, pthread_attr_setinheritsched_4_1 api, pthread_attr_setschedpolicy_4_1 api, pthread_attr_setscope_4_1 api,
      pthread_attr_getschedpolicy_2_1 api, pthread_attr_getscope_1_1 api, pthread_attr_setstack_6_1 api, pthread_attr_setstacksize_4_1 api,
      pthread_mutexattr_getprotocol_1_2 api, pthread_mutexattr_setprotocol_1_1 api, pthread_mutexattr_setprotocol_3_1 api,
      pthread_mutexattr_getpshared_1_1 api, pthread_mutexattr_getpshared_1_2 api, pthread_mutexattr_getpshared_1_3 api,
      pthread_mutexattr_setpshared_1_2 api, pthread_mutexattr_gettype_1_1 api, pthread_mutexattr_gettype_1_2 api, pthread_mutexattr_gettype_1_3 api,
      pthread_mutexattr_gettype_1_4 api, pthread_mutexattr_gettype_1_5 api, pthread_mutexattr_settype_1_1 api, pthread_mutexattr_settype_7_1 api,
      pthread_mutexattr_init_1_1 api, pthread_condattr_init_1_1 api, pthread_condattr_getpshared_2_1 api, pthread_condattr_getpshared_1_1 api,
      pthread_condattr_getpshared_1_2 api, pthread_condattr_setpshared_1_1 api, pthread_condattr_setpshared_1_2 api,
      pthread_rwlockattr_getpshared_1_1 api, pthread_rwlockattr_getpshared_4_1 api, pthread_rwlockattr_init_1_1 api,
      pthread_rwlockattr_setpshared_1_1 api, pthread_barrierattr_getpshared_1_1 api, pthread_barrierattr_init_1_1 api,
      pthread_barrierattr_setpshared_1_1 api]"

lemmas blind_defs = pthread_attr_getstack_1_1_def pthread_attr_getstacksize_1_1_def pthread_attr_setstack_7_1_def
  pthread_mutexattr_getprotocol_1_1_def pthread_condattr_getclock_1_1_def pthread_condattr_getclock_1_2_def
  pthread_condattr_setclock_2_1_def pthread_mutexattr_getprioceiling_3_1_def pthread_mutexattr_setprioceiling_3_1_def
  pthread_mutexattr_setprioceiling_3_2_def pthread_mutexattr_setprotocol_3_2_def pthread_mutexattr_getpshared_3_1_def
  pthread_mutexattr_setpshared_3_1_def pthread_mutexattr_setpshared_3_2_def pthread_condattr_setpshared_2_1_def
  pthread_barrierattr_setpshared_2_1_def

lemmas seeing_defs = pthread_attr_getdetachstate_1_1_def pthread_attr_getdetachstate_1_2_def pthread_attr_init_1_1_def
  pthread_attr_setdetachstate_1_1_def pthread_attr_setdetachstate_1_2_def pthread_attr_setdetachstate_4_1_def
  pthread_attr_getinheritsched_1_1_def pthread_attr_setinheritsched_1_1_def pthread_attr_setinheritsched_4_1_def
  pthread_attr_setschedpolicy_4_1_def pthread_attr_setscope_4_1_def pthread_attr_getschedpolicy_2_1_def
  pthread_attr_getscope_1_1_def pthread_attr_setstack_6_1_def pthread_attr_setstacksize_4_1_def
  pthread_mutexattr_getprotocol_1_2_def pthread_mutexattr_setprotocol_1_1_def pthread_mutexattr_setprotocol_3_1_def
  pthread_mutexattr_getpshared_1_1_def pthread_mutexattr_getpshared_1_2_def pthread_mutexattr_getpshared_1_3_def
  pthread_mutexattr_setpshared_1_2_def pthread_mutexattr_gettype_1_1_def pthread_mutexattr_gettype_1_2_def
  pthread_mutexattr_gettype_1_3_def pthread_mutexattr_gettype_1_4_def pthread_mutexattr_gettype_1_5_def
  pthread_mutexattr_settype_1_1_def pthread_mutexattr_settype_7_1_def pthread_mutexattr_init_1_1_def
  pthread_condattr_init_1_1_def pthread_condattr_getpshared_2_1_def pthread_condattr_getpshared_1_1_def
  pthread_condattr_getpshared_1_2_def pthread_condattr_setpshared_1_1_def pthread_condattr_setpshared_1_2_def
  pthread_rwlockattr_getpshared_1_1_def pthread_rwlockattr_getpshared_4_1_def pthread_rwlockattr_init_1_1_def
  pthread_rwlockattr_setpshared_1_1_def pthread_barrierattr_getpshared_1_1_def pthread_barrierattr_init_1_1_def
  pthread_barrierattr_setpshared_1_1_def
  set_detachstate_def inherit_then_explicit_def refuse_999_def default_private_def set_get_pshared_def set_get_type_def

text \<open>C22. On a library on which every call succeeds, no attribute ever has the value of a constant and the process-shared option is there, the 18 programs of
  \<open>blind_programs\<close> pass and the 43 programs of \<open>seeing_programs\<close> do not.\<close>

theorem attr_programs_detect:
  assumes "agreeable api" and "at_has_pshared api" and "\<forall>f x v. snd (at_get api f x) \<noteq> at_const api v"
  shows "(\<forall>p \<in> set (blind_programs api). p x = PTS_PASS) \<and> (\<forall>p \<in> set (seeing_programs api). p x \<noteq> PTS_PASS)"
proof
  note a = assms(1) [unfolded agreeable_def]
  show "\<forall>p \<in> set (blind_programs api). p x = PTS_PASS"
    unfolding blind_programs_def using a assms(2)
    by (auto simp: shared_defs blind_defs destroy_null_def ok_or_def set_attr_def end_attr_def may_einval_def with_pshared_def split_beta Let_def)
  show "\<forall>p \<in> set (seeing_programs api). p x \<noteq> PTS_PASS"
    unfolding seeing_programs_def using a assms(2,3)
    by (auto simp: shared_defs seeing_defs ok_or_def set_attr_def get_attr_def end_attr_def must_einval_def with_pshared_def try_scope_def protcls_def
        numeral_eq_Suc pts_defs split_beta Let_def)
qed


text \<open>A library that forgets what it is told.\<close>

definition forgetful_api :: "unit attr_api" where
  "forgetful_api = \<lparr>at_init = (\<lambda>x. (EOK, x)), at_destroy = (\<lambda>x. (EOK, x)), at_destroy_null = EOK, at_set = (\<lambda>f v x. (EOK, x)), at_get = (\<lambda>f x. (EOK, 77)),
     at_const = ref_const, at_has_pshared = True, at_pmin = ref_pmin, at_pmax = ref_pmax, at_setstack = (\<lambda>a n x. (EOK, x)), at_getstack = (\<lambda>x. (EOK, 0, 0)),
     at_memalign = (\<lambda>a n. (EOK, 4096)), at_pagesize = 4096, at_stackmin = 16384, at_getres = 0, at_has_cputime = True, at_sc_cputime = 200112, at_cpuclock = (EOK, - 6)\<rparr>"

theorem attr_programs_detect_witness:
  "pthread_attr_getstack_1_1 forgetful_api () = PTS_PASS \<and> pthread_mutexattr_gettype_1_3 forgetful_api () \<noteq> PTS_PASS"
proof -
  have "77 \<noteq> ref_const v" for v by (cases v) simp_all
  then have "agreeable forgetful_api" "at_has_pshared forgetful_api" "\<forall>f x v. snd (at_get forgetful_api f x) \<noteq> at_const forgetful_api v"
    by (simp_all add: agreeable_def forgetful_api_def)
  from attr_programs_detect [OF this, of "()"] show ?thesis by (simp add: blind_programs_def seeing_programs_def)
qed

end
