(* ===== verification/Sched_Tests.thy ===== *)
theory Sched_Tests
  imports Time_Arith
begin

text \<open>
  Conformance programs for the scheduling calls (\<^verbatim>\<open>sched_getparam\<close>, \<^verbatim>\<open>sched_setparam\<close>, \<^verbatim>\<open>sched_getscheduler\<close>, \<^verbatim>\<open>sched_setscheduler\<close>,
  \<^verbatim>\<open>sched_get_priority_max\<close>, \<^verbatim>\<open>sched_get_priority_min\<close>, \<^verbatim>\<open>sched_rr_get_interval\<close>, \<^verbatim>\<open>sched_yield\<close>). A program is a function of the system under
  test, \<open>api\<close>, of what its uninitialised \<^verbatim>\<open>struct sched_param\<close> holds, \<open>p\<close>, and of the state of the system, \<open>w\<close>; it gives the exit status.
  \<^verbatim>\<open>errno\<close> is part of the state, since several programs read it after calls that succeed. Output is left out and taken not to change
  \<^verbatim>\<open>errno\<close>.
\<close>

section \<open>The system under test\<close>

record sched_param =
  sched_priority :: int
  sched_ss_low_priority :: int
  sched_ss_repl_period :: timespec
  sched_ss_init_budget :: timespec
  sched_ss_max_repl :: int

text \<open>
  A call that fills an object takes its former contents and gives the new ones. The process identifier of the program is
  \<open>sc_getpid\<close>. \<open>sc_fork\<close> gives what \<^verbatim>\<open>fork\<close> returns; a program is followed in the process in which it returns that value. The macros
  \<^verbatim>\<open>_POSIX_SPORADIC_SERVER\<close> and \<^verbatim>\<open>_POSIX_THREAD_SPORADIC_SERVER\<close> may be undefined; \<open>sc_has_SPORADIC\<close>: the macro \<^verbatim>\<open>SCHED_SPORADIC\<close> is defined.
  A program with a thread has one attribute object, which is part of the state; its thread only sleeps.
\<close>

record 'w sched_api =
  sc_errno :: "'w \<Rightarrow> errno"
  sc_getpid :: int
  sc_getparam :: "int \<Rightarrow> sched_param \<Rightarrow> 'w \<Rightarrow> int \<times> sched_param \<times> 'w"
  sc_setparam :: "int \<Rightarrow> sched_param \<Rightarrow> 'w \<Rightarrow> int \<times> 'w"
  sc_getscheduler :: "int \<Rightarrow> 'w \<Rightarrow> int \<times> 'w"
  sc_setscheduler :: "int \<Rightarrow> int \<Rightarrow> sched_param \<Rightarrow> 'w \<Rightarrow> int \<times> 'w"
  sc_priority_max :: "int \<Rightarrow> 'w \<Rightarrow> int \<times> 'w"
  sc_priority_min :: "int \<Rightarrow> 'w \<Rightarrow> int \<times> 'w"
  sc_rr_get_interval :: "int \<Rightarrow> timespec \<Rightarrow> 'w \<Rightarrow> int \<times> timespec \<times> 'w"
  sc_yield :: "'w \<Rightarrow> int \<times> 'w"
  sc_fork :: "'w \<Rightarrow> int \<times> 'w"
  sc_wait :: "'w \<Rightarrow> int \<times> 'w"
  sc_kill :: "int \<Rightarrow> 'w \<Rightarrow> int \<times> 'w"
  sc_sigemptyset :: "'w \<Rightarrow> int \<times> 'w"
  sc_sigaddset :: "'w \<Rightarrow> int \<times> 'w"
  sc_sigwait :: "'w \<Rightarrow> int \<times> 'w"
  sc_getuid :: "'w \<Rightarrow> int"
  sc_passwd :: "(string \<times> int) list"
  sc_setuid :: "int \<Rightarrow> 'w \<Rightarrow> int \<times> 'w"
  sc_seteuid :: "int \<Rightarrow> 'w \<Rightarrow> int \<times> 'w"
  sc_attr_init :: "'w \<Rightarrow> errno \<times> 'w"
  sc_attr_setscope_process :: "'w \<Rightarrow> errno \<times> 'w"
  sc_thread_create :: "'w \<Rightarrow> errno \<times> int \<times> 'w"
  sc_thread_getschedparam :: "int \<Rightarrow> sched_param \<Rightarrow> 'w \<Rightarrow> errno \<times> int \<times> sched_param \<times> 'w"
  sc_thread_cancel :: "int \<Rightarrow> 'w \<Rightarrow> errno \<times> 'w"
  sc_FIFO :: int
  sc_RR :: int
  sc_OTHER :: int
  sc_SPORADIC :: int
  sc_has_SPORADIC :: bool
  sc_POSIX_SPORADIC_SERVER :: "int option"
  sc_POSIX_THREAD_SPORADIC_SERVER :: "int option"
  sc_SS_REPL_MAX :: int

type_synonym ('w, 'z) sched_prog = "('w, 'z) sched_api_scheme \<Rightarrow> sched_param \<Rightarrow> 'w \<Rightarrow> int"

text \<open>\<^verbatim>\<open>defined(_POSIX_SPORADIC_SERVER) && (_POSIX_SPORADIC_SERVER != -1)\<close>, and the same for either macro.\<close>

definition has_ss :: "('w, 'z) sched_api_scheme \<Rightarrow> bool" where
  "has_ss api \<longleftrightarrow> sc_POSIX_SPORADIC_SERVER api \<notin> {None, Some (- 1)}"

definition has_any_ss :: "('w, 'z) sched_api_scheme \<Rightarrow> bool" where
  "has_any_ss api \<longleftrightarrow> has_ss api \<or> sc_POSIX_THREAD_SPORADIC_SERVER api \<notin> {None, Some (- 1)}"

text \<open>\<^verbatim>\<open>set_nonroot\<close>: becoming the first user of the password file that is not \<^verbatim>\<open>root\<close>; the call is \<^verbatim>\<open>setuid\<close> or \<^verbatim>\<open>seteuid\<close>.\<close>

definition set_nonroot :: "(int \<Rightarrow> 'w \<Rightarrow> int \<times> 'w) \<Rightarrow> ('w, 'z) sched_api_scheme \<Rightarrow> 'w \<Rightarrow> int \<times> 'w" where
  "set_nonroot setid api w =
     (case find (\<lambda>u. fst u \<noteq> ''root'') (sc_passwd api) of
        None \<Rightarrow> (1, w)
      | Some u \<Rightarrow> let (r, w) = setid (snd u) w in if r \<noteq> 0 then (1, w) else (0, w))"

definition as_nonroot :: "(int \<Rightarrow> 'w \<Rightarrow> int \<times> 'w) \<Rightarrow> ('w, 'z) sched_api_scheme \<Rightarrow> 'w \<Rightarrow> ('w \<Rightarrow> int) \<Rightarrow> int" where
  "as_nonroot setid api w k =
     (if sc_getuid api w = 0 then let (r, w) = set_nonroot setid api w in if r \<noteq> 0 then PTS_UNTESTED else k w else k w)"

text \<open>Creating a child that exits at once and waiting for it; \<open>k\<close> goes on in the parent with the number of the ended process.\<close>

definition dead_child :: "('w, 'z) sched_api_scheme \<Rightarrow> 'w \<Rightarrow> (int \<Rightarrow> 'w \<Rightarrow> int) \<Rightarrow> int" where
  "dead_child api w k =
     (let (child_pid, w) = sc_fork api w in
      if child_pid = - 1 then PTS_UNRESOLVED
      else if child_pid = 0 then 0
      else let (r, w) = sc_wait api w in if r = - 1 then PTS_UNRESOLVED else k child_pid w)"

text \<open>The status of a process whose main thread ends with \<^verbatim>\<open>pthread_exit\<close> and that has no other thread: \<^verbatim>\<open>exit(0)\<close> is called.\<close>

definition main_thread_exit :: int where
  "main_thread_exit = 0"

section \<open>\<^verbatim>\<open>sched_get_priority_max\<close>, \<^verbatim>\<open>sched_get_priority_min\<close>\<close>

definition priority_limit :: "(int \<Rightarrow> 'w \<Rightarrow> int \<times> 'w) \<Rightarrow> int \<Rightarrow> ('w, 'z) sched_api_scheme \<Rightarrow> 'w \<Rightarrow> int" where
  "priority_limit get policy api w =
     (let (result, w) = get policy w in if result \<noteq> - 1 \<and> sc_errno api w = EOK then PTS_PASS else PTS_FAIL)"

definition priority_refused :: "(int \<Rightarrow> 'w \<Rightarrow> int \<times> 'w) \<Rightarrow> ('w, 'z) sched_api_scheme \<Rightarrow> 'w \<Rightarrow> int" where
  "priority_refused get api w =
     (let (result, w) = get (- 1) w in
      if result = - 1 \<and> sc_errno api w = EINVAL then PTS_PASS
      else if result \<noteq> - 1 then PTS_FAIL
      else if sc_errno api w \<noteq> EINVAL then PTS_FAIL else PTS_UNRESOLVED)"

definition sched_get_priority_max_1_1 :: "('w, 'z) sched_prog" where
  "sched_get_priority_max_1_1 api p w = priority_limit (sc_priority_max api) (sc_RR api) api w"

definition sched_get_priority_max_1_2 :: "('w, 'z) sched_prog" where
  "sched_get_priority_max_1_2 api p w = priority_limit (sc_priority_max api) (sc_FIFO api) api w"

definition sched_get_priority_max_1_3 :: "('w, 'z) sched_prog" where
  "sched_get_priority_max_1_3 api p w =
     (if has_any_ss api then priority_limit (sc_priority_max api) (sc_SPORADIC api) api w else PTS_UNSUPPORTED)"

definition sched_get_priority_max_1_4 :: "('w, 'z) sched_prog" where
  "sched_get_priority_max_1_4 api p w = priority_limit (sc_priority_max api) (sc_OTHER api) api w"

definition sched_get_priority_max_2_1 :: "('w, 'z) sched_prog" where
  "sched_get_priority_max_2_1 api p w = priority_refused (sc_priority_max api) api w"

definition sched_get_priority_min_1_1 :: "('w, 'z) sched_prog" where
  "sched_get_priority_min_1_1 api p w = priority_limit (sc_priority_min api) (sc_RR api) api w"

definition sched_get_priority_min_1_2 :: "('w, 'z) sched_prog" where
  "sched_get_priority_min_1_2 api p w = priority_limit (sc_priority_min api) (sc_FIFO api) api w"

definition sched_get_priority_min_1_3 :: "('w, 'z) sched_prog" where
  "sched_get_priority_min_1_3 api p w =
     (if has_any_ss api then priority_limit (sc_priority_min api) (sc_SPORADIC api) api w else PTS_UNSUPPORTED)"

definition sched_get_priority_min_1_4 :: "('w, 'z) sched_prog" where
  "sched_get_priority_min_1_4 api p w = priority_limit (sc_priority_min api) (sc_OTHER api) api w"

definition sched_get_priority_min_2_1 :: "('w, 'z) sched_prog" where
  "sched_get_priority_min_2_1 api p w = priority_refused (sc_priority_min api) api w"

section \<open>\<^verbatim>\<open>sched_getparam\<close>\<close>

definition sched_getparam_1_1 :: "('w, 'z) sched_prog" where
  "sched_getparam_1_1 api p w =
     (let p = p\<lparr>sched_priority := - 1\<rparr>; (result, p, w) = sc_getparam api (sc_getpid api) p w in
      if result = 0 \<and> sched_priority p \<noteq> - 1 \<and> sc_errno api w = EOK then PTS_PASS
      else if result \<noteq> 0 then PTS_FAIL
      else if sc_errno api w \<noteq> EOK then PTS_FAIL
      else if sched_priority p = - 1 then PTS_FAIL else PTS_UNRESOLVED)"

definition sched_getparam_2_1 :: "('w, 'z) sched_prog" where
  "sched_getparam_2_1 api p w =
     (let p0 = p\<lparr>sched_priority := - 1\<rparr>; p1 = p\<lparr>sched_priority := - 1\<rparr>; (result0, p0, w) = sc_getparam api 0 p0 w;
          (result1, p1, w) = sc_getparam api (sc_getpid api) p1 w in
      if result0 = result1 \<and> sched_priority p0 = sched_priority p1 \<and> sc_errno api w = EOK then PTS_PASS else PTS_FAIL)"

definition sched_getparam_3_1 :: "('w, 'z) sched_prog" where
  "sched_getparam_3_1 api p w =
     (let p = p\<lparr>sched_priority := - 1\<rparr>; (result, p, w) = sc_getparam api 0 p w in
      if result = 0 \<and> sched_priority p \<noteq> - 1 \<and> sc_errno api w = EOK then PTS_PASS
      else if sc_errno api w \<noteq> EOK then PTS_FAIL
      else if result \<noteq> 0 then PTS_FAIL else PTS_UNRESOLVED)"

definition sched_getparam_4_1 :: "('w, 'z) sched_prog" where
  "sched_getparam_4_1 api p w =
     dead_child api w (\<lambda>child_pid w.
       let (result, p, w) = sc_getparam api child_pid p w in
       if result = - 1 \<and> sc_errno api w = ESRCH then PTS_PASS
       else if result \<noteq> - 1 then PTS_FAIL
       else if sc_errno api w \<noteq> ESRCH then PTS_FAIL else PTS_UNRESOLVED)"

definition sched_getparam_6_1 :: "('w, 'z) sched_prog" where
  "sched_getparam_6_1 api p w =
     as_nonroot (sc_setuid api) api w (\<lambda>w.
       let (result, p, w) = sc_getparam api 1 p w in
       if result = - 1 \<and> sc_errno api w = EPERM then PTS_PASS
       else if result = 0 then PTS_FAIL
       else if sc_errno api w \<noteq> EPERM then PTS_UNRESOLVED else PTS_UNRESOLVED)"

section \<open>\<^verbatim>\<open>sched_getscheduler\<close>\<close>

definition sched_getscheduler_1_1 :: "('w, 'z) sched_prog" where
  "sched_getscheduler_1_1 api p w =
     (let (result0, w) = sc_getscheduler api 0 w; (result1, w) = sc_getscheduler api (sc_getpid api) w in
      if result0 = result1 \<and> sc_errno api w = EOK then PTS_PASS
      else if result0 \<noteq> result1 then PTS_FAIL else PTS_FAIL)"

definition sched_getscheduler_2_1 :: "('w, 'z) sched_prog" where
  "sched_getscheduler_2_1 api p w = PTS_UNTESTED"

text \<open>The table of \<^verbatim>\<open>3-1.c\<close>; the macros for the three other policies are defined.\<close>

definition known_policies :: "('w, 'z) sched_api_scheme \<Rightarrow> int list" where
  "known_policies api = [sc_FIFO api, sc_RR api] @ (if sc_has_SPORADIC api then [sc_SPORADIC api] else []) @ [sc_OTHER api]"

fun find_policy :: "int \<Rightarrow> int list \<Rightarrow> int" where
  "find_policy result [] = PTS_UNRESOLVED"
| "find_policy result (v # tst) = (if result = v then PTS_PASS else find_policy result tst)"

definition sched_getscheduler_3_1 :: "('w, 'z) sched_prog" where
  "sched_getscheduler_3_1 api p w =
     (let (result, w) = sc_getscheduler api 0 w in
      if result = - 1 then PTS_FAIL
      else if sc_errno api w \<noteq> EOK then PTS_FAIL
      else find_policy result (known_policies api))"

definition sched_getscheduler_4_1 :: "('w, 'z) sched_prog" where
  "sched_getscheduler_4_1 api p w =
     (let (result, w) = sc_getscheduler api 0 w in
      if result \<noteq> - 1 \<and> sc_errno api w = EOK then PTS_PASS
      else if sc_errno api w \<noteq> EOK then PTS_FAIL else PTS_UNRESOLVED)"

definition sched_getscheduler_5_1 :: "('w, 'z) sched_prog" where
  "sched_getscheduler_5_1 api p w =
     dead_child api w (\<lambda>child_pid w.
       let (result, w) = sc_getscheduler api child_pid w in
       if result = - 1 then PTS_PASS
       else if sc_errno api w \<noteq> ESRCH then PTS_FAIL
       else if result \<noteq> - 1 then PTS_FAIL else PTS_UNRESOLVED)"

definition sched_getscheduler_7_1 :: "('w, 'z) sched_prog" where
  "sched_getscheduler_7_1 api p w =
     as_nonroot (sc_seteuid api) api w (\<lambda>w.
       let (result, w) = sc_getscheduler api 1 w in
       if result = - 1 \<and> sc_errno api w = EPERM then PTS_PASS
       else if result = 0 then PTS_FAIL
       else if sc_errno api w \<noteq> EPERM then PTS_FAIL else PTS_UNRESOLVED)"

section \<open>\<^verbatim>\<open>sched_rr_get_interval\<close>, \<^verbatim>\<open>sched_yield\<close>\<close>

definition sched_rr_get_interval_1_1 :: "('w, 'z) sched_prog" where
  "sched_rr_get_interval_1_1 api p w =
     (let i = \<lparr>ts_sec = - 1, ts_nsec = - 1\<rparr>; (result0, i0, w) = sc_rr_get_interval api 0 i w;
          (result1, i1, w) = sc_rr_get_interval api (sc_getpid api) i w in
      if result0 = result1 \<and> ts_sec i0 = ts_sec i1 \<and> ts_nsec i0 = ts_nsec i1 \<and> sc_errno api w = EOK then PTS_PASS
      else if sc_errno api w \<noteq> EOK then PTS_FAIL else PTS_FAIL)"

definition sched_rr_get_interval_2_1 :: "('w, 'z) sched_prog" where
  "sched_rr_get_interval_2_1 api p w =
     (let (result, i, w) = sc_rr_get_interval api 0 \<lparr>ts_sec = - 1, ts_nsec = - 1\<rparr> w in
      if result = 0 \<and> 0 \<le> ts_sec i \<and> 0 \<le> ts_nsec i \<and> sc_errno api w = EOK then PTS_PASS
      else if ts_sec i = - 1 then PTS_FAIL
      else if ts_nsec i = - 1 then PTS_FAIL
      else if result \<noteq> 0 then PTS_FAIL
      else if sc_errno api w \<noteq> EOK then PTS_FAIL else PTS_UNRESOLVED)"

text \<open>The interval is not initialised; \<open>i\<close> is what it holds.\<close>

definition sched_rr_get_interval_3_1 :: "timespec \<Rightarrow> ('w, 'z) sched_prog" where
  "sched_rr_get_interval_3_1 i api p w =
     dead_child api w (\<lambda>child_pid w.
       let (result, i, w) = sc_rr_get_interval api child_pid i w in
       if result = - 1 \<and> sc_errno api w = ESRCH then PTS_PASS
       else if sc_errno api w \<noteq> ESRCH then PTS_FAIL
       else if result = 0 then PTS_FAIL else PTS_UNRESOLVED)"

definition sched_yield_2_1 :: "('w, 'z) sched_prog" where
  "sched_yield_2_1 api p w = (if fst (sc_yield api w) = 0 then PTS_PASS else PTS_FAIL)"

section \<open>\<^verbatim>\<open>sched_setparam\<close>\<close>

text \<open>The child of \<^verbatim>\<open>1-1.c\<close>: it waits for a signal.\<close>

definition child_proc :: "('w, 'z) sched_api_scheme \<Rightarrow> 'w \<Rightarrow> int" where
  "child_proc api w =
     (let (r, w) = sc_sigemptyset api w in if r \<noteq> 0 then 1
      else let (r, w) = sc_sigaddset api w in if r \<noteq> 0 then 1
      else let (r, w) = sc_sigwait api w in if r \<noteq> 0 then 1 else 0)"

text \<open>The child is signalled before the parent returns. The second attempt of \<^verbatim>\<open>1-1.c\<close> does not read the parameters back: \<open>p\<close> is what it has just stored there.\<close>

definition end_child :: "('w, 'z) sched_api_scheme \<Rightarrow> int \<Rightarrow> 'w \<Rightarrow> int \<Rightarrow> int" where
  "end_child api child_pid w code = (let (r, w) = sc_kill api child_pid w in code)"

definition sched_setparam_1_1 :: "('w, 'z) sched_prog" where
  "sched_setparam_1_1 api p w =
     (let (child_pid, w) = sc_fork api w in
      if child_pid = - 1 then PTS_UNRESOLVED
      else if child_pid = 0 then child_proc api w
      else let (r, p, w) = sc_getparam api child_pid p w in
      if r \<noteq> 0 then end_child api child_pid w PTS_UNRESOLVED
      else let old_priority = sched_priority p; (policy, w) = sc_getscheduler api 0 w in
      if policy = - 1 then PTS_UNRESOLVED
      else let (min_priority, w) = sc_priority_min api policy w;
           (new_priority, w) = (if sched_priority p = min_priority then sc_priority_max api policy w else (min_priority, w));
           p = p\<lparr>sched_priority := new_priority\<rparr>;
           (result, w) = sc_setparam api child_pid p w;
           tmp_errno = sc_errno api w;
           (r, p, w) = sc_getparam api child_pid p w in
      if r \<noteq> 0 then end_child api child_pid w PTS_UNRESOLVED
      else if result = 0 \<and> sched_priority p = new_priority then end_child api child_pid w PTS_PASS
      else if result = 0 \<and> sched_priority p = old_priority then end_child api child_pid w PTS_FAIL
      else if result = - 1 \<and> tmp_errno = EPERM then end_child api child_pid w PTS_UNRESOLVED
      else if result = - 1 \<and> tmp_errno = EINVAL then
        let new_priority = new_priority - 2; p = p\<lparr>sched_priority := new_priority\<rparr>; (result, w) = sc_setparam api child_pid p w in
        if result = 0 \<and> sched_priority p = new_priority then end_child api child_pid w PTS_PASS else end_child api child_pid w PTS_FAIL
      else end_child api child_pid w PTS_FAIL)"

definition untested :: "('w, 'z) sched_prog" where
  "untested api p w = PTS_UNTESTED"

definition untested_ss :: "('w, 'z) sched_prog" where
  "untested_ss api p w = (if sc_POSIX_SPORADIC_SERVER api \<noteq> None then PTS_UNTESTED else PTS_UNSUPPORTED)"

definition sched_setparam_3_1 :: "('w, 'z) sched_prog" where
  "sched_setparam_3_1 = untested"

definition sched_setparam_5_1 :: "('w, 'z) sched_prog" where
  "sched_setparam_5_1 api p w =
     (let (r, p, w) = sc_getparam api (sc_getpid api) p w in
      if r \<noteq> 0 then PTS_UNRESOLVED
      else let (policy, w) = sc_getscheduler api (sc_getpid api) w in
      if policy = - 1 then PTS_UNRESOLVED
      else let (max_prio, w) = sc_priority_max api policy w;
           old_priority = sched_priority p;
           (new_priority, w) = (if old_priority = max_prio then sc_priority_min api policy w else (max_prio, w));
           p = p\<lparr>sched_priority := new_priority\<rparr>;
           (result, w) = sc_setparam api 0 p w;
           (r, p, w) = sc_getparam api (sc_getpid api) p w in
      if r \<noteq> 0 then PTS_UNRESOLVED
      else if result = 0 \<and> sched_priority p = new_priority then PTS_PASS
      else if result = 0 \<and> sched_priority p = old_priority then PTS_FAIL
      else if result = - 1 \<and> sc_errno api w = EPERM then PTS_UNRESOLVED else PTS_FAIL)"

definition sched_setparam_6_1 :: "('w, 'z) sched_prog" where
  "sched_setparam_6_1 = untested"

definition sched_setparam_7_1 :: "('w, 'z) sched_prog" where
  "sched_setparam_7_1 = untested"

definition sched_setparam_8_1 :: "('w, 'z) sched_prog" where
  "sched_setparam_8_1 = untested"

definition sched_setparam_12_1 :: "('w, 'z) sched_prog" where
  "sched_setparam_12_1 = untested_ss"

definition sched_setparam_13_1 :: "('w, 'z) sched_prog" where
  "sched_setparam_13_1 = untested_ss"

definition sched_setparam_14_1 :: "('w, 'z) sched_prog" where
  "sched_setparam_14_1 = untested_ss"

definition sched_setparam_15_1 :: "('w, 'z) sched_prog" where
  "sched_setparam_15_1 = untested_ss"

definition sched_setparam_16_1 :: "('w, 'z) sched_prog" where
  "sched_setparam_16_1 = untested_ss"

definition sched_setparam_17_1 :: "('w, 'z) sched_prog" where
  "sched_setparam_17_1 = untested"

definition sched_setparam_18_1 :: "('w, 'z) sched_prog" where
  "sched_setparam_18_1 = untested"

definition sched_setparam_19_1 :: "('w, 'z) sched_prog" where
  "sched_setparam_19_1 = untested"

text \<open>A thread with process scope, created and then asked for its parameters.\<close>

definition process_thread :: "('w, 'z) sched_api_scheme \<Rightarrow> 'w \<Rightarrow> (int \<Rightarrow> 'w \<Rightarrow> int) \<Rightarrow> int" where
  "process_thread api w k =
     (let (e, w) = sc_attr_init api w in if e \<noteq> EOK then PTS_UNRESOLVED
      else let (e, w) = sc_attr_setscope_process api w in
      if e = ENOTSUP then PTS_UNSUPPORTED
      else if e \<noteq> EOK then PTS_UNRESOLVED
      else let (e, tid, w) = sc_thread_create api w in if e \<noteq> EOK then PTS_UNRESOLVED else k tid w)"

definition thread_param :: "('w, 'z) sched_api_scheme \<Rightarrow> int \<Rightarrow> sched_param \<Rightarrow> 'w \<Rightarrow> (int \<Rightarrow> sched_param \<Rightarrow> bool) \<Rightarrow> int" where
  "thread_param api tid p w good =
     (let (e, policy, p, w) = sc_thread_getschedparam api tid p w in
      if e \<noteq> EOK then PTS_UNRESOLVED
      else let (e, w) = sc_thread_cancel api tid w in if good policy p then PTS_PASS else PTS_FAIL)"

text \<open>Another priority of the policy than the present one: the greatest, or the least.\<close>

definition other_priority :: "('w, 'z) sched_api_scheme \<Rightarrow> int \<Rightarrow> int \<Rightarrow> 'w \<Rightarrow> int \<times> 'w" where
  "other_priority api policy old w =
     (let (max_priority, w) = sc_priority_max api policy w in
      if old = max_priority then sc_priority_min api policy w else (max_priority, w))"

definition sched_setparam_20_1 :: "('w, 'z) sched_prog" where
  "sched_setparam_20_1 api p w =
     (let (r, p, w) = sc_getparam api (sc_getpid api) p w in
      if r \<noteq> 0 then main_thread_exit
      else let (policy, w) = sc_getscheduler api (sc_getpid api) w;
           (new_priority, w) = other_priority api policy (sched_priority p) w in
      process_thread api w (\<lambda>tid w.
        let p = p\<lparr>sched_priority := new_priority\<rparr>; (r, w) = sc_setparam api (sc_getpid api) p w in
        if r \<noteq> 0 then PTS_UNRESOLVED else thread_param api tid p w (\<lambda>policy p. sched_priority p = new_priority)))"

text \<open>\<^verbatim>\<open>21-1.c\<close> and \<^verbatim>\<open>21-2.c\<close> differ in what they compare at the end.\<close>

definition set_then_thread :: "(int \<Rightarrow> int \<Rightarrow> int \<Rightarrow> sched_param \<Rightarrow> bool) \<Rightarrow> ('w, 'z) sched_prog" where
  "set_then_thread good api p w =
     (let (r, p, w) = sc_getparam api (sc_getpid api) p w in
      if r \<noteq> 0 then main_thread_exit
      else let (old_policy, w) = sc_getscheduler api (sc_getpid api) w;
           (new_priority, w) = other_priority api old_policy (sched_priority p) w;
           p = p\<lparr>sched_priority := new_priority\<rparr>;
           (r, w) = sc_setparam api (sc_getpid api) p w in
      if r \<noteq> 0 then PTS_UNRESOLVED
      else process_thread api w (\<lambda>tid w. thread_param api tid p w (good old_policy new_priority)))"

definition sched_setparam_21_1 :: "('w, 'z) sched_prog" where
  "sched_setparam_21_1 = set_then_thread (\<lambda>old_policy new_priority policy p. policy = old_policy)"

definition sched_setparam_21_2 :: "('w, 'z) sched_prog" where
  "sched_setparam_21_2 = set_then_thread (\<lambda>old_policy new_priority policy p. sched_priority p = new_priority)"

definition sched_setparam_22_1 :: "('w, 'z) sched_prog" where
  "sched_setparam_22_1 api p w =
     (let (r, p, w) = sc_getparam api 0 p w in
      if r = - 1 then PTS_UNRESOLVED
      else let (result, w) = sc_setparam api 0 p w in
      if result = 0 then PTS_PASS else if sc_errno api w = EPERM then PTS_UNRESOLVED else PTS_FAIL)"

text \<open>The end of the programs \<^verbatim>\<open>23-*.c\<close>: the priority is what it was.\<close>

definition priority_kept :: "('w, 'z) sched_api_scheme \<Rightarrow> int \<Rightarrow> sched_param \<Rightarrow> 'w \<Rightarrow> int" where
  "priority_kept api old_priority p w =
     (let (r, p, w) = sc_getparam api 0 p w in
      if r \<noteq> 0 then PTS_UNRESOLVED else if sched_priority p = old_priority then PTS_PASS else PTS_FAIL)"

definition sched_setparam_23_1 :: "('w, 'z) sched_prog" where
  "sched_setparam_23_1 api p w =
     (let (r, p, w) = sc_getparam api 0 p w in
      if r \<noteq> 0 then PTS_UNRESOLVED
      else let old_priority = sched_priority p; (policy, w) = sc_getscheduler api 0 w in
      if policy = - 1 then PTS_UNRESOLVED
      else let (invalid_priority, w) = sc_priority_max api policy w in
      if invalid_priority = - 1 then PTS_UNRESOLVED
      else let p = p\<lparr>sched_priority := invalid_priority + 1\<rparr>; (r, w) = sc_setparam api 0 p w in
      priority_kept api old_priority p w)"

definition sched_setparam_23_2 :: "('w, 'z) sched_prog" where
  "sched_setparam_23_2 api p w =
     (if has_ss api then
        let (r, p, w) = sc_getparam api 0 p w in
        if r \<noteq> 0 then PTS_UNRESOLVED
        else let old_priority = sched_priority p; (policy, w) = sc_getscheduler api 0 w in
        if policy = - 1 then PTS_UNRESOLVED
        else let (r, w) = (if policy \<noteq> sc_SPORADIC api then sc_setscheduler api 0 (sc_SPORADIC api) p w else (0, w)) in
        if r \<noteq> 0 then PTS_UNRESOLVED
        else let (invalid_priority, w) = sc_priority_max api (sc_SPORADIC api) w in
        if invalid_priority = - 1 then PTS_UNRESOLVED
        else let p = p\<lparr>sched_ss_low_priority := invalid_priority + 1, sched_priority := sched_priority p + 1\<rparr>;
             (r, w) = sc_setparam api 0 p w in
        priority_kept api old_priority p w
      else PTS_UNSUPPORTED)"

text \<open>\<^verbatim>\<open>23-3.c\<close> to \<^verbatim>\<open>23-5.c\<close> differ in the member of the sporadic server that they spoil.\<close>

definition short_period :: "sched_param \<Rightarrow> sched_param" where
  "short_period p = p\<lparr>sched_ss_repl_period := \<lparr>ts_sec = 1, ts_nsec = 0\<rparr>, sched_ss_init_budget := \<lparr>ts_sec = 2, ts_nsec = 0\<rparr>\<rparr>"

definition spoiled_kept :: "(sched_param \<Rightarrow> sched_param) \<Rightarrow> ('w, 'z) sched_prog" where
  "spoiled_kept spoil api p w =
     (if has_ss api then
        let (r, p, w) = sc_getparam api 0 p w in
        if r = - 1 then PTS_UNRESOLVED
        else let old_priority = sched_priority p; p = spoil p; p = p\<lparr>sched_priority := sched_priority p + 1\<rparr>; (r, w) = sc_setparam api 0 p w in
        priority_kept api old_priority p w
      else PTS_UNSUPPORTED)"

definition sched_setparam_23_3 :: "('w, 'z) sched_prog" where
  "sched_setparam_23_3 = spoiled_kept short_period"

definition sched_setparam_23_4 :: "('w, 'z) sched_prog" where
  "sched_setparam_23_4 = spoiled_kept (sched_ss_max_repl_update (\<lambda>_. 0))"

definition sched_setparam_23_5 :: "('w, 'z) sched_prog" where
  "sched_setparam_23_5 api = spoiled_kept (sched_ss_max_repl_update (\<lambda>_. sc_SS_REPL_MAX api + 1)) api"

definition sched_setparam_23_6 :: "('w, 'z) sched_prog" where
  "sched_setparam_23_6 api p w =
     (let (min, w) = sc_priority_min api (sc_FIFO api) w;
          p = p\<lparr>sched_priority := min\<rparr>;
          (r, w) = sc_setscheduler api 0 (sc_FIFO api) p w in
      as_nonroot (sc_setuid api) api w (\<lambda>w.
        let (r, p, w) = sc_getparam api 0 p w in
        if r = - 1 then PTS_UNRESOLVED
        else let old_priority = sched_priority p; p = p\<lparr>sched_priority := sched_priority p + 1\<rparr>; (rc, w) = sc_setparam api 0 p w in
        if rc \<noteq> - 1 \<or> rc = - 1 \<and> sc_errno api w \<noteq> EPERM then PTS_UNRESOLVED
        else priority_kept api old_priority p w))"

definition sched_setparam_23_7 :: "('w, 'z) sched_prog" where
  "sched_setparam_23_7 api p w =
     (let (r, p, w) = sc_getparam api 0 p w in
      if r = - 1 then PTS_UNRESOLVED
      else dead_child api w (\<lambda>child_pid w.
        let q = p\<lparr>sched_priority := sched_priority p + 1\<rparr>; (r, w) = sc_setparam api child_pid q w in
        priority_kept api (sched_priority p) q w))"

text \<open>What follows a call that has to fail with \<^verbatim>\<open>EINVAL\<close>, or with \<^verbatim>\<open>ESRCH\<close>.\<close>

definition must_be :: "errno \<Rightarrow> ('w, 'z) sched_api_scheme \<Rightarrow> int \<Rightarrow> 'w \<Rightarrow> int" where
  "must_be e api result w =
     (if result = - 1 \<and> sc_errno api w = e then PTS_PASS
      else if result \<noteq> - 1 then PTS_FAIL
      else if sc_errno api w = EPERM then PTS_UNRESOLVED else PTS_FAIL)"

definition sched_setparam_25_1 :: "('w, 'z) sched_prog" where
  "sched_setparam_25_1 api p w =
     (let (policy, w) = sc_getscheduler api 0 w in
      if policy = - 1 then PTS_UNRESOLVED
      else let (invalid_priority, w) = sc_priority_max api policy w in
      if invalid_priority = - 1 then PTS_UNRESOLVED
      else let (result, w) = sc_setparam api 0 (p\<lparr>sched_priority := invalid_priority + 1\<rparr>) w in must_be EINVAL api result w)"

definition sched_setparam_25_2 :: "('w, 'z) sched_prog" where
  "sched_setparam_25_2 api p w =
     (if has_ss api then
        let (policy, w) = sc_getscheduler api 0 w in
        if policy = - 1 then PTS_UNRESOLVED
        else let (r, p, w) = (if policy \<noteq> sc_SPORADIC api then sc_getparam api 0 p w else (0, p, w)) in
        if r \<noteq> 0 then PTS_UNRESOLVED
        else let (r, w) = (if policy \<noteq> sc_SPORADIC api then sc_setscheduler api 0 (sc_SPORADIC api) p w else (0, w)) in
        if r \<noteq> 0 then PTS_UNRESOLVED
        else let (invalid_priority, w) = sc_priority_max api (sc_SPORADIC api) w in
        if invalid_priority = - 1 then PTS_UNRESOLVED
        else let (result, w) = sc_setparam api 0 (p\<lparr>sched_ss_low_priority := invalid_priority + 1\<rparr>) w in must_be EINVAL api result w
      else PTS_UNSUPPORTED)"

text \<open>\<^verbatim>\<open>25-3.c\<close> and \<^verbatim>\<open>25-4.c\<close> have no \<^verbatim>\<open>main\<close> on a system without the sporadic server; that is \<open>None\<close>.\<close>

definition sched_setparam_25_3 :: "('w, 'z) sched_api_scheme \<Rightarrow> sched_param \<Rightarrow> 'w \<Rightarrow> int option" where
  "sched_setparam_25_3 api p w =
     (if has_ss api then Some
        (let (r, p, w) = sc_getparam api 0 p w in
         if r \<noteq> 0 then PTS_UNRESOLVED
         else let (result, w) = sc_setparam api 0 (short_period p) w in must_be EINVAL api result w)
      else None)"

text \<open>Both bounds of \<^verbatim>\<open>sched_ss_max_repl\<close>, one after the other; \<open>call\<close> is the call under test.\<close>

definition repl_first :: "('w, 'z) sched_api_scheme \<Rightarrow> int \<Rightarrow> 'w \<Rightarrow> int" where
  "repl_first api result w =
     (if result \<noteq> - 1 then PTS_FAIL
      else if sc_errno api w = EPERM then PTS_UNRESOLVED
      else if sc_errno api w \<noteq> EINVAL then PTS_FAIL else PTS_PASS)"

definition repl_second :: "('w, 'z) sched_api_scheme \<Rightarrow> int \<Rightarrow> int \<Rightarrow> 'w \<Rightarrow> int" where
  "repl_second api result_code result w =
     (if result = - 1 \<and> sc_errno api w = EINVAL then result_code
      else if result \<noteq> - 1 then PTS_FAIL
      else if sc_errno api w = EPERM then (if result_code = PTS_FAIL then PTS_FAIL else PTS_UNRESOLVED)
      else PTS_FAIL)"

definition repl_bounds :: "(sched_param \<Rightarrow> 'w \<Rightarrow> int \<times> 'w) \<Rightarrow> ('w, 'z) sched_prog" where
  "repl_bounds call api p w =
     (let (result, w) = call (p\<lparr>sched_ss_max_repl := 0\<rparr>) w;
          result_code = repl_first api result w;
          (result, w) = call (p\<lparr>sched_ss_max_repl := sc_SS_REPL_MAX api + 1\<rparr>) w in
      repl_second api result_code result w)"

definition sched_setparam_25_4 :: "('w, 'z) sched_api_scheme \<Rightarrow> sched_param \<Rightarrow> 'w \<Rightarrow> int option" where
  "sched_setparam_25_4 api p w =
     (if has_ss api then Some
        (let (r, p, w) = sc_getparam api 0 p w in
         if r = - 1 then PTS_UNRESOLVED else repl_bounds (sc_setparam api 0) api p w)
      else None)"

definition sched_setparam_26_1 :: "('w, 'z) sched_prog" where
  "sched_setparam_26_1 api p w =
     (if sc_getuid api w = 0 then PTS_UNTESTED
      else let (r, p, w) = sc_getparam api 0 p w in
      if r = - 1 then PTS_UNRESOLVED
      else let (result, w) = sc_setparam api 1 p w in
      if result = - 1 \<and> sc_errno api w = EPERM then PTS_PASS
      else if sc_errno api w \<noteq> EPERM then PTS_FAIL else PTS_FAIL)"

definition sched_setparam_27_1 :: "('w, 'z) sched_prog" where
  "sched_setparam_27_1 api p w =
     (let (r, p, w) = sc_getparam api 0 p w in
      if r = - 1 then PTS_UNRESOLVED
      else dead_child api w (\<lambda>child_pid w.
        let (result, w) = sc_setparam api child_pid p w in must_be ESRCH api result w))"

section \<open>\<^verbatim>\<open>sched_setscheduler\<close>\<close>

text \<open>The table of policies of \<^verbatim>\<open>1-1.c\<close>, \<^verbatim>\<open>17-1.c\<close> and \<^verbatim>\<open>19-1.c\<close>.\<close>

definition sym :: "('w, 'z) sched_api_scheme \<Rightarrow> int list" where
  "sym api = [sc_FIFO api, sc_RR api] @ (if has_any_ss api then [sc_SPORADIC api] else []) @ [sc_OTHER api]"

definition not_fail :: "int \<Rightarrow> int" where
  "not_fail result = (if result \<noteq> PTS_FAIL then PTS_UNRESOLVED else result)"

fun each_policy :: "('w, 'z) sched_api_scheme \<Rightarrow> int list \<Rightarrow> int \<Rightarrow> sched_param \<Rightarrow> 'w \<Rightarrow> int" where
  "each_policy api [] result p w = result"
| "each_policy api (policy # tst) result p w =
     (let (min, w) = sc_priority_min api policy w; (max, w) = sc_priority_max api policy w;
          priority = (min + max) sdiv 2; p = p\<lparr>sched_priority := priority\<rparr>;
          (tmp, w) = sc_setscheduler api (sc_getpid api) policy p w in
      if tmp = - 1 \<or> sc_errno api w \<noteq> EOK then each_policy api tst (not_fail result) p w
      else let (r, p, w) = sc_getparam api (sc_getpid api) p w in
      if r \<noteq> 0 then PTS_UNRESOLVED
      else let (policy', w) = sc_getscheduler api (sc_getpid api) w;
           result = (if policy \<noteq> policy' then PTS_FAIL else result);
           result = (if priority \<noteq> sched_priority p then PTS_FAIL else result) in
      each_policy api tst result p w)"

definition sched_setscheduler_1_1 :: "('w, 'z) sched_prog" where
  "sched_setscheduler_1_1 api p w = each_policy api (sym api) PTS_PASS p w"

definition sched_setscheduler_2_1 :: "('w, 'z) sched_prog" where
  "sched_setscheduler_2_1 = untested"

text \<open>Another policy than the present one.\<close>

definition other_policy :: "('w, 'z) sched_api_scheme \<Rightarrow> int \<Rightarrow> int" where
  "other_policy api old = (if old = sc_FIFO api then sc_RR api else sc_FIFO api)"

definition sched_setscheduler_4_1 :: "('w, 'z) sched_prog" where
  "sched_setscheduler_4_1 api p w =
     (let (r, p, w) = sc_getparam api (sc_getpid api) p w in
      if r \<noteq> 0 then PTS_UNRESOLVED
      else let (old_policy, w) = sc_getscheduler api (sc_getpid api) w in
      if old_policy = - 1 then PTS_UNRESOLVED
      else let new_policy = other_policy api old_policy; old_priority = sched_priority p;
           (new_priority, w) = other_priority api new_policy old_priority w;
           p = p\<lparr>sched_priority := new_priority\<rparr>;
           (result, w) = sc_setscheduler api 0 new_policy p w;
           (r, p, w) = sc_getparam api (sc_getpid api) p w in
      if r \<noteq> 0 then PTS_UNRESOLVED
      else let (test_policy, w) = sc_getscheduler api (sc_getpid api) w in
      if test_policy = - 1 then PTS_UNRESOLVED
      else if result \<noteq> - 1 \<and> sched_priority p = new_priority \<and> test_policy = new_policy then PTS_PASS
      else if result \<noteq> - 1 \<and> (sched_priority p = old_priority \<or> test_policy = old_policy) then PTS_FAIL
      else if result = - 1 \<and> sc_errno api w = EPERM then PTS_UNRESOLVED else PTS_FAIL)"

definition sched_setscheduler_5_1 :: "('w, 'z) sched_prog" where
  "sched_setscheduler_5_1 = untested"

definition sched_setscheduler_6_1 :: "('w, 'z) sched_prog" where
  "sched_setscheduler_6_1 = untested"

definition sched_setscheduler_7_1 :: "('w, 'z) sched_prog" where
  "sched_setscheduler_7_1 = untested"

definition sched_setscheduler_9_1 :: "('w, 'z) sched_prog" where
  "sched_setscheduler_9_1 = untested_ss"

definition sched_setscheduler_10_1 :: "('w, 'z) sched_prog" where
  "sched_setscheduler_10_1 = untested_ss"

definition sched_setscheduler_11_1 :: "('w, 'z) sched_prog" where
  "sched_setscheduler_11_1 = untested_ss"

definition sched_setscheduler_12_1 :: "('w, 'z) sched_prog" where
  "sched_setscheduler_12_1 = untested"

definition sched_setscheduler_13_1 :: "('w, 'z) sched_prog" where
  "sched_setscheduler_13_1 = untested"

definition sched_setscheduler_14_1 :: "('w, 'z) sched_prog" where
  "sched_setscheduler_14_1 = untested"

definition sched_setscheduler_15_1 :: "('w, 'z) sched_prog" where
  "sched_setscheduler_15_1 api p w =
     (let (old_policy, w) = sc_getscheduler api (sc_getpid api) w; new_policy = other_policy api old_policy in
      process_thread api w (\<lambda>tid w.
        let (min, w) = sc_priority_min api new_policy w; p = p\<lparr>sched_priority := min\<rparr>;
            (r, w) = sc_setscheduler api (sc_getpid api) new_policy p w in
        if r \<noteq> 0 then PTS_UNRESOLVED
        else thread_param api tid p w (\<lambda>policy p. policy = new_policy)))"

definition sched_setscheduler_15_2 :: "('w, 'z) sched_prog" where
  "sched_setscheduler_15_2 api p w =
     (let (r, p, w) = sc_getparam api (sc_getpid api) p w in
      if r \<noteq> 0 then main_thread_exit
      else let (new_priority, w) = other_priority api (sc_FIFO api) (sched_priority p) w in
      process_thread api w (\<lambda>tid w.
        let p = p\<lparr>sched_priority := new_priority\<rparr>; (r, w) = sc_setscheduler api (sc_getpid api) (sc_FIFO api) p w in
        if r \<noteq> 0 then PTS_UNRESOLVED
        else thread_param api tid p w (\<lambda>policy p. sched_priority p = new_priority)))"

definition sched_setscheduler_16_1 :: "('w, 'z) sched_prog" where
  "sched_setscheduler_16_1 api p w =
     (let (old_policy, w) = sc_getscheduler api (sc_getpid api) w in
      if old_policy = - 1 then PTS_UNRESOLVED
      else let new_policy = other_policy api old_policy; (max, w) = sc_priority_max api new_policy w;
           (result, w) = sc_setscheduler api 0 new_policy (p\<lparr>sched_priority := max\<rparr>) w in
      if result = old_policy then PTS_PASS
      else if result = - 1 \<and> sc_errno api w = EPERM then PTS_UNRESOLVED else PTS_FAIL)"

text \<open>The frame of the programs \<^verbatim>\<open>17-*.c\<close>: the policy and the priority before and after \<open>change\<close>, which gets both and goes on with the
  parameters it passed.\<close>

definition before :: "('w, 'z) sched_api_scheme \<Rightarrow> sched_param \<Rightarrow> 'w \<Rightarrow> (int \<Rightarrow> sched_param \<Rightarrow> 'w \<Rightarrow> int) \<Rightarrow> int" where
  "before api p w k =
     (let (r, p, w) = sc_getparam api (sc_getpid api) p w in
      if r \<noteq> 0 then PTS_UNRESOLVED
      else let (old_policy, w) = sc_getscheduler api (sc_getpid api) w in
      if old_policy = - 1 then PTS_UNRESOLVED else k old_policy p w)"

definition after :: "('w, 'z) sched_api_scheme \<Rightarrow> sched_param \<Rightarrow> 'w \<Rightarrow> int \<Rightarrow> int \<Rightarrow> (bool \<Rightarrow> sched_param \<Rightarrow> 'w \<Rightarrow> int) \<Rightarrow> int" where
  "after api p w old_policy old_priority k =
     (let (r, p, w) = sc_getparam api (sc_getpid api) p w in
      if r \<noteq> 0 then PTS_UNRESOLVED
      else let (new_policy, w) = sc_getscheduler api (sc_getpid api) w in
      if new_policy = - 1 then PTS_UNRESOLVED
      else k (old_policy = new_policy \<and> old_priority = sched_priority p) p w)"

definition all_kept :: "('w, 'z) sched_api_scheme \<Rightarrow> sched_param \<Rightarrow> 'w \<Rightarrow> int \<Rightarrow> int \<Rightarrow> int" where
  "all_kept api p w old_policy old_priority =
     after api p w old_policy old_priority (\<lambda>kept p w. if kept then PTS_PASS else PTS_FAIL)"

fun each_kept :: "('w, 'z) sched_api_scheme \<Rightarrow> int list \<Rightarrow> int \<Rightarrow> sched_param \<Rightarrow> 'w \<Rightarrow> int" where
  "each_kept api [] result p w = result"
| "each_kept api (policy # tst) result p w =
     before api p w (\<lambda>old_policy p w.
       let old_priority = sched_priority p; (invalid_priority, w) = sc_priority_max api policy w in
       if invalid_priority = - 1 then PTS_UNRESOLVED
       else let p = p\<lparr>sched_priority := invalid_priority + 1\<rparr>; (r, w) = sc_setscheduler api 0 policy p w in
       after api p w old_policy old_priority (\<lambda>kept p w. each_kept api tst (if kept then result else PTS_FAIL) p w))"

definition sched_setscheduler_17_1 :: "('w, 'z) sched_prog" where
  "sched_setscheduler_17_1 api p w = each_kept api (sym api) PTS_PASS p w"

definition sched_setscheduler_17_2 :: "('w, 'z) sched_prog" where
  "sched_setscheduler_17_2 api p w =
     (if has_ss api then
        before api p w (\<lambda>old_policy p w.
          let old_priority = sched_priority p; (invalid_priority, w) = sc_priority_max api (sc_SPORADIC api) w in
          if invalid_priority = - 1 then PTS_UNRESOLVED
          else let p = p\<lparr>sched_ss_low_priority := invalid_priority + 1\<rparr>; (r, w) = sc_setscheduler api 0 (sc_SPORADIC api) p w in
          all_kept api p w old_policy old_priority)
      else PTS_UNSUPPORTED)"

definition sched_setscheduler_17_3 :: "('w, 'z) sched_prog" where
  "sched_setscheduler_17_3 api p w =
     (if has_ss api then
        before api p w (\<lambda>old_policy p w.
          let old_priority = sched_priority p; (max, w) = sc_priority_max api (sc_SPORADIC api) w;
              p = (short_period p)\<lparr>sched_priority := max\<rparr>; (result, w) = sc_setscheduler api 0 (sc_SPORADIC api) p w in
          all_kept api p w old_policy old_priority)
      else PTS_UNSUPPORTED)"

text \<open>\<^verbatim>\<open>17-4.c\<close> to \<^verbatim>\<open>17-7.c\<close> test the first call for -1 instead of for 0.\<close>

definition before' :: "('w, 'z) sched_api_scheme \<Rightarrow> sched_param \<Rightarrow> 'w \<Rightarrow> (int \<Rightarrow> sched_param \<Rightarrow> 'w \<Rightarrow> int) \<Rightarrow> int" where
  "before' api p w k =
     (let (r, p, w) = sc_getparam api (sc_getpid api) p w in
      if r = - 1 then PTS_UNRESOLVED
      else let (old_policy, w) = sc_getscheduler api (sc_getpid api) w in
      if old_policy = - 1 then PTS_UNRESOLVED else k old_policy p w)"

definition sched_setscheduler_17_4 :: "('w, 'z) sched_prog" where
  "sched_setscheduler_17_4 api p w =
     (if has_ss api then
        before' api p w (\<lambda>old_policy p w.
          let old_priority = sched_priority p; (prio, w) = other_priority api (sc_SPORADIC api) old_priority w;
              p = p\<lparr>sched_priority := prio, sched_ss_max_repl := 0\<rparr>; (r, w) = sc_setscheduler api 0 (sc_SPORADIC api) p w in
          all_kept api p w old_policy old_priority)
      else PTS_UNSUPPORTED)"

text \<open>The loop of \<^verbatim>\<open>17-5.c\<close>: the least number from \<open>n\<close> on that is none of the three policies.\<close>

function invalid_policy :: "('w, 'z) sched_api_scheme \<Rightarrow> int \<Rightarrow> int" where
  "invalid_policy api n = (if n = sc_OTHER api \<or> n = sc_FIFO api \<or> n = sc_RR api then invalid_policy api (n + 1) else n)"
  by pat_completeness auto
termination
  by (relation "measure (\<lambda>(api, n). nat (max (sc_OTHER api) (max (sc_FIFO api) (sc_RR api)) + 1 - n))") auto

declare invalid_policy.simps [simp del]

definition sched_setscheduler_17_5 :: "('w, 'z) sched_prog" where
  "sched_setscheduler_17_5 api p w =
     before' api p w (\<lambda>old_policy p w.
       let (r, w) = sc_setscheduler api 0 (invalid_policy api 0) p w in
       if sc_errno api w = EOK then PTS_UNRESOLVED else all_kept api p w old_policy (sched_priority p))"

definition sched_setscheduler_17_6 :: "('w, 'z) sched_prog" where
  "sched_setscheduler_17_6 api p w =
     (if sc_getuid api w = 0 then PTS_UNTESTED
      else before' api p w (\<lambda>old_policy p w.
        let old_priority = sched_priority p; policy = other_policy api old_policy; (prio, w) = other_priority api policy old_priority w;
            p = p\<lparr>sched_priority := prio\<rparr>; (r, w) = sc_setscheduler api 1 policy p w in
        all_kept api p w old_policy old_priority))"

definition sched_setscheduler_17_7 :: "('w, 'z) sched_prog" where
  "sched_setscheduler_17_7 api p w =
     before' api p w (\<lambda>old_policy p w.
       let old_priority = sched_priority p; policy = other_policy api old_policy; (prio, w) = other_priority api policy old_priority w;
           p = p\<lparr>sched_priority := prio\<rparr> in
       dead_child api w (\<lambda>child_pid w.
         let (r, w) = sc_setscheduler api child_pid policy p w in all_kept api p w old_policy old_priority))"

fun each_refused :: "('w, 'z) sched_api_scheme \<Rightarrow> int list \<Rightarrow> int \<Rightarrow> sched_param \<Rightarrow> 'w \<Rightarrow> int" where
  "each_refused api [] result p w = result"
| "each_refused api (policy # tst) result p w =
     (let (invalid_priority, w) = sc_priority_max api policy w in
      if invalid_priority = - 1 then PTS_UNRESOLVED
      else let p = p\<lparr>sched_priority := invalid_priority + 1\<rparr>; (tmp, w) = sc_setscheduler api 0 policy p w in
      each_refused api tst
        (if tmp = - 1 \<and> sc_errno api w = EINVAL then result
         else if tmp \<noteq> - 1 then PTS_FAIL
         else if sc_errno api w = EPERM then not_fail result else PTS_FAIL) p w)"

definition sched_setscheduler_19_1 :: "('w, 'z) sched_prog" where
  "sched_setscheduler_19_1 api p w = each_refused api (sym api) PTS_PASS p w"

definition sched_setscheduler_19_2 :: "('w, 'z) sched_prog" where
  "sched_setscheduler_19_2 api p w =
     (if has_ss api then
        let (invalid_priority, w) = sc_priority_max api (sc_SPORADIC api) w in
        if invalid_priority = - 1 then PTS_UNRESOLVED
        else let (result, w) = sc_setscheduler api 0 (sc_SPORADIC api) (p\<lparr>sched_ss_low_priority := invalid_priority + 1\<rparr>) w in
        must_be EINVAL api result w
      else PTS_UNSUPPORTED)"

definition sched_setscheduler_19_3 :: "('w, 'z) sched_prog" where
  "sched_setscheduler_19_3 api p w =
     (if has_ss api then
        let (r, p, w) = sc_getparam api 0 p w in
        if r \<noteq> 0 then PTS_UNRESOLVED
        else let (max, w) = sc_priority_max api (sc_SPORADIC api) w;
             (result, w) = sc_setscheduler api 0 (sc_SPORADIC api) ((short_period p)\<lparr>sched_priority := max\<rparr>) w in
        must_be EINVAL api result w
      else PTS_UNSUPPORTED)"

definition sched_setscheduler_19_4 :: "('w, 'z) sched_prog" where
  "sched_setscheduler_19_4 api p w =
     (if has_ss api then
        let (r, p, w) = sc_getparam api 0 p w in
        if r = - 1 then PTS_UNRESOLVED
        else let (max, w) = sc_priority_max api (sc_SPORADIC api) w in
        repl_bounds (sc_setscheduler api 0 (sc_SPORADIC api)) api (p\<lparr>sched_priority := max\<rparr>) w
      else PTS_UNSUPPORTED)"

definition INVALID_POLICY :: int where
  "INVALID_POLICY = - 27367"

definition sched_setscheduler_19_5 :: "('w, 'z) sched_prog" where
  "sched_setscheduler_19_5 api p w =
     (let p = p\<lparr>sched_priority := 0\<rparr>; (result, w) = sc_setscheduler api 0 (- 1) p w in
      if result = - 1 \<and> sc_errno api w = EINVAL then PTS_PASS
      else if sc_errno api w = EPERM then PTS_UNRESOLVED
      else if sc_errno api w \<noteq> EOK then PTS_FAIL
      else let (result, w) = sc_setscheduler api 0 INVALID_POLICY p w in
      if result = - 1 \<and> sc_errno api w = EINVAL then PTS_PASS
      else if sc_errno api w = EOK then PTS_UNRESOLVED else PTS_FAIL)"

definition sched_setscheduler_20_1 :: "('w, 'z) sched_prog" where
  "sched_setscheduler_20_1 api p w =
     as_nonroot (sc_setuid api) api w (\<lambda>w.
       let (max, w) = sc_priority_max api (sc_FIFO api) w;
           (result, w) = sc_setscheduler api 1 (sc_FIFO api) (p\<lparr>sched_priority := max\<rparr>) w in
       if result = - 1 \<and> sc_errno api w = EPERM then PTS_PASS
       else if sc_errno api w \<noteq> EPERM then PTS_FAIL else PTS_FAIL)"

definition sched_setscheduler_21_1 :: "('w, 'z) sched_prog" where
  "sched_setscheduler_21_1 api p w =
     (let (max, w) = sc_priority_max api (sc_FIFO api) w; p = p\<lparr>sched_priority := max\<rparr> in
      dead_child api w (\<lambda>child_pid w.
        let (result, w) = sc_setscheduler api child_pid (sc_FIFO api) p w in must_be ESRCH api result w))"

definition sched_setscheduler_22_1 :: "('w, 'z) sched_prog" where
  "sched_setscheduler_22_1 api p w =
     (let (r, p, w) = sc_getparam api (sc_getpid api) p w in
      if r \<noteq> 0 then main_thread_exit
      else let (old_policy, w) = sc_getscheduler api (sc_getpid api) w; new_policy = other_policy api old_policy;
           (min, w) = sc_priority_min api new_policy w; p = p\<lparr>sched_priority := min\<rparr>;
           (r, w) = sc_setscheduler api (sc_getpid api) new_policy p w in
      if r \<noteq> 0 then PTS_UNRESOLVED
      else process_thread api w (\<lambda>tid w. thread_param api tid p w (\<lambda>policy p. policy = new_policy)))"

definition sched_setscheduler_22_2 :: "('w, 'z) sched_prog" where
  "sched_setscheduler_22_2 api p w =
     (let (r, p, w) = sc_getparam api (sc_getpid api) p w in
      if r \<noteq> 0 then main_thread_exit
      else let (new_priority, w) = other_priority api (sc_FIFO api) (sched_priority p) w; p = p\<lparr>sched_priority := new_priority\<rparr>;
           (r, w) = sc_setscheduler api (sc_getpid api) (sc_FIFO api) p w in
      if r \<noteq> 0 then PTS_UNRESOLVED
      else process_thread api w (\<lambda>tid w. thread_param api tid p w (\<lambda>policy p. sched_priority p = new_priority)))"

end
