(* ===== verification/Sched_Props.thy ===== *)
theory Sched_Props
  imports Sched_Tests
begin

text \<open>
  The contract of the scheduling calls, \<open>sched_system\<close>: a system is seen through \<open>view\<close> as a table of processes with their policy and parameters, and each call
  acts on the table. Shown of the programs of \<open>Sched_Tests\<close>: their verdicts on every system that keeps the contract, as a privileged and as an ordinary
  user, with threads of process scope and with a sporadic server; and what the programs notice of a \<^verbatim>\<open>sched_setparam\<close> that does nothing.
\<close>

section \<open>The contract\<close>

record sview =
  sv_errno :: errno
  sv_proc :: "int \<Rightarrow> (int \<times> sched_param) option"
  sv_child :: "int option"
  sv_uid :: int
  sv_root :: bool
  sv_thread :: "(int \<times> int \<times> sched_param) option"

definition target :: "('w, 'z) sched_api_scheme \<Rightarrow> int \<Rightarrow> int" where
  "target api pid = (if pid = 0 then sc_getpid api else pid)"

definition not_before :: "timespec \<Rightarrow> timespec \<Rightarrow> bool" where
  "not_before s t \<longleftrightarrow> ts_sec t < ts_sec s \<or> ts_sec s = ts_sec t \<and> ts_nsec t \<le> ts_nsec s"

text \<open>The parameters a policy accepts; the members of the sporadic server count under \<^verbatim>\<open>SCHED_SPORADIC\<close> only.\<close>

definition valid_param :: "('w, 'z) sched_api_scheme \<Rightarrow> (int \<Rightarrow> int) \<Rightarrow> (int \<Rightarrow> int) \<Rightarrow> int \<Rightarrow> sched_param \<Rightarrow> bool" where
  "valid_param api lo hi q p \<longleftrightarrow> q \<in> set (sym api) \<and> lo q \<le> sched_priority p \<and> sched_priority p \<le> hi q
     \<and> (has_any_ss api \<and> q = sc_SPORADIC api \<longrightarrow> lo q \<le> sched_ss_low_priority p \<and> sched_ss_low_priority p \<le> hi q
          \<and> not_before (sched_ss_repl_period p) (sched_ss_init_budget p) \<and> 1 \<le> sched_ss_max_repl p \<and> sched_ss_max_repl p \<le> sc_SS_REPL_MAX api)"

text \<open>
  \<open>may_read v t\<close> and \<open>may_set v t\<close>: the program may read and change the scheduling of process \<open>t\<close>; \<open>why v t q p\<close> is the error of a change that is refused, where
  the order of the checks is left open. A child that is waited for has ended.
\<close>

locale sched_system =
  fixes api :: "('w, 'z) sched_api_scheme" and view :: "'w \<Rightarrow> sview" and lo hi :: "int \<Rightarrow> int"
    and may_read may_set :: "sview \<Rightarrow> int \<Rightarrow> bool" and why :: "sview \<Rightarrow> int \<Rightarrow> int \<Rightarrow> sched_param \<Rightarrow> errno"
    and can_fork :: "sview \<Rightarrow> bool"
  assumes env: "sc_errno api w = sv_errno (view w)" "sc_getuid api w = sv_uid (view w)" "0 < sc_getpid api"
    and policies: "- 1 \<notin> set (sym api)" "sc_FIFO api \<noteq> sc_RR api" "has_any_ss api \<Longrightarrow> sc_has_SPORADIC api"
      "has_any_ss api \<Longrightarrow> sc_SPORADIC api \<notin> {sc_FIFO api, sc_RR api, sc_OTHER api}"
    and ranges: "q \<in> set (sym api) \<Longrightarrow> 0 \<le> lo q" "q \<in> set (sym api) \<Longrightarrow> lo q \<le> hi q"
    and limits: "q \<in> set (sym api) \<Longrightarrow> fst (sc_priority_max api q w) = hi q" "q \<in> set (sym api) \<Longrightarrow> fst (sc_priority_min api q w) = lo q"
      "q \<in> set (sym api) \<Longrightarrow> view (snd (sc_priority_max api q w)) = view w" "q \<in> set (sym api) \<Longrightarrow> view (snd (sc_priority_min api q w)) = view w"
    and no_limits: "q \<notin> set (sym api) \<Longrightarrow> fst (sc_priority_max api q w) = - 1" "q \<notin> set (sym api) \<Longrightarrow> fst (sc_priority_min api q w) = - 1"
      "q \<notin> set (sym api) \<Longrightarrow> view (snd (sc_priority_max api q w)) = (view w)\<lparr>sv_errno := EINVAL\<rparr>"
      "q \<notin> set (sym api) \<Longrightarrow> view (snd (sc_priority_min api q w)) = (view w)\<lparr>sv_errno := EINVAL\<rparr>"
    and getparam: "sv_proc (view w) (target api pid) = Some (q, r) \<Longrightarrow> may_read (view w) (target api pid) \<Longrightarrow>
        fst (sc_getparam api pid p w) = 0 \<and> fst (snd (sc_getparam api pid p w)) = r \<and> view (snd (snd (sc_getparam api pid p w))) = view w"
      "sv_proc (view w) (target api pid) = Some (q, r) \<Longrightarrow> \<not> may_read (view w) (target api pid) \<Longrightarrow>
        fst (sc_getparam api pid p w) = - 1 \<and> view (snd (snd (sc_getparam api pid p w))) = (view w)\<lparr>sv_errno := EPERM\<rparr>"
      "sv_proc (view w) (target api pid) = None \<Longrightarrow>
        fst (sc_getparam api pid p w) = - 1 \<and> view (snd (snd (sc_getparam api pid p w))) = (view w)\<lparr>sv_errno := ESRCH\<rparr>"
    and getscheduler: "sv_proc (view w) (target api pid) = Some (q, r) \<Longrightarrow> may_read (view w) (target api pid) \<Longrightarrow>
        fst (sc_getscheduler api pid w) = q \<and> view (snd (sc_getscheduler api pid w)) = view w"
      "sv_proc (view w) (target api pid) = Some (q, r) \<Longrightarrow> \<not> may_read (view w) (target api pid) \<Longrightarrow>
        fst (sc_getscheduler api pid w) = - 1 \<and> view (snd (sc_getscheduler api pid w)) = (view w)\<lparr>sv_errno := EPERM\<rparr>"
      "sv_proc (view w) (target api pid) = None \<Longrightarrow>
        fst (sc_getscheduler api pid w) = - 1 \<and> view (snd (sc_getscheduler api pid w)) = (view w)\<lparr>sv_errno := ESRCH\<rparr>"
    and setparam: "sv_proc (view w) (target api pid) = Some (q, r) \<Longrightarrow> may_set (view w) (target api pid) \<Longrightarrow> valid_param api lo hi q p \<Longrightarrow>
        fst (sc_setparam api pid p w) = 0
        \<and> view (snd (sc_setparam api pid p w)) = (view w)\<lparr>sv_proc := (sv_proc (view w))(target api pid \<mapsto> (q, p))\<rparr>"
      "sv_proc (view w) (target api pid) = Some (q, r) \<Longrightarrow> \<not> (may_set (view w) (target api pid) \<and> valid_param api lo hi q p) \<Longrightarrow>
        fst (sc_setparam api pid p w) = - 1
        \<and> view (snd (sc_setparam api pid p w)) = (view w)\<lparr>sv_errno := why (view w) (target api pid) q p\<rparr>"
      "sv_proc (view w) (target api pid) = None \<Longrightarrow>
        fst (sc_setparam api pid p w) = - 1 \<and> view (snd (sc_setparam api pid p w)) = (view w)\<lparr>sv_errno := ESRCH\<rparr>"
    and setscheduler: "sv_proc (view w) (target api pid) = Some (q', r) \<Longrightarrow> may_set (view w) (target api pid) \<Longrightarrow> valid_param api lo hi q p \<Longrightarrow>
        fst (sc_setscheduler api pid q p w) = q'
        \<and> view (snd (sc_setscheduler api pid q p w)) = (view w)\<lparr>sv_proc := (sv_proc (view w))(target api pid \<mapsto> (q, p))\<rparr>"
      "sv_proc (view w) (target api pid) = Some (q', r) \<Longrightarrow> \<not> (may_set (view w) (target api pid) \<and> valid_param api lo hi q p) \<Longrightarrow>
        fst (sc_setscheduler api pid q p w) = - 1
        \<and> view (snd (sc_setscheduler api pid q p w)) = (view w)\<lparr>sv_errno := why (view w) (target api pid) q p\<rparr>"
      "sv_proc (view w) (target api pid) = None \<Longrightarrow>
        fst (sc_setscheduler api pid q p w) = - 1 \<and> view (snd (sc_setscheduler api pid q p w)) = (view w)\<lparr>sv_errno := ESRCH\<rparr>"
    and why: "may_set v t \<Longrightarrow> why v t q p = EINVAL" "valid_param api lo hi q p \<Longrightarrow> \<not> may_set v t \<Longrightarrow> why v t q p = EPERM"
      "why v t q p \<in> {EPERM, EINVAL}"
    and rights: "may_read v (sc_getpid api)" "sv_root v \<Longrightarrow> may_read v t" "sv_root v \<Longrightarrow> may_set v t"
    and interval: "sv_proc (view w) (target api pid) = Some (q, r) \<Longrightarrow> may_read (view w) (target api pid) \<Longrightarrow>
        fst (sc_rr_get_interval api pid i w) = 0 \<and> 0 \<le> ts_sec (fst (snd (sc_rr_get_interval api pid i w)))
        \<and> 0 \<le> ts_nsec (fst (snd (sc_rr_get_interval api pid i w))) \<and> view (snd (snd (sc_rr_get_interval api pid i w))) = view w"
      "sv_proc (view w) (target api pid) = Some (q, r) \<Longrightarrow> may_read (view w) (target api pid) \<Longrightarrow> target api pid' = target api pid \<Longrightarrow> view w' = view w \<Longrightarrow>
        fst (snd (sc_rr_get_interval api pid' i w')) = fst (snd (sc_rr_get_interval api pid i w))"
      "sv_proc (view w) (target api pid) = None \<Longrightarrow>
        fst (sc_rr_get_interval api pid i w) = - 1 \<and> view (snd (snd (sc_rr_get_interval api pid i w))) = (view w)\<lparr>sv_errno := ESRCH\<rparr>"
    and yield: "fst (sc_yield api w) = 0"
    and fork: "can_fork (view w) \<Longrightarrow> 0 < fst (sc_fork api w)" "can_fork (view w) \<Longrightarrow> sv_proc (view w) (fst (sc_fork api w)) = None"
      "can_fork (view w) \<Longrightarrow> view (snd (sc_fork api w)) = (view w)\<lparr>sv_proc := (sv_proc (view w))(fst (sc_fork api w) := sv_proc (view w) (sc_getpid api)),
         sv_child := Some (fst (sc_fork api w))\<rparr>"
    and no_fork: "\<not> can_fork (view w) \<Longrightarrow> fst (sc_fork api w) = - 1"
    and wait: "sv_child (view w) = Some c \<Longrightarrow> fst (sc_wait api w) = c
        \<and> view (snd (sc_wait api w)) = (view w)\<lparr>sv_proc := (sv_proc (view w))(c := None), sv_child := None\<rparr>"
    and setuid: "sv_root (view w) \<Longrightarrow> fst (sc_setuid api u w) = 0 \<and> view (snd (sc_setuid api u w)) = (view w)\<lparr>sv_uid := u, sv_root := u = 0\<rparr>"
      "sv_root (view w) \<Longrightarrow> fst (sc_seteuid api u w) = 0 \<and> view (snd (sc_seteuid api u w)) = (view w)\<lparr>sv_root := u = 0\<rparr>"
    and attributes: "fst (sc_attr_init api w) = EOK" "view (snd (sc_attr_init api w)) = view w"
      "fst (sc_attr_setscope_process api w) \<in> {EOK, ENOTSUP}" "view (snd (sc_attr_setscope_process api w)) = view w"
    and thread: "sv_proc (view w) (sc_getpid api) = Some (q, r) \<Longrightarrow> fst (sc_thread_create api w) = EOK
        \<and> view (snd (snd (sc_thread_create api w))) = (view w)\<lparr>sv_thread := Some (fst (snd (sc_thread_create api w)), q, r)\<rparr>"
      "sv_thread (view w) = Some (tid, q, r) \<Longrightarrow> fst (sc_thread_getschedparam api tid p w) = EOK
        \<and> fst (snd (sc_thread_getschedparam api tid p w)) = q \<and> fst (snd (snd (sc_thread_getschedparam api tid p w))) = r"
begin

text \<open>The laws as rewrite rules: the policy and the parameters of a process are projections of its entry.\<close>

lemma getparam_laws:
  assumes "sv_proc (view w) (target api pid) \<noteq> None" and "may_read (view w) (target api pid)"
  shows "fst (sc_getparam api pid p w) = 0" "fst (snd (sc_getparam api pid p w)) = snd (the (sv_proc (view w) (target api pid)))"
    "view (snd (snd (sc_getparam api pid p w))) = view w"
  using assms getparam(1) [of w pid _ _ p] by fastforce+

lemma getscheduler_laws:
  assumes "sv_proc (view w) (target api pid) \<noteq> None" and "may_read (view w) (target api pid)"
  shows "fst (sc_getscheduler api pid w) = fst (the (sv_proc (view w) (target api pid)))" "view (snd (sc_getscheduler api pid w)) = view w"
  using assms getscheduler(1) [of w pid] by fastforce+

lemma setparam_laws:
  assumes "sv_proc (view w) (target api pid) \<noteq> None" and "may_set (view w) (target api pid)"
    and "valid_param api lo hi (fst (the (sv_proc (view w) (target api pid)))) p"
  shows "fst (sc_setparam api pid p w) = 0" "view (snd (sc_setparam api pid p w)) =
    (view w)\<lparr>sv_proc := (sv_proc (view w))(target api pid \<mapsto> (fst (the (sv_proc (view w) (target api pid))), p))\<rparr>"
  using assms setparam(1) [of w pid _ _ p] by fastforce+

lemma setparam_refused:
  assumes "sv_proc (view w) (target api pid) \<noteq> None"
    and "\<not> (may_set (view w) (target api pid) \<and> valid_param api lo hi (fst (the (sv_proc (view w) (target api pid)))) p)"
  shows "fst (sc_setparam api pid p w) = - 1" "view (snd (sc_setparam api pid p w)) =
    (view w)\<lparr>sv_errno := why (view w) (target api pid) (fst (the (sv_proc (view w) (target api pid)))) p\<rparr>"
  using assms setparam(2) [of w pid _ _ p] by fastforce+

lemma setscheduler_laws:
  assumes "sv_proc (view w) (target api pid) \<noteq> None" and "may_set (view w) (target api pid)" and "valid_param api lo hi q p"
  shows "fst (sc_setscheduler api pid q p w) = fst (the (sv_proc (view w) (target api pid)))"
    "view (snd (sc_setscheduler api pid q p w)) = (view w)\<lparr>sv_proc := (sv_proc (view w))(target api pid \<mapsto> (q, p))\<rparr>"
  using assms setscheduler(1) [of w pid _ _ q p] by fastforce+

lemma setscheduler_refused:
  assumes "sv_proc (view w) (target api pid) \<noteq> None" and "\<not> (may_set (view w) (target api pid) \<and> valid_param api lo hi q p)"
  shows "fst (sc_setscheduler api pid q p w) = - 1"
    "view (snd (sc_setscheduler api pid q p w)) = (view w)\<lparr>sv_errno := why (view w) (target api pid) q p\<rparr>"
  using assms setscheduler(2) [of w pid _ _ q p] by fastforce+

lemma interval_laws:
  assumes "sv_proc (view w) (target api pid) \<noteq> None" and "may_read (view w) (target api pid)"
  shows "fst (sc_rr_get_interval api pid i w) = 0" "view (snd (snd (sc_rr_get_interval api pid i w))) = view w"
    "0 \<le> ts_sec (fst (snd (sc_rr_get_interval api pid i w)))" "0 \<le> ts_nsec (fst (snd (sc_rr_get_interval api pid i w)))"
  using assms interval(1) [of w pid _ _ i] by fastforce+

lemma target_simps [simp]: "target api 0 = sc_getpid api" "target api (sc_getpid api) = sc_getpid api" "pid \<noteq> 0 \<Longrightarrow> target api pid = pid"
  by (simp_all add: target_def)

lemma validD: "valid_param api lo hi q p \<Longrightarrow> q \<in> set (sym api) \<and> lo q \<le> sched_priority p \<and> sched_priority p \<le> hi q \<and> q \<noteq> - 1"
  using policies(1) by (auto simp: valid_param_def)

lemma invalid [simp]: "\<not> valid_param api lo hi q (p\<lparr>sched_priority := hi q + 1\<rparr>)"
  by (simp add: valid_param_def)

lemma known [simp]: "sc_FIFO api \<in> set (sym api)" "sc_RR api \<in> set (sym api)" "sc_OTHER api \<in> set (sym api)"
  "has_any_ss api \<Longrightarrow> sc_SPORADIC api \<in> set (sym api)" "sc_FIFO api \<noteq> - 1" "sc_RR api \<noteq> - 1" "sc_OTHER api \<noteq> - 1"
  using policies(1) by (auto simp: sym_def)

lemma limit_neq [simp]: "q \<in> set (sym api) \<Longrightarrow> hi q \<noteq> - 1" "q \<in> set (sym api) \<Longrightarrow> lo q \<noteq> - 1"
  using ranges [of q] by auto

lemmas laws = split_def Let_def env(1,2) limits no_limits getparam_laws getparam(3) getscheduler_laws getscheduler(3) setparam_laws setparam_refused setparam(3)
  setscheduler_laws setscheduler_refused setscheduler(3) interval_laws interval(3) yield rights why(1)

section \<open>Queries\<close>

lemma limit_programs:
  assumes "sv_errno (view w) = EOK" and "q \<in> set (sym api)"
  shows "priority_limit (sc_priority_max api) q api w = PTS_PASS" "priority_limit (sc_priority_min api) q api w = PTS_PASS"
  using assms by (simp_all add: priority_limit_def laws)

lemma refused_programs: "priority_refused (sc_priority_max api) api w = PTS_PASS" "priority_refused (sc_priority_min api) api w = PTS_PASS"
  using policies(1) by (simp_all add: priority_refused_def laws)

lemma dead_childI:
  assumes "can_fork (view w)" and "sv_proc (view w) (sc_getpid api) = Some (q, r)"
    and "\<And>c w'. c \<noteq> 0 \<Longrightarrow> c \<noteq> sc_getpid api \<Longrightarrow> sv_proc (view w) c = None \<Longrightarrow> view w' = (view w)\<lparr>sv_child := None\<rparr> \<Longrightarrow> k c w' = x"
  shows "dead_child api w k = x"
proof -
  let ?c = "fst (sc_fork api w)" and ?w = "snd (sc_fork api w)"
  have c: "?c \<noteq> 0" "?c \<noteq> - 1" "?c \<noteq> sc_getpid api" using fork(1,2) [OF assms(1)] assms(2) by auto
  have "(sv_proc (view w))(?c := None) = sv_proc (view w)" using fork(2) [OF assms(1)] by (intro ext) simp
  then have wt: "fst (sc_wait api ?w) = ?c" "view (snd (sc_wait api ?w)) = (view w)\<lparr>sv_child := None\<rparr>"
    using wait [of ?w ?c] by (simp_all add: fork(3) [OF assms(1)])
  then have "k ?c (snd (sc_wait api ?w)) = x" using assms(3) c fork(2) [OF assms(1)] by blast
  then show ?thesis using c wt by (simp add: dead_child_def split_def Let_def)
qed

lemma dead_child_none: "\<not> can_fork (view w) \<Longrightarrow> dead_child api w k = PTS_UNRESOLVED"
  using no_fork by (simp add: dead_child_def split_def Let_def)

lemma getparam_programs:
  assumes "sv_errno (view w) = EOK" and "sv_proc (view w) (sc_getpid api) = Some (q, r)" and "valid_param api lo hi q r"
  shows "sched_getparam_1_1 api p w = PTS_PASS" "sched_getparam_2_1 api p w = PTS_PASS" "sched_getparam_3_1 api p w = PTS_PASS"
    "sched_getparam_4_1 api p w = (if can_fork (view w) then PTS_PASS else PTS_UNRESOLVED)"
proof -
  have "sched_priority r \<noteq> - 1" using ranges(1) [of q] validD [OF assms(3)] by auto
  then show "sched_getparam_1_1 api p w = PTS_PASS" "sched_getparam_3_1 api p w = PTS_PASS"
    using assms by (simp_all add: sched_getparam_1_1_def sched_getparam_3_1_def laws)
  show "sched_getparam_2_1 api p w = PTS_PASS" using assms by (simp add: sched_getparam_2_1_def laws)
  show "sched_getparam_4_1 api p w = (if can_fork (view w) then PTS_PASS else PTS_UNRESOLVED)"
    unfolding sched_getparam_4_1_def using assms by (auto intro!: dead_childI simp: laws dead_child_none)
qed

lemma find_policy_known: "q \<in> set ps \<Longrightarrow> find_policy q ps = PTS_PASS"
  by (induction ps) auto

lemma sym_known: "set (sym api) \<subseteq> set (known_policies api)"
  using policies(3) by (auto simp: sym_def known_policies_def)

lemma getscheduler_programs:
  assumes "sv_errno (view w) = EOK" and "sv_proc (view w) (sc_getpid api) = Some (q, r)" and "valid_param api lo hi q r"
  shows "sched_getscheduler_1_1 api p w = PTS_PASS" "sched_getscheduler_3_1 api p w = PTS_PASS" "sched_getscheduler_4_1 api p w = PTS_PASS"
    "sched_getscheduler_5_1 api p w = (if can_fork (view w) then PTS_PASS else PTS_UNRESOLVED)"
proof -
  have q: "q \<noteq> - 1" "q \<in> set (known_policies api)" using validD [OF assms(3)] sym_known by auto
  then show "sched_getscheduler_1_1 api p w = PTS_PASS" "sched_getscheduler_3_1 api p w = PTS_PASS" "sched_getscheduler_4_1 api p w = PTS_PASS"
    using assms by (simp_all add: sched_getscheduler_1_1_def sched_getscheduler_3_1_def sched_getscheduler_4_1_def laws find_policy_known)
  show "sched_getscheduler_5_1 api p w = (if can_fork (view w) then PTS_PASS else PTS_UNRESOLVED)"
    unfolding sched_getscheduler_5_1_def using assms by (auto intro!: dead_childI simp: laws dead_child_none)
qed

lemma interval_programs:
  assumes "sv_errno (view w) = EOK" and "sv_proc (view w) (sc_getpid api) = Some (q, r)"
  shows "sched_rr_get_interval_1_1 api p w = PTS_PASS" "sched_rr_get_interval_2_1 api p w = PTS_PASS" "sched_rr_get_interval_3_1 i api p w = (if can_fork (view w) then PTS_PASS else PTS_UNRESOLVED)"
    "sched_yield_2_1 api p w = PTS_PASS"
proof -
  let ?i = "\<lparr>ts_sec = - 1, ts_nsec = - 1\<rparr>"
  have "fst (snd (sc_rr_get_interval api (sc_getpid api) ?i (snd (snd (sc_rr_get_interval api 0 ?i w))))) = fst (snd (sc_rr_get_interval api 0 ?i w))"
    using assms rights(1) by (intro interval(2) [of _ _ q r]) (simp_all add: interval_laws)
  then show "sched_rr_get_interval_1_1 api p w = PTS_PASS" using assms by (simp add: sched_rr_get_interval_1_1_def laws)
  show "sched_rr_get_interval_2_1 api p w = PTS_PASS" "sched_yield_2_1 api p w = PTS_PASS"
    using assms by (simp_all add: sched_rr_get_interval_2_1_def sched_yield_2_1_def laws)
  show "sched_rr_get_interval_3_1 i api p w = (if can_fork (view w) then PTS_PASS else PTS_UNRESOLVED)"
    unfolding sched_rr_get_interval_3_1_def using assms by (auto intro!: dead_childI simp: laws dead_child_none)
qed

section \<open>Changes by a privileged process\<close>

text \<open>A priority of the range keeps the parameters valid.\<close>

lemma valid_priority: "valid_param api lo hi q r \<Longrightarrow> lo q \<le> n \<Longrightarrow> n \<le> hi q \<Longrightarrow> valid_param api lo hi q (r\<lparr>sched_priority := n\<rparr>)"
  by (simp add: valid_param_def)

lemma other_priority_laws:
  assumes "q \<in> set (sym api)"
  shows "fst (other_priority api q n w) = (if n = hi q then lo q else hi q)" "view (snd (other_priority api q n w)) = view w"
    "lo q \<le> fst (other_priority api q n w)" "fst (other_priority api q n w) \<le> hi q"
  using assms ranges(2) [of q] by (auto simp: other_priority_def laws)

lemma setparam_programs:
  assumes "sv_root (view w)" and "sv_proc (view w) (sc_getpid api) = Some (q, r)" and "valid_param api lo hi q r"
  shows "sched_setparam_5_1 api p w = PTS_PASS" "sched_setparam_22_1 api p w = PTS_PASS" "sched_setparam_23_1 api p w = PTS_PASS"
    "sched_setparam_23_7 api p w = (if can_fork (view w) then PTS_PASS else PTS_UNRESOLVED)" "sched_setparam_25_1 api p w = PTS_PASS" "sched_setparam_27_1 api p w = (if can_fork (view w) then PTS_PASS else PTS_UNRESOLVED)"
proof -
  have q: "q \<in> set (sym api)" "q \<noteq> - 1" "lo q \<le> hi q" using validD [OF assms(3)] ranges(2) by auto
  show "sched_setparam_5_1 api p w = PTS_PASS" "sched_setparam_22_1 api p w = PTS_PASS"
    using assms q by (simp_all add: sched_setparam_5_1_def sched_setparam_22_1_def laws valid_priority)
  show "sched_setparam_23_1 api p w = PTS_PASS" "sched_setparam_25_1 api p w = PTS_PASS"
    using assms q by (simp_all add: sched_setparam_23_1_def sched_setparam_25_1_def priority_kept_def must_be_def laws)
  show "sched_setparam_23_7 api p w = (if can_fork (view w) then PTS_PASS else PTS_UNRESOLVED)" "sched_setparam_27_1 api p w = (if can_fork (view w) then PTS_PASS else PTS_UNRESOLVED)"
    unfolding sched_setparam_23_7_def sched_setparam_27_1_def
    using assms by (auto intro!: dead_childI [where q = q and r = r] simp: laws dead_child_none priority_kept_def must_be_def)
qed

lemma setparam_child_program:
  assumes "sv_root (view w)" and "sv_proc (view w) (sc_getpid api) = Some (q, r)" and "valid_param api lo hi q r"
  shows "sched_setparam_1_1 api p w = (if can_fork (view w) then PTS_PASS else PTS_UNRESOLVED)"
proof (cases "can_fork (view w)")
  case True
  have q: "q \<in> set (sym api)" "q \<noteq> - 1" "lo q \<le> hi q" using validD [OF assms(3)] ranges(2) by auto
  have c: "fst (sc_fork api w) \<noteq> 0" "fst (sc_fork api w) \<noteq> - 1" "fst (sc_fork api w) \<noteq> sc_getpid api"
    using fork(1,2) [OF True] assms(2) by auto
  then show ?thesis
    using assms q True by (simp add: sched_setparam_1_1_def end_child_def laws fork(3) valid_priority)
next
  case False
  then show ?thesis using no_fork [OF False] by (simp add: sched_setparam_1_1_def split_def Let_def)
qed

section \<open>Changes of the policy\<close>

lemma valid_plain:
  assumes "q \<in> {sc_FIFO api, sc_RR api, sc_OTHER api}" and "lo q \<le> n" and "n \<le> hi q"
  shows "valid_param api lo hi q (p\<lparr>sched_priority := n\<rparr>)"
proof -
  have "q \<in> set (sym api)" "has_any_ss api \<Longrightarrow> q \<noteq> sc_SPORADIC api" using assms(1) policies(4) by auto
  then show ?thesis using assms(2,3) by (auto simp: valid_param_def)
qed

lemma other_policy_laws: "other_policy api q \<in> {sc_FIFO api, sc_RR api, sc_OTHER api}" "other_policy api q \<in> set (sym api)"
  "other_policy api q \<noteq> q" "other_policy api q \<noteq> - 1" "lo (other_policy api q) \<le> hi (other_policy api q)"
  using policies(2) ranges(2) by (auto simp: other_policy_def)

lemma each_policy_pass:
  assumes "set ps \<subseteq> {sc_FIFO api, sc_RR api, sc_OTHER api}" and "sv_errno (view w) = EOK" and "sv_root (view w)"
    and "sv_proc (view w) (sc_getpid api) = Some (q, r)" and "q \<noteq> - 1"
  shows "each_policy api ps PTS_PASS p w = PTS_PASS"
  using assms
proof (induction ps arbitrary: p w q r)
  case (Cons a ps)
  let ?m = "(lo a + hi a) sdiv 2"
  have a: "a \<in> {sc_FIFO api, sc_RR api, sc_OTHER api}" using Cons.prems(1) by simp
  then have sa: "a \<in> set (sym api)" "a \<noteq> - 1" using policies(1) by auto
  then have "lo a \<le> ?m" "?m \<le> hi a" using ranges [of a] by (auto simp: signed_divide_int_def sgn_if)
  then have v: "valid_param api lo hi a (p\<lparr>sched_priority := ?m\<rparr>)" for p using a by (intro valid_plain) auto
  then show ?case using Cons.prems sa by (simp add: laws Cons.IH)
qed simp

lemma each_kept_pass:
  assumes "set ps \<subseteq> set (sym api)" and "sv_proc (view w) (sc_getpid api) = Some (q, r)" and "q \<noteq> - 1"
  shows "each_kept api ps PTS_PASS p w = PTS_PASS"
  using assms by (induction ps arbitrary: p w) (simp_all add: before_def after_def laws)

lemma each_refused_pass:
  assumes "set ps \<subseteq> set (sym api)" and "sv_root (view w)" and "sv_proc (view w) (sc_getpid api) = Some (q, r)"
  shows "each_refused api ps PTS_PASS p w = PTS_PASS"
  using assms by (induction ps arbitrary: p w) (simp_all add: laws)

lemma setscheduler_programs:
  assumes "sv_errno (view w) = EOK" and "sv_root (view w)" and "sv_proc (view w) (sc_getpid api) = Some (q, r)" and "valid_param api lo hi q r"
  shows "\<not> has_any_ss api \<Longrightarrow> sched_setscheduler_1_1 api p w = PTS_PASS" "sched_setscheduler_4_1 api p w = PTS_PASS" "sched_setscheduler_16_1 api p w = PTS_PASS"
    "sched_setscheduler_17_1 api p w = PTS_PASS" "invalid_policy api 0 \<notin> set (sym api) \<Longrightarrow> sched_setscheduler_17_5 api p w = PTS_PASS"
    "sched_setscheduler_17_7 api p w = (if can_fork (view w) then PTS_PASS else PTS_UNRESOLVED)" "sched_setscheduler_19_1 api p w = PTS_PASS" "sched_setscheduler_19_5 api p w = PTS_PASS"
    "sched_setscheduler_21_1 api p w = (if can_fork (view w) then PTS_PASS else PTS_UNRESOLVED)"
proof -
  have q: "q \<in> set (sym api)" "q \<noteq> - 1" "lo q \<le> hi q" using validD [OF assms(4)] ranges(2) by auto
  show "sched_setscheduler_1_1 api p w = PTS_PASS" if "\<not> has_any_ss api"
    unfolding sched_setscheduler_1_1_def using assms q that by (intro each_policy_pass) (auto simp: sym_def)
  have v: "valid_param api lo hi (other_policy api q) (p\<lparr>sched_priority := fst (other_priority api (other_policy api q) n w)\<rparr>)"
    "valid_param api lo hi (other_policy api q) (p\<lparr>sched_priority := hi (other_policy api q)\<rparr>)" for n p w
    using other_policy_laws [of q] other_priority_laws [of "other_policy api q" n w] by (auto intro!: valid_plain)
  show "sched_setscheduler_4_1 api p w = PTS_PASS" "sched_setscheduler_16_1 api p w = PTS_PASS"
    using assms q v by (simp_all add: sched_setscheduler_4_1_def sched_setscheduler_16_1_def laws other_policy_laws other_priority_laws(2))
  show "sched_setscheduler_17_1 api p w = PTS_PASS" "sched_setscheduler_19_1 api p w = PTS_PASS"
    unfolding sched_setscheduler_17_1_def sched_setscheduler_19_1_def using assms q by (auto intro!: each_kept_pass each_refused_pass)
  have i: "\<not> valid_param api lo hi q p" if "q \<notin> set (sym api)" for q p using that by (simp add: valid_param_def)
  show "sched_setscheduler_17_5 api p w = PTS_PASS" if "invalid_policy api 0 \<notin> set (sym api)"
    using assms q i [OF that] by (simp add: sched_setscheduler_17_5_def before'_def all_kept_def after_def laws)
  show "sched_setscheduler_19_5 api p w = PTS_PASS"
    using assms i [OF policies(1)] by (simp add: sched_setscheduler_19_5_def laws)
  show "sched_setscheduler_17_7 api p w = (if can_fork (view w) then PTS_PASS else PTS_UNRESOLVED)"
    using assms q by (auto simp: sched_setscheduler_17_7_def before'_def all_kept_def after_def laws dead_child_none other_policy_laws other_priority_laws
      intro!: dead_childI [where q = q and r = r])
  show "sched_setscheduler_21_1 api p w = (if can_fork (view w) then PTS_PASS else PTS_UNRESOLVED)"
    using assms q by (auto simp: sched_setscheduler_21_1_def must_be_def laws dead_child_none intro!: dead_childI [where q = q and r = r])
qed

end

section \<open>Ordinary users\<close>

text \<open>Systems on which the scheduling of process 1 is closed to ordinary users, who may not change their own either; the first user that is not
  \<^verbatim>\<open>root\<close> is an ordinary one.\<close>

locale sched_users = sched_system +
  assumes ordinary: "\<not> sv_root v \<Longrightarrow> \<not> may_read v 1" "\<not> sv_root v \<Longrightarrow> \<not> may_set v t"
    and user: "\<exists>u. find (\<lambda>u. fst u \<noteq> ''root'') (sc_passwd api) = Some u \<and> snd u \<noteq> 0"
begin

lemma nonrootI:
  assumes "sv_root (view w) \<longleftrightarrow> sv_uid (view w) = 0" and "setid = sc_setuid api \<or> setid = sc_seteuid api"
    and "\<And>w'. sv_proc (view w') = sv_proc (view w) \<Longrightarrow> sv_errno (view w') = sv_errno (view w) \<Longrightarrow> \<not> sv_root (view w') \<Longrightarrow> k w' = x"
  shows "as_nonroot setid api w k = x"
  using assms user by (auto simp: as_nonroot_def set_nonroot_def env(2) split_def Let_def setuid)

lemma refused_other:
  assumes "sv_proc (view w) 1 = Some (q, r)" and "\<not> sv_root (view w)"
  shows "fst (sc_getparam api 1 p w) = - 1" "view (snd (snd (sc_getparam api 1 p w))) = (view w)\<lparr>sv_errno := EPERM\<rparr>"
    "fst (sc_getscheduler api 1 w) = - 1" "view (snd (sc_getscheduler api 1 w)) = (view w)\<lparr>sv_errno := EPERM\<rparr>"
  using assms ordinary(1) getparam(2) [of w 1 q r p] getscheduler(2) [of w 1 q r] by auto

lemma user_programs:
  assumes "sv_root (view w) \<longleftrightarrow> sv_uid (view w) = 0" and "sv_proc (view w) 1 = Some (q, r)"
  shows "sched_getparam_6_1 api p w = PTS_PASS" "sched_getscheduler_7_1 api p w = PTS_PASS" "sched_setscheduler_20_1 api p w = PTS_PASS"
proof -
  show "sched_getparam_6_1 api p w = PTS_PASS" "sched_getscheduler_7_1 api p w = PTS_PASS"
    using assms by (auto simp: sched_getparam_6_1_def sched_getscheduler_7_1_def split_def Let_def refused_other env(1) intro!: nonrootI)
  have "why v 1 (sc_FIFO api) (p\<lparr>sched_priority := hi (sc_FIFO api)\<rparr>) = EPERM" if "\<not> sv_root v" for v
    using that ordinary(2) valid_plain [of "sc_FIFO api" "hi (sc_FIFO api)"] ranges(2) by (intro why(2)) auto
  then show "sched_setscheduler_20_1 api p w = PTS_PASS"
    using assms by (auto simp: sched_setscheduler_20_1_def laws ordinary(2) intro!: nonrootI)
qed

lemma plain_user_programs:
  assumes "sv_uid (view w) \<noteq> 0" and "\<not> sv_root (view w)" and "sv_proc (view w) 1 = Some (q, s)" and "sc_getpid api \<noteq> 1"
    and "sv_proc (view w) (sc_getpid api) = Some (q, r)" and "valid_param api lo hi q r"
  shows "sched_setparam_26_1 api p w = PTS_PASS" "sched_setscheduler_17_6 api p w = PTS_PASS"
proof -
  have q: "q \<in> set (sym api)" "q \<noteq> - 1" using validD [OF assms(6)] by auto
  have "why (view w) 1 q r = EPERM" using assms(2,6) ordinary(2) by (intro why(2)) auto
  then show "sched_setparam_26_1 api p w = PTS_PASS" using assms by (simp add: sched_setparam_26_1_def laws ordinary(2))
  show "sched_setscheduler_17_6 api p w = PTS_PASS"
    using assms q by (simp add: sched_setscheduler_17_6_def before'_def all_kept_def after_def laws ordinary(2) other_policy_laws other_priority_laws(2))
qed

lemma own_priority_program:
  assumes "sv_root (view w)" and "sv_uid (view w) = 0" and "sv_proc (view w) (sc_getpid api) = Some (q, r)" and "lo (sc_FIFO api) < hi (sc_FIFO api)"
  shows "sched_setparam_23_6 api p w = PTS_PASS"
proof -
  let ?p = "p\<lparr>sched_priority := lo (sc_FIFO api)\<rparr>"
  have v: "valid_param api lo hi (sc_FIFO api) ?p" "valid_param api lo hi (sc_FIFO api) (p\<lparr>sched_priority := lo (sc_FIFO api) + 1\<rparr>)"
    using assms(4) by (auto intro!: valid_plain)
  then have "why v t (sc_FIFO api) (p\<lparr>sched_priority := lo (sc_FIFO api) + 1\<rparr>) = EPERM" if "\<not> sv_root v" for v t
    using that ordinary(2) by (intro why(2)) auto
  then show ?thesis
    using assms v by (auto simp: sched_setparam_23_6_def priority_kept_def laws ordinary(2) intro!: nonrootI)
qed

end

section \<open>Threads\<close>

context sched_system
begin

lemma process_threadI:
  assumes "sv_proc (view w) (sc_getpid api) = Some (q, r)"
    and "\<And>tid w'. view w' = (view w)\<lparr>sv_thread := Some (tid, q, r)\<rparr> \<Longrightarrow> k tid w' = x"
  shows "process_thread api w k = (if fst (sc_attr_setscope_process api (snd (sc_attr_init api w))) = EOK then x else PTS_UNSUPPORTED)"
proof -
  let ?w = "snd (sc_attr_setscope_process api (snd (sc_attr_init api w)))"
  have "view ?w = view w" by (simp add: attributes)
  then have "k (fst (snd (sc_thread_create api ?w))) (snd (snd (sc_thread_create api ?w))) = x" "fst (sc_thread_create api ?w) = EOK"
    using assms thread(1) [of ?w q r] by auto
  then show ?thesis
    using attributes(3) [of "snd (sc_attr_init api w)"] by (auto simp: process_thread_def split_def Let_def attributes(1))
qed

lemma thread_paramI:
  assumes "sv_thread (view w) = Some (tid, q, r)"
  shows "thread_param api tid p w good = (if good q r then PTS_PASS else PTS_FAIL)"
  using thread(2) [OF assms, of p] by (simp add: thread_param_def split_def Let_def)

lemma thread_programs:
  assumes "sv_root (view w)" and "sv_proc (view w) (sc_getpid api) = Some (q, r)" and "valid_param api lo hi q r" and "\<And>w. fst (sc_attr_setscope_process api w) = EOK"
  shows "lo q < hi q \<Longrightarrow> sched_setparam_20_1 api p w = PTS_FAIL" "sched_setparam_21_1 api p w = PTS_PASS" "sched_setparam_21_2 api p w = PTS_PASS"
    "sched_setscheduler_15_1 api p w = (if q = 0 then PTS_FAIL else PTS_UNRESOLVED)"
    "lo (sc_FIFO api) < hi (sc_FIFO api) \<Longrightarrow> sched_setscheduler_15_2 api p w = (if q = 0 then PTS_FAIL else PTS_UNRESOLVED)"
    "sched_setscheduler_22_1 api p w = (if q = 0 then PTS_PASS else PTS_UNRESOLVED)"
    "sched_setscheduler_22_2 api p w = (if q = 0 then PTS_PASS else PTS_UNRESOLVED)"
proof -
  have q: "q \<in> set (sym api)" using validD [OF assms(3)] by auto
  let ?n = "if sched_priority r = hi q then lo q else hi q"
  have v: "valid_param api lo hi q (r\<lparr>sched_priority := lo q\<rparr>)" "valid_param api lo hi q (r\<lparr>sched_priority := hi q\<rparr>)"
    using q ranges(2) by (auto intro!: valid_priority [OF assms(3)])
  show "sched_setparam_20_1 api p w = PTS_FAIL" if "lo q < hi q"
    using assms q v that
    by (auto simp: sched_setparam_20_1_def laws other_priority_laws(1,2) thread_paramI process_threadI [where q = q and r = r and x = PTS_FAIL])
  show "sched_setparam_21_1 api p w = PTS_PASS" "sched_setparam_21_2 api p w = PTS_PASS"
    using assms q v
    by (auto simp: sched_setparam_21_1_def sched_setparam_21_2_def set_then_thread_def laws other_priority_laws(1,2) thread_paramI
      process_threadI [where q = q and r = "r\<lparr>sched_priority := ?n\<rparr>" and x = PTS_PASS])
  show "sched_setscheduler_15_1 api p w = (if q = 0 then PTS_FAIL else PTS_UNRESOLVED)"
    using assms q other_policy_laws [of q] valid_plain [of "other_policy api q" "lo (other_policy api q)" p]
    by (cases "q = 0") (simp_all add: sched_setscheduler_15_1_def laws thread_paramI process_threadI [where q = q and r = r and x = PTS_FAIL]
      process_threadI [where q = q and r = r and x = PTS_UNRESOLVED])
  show "sched_setscheduler_15_2 api p w = (if q = 0 then PTS_FAIL else PTS_UNRESOLVED)" if "lo (sc_FIFO api) < hi (sc_FIFO api)"
    using assms q that valid_plain [of "sc_FIFO api" "lo (sc_FIFO api)" r] valid_plain [of "sc_FIFO api" "hi (sc_FIFO api)" r]
    by (cases "q = 0") (auto simp: sched_setscheduler_15_2_def laws other_priority_laws(1,2) thread_paramI
      process_threadI [where q = q and r = r and x = PTS_FAIL] process_threadI [where q = q and r = r and x = PTS_UNRESOLVED])
  show "sched_setscheduler_22_1 api p w = (if q = 0 then PTS_PASS else PTS_UNRESOLVED)"
    using assms q other_policy_laws [of q] valid_plain [of "other_policy api q" "lo (other_policy api q)" r]
    by (cases "q = 0") (simp_all add: sched_setscheduler_22_1_def laws thread_paramI
      process_threadI [where q = "other_policy api q" and r = "r\<lparr>sched_priority := lo (other_policy api q)\<rparr>" and x = PTS_PASS])
  let ?f = "if sched_priority r = hi (sc_FIFO api) then lo (sc_FIFO api) else hi (sc_FIFO api)"
  show "sched_setscheduler_22_2 api p w = (if q = 0 then PTS_PASS else PTS_UNRESOLVED)"
    using assms q ranges(2) [of "sc_FIFO api"] valid_plain [of "sc_FIFO api" "lo (sc_FIFO api)" r] valid_plain [of "sc_FIFO api" "hi (sc_FIFO api)" r]
    by (cases "q = 0") (auto simp: sched_setscheduler_22_2_def laws other_priority_laws(1,2) thread_paramI
      process_threadI [where q = "sc_FIFO api" and r = "r\<lparr>sched_priority := ?f\<rparr>" and x = PTS_PASS])
qed

section \<open>The sporadic server\<close>

lemma has_ss_any: "has_ss api \<Longrightarrow> has_any_ss api"
  by (simp add: has_any_ss_def)

lemma spoiled:
  assumes "has_any_ss api"
  shows "\<not> valid_param api lo hi (sc_SPORADIC api) (p\<lparr>sched_ss_low_priority := hi (sc_SPORADIC api) + 1, sched_priority := n\<rparr>)"
    "\<not> valid_param api lo hi (sc_SPORADIC api) (p\<lparr>sched_ss_low_priority := hi (sc_SPORADIC api) + 1\<rparr>)"
    "\<not> valid_param api lo hi (sc_SPORADIC api) (short_period p)" "\<not> valid_param api lo hi (sc_SPORADIC api) ((short_period p)\<lparr>sched_priority := n\<rparr>)"
    "\<not> valid_param api lo hi (sc_SPORADIC api) (p\<lparr>sched_ss_max_repl := 0\<rparr>)"
    "\<not> valid_param api lo hi (sc_SPORADIC api) (p\<lparr>sched_ss_max_repl := 0, sched_priority := n\<rparr>)"
    "\<not> valid_param api lo hi (sc_SPORADIC api) (p\<lparr>sched_priority := n, sched_ss_max_repl := 0\<rparr>)"
    "\<not> valid_param api lo hi (sc_SPORADIC api) (p\<lparr>sched_ss_max_repl := sc_SS_REPL_MAX api + 1\<rparr>)"
    "\<not> valid_param api lo hi (sc_SPORADIC api) (p\<lparr>sched_ss_max_repl := sc_SS_REPL_MAX api + 1, sched_priority := n\<rparr>)"
    "\<not> valid_param api lo hi (sc_SPORADIC api) (p\<lparr>sched_priority := n, sched_ss_max_repl := sc_SS_REPL_MAX api + 1\<rparr>)"
  using assms by (simp_all add: valid_param_def short_period_def not_before_def)

text \<open>Under another policy the members of the sporadic server have no effect.\<close>

lemma not_spoiled:
  assumes "q \<noteq> sc_SPORADIC api" and "q \<in> set (sym api)"
  shows "valid_param api lo hi q p \<longleftrightarrow> lo q \<le> sched_priority p \<and> sched_priority p \<le> hi q"
  using assms by (simp add: valid_param_def)

lemma sporadic_set_programs:
  assumes "has_ss api" and "sv_root (view w)" and "sv_proc (view w) (sc_getpid api) = Some (q, r)" and "q \<noteq> - 1"
  shows "sched_setscheduler_17_2 api p w = PTS_PASS" "sched_setscheduler_17_3 api p w = PTS_PASS" "sched_setscheduler_17_4 api p w = PTS_PASS"
    "sched_setscheduler_19_2 api p w = PTS_PASS" "sched_setscheduler_19_3 api p w = PTS_PASS" "sched_setscheduler_19_4 api p w = PTS_PASS"
proof -
  note s = assms has_ss_any [OF assms(1)] spoiled [OF has_ss_any [OF assms(1)]]
  show "sched_setscheduler_17_2 api p w = PTS_PASS" "sched_setscheduler_17_3 api p w = PTS_PASS"
    using s by (simp_all add: sched_setscheduler_17_2_def sched_setscheduler_17_3_def before_def all_kept_def after_def laws)
  show "sched_setscheduler_17_4 api p w = PTS_PASS"
    using s by (simp add: sched_setscheduler_17_4_def before'_def all_kept_def after_def laws other_priority_laws(2))
  show "sched_setscheduler_19_2 api p w = PTS_PASS" "sched_setscheduler_19_3 api p w = PTS_PASS"
    using s by (simp_all add: sched_setscheduler_19_2_def sched_setscheduler_19_3_def must_be_def laws)
  show "sched_setscheduler_19_4 api p w = PTS_PASS"
    using s by (simp add: sched_setscheduler_19_4_def repl_bounds_def repl_first_def repl_second_def laws)
qed

lemma sporadic_param_programs:
  assumes "has_ss api" and "sv_root (view w)" and "sv_proc (view w) (sc_getpid api) = Some (sc_SPORADIC api, r)"
  shows "sched_setparam_23_2 api p w = PTS_PASS" "sched_setparam_23_3 api p w = PTS_PASS" "sched_setparam_23_4 api p w = PTS_PASS"
    "sched_setparam_23_5 api p w = PTS_PASS" "sched_setparam_25_2 api p w = PTS_PASS" "sched_setparam_25_3 api p w = Some PTS_PASS"
    "sched_setparam_25_4 api p w = Some PTS_PASS"
proof -
  have n: "sc_SPORADIC api \<noteq> - 1" "sc_SPORADIC api \<in> set (sym api)"
    using policies(1) has_ss_any [OF assms(1)] known(4) by fastforce+
  note s = assms n has_ss_any [OF assms(1)] spoiled [OF has_ss_any [OF assms(1)]]
  show "sched_setparam_23_2 api p w = PTS_PASS" "sched_setparam_25_2 api p w = PTS_PASS"
    using s by (simp_all add: sched_setparam_23_2_def sched_setparam_25_2_def priority_kept_def must_be_def laws)
  show "sched_setparam_23_3 api p w = PTS_PASS" "sched_setparam_23_4 api p w = PTS_PASS" "sched_setparam_23_5 api p w = PTS_PASS"
    using s by (simp_all add: sched_setparam_23_3_def sched_setparam_23_4_def sched_setparam_23_5_def spoiled_kept_def priority_kept_def laws)
  show "sched_setparam_25_3 api p w = Some PTS_PASS" "sched_setparam_25_4 api p w = Some PTS_PASS"
    using s by (simp_all add: sched_setparam_25_3_def sched_setparam_25_4_def must_be_def repl_bounds_def repl_first_def repl_second_def laws)
qed

lemma sporadic_other_policy:
  assumes "has_ss api" and "sv_root (view w)" and "sv_proc (view w) (sc_getpid api) = Some (q, r)" and "valid_param api lo hi q r" and "q \<noteq> sc_SPORADIC api"
  shows "spoiled_kept short_period api p w = (if sched_priority r < hi q then PTS_FAIL else PTS_PASS)"
    "spoiled_kept (sched_ss_max_repl_update (\<lambda>_. n)) api p w = (if sched_priority r < hi q then PTS_FAIL else PTS_PASS)"
    "sched_setparam_25_3 api p w = Some PTS_FAIL" "sched_setparam_25_4 api p w = Some PTS_FAIL"
proof -
  note q = validD [OF assms(4)]
  then have "lo q \<le> sched_priority r + 1" by simp
  note s = assms(1-3,5) q this not_spoiled [OF assms(5)]
  show "spoiled_kept short_period api p w = (if sched_priority r < hi q then PTS_FAIL else PTS_PASS)"
    "spoiled_kept (sched_ss_max_repl_update (\<lambda>_. n)) api p w = (if sched_priority r < hi q then PTS_FAIL else PTS_PASS)"
    using s by (simp_all add: spoiled_kept_def priority_kept_def short_period_def laws)
  show "sched_setparam_25_3 api p w = Some PTS_FAIL" "sched_setparam_25_4 api p w = Some PTS_FAIL"
    using s by (simp_all add: sched_setparam_25_3_def sched_setparam_25_4_def short_period_def must_be_def repl_bounds_def repl_first_def repl_second_def laws)
qed

section \<open>A call without effect\<close>

lemma no_setparam:
  assumes f: "can_fork (view w)" and "sv_errno (view w) = EOK" and "sv_root (view w)" and "sv_proc (view w) (sc_getpid api) = Some (q, r)" and "valid_param api lo hi q r"
  shows "sched_setparam_5_1 (api\<lparr>sc_setparam := \<lambda>pid p w. (0, w)\<rparr>) p w = (if lo q = hi q then PTS_PASS else PTS_FAIL)"
    "sched_setparam_1_1 (api\<lparr>sc_setparam := \<lambda>pid p w. (0, w)\<rparr>) p w = (if lo q = hi q then PTS_PASS else PTS_FAIL)"
    "sched_setparam_22_1 (api\<lparr>sc_setparam := \<lambda>pid p w. (0, w)\<rparr>) p w = PTS_PASS"
    "sched_setparam_23_1 (api\<lparr>sc_setparam := \<lambda>pid p w. (0, w)\<rparr>) p w = PTS_PASS"
    "sched_setparam_25_1 (api\<lparr>sc_setparam := \<lambda>pid p w. (0, w)\<rparr>) p w = PTS_FAIL"
proof -
  have q: "q \<in> set (sym api)" "q \<noteq> - 1" "lo q \<le> sched_priority r" "sched_priority r \<le> hi q" using validD [OF assms(5)] by auto
  show "sched_setparam_5_1 (api\<lparr>sc_setparam := \<lambda>pid p w. (0, w)\<rparr>) p w = (if lo q = hi q then PTS_PASS else PTS_FAIL)"
    using assms q by (simp add: sched_setparam_5_1_def laws)
  have c: "fst (sc_fork api w) \<noteq> 0" "fst (sc_fork api w) \<noteq> - 1" "fst (sc_fork api w) \<noteq> sc_getpid api"
    using fork(1,2) [OF f] assms(4) by auto
  then show "sched_setparam_1_1 (api\<lparr>sc_setparam := \<lambda>pid p w. (0, w)\<rparr>) p w = (if lo q = hi q then PTS_PASS else PTS_FAIL)"
    using assms q by (simp add: sched_setparam_1_1_def end_child_def laws fork(3) [OF f])
  show "sched_setparam_22_1 (api\<lparr>sc_setparam := \<lambda>pid p w. (0, w)\<rparr>) p w = PTS_PASS"
    "sched_setparam_23_1 (api\<lparr>sc_setparam := \<lambda>pid p w. (0, w)\<rparr>) p w = PTS_PASS"
    "sched_setparam_25_1 (api\<lparr>sc_setparam := \<lambda>pid p w. (0, w)\<rparr>) p w = PTS_FAIL"
    using assms q by (simp_all add: sched_setparam_22_1_def sched_setparam_23_1_def sched_setparam_25_1_def priority_kept_def must_be_def laws)
qed

end

section \<open>A system that keeps the contract\<close>

text \<open>Process 100 runs the program. \<open>ss\<close>: the sporadic server is supported, \<open>scope\<close>: threads may have process scope.\<close>

record rworld =
  rw_errno :: errno
  rw_procs :: "(int \<times> int \<times> sched_param) list"
  rw_child :: "int option"
  rw_uid :: int
  rw_root :: bool
  rw_thread :: "(int \<times> int \<times> sched_param) option"

definition ref_view :: "rworld \<Rightarrow> sview" where
  "ref_view w = \<lparr>sv_errno = rw_errno w, sv_proc = map_of (rw_procs w), sv_child = rw_child w, sv_uid = rw_uid w, sv_root = rw_root w,
     sv_thread = rw_thread w\<rparr>"

definition ref_lo :: "int \<Rightarrow> int" where
  "ref_lo q = (if q = 0 then 0 else 1)"

definition ref_hi :: "int \<Rightarrow> int" where
  "ref_hi q = (if q = 0 then 0 else 99)"

definition ref_may_read :: "sview \<Rightarrow> int \<Rightarrow> bool" where
  "ref_may_read v t \<longleftrightarrow> sv_root v \<or> t = 100"

definition ref_may_set :: "sview \<Rightarrow> int \<Rightarrow> bool" where
  "ref_may_set v t \<longleftrightarrow> sv_root v"

definition ref_why :: "sview \<Rightarrow> int \<Rightarrow> int \<Rightarrow> sched_param \<Rightarrow> errno" where
  "ref_why v t q p = (if sv_root v then EINVAL else EPERM)"

definition ref_policies :: "bool \<Rightarrow> int list" where
  "ref_policies ss = [1, 2] @ (if ss then [3] else []) @ [0]"

definition ref_valid :: "bool \<Rightarrow> int \<Rightarrow> sched_param \<Rightarrow> bool" where
  "ref_valid ss q p \<longleftrightarrow> q \<in> set (ref_policies ss) \<and> ref_lo q \<le> sched_priority p \<and> sched_priority p \<le> ref_hi q
     \<and> (ss \<and> q = 3 \<longrightarrow> 1 \<le> sched_ss_low_priority p \<and> sched_ss_low_priority p \<le> 99
          \<and> not_before (sched_ss_repl_period p) (sched_ss_init_budget p) \<and> 1 \<le> sched_ss_max_repl p \<and> sched_ss_max_repl p \<le> 8)"

definition ref_query :: "int \<Rightarrow> rworld \<Rightarrow> errno + (int \<times> sched_param)" where
  "ref_query pid w =
     (let t = if pid = 0 then 100 else pid in
      case map_of (rw_procs w) t of None \<Rightarrow> Inl ESRCH | Some e \<Rightarrow> if rw_root w \<or> t = 100 then Inr e else Inl EPERM)"

definition ref_change :: "bool \<Rightarrow> int \<Rightarrow> (int \<Rightarrow> int) \<Rightarrow> sched_param \<Rightarrow> rworld \<Rightarrow> (errno + int) \<times> rworld" where
  "ref_change ss pid new p w =
     (let t = if pid = 0 then 100 else pid in
      case map_of (rw_procs w) t of
        None \<Rightarrow> (Inl ESRCH, w\<lparr>rw_errno := ESRCH\<rparr>)
      | Some (q, r) \<Rightarrow>
          if rw_root w \<and> ref_valid ss (new q) p then (Inr q, w\<lparr>rw_procs := (t, new q, p) # rw_procs w\<rparr>)
          else let e = if rw_root w then EINVAL else EPERM in (Inl e, w\<lparr>rw_errno := e\<rparr>))"

definition ref_limit :: "bool \<Rightarrow> (int \<Rightarrow> int) \<Rightarrow> int \<Rightarrow> rworld \<Rightarrow> int \<times> rworld" where
  "ref_limit ss f q w = (if q \<in> set (ref_policies ss) then (f q, w) else (- 1, w\<lparr>rw_errno := EINVAL\<rparr>))"

definition fresh :: "(int \<times> 'a) list \<Rightarrow> int" where
  "fresh ps = foldr (\<lambda>e n. max (fst e + 1) n) ps 101"

lemma fresh_bound: "e \<in> set ps \<Longrightarrow> fst e < fresh ps" "101 \<le> fresh ps"
  unfolding fresh_def by (induction ps) (auto simp: max_def)

lemma fresh_pos [simp]: "0 < fresh ps"
  using fresh_bound(2) [of ps] by simp

lemma fresh_new: "map_of ps (fresh ps) = None"
  using fresh_bound(1) by (fastforce simp: map_of_eq_None_iff)

definition ref_sched :: "bool \<Rightarrow> bool \<Rightarrow> rworld sched_api" where
  "ref_sched ss scope = \<lparr>
     sc_errno = rw_errno,
     sc_getpid = 100,
     sc_getparam = (\<lambda>pid p w. case ref_query pid w of Inl e \<Rightarrow> (- 1, p, w\<lparr>rw_errno := e\<rparr>) | Inr e \<Rightarrow> (0, snd e, w)),
     sc_setparam = (\<lambda>pid p w. case ref_change ss pid (\<lambda>q. q) p w of (Inl e, w) \<Rightarrow> (- 1, w) | (Inr q, w) \<Rightarrow> (0, w)),
     sc_getscheduler = (\<lambda>pid w. case ref_query pid w of Inl e \<Rightarrow> (- 1, w\<lparr>rw_errno := e\<rparr>) | Inr e \<Rightarrow> (fst e, w)),
     sc_setscheduler = (\<lambda>pid n p w. case ref_change ss pid (\<lambda>_. n) p w of (Inl e, w) \<Rightarrow> (- 1, w) | (Inr q, w) \<Rightarrow> (q, w)),
     sc_priority_max = ref_limit ss ref_hi,
     sc_priority_min = ref_limit ss ref_lo,
     sc_rr_get_interval = (\<lambda>pid i w. case ref_query pid w of Inl e \<Rightarrow> (- 1, i, w\<lparr>rw_errno := e\<rparr>) | Inr e \<Rightarrow> (0, \<lparr>ts_sec = 0, ts_nsec = 100000000\<rparr>, w)),
     sc_yield = (\<lambda>w. (0, w)),
     sc_fork = (\<lambda>w. let c = fresh (rw_procs w) in
        (c, w\<lparr>rw_procs := (case map_of (rw_procs w) 100 of None \<Rightarrow> rw_procs w | Some e \<Rightarrow> (c, e) # rw_procs w), rw_child := Some c\<rparr>)),
     sc_wait = (\<lambda>w. case rw_child w of None \<Rightarrow> (- 1, w) | Some c \<Rightarrow> (c, w\<lparr>rw_procs := filter (\<lambda>e. fst e \<noteq> c) (rw_procs w), rw_child := None\<rparr>)),
     sc_kill = (\<lambda>pid w. (0, w)),
     sc_sigemptyset = (\<lambda>w. (0, w)),
     sc_sigaddset = (\<lambda>w. (0, w)),
     sc_sigwait = (\<lambda>w. (0, w)),
     sc_getuid = rw_uid,
     sc_passwd = [(''root'', 0), (''daemon'', 1)],
     sc_setuid = (\<lambda>u w. if rw_root w then (0, w\<lparr>rw_uid := u, rw_root := u = 0\<rparr>) else (- 1, w\<lparr>rw_errno := EPERM\<rparr>)),
     sc_seteuid = (\<lambda>u w. if rw_root w then (0, w\<lparr>rw_root := u = 0\<rparr>) else (- 1, w\<lparr>rw_errno := EPERM\<rparr>)),
     sc_attr_init = (\<lambda>w. (EOK, w)),
     sc_attr_setscope_process = (\<lambda>w. (if scope then EOK else ENOTSUP, w)),
     sc_thread_create = (\<lambda>w. case map_of (rw_procs w) 100 of None \<Rightarrow> (EAGAIN, 0, w) | Some e \<Rightarrow> (EOK, 7, w\<lparr>rw_thread := Some (7, e)\<rparr>)),
     sc_thread_getschedparam = (\<lambda>tid p w. case rw_thread w of None \<Rightarrow> (ESRCH, 0, p, w)
        | Some (t, q, r) \<Rightarrow> if t = tid then (EOK, q, r, w) else (ESRCH, 0, p, w)),
     sc_thread_cancel = (\<lambda>tid w. (EOK, w\<lparr>rw_thread := None\<rparr>)),
     sc_FIFO = 1,
     sc_RR = 2,
     sc_OTHER = 0,
     sc_SPORADIC = 3,
     sc_has_SPORADIC = ss,
     sc_POSIX_SPORADIC_SERVER = (if ss then Some 200112 else None),
     sc_POSIX_THREAD_SPORADIC_SERVER = None,
     sc_SS_REPL_MAX = 8\<rparr>"

lemma ref_sched_sel [simp]:
  "sc_errno (ref_sched ss scope) = rw_errno"
  "sc_getpid (ref_sched ss scope) = 100"
  "sc_getparam (ref_sched ss scope) = (\<lambda>pid p w. case ref_query pid w of Inl e \<Rightarrow> (- 1, p, w\<lparr>rw_errno := e\<rparr>) | Inr e \<Rightarrow> (0, snd e, w))"
  "sc_setparam (ref_sched ss scope) = (\<lambda>pid p w. case ref_change ss pid (\<lambda>q. q) p w of (Inl e, w) \<Rightarrow> (- 1, w) | (Inr q, w) \<Rightarrow> (0, w))"
  "sc_getscheduler (ref_sched ss scope) = (\<lambda>pid w. case ref_query pid w of Inl e \<Rightarrow> (- 1, w\<lparr>rw_errno := e\<rparr>) | Inr e \<Rightarrow> (fst e, w))"
  "sc_setscheduler (ref_sched ss scope) = (\<lambda>pid n p w. case ref_change ss pid (\<lambda>_. n) p w of (Inl e, w) \<Rightarrow> (- 1, w) | (Inr q, w) \<Rightarrow> (q, w))"
  "sc_priority_max (ref_sched ss scope) = ref_limit ss ref_hi"
  "sc_priority_min (ref_sched ss scope) = ref_limit ss ref_lo"
  "sc_rr_get_interval (ref_sched ss scope) = (\<lambda>pid i w. case ref_query pid w of Inl e \<Rightarrow> (- 1, i, w\<lparr>rw_errno := e\<rparr>) | Inr e \<Rightarrow> (0, \<lparr>ts_sec = 0, ts_nsec = 100000000\<rparr>, w))"
  "sc_yield (ref_sched ss scope) = (\<lambda>w. (0, w))"
  "sc_fork (ref_sched ss scope) = (\<lambda>w. let c = fresh (rw_procs w) in (c, w\<lparr>rw_procs := (case map_of (rw_procs w) 100 of None \<Rightarrow> rw_procs w | Some e \<Rightarrow> (c, e) # rw_procs w), rw_child := Some c\<rparr>))"
  "sc_wait (ref_sched ss scope) = (\<lambda>w. case rw_child w of None \<Rightarrow> (- 1, w) | Some c \<Rightarrow> (c, w\<lparr>rw_procs := filter (\<lambda>e. fst e \<noteq> c) (rw_procs w), rw_child := None\<rparr>))"
  "sc_kill (ref_sched ss scope) = (\<lambda>pid w. (0, w))"
  "sc_sigemptyset (ref_sched ss scope) = (\<lambda>w. (0, w))"
  "sc_sigaddset (ref_sched ss scope) = (\<lambda>w. (0, w))"
  "sc_sigwait (ref_sched ss scope) = (\<lambda>w. (0, w))"
  "sc_getuid (ref_sched ss scope) = rw_uid"
  "sc_passwd (ref_sched ss scope) = [(''root'', 0), (''daemon'', 1)]"
  "sc_setuid (ref_sched ss scope) = (\<lambda>u w. if rw_root w then (0, w\<lparr>rw_uid := u, rw_root := u = 0\<rparr>) else (- 1, w\<lparr>rw_errno := EPERM\<rparr>))"
  "sc_seteuid (ref_sched ss scope) = (\<lambda>u w. if rw_root w then (0, w\<lparr>rw_root := u = 0\<rparr>) else (- 1, w\<lparr>rw_errno := EPERM\<rparr>))"
  "sc_attr_init (ref_sched ss scope) = (\<lambda>w. (EOK, w))"
  "sc_attr_setscope_process (ref_sched ss scope) = (\<lambda>w. (if scope then EOK else ENOTSUP, w))"
  "sc_thread_create (ref_sched ss scope) = (\<lambda>w. case map_of (rw_procs w) 100 of None \<Rightarrow> (EAGAIN, 0, w) | Some e \<Rightarrow> (EOK, 7, w\<lparr>rw_thread := Some (7, e)\<rparr>))"
  "sc_thread_getschedparam (ref_sched ss scope) = (\<lambda>tid p w. case rw_thread w of None \<Rightarrow> (ESRCH, 0, p, w) | Some (t, q, r) \<Rightarrow> if t = tid then (EOK, q, r, w) else (ESRCH, 0, p, w))"
  "sc_thread_cancel (ref_sched ss scope) = (\<lambda>tid w. (EOK, w\<lparr>rw_thread := None\<rparr>))"
  "sc_FIFO (ref_sched ss scope) = 1"
  "sc_RR (ref_sched ss scope) = 2"
  "sc_OTHER (ref_sched ss scope) = 0"
  "sc_SPORADIC (ref_sched ss scope) = 3"
  "sc_has_SPORADIC (ref_sched ss scope) = ss"
  "sc_POSIX_SPORADIC_SERVER (ref_sched ss scope) = (if ss then Some 200112 else None)"
  "sc_POSIX_THREAD_SPORADIC_SERVER (ref_sched ss scope) = None"
  "sc_SS_REPL_MAX (ref_sched ss scope) = 8"
  by (simp_all add: ref_sched_def)

lemma ref_sched_sym [simp]: "has_ss (ref_sched ss scope) = ss" "has_any_ss (ref_sched ss scope) = ss" "sym (ref_sched ss scope) = ref_policies ss"
  by (simp_all add: has_ss_def has_any_ss_def sym_def ref_policies_def)

lemma ref_sched_valid [simp]: "valid_param (ref_sched ss scope) ref_lo ref_hi = ref_valid ss"
  by (intro ext) (simp add: valid_param_def ref_valid_def, auto simp: ref_lo_def ref_hi_def)

lemma ref_target: "target (ref_sched ss scope) pid = (if pid = 0 then 100 else pid)"
  by (simp add: target_def)

lemma map_of_remove: "map_of (filter (\<lambda>e. fst e \<noteq> c) ps) = (map_of ps)(c := None)"
  by (induction ps) (auto simp: fun_eq_iff)

lemma none_upd: "m x = None \<Longrightarrow> m(x := None) = m"
  by auto

lemma ref_limit_laws:
  "q \<in> set (ref_policies ss) \<Longrightarrow> ref_limit ss f q w = (f q, w)" "q \<notin> set (ref_policies ss) \<Longrightarrow> ref_limit ss f q w = (- 1, w\<lparr>rw_errno := EINVAL\<rparr>)"
  by (simp_all add: ref_limit_def)

lemma ref_ranges: "- 1 \<notin> set (ref_policies ss)" "0 \<le> ref_lo q" "ref_lo q \<le> ref_hi q"
  by (simp_all add: ref_policies_def ref_lo_def ref_hi_def)

lemmas ref_defs = ref_limit_laws ref_ranges map_of_remove fresh_new none_upd ref_view_def ref_target ref_query_def ref_change_def ref_may_read_def ref_may_set_def ref_why_def Let_def

interpretation rs: sched_users "ref_sched ss scope" ref_view ref_lo ref_hi ref_may_read ref_may_set ref_why "\<lambda>v. True"
proof (unfold_locales, simp_all add: ref_defs split: prod.splits option.splits)
qed

text \<open>A world for witnesses: the program and process 1 have policy \<open>q\<close> and priority \<open>n\<close>.\<close>

definition ref_param :: "int \<Rightarrow> sched_param" where
  "ref_param n = \<lparr>sched_priority = n, sched_ss_low_priority = 1, sched_ss_repl_period = \<lparr>ts_sec = 2, ts_nsec = 0\<rparr>,
     sched_ss_init_budget = \<lparr>ts_sec = 1, ts_nsec = 0\<rparr>, sched_ss_max_repl = 1\<rparr>"

definition ref_world :: "int \<Rightarrow> int \<Rightarrow> int \<Rightarrow> rworld" where
  "ref_world uid q n = \<lparr>rw_errno = EOK, rw_procs = [(100, q, ref_param n), (1, q, ref_param n)], rw_child = None, rw_uid = uid, rw_root = uid = 0, rw_thread = None\<rparr>"

lemma ref_world_view [simp]:
  "sv_errno (ref_view (ref_world uid q n)) = EOK" "sv_root (ref_view (ref_world uid q n)) = (uid = 0)" "sv_uid (ref_view (ref_world uid q n)) = uid"
  "sv_proc (ref_view (ref_world uid q n)) 100 = Some (q, ref_param n)" "sv_proc (ref_view (ref_world uid q n)) 1 = Some (q, ref_param n)"
  by (simp_all add: ref_view_def ref_world_def)

lemma ref_param_valid: "q \<in> set (ref_policies ss) \<Longrightarrow> ref_lo q \<le> n \<Longrightarrow> n \<le> ref_hi q \<Longrightarrow> ref_valid ss q (ref_param n)"
  by (simp add: ref_valid_def ref_param_def not_before_def)

lemmas ref_range_defs = ref_policies_def ref_lo_def ref_hi_def

section \<open>Verdicts of the programs\<close>

text \<open>The programs that ask for the scheduling of a process or for the range of the priorities pass on every system that keeps the contract,
  when \<^verbatim>\<open>errno\<close> is 0 at the start; a process that has ended is reported with \<^verbatim>\<open>ESRCH\<close>. The programs that create a child are unresolved when \<^verbatim>\<open>fork\<close> fails.\<close>

theorem sched_query_programs:
  assumes "sched_system api view lo hi may_read may_set why can_fork" and "sv_errno (view w) = EOK" and "sv_proc (view w) (sc_getpid api) = Some (q, r)" and "valid_param api lo hi q r"
  shows "sched_get_priority_max_1_1 api p w = PTS_PASS
      \<and> sched_get_priority_max_1_2 api p w = PTS_PASS
      \<and> sched_get_priority_max_1_4 api p w = PTS_PASS
      \<and> sched_get_priority_max_2_1 api p w = PTS_PASS
      \<and> sched_get_priority_min_1_1 api p w = PTS_PASS
      \<and> sched_get_priority_min_1_2 api p w = PTS_PASS
      \<and> sched_get_priority_min_1_4 api p w = PTS_PASS
      \<and> sched_get_priority_min_2_1 api p w = PTS_PASS
      \<and> sched_get_priority_max_1_3 api p w = (if has_any_ss api then PTS_PASS else PTS_UNSUPPORTED)
      \<and> sched_get_priority_min_1_3 api p w = (if has_any_ss api then PTS_PASS else PTS_UNSUPPORTED)
      \<and> sched_getparam_1_1 api p w = PTS_PASS
      \<and> sched_getparam_2_1 api p w = PTS_PASS
      \<and> sched_getparam_3_1 api p w = PTS_PASS
      \<and> sched_getparam_4_1 api p w = (if can_fork (view w) then PTS_PASS else PTS_UNRESOLVED)
      \<and> sched_getscheduler_1_1 api p w = PTS_PASS
      \<and> sched_getscheduler_3_1 api p w = PTS_PASS
      \<and> sched_getscheduler_4_1 api p w = PTS_PASS
      \<and> sched_getscheduler_5_1 api p w = (if can_fork (view w) then PTS_PASS else PTS_UNRESOLVED)
      \<and> sched_rr_get_interval_1_1 api p w = PTS_PASS
      \<and> sched_rr_get_interval_2_1 api p w = PTS_PASS
      \<and> sched_rr_get_interval_3_1 i api p w = (if can_fork (view w) then PTS_PASS else PTS_UNRESOLVED)
      \<and> sched_yield_2_1 api p w = PTS_PASS"
proof -
  note l = sched_system.limit_programs [OF assms(1,2)] sched_system.refused_programs [OF assms(1)] sched_system.known [OF assms(1)]
  show ?thesis
    unfolding sched_get_priority_max_1_1_def sched_get_priority_max_1_2_def sched_get_priority_max_1_3_def sched_get_priority_max_1_4_def
      sched_get_priority_max_2_1_def sched_get_priority_min_1_1_def sched_get_priority_min_1_2_def sched_get_priority_min_1_3_def
      sched_get_priority_min_1_4_def sched_get_priority_min_2_1_def
    by (simp add: l sched_system.getparam_programs [OF assms] sched_system.getscheduler_programs [OF assms] sched_system.interval_programs [OF assms(1-3)])
qed

theorem sched_query_programs_witness:
  "sched_getparam_4_1 (ref_sched True True) (ref_param 0) (ref_world 5 1 10) = PTS_PASS
    \<and> sched_get_priority_max_1_3 (ref_sched True True) (ref_param 0) (ref_world 5 1 10) = PTS_PASS
    \<and> sched_getscheduler_3_1 (ref_sched True True) (ref_param 0) (ref_world 5 1 10) = PTS_PASS"
  using sched_query_programs [OF rs.sched_system_axioms, of "ref_world 5 1 10" True True 1 "ref_param 10" "ref_param 0" "\<lparr>ts_sec = 0, ts_nsec = 0\<rparr>"]
    ref_param_valid [of 1 True 10] by (simp add: ref_range_defs)





text \<open>Where process 1 is closed to ordinary users and they may not change their own scheduling, the programs for \<^verbatim>\<open>EPERM\<close> pass: those that give up the identity
  of the superuser when they have it, and \<^verbatim>\<open>sched_setparam/23-6.c\<close> when it starts with it and there are two priorities.\<close>

theorem sched_permission_programs:
  assumes "sched_users api view lo hi may_read may_set why can_fork" and "sv_root (view w) \<longleftrightarrow> sv_uid (view w) = 0" and "sv_proc (view w) 1 = Some (q, s)"
    and "sc_getpid api \<noteq> 1" and "sv_proc (view w) (sc_getpid api) = Some (q, r)" and "valid_param api lo hi q r"
    and "lo (sc_FIFO api) < hi (sc_FIFO api)"
  shows "sched_getparam_6_1 api p w = PTS_PASS \<and> sched_getscheduler_7_1 api p w = PTS_PASS \<and> sched_setscheduler_20_1 api p w = PTS_PASS
      \<and> sched_setparam_26_1 api p w = (if sv_root (view w) then PTS_UNTESTED else PTS_PASS)
      \<and> sched_setscheduler_17_6 api p w = (if sv_root (view w) then PTS_UNTESTED else PTS_PASS)
      \<and> (\<not> sv_root (view w) \<or> sched_setparam_23_6 api p w = PTS_PASS)"
proof -
  have env: "sc_getuid api w = sv_uid (view w)" using sched_users.axioms(1) [OF assms(1)] by (rule sched_system.env(2))
  show ?thesis
    using sched_users.user_programs [OF assms(1-3)] sched_users.plain_user_programs [OF assms(1) _ _ assms(3-6)]
      sched_users.own_priority_program [OF assms(1) _ _ assms(5,7)] assms(2)
    by (auto simp: sched_setparam_26_1_def sched_setscheduler_17_6_def env)
qed

theorem sched_permission_programs_witness:
  "sched_getparam_6_1 (ref_sched False True) (ref_param 0) (ref_world 0 1 10) = PTS_PASS
    \<and> sched_setparam_23_6 (ref_sched False True) (ref_param 0) (ref_world 0 1 10) = PTS_PASS
    \<and> sched_setparam_26_1 (ref_sched False True) (ref_param 0) (ref_world 5 1 10) = PTS_PASS"
  using sched_permission_programs [OF rs.sched_users_axioms, of "ref_world 0 1 10" 1 "ref_param 10" False True "ref_param 10" "ref_param 0"]
    sched_permission_programs [OF rs.sched_users_axioms, of "ref_world 5 1 10" 1 "ref_param 10" False True "ref_param 10" "ref_param 0"]
    ref_param_valid [of 1 False 10] by (simp add: ref_range_defs)


text \<open>Threads of process scope keep the policy and the parameters they were created with (assertions 18 of \<^verbatim>\<open>sched_setparam\<close>, 13 of \<^verbatim>\<open>sched_setscheduler\<close>). The
  programs that compare what \<^verbatim>\<open>pthread_getschedparam\<close> reports of an existing thread with the new values of the process fail on such a system, those that
  create the thread afterwards pass; and the programs that take a result of \<^verbatim>\<open>sched_setscheduler\<close> other than 0 for an error are unresolved unless the
  former policy was 0.\<close>

theorem sched_thread_programs:
  assumes "sched_system api view lo hi may_read may_set why can_fork" and "sv_root (view w)" and "sv_proc (view w) (sc_getpid api) = Some (q, r)" and "valid_param api lo hi q r" and "\<And>w. fst (sc_attr_setscope_process api w) = EOK"
    and "lo q < hi q" and "lo (sc_FIFO api) < hi (sc_FIFO api)"
  shows "sched_setparam_20_1 api p w = PTS_FAIL \<and> sched_setparam_21_1 api p w = PTS_PASS \<and> sched_setparam_21_2 api p w = PTS_PASS
      \<and> sched_setscheduler_15_1 api p w = (if q = 0 then PTS_FAIL else PTS_UNRESOLVED)
      \<and> sched_setscheduler_15_2 api p w = (if q = 0 then PTS_FAIL else PTS_UNRESOLVED)
      \<and> sched_setscheduler_22_1 api p w = (if q = 0 then PTS_PASS else PTS_UNRESOLVED)
      \<and> sched_setscheduler_22_2 api p w = (if q = 0 then PTS_PASS else PTS_UNRESOLVED)"
  using sched_system.thread_programs [OF assms(1-5), of p] assms(6,7) by blast

theorem sched_thread_programs_witness:
  "sched_setparam_20_1 (ref_sched False True) (ref_param 0) (ref_world 0 1 10) = PTS_FAIL
    \<and> sched_setscheduler_22_1 (ref_sched False True) (ref_param 0) (ref_world 0 1 10) = PTS_UNRESOLVED"
  using sched_thread_programs [OF rs.sched_system_axioms, of "ref_world 0 1 10" False True 1 "ref_param 10" "ref_param 0"]
    ref_param_valid [of 1 False 10] by (simp add: ref_range_defs)


text \<open>The programs for the parameters of the sporadic server. They pass for a process that is scheduled by it; the programs for \<^verbatim>\<open>sched_setparam\<close> that do not
  choose that policy first fail under any other one, where those parameters have no effect.\<close>

theorem sched_sporadic_programs:
  assumes "sched_system api view lo hi may_read may_set why can_fork" and "has_ss api" and "sv_root (view w)" and "sv_proc (view w) (sc_getpid api) = Some (q, r)" and "valid_param api lo hi q r"
  shows "sched_setscheduler_17_2 api p w = PTS_PASS \<and> sched_setscheduler_17_3 api p w = PTS_PASS \<and> sched_setscheduler_17_4 api p w = PTS_PASS
      \<and> sched_setscheduler_19_2 api p w = PTS_PASS \<and> sched_setscheduler_19_3 api p w = PTS_PASS \<and> sched_setscheduler_19_4 api p w = PTS_PASS
      \<and> sched_setparam_23_3 api p w = (if q \<noteq> sc_SPORADIC api \<and> sched_priority r < hi q then PTS_FAIL else PTS_PASS)
      \<and> sched_setparam_23_4 api p w = (if q \<noteq> sc_SPORADIC api \<and> sched_priority r < hi q then PTS_FAIL else PTS_PASS)
      \<and> sched_setparam_23_5 api p w = (if q \<noteq> sc_SPORADIC api \<and> sched_priority r < hi q then PTS_FAIL else PTS_PASS)
      \<and> sched_setparam_25_3 api p w = Some (if q \<noteq> sc_SPORADIC api then PTS_FAIL else PTS_PASS)
      \<and> sched_setparam_25_4 api p w = Some (if q \<noteq> sc_SPORADIC api then PTS_FAIL else PTS_PASS)
      \<and> (q \<noteq> sc_SPORADIC api \<or> sched_setparam_23_2 api p w = PTS_PASS \<and> sched_setparam_25_2 api p w = PTS_PASS)"
proof -
  have q: "q \<noteq> - 1" using sched_system.validD [OF assms(1,5)] by blast
  note s = sched_system.sporadic_set_programs [OF assms(1-4) q]
  show ?thesis
  proof (cases "q = sc_SPORADIC api")
    case True
    then show ?thesis using s sched_system.sporadic_param_programs [OF assms(1-3), where r = r and p = p] assms(4) by simp
  next
    case False
    then show ?thesis using s sched_system.sporadic_other_policy [OF assms(1-5), where p = p]
      by (simp add: sched_setparam_23_3_def sched_setparam_23_4_def sched_setparam_23_5_def)
  qed
qed

theorem sched_sporadic_programs_witness:
  "sched_setscheduler_19_4 (ref_sched True True) (ref_param 0) (ref_world 0 3 10) = PTS_PASS
    \<and> sched_setparam_25_4 (ref_sched True True) (ref_param 0) (ref_world 0 3 10) = Some PTS_PASS
    \<and> sched_setparam_23_3 (ref_sched True True) (ref_param 0) (ref_world 0 1 10) = PTS_FAIL"
  using sched_sporadic_programs [OF rs.sched_system_axioms, of True True "ref_world 0 3 10" 3 "ref_param 10" "ref_param 0"]
    sched_sporadic_programs [OF rs.sched_system_axioms, of True True "ref_world 0 1 10" 1 "ref_param 10" "ref_param 0"]
    ref_param_valid [of 1 True 10] ref_param_valid [of 3 True 10] by (simp add: ref_range_defs ref_param_def)


text \<open>What the programs notice of a \<^verbatim>\<open>sched_setparam\<close> that reports success and does nothing: the ones that change the priority do so only when the policy has two
  priorities, the ones that pass invalid values notice it by the result, and those that test that nothing has changed pass.\<close>

theorem sched_setparam_ignored:
  assumes "sched_system api view lo hi may_read may_set why can_fork" and "can_fork (view w)" and "sv_errno (view w) = EOK" and "sv_root (view w)" and "sv_proc (view w) (sc_getpid api) = Some (q, r)" and "valid_param api lo hi q r"
  shows "sched_setparam_5_1 (api\<lparr>sc_setparam := \<lambda>pid p w. (0, w)\<rparr>) p w = (if lo q = hi q then PTS_PASS else PTS_FAIL)
      \<and> sched_setparam_1_1 (api\<lparr>sc_setparam := \<lambda>pid p w. (0, w)\<rparr>) p w = (if lo q = hi q then PTS_PASS else PTS_FAIL)
      \<and> sched_setparam_22_1 (api\<lparr>sc_setparam := \<lambda>pid p w. (0, w)\<rparr>) p w = PTS_PASS
      \<and> sched_setparam_23_1 (api\<lparr>sc_setparam := \<lambda>pid p w. (0, w)\<rparr>) p w = PTS_PASS
      \<and> sched_setparam_25_1 (api\<lparr>sc_setparam := \<lambda>pid p w. (0, w)\<rparr>) p w = PTS_FAIL"
  using sched_system.no_setparam [OF assms, of p] by blast

theorem sched_setparam_ignored_witness:
  "sched_setparam_5_1 ((ref_sched False True)\<lparr>sc_setparam := \<lambda>pid p w. (0, w)\<rparr>) (ref_param 0) (ref_world 0 0 0) = PTS_PASS
    \<and> sched_setparam_5_1 ((ref_sched False True)\<lparr>sc_setparam := \<lambda>pid p w. (0, w)\<rparr>) (ref_param 0) (ref_world 0 1 10) = PTS_FAIL"
  using sched_setparam_ignored [OF rs.sched_system_axioms, of "ref_world 0 0 0" False True 0 "ref_param 0" "ref_param 0"]
    sched_setparam_ignored [OF rs.sched_system_axioms, of "ref_world 0 1 10" False True 1 "ref_param 10" "ref_param 0"]
    ref_param_valid [of 0 False 0] ref_param_valid [of 1 False 10] by (simp add: ref_range_defs)


end
