(* ===== verification/Shm_Tests.thy ===== *)
theory Shm_Tests
  imports Posix_Prelude
begin

text \<open>
  Conformance programs for \<^verbatim>\<open>shm_open\<close> and \<^verbatim>\<open>shm_unlink\<close> that run in one process. A program is a function of the system under test, \<open>api\<close>, and of its
  state, \<open>w\<close>; it gives the exit status. \<^verbatim>\<open>errno\<close> is part of the state. Output is left out and taken not to change \<^verbatim>\<open>errno\<close>.
\<close>

section \<open>The system under test\<close>

definition O_TRUNC :: flags where [flag_simps]: "O_TRUNC = 0x1000"
definition S_IRUSR :: flags where [flag_simps]: "S_IRUSR = 0x100"
definition S_IWUSR :: flags where [flag_simps]: "S_IWUSR = 0x80"
definition S_IRGRP :: flags where [flag_simps]: "S_IRGRP = 0x20"
definition S_IWGRP :: flags where [flag_simps]: "S_IWGRP = 0x10"
definition S_IROTH :: flags where [flag_simps]: "S_IROTH = 0x4"
definition S_IWOTH :: flags where [flag_simps]: "S_IWOTH = 0x2"
definition FD_CLOEXEC :: flags where [flag_simps]: "FD_CLOEXEC = 1"

datatype prot = PROT_NONE | PROT_READ | PROT_WRITE | PROT_RDWR

record shm_stat =
  st_mode :: flags
  st_uid :: int
  st_gid :: int
  st_size :: int

text \<open>
  Calls return -1 for a failure, and so does \<^verbatim>\<open>mmap\<close>, whose \<^verbatim>\<open>MAP_FAILED\<close> is \<open>- 1\<close>; mappings are shared, at offset 0. \<open>sh_strcpy a s\<close> copies the string \<open>s\<close> with its final
  zero to the address \<open>a\<close>, \<open>sh_string a\<close> is the string that starts at \<open>a\<close>. \<open>sh_getfd\<close> is \<^verbatim>\<open>fcntl(fd, F_GETFD)\<close>: the flags, or nothing for a failure. \<open>sh_name_max\<close> and \<open>sh_path_max\<close>
  are the results of \<^verbatim>\<open>pathconf\<close>.
\<close>

record 'w shm_api =
  sh_errno :: "'w \<Rightarrow> errno"
  sh_open :: "string \<Rightarrow> flags \<Rightarrow> flags \<Rightarrow> 'w \<Rightarrow> int \<times> 'w"
  sh_unlink :: "string \<Rightarrow> 'w \<Rightarrow> int \<times> 'w"
  sh_ftruncate :: "int \<Rightarrow> int \<Rightarrow> 'w \<Rightarrow> int \<times> 'w"
  sh_mmap :: "int \<Rightarrow> prot \<Rightarrow> int \<Rightarrow> 'w \<Rightarrow> int \<times> 'w"
  sh_munmap :: "int \<Rightarrow> int \<Rightarrow> 'w \<Rightarrow> int \<times> 'w"
  sh_close :: "int \<Rightarrow> 'w \<Rightarrow> int \<times> 'w"
  sh_fstat :: "int \<Rightarrow> 'w \<Rightarrow> (int \<times> shm_stat) \<times> 'w"
  sh_getfd :: "int \<Rightarrow> 'w \<Rightarrow> flags option \<times> 'w"
  sh_strcpy :: "int \<Rightarrow> string \<Rightarrow> 'w \<Rightarrow> 'w"
  sh_string :: "int \<Rightarrow> 'w \<Rightarrow> string"
  sh_mkstemp :: "'w \<Rightarrow> int \<times> 'w"
  sh_unlink_file :: "'w \<Rightarrow> int \<times> 'w"
  sh_umask :: "flags \<Rightarrow> 'w \<Rightarrow> flags \<times> 'w"
  sh_getuid :: "'w \<Rightarrow> int"
  sh_geteuid :: "'w \<Rightarrow> int"
  sh_getegid :: "'w \<Rightarrow> int"
  sh_seteuid :: "int \<Rightarrow> 'w \<Rightarrow> int \<times> 'w"
  sh_passwd :: "(string \<times> int) list"
  sh_name_max :: int
  sh_path_max :: int

type_synonym ('w, 'z) shm_prog = "('w, 'z) shm_api_scheme \<Rightarrow> 'w \<Rightarrow> int"

definition BUF_SIZE :: int where
  "BUF_SIZE = 8"

definition str :: string where
  "str = ''qwerty''"

definition RW_USER :: flags where
  "RW_USER = S_IRUSR OR S_IWUSR"

text \<open>The object is unlinked before the program returns \<open>c\<close>.\<close>

definition unlinking :: "('w, 'z) shm_api_scheme \<Rightarrow> string \<Rightarrow> 'w \<Rightarrow> int \<Rightarrow> int" where
  "unlinking api name w c = (let (r, w) = sh_unlink api name w in c)"

text \<open>\<^verbatim>\<open>fd = shm_open(...); if(fd == -1) return PTS_UNRESOLVED;\<close>\<close>

definition with_open :: "('w, 'z) shm_api_scheme \<Rightarrow> string \<Rightarrow> flags \<Rightarrow> flags \<Rightarrow> 'w \<Rightarrow> (int \<Rightarrow> 'w \<Rightarrow> int) \<Rightarrow> int" where
  "with_open api name oflag mode w k = (let (fd, w) = sh_open api name oflag mode w in if fd = - 1 then PTS_UNRESOLVED else k fd w)"

text \<open>The same where the object exists and is unlinked on failure.\<close>

definition with_reopen :: "('w, 'z) shm_api_scheme \<Rightarrow> string \<Rightarrow> flags \<Rightarrow> flags \<Rightarrow> 'w \<Rightarrow> (int \<Rightarrow> 'w \<Rightarrow> int) \<Rightarrow> int" where
  "with_reopen api name oflag mode w k =
     (let (fd, w) = sh_open api name oflag mode w in if fd = - 1 then unlinking api name w PTS_UNRESOLVED else k fd w)"

definition with_size :: "('w, 'z) shm_api_scheme \<Rightarrow> string \<Rightarrow> int \<Rightarrow> 'w \<Rightarrow> ('w \<Rightarrow> int) \<Rightarrow> int" where
  "with_size api name fd w k =
     (let (r, w) = sh_ftruncate api fd BUF_SIZE w in if r \<noteq> 0 then unlinking api name w PTS_UNRESOLVED else k w)"

definition with_map :: "('w, 'z) shm_api_scheme \<Rightarrow> string \<Rightarrow> prot \<Rightarrow> int \<Rightarrow> 'w \<Rightarrow> (int \<Rightarrow> 'w \<Rightarrow> int) \<Rightarrow> int" where
  "with_map api name prot fd w k =
     (let (buf, w) = sh_mmap api BUF_SIZE prot fd w in if buf = - 1 then unlinking api name w PTS_UNRESOLVED else k buf w)"

text \<open>Removing what an earlier run may have left.\<close>

definition cleaned :: "('w, 'z) shm_api_scheme \<Rightarrow> string \<Rightarrow> 'w \<Rightarrow> ('w \<Rightarrow> int) \<Rightarrow> int" where
  "cleaned api name w k =
     (let (result, w) = sh_unlink api name w in if result \<noteq> 0 \<and> sh_errno api w \<noteq> ENOENT then PTS_UNRESOLVED else k w)"

definition with_stat :: "('w, 'z) shm_api_scheme \<Rightarrow> string \<Rightarrow> int \<Rightarrow> 'w \<Rightarrow> (shm_stat \<Rightarrow> 'w \<Rightarrow> int) \<Rightarrow> int" where
  "with_stat api name fd w k =
     (let ((result, stat_buf), w) = sh_fstat api fd w in if result \<noteq> 0 then unlinking api name w PTS_UNRESOLVED else k stat_buf w)"

section \<open>\<^verbatim>\<open>shm_open\<close>: creating, sharing, descriptors\<close>

definition shm_untested :: "('w, 'z) shm_prog" where
  "shm_untested api w = PTS_UNTESTED"

definition shm_open_1_1 :: "('w, 'z) shm_prog" where
  "shm_open_1_1 api w =
     (let SHM_NAME = ''posixtest_1-1'' in
      with_open api SHM_NAME (O_RDWR OR O_CREAT) RW_USER w (\<lambda>fd w.
      with_size api SHM_NAME fd w (\<lambda>w.
      with_map api SHM_NAME PROT_WRITE fd w (\<lambda>buf w.
        let w = sh_strcpy api buf str w in
      with_reopen api SHM_NAME O_RDONLY RW_USER w (\<lambda>fd w.
      with_map api SHM_NAME PROT_READ fd w (\<lambda>buf w.
        let (r, w) = sh_unlink api SHM_NAME w in
        if sh_string api buf w = str then PTS_PASS else PTS_FAIL))))))"

definition shm_open_2_1 :: "('w, 'z) shm_prog" where "shm_open_2_1 = shm_untested"
definition shm_open_3_1 :: "('w, 'z) shm_prog" where "shm_open_3_1 = shm_untested"
definition shm_open_6_1 :: "('w, 'z) shm_prog" where "shm_open_6_1 = shm_untested"
definition shm_open_7_1 :: "('w, 'z) shm_prog" where "shm_open_7_1 = shm_untested"

definition shm_open_8_1 :: "('w, 'z) shm_prog" where
  "shm_open_8_1 api w =
     (let SHM_NAME = ''posixtest_8-1''; (fd1, w) = sh_mkstemp api w in
      if fd1 = - 1 then PTS_UNRESOLVED
      else let (fd2, w) = sh_open api SHM_NAME (O_RDWR OR O_CREAT) RW_USER w; (r, w) = sh_unlink_file api w in
      if fd2 = - 1 then PTS_UNRESOLVED
      else let (r, w) = sh_unlink api SHM_NAME w in if fd2 = fd1 + 1 then PTS_PASS else PTS_FAIL)"

definition shm_open_9_1 :: "('w, 'z) shm_prog" where "shm_open_9_1 = shm_untested"
definition shm_open_10_1 :: "('w, 'z) shm_prog" where "shm_open_10_1 = shm_untested"

definition shm_open_11_1 :: "('w, 'z) shm_prog" where
  "shm_open_11_1 api w =
     (let SHM_NAME = ''posixtest_11-1'' in
      with_open api SHM_NAME (O_RDONLY OR O_CREAT) RW_USER w (\<lambda>fd w.
        let (flags, w) = sh_getfd api fd w in
        case flags of None \<Rightarrow> unlinking api SHM_NAME w PTS_UNRESOLVED
        | Some flags \<Rightarrow> let (r, w) = sh_unlink api SHM_NAME w in if has flags FD_CLOEXEC then PTS_PASS else PTS_FAIL))"

definition shm_open_12_1 :: "('w, 'z) shm_prog" where "shm_open_12_1 = shm_untested"

text \<open>Setting the size through a descriptor that is open for reading only.\<close>

definition size_refused :: "('w, 'z) shm_api_scheme \<Rightarrow> string \<Rightarrow> int \<Rightarrow> 'w \<Rightarrow> int" where
  "size_refused api name fd w =
     (let (result, w) = sh_ftruncate api fd BUF_SIZE w in
      if result = - 1 \<and> sh_errno api w = EINVAL then unlinking api name w PTS_PASS
      else if result = 0 then unlinking api name w PTS_FAIL else unlinking api name w PTS_FAIL)"

definition shm_open_13_1 :: "('w, 'z) shm_prog" where
  "shm_open_13_1 api w = with_open api ''posixtest_13-1'' (O_RDONLY OR O_CREAT) RW_USER w (size_refused api ''posixtest_13-1'')"

definition shm_open_14_2 :: "('w, 'z) shm_prog" where
  "shm_open_14_2 api w =
     (let SHM_NAME = ''posixtest_14-2'' in
      with_open api SHM_NAME (O_RDWR OR O_CREAT) RW_USER w (\<lambda>fd w.
        let (r, w) = sh_ftruncate api fd BUF_SIZE w in if r \<noteq> 0 then PTS_UNRESOLVED
        else let (buf, w) = sh_mmap api BUF_SIZE PROT_WRITE fd w in if buf = - 1 then PTS_UNRESOLVED
        else let w = sh_strcpy api buf str w in
      with_open api SHM_NAME O_RDWR RW_USER w (\<lambda>fd w.
        let (buf, w) = sh_mmap api BUF_SIZE PROT_READ fd w in if buf = - 1 then PTS_UNRESOLVED
        else let (r, w) = sh_unlink api SHM_NAME w in
        if sh_string api buf w = str then PTS_PASS else PTS_FAIL)))"

definition shm_open_15_1 :: "('w, 'z) shm_prog" where
  "shm_open_15_1 api w =
     (let SHM_NAME = ''posixtest_15-1'' in
      cleaned api SHM_NAME w (\<lambda>w.
      with_open api SHM_NAME (O_RDONLY OR O_CREAT) RW_USER w (\<lambda>fd w.
        let ((result, stat_buf), w) = sh_fstat api fd w in
        if result = 0 then unlinking api SHM_NAME w PTS_PASS
        else if result = - 1 \<and> sh_errno api w = EBADF then unlinking api SHM_NAME w PTS_FAIL
        else unlinking api SHM_NAME w PTS_FAIL)))"

text \<open>What \<^verbatim>\<open>fstat\<close> reports of a new object: \<^verbatim>\<open>16-1.c\<close>, \<^verbatim>\<open>17-1.c\<close>, \<^verbatim>\<open>18-1.c\<close> and \<^verbatim>\<open>21-1.c\<close>.\<close>

definition new_object :: "string \<Rightarrow> flags \<Rightarrow> (shm_stat \<Rightarrow> 'w \<Rightarrow> bool) \<Rightarrow> ('w, 'z) shm_prog" where
  "new_object SHM_NAME mode good api w =
     cleaned api SHM_NAME w (\<lambda>w.
     with_open api SHM_NAME (O_RDONLY OR O_CREAT) mode w (\<lambda>fd w.
     with_stat api SHM_NAME fd w (\<lambda>stat_buf w.
       let (r, w) = sh_unlink api SHM_NAME w in if good stat_buf w then PTS_PASS else PTS_FAIL)))"

definition shm_open_16_1 :: "('w, 'z) shm_prog" where
  "shm_open_16_1 api = new_object ''posixtest_16-1'' RW_USER (\<lambda>stat_buf w. st_uid stat_buf = sh_geteuid api w) api"

definition shm_open_17_1 :: "('w, 'z) shm_prog" where
  "shm_open_17_1 api = new_object ''posixtest_17-1'' RW_USER (\<lambda>stat_buf w. st_gid stat_buf = sh_getegid api w) api"

definition MOD_FLAGS :: flags where
  "MOD_FLAGS = S_IWUSR OR S_IRGRP OR S_IWGRP OR S_IROTH"

definition UMASK_FLAGS :: flags where
  "UMASK_FLAGS = S_IRGRP OR S_IWOTH"

definition ALL_MOD_FLAGS :: flags where
  "ALL_MOD_FLAGS = S_IRUSR OR S_IWUSR OR S_IRGRP OR S_IWGRP OR S_IROTH OR S_IWOTH"

definition shm_open_18_1 :: "('w, 'z) shm_prog" where
  "shm_open_18_1 api w =
     (let (old, w) = sh_umask api UMASK_FLAGS w in
      new_object ''posixtest_18-1'' MOD_FLAGS
        (\<lambda>stat_buf w. ALL_MOD_FLAGS AND (st_mode stat_buf XOR (MOD_FLAGS AND NOT UMASK_FLAGS)) = 0) api w)"

definition shm_open_19_1 :: "('w, 'z) shm_prog" where "shm_open_19_1 = shm_untested"

definition shm_open_20_1 :: "('w, 'z) shm_prog" where
  "shm_open_20_1 api w =
     cleaned api ''posixtest_20-1'' w (\<lambda>w.
     with_open api ''posixtest_20-1'' (O_RDONLY OR O_CREAT) S_IRUSR w (size_refused api ''posixtest_20-1''))"

definition shm_open_20_2 :: "('w, 'z) shm_prog" where
  "shm_open_20_2 api w =
     (let SHM_NAME = ''posixtest_20-2'' in
      cleaned api SHM_NAME w (\<lambda>w.
      with_open api SHM_NAME (O_RDWR OR O_CREAT) 0 w (\<lambda>fd w.
        let (result, w) = sh_ftruncate api fd BUF_SIZE w in
        if result = 0 then unlinking api SHM_NAME w PTS_PASS
        else if result = - 1 \<and> sh_errno api w = EINVAL then unlinking api SHM_NAME w PTS_FAIL
        else unlinking api SHM_NAME w PTS_FAIL)))"

definition shm_open_20_3 :: "('w, 'z) shm_prog" where
  "shm_open_20_3 api w =
     (let SHM_NAME = ''posixtest_20-3'' in
      cleaned api SHM_NAME w (\<lambda>w.
      with_open api SHM_NAME (O_RDWR OR O_CREAT) 0 w (\<lambda>fd w.
      with_size api SHM_NAME fd w (\<lambda>w.
        let (ptr, w) = sh_mmap api BUF_SIZE PROT_NONE fd w in
        if ptr \<noteq> - 1 then unlinking api SHM_NAME w PTS_PASS
        else if sh_errno api w = EACCES then unlinking api SHM_NAME w PTS_FAIL
        else unlinking api SHM_NAME w PTS_FAIL))))"

definition shm_open_21_1 :: "('w, 'z) shm_prog" where
  "shm_open_21_1 = new_object ''posixtest_21-1'' RW_USER (\<lambda>stat_buf w. st_size stat_buf = 0)"

definition shm_open_22_1 :: "('w, 'z) shm_prog" where
  "shm_open_22_1 api w =
     (let SHM_NAME = ''posixtest_22-1'' in
      with_open api SHM_NAME (O_RDONLY OR O_CREAT) RW_USER w (\<lambda>fd w.
        let (fd, w) = sh_open api SHM_NAME (O_RDONLY OR O_CREAT OR O_EXCL) RW_USER w in
        if fd = - 1 \<and> sh_errno api w = EEXIST then unlinking api SHM_NAME w PTS_PASS
        else if fd \<noteq> - 1 then unlinking api SHM_NAME w PTS_FAIL else unlinking api SHM_NAME w PTS_FAIL))"

definition shm_open_24_1 :: "('w, 'z) shm_prog" where "shm_open_24_1 = shm_untested"

definition SHM_SZ :: int where
  "SHM_SZ = 16"

definition shm_open_25_1 :: "('w, 'z) shm_prog" where
  "shm_open_25_1 api w =
     (let SHM_NAME = ''posixtest_25-1'' in
      with_open api SHM_NAME (O_RDWR OR O_CREAT) RW_USER w (\<lambda>fd w.
        let (r, w) = sh_ftruncate api fd SHM_SZ w in if r = - 1 then PTS_UNRESOLVED
        else
      with_reopen api SHM_NAME (O_RDWR OR O_TRUNC) RW_USER w (\<lambda>fd w.
      with_stat api SHM_NAME fd w (\<lambda>stat_buf w.
        let (r, w) = sh_unlink api SHM_NAME w in if st_size stat_buf = 0 then PTS_PASS else PTS_FAIL))))"

definition shm_open_26_1 :: "('w, 'z) shm_prog" where
  "shm_open_26_1 api w =
     (let SHM_NAME = ''posixtest_26-1'' in
      with_open api SHM_NAME (O_RDWR OR O_CREAT) RW_USER w (\<lambda>fd w.
      with_stat api SHM_NAME fd w (\<lambda>stat_buf w.
        let old_mode = st_mode stat_buf in
      with_reopen api SHM_NAME (O_RDWR OR O_TRUNC) S_IRGRP w (\<lambda>fd w.
      with_stat api SHM_NAME fd w (\<lambda>stat_buf w.
        let (r, w) = sh_unlink api SHM_NAME w in if st_mode stat_buf = old_mode then PTS_PASS else PTS_FAIL)))))"

text \<open>The first user of the password file that is neither \<^verbatim>\<open>root\<close> nor the present one.\<close>

definition other_user :: "('w, 'z) shm_api_scheme \<Rightarrow> 'w \<Rightarrow> (string \<times> int) option" where
  "other_user api w = find (\<lambda>u. fst u \<noteq> ''root'' \<and> snd u \<noteq> sh_getuid api w) (sh_passwd api)"

definition restored :: "('w, 'z) shm_api_scheme \<Rightarrow> string \<Rightarrow> 'w \<Rightarrow> int \<Rightarrow> int" where
  "restored api name w c = (let (r, w) = sh_seteuid api (sh_getuid api w) w in unlinking api name w c)"

definition shm_open_26_2 :: "('w, 'z) shm_prog" where
  "shm_open_26_2 api w =
     (let SHM_NAME = ''posixtest_26-2''; (old, w) = sh_umask api 0 w in
      with_open api SHM_NAME (O_RDWR OR O_CREAT) ALL_MOD_FLAGS w (\<lambda>fd w.
      with_size api SHM_NAME fd w (\<lambda>w.
      with_stat api SHM_NAME fd w (\<lambda>old_stat w.
        case other_user api w of None \<Rightarrow> unlinking api SHM_NAME w PTS_UNRESOLVED
        | Some pw \<Rightarrow>
            let (r, w) = sh_seteuid api (snd pw) w in
            if r \<noteq> 0 then unlinking api SHM_NAME w PTS_UNRESOLVED
            else let (fd, w) = sh_open api SHM_NAME (O_RDWR OR O_TRUNC) 0 w in
            if fd = - 1 then restored api SHM_NAME w PTS_UNRESOLVED
            else let ((r, stat_buf), w) = sh_fstat api fd w in
            if r \<noteq> 0 then restored api SHM_NAME w PTS_UNRESOLVED
            else restored api SHM_NAME w (if st_uid stat_buf = st_uid old_stat \<and> st_gid stat_buf = st_gid old_stat then PTS_PASS else PTS_FAIL)))))"

definition shm_open_27_1 :: "('w, 'z) shm_prog" where "shm_open_27_1 = shm_untested"

section \<open>\<^verbatim>\<open>shm_open\<close>: life of an object\<close>

text \<open>The ends of \<^verbatim>\<open>28-1.c\<close>, which opens the object again, and of \<^verbatim>\<open>28-3.c\<close>, which maps it again.\<close>

definition read_again :: "('w, 'z) shm_api_scheme \<Rightarrow> string \<Rightarrow> 'w \<Rightarrow> int" where
  "read_again api SHM_NAME w =
     (let (fd, w) = sh_open api SHM_NAME O_RDONLY RW_USER w in
      if fd = - 1 \<and> sh_errno api w = ENOENT then PTS_FAIL
      else if fd = - 1 then unlinking api SHM_NAME w PTS_UNRESOLVED
      else
      with_map api SHM_NAME PROT_READ fd w (\<lambda>buf w.
        if sh_string api buf w = str then unlinking api SHM_NAME w PTS_PASS else unlinking api SHM_NAME w PTS_FAIL))"

definition map_again :: "('w, 'z) shm_api_scheme \<Rightarrow> int \<Rightarrow> 'w \<Rightarrow> int" where
  "map_again api fd w =
     (let (buf, w) = sh_mmap api BUF_SIZE PROT_READ fd w in
      if buf = - 1 \<and> sh_errno api w = EBADF then PTS_FAIL
      else if buf = - 1 then PTS_UNRESOLVED
      else if sh_string api buf w = str then PTS_PASS else PTS_FAIL)"

definition shm_open_28_1 :: "('w, 'z) shm_prog" where
  "shm_open_28_1 api w =
     (let SHM_NAME = ''posixtest_28-1'' in
      with_open api SHM_NAME (O_RDWR OR O_CREAT) RW_USER w (\<lambda>fd w.
      with_size api SHM_NAME fd w (\<lambda>w.
      with_map api SHM_NAME PROT_WRITE fd w (\<lambda>buf w.
        let w = sh_strcpy api buf str w; (r, w) = sh_munmap api buf BUF_SIZE w in
        if r \<noteq> 0 then unlinking api SHM_NAME w PTS_UNRESOLVED
        else let (r, w) = sh_close api fd w in
        if r \<noteq> 0 then unlinking api SHM_NAME w PTS_UNRESOLVED
        else read_again api SHM_NAME w))))"

definition shm_open_28_2 :: "('w, 'z) shm_prog" where
  "shm_open_28_2 api w =
     (let SHM_NAME = ''posixtest_28-2'' in
      with_open api SHM_NAME (O_RDWR OR O_CREAT) RW_USER w (\<lambda>fd w.
      with_size api SHM_NAME fd w (\<lambda>w.
      with_map api SHM_NAME PROT_RDWR fd w (\<lambda>buf w.
        let w = sh_strcpy api buf str w; (r, w) = sh_close api fd w in
        if r \<noteq> 0 then unlinking api SHM_NAME w PTS_UNRESOLVED
        else let (r, w) = sh_unlink api SHM_NAME w in
        if r \<noteq> 0 then PTS_UNRESOLVED
        else if sh_string api buf w = str then PTS_PASS else PTS_FAIL))))"

definition shm_open_28_3 :: "('w, 'z) shm_prog" where
  "shm_open_28_3 api w =
     (let SHM_NAME = ''posixtest_28-3'' in
      with_open api SHM_NAME (O_RDWR OR O_CREAT) RW_USER w (\<lambda>fd w.
      with_size api SHM_NAME fd w (\<lambda>w.
      with_map api SHM_NAME PROT_WRITE fd w (\<lambda>buf w.
        let w = sh_strcpy api buf str w; (r, w) = sh_munmap api buf BUF_SIZE w in
        if r \<noteq> 0 then unlinking api SHM_NAME w PTS_UNRESOLVED
        else let (r, w) = sh_unlink api SHM_NAME w in
        if r \<noteq> 0 then PTS_UNRESOLVED
        else map_again api fd w))))"

definition shm_open_29_1 :: "('w, 'z) shm_prog" where "shm_open_29_1 = shm_untested"

section \<open>\<^verbatim>\<open>shm_open\<close>: errors\<close>

definition shm_set_nonroot :: "('w, 'z) shm_api_scheme \<Rightarrow> 'w \<Rightarrow> int \<times> 'w" where
  "shm_set_nonroot api w =
     (case find (\<lambda>u. fst u \<noteq> ''root'') (sh_passwd api) of
        None \<Rightarrow> (1, w)
      | Some u \<Rightarrow> let (r, w) = sh_seteuid api (snd u) w in if r \<noteq> 0 then (1, w) else (0, w))"

text \<open>\<^verbatim>\<open>32-1.c\<close> and \<^verbatim>\<open>34-1.c\<close>: an ordinary user creates an object with \<open>mode\<close> and opens it again.\<close>

definition access_refused :: "string \<Rightarrow> flags \<Rightarrow> flags \<Rightarrow> ('w, 'z) shm_prog" where
  "access_refused SHM_NAME mode oflag api w =
     (let (r, w) = (if sh_getuid api w = 0 then shm_set_nonroot api w else (0, w)) in
      if r \<noteq> 0 then PTS_UNTESTED
      else
      with_open api SHM_NAME (O_RDWR OR O_CREAT) mode w (\<lambda>fd w.
        let (fd, w) = sh_open api SHM_NAME oflag 0 w in
        if fd = - 1 \<and> sh_errno api w = EACCES then unlinking api SHM_NAME w PTS_PASS
        else if fd \<noteq> - 1 then unlinking api SHM_NAME w PTS_FAIL else PTS_FAIL))"

definition shm_open_32_1 :: "('w, 'z) shm_prog" where
  "shm_open_32_1 = access_refused ''posixtest_32-1'' 0 O_RDWR"

definition shm_open_34_1 :: "('w, 'z) shm_prog" where
  "shm_open_34_1 = access_refused ''posixtest_34-1'' S_IRUSR (O_RDWR OR O_TRUNC)"

definition shm_open_36_1 :: "('w, 'z) shm_prog" where "shm_open_36_1 = shm_untested"

text \<open>The names of \<^verbatim>\<open>37-1.c\<close> without the one of characters above 127, which the source holds in an unknown encoding: it is the argument \<open>high\<close>.\<close>

definition odd_names :: "string \<Rightarrow> string list" where
  "odd_names high = [''$#'' @ [CHR 0x0A, CHR 0x40, CHR 0x09, CHR 0x07] @ '',~}'', high, ''..'', ''/'', ''//'', ''/abc'']"

fun try_names :: "('w, 'z) shm_api_scheme \<Rightarrow> string list \<Rightarrow> int \<Rightarrow> 'w \<Rightarrow> int" where
  "try_names api [] result w = result"
| "try_names api (n # ns) result w =
     (let (fd, w) = sh_open api n (O_RDWR OR O_CREAT) 0 w;
          result = (if fd = - 1 \<and> sh_errno api w = EINVAL then result else if fd \<noteq> - 1 then result else PTS_FAIL);
          (r, w) = sh_unlink api n w in
      try_names api ns result w)"

definition shm_open_37_1 :: "string \<Rightarrow> ('w, 'z) shm_prog" where
  "shm_open_37_1 high api w = try_names api (odd_names high) PTS_PASS w"

text \<open>The loop of \<^verbatim>\<open>38-1.c\<close>, with \<open>n\<close> as fuel.\<close>

fun open_all :: "('w, 'z) shm_api_scheme \<Rightarrow> string \<Rightarrow> nat \<Rightarrow> 'w \<Rightarrow> 'w outcome" where
  "open_all api name 0 w = Loop"
| "open_all api name (Suc n) w =
     (let (fd, w) = sh_open api name (O_RDWR OR O_CREAT) RW_USER w in if fd \<noteq> - 1 then open_all api name n w else Ret w)"

definition shm_open_38_1 :: "nat \<Rightarrow> ('w, 'z) shm_api_scheme \<Rightarrow> 'w \<Rightarrow> int outcome" where
  "shm_open_38_1 n api w =
     obind (open_all api ''posixtest_38-1'' n w) (\<lambda>w.
       Ret (if sh_errno api w = EMFILE then unlinking api ''posixtest_38-1'' w PTS_PASS else unlinking api ''posixtest_38-1'' w PTS_FAIL))"

text \<open>A name of one component that is too long, and one of many components. The programs build it in memory from \<^verbatim>\<open>malloc\<close> without testing the result; it is
  taken to be available.\<close>

definition long_component :: "int \<Rightarrow> string" where
  "long_component name_max = CHR ''/'' # replicate (nat (name_max + 1)) CHR ''a''"

definition COMPONENT_SIZE :: nat where
  "COMPONENT_SIZE = 14"

definition long_path :: "int \<Rightarrow> string" where
  "long_path path_max = map (\<lambda>i. if (i + 1) mod COMPONENT_SIZE \<noteq> 0 then CHR ''a'' else CHR ''/'') [0..<nat path_max]"

definition open_too_long :: "string \<Rightarrow> ('w, 'z) shm_prog" where
  "open_too_long shm_name api w =
     (let (fd, w) = sh_open api shm_name (O_RDWR OR O_CREAT) RW_USER w in
      if fd = - 1 \<and> sh_errno api w = ENAMETOOLONG then PTS_PASS
      else if fd \<noteq> - 1 then unlinking api shm_name w PTS_FAIL else PTS_FAIL)"

definition shm_open_39_1 :: "('w, 'z) shm_prog" where
  "shm_open_39_1 api w = (if sh_name_max api = - 1 then PTS_UNRESOLVED else open_too_long (long_component (sh_name_max api)) api w)"

definition shm_open_39_2 :: "('w, 'z) shm_prog" where
  "shm_open_39_2 api w = (if sh_path_max api = - 1 then PTS_UNRESOLVED else open_too_long (long_path (sh_path_max api)) api w)"

definition shm_open_41_1 :: "('w, 'z) shm_prog" where
  "shm_open_41_1 api w =
     (let SHM_NAME = ''posixtest_41-1'' in
      cleaned api SHM_NAME w (\<lambda>w.
        let (fd, w) = sh_open api SHM_NAME O_RDONLY S_IRUSR w in
        if fd = - 1 \<and> sh_errno api w = ENOENT then PTS_PASS else if fd \<noteq> - 1 then PTS_FAIL else PTS_FAIL))"

definition shm_open_42_1 :: "('w, 'z) shm_prog" where "shm_open_42_1 = shm_untested"

section \<open>\<^verbatim>\<open>shm_unlink\<close>\<close>

text \<open>The object is gone: the end of \<^verbatim>\<open>1-1.c\<close> and \<^verbatim>\<open>2-1.c\<close>.\<close>

definition gone :: "('w, 'z) shm_api_scheme \<Rightarrow> string \<Rightarrow> 'w \<Rightarrow> int" where
  "gone api SHM_NAME w =
     (let (r, w) = sh_unlink api SHM_NAME w in
      if r \<noteq> 0 then PTS_UNRESOLVED
      else let (fd, w) = sh_open api SHM_NAME O_RDONLY 0 w in
      if fd = - 1 \<and> sh_errno api w = ENOENT then PTS_PASS
      else if fd = - 1 then PTS_UNRESOLVED else unlinking api SHM_NAME w PTS_FAIL)"

definition shm_unlink_1_1 :: "('w, 'z) shm_prog" where
  "shm_unlink_1_1 api w =
     (let SHM_NAME = ''posixtest_1-1'' in
      with_open api SHM_NAME (O_RDWR OR O_CREAT) RW_USER w (\<lambda>fd w.
        let (r, w) = sh_close api fd w in
        if r \<noteq> 0 then unlinking api SHM_NAME w PTS_UNRESOLVED else gone api SHM_NAME w))"

definition shm_unlink_2_1 :: "('w, 'z) shm_prog" where
  "shm_unlink_2_1 api w = with_open api ''posixtest_2-1'' (O_RDWR OR O_CREAT) RW_USER w (\<lambda>fd w. gone api ''posixtest_2-1'' w)"

definition shm_unlink_3_1 :: "('w, 'z) shm_prog" where
  "shm_unlink_3_1 api w =
     (let SHM_NAME = ''posixtest_3-1'' in
      with_open api SHM_NAME (O_RDWR OR O_CREAT) RW_USER w (\<lambda>fd w.
      with_size api SHM_NAME fd w (\<lambda>w.
        let (r, w) = sh_unlink api SHM_NAME w in
        if r \<noteq> 0 then PTS_UNRESOLVED
        else let (buf, w) = sh_mmap api BUF_SIZE PROT_READ fd w in
        if buf = - 1 \<and> sh_errno api w = EBADF then PTS_FAIL
        else if buf = - 1 then PTS_UNRESOLVED else PTS_PASS)))"

definition shm_unlink_5_1 :: "('w, 'z) shm_prog" where
  "shm_unlink_5_1 api w =
     (let SHM_NAME = ''posixtest_5-1'' in
      with_open api SHM_NAME (O_RDWR OR O_CREAT) RW_USER w (\<lambda>fd w.
        let (r, w) = sh_unlink api SHM_NAME w in
        if r \<noteq> 0 then PTS_UNRESOLVED
        else let (fd, w) = sh_open api SHM_NAME (O_RDWR OR O_CREAT OR O_EXCL) RW_USER w in
        if fd = - 1 \<and> sh_errno api w = EEXIST then PTS_FAIL
        else if fd = - 1 then PTS_UNRESOLVED else unlinking api SHM_NAME w PTS_PASS))"

definition shm_unlink_6_1 :: "('w, 'z) shm_prog" where
  "shm_unlink_6_1 api w =
     with_open api ''posixtest_6-1'' (O_RDWR OR O_CREAT) RW_USER w (\<lambda>fd w.
       let (r, w) = sh_unlink api ''posixtest_6-1'' w in if r = 0 then PTS_PASS else PTS_FAIL)"

definition shm_unlink_8_1 :: "('w, 'z) shm_prog" where
  "shm_unlink_8_1 api w =
     (let SHM_NAME = ''posixtest_9-1'' in
      with_open api SHM_NAME (O_RDWR OR O_CREAT) RW_USER w (\<lambda>fd w.
      with_size api SHM_NAME fd w (\<lambda>w.
      with_stat api SHM_NAME fd w (\<lambda>stat_before w.
        case other_user api w of None \<Rightarrow> PTS_UNRESOLVED
        | Some pw \<Rightarrow>
            let (r, w) = sh_seteuid api (snd pw) w in
            if r \<noteq> 0 then PTS_UNRESOLVED
            else let (result, w) = sh_unlink api SHM_NAME w in
            if result = 0 then PTS_UNRESOLVED
            else let (r, w) = sh_seteuid api (sh_getuid api w) w in
            with_stat api SHM_NAME fd w (\<lambda>stat_after w.
              if st_uid stat_after \<noteq> st_uid stat_before \<or> st_gid stat_after \<noteq> st_gid stat_before
                \<or> st_size stat_after \<noteq> st_size stat_before \<or> st_mode stat_after \<noteq> st_mode stat_before
              then PTS_FAIL else PTS_PASS)))))"

definition shm_unlink_9_1 :: "('w, 'z) shm_prog" where
  "shm_unlink_9_1 api w =
     (let SHM_NAME = ''posixtest_9-1'' in
      with_open api SHM_NAME (O_RDWR OR O_CREAT) RW_USER w (\<lambda>fd w.
        case other_user api w of None \<Rightarrow> PTS_UNRESOLVED
        | Some pw \<Rightarrow>
            let (r, w) = sh_seteuid api (snd pw) w in
            if r \<noteq> 0 then PTS_UNRESOLVED
            else let (result, w) = sh_unlink api SHM_NAME w in
            if result = - 1 \<and> sh_errno api w = EACCES then restored api SHM_NAME w PTS_PASS
            else if result = - 1 then restored api SHM_NAME w PTS_FAIL else PTS_UNRESOLVED))"

definition unlink_too_long :: "string \<Rightarrow> ('w, 'z) shm_prog" where
  "unlink_too_long shm_name api w =
     (let (result, w) = sh_unlink api shm_name w in
      if result = - 1 \<and> sh_errno api w = ENAMETOOLONG then PTS_PASS else if result \<noteq> - 1 then PTS_FAIL else PTS_FAIL)"

definition shm_unlink_10_1 :: "('w, 'z) shm_prog" where
  "shm_unlink_10_1 api w = unlink_too_long (long_component (sh_name_max api)) api w"

text \<open>\<^verbatim>\<open>10-2.c\<close> stores the final zero one byte behind the block it has allocated and leaves the last byte of the block as it was: the
  behaviour is undefined.\<close>

definition shm_unlink_10_2 :: "('w, 'z) shm_api_scheme \<Rightarrow> 'w \<Rightarrow> int outcome" where
  "shm_unlink_10_2 api w = (if sh_path_max api = - 1 then Ret PTS_UNRESOLVED else Fault)"

definition shm_unlink_11_1 :: "('w, 'z) shm_prog" where
  "shm_unlink_11_1 api w =
     (let SHM_NAME = ''posixtest_11-1''; (r, w) = sh_unlink api SHM_NAME w; (result, w) = sh_unlink api SHM_NAME w in
      if result = - 1 \<and> sh_errno api w = ENOENT then PTS_PASS
      else if result = - 1 then PTS_UNRESOLVED else PTS_FAIL)"

end
