(* ===== verification/Shm_Props.thy ===== *)
theory Shm_Props
  imports Shm_Tests
begin

text \<open>
  The specification of shared memory objects: an abstract machine over the record \<open>hview\<close> of names, objects, descriptors and mappings, and the locale
  \<open>shm_system\<close> of systems whose calls refine it. Shown of the programs of \<open>Shm_Tests\<close>: their verdicts on every such system, and what they report of
  systems that keep a name too long or that share nothing.
\<close>

section \<open>The abstract machine\<close>

record shm_obj =
  ob_mode :: flags
  ob_uid :: int
  ob_gid :: int
  ob_data :: string

record hview =
  hv_errno :: errno
  hv_names :: "string \<Rightarrow> nat option"
  hv_obj :: "nat \<Rightarrow> shm_obj"
  hv_next :: nat
  hv_fd :: "int \<Rightarrow> (nat \<times> bool) option"
  hv_free :: nat
  hv_map :: "int \<Rightarrow> nat option"
  hv_uid :: int
  hv_euid :: int
  hv_egid :: int
  hv_umask :: flags

text \<open>What an implementation is free to choose: how many descriptors there are, the number of a new one and the address of a new mapping, which names it accepts, and the error of
  \<^verbatim>\<open>ftruncate\<close> on a descriptor that is not open for writing.\<close>

record shm_choice =
  ch_nfd :: int
  ch_fd :: "hview \<Rightarrow> int"
  ch_addr :: "hview \<Rightarrow> int"
  ch_name :: "string \<Rightarrow> errno"
  ch_trunc :: errno

definition fails :: "errno \<Rightarrow> hview \<Rightarrow> int \<times> hview" where
  "fails e v = (- 1, v\<lparr>hv_errno := e\<rparr>)"

definition may_open :: "hview \<Rightarrow> shm_obj \<Rightarrow> bool \<Rightarrow> bool" where
  "may_open v x wr \<longleftrightarrow> hv_euid v = 0 \<or>
     (if ob_uid x = hv_euid v then has (ob_mode x) S_IRUSR \<and> (wr \<longrightarrow> has (ob_mode x) S_IWUSR)
      else if ob_gid x = hv_egid v then has (ob_mode x) S_IRGRP \<and> (wr \<longrightarrow> has (ob_mode x) S_IWGRP)
      else has (ob_mode x) S_IROTH \<and> (wr \<longrightarrow> has (ob_mode x) S_IWOTH))"

definition new_fd :: "shm_choice \<Rightarrow> nat \<Rightarrow> bool \<Rightarrow> hview \<Rightarrow> int \<times> hview" where
  "new_fd ch n wr v = (ch_fd ch v, v\<lparr>hv_fd := (hv_fd v)(ch_fd ch v \<mapsto> (n, wr)), hv_free := hv_free v - 1\<rparr>)"

definition new_obj :: "string \<Rightarrow> flags \<Rightarrow> hview \<Rightarrow> hview" where
  "new_obj name mode v = v\<lparr>hv_names := (hv_names v)(name \<mapsto> hv_next v),
     hv_obj := (hv_obj v)(hv_next v := \<lparr>ob_mode = mode AND NOT (hv_umask v), ob_uid = hv_euid v, ob_gid = hv_egid v, ob_data = []\<rparr>),
     hv_next := hv_next v + 1\<rparr>"

definition spec_open :: "shm_choice \<Rightarrow> string \<Rightarrow> flags \<Rightarrow> flags \<Rightarrow> hview \<Rightarrow> int \<times> hview" where
  "spec_open ch name oflag mode v =
     (if ch_name ch name \<noteq> EOK then fails (ch_name ch name) v
      else if hv_free v = 0 then fails EMFILE v
      else case hv_names v name of
        None \<Rightarrow> if has oflag O_CREAT then new_fd ch (hv_next v) (has oflag O_RDWR) (new_obj name mode v) else fails ENOENT v
      | Some n \<Rightarrow>
          if has oflag O_CREAT \<and> has oflag O_EXCL then fails EEXIST v
          else if \<not> may_open v (hv_obj v n) (has oflag O_RDWR) then fails EACCES v
          else new_fd ch n (has oflag O_RDWR)
            (if has oflag O_TRUNC then v\<lparr>hv_obj := (hv_obj v)(n := (hv_obj v n)\<lparr>ob_data := []\<rparr>)\<rparr> else v))"

definition spec_unlink :: "shm_choice \<Rightarrow> string \<Rightarrow> hview \<Rightarrow> int \<times> hview" where
  "spec_unlink ch name v =
     (if ch_name ch name \<noteq> EOK then fails (ch_name ch name) v
      else case hv_names v name of
        None \<Rightarrow> fails ENOENT v
      | Some n \<Rightarrow> if hv_euid v = 0 \<or> ob_uid (hv_obj v n) = hv_euid v then (0, v\<lparr>hv_names := (hv_names v)(name := None)\<rparr>) else fails EACCES v)"

definition resize :: "nat \<Rightarrow> string \<Rightarrow> string" where
  "resize n xs = take n xs @ replicate (n - length xs) (CHR 0x00)"

definition spec_ftruncate :: "shm_choice \<Rightarrow> int \<Rightarrow> int \<Rightarrow> hview \<Rightarrow> int \<times> hview" where
  "spec_ftruncate ch fd sz v =
     (case hv_fd v fd of
        None \<Rightarrow> fails EBADF v
      | Some (n, wr) \<Rightarrow>
          if wr then (0, v\<lparr>hv_obj := (hv_obj v)(n := (hv_obj v n)\<lparr>ob_data := resize (nat sz) (ob_data (hv_obj v n))\<rparr>)\<rparr>)
          else fails (ch_trunc ch) v)"

definition spec_mmap :: "shm_choice \<Rightarrow> prot \<Rightarrow> int \<Rightarrow> hview \<Rightarrow> int \<times> hview" where
  "spec_mmap ch prot fd v =
     (case hv_fd v fd of
        None \<Rightarrow> fails EBADF v
      | Some (n, wr) \<Rightarrow>
          if prot \<in> {PROT_WRITE, PROT_RDWR} \<and> \<not> wr then fails EACCES v
          else (ch_addr ch v, v\<lparr>hv_map := (hv_map v)(ch_addr ch v \<mapsto> n)\<rparr>))"

definition spec_close :: "int \<Rightarrow> hview \<Rightarrow> int \<times> hview" where
  "spec_close fd v = (if hv_fd v fd = None then fails EBADF v else (0, v\<lparr>hv_fd := (hv_fd v)(fd := None), hv_free := hv_free v + 1\<rparr>))"

definition obj_stat :: "shm_obj \<Rightarrow> shm_stat" where
  "obj_stat x = \<lparr>st_mode = ob_mode x, st_uid = ob_uid x, st_gid = ob_gid x, st_size = int (length (ob_data x))\<rparr>"

definition overwrite :: "string \<Rightarrow> string \<Rightarrow> string" where
  "overwrite s xs = s @ CHR 0x00 # drop (length s + 1) xs"

definition c_string :: "string \<Rightarrow> string" where
  "c_string xs = takeWhile (\<lambda>c. c \<noteq> CHR 0x00) xs"

text \<open>\<open>hv_free\<close> counts the descriptors that are not in use.\<close>

definition consistent :: "shm_choice \<Rightarrow> hview \<Rightarrow> bool" where
  "consistent ch v \<longleftrightarrow> hv_free v = card {d \<in> {0..<ch_nfd ch}. hv_fd v d = None}"

lemma consistent_use:
  assumes "consistent ch v" and "hv_fd v d = None" and "0 \<le> d" and "d < ch_nfd ch"
  shows "consistent ch (v\<lparr>hv_next := n, hv_fd := (hv_fd v)(d \<mapsto> x), hv_free := hv_free v - 1\<rparr>)"
proof -
  have "{e \<in> {0..<ch_nfd ch}. ((hv_fd v)(d \<mapsto> x)) e = None} = {e \<in> {0..<ch_nfd ch}. hv_fd v e = None} - {d}" using assms(2) by auto
  moreover have "d \<in> {e \<in> {0..<ch_nfd ch}. hv_fd v e = None}" using assms by simp
  ultimately show ?thesis using assms(1) by (simp add: consistent_def)
qed

text \<open>What a successful \<^verbatim>\<open>shm_open\<close> with the descriptor \<open>fd\<close> does.\<close>

definition allowed :: "hview \<Rightarrow> string \<Rightarrow> flags \<Rightarrow> bool" where
  "allowed v name oflag \<longleftrightarrow> (case hv_names v name of None \<Rightarrow> has oflag O_CREAT
     | Some n \<Rightarrow> \<not> (has oflag O_CREAT \<and> has oflag O_EXCL) \<and> may_open v (hv_obj v n) (has oflag O_RDWR))"

definition opened :: "string \<Rightarrow> flags \<Rightarrow> flags \<Rightarrow> int \<Rightarrow> hview \<Rightarrow> hview" where
  "opened name oflag mode fd v =
     (case hv_names v name of
        None \<Rightarrow> (new_obj name mode v)\<lparr>hv_fd := (hv_fd v)(fd \<mapsto> (hv_next v, has oflag O_RDWR)), hv_free := hv_free v - 1\<rparr>
      | Some n \<Rightarrow> v\<lparr>hv_obj := (if has oflag O_TRUNC then (hv_obj v)(n := (hv_obj v n)\<lparr>ob_data := []\<rparr>) else hv_obj v),
          hv_fd := (hv_fd v)(fd \<mapsto> (n, has oflag O_RDWR)), hv_free := hv_free v - 1\<rparr>)"

text \<open>The object of the name, if there is one, may be unlinked.\<close>

definition removable :: "hview \<Rightarrow> string \<Rightarrow> bool" where
  "removable v name \<longleftrightarrow> (case hv_names v name of None \<Rightarrow> True | Some n \<Rightarrow> hv_euid v = 0 \<or> ob_uid (hv_obj v n) = hv_euid v)"

lemma removable_umask [simp]: "removable (v\<lparr>hv_umask := m\<rparr>) name = removable v name"
  by (simp add: removable_def cong: option.case_cong)

text \<open>Facts on the flags and the strings the programs use.\<close>

lemma has_oflag [simp]:
  "\<not> has O_RDONLY f" "has O_RDWR O_RDWR" "\<not> has O_RDWR O_CREAT" "\<not> has O_RDWR O_EXCL" "\<not> has O_RDWR O_TRUNC"
  "\<not> has O_CREAT O_RDWR" "has O_CREAT O_CREAT" "\<not> has O_CREAT O_EXCL" "\<not> has O_CREAT O_TRUNC"
  "\<not> has O_EXCL O_RDWR" "\<not> has O_EXCL O_CREAT" "has O_EXCL O_EXCL" "\<not> has O_EXCL O_TRUNC"
  "\<not> has O_TRUNC O_RDWR" "\<not> has O_TRUNC O_CREAT" "\<not> has O_TRUNC O_EXCL" "has O_TRUNC O_TRUNC"
  by (simp_all add: has_def flag_simps)

lemma unmasked: "(u :: flags) AND m = 0 \<Longrightarrow> m AND NOT u = m"
proof (rule bit_word_eqI)
  fix n
  assume "u AND m = 0" and "n < LENGTH(32)"
  then have "\<not> (bit u n \<and> bit m n)" by (metis bit_and_iff bit_0_eq bot_apply bot_bool_def)
  then show "bit (m AND NOT u) n = bit m n" using \<open>n < LENGTH(32)\<close> by (auto simp: bit_and_iff bit_not_iff)
qed

lemma has_user [simp]: "has RW_USER S_IRUSR" "has RW_USER S_IWUSR" "has S_IRUSR S_IRUSR" "\<not> has S_IRUSR S_IWUSR"
  by (simp_all add: has_def flag_simps RW_USER_def)

lemma has_all [simp]: "has ALL_MOD_FLAGS S_IRUSR" "has ALL_MOD_FLAGS S_IWUSR" "has ALL_MOD_FLAGS S_IRGRP" "has ALL_MOD_FLAGS S_IWGRP"
  "has ALL_MOD_FLAGS S_IROTH" "has ALL_MOD_FLAGS S_IWOTH"
  by (simp_all add: has_def flag_simps ALL_MOD_FLAGS_def)

lemma length_resize [simp]: "length (resize n xs) = n"
  by (simp add: resize_def)

lemma c_string_overwrite [simp]: "CHR 0x00 \<notin> set s \<Longrightarrow> c_string (overwrite s xs) = s"
  unfolding c_string_def overwrite_def by (subst takeWhile_append2) auto

lemma str_facts [simp]: "length str = 6" "CHR 0x00 \<notin> set str"
  by (simp_all add: str_def)

section \<open>The contract\<close>

text \<open>The calls refine the machine. Where a failing \<^verbatim>\<open>shm_open\<close> meets two errors at once the order is left open; memory that is not mapped is not accessed.\<close>

locale shm_system =
  fixes api :: "('w, 'z) shm_api_scheme" and view :: "'w \<Rightarrow> hview" and ch :: shm_choice
  assumes ids: "sh_errno api w = hv_errno (view w)" "sh_getuid api w = hv_uid (view w)" "sh_geteuid api w = hv_euid (view w)"
      "sh_getegid api w = hv_egid (view w)"
    and chosen: "0 \<le> ch_fd ch v" "0 \<le> ch_addr ch v"
    and lowest: "consistent ch v \<Longrightarrow> 0 < hv_free v \<Longrightarrow> hv_fd v (ch_fd ch v) = None \<and> ch_fd ch v < ch_nfd ch"
      "consistent ch v \<Longrightarrow> 0 < hv_free v \<Longrightarrow> 0 \<le> d \<Longrightarrow> d < ch_fd ch v \<Longrightarrow> hv_fd v d \<noteq> None"
    and long_names: "sh_name_max api \<noteq> - 1 \<Longrightarrow> ch_name ch (long_component (sh_name_max api)) = ENAMETOOLONG"
      "sh_path_max api \<noteq> - 1 \<Longrightarrow> ch_name ch (long_path (sh_path_max api)) = ENAMETOOLONG"
    and open_ref: "0 < hv_free (view w) \<or> (\<exists>n. hv_names (view w) name = Some n \<and> may_open (view w) (hv_obj (view w) n) True) \<and> \<not> has oflag O_EXCL \<Longrightarrow>
        fst (sh_open api name oflag mode w) = fst (spec_open ch name oflag mode (view w))
        \<and> view (snd (sh_open api name oflag mode w)) = snd (spec_open ch name oflag mode (view w))"
    and unlink: "fst (sh_unlink api name w) = fst (spec_unlink ch name (view w))" "view (snd (sh_unlink api name w)) = snd (spec_unlink ch name (view w))"
    and ftruncate: "fst (sh_ftruncate api fd sz w) = fst (spec_ftruncate ch fd sz (view w))"
      "view (snd (sh_ftruncate api fd sz w)) = snd (spec_ftruncate ch fd sz (view w))"
    and mmap: "fst (sh_mmap api sz prot fd w) = fst (spec_mmap ch prot fd (view w))" "view (snd (sh_mmap api sz prot fd w)) = snd (spec_mmap ch prot fd (view w))"
    and munmap: "hv_map (view w) a \<noteq> None \<Longrightarrow>
        fst (sh_munmap api a sz w) = 0 \<and> view (snd (sh_munmap api a sz w)) = (view w)\<lparr>hv_map := (hv_map (view w))(a := None)\<rparr>"
    and close: "fst (sh_close api fd w) = fst (spec_close fd (view w))" "view (snd (sh_close api fd w)) = snd (spec_close fd (view w))"
    and fstat: "hv_fd (view w) fd = Some (n, wr) \<Longrightarrow>
        fst (fst (sh_fstat api fd w)) = 0 \<and> snd (fst (sh_fstat api fd w)) = obj_stat (hv_obj (view w) n) \<and> view (snd (sh_fstat api fd w)) = view w"
    and getfd: "hv_fd (view w) fd \<noteq> None \<Longrightarrow>
        (\<exists>f. fst (sh_getfd api fd w) = Some f \<and> has f FD_CLOEXEC) \<and> view (snd (sh_getfd api fd w)) = view w"
    and strcpy: "hv_map (view w) a = Some n \<Longrightarrow> length s < length (ob_data (hv_obj (view w) n)) \<Longrightarrow>
        view (sh_strcpy api a s w) = (view w)\<lparr>hv_obj := (hv_obj (view w))(n := (hv_obj (view w) n)\<lparr>ob_data := overwrite s (ob_data (hv_obj (view w) n))\<rparr>)\<rparr>"
    and string_ref: "hv_map (view w) a = Some n \<Longrightarrow> sh_string api a w = c_string (ob_data (hv_obj (view w) n))"
    and mkstemp: "0 < hv_free (view w) \<Longrightarrow> fst (sh_mkstemp api w) = ch_fd ch (view w)
        \<and> view (snd (sh_mkstemp api w)) = snd (new_fd ch (hv_next (view w)) True ((view w)\<lparr>hv_next := hv_next (view w) + 1\<rparr>))"
    and unlink_file: "view (snd (sh_unlink_file api w)) = view w"
    and umask: "view (snd (sh_umask api m w)) = (view w)\<lparr>hv_umask := m\<rparr>"
    and seteuid: "hv_euid (view w) = 0 \<or> u = hv_uid (view w) \<Longrightarrow> fst (sh_seteuid api u w) = 0 \<and> view (snd (sh_seteuid api u w)) = (view w)\<lparr>hv_euid := u\<rparr>"
begin

text \<open>The laws as rewrite rules.\<close>

lemma fstat_laws:
  assumes "hv_fd (view w) fd \<noteq> None"
  shows "fst (fst (sh_fstat api fd w)) = 0" "snd (fst (sh_fstat api fd w)) = obj_stat (hv_obj (view w) (fst (the (hv_fd (view w) fd))))"
    "view (snd (sh_fstat api fd w)) = view w"
  using assms fstat [of w fd] by fastforce+

lemma strcpy_laws:
  assumes "hv_map (view w) a \<noteq> None" and "length s < length (ob_data (hv_obj (view w) (the (hv_map (view w) a))))"
  shows "view (sh_strcpy api a s w) = (let n = the (hv_map (view w) a) in
    (view w)\<lparr>hv_obj := (hv_obj (view w))(n := (hv_obj (view w) n)\<lparr>ob_data := overwrite s (ob_data (hv_obj (view w) n))\<rparr>)\<rparr>)"
  using assms strcpy [of w a _ s] by (auto simp: Let_def)

lemma string_laws: "hv_map (view w) a \<noteq> None \<Longrightarrow> sh_string api a w = c_string (ob_data (hv_obj (view w) (the (hv_map (view w) a))))"
  using string_ref [of w a] by auto

lemma chosen_neq [simp]: "ch_fd ch v \<noteq> - 1" "ch_addr ch v \<noteq> - 1"
  using chosen [of v] by auto

lemmas machine = spec_open_def spec_unlink_def spec_ftruncate_def spec_mmap_def spec_close_def new_fd_def new_obj_def fails_def

lemmas laws = split_def Let_def ids unlink ftruncate mmap munmap close fstat_laws strcpy_laws string_laws unlink_file umask seteuid
  unlinking_def with_size_def with_stat_def spec_unlink_def spec_ftruncate_def spec_close_def fails_def

text \<open>The steps with a new descriptor or address, which is a new variable.\<close>

lemma open_step:
  assumes "0 < hv_free (view w)" and "ch_name ch name = EOK" and "allowed (view w) name oflag"
  obtains fd where "fst (sh_open api name oflag mode w) = fd" "fd \<noteq> - 1"
    "view (snd (sh_open api name oflag mode w)) = opened name oflag mode fd (view w)"
  using assms by (intro that [of "fst (spec_open ch name oflag mode (view w))"])
    (auto simp: open_ref allowed_def opened_def spec_open_def new_fd_def new_obj_def split: option.splits)

lemma openI:
  assumes "0 < hv_free (view w)" and "ch_name ch name = EOK" and "allowed (view w) name oflag"
    and "\<And>fd w'. fd \<noteq> - 1 \<Longrightarrow> view w' = opened name oflag mode fd (view w) \<Longrightarrow> k fd w' = x"
  shows "with_open api name oflag mode w k = x" "with_reopen api name oflag mode w k = x"
  using open_step [OF assms(1-3), of mode] assms(4) by (auto simp: with_open_def with_reopen_def split_def Let_def)

lemma mapI:
  assumes "hv_fd (view w) fd = None \<Longrightarrow> False" and "prot \<in> {PROT_WRITE, PROT_RDWR} \<Longrightarrow> snd (the (hv_fd (view w) fd))"
    and "\<And>a w'. a \<noteq> - 1 \<Longrightarrow> view w' = (view w)\<lparr>hv_map := (hv_map (view w))(a \<mapsto> fst (the (hv_fd (view w) fd)))\<rparr> \<Longrightarrow> k a w' = x"
  shows "with_map api name prot fd w k = x"
proof -
  obtain n wr where "hv_fd (view w) fd = Some (n, wr)" using assms(1) by fastforce
  then show ?thesis using assms(2,3) by (auto simp: with_map_def split_def Let_def mmap spec_mmap_def)
qed

section \<open>The programs\<close>

lemmas run = allowed_def opened_def new_obj_def laws may_open_def BUF_SIZE_def SHM_SZ_def obj_stat_def

lemma share_programs:
  assumes "2 \<le> hv_free (view w)" and "hv_umask (view w) AND RW_USER = 0"
  shows "hv_names (view w) ''posixtest_1-1'' = None \<Longrightarrow> ch_name ch ''posixtest_1-1'' = EOK \<Longrightarrow> shm_open_1_1 api w = PTS_PASS"
    "hv_names (view w) ''posixtest_25-1'' = None \<Longrightarrow> ch_name ch ''posixtest_25-1'' = EOK \<Longrightarrow> shm_open_25_1 api w = PTS_PASS"
    "hv_names (view w) ''posixtest_26-1'' = None \<Longrightarrow> ch_name ch ''posixtest_26-1'' = EOK \<Longrightarrow> shm_open_26_1 api w = PTS_PASS"
  unfolding shm_open_1_1_def shm_open_25_1_def shm_open_26_1_def Let_def
  using assms unmasked [OF assms(2)] by (auto intro!: openI mapI simp: run)

lemma reopen_program:
  assumes "2 \<le> hv_free (view w)" and "hv_umask (view w) AND RW_USER = 0"
    and "hv_names (view w) ''posixtest_14-2'' = None" and "ch_name ch ''posixtest_14-2'' = EOK"
  shows "shm_open_14_2 api w = PTS_PASS"
  unfolding shm_open_14_2_def Let_def
  using assms unmasked [OF assms(2)] by (auto intro!: openI simp: run mmap spec_mmap_def)

lemma read_againI:
  assumes "0 < hv_free (view w)" and "ch_name ch name = EOK" and "hv_names (view w) name = None \<Longrightarrow> False"
    and "may_open (view w) (hv_obj (view w) (the (hv_names (view w) name))) False"
    and "c_string (ob_data (hv_obj (view w) (the (hv_names (view w) name)))) = str"
  shows "read_again api name w = PTS_PASS"
proof -
  have "allowed (view w) name O_RDONLY" using assms by (cases "hv_names (view w) name") (auto simp: allowed_def)
  from open_step [OF assms(1,2) this, of RW_USER]
  obtain fd where fd: "fst (sh_open api name O_RDONLY RW_USER w) = fd" "fd \<noteq> - 1"
    "view (snd (sh_open api name O_RDONLY RW_USER w)) = opened name O_RDONLY RW_USER fd (view w)" by blast
  then show ?thesis
    using assms by (cases "hv_names (view w) name") (auto simp: read_again_def split_def Let_def opened_def string_laws unlinking_def intro!: mapI)
qed

lemma map_againI:
  assumes "hv_fd (view w) fd = None \<Longrightarrow> False" and "c_string (ob_data (hv_obj (view w) (fst (the (hv_fd (view w) fd))))) = str"
  shows "map_again api fd w = PTS_PASS"
  using assms by (cases "hv_fd (view w) fd") (auto simp: map_again_def split_def Let_def mmap spec_mmap_def string_laws)

lemma persist_programs:
  assumes "1 \<le> hv_free (view w)" and "hv_umask (view w) AND RW_USER = 0"
  shows "hv_names (view w) ''posixtest_28-1'' = None \<Longrightarrow> ch_name ch ''posixtest_28-1'' = EOK \<Longrightarrow> shm_open_28_1 api w = PTS_PASS"
    "hv_names (view w) ''posixtest_28-2'' = None \<Longrightarrow> ch_name ch ''posixtest_28-2'' = EOK \<Longrightarrow> shm_open_28_2 api w = PTS_PASS"
    "hv_names (view w) ''posixtest_28-3'' = None \<Longrightarrow> ch_name ch ''posixtest_28-3'' = EOK \<Longrightarrow> shm_open_28_3 api w = PTS_PASS"
  unfolding shm_open_28_1_def shm_open_28_2_def shm_open_28_3_def Let_def
  using assms unmasked [OF assms(2)] by (auto intro!: openI mapI read_againI map_againI simp: run)

text \<open>Programs that first remove what an earlier run has left.\<close>

lemma cleanedI:
  assumes "ch_name ch name = EOK" and "removable (view w) name"
    and "\<And>e w'. view w' = (view w)\<lparr>hv_errno := e, hv_names := (hv_names (view w))(name := None)\<rparr> \<Longrightarrow> k w' = x"
  shows "cleaned api name w k = x"
proof (cases "hv_names (view w) name")
  case None
  then have "(hv_names (view w))(name := None) = hv_names (view w)" by auto
  then show ?thesis using assms(1) None assms(3) [of "snd (sh_unlink api name w)" ENOENT] by (simp add: cleaned_def laws)
next
  case (Some n)
  then show ?thesis using assms(1,2) assms(3) [of "snd (sh_unlink api name w)" "hv_errno (view w)"] by (simp add: cleaned_def laws removable_def)
qed

lemma new_objectI:
  assumes "0 < hv_free (view w)" and "ch_name ch name = EOK" and "removable (view w) name"
    and "\<And>w'. hv_euid (view w') = hv_euid (view w) \<Longrightarrow> hv_egid (view w') = hv_egid (view w) \<Longrightarrow>
      good \<lparr>st_mode = mode AND NOT (hv_umask (view w)), st_uid = hv_euid (view w), st_gid = hv_egid (view w), st_size = 0\<rparr> w'"
  shows "new_object name mode good api w = PTS_PASS"
  unfolding new_object_def using assms by (auto intro!: cleanedI openI simp: run)

lemma stat_programs:
  assumes "0 < hv_free (view w)"
  shows "ch_name ch ''posixtest_16-1'' = EOK \<Longrightarrow> removable (view w) ''posixtest_16-1'' \<Longrightarrow> shm_open_16_1 api w = PTS_PASS"
    "ch_name ch ''posixtest_17-1'' = EOK \<Longrightarrow> removable (view w) ''posixtest_17-1'' \<Longrightarrow> shm_open_17_1 api w = PTS_PASS"
    "ch_name ch ''posixtest_18-1'' = EOK \<Longrightarrow> removable (view w) ''posixtest_18-1'' \<Longrightarrow> shm_open_18_1 api w = PTS_PASS"
    "ch_name ch ''posixtest_21-1'' = EOK \<Longrightarrow> removable (view w) ''posixtest_21-1'' \<Longrightarrow> shm_open_21_1 api w = PTS_PASS"
  unfolding shm_open_16_1_def shm_open_17_1_def shm_open_18_1_def shm_open_21_1_def
  using assms by (auto intro!: new_objectI simp: split_def Let_def ids umask)

lemma clean_programs:
  assumes "0 < hv_free (view w)"
  shows "ch_name ch ''posixtest_15-1'' = EOK \<Longrightarrow> removable (view w) ''posixtest_15-1'' \<Longrightarrow> shm_open_15_1 api w = PTS_PASS"
    "ch_name ch ''posixtest_20-1'' = EOK \<Longrightarrow> removable (view w) ''posixtest_20-1'' \<Longrightarrow>
      shm_open_20_1 api w = (if ch_trunc ch = EINVAL then PTS_PASS else PTS_FAIL)"
    "ch_name ch ''posixtest_20-2'' = EOK \<Longrightarrow> removable (view w) ''posixtest_20-2'' \<Longrightarrow> shm_open_20_2 api w = PTS_PASS"
    "ch_name ch ''posixtest_20-3'' = EOK \<Longrightarrow> removable (view w) ''posixtest_20-3'' \<Longrightarrow> shm_open_20_3 api w = PTS_PASS"
  unfolding shm_open_15_1_def shm_open_20_1_def shm_open_20_2_def shm_open_20_3_def Let_def
  using assms by (auto intro!: cleanedI openI simp: run mmap spec_mmap_def size_refused_def)

lemma descriptor_programs:
  assumes "0 < hv_free (view w)"
  shows "hv_names (view w) ''posixtest_11-1'' = None \<Longrightarrow> ch_name ch ''posixtest_11-1'' = EOK \<Longrightarrow> shm_open_11_1 api w = PTS_PASS"
    "hv_names (view w) ''posixtest_13-1'' = None \<Longrightarrow> ch_name ch ''posixtest_13-1'' = EOK \<Longrightarrow>
      shm_open_13_1 api w = (if ch_trunc ch = EINVAL then PTS_PASS else PTS_FAIL)"
proof -
  show "shm_open_11_1 api w = PTS_PASS" if "hv_names (view w) ''posixtest_11-1'' = None" "ch_name ch ''posixtest_11-1'' = EOK"
    unfolding shm_open_11_1_def Let_def
  proof (rule openI(1))
    fix fd w'
    assume "view w' = opened ''posixtest_11-1'' (O_RDONLY OR O_CREAT) RW_USER fd (view w)"
    then have "hv_fd (view w') fd \<noteq> None" using that by (simp add: opened_def)
    then show "(case sh_getfd api fd w' of (flags, w) \<Rightarrow> case flags of None \<Rightarrow> unlinking api ''posixtest_11-1'' w PTS_UNRESOLVED
        | Some flags \<Rightarrow> case sh_unlink api ''posixtest_11-1'' w of (r, w) \<Rightarrow> if has flags FD_CLOEXEC then PTS_PASS else PTS_FAIL) = PTS_PASS"
      using getfd [of w' fd] by (auto simp: split_def)
  qed (use assms that in \<open>auto simp: allowed_def\<close>)
  show "shm_open_13_1 api w = (if ch_trunc ch = EINVAL then PTS_PASS else PTS_FAIL)"
    if "hv_names (view w) ''posixtest_13-1'' = None" "ch_name ch ''posixtest_13-1'' = EOK"
    unfolding shm_open_13_1_def using assms that by (auto intro!: openI simp: run size_refused_def)
qed

lemma exclusive_program:
  assumes "2 \<le> hv_free (view w)" and "hv_names (view w) ''posixtest_22-1'' = None" and "ch_name ch ''posixtest_22-1'' = EOK"
  shows "shm_open_22_1 api w = PTS_PASS"
  unfolding shm_open_22_1_def Let_def using assms by (auto intro!: openI simp: run open_ref spec_open_def)

lemma missing_program:
  assumes "0 < hv_free (view w)" and "removable (view w) ''posixtest_41-1''" and "ch_name ch ''posixtest_41-1'' = EOK"
  shows "shm_open_41_1 api w = PTS_PASS"
  unfolding shm_open_41_1_def Let_def using assms by (auto intro!: cleanedI simp: laws open_ref spec_open_def)

lemma lowest_eq:
  assumes "consistent ch v" and "0 < hv_free v" and "hv_fd v d = None" and "0 \<le> d" and "\<And>i. 0 \<le> i \<Longrightarrow> i < d \<Longrightarrow> hv_fd v i \<noteq> None"
  shows "ch_fd ch v = d"
  using assms(3-5) lowest(1) [OF assms(1,2)] lowest(2) [OF assms(1,2), of d] chosen(1) [of v] by force

lemma lowest_program:
  assumes "consistent ch (view w)" and "2 \<le> hv_free (view w)" and "hv_names (view w) ''posixtest_8-1'' = None" and "ch_name ch ''posixtest_8-1'' = EOK"
  shows "shm_open_8_1 api w = (if hv_fd (view w) (ch_fd ch (view w) + 1) = None then PTS_PASS else PTS_FAIL)"
proof -
  let ?d = "ch_fd ch (view w)" and ?v = "(view w)\<lparr>hv_next := hv_next (view w) + 1\<rparr>" and ?w = "snd (sh_mkstemp api w)"
  have l: "hv_fd (view w) ?d = None" "?d < ch_nfd ch" "0 \<le> ?d" "\<And>i. 0 \<le> i \<Longrightarrow> i < ?d \<Longrightarrow> hv_fd (view w) i \<noteq> None"
    using assms(1,2) lowest [of "view w"] chosen(1) by auto
  have d: "ch_fd ch ?v = ?d" using assms(1,2) l by (intro lowest_eq) (auto simp: consistent_def)
  have v: "fst (sh_mkstemp api w) = ?d" "view ?w = snd (new_fd ch (hv_next (view w)) True ?v)" using mkstemp [of w] assms(2) by auto
  let ?u = "new_obj ''posixtest_8-1'' RW_USER (view ?w)"
  have o: "fst (sh_open api ''posixtest_8-1'' (O_RDWR OR O_CREAT) RW_USER ?w) = ch_fd ch ?u"
    using assms v(2) d by (simp add: open_ref spec_open_def new_fd_def)
  have u: "0 < hv_free ?u" "hv_fd ?u = (hv_fd (view w))(?d \<mapsto> (hv_next (view w), True))" using assms(2) v(2) d by (simp_all add: new_obj_def new_fd_def)
  have c: "consistent ch ?u"
    using consistent_use [OF assms(1) l(1,3,2)] v(2) d by (simp add: consistent_def new_obj_def new_fd_def)
  have "ch_fd ch ?u = ?d + 1 \<longleftrightarrow> hv_fd (view w) (?d + 1) = None"
  proof
    assume "ch_fd ch ?u = ?d + 1"
    then show "hv_fd (view w) (?d + 1) = None" using lowest(1) [OF c u(1)] u(2) by simp
  next
    assume "hv_fd (view w) (?d + 1) = None"
    then show "ch_fd ch ?u = ?d + 1" using l(3,4) u by (intro lowest_eq [OF c]) auto
  qed
  then show ?thesis using v(1) o by (simp add: shm_open_8_1_def split_def Let_def)
qed

lemma goneI:
  assumes "0 < hv_free (view w)" and "ch_name ch name = EOK" and "hv_names (view w) name \<noteq> None" and "removable (view w) name"
  shows "gone api name w = PTS_PASS"
  using assms by (cases "hv_names (view w) name") (simp_all add: gone_def laws open_ref spec_open_def removable_def)

lemma unlink_programs:
  assumes "2 \<le> hv_free (view w)"
  shows "hv_names (view w) ''posixtest_1-1'' = None \<Longrightarrow> ch_name ch ''posixtest_1-1'' = EOK \<Longrightarrow> shm_unlink_1_1 api w = PTS_PASS"
    "hv_names (view w) ''posixtest_2-1'' = None \<Longrightarrow> ch_name ch ''posixtest_2-1'' = EOK \<Longrightarrow> shm_unlink_2_1 api w = PTS_PASS"
    "hv_names (view w) ''posixtest_3-1'' = None \<Longrightarrow> ch_name ch ''posixtest_3-1'' = EOK \<Longrightarrow> shm_unlink_3_1 api w = PTS_PASS"
    "hv_names (view w) ''posixtest_5-1'' = None \<Longrightarrow> ch_name ch ''posixtest_5-1'' = EOK \<Longrightarrow> shm_unlink_5_1 api w = PTS_PASS"
    "hv_names (view w) ''posixtest_6-1'' = None \<Longrightarrow> ch_name ch ''posixtest_6-1'' = EOK \<Longrightarrow> shm_unlink_6_1 api w = PTS_PASS"
proof -
  show "shm_unlink_1_1 api w = PTS_PASS" if "hv_names (view w) ''posixtest_1-1'' = None" "ch_name ch ''posixtest_1-1'' = EOK"
    unfolding shm_unlink_1_1_def Let_def using assms that by (auto intro!: openI goneI simp: run removable_def)
  show "shm_unlink_2_1 api w = PTS_PASS" if "hv_names (view w) ''posixtest_2-1'' = None" "ch_name ch ''posixtest_2-1'' = EOK"
    unfolding shm_unlink_2_1_def Let_def using assms that by (auto intro!: openI goneI simp: run removable_def)
  show "shm_unlink_3_1 api w = PTS_PASS" if "hv_names (view w) ''posixtest_3-1'' = None" "ch_name ch ''posixtest_3-1'' = EOK"
    unfolding shm_unlink_3_1_def Let_def using assms that by (auto intro!: openI simp: run mmap spec_mmap_def)
  show "shm_unlink_5_1 api w = PTS_PASS" if "hv_names (view w) ''posixtest_5-1'' = None" "ch_name ch ''posixtest_5-1'' = EOK"
    unfolding shm_unlink_5_1_def Let_def using assms that by (auto intro!: openI simp: run open_ref spec_open_def new_fd_def)
  show "shm_unlink_6_1 api w = PTS_PASS" if "hv_names (view w) ''posixtest_6-1'' = None" "ch_name ch ''posixtest_6-1'' = EOK"
    unfolding shm_unlink_6_1_def Let_def using assms that by (auto intro!: openI simp: run)
qed

lemma unlink_twice:
  assumes "removable (view w) ''posixtest_11-1''" and "ch_name ch ''posixtest_11-1'' = EOK"
  shows "shm_unlink_11_1 api w = PTS_PASS"
  using assms by (cases "hv_names (view w) ''posixtest_11-1''") (simp_all add: shm_unlink_11_1_def laws removable_def)

lemma long_programs:
  assumes "0 < hv_free (view w)"
  shows "shm_open_39_1 api w = (if sh_name_max api = - 1 then PTS_UNRESOLVED else PTS_PASS)"
    "shm_open_39_2 api w = (if sh_path_max api = - 1 then PTS_UNRESOLVED else PTS_PASS)"
    "sh_name_max api \<noteq> - 1 \<Longrightarrow> shm_unlink_10_1 api w = PTS_PASS"
  using assms by (simp_all add: shm_open_39_1_def shm_open_39_2_def open_too_long_def shm_unlink_10_1_def unlink_too_long_def laws open_ref spec_open_def long_names)

lemma open_all_ends:
  assumes "hv_free (view w) < n" and "ch_name ch name = EOK" and "hv_names (view w) name = Some i" and "may_open (view w) (hv_obj (view w) i) True"
  shows "\<exists>w'. open_all api name n w = Ret w' \<and> hv_errno (view w') = EMFILE"
  using assms
proof (induction n arbitrary: w)
  case (Suc n)
  let ?w = "snd (sh_open api name (O_RDWR OR O_CREAT) RW_USER w)"
  show ?case
  proof (cases "hv_free (view w) = 0")
    case True
    then show ?thesis using Suc.prems by (auto simp: split_def Let_def open_ref spec_open_def fails_def)
  next
    case False
    then have o: "fst (sh_open api name (O_RDWR OR O_CREAT) RW_USER w) \<noteq> - 1" "view ?w = snd (new_fd ch i True (view w))"
      using Suc.prems by (simp_all add: open_ref spec_open_def new_fd_def)
    then have "\<exists>w'. open_all api name n ?w = Ret w' \<and> hv_errno (view w') = EMFILE"
      using Suc.prems False by (intro Suc.IH) (auto simp: new_fd_def may_open_def)
    then show ?thesis using o(1) by (simp add: split_def Let_def)
  qed
qed simp

lemma exhaust_program:
  assumes "hv_free (view w) < n" and "0 < hv_free (view w)" and "ch_name ch ''posixtest_38-1'' = EOK" and "hv_names (view w) ''posixtest_38-1'' = None"
    and "hv_umask (view w) AND RW_USER = 0"
  shows "shm_open_38_1 n api w = Ret PTS_PASS"
proof -
  obtain m where m: "n = Suc m" using assms(1) by (cases n) auto
  let ?w = "snd (sh_open api ''posixtest_38-1'' (O_RDWR OR O_CREAT) RW_USER w)"
  have "allowed (view w) ''posixtest_38-1'' (O_RDWR OR O_CREAT)" using assms(4) by (simp add: allowed_def)
  from open_step [OF assms(2,3) this, of RW_USER] obtain fd where
    fd: "fst (sh_open api ''posixtest_38-1'' (O_RDWR OR O_CREAT) RW_USER w) \<noteq> - 1" "view ?w = opened ''posixtest_38-1'' (O_RDWR OR O_CREAT) RW_USER fd (view w)"
    by metis
  have "\<exists>w'. open_all api ''posixtest_38-1'' m ?w = Ret w' \<and> hv_errno (view w') = EMFILE"
    using assms m fd(2) unmasked [OF assms(5)] by (intro open_all_ends [where i = "hv_next (view w)"]) (auto simp: opened_def new_obj_def may_open_def)
  then show ?thesis
    using fd(1) by (auto simp: shm_open_38_1_def m split_def Let_def ids unlinking_def)
qed

lemma try_names_pass:
  assumes "length ns \<le> hv_free (view w)" and "\<And>n. n \<in> set ns \<Longrightarrow> ch_name ch n \<in> {EOK, EINVAL} \<and> hv_names (view w) n = None"
  shows "try_names api ns PTS_PASS w = PTS_PASS"
  using assms
proof (induction ns arbitrary: w)
  case (Cons n ns)
  let ?w = "snd (sh_open api n (O_RDWR OR O_CREAT) 0 w)"
  have o: "ch_name ch n = EOK \<and> hv_names (view w) n = None \<or> ch_name ch n = EINVAL" "0 < hv_free (view w)" using Cons.prems by auto
  then have s: "fst (sh_open api n (O_RDWR OR O_CREAT) 0 w) \<noteq> - 1 \<or> hv_errno (view ?w) = EINVAL"
    "length ns \<le> hv_free (view (snd (sh_unlink api n ?w)))"
    "hv_names (view (snd (sh_unlink api n ?w))) m = (if m = n \<and> ch_name ch n = EOK then None else hv_names (view w) m)" for m
    using Cons.prems(1) by (auto simp: open_ref spec_open_def new_fd_def new_obj_def unlink spec_unlink_def fails_def)
  then have "try_names api ns PTS_PASS (snd (sh_unlink api n ?w)) = PTS_PASS" using Cons.prems(2) by (intro Cons.IH) auto
  then show ?case using s(1) by (auto simp: split_def Let_def ids)
qed simp

section \<open>Users\<close>

lemma access_refusedI:
  assumes "2 \<le> hv_free (view w)" and "ch_name ch name = EOK" and "hv_names (view w) name = None" and "hv_uid (view w) = 0 \<longleftrightarrow> hv_euid (view w) = 0"
    and "find (\<lambda>u. fst u \<noteq> ''root'') (sh_passwd api) = Some pw" and "snd pw \<noteq> 0" and "has oflag O_RDWR" and "\<not> has oflag O_CREAT"
    and "\<not> has (mode AND NOT (hv_umask (view w))) S_IWUSR"
  shows "access_refused name mode oflag api w = PTS_PASS"
  unfolding access_refused_def Let_def
  using assms by (auto intro!: openI simp: run shm_set_nonroot_def open_ref spec_open_def)

lemma user_programs:
  assumes "2 \<le> hv_free (view w)" and "hv_uid (view w) = 0 \<longleftrightarrow> hv_euid (view w) = 0"
    and "find (\<lambda>u. fst u \<noteq> ''root'') (sh_passwd api) = Some pw" and "snd pw \<noteq> 0"
  shows "ch_name ch ''posixtest_32-1'' = EOK \<Longrightarrow> hv_names (view w) ''posixtest_32-1'' = None \<Longrightarrow> shm_open_32_1 api w = PTS_PASS"
    "ch_name ch ''posixtest_34-1'' = EOK \<Longrightarrow> hv_names (view w) ''posixtest_34-1'' = None \<Longrightarrow> shm_open_34_1 api w = PTS_PASS"
proof -
  have "(S_IRUSR AND NOT u) AND S_IWUSR = (S_IRUSR AND S_IWUSR) AND NOT u" for u by (simp only: ac_simps)
  then have "\<not> has (S_IRUSR AND NOT u) S_IWUSR" for u by (simp add: has_def flag_simps)
  then show "ch_name ch ''posixtest_32-1'' = EOK \<Longrightarrow> hv_names (view w) ''posixtest_32-1'' = None \<Longrightarrow> shm_open_32_1 api w = PTS_PASS"
    "ch_name ch ''posixtest_34-1'' = EOK \<Longrightarrow> hv_names (view w) ''posixtest_34-1'' = None \<Longrightarrow> shm_open_34_1 api w = PTS_PASS"
    unfolding shm_open_32_1_def shm_open_34_1_def using assms by (auto intro!: access_refusedI)
qed

text \<open>Programs of the superuser that change to another user and back.\<close>

lemma root_programs:
  assumes "2 \<le> hv_free (view w)" and "hv_uid (view w) = 0" and "hv_euid (view w) = 0"
    and "find (\<lambda>u. fst u \<noteq> ''root'' \<and> snd u \<noteq> 0) (sh_passwd api) = Some pw"
  shows "ch_name ch ''posixtest_26-2'' = EOK \<Longrightarrow> hv_names (view w) ''posixtest_26-2'' = None \<Longrightarrow> shm_open_26_2 api w = PTS_PASS"
    "ch_name ch ''posixtest_9-1'' = EOK \<Longrightarrow> hv_names (view w) ''posixtest_9-1'' = None \<Longrightarrow> shm_unlink_8_1 api w = PTS_PASS"
    "ch_name ch ''posixtest_9-1'' = EOK \<Longrightarrow> hv_names (view w) ''posixtest_9-1'' = None \<Longrightarrow> shm_unlink_9_1 api w = PTS_PASS"
proof -
  have "snd pw \<noteq> 0" using assms(4) by (auto simp: find_Some_iff)
  note s = assms this
  show "shm_unlink_9_1 api w = PTS_PASS" if "ch_name ch ''posixtest_9-1'' = EOK" "hv_names (view w) ''posixtest_9-1'' = None"
    unfolding shm_unlink_9_1_def Let_def using s that by (auto intro!: openI simp: run other_user_def restored_def)
  show "shm_unlink_8_1 api w = PTS_PASS" if "ch_name ch ''posixtest_9-1'' = EOK" "hv_names (view w) ''posixtest_9-1'' = None"
    unfolding shm_unlink_8_1_def Let_def using s that by (auto intro!: openI simp: run other_user_def restored_def)
  show "shm_open_26_2 api w = PTS_PASS" if "ch_name ch ''posixtest_26-2'' = EOK" "hv_names (view w) ''posixtest_26-2'' = None"
    unfolding shm_open_26_2_def Let_def using s that
    by (auto intro!: openI simp: run other_user_def restored_def open_ref spec_open_def new_fd_def)
qed

section \<open>Stores that are lost\<close>

abbreviation lost :: "('w, 'z) shm_api_scheme" where
  "lost \<equiv> api\<lparr>sh_strcpy := \<lambda>a s w. w\<rparr>"

lemma lost_steps [simp]: "with_open lost = with_open api" "with_reopen lost = with_reopen api" "with_size lost = with_size api" "with_map lost = with_map api"
  "unlinking lost = unlinking api"
  by (simp_all add: fun_eq_iff split_def Let_def with_open_def with_reopen_def with_size_def with_map_def unlinking_def)

lemma zeros [simp]: "c_string (resize n []) \<noteq> str"
  by (cases n) (simp_all add: c_string_def resize_def str_def)

lemma lost_noticed:
  assumes "2 \<le> hv_free (view w)" and "hv_umask (view w) AND RW_USER = 0"
  shows "hv_names (view w) ''posixtest_1-1'' = None \<Longrightarrow> ch_name ch ''posixtest_1-1'' = EOK \<Longrightarrow> shm_open_1_1 lost w = PTS_FAIL"
    "hv_names (view w) ''posixtest_14-2'' = None \<Longrightarrow> ch_name ch ''posixtest_14-2'' = EOK \<Longrightarrow> shm_open_14_2 lost w = PTS_FAIL"
    "hv_names (view w) ''posixtest_28-2'' = None \<Longrightarrow> ch_name ch ''posixtest_28-2'' = EOK \<Longrightarrow> shm_open_28_2 lost w = PTS_FAIL"
    "hv_names (view w) ''posixtest_3-1'' = None \<Longrightarrow> ch_name ch ''posixtest_3-1'' = EOK \<Longrightarrow> shm_unlink_3_1 lost w = PTS_PASS"
proof -
  note s = assms unmasked [OF assms(2)]
  show "shm_open_1_1 lost w = PTS_FAIL" if "hv_names (view w) ''posixtest_1-1'' = None" "ch_name ch ''posixtest_1-1'' = EOK"
    unfolding shm_open_1_1_def Let_def using s that by (auto intro!: openI mapI simp: run)
  show "shm_open_14_2 lost w = PTS_FAIL" if "hv_names (view w) ''posixtest_14-2'' = None" "ch_name ch ''posixtest_14-2'' = EOK"
    unfolding shm_open_14_2_def Let_def using s that by (auto intro!: openI simp: run mmap spec_mmap_def)
  show "shm_open_28_2 lost w = PTS_FAIL" if "hv_names (view w) ''posixtest_28-2'' = None" "ch_name ch ''posixtest_28-2'' = EOK"
    unfolding shm_open_28_2_def Let_def using s that by (auto intro!: openI mapI simp: run)
  show "shm_unlink_3_1 lost w = PTS_PASS" if "hv_names (view w) ''posixtest_3-1'' = None" "ch_name ch ''posixtest_3-1'' = EOK"
    unfolding shm_unlink_3_1_def Let_def using s that by (auto intro!: openI simp: run mmap spec_mmap_def)
qed

end

section \<open>A system that keeps the contract\<close>

text \<open>The machine itself, with sixteen descriptors and addresses of eight bytes.\<close>

definition ref_choice :: shm_choice where
  "ref_choice = \<lparr>ch_nfd = 16,
     ch_fd = (\<lambda>v. case find (\<lambda>d. hv_fd v d = None) [0..15] of None \<Rightarrow> 0 | Some d \<Rightarrow> d),
     ch_addr = (\<lambda>v. case find (\<lambda>a. hv_map v a = None) [8, 16, 24, 32] of None \<Rightarrow> 40 | Some a \<Rightarrow> a),
     ch_name = (\<lambda>name. if 255 < length name then ENAMETOOLONG else if name \<in> {''..'', ''/'', ''//''} then EINVAL else EOK),
     ch_trunc = EINVAL\<rparr>"

definition ref_shm :: "hview shm_api" where
  "ref_shm = \<lparr>sh_errno = hv_errno, sh_open = spec_open ref_choice, sh_unlink = spec_unlink ref_choice, sh_ftruncate = spec_ftruncate ref_choice,
     sh_mmap = (\<lambda>sz prot fd v. spec_mmap ref_choice prot fd v),
     sh_munmap = (\<lambda>a sz v. (0, v\<lparr>hv_map := (hv_map v)(a := None)\<rparr>)),
     sh_close = spec_close,
     sh_fstat = (\<lambda>fd v. case hv_fd v fd of None \<Rightarrow> ((- 1, \<lparr>st_mode = 0, st_uid = 0, st_gid = 0, st_size = 0\<rparr>), v\<lparr>hv_errno := EBADF\<rparr>)
        | Some (n, wr) \<Rightarrow> ((0, obj_stat (hv_obj v n)), v)),
     sh_getfd = (\<lambda>fd v. if hv_fd v fd = None then (None, v\<lparr>hv_errno := EBADF\<rparr>) else (Some FD_CLOEXEC, v)),
     sh_strcpy = (\<lambda>a s v. case hv_map v a of None \<Rightarrow> v
        | Some n \<Rightarrow> v\<lparr>hv_obj := (hv_obj v)(n := (hv_obj v n)\<lparr>ob_data := overwrite s (ob_data (hv_obj v n))\<rparr>)\<rparr>),
     sh_string = (\<lambda>a v. case hv_map v a of None \<Rightarrow> [] | Some n \<Rightarrow> c_string (ob_data (hv_obj v n))),
     sh_mkstemp = (\<lambda>v. if hv_free v = 0 then fails EMFILE v
        else (ch_fd ref_choice v, snd (new_fd ref_choice (hv_next v) True (v\<lparr>hv_next := hv_next v + 1\<rparr>)))),
     sh_unlink_file = (\<lambda>v. (0, v)),
     sh_umask = (\<lambda>m v. (hv_umask v, v\<lparr>hv_umask := m\<rparr>)),
     sh_getuid = hv_uid, sh_geteuid = hv_euid, sh_getegid = hv_egid,
     sh_seteuid = (\<lambda>u v. if hv_euid v = 0 \<or> u = hv_uid v then (0, v\<lparr>hv_euid := u\<rparr>) else fails EPERM v),
     sh_passwd = [(''root'', 0), (''daemon'', 1)], sh_name_max = 255, sh_path_max = 4096\<rparr>"

lemma find_first:
  assumes "find P [0..k] = Some d" and "0 \<le> i" and "i < d" and "0 \<le> (k :: int)"
  shows "\<not> P i"
proof -
  obtain j where j: "j < length [0..k]" "[0..k] ! j = d" "\<And>m. m < j \<Longrightarrow> \<not> P ([0..k] ! m)" using assms(1) by (auto simp: find_Some_iff)
  then have "[0..k] ! nat i = i" "nat i < j" using assms(2-4) by (auto simp: nth_upto)
  then show ?thesis using j(3) [of "nat i"] by simp
qed

lemma ref_fd:
  assumes "consistent ref_choice v" and "0 < hv_free v"
  shows "hv_fd v (ch_fd ref_choice v) = None \<and> ch_fd ref_choice v < 16" "0 \<le> i \<Longrightarrow> i < ch_fd ref_choice v \<Longrightarrow> hv_fd v i \<noteq> None"
proof -
  have "{d \<in> {0..<16}. hv_fd v d = None} \<noteq> {}" using assms by (auto simp: consistent_def ref_choice_def card_gt_0_iff)
  then obtain e where "e \<in> {0..<16}" "hv_fd v e = None" by blast
  then have "\<exists>d\<in>set [0..15]. hv_fd v d = None" by (intro bexI [of _ e]) auto
  then obtain d where d: "find (\<lambda>d. hv_fd v d = None) [0..15] = Some d" by (metis (mono_tags, lifting) find_None_iff not_None_eq)
  then have e: "ch_fd ref_choice v = d" by (simp add: ref_choice_def)
  then show "hv_fd v (ch_fd ref_choice v) = None \<and> ch_fd ref_choice v < 16" using d by (auto simp: find_Some_iff nth_upto)
  show "hv_fd v i \<noteq> None" if "0 \<le> i" "i < ch_fd ref_choice v" using find_first [OF d] that e by auto
qed

lemma ref_chosen: "0 \<le> ch_fd ref_choice v" "0 \<le> ch_addr ref_choice v"
  by (auto simp: ref_choice_def find_Some_iff nth_upto split: option.splits)

lemma ref_long: "ch_name ref_choice (long_component 255) = ENAMETOOLONG" "ch_name ref_choice (long_path 4096) = ENAMETOOLONG"
  by (simp_all add: ref_choice_def long_component_def long_path_def)

lemma ref_nfd: "ch_nfd ref_choice = 16"
  by (simp add: ref_choice_def)

interpretation rh: shm_system ref_shm "\<lambda>v. v" ref_choice
proof (unfold_locales, goal_cases)
qed (auto simp: ref_shm_def ref_chosen ref_long ref_fd ref_nfd has_def flag_simps)

section \<open>Verdicts of the programs\<close>

text \<open>The names the programs use.\<close>

definition shm_names :: "string list" where
  "shm_names = [''posixtest_1-1'', ''posixtest_2-1'', ''posixtest_3-1'', ''posixtest_5-1'', ''posixtest_6-1'', ''posixtest_9-1'', ''posixtest_11-1'', ''posixtest_13-1'', ''posixtest_14-2'', ''posixtest_15-1'', ''posixtest_16-1'', ''posixtest_17-1'', ''posixtest_18-1'', ''posixtest_20-1'', ''posixtest_20-2'', ''posixtest_20-3'', ''posixtest_21-1'', ''posixtest_22-1'', ''posixtest_25-1'', ''posixtest_26-1'', ''posixtest_26-2'', ''posixtest_28-1'', ''posixtest_28-2'', ''posixtest_28-3'', ''posixtest_32-1'', ''posixtest_34-1'', ''posixtest_38-1'', ''posixtest_41-1'', ''posixtest_8-1'']"

lemma removable_none: "hv_names v n = None \<Longrightarrow> removable v n"
  by (simp add: removable_def)

definition ref_view0 :: "int \<Rightarrow> hview" where
  "ref_view0 uid = \<lparr>hv_errno = EOK, hv_names = (\<lambda>_. None), hv_obj = (\<lambda>_. \<lparr>ob_mode = 0, ob_uid = 0, ob_gid = 0, ob_data = []\<rparr>), hv_next = 0,
     hv_fd = [0 \<mapsto> (0, True), 1 \<mapsto> (0, True), 2 \<mapsto> (0, True)], hv_free = 13, hv_map = (\<lambda>_. None), hv_uid = uid, hv_euid = uid, hv_egid = uid,
     hv_umask = S_IWGRP OR S_IWOTH\<rparr>"

lemma ref_view0_facts:
  "2 \<le> hv_free (ref_view0 u)" "hv_umask (ref_view0 u) AND RW_USER = 0"
  "\<forall>n\<in>set shm_names. ch_name ref_choice n = EOK \<and> hv_names (ref_view0 u) n = None"
  by (simp_all add: ref_view0_def ref_choice_def shm_names_def flag_simps RW_USER_def)




text \<open>What three programs take for granted. \<^verbatim>\<open>8-1.c\<close> passes exactly when the descriptor after the lowest free one is free too; \<^verbatim>\<open>13-1.c\<close> and \<^verbatim>\<open>20-1.c\<close> pass exactly where
  \<^verbatim>\<open>ftruncate\<close> refuses a descriptor that is open for reading with \<^verbatim>\<open>EINVAL\<close> and not with \<^verbatim>\<open>EBADF\<close>.\<close>

theorem shm_programs_depend:
  assumes "shm_system api view ch" and "2 \<le> hv_free (view w)" and "consistent ch (view w)"
    and "\<forall>n\<in>set shm_names. ch_name ch n = EOK \<and> hv_names (view w) n = None"
  shows "shm_open_8_1 api w = (if hv_fd (view w) (ch_fd ch (view w) + 1) = None then PTS_PASS else PTS_FAIL)
      \<and> shm_open_13_1 api w = (if ch_trunc ch = EINVAL then PTS_PASS else PTS_FAIL)
      \<and> shm_open_20_1 api w = (if ch_trunc ch = EINVAL then PTS_PASS else PTS_FAIL)"
proof -
  have n: "\<And>n. n \<in> set shm_names \<Longrightarrow> ch_name ch n = EOK \<and> hv_names (view w) n = None \<and> removable (view w) n"
    using assms(4) by (auto intro: removable_none)
  have f: "0 < hv_free (view w)" using assms(2) by auto
  show ?thesis
    by (simp add: shm_system.lowest_program [OF assms(1,3,2)] shm_system.descriptor_programs(2) [OF assms(1) f] shm_system.clean_programs(2) [OF assms(1) f]
      n shm_names_def)
qed

theorem shm_programs_depend_witness:
  "shm_open_8_1 ref_shm (ref_view0 5) = PTS_PASS \<and> shm_open_13_1 ref_shm (ref_view0 5) = PTS_PASS"
proof -
  have "[0..15] = [0, 1, 2, 3, 4, 5, 6, 7, 8, 9, 10, 11, 12, 13, 14, 15 :: int]" by (simp add: upto.simps)
  then have d: "ch_fd ref_choice (ref_view0 5) = 3" "ch_trunc ref_choice = EINVAL" by (simp_all add: ref_choice_def ref_view0_def)
  have "{d \<in> {0..<16}. hv_fd (ref_view0 5) d = None} = {3..<16}" by (auto simp: ref_view0_def split: if_splits)
  then have "consistent ref_choice (ref_view0 5)" by (simp add: consistent_def ref_nfd) (simp add: ref_view0_def)
  then show ?thesis
    using shm_programs_depend [OF rh.shm_system_axioms ref_view0_facts(1), OF _ ref_view0_facts(3), of 5] d
    by (simp add: ref_view0_def)
qed

text \<open>The programs with other users: an ordinary user is refused the objects whose mode does not allow the access, also the one who made them, and the
  superuser who becomes another user cannot unlink an object of his own but may open one that everyone may; the owner of an object stays the same.\<close>

theorem shm_user_programs:
  assumes "shm_system api view ch" and "2 \<le> hv_free (view w)" and "hv_uid (view w) = 0 \<longleftrightarrow> hv_euid (view w) = 0"
    and "find (\<lambda>u. fst u \<noteq> ''root'') (sh_passwd api) = Some pw" and "snd pw \<noteq> 0"
    and "\<forall>n\<in>set shm_names. ch_name ch n = EOK \<and> hv_names (view w) n = None"
  shows "shm_open_32_1 api w = PTS_PASS \<and> shm_open_34_1 api w = PTS_PASS
      \<and> (hv_uid (view w) \<noteq> 0 \<or> shm_open_26_2 api w = PTS_PASS \<and> shm_unlink_8_1 api w = PTS_PASS \<and> shm_unlink_9_1 api w = PTS_PASS)"
proof -
  have "pw \<in> set (sh_passwd api)" "fst pw \<noteq> ''root''" using assms(4) by (auto simp: find_Some_iff)
  then have "find (\<lambda>u. fst u \<noteq> ''root'' \<and> snd u \<noteq> 0) (sh_passwd api) \<noteq> None" using assms(5) unfolding find_None_iff by blast
  then obtain pw' where "find (\<lambda>u. fst u \<noteq> ''root'' \<and> snd u \<noteq> 0) (sh_passwd api) = Some pw'" by blast
  note r = shm_system.root_programs [OF assms(1,2) _ _ this]
  have n: "\<And>n. n \<in> set shm_names \<Longrightarrow> ch_name ch n = EOK \<and> hv_names (view w) n = None" using assms(6) by blast
  show ?thesis
  proof (cases "hv_uid (view w) = 0")
    case True
    then show ?thesis using assms(3) by (simp add: shm_system.user_programs [OF assms(1-5)] r n shm_names_def)
  next
    case False
    then show ?thesis by (simp add: shm_system.user_programs [OF assms(1-5)] n shm_names_def)
  qed
qed

theorem shm_user_programs_witness:
  "shm_open_32_1 ref_shm (ref_view0 5) = PTS_PASS \<and> shm_unlink_8_1 ref_shm (ref_view0 0) = PTS_PASS \<and> shm_open_26_2 ref_shm (ref_view0 0) = PTS_PASS"
proof -
  have u: "hv_uid (ref_view0 u) = u" "hv_euid (ref_view0 u) = u" "sh_passwd ref_shm = [(''root'', 0), (''daemon'', 1)]" for u
    by (simp_all add: ref_view0_def ref_shm_def)
  show ?thesis
    using shm_user_programs [OF rh.shm_system_axioms ref_view0_facts(1), OF _ _ _ ref_view0_facts(3), of 5 "(''daemon'', 1)"]
      shm_user_programs [OF rh.shm_system_axioms ref_view0_facts(1), OF _ _ _ ref_view0_facts(3), of 0 "(''daemon'', 1)"] by (simp add: u)
qed

text \<open>The program that opens an object until the system refuses ends and passes: with more turns than there are free descriptors the loop returns, with \<^verbatim>\<open>EMFILE\<close>.\<close>

theorem shm_exhaust_program:
  assumes "shm_system api view ch" and "0 < hv_free (view w)" and "hv_free (view w) < n" and "hv_umask (view w) AND RW_USER = 0"
    and "\<forall>n\<in>set shm_names. ch_name ch n = EOK \<and> hv_names (view w) n = None"
  shows "shm_open_38_1 n api w = Ret PTS_PASS"
  using assms(5) by (intro shm_system.exhaust_program [OF assms(1,3,2) _ _ assms(4)]) (auto simp: shm_names_def)

theorem shm_exhaust_program_witness: "shm_open_38_1 14 ref_shm (ref_view0 5) = Ret PTS_PASS"
  by (rule shm_exhaust_program [OF rh.shm_system_axioms _ _ ref_view0_facts(2,3)]) (simp_all add: ref_view0_def)

text \<open>Names of unusual characters: the program passes when each of them is accepted or refused with \<^verbatim>\<open>EINVAL\<close>.\<close>

theorem shm_odd_names_program:
  assumes "shm_system api view ch" and "6 \<le> hv_free (view w)" and "\<forall>n\<in>set (odd_names high). ch_name ch n \<in> {EOK, EINVAL} \<and> hv_names (view w) n = None"
  shows "shm_open_37_1 high api w = PTS_PASS"
  unfolding shm_open_37_1_def using assms(2,3) by (intro shm_system.try_names_pass [OF assms(1)]) (auto simp: odd_names_def)

theorem shm_odd_names_program_witness: "shm_open_37_1 ''x'' ref_shm (ref_view0 5) = PTS_PASS"
  by (rule shm_odd_names_program [OF rh.shm_system_axioms]) (simp_all add: ref_view0_def ref_choice_def odd_names_def)

text \<open>When the stores into a mapping are lost, the programs that read a string back fail; mapping an unlinked object without looking at it still passes.\<close>

theorem shm_lost_stores:
  assumes "shm_system api view ch" and "2 \<le> hv_free (view w)" and "hv_umask (view w) AND RW_USER = 0"
    and "\<forall>n\<in>set shm_names. ch_name ch n = EOK \<and> hv_names (view w) n = None"
  shows "shm_open_1_1 (api\<lparr>sh_strcpy := \<lambda>a s w. w\<rparr>) w = PTS_FAIL \<and> shm_open_14_2 (api\<lparr>sh_strcpy := \<lambda>a s w. w\<rparr>) w = PTS_FAIL
      \<and> shm_open_28_2 (api\<lparr>sh_strcpy := \<lambda>a s w. w\<rparr>) w = PTS_FAIL \<and> shm_unlink_3_1 (api\<lparr>sh_strcpy := \<lambda>a s w. w\<rparr>) w = PTS_PASS"
  using assms(4) shm_system.lost_noticed [OF assms(1-3)] by (simp add: shm_names_def)

theorem shm_lost_stores_witness: "shm_open_28_2 (ref_shm\<lparr>sh_strcpy := \<lambda>a s w. w\<rparr>) (ref_view0 5) = PTS_FAIL"
  using shm_lost_stores [OF rh.shm_system_axioms ref_view0_facts, of 5] by blast

end
