(* ===== verification/Shm_Posix1b.thy ===== *)
theory Shm_Posix1b
  imports Shm_Props Posix_Mman
begin

text \<open>
  The programs of \<open>Shm_Tests\<close> that only create, open, close and unlink objects, run on \<^verbatim>\<open>posix1b/posix_mman.c\<close>: the two functions of \<open>Posix_Mman\<close> take the place of
  the calls under test, over a file system with the laws of \<open>file_names\<close>. The rest of the calls, \<open>base\<close>, is the system's and is not used by them.
\<close>

section \<open>The file system\<close>

text \<open>Files as the set \<open>fs k\<close> of the names that exist. The laws speak of the names that the process may use (\<open>may\<close>: the directory exists and it may
  write there), of creating a file while a descriptor is free, and of closing a descriptor that is open.\<close>

locale file_names =
  fixes os :: "('k, 'z) sem_os_scheme" and fs :: "'k \<Rightarrow> string set" and may :: "string \<Rightarrow> bool" and open_fds :: "'k \<Rightarrow> int set" and free_fds :: "'k \<Rightarrow> nat"
  assumes create: "may name \<Longrightarrow> name \<notin> fs k \<Longrightarrow> has flg O_CREAT \<Longrightarrow> 0 < free_fds k \<Longrightarrow>
      \<exists>fd k'. os_open os name flg mode k = (Inr fd, k') \<and> 0 \<le> fd \<and> fs k' = insert name (fs k) \<and> fd \<in> open_fds k' \<and> free_fds k \<le> free_fds k' + 1"
    and missing: "may name \<Longrightarrow> name \<notin> fs k \<Longrightarrow> \<not> has flg O_CREAT \<Longrightarrow> \<exists>k'. os_open os name flg mode k = (Inl ENOENT, k') \<and> fs k' = fs k"
    and exclusive: "may name \<Longrightarrow> name \<in> fs k \<Longrightarrow> has flg O_CREAT \<Longrightarrow> has flg O_EXCL \<Longrightarrow>
      \<exists>k'. os_open os name flg mode k = (Inl EEXIST, k') \<and> fs k' = fs k"
    and remove: "may name \<Longrightarrow> name \<in> fs k \<Longrightarrow> \<exists>k'. os_unlink os name k = (Inr 0, k') \<and> fs k' = fs k - {name} \<and> free_fds k \<le> free_fds k'"
    and absent: "may name \<Longrightarrow> name \<notin> fs k \<Longrightarrow> \<exists>k'. os_unlink os name k = (Inl ENOENT, k') \<and> fs k' = fs k"
    and close: "fd \<in> open_fds k \<Longrightarrow> \<exists>k'. os_close os fd k = (Inr 0, k') \<and> fs k' = fs k"
begin

text \<open>The functions of \<^verbatim>\<open>posix_mman.c\<close>.\<close>

lemma shm_open_creates: "may name \<Longrightarrow> name \<notin> fs k \<Longrightarrow> has flg O_CREAT \<Longrightarrow> 0 < free_fds k \<Longrightarrow>
    \<exists>fd k'. shm_open os name flg mode k = (Inr fd, k') \<and> 0 \<le> fd \<and> fs k' = insert name (fs k) \<and> fd \<in> open_fds k' \<and> free_fds k \<le> free_fds k' + 1"
  using create by (simp add: shm_open_def)

lemma shm_open_fails:
  "may name \<Longrightarrow> name \<notin> fs k \<Longrightarrow> \<not> has flg O_CREAT \<Longrightarrow> \<exists>k'. shm_open os name flg mode k = (Inl ENOENT, k') \<and> fs k' = fs k"
  "may name \<Longrightarrow> name \<in> fs k \<Longrightarrow> has flg O_CREAT \<Longrightarrow> has flg O_EXCL \<Longrightarrow> \<exists>k'. shm_open os name flg mode k = (Inl EEXIST, k') \<and> fs k' = fs k"
  using missing exclusive by (simp_all add: shm_open_def)

lemma shm_unlink_effect:
  "may name \<Longrightarrow> name \<in> fs k \<Longrightarrow> \<exists>k'. shm_unlink os name k = (Inr 0, k') \<and> fs k' = fs k - {name} \<and> free_fds k \<le> free_fds k'"
  "may name \<Longrightarrow> name \<notin> fs k \<Longrightarrow> \<exists>k'. shm_unlink os name k = (Inl ENOENT, k') \<and> fs k' = fs k"
  using remove absent by (simp_all add: shm_unlink_def)

end

text \<open>The result of a call in C: -1 and \<^verbatim>\<open>errno\<close> for an error.\<close>

definition c_result :: "(errno + int) \<times> 'k \<Rightarrow> errno \<Rightarrow> int \<times> 'k \<times> errno" where
  "c_result r e = (case fst r of Inl e' \<Rightarrow> (- 1, snd r, e') | Inr n \<Rightarrow> (n, snd r, e))"

definition mman_api :: "('k, 'z) sem_os_scheme \<Rightarrow> ('k \<times> errno) shm_api \<Rightarrow> ('k \<times> errno) shm_api" where
  "mman_api os base = base\<lparr>sh_errno := snd,
     sh_open := (\<lambda>name oflag mode w. c_result (shm_open os name oflag (uint mode) (fst w)) (snd w)),
     sh_unlink := (\<lambda>name w. c_result (shm_unlink os name (fst w)) (snd w)),
     sh_close := (\<lambda>fd w. c_result (os_close os fd (fst w)) (snd w))\<rparr>"

lemma mman_sel [simp]:
  "sh_errno (mman_api os base) w = snd w"
  "sh_open (mman_api os base) name oflag mode w = c_result (shm_open os name oflag (uint mode) (fst w)) (snd w)"
  "sh_unlink (mman_api os base) name w = c_result (shm_unlink os name (fst w)) (snd w)"
  "sh_close (mman_api os base) fd w = c_result (os_close os fd (fst w)) (snd w)"
  by (simp_all add: mman_api_def)

context file_names
begin

lemma openI:
  assumes "may name" and "name \<notin> fs k" and "0 < free_fds k" and "has oflag O_CREAT"
    and "\<And>fd k'. 0 \<le> fd \<Longrightarrow> fs k' = insert name (fs k) \<Longrightarrow> fd \<in> open_fds k' \<Longrightarrow> free_fds k \<le> free_fds k' + 1 \<Longrightarrow> c fd (k', e) = x"
  shows "with_open (mman_api os base) name oflag mode (k, e) c = x"
  using shm_open_creates [OF assms(1,2,4,3), of "uint mode"] assms(5) by (auto simp: with_open_def c_result_def)

lemma goneI:
  assumes "may name" and "name \<in> fs k"
  shows "gone (mman_api os base) name (k, e) = PTS_PASS"
proof -
  obtain k' where k': "shm_unlink os name k = (Inr 0, k')" "fs k' = fs k - {name}" using shm_unlink_effect(1) [OF assms] by blast
  obtain k2 where "shm_open os name O_RDONLY 0 k' = (Inl ENOENT, k2)" using shm_open_fails(1) [of name k' O_RDONLY 0] assms(1) k'(2) by auto
  then show ?thesis using k'(1) by (simp add: gone_def c_result_def)
qed

lemma mman_programs:
  "may ''posixtest_1-1'' \<Longrightarrow> 0 < free_fds k \<Longrightarrow> ''posixtest_1-1'' \<notin> fs k \<Longrightarrow> shm_unlink_1_1 (mman_api os base) (k, e) = PTS_PASS"
    "may ''posixtest_2-1'' \<Longrightarrow> 0 < free_fds k \<Longrightarrow> ''posixtest_2-1'' \<notin> fs k \<Longrightarrow> shm_unlink_2_1 (mman_api os base) (k, e) = PTS_PASS"
    "may ''posixtest_6-1'' \<Longrightarrow> 0 < free_fds k \<Longrightarrow> ''posixtest_6-1'' \<notin> fs k \<Longrightarrow> shm_unlink_6_1 (mman_api os base) (k, e) = PTS_PASS"
    "may ''posixtest_22-1'' \<Longrightarrow> 0 < free_fds k \<Longrightarrow> ''posixtest_22-1'' \<notin> fs k \<Longrightarrow> shm_open_22_1 (mman_api os base) (k, e) = PTS_PASS"
proof -
  show "shm_unlink_1_1 (mman_api os base) (k, e) = PTS_PASS" if "may ''posixtest_1-1''" "0 < free_fds k" "''posixtest_1-1'' \<notin> fs k"
    unfolding shm_unlink_1_1_def Let_def
  proof (rule openI)
    fix fd k'
    assume "fs k' = insert ''posixtest_1-1'' (fs k)" and "fd \<in> open_fds k'"
    moreover from this(2) obtain k2 where "os_close os fd k' = (Inr 0, k2)" "fs k2 = fs k'" using close by blast
    ultimately show "(case sh_close (mman_api os base) fd (k', e) of (r, w) \<Rightarrow> if r \<noteq> 0 then unlinking (mman_api os base) ''posixtest_1-1'' w PTS_UNRESOLVED
        else gone (mman_api os base) ''posixtest_1-1'' w) = PTS_PASS" using that(1) by (simp add: c_result_def goneI)
  qed (use that in auto)
  show "shm_unlink_2_1 (mman_api os base) (k, e) = PTS_PASS" if "may ''posixtest_2-1''" "0 < free_fds k" "''posixtest_2-1'' \<notin> fs k"
    unfolding shm_unlink_2_1_def using that by (auto intro!: openI goneI)
  show "shm_unlink_6_1 (mman_api os base) (k, e) = PTS_PASS" if "may ''posixtest_6-1''" "0 < free_fds k" "''posixtest_6-1'' \<notin> fs k"
    unfolding shm_unlink_6_1_def
  proof (rule openI)
    fix fd k'
    assume "fs k' = insert ''posixtest_6-1'' (fs k)"
    then obtain k2 where "shm_unlink os ''posixtest_6-1'' k' = (Inr 0, k2)" using shm_unlink_effect(1) [of "''posixtest_6-1''" k'] \<open>may ''posixtest_6-1''\<close> by auto
    then show "(let (r, w) = sh_unlink (mman_api os base) ''posixtest_6-1'' (k', e) in if r = 0 then PTS_PASS else PTS_FAIL) = PTS_PASS"
      by (simp add: c_result_def)
  qed (use that in auto)
  show "shm_open_22_1 (mman_api os base) (k, e) = PTS_PASS" if "may ''posixtest_22-1''" "0 < free_fds k" "''posixtest_22-1'' \<notin> fs k"
    unfolding shm_open_22_1_def Let_def
  proof (rule openI)
    fix fd k'
    assume "fs k' = insert ''posixtest_22-1'' (fs k)"
    then obtain k2 where "shm_open os ''posixtest_22-1'' (O_RDONLY OR O_CREAT OR O_EXCL) (uint RW_USER) k' = (Inl EEXIST, k2)"
      using shm_open_fails(2) [of "''posixtest_22-1''" k' "O_RDONLY OR O_CREAT OR O_EXCL" "uint RW_USER"] \<open>may ''posixtest_22-1''\<close> by auto
    then show "(case sh_open (mman_api os base) ''posixtest_22-1'' (O_RDONLY OR O_CREAT OR O_EXCL) RW_USER (k', e) of (fd, w) \<Rightarrow>
        if fd = - 1 \<and> sh_errno (mman_api os base) w = EEXIST then unlinking (mman_api os base) ''posixtest_22-1'' w PTS_PASS
        else if fd \<noteq> - 1 then unlinking (mman_api os base) ''posixtest_22-1'' w PTS_FAIL else unlinking (mman_api os base) ''posixtest_22-1'' w PTS_FAIL) = PTS_PASS"
      by (simp add: c_result_def unlinking_def split_def)
  qed (use that in auto)
qed

lemma unlinked:
  assumes "may name"
  obtains r k' e' where "sh_unlink (mman_api os base) name (k, e) = (r, k', e')" "fs k' = fs k - {name}" "r \<noteq> 0 \<Longrightarrow> e' = ENOENT"
proof (cases "name \<in> fs k")
  case True
  then obtain k' where "shm_unlink os name k = (Inr 0, k')" "fs k' = fs k - {name}" using shm_unlink_effect(1) [OF assms] by blast
  then show thesis using that [of 0 k' e] True by (simp add: c_result_def)
next
  case False
  then obtain k' where "shm_unlink os name k = (Inl ENOENT, k')" "fs k' = fs k" using shm_unlink_effect(2) [OF assms] by blast
  then show thesis using that [of "- 1" k' ENOENT] False by (simp add: c_result_def)
qed

lemma mman_clean_programs:
  assumes m: "may ''posixtest_11-1''" "may ''posixtest_41-1''"
  shows "shm_unlink_11_1 (mman_api os base) (k, e) = PTS_PASS" "shm_open_41_1 (mman_api os base) (k, e) = PTS_PASS"
proof -
  obtain r k' e' where u: "sh_unlink (mman_api os base) ''posixtest_11-1'' (k, e) = (r, k', e')" "fs k' = fs k - {''posixtest_11-1''}"
    by (rule unlinked [OF m(1), of base k e])
  then obtain k2 where k2: "shm_unlink os ''posixtest_11-1'' k' = (Inl ENOENT, k2)" using shm_unlink_effect(2) [OF m(1), of k'] by auto
  show "shm_unlink_11_1 (mman_api os base) (k, e) = PTS_PASS"
    unfolding shm_unlink_11_1_def Let_def u(1) using k2 by (simp add: c_result_def)
  obtain r1 k1 e1 where v: "sh_unlink (mman_api os base) ''posixtest_41-1'' (k, e) = (r1, k1, e1)" "fs k1 = fs k - {''posixtest_41-1''}" "r1 \<noteq> 0 \<Longrightarrow> e1 = ENOENT"
    using unlinked [OF m(2), of base k e] by metis
  then obtain k2 where k2: "shm_open os ''posixtest_41-1'' O_RDONLY (uint S_IRUSR) k1 = (Inl ENOENT, k2)"
    using shm_open_fails(1) [OF m(2), of k1 O_RDONLY "uint S_IRUSR"] by auto
  show "shm_open_41_1 (mman_api os base) (k, e) = PTS_PASS"
    unfolding shm_open_41_1_def Let_def cleaned_def v(1) using v(3) k2 by (auto simp: c_result_def)
qed

lemma mman_new_program:
  assumes "may ''posixtest_5-1''" and "2 \<le> free_fds k" and "''posixtest_5-1'' \<notin> fs k"
  shows "shm_unlink_5_1 (mman_api os base) (k, e) = PTS_PASS"
  unfolding shm_unlink_5_1_def Let_def
proof (rule openI)
  fix fd k'
  assume "fs k' = insert ''posixtest_5-1'' (fs k)" and "free_fds k \<le> free_fds k' + 1"
  then obtain k2 where k2: "shm_unlink os ''posixtest_5-1'' k' = (Inr 0, k2)" "''posixtest_5-1'' \<notin> fs k2" "0 < free_fds k2"
    using shm_unlink_effect(1) [OF assms(1), of k'] assms(2) by force
  obtain fd2 k3 where k3: "shm_open os ''posixtest_5-1'' (O_RDWR OR O_CREAT OR O_EXCL) (uint RW_USER) k2 = (Inr fd2, k3)" "0 \<le> fd2"
    using shm_open_creates [OF assms(1) k2(2) _ k2(3), of "O_RDWR OR O_CREAT OR O_EXCL" "uint RW_USER"] by auto
  show "(case sh_unlink (mman_api os base) ''posixtest_5-1'' (k', e) of (r, w) \<Rightarrow> if r \<noteq> 0 then PTS_UNRESOLVED
      else case sh_open (mman_api os base) ''posixtest_5-1'' (O_RDWR OR O_CREAT OR O_EXCL) RW_USER w of (fd, w) \<Rightarrow>
        if fd = - 1 \<and> sh_errno (mman_api os base) w = EEXIST then PTS_FAIL
        else if fd = - 1 then PTS_UNRESOLVED else unlinking (mman_api os base) ''posixtest_5-1'' w PTS_PASS) = PTS_PASS"
    using k2(1) k3 by (simp add: c_result_def unlinking_def split_def)
qed (use assms in auto)

end

interpretation ref_files: file_names "ref_sem_os r" "\<lambda>k. dom (kfiles k)" "\<lambda>name. True" "\<lambda>k. {3}" "\<lambda>k. 2" for r
  by unfold_locales (auto simp: ref_sem_os_def ref_open_def ref_unlink_def split: option.splits)

text \<open>C39. On \<^verbatim>\<open>posix1b/posix_mman.c\<close> over a file system with the laws \<open>file_names\<close>, seven programs on the existence of names pass: a new name is created, a second
  exclusive creation is refused, an unlinked name is gone and can be created again. The process may use the names of the programs, two descriptors are free, and five of the names
  do not exist at the start (the programs \<^verbatim>\<open>shm_unlink/11-1.c\<close> and \<^verbatim>\<open>shm_open/41-1.c\<close> first remove theirs).\<close>

theorem mman_passes:
  assumes "file_names os fs may open_fds free_fds" and "2 \<le> free_fds k" and "may ''posixtest_11-1''" and "may ''posixtest_41-1''"
    and "\<forall>n\<in>{''posixtest_1-1'', ''posixtest_2-1'', ''posixtest_5-1'', ''posixtest_6-1'', ''posixtest_22-1''}. may n \<and> n \<notin> fs k"
  shows "shm_open_22_1 (mman_api os base) (k, e) = PTS_PASS \<and> shm_open_41_1 (mman_api os base) (k, e) = PTS_PASS
    \<and> shm_unlink_1_1 (mman_api os base) (k, e) = PTS_PASS \<and> shm_unlink_2_1 (mman_api os base) (k, e) = PTS_PASS
    \<and> shm_unlink_5_1 (mman_api os base) (k, e) = PTS_PASS \<and> shm_unlink_6_1 (mman_api os base) (k, e) = PTS_PASS
    \<and> shm_unlink_11_1 (mman_api os base) (k, e) = PTS_PASS"
  using assms(2,5) by (simp add: file_names.mman_programs [OF assms(1)] file_names.mman_clean_programs [OF assms(1,3,4)] file_names.mman_new_program [OF assms(1)])

theorem mman_passes_witness:
  "shm_open_22_1 (mman_api (ref_sem_os True) undefined) (ref_sem_boot, EOK) = PTS_PASS"
  using mman_passes [OF ref_files.file_names_axioms, of ref_sem_boot True undefined EOK] by (simp add: ref_sem_boot_def)

end
