(* ===== verification/Pth_Machine.thy ===== *)
theory Pth_Machine
  imports Threads
begin

text \<open>
  A process of several threads over the functions of the thread library, as POSIX describes them. The statements of a program are labelled with their lines
  in the source file, a thread is at one of these lines, and a step is one statement of one thread: a call of the
  library, or an access to the variables of the process. Any thread that can act may act next. The clock counts microseconds and moves to the next
  moment that a thread waits for. There are two machines. In the first the calls take no time: the clock moves only when no thread can act. In the
  second, \<open>late\<close>, it may move at any time, so that a thread may act as late as you please. Cancellation, cleanup handlers, thread-specific
  data and signals to a thread or to the process are part of the state. Where POSIX leaves a choice (the thread that a signal of a condition
  wakes, the serial thread of a barrier, unlocking a lock of another thread, locking one's own spin lock) there is a successor for each. A list of variants changes the library:
  \<open>V_spurious\<close> allows one wait for a condition to return without a signal, \<open>V_release\<close> and \<open>V_refuse\<close> fix what unlocking a lock of another thread does, and the
  others, \<open>F_*\<close>, are deviations from what POSIX demands.
\<close>

section \<open>State\<close>

datatype variant =
    V_spurious | V_release | V_refuse
  | F_create | F_lock | F_nowake | F_onewake | F_relock | F_cancel | F_cleanup | F_join | F_once | F_barrier | F_destructor | F_timeout

text \<open>What a thread is doing in its statement: nothing yet; waiting with a deadline; waiting for a condition with a deadline (negative: none);
  released from a wait with a result; cancelled in a wait; waiting at a barrier; released from it as the serial thread; spinning for ever on a lock of its own; ended
  with a value; ended and joined or detached.\<close>

datatype pstat = Run | Asleep int | On_cond nat int | Back errno | Quit | On_barrier nat | Lead | Spins | Over int | Gone

record pthr =
  t_pc :: int
  t_stat :: pstat
  t_arg :: int
  t_loc :: "int list"
  t_ret :: "(int \<times> pstat) list"
  t_clean :: "(int \<times> int) list"
  t_end :: "int option"
  t_cancel :: bool
  t_async :: bool
  t_asked :: bool
  t_detached :: bool
  t_mask :: "int list"
  t_sig :: "int list"
  t_spec :: "int list"

datatype mkind = Normal | Errorcheck | Recursive

record pmutex =
  m_kind :: mkind
  m_owner :: "nat option"
  m_count :: nat

record psys =
  p_now :: int
  p_thr :: "pthr list"
  p_var :: "int list"
  p_mut :: "pmutex list"
  p_sem :: "int list"
  p_bar :: "nat list"
  p_spin :: "nat option list"
  p_spur :: nat
  p_once :: "int list"
  p_key :: "int list"
  p_hand :: "(int \<times> int) list"
  p_sig :: "int list"
  p_alarm :: "int option"
  p_exit :: "int option"

text \<open>What is done to the state in a step, and a statement: the states after it, none while it blocks.\<close>

type_synonym act = "variant list \<Rightarrow> nat \<Rightarrow> psys \<Rightarrow> psys"
type_synonym stmt = "variant list \<Rightarrow> nat \<Rightarrow> psys \<Rightarrow> psys list"

definition thr :: "psys \<Rightarrow> nat \<Rightarrow> pthr" where
  "thr s t = p_thr s ! t"

definition upd :: "nat \<Rightarrow> (pthr \<Rightarrow> pthr) \<Rightarrow> psys \<Rightarrow> psys" where
  "upd t f s = s\<lparr>p_thr := (p_thr s)[t := f (p_thr s ! t)]\<rparr>"

definition stat :: "psys \<Rightarrow> nat \<Rightarrow> pstat" where
  "stat s t = t_stat (p_thr s ! t)"

definition set_stat :: "pstat \<Rightarrow> nat \<Rightarrow> psys \<Rightarrow> psys" where
  "set_stat st t = upd t (\<lambda>h. h\<lparr>t_stat := st\<rparr>)"

definition new_thread :: "int \<Rightarrow> int \<Rightarrow> bool \<Rightarrow> int list \<Rightarrow> nat \<Rightarrow> pthr" where
  "new_thread l a d m k =
     \<lparr>t_pc = l, t_stat = Run, t_arg = a, t_loc = [0, 0], t_ret = [], t_clean = [], t_end = None, t_cancel = True, t_async = False,
      t_asked = False, t_detached = d, t_mask = m, t_sig = [], t_spec = replicate k 0\<rparr>"

section \<open>Control\<close>

definition goto :: "int \<Rightarrow> act" where
  "goto l F t = upd t (\<lambda>h. h\<lparr>t_pc := l, t_stat := Run\<rparr>)"

text \<open>\<^verbatim>\<open>exit\<close>, and \<^verbatim>\<open>return\<close> in \<^verbatim>\<open>main\<close>.\<close>

definition exits :: "int \<Rightarrow> act" where
  "exits c F t s = s\<lparr>p_exit := Some c\<rparr>"

text \<open>The end of a thread: the cleanup handlers, then the destructors of its specific values, then the thread is over.\<close>

definition destructor_of :: "psys \<Rightarrow> pthr \<Rightarrow> nat option" where
  "destructor_of s h = find (\<lambda>k. 0 < p_key s ! k \<and> t_spec h ! k \<noteq> 0) [0..<min (length (p_key s)) (length (t_spec h))]"

definition unwind :: act where
  "unwind F t s =
     (let h = thr s t in
      if t_clean h \<noteq> [] \<and> F_cleanup \<notin> set F
      then upd t (\<lambda>h. h\<lparr>t_pc := fst (hd (t_clean h)), t_arg := snd (hd (t_clean h)), t_clean := tl (t_clean h), t_stat := Run\<rparr>) s
      else case (if F_destructor \<in> set F then None else destructor_of s h) of
        Some k \<Rightarrow> upd t (\<lambda>h. h\<lparr>t_pc := p_key s ! k, t_arg := t_spec h ! k, t_spec := (t_spec h)[k := 0], t_clean := [], t_stat := Run\<rparr>) s
      | None \<Rightarrow> set_stat (if t_detached h then Gone else Over (the (t_end h))) t s)"

definition free_once :: "nat \<Rightarrow> psys \<Rightarrow> psys" where
  "free_once t s = s\<lparr>p_once := map (\<lambda>x. if x = int t + 1 then 0 else x) (p_once s)\<rparr>"

text \<open>\<^verbatim>\<open>pthread_exit\<close>, and \<^verbatim>\<open>return\<close> in the function of a thread.\<close>

definition ends :: "int \<Rightarrow> act" where
  "ends v F t s = unwind F t (upd t (\<lambda>h. h\<lparr>t_end := Some v, t_cancel := False, t_asked := False, t_ret := []\<rparr>) s)"

definition PTHREAD_CANCELED :: int where
  "PTHREAD_CANCELED = - 1"

definition cancelled :: act where
  "cancelled F t s = ends PTHREAD_CANCELED F t (free_once t s)"

text \<open>\<^verbatim>\<open>return\<close> in a handler or in a function called with \<open>calls\<close>. A call of \<^verbatim>\<open>sleep\<close> that a signal handler interrupted returns; other calls are
  resumed.\<close>

definition rets :: act where
  "rets F t s =
     (case t_ret (thr s t) of
        [] \<Rightarrow> unwind F t s
      | (l, st) # r \<Rightarrow> upd t (\<lambda>h. h\<lparr>t_pc := l, t_stat := (case st of Asleep d \<Rightarrow> Asleep (p_now s) | _ \<Rightarrow> st), t_ret := r\<rparr>) s)"

definition calls :: "int \<Rightarrow> int \<Rightarrow> act" where
  "calls l l' F t = upd t (\<lambda>h. h\<lparr>t_pc := l, t_stat := Run, t_ret := (l', Run) # t_ret h\<rparr>)"

text \<open>\<^verbatim>\<open>if (call != 0) exit(c);\<close>, and the same with the end of the thread.\<close>

definition chk :: "int \<Rightarrow> int \<Rightarrow> errno \<Rightarrow> act" where
  "chk c l rc = (if rc \<noteq> EOK then exits c else goto l)"

definition chk_ends :: "int \<Rightarrow> int \<Rightarrow> errno \<Rightarrow> act" where
  "chk_ends c l rc = (if rc \<noteq> EOK then ends c else goto l)"

definition go :: "int \<Rightarrow> errno \<Rightarrow> act" where
  "go l rc = goto l"

section \<open>Variables\<close>

definition asg :: "nat \<Rightarrow> (int list \<Rightarrow> int) \<Rightarrow> act \<Rightarrow> act" where
  "asg x e k F t s = k F t (s\<lparr>p_var := (p_var s)[x := e (p_var s)]\<rparr>)"

text \<open>An element of an array that starts at variable \<open>b\<close>, with the index in variable \<open>j\<close>; the argument of the thread or of the handler.\<close>

definition asg_at :: "nat \<Rightarrow> nat \<Rightarrow> (int list \<Rightarrow> int) \<Rightarrow> act \<Rightarrow> act" where
  "asg_at b j e k F t s = k F t (s\<lparr>p_var := (p_var s)[b + nat (p_var s ! j) := e (p_var s)]\<rparr>)"

definition asg_arg :: "nat \<Rightarrow> act \<Rightarrow> act" where
  "asg_arg x k F t s = k F t (s\<lparr>p_var := (p_var s)[x := t_arg (thr s t)]\<rparr>)"

definition asg_now :: "nat \<Rightarrow> act \<Rightarrow> act" where
  "asg_now x k F t s = k F t (s\<lparr>p_var := (p_var s)[x := p_now s]\<rparr>)"

definition loc_asg :: "nat \<Rightarrow> (int list \<Rightarrow> int list \<Rightarrow> int) \<Rightarrow> act \<Rightarrow> act" where
  "loc_asg x e k F t s = k F t (upd t (\<lambda>h. h\<lparr>t_loc := (t_loc h)[x := e (t_loc h) (p_var s)]\<rparr>) s)"

definition loc_now :: "nat \<Rightarrow> act \<Rightarrow> act" where
  "loc_now x k F t s = k F t (upd t (\<lambda>h. h\<lparr>t_loc := (t_loc h)[x := p_now s]\<rparr>) s)"

definition doing :: "act \<Rightarrow> stmt" where
  "doing k F t s = [k F t s]"

definition tst :: "(int list \<Rightarrow> bool) \<Rightarrow> act \<Rightarrow> act \<Rightarrow> stmt" where
  "tst b k k' F t s = [if b (p_var s) then k F t s else k' F t s]"

definition loc_tst :: "(int list \<Rightarrow> bool) \<Rightarrow> act \<Rightarrow> act \<Rightarrow> stmt" where
  "loc_tst b k k' F t s = [if b (t_loc (thr s t)) then k F t s else k' F t s]"

text \<open>A call that always succeeds and has no effect here (attribute objects).\<close>

definition ok_call :: "(errno \<Rightarrow> act) \<Rightarrow> stmt" where
  "ok_call k F t s = [k EOK F t s]"

text \<open>A call that may fail with the error \<open>e\<close>.\<close>

definition may_fail :: "errno \<Rightarrow> (errno \<Rightarrow> act) \<Rightarrow> stmt" where
  "may_fail e k F t s = [k EOK F t s, k e F t s]"

section \<open>Threads\<close>

text \<open>A new thread at line \<open>l\<close>, with an argument and detached when \<open>d\<close>; its identifier is stored in variable \<open>x\<close>.\<close>

definition pt_create_arg :: "nat \<Rightarrow> int \<Rightarrow> (int list \<Rightarrow> int) \<Rightarrow> bool \<Rightarrow> (errno \<Rightarrow> act) \<Rightarrow> stmt" where
  "pt_create_arg x l e d k F t s =
     (if F_create \<in> set F then [k EAGAIN F t s]
      else [k EOK F t (s\<lparr>p_thr := p_thr s @ [new_thread l (e (p_var s)) d (t_mask (thr s t)) (length (p_key s))],
                         p_var := (p_var s)[x := int (length (p_thr s))]\<rparr>)])"

definition pt_create :: "nat \<Rightarrow> int \<Rightarrow> (errno \<Rightarrow> act) \<Rightarrow> stmt" where
  "pt_create x l = pt_create_arg x l (\<lambda>v. 0) False"

text \<open>A cancellation point: the request is acted upon.\<close>

definition cancel_due :: "psys \<Rightarrow> nat \<Rightarrow> bool" where
  "cancel_due s t \<longleftrightarrow> t_asked (thr s t) \<and> t_cancel (thr s t)"

definition point :: "stmt \<Rightarrow> stmt" where
  "point f F t s = (if cancel_due s t then [cancelled F t s] else f F t s)"

definition tid_of :: "nat \<Rightarrow> psys \<Rightarrow> nat" where
  "tid_of x s = nat (p_var s ! x)"

text \<open>\<^verbatim>\<open>pthread_join\<close> of the thread whose identifier is in variable \<open>x\<close>; the continuation gets the result and the value of the thread.\<close>

definition pt_join_value :: "nat \<Rightarrow> (errno \<Rightarrow> int \<Rightarrow> act) \<Rightarrow> stmt" where
  "pt_join_value x k = point (\<lambda>F t s.
     let u = tid_of x s in
     if u = t then [k EDEADLK 0 F t s]
     else case stat s u of
       Gone \<Rightarrow> [k ESRCH 0 F t s]
     | Over v \<Rightarrow> [k EOK v F t (set_stat Gone u s)]
     | _ \<Rightarrow> if t_detached (thr s u) then [k EINVAL 0 F t s]
           else if F_join \<in> set F then [k EOK 0 F t s] else [])"

definition pt_join :: "nat \<Rightarrow> (errno \<Rightarrow> act) \<Rightarrow> stmt" where
  "pt_join x k = pt_join_value x (\<lambda>rc v. k rc)"

definition pt_detach :: "nat \<Rightarrow> (errno \<Rightarrow> act) \<Rightarrow> stmt" where
  "pt_detach x k F t s =
     (let u = tid_of x s in
      case stat s u of
        Gone \<Rightarrow> [k ESRCH F t s]
      | Over v \<Rightarrow> [k EOK F t (set_stat Gone u s)]
      | _ \<Rightarrow> if t_detached (thr s u) then [k EINVAL F t s] else [k EOK F t (upd u (\<lambda>h. h\<lparr>t_detached := True\<rparr>) s)])"

definition pt_self :: "nat \<Rightarrow> act \<Rightarrow> act" where
  "pt_self x k F t = asg x (\<lambda>v. int t) k F t"

section \<open>Cancellation\<close>

definition ask :: "nat \<Rightarrow> variant list \<Rightarrow> psys \<Rightarrow> psys" where
  "ask u F s = (if F_cancel \<in> set F then s else case stat s u of Gone \<Rightarrow> s | Over v \<Rightarrow> s | _ \<Rightarrow> upd u (\<lambda>h. h\<lparr>t_asked := True\<rparr>) s)"

definition pt_cancel :: "nat \<Rightarrow> (errno \<Rightarrow> act) \<Rightarrow> stmt" where
  "pt_cancel x k F t s = [if stat s (tid_of x s) = Gone then k ESRCH F t s else k EOK F t (ask (tid_of x s) F s)]"

definition pt_setcancelstate :: "bool \<Rightarrow> (errno \<Rightarrow> act) \<Rightarrow> stmt" where
  "pt_setcancelstate b k F t s = [k EOK F t (upd t (\<lambda>h. h\<lparr>t_cancel := b\<rparr>) s)]"

definition pt_setcanceltype :: "bool \<Rightarrow> (errno \<Rightarrow> act) \<Rightarrow> stmt" where
  "pt_setcanceltype b k F t s = [k EOK F t (upd t (\<lambda>h. h\<lparr>t_async := b\<rparr>) s)]"

definition pt_testcancel :: "act \<Rightarrow> stmt" where
  "pt_testcancel k = point (\<lambda>F t s. [k F t s])"

definition pt_push :: "int \<Rightarrow> int \<Rightarrow> act \<Rightarrow> stmt" where
  "pt_push l a k F t s = [k F t (upd t (\<lambda>h. h\<lparr>t_clean := (l, a) # t_clean h\<rparr>) s)]"

text \<open>\<^verbatim>\<open>pthread_cleanup_pop\<close>; with \<open>True\<close> the handler is called and returns to line \<open>l\<close>.\<close>

definition pt_pop :: "bool \<Rightarrow> int \<Rightarrow> stmt" where
  "pt_pop b l F t s =
     (let (h, a) = hd (t_clean (thr s t)); s = upd t (\<lambda>h. h\<lparr>t_clean := tl (t_clean h)\<rparr>) s in
      [if b \<and> F_cleanup \<notin> set F then calls h l F t (upd t (\<lambda>h. h\<lparr>t_arg := a\<rparr>) s) else goto l F t s])"

section \<open>Time\<close>

text \<open>\<^verbatim>\<open>sleep\<close>, \<^verbatim>\<open>usleep\<close> and \<^verbatim>\<open>nanosleep\<close>, in microseconds.\<close>

definition pt_sleep :: "int \<Rightarrow> act \<Rightarrow> stmt" where
  "pt_sleep n k = point (\<lambda>F t s.
     case stat s t of Asleep d \<Rightarrow> if d \<le> p_now s then [k F t s] else [] | _ \<Rightarrow> [set_stat (Asleep (p_now s + n)) t s])"

text \<open>\<^verbatim>\<open>while (b) sleep(n);\<close>\<close>

definition pt_poll :: "(int list \<Rightarrow> bool) \<Rightarrow> int \<Rightarrow> act \<Rightarrow> stmt" where
  "pt_poll b n k F t s =
     (case stat s t of
        Asleep d \<Rightarrow> if cancel_due s t then [cancelled F t s] else if d \<le> p_now s then [set_stat Run t s] else []
      | _ \<Rightarrow> if b (p_var s) then (if cancel_due s t then [cancelled F t s] else [set_stat (Asleep (p_now s + n)) t s]) else [k F t s])"

abbreviation secs :: "int \<Rightarrow> int" where
  "secs n \<equiv> n * 1000000"

section \<open>Mutexes\<close>

definition set_mut :: "nat \<Rightarrow> pmutex \<Rightarrow> psys \<Rightarrow> psys" where
  "set_mut m x s = s\<lparr>p_mut := (p_mut s)[m := x]\<rparr>"

definition take_mut :: "nat \<Rightarrow> nat \<Rightarrow> psys \<Rightarrow> psys" where
  "take_mut m t s = set_mut m ((p_mut s ! m)\<lparr>m_owner := Some t, m_count := 1\<rparr>) s"

definition drop_mut :: "nat \<Rightarrow> psys \<Rightarrow> psys" where
  "drop_mut m s = set_mut m ((p_mut s ! m)\<lparr>m_owner := None, m_count := 0\<rparr>) s"

definition is_free :: "nat \<Rightarrow> variant list \<Rightarrow> psys \<Rightarrow> bool" where
  "is_free m F s \<longleftrightarrow> m_owner (p_mut s ! m) = None \<or> F_lock \<in> set F"

definition pt_mutex_init :: "nat \<Rightarrow> mkind \<Rightarrow> (errno \<Rightarrow> act) \<Rightarrow> stmt" where
  "pt_mutex_init m kd k F t s = [k EOK F t (set_mut m \<lparr>m_kind = kd, m_owner = None, m_count = 0\<rparr> s)]"

definition pt_mutex_destroy :: "nat \<Rightarrow> (errno \<Rightarrow> act) \<Rightarrow> stmt" where
  "pt_mutex_destroy m k F t s = [k (if m_owner (p_mut s ! m) = None then EOK else EBUSY) F t s]"

definition pt_lock :: "nat \<Rightarrow> (errno \<Rightarrow> act) \<Rightarrow> stmt" where
  "pt_lock m k F t s =
     (let x = p_mut s ! m in
      if is_free m F s then [k EOK F t (take_mut m t s)]
      else if m_owner x = Some t \<and> m_kind x = Recursive then [k EOK F t (set_mut m (x\<lparr>m_count := Suc (m_count x)\<rparr>) s)]
      else if m_owner x = Some t \<and> m_kind x = Errorcheck then [k EDEADLK F t s] else [])"

definition pt_trylock :: "nat \<Rightarrow> (errno \<Rightarrow> act) \<Rightarrow> stmt" where
  "pt_trylock m k F t s =
     (let x = p_mut s ! m in
      if is_free m F s then [k EOK F t (take_mut m t s)]
      else if m_owner x = Some t \<and> m_kind x = Recursive then [k EOK F t (set_mut m (x\<lparr>m_count := Suc (m_count x)\<rparr>) s)]
      else [k EBUSY F t s])"

text \<open>\<^verbatim>\<open>pthread_mutex_timedlock\<close> with an absolute time, and whether its nanoseconds are valid.\<close>

definition pt_timedlock :: "nat \<Rightarrow> (psys \<Rightarrow> nat \<Rightarrow> int) \<Rightarrow> bool \<Rightarrow> (errno \<Rightarrow> act) \<Rightarrow> stmt" where
  "pt_timedlock m d valid k F t s =
     (case stat s t of
        Asleep e \<Rightarrow> if is_free m F s then [k EOK F t (take_mut m t s)]
                   else if e \<le> p_now s \<and> F_timeout \<notin> set F then [k ETIMEDOUT F t s] else []
      | _ \<Rightarrow> if is_free m F s then [k EOK F t (take_mut m t s)]
            else if \<not> valid then [k EINVAL F t s] else [set_stat (Asleep (d s t)) t s])"

text \<open>Unlocking a lock of another thread is undefined: it is released (\<open>x\<close>), or the call is refused (\<open>y\<close>), unless the variant excludes one of them.\<close>

definition foreign :: "variant list \<Rightarrow> psys \<Rightarrow> psys \<Rightarrow> psys list" where
  "foreign F x y = (if V_refuse \<in> set F then [] else [x]) @ (if V_release \<in> set F then [] else [y])"

definition pt_unlock :: "nat \<Rightarrow> (errno \<Rightarrow> act) \<Rightarrow> stmt" where
  "pt_unlock m k F t s =
     (let x = p_mut s ! m in
      if m_owner x = Some t
      then [k EOK F t (if m_count x \<le> 1 then drop_mut m s else set_mut m (x\<lparr>m_count := m_count x - 1\<rparr>) s)]
      else if m_kind x = Normal then foreign F (k EOK F t (drop_mut m s)) (k EPERM F t s) else [k EPERM F t s])"

section \<open>Conditions\<close>

text \<open>Waiting until the condition is signalled or the absolute time \<open>d\<close> is reached (negative: no limit). The mutex is taken again before the
  call returns, and before a cancelled thread ends.\<close>

definition pt_cond_until :: "nat \<Rightarrow> nat \<Rightarrow> (psys \<Rightarrow> nat \<Rightarrow> int) \<Rightarrow> (errno \<Rightarrow> act) \<Rightarrow> stmt" where
  "pt_cond_until c m d k F t s =
     (case stat s t of
        On_cond c' e \<Rightarrow>
          if cancel_due s t then [set_stat Quit t s]
          else if 0 \<le> e \<and> e \<le> p_now s \<and> F_timeout \<notin> set F then [set_stat (Back ETIMEDOUT) t s] else []
      | Back rc \<Rightarrow> if F_relock \<in> set F then [k rc F t s] else if is_free m F s then [k rc F t (take_mut m t s)] else []
      | Quit \<Rightarrow> if is_free m F s then [cancelled F t (take_mut m t s)] else []
      | _ \<Rightarrow> if cancel_due s t then [cancelled F t s] else [set_stat (On_cond c (d s t)) t (drop_mut m s)])"

definition pt_cond_wait :: "nat \<Rightarrow> nat \<Rightarrow> (errno \<Rightarrow> act) \<Rightarrow> stmt" where
  "pt_cond_wait c m = pt_cond_until c m (\<lambda>s t. - 1)"

definition waiting :: "nat \<Rightarrow> psys \<Rightarrow> nat list" where
  "waiting c s = filter (\<lambda>t. case stat s t of On_cond c' d \<Rightarrow> c' = c | _ \<Rightarrow> False) [0..<length (p_thr s)]"

definition wake_all :: "pstat \<Rightarrow> nat list \<Rightarrow> psys \<Rightarrow> psys" where
  "wake_all st us s = foldl (\<lambda>s u. set_stat st u s) s us"

definition pt_signal :: "nat \<Rightarrow> (errno \<Rightarrow> act) \<Rightarrow> stmt" where
  "pt_signal c k F t s =
     (if waiting c s = [] \<or> F_nowake \<in> set F then [k EOK F t s]
      else map (\<lambda>u. k EOK F t (set_stat (Back EOK) u s)) (waiting c s))"

definition pt_broadcast :: "nat \<Rightarrow> (errno \<Rightarrow> act) \<Rightarrow> stmt" where
  "pt_broadcast c k F t s =
     (if F_onewake \<in> set F then pt_signal c k F t s
      else [k EOK F t (if F_nowake \<in> set F then s else wake_all (Back EOK) (waiting c s) s)])"

section \<open>Semaphores, barriers, spin locks and initialisation\<close>

definition set_sem :: "nat \<Rightarrow> int \<Rightarrow> psys \<Rightarrow> psys" where
  "set_sem x v s = s\<lparr>p_sem := (p_sem s)[x := v]\<rparr>"

definition pt_sem_init :: "nat \<Rightarrow> int \<Rightarrow> (errno \<Rightarrow> act) \<Rightarrow> stmt" where
  "pt_sem_init x v k F t s = [k EOK F t (set_sem x v s)]"

definition pt_sem_post :: "nat \<Rightarrow> (errno \<Rightarrow> act) \<Rightarrow> stmt" where
  "pt_sem_post x k F t s = [k EOK F t (set_sem x (p_sem s ! x + 1) s)]"

definition pt_sem_wait :: "nat \<Rightarrow> (errno \<Rightarrow> act) \<Rightarrow> stmt" where
  "pt_sem_wait x k = point (\<lambda>F t s. if 0 < p_sem s ! x then [k EOK F t (set_sem x (p_sem s ! x - 1) s)] else [])"

text \<open>A thread that runs a signal handler still waits at the barrier where the signal found it.\<close>

definition at_barrier :: "nat \<Rightarrow> psys \<Rightarrow> nat list" where
  "at_barrier b s =
     filter (\<lambda>t. stat s t = On_barrier b \<or> list_ex (\<lambda>r. snd r = On_barrier b) (t_ret (thr s t))) [0..<length (p_thr s)]"

definition release :: "nat \<Rightarrow> pstat \<Rightarrow> psys \<Rightarrow> nat \<Rightarrow> psys" where
  "release b st s u =
     upd u (\<lambda>h. h\<lparr>t_stat := (if t_stat h = On_barrier b then st else t_stat h),
                 t_ret := map (\<lambda>(l, x). (l, if x = On_barrier b then st else x)) (t_ret h)\<rparr>) s"

text \<open>The number of threads of a barrier; 0 is refused. To initialise or to destroy a barrier while threads wait is undefined: it is refused, or done.\<close>

definition pt_barrier_init :: "nat \<Rightarrow> nat \<Rightarrow> (errno \<Rightarrow> act) \<Rightarrow> stmt" where
  "pt_barrier_init b n k F t s =
     (if n = 0 then [k EINVAL F t s]
      else k EOK F t (s\<lparr>p_bar := (p_bar s)[b := n]\<rparr>) # (if at_barrier b s = [] then [] else [k EBUSY F t s]))"

definition pt_barrier_destroy :: "nat \<Rightarrow> (errno \<Rightarrow> act) \<Rightarrow> stmt" where
  "pt_barrier_destroy b k F t s = k EOK F t s # (if at_barrier b s = [] then [] else [k EBUSY F t s])"

text \<open>The last thread releases the others; any of them may be the serial one.\<close>

definition pt_barrier_wait :: "nat \<Rightarrow> (bool \<Rightarrow> act) \<Rightarrow> stmt" where
  "pt_barrier_wait b k F t s =
     (case stat s t of
        On_barrier b' \<Rightarrow> if F_barrier \<in> set F then [k False F t s] else []
      | Back rc \<Rightarrow> [k False F t s]
      | Lead \<Rightarrow> [k True F t s]
      | _ \<Rightarrow> if length (at_barrier b s) + 1 < p_bar s ! b then [set_stat (On_barrier b) t s]
            else let W = at_barrier b s in
              k True F t (foldl (release b (Back EOK)) s W)
              # map (\<lambda>u. k False F t (foldl (release b (Back EOK)) (release b Lead s u) W)) W)"

text \<open>A thread that spins is blocked. A lock that it holds itself is refused, or it spins for ever. To initialise or to destroy a lock that is held is undefined: it is refused, or done.\<close>

definition pt_spin_init :: "nat \<Rightarrow> (errno \<Rightarrow> act) \<Rightarrow> stmt" where
  "pt_spin_init x k F t s = k EOK F t (s\<lparr>p_spin := (p_spin s)[x := None]\<rparr>) # (if p_spin s ! x = None then [] else [k EBUSY F t s])"

definition pt_spin_destroy :: "nat \<Rightarrow> (errno \<Rightarrow> act) \<Rightarrow> stmt" where
  "pt_spin_destroy x k F t s = k EOK F t s # (if p_spin s ! x = None then [] else [k EBUSY F t s])"

definition pt_spin_lock :: "nat \<Rightarrow> (errno \<Rightarrow> act) \<Rightarrow> stmt" where
  "pt_spin_lock x k F t s =
     (if p_spin s ! x = None \<or> F_lock \<in> set F then [k EOK F t (s\<lparr>p_spin := (p_spin s)[x := Some t]\<rparr>)]
      else if p_spin s ! x = Some t \<and> stat s t \<noteq> Spins then [k EDEADLK F t s, set_stat Spins t s] else [])"

definition pt_spin_trylock :: "nat \<Rightarrow> (errno \<Rightarrow> act) \<Rightarrow> stmt" where
  "pt_spin_trylock x k F t s =
     [if p_spin s ! x = None \<or> F_lock \<in> set F then k EOK F t (s\<lparr>p_spin := (p_spin s)[x := Some t]\<rparr>) else k EBUSY F t s]"

definition pt_spin_unlock :: "nat \<Rightarrow> (errno \<Rightarrow> act) \<Rightarrow> stmt" where
  "pt_spin_unlock x k F t s =
     (let free = s\<lparr>p_spin := (p_spin s)[x := None]\<rparr> in
      if p_spin s ! x = Some t then [k EOK F t free] else foreign F (k EOK F t free) (k EPERM F t s))"

text \<open>\<^verbatim>\<open>pthread_once\<close>: 0 for a control that is unused, \<open>t + 1\<close> while thread \<open>t\<close> runs the routine at line \<open>r\<close>, -1 afterwards. The routine returns to the
  statement, which then completes.\<close>

definition pt_once :: "nat \<Rightarrow> int \<Rightarrow> act \<Rightarrow> stmt" where
  "pt_once x r k F t s =
     (if p_once s ! x = int t + 1 then [k F t (s\<lparr>p_once := (p_once s)[x := - 1]\<rparr>)]
      else if p_once s ! x = 0 \<or> (F_once \<in> set F \<and> p_once s ! x = - 1)
      then [calls r (t_pc (thr s t)) F t (s\<lparr>p_once := (p_once s)[x := int t + 1]\<rparr>)]
      else if p_once s ! x = - 1 then [k F t s] else [])"

section \<open>Thread-specific data\<close>

text \<open>A new key with the destructor at line \<open>l\<close> (0: none) has the value 0 in every thread; a deleted key is -1. The key is stored in variable \<open>x\<close>.\<close>

definition pt_key_create :: "nat \<Rightarrow> int \<Rightarrow> (errno \<Rightarrow> act) \<Rightarrow> stmt" where
  "pt_key_create x l k F t s =
     [k EOK F t (s\<lparr>p_var := (p_var s)[x := int (length (p_key s))], p_key := p_key s @ [l], p_thr := map (\<lambda>h. h\<lparr>t_spec := t_spec h @ [0]\<rparr>) (p_thr s)\<rparr>)]"

definition pt_key_delete :: "nat \<Rightarrow> (errno \<Rightarrow> act) \<Rightarrow> stmt" where
  "pt_key_delete x k F t s = [if p_key s ! tid_of x s = - 1 then k EINVAL F t s else k EOK F t (s\<lparr>p_key := (p_key s)[tid_of x s := - 1]\<rparr>)]"

definition pt_setspecific :: "nat \<Rightarrow> (int list \<Rightarrow> int) \<Rightarrow> (errno \<Rightarrow> act) \<Rightarrow> stmt" where
  "pt_setspecific x e k F t s = [k EOK F t (upd t (\<lambda>h. h\<lparr>t_spec := (t_spec h)[tid_of x s := e (p_var s)]\<rparr>) s)]"

definition pt_getspecific :: "nat \<Rightarrow> (int \<Rightarrow> act) \<Rightarrow> stmt" where
  "pt_getspecific x k F t s = [k (t_spec (thr s t) ! tid_of x s) F t s]"

section \<open>Signals\<close>

abbreviation SIGALRM :: int where "SIGALRM \<equiv> 14"
abbreviation SIGUSR1 :: int where "SIGUSR1 \<equiv> 10"

definition pt_sigaction :: "int \<Rightarrow> int \<Rightarrow> act \<Rightarrow> stmt" where
  "pt_sigaction g l k F t s = [k F t (s\<lparr>p_hand := (g, l) # p_hand s\<rparr>)]"

definition pt_alarm :: "int \<Rightarrow> act \<Rightarrow> stmt" where
  "pt_alarm n k F t s = [k F t (s\<lparr>p_alarm := Some (p_now s + n)\<rparr>)]"

definition pt_kill :: "nat \<Rightarrow> int \<Rightarrow> (errno \<Rightarrow> act) \<Rightarrow> stmt" where
  "pt_kill x g k F t s =
     [if stat s (tid_of x s) = Gone then k ESRCH F t s else k EOK F t (upd (tid_of x s) (\<lambda>h. h\<lparr>t_sig := g # t_sig h\<rparr>) s)]"

definition pt_sigmask :: "int list \<Rightarrow> (errno \<Rightarrow> act) \<Rightarrow> stmt" where
  "pt_sigmask m k F t s = [k EOK F t (upd t (\<lambda>h. h\<lparr>t_mask := m\<rparr>) s)]"

text \<open>Delivery to a thread that does not block the signal: its handler is called, or the process is killed, which is the exit code \<open>- g\<close>.\<close>

definition handle :: "int \<Rightarrow> nat \<Rightarrow> psys \<Rightarrow> psys" where
  "handle g t s =
     (case map_of (p_hand s) g of
        None \<Rightarrow> s\<lparr>p_exit := Some (- g)\<rparr>
      | Some l \<Rightarrow> upd t (\<lambda>h. h\<lparr>t_pc := l, t_stat := Run, t_ret := (t_pc h, t_stat h) # t_ret h\<rparr>) s)"

definition alive :: "psys \<Rightarrow> nat \<Rightarrow> bool" where
  "alive s t = (case stat s t of Over v \<Rightarrow> False | Gone \<Rightarrow> False | _ \<Rightarrow> True)"

definition deliveries :: "psys \<Rightarrow> nat \<Rightarrow> psys list" where
  "deliveries s t =
     (if \<not> alive s t \<or> p_sig s = [] \<and> t_sig (thr s t) = [] then []
      else map (\<lambda>g. handle g t (upd t (\<lambda>h. h\<lparr>t_sig := remove1 g (t_sig h)\<rparr>) s)) (filter (\<lambda>g. g \<notin> set (t_mask (thr s t))) (remdups (t_sig (thr s t))))
         @ map (\<lambda>g. handle g t (s\<lparr>p_sig := remove1 g (p_sig s)\<rparr>)) (filter (\<lambda>g. g \<notin> set (t_mask (thr s t))) (remdups (p_sig s))))"

section \<open>Programs and their steps\<close>

text \<open>A program: the line at which \<^verbatim>\<open>main\<close> starts, the initial values of its variables, the kinds of its statically initialised mutexes, the
  numbers of semaphores, barriers, spin locks and controls of \<^verbatim>\<open>pthread_once\<close>, and its statements.\<close>

record pprog =
  g_main :: int
  g_var :: "int list"
  g_mut :: "mkind list"
  g_sem :: nat
  g_bar :: nat
  g_spin :: nat
  g_once :: nat
  g_code :: "(int \<times> stmt) list"

definition process :: "int \<Rightarrow> int list \<Rightarrow> mkind list \<Rightarrow> (int \<times> stmt) list \<Rightarrow> pprog" where
  "process l v m c = \<lparr>g_main = l, g_var = v, g_mut = m, g_sem = 0, g_bar = 0, g_spin = 0, g_once = 0, g_code = c\<rparr>"

text \<open>A call on the element of an array that starts at variable \<open>b\<close>, with the index in variable \<open>i\<close>.\<close>

definition idx :: "nat \<Rightarrow> nat \<Rightarrow> (nat \<Rightarrow> stmt) \<Rightarrow> stmt" where
  "idx b i f F t s = f (b + nat (p_var s ! i)) F t s"

text \<open>\<^verbatim>\<open>for (i = 0; i < n; i++) { call on the i-th element; if (it fails) exit(c); }\<close>, then line \<open>l\<close>. The array starts at variable \<open>b\<close>.\<close>

definition each :: "nat \<Rightarrow> int \<Rightarrow> nat \<Rightarrow> (nat \<Rightarrow> (errno \<Rightarrow> act) \<Rightarrow> stmt) \<Rightarrow> int \<Rightarrow> int \<Rightarrow> stmt" where
  "each i n b f c l F t s =
     (let j = p_var s ! i in
      f (b + nat j) (\<lambda>rc. if rc \<noteq> EOK then exits c
                      else if j + 1 < n then asg i (\<lambda>v. j + 1) (goto (t_pc (thr s t))) else asg i (\<lambda>v. 0) (goto l)) F t s)"

text \<open>The same when the results are ignored.\<close>

definition each_any :: "nat \<Rightarrow> int \<Rightarrow> nat \<Rightarrow> (nat \<Rightarrow> (errno \<Rightarrow> act) \<Rightarrow> stmt) \<Rightarrow> int \<Rightarrow> stmt" where
  "each_any i n b f l F t s =
     (let j = p_var s ! i in
      f (b + nat j) (\<lambda>rc. if j + 1 < n then asg i (\<lambda>v. j + 1) (goto (t_pc (thr s t))) else asg i (\<lambda>v. 0) (goto l)) F t s)"

text \<open>The clock at the start; the programs compute with its seconds and its microseconds.\<close>

definition start_time :: int where
  "start_time = 1500000"

definition start :: "pprog \<Rightarrow> psys" where
  "start P =
     \<lparr>p_now = start_time, p_thr = [new_thread (g_main P) 0 False [] 0], p_var = g_var P,
      p_mut = map (\<lambda>kd. \<lparr>m_kind = kd, m_owner = None, m_count = 0\<rparr>) (g_mut P), p_sem = replicate (g_sem P) 0, p_bar = replicate (g_bar P) 0,
      p_spin = replicate (g_spin P) None, p_spur = 0, p_once = replicate (g_once P) 0, p_key = [], p_hand = [], p_sig = [], p_alarm = None,
      p_exit = None\<rparr>"

definition thread_steps :: "pprog \<Rightarrow> variant list \<Rightarrow> psys \<Rightarrow> nat \<Rightarrow> psys list" where
  "thread_steps P F s t =
     (if \<not> alive s t then []
      else if cancel_due s t \<and> t_async (thr s t) \<and> (case stat s t of On_cond c d \<Rightarrow> False | Quit \<Rightarrow> False | _ \<Rightarrow> True) then [cancelled F t s]
      else case map_of (g_code P) (t_pc (thr s t)) of None \<Rightarrow> [] | Some f \<Rightarrow> f F t s)"

definition threads_step :: "pprog \<Rightarrow> variant list \<Rightarrow> psys \<Rightarrow> psys list" where
  "threads_step P F s = concat (map (\<lambda>t. thread_steps P F s t @ deliveries s t) [0..<length (p_thr s)])"

text \<open>The moments that threads and the alarm wait for.\<close>

definition deadlines :: "psys \<Rightarrow> int list" where
  "deadlines s =
     concat (map (\<lambda>h. case t_stat h of Asleep d \<Rightarrow> [d] | On_cond c d \<Rightarrow> [d] | _ \<Rightarrow> []) (p_thr s)) @ (case p_alarm s of None \<Rightarrow> [] | Some d \<Rightarrow> [d])"

definition alarm_rings :: "psys \<Rightarrow> psys list" where
  "alarm_rings s = (case p_alarm s of None \<Rightarrow> [] | Some d \<Rightarrow> if d \<le> p_now s then [s\<lparr>p_alarm := None, p_sig := SIGALRM # p_sig s\<rparr>] else [])"

definition tick :: "psys \<Rightarrow> psys list" where
  "tick s = (case filter (\<lambda>d. p_now s < d) (deadlines s) of [] \<Rightarrow> [] | d # ds \<Rightarrow> [s\<lparr>p_now := foldl min d ds\<rparr>])"

text \<open>In the variant \<open>V_spurious\<close> one wait for a condition may return without a signal.\<close>

definition spurious_wakes :: "variant list \<Rightarrow> psys \<Rightarrow> psys list" where
  "spurious_wakes F s =
     (if V_spurious \<in> set F \<and> p_spur s = 0
      then map (\<lambda>t. set_stat (Back EOK) t (s\<lparr>p_spur := 1\<rparr>)) (filter (\<lambda>t. case stat s t of On_cond c d \<Rightarrow> True | _ \<Rightarrow> False) [0..<length (p_thr s)])
      else [])"

text \<open>A process that has not exited: a thread acts or gets a signal, the alarm rings, a wait returns without a signal; when no thread can act and no alarm is due, and at any
  moment with \<open>late\<close>, time passes; when every thread has ended the process exits with 0. Without \<open>late\<close> the calls take no time: the clock waits for the threads. With
  \<open>late\<close> a thread that can act may do so as late as you please.\<close>

inductive pstep :: "bool \<Rightarrow> pprog \<Rightarrow> variant list \<Rightarrow> psys \<Rightarrow> psys \<Rightarrow> bool" for late :: bool and P :: pprog and F :: "variant list" where
  acts: "p_exit s = None \<Longrightarrow> t < length (p_thr s) \<Longrightarrow> s' \<in> set (thread_steps P F s t) \<Longrightarrow> pstep late P F s s'"
| gets_signal: "p_exit s = None \<Longrightarrow> t < length (p_thr s) \<Longrightarrow> s' \<in> set (deliveries s t) \<Longrightarrow> pstep late P F s s'"
| rings: "p_exit s = None \<Longrightarrow> s' \<in> set (alarm_rings s) \<Longrightarrow> pstep late P F s s'"
| passes: "p_exit s = None \<Longrightarrow> late \<or> threads_step P F s = [] \<and> alarm_rings s = [] \<Longrightarrow> \<exists>t<length (p_thr s). alive s t \<Longrightarrow> s' \<in> set (tick s) \<Longrightarrow> pstep late P F s s'"
| wakes: "p_exit s = None \<Longrightarrow> s' \<in> set (spurious_wakes F s) \<Longrightarrow> pstep late P F s s'"
| last_ends: "p_exit s = None \<Longrightarrow> \<forall>t<length (p_thr s). \<not> alive s t \<Longrightarrow> pstep late P F s (s\<lparr>p_exit := Some 0\<rparr>)"

definition any_alive :: "psys \<Rightarrow> bool" where
  "any_alive s = list_ex (alive s) [0..<length (p_thr s)]"

definition succs :: "bool \<Rightarrow> pprog \<Rightarrow> variant list \<Rightarrow> psys \<Rightarrow> psys list" where
  "succs late P F s =
     (if p_exit s \<noteq> None then []
      else if \<not> any_alive s then [s\<lparr>p_exit := Some 0\<rparr>] @ alarm_rings s
      else let A = threads_step P F s @ alarm_rings s in A @ (if A = [] \<or> late then tick s else []) @ spurious_wakes F s)"

text \<open>The same computed in one pass over the threads, with the statements given by a function \<open>C\<close> of the line.\<close>

definition has_ended :: "pthr \<Rightarrow> bool" where
  "has_ended h = (case t_stat h of Over v \<Rightarrow> True | Gone \<Rightarrow> True | _ \<Rightarrow> False)"

fun steps_from :: "(int \<Rightarrow> stmt option) \<Rightarrow> variant list \<Rightarrow> psys \<Rightarrow> nat \<Rightarrow> pthr list \<Rightarrow> psys list" where
  "steps_from C F s t [] = []"
| "steps_from C F s t (h # hs) =
     (if has_ended h then []
      else if t_asked h \<and> t_cancel h \<and> t_async h \<and> (case t_stat h of On_cond c d \<Rightarrow> False | Quit \<Rightarrow> False | _ \<Rightarrow> True) then [cancelled F t s]
      else case C (t_pc h) of None \<Rightarrow> [] | Some f \<Rightarrow> f F t s)
     @ (if p_sig s = [] \<and> t_sig h = [] then [] else deliveries s t)
     @ steps_from C F s (Suc t) hs"

definition succs_at :: "bool \<Rightarrow> (int \<Rightarrow> stmt option) \<Rightarrow> variant list \<Rightarrow> psys \<Rightarrow> psys list" where
  "succs_at late C F s =
     (if p_exit s \<noteq> None then []
      else if list_all has_ended (p_thr s) then [s\<lparr>p_exit := Some 0\<rparr>] @ alarm_rings s
      else case steps_from C F s 0 (p_thr s) @ alarm_rings s of
        [] \<Rightarrow> tick s @ spurious_wakes F s
      | x # A \<Rightarrow> (x # A) @ (if late then tick s else []) @ spurious_wakes F s)"

lemma alive_has_ended: "alive s t \<longleftrightarrow> \<not> has_ended (p_thr s ! t)"
  by (simp add: alive_def stat_def has_ended_def split: pstat.splits)

lemma any_alive_has_ended: "any_alive s \<longleftrightarrow> \<not> list_all has_ended (p_thr s)"
  by (auto simp: any_alive_def list_ex_iff list_all_length alive_has_ended)

lemma steps_from_step:
  "steps_from (map_of (g_code P)) F s t (drop t (p_thr s))
     = concat (map (\<lambda>t. thread_steps P F s t @ deliveries s t) [t..<length (p_thr s)])"
proof (induction "length (p_thr s) - t" arbitrary: t)
  case 0
  then show ?case by simp
next
  case (Suc n)
  then have t: "t < length (p_thr s)" and IH: "steps_from (map_of (g_code P)) F s (Suc t) (drop (Suc t) (p_thr s))
     = concat (map (\<lambda>t. thread_steps P F s t @ deliveries s t) [Suc t..<length (p_thr s)])" by auto
  have "drop t (p_thr s) = p_thr s ! t # drop (Suc t) (p_thr s)" using t by (rule Cons_nth_drop_Suc [symmetric])
  moreover have "[t..<length (p_thr s)] = t # [Suc t..<length (p_thr s)]" using t by (rule upt_conv_Cons)
  moreover have "thread_steps P F s t @ deliveries s t
     = (if has_ended (p_thr s ! t) then []
        else if t_asked (p_thr s ! t) \<and> t_cancel (p_thr s ! t) \<and> t_async (p_thr s ! t)
          \<and> (case t_stat (p_thr s ! t) of On_cond c d \<Rightarrow> False | Quit \<Rightarrow> False | _ \<Rightarrow> True) then [cancelled F t s]
        else case map_of (g_code P) (t_pc (p_thr s ! t)) of None \<Rightarrow> [] | Some f \<Rightarrow> f F t s)
       @ (if p_sig s = [] \<and> t_sig (p_thr s ! t) = [] then [] else deliveries s t)"
    by (simp add: thread_steps_def deliveries_def alive_has_ended cancel_due_def thr_def stat_def)
  ultimately show ?case by (simp only: steps_from.simps IH list.map concat.simps append_assoc)
qed

lemma succs_at_succs: "succs_at late (map_of (g_code P)) F = succs late P F"
proof
  fix s
  have "steps_from (map_of (g_code P)) F s 0 (p_thr s) = threads_step P F s"
    using steps_from_step [of P F s 0] by (simp add: threads_step_def)
  then show "succs_at late (map_of (g_code P)) F s = succs late P F s"
    by (simp add: succs_at_def succs_def any_alive_has_ended Let_def split: list.split)
qed

lemma any_alive_iff: "any_alive s \<longleftrightarrow> (\<exists>t<length (p_thr s). alive s t)"
  by (auto simp: any_alive_def list_ex_iff)

lemma dead_thread: "\<not> alive s t \<Longrightarrow> thread_steps P F s t = [] \<and> deliveries s t = []"
  by (simp add: thread_steps_def deliveries_def)

lemma in_threads_step:
  "s' \<in> set (threads_step P F s) \<longleftrightarrow> (\<exists>t<length (p_thr s). s' \<in> set (thread_steps P F s t) \<or> s' \<in> set (deliveries s t))"
  by (auto simp: threads_step_def)

lemma spurious_alive: "s' \<in> set (spurious_wakes F s) \<Longrightarrow> any_alive s"
  by (auto simp: spurious_wakes_def any_alive_iff alive_def split: if_splits pstat.splits)

lemma succs_of_pstep: "pstep late P F s s' \<Longrightarrow> s' \<in> set (succs late P F s)"
proof (induction rule: pstep.induct)
  case (acts s t s')
  then have "any_alive s" "s' \<in> set (threads_step P F s)" using dead_thread by (fastforce simp: any_alive_iff in_threads_step)+
  then show ?case using acts by (auto simp: succs_def Let_def)
next
  case (gets_signal s t s')
  then have "any_alive s" "s' \<in> set (threads_step P F s)" using dead_thread by (fastforce simp: any_alive_iff in_threads_step)+
  then show ?case using gets_signal by (auto simp: succs_def Let_def)
next
  case (rings s s')
  then show ?case by (auto simp: succs_def Let_def)
next
  case (passes s s')
  then show ?case by (auto simp: succs_def any_alive_iff Let_def)
next
  case (wakes s s')
  then have "any_alive s" using spurious_alive by blast
  then show ?case using wakes by (auto simp: succs_def Let_def)
next
  case (last_ends s)
  then show ?case by (auto simp: succs_def any_alive_iff Let_def)
qed

lemma pstep_of_succs: "s' \<in> set (succs late P F s) \<Longrightarrow> pstep late P F s s'"
  by (auto simp: succs_def any_alive_iff in_threads_step Let_def split: if_splits
    intro: acts gets_signal rings passes wakes last_ends)

lemma pstep_iff: "pstep late P F s s' \<longleftrightarrow> s' \<in> set (succs late P F s)"
  using succs_of_pstep pstep_of_succs by blast

section \<open>All runs\<close>

text \<open>A run ends where no step is possible. \<open>outcomes step out s V\<close>: no run from \<open>s\<close> is infinite, and \<open>V\<close> is the set of what the runs
  end with.\<close>

definition outcomes :: "('s \<Rightarrow> 's \<Rightarrow> bool) \<Rightarrow> ('s \<Rightarrow> 'v) \<Rightarrow> 's \<Rightarrow> 'v set \<Rightarrow> bool" where
  "outcomes step out s V \<longleftrightarrow> \<not> infinite_run step s \<and> {out s' | s'. reachable_from step s s' \<and> (\<forall>u. \<not> step s' u)} = V"

text \<open>The states after 0, 1, 2 and more steps, until there are none, with what is found at the ends; \<open>n\<close> is a fuel. A level is a list of states with keys; the
  levels of its two halves are merged by the keys, which brings equal states together.\<close>

fun merge_level :: "(int \<times> 's) list \<Rightarrow> (int \<times> 's) list \<Rightarrow> (int \<times> 's) list" where
  "merge_level [] ys = ys"
| "merge_level xs [] = xs"
| "merge_level (x # xs) (y # ys) =
     (if fst x < fst y then x # merge_level xs (y # ys)
      else if fst y < fst x then y # merge_level (x # xs) ys
      else if snd x = snd y then merge_level xs (y # ys) else x # merge_level xs (y # ys))"

function next_level :: "('s \<Rightarrow> 's list) \<Rightarrow> ('s \<Rightarrow> int) \<Rightarrow> ('s \<Rightarrow> 'v) \<Rightarrow> (int \<times> 's) list \<Rightarrow> 'v list \<times> (int \<times> 's) list" where
  "next_level succ key out [] = ([], [])"
| "next_level succ key out [s] =
     (case succ (snd s) of
        [] \<Rightarrow> ([out (snd s)], [])
      | x # T \<Rightarrow> ([], foldr (\<lambda>s. merge_level [(key s, s)]) T [(key x, x)]))"
| "next_level succ key out (s # s' # S) =
     (let n = length S div 2; (V, A) = next_level succ key out (s # take n S); (W, B) = next_level succ key out (s' # drop n S)
      in (remdups (V @ W), merge_level A B))"
  by pat_completeness auto
termination
  by (relation "measure (\<lambda>(_, _, _, S). length S)") auto

fun explore :: "('s \<Rightarrow> 's list) \<Rightarrow> ('s \<Rightarrow> int) \<Rightarrow> ('s \<Rightarrow> 'v) \<Rightarrow> nat \<Rightarrow> (int \<times> 's) list \<Rightarrow> 'v list \<Rightarrow> 'v list option" where
  "explore succ key out 0 S V = None"
| "explore succ key out (Suc n) S V =
     (if S = [] then Some V else let (W, T) = next_level succ key out S in explore succ key out n T (remdups (W @ V)))"

lemma merge_level_states: "snd ` set (merge_level xs ys) = snd ` set xs \<union> snd ` set ys"
  by (induction xs ys rule: merge_level.induct) (auto simp: image_iff)

lemma merged_states: "snd ` set (foldr (\<lambda>s. merge_level [(key s, s)]) T A) = set T \<union> snd ` set A"
  by (induction T) (auto simp: merge_level_states)

lemma next_level_sound:
  "next_level succ key out S = (V, A) \<Longrightarrow>
     set V = out ` set (filter (\<lambda>s. succ s = []) (map snd S)) \<and> snd ` set A = set (concat (map succ (map snd S)))"
proof (induction succ key out S arbitrary: V A rule: next_level.induct)
  case (1 succ key out)
  then show ?case by simp
next
  case (2 succ key out s)
  show ?case
  proof (cases "succ (snd s)")
    case Nil
    then show ?thesis using 2 by auto
  next
    case (Cons x T)
    then have "V = []" "A = foldr (\<lambda>s. merge_level [(key s, s)]) T [(key x, x)]" using 2 by auto
    then show ?thesis using Cons by (simp add: merged_states)
  qed
next
  case (3 succ key out s s' S)
  let ?n = "length S div 2"
  obtain V1 A1 V2 A2 where parts: "next_level succ key out (s # take ?n S) = (V1, A1)"
    "next_level succ key out (s' # drop ?n S) = (V2, A2)" by fastforce
  have S: "set S = set (take ?n S) \<union> set (drop ?n S)" by (metis append_take_drop_id set_append)
  note IH = 3(1) [OF refl parts(1)] 3(2) [OF refl parts(1) [symmetric] refl parts(2)]
  have "V = remdups (V1 @ V2)" "A = merge_level A1 A2" using 3(3) parts by (auto simp: Let_def)
  then have "set V = set V1 \<union> set V2" "snd ` set A = snd ` set A1 \<union> snd ` set A2" by (auto simp: merge_level_states)
  then show ?case using IH S by (auto simp: image_Un)
qed

locale step_system =
  fixes step :: "'s \<Rightarrow> 's \<Rightarrow> bool" and succ :: "'s \<Rightarrow> 's list"
  assumes step_succ: "step s s' \<longleftrightarrow> s' \<in> set (succ s)"
begin

lemma reach_cases: "reachable_from step s s' \<Longrightarrow> s' = s \<or> (\<exists>u. step s u \<and> reachable_from step u s')"
proof (induction rule: reachable_from.induct)
  case reach_start
  then show ?case by simp
next
  case (reach_step u v)
  then show ?case by (meson reachable_from.intros)
qed

lemma reach_first: "step s u \<Longrightarrow> reachable_from step u s' \<Longrightarrow> reachable_from step s s'"
  by (rule reachable_trans) (auto intro: reachable_from.intros)

lemma no_infinite_step:
  assumes "\<And>u. step s u \<Longrightarrow> \<not> infinite_run step u"
  shows "\<not> infinite_run step s"
proof
  assume "infinite_run step s"
  then obtain f where f: "f 0 = s" "\<And>n. step (f n) (f (Suc n))" by (auto simp: infinite_run_def)
  then have "infinite_run step (f 1)" unfolding infinite_run_def by (intro exI [of _ "\<lambda>n. f (Suc n)"]) simp
  moreover have "step s (f 1)" using f(1) f(2) [of 0] by simp
  ultimately show False using assms by blast
qed

text \<open>What the states of \<open>S\<close> end with.\<close>

definition end_values :: "('s \<Rightarrow> 'v) \<Rightarrow> 's list \<Rightarrow> 'v set" where
  "end_values out S = {out s' | s s'. s \<in> set S \<and> reachable_from step s s' \<and> succ s' = []}"

lemma end_values_unfold:
  "end_values out S = end_values out (concat (map succ S)) \<union> out ` set (filter (\<lambda>s. succ s = []) S)"
proof -
  have "v \<in> end_values out S \<longleftrightarrow> v \<in> end_values out (concat (map succ S)) \<union> out ` set (filter (\<lambda>s. succ s = []) S)" for v
  proof
    assume "v \<in> end_values out S"
    then obtain s s' where s: "s \<in> set S" "reachable_from step s s'" "succ s' = []" "v = out s'" by (auto simp: end_values_def)
    from reach_cases [OF s(2)] s show "v \<in> end_values out (concat (map succ S)) \<union> out ` set (filter (\<lambda>s. succ s = []) S)"
      by (auto simp: end_values_def step_succ)
  next
    assume "v \<in> end_values out (concat (map succ S)) \<union> out ` set (filter (\<lambda>s. succ s = []) S)"
    then show "v \<in> end_values out S"
      by (auto simp: end_values_def simp flip: step_succ intro: reach_first reachable_from.intros)
  qed
  then show ?thesis by blast
qed

lemma explore_sound:
  assumes "explore succ key out n S V = Some W"
  shows "set W = set V \<union> end_values out (map snd S) \<and> (\<forall>s\<in>set S. \<not> infinite_run step (snd s))"
  using assms
proof (induction n arbitrary: S V)
  case 0
  then show ?case by simp
next
  case (Suc n)
  show ?case
  proof (cases "S = []")
    case True
    with Suc.prems show ?thesis by (simp add: end_values_def)
  next
    case False
    let ?T = "concat (map succ (map snd S))"
    obtain E A where EA: "next_level succ key out S = (E, A)" by fastforce
    note E = next_level_sound [OF EA]
    have "explore succ key out n A (remdups (E @ V)) = Some W" using Suc.prems False EA by simp
    from Suc.IH [OF this] have W: "set W = set V \<union> set E \<union> end_values out (map snd A)"
      and "\<forall>s\<in>set A. \<not> infinite_run step (snd s)" by auto
    then have inf: "\<forall>s\<in>set ?T. \<not> infinite_run step s" using E by (metis (no_types, lifting) imageE)
    have "end_values out (map snd A) = end_values out ?T" using E by (simp add: end_values_def)
    moreover have "\<not> infinite_run step (snd s)" if "s \<in> set S" for s
      using no_infinite_step [of "snd s"] inf that by (auto simp: step_succ)
    ultimately show ?thesis using W E by (simp add: end_values_unfold [of out "map snd S"] Un_ac)
  qed
qed

lemma outcomesI:
  assumes "explore succ key out n [(x, s)] [] = Some W"
  shows "outcomes step out s (set W)"
proof -
  have "succ s' = [] \<longleftrightarrow> (\<forall>u. \<not> step s' u)" for s' by (auto simp: step_succ)
  then show ?thesis using explore_sound [OF assms] by (auto simp: outcomes_def end_values_def)
qed

end

interpretation pth: step_system "pstep late P F" "succs late P F" for late P F
  by unfold_locales (rule pstep_iff)

text \<open>\<open>runs_end P F V\<close>: every run of the program ends, and \<open>V\<close> are the exit codes of its runs; \<open>None\<close> would be a deadlock. \<open>runs_end_late\<close>: the same when
  threads may act late.\<close>

definition runs_end :: "pprog \<Rightarrow> variant list \<Rightarrow> int option set \<Rightarrow> bool" where
  "runs_end P F V \<longleftrightarrow> outcomes (pstep False P F) p_exit (start P) V"

definition runs_end_late :: "pprog \<Rightarrow> variant list \<Rightarrow> int option set \<Rightarrow> bool" where
  "runs_end_late P F V \<longleftrightarrow> outcomes (pstep True P F) p_exit (start P) V"

text \<open>Both machines stop in the same states, and a run of the first is one of the second. So a verdict that late threads cannot change is the verdict of the
  first machine too.\<close>

lemma pstep_late: "pstep False P F s s' \<Longrightarrow> pstep True P F s s'"
  by (auto simp: pstep_iff succs_def Let_def split: if_splits)

lemma stuck_late: "(\<forall>u. \<not> pstep False P F s u) \<longleftrightarrow> (\<forall>u. \<not> pstep True P F s u)"
proof -
  have "succs False P F s = [] \<longleftrightarrow> succs True P F s = []" by (auto simp: succs_def Let_def)
  then show ?thesis by (simp only: pstep_iff ex_in_conv set_empty flip: not_ex)
qed

lemma reach_late: "reachable_from (pstep False P F) s s' \<Longrightarrow> reachable_from (pstep True P F) s s'"
  by (induction rule: reachable_from.induct) (auto intro: reachable_from.intros pstep_late)

lemma run_stops:
  assumes "\<not> infinite_run step s"
  shows "\<exists>s'. reachable_from step s s' \<and> (\<forall>u. \<not> step s' u)"
proof (rule ccontr)
  assume "\<not> ?thesis"
  then have more: "\<exists>u. step s' u" if "reachable_from step s s'" for s' using that by blast
  define f where "f = rec_nat s (\<lambda>n x. SOME u. step x u)"
  have f: "f 0 = s" "\<And>n. f (Suc n) = (SOME u. step (f n) u)" by (simp_all add: f_def)
  have "reachable_from step s (f n)" for n
  proof (induction n)
    case 0
    then show ?case by (simp add: f reachable_from.intros)
  next
    case (Suc n)
    then have "step (f n) (f (Suc n))" using more [OF Suc] by (auto simp: f(2) intro: someI_ex)
    with Suc show ?case by (auto intro: reachable_from.intros)
  qed
  then have "step (f n) (f (Suc n))" for n using more by (auto simp: f(2) intro: someI_ex)
  then show False using assms f(1) by (auto simp: infinite_run_def)
qed

lemma runs_end_of_late:
  assumes "runs_end_late P F {v}"
  shows "runs_end P F {v}"
proof -
  have late: "\<not> infinite_run (pstep True P F) (start P)"
    "\<And>s. reachable_from (pstep True P F) (start P) s \<Longrightarrow> \<forall>u. \<not> pstep True P F s u \<Longrightarrow> p_exit s = v"
    using assms by (auto simp: runs_end_late_def outcomes_def)
  from late(1) have fin: "\<not> infinite_run (pstep False P F) (start P)" unfolding infinite_run_def using pstep_late by metis
  from run_stops [OF this] obtain s where s: "reachable_from (pstep False P F) (start P) s" "\<forall>u. \<not> pstep False P F s u" by blast
  have v: "p_exit s = v" if "reachable_from (pstep False P F) (start P) s" "\<forall>u. \<not> pstep False P F s u" for s
    using late(2) [OF reach_late [OF that(1)]] that(2) stuck_late by blast
  have "{p_exit s |s. reachable_from (pstep False P F) (start P) s \<and> (\<forall>u. \<not> pstep False P F s u)} = {v}"
    using v s by auto
  then show ?thesis using fin by (simp add: runs_end_def outcomes_def)
qed

text \<open>A key that tells most states apart, and the start with its key.\<close>

fun stat_key :: "pstat \<Rightarrow> int" where
  "stat_key Run = 0"
| "stat_key (Asleep d) = 1"
| "stat_key (On_cond c d) = 2"
| "stat_key (Back rc) = 3"
| "stat_key (On_barrier b) = 4"
| "stat_key (Over v) = 5"
| "stat_key st = 6"

definition state_key :: "psys \<Rightarrow> int" where
  "state_key s = foldl (\<lambda>a h. a * 32 + t_pc h + stat_key (t_stat h)) (foldl (\<lambda>a v. a * 2 + v) 0 (p_var s)) (p_thr s)"

definition all_runs :: "bool \<Rightarrow> (int \<Rightarrow> stmt option) \<Rightarrow> variant list \<Rightarrow> psys \<Rightarrow> int option list option" where
  "all_runs late C F s = explore (succs_at late C F) state_key p_exit 300 [(0, s)] []"

lemma runs_endI: "all_runs False (map_of (g_code P)) F (start P) = Some W \<Longrightarrow> runs_end P F (set W)"
  unfolding runs_end_def all_runs_def succs_at_succs by (rule pth.outcomesI)

lemma runs_end_lateI: "all_runs True (map_of (g_code P)) F (start P) = Some W \<Longrightarrow> runs_end_late P F (set W)"
  unfolding runs_end_late_def all_runs_def succs_at_succs by (rule pth.outcomesI)

lemma runs_endI1: "all_runs False (map_of (g_code P)) F (start P) = Some [v] \<Longrightarrow> runs_end P F {v}"
  using runs_endI [of P F "[v]"] by simp

lemma runs_end_lateI1: "all_runs True (map_of (g_code P)) F (start P) = Some [v] \<Longrightarrow> runs_end_late P F {v}"
  using runs_end_lateI [of P F "[v]"] by simp

text \<open>Several verdicts, with the list that the exploration finds.\<close>

lemma runs_end_set: "all_runs False (map_of (g_code P)) F (start P) = Some W \<Longrightarrow> set W = V \<Longrightarrow> runs_end P F V"
  using runs_endI by blast

lemma runs_end_late_set: "all_runs True (map_of (g_code P)) F (start P) = Some W \<Longrightarrow> set W = V \<Longrightarrow> runs_end_late P F V"
  using runs_end_lateI by blast

end
