(* ===== verification/Pth_Tests.thy ===== *)
theory Pth_Tests
  imports Pth_Machine
begin

text \<open>
  Conformance programs for the life of threads: \<^verbatim>\<open>pthread_create\<close>, \<^verbatim>\<open>pthread_join\<close>, \<^verbatim>\<open>pthread_detach\<close>, \<^verbatim>\<open>pthread_exit\<close>, cancellation, cleanup handlers,
  thread-specific data and \<^verbatim>\<open>pthread_once\<close>. Each program is the list of its statements with their line numbers in the file
  \<^verbatim>\<open>conformance/interfaces/<interface>/<number>.c\<close> named by the definition. Messages are left out, and with them branches that only print; assignments to local
  variables that are overwritten before they are read are left out too.
\<close>

text \<open>The variables of the programs, by their position.\<close>

abbreviation sem1 :: nat where "sem1 \<equiv> 0"
abbreviation sem :: nat where "sem \<equiv> 0"
abbreviation end_exec :: nat where "end_exec \<equiv> 0"
abbreviation cleanup_flag :: nat where "cleanup_flag \<equiv> 1"
abbreviation cancel_flag :: nat where "cancel_flag \<equiv> 1"
abbreviation new_th :: nat where "new_th \<equiv> 2"
abbreviation self_th :: nat where "self_th \<equiv> 3"

abbreviation INTHREAD :: int where "INTHREAD \<equiv> 0"
abbreviation INMAIN :: int where "INMAIN \<equiv> 1"

section \<open>Creation\<close>

definition pthread_create_1_1 :: pprog where
  "pthread_create_1_1 = process 32 [0, 0, 0, 0] []
    [(24, doing (ends 0)),
     (32, pt_create new_th 24 (chk PTS_UNRESOLVED 39)),
     (39, doing (pt_self self_th (goto 43))),
     (43, tst (\<lambda>v. v ! new_th = v ! self_th) (exits PTS_FAIL) (exits PTS_PASS))]"

text \<open>The result of \<^verbatim>\<open>pthread_create\<close> is compared with \<^verbatim>\<open>< 0\<close>, which an error number never is; then the identifier is not initialised.\<close>

definition pthread_create_1_2 :: pprog where
  "pthread_create_1_2 = process 39 [0, 0, 0] []
    [(26, pt_sleep (secs 10) (goto 31)),
     (31, doing (ends 0)),
     (39, pt_create new_th 26 (go 47)),
     (47, pt_cancel new_th (\<lambda>rc. if rc \<noteq> EOK then exits PTS_FAIL else exits PTS_PASS))]"

definition pthread_create_1_3 :: pprog where
  "pthread_create_1_3 = process 40 [0, 0, 0] []
    [(40, pt_sigaction SIGALRM 80 (goto 47)),
     (47, pt_alarm (secs 5) (goto 50)),
     (50, pt_create new_th 67 (chk PTS_UNRESOLVED 56)),
     (56, pt_cancel new_th (\<lambda>rc. exits PTS_PASS)),
     (67, pt_setcancelstate True (go 69)),
     (69, pt_poll (\<lambda>v. True) (secs 1) (goto 72)),
     (72, doing (ends 0)),
     (80, doing (exits PTS_FAIL))]"

definition pthread_create_2_1 :: pprog where
  "pthread_create_2_1 = process 41 [0, 0, 0] []
    [(31, doing (ends 0)),
     (41, pt_create new_th 31 (chk PTS_UNRESOLVED 48)),
     (48, pt_join new_th (\<lambda>rc. if rc = EINVAL then exits PTS_FAIL else goto 55)),
     (55, pt_detach new_th (\<lambda>rc. if rc = EINVAL then exits PTS_FAIL else exits PTS_PASS))]"

definition pthread_create_3_1 :: pprog where
  "pthread_create_3_1 = process 57 [0, 0, 0] []
    [(38, doing (asg sem1 (\<lambda>v. INTHREAD) (goto 43))),
     (43, pt_sleep (secs 10) (goto 46)),
     (46, doing (ends PTS_FAIL)),
     (57, doing (asg sem1 (\<lambda>v. INMAIN) (goto 58))),
     (58, ok_call (chk PTS_UNRESOLVED 66)),
     (66, ok_call (chk PTS_UNRESOLVED 74)),
     (74, pt_create new_th 38 (chk PTS_UNRESOLVED 80)),
     (80, pt_poll (\<lambda>v. v ! sem1 = INMAIN) (secs 1) (goto 84)),
     (84, ok_call (chk PTS_UNRESOLVED 91)),
     (91, pt_detach new_th (\<lambda>rc. if rc = EINVAL then exits PTS_FAIL else exits PTS_PASS))]"

definition pthread_create_4_1 :: pprog where
  "pthread_create_4_1 = process 35 [0, 0, 0, - 1] []
    [(35, pt_create new_th 64 (chk PTS_UNRESOLVED 43)),
     (43, pt_join new_th (chk PTS_UNRESOLVED 51)),
     (51, tst (\<lambda>v. v ! new_th = v ! self_th) (exits PTS_PASS) (exits PTS_FAIL)),
     (64, doing (pt_self self_th (goto 65))),
     (65, doing (ends 0))]"

definition pthread_create_5_1 :: pprog where
  "pthread_create_5_1 = process 40 [0, 0, 0] []
    [(31, doing (ends 0)),
     (40, doing (asg 0 (\<lambda>v. 1) (goto 41))),
     (41, tst (\<lambda>v. v ! 0 < 6) (goto 42) (exits PTS_PASS)),
     (42, pt_create_arg new_th 31 (\<lambda>v. v ! 0) False (chk PTS_FAIL 49)),
     (49, pt_join new_th (\<lambda>rc. asg 0 (\<lambda>v. v ! 0 + 1) (goto 41)))]"

definition pthread_create_12_1 :: pprog where
  "pthread_create_12_1 = process 35 [0, 0, 0] []
    [(25, doing (ends 0)),
     (35, pt_create new_th 25 (\<lambda>ret. if ret \<noteq> EOK then exits PTS_FAIL else exits PTS_PASS))]"

definition pthread_equal_1_1 :: pprog where
  "pthread_equal_1_1 = process 37 [0, 0, 0] []
    [(28, doing (ends 0)),
     (37, pt_create new_th 28 (chk PTS_UNRESOLVED 46)),
     (46, tst (\<lambda>v. v ! new_th = v ! new_th) (exits PTS_PASS) (exits PTS_FAIL))]"

definition pthread_self_1_1 :: pprog where
  "pthread_self_1_1 = process 41 [0, 0, 0, - 1] []
    [(31, doing (pt_self self_th (goto 32))),
     (32, doing (ends 0)),
     (41, pt_create new_th 31 (chk PTS_UNRESOLVED 48)),
     (48, pt_join new_th (chk PTS_UNRESOLVED 58)),
     (58, tst (\<lambda>v. v ! new_th = v ! self_th) (goto 63) (exits PTS_FAIL)),
     (63, \<lambda>F t. tst (\<lambda>v. v ! new_th = int t) (exits PTS_FAIL) (exits PTS_PASS) F t)]"

section \<open>Joining, detaching and ending\<close>

text \<open>The counter of the loop is the thread's first local variable.\<close>

definition pthread_join_1_1 :: pprog where
  "pthread_join_1_1 = process 50 [0, 0, 0] []
    [(32, doing (loc_asg 0 (\<lambda>l v. 1) (goto 33))),
     (33, loc_tst (\<lambda>l. l ! 0 < 4) (goto 35) (goto 39)),
     (35, pt_sleep (secs 1) (loc_asg 0 (\<lambda>l v. l ! 0 + 1) (goto 33))),
     (39, doing (asg end_exec (\<lambda>v. 1) (goto 41))),
     (41, doing (ends 0)),
     (50, doing (asg end_exec (\<lambda>v. 0) (goto 53))),
     (53, pt_create new_th 32 (chk PTS_UNRESOLVED 60)),
     (60, pt_join new_th (chk PTS_UNRESOLVED 66)),
     (66, tst (\<lambda>v. v ! end_exec = 0) (exits PTS_FAIL) (exits PTS_PASS))]"

definition pthread_join_2_1 :: pprog where
  "pthread_join_2_1 = process 49 [0, 0, 0] []
    [(37, doing (asg sem (\<lambda>v. INMAIN) (goto 38))),
     (38, doing (ends 100)),
     (49, doing (asg sem (\<lambda>v. INTHREAD) (goto 52))),
     (52, pt_create new_th 37 (chk PTS_UNRESOLVED 59)),
     (59, pt_poll (\<lambda>v. v ! sem = INTHREAD) (secs 1) (goto 63)),
     (63, pt_join_value new_th (\<lambda>rc value_ptr. if rc \<noteq> EOK then exits PTS_UNRESOLVED else if value_ptr \<noteq> 100 then exits PTS_FAIL else exits PTS_PASS))]"

definition pthread_join_3_1 :: pprog where
  "pthread_join_3_1 = process 67 [0, 0, 0] []
    [(36, doing (asg cleanup_flag (\<lambda>v. 1) rets)),
     (43, pt_setcancelstate True (go 44)),
     (44, pt_setcanceltype False (go 47)),
     (47, pt_push 36 0 (goto 51)),
     (51, pt_sleep (secs 10) (goto 55)),
     (55, pt_pop False 56),
     (56, doing (asg cleanup_flag (\<lambda>v. - 1) (goto 58))),
     (58, doing (ends 0)),
     (67, doing (asg cleanup_flag (\<lambda>v. 0) (goto 70))),
     (70, pt_create new_th 43 (chk PTS_UNRESOLVED 77)),
     (77, pt_cancel new_th (chk PTS_UNRESOLVED 84)),
     (84, pt_join new_th (chk PTS_UNRESOLVED 90)),
     (90, tst (\<lambda>v. v ! cleanup_flag = 0) (exits PTS_FAIL) (goto 96)),
     (96, tst (\<lambda>v. v ! cleanup_flag = - 1) (exits PTS_UNRESOLVED) (exits PTS_PASS))]"

definition pthread_join_5_1 :: pprog where
  "pthread_join_5_1 = process 38 [0, 0, 0] []
    [(28, doing (ends 0)),
     (38, pt_create new_th 28 (chk PTS_UNRESOLVED 45)),
     (45, pt_join new_th (\<lambda>ret. if ret \<noteq> EOK \<and> ret \<noteq> EINVAL \<and> ret \<noteq> ESRCH \<and> ret \<noteq> EDEADLK then exits PTS_FAIL else exits PTS_PASS))]"

definition pthread_join_6_2 :: pprog where
  "pthread_join_6_2 = process 51 [0, 0, 0] []
    [(41, doing (ends 0)),
     (51, pt_create new_th 41 (chk PTS_UNRESOLVED 58)),
     (58, pt_join new_th (chk PTS_UNRESOLVED 68)),
     (68, pt_join new_th (\<lambda>ret. if ret \<noteq> ESRCH then exits PTS_FAIL else exits PTS_PASS))]"

text \<open>The result of \<^verbatim>\<open>pthread_join\<close> is kept in a variable while the thread is cancelled.\<close>

definition pthread_detach_1_1 :: pprog where
  "pthread_detach_1_1 = process 48 [0, 0, 0] []
    [(31, pt_setcanceltype True (go 34)),
     (34, pt_sleep (secs 10) (goto 37)),
     (37, doing (ends 0)),
     (48, ok_call (chk PTS_UNRESOLVED 55)),
     (55, ok_call (chk PTS_UNRESOLVED 62)),
     (62, pt_create new_th 31 (chk PTS_UNRESOLVED 69)),
     (69, pt_detach new_th (chk PTS_FAIL 76)),
     (76, pt_join new_th (\<lambda>ret. asg 0 (\<lambda>v. if ret = EOK then 0 else if ret = EINVAL then 1 else 2) (goto 79))),
     (79, pt_cancel new_th (go 81)),
     (81, tst (\<lambda>v. v ! 0 = 0) (exits PTS_FAIL) (goto 85)),
     (85, tst (\<lambda>v. v ! 0 = 1) (exits PTS_PASS) (exits PTS_UNRESOLVED))]"

definition pthread_detach_2_1 :: pprog where
  "pthread_detach_2_1 = process 47 [0, 0, 0] []
    [(30, pt_setcanceltype True (go 33)),
     (33, pt_sleep (secs 10) (goto 36)),
     (36, doing (ends 0)),
     (47, ok_call (chk PTS_UNRESOLVED 54)),
     (54, ok_call (chk PTS_UNRESOLVED 61)),
     (61, pt_create new_th 30 (chk PTS_UNRESOLVED 68)),
     (68, pt_detach new_th (chk PTS_FAIL 75)),
     (75, pt_cancel new_th (\<lambda>ret. if ret = EOK then exits PTS_PASS else if ret = ESRCH then exits PTS_FAIL else exits PTS_UNRESOLVED))]"

text \<open>The test \<^verbatim>\<open>(ret != ESRCH) || (ret != EINVAL)\<close> holds for every value.\<close>

definition pthread_detach_3_1 :: pprog where
  "pthread_detach_3_1 = process 46 [0, 0, 0] []
    [(29, pt_setcanceltype True (go 32)),
     (32, pt_sleep (secs 10) (goto 35)),
     (35, doing (ends 0)),
     (46, ok_call (chk PTS_UNRESOLVED 53)),
     (53, ok_call (chk PTS_UNRESOLVED 60)),
     (60, pt_create new_th 29 (chk PTS_UNRESOLVED 67)),
     (67, pt_detach new_th (\<lambda>ret. asg 0 (\<lambda>v. if ret = EOK then 0 else 1) (goto 70))),
     (70, pt_cancel new_th (go 73)),
     (73, tst (\<lambda>v. v ! 0 \<noteq> 0) (exits PTS_FAIL) (exits PTS_PASS))]"

definition pthread_detach_4_1 :: pprog where
  "pthread_detach_4_1 = process 51 [0, 0, 0] []
    [(34, pt_setcanceltype True (go 37)),
     (37, pt_sleep (secs 10) (goto 40)),
     (40, doing (ends 0)),
     (51, ok_call (chk PTS_UNRESOLVED 58)),
     (58, ok_call (chk PTS_UNRESOLVED 65)),
     (65, pt_create_arg new_th 34 (\<lambda>v. 0) True (chk PTS_UNRESOLVED 72)),
     (72, pt_detach new_th (\<lambda>ret. asg 0 (\<lambda>v. if ret = EINVAL then 0 else if ret = ESRCH then 1 else 2) (goto 75))),
     (75, pt_cancel new_th (go 78)),
     (78, tst (\<lambda>v. v ! 0 = 0) (exits PTS_PASS) (goto 80)),
     (80, tst (\<lambda>v. v ! 0 = 1) (exits PTS_UNRESOLVED) (exits PTS_FAIL))]"

definition pthread_detach_4_2 :: pprog where
  "pthread_detach_4_2 = process 45 [0, 0, 0] []
    [(34, doing (ends 0)),
     (45, pt_create new_th 34 (chk PTS_UNRESOLVED 55)),
     (55, pt_join new_th (\<lambda>rc. if rc = EDEADLK then exits PTS_UNRESOLVED else goto 62)),
     (62, pt_detach new_th (\<lambda>ret. if ret \<noteq> ESRCH then exits PTS_FAIL else exits PTS_PASS))]"

definition pthread_exit_1_1 :: pprog where
  "pthread_exit_1_1 = process 48 [0, 0, 0] []
    [(36, doing (asg sem (\<lambda>v. INMAIN) (goto 37))),
     (37, doing (ends 100)),
     (48, doing (asg sem (\<lambda>v. INTHREAD) (goto 51))),
     (51, pt_create new_th 36 (chk PTS_UNRESOLVED 58)),
     (58, pt_poll (\<lambda>v. v ! sem = INTHREAD) (secs 1) (goto 62)),
     (62, pt_join_value new_th (\<lambda>rc value_ptr. if rc \<noteq> EOK then exits PTS_UNRESOLVED else if value_ptr \<noteq> 100 then exits PTS_FAIL else exits PTS_PASS))]"

text \<open>The variables \<^verbatim>\<open>j\<close> (0) and \<^verbatim>\<open>i[3]\<close> (3 to 5).\<close>

definition pthread_exit_2_1 :: pprog where
  "pthread_exit_2_1 = process 83 [0, 0, 0, 0, 0, 0] []
    [(34, doing (asg_at 3 0 (\<lambda>v. 1) (goto 35))),
     (35, doing (asg 0 (\<lambda>v. v ! 0 + 1) rets)),
     (43, doing (asg_at 3 0 (\<lambda>v. 2) (goto 44))),
     (44, doing (asg 0 (\<lambda>v. v ! 0 + 1) rets)),
     (52, doing (asg_at 3 0 (\<lambda>v. 3) (goto 53))),
     (53, doing (asg 0 (\<lambda>v. v ! 0 + 1) rets)),
     (60, pt_push 34 0 (goto 61)),
     (61, pt_push 43 0 (goto 62)),
     (62, pt_push 52 0 (goto 65)),
     (65, doing (ends 0)),
     (83, doing (asg 0 (\<lambda>v. 0) (goto 86))),
     (86, pt_create new_th 60 (chk PTS_UNRESOLVED 93)),
     (93, pt_join new_th (chk PTS_UNRESOLVED 100)),
     (100, tst (\<lambda>v. v ! 3 = 3) (goto 102) (exits PTS_FAIL)),
     (102, tst (\<lambda>v. v ! 4 = 2) (goto 104) (exits PTS_FAIL)),
     (104, tst (\<lambda>v. v ! 5 = 1) (exits PTS_PASS) (exits PTS_FAIL))]"

definition pthread_exit_3_1 :: pprog where
  "pthread_exit_3_1 = process 68 [0, 0, 0, 0] []
    [(36, doing (asg cleanup_flag (\<lambda>v. 1) rets)),
     (46, pt_key_create 3 36 (chk PTS_UNRESOLVED 52)),
     (52, pt_setspecific 3 (\<lambda>v. 1) (chk PTS_UNRESOLVED 58)),
     (58, doing (ends 0)),
     (68, pt_create new_th 46 (chk PTS_UNRESOLVED 75)),
     (75, pt_join new_th (chk PTS_UNRESOLVED 81)),
     (81, tst (\<lambda>v. v ! cleanup_flag \<noteq> 1) (exits PTS_FAIL) (exits PTS_PASS))]"

section \<open>Cancellation\<close>

definition pthread_cancel_1_1 :: pprog where
  "pthread_cancel_1_1 = process 80 [0, 0, 0] []
    [(43, doing (asg cleanup_flag (\<lambda>v. 1) rets)),
     (50, pt_setcancelstate True (go 51)),
     (51, pt_setcanceltype True (go 53)),
     (53, pt_push 43 0 (goto 56)),
     (56, doing (asg sem1 (\<lambda>v. INMAIN) (goto 60))),
     (60, pt_poll (\<lambda>v. v ! sem1 = 1) (secs 1) (goto 65)),
     (65, pt_sleep (secs 10) (goto 69)),
     (69, doing (asg cleanup_flag (\<lambda>v. - 1) (goto 70))),
     (70, pt_pop False 71),
     (71, doing (ends 0)),
     (80, doing (asg sem1 (\<lambda>v. INTHREAD) (goto 81))),
     (81, doing (asg cleanup_flag (\<lambda>v. 0) (goto 84))),
     (84, pt_create new_th 50 (chk PTS_UNRESOLVED 92)),
     (92, pt_poll (\<lambda>v. v ! sem1 = INTHREAD) (secs 1) (goto 95)),
     (95, pt_cancel new_th (chk PTS_FAIL 103)),
     (103, doing (asg sem1 (\<lambda>v. INTHREAD) (goto 107))),
     (107, pt_poll (\<lambda>v. v ! cleanup_flag = INTHREAD) (secs 1) (goto 112)),
     (112, tst (\<lambda>v. v ! cleanup_flag < 0) (exits PTS_FAIL) (exits PTS_PASS))]"

definition pthread_cancel_1_2 :: pprog where
  "pthread_cancel_1_2 = process 77 [0, 0, 0] []
    [(44, doing (asg cleanup_flag (\<lambda>v. - 1) rets)),
     (51, pt_setcancelstate False (go 53)),
     (53, pt_push 44 0 (goto 56)),
     (56, doing (asg sem1 (\<lambda>v. INMAIN) (goto 61))),
     (61, pt_poll (\<lambda>v. v ! sem1 = INMAIN) (secs 1) (goto 66)),
     (66, pt_pop False 67),
     (67, doing (asg cleanup_flag (\<lambda>v. 1) (goto 68))),
     (68, doing (ends 0)),
     (77, doing (asg sem1 (\<lambda>v. INTHREAD) (goto 78))),
     (78, doing (asg cleanup_flag (\<lambda>v. 0) (goto 81))),
     (81, pt_create new_th 51 (chk PTS_UNRESOLVED 89)),
     (89, pt_poll (\<lambda>v. v ! sem1 = INTHREAD) (secs 1) (goto 92)),
     (92, pt_cancel new_th (chk PTS_UNRESOLVED 100)),
     (100, doing (asg sem1 (\<lambda>v. INTHREAD) (goto 105))),
     (105, pt_poll (\<lambda>v. v ! cleanup_flag = 0) (secs 1) (goto 110)),
     (110, tst (\<lambda>v. v ! cleanup_flag \<le> 0) (exits PTS_FAIL) (exits PTS_PASS))]"

definition pthread_cancel_1_3 :: pprog where
  "pthread_cancel_1_3 = process 94 [0, 0, 0] [Normal]
    [(51, doing (asg cleanup_flag (\<lambda>v. - 1) rets)),
     (58, pt_setcancelstate True (go 59)),
     (59, pt_setcanceltype False (go 61)),
     (61, pt_push 51 0 (goto 64)),
     (64, doing (asg sem1 (\<lambda>v. INMAIN) (goto 68))),
     (68, pt_lock 0 (chk_ends PTS_UNRESOLVED 76)),
     (76, pt_pop False 77),
     (77, doing (asg cleanup_flag (\<lambda>v. 1) (goto 80))),
     (80, pt_testcancel (goto 84)),
     (84, doing (asg cleanup_flag (\<lambda>v. - 2) (goto 85))),
     (85, doing (ends 0)),
     (94, doing (asg sem1 (\<lambda>v. INTHREAD) (goto 95))),
     (95, doing (asg cleanup_flag (\<lambda>v. 0) (goto 98))),
     (98, pt_lock 0 (chk PTS_UNRESOLVED 105)),
     (105, pt_create new_th 58 (chk PTS_UNRESOLVED 113)),
     (113, pt_poll (\<lambda>v. v ! sem1 = INTHREAD) (secs 1) (goto 117)),
     (117, pt_cancel new_th (chk PTS_FAIL 124)),
     (124, pt_unlock 0 (chk PTS_UNRESOLVED 131)),
     (131, pt_join new_th (chk PTS_UNRESOLVED 139)),
     (139, tst (\<lambda>v. v ! cleanup_flag = - 1) (exits PTS_FAIL) (goto 145)),
     (145, tst (\<lambda>v. v ! cleanup_flag = - 2) (exits PTS_FAIL) (exits PTS_PASS))]"

text \<open>The counter \<^verbatim>\<open>i\<close> is variable 3.\<close>

definition pthread_cancel_2_1 :: pprog where
  "pthread_cancel_2_1 = process 68 [0, 0, 0, 0] []
    [(33, doing (asg cleanup_flag (\<lambda>v. 1) (goto 34))),
     (34, doing (asg sem (\<lambda>v. 0) rets)),
     (47, pt_setcanceltype True (go 48)),
     (48, pt_push 33 0 (goto 49)),
     (49, doing (asg sem (\<lambda>v. 1) (goto 50))),
     (50, pt_poll (\<lambda>v. v ! sem = 1) (secs 1) (goto 52)),
     (52, pt_sleep (secs 5) (goto 53)),
     (53, doing (asg sem (\<lambda>v. 0) (goto 57))),
     (57, pt_pop False 59),
     (59, doing (ends 0)),
     (68, doing (asg cleanup_flag (\<lambda>v. 0) (goto 69))),
     (69, doing (asg sem (\<lambda>v. 0) (goto 72))),
     (72, pt_create new_th 47 (chk PTS_UNRESOLVED 79)),
     (79, pt_poll (\<lambda>v. v ! sem = 0) (secs 1) (goto 82)),
     (82, pt_cancel new_th (chk PTS_FAIL 88)),
     (88, doing (asg 3 (\<lambda>v. 0) (goto 89))),
     (89, tst (\<lambda>v. v ! sem = 1) (goto 91) (goto 102)),
     (91, pt_sleep (secs 1) (goto 92)),
     (92, tst (\<lambda>v. v ! 3 = 10) (exits PTS_FAIL) (asg 3 (\<lambda>v. v ! 3 + 1) (goto 89))),
     (102, tst (\<lambda>v. v ! cleanup_flag \<noteq> 1) (exits PTS_FAIL) (exits PTS_PASS))]"

text \<open>The key is variable 3; \<^verbatim>\<open>&value\<close> is 1.\<close>

definition pthread_cancel_2_2 :: pprog where
  "pthread_cancel_2_2 = process 78 [0, 0, 0, 0] []
    [(35, doing (asg cleanup_flag (\<lambda>v. 1) rets)),
     (47, pt_setcanceltype True (chk PTS_UNRESOLVED 53)),
     (53, pt_key_create 3 35 (chk PTS_UNRESOLVED 59)),
     (59, pt_setspecific 3 (\<lambda>v. 1) (chk PTS_UNRESOLVED 66)),
     (66, doing (asg sem (\<lambda>v. 1) (goto 69))),
     (69, pt_poll (\<lambda>v. True) (secs 5) (ends 0)),
     (78, doing (asg sem (\<lambda>v. 0) (goto 81))),
     (81, pt_create new_th 47 (chk PTS_UNRESOLVED 88)),
     (88, pt_poll (\<lambda>v. v ! sem = 0) (secs 1) (goto 92)),
     (92, pt_cancel new_th (chk PTS_UNRESOLVED 99)),
     (99, pt_sleep (secs 5) (goto 101)),
     (101, tst (\<lambda>v. v ! cleanup_flag \<noteq> 1) (exits PTS_FAIL) (exits PTS_PASS))]"

text \<open>Variables 4, 5 and 6 are \<^verbatim>\<open>destructor_flag\<close>, \<^verbatim>\<open>destructor_time\<close> and \<^verbatim>\<open>cleanup_time\<close>.\<close>

definition pthread_cancel_2_3 :: pprog where
  "pthread_cancel_2_3 = process 100 [0, 0, 0, 0, 0, 0, 0] []
    [(42, doing (asg_now 5 (goto 43))),
     (43, doing (asg 4 (\<lambda>v. 1) rets)),
     (51, doing (asg_now 6 (goto 52))),
     (52, doing (asg cleanup_flag (\<lambda>v. 1) rets)),
     (64, pt_setcanceltype True (chk PTS_UNRESOLVED 70)),
     (70, pt_key_create 3 42 (chk PTS_UNRESOLVED 76)),
     (76, pt_setspecific 3 (\<lambda>v. 1) (chk PTS_UNRESOLVED 82)),
     (82, pt_push 51 0 (goto 85)),
     (85, doing (asg sem (\<lambda>v. 1) (goto 88))),
     (88, pt_poll (\<lambda>v. True) (secs 5) (goto 91)),
     (91, pt_pop False 92),
     (92, doing (ends 0)),
     (100, doing (asg sem (\<lambda>v. 0) (goto 103))),
     (103, pt_create new_th 64 (chk PTS_UNRESOLVED 110)),
     (110, pt_poll (\<lambda>v. v ! sem = 0) (secs 1) (goto 114)),
     (114, pt_cancel new_th (chk PTS_UNRESOLVED 121)),
     (121, pt_sleep (secs 5) (goto 123)),
     (123, tst (\<lambda>v. v ! cleanup_flag \<noteq> 1) (exits PTS_FAIL) (goto 128)),
     (128, tst (\<lambda>v. v ! 4 \<noteq> 1) (exits PTS_FAIL) (goto 135)),
     (135, tst (\<lambda>v. v ! 5 - v ! 6 < 0) (exits PTS_FAIL) (exits PTS_PASS))]"

definition pthread_cancel_4_1 :: pprog where
  "pthread_cancel_4_1 = process 43 [0, 0, 0] []
    [(26, pt_setcanceltype True (go 29)),
     (29, doing (asg sem (\<lambda>v. 1) (goto 31))),
     (31, pt_poll (\<lambda>v. True) (secs 1) (goto 34)),
     (34, doing (ends 0)),
     (43, doing (asg sem (\<lambda>v. 0) (goto 46))),
     (46, pt_create new_th 26 (chk PTS_UNRESOLVED 53)),
     (53, pt_poll (\<lambda>v. v ! sem = 0) (secs 1) (goto 57)),
     (57, pt_cancel new_th (\<lambda>ret. if ret = EOK then exits PTS_PASS else if ret = ESRCH then exits PTS_UNRESOLVED else exits PTS_FAIL))]"

definition pthread_cancel_5_1 :: pprog where
  "pthread_cancel_5_1 = process 39 [0, 0, 0] []
    [(29, doing (ends 0)),
     (39, pt_create new_th 29 (chk PTS_UNRESOLVED 46)),
     (46, pt_join new_th (go 50)),
     (50, pt_cancel new_th (\<lambda>ret. if ret \<noteq> EOK \<and> ret \<noteq> ESRCH then exits PTS_FAIL else exits PTS_PASS))]"

definition pthread_setcancelstate_1_1 :: pprog where
  "pthread_setcancelstate_1_1 = process 71 [0, 0, 0] []
    [(42, pt_setcancelstate True (go 43)),
     (43, pt_setcanceltype True (go 45)),
     (45, doing (asg cancel_flag (\<lambda>v. 1) (goto 48))),
     (48, doing (asg sem1 (\<lambda>v. INMAIN) (goto 52))),
     (52, pt_poll (\<lambda>v. v ! sem1 = INMAIN) (secs 1) (goto 58)),
     (58, pt_testcancel (goto 61)),
     (61, doing (asg cancel_flag (\<lambda>v. - 1) (goto 62))),
     (62, doing (ends 0)),
     (71, doing (asg sem1 (\<lambda>v. INTHREAD) (goto 72))),
     (72, doing (asg cancel_flag (\<lambda>v. 0) (goto 75))),
     (75, pt_create new_th 42 (chk PTS_UNRESOLVED 83)),
     (83, pt_poll (\<lambda>v. v ! sem1 = INTHREAD) (secs 1) (goto 86)),
     (86, pt_cancel new_th (chk PTS_UNRESOLVED 94)),
     (94, doing (asg sem1 (\<lambda>v. INTHREAD) (goto 97))),
     (97, pt_join new_th (chk PTS_UNRESOLVED 105)),
     (105, tst (\<lambda>v. v ! cancel_flag < 0) (exits PTS_FAIL) (exits PTS_PASS))]"

definition pthread_setcancelstate_1_2 :: pprog where
  "pthread_setcancelstate_1_2 = process 70 [0, 0, 0] []
    [(41, pt_setcancelstate False (go 43)),
     (43, doing (asg cancel_flag (\<lambda>v. - 1) (goto 46))),
     (46, doing (asg sem1 (\<lambda>v. INMAIN) (goto 50))),
     (50, pt_poll (\<lambda>v. v ! sem1 = INMAIN) (secs 1) (goto 56)),
     (56, pt_testcancel (goto 60)),
     (60, doing (asg cancel_flag (\<lambda>v. 1) (goto 61))),
     (61, doing (ends 0)),
     (70, doing (asg sem1 (\<lambda>v. INTHREAD) (goto 71))),
     (71, doing (asg cancel_flag (\<lambda>v. 0) (goto 74))),
     (74, pt_create new_th 41 (chk PTS_UNRESOLVED 82)),
     (82, pt_poll (\<lambda>v. v ! sem1 = INTHREAD) (secs 1) (goto 85)),
     (85, pt_cancel new_th (chk PTS_UNRESOLVED 93)),
     (93, doing (asg sem1 (\<lambda>v. INTHREAD) (goto 96))),
     (96, pt_join new_th (chk PTS_UNRESOLVED 104)),
     (104, tst (\<lambda>v. v ! cancel_flag \<le> 0) (exits PTS_FAIL) (exits PTS_PASS))]"

definition pthread_setcancelstate_2_1 :: pprog where
  "pthread_setcancelstate_2_1 = process 66 [0, 0, 0] []
    [(38, pt_setcanceltype True (go 40)),
     (40, doing (asg cancel_flag (\<lambda>v. 1) (goto 43))),
     (43, doing (asg sem1 (\<lambda>v. INMAIN) (goto 47))),
     (47, pt_poll (\<lambda>v. v ! sem1 = INMAIN) (secs 1) (goto 53)),
     (53, pt_testcancel (goto 56)),
     (56, doing (asg cancel_flag (\<lambda>v. - 1) (goto 57))),
     (57, doing (ends 0)),
     (66, doing (asg sem1 (\<lambda>v. INTHREAD) (goto 67))),
     (67, doing (asg cancel_flag (\<lambda>v. 0) (goto 70))),
     (70, pt_create new_th 38 (chk PTS_UNRESOLVED 78)),
     (78, pt_poll (\<lambda>v. v ! sem1 = INTHREAD) (secs 1) (goto 81)),
     (81, pt_cancel new_th (chk PTS_UNRESOLVED 89)),
     (89, doing (asg sem1 (\<lambda>v. INTHREAD) (goto 92))),
     (92, pt_join new_th (chk PTS_UNRESOLVED 100)),
     (100, tst (\<lambda>v. v ! cancel_flag < 0) (exits PTS_FAIL) (exits PTS_PASS))]"

text \<open>\<^verbatim>\<open>pthread_setcancelstate\<close> may refuse an unknown state with \<^verbatim>\<open>EINVAL\<close>; \<^verbatim>\<open>ret\<close> is variable 0, with 1 for \<^verbatim>\<open>EINVAL\<close> and 2 for any other error.\<close>

definition pthread_setcancelstate_3_1 :: pprog where
  "pthread_setcancelstate_3_1 = process 45 [0, 0, 0] []
    [(34, may_fail EINVAL (\<lambda>ret. asg 0 (\<lambda>v. if ret = EOK then 0 else if ret = EINVAL then 1 else 2) (goto 36))),
     (36, doing (ends 0)),
     (45, doing (asg 0 (\<lambda>v. 0) (goto 48))),
     (48, pt_create new_th 34 (chk PTS_UNRESOLVED 55)),
     (55, pt_join new_th (chk PTS_UNRESOLVED 63)),
     (63, tst (\<lambda>v. v ! 0 \<noteq> 1 \<and> v ! 0 \<noteq> 0) (exits PTS_FAIL) (exits PTS_PASS))]"

text \<open>Here \<^verbatim>\<open>i\<close> is variable 3.\<close>

definition pthread_setcanceltype_1_1 :: pprog where
  "pthread_setcanceltype_1_1 = process 85 [0, 0, 0, 0] [Normal]
    [(47, doing (asg cleanup_flag (\<lambda>v. 1) rets)),
     (54, pt_setcancelstate True (go 55)),
     (55, pt_setcanceltype True (go 57)),
     (57, pt_push 47 0 (goto 60)),
     (60, doing (asg sem1 (\<lambda>v. INMAIN) (goto 64))),
     (64, pt_lock 0 (chk_ends PTS_UNRESOLVED 73)),
     (73, doing (asg cleanup_flag (\<lambda>v. - 1) (goto 74))),
     (74, pt_pop False 75),
     (75, doing (ends 0)),
     (85, doing (asg sem1 (\<lambda>v. INTHREAD) (goto 86))),
     (86, doing (asg cleanup_flag (\<lambda>v. 0) (goto 89))),
     (89, pt_lock 0 (chk PTS_UNRESOLVED 96)),
     (96, pt_create new_th 54 (chk PTS_UNRESOLVED 104)),
     (104, pt_poll (\<lambda>v. v ! sem1 = INTHREAD) (secs 1) (goto 108)),
     (108, pt_cancel new_th (chk PTS_UNRESOLVED 116)),
     (116, tst (\<lambda>v. v ! cleanup_flag = 0 \<and> v ! 3 \<noteq> 10) (goto 118) (goto 123)),
     (118, pt_sleep (secs 1) (goto 119)),
     (119, doing (asg 3 (\<lambda>v. v ! 3 + 1) (goto 116))),
     (123, pt_unlock 0 (go 127)),
     (127, tst (\<lambda>v. v ! cleanup_flag \<le> 0) (exits PTS_FAIL) (exits PTS_PASS))]"

definition pthread_setcanceltype_1_2 :: pprog where
  "pthread_setcanceltype_1_2 = process 93 [0, 0, 0] [Normal]
    [(50, doing (asg cleanup_flag (\<lambda>v. - 1) rets)),
     (57, pt_setcancelstate True (go 58)),
     (58, pt_setcanceltype False (go 60)),
     (60, pt_push 50 0 (goto 63)),
     (63, doing (asg sem1 (\<lambda>v. INMAIN) (goto 67))),
     (67, pt_lock 0 (chk_ends PTS_UNRESOLVED 75)),
     (75, pt_pop False 76),
     (76, doing (asg cleanup_flag (\<lambda>v. 1) (goto 79))),
     (79, pt_testcancel (goto 83)),
     (83, doing (asg cleanup_flag (\<lambda>v. - 2) (goto 84))),
     (84, doing (ends 0)),
     (93, doing (asg sem1 (\<lambda>v. INTHREAD) (goto 94))),
     (94, doing (asg cleanup_flag (\<lambda>v. 0) (goto 97))),
     (97, pt_lock 0 (chk PTS_UNRESOLVED 104)),
     (104, pt_create new_th 57 (chk PTS_UNRESOLVED 112)),
     (112, pt_poll (\<lambda>v. v ! sem1 = INTHREAD) (secs 1) (goto 116)),
     (116, pt_cancel new_th (chk PTS_FAIL 123)),
     (123, pt_unlock 0 (chk PTS_UNRESOLVED 130)),
     (130, pt_join new_th (chk PTS_UNRESOLVED 138)),
     (138, tst (\<lambda>v. v ! cleanup_flag = - 1) (exits PTS_FAIL) (goto 144)),
     (144, tst (\<lambda>v. v ! cleanup_flag = - 2) (exits PTS_FAIL) (exits PTS_PASS))]"

definition pthread_setcanceltype_2_1 :: pprog where
  "pthread_setcanceltype_2_1 = process 88 [0, 0, 0] [Normal]
    [(46, doing (asg cleanup_flag (\<lambda>v. - 1) rets)),
     (53, pt_setcancelstate True (go 55)),
     (55, pt_push 46 0 (goto 58)),
     (58, doing (asg sem1 (\<lambda>v. INMAIN) (goto 62))),
     (62, pt_lock 0 (chk_ends PTS_UNRESOLVED 70)),
     (70, pt_pop False 71),
     (71, doing (asg cleanup_flag (\<lambda>v. 1) (goto 74))),
     (74, pt_testcancel (goto 78)),
     (78, doing (asg cleanup_flag (\<lambda>v. - 2) (goto 79))),
     (79, doing (ends 0)),
     (88, doing (asg sem1 (\<lambda>v. INTHREAD) (goto 89))),
     (89, doing (asg cleanup_flag (\<lambda>v. 0) (goto 92))),
     (92, pt_lock 0 (chk PTS_UNRESOLVED 99)),
     (99, pt_create new_th 53 (chk PTS_UNRESOLVED 107)),
     (107, pt_poll (\<lambda>v. v ! sem1 = INTHREAD) (secs 1) (goto 111)),
     (111, pt_cancel new_th (chk PTS_UNRESOLVED 118)),
     (118, pt_unlock 0 (chk PTS_UNRESOLVED 125)),
     (125, pt_join new_th (chk PTS_UNRESOLVED 133)),
     (133, tst (\<lambda>v. v ! cleanup_flag = - 1) (exits PTS_FAIL) (goto 139)),
     (139, tst (\<lambda>v. v ! cleanup_flag = - 2) (exits PTS_FAIL) (exits PTS_PASS))]"

definition pthread_testcancel_1_1 :: pprog where
  "pthread_testcancel_1_1 = process 93 [0, 0, 0] [Normal]
    [(50, doing (asg cleanup_flag (\<lambda>v. - 1) rets)),
     (57, pt_setcancelstate True (go 58)),
     (58, pt_setcanceltype False (go 60)),
     (60, pt_push 50 0 (goto 63)),
     (63, doing (asg sem1 (\<lambda>v. INMAIN) (goto 67))),
     (67, pt_lock 0 (chk_ends PTS_UNRESOLVED 75)),
     (75, pt_pop False 76),
     (76, doing (asg cleanup_flag (\<lambda>v. 1) (goto 79))),
     (79, pt_testcancel (goto 83)),
     (83, doing (asg cleanup_flag (\<lambda>v. - 2) (goto 84))),
     (84, doing (ends 0)),
     (93, doing (asg sem1 (\<lambda>v. INTHREAD) (goto 94))),
     (94, doing (asg cleanup_flag (\<lambda>v. 0) (goto 97))),
     (97, pt_lock 0 (chk PTS_UNRESOLVED 104)),
     (104, pt_create new_th 57 (chk PTS_UNRESOLVED 112)),
     (112, pt_poll (\<lambda>v. v ! sem1 = INTHREAD) (secs 1) (goto 116)),
     (116, pt_cancel new_th (chk PTS_FAIL 123)),
     (123, pt_unlock 0 (chk PTS_UNRESOLVED 130)),
     (130, pt_join new_th (chk PTS_UNRESOLVED 138)),
     (138, tst (\<lambda>v. v ! cleanup_flag = - 1) (exits PTS_UNRESOLVED) (goto 144)),
     (144, tst (\<lambda>v. v ! cleanup_flag = - 2) (exits PTS_FAIL) (exits PTS_PASS))]"

definition pthread_testcancel_2_1 :: pprog where
  "pthread_testcancel_2_1 = process 66 [0, 0, 0] []
    [(37, pt_setcancelstate False (go 39)),
     (39, doing (asg cancel_flag (\<lambda>v. - 1) (goto 42))),
     (42, doing (asg sem1 (\<lambda>v. INMAIN) (goto 46))),
     (46, pt_poll (\<lambda>v. v ! sem1 = INMAIN) (secs 1) (goto 52)),
     (52, pt_testcancel (goto 56)),
     (56, doing (asg cancel_flag (\<lambda>v. 1) (goto 57))),
     (57, doing (ends 0)),
     (66, doing (asg sem1 (\<lambda>v. INTHREAD) (goto 67))),
     (67, doing (asg cancel_flag (\<lambda>v. 0) (goto 70))),
     (70, pt_create new_th 37 (chk PTS_UNRESOLVED 78)),
     (78, pt_poll (\<lambda>v. v ! sem1 = INTHREAD) (secs 1) (goto 81)),
     (81, pt_cancel new_th (chk PTS_UNRESOLVED 89)),
     (89, doing (asg sem1 (\<lambda>v. INTHREAD) (goto 92))),
     (92, pt_join new_th (chk PTS_UNRESOLVED 100)),
     (100, tst (\<lambda>v. v ! cancel_flag \<le> 0) (exits PTS_FAIL) (exits PTS_PASS))]"

section \<open>Cleanup handlers\<close>

abbreviation CLEANUP_NOTCALLED :: int where "CLEANUP_NOTCALLED \<equiv> 0"
abbreviation CLEANUP_CALLED :: int where "CLEANUP_CALLED \<equiv> 1"

definition pthread_cleanup_pop_1_1 :: pprog where
  "pthread_cleanup_pop_1_1 = process 66 [0, 0, 0] []
    [(39, doing (asg_arg cleanup_flag rets)),
     (46, pt_push 39 CLEANUP_CALLED (goto 47)),
     (47, pt_pop True 50),
     (50, doing (asg sem1 (\<lambda>v. INMAIN) (goto 54))),
     (54, pt_poll (\<lambda>v. v ! sem1 = INMAIN) (secs 1) (goto 57)),
     (57, doing (ends 0)),
     (66, doing (asg sem1 (\<lambda>v. INTHREAD) (goto 67))),
     (67, doing (asg cleanup_flag (\<lambda>v. CLEANUP_NOTCALLED) (goto 70))),
     (70, pt_create new_th 46 (chk PTS_UNRESOLVED 77)),
     (77, pt_poll (\<lambda>v. v ! sem1 = INTHREAD) (secs 1) (goto 81)),
     (81, tst (\<lambda>v. v ! cleanup_flag \<noteq> CLEANUP_CALLED) (exits PTS_FAIL) (goto 88)),
     (88, doing (asg sem1 (\<lambda>v. INTHREAD) (goto 91))),
     (91, pt_join new_th (\<lambda>rc. if rc \<noteq> EOK then exits PTS_UNRESOLVED else exits PTS_PASS))]"

definition pthread_cleanup_pop_1_2 :: pprog where
  "pthread_cleanup_pop_1_2 = process 66 [0, 0, 0] []
    [(39, doing (asg_arg cleanup_flag rets)),
     (46, pt_push 39 CLEANUP_CALLED (goto 47)),
     (47, pt_pop False 50),
     (50, doing (asg sem1 (\<lambda>v. INMAIN) (goto 54))),
     (54, pt_poll (\<lambda>v. v ! sem1 = INMAIN) (secs 1) (goto 57)),
     (57, doing (ends 0)),
     (66, doing (asg sem1 (\<lambda>v. INTHREAD) (goto 67))),
     (67, doing (asg cleanup_flag (\<lambda>v. CLEANUP_NOTCALLED) (goto 70))),
     (70, pt_create new_th 46 (chk PTS_UNRESOLVED 77)),
     (77, pt_poll (\<lambda>v. v ! sem1 = INTHREAD) (secs 1) (goto 81)),
     (81, tst (\<lambda>v. v ! cleanup_flag = CLEANUP_CALLED) (exits PTS_FAIL) (goto 88)),
     (88, doing (asg sem1 (\<lambda>v. INTHREAD) (goto 91))),
     (91, pt_join new_th (\<lambda>rc. if rc \<noteq> EOK then exits PTS_UNRESOLVED else exits PTS_PASS))]"

text \<open>The variables \<^verbatim>\<open>i\<close> (0) and \<^verbatim>\<open>cleanup_flag[3]\<close> (3 to 5).\<close>

definition pthread_cleanup_pop_1_3 :: pprog where
  "pthread_cleanup_pop_1_3 = process 76 [0, 0, 0, 0, 0, 0] []
    [(36, doing (asg_at 3 0 (\<lambda>v. 1) (goto 37))),
     (37, doing (asg 0 (\<lambda>v. v ! 0 + 1) rets)),
     (43, doing (asg_at 3 0 (\<lambda>v. 2) (goto 44))),
     (44, doing (asg 0 (\<lambda>v. v ! 0 + 1) rets)),
     (50, doing (asg_at 3 0 (\<lambda>v. 3) (goto 51))),
     (51, doing (asg 0 (\<lambda>v. v ! 0 + 1) rets)),
     (58, pt_push 36 0 (goto 59)),
     (59, pt_push 43 0 (goto 60)),
     (60, pt_push 50 0 (goto 61)),
     (61, pt_pop True 62),
     (62, pt_pop True 63),
     (63, pt_pop True 65),
     (65, doing (ends 0)),
     (76, doing (asg 0 (\<lambda>v. 0) (goto 79))),
     (79, pt_create new_th 58 (chk PTS_UNRESOLVED 86)),
     (86, pt_join new_th (chk PTS_UNRESOLVED 94)),
     (94, tst (\<lambda>v. v ! 3 \<noteq> 3 \<or> v ! 4 \<noteq> 2 \<or> v ! 5 \<noteq> 1) (exits PTS_FAIL) (exits PTS_PASS))]"

definition pthread_cleanup_push_1_1 :: pprog where
  "pthread_cleanup_push_1_1 = process 61 [0, 0, 0] []
    [(42, doing (asg_arg cleanup_flag rets)),
     (49, pt_push 42 CLEANUP_CALLED (goto 51)),
     (51, doing (ends 0)),
     (61, doing (asg cleanup_flag (\<lambda>v. CLEANUP_NOTCALLED) (goto 64))),
     (64, pt_create new_th 49 (chk PTS_UNRESOLVED 71)),
     (71, pt_join new_th (chk PTS_UNRESOLVED 78)),
     (78, tst (\<lambda>v. v ! cleanup_flag \<noteq> CLEANUP_CALLED) (exits PTS_FAIL) (exits PTS_PASS))]"

definition pthread_cleanup_push_1_2 :: pprog where
  "pthread_cleanup_push_1_2 = process 84 [0, 0, 0] []
    [(45, doing (asg_arg cleanup_flag (goto 46))),
     (46, doing (asg sem1 (\<lambda>v. INMAIN) rets)),
     (53, pt_setcancelstate True (go 54)),
     (54, pt_setcanceltype True (go 56)),
     (56, pt_push 45 CLEANUP_CALLED (goto 59)),
     (59, doing (asg sem1 (\<lambda>v. INMAIN) (goto 63))),
     (63, pt_poll (\<lambda>v. v ! sem1 = INMAIN) (secs 1) (goto 69)),
     (69, pt_sleep (secs 10) (goto 73)),
     (73, pt_pop False 74),
     (74, doing (ends PTS_UNRESOLVED)),
     (84, doing (asg sem1 (\<lambda>v. INTHREAD) (goto 85))),
     (85, doing (asg cleanup_flag (\<lambda>v. CLEANUP_NOTCALLED) (goto 88))),
     (88, pt_create new_th 53 (chk PTS_UNRESOLVED 96)),
     (96, pt_poll (\<lambda>v. v ! sem1 = INTHREAD) (secs 1) (goto 99)),
     (99, pt_cancel new_th (chk PTS_UNRESOLVED 107)),
     (107, doing (asg sem1 (\<lambda>v. INTHREAD) (goto 110))),
     (110, pt_join_value new_th (\<lambda>rc value_ptr. if rc \<noteq> EOK \<or> value_ptr = PTS_UNRESOLVED then exits PTS_UNRESOLVED else goto 125)),
     (125, tst (\<lambda>v. v ! cleanup_flag \<noteq> CLEANUP_CALLED) (exits PTS_FAIL) (exits PTS_PASS))]"

definition pthread_cleanup_push_1_3 :: pprog where
  "pthread_cleanup_push_1_3 = process 60 [0, 0, 0] []
    [(41, doing (asg_arg cleanup_flag rets)),
     (48, pt_push 41 CLEANUP_CALLED (goto 49)),
     (49, pt_pop True 51),
     (51, doing (ends 0)),
     (60, doing (asg cleanup_flag (\<lambda>v. CLEANUP_NOTCALLED) (goto 63))),
     (63, pt_create new_th 48 (chk PTS_UNRESOLVED 70)),
     (70, pt_join new_th (chk PTS_UNRESOLVED 77)),
     (77, tst (\<lambda>v. v ! cleanup_flag \<noteq> CLEANUP_CALLED) (exits PTS_FAIL) (exits PTS_PASS))]"

section \<open>Thread-specific data\<close>

text \<open>Variable 0 is \<^verbatim>\<open>i\<close>, the keys start at 3.\<close>

abbreviation KEY_VALUE :: int where "KEY_VALUE \<equiv> 0"

definition pthread_key_create_1_1 :: pprog where
  "pthread_key_create_1_1 = process 39 (replicate 13 0) []
    [(39, tst (\<lambda>v. v ! 0 < 10) (goto 41) (asg 0 (\<lambda>v. 0) (goto 56))),
     (41, idx 3 0 (\<lambda>x. pt_key_create x 0 (chk PTS_UNRESOLVED 47))),
     (47, idx 3 0 (\<lambda>x. pt_setspecific x (\<lambda>v. v ! 0 + KEY_VALUE) (\<lambda>rc. if rc \<noteq> EOK then exits PTS_UNRESOLVED else asg 0 (\<lambda>v. v ! 0 + 1) (goto 39)))),
     (56, tst (\<lambda>v. v ! 0 < 10) (goto 58) (exits PTS_PASS)),
     (58, idx 3 0 (\<lambda>x F t s. pt_getspecific x (\<lambda>rc. if rc \<noteq> p_var s ! 0 + KEY_VALUE then exits PTS_FAIL else goto 65) F t s)),
     (65, idx 3 0 (\<lambda>x. pt_key_delete x (\<lambda>rc. if rc \<noteq> EOK then exits PTS_UNRESOLVED else asg 0 (\<lambda>v. v ! 0 + 1) (goto 56))))]"

definition pthread_key_create_1_2 :: pprog where
  "pthread_key_create_1_2 = process 52 (replicate 13 0) []
    [(37, idx 3 0 (\<lambda>x. pt_setspecific x (\<lambda>v. 1000) (chk_ends PTS_FAIL 43))),
     (43, doing (ends 0)),
     (52, each 0 10 3 (\<lambda>x. pt_key_create x 0) PTS_UNRESOLVED 63),
     (63, tst (\<lambda>v. v ! 0 < 10) (goto 66) (exits PTS_PASS)),
     (66, pt_create new_th 37 (chk PTS_UNRESOLVED 73)),
     (73, pt_join_value new_th (\<lambda>rc value_ptr. if rc \<noteq> EOK then exits PTS_UNRESOLVED else if value_ptr = PTS_FAIL then exits PTS_FAIL
            else asg 0 (\<lambda>v. v ! 0 + 1) (goto 63)))]"

text \<open>\<^verbatim>\<open>dest_cnt\<close> is variable 0, the key variable 3.\<close>

definition pthread_key_create_3_1 :: pprog where
  "pthread_key_create_3_1 = process 60 [0, 0, 0, 0] []
    [(37, doing (asg 0 (\<lambda>v. v ! 0 + 1) rets)),
     (45, pt_setspecific 3 (\<lambda>v. 1000) (chk_ends PTS_UNRESOLVED 52)),
     (52, doing (ends 0)),
     (60, doing (asg 0 (\<lambda>v. 0) (goto 63))),
     (63, pt_key_create 3 37 (chk_ends PTS_UNRESOLVED 70)),
     (70, pt_create new_th 45 (chk PTS_UNRESOLVED 77)),
     (77, pt_join new_th (chk PTS_UNRESOLVED 84)),
     (84, tst (\<lambda>v. v ! 0 = 0) (exits PTS_FAIL) (exits PTS_PASS))]"

definition pthread_key_delete_1_1 :: pprog where
  "pthread_key_delete_1_1 = process 38 (replicate 13 0) []
    [(38, tst (\<lambda>v. v ! 0 < 10) (goto 40) (exits PTS_PASS)),
     (40, idx 3 0 (\<lambda>x. pt_key_create x 0 (chk PTS_UNRESOLVED 46))),
     (46, idx 3 0 (\<lambda>x. pt_key_delete x (\<lambda>rc. if rc \<noteq> EOK then exits PTS_FAIL else asg 0 (\<lambda>v. v ! 0 + 1) (goto 38))))]"

definition pthread_key_delete_1_2 :: pprog where
  "pthread_key_delete_1_2 = process 39 (replicate 13 0) []
    [(39, tst (\<lambda>v. v ! 0 < 10) (goto 41) (exits PTS_PASS)),
     (41, idx 3 0 (\<lambda>x. pt_key_create x 0 (chk PTS_UNRESOLVED 47))),
     (47, idx 3 0 (\<lambda>x. pt_setspecific x (\<lambda>v. 100 + v ! 0) (chk PTS_UNRESOLVED 53))),
     (53, idx 3 0 (\<lambda>x. pt_key_delete x (\<lambda>rc. if rc \<noteq> EOK then exits PTS_FAIL else asg 0 (\<lambda>v. v ! 0 + 1) (goto 39))))]"

definition pthread_key_delete_2_1 :: pprog where
  "pthread_key_delete_2_1 = process 63 [0, 0, 0, 0] []
    [(35, doing (asg 0 (\<lambda>v. v ! 0 + 1) (goto 37))),
     (37, pt_key_delete 3 (\<lambda>rc. if rc \<noteq> EOK then asg 0 (\<lambda>v. v ! 0 + 1) rets else rets)),
     (48, pt_setspecific 3 (\<lambda>v. 1000) (chk_ends PTS_UNRESOLVED 55)),
     (55, doing (ends 0)),
     (63, doing (asg 0 (\<lambda>v. 0) (goto 66))),
     (66, pt_key_create 3 35 (chk_ends PTS_UNRESOLVED 73)),
     (73, pt_create new_th 48 (chk PTS_UNRESOLVED 80)),
     (80, pt_join new_th (chk PTS_UNRESOLVED 88)),
     (88, tst (\<lambda>v. v ! 0 \<noteq> 1) (goto 90) (exits PTS_PASS)),
     (90, tst (\<lambda>v. v ! 0 = 0) (exits PTS_UNRESOLVED) (exits PTS_FAIL))]"

definition pthread_getspecific_1_1 :: pprog where
  "pthread_getspecific_1_1 = process 36 (replicate 13 0) []
    [(36, tst (\<lambda>v. v ! 0 < 10) (goto 38) (asg 0 (\<lambda>v. 0) (goto 53))),
     (38, idx 3 0 (\<lambda>x. pt_key_create x 0 (chk PTS_UNRESOLVED 44))),
     (44, idx 3 0 (\<lambda>x. pt_setspecific x (\<lambda>v. v ! 0 + KEY_VALUE) (\<lambda>rc. if rc \<noteq> EOK then exits PTS_UNRESOLVED else asg 0 (\<lambda>v. v ! 0 + 1) (goto 36)))),
     (53, tst (\<lambda>v. v ! 0 < 10) (goto 55) (exits PTS_PASS)),
     (55, idx 3 0 (\<lambda>x F t s. pt_getspecific x (\<lambda>rc. if rc \<noteq> p_var s ! 0 + KEY_VALUE then exits PTS_FAIL else goto 62) F t s)),
     (62, idx 3 0 (\<lambda>x. pt_key_delete x (\<lambda>rc. if rc \<noteq> EOK then exits PTS_UNRESOLVED else asg 0 (\<lambda>v. v ! 0 + 1) (goto 53))))]"

definition pthread_getspecific_3_1 :: pprog where
  "pthread_getspecific_3_1 = process 31 [0, 0, 0, 0] []
    [(31, pt_key_create 3 0 (chk PTS_UNRESOLVED 37)),
     (37, pt_getspecific 3 (\<lambda>rc. if rc \<noteq> 0 then exits PTS_FAIL else goto 44)),
     (44, pt_key_delete 3 (\<lambda>rc. if rc \<noteq> EOK then exits PTS_UNRESOLVED else exits PTS_PASS))]"

definition pthread_setspecific_1_1 :: pprog where
  "pthread_setspecific_1_1 = process 37 (replicate 13 0) []
    [(37, tst (\<lambda>v. v ! 0 < 10) (goto 39) (asg 0 (\<lambda>v. 0) (goto 54))),
     (39, idx 3 0 (\<lambda>x. pt_key_create x 0 (chk PTS_UNRESOLVED 45))),
     (45, idx 3 0 (\<lambda>x. pt_setspecific x (\<lambda>v. v ! 0 + KEY_VALUE) (\<lambda>rc. if rc \<noteq> EOK then exits PTS_FAIL else asg 0 (\<lambda>v. v ! 0 + 1) (goto 37)))),
     (54, tst (\<lambda>v. v ! 0 < 10) (goto 56) (exits PTS_PASS)),
     (56, idx 3 0 (\<lambda>x F t s. pt_getspecific x (\<lambda>rc. if rc \<noteq> p_var s ! 0 + KEY_VALUE then exits PTS_FAIL else goto 63) F t s)),
     (63, idx 3 0 (\<lambda>x. pt_key_delete x (\<lambda>rc. if rc \<noteq> EOK then exits PTS_UNRESOLVED else asg 0 (\<lambda>v. v ! 0 + 1) (goto 54))))]"

text \<open>\<^verbatim>\<open>rc1\<close> and \<^verbatim>\<open>rc2\<close> are variables 0 and 1.\<close>

definition pthread_setspecific_1_2 :: pprog where
  "pthread_setspecific_1_2 = process 61 [0, 0, 0, 0] []
    [(41, pt_setspecific 3 (\<lambda>v. 200) (chk_ends PTS_FAIL 49)),
     (49, pt_getspecific 3 (\<lambda>rc2. asg 1 (\<lambda>v. rc2) (goto 51))),
     (51, doing (ends 0)),
     (61, pt_key_create 3 0 (chk PTS_UNRESOLVED 68)),
     (68, pt_setspecific 3 (\<lambda>v. 100) (chk PTS_FAIL 75)),
     (75, pt_create new_th 41 (chk PTS_UNRESOLVED 82)),
     (82, pt_join new_th (go 85)),
     (85, pt_getspecific 3 (\<lambda>rc1. asg 0 (\<lambda>v. rc1) (goto 89))),
     (89, tst (\<lambda>v. v ! 0 \<noteq> 100) (exits PTS_FAIL) (goto 95)),
     (95, tst (\<lambda>v. v ! 1 \<noteq> 200) (exits PTS_FAIL) (exits PTS_PASS))]"

section \<open>Initialisation\<close>

text \<open>\<^verbatim>\<open>init_flag\<close> and \<^verbatim>\<open>control\<close> are variable 0.\<close>

definition pthread_once_1_1 :: pprog where
  "pthread_once_1_1 = (process 42 [0] []
    [(34, doing (asg 0 (\<lambda>v. v ! 0 + 1) rets)),
     (42, doing (asg 0 (\<lambda>v. 0) (goto 45))),
     (45, pt_once 0 34 (goto 49)),
     (49, pt_once 0 34 (goto 51)),
     (51, tst (\<lambda>v. v ! 0 \<noteq> 1) (exits PTS_FAIL) (exits PTS_PASS))])\<lparr>g_once := 1\<rparr>"

text \<open>In these programs \<^verbatim>\<open>pthread_once\<close> returns 0.\<close>

definition pthread_once_1_2 :: pprog where
  "pthread_once_1_2 = (process 100 [0] []
    [(85, doing (asg 0 (\<lambda>v. 1) rets)),
     (100, doing (asg 0 (\<lambda>v. 0) (goto 103))),
     (103, pt_once 0 85 (goto 110)),
     (110, tst (\<lambda>v. v ! 0 \<noteq> 1) (exits PTS_FAIL) (exits PTS_PASS))])\<lparr>g_once := 1\<rparr>"

definition pthread_once_2_1 :: pprog where
  "pthread_once_2_1 = (process 100 [0] []
    [(83, pt_sleep (secs 1) (goto 85)),
     (85, doing (asg 0 (\<lambda>v. 1) rets)),
     (100, doing (asg 0 (\<lambda>v. 0) (goto 103))),
     (103, pt_once 0 83 (goto 110)),
     (110, tst (\<lambda>v. v ! 0 \<noteq> 1) (exits PTS_FAIL) (exits PTS_PASS))])\<lparr>g_once := 1\<rparr>"

definition pthread_once_3_1 :: pprog where
  "pthread_once_3_1 = (process 72 [0, 0, 0] []
    [(38, doing (asg 0 (\<lambda>v. 1) (goto 42))),
     (42, pt_sleep (secs 10) (goto 46)),
     (46, doing (asg 0 (\<lambda>v. - 1) rets)),
     (54, pt_setcanceltype True (go 56)),
     (56, pt_once 0 38 (ends 0)),
     (64, doing (asg 0 (\<lambda>v. 1) rets)),
     (72, doing (asg 0 (\<lambda>v. 0) (goto 75))),
     (75, pt_create new_th 54 (chk PTS_UNRESOLVED 82)),
     (82, pt_poll (\<lambda>v. v ! 0 = 0) (secs 1) (goto 86)),
     (86, pt_cancel new_th (chk PTS_UNRESOLVED 93)),
     (93, pt_join new_th (go 97)),
     (97, tst (\<lambda>v. v ! 0 = - 1) (exits PTS_UNRESOLVED) (goto 103)),
     (103, doing (asg 0 (\<lambda>v. 0) (goto 107))),
     (107, pt_once 0 64 (goto 111)),
     (111, tst (\<lambda>v. v ! 0 \<noteq> 1) (exits PTS_FAIL) (exits PTS_PASS))])\<lparr>g_once := 1\<rparr>"

end
