(* ===== verification/Pth_Sync_Tests.thy ===== *)
theory Pth_Sync_Tests
  imports Pth_Tests
begin

text \<open>
  Conformance programs for mutexes, condition variables, barriers and spin locks, as lists of statements with their line numbers in the file
  \<^verbatim>\<open>conformance/interfaces/<interface>/<number>.c\<close> named by the definition. The macros \<^verbatim>\<open>UNRESOLVED\<close>, \<^verbatim>\<open>FAILED\<close> and \<^verbatim>\<open>PASSED\<close> of some files exit with the
  result code. A local variable of a thread function is in the locals of the thread, one of \<^verbatim>\<open>main\<close> is a variable of the process. Times are in microseconds.
  Initialising and destroying condition variables and attribute objects succeeds and changes nothing here.
\<close>

text \<open>Error numbers that the programs store in a variable.\<close>

fun num :: "errno \<Rightarrow> int" where
  "num EOK = 0"
| "num EPERM = 1"
| "num EBUSY = 16"
| "num EINVAL = 22"
| "num EDEADLK = 35"
| "num ETIMEDOUT = 110"
| "num e = 11"

abbreviation mtx :: nat where "mtx \<equiv> 0"

section \<open>Mutexes\<close>

definition pthread_mutex_lock_2_1 :: pprog where
  "pthread_mutex_lock_2_1 = process 24 [] [Normal]
    [(24, pt_mutex_init mtx Normal (chk PTS_UNRESOLVED 30)),
     (30, pt_lock mtx (\<lambda>rc. if rc = EOK then goto 31 else if rc = EINVAL \<or> rc = EAGAIN \<or> rc = EDEADLK then exits PTS_UNRESOLVED else exits PTS_FAIL)),
     (31, pt_unlock mtx (\<lambda>rc. exits PTS_PASS))]"

definition pthread_mutex_lock_4_1 :: pprog where
  "pthread_mutex_lock_4_1 = (process 153 [0, 0, 0] [Normal]
    [(106, pt_trylock mtx (\<lambda>ret. if ret = EOK then exits PTS_FAIL else goto 114)),
     (114, pt_sem_post 0 (chk PTS_UNRESOLVED 117)),
     (117, pt_lock mtx (chk PTS_UNRESOLVED 124)),
     (124, pt_sem_post 0 (chk PTS_UNRESOLVED 128)),
     (128, pt_unlock mtx (chk PTS_UNRESOLVED 135)),
     (135, doing (ends 0)),
     (153, pt_sem_init 0 0 (chk PTS_UNRESOLVED 157)),
     (157, ok_call (chk PTS_UNRESOLVED 160)),
     (160, ok_call (chk PTS_UNRESOLVED 163)),
     (163, pt_mutex_init mtx Recursive (chk PTS_UNRESOLVED 166)),
     (166, ok_call (chk PTS_UNRESOLVED 172)),
     (172, pt_lock mtx (chk PTS_UNRESOLVED 175)),
     (175, pt_lock mtx (chk PTS_FAIL 180)),
     (180, pt_unlock mtx (chk PTS_FAIL 190)),
     (190, pt_create new_th 106 (chk PTS_UNRESOLVED 194)),
     (194, pt_sem_wait 0 (chk PTS_UNRESOLVED 202)),
     (202, pt_unlock mtx (chk PTS_FAIL 206)),
     (206, pt_sem_wait 0 (chk PTS_UNRESOLVED 210)),
     (210, pt_unlock mtx (\<lambda>ret. if ret = EOK then exits PTS_FAIL else goto 215)),
     (215, pt_join new_th (chk PTS_UNRESOLVED 224)),
     (224, tst (\<lambda>v. v ! 0 < 50) (goto 226) (asg 0 (\<lambda>v. 0) (goto 229))),
     (226, pt_lock mtx (\<lambda>ret. if ret \<noteq> EOK then exits PTS_FAIL else asg 0 (\<lambda>v. v ! 0 + 1) (goto 224))),
     (229, tst (\<lambda>v. v ! 0 < 50) (goto 231) (goto 235)),
     (231, pt_unlock mtx (\<lambda>ret. if ret \<noteq> EOK then exits PTS_FAIL else asg 0 (\<lambda>v. v ! 0 + 1) (goto 229))),
     (235, pt_unlock mtx (\<lambda>ret. if ret = EOK then exits PTS_FAIL else goto 243)),
     (243, pt_mutex_destroy mtx (\<lambda>ret. if ret \<noteq> EOK then exits PTS_UNRESOLVED else exits PTS_PASS))])\<lparr>g_sem := 1\<rparr>"

text \<open>Variables: \<^verbatim>\<open>t1_start\<close>, \<^verbatim>\<open>t1_pause\<close>, the thread, \<^verbatim>\<open>i\<close>.\<close>

definition pthread_mutex_trylock_1_1 :: pprog where
  "pthread_mutex_trylock_1_1 = process 42 [0, 1, 0, 0] [Normal]
    [(42, pt_create new_th 90 (go 43)),
     (43, pt_poll (\<lambda>v. v ! 0 = 0) (secs 1) (goto 47)),
     (47, pt_trylock mtx (\<lambda>rc. if rc \<noteq> EBUSY then exits PTS_FAIL else goto 55)),
     (55, doing (asg 1 (\<lambda>v. 0) (goto 58))),
     (58, tst (\<lambda>v. v ! 3 < 5) (goto 59) (goto 75)),
     (59, pt_trylock mtx (\<lambda>rc. if rc = EOK then goto 61 else if rc = EBUSY then goto 65 else exits PTS_UNRESOLVED)),
     (61, pt_unlock mtx (go 75)),
     (65, pt_sleep (secs 1) (asg 3 (\<lambda>v. v ! 3 + 1) (goto 58))),
     (75, pt_join new_th (go 76)),
     (76, pt_mutex_destroy mtx (go 78)),
     (78, tst (\<lambda>v. 5 \<le> v ! 3) (exits PTS_UNRESOLVED) (exits PTS_PASS)),
     (90, pt_lock mtx (chk_ends PTS_UNRESOLVED 94)),
     (94, doing (asg 0 (\<lambda>v. 1) (goto 96))),
     (96, pt_poll (\<lambda>v. v ! 1 \<noteq> 0) (secs 1) (goto 99)),
     (99, pt_unlock mtx (chk_ends PTS_UNRESOLVED 104)),
     (104, doing (ends 0))]"

definition pthread_mutex_trylock_3_1 :: pprog where
  "pthread_mutex_trylock_3_1 = process 24 [] [Normal]
    [(24, pt_mutex_init mtx Normal (chk PTS_UNRESOLVED 30)),
     (30, pt_trylock mtx (\<lambda>rc. if rc = EOK then goto 31 else exits PTS_FAIL)),
     (31, pt_unlock mtx (\<lambda>rc. exits PTS_PASS))]"

definition pthread_mutex_trylock_4_1 :: pprog where
  "pthread_mutex_trylock_4_1 = process 30 [] [Normal]
    [(30, pt_lock mtx (chk PTS_UNRESOLVED 35)),
     (35, pt_trylock mtx (\<lambda>rc. if rc \<noteq> EBUSY then exits PTS_FAIL else goto 42)),
     (42, pt_unlock mtx (go 43)),
     (43, pt_mutex_destroy mtx (\<lambda>rc. exits PTS_PASS))]"

definition pthread_mutex_unlock_1_1 :: pprog where
  "pthread_mutex_unlock_1_1 = process 32 [] [Normal]
    [(32, pt_lock mtx (chk PTS_UNRESOLVED 38)),
     (38, pt_unlock mtx (chk PTS_FAIL 44)),
     (44, pt_trylock mtx (chk PTS_FAIL 50)),
     (50, pt_unlock mtx (\<lambda>rc. if rc \<noteq> EOK then exits PTS_FAIL else exits PTS_PASS))]"

definition pthread_mutex_unlock_3_1 :: pprog where
  "pthread_mutex_unlock_3_1 = process 24 [] [Normal]
    [(24, pt_mutex_init mtx Normal (chk PTS_UNRESOLVED 29)),
     (29, pt_lock mtx (chk PTS_UNRESOLVED 35)),
     (35, pt_unlock mtx (\<lambda>rc. if rc = EOK then exits PTS_PASS
            else if rc = EPERM \<or> rc = EINVAL \<or> rc = EAGAIN then exits PTS_UNRESOLVED else exits PTS_FAIL))]"

definition pthread_mutex_unlock_5_1 :: pprog where
  "pthread_mutex_unlock_5_1 = process 116 [0, 0, 0] [Normal]
    [(93, pt_unlock mtx (\<lambda>ret. if ret = EOK then exits PTS_UNRESOLVED else goto 100)),
     (100, doing (ends 0)),
     (116, ok_call (chk PTS_UNRESOLVED 120)),
     (120, ok_call (chk PTS_UNRESOLVED 124)),
     (124, pt_mutex_init mtx Recursive (chk PTS_UNRESOLVED 132)),
     (132, pt_lock mtx (chk PTS_UNRESOLVED 137)),
     (137, ok_call (chk PTS_UNRESOLVED 145)),
     (145, pt_create new_th 93 (chk PTS_UNRESOLVED 150)),
     (150, pt_join new_th (chk PTS_UNRESOLVED 159)),
     (159, pt_unlock mtx (\<lambda>ret. if ret \<noteq> EOK then exits PTS_UNRESOLVED else exits PTS_PASS))]"

definition pthread_mutex_unlock_5_2 :: pprog where
  "pthread_mutex_unlock_5_2 = process 100 [] [Normal]
    [(100, ok_call (chk PTS_UNRESOLVED 104)),
     (104, ok_call (chk PTS_UNRESOLVED 108)),
     (108, pt_mutex_init mtx Recursive (chk PTS_UNRESOLVED 116)),
     (116, pt_unlock mtx (\<lambda>ret. if ret = EOK then exits PTS_FAIL else goto 124)),
     (124, pt_lock mtx (chk PTS_UNRESOLVED 127)),
     (127, pt_lock mtx (chk PTS_UNRESOLVED 130)),
     (130, pt_unlock mtx (chk PTS_UNRESOLVED 133)),
     (133, pt_unlock mtx (chk PTS_UNRESOLVED 138)),
     (138, ok_call (chk PTS_UNRESOLVED 142)),
     (142, pt_unlock mtx (\<lambda>ret. if ret = EOK then exits PTS_FAIL else exits PTS_PASS))]"

definition pthread_mutex_init_1_1 :: pprog where
  "pthread_mutex_init_1_1 = process 30 [] [Normal, Normal]
    [(30, ok_call (chk PTS_UNRESOLVED 36)),
     (36, pt_mutex_init 0 Normal (chk PTS_FAIL 43)),
     (43, pt_mutex_init 1 Normal (\<lambda>rc. if rc \<noteq> EOK then exits PTS_FAIL else exits PTS_PASS))]"

definition pthread_mutex_init_2_1 :: pprog where
  "pthread_mutex_init_2_1 = process 25 [] [Normal]
    [(25, pt_mutex_init mtx Normal (chk PTS_FAIL 32)),
     (32, pt_lock mtx (chk PTS_FAIL 38)),
     (38, pt_sleep (secs 1) (goto 41)),
     (41, pt_unlock mtx (chk PTS_UNRESOLVED 47)),
     (47, pt_mutex_destroy mtx (\<lambda>rc. if rc \<noteq> EOK then exits PTS_UNRESOLVED else exits PTS_PASS))]"

definition pthread_mutex_init_4_1 :: pprog where
  "pthread_mutex_init_4_1 = process 25 [] [Normal]
    [(25, ok_call (chk PTS_UNRESOLVED 31)),
     (31, pt_mutex_init mtx Normal (\<lambda>rc. if rc = EOK then exits PTS_PASS
            else if rc = ENOMEM \<or> rc = EAGAIN \<or> rc = EPERM \<or> rc = EBUSY then exits PTS_UNRESOLVED else exits PTS_FAIL))]"

definition pthread_mutex_destroy_1_1 :: pprog where
  "pthread_mutex_destroy_1_1 = process 27 [] [Normal, Normal, Normal]
    [(27, ok_call (chk PTS_UNRESOLVED 33)),
     (33, pt_mutex_init 0 Normal (chk PTS_UNRESOLVED 39)),
     (39, pt_mutex_init 1 Normal (chk PTS_UNRESOLVED 45)),
     (45, ok_call (chk PTS_UNRESOLVED 51)),
     (51, pt_mutex_destroy 0 (chk PTS_FAIL 58)),
     (58, pt_mutex_destroy 1 (chk PTS_FAIL 65)),
     (65, pt_mutex_destroy 2 (\<lambda>rc. if rc \<noteq> EOK then exits PTS_FAIL else exits PTS_PASS))]"

definition pthread_mutex_destroy_2_1 :: pprog where
  "pthread_mutex_destroy_2_1 = process 22 [] [Normal]
    [(22, pt_mutex_init mtx Normal (chk PTS_UNRESOLVED 29)),
     (29, pt_mutex_destroy mtx (chk PTS_UNRESOLVED 36)),
     (36, pt_mutex_init mtx Normal (\<lambda>rc. if rc \<noteq> EOK then exits PTS_FAIL else exits PTS_PASS))]"

definition pthread_mutex_destroy_3_1 :: pprog where
  "pthread_mutex_destroy_3_1 = process 24 [] [Normal]
    [(24, pt_mutex_init mtx Normal (chk PTS_UNRESOLVED 29)),
     (29, pt_mutex_destroy mtx (\<lambda>rc. if rc = EOK then exits PTS_PASS else exits PTS_FAIL))]"

definition pthread_mutex_destroy_5_1 :: pprog where
  "pthread_mutex_destroy_5_1 = process 23 [] [Normal]
    [(23, pt_mutex_init mtx Normal (chk PTS_UNRESOLVED 29)),
     (29, pt_lock mtx (chk PTS_UNRESOLVED 33)),
     (33, pt_sleep (secs 1) (goto 35)),
     (35, pt_unlock mtx (chk PTS_UNRESOLVED 40)),
     (40, pt_mutex_destroy mtx (\<lambda>rc. if rc \<noteq> EOK then exits PTS_FAIL else exits PTS_PASS))]"

text \<open>Variables: the two times, the thread. The seconds and microseconds of the difference are normalised by the program, here the difference is
  divided by 1000000. The value with which the thread ends is ignored.\<close>

abbreviation currsec1 :: nat where "currsec1 \<equiv> 0"
abbreviation currsec2 :: nat where "currsec2 \<equiv> 1"

definition pthread_mutex_timedlock_1_1 :: pprog where
  "pthread_mutex_timedlock_1_1 = process 55 [0, 0, 0] [Normal]
    [(55, pt_lock mtx (chk PTS_UNRESOLVED 62)),
     (62, pt_create new_th 117 (chk PTS_UNRESOLVED 69)),
     (69, pt_join new_th (chk PTS_UNRESOLVED 76)),
     (76, pt_unlock mtx (chk PTS_UNRESOLVED 81)),
     (81, pt_mutex_destroy mtx (chk PTS_UNRESOLVED 88)),
     (88, tst (\<lambda>v. (v ! currsec2 - v ! currsec1) div 1000000 < 3) (exits PTS_FAIL) (exits PTS_PASS)),
     (117, doing (asg_now currsec1 (goto 120))),
     (120, doing (loc_asg 0 (\<lambda>l v. v ! currsec1 + secs 3) (goto 124))),
     (124, pt_timedlock mtx (\<lambda>s t. t_loc (thr s t) ! 0) True (\<lambda>rc. if rc \<noteq> ETIMEDOUT then ends PTS_UNRESOLVED else goto 132)),
     (132, doing (asg_now currsec2 (goto 134))),
     (134, doing (ends 0))]"

definition pthread_mutex_timedlock_2_1 :: pprog where
  "pthread_mutex_timedlock_2_1 = process 58 [0, 0, 0] [Normal]
    [(58, pt_lock mtx (chk PTS_UNRESOLVED 65)),
     (65, pt_create new_th 122 (chk PTS_UNRESOLVED 72)),
     (72, pt_join new_th (chk PTS_UNRESOLVED 79)),
     (79, pt_unlock mtx (chk PTS_UNRESOLVED 84)),
     (84, pt_mutex_destroy mtx (chk PTS_UNRESOLVED 91)),
     (91, tst (\<lambda>v. (v ! currsec2 - v ! currsec1) div 1000000 < 3) (exits PTS_FAIL) (exits PTS_PASS)),
     (122, doing (asg_now currsec1 (goto 134))),
     (134, doing (loc_asg 0 (\<lambda>l v. v ! currsec1 + secs 3) (goto 138))),
     (138, pt_timedlock mtx (\<lambda>s t. t_loc (thr s t) ! 0) True (\<lambda>rc. if rc \<noteq> ETIMEDOUT then ends PTS_UNRESOLVED else goto 147)),
     (147, doing (asg_now currsec2 (goto 158))),
     (158, doing (ends 0))]"

text \<open>\<^verbatim>\<open>time(NULL)\<close> is the time in whole seconds. The variable \<^verbatim>\<open>ret\<close> is at position 0.\<close>

definition whole_secs :: "int \<Rightarrow> int" where
  "whole_secs n = secs (n div 1000000)"

definition pthread_mutex_timedlock_4_1 :: pprog where
  "pthread_mutex_timedlock_4_1 = process 49 [0, 0, 0] [Normal]
    [(49, pt_create new_th 83 (chk PTS_UNRESOLVED 56)),
     (56, pt_join new_th (chk PTS_UNRESOLVED 63)),
     (63, tst (\<lambda>v. v ! 0 \<noteq> 0) (exits PTS_FAIL) (exits PTS_PASS)),
     (83, doing (loc_now 0 (loc_asg 0 (\<lambda>l v. whole_secs (l ! 0) + secs 3) (goto 88)))),
     (88, pt_timedlock mtx (\<lambda>s t. t_loc (thr s t) ! 0) True (\<lambda>rc. asg 0 (\<lambda>v. num rc) (goto 91))),
     (91, pt_unlock mtx (chk_ends PTS_UNRESOLVED 97)),
     (97, pt_mutex_destroy mtx (chk_ends PTS_UNRESOLVED 104)),
     (104, doing (ends 0))]"

text \<open>The nanoseconds of the time are -1 in 5-1 and 1000000000 in 5-2.\<close>

definition valid_ns :: "int \<Rightarrow> bool" where
  "valid_ns ns \<longleftrightarrow> 0 \<le> ns \<and> ns < 1000000000"

definition timedlock_at :: "int \<Rightarrow> pprog" where
  "timedlock_at ns = process 57 [0, 0, 0] [Normal]
    [(57, pt_create new_th 92 (chk PTS_UNRESOLVED 64)),
     (64, pt_join new_th (chk PTS_UNRESOLVED 71)),
     (71, tst (\<lambda>v. v ! 0 \<noteq> num EINVAL) (exits PTS_FAIL) (exits PTS_PASS)),
     (92, pt_lock mtx (chk_ends PTS_UNRESOLVED 100)),
     (100, doing (loc_now 0 (loc_asg 0 (\<lambda>l v. whole_secs (l ! 0) + secs 3) (goto 104)))),
     (104, pt_timedlock mtx (\<lambda>s t. t_loc (thr s t) ! 0) (valid_ns ns) (\<lambda>rc. asg 0 (\<lambda>v. num rc) (goto 107))),
     (107, pt_unlock mtx (chk_ends PTS_UNRESOLVED 113)),
     (113, pt_mutex_destroy mtx (chk_ends PTS_UNRESOLVED 120)),
     (120, doing (ends 0))]"

definition pthread_mutex_timedlock_5_1 :: pprog where
  "pthread_mutex_timedlock_5_1 = timedlock_at (- 1)"

definition pthread_mutex_timedlock_5_2 :: pprog where
  "pthread_mutex_timedlock_5_2 = timedlock_at 1000000000"

definition pthread_mutex_timedlock_5_3 :: pprog where
  "pthread_mutex_timedlock_5_3 = process 53 [0, 0, 0] [Normal]
    [(53, pt_lock mtx (chk PTS_UNRESOLVED 60)),
     (60, pt_create new_th 107 (chk PTS_UNRESOLVED 67)),
     (67, pt_join new_th (chk PTS_UNRESOLVED 74)),
     (74, pt_unlock mtx (chk PTS_UNRESOLVED 80)),
     (80, pt_mutex_destroy mtx (chk PTS_UNRESOLVED 87)),
     (87, tst (\<lambda>v. v ! 0 \<noteq> num ETIMEDOUT) (exits PTS_FAIL) (exits PTS_PASS)),
     (107, doing (loc_now 0 (loc_asg 0 (\<lambda>l v. whole_secs (l ! 0)) (goto 112)))),
     (112, pt_timedlock mtx (\<lambda>s t. t_loc (thr s t) ! 0) True (\<lambda>rc. asg 0 (\<lambda>v. num rc) (goto 114))),
     (114, doing (ends 0))]"

definition pthread_mutexattr_settype_2_1 :: pprog where
  "pthread_mutexattr_settype_2_1 = process 49 [] [Normal]
    [(49, ok_call (chk PTS_UNRESOLVED 56)),
     (56, ok_call (chk PTS_FAIL 63)),
     (63, pt_mutex_init mtx Normal (chk PTS_UNRESOLVED 69)),
     (69, pt_lock mtx (chk PTS_UNRESOLVED 77)),
     (77, pt_sigaction SIGALRM 39 (goto 78)),
     (78, pt_alarm (secs 1) (goto 80)),
     (80, pt_lock mtx (\<lambda>rc. exits PTS_FAIL)),
     (39, doing (exits PTS_PASS))]"

definition pthread_mutexattr_settype_3_1 :: pprog where
  "pthread_mutexattr_settype_3_1 = process 38 [] [Normal]
    [(38, ok_call (chk PTS_UNRESOLVED 45)),
     (45, ok_call (chk PTS_FAIL 52)),
     (52, pt_mutex_init mtx Errorcheck (chk PTS_UNRESOLVED 59)),
     (59, pt_lock mtx (chk PTS_UNRESOLVED 66)),
     (66, pt_lock mtx (\<lambda>rc. if rc = EOK then exits PTS_FAIL else goto 73)),
     (73, pt_unlock mtx (go 74)),
     (74, pt_mutex_destroy mtx (go 76)),
     (76, ok_call (\<lambda>rc. if rc \<noteq> EOK then exits PTS_UNRESOLVED else exits PTS_PASS))]"

definition pthread_mutexattr_settype_3_2 :: pprog where
  "pthread_mutexattr_settype_3_2 = process 52 [0, 0, 0] [Normal]
    [(52, ok_call (chk PTS_UNRESOLVED 59)),
     (59, ok_call (chk PTS_FAIL 66)),
     (66, pt_mutex_init mtx Errorcheck (chk PTS_UNRESOLVED 73)),
     (73, pt_lock mtx (chk PTS_UNRESOLVED 80)),
     (80, pt_create new_th 43 (chk PTS_UNRESOLVED 87)),
     (87, pt_join new_th (go 89)),
     (89, tst (\<lambda>v. v ! 0 = 0) (exits PTS_FAIL) (goto 96)),
     (96, pt_unlock mtx (go 97)),
     (97, pt_mutex_destroy mtx (go 99)),
     (99, ok_call (\<lambda>rc. if rc \<noteq> EOK then exits PTS_UNRESOLVED else exits PTS_PASS)),
     (43, pt_unlock mtx (\<lambda>rc. asg 0 (\<lambda>v. num rc) (goto 44))),
     (44, doing (ends 0))]"

definition pthread_mutexattr_settype_3_3 :: pprog where
  "pthread_mutexattr_settype_3_3 = process 38 [] [Normal]
    [(38, ok_call (chk PTS_UNRESOLVED 45)),
     (45, ok_call (chk PTS_FAIL 52)),
     (52, pt_mutex_init mtx Errorcheck (chk PTS_UNRESOLVED 59)),
     (59, pt_unlock mtx (\<lambda>rc. if rc = EOK then exits PTS_FAIL else exits PTS_PASS))]"

definition pthread_mutexattr_settype_3_4 :: pprog where
  "pthread_mutexattr_settype_3_4 = process 38 [] [Normal]
    [(38, ok_call (chk PTS_UNRESOLVED 45)),
     (45, ok_call (chk PTS_FAIL 52)),
     (52, pt_mutex_init mtx Errorcheck (chk PTS_UNRESOLVED 58)),
     (58, pt_lock mtx (chk PTS_UNRESOLVED 64)),
     (64, pt_unlock mtx (chk PTS_UNRESOLVED 71)),
     (71, pt_unlock mtx (\<lambda>rc. if rc = EOK then exits PTS_FAIL else goto 77)),
     (77, pt_mutex_destroy mtx (chk PTS_UNRESOLVED 83)),
     (83, ok_call (\<lambda>rc. if rc \<noteq> EOK then exits PTS_UNRESOLVED else exits PTS_PASS))]"

section \<open>Condition variables\<close>

text \<open>Variables: \<^verbatim>\<open>t1_start\<close>, \<^verbatim>\<open>signaled\<close>, \<^verbatim>\<open>thread1\<close>.\<close>

abbreviation cnd :: nat where "cnd \<equiv> 0"
abbreviation t1_start :: nat where "t1_start \<equiv> 0"
abbreviation signaled :: nat where "signaled \<equiv> 1"

definition pthread_cond_init_1_1 :: pprog where
  "pthread_cond_init_1_1 = process 30 [] []
    [(30, ok_call (chk PTS_UNRESOLVED 36)),
     (36, ok_call (chk PTS_FAIL 43)),
     (43, ok_call (\<lambda>rc. if rc \<noteq> EOK then exits PTS_FAIL else exits PTS_PASS))]"

definition pthread_cond_init_3_1 :: pprog where
  "pthread_cond_init_3_1 = process 25 [] []
    [(25, ok_call (chk PTS_UNRESOLVED 31)),
     (31, ok_call (\<lambda>rc. if rc = EOK then exits PTS_PASS
            else if rc = ENOMEM \<or> rc = EAGAIN \<or> rc = EBUSY then exits PTS_UNRESOLVED else exits PTS_FAIL))]"

definition pthread_cond_destroy_1_1 :: pprog where
  "pthread_cond_destroy_1_1 = process 27 [] []
    [(27, ok_call (chk PTS_UNRESOLVED 33)),
     (33, ok_call (chk PTS_UNRESOLVED 39)),
     (39, ok_call (chk PTS_UNRESOLVED 45)),
     (45, ok_call (chk PTS_UNRESOLVED 51)),
     (51, ok_call (chk PTS_FAIL 58)),
     (58, ok_call (chk PTS_FAIL 65)),
     (65, ok_call (\<lambda>rc. if rc \<noteq> EOK then exits PTS_FAIL else exits PTS_PASS))]"

definition pthread_cond_destroy_3_1 :: pprog where
  "pthread_cond_destroy_3_1 = process 24 [] []
    [(24, ok_call (chk PTS_UNRESOLVED 29)),
     (29, ok_call (\<lambda>rc. if rc = EOK then exits PTS_PASS else exits PTS_FAIL))]"

definition pthread_cond_wait_1_1 :: pprog where
  "pthread_cond_wait_1_1 = process 73 [0, 0, 0] [Normal]
    [(37, pt_cancel new_th (go 38)),
     (38, doing (exits PTS_UNRESOLVED)),
     (45, pt_lock mtx (chk PTS_UNRESOLVED 50)),
     (50, doing (asg t1_start (\<lambda>v. 1) (goto 53))),
     (53, pt_cond_wait cnd mtx (chk PTS_UNRESOLVED 60)),
     (60, tst (\<lambda>v. v ! signaled = 0) (exits PTS_FAIL) (goto 65)),
     (65, pt_unlock mtx (go 66)),
     (66, doing (ends 0)),
     (73, pt_mutex_init mtx Normal (chk PTS_UNRESOLVED 77)),
     (77, ok_call (chk PTS_UNRESOLVED 82)),
     (82, pt_create new_th 45 (chk PTS_UNRESOLVED 86)),
     (86, pt_poll (\<lambda>v. v ! t1_start = 0) 100 (goto 90)),
     (90, pt_lock mtx (chk PTS_UNRESOLVED 94)),
     (94, pt_unlock mtx (chk PTS_UNRESOLVED 98)),
     (98, pt_sleep (secs 2) (goto 104)),
     (104, pt_sigaction SIGALRM 37 (goto 105)),
     (105, pt_alarm (secs 5) (goto 108)),
     (108, doing (asg signaled (\<lambda>v. 1) (goto 109))),
     (109, pt_signal cnd (chk PTS_UNRESOLVED 114)),
     (114, pt_join new_th (\<lambda>rc. exits PTS_PASS))]"

definition pthread_cond_wait_2_1 :: pprog where
  "pthread_cond_wait_2_1 = process 86 [0, 0, 0] [Normal]
    [(37, pt_cancel new_th (go 38)),
     (38, doing (exits PTS_UNRESOLVED)),
     (45, pt_lock mtx (chk PTS_UNRESOLVED 50)),
     (50, doing (asg t1_start (\<lambda>v. 1) (goto 53))),
     (53, pt_cond_wait cnd mtx (chk PTS_UNRESOLVED 60)),
     (60, tst (\<lambda>v. v ! signaled = 0) (exits PTS_UNRESOLVED) (goto 65)),
     (65, pt_trylock mtx (\<lambda>rc. if rc = EOK then exits PTS_FAIL else goto 72)),
     (72, pt_unlock mtx (chk PTS_FAIL 78)),
     (78, doing (ends 0)),
     (86, pt_mutex_init mtx Normal (chk PTS_UNRESOLVED 90)),
     (90, ok_call (chk PTS_UNRESOLVED 95)),
     (95, pt_create new_th 45 (chk PTS_UNRESOLVED 99)),
     (99, pt_poll (\<lambda>v. v ! t1_start = 0) 100 (goto 103)),
     (103, pt_lock mtx (chk PTS_UNRESOLVED 107)),
     (107, pt_unlock mtx (chk PTS_UNRESOLVED 111)),
     (111, pt_sleep (secs 1) (goto 117)),
     (117, pt_sigaction SIGALRM 37 (goto 118)),
     (118, pt_alarm (secs 5) (goto 121)),
     (121, doing (asg signaled (\<lambda>v. 1) (goto 122))),
     (122, pt_signal cnd (chk PTS_UNRESOLVED 127)),
     (127, pt_join new_th (\<lambda>rc. exits PTS_PASS))]"

definition pthread_cond_wait_3_1 :: pprog where
  "pthread_cond_wait_3_1 = process 84 [0, 0, 0] [Normal]
    [(35, pt_cancel new_th (go 36)),
     (36, doing (exits PTS_UNRESOLVED)),
     (43, pt_lock mtx (chk PTS_UNRESOLVED 48)),
     (48, doing (asg t1_start (\<lambda>v. 1) (goto 51))),
     (51, pt_cond_wait cnd mtx (chk PTS_UNRESOLVED 65)),
     (65, tst (\<lambda>v. v ! signaled = 0) (exits PTS_UNRESOLVED) (goto 71)),
     (71, pt_unlock mtx (chk PTS_UNRESOLVED 76)),
     (76, doing (ends 0)),
     (84, pt_mutex_init mtx Normal (chk PTS_UNRESOLVED 88)),
     (88, ok_call (chk PTS_UNRESOLVED 93)),
     (93, pt_create new_th 43 (chk PTS_UNRESOLVED 98)),
     (98, pt_sleep (secs 2) (goto 104)),
     (104, pt_sigaction SIGALRM 35 (goto 105)),
     (105, pt_alarm (secs 5) (goto 108)),
     (108, doing (asg signaled (\<lambda>v. 1) (goto 109))),
     (109, pt_broadcast cnd (chk PTS_UNRESOLVED 114)),
     (114, pt_join new_th (\<lambda>rc. exits PTS_PASS))]"

text \<open>The absolute time until which a thread waits is its first local variable.\<close>

definition timed_wait :: "(errno \<Rightarrow> act) \<Rightarrow> stmt" where
  "timed_wait = pt_cond_until cnd mtx (\<lambda>s t. t_loc (thr s t) ! 0)"

definition time_after :: "int \<Rightarrow> act \<Rightarrow> stmt" where
  "time_after n k = doing (loc_now 0 (loc_asg 0 (\<lambda>l v. l ! 0 + n) k))"

definition pthread_cond_timedwait_1_1 :: pprog where
  "pthread_cond_timedwait_1_1 = process 82 [0, 0, 0] [Normal]
    [(40, pt_lock mtx (chk PTS_UNRESOLVED 45)),
     (45, doing (asg t1_start (\<lambda>v. 1) (goto 47))),
     (47, time_after (secs 5) (goto 56)),
     (56, timed_wait (chk PTS_UNRESOLVED 69)),
     (69, tst (\<lambda>v. v ! signaled = 0) (exits PTS_FAIL) (goto 74)),
     (74, pt_unlock mtx (go 75)),
     (75, doing (ends 0)),
     (82, pt_mutex_init mtx Normal (chk PTS_UNRESOLVED 86)),
     (86, ok_call (chk PTS_UNRESOLVED 91)),
     (91, pt_create new_th 40 (chk PTS_UNRESOLVED 95)),
     (95, pt_poll (\<lambda>v. v ! t1_start = 0) 100 (goto 99)),
     (99, pt_lock mtx (chk PTS_UNRESOLVED 103)),
     (103, pt_unlock mtx (chk PTS_UNRESOLVED 107)),
     (107, pt_sleep (secs 1) (goto 110)),
     (110, doing (asg signaled (\<lambda>v. 1) (goto 111))),
     (111, pt_signal cnd (chk PTS_UNRESOLVED 116)),
     (116, pt_join new_th (\<lambda>rc. exits PTS_PASS))]"

definition pthread_cond_timedwait_2_1 :: pprog where
  "pthread_cond_timedwait_2_1 = process 100 [0, 0, 0] [Normal]
    [(47, pt_lock mtx (chk PTS_UNRESOLVED 52)),
     (52, doing (asg t1_start (\<lambda>v. 1) (goto 54))),
     (54, time_after (secs 5) (goto 62)),
     (62, timed_wait (chk PTS_UNRESOLVED 75)),
     (75, tst (\<lambda>v. v ! signaled = 0) (exits PTS_UNRESOLVED) (goto 80)),
     (80, pt_trylock mtx (\<lambda>rc. if rc = EOK then exits PTS_FAIL else goto 87)),
     (87, pt_unlock mtx (chk PTS_FAIL 93)),
     (93, doing (ends 0)),
     (100, pt_mutex_init mtx Normal (chk PTS_UNRESOLVED 104)),
     (104, ok_call (chk PTS_UNRESOLVED 109)),
     (109, pt_create new_th 47 (chk PTS_UNRESOLVED 113)),
     (113, pt_poll (\<lambda>v. v ! t1_start = 0) 100 (goto 117)),
     (117, pt_lock mtx (chk PTS_UNRESOLVED 121)),
     (121, pt_unlock mtx (chk PTS_UNRESOLVED 125)),
     (125, pt_sleep (secs 1) (goto 128)),
     (128, doing (asg signaled (\<lambda>v. 1) (goto 129))),
     (129, pt_signal cnd (chk PTS_UNRESOLVED 134)),
     (134, pt_join new_th (\<lambda>rc. exits PTS_PASS))]"

definition pthread_cond_timedwait_2_2 :: pprog where
  "pthread_cond_timedwait_2_2 = process 82 [0, 0, 0] [Normal]
    [(46, pt_lock mtx (chk PTS_UNRESOLVED 52)),
     (52, doing (asg t1_start (\<lambda>v. 1) (goto 55))),
     (55, time_after (secs 1) (goto 66)),
     (66, timed_wait (\<lambda>rc. if rc = ETIMEDOUT then ends PTS_PASS else ends PTS_FAIL)),
     (82, pt_mutex_init mtx Normal (chk PTS_UNRESOLVED 86)),
     (86, ok_call (chk PTS_UNRESOLVED 91)),
     (91, pt_create new_th 46 (chk PTS_UNRESOLVED 96)),
     (96, pt_poll (\<lambda>v. v ! t1_start = 0) 100 (goto 100)),
     (100, pt_lock mtx (chk PTS_UNRESOLVED 104)),
     (104, pt_unlock mtx (chk PTS_UNRESOLVED 111)),
     (111, pt_alarm (secs 5) (goto 114)),
     (114, pt_join_value new_th (\<lambda>rc th_ret. if rc \<noteq> EOK then exits PTS_UNRESOLVED else if th_ret = PTS_PASS then exits PTS_PASS else exits PTS_FAIL))]"

text \<open>The time that the thread waits for is the current second, already over. The value of the thread is the variable at position 0.\<close>

definition pthread_cond_timedwait_2_3 :: pprog where
  "pthread_cond_timedwait_2_3 = process 72 [0, 0, 0] [Normal]
    [(41, pt_lock mtx (chk PTS_UNRESOLVED 46)),
     (46, doing (goto 48)),
     (48, doing (loc_now 0 (loc_asg 0 (\<lambda>l v. whole_secs (l ! 0)) (goto 56)))),
     (56, timed_wait (\<lambda>rc. if rc = ETIMEDOUT then ends PTS_PASS else exits PTS_FAIL)),
     (72, pt_mutex_init mtx Normal (chk PTS_UNRESOLVED 76)),
     (76, ok_call (chk PTS_UNRESOLVED 81)),
     (81, pt_create new_th 41 (chk PTS_UNRESOLVED 88)),
     (88, pt_alarm (secs 5) (goto 91)),
     (91, pt_join_value new_th (\<lambda>rc th_ret. if rc \<noteq> EOK then exits PTS_UNRESOLVED else asg 0 (\<lambda>v. th_ret) (goto 99))),
     (99, pt_trylock mtx (\<lambda>rc. if rc = EOK then exits PTS_FAIL else goto 105)),
     (105, pt_unlock mtx (chk PTS_UNRESOLVED 110)),
     (110, tst (\<lambda>v. v ! 0 = PTS_PASS) (exits PTS_PASS) (goto 115)),
     (115, tst (\<lambda>v. v ! 0 = PTS_FAIL) (exits PTS_FAIL) (exits PTS_UNRESOLVED))]"

definition pthread_cond_timedwait_3_1 :: pprog where
  "pthread_cond_timedwait_3_1 = process 86 [0, 0, 0] [Normal]
    [(40, pt_lock mtx (chk PTS_UNRESOLVED 45)),
     (45, doing (asg t1_start (\<lambda>v. 1) (goto 47))),
     (47, time_after (secs 5) (goto 55)),
     (55, timed_wait (\<lambda>rc. if rc = EOK then goto 68 else if rc = ETIMEDOUT then exits PTS_UNRESOLVED else exits PTS_FAIL)),
     (68, tst (\<lambda>v. v ! signaled = 0) (exits PTS_UNRESOLVED) (goto 74)),
     (74, pt_unlock mtx (chk PTS_UNRESOLVED 79)),
     (79, doing (ends 0)),
     (86, pt_mutex_init mtx Normal (chk PTS_UNRESOLVED 90)),
     (90, ok_call (chk PTS_UNRESOLVED 95)),
     (95, pt_create new_th 40 (chk PTS_UNRESOLVED 99)),
     (99, pt_poll (\<lambda>v. v ! t1_start = 0) 100 (goto 103)),
     (103, pt_lock mtx (chk PTS_UNRESOLVED 107)),
     (107, pt_unlock mtx (chk PTS_UNRESOLVED 111)),
     (111, pt_sleep (secs 1) (goto 114)),
     (114, doing (asg signaled (\<lambda>v. 1) (goto 115))),
     (115, pt_signal cnd (chk PTS_UNRESOLVED 120)),
     (120, pt_join new_th (\<lambda>rc. exits PTS_PASS))]"

definition pthread_cond_timedwait_4_1 :: pprog where
  "pthread_cond_timedwait_4_1 = process 69 [0, 0, 0] [Normal]
    [(37, pt_lock mtx (chk PTS_UNRESOLVED 43)),
     (43, time_after (secs 3) (goto 51)),
     (51, timed_wait (\<lambda>rc. if rc = ETIMEDOUT then exits PTS_PASS else exits PTS_FAIL)),
     (69, pt_mutex_init mtx Normal (chk PTS_UNRESOLVED 73)),
     (73, ok_call (chk PTS_UNRESOLVED 78)),
     (78, pt_create new_th 37 (chk PTS_UNRESOLVED 85)),
     (85, pt_join_value new_th (\<lambda>rc th_ret. exits th_ret))]"

text \<open>Three waiting threads. Variables: \<^verbatim>\<open>start_num\<close>, \<^verbatim>\<open>waken_num\<close>, the threads, \<^verbatim>\<open>i\<close>, the count of the signals in 1-1.\<close>

abbreviation start_num :: nat where "start_num \<equiv> 0"
abbreviation waken_num :: nat where "waken_num \<equiv> 1"
abbreviation thread0 :: nat where "thread0 \<equiv> 2"
abbreviation ivar :: nat where "ivar \<equiv> 5"

definition pthread_cond_signal_1_1 :: pprog where
  "pthread_cond_signal_1_1 = process 81 [0, 0, 0, 0, 0, 0, 0] [Normal]
    [(40, each_any ivar 3 thread0 pt_cancel 44),
     (44, doing (exits PTS_UNRESOLVED)),
     (52, pt_lock mtx (chk PTS_UNRESOLVED 56)),
     (56, doing (asg start_num (\<lambda>v. v ! start_num + 1) (goto 60))),
     (60, pt_cond_wait cnd mtx (chk PTS_UNRESOLVED 65)),
     (65, doing (asg waken_num (\<lambda>v. v ! waken_num + 1) (goto 68))),
     (68, pt_unlock mtx (chk PTS_UNRESOLVED 73)),
     (73, doing (ends 0)),
     (81, pt_mutex_init mtx Normal (chk PTS_UNRESOLVED 85)),
     (85, ok_call (chk PTS_UNRESOLVED 90)),
     (90, each ivar 3 thread0 (\<lambda>x. pt_create x 52) PTS_UNRESOLVED 96),
     (96, pt_poll (\<lambda>v. v ! start_num < 3) 100 (goto 101)),
     (101, pt_lock mtx (chk PTS_UNRESOLVED 105)),
     (105, pt_unlock mtx (chk PTS_UNRESOLVED 112)),
     (112, pt_signal cnd (chk PTS_UNRESOLVED 117)),
     (117, pt_sleep (secs 1) (goto 118)),
     (118, tst (\<lambda>v. v ! waken_num \<le> 0) (goto 122) (goto 133)),
     (122, each_any ivar 3 thread0 pt_cancel 125),
     (125, doing (exits PTS_FAIL)),
     (133, pt_sigaction SIGALRM 40 (goto 134)),
     (134, pt_alarm (secs 5) (goto 138)),
     (138, tst (\<lambda>v. v ! waken_num < 3) (asg 6 (\<lambda>v. v ! 6 + 1) (goto 141)) (goto 148)),
     (141, pt_signal cnd (chk PTS_UNRESOLVED 145)),
     (145, pt_sleep 100 (goto 138)),
     (148, tst (\<lambda>v. 3 \<le> v ! 6) (exits PTS_FAIL) (goto 155)),
     (155, each ivar 3 thread0 pt_join PTS_UNRESOLVED 162),
     (162, doing (exits PTS_PASS))]"

definition pthread_cond_signal_2_1 :: pprog where
  "pthread_cond_signal_2_1 = process 95 [0, 0, 0, 0, 0, 0] [Normal]
    [(41, each_any ivar 3 thread0 pt_cancel 45),
     (45, doing (exits PTS_UNRESOLVED)),
     (52, pt_lock mtx (chk PTS_UNRESOLVED 57)),
     (57, doing (asg start_num (\<lambda>v. v ! start_num + 1) (goto 60))),
     (60, pt_cond_wait cnd mtx (chk PTS_UNRESOLVED 66)),
     (66, pt_trylock mtx (chk PTS_FAIL 73)),
     (73, doing (asg waken_num (\<lambda>v. v ! waken_num + 1) (goto 75))),
     (75, pt_unlock mtx (chk PTS_FAIL 80)),
     (80, pt_unlock mtx (chk PTS_FAIL 86)),
     (86, doing (ends 0)),
     (95, ok_call (chk PTS_UNRESOLVED 99)),
     (99, ok_call (chk PTS_UNRESOLVED 104)),
     (104, pt_mutex_init mtx Recursive (chk PTS_UNRESOLVED 108)),
     (108, ok_call (chk PTS_UNRESOLVED 113)),
     (113, each ivar 3 thread0 (\<lambda>x. pt_create x 52) PTS_UNRESOLVED 119),
     (119, pt_poll (\<lambda>v. v ! start_num < 3) 100 (goto 122)),
     (122, pt_sleep (secs 1) (goto 128)),
     (128, pt_sigaction SIGALRM 41 (goto 129)),
     (129, pt_alarm (secs 5) (goto 131)),
     (131, tst (\<lambda>v. v ! waken_num < 3) (goto 133) (goto 140)),
     (133, pt_signal cnd (chk PTS_UNRESOLVED 137)),
     (137, pt_sleep 100 (goto 131)),
     (140, each ivar 3 thread0 pt_join PTS_UNRESOLVED 147),
     (147, doing (exits PTS_PASS))]"

definition pthread_cond_signal_2_2 :: pprog where
  "pthread_cond_signal_2_2 = process 95 [0, 0, 0, 0, 0, 0] [Normal]
    [(43, pt_lock mtx (chk PTS_UNRESOLVED 48)),
     (48, doing (asg start_num (\<lambda>v. v ! start_num + 1) (goto 50))),
     (50, time_after (secs 6) (goto 59)),
     (59, timed_wait (chk PTS_UNRESOLVED 66)),
     (66, pt_trylock mtx (chk PTS_FAIL 73)),
     (73, doing (asg waken_num (\<lambda>v. v ! waken_num + 1) (goto 75))),
     (75, pt_unlock mtx (chk PTS_FAIL 80)),
     (80, pt_unlock mtx (chk PTS_FAIL 86)),
     (86, doing (ends 0)),
     (95, ok_call (chk PTS_UNRESOLVED 99)),
     (99, ok_call (chk PTS_UNRESOLVED 104)),
     (104, pt_mutex_init mtx Recursive (chk PTS_UNRESOLVED 108)),
     (108, ok_call (chk PTS_UNRESOLVED 113)),
     (113, each ivar 3 thread0 (\<lambda>x. pt_create x 43) PTS_UNRESOLVED 119),
     (119, pt_poll (\<lambda>v. v ! start_num < 3) 100 (goto 122)),
     (122, pt_sleep (secs 1) (goto 124)),
     (124, tst (\<lambda>v. v ! waken_num < 3) (goto 126) (goto 133)),
     (126, pt_signal cnd (chk PTS_UNRESOLVED 130)),
     (130, pt_sleep (secs 1) (goto 124)),
     (133, each ivar 3 thread0 pt_join PTS_UNRESOLVED 140),
     (140, doing (exits PTS_PASS))]"

definition pthread_cond_broadcast_1_1 :: pprog where
  "pthread_cond_broadcast_1_1 = process 66 [0, 0, 0, 0, 0, 0] [Normal]
    [(37, pt_lock mtx (chk PTS_UNRESOLVED 41)),
     (41, doing (asg start_num (\<lambda>v. v ! start_num + 1) (goto 45))),
     (45, pt_cond_wait cnd mtx (chk PTS_UNRESOLVED 50)),
     (50, doing (asg waken_num (\<lambda>v. v ! waken_num + 1) (goto 53))),
     (53, pt_unlock mtx (chk PTS_UNRESOLVED 58)),
     (58, doing (ends 0)),
     (66, pt_mutex_init mtx Normal (chk PTS_UNRESOLVED 70)),
     (70, ok_call (chk PTS_UNRESOLVED 75)),
     (75, each ivar 3 thread0 (\<lambda>x. pt_create x 37) PTS_UNRESOLVED 81),
     (81, pt_poll (\<lambda>v. v ! start_num < 3) 100 (goto 86)),
     (86, pt_lock mtx (chk PTS_UNRESOLVED 90)),
     (90, pt_unlock mtx (chk PTS_UNRESOLVED 97)),
     (97, pt_broadcast cnd (chk PTS_UNRESOLVED 102)),
     (102, pt_sleep (secs 1) (goto 103)),
     (103, tst (\<lambda>v. v ! waken_num < 3) (goto 106) (goto 114)),
     (106, each_any ivar 3 thread0 pt_cancel 109),
     (109, doing (exits PTS_FAIL)),
     (114, each ivar 3 thread0 pt_join PTS_UNRESOLVED 121),
     (121, doing (exits PTS_PASS))]"

definition pthread_cond_broadcast_2_1 :: pprog where
  "pthread_cond_broadcast_2_1 = process 75 [0, 0, 0, 0, 0, 0] [Normal]
    [(38, pt_lock mtx (chk PTS_UNRESOLVED 43)),
     (43, doing (asg start_num (\<lambda>v. v ! start_num + 1) (goto 46))),
     (46, pt_cond_wait cnd mtx (chk PTS_UNRESOLVED 52)),
     (52, pt_trylock mtx (\<lambda>rc. if rc = EOK then exits PTS_FAIL else goto 59)),
     (59, doing (asg waken_num (\<lambda>v. v ! waken_num + 1) (goto 61))),
     (61, pt_unlock mtx (chk PTS_FAIL 67)),
     (67, doing (ends 0)),
     (75, pt_mutex_init mtx Normal (chk PTS_UNRESOLVED 79)),
     (79, ok_call (chk PTS_UNRESOLVED 84)),
     (84, each ivar 3 thread0 (\<lambda>x. pt_create x 38) PTS_UNRESOLVED 90),
     (90, pt_poll (\<lambda>v. v ! start_num < 3) 100 (goto 95)),
     (95, pt_lock mtx (chk PTS_UNRESOLVED 99)),
     (99, pt_unlock mtx (chk PTS_UNRESOLVED 106)),
     (106, pt_broadcast cnd (chk PTS_UNRESOLVED 111)),
     (111, pt_sleep (secs 1) (goto 112)),
     (112, tst (\<lambda>v. v ! waken_num < 3) (goto 114) (goto 122)),
     (114, each_any ivar 3 thread0 pt_cancel 117),
     (117, doing (exits PTS_UNRESOLVED)),
     (122, each ivar 3 thread0 pt_join PTS_UNRESOLVED 129),
     (129, doing (exits PTS_PASS))]"

definition pthread_cond_broadcast_2_2 :: pprog where
  "pthread_cond_broadcast_2_2 = process 89 [0, 0, 0, 0, 0, 0] [Normal]
    [(43, pt_lock mtx (chk PTS_UNRESOLVED 48)),
     (48, doing (asg start_num (\<lambda>v. v ! start_num + 1) (goto 50))),
     (50, time_after (secs 6) (goto 59)),
     (59, timed_wait (chk PTS_UNRESOLVED 66)),
     (66, pt_trylock mtx (\<lambda>rc. if rc = EOK then exits PTS_FAIL else goto 73)),
     (73, doing (asg waken_num (\<lambda>v. v ! waken_num + 1) (goto 75))),
     (75, pt_unlock mtx (chk PTS_FAIL 81)),
     (81, doing (ends 0)),
     (89, pt_mutex_init mtx Normal (chk PTS_UNRESOLVED 93)),
     (93, ok_call (chk PTS_UNRESOLVED 98)),
     (98, each ivar 3 thread0 (\<lambda>x. pt_create x 43) PTS_UNRESOLVED 104),
     (104, pt_poll (\<lambda>v. v ! start_num < 3) 100 (goto 109)),
     (109, pt_lock mtx (chk PTS_UNRESOLVED 113)),
     (113, pt_unlock mtx (chk PTS_UNRESOLVED 120)),
     (120, pt_broadcast cnd (chk PTS_UNRESOLVED 125)),
     (125, pt_sleep (secs 1) (goto 126)),
     (126, tst (\<lambda>v. v ! waken_num < 3) (goto 128) (goto 136)),
     (128, each_any ivar 3 thread0 pt_cancel 131),
     (131, doing (exits PTS_UNRESOLVED)),
     (136, each ivar 3 thread0 pt_join PTS_UNRESOLVED 143),
     (143, doing (exits PTS_PASS))]"

section \<open>Barriers\<close>

text \<open>Variables: \<^verbatim>\<open>thread_state\<close>, \<^verbatim>\<open>cnt\<close>, the thread, \<^verbatim>\<open>sig_rcvd\<close>, \<^verbatim>\<open>barrier_waited\<close>. The programs distinguish the results 0 and \<^verbatim>\<open>PTHREAD_BARRIER_SERIAL_THREAD\<close> of
  \<^verbatim>\<open>pthread_barrier_wait\<close> in messages only; it has no other results here.\<close>

abbreviation bar :: nat where "bar \<equiv> 0"
abbreviation thread_state :: nat where "thread_state \<equiv> 0"
abbreviation cnt :: nat where "cnt \<equiv> 1"
abbreviation sig_rcvd :: nat where "sig_rcvd \<equiv> 3"
abbreviation barrier_waited :: nat where "barrier_waited \<equiv> 4"

abbreviation NOT_CREATED_THREAD :: int where "NOT_CREATED_THREAD \<equiv> 1"
abbreviation ENTERED_THREAD :: int where "ENTERED_THREAD \<equiv> 2"
abbreviation EXITING_THREAD :: int where "EXITING_THREAD \<equiv> 3"
abbreviation GET_SPIN_LOCK :: int where "GET_SPIN_LOCK \<equiv> 4"

text \<open>\<^verbatim>\<open>while (thread_state != EXITING_THREAD && cnt++ < n)\<close> at the end of a loop whose body is at line \<open>l\<close>; after the loop \<^verbatim>\<open>cnt\<close> is not read again.\<close>

definition until_exiting :: "int \<Rightarrow> int \<Rightarrow> int \<Rightarrow> stmt" where
  "until_exiting n l l' = tst (\<lambda>v. v ! thread_state \<noteq> EXITING_THREAD \<and> v ! cnt < n) (asg cnt (\<lambda>v. v ! cnt + 1) (goto l)) (goto l')"

definition state_is :: "int \<Rightarrow> act \<Rightarrow> act \<Rightarrow> stmt" where
  "state_is x = tst (\<lambda>v. v ! thread_state = x)"

definition set_state :: "int \<Rightarrow> int \<Rightarrow> stmt" where
  "set_state x l = doing (asg thread_state (\<lambda>v. x) (goto l))"

definition pthread_barrier_init_1_1 :: pprog where
  "pthread_barrier_init_1_1 = (process 39 [] []
    [(39, pt_barrier_init bar 1 (chk PTS_FAIL 49)),
     (49, pt_barrier_destroy bar (chk PTS_UNRESOLVED 57)),
     (57, ok_call (chk PTS_UNRESOLVED 64)),
     (64, pt_barrier_init bar 1 (chk PTS_FAIL 73)),
     (73, ok_call (chk PTS_UNRESOLVED 80)),
     (80, pt_barrier_destroy bar (\<lambda>rc. if rc \<noteq> EOK then exits PTS_UNRESOLVED else exits PTS_PASS))])\<lparr>g_bar := 1\<rparr>"

definition pthread_barrier_init_3_1 :: pprog where
  "pthread_barrier_init_3_1 = (process 34 [] []
    [(34, pt_barrier_init bar 0 (\<lambda>rc. if rc \<noteq> EINVAL then exits PTS_FAIL else exits PTS_PASS))])\<lparr>g_bar := 1\<rparr>"

definition pthread_barrier_init_4_1 :: pprog where
  "pthread_barrier_init_4_1 = (process 83 [0, 0, 0] []
    [(43, pt_setcanceltype True (go 45)),
     (45, set_state ENTERED_THREAD 48),
     (48, pt_barrier_wait bar (\<lambda>serial. goto 60)),
     (60, set_state EXITING_THREAD 61),
     (61, doing (ends 0)),
     (69, doing (exits PTS_PASS)),
     (83, pt_sigaction SIGALRM 69 (goto 86)),
     (86, pt_barrier_init bar 2 (chk PTS_UNRESOLVED 93)),
     (93, set_state NOT_CREATED_THREAD 94),
     (94, pt_create new_th 43 (chk PTS_UNRESOLVED 101)),
     (101, doing (asg cnt (\<lambda>v. 0) (goto 103))),
     (103, pt_sleep (secs 1) (goto 104)),
     (104, until_exiting 2 103 107),
     (107, state_is EXITING_THREAD (exits PTS_FAIL) (goto 114)),
     (114, state_is ENTERED_THREAD (goto 121) (exits PTS_UNRESOLVED)),
     (121, pt_alarm (secs 2) (goto 124)),
     (124, pt_barrier_init bar 2 (go 138)),
     (138, pt_cancel new_th (\<lambda>rc. exits PTS_PASS))])\<lparr>g_bar := 1\<rparr>"

definition pthread_barrier_destroy_1_1 :: pprog where
  "pthread_barrier_destroy_1_1 = (process 35 [0, 0] []
    [(35, tst (\<lambda>v. v ! cnt < 5) (goto 37) (exits PTS_PASS)),
     (37, pt_barrier_init bar 2 (chk PTS_FAIL 43)),
     (43, pt_barrier_destroy bar (\<lambda>rc. if rc \<noteq> EOK then exits PTS_FAIL else asg cnt (\<lambda>v. v ! cnt + 1) (goto 35)))])\<lparr>g_bar := 1\<rparr>"

definition pthread_barrier_destroy_2_1 :: pprog where
  "pthread_barrier_destroy_2_1 = (process 73 [0, 0, 0] []
    [(43, pt_setcanceltype True (go 45)),
     (45, set_state ENTERED_THREAD 49),
     (49, pt_barrier_wait bar (\<lambda>serial. goto 61)),
     (61, set_state EXITING_THREAD 62),
     (62, doing (ends 0)),
     (73, pt_barrier_init bar 2 (chk PTS_UNRESOLVED 80)),
     (80, set_state NOT_CREATED_THREAD 81),
     (81, pt_create new_th 43 (chk PTS_UNRESOLVED 88)),
     (88, doing (asg cnt (\<lambda>v. 0) (goto 90))),
     (90, pt_sleep (secs 1) (goto 91)),
     (91, until_exiting 2 90 93),
     (93, state_is EXITING_THREAD (exits PTS_FAIL) (goto 100)),
     (100, state_is ENTERED_THREAD (goto 108) (exits PTS_UNRESOLVED)),
     (108, pt_barrier_destroy bar (go 122)),
     (122, pt_cancel new_th (\<lambda>rc. exits PTS_PASS))])\<lparr>g_bar := 1\<rparr>"

definition pthread_barrier_wait_1_1 :: pprog where
  "pthread_barrier_wait_1_1 = (process 77 [0, 0, 0] []
    [(39, set_state ENTERED_THREAD 42),
     (42, pt_barrier_wait bar (\<lambda>serial. goto 54)),
     (54, set_state EXITING_THREAD 55),
     (55, doing (ends 0)),
     (63, doing (exits PTS_FAIL)),
     (77, pt_sigaction SIGALRM 63 (goto 80)),
     (80, pt_barrier_init bar 2 (chk PTS_UNRESOLVED 87)),
     (87, set_state NOT_CREATED_THREAD 88),
     (88, pt_create new_th 39 (chk PTS_UNRESOLVED 95)),
     (95, doing (asg cnt (\<lambda>v. 0) (goto 97))),
     (97, pt_sleep (secs 1) (goto 98)),
     (98, until_exiting 2 97 100),
     (100, state_is EXITING_THREAD (exits PTS_FAIL) (goto 107)),
     (107, state_is ENTERED_THREAD (goto 116) (exits PTS_UNRESOLVED)),
     (116, pt_alarm (secs 2) (goto 118)),
     (118, pt_barrier_wait bar (\<lambda>serial. goto 132)),
     (132, doing (asg cnt (\<lambda>v. 1) (goto 134))),
     (134, pt_sleep (secs 1) (goto 135)),
     (135, until_exiting 3 134 137),
     (137, state_is ENTERED_THREAD (exits PTS_FAIL) (goto 143)),
     (143, state_is EXITING_THREAD (goto 149) (exits PTS_UNRESOLVED)),
     (149, pt_join new_th (chk PTS_UNRESOLVED 155)),
     (155, pt_barrier_destroy bar (\<lambda>rc. if rc \<noteq> EOK then exits PTS_UNRESOLVED else exits PTS_PASS))])\<lparr>g_bar := 1\<rparr>"

definition pthread_barrier_wait_3_1 :: pprog where
  "pthread_barrier_wait_3_1 = (process 84 [0, 0, 0, 0] []
    [(45, doing (asg sig_rcvd (\<lambda>v. 1) rets)),
     (54, set_state ENTERED_THREAD 60),
     (60, pt_sigaction SIGUSR1 45 (goto 63)),
     (63, pt_barrier_wait bar (\<lambda>serial. goto 73)),
     (73, set_state EXITING_THREAD 74),
     (74, doing (ends 0)),
     (84, doing (asg sig_rcvd (\<lambda>v. 0) (goto 87))),
     (87, pt_barrier_init bar 2 (chk PTS_UNRESOLVED 94)),
     (94, set_state NOT_CREATED_THREAD 95),
     (95, pt_create new_th 54 (chk PTS_UNRESOLVED 102)),
     (102, doing (asg cnt (\<lambda>v. 0) (goto 104))),
     (104, pt_sleep (secs 1) (goto 105)),
     (105, until_exiting 2 104 107),
     (107, state_is EXITING_THREAD (exits PTS_FAIL) (goto 114)),
     (114, state_is ENTERED_THREAD (goto 121) (exits PTS_UNRESOLVED)),
     (121, pt_kill new_th SIGUSR1 (chk PTS_UNRESOLVED 128)),
     (128, doing (asg cnt (\<lambda>v. 0) (goto 130))),
     (130, pt_sleep (secs 1) (goto 131)),
     (131, until_exiting 2 130 133),
     (133, tst (\<lambda>v. v ! sig_rcvd = 1) (goto 139) (exits PTS_UNRESOLVED)),
     (139, state_is EXITING_THREAD (exits PTS_FAIL) (goto 146)),
     (146, state_is ENTERED_THREAD (goto 154) (exits PTS_UNRESOLVED)),
     (154, pt_barrier_wait bar (\<lambda>serial. goto 166)),
     (166, doing (asg cnt (\<lambda>v. 0) (goto 168))),
     (168, pt_sleep (secs 1) (goto 169)),
     (169, until_exiting 3 168 171),
     (171, state_is ENTERED_THREAD (exits PTS_FAIL) (goto 177)),
     (177, state_is EXITING_THREAD (goto 183) (exits PTS_UNRESOLVED)),
     (183, pt_join new_th (chk PTS_UNRESOLVED 189)),
     (189, pt_barrier_destroy bar (\<lambda>rc. if rc \<noteq> EOK then exits PTS_UNRESOLVED else exits PTS_PASS))])\<lparr>g_bar := 1\<rparr>"

definition pthread_barrier_wait_3_2 :: pprog where
  "pthread_barrier_wait_3_2 = (process 91 [0, 0, 0, 0, 0] []
    [(45, doing (asg sig_rcvd (\<lambda>v. 1) (goto 50))),
     (50, pt_poll (\<lambda>v. v ! barrier_waited \<noteq> 1) (secs 1) rets),
     (61, set_state ENTERED_THREAD 67),
     (67, pt_sigaction SIGUSR1 45 (goto 70)),
     (70, pt_barrier_wait bar (\<lambda>serial. goto 80)),
     (80, set_state EXITING_THREAD 81),
     (81, doing (ends 0)),
     (91, doing (asg sig_rcvd (\<lambda>v. 0) (goto 92))),
     (92, doing (asg barrier_waited (\<lambda>v. 0) (goto 95))),
     (95, pt_barrier_init bar 2 (chk PTS_UNRESOLVED 102)),
     (102, set_state NOT_CREATED_THREAD 103),
     (103, pt_create new_th 61 (chk PTS_UNRESOLVED 110)),
     (110, doing (asg cnt (\<lambda>v. 0) (goto 112))),
     (112, pt_sleep (secs 1) (goto 113)),
     (113, until_exiting 2 112 115),
     (115, state_is EXITING_THREAD (exits PTS_FAIL) (goto 122)),
     (122, state_is ENTERED_THREAD (goto 129) (exits PTS_UNRESOLVED)),
     (129, pt_kill new_th SIGUSR1 (chk PTS_UNRESOLVED 136)),
     (136, pt_poll (\<lambda>v. v ! sig_rcvd \<noteq> 1) (secs 1) (goto 142)),
     (142, pt_barrier_wait bar (\<lambda>serial. goto 153)),
     (153, doing (asg barrier_waited (\<lambda>v. 1) (goto 156))),
     (156, doing (asg cnt (\<lambda>v. 0) (goto 158))),
     (158, pt_sleep (secs 1) (goto 159)),
     (159, until_exiting 3 158 161),
     (161, state_is ENTERED_THREAD (exits PTS_FAIL) (goto 167)),
     (167, state_is EXITING_THREAD (goto 173) (exits PTS_UNRESOLVED)),
     (173, pt_join new_th (chk PTS_UNRESOLVED 179)),
     (179, pt_barrier_destroy bar (\<lambda>rc. if rc \<noteq> EOK then exits PTS_UNRESOLVED else exits PTS_PASS))])\<lparr>g_bar := 1\<rparr>"

section \<open>Spin locks\<close>

abbreviation spn :: nat where "spn \<equiv> 0"

definition pthread_spin_init_1_1 :: pprog where
  "pthread_spin_init_1_1 = (process 43 [] []
    [(43, pt_spin_init spn (chk PTS_FAIL 53)),
     (53, pt_spin_lock spn (chk PTS_UNRESOLVED 61)),
     (61, pt_spin_unlock spn (chk PTS_UNRESOLVED 67)),
     (67, pt_spin_destroy spn (\<lambda>rc. if rc \<noteq> EOK then exits PTS_UNRESOLVED else exits PTS_PASS))])\<lparr>g_spin := 1\<rparr>"

text \<open>The result of the second \<^verbatim>\<open>pthread_spin_init\<close> is only printed; the thread exits with \<^verbatim>\<open>PTS_PASS\<close>.\<close>

definition pthread_spin_init_4_1 :: pprog where
  "pthread_spin_init_4_1 = (process 66 [0, 0, 0] []
    [(42, pt_spin_init spn (go 50)),
     (50, doing (exits PTS_PASS)),
     (66, pt_spin_init spn (chk PTS_FAIL 76)),
     (76, pt_spin_lock spn (chk PTS_UNRESOLVED 85)),
     (85, pt_create new_th 42 (chk PTS_UNRESOLVED 92)),
     (92, pt_join new_th (\<lambda>rc. exits PTS_PASS))])\<lparr>g_spin := 1\<rparr>"

definition pthread_spin_destroy_1_1 :: pprog where
  "pthread_spin_destroy_1_1 = (process 35 [] []
    [(35, pt_spin_init spn (chk PTS_UNRESOLVED 44)),
     (44, pt_spin_lock spn (chk PTS_UNRESOLVED 53)),
     (53, pt_spin_unlock spn (chk PTS_UNRESOLVED 60)),
     (60, pt_spin_destroy spn (\<lambda>rc. if rc \<noteq> EOK then exits PTS_FAIL else exits PTS_PASS))])\<lparr>g_spin := 1\<rparr>"

definition pthread_spin_destroy_3_1 :: pprog where
  "pthread_spin_destroy_3_1 = (process 58 [0, 0, 0] []
    [(40, pt_spin_destroy spn (go 51)),
     (51, doing (exits PTS_PASS)),
     (58, pt_spin_init spn (chk PTS_UNRESOLVED 67)),
     (67, pt_spin_lock spn (chk PTS_UNRESOLVED 75)),
     (75, pt_create new_th 40 (chk PTS_UNRESOLVED 82)),
     (82, pt_join new_th (\<lambda>rc. exits PTS_PASS))])\<lparr>g_spin := 1\<rparr>"

text \<open>The thread inherits the blocked \<^verbatim>\<open>SIGALRM\<close> and unblocks it; the handler ends the thread that spins. Its \<^verbatim>\<open>cnt\<close> is its first local variable.\<close>

definition pthread_spin_lock_1_1 :: pprog where
  "pthread_spin_lock_1_1 = (process 107 [0, 0, 0] []
    [(42, doing (ends 0)),
     (52, set_state ENTERED_THREAD 53),
     (53, doing (loc_asg 0 (\<lambda>l v. 0) (goto 58))),
     (58, pt_sigmask [] (chk_ends PTS_UNRESOLVED 68)),
     (68, pt_sigaction SIGALRM 42 (goto 71)),
     (71, pt_alarm (secs 2) (goto 74)),
     (74, pt_spin_lock spn (chk_ends PTS_FAIL 83)),
     (83, set_state GET_SPIN_LOCK 85),
     (85, loc_tst (\<lambda>l. l ! 0 < 10) (loc_asg 0 (\<lambda>l v. l ! 0 + 1) (goto 89)) (goto 94)),
     (89, pt_sleep (secs 1) (goto 85)),
     (94, doing (ends PTS_UNRESOLVED)),
     (107, pt_sigmask [SIGALRM] (chk PTS_UNRESOLVED 113)),
     (113, pt_spin_init spn (chk PTS_UNRESOLVED 122)),
     (122, pt_spin_lock spn (chk PTS_FAIL 130)),
     (130, set_state NOT_CREATED_THREAD 133),
     (133, pt_create new_th 52 (chk PTS_UNRESOLVED 140)),
     (140, pt_join new_th (chk PTS_UNRESOLVED 147)),
     (147, state_is GET_SPIN_LOCK (exits PTS_FAIL) (goto 152)),
     (152, state_is ENTERED_THREAD (exits PTS_PASS) (exits PTS_UNRESOLVED))])\<lparr>g_spin := 1\<rparr>"

definition pthread_spin_lock_1_2 :: pprog where
  "pthread_spin_lock_1_2 = (process 76 [0, 0, 0] []
    [(41, set_state ENTERED_THREAD 45),
     (45, pt_spin_lock spn (chk PTS_FAIL 54)),
     (54, pt_sleep (secs 1) (goto 58)),
     (58, pt_spin_unlock spn (chk PTS_UNRESOLVED 64)),
     (64, set_state EXITING_THREAD 65),
     (65, doing (ends 0)),
     (76, pt_spin_init spn (chk PTS_UNRESOLVED 85)),
     (85, pt_spin_lock spn (chk PTS_FAIL 93)),
     (93, set_state NOT_CREATED_THREAD 97),
     (97, pt_create new_th 41 (chk PTS_UNRESOLVED 103)),
     (103, doing (asg cnt (\<lambda>v. 0) (goto 106))),
     (106, pt_sleep (secs 1) (goto 107)),
     (107, until_exiting 3 106 109),
     (109, state_is EXITING_THREAD (exits PTS_FAIL) (goto 114)),
     (114, state_is ENTERED_THREAD (goto 121) (exits PTS_UNRESOLVED)),
     (121, pt_spin_unlock spn (chk PTS_UNRESOLVED 128)),
     (128, doing (asg cnt (\<lambda>v. 0) (goto 130))),
     (130, pt_sleep (secs 1) (goto 131)),
     (131, until_exiting 3 130 133),
     (133, state_is ENTERED_THREAD (exits PTS_FAIL) (goto 138)),
     (138, state_is EXITING_THREAD (goto 145) (exits PTS_UNRESOLVED)),
     (145, pt_join new_th (chk PTS_UNRESOLVED 152)),
     (152, pt_spin_destroy spn (\<lambda>rc. if rc \<noteq> EOK then exits PTS_UNRESOLVED else exits PTS_PASS))])\<lparr>g_spin := 1\<rparr>"

text \<open>The handler ends the only thread.\<close>

definition pthread_spin_lock_3_1 :: pprog where
  "pthread_spin_lock_3_1 = (process 45 [] []
    [(31, doing (ends PTS_PASS)),
     (45, pt_sigaction SIGALRM 31 (goto 48)),
     (48, pt_spin_init spn (chk PTS_UNRESOLVED 57)),
     (57, pt_spin_lock spn (chk PTS_FAIL 65)),
     (65, pt_alarm (secs 2) (goto 68)),
     (68, pt_spin_lock spn (go 82)),
     (82, pt_spin_unlock spn (go 85)),
     (85, pt_spin_destroy spn (\<lambda>rc. exits PTS_PASS))])\<lparr>g_spin := 1\<rparr>"

text \<open>The variable at position 1 is \<^verbatim>\<open>rc\<close>.\<close>

definition pthread_spin_trylock_1_1 :: pprog where
  "pthread_spin_trylock_1_1 = (process 81 [0, 0, 0] []
    [(42, state_is ENTERED_THREAD (exits PTS_FAIL) (exits PTS_UNRESOLVED)),
     (56, doing (asg 1 (\<lambda>v. 0) (goto 59))),
     (59, set_state ENTERED_THREAD 65),
     (65, pt_sigaction SIGALRM 42 (goto 68)),
     (68, pt_alarm (secs 2) (goto 71)),
     (71, pt_spin_trylock spn (\<lambda>rc. asg 1 (\<lambda>v. num rc) (goto 73))),
     (73, doing (ends 0)),
     (81, pt_spin_init spn (chk PTS_UNRESOLVED 90)),
     (90, pt_spin_trylock spn (chk PTS_FAIL 97)),
     (97, set_state NOT_CREATED_THREAD 99),
     (99, pt_create new_th 56 (chk PTS_UNRESOLVED 106)),
     (106, pt_join new_th (go 109)),
     (109, tst (\<lambda>v. v ! 1 \<noteq> num EBUSY) (exits PTS_FAIL) (exits PTS_PASS))])\<lparr>g_spin := 1\<rparr>"

definition pthread_spin_unlock_1_1 :: pprog where
  "pthread_spin_unlock_1_1 = (process 73 [0, 0, 0] []
    [(43, set_state ENTERED_THREAD 46),
     (46, pt_spin_trylock spn (chk PTS_FAIL 56)),
     (56, pt_spin_unlock spn (chk PTS_FAIL 62)),
     (62, set_state EXITING_THREAD 63),
     (63, doing (ends 0)),
     (73, pt_spin_init spn (chk PTS_UNRESOLVED 82)),
     (82, pt_spin_lock spn (chk PTS_UNRESOLVED 90)),
     (90, pt_spin_unlock spn (chk PTS_FAIL 97)),
     (97, set_state NOT_CREATED_THREAD 99),
     (99, pt_create new_th 43 (chk PTS_UNRESOLVED 106)),
     (106, pt_join new_th (chk PTS_UNRESOLVED 113)),
     (113, pt_spin_trylock spn (chk PTS_FAIL 121)),
     (121, pt_spin_unlock spn (chk PTS_FAIL 127)),
     (127, pt_spin_destroy spn (\<lambda>rc. if rc \<noteq> EOK then exits PTS_UNRESOLVED else exits PTS_PASS))])\<lparr>g_spin := 1\<rparr>"

definition pthread_spin_unlock_1_2 :: pprog where
  "pthread_spin_unlock_1_2 = (process 76 [0, 0, 0] []
    [(45, set_state ENTERED_THREAD 48),
     (48, pt_spin_lock spn (chk PTS_FAIL 56)),
     (56, pt_sleep (secs 1) (goto 59)),
     (59, pt_spin_unlock spn (chk PTS_FAIL 65)),
     (65, set_state EXITING_THREAD 66),
     (66, doing (ends 0)),
     (76, pt_spin_init spn (chk PTS_UNRESOLVED 85)),
     (85, pt_spin_lock spn (chk PTS_UNRESOLVED 92)),
     (92, set_state NOT_CREATED_THREAD 94),
     (94, pt_create new_th 45 (chk PTS_UNRESOLVED 100)),
     (100, doing (asg cnt (\<lambda>v. 0) (goto 103))),
     (103, pt_sleep (secs 1) (goto 104)),
     (104, until_exiting 3 103 106),
     (106, state_is EXITING_THREAD (exits PTS_FAIL) (goto 111)),
     (111, state_is ENTERED_THREAD (goto 118) (exits PTS_UNRESOLVED)),
     (118, pt_spin_unlock spn (chk PTS_FAIL 125)),
     (125, doing (asg cnt (\<lambda>v. 0) (goto 127))),
     (127, pt_sleep (secs 1) (goto 128)),
     (128, until_exiting 3 127 130),
     (130, state_is ENTERED_THREAD (exits PTS_FAIL) (goto 135)),
     (135, state_is EXITING_THREAD (goto 141) (exits PTS_UNRESOLVED)),
     (141, pt_join new_th (chk PTS_UNRESOLVED 147)),
     (147, pt_spin_destroy spn (\<lambda>rc. if rc \<noteq> EOK then exits PTS_UNRESOLVED else exits PTS_PASS))])\<lparr>g_spin := 1\<rparr>"

text \<open>The test of \<^verbatim>\<open>rc == EPERM\<close> at line 116 is never reached with \<^verbatim>\<open>EPERM\<close>: line 99 has returned \<^verbatim>\<open>PTS_FAIL\<close>.\<close>

definition pthread_spin_unlock_3_1 :: pprog where
  "pthread_spin_unlock_3_1 = (process 83 [0, 0, 0] []
    [(44, pt_spin_init spn (chk PTS_UNRESOLVED 52)),
     (52, pt_spin_lock spn (chk PTS_UNRESOLVED 61)),
     (61, doing (asg sem (\<lambda>v. INMAIN) (goto 62))),
     (62, pt_poll (\<lambda>v. v ! sem = INMAIN) (secs 1) (goto 66)),
     (66, pt_spin_unlock spn (go 68)),
     (68, pt_spin_destroy spn (chk PTS_UNRESOLVED 74)),
     (74, doing (ends 0)),
     (83, doing (asg sem (\<lambda>v. INTHREAD) (goto 87))),
     (87, pt_create new_th 44 (chk PTS_UNRESOLVED 94)),
     (94, pt_poll (\<lambda>v. v ! sem = INTHREAD) (secs 1) (goto 98)),
     (98, pt_spin_unlock spn (chk PTS_FAIL 106)),
     (106, doing (asg sem (\<lambda>v. INTHREAD) (goto 109))),
     (109, pt_join new_th (\<lambda>rc. if rc \<noteq> EOK then exits PTS_UNRESOLVED else exits PTS_PASS))])\<lparr>g_spin := 1\<rparr>"

end
