(* ===== verification/Pth_Props.thy ===== *)
theory Pth_Props
  imports Pth_Sync_Tests
begin

text \<open>
  What the thread conformance programs report on the machines of \<open>Pth_Machine\<close>. For each program all runs are explored: \<open>runs_end P F V\<close> says that every run of the
  program with the variant \<open>F\<close> of the library ends and that \<open>V\<close> is the set of the exit codes, over every order in which the threads may act, when calls take no time;
  \<open>runs_end_late P F V\<close> says the same when threads may act as late as you please. \<open>None\<close> stands for a deadlock. With no fault of
  the library the programs pass. With a fault the programs that test the broken guarantee report it, some of them only as unresolved or by hanging. Programs that poll a
  variable have runs without end when the thread that they wait for never acts; for them there is no statement on late threads.
\<close>

named_theorems thread_runs \<open>the verdicts of single programs\<close>
named_theorems late_runs \<open>the verdicts of single programs when threads may act late\<close>

section \<open>A conforming library\<close>

lemma create_1_1_late [late_runs]: "runs_end_late pthread_create_1_1 [] {Some PTS_PASS}"
  by (rule runs_end_lateI1) code_simp

lemma create_1_1_passes [thread_runs]: "runs_end pthread_create_1_1 [] {Some PTS_PASS}"
  by (rule runs_end_of_late) (rule create_1_1_late)

lemma create_1_2_late [late_runs]: "runs_end_late pthread_create_1_2 [] {Some PTS_PASS}"
  by (rule runs_end_lateI1) code_simp

lemma create_1_2_passes [thread_runs]: "runs_end pthread_create_1_2 [] {Some PTS_PASS}"
  by (rule runs_end_of_late) (rule create_1_2_late)

lemma create_1_3_passes [thread_runs]: "runs_end pthread_create_1_3 [] {Some PTS_PASS}"
  by (rule runs_endI1) code_simp

lemma create_2_1_late [late_runs]: "runs_end_late pthread_create_2_1 [] {Some PTS_PASS}"
  by (rule runs_end_lateI1) code_simp

lemma create_2_1_passes [thread_runs]: "runs_end pthread_create_2_1 [] {Some PTS_PASS}"
  by (rule runs_end_of_late) (rule create_2_1_late)

lemma create_3_1_passes [thread_runs]: "runs_end pthread_create_3_1 [] {Some PTS_PASS}"
  by (rule runs_endI1) code_simp

lemma create_4_1_late [late_runs]: "runs_end_late pthread_create_4_1 [] {Some PTS_PASS}"
  by (rule runs_end_lateI1) code_simp

lemma create_4_1_passes [thread_runs]: "runs_end pthread_create_4_1 [] {Some PTS_PASS}"
  by (rule runs_end_of_late) (rule create_4_1_late)

lemma create_5_1_late [late_runs]: "runs_end_late pthread_create_5_1 [] {Some PTS_PASS}"
  by (rule runs_end_lateI1) code_simp

lemma create_5_1_passes [thread_runs]: "runs_end pthread_create_5_1 [] {Some PTS_PASS}"
  by (rule runs_end_of_late) (rule create_5_1_late)

lemma create_12_1_late [late_runs]: "runs_end_late pthread_create_12_1 [] {Some PTS_PASS}"
  by (rule runs_end_lateI1) code_simp

lemma create_12_1_passes [thread_runs]: "runs_end pthread_create_12_1 [] {Some PTS_PASS}"
  by (rule runs_end_of_late) (rule create_12_1_late)

lemma equal_1_1_late [late_runs]: "runs_end_late pthread_equal_1_1 [] {Some PTS_PASS}"
  by (rule runs_end_lateI1) code_simp

lemma equal_1_1_passes [thread_runs]: "runs_end pthread_equal_1_1 [] {Some PTS_PASS}"
  by (rule runs_end_of_late) (rule equal_1_1_late)

lemma self_1_1_late [late_runs]: "runs_end_late pthread_self_1_1 [] {Some PTS_PASS}"
  by (rule runs_end_lateI1) code_simp

lemma self_1_1_passes [thread_runs]: "runs_end pthread_self_1_1 [] {Some PTS_PASS}"
  by (rule runs_end_of_late) (rule self_1_1_late)

lemma join_1_1_late [late_runs]: "runs_end_late pthread_join_1_1 [] {Some PTS_PASS}"
  by (rule runs_end_lateI1) code_simp

lemma join_1_1_passes [thread_runs]: "runs_end pthread_join_1_1 [] {Some PTS_PASS}"
  by (rule runs_end_of_late) (rule join_1_1_late)

lemma join_2_1_passes [thread_runs]: "runs_end pthread_join_2_1 [] {Some PTS_PASS}"
  by (rule runs_endI1) code_simp

lemma join_3_1_passes [thread_runs]: "runs_end pthread_join_3_1 [] {Some PTS_PASS}"
  by (rule runs_endI1) code_simp

lemma join_5_1_late [late_runs]: "runs_end_late pthread_join_5_1 [] {Some PTS_PASS}"
  by (rule runs_end_lateI1) code_simp

lemma join_5_1_passes [thread_runs]: "runs_end pthread_join_5_1 [] {Some PTS_PASS}"
  by (rule runs_end_of_late) (rule join_5_1_late)

lemma join_6_2_late [late_runs]: "runs_end_late pthread_join_6_2 [] {Some PTS_PASS}"
  by (rule runs_end_lateI1) code_simp

lemma join_6_2_passes [thread_runs]: "runs_end pthread_join_6_2 [] {Some PTS_PASS}"
  by (rule runs_end_of_late) (rule join_6_2_late)

lemma detach_1_1_passes [thread_runs]: "runs_end pthread_detach_1_1 [] {Some PTS_PASS}"
  by (rule runs_endI1) code_simp

lemma detach_2_1_passes [thread_runs]: "runs_end pthread_detach_2_1 [] {Some PTS_PASS}"
  by (rule runs_endI1) code_simp

lemma detach_3_1_late [late_runs]: "runs_end_late pthread_detach_3_1 [] {Some PTS_PASS}"
  by (rule runs_end_lateI1) code_simp

lemma detach_3_1_passes [thread_runs]: "runs_end pthread_detach_3_1 [] {Some PTS_PASS}"
  by (rule runs_end_of_late) (rule detach_3_1_late)

lemma detach_4_1_passes [thread_runs]: "runs_end pthread_detach_4_1 [] {Some PTS_PASS}"
  by (rule runs_endI1) code_simp

lemma detach_4_2_late [late_runs]: "runs_end_late pthread_detach_4_2 [] {Some PTS_PASS}"
  by (rule runs_end_lateI1) code_simp

lemma detach_4_2_passes [thread_runs]: "runs_end pthread_detach_4_2 [] {Some PTS_PASS}"
  by (rule runs_end_of_late) (rule detach_4_2_late)

lemma exit_1_1_passes [thread_runs]: "runs_end pthread_exit_1_1 [] {Some PTS_PASS}"
  by (rule runs_endI1) code_simp

lemma exit_2_1_late [late_runs]: "runs_end_late pthread_exit_2_1 [] {Some PTS_PASS}"
  by (rule runs_end_lateI1) code_simp

lemma exit_2_1_passes [thread_runs]: "runs_end pthread_exit_2_1 [] {Some PTS_PASS}"
  by (rule runs_end_of_late) (rule exit_2_1_late)

lemma exit_3_1_late [late_runs]: "runs_end_late pthread_exit_3_1 [] {Some PTS_PASS}"
  by (rule runs_end_lateI1) code_simp

lemma exit_3_1_passes [thread_runs]: "runs_end pthread_exit_3_1 [] {Some PTS_PASS}"
  by (rule runs_end_of_late) (rule exit_3_1_late)

lemma cancel_1_1_passes [thread_runs]: "runs_end pthread_cancel_1_1 [] {Some PTS_PASS}"
  by (rule runs_endI1) code_simp

lemma cancel_1_2_passes [thread_runs]: "runs_end pthread_cancel_1_2 [] {Some PTS_PASS}"
  by (rule runs_endI1) code_simp

lemma cancel_1_3_passes [thread_runs]: "runs_end pthread_cancel_1_3 [] {Some PTS_PASS}"
  by (rule runs_endI1) code_simp

lemma cancel_2_1_passes [thread_runs]: "runs_end pthread_cancel_2_1 [] {Some PTS_PASS}"
  by (rule runs_endI1) code_simp

lemma cancel_2_2_passes [thread_runs]: "runs_end pthread_cancel_2_2 [] {Some PTS_PASS}"
  by (rule runs_endI1) code_simp

lemma cancel_2_3_passes [thread_runs]: "runs_end pthread_cancel_2_3 [] {Some PTS_PASS}"
  by (rule runs_endI1) code_simp

lemma cancel_4_1_passes [thread_runs]: "runs_end pthread_cancel_4_1 [] {Some PTS_PASS}"
  by (rule runs_endI1) code_simp

lemma cancel_5_1_late [late_runs]: "runs_end_late pthread_cancel_5_1 [] {Some PTS_PASS}"
  by (rule runs_end_lateI1) code_simp

lemma cancel_5_1_passes [thread_runs]: "runs_end pthread_cancel_5_1 [] {Some PTS_PASS}"
  by (rule runs_end_of_late) (rule cancel_5_1_late)

lemma setcancelstate_1_1_passes [thread_runs]: "runs_end pthread_setcancelstate_1_1 [] {Some PTS_PASS}"
  by (rule runs_endI1) code_simp

lemma setcancelstate_1_2_passes [thread_runs]: "runs_end pthread_setcancelstate_1_2 [] {Some PTS_PASS}"
  by (rule runs_endI1) code_simp

lemma setcancelstate_2_1_passes [thread_runs]: "runs_end pthread_setcancelstate_2_1 [] {Some PTS_PASS}"
  by (rule runs_endI1) code_simp

lemma setcancelstate_3_1_late [late_runs]: "runs_end_late pthread_setcancelstate_3_1 [] {Some PTS_PASS}"
  by (rule runs_end_lateI1) code_simp

lemma setcancelstate_3_1_passes [thread_runs]: "runs_end pthread_setcancelstate_3_1 [] {Some PTS_PASS}"
  by (rule runs_end_of_late) (rule setcancelstate_3_1_late)

lemma setcanceltype_1_1_passes [thread_runs]: "runs_end pthread_setcanceltype_1_1 [] {Some PTS_PASS}"
  by (rule runs_endI1) code_simp

lemma setcanceltype_1_2_passes [thread_runs]: "runs_end pthread_setcanceltype_1_2 [] {Some PTS_PASS}"
  by (rule runs_endI1) code_simp

lemma setcanceltype_2_1_passes [thread_runs]: "runs_end pthread_setcanceltype_2_1 [] {Some PTS_PASS}"
  by (rule runs_endI1) code_simp

lemma testcancel_1_1_passes [thread_runs]: "runs_end pthread_testcancel_1_1 [] {Some PTS_PASS}"
  by (rule runs_endI1) code_simp

lemma testcancel_2_1_passes [thread_runs]: "runs_end pthread_testcancel_2_1 [] {Some PTS_PASS}"
  by (rule runs_endI1) code_simp

lemma cleanup_pop_1_1_passes [thread_runs]: "runs_end pthread_cleanup_pop_1_1 [] {Some PTS_PASS}"
  by (rule runs_endI1) code_simp

lemma cleanup_pop_1_2_passes [thread_runs]: "runs_end pthread_cleanup_pop_1_2 [] {Some PTS_PASS}"
  by (rule runs_endI1) code_simp

lemma cleanup_pop_1_3_late [late_runs]: "runs_end_late pthread_cleanup_pop_1_3 [] {Some PTS_PASS}"
  by (rule runs_end_lateI1) code_simp

lemma cleanup_pop_1_3_passes [thread_runs]: "runs_end pthread_cleanup_pop_1_3 [] {Some PTS_PASS}"
  by (rule runs_end_of_late) (rule cleanup_pop_1_3_late)

lemma cleanup_push_1_1_late [late_runs]: "runs_end_late pthread_cleanup_push_1_1 [] {Some PTS_PASS}"
  by (rule runs_end_lateI1) code_simp

lemma cleanup_push_1_1_passes [thread_runs]: "runs_end pthread_cleanup_push_1_1 [] {Some PTS_PASS}"
  by (rule runs_end_of_late) (rule cleanup_push_1_1_late)

lemma cleanup_push_1_2_passes [thread_runs]: "runs_end pthread_cleanup_push_1_2 [] {Some PTS_PASS}"
  by (rule runs_endI1) code_simp

lemma cleanup_push_1_3_late [late_runs]: "runs_end_late pthread_cleanup_push_1_3 [] {Some PTS_PASS}"
  by (rule runs_end_lateI1) code_simp

lemma cleanup_push_1_3_passes [thread_runs]: "runs_end pthread_cleanup_push_1_3 [] {Some PTS_PASS}"
  by (rule runs_end_of_late) (rule cleanup_push_1_3_late)

lemma key_create_1_1_late [late_runs]: "runs_end_late pthread_key_create_1_1 [] {Some PTS_PASS}"
  by (rule runs_end_lateI1) code_simp

lemma key_create_1_1_passes [thread_runs]: "runs_end pthread_key_create_1_1 [] {Some PTS_PASS}"
  by (rule runs_end_of_late) (rule key_create_1_1_late)

lemma key_create_1_2_late [late_runs]: "runs_end_late pthread_key_create_1_2 [] {Some PTS_PASS}"
  by (rule runs_end_lateI1) code_simp

lemma key_create_1_2_passes [thread_runs]: "runs_end pthread_key_create_1_2 [] {Some PTS_PASS}"
  by (rule runs_end_of_late) (rule key_create_1_2_late)

lemma key_create_3_1_late [late_runs]: "runs_end_late pthread_key_create_3_1 [] {Some PTS_PASS}"
  by (rule runs_end_lateI1) code_simp

lemma key_create_3_1_passes [thread_runs]: "runs_end pthread_key_create_3_1 [] {Some PTS_PASS}"
  by (rule runs_end_of_late) (rule key_create_3_1_late)

lemma key_delete_1_1_late [late_runs]: "runs_end_late pthread_key_delete_1_1 [] {Some PTS_PASS}"
  by (rule runs_end_lateI1) code_simp

lemma key_delete_1_1_passes [thread_runs]: "runs_end pthread_key_delete_1_1 [] {Some PTS_PASS}"
  by (rule runs_end_of_late) (rule key_delete_1_1_late)

lemma key_delete_1_2_late [late_runs]: "runs_end_late pthread_key_delete_1_2 [] {Some PTS_PASS}"
  by (rule runs_end_lateI1) code_simp

lemma key_delete_1_2_passes [thread_runs]: "runs_end pthread_key_delete_1_2 [] {Some PTS_PASS}"
  by (rule runs_end_of_late) (rule key_delete_1_2_late)

lemma key_delete_2_1_late [late_runs]: "runs_end_late pthread_key_delete_2_1 [] {Some PTS_PASS}"
  by (rule runs_end_lateI1) code_simp

lemma key_delete_2_1_passes [thread_runs]: "runs_end pthread_key_delete_2_1 [] {Some PTS_PASS}"
  by (rule runs_end_of_late) (rule key_delete_2_1_late)

lemma getspecific_1_1_late [late_runs]: "runs_end_late pthread_getspecific_1_1 [] {Some PTS_PASS}"
  by (rule runs_end_lateI1) code_simp

lemma getspecific_1_1_passes [thread_runs]: "runs_end pthread_getspecific_1_1 [] {Some PTS_PASS}"
  by (rule runs_end_of_late) (rule getspecific_1_1_late)

lemma getspecific_3_1_late [late_runs]: "runs_end_late pthread_getspecific_3_1 [] {Some PTS_PASS}"
  by (rule runs_end_lateI1) code_simp

lemma getspecific_3_1_passes [thread_runs]: "runs_end pthread_getspecific_3_1 [] {Some PTS_PASS}"
  by (rule runs_end_of_late) (rule getspecific_3_1_late)

lemma setspecific_1_1_late [late_runs]: "runs_end_late pthread_setspecific_1_1 [] {Some PTS_PASS}"
  by (rule runs_end_lateI1) code_simp

lemma setspecific_1_1_passes [thread_runs]: "runs_end pthread_setspecific_1_1 [] {Some PTS_PASS}"
  by (rule runs_end_of_late) (rule setspecific_1_1_late)

lemma setspecific_1_2_late [late_runs]: "runs_end_late pthread_setspecific_1_2 [] {Some PTS_PASS}"
  by (rule runs_end_lateI1) code_simp

lemma setspecific_1_2_passes [thread_runs]: "runs_end pthread_setspecific_1_2 [] {Some PTS_PASS}"
  by (rule runs_end_of_late) (rule setspecific_1_2_late)

lemma once_1_1_late [late_runs]: "runs_end_late pthread_once_1_1 [] {Some PTS_PASS}"
  by (rule runs_end_lateI1) code_simp

lemma once_1_1_passes [thread_runs]: "runs_end pthread_once_1_1 [] {Some PTS_PASS}"
  by (rule runs_end_of_late) (rule once_1_1_late)

lemma once_1_2_late [late_runs]: "runs_end_late pthread_once_1_2 [] {Some PTS_PASS}"
  by (rule runs_end_lateI1) code_simp

lemma once_1_2_passes [thread_runs]: "runs_end pthread_once_1_2 [] {Some PTS_PASS}"
  by (rule runs_end_of_late) (rule once_1_2_late)

lemma once_2_1_late [late_runs]: "runs_end_late pthread_once_2_1 [] {Some PTS_PASS}"
  by (rule runs_end_lateI1) code_simp

lemma once_2_1_passes [thread_runs]: "runs_end pthread_once_2_1 [] {Some PTS_PASS}"
  by (rule runs_end_of_late) (rule once_2_1_late)

lemma once_3_1_passes [thread_runs]: "runs_end pthread_once_3_1 [] {Some PTS_PASS}"
  by (rule runs_endI1) code_simp

text \<open>C32. When calls take no time, every run of these 60 programs for creation, joining, detaching, ending, cancellation, cleanup handlers, thread-specific
  data and \<^verbatim>\<open>pthread_once\<close> ends, whatever the order in which the threads act, and the exit code is \<^verbatim>\<open>PTS_PASS\<close>. For the 33 programs of the second list the same holds however
  late the threads act.\<close>

theorem thread_life_programs_pass:
  "list_all (\<lambda>P. runs_end P [] {Some PTS_PASS})
     [pthread_create_1_1, pthread_create_1_2, pthread_create_1_3, pthread_create_2_1, pthread_create_3_1, pthread_create_4_1,
      pthread_create_5_1, pthread_create_12_1, pthread_equal_1_1, pthread_self_1_1, pthread_join_1_1, pthread_join_2_1, pthread_join_3_1,
      pthread_join_5_1, pthread_join_6_2, pthread_detach_1_1, pthread_detach_2_1, pthread_detach_3_1, pthread_detach_4_1,
      pthread_detach_4_2, pthread_exit_1_1, pthread_exit_2_1, pthread_exit_3_1, pthread_cancel_1_1, pthread_cancel_1_2, pthread_cancel_1_3,
      pthread_cancel_2_1, pthread_cancel_2_2, pthread_cancel_2_3, pthread_cancel_4_1, pthread_cancel_5_1, pthread_setcancelstate_1_1,
      pthread_setcancelstate_1_2, pthread_setcancelstate_2_1, pthread_setcancelstate_3_1, pthread_setcanceltype_1_1,
      pthread_setcanceltype_1_2, pthread_setcanceltype_2_1, pthread_testcancel_1_1, pthread_testcancel_2_1, pthread_cleanup_pop_1_1,
      pthread_cleanup_pop_1_2, pthread_cleanup_pop_1_3, pthread_cleanup_push_1_1, pthread_cleanup_push_1_2, pthread_cleanup_push_1_3,
      pthread_key_create_1_1, pthread_key_create_1_2, pthread_key_create_3_1, pthread_key_delete_1_1, pthread_key_delete_1_2,
      pthread_key_delete_2_1, pthread_getspecific_1_1, pthread_getspecific_3_1, pthread_setspecific_1_1, pthread_setspecific_1_2,
      pthread_once_1_1, pthread_once_1_2, pthread_once_2_1, pthread_once_3_1] \<and>
   list_all (\<lambda>P. runs_end_late P [] {Some PTS_PASS})
     [pthread_create_1_1, pthread_create_1_2, pthread_create_2_1, pthread_create_4_1, pthread_create_5_1, pthread_create_12_1,
      pthread_equal_1_1, pthread_self_1_1, pthread_join_1_1, pthread_join_5_1, pthread_join_6_2, pthread_detach_3_1, pthread_detach_4_2,
      pthread_exit_2_1, pthread_exit_3_1, pthread_cancel_5_1, pthread_setcancelstate_3_1, pthread_cleanup_pop_1_3,
      pthread_cleanup_push_1_1, pthread_cleanup_push_1_3, pthread_key_create_1_1, pthread_key_create_1_2, pthread_key_create_3_1,
      pthread_key_delete_1_1, pthread_key_delete_1_2, pthread_key_delete_2_1, pthread_getspecific_1_1, pthread_getspecific_3_1,
      pthread_setspecific_1_1, pthread_setspecific_1_2, pthread_once_1_1, pthread_once_1_2, pthread_once_2_1]"
  by (simp only: list.pred_inject thread_runs late_runs simp_thms)

lemma mutex_lock_2_1_late [late_runs]: "runs_end_late pthread_mutex_lock_2_1 [] {Some PTS_PASS}"
  by (rule runs_end_lateI1) code_simp

lemma mutex_lock_2_1_passes [thread_runs]: "runs_end pthread_mutex_lock_2_1 [] {Some PTS_PASS}"
  by (rule runs_end_of_late) (rule mutex_lock_2_1_late)

lemma mutex_lock_4_1_late [late_runs]: "runs_end_late pthread_mutex_lock_4_1 [] {Some PTS_PASS}"
  by (rule runs_end_lateI1) code_simp

lemma mutex_lock_4_1_passes [thread_runs]: "runs_end pthread_mutex_lock_4_1 [] {Some PTS_PASS}"
  by (rule runs_end_of_late) (rule mutex_lock_4_1_late)

lemma mutex_trylock_1_1_passes [thread_runs]: "runs_end pthread_mutex_trylock_1_1 [] {Some PTS_PASS}"
  by (rule runs_endI1) code_simp

lemma mutex_trylock_3_1_late [late_runs]: "runs_end_late pthread_mutex_trylock_3_1 [] {Some PTS_PASS}"
  by (rule runs_end_lateI1) code_simp

lemma mutex_trylock_3_1_passes [thread_runs]: "runs_end pthread_mutex_trylock_3_1 [] {Some PTS_PASS}"
  by (rule runs_end_of_late) (rule mutex_trylock_3_1_late)

lemma mutex_trylock_4_1_late [late_runs]: "runs_end_late pthread_mutex_trylock_4_1 [] {Some PTS_PASS}"
  by (rule runs_end_lateI1) code_simp

lemma mutex_trylock_4_1_passes [thread_runs]: "runs_end pthread_mutex_trylock_4_1 [] {Some PTS_PASS}"
  by (rule runs_end_of_late) (rule mutex_trylock_4_1_late)

lemma mutex_unlock_1_1_late [late_runs]: "runs_end_late pthread_mutex_unlock_1_1 [] {Some PTS_PASS}"
  by (rule runs_end_lateI1) code_simp

lemma mutex_unlock_1_1_passes [thread_runs]: "runs_end pthread_mutex_unlock_1_1 [] {Some PTS_PASS}"
  by (rule runs_end_of_late) (rule mutex_unlock_1_1_late)

lemma mutex_unlock_3_1_late [late_runs]: "runs_end_late pthread_mutex_unlock_3_1 [] {Some PTS_PASS}"
  by (rule runs_end_lateI1) code_simp

lemma mutex_unlock_3_1_passes [thread_runs]: "runs_end pthread_mutex_unlock_3_1 [] {Some PTS_PASS}"
  by (rule runs_end_of_late) (rule mutex_unlock_3_1_late)

lemma mutex_unlock_5_1_late [late_runs]: "runs_end_late pthread_mutex_unlock_5_1 [] {Some PTS_PASS}"
  by (rule runs_end_lateI1) code_simp

lemma mutex_unlock_5_1_passes [thread_runs]: "runs_end pthread_mutex_unlock_5_1 [] {Some PTS_PASS}"
  by (rule runs_end_of_late) (rule mutex_unlock_5_1_late)

lemma mutex_unlock_5_2_late [late_runs]: "runs_end_late pthread_mutex_unlock_5_2 [] {Some PTS_PASS}"
  by (rule runs_end_lateI1) code_simp

lemma mutex_unlock_5_2_passes [thread_runs]: "runs_end pthread_mutex_unlock_5_2 [] {Some PTS_PASS}"
  by (rule runs_end_of_late) (rule mutex_unlock_5_2_late)

lemma mutex_init_1_1_late [late_runs]: "runs_end_late pthread_mutex_init_1_1 [] {Some PTS_PASS}"
  by (rule runs_end_lateI1) code_simp

lemma mutex_init_1_1_passes [thread_runs]: "runs_end pthread_mutex_init_1_1 [] {Some PTS_PASS}"
  by (rule runs_end_of_late) (rule mutex_init_1_1_late)

lemma mutex_init_2_1_late [late_runs]: "runs_end_late pthread_mutex_init_2_1 [] {Some PTS_PASS}"
  by (rule runs_end_lateI1) code_simp

lemma mutex_init_2_1_passes [thread_runs]: "runs_end pthread_mutex_init_2_1 [] {Some PTS_PASS}"
  by (rule runs_end_of_late) (rule mutex_init_2_1_late)

lemma mutex_init_4_1_late [late_runs]: "runs_end_late pthread_mutex_init_4_1 [] {Some PTS_PASS}"
  by (rule runs_end_lateI1) code_simp

lemma mutex_init_4_1_passes [thread_runs]: "runs_end pthread_mutex_init_4_1 [] {Some PTS_PASS}"
  by (rule runs_end_of_late) (rule mutex_init_4_1_late)

lemma mutex_destroy_1_1_late [late_runs]: "runs_end_late pthread_mutex_destroy_1_1 [] {Some PTS_PASS}"
  by (rule runs_end_lateI1) code_simp

lemma mutex_destroy_1_1_passes [thread_runs]: "runs_end pthread_mutex_destroy_1_1 [] {Some PTS_PASS}"
  by (rule runs_end_of_late) (rule mutex_destroy_1_1_late)

lemma mutex_destroy_2_1_late [late_runs]: "runs_end_late pthread_mutex_destroy_2_1 [] {Some PTS_PASS}"
  by (rule runs_end_lateI1) code_simp

lemma mutex_destroy_2_1_passes [thread_runs]: "runs_end pthread_mutex_destroy_2_1 [] {Some PTS_PASS}"
  by (rule runs_end_of_late) (rule mutex_destroy_2_1_late)

lemma mutex_destroy_3_1_late [late_runs]: "runs_end_late pthread_mutex_destroy_3_1 [] {Some PTS_PASS}"
  by (rule runs_end_lateI1) code_simp

lemma mutex_destroy_3_1_passes [thread_runs]: "runs_end pthread_mutex_destroy_3_1 [] {Some PTS_PASS}"
  by (rule runs_end_of_late) (rule mutex_destroy_3_1_late)

lemma mutex_destroy_5_1_late [late_runs]: "runs_end_late pthread_mutex_destroy_5_1 [] {Some PTS_PASS}"
  by (rule runs_end_lateI1) code_simp

lemma mutex_destroy_5_1_passes [thread_runs]: "runs_end pthread_mutex_destroy_5_1 [] {Some PTS_PASS}"
  by (rule runs_end_of_late) (rule mutex_destroy_5_1_late)

lemma mutex_timedlock_1_1_late [late_runs]: "runs_end_late pthread_mutex_timedlock_1_1 [] {Some PTS_PASS}"
  by (rule runs_end_lateI1) code_simp

lemma mutex_timedlock_1_1_passes [thread_runs]: "runs_end pthread_mutex_timedlock_1_1 [] {Some PTS_PASS}"
  by (rule runs_end_of_late) (rule mutex_timedlock_1_1_late)

lemma mutex_timedlock_2_1_late [late_runs]: "runs_end_late pthread_mutex_timedlock_2_1 [] {Some PTS_PASS}"
  by (rule runs_end_lateI1) code_simp

lemma mutex_timedlock_2_1_passes [thread_runs]: "runs_end pthread_mutex_timedlock_2_1 [] {Some PTS_PASS}"
  by (rule runs_end_of_late) (rule mutex_timedlock_2_1_late)

lemma mutex_timedlock_4_1_late [late_runs]: "runs_end_late pthread_mutex_timedlock_4_1 [] {Some PTS_PASS}"
  by (rule runs_end_lateI1) code_simp

lemma mutex_timedlock_4_1_passes [thread_runs]: "runs_end pthread_mutex_timedlock_4_1 [] {Some PTS_PASS}"
  by (rule runs_end_of_late) (rule mutex_timedlock_4_1_late)

lemma mutex_timedlock_5_1_late [late_runs]: "runs_end_late pthread_mutex_timedlock_5_1 [] {Some PTS_PASS}"
  by (rule runs_end_lateI1) code_simp

lemma mutex_timedlock_5_1_passes [thread_runs]: "runs_end pthread_mutex_timedlock_5_1 [] {Some PTS_PASS}"
  by (rule runs_end_of_late) (rule mutex_timedlock_5_1_late)

lemma mutex_timedlock_5_2_late [late_runs]: "runs_end_late pthread_mutex_timedlock_5_2 [] {Some PTS_PASS}"
  by (rule runs_end_lateI1) code_simp

lemma mutex_timedlock_5_2_passes [thread_runs]: "runs_end pthread_mutex_timedlock_5_2 [] {Some PTS_PASS}"
  by (rule runs_end_of_late) (rule mutex_timedlock_5_2_late)

lemma mutex_timedlock_5_3_late [late_runs]: "runs_end_late pthread_mutex_timedlock_5_3 [] {Some PTS_PASS}"
  by (rule runs_end_lateI1) code_simp

lemma mutex_timedlock_5_3_passes [thread_runs]: "runs_end pthread_mutex_timedlock_5_3 [] {Some PTS_PASS}"
  by (rule runs_end_of_late) (rule mutex_timedlock_5_3_late)

lemma mutexattr_settype_2_1_late [late_runs]: "runs_end_late pthread_mutexattr_settype_2_1 [] {Some PTS_PASS}"
  by (rule runs_end_lateI1) code_simp

lemma mutexattr_settype_2_1_passes [thread_runs]: "runs_end pthread_mutexattr_settype_2_1 [] {Some PTS_PASS}"
  by (rule runs_end_of_late) (rule mutexattr_settype_2_1_late)

lemma mutexattr_settype_3_1_late [late_runs]: "runs_end_late pthread_mutexattr_settype_3_1 [] {Some PTS_PASS}"
  by (rule runs_end_lateI1) code_simp

lemma mutexattr_settype_3_1_passes [thread_runs]: "runs_end pthread_mutexattr_settype_3_1 [] {Some PTS_PASS}"
  by (rule runs_end_of_late) (rule mutexattr_settype_3_1_late)

lemma mutexattr_settype_3_2_late [late_runs]: "runs_end_late pthread_mutexattr_settype_3_2 [] {Some PTS_PASS}"
  by (rule runs_end_lateI1) code_simp

lemma mutexattr_settype_3_2_passes [thread_runs]: "runs_end pthread_mutexattr_settype_3_2 [] {Some PTS_PASS}"
  by (rule runs_end_of_late) (rule mutexattr_settype_3_2_late)

lemma mutexattr_settype_3_3_late [late_runs]: "runs_end_late pthread_mutexattr_settype_3_3 [] {Some PTS_PASS}"
  by (rule runs_end_lateI1) code_simp

lemma mutexattr_settype_3_3_passes [thread_runs]: "runs_end pthread_mutexattr_settype_3_3 [] {Some PTS_PASS}"
  by (rule runs_end_of_late) (rule mutexattr_settype_3_3_late)

lemma mutexattr_settype_3_4_late [late_runs]: "runs_end_late pthread_mutexattr_settype_3_4 [] {Some PTS_PASS}"
  by (rule runs_end_lateI1) code_simp

lemma mutexattr_settype_3_4_passes [thread_runs]: "runs_end pthread_mutexattr_settype_3_4 [] {Some PTS_PASS}"
  by (rule runs_end_of_late) (rule mutexattr_settype_3_4_late)

lemma cond_init_1_1_late [late_runs]: "runs_end_late pthread_cond_init_1_1 [] {Some PTS_PASS}"
  by (rule runs_end_lateI1) code_simp

lemma cond_init_1_1_passes [thread_runs]: "runs_end pthread_cond_init_1_1 [] {Some PTS_PASS}"
  by (rule runs_end_of_late) (rule cond_init_1_1_late)

lemma cond_init_3_1_late [late_runs]: "runs_end_late pthread_cond_init_3_1 [] {Some PTS_PASS}"
  by (rule runs_end_lateI1) code_simp

lemma cond_init_3_1_passes [thread_runs]: "runs_end pthread_cond_init_3_1 [] {Some PTS_PASS}"
  by (rule runs_end_of_late) (rule cond_init_3_1_late)

lemma cond_destroy_1_1_late [late_runs]: "runs_end_late pthread_cond_destroy_1_1 [] {Some PTS_PASS}"
  by (rule runs_end_lateI1) code_simp

lemma cond_destroy_1_1_passes [thread_runs]: "runs_end pthread_cond_destroy_1_1 [] {Some PTS_PASS}"
  by (rule runs_end_of_late) (rule cond_destroy_1_1_late)

lemma cond_destroy_3_1_late [late_runs]: "runs_end_late pthread_cond_destroy_3_1 [] {Some PTS_PASS}"
  by (rule runs_end_lateI1) code_simp

lemma cond_destroy_3_1_passes [thread_runs]: "runs_end pthread_cond_destroy_3_1 [] {Some PTS_PASS}"
  by (rule runs_end_of_late) (rule cond_destroy_3_1_late)

lemma cond_wait_1_1_passes [thread_runs]: "runs_end pthread_cond_wait_1_1 [] {Some PTS_PASS}"
  by (rule runs_endI1) code_simp

lemma cond_wait_2_1_passes [thread_runs]: "runs_end pthread_cond_wait_2_1 [] {Some PTS_PASS}"
  by (rule runs_endI1) code_simp

lemma cond_wait_3_1_passes [thread_runs]: "runs_end pthread_cond_wait_3_1 [] {Some PTS_PASS}"
  by (rule runs_endI1) code_simp

lemma cond_timedwait_1_1_passes [thread_runs]: "runs_end pthread_cond_timedwait_1_1 [] {Some PTS_PASS}"
  by (rule runs_endI1) code_simp

lemma cond_timedwait_2_1_passes [thread_runs]: "runs_end pthread_cond_timedwait_2_1 [] {Some PTS_PASS}"
  by (rule runs_endI1) code_simp

lemma cond_timedwait_2_2_passes [thread_runs]: "runs_end pthread_cond_timedwait_2_2 [] {Some PTS_PASS}"
  by (rule runs_endI1) code_simp

lemma cond_timedwait_3_1_passes [thread_runs]: "runs_end pthread_cond_timedwait_3_1 [] {Some PTS_PASS}"
  by (rule runs_endI1) code_simp

lemma cond_timedwait_4_1_late [late_runs]: "runs_end_late pthread_cond_timedwait_4_1 [] {Some PTS_PASS}"
  by (rule runs_end_lateI1) code_simp

lemma cond_timedwait_4_1_passes [thread_runs]: "runs_end pthread_cond_timedwait_4_1 [] {Some PTS_PASS}"
  by (rule runs_end_of_late) (rule cond_timedwait_4_1_late)

lemma cond_signal_1_1_passes [thread_runs]: "runs_end pthread_cond_signal_1_1 [] {Some PTS_PASS}"
  by (rule runs_endI1) code_simp

lemma cond_signal_2_1_passes [thread_runs]: "runs_end pthread_cond_signal_2_1 [] {Some PTS_PASS}"
  by (rule runs_endI1) code_simp

lemma cond_signal_2_2_passes [thread_runs]: "runs_end pthread_cond_signal_2_2 [] {Some PTS_PASS}"
  by (rule runs_endI1) code_simp

lemma cond_broadcast_1_1_passes [thread_runs]: "runs_end pthread_cond_broadcast_1_1 [] {Some PTS_PASS}"
  by (rule runs_endI1) code_simp

lemma cond_broadcast_2_1_passes [thread_runs]: "runs_end pthread_cond_broadcast_2_1 [] {Some PTS_PASS}"
  by (rule runs_endI1) code_simp

lemma cond_broadcast_2_2_passes [thread_runs]: "runs_end pthread_cond_broadcast_2_2 [] {Some PTS_PASS}"
  by (rule runs_endI1) code_simp

lemma barrier_init_1_1_late [late_runs]: "runs_end_late pthread_barrier_init_1_1 [] {Some PTS_PASS}"
  by (rule runs_end_lateI1) code_simp

lemma barrier_init_1_1_passes [thread_runs]: "runs_end pthread_barrier_init_1_1 [] {Some PTS_PASS}"
  by (rule runs_end_of_late) (rule barrier_init_1_1_late)

lemma barrier_init_3_1_late [late_runs]: "runs_end_late pthread_barrier_init_3_1 [] {Some PTS_PASS}"
  by (rule runs_end_lateI1) code_simp

lemma barrier_init_3_1_passes [thread_runs]: "runs_end pthread_barrier_init_3_1 [] {Some PTS_PASS}"
  by (rule runs_end_of_late) (rule barrier_init_3_1_late)

lemma barrier_init_4_1_passes [thread_runs]: "runs_end pthread_barrier_init_4_1 [] {Some PTS_PASS}"
  by (rule runs_endI1) code_simp

lemma barrier_destroy_1_1_late [late_runs]: "runs_end_late pthread_barrier_destroy_1_1 [] {Some PTS_PASS}"
  by (rule runs_end_lateI1) code_simp

lemma barrier_destroy_1_1_passes [thread_runs]: "runs_end pthread_barrier_destroy_1_1 [] {Some PTS_PASS}"
  by (rule runs_end_of_late) (rule barrier_destroy_1_1_late)

lemma barrier_destroy_2_1_passes [thread_runs]: "runs_end pthread_barrier_destroy_2_1 [] {Some PTS_PASS}"
  by (rule runs_endI1) code_simp

lemma barrier_wait_1_1_passes [thread_runs]: "runs_end pthread_barrier_wait_1_1 [] {Some PTS_PASS}"
  by (rule runs_endI1) code_simp

lemma barrier_wait_3_1_passes [thread_runs]: "runs_end pthread_barrier_wait_3_1 [] {Some PTS_PASS}"
  by (rule runs_endI1) code_simp

lemma barrier_wait_3_2_passes [thread_runs]: "runs_end pthread_barrier_wait_3_2 [] {Some PTS_PASS}"
  by (rule runs_endI1) code_simp

lemma spin_init_1_1_late [late_runs]: "runs_end_late pthread_spin_init_1_1 [] {Some PTS_PASS}"
  by (rule runs_end_lateI1) code_simp

lemma spin_init_1_1_passes [thread_runs]: "runs_end pthread_spin_init_1_1 [] {Some PTS_PASS}"
  by (rule runs_end_of_late) (rule spin_init_1_1_late)

lemma spin_init_4_1_late [late_runs]: "runs_end_late pthread_spin_init_4_1 [] {Some PTS_PASS}"
  by (rule runs_end_lateI1) code_simp

lemma spin_init_4_1_passes [thread_runs]: "runs_end pthread_spin_init_4_1 [] {Some PTS_PASS}"
  by (rule runs_end_of_late) (rule spin_init_4_1_late)

lemma spin_destroy_1_1_late [late_runs]: "runs_end_late pthread_spin_destroy_1_1 [] {Some PTS_PASS}"
  by (rule runs_end_lateI1) code_simp

lemma spin_destroy_1_1_passes [thread_runs]: "runs_end pthread_spin_destroy_1_1 [] {Some PTS_PASS}"
  by (rule runs_end_of_late) (rule spin_destroy_1_1_late)

lemma spin_destroy_3_1_late [late_runs]: "runs_end_late pthread_spin_destroy_3_1 [] {Some PTS_PASS}"
  by (rule runs_end_lateI1) code_simp

lemma spin_destroy_3_1_passes [thread_runs]: "runs_end pthread_spin_destroy_3_1 [] {Some PTS_PASS}"
  by (rule runs_end_of_late) (rule spin_destroy_3_1_late)

lemma spin_lock_1_1_late [late_runs]: "runs_end_late pthread_spin_lock_1_1 [] {Some PTS_PASS}"
  by (rule runs_end_lateI1) code_simp

lemma spin_lock_1_1_passes [thread_runs]: "runs_end pthread_spin_lock_1_1 [] {Some PTS_PASS}"
  by (rule runs_end_of_late) (rule spin_lock_1_1_late)

lemma spin_lock_1_2_passes [thread_runs]: "runs_end pthread_spin_lock_1_2 [] {Some PTS_PASS}"
  by (rule runs_endI1) code_simp

lemma spin_lock_3_1_late [late_runs]: "runs_end_late pthread_spin_lock_3_1 [] {Some PTS_PASS}"
  by (rule runs_end_lateI1) code_simp

lemma spin_lock_3_1_passes [thread_runs]: "runs_end pthread_spin_lock_3_1 [] {Some PTS_PASS}"
  by (rule runs_end_of_late) (rule spin_lock_3_1_late)

lemma spin_trylock_1_1_passes [thread_runs]: "runs_end pthread_spin_trylock_1_1 [] {Some PTS_PASS}"
  by (rule runs_endI1) code_simp

lemma spin_unlock_1_1_late [late_runs]: "runs_end_late pthread_spin_unlock_1_1 [] {Some PTS_PASS}"
  by (rule runs_end_lateI1) code_simp

lemma spin_unlock_1_1_passes [thread_runs]: "runs_end pthread_spin_unlock_1_1 [] {Some PTS_PASS}"
  by (rule runs_end_of_late) (rule spin_unlock_1_1_late)

lemma spin_unlock_1_2_passes [thread_runs]: "runs_end pthread_spin_unlock_1_2 [] {Some PTS_PASS}"
  by (rule runs_endI1) code_simp

text \<open>C33. When calls take no time and no wait for a condition returns without a signal, every run of these 63 programs for mutexes, condition variables, barriers and spin locks ends with
  \<^verbatim>\<open>PTS_PASS\<close>, whatever the order in which the threads act, whichever thread a signal wakes and whether locking one's own spin lock is refused or spins. For the 41 programs
  of the second list the same holds however late the threads act.\<close>

theorem thread_sync_programs_pass:
  "list_all (\<lambda>P. runs_end P [] {Some PTS_PASS})
     [pthread_mutex_lock_2_1, pthread_mutex_lock_4_1, pthread_mutex_trylock_1_1, pthread_mutex_trylock_3_1, pthread_mutex_trylock_4_1,
      pthread_mutex_unlock_1_1, pthread_mutex_unlock_3_1, pthread_mutex_unlock_5_1, pthread_mutex_unlock_5_2, pthread_mutex_init_1_1,
      pthread_mutex_init_2_1, pthread_mutex_init_4_1, pthread_mutex_destroy_1_1, pthread_mutex_destroy_2_1, pthread_mutex_destroy_3_1,
      pthread_mutex_destroy_5_1, pthread_mutex_timedlock_1_1, pthread_mutex_timedlock_2_1, pthread_mutex_timedlock_4_1,
      pthread_mutex_timedlock_5_1, pthread_mutex_timedlock_5_2, pthread_mutex_timedlock_5_3, pthread_mutexattr_settype_2_1,
      pthread_mutexattr_settype_3_1, pthread_mutexattr_settype_3_2, pthread_mutexattr_settype_3_3, pthread_mutexattr_settype_3_4,
      pthread_cond_init_1_1, pthread_cond_init_3_1, pthread_cond_destroy_1_1, pthread_cond_destroy_3_1, pthread_cond_wait_1_1,
      pthread_cond_wait_2_1, pthread_cond_wait_3_1, pthread_cond_timedwait_1_1, pthread_cond_timedwait_2_1, pthread_cond_timedwait_2_2,
      pthread_cond_timedwait_3_1, pthread_cond_timedwait_4_1, pthread_cond_signal_1_1, pthread_cond_signal_2_1, pthread_cond_signal_2_2,
      pthread_cond_broadcast_1_1, pthread_cond_broadcast_2_1, pthread_cond_broadcast_2_2, pthread_barrier_init_1_1,
      pthread_barrier_init_3_1, pthread_barrier_init_4_1, pthread_barrier_destroy_1_1, pthread_barrier_destroy_2_1,
      pthread_barrier_wait_1_1, pthread_barrier_wait_3_1, pthread_barrier_wait_3_2, pthread_spin_init_1_1, pthread_spin_init_4_1,
      pthread_spin_destroy_1_1, pthread_spin_destroy_3_1, pthread_spin_lock_1_1, pthread_spin_lock_1_2, pthread_spin_lock_3_1,
      pthread_spin_trylock_1_1, pthread_spin_unlock_1_1, pthread_spin_unlock_1_2] \<and>
   list_all (\<lambda>P. runs_end_late P [] {Some PTS_PASS})
     [pthread_mutex_lock_2_1, pthread_mutex_lock_4_1, pthread_mutex_trylock_3_1, pthread_mutex_trylock_4_1, pthread_mutex_unlock_1_1,
      pthread_mutex_unlock_3_1, pthread_mutex_unlock_5_1, pthread_mutex_unlock_5_2, pthread_mutex_init_1_1, pthread_mutex_init_2_1,
      pthread_mutex_init_4_1, pthread_mutex_destroy_1_1, pthread_mutex_destroy_2_1, pthread_mutex_destroy_3_1, pthread_mutex_destroy_5_1,
      pthread_mutex_timedlock_1_1, pthread_mutex_timedlock_2_1, pthread_mutex_timedlock_4_1, pthread_mutex_timedlock_5_1,
      pthread_mutex_timedlock_5_2, pthread_mutex_timedlock_5_3, pthread_mutexattr_settype_2_1, pthread_mutexattr_settype_3_1,
      pthread_mutexattr_settype_3_2, pthread_mutexattr_settype_3_3, pthread_mutexattr_settype_3_4, pthread_cond_init_1_1,
      pthread_cond_init_3_1, pthread_cond_destroy_1_1, pthread_cond_destroy_3_1, pthread_cond_timedwait_4_1, pthread_barrier_init_1_1,
      pthread_barrier_init_3_1, pthread_barrier_destroy_1_1, pthread_spin_init_1_1, pthread_spin_init_4_1, pthread_spin_destroy_1_1,
      pthread_spin_destroy_3_1, pthread_spin_lock_1_1, pthread_spin_lock_3_1, pthread_spin_unlock_1_1]"
  by (simp only: list.pred_inject thread_runs late_runs simp_thms)

section \<open>What the programs take for granted\<close>
























section \<open>Faults of the library\<close>

lemma create_5_1_no_create [thread_runs]: "runs_end pthread_create_5_1 [F_create] {Some PTS_FAIL}"
  by (rule runs_endI1) code_simp

lemma create_12_1_no_create [thread_runs]: "runs_end pthread_create_12_1 [F_create] {Some PTS_FAIL}"
  by (rule runs_endI1) code_simp

lemma join_1_1_early_join [thread_runs]: "runs_end pthread_join_1_1 [F_join] {Some PTS_FAIL}"
  by (rule runs_endI1) code_simp

lemma cancel_1_1_no_cancel [thread_runs]: "runs_end pthread_cancel_1_1 [F_cancel] {Some PTS_FAIL}"
  by (rule runs_endI1) code_simp

lemma cancel_1_3_no_cancel [thread_runs]: "runs_end pthread_cancel_1_3 [F_cancel] {Some PTS_FAIL}"
  by (rule runs_endI1) code_simp

lemma cancel_2_1_no_cancel [thread_runs]: "runs_end pthread_cancel_2_1 [F_cancel] {Some PTS_FAIL}"
  by (rule runs_endI1) code_simp

lemma cancel_2_2_no_cancel [thread_runs]: "runs_end pthread_cancel_2_2 [F_cancel] {Some PTS_FAIL}"
  by (rule runs_endI1) code_simp

lemma cancel_2_3_no_cancel [thread_runs]: "runs_end pthread_cancel_2_3 [F_cancel] {Some PTS_FAIL}"
  by (rule runs_endI1) code_simp

lemma setcancelstate_1_1_no_cancel [thread_runs]: "runs_end pthread_setcancelstate_1_1 [F_cancel] {Some PTS_FAIL}"
  by (rule runs_endI1) code_simp

lemma setcancelstate_2_1_no_cancel [thread_runs]: "runs_end pthread_setcancelstate_2_1 [F_cancel] {Some PTS_FAIL}"
  by (rule runs_endI1) code_simp

lemma setcanceltype_1_1_no_cancel [thread_runs]: "runs_end pthread_setcanceltype_1_1 [F_cancel] {Some PTS_FAIL}"
  by (rule runs_endI1) code_simp

lemma setcanceltype_1_2_no_cancel [thread_runs]: "runs_end pthread_setcanceltype_1_2 [F_cancel] {Some PTS_FAIL}"
  by (rule runs_endI1) code_simp

lemma setcanceltype_2_1_no_cancel [thread_runs]: "runs_end pthread_setcanceltype_2_1 [F_cancel] {Some PTS_FAIL}"
  by (rule runs_endI1) code_simp

lemma testcancel_1_1_no_cancel [thread_runs]: "runs_end pthread_testcancel_1_1 [F_cancel] {Some PTS_FAIL}"
  by (rule runs_endI1) code_simp

lemma join_3_1_no_cleanup [thread_runs]: "runs_end pthread_join_3_1 [F_cleanup] {Some PTS_FAIL}"
  by (rule runs_endI1) code_simp

lemma exit_2_1_no_cleanup [thread_runs]: "runs_end pthread_exit_2_1 [F_cleanup] {Some PTS_FAIL}"
  by (rule runs_endI1) code_simp

lemma cancel_2_1_no_cleanup [thread_runs]: "runs_end pthread_cancel_2_1 [F_cleanup] {Some PTS_FAIL}"
  by (rule runs_endI1) code_simp

lemma cancel_2_3_no_cleanup [thread_runs]: "runs_end pthread_cancel_2_3 [F_cleanup] {Some PTS_FAIL}"
  by (rule runs_endI1) code_simp

lemma setcanceltype_1_1_no_cleanup [thread_runs]: "runs_end pthread_setcanceltype_1_1 [F_cleanup] {Some PTS_FAIL}"
  by (rule runs_endI1) code_simp

lemma cleanup_pop_1_1_no_cleanup [thread_runs]: "runs_end pthread_cleanup_pop_1_1 [F_cleanup] {Some PTS_FAIL}"
  by (rule runs_endI1) code_simp

lemma exit_3_1_no_destructor [thread_runs]: "runs_end pthread_exit_3_1 [F_destructor] {Some PTS_FAIL}"
  by (rule runs_endI1) code_simp

lemma cancel_2_2_no_destructor [thread_runs]: "runs_end pthread_cancel_2_2 [F_destructor] {Some PTS_FAIL}"
  by (rule runs_endI1) code_simp

lemma cancel_2_3_no_destructor [thread_runs]: "runs_end pthread_cancel_2_3 [F_destructor] {Some PTS_FAIL}"
  by (rule runs_endI1) code_simp

lemma key_create_3_1_no_destructor [thread_runs]: "runs_end pthread_key_create_3_1 [F_destructor] {Some PTS_FAIL}"
  by (rule runs_endI1) code_simp

lemma once_1_1_repeats [thread_runs]: "runs_end pthread_once_1_1 [F_once] {Some PTS_FAIL}"
  by (rule runs_endI1) code_simp

text \<open>C35. For each of six faults the listed programs for the life of threads report \<^verbatim>\<open>PTS_FAIL\<close> in every run, when calls take no time: no thread is created, joining does not wait,
  cancellation requests are lost, cleanup handlers are not called, destructors are not called, or the routine of \<^verbatim>\<open>pthread_once\<close> runs again. Nothing is stated of the
  other programs.\<close>

theorem thread_life_faults_detected:
  "list_all (\<lambda>P. runs_end P [F_create] {Some PTS_FAIL})
     [pthread_create_5_1, pthread_create_12_1] \<and>
   list_all (\<lambda>P. runs_end P [F_join] {Some PTS_FAIL})
     [pthread_join_1_1] \<and>
   list_all (\<lambda>P. runs_end P [F_cancel] {Some PTS_FAIL})
     [pthread_cancel_1_1, pthread_cancel_1_3, pthread_cancel_2_1, pthread_cancel_2_2, pthread_cancel_2_3, pthread_setcancelstate_1_1,
      pthread_setcancelstate_2_1, pthread_setcanceltype_1_1, pthread_setcanceltype_1_2, pthread_setcanceltype_2_1, pthread_testcancel_1_1] \<and>
   list_all (\<lambda>P. runs_end P [F_cleanup] {Some PTS_FAIL})
     [pthread_join_3_1, pthread_exit_2_1, pthread_cancel_2_1, pthread_cancel_2_3, pthread_setcanceltype_1_1, pthread_cleanup_pop_1_1] \<and>
   list_all (\<lambda>P. runs_end P [F_destructor] {Some PTS_FAIL})
     [pthread_exit_3_1, pthread_cancel_2_2, pthread_cancel_2_3, pthread_key_create_3_1] \<and>
   list_all (\<lambda>P. runs_end P [F_once] {Some PTS_FAIL})
     [pthread_once_1_1]"
  by (simp only: list.pred_inject thread_runs simp_thms)

lemma mutex_lock_4_1_no_exclusion [thread_runs]: "runs_end pthread_mutex_lock_4_1 [F_lock] {Some PTS_FAIL}"
  by (rule runs_endI1) code_simp

lemma mutex_trylock_1_1_no_exclusion [thread_runs]: "runs_end pthread_mutex_trylock_1_1 [F_lock] {Some PTS_FAIL}"
  by (rule runs_endI1) code_simp

lemma mutex_trylock_4_1_no_exclusion [thread_runs]: "runs_end pthread_mutex_trylock_4_1 [F_lock] {Some PTS_FAIL}"
  by (rule runs_endI1) code_simp

lemma mutexattr_settype_2_1_no_exclusion [thread_runs]: "runs_end pthread_mutexattr_settype_2_1 [F_lock] {Some PTS_FAIL}"
  by (rule runs_endI1) code_simp

lemma mutexattr_settype_3_1_no_exclusion [thread_runs]: "runs_end pthread_mutexattr_settype_3_1 [F_lock] {Some PTS_FAIL}"
  by (rule runs_endI1) code_simp

lemma mutex_timedlock_5_1_no_exclusion [thread_runs]: "runs_end pthread_mutex_timedlock_5_1 [F_lock] {Some PTS_FAIL}"
  by (rule runs_endI1) code_simp

lemma mutex_timedlock_5_2_no_exclusion [thread_runs]: "runs_end pthread_mutex_timedlock_5_2 [F_lock] {Some PTS_FAIL}"
  by (rule runs_endI1) code_simp

lemma spin_lock_1_1_no_exclusion [thread_runs]: "runs_end pthread_spin_lock_1_1 [F_lock] {Some PTS_FAIL}"
  by (rule runs_endI1) code_simp

lemma spin_lock_1_2_no_exclusion [thread_runs]: "runs_end pthread_spin_lock_1_2 [F_lock] {Some PTS_FAIL}"
  by (rule runs_endI1) code_simp

lemma spin_trylock_1_1_no_exclusion [thread_runs]: "runs_end pthread_spin_trylock_1_1 [F_lock] {Some PTS_FAIL}"
  by (rule runs_endI1) code_simp

lemma spin_unlock_1_2_no_exclusion [thread_runs]: "runs_end pthread_spin_unlock_1_2 [F_lock] {Some PTS_FAIL}"
  by (rule runs_endI1) code_simp

lemma cond_wait_2_1_no_relock [thread_runs]: "runs_end pthread_cond_wait_2_1 [F_relock] {Some PTS_FAIL}"
  by (rule runs_endI1) code_simp

lemma cond_timedwait_2_1_no_relock [thread_runs]: "runs_end pthread_cond_timedwait_2_1 [F_relock] {Some PTS_FAIL}"
  by (rule runs_endI1) code_simp

lemma cond_timedwait_2_3_no_relock [thread_runs]: "runs_end pthread_cond_timedwait_2_3 [F_relock] {Some PTS_FAIL}"
  by (rule runs_endI1) code_simp

lemma barrier_wait_1_1_no_barrier [thread_runs]: "runs_end pthread_barrier_wait_1_1 [F_barrier] {Some PTS_FAIL}"
  by (rule runs_endI1) code_simp

lemma barrier_wait_3_1_no_barrier [thread_runs]: "runs_end pthread_barrier_wait_3_1 [F_barrier] {Some PTS_FAIL}"
  by (rule runs_endI1) code_simp

lemma barrier_wait_3_2_no_barrier [thread_runs]: "runs_end pthread_barrier_wait_3_2 [F_barrier] {Some PTS_FAIL}"
  by (rule runs_endI1) code_simp

lemma cond_signal_1_1_no_wake [thread_runs]: "runs_end pthread_cond_signal_1_1 [F_nowake] {Some PTS_FAIL}"
  by (rule runs_endI1) code_simp

lemma cond_broadcast_1_1_one_wake [thread_runs]: "runs_end pthread_cond_broadcast_1_1 [F_onewake] {Some PTS_FAIL}"
  by (rule runs_endI1) code_simp

text \<open>C34. For each of five faults the listed programs for synchronisation report \<^verbatim>\<open>PTS_FAIL\<close> in every run, when calls take no time: locks do not exclude, a wait returns without the
  mutex, a barrier does not hold its threads, a signal wakes no thread, or a broadcast wakes only one. Nothing is stated of the other programs.\<close>

theorem thread_sync_faults_detected:
  "list_all (\<lambda>P. runs_end P [F_lock] {Some PTS_FAIL})
     [pthread_mutex_lock_4_1, pthread_mutex_trylock_1_1, pthread_mutex_trylock_4_1, pthread_mutexattr_settype_2_1,
      pthread_mutexattr_settype_3_1, pthread_mutex_timedlock_5_1, pthread_mutex_timedlock_5_2, pthread_spin_lock_1_1,
      pthread_spin_lock_1_2, pthread_spin_trylock_1_1, pthread_spin_unlock_1_2] \<and>
   list_all (\<lambda>P. runs_end P [F_relock] {Some PTS_FAIL})
     [pthread_cond_wait_2_1, pthread_cond_timedwait_2_1, pthread_cond_timedwait_2_3] \<and>
   list_all (\<lambda>P. runs_end P [F_barrier] {Some PTS_FAIL})
     [pthread_barrier_wait_1_1, pthread_barrier_wait_3_1, pthread_barrier_wait_3_2] \<and>
   list_all (\<lambda>P. runs_end P [F_nowake] {Some PTS_FAIL})
     [pthread_cond_signal_1_1] \<and>
   list_all (\<lambda>P. runs_end P [F_onewake] {Some PTS_FAIL})
     [pthread_cond_broadcast_1_1]"
  by (simp only: list.pred_inject thread_runs simp_thms)

lemma cond_wait_1_1_no_wake [thread_runs]: "runs_end pthread_cond_wait_1_1 [F_nowake] {Some PTS_UNRESOLVED}"
  by (rule runs_endI1) code_simp

lemma cond_wait_2_1_no_wake [thread_runs]: "runs_end pthread_cond_wait_2_1 [F_nowake] {Some PTS_UNRESOLVED}"
  by (rule runs_endI1) code_simp

lemma cond_wait_3_1_no_wake [thread_runs]: "runs_end pthread_cond_wait_3_1 [F_nowake] {Some PTS_UNRESOLVED}"
  by (rule runs_endI1) code_simp

lemma cond_timedwait_1_1_no_wake [thread_runs]: "runs_end pthread_cond_timedwait_1_1 [F_nowake] {Some PTS_UNRESOLVED}"
  by (rule runs_endI1) code_simp

lemma cond_timedwait_2_1_no_wake [thread_runs]: "runs_end pthread_cond_timedwait_2_1 [F_nowake] {Some PTS_UNRESOLVED}"
  by (rule runs_endI1) code_simp

lemma cond_timedwait_3_1_no_wake [thread_runs]: "runs_end pthread_cond_timedwait_3_1 [F_nowake] {Some PTS_UNRESOLVED}"
  by (rule runs_endI1) code_simp

lemma mutex_timedlock_1_1_no_timeout [thread_runs]: "runs_end pthread_mutex_timedlock_1_1 [F_timeout] {None}"
  by (rule runs_endI1) code_simp

lemma mutex_timedlock_2_1_no_timeout [thread_runs]: "runs_end pthread_mutex_timedlock_2_1 [F_timeout] {None}"
  by (rule runs_endI1) code_simp

lemma mutex_timedlock_5_3_no_timeout [thread_runs]: "runs_end pthread_mutex_timedlock_5_3 [F_timeout] {None}"
  by (rule runs_endI1) code_simp

lemma cond_timedwait_4_1_no_timeout [thread_runs]: "runs_end pthread_cond_timedwait_4_1 [F_timeout] {None}"
  by (rule runs_endI1) code_simp

lemma cond_timedwait_2_2_no_timeout [thread_runs]: "runs_end pthread_cond_timedwait_2_2 [F_timeout] {Some (- SIGALRM)}"
  by (rule runs_endI1) code_simp

text \<open>C37. Faults that are not reported as failures: when signals of a condition wake no thread the programs for waiting end as unresolved; when time-outs never happen four
  programs hang, with no way for a thread to act, and one is killed by its alarm.\<close>

theorem lost_wakeups_and_timeouts:
  "list_all (\<lambda>P. runs_end P [F_nowake] {Some PTS_UNRESOLVED})
     [pthread_cond_wait_1_1, pthread_cond_wait_2_1, pthread_cond_wait_3_1, pthread_cond_timedwait_1_1, pthread_cond_timedwait_2_1,
      pthread_cond_timedwait_3_1] \<and>
   list_all (\<lambda>P. runs_end P [F_timeout] {None})
     [pthread_mutex_timedlock_1_1, pthread_mutex_timedlock_2_1, pthread_mutex_timedlock_5_3, pthread_cond_timedwait_4_1] \<and>
   runs_end pthread_cond_timedwait_2_2 [F_timeout] {Some (- SIGALRM)}"
  by (simp only: list.pred_inject thread_runs simp_thms)

end
