(* ===== verification/Spec2Isabelle.thy ===== *)
theory Spec2Isabelle
  imports Timer_Props Sem_Props Mq_Props Sem_Clients Sem_Tests_Props Posix_Mman Scenarii_Props Mq_Tests_Posix1b Sem_Table Sig_Tests_Props
    Scal_Main_Props Sigmask_Props Sigaction_Restart_Props Attr_Props Sched_Props Shm_Posix1b Pth_Props
begin

text \<open>
  Verification of the Open POSIX Test Suite: the POSIX.1b library it carries
  (\<^verbatim>\<open>src/posix1b\<close>), the launcher \<^verbatim>\<open>src/t0.c\<close>, functional and stress programs that exercise
  semaphores (\<^verbatim>\<open>src/functional/semaphores\<close>, \<^verbatim>\<open>src/stress/semaphores\<close>), the thread scenarios, and
  conformance programs (\<^verbatim>\<open>src/conformance/interfaces\<close>).

  \<^bold>\<open>Parts of the program.\<close> \<^verbatim>\<open>posix1b\<close> implements timers, clocks, semaphores, message queues and the
  names of shared memory on the interval timer, the System V calls and the files of the kernel. The
  test programs call such an implementation and return one of the codes of
  \<^verbatim>\<open>include/posixtest.h\<close>; \<^verbatim>\<open>t0\<close> runs one of them under a time limit. The suite consists of a great number of
  small programs of the same shape; the ones modelled are those that the library of the suite
  provides an implementation for, and those that carry an algorithm.

  \<^bold>\<open>Theories.\<close>
  \<^item> \<open>Posix_Prelude\<close>: outcomes of C code (\<open>Ret\<close>, \<open>Block\<close>, \<open>Fault\<close>, \<open>Loop\<close>), integer conversions,
    flag words, errno values, result codes, reachability.
  \<^item> \<open>Time_Arith\<close>, \<open>Posix_Timer\<close>, \<open>Timer_Laws\<close>, \<open>Timer_Props\<close>: \<^verbatim>\<open>posix_time.c\<close>. The static
    variables are the record \<open>tstate\<close>, the timers are cells of a heap linked by addresses, the
    interval timer, the clock and the signal calls are fields of \<open>timer_os\<close>. The handler of
    \<^verbatim>\<open>SIGALRM\<close> is \<open>timer_handler\<close>; it runs the application's handlers, which are a parameter and
    may call the library again. Shown: arming, disarming and deleting implement a set of active
    timers, what was set can be read back, reading gives valid times, and the handler serves every expired timer and programs the
    interval timer with the least of the times until the alarms.
  \<^item> \<open>Sysv_Sem\<close>, \<open>Posix_Sem\<close>, \<open>Sem_Laws\<close>, \<open>Sem_Props\<close>, \<open>Sem_Table\<close>: \<^verbatim>\<open>semaphore.c\<close>. The state is
    \<open>sstate\<close> (hash cells, bucket heads, \<^verbatim>\<open>sem_t\<close> objects, mutex, kernel); the kernel is the parameter
    \<open>sem_os\<close> with the laws of the locales \<open>sysv_sem\<close>, \<open>sysv_paths\<close> (the files of the names) and \<open>sysv_names\<close>; \<open>ref_sem_os\<close> is a kernel
    that keeps them. The laws are those of a process that has the permissions and descriptors it needs. Shown: counting, opening, closing and unlinking, and that the hash table is a
    finite map.
  \<^item> \<open>Sysv_Msg\<close>, \<open>Posix_Mq\<close>, \<open>Mq_Props\<close>: \<^verbatim>\<open>mqueue.c\<close> over \<open>msg_os\<close> (locales \<open>sysv_msg\<close>,
    \<open>mq_paths\<close>; kernel \<open>ref_msg_os\<close>), against a priority queue, in every case: a kernel takes messages of at most \<open>MSGMAX\<close> bytes, fewer than
    \<^verbatim>\<open>MQ_MSGSIZE\<close>.
  \<^item> \<open>Posix_Mman\<close>: \<^verbatim>\<open>posix_mman.c\<close>. \<open>T0_Runner\<close>: \<^verbatim>\<open>t0.c\<close>; a positive limit is armed before the program
    is started.
  \<^item> \<open>Sem_Contract\<close>, \<open>Threads\<close>: the contract \<open>sem_store\<close> between a provider of semaphores and a
    program, and programs of several threads as interleavings of atomic actions.
  \<^item> \<open>Sem_Conpro\<close>, \<open>Sem_Philosopher\<close>, \<open>Sem_Readerwriter\<close>, \<open>Sem_Sleepingbarber\<close>, \<open>Multi_Con_Pro\<close>,
    \<open>Sem_Clients\<close>: the threaded programs, verified once over \<open>sem_store\<close> (exclusion, order of what is
    transferred, no deadlock, every run ends) and interpreted on \<^verbatim>\<open>posix1b/semaphore.c\<close>. The number of
    producers and consumers of \<open>Multi_Con_Pro\<close> is arbitrary.
  \<^item> \<open>Threads_Scenarii\<close>, \<open>Scenarii_Props\<close>: \<^verbatim>\<open>pthread_create/threads_scenarii.c\<close>, the table of thread attributes
    and the functions that build and use it, over a thread library with the laws of \<open>thr_lib\<close> (with the scopes it supports as a
    parameter) and \<open>thr_run\<close>.
  \<^item> \<open>Sem_Tests\<close>, \<open>Sem_Tests_Props\<close>: conformance programs for semaphores as functions of the
    system under test, the contract \<open>named_sems\<close> they check, and \<^verbatim>\<open>posix1b\<close> keeping it.
  \<^item> \<open>Mq_Tests\<close>, \<open>Mq_Contract\<close>, \<open>Mq_Tests_Props\<close>, \<open>Mq_Tests_Posix1b\<close>: conformance programs for message queues,
    the contract of message queues as a state machine (locales \<open>mq_system\<close>, \<open>mq_timed\<close>), the programs
    passing on every system that keeps it, and what each reports of \<^verbatim>\<open>posix1b/mqueue.c\<close>.
  \<^item> \<open>Sig_Tests\<close>, \<open>Sig_Tests_Props\<close>: conformance programs for signal sets, their contract \<open>signal_sets\<close> with signal sets as
    64 bit words keeping it, and what the loops over the signals detect.
  \<^item> \<open>Sig_Kernel\<close>, \<open>Sig_Contract\<close>: a process of one thread and the signals delivered to it. The system is the record \<open>sigk\<close>, the
    contract is \<open>signal_kernel\<close> in terms of dispositions, the mask, the pending signals and the masks that running handlers have
    saved; \<open>word_kernel\<close> is an executable system that keeps it.
  \<^item> \<open>Sigaction_Tests\<close>, \<open>Sigaction_Files\<close>, \<open>Sigaction_Props\<close>, \<open>Sigaction_Detect\<close>: the programs for \<^verbatim>\<open>sigaction\<close>, a definition for each
    family and one for each file. Shown: they pass on every system that keeps the contract; what they report when no
    signal is ever delivered, and when a handler is not protected from its own signal.
  \<^item> \<open>Sigaction_Restart\<close>, \<open>Sigaction_Restart_Props\<close>: the programs for \<^verbatim>\<open>sigaction\<close> on interrupted calls, two threads or processes and
    the delivery of a signal in every order: verdicts of all runs, and that runs end.
  \<^item> \<open>Sigmask_Tests\<close>, \<open>Sigmask_Props\<close>: programs for \<^verbatim>\<open>signal\<close>, \<^verbatim>\<open>sigset\<close>, \<^verbatim>\<open>sighold\<close>, \<^verbatim>\<open>sigrelse\<close>, \<^verbatim>\<open>sigignore\<close>, \<^verbatim>\<open>raise\<close>,
    \<^verbatim>\<open>sigprocmask\<close> and \<^verbatim>\<open>sigpending\<close>, executed symbolically over the abstract state of the contract.
  \<^item> \<open>Attr_Tests\<close>, \<open>Attr_Props\<close>: programs for the attribute objects of threads, mutexes, condition variables, locks and barriers, the contract
    \<open>attr_objects\<close> with an executable library that keeps it, and which programs notice a library that forgets the attributes.
  \<^item> \<open>Sched_Tests\<close>, \<open>Sched_Props\<close>: programs for the scheduling of processes (\<^verbatim>\<open>sched_*\<close>) and the contract \<open>sched_system\<close> in terms of the policy and
    parameters of each process (whether \<^verbatim>\<open>fork\<close> succeeds is a parameter), extended by \<open>sched_users\<close> with permissions; \<open>ref_sched\<close> is an executable system that keeps it. Shown: which programs pass on
    every such system, what those on threads and on the sporadic server report, and what is noticed of a call that does nothing.
  \<^item> \<open>Shm_Tests\<close>, \<open>Shm_Props\<close>, \<open>Shm_Posix1b\<close>: the programs of one process for \<^verbatim>\<open>shm_open\<close> and \<^verbatim>\<open>shm_unlink\<close>. The abstract machine \<open>hview\<close> has names,
    objects with owner, mode, times and contents, descriptors and mappings; the locale \<open>shm_system\<close> says that the calls of a system refine it
    up to the choices \<open>shm_choice\<close> POSIX leaves open. \<open>Shm_Posix1b\<close> runs the programs on names over \<^verbatim>\<open>posix1b/posix_mman.c\<close> and a file system with the
    laws of \<open>file_names\<close>.
  \<^item> \<open>Pth_Machine\<close>: processes of several threads over the thread library. A program is a list of statements labelled with the lines of its file; a step (\<open>pstep\<close>) is
    one statement of one thread, the delivery of a signal, or the passing of time to the next moment waited for: in one machine only when no thread can act (calls take no
    time), in the other, \<open>late\<close>, at any time. The
    statements cover creation, joining, cancellation, cleanup handlers, specific data, mutexes, condition variables, semaphores, barriers, spin locks,
    \<^verbatim>\<open>pthread_once\<close>, sleeping, alarms and signals; what POSIX leaves open has several successors, and a list of variants allows a spurious
    wake-up, fixes what unlocking another thread's lock does, or breaks single guarantees. The locale
    \<open>step_system\<close> shows that exploring the states level by level finds exactly the ends of all runs and that no run is infinite.
  \<^item> \<open>Pth_Tests\<close>, \<open>Pth_Sync_Tests\<close>, \<open>Pth_Props\<close>: the conformance programs for the life of threads and for their synchronisation. Shown: 123 programs pass in every run when
    calls take no time, 74 of them however late a thread acts; which programs depend on time, on the absence of spurious wake-ups or on unlocking what they do not own, and how; which faults the
    programs report as failures, and which they turn into an unresolved result or a deadlock.
  \<^item> \<open>Ideal_Double\<close>, \<open>Scal_Parse\<close>, \<open>Scal_Props\<close>: \<^verbatim>\<open>parse_measure\<close> of the scalability programs in
    \<^verbatim>\<open>src/stress/threads\<close>, which compares a constant, a linear, a power and an exponential model of a series of
    durations. Floating-point numbers are real numbers with infinities and NaN: there is no rounding, no overflow and one
    zero, and \<^verbatim>\<open>long\<close> is \<open>int\<close>. Shown: the linear model is the least-squares line, constant series are accepted,
    linear ones reported, and the power model does not fit powers.
  \<^item> \<open>Scal_Main\<close>, \<open>Scal_Main_Props\<close>: \<^verbatim>\<open>main\<close> of the scalability programs for \<^verbatim>\<open>sem_open\<close> and \<^verbatim>\<open>sem_init\<close> over a
    system \<open>scal_os\<close>; the locale \<open>sem_pool\<close> has finitely many semaphores (no more than \<^verbatim>\<open>SEM_NSEMS_MAX\<close>, where there is such a limit), \<open>steady\<close> adds constant costs.

  \<^bold>\<open>Bounds and fuel.\<close> Walks along linked lists take fuel, and running out of it is the outcome \<open>Loop\<close>; the
  theorems assume only that the fuel exceeds the length of the list and conclude that the walk
  returns. The loop of \<open>sem_open\<close> needs as many turns as other processes interfere, two without
  interference. The wait of \<^verbatim>\<open>threads_scenarii.c\<close> that is repeated on \<^verbatim>\<open>EINTR\<close> ends after \<open>K + 1\<close> turns when it is
  interrupted at most \<open>K\<close> times. Nested and successive signal handlers are counted by a fuel; three are enough for every
  program on a system that keeps the contract. The loop of \<^verbatim>\<open>shm_open/38-1.c\<close> needs more turns than there are free descriptors. The exploration of the thread
  programs has 300 levels; that it returns a result shows that they are enough. C integers are \<open>int\<close>
  with the conversions of the code written out where they can change a value; flags are 32 bit words.

  \<^bold>\<open>Not modelled.\<close> Programs for interfaces the suite only calls and for which it has no
  implementation: read-write locks, the thread programs with many threads or over the thread scenarios, the order in which a scheduler runs processes, signals between
  processes, asynchronous input and output,
  memory mapping. More than one spurious wake-up in a run of a thread program. Programs whose verdict rests on measured time or on printing, programs that have only
  to compile, shell scripts and makefiles. Output is left out of every model except where a program's
  output is its result.
\<close>

end
